(* ===== verification/Prelude.thy ===== *)
theory Prelude
  imports Main "HOL-Library.Word"
begin

text \<open>
  Shared vocabulary of the development: bytes and fixed-width integers, the byte orders of
  Go's \<open>encoding/binary\<close>, the outcome of a Go call (a value, an error, a panic or a loop that
  never ends), the reader and writer combinators over which the wire codec is written, and the
  generic list lemmas the components share.
\<close>

named_theorems outcome_simps \<open>reader and writer combinators\<close>

type_synonym u8 = "8 word"
type_synonym u16 = "16 word"
type_synonym u32 = "32 word"
type_synonym u64 = "64 word"
type_synonym bytes = "8 word list"

section \<open>Outcomes\<close>

text \<open>
  The error values of the codec, one constructor per distinguishable \<open>error\<close>. \<open>EOF\<close> and
  \<open>UnexpectedEOF\<close> are the ones of package \<open>io\<close>, \<open>WriteFailed\<close> is the error of a connection that no
  longer accepts bytes. \<open>IllTyped\<close> is no error of the code: it marks
  a pair of type and value that Go's type system excludes.
\<close>

datatype err =
    EOF
  | UnexpectedEOF
  | MarshalFailureNilSNAC
  | NonOptionalPointer
  | OptionalNonPointer
  | InvalidStructTag
  | UnsupportedType
  | InterfaceNotStruct
  | PointerNotFinal
  | PointerNotStruct
  | NotFixedSize
  | MissingLenPrefix
  | WriteFailed
  | IllTyped

text \<open>
  \<open>Ok\<close> is a normal return, \<open>Err\<close> a returned error, \<open>Panic\<close> a run-time panic, and \<open>Hang\<close> a
  loop that repeats one state forever.
\<close>

datatype 'a outcome = Ok 'a | Err err | Panic | Hang

fun bind_out :: "'a outcome \<Rightarrow> ('a \<Rightarrow> 'b outcome) \<Rightarrow> 'b outcome" where
  "bind_out (Ok a) f = f a"
| "bind_out (Err e) f = Err e"
| "bind_out Panic f = Panic"
| "bind_out Hang f = Hang"

fun is_Ok :: "'a outcome \<Rightarrow> bool" where
  "is_Ok (Ok _) = True"
| "is_Ok _ = False"

definition safe_out :: "'a outcome \<Rightarrow> bool" where
  "safe_out x \<longleftrightarrow> x \<noteq> Panic \<and> x \<noteq> Hang"

text \<open>A list of results that each stand for themselves, stopping at the first that is none.\<close>

fun collect_out :: "'a outcome list \<Rightarrow> 'a list outcome" where
  "collect_out [] = Ok []"
| "collect_out (x # xs) = bind_out x (\<lambda>a. bind_out (collect_out xs) (\<lambda>as. Ok (a # as)))"

lemma safe_out_simps [simp]:
  "safe_out (Ok a)" "safe_out (Err e)" "\<not> safe_out Panic" "\<not> safe_out Hang"
  by (simp_all add: safe_out_def)

lemma bind_out_Ok_iff: "bind_out m f = Ok b \<longleftrightarrow> (\<exists>a. m = Ok a \<and> f a = Ok b)"
  by (cases m) auto

section \<open>Readers\<close>

text \<open>
  A reader is a Go \<open>io.Reader\<close> over a finite buffer (a \<open>bytes.Buffer\<close>): the bytes not yet
  consumed. Every read returns its outcome together with what is left, also when it fails.
\<close>

type_synonym 'a parser = "bytes \<Rightarrow> 'a outcome \<times> bytes"

definition pret :: "'a \<Rightarrow> 'a parser" where
  "pret a r = (Ok a, r)"

definition pfail :: "err \<Rightarrow> 'a parser" where
  "pfail e r = (Err e, r)"

definition ppanic :: "'a parser" where
  "ppanic r = (Panic, r)"

definition pbind :: "'a parser \<Rightarrow> ('a \<Rightarrow> 'b parser) \<Rightarrow> 'b parser" where
  "pbind p f r = (case p r of
      (Ok a, r') \<Rightarrow> f a r'
    | (Err e, r') \<Rightarrow> (Err e, r')
    | (Panic, r') \<Rightarrow> (Panic, r')
    | (Hang, r') \<Rightarrow> (Hang, r'))"

text \<open>\<open>io.ReadFull\<close> into a buffer of \<open>n\<close> bytes.\<close>

definition read_full :: "nat \<Rightarrow> bytes parser" where
  "read_full n r =
     (if n \<le> length r then (Ok (take n r), drop n r)
      else if r = [] then (Err EOF, [])
      else (Err UnexpectedEOF, []))"

lemma pret_apply [simp]: "pret a r = (Ok a, r)"
  by (simp add: pret_def)

lemma pfail_apply [simp]: "pfail e r = (Err e, r)"
  by (simp add: pfail_def)

lemma ppanic_apply [simp]: "ppanic r = (Panic, r)"
  by (simp add: ppanic_def)

lemma pbind_Ok [outcome_simps]: "p r = (Ok a, r') \<Longrightarrow> pbind p f r = f a r'"
  by (simp add: pbind_def)

lemma read_full_append [outcome_simps]:
  "length bs = n \<Longrightarrow> read_full n (bs @ r) = (Ok bs, r)"
  by (simp add: read_full_def)

lemma read_full_Nil: "0 < n \<Longrightarrow> read_full n [] = (Err EOF, [])"
  by (simp add: read_full_def)

text \<open>
  Laws a reader may have. \<open>consumes\<close>: what is left is a suffix of what was there.
  \<open>progress\<close>: success takes at least one byte. \<open>safe\<close>: neither panics nor hangs.
  \<open>eof_on_empty\<close>: an empty buffer is reported as \<open>EOF\<close>.
\<close>

definition consumes :: "'a parser \<Rightarrow> bool" where
  "consumes p \<longleftrightarrow> (\<forall>r. \<exists>pre. r = pre @ snd (p r))"

definition progress :: "'a parser \<Rightarrow> bool" where
  "progress p \<longleftrightarrow> (\<forall>r a r'. p r = (Ok a, r') \<longrightarrow> length r' < length r)"

definition safe :: "'a parser \<Rightarrow> bool" where
  "safe p \<longleftrightarrow> (\<forall>r. safe_out (fst (p r)))"

definition eof_on_empty :: "'a parser \<Rightarrow> bool" where
  "eof_on_empty p \<longleftrightarrow> p [] = (Err EOF, [])"

lemma consumes_length: "consumes p \<Longrightarrow> p r = (x, r') \<Longrightarrow> length r' \<le> length r"
  by (metis consumes_def length_append le_add2 snd_conv)

lemma consumes_pret [simp, intro]: "consumes (pret a)"
  by (simp add: consumes_def)

lemma consumes_pfail [simp, intro]: "consumes (pfail e)"
  by (simp add: consumes_def)

lemma consumes_ppanic [simp, intro]: "consumes ppanic"
  by (simp add: consumes_def)

lemma consumes_read_full [simp, intro]: "consumes (read_full n)"
  unfolding consumes_def read_full_def
  by (auto intro: append_take_drop_id [symmetric])

lemma consumes_pbind [intro]:
  assumes "consumes p" and "\<And>a. consumes (f a)"
  shows "consumes (pbind p f)"
  unfolding consumes_def
proof
  fix r
  obtain x r' where p: "p r = (x, r')" by fastforce
  then obtain pre where r: "r = pre @ r'"
    using assms(1) by (metis consumes_def snd_conv)
  show "\<exists>pre. r = pre @ snd (pbind p f r)"
  proof (cases x)
    case (Ok a)
    obtain pre' where r': "r' = pre' @ snd (f a r')"
      using assms(2) [of a] unfolding consumes_def by blast
    have "r = (pre @ pre') @ snd (pbind p f r)"
      using r r' p Ok by (simp add: pbind_Ok)
    then show ?thesis ..
  qed (use p r in \<open>auto simp: pbind_def\<close>)
qed

lemma consumes_if [intro]:
  "(c \<Longrightarrow> consumes p) \<Longrightarrow> (\<not> c \<Longrightarrow> consumes q) \<Longrightarrow> consumes (if c then p else q)"
  by simp

lemmas consumes_rules = consumes_pret consumes_pfail consumes_ppanic consumes_read_full
  consumes_if consumes_pbind

lemma progress_if:
  "(c \<Longrightarrow> progress p) \<Longrightarrow> (\<not> c \<Longrightarrow> progress q) \<Longrightarrow> progress (if c then p else q)"
  by simp

lemma progress_pbind_left:
  assumes "progress p" and "\<And>a. consumes (f a)"
  shows "progress (pbind p f)"
  unfolding progress_def
proof (intro allI impI)
  fix r b r'
  assume eq: "pbind p f r = (Ok b, r')"
  then obtain a r'' where p: "p r = (Ok a, r'')" and f: "f a r'' = (Ok b, r')"
    by (auto simp: pbind_def split: prod.splits outcome.splits)
  from p assms(1) have "length r'' < length r" by (auto simp: progress_def)
  moreover from assms(2) f have "length r' \<le> length r''" by (rule consumes_length)
  ultimately show "length r' < length r" by simp
qed

lemma progress_pbind_right:
  assumes "consumes p" and "\<And>a. progress (f a)"
  shows "progress (pbind p f)"
  unfolding progress_def
proof (intro allI impI)
  fix r b r'
  assume eq: "pbind p f r = (Ok b, r')"
  then obtain a r'' where p: "p r = (Ok a, r'')" and f: "f a r'' = (Ok b, r')"
    by (auto simp: pbind_def split: prod.splits outcome.splits)
  from assms(1) p have "length r'' \<le> length r" by (rule consumes_length)
  moreover from f assms(2) have "length r' < length r''" by (auto simp: progress_def)
  ultimately show "length r' < length r" by simp
qed

lemma safe_pret [simp, intro]: "safe (pret a)"
  by (simp add: safe_def)

lemma safe_pfail [simp, intro]: "safe (pfail e)"
  by (simp add: safe_def)

lemma safe_read_full [simp, intro]: "safe (read_full n)"
  by (simp add: safe_def read_full_def)

lemma safe_pbind [intro]:
  assumes "safe p" and "\<And>a. safe (f a)"
  shows "safe (pbind p f)"
  unfolding safe_def
proof
  fix r
  obtain x r' where p: "p r = (x, r')" by fastforce
  then have "safe_out x" using assms(1) by (metis fst_conv safe_def)
  then show "safe_out (fst (pbind p f r))"
    using p assms(2) by (cases x) (auto simp: pbind_def safe_def)
qed

lemma safe_if [intro]:
  "(c \<Longrightarrow> safe p) \<Longrightarrow> (\<not> c \<Longrightarrow> safe q) \<Longrightarrow> safe (if c then p else q)"
  by simp

lemmas safe_rules = safe_pret safe_pfail safe_read_full safe_if safe_pbind

lemma eof_pbind [intro]: "eof_on_empty p \<Longrightarrow> eof_on_empty (pbind p f)"
  by (simp add: eof_on_empty_def pbind_def)

lemma eof_read_full [intro]: "0 < n \<Longrightarrow> eof_on_empty (read_full n)"
  by (simp add: eof_on_empty_def read_full_def)

lemma progress_read_full [intro]: "0 < n \<Longrightarrow> progress (read_full n)"
  by (auto simp: progress_def read_full_def split: if_splits)

section \<open>Writers\<close>

text \<open>
  A write reports the bytes that reached the \<open>io.Writer\<close> and how the call ended: a failing
  marshaller leaves behind what it wrote before the failure. The writer itself never fails.
\<close>

type_synonym writer = "bytes \<times> unit outcome"

definition wok :: writer where
  "wok = ([], Ok ())"

definition wput :: "bytes \<Rightarrow> writer" where
  "wput bs = (bs, Ok ())"

definition wfail :: "err \<Rightarrow> writer" where
  "wfail e = ([], Err e)"

definition wseq :: "writer \<Rightarrow> writer \<Rightarrow> writer" where
  "wseq a b = (case a of
      (out, Ok _) \<Rightarrow> (out @ fst b, snd b)
    | (out, x) \<Rightarrow> (out, x))"

text \<open>Writing through a temporary buffer: nothing is written unless the buffer was filled.\<close>

definition wbuffered :: "writer \<Rightarrow> (bytes \<Rightarrow> writer) \<Rightarrow> writer" where
  "wbuffered a k = (case a of
      (out, Ok _) \<Rightarrow> k out
    | (out, x) \<Rightarrow> ([], x))"

lemma wseq_Ok [outcome_simps]: "a = (out, Ok ()) \<Longrightarrow> wseq a b = (out @ fst b, snd b)"
  by (simp add: wseq_def)

lemma wseq_eq_Ok_iff:
  "wseq a b = (out, Ok ()) \<longleftrightarrow>
     (\<exists>o1 o2. a = (o1, Ok ()) \<and> b = (o2, Ok ()) \<and> out = o1 @ o2)"
  by (cases a; cases b; cases "snd a") (auto simp: wseq_def)

lemma wbuffered_eq_Ok_iff:
  "wbuffered a k = (out, Ok ()) \<longleftrightarrow> (\<exists>o1. a = (o1, Ok ()) \<and> k o1 = (out, Ok ()))"
  by (cases a; cases "snd a") (auto simp: wbuffered_def)

section \<open>Byte orders\<close>

datatype byte_order = BigEndian | LittleEndian

text \<open>
  The \<open>n\<close> low-order bytes of a number, least significant first, and the number a byte string
  stands for. \<open>word_of_nat\<close> at 8 bits is the truncation \<open>uint8(x)\<close>.
\<close>

fun le_bytes :: "nat \<Rightarrow> nat \<Rightarrow> bytes" where
  "le_bytes 0 x = []"
| "le_bytes (Suc n) x = word_of_nat x # le_bytes n (x div 256)"

fun le_nat :: "bytes \<Rightarrow> nat" where
  "le_nat [] = 0"
| "le_nat (b # bs) = unat b + 256 * le_nat bs"

definition put_uint :: "byte_order \<Rightarrow> nat \<Rightarrow> nat \<Rightarrow> bytes" where
  "put_uint ord n x = (case ord of
      LittleEndian \<Rightarrow> le_bytes n x
    | BigEndian \<Rightarrow> rev (le_bytes n x))"

definition get_uint :: "byte_order \<Rightarrow> bytes \<Rightarrow> nat" where
  "get_uint ord bs = (case ord of
      LittleEndian \<Rightarrow> le_nat bs
    | BigEndian \<Rightarrow> le_nat (rev bs))"

lemma length_le_bytes [simp]: "length (le_bytes n x) = n"
  by (induction n arbitrary: x) auto

lemma length_put_uint [simp]: "length (put_uint ord n x) = n"
  by (simp add: put_uint_def split: byte_order.split)

lemma unat_u8_bound: "unat (b :: u8) < 256"
  using unsigned_less [of b, where ?'a = nat] by simp

lemma le_nat_bound: "le_nat bs < 256 ^ length bs"
proof (induction bs)
  case (Cons b bs)
  have "unat b < 256" by (rule unat_u8_bound)
  with Cons.IH show ?case by simp
qed simp

lemma get_uint_bound: "get_uint ord bs < 256 ^ length bs"
  using le_nat_bound [of bs] le_nat_bound [of "rev bs"]
  by (simp add: get_uint_def split: byte_order.split)

lemma le_nat_le_bytes: "le_nat (le_bytes n x) = x mod 256 ^ n"
proof (induction n arbitrary: x)
  case (Suc n)
  have "unat (word_of_nat x :: u8) = x mod 256"
    by (simp add: unat_of_nat)
  then show ?case
    by (simp add: Suc.IH mod_mult2_eq)
qed simp

lemma le_bytes_le_nat: "le_bytes (length bs) (le_nat bs) = bs"
proof (induction bs)
  case (Cons b bs)
  have b: "unat b < 256" by (rule unat_u8_bound)
  have "(word_of_nat (unat b + 256 * le_nat bs) :: u8) = b"
    by (simp only: word_unat_eq_iff unat_of_nat) (simp add: b)
  with Cons.IH b show ?case by simp
qed simp

lemma get_put_uint: "get_uint ord (put_uint ord n x) = x mod 256 ^ n"
  by (simp add: get_uint_def put_uint_def le_nat_le_bytes split: byte_order.split)

lemma put_get_uint: "put_uint ord (length bs) (get_uint ord bs) = bs"
proof (cases ord)
  case BigEndian
  then show ?thesis
    using le_bytes_le_nat [of "rev bs"] by (simp add: get_uint_def put_uint_def)
next
  case LittleEndian
  then show ?thesis by (simp add: get_uint_def put_uint_def le_bytes_le_nat)
qed

lemma put_uint_eq_Nil [simp]: "put_uint ord n x = [] \<longleftrightarrow> n = 0"
  by (metis length_0_conv length_put_uint)

section \<open>Loops over readers\<close>

text \<open>
  The three loops of \<open>unmarshalSlice\<close>. Reading an element is a function of the buffer alone,
  so an iteration that succeeds without consuming anything repeats itself forever: \<open>Hang\<close>.
\<close>

function until_empty :: "'a parser \<Rightarrow> bytes \<Rightarrow> 'a list outcome" where
  "until_empty p b =
     (if b = [] then Ok []
      else (case p b of
          (Ok x, b') \<Rightarrow>
            if length b' < length b
            then (case until_empty p b' of Ok xs \<Rightarrow> Ok (x # xs) | e \<Rightarrow> e)
            else Hang
        | (Err e, b') \<Rightarrow> Err e
        | (Panic, b') \<Rightarrow> Panic
        | (Hang, b') \<Rightarrow> Hang))"
  by pat_completeness auto
termination by (relation "measure (\<lambda>(p, b). length b)") auto

function until_eof :: "'a parser \<Rightarrow> bytes \<Rightarrow> 'a list outcome \<times> bytes" where
  "until_eof p r =
     (case p r of
        (Ok x, r') \<Rightarrow>
          if length r' < length r
          then (case until_eof p r' of (Ok xs, r'') \<Rightarrow> (Ok (x # xs), r'') | e \<Rightarrow> e)
          else (Hang, r')
      | (Err e, r') \<Rightarrow> if e = EOF then (Ok [], r') else (Err e, r')
      | (Panic, r') \<Rightarrow> (Panic, r')
      | (Hang, r') \<Rightarrow> (Hang, r'))"
  by pat_completeness auto
termination by (relation "measure (\<lambda>(p, r). length r)") auto

fun repeat_n :: "nat \<Rightarrow> 'a parser \<Rightarrow> 'a list parser" where
  "repeat_n 0 p = pret []"
| "repeat_n (Suc n) p = pbind p (\<lambda>x. pbind (repeat_n n p) (\<lambda>xs. pret (x # xs)))"

declare until_empty.simps [simp del] until_eof.simps [simp del]

text \<open>Reading back what was written element by element.\<close>

lemma repeat_n_concat:
  assumes "\<And>x r. x \<in> set xs \<Longrightarrow> p (enc x @ r) = (Ok x, r)"
  shows "repeat_n (length xs) p (concat (map enc xs) @ r) = (Ok xs, r)"
  using assms
proof (induction xs)
  case (Cons x xs)
  have "p (enc x @ concat (map enc xs) @ r) = (Ok x, concat (map enc xs) @ r)"
    using Cons.prems by simp
  moreover have "repeat_n (length xs) p (concat (map enc xs) @ r) = (Ok xs, r)"
    using Cons by simp
  ultimately show ?case by (simp add: pbind_def)
qed simp

lemma until_empty_concat:
  assumes "\<And>x r. x \<in> set xs \<Longrightarrow> p (enc x @ r) = (Ok x, r)"
    and "\<And>x. x \<in> set xs \<Longrightarrow> enc x \<noteq> []"
  shows "until_empty p (concat (map enc xs)) = Ok xs"
  using assms
proof (induction xs)
  case Nil
  show ?case by (simp add: until_empty.simps)
next
  case (Cons x xs)
  have "p (enc x @ concat (map enc xs)) = (Ok x, concat (map enc xs))"
    using Cons.prems by simp
  moreover have "until_empty p (concat (map enc xs)) = Ok xs"
    using Cons by simp
  moreover have "enc x \<noteq> []" using Cons.prems by simp
  ultimately show ?case
    by (simp add: until_empty.simps [of p "enc x @ concat (map enc xs)"])
qed

lemma until_eof_concat:
  assumes "\<And>x r. x \<in> set xs \<Longrightarrow> p (enc x @ r) = (Ok x, r)"
    and "\<And>x. x \<in> set xs \<Longrightarrow> enc x \<noteq> []"
    and "eof_on_empty p"
  shows "until_eof p (concat (map enc xs)) = (Ok xs, [])"
  using assms(1,2)
proof (induction xs)
  case Nil
  show ?case using assms(3) by (simp add: until_eof.simps [of p "[]"] eof_on_empty_def)
next
  case (Cons x xs)
  have "p (enc x @ concat (map enc xs)) = (Ok x, concat (map enc xs))"
    using Cons.prems by simp
  moreover have "until_eof p (concat (map enc xs)) = (Ok xs, [])"
    using Cons by simp
  moreover have "enc x \<noteq> []" using Cons.prems by simp
  ultimately show ?case
    by (simp add: until_eof.simps [of p "enc x @ concat (map enc xs)"])
qed

lemma consumes_repeat_n [intro]: "consumes p \<Longrightarrow> consumes (repeat_n n p)"
  by (induction n) auto

lemma safe_repeat_n [intro]: "safe p \<Longrightarrow> safe (repeat_n n p)"
  by (induction n) auto

lemma until_empty_safe:
  assumes "safe p" and "progress p"
  shows "safe_out (until_empty p b)"
proof (induction "length b" arbitrary: b rule: less_induct)
  case less
  have "safe_out (fst (p b))" using assms(1) by (simp add: safe_def)
  moreover have "length b' < length b" if "p b = (Ok x, b')" for x b'
    using assms(2) that by (auto simp: progress_def)
  ultimately show ?case
    using less
    by (subst until_empty.simps)
       (auto split: outcome.splits prod.splits dest!: spec, (metis safe_out_simps)+)
qed

lemma until_eof_safe:
  assumes "safe p" and "progress p"
  shows "safe (until_eof p)"
  unfolding safe_def
proof
  fix r
  show "safe_out (fst (until_eof p r))"
  proof (induction "length r" arbitrary: r rule: less_induct)
    case less
    have s: "safe_out (fst (p r))" using assms(1) by (simp add: safe_def)
    show ?case
    proof (cases "p r")
      case (Pair x r')
      show ?thesis
      proof (cases x)
        case (Ok a)
        then have l: "length r' < length r" using Pair assms(2) by (auto simp: progress_def)
        have "safe_out (fst (until_eof p r'))" by (rule less [OF l])
        then show ?thesis
          using Pair Ok l
          by (subst until_eof.simps) (auto split: outcome.splits prod.splits)
      qed (use Pair s in \<open>auto simp: until_eof.simps [of p r]\<close>)
    qed
  qed
qed

lemma until_eof_consumes:
  assumes "consumes p"
  shows "consumes (until_eof p)"
  unfolding consumes_def
proof
  fix r
  show "\<exists>pre. r = pre @ snd (until_eof p r)"
  proof (induction "length r" arbitrary: r rule: less_induct)
    case less
    obtain x r' where p: "p r = (x, r')" by fastforce
    then obtain pre where r: "r = pre @ r'" using assms by (metis consumes_def snd_conv)
    show ?case
    proof (cases "is_Ok x \<and> length r' < length r")
      case True
      then obtain pre' where "r' = pre' @ snd (until_eof p r')" using less by blast
      then have "\<exists>pre. r = pre @ snd (until_eof p r')" using r by (metis append.assoc)
      moreover have "snd (until_eof p r) = snd (until_eof p r')"
        using True p by (cases x) (auto simp: until_eof.simps [of p r] split: outcome.splits prod.splits)
      ultimately show ?thesis by simp
    next
      case False
      then have "snd (until_eof p r) = r'"
        using p by (cases x) (auto simp: until_eof.simps [of p r])
      with r have "r = pre @ snd (until_eof p r)" by simp
      then show ?thesis ..
    qed
  qed
qed

section \<open>The interface of a stream of values\<close>

text \<open>
  What a reader of a byte stream relies on: a value that was written is read back whatever follows,
  no value is written as nothing, and the end of the stream is told apart from a broken value.
\<close>

locale stream_codec =
  fixes enc :: "'a \<Rightarrow> bytes" and dec :: "'a parser" and ok :: "'a \<Rightarrow> bool"
  assumes dec_enc: "ok x \<Longrightarrow> dec (enc x @ r) = (Ok x, r)"
    and enc_nonempty: "enc x \<noteq> []"
    and dec_eof: "eof_on_empty dec"
begin

lemma read_to_eof: "list_all ok xs \<Longrightarrow> until_eof dec (concat (map enc xs)) = (Ok xs, [])"
  by (rule until_eof_concat) (auto simp: list_all_iff dec_enc enc_nonempty dec_eof)

lemma read_buffer: "list_all ok xs \<Longrightarrow> until_empty dec (concat (map enc xs)) = Ok xs"
  by (rule until_empty_concat) (auto simp: list_all_iff dec_enc enc_nonempty)

lemma read_count: "list_all ok xs \<Longrightarrow> repeat_n (length xs) dec (concat (map enc xs) @ r) = (Ok xs, r)"
  by (rule repeat_n_concat) (auto simp: list_all_iff dec_enc)

lemma stream_unique:
  assumes "list_all ok xs" and "list_all ok ys" and "concat (map enc xs) = concat (map enc ys)"
  shows "xs = ys"
proof -
  have "(Ok xs, [] :: bytes) = (Ok ys, [])"
    using read_to_eof [OF assms(1)] read_to_eof [OF assms(2)] unfolding assms(3) by (rule trans [OF sym])
  then show ?thesis by blast
qed

end

section \<open>Lists\<close>

lemma list_all2_map_id: "list_all2 P xs ys \<Longrightarrow> length xs = length ys"
  by (rule list_all2_lengthD)

lemma filter_neq_notin [simp]: "x \<notin> set xs \<Longrightarrow> filter (\<lambda>y. y \<noteq> x) xs = xs"
  by (induction xs) auto

lemma find_append: "find P (xs @ ys) = (case find P xs of None \<Rightarrow> find P ys | Some y \<Rightarrow> Some y)"
  by (induction xs) auto

section \<open>Time\<close>

text \<open>\<open>Time.Unix\<close>: whole seconds, rounded down.\<close>

definition Unix :: "int \<Rightarrow> int" where
  "Unix t = t div 10 ^ 9"

end
