(* ===== verification/Tags.thy ===== *)
theory Tags
  imports Prelude
begin

text \<open>
  The \<open>oscar\<close> struct tags of \<open>wire/encode.go\<close>: the \<open>oscarTag\<close> record and its parser
  \<open>parseOSCARTag\<close>. A field's tag is the value of its \<open>oscar\<close> key, \<open>None\<close> when the key is absent
  (\<open>tag.Lookup\<close>). Tags are program text and ASCII, so white space is the ASCII white space of
  \<open>strings.TrimSpace\<close>.
\<close>

section \<open>Go string helpers\<close>

text \<open>\<open>strings.Split\<close> at one character: always at least one piece.\<close>

fun go_split :: "char \<Rightarrow> string \<Rightarrow> string list" where
  "go_split c [] = [[]]"
| "go_split c (x # xs) =
     (if x = c then [] # go_split c xs
      else (case go_split c xs of [] \<Rightarrow> [[x]] | p # ps \<Rightarrow> (x # p) # ps))"

text \<open>\<open>strings.SplitN(s, c, 2)\<close>: the part before the first separator and, if there is one,
  the rest.\<close>

fun go_split2 :: "char \<Rightarrow> string \<Rightarrow> string \<times> string option" where
  "go_split2 c [] = ([], None)"
| "go_split2 c (x # xs) =
     (if x = c then ([], Some xs)
      else (case go_split2 c xs of (a, b) \<Rightarrow> (x # a, b)))"

definition is_space :: "char \<Rightarrow> bool" where
  "is_space c \<longleftrightarrow> c \<in> {CHR 0x09, CHR 0x0A, CHR 0x0B, CHR 0x0C, CHR 0x0D, CHR '' ''}"

definition trim_space :: "string \<Rightarrow> string" where
  "trim_space s = rev (dropWhile is_space (rev (dropWhile is_space s)))"

section \<open>Parsed tags\<close>

text \<open>The kinds a length or count prefix can have; \<open>KInvalid\<close> is the zero \<open>reflect.Kind\<close>.\<close>

datatype prefix_kind = KInvalid | KUint8 | KUint16

record oscarTag =
  hasCountPrefix :: bool
  countPrefix :: prefix_kind
  hasLenPrefix :: bool
  lenPrefix :: prefix_kind
  optional :: bool
  nullTerminated :: bool
  quirk :: string

definition emptyTag :: oscarTag where
  "emptyTag = \<lparr>hasCountPrefix = False, countPrefix = KInvalid, hasLenPrefix = False,
     lenPrefix = KInvalid, optional = False, nullTerminated = False, quirk = []\<rparr>"

definition parseKind :: "string \<Rightarrow> prefix_kind outcome" where
  "parseKind v =
     (if v = ''uint8'' then Ok KUint8
      else if v = ''uint16'' then Ok KUint16
      else Err InvalidStructTag)"

text \<open>One comma-separated element of the tag, already trimmed and not empty.\<close>

definition parseKV :: "string \<Rightarrow> oscarTag \<Rightarrow> oscarTag outcome" where
  "parseKV kv tg =
     (case go_split2 (CHR ''='') kv of
        (k, Some v) \<Rightarrow>
          (let key = trim_space k; valPart = trim_space v in
           if key = ''len_prefix'' then
             bind_out (parseKind valPart) (\<lambda>p. Ok (tg\<lparr>hasLenPrefix := True, lenPrefix := p\<rparr>))
           else if key = ''count_prefix'' then
             bind_out (parseKind valPart) (\<lambda>p. Ok (tg\<lparr>hasCountPrefix := True, countPrefix := p\<rparr>))
           else if key = ''quirk'' then
             (if valPart = [] then Err InvalidStructTag
              else if quirk tg \<noteq> [] then Err InvalidStructTag
              else Ok (tg\<lparr>quirk := valPart\<rparr>))
           else Err InvalidStructTag)
      | (k, None) \<Rightarrow>
          (let key = trim_space k in
           if key = ''optional'' then Ok (tg\<lparr>optional := True\<rparr>)
           else if key = ''nullterm'' then Ok (tg\<lparr>nullTerminated := True\<rparr>)
           else Err InvalidStructTag))"

fun parseKVs :: "string list \<Rightarrow> oscarTag \<Rightarrow> oscarTag outcome" where
  "parseKVs [] tg = Ok tg"
| "parseKVs (kv # kvs) tg =
     (let kv' = trim_space kv in
      if kv' = [] then parseKVs kvs tg
      else bind_out (parseKV kv' tg) (parseKVs kvs))"

definition parseOSCARTag :: "string option \<Rightarrow> oscarTag outcome" where
  "parseOSCARTag tag =
     (case tag of
        None \<Rightarrow> Ok emptyTag
      | Some val \<Rightarrow>
          bind_out (parseKVs (go_split (CHR '','') val) emptyTag)
            (\<lambda>tg. if hasCountPrefix tg \<and> hasLenPrefix tg then Err InvalidStructTag else Ok tg))"

section \<open>What a parsed tag satisfies\<close>

text \<open>
  A prefix that is announced has a width: the \<open>panic\<close> of \<open>marshalUnsignedInt\<close> and
  \<open>unmarshalUnsignedInt\<close> on any other kind is not reachable from a parsed tag.
\<close>

definition tag_inv :: "oscarTag \<Rightarrow> bool" where
  "tag_inv tg \<longleftrightarrow>
     (hasLenPrefix tg \<longrightarrow> lenPrefix tg \<noteq> KInvalid) \<and>
     (hasCountPrefix tg \<longrightarrow> countPrefix tg \<noteq> KInvalid)"

lemma tag_inv_empty [simp]: "tag_inv emptyTag"
  by (simp add: tag_inv_def emptyTag_def)

lemma parseKind_valid: "parseKind v = Ok p \<Longrightarrow> p \<noteq> KInvalid"
  by (auto simp: parseKind_def split: if_splits)

lemma parseKV_inv: "parseKV kv tg = Ok tg' \<Longrightarrow> tag_inv tg \<Longrightarrow> tag_inv tg'"
  by (auto simp: parseKV_def tag_inv_def Let_def bind_out_Ok_iff dest: parseKind_valid
      split: prod.splits option.splits if_splits)

lemma parseKVs_inv: "parseKVs kvs tg = Ok tg' \<Longrightarrow> tag_inv tg \<Longrightarrow> tag_inv tg'"
  by (induction kvs arbitrary: tg)
     (auto simp: Let_def bind_out_Ok_iff dest: parseKV_inv split: if_splits)

lemma parseOSCARTag_inv: "parseOSCARTag tag = Ok tg \<Longrightarrow> tag_inv tg"
  by (auto simp: parseOSCARTag_def bind_out_Ok_iff dest: parseKVs_inv split: option.splits if_splits)

lemma parseOSCARTag_exclusive:
  "parseOSCARTag tag = Ok tg \<Longrightarrow> \<not> (hasCountPrefix tg \<and> hasLenPrefix tg)"
  by (auto simp: parseOSCARTag_def emptyTag_def bind_out_Ok_iff split: option.splits if_splits)

lemma parseKind_safe [simp]: "safe_out (parseKind v)"
  by (simp add: parseKind_def)

lemma parseKV_safe [simp]: "safe_out (parseKV kv tg)"
proof -
  have b: "safe_out (bind_out (parseKind v) (\<lambda>p. Ok (f p)))" for v and f :: "prefix_kind \<Rightarrow> oscarTag"
    using parseKind_safe [of v] by (cases "parseKind v") auto
  show ?thesis by (simp add: parseKV_def Let_def b split: prod.splits option.splits)
qed

lemma parseKVs_safe: "safe_out (parseKVs kvs tg)"
proof (induction kvs arbitrary: tg)
  case (Cons kv kvs)
  show ?case
    using parseKV_safe [of "trim_space kv" tg] Cons.IH
    by (cases "parseKV (trim_space kv) tg") (simp_all add: Let_def)
qed simp

lemma parseOSCARTag_safe: "safe_out (parseOSCARTag tag)"
proof (cases tag)
  case (Some val)
  show ?thesis
    using parseKVs_safe [of "go_split (CHR '','') val" emptyTag]
    by (cases "parseKVs (go_split (CHR '','') val) emptyTag") (auto simp: parseOSCARTag_def Some)
qed (simp add: parseOSCARTag_def)

text \<open>The tags in use, parsed once and for all.\<close>

named_theorems tag_eval \<open>parsed forms of the tags the program uses\<close>

lemma parse_None [tag_eval]: "parseOSCARTag None = Ok emptyTag"
  by (simp add: parseOSCARTag_def)

lemma parse_len8 [tag_eval]:
  "parseOSCARTag (Some ''len_prefix=uint8'') = Ok (emptyTag\<lparr>hasLenPrefix := True, lenPrefix := KUint8\<rparr>)"
  by code_simp

lemma parse_len16 [tag_eval]:
  "parseOSCARTag (Some ''len_prefix=uint16'') = Ok (emptyTag\<lparr>hasLenPrefix := True, lenPrefix := KUint16\<rparr>)"
  by code_simp

lemma parse_count8 [tag_eval]:
  "parseOSCARTag (Some ''count_prefix=uint8'') = Ok (emptyTag\<lparr>hasCountPrefix := True, countPrefix := KUint8\<rparr>)"
  by code_simp

lemma parse_count16 [tag_eval]:
  "parseOSCARTag (Some ''count_prefix=uint16'') = Ok (emptyTag\<lparr>hasCountPrefix := True, countPrefix := KUint16\<rparr>)"
  by code_simp

lemma parse_optional [tag_eval]:
  "parseOSCARTag (Some ''optional'') = Ok (emptyTag\<lparr>optional := True\<rparr>)"
  by code_simp

lemma parse_len16_nullterm [tag_eval]:
  "parseOSCARTag (Some ''len_prefix=uint16,nullterm'') =
     Ok (emptyTag\<lparr>hasLenPrefix := True, lenPrefix := KUint16, nullTerminated := True\<rparr>)"
  by code_simp

lemma parse_len16_optional [tag_eval]:
  "parseOSCARTag (Some ''len_prefix=uint16,optional'') =
     Ok (emptyTag\<lparr>hasLenPrefix := True, lenPrefix := KUint16, optional := True\<rparr>)"
  by code_simp

lemma parse_quirk_icq2003b [tag_eval]:
  "parseOSCARTag (Some ''quirk=icq2003b_set_fullinfo'') =
     Ok (emptyTag\<lparr>quirk := ''icq2003b_set_fullinfo''\<rparr>)"
  by code_simp

lemma parse_quirk_jimm [tag_eval]:
  "parseOSCARTag (Some ''quirk=jimm_locate_set_info'') =
     Ok (emptyTag\<lparr>quirk := ''jimm_locate_set_info''\<rparr>)"
  by code_simp

lemma parse_quirk_qip [tag_eval]:
  "parseOSCARTag (Some ''quirk=qip_2005_search_by_uin2'') =
     Ok (emptyTag\<lparr>quirk := ''qip_2005_search_by_uin2''\<rparr>)"
  by code_simp

lemma parse_nullterm [tag_eval]:
  "parseOSCARTag (Some ''nullterm'') = Ok (emptyTag\<lparr>nullTerminated := True\<rparr>)"
  by code_simp

end
