(* ===== verification/Codec.thy ===== *)
theory Codec
  imports Tags
begin

text \<open>
  The reflective codec of \<open>wire/encode.go\<close> and \<open>wire/decode.go\<close>. A Go type is a \<open>ty\<close>, a Go value
  a \<open>val\<close>, and \<open>marshal\<close> and \<open>unmarshal\<close> recurse over them as the code recurses over
  \<open>reflect.Type\<close> and \<open>reflect.Value\<close>, one function of the model per function of the code.
\<close>

section \<open>Types and values\<close>

text \<open>
  The types the messages are built from. A field carries its name, the value of its \<open>oscar\<close> tag
  and its type. \<open>TOther\<close> stands for the kinds the codec rejects and whose size is not fixed
  (\<open>int\<close>, maps, functions and so on). Structs are nominal, as in Go: the name is part of the type.
\<close>

datatype ty =
    TU8
  | TU16
  | TU32
  | TU64
  | TString
  | TArray nat ty
  | TSlice ty
  | TStruct string "field list"
  | TPtr ty
  | TInterface
  | TOther string
and field = Field (fieldName: string) (fieldTag: "string option") (fieldType: ty)

text \<open>
  Values. \<open>VList\<close> serves arrays and slices, \<open>VIface\<close> is an interface holding a value together with
  its dynamic type, \<open>VNil\<close> a nil pointer or a nil interface.
\<close>

datatype val =
    VU8 u8
  | VU16 u16
  | VU32 u32
  | VU64 u64
  | VString bytes
  | VList "val list"
  | VStruct "val list"
  | VPtr val
  | VIface ty val
  | VNil

fun is_ptr :: "ty \<Rightarrow> bool" where
  "is_ptr (TPtr _) = True"
| "is_ptr _ = False"

fun is_struct :: "ty \<Rightarrow> bool" where
  "is_struct (TStruct _ _) = True"
| "is_struct _ = False"

fun ptr_elem :: "ty \<Rightarrow> ty" where
  "ptr_elem (TPtr t) = t"
| "ptr_elem t = t"

section \<open>Encoding (wire/encode.go)\<close>

text \<open>
  \<open>binary.Write\<close>: the kinds of fixed size, and their bytes in order. It is used for integers and
  for arrays and slices whose elements are not structs; tags play no role in it.
\<close>

fun fixed_size :: "ty \<Rightarrow> bool" and fixed_fields :: "field list \<Rightarrow> bool" where
  "fixed_size TU8 = True"
| "fixed_size TU16 = True"
| "fixed_size TU32 = True"
| "fixed_size TU64 = True"
| "fixed_size (TArray _ t) = fixed_size t"
| "fixed_size (TStruct _ fs) = fixed_fields fs"
| "fixed_size TString = False"
| "fixed_size (TSlice _) = False"
| "fixed_size (TPtr _) = False"
| "fixed_size TInterface = False"
| "fixed_size (TOther _) = False"
| "fixed_fields [] = True"
| "fixed_fields (Field _ _ t # fs) = (fixed_size t \<and> fixed_fields fs)"

fun binary_bytes :: "byte_order \<Rightarrow> val \<Rightarrow> bytes" where
  "binary_bytes ord (VU8 x) = put_uint ord 1 (unat x)"
| "binary_bytes ord (VU16 x) = put_uint ord 2 (unat x)"
| "binary_bytes ord (VU32 x) = put_uint ord 4 (unat x)"
| "binary_bytes ord (VU64 x) = put_uint ord 8 (unat x)"
| "binary_bytes ord (VList vs) = concat (map (binary_bytes ord) vs)"
| "binary_bytes ord (VStruct vs) = concat (map (binary_bytes ord) vs)"
| "binary_bytes ord _ = []"

definition binaryWrite :: "byte_order \<Rightarrow> ty \<Rightarrow> val \<Rightarrow> writer" where
  "binaryWrite ord t v =
     (if fixed_size t then wput (binary_bytes ord v) else wfail NotFixedSize)"

text \<open>\<open>uint8(intVal)\<close> and \<open>uint16(intVal)\<close> keep the low-order bytes: \<open>put_uint\<close> does the same.\<close>

definition marshalUnsignedInt :: "prefix_kind \<Rightarrow> nat \<Rightarrow> byte_order \<Rightarrow> writer" where
  "marshalUnsignedInt intType intVal ord =
     (case intType of
        KUint8 \<Rightarrow> wput (put_uint ord 1 intVal)
      | KUint16 \<Rightarrow> wput (put_uint ord 2 intVal)
      | KInvalid \<Rightarrow> ([], Panic))"

definition marshalString :: "oscarTag \<Rightarrow> bytes \<Rightarrow> byte_order \<Rightarrow> writer" where
  "marshalString tg s ord =
     (let str = (if nullTerminated tg \<and> s \<noteq> [] then s @ [0] else s) in
      wseq (if hasLenPrefix tg then marshalUnsignedInt (lenPrefix tg) (length str) ord else wok)
        (if str = [] then wok else wput str))"

text \<open>The tail of \<open>marshalSlice\<close>: the prefix, then the buffered elements.\<close>

definition marshalSliceBuf :: "oscarTag \<Rightarrow> nat \<Rightarrow> byte_order \<Rightarrow> bytes \<Rightarrow> writer" where
  "marshalSliceBuf tg n ord buf =
     wseq (if hasLenPrefix tg then marshalUnsignedInt (lenPrefix tg) (length buf) ord
           else if hasCountPrefix tg then marshalUnsignedInt (countPrefix tg) n ord
           else wok)
       (if buf = [] then wok else wput buf)"

text \<open>The tail of \<open>marshalStruct\<close> when the struct has a length prefix.\<close>

definition marshalStructBuf :: "oscarTag \<Rightarrow> byte_order \<Rightarrow> bytes \<Rightarrow> writer" where
  "marshalStructBuf tg ord buf =
     wseq (marshalUnsignedInt (lenPrefix tg) (length buf) ord) (if buf = [] then wok else wput buf)"

definition struct_order :: "string \<Rightarrow> byte_order \<Rightarrow> byte_order" where
  "struct_order name ord = (if name = ''ICQMessageReplyEnvelope'' then LittleEndian else ord)"

text \<open>
  \<open>marshal\<close> parses the tag and dispatches on the kind; \<open>marshalKind\<close> is the part after the tag has
  been parsed, \<open>marshalStructs\<close> the loop over struct elements of an array or slice and
  \<open>marshalEachField\<close> the closure of \<open>marshalStruct\<close>.
\<close>

function (sequential) marshal :: "byte_order \<Rightarrow> string option \<Rightarrow> ty \<Rightarrow> val \<Rightarrow> writer"
  and marshalKind :: "byte_order \<Rightarrow> oscarTag \<Rightarrow> ty \<Rightarrow> val \<Rightarrow> writer"
  and marshalStruct :: "byte_order \<Rightarrow> oscarTag \<Rightarrow> ty \<Rightarrow> val \<Rightarrow> writer"
  and marshalEachField :: "byte_order \<Rightarrow> field list \<Rightarrow> val list \<Rightarrow> writer"
  and marshalStructs :: "byte_order \<Rightarrow> ty \<Rightarrow> val list \<Rightarrow> writer" where
  "marshal ord tag t v =
     (case parseOSCARTag tag of
        Ok tg \<Rightarrow>
          (if optional tg \<and> \<not> is_ptr t then wfail OptionalNonPointer
           else marshalKind ord tg t v)
      | Err e \<Rightarrow> wfail e
      | _ \<Rightarrow> ([], Panic))"
| "marshalKind ord tg t v =
     (case t of
        TPtr te \<Rightarrow>
          (if optional tg then
             (case v of VNil \<Rightarrow> wok | VPtr p \<Rightarrow> marshalStruct ord tg te p | _ \<Rightarrow> wfail IllTyped)
           else wfail NonOptionalPointer)
      | TArray n te \<Rightarrow>
          (case v of
             VList vs \<Rightarrow>
               (if is_struct te then marshalStructs ord te vs else binaryWrite ord te (VList vs))
           | _ \<Rightarrow> wfail IllTyped)
      | TSlice te \<Rightarrow>
          (case v of
             VList vs \<Rightarrow>
               wbuffered
                 (if is_struct te then marshalStructs ord te vs else binaryWrite ord te (VList vs))
                 (marshalSliceBuf tg (length vs) ord)
           | _ \<Rightarrow> wfail IllTyped)
      | TString \<Rightarrow> (case v of VString s \<Rightarrow> marshalString tg s ord | _ \<Rightarrow> wfail IllTyped)
      | TStruct name fs \<Rightarrow> marshalStruct ord tg t v
      | TU8 \<Rightarrow> binaryWrite ord t v
      | TU16 \<Rightarrow> binaryWrite ord t v
      | TU32 \<Rightarrow> binaryWrite ord t v
      | TU64 \<Rightarrow> binaryWrite ord t v
      | TInterface \<Rightarrow>
          (case v of
             VIface te p \<Rightarrow>
               (if is_struct te then marshalStruct ord tg te p else wfail InterfaceNotStruct)
           | _ \<Rightarrow> wfail InterfaceNotStruct)
      | TOther _ \<Rightarrow> wfail UnsupportedType)"
| "marshalStruct ord tg t v =
     (case t of
        TStruct name fs \<Rightarrow>
          (case v of
             VStruct vs \<Rightarrow>
               (if hasLenPrefix tg then
                  wbuffered (marshalEachField (struct_order name ord) fs vs)
                    (marshalStructBuf tg (struct_order name ord))
                else marshalEachField (struct_order name ord) fs vs)
           | _ \<Rightarrow> wfail IllTyped)
      | _ \<Rightarrow> ([], Panic))"
| "marshalEachField ord [] vs = (case vs of [] \<Rightarrow> wok | _ \<Rightarrow> wfail IllTyped)"
| "marshalEachField ord (Field n tag t # fs) vs =
     (case vs of
        [] \<Rightarrow> wfail IllTyped
      | v # vs' \<Rightarrow>
          (if is_ptr t \<and> fs \<noteq> [] then wfail PointerNotFinal
           else if is_ptr t \<and> \<not> is_struct (ptr_elem t) then wfail PointerNotStruct
           else wseq (marshal ord tag t v) (marshalEachField ord fs vs')))"
| "marshalStructs ord t [] = wok"
| "marshalStructs ord t (v # vs) =
     wseq (marshalStruct ord emptyTag t v) (marshalStructs ord t vs)"
  by pat_completeness auto
termination
  by (relation "measure (\<lambda>x. case x of
        Inl (Inl (ord, tag, t, v)) \<Rightarrow> 4 * size v + 3
      | Inl (Inr (ord, tg, t, v)) \<Rightarrow> 4 * size v + 2
      | Inr (Inl (ord, tg, t, v)) \<Rightarrow> 4 * size v + 1
      | Inr (Inr (Inl (ord, fs, vs))) \<Rightarrow> 4 * size_list size vs
      | Inr (Inr (Inr (ord, t, vs))) \<Rightarrow> 4 * size_list size vs)") auto

text \<open>\<open>MarshalBE\<close> and \<open>MarshalLE\<close>; a nil \<open>any\<close> has no type.\<close>

definition MarshalBE :: "(ty \<times> val) option \<Rightarrow> writer" where
  "MarshalBE x = (case x of
      None \<Rightarrow> wfail MarshalFailureNilSNAC
    | Some (t, v) \<Rightarrow> marshal BigEndian None t v)"

definition MarshalLE :: "(ty \<times> val) option \<Rightarrow> writer" where
  "MarshalLE x = (case x of
      None \<Rightarrow> wfail MarshalFailureNilSNAC
    | Some (t, v) \<Rightarrow> marshal LittleEndian None t v)"

section \<open>Decoding (wire/decode.go)\<close>

definition vbytes :: "bytes \<Rightarrow> val" where
  "vbytes bs = VList (map VU8 bs)"

definition tlv_ty :: ty where
  "tlv_ty = TStruct ''TLV''
     [Field ''Tag'' None TU16, Field ''Value'' (Some ''len_prefix=uint16'') (TSlice TU8)]"

text \<open>\<open>binary.Read\<close> of an unsigned integer of \<open>n\<close> bytes.\<close>

definition read_uint :: "byte_order \<Rightarrow> nat \<Rightarrow> nat parser" where
  "read_uint ord n = pbind (read_full n) (\<lambda>bs. pret (get_uint ord bs))"

definition unmarshalUnsignedInt :: "prefix_kind \<Rightarrow> byte_order \<Rightarrow> nat parser" where
  "unmarshalUnsignedInt intType ord =
     (case intType of
        KUint8 \<Rightarrow> read_uint ord 1
      | KUint16 \<Rightarrow> read_uint ord 2
      | KInvalid \<Rightarrow> ppanic)"

definition unmarshalString :: "oscarTag \<Rightarrow> byte_order \<Rightarrow> val parser" where
  "unmarshalString tg ord =
     (if \<not> hasLenPrefix tg then pfail MissingLenPrefix
      else pbind (unmarshalUnsignedInt (lenPrefix tg) ord) (\<lambda>bufLen.
           pbind (read_full bufLen) (\<lambda>buf.
           pret (VString (if nullTerminated tg then takeWhile (\<lambda>b. b \<noteq> 0) buf else buf)))))"

text \<open>
  Reading a \<open>TLV\<close> under a decode quirk. The two ICQ quirks correct a wrong length, the Jimm quirk
  accepts a length that exceeds the payload; only \<open>io.ErrUnexpectedEOF\<close> is forgiven there.
\<close>

definition ICQTLVTagsEmail :: u16 where
  "ICQTLVTagsEmail = 0x015E"

definition ICQTLVTagsUIN :: u16 where
  "ICQTLVTagsUIN = 0x0136"

definition unmarshalTLVICQ2003bSetFullInfo :: "byte_order \<Rightarrow> val parser" where
  "unmarshalTLVICQ2003bSetFullInfo ord =
     pbind (read_uint ord 2) (\<lambda>tag.
     pbind (read_uint ord 2) (\<lambda>n.
       let n' = (if (word_of_nat tag :: u16) = ICQTLVTagsEmail \<and> n = 3 then 4 else n) in
       pbind (read_full n') (\<lambda>buf.
       pret (VStruct [VU16 (word_of_nat tag), vbytes buf]))))"

definition unmarshalTLVQIP2005SearchByUIN2 :: "byte_order \<Rightarrow> val parser" where
  "unmarshalTLVQIP2005SearchByUIN2 ord =
     pbind (read_uint ord 2) (\<lambda>tag.
     pbind (read_uint ord 2) (\<lambda>n.
       let n' = (if (word_of_nat tag :: u16) = ICQTLVTagsUIN \<and> n \<noteq> 4 then 4 else n) in
       pbind (read_full n') (\<lambda>buf.
       pret (VStruct [VU16 (word_of_nat tag), vbytes buf]))))"

definition read_upto :: "nat \<Rightarrow> bytes parser" where
  "read_upto n r =
     (if 0 < n \<and> r = [] then (Err EOF, []) else (Ok (take n r), drop n r))"

definition unmarshalTLVJimmSetInfo :: "byte_order \<Rightarrow> val parser" where
  "unmarshalTLVJimmSetInfo ord =
     pbind (read_uint ord 2) (\<lambda>tag.
     pbind (read_uint ord 2) (\<lambda>n.
     pbind (read_upto n) (\<lambda>buf.
     pret (VStruct [VU16 (word_of_nat tag), vbytes buf]))))"

text \<open>A struct with a length prefix is read from a buffer of its own; what it leaves there is
  dropped, and the outer reader goes on behind the buffer.\<close>

definition in_buffer :: "oscarTag \<Rightarrow> byte_order \<Rightarrow> 'a parser \<Rightarrow> 'a parser" where
  "in_buffer tg ord p =
     (if hasLenPrefix tg then
        pbind (unmarshalUnsignedInt (lenPrefix tg) ord) (\<lambda>bufLen.
        pbind (read_full bufLen) (\<lambda>b r. (fst (p b), r)))
      else p)"

text \<open>The three shapes of \<open>unmarshalSlice\<close>, given the reader of one element.\<close>

definition unmarshalSlice :: "oscarTag \<Rightarrow> byte_order \<Rightarrow> val parser \<Rightarrow> val parser" where
  "unmarshalSlice tg ord elem =
     (if hasLenPrefix tg then
        pbind (unmarshalUnsignedInt (lenPrefix tg) ord) (\<lambda>bufLen.
        pbind (read_full bufLen) (\<lambda>b.
        pbind (\<lambda>r. (until_empty elem b, r)) (\<lambda>vs. pret (VList vs))))
      else if hasCountPrefix tg then
        pbind (unmarshalUnsignedInt (countPrefix tg) ord) (\<lambda>count.
        pbind (repeat_n count elem) (\<lambda>vs. pret (VList vs)))
      else pbind (until_eof elem) (\<lambda>vs. pret (VList vs)))"

text \<open>An optional struct that meets the end of the input is a nil pointer.\<close>

definition or_nil :: "val parser \<Rightarrow> val parser" where
  "or_nil p r = (case p r of
      (Ok v, r') \<Rightarrow> (Ok (VPtr v), r')
    | (Err e, r') \<Rightarrow> if e = EOF then (Ok VNil, r') else (Err e, r')
    | (Panic, r') \<Rightarrow> (Panic, r')
    | (Hang, r') \<Rightarrow> (Hang, r'))"

definition effective_quirk :: "oscarTag \<Rightarrow> string \<Rightarrow> string" where
  "effective_quirk tg active = (if trim_space (quirk tg) = [] then active else trim_space (quirk tg))"

text \<open>\<open>unmarshalSliceElement\<close>: the quirk's reader for a \<open>TLV\<close> in the quirk's byte order, the plain
  reader otherwise.\<close>

definition slice_element :: "string \<Rightarrow> byte_order \<Rightarrow> ty \<Rightarrow> val parser \<Rightarrow> val parser" where
  "slice_element active ord t plain =
     (if active = ''icq2003b_set_fullinfo'' \<and> ord = LittleEndian \<and> t = tlv_ty
        then unmarshalTLVICQ2003bSetFullInfo ord
      else if active = ''qip_2005_search_by_uin2'' \<and> ord = LittleEndian \<and> t = tlv_ty
        then unmarshalTLVQIP2005SearchByUIN2 ord
      else if active = ''jimm_locate_set_info'' \<and> ord = BigEndian \<and> t = tlv_ty
        then unmarshalTLVJimmSetInfo ord
      else plain)"

text \<open>
  \<open>unmarshal\<close> and its parts, as on the encoding side. A tag \<open>optional\<close> on a type that is no pointer
  makes \<open>t.Elem\<close> or \<open>v.Set\<close> panic.
\<close>

function (sequential) unmarshal :: "byte_order \<Rightarrow> string option \<Rightarrow> string \<Rightarrow> ty \<Rightarrow> val parser"
  and unmarshalKind :: "byte_order \<Rightarrow> oscarTag \<Rightarrow> string \<Rightarrow> ty \<Rightarrow> val parser"
  and unmarshalStruct :: "byte_order \<Rightarrow> oscarTag \<Rightarrow> string \<Rightarrow> ty \<Rightarrow> val parser"
  and unmarshalEachField :: "byte_order \<Rightarrow> string \<Rightarrow> field list \<Rightarrow> val list parser" where
  "unmarshal ord tag active t =
     (case parseOSCARTag tag of
        Ok tg \<Rightarrow>
          (if optional tg \<and> \<not> is_ptr t then ppanic
           else unmarshalKind ord tg (effective_quirk tg active) t)
      | Err e \<Rightarrow> pfail e
      | _ \<Rightarrow> ppanic)"
| "unmarshalKind ord tg q (TPtr te) =
     (if optional tg then or_nil (unmarshalStruct ord tg q te) else pfail NonOptionalPointer)"
| "unmarshalKind ord tg q (TArray n te) =
     pbind (repeat_n n (unmarshal ord None q te)) (\<lambda>vs. pret (VList vs))"
| "unmarshalKind ord tg q (TSlice te) =
     unmarshalSlice tg ord (slice_element q ord te (unmarshal ord None q te))"
| "unmarshalKind ord tg q TString = unmarshalString tg ord"
| "unmarshalKind ord tg q (TStruct name fs) = unmarshalStruct ord tg q (TStruct name fs)"
| "unmarshalKind ord tg q TU8 = pbind (read_uint ord 1) (\<lambda>x. pret (VU8 (word_of_nat x)))"
| "unmarshalKind ord tg q TU16 = pbind (read_uint ord 2) (\<lambda>x. pret (VU16 (word_of_nat x)))"
| "unmarshalKind ord tg q TU32 = pbind (read_uint ord 4) (\<lambda>x. pret (VU32 (word_of_nat x)))"
| "unmarshalKind ord tg q TU64 = pbind (read_uint ord 8) (\<lambda>x. pret (VU64 (word_of_nat x)))"
| "unmarshalKind ord tg q TInterface = pfail UnsupportedType"
| "unmarshalKind ord tg q (TOther k) = pfail UnsupportedType"
| "unmarshalStruct ord tg q (TStruct name fs) =
     in_buffer tg ord (pbind (unmarshalEachField ord q fs) (\<lambda>vs. pret (VStruct vs)))"
| "unmarshalStruct ord tg q _ = ppanic"
| "unmarshalEachField ord q [] = pret []"
| "unmarshalEachField ord q (Field n tag t # fs) =
     (if is_ptr t \<and> fs \<noteq> [] then pfail PointerNotFinal
      else if is_ptr t \<and> \<not> is_struct (ptr_elem t) then pfail NonOptionalPointer
      else pbind (unmarshal ord tag q t) (\<lambda>v.
           pbind (unmarshalEachField ord q fs) (\<lambda>vs. pret (v # vs))))"
  by pat_completeness auto
termination
  by (relation "measure (\<lambda>x. case x of
        Inl (Inl (ord, tag, q, t)) \<Rightarrow> 4 * size t + 3
      | Inl (Inr (ord, tg, q, t)) \<Rightarrow> 4 * size t + 2
      | Inr (Inl (ord, tg, q, t)) \<Rightarrow> 4 * size t + 1
      | Inr (Inr (ord, q, fs)) \<Rightarrow> 4 * size_list size fs)") auto

definition UnmarshalBE :: "ty \<Rightarrow> val parser" where
  "UnmarshalBE t = unmarshal BigEndian None [] t"

definition UnmarshalLE :: "ty \<Rightarrow> val parser" where
  "UnmarshalLE t = unmarshal LittleEndian None [] t"

declare marshal.simps [simp del] marshalKind.simps [simp del] marshalStruct.simps [simp del]
  unmarshal.simps [simp del]

end
