(* ===== verification/CodecSafety.thy ===== *)
theory CodecSafety
  imports Codec
begin

text \<open>
  What the decoder does on arbitrary input. It only ever takes bytes off the front of the buffer,
  and for every type that passes a static check (\<open>dec_safe\<close>) it neither panics nor hangs, whatever
  the bytes are.
\<close>

section \<open>Consumption\<close>

lemma read_uint_laws [simp, intro]:
  "consumes (read_uint ord n)" "safe (read_uint ord n)"
  by (auto simp: read_uint_def)

lemma progress_read_uint [intro]: "0 < n \<Longrightarrow> progress (read_uint ord n)"
  by (auto simp: read_uint_def intro: progress_pbind_left)

lemma eof_read_uint [intro]: "0 < n \<Longrightarrow> eof_on_empty (read_uint ord n)"
  by (auto simp: read_uint_def)

lemma consumes_unmarshalUnsignedInt [simp, intro]: "consumes (unmarshalUnsignedInt k ord)"
  by (cases k) (auto simp: unmarshalUnsignedInt_def)

lemma unmarshalUnsignedInt_laws:
  assumes "k \<noteq> KInvalid"
  shows "safe (unmarshalUnsignedInt k ord)" "progress (unmarshalUnsignedInt k ord)"
    "eof_on_empty (unmarshalUnsignedInt k ord)"
  using assms by (cases k; auto simp: unmarshalUnsignedInt_def)+

lemma consumes_snd_const [simp, intro]: "consumes (\<lambda>r. (f, r))"
  by (simp add: consumes_def)

lemma consumes_read_upto [simp, intro]: "consumes (read_upto n)"
  unfolding consumes_def read_upto_def
  by (auto intro: append_take_drop_id [symmetric])

lemma safe_read_upto [simp, intro]: "safe (read_upto n)"
  by (simp add: safe_def read_upto_def)

lemma consumes_in_buffer [intro]: "consumes p \<Longrightarrow> consumes (in_buffer tg ord p)"
  by (auto simp: in_buffer_def)

lemma consumes_unmarshalSlice [intro]:
  "consumes p \<Longrightarrow> consumes (unmarshalSlice tg ord p)"
  by (auto simp: unmarshalSlice_def intro!: consumes_pbind until_eof_consumes consumes_repeat_n)

lemma consumes_or_nil [intro]:
  assumes "consumes p"
  shows "consumes (or_nil p)"
proof -
  have "snd (or_nil p r) = snd (p r)" for r
    by (cases "p r"; cases "fst (p r)") (auto simp: or_nil_def)
  then show ?thesis using assms by (simp add: consumes_def)
qed

lemmas quirk_defs = slice_element_def unmarshalTLVICQ2003bSetFullInfo_def
  unmarshalTLVQIP2005SearchByUIN2_def unmarshalTLVJimmSetInfo_def Let_def

lemma consumes_slice_element [intro]:
  assumes "consumes p"
  shows "consumes (slice_element q ord t p)"
  unfolding quirk_defs by (intro consumes_rules read_uint_laws consumes_read_upto assms)

lemma consumes_unmarshalString [simp, intro]: "consumes (unmarshalString tg ord)"
  by (auto simp: unmarshalString_def intro!: consumes_pbind)

lemma unmarshal_consumes_all:
  "consumes (unmarshal ord tag q t)"
  "consumes (unmarshalKind ord tg q t)"
  "consumes (unmarshalStruct ord tg q t)"
  "consumes (unmarshalEachField ord q fs)"
proof (induction ord tag q t and ord tg q t and ord tg q t and ord q fs
    rule: unmarshal_unmarshalKind_unmarshalStruct_unmarshalEachField.induct)
  case (1 ord tag active t)
  then show ?case by (auto simp: unmarshal.simps split: outcome.split)
qed (auto intro!: consumes_pbind consumes_or_nil consumes_repeat_n consumes_unmarshalSlice
    consumes_slice_element consumes_in_buffer)

section \<open>The static check\<close>

text \<open>\<open>prog_kind\<close>: success takes at least one byte.\<close>

function (sequential) prog_kind :: "oscarTag \<Rightarrow> ty \<Rightarrow> bool" and prog_fields :: "field list \<Rightarrow> bool" where
  "prog_kind tg (TArray n te) = (0 < n \<and> prog_kind emptyTag te)"
| "prog_kind tg (TSlice te) = (hasLenPrefix tg \<or> hasCountPrefix tg)"
| "prog_kind tg (TStruct name fs) = (hasLenPrefix tg \<or> prog_fields fs)"
| "prog_kind tg (TPtr te) = False"
| "prog_kind tg _ = True"
| "prog_fields [] = False"
| "prog_fields (Field n tag t # fs) =
     ((case parseOSCARTag tag of Ok tg \<Rightarrow> prog_kind tg t | _ \<Rightarrow> True) \<or> prog_fields fs)"
  by pat_completeness auto
termination
  by (relation "measure (\<lambda>x. case x of Inl (tg, t) \<Rightarrow> size t | Inr fs \<Rightarrow> size_list size fs)") auto

text \<open>\<open>dec_safe\<close>: tags parse into pointers where they say optional, and every element of a slice
  that is read until its bytes run out takes at least one of them.\<close>

function (sequential) dec_safe :: "string option \<Rightarrow> ty \<Rightarrow> bool"
  and dec_safe_kind :: "oscarTag \<Rightarrow> ty \<Rightarrow> bool"
  and dec_safe_fields :: "field list \<Rightarrow> bool" where
  "dec_safe tag t =
     (case parseOSCARTag tag of
        Ok tg \<Rightarrow> (optional tg \<longrightarrow> is_ptr t) \<and> dec_safe_kind tg t
      | _ \<Rightarrow> True)"
| "dec_safe_kind tg (TArray n te) = dec_safe None te"
| "dec_safe_kind tg (TSlice te) =
     (dec_safe None te \<and> (\<not> hasLenPrefix tg \<and> hasCountPrefix tg \<or> prog_kind emptyTag te))"
| "dec_safe_kind tg (TStruct name fs) = dec_safe_fields fs"
| "dec_safe_kind tg (TPtr te) = (optional tg \<longrightarrow> is_struct te \<and> dec_safe_kind tg te)"
| "dec_safe_kind tg _ = True"
| "dec_safe_fields [] = True"
| "dec_safe_fields (Field n tag t # fs) = (dec_safe tag t \<and> dec_safe_fields fs)"
  by pat_completeness auto
termination
  by (relation "measure (\<lambda>x. case x of
        Inl (tag, t) \<Rightarrow> 2 * size t + 1
      | Inr (Inl (tg, t)) \<Rightarrow> 2 * size t
      | Inr (Inr fs) \<Rightarrow> 2 * size_list size fs)") auto

declare dec_safe.simps [simp del]

section \<open>Progress\<close>

lemma emptyTag_fields [simp]:
  "\<not> hasCountPrefix emptyTag" "\<not> hasLenPrefix emptyTag" "\<not> optional emptyTag"
  "\<not> nullTerminated emptyTag" "quirk emptyTag = []"
  by (simp_all add: emptyTag_def)

lemma effective_quirk_empty [simp]: "effective_quirk emptyTag q = q"
  by (simp add: effective_quirk_def trim_space_def)

lemma unmarshal_None: "unmarshal ord None q t = unmarshalKind ord emptyTag q t"
  by (simp add: unmarshal.simps tag_eval)

lemma progress_in_buffer_prefix:
  assumes "hasLenPrefix tg" and "tag_inv tg"
  shows "progress (in_buffer tg ord p)"
  using assms
  by (auto simp: in_buffer_def tag_inv_def intro!: progress_pbind_left unmarshalUnsignedInt_laws)

lemma progress_repeat_n:
  assumes "0 < n" and "progress p" and "consumes p"
  shows "progress (repeat_n n p)"
  using assms by (cases n) (auto intro!: progress_pbind_left)

lemma progress_unmarshalSlice:
  assumes "hasLenPrefix tg \<or> hasCountPrefix tg" and "tag_inv tg" and "consumes p"
  shows "progress (unmarshalSlice tg ord p)"
  using assms
  by (auto simp: unmarshalSlice_def tag_inv_def
      intro!: progress_pbind_left unmarshalUnsignedInt_laws consumes_pbind)

lemma progress_pfail [simp, intro]: "progress (pfail e)"
  by (simp add: progress_def)

lemma progress_ppanic [simp, intro]: "progress ppanic"
  by (simp add: progress_def)

lemma progress_unmarshalString: "tag_inv tg \<Longrightarrow> progress (unmarshalString tg ord)"
  by (auto simp: unmarshalString_def tag_inv_def
      intro!: progress_pbind_left unmarshalUnsignedInt_laws consumes_pbind)

lemma unmarshal_progress_kind_fields:
  "prog_kind tg t \<Longrightarrow> tag_inv tg \<Longrightarrow> progress (unmarshalKind ord tg q t)"
  "prog_fields fs \<Longrightarrow> progress (unmarshalEachField ord q fs)"
proof (induction tg t and fs arbitrary: q and q rule: prog_kind_prog_fields.induct)
  case (1 tg n te)
  then have "progress (unmarshal ord None q te)" by (simp add: unmarshal_None)
  with 1 show ?case
    by (auto intro!: progress_pbind_left progress_repeat_n unmarshal_consumes_all)
next
  case (2 tg te)
  then show ?case
    by (auto intro!: progress_unmarshalSlice consumes_slice_element unmarshal_consumes_all)
next
  case (3 tg name fs)
  show ?case
  proof (cases "hasLenPrefix tg")
    case True
    with 3 show ?thesis by (auto intro: progress_in_buffer_prefix)
  next
    case False
    with 3 show ?thesis
      by (auto simp: in_buffer_def intro!: progress_pbind_left)
  qed
next
  case (7 n tag t fs)
  show ?case
  proof (cases "prog_fields fs")
    case True
    with 7 have p: "progress (unmarshalEachField ord q fs)" by simp
    have "progress (pbind (unmarshal ord tag q t)
        (\<lambda>v. pbind (unmarshalEachField ord q fs) (\<lambda>vs. pret (v # vs))))"
      by (intro progress_pbind_right progress_pbind_left p unmarshal_consumes_all consumes_pret)
    then show ?thesis by simp
  next
    case False
    have "progress (unmarshal ord tag q t)"
    proof (cases "parseOSCARTag tag")
      case (Ok tg)
      with 7 False have "prog_kind tg t" by simp
      with 7(1) [OF Ok] Ok show ?thesis
        by (auto simp: unmarshal.simps parseOSCARTag_inv)
    qed (auto simp: unmarshal.simps)
    then show ?thesis
      by (auto intro!: progress_pbind_left unmarshal_consumes_all consumes_pbind)
  qed
qed (auto intro!: progress_pbind_left progress_read_uint progress_unmarshalString)

lemma progress_slice_element:
  assumes "progress p"
  shows "progress (slice_element q ord t p)"
  unfolding quirk_defs
  by (intro progress_if progress_pbind_left consumes_rules read_uint_laws consumes_read_upto
      progress_read_uint assms) simp_all

section \<open>Safety\<close>

lemma safe_snd_const [intro]: "safe_out f \<Longrightarrow> safe (\<lambda>r. (f, r))"
  by (simp add: safe_def)

lemma safe_in_buffer [intro]:
  assumes "safe p" and "tag_inv tg"
  shows "safe (in_buffer tg ord p)"
proof (cases "hasLenPrefix tg")
  case True
  have "safe (\<lambda>r. (fst (p b), r))" for b
    using assms(1) by (simp add: safe_def)
  with True assms(2) show ?thesis
    by (auto simp: in_buffer_def tag_inv_def intro!: safe_pbind unmarshalUnsignedInt_laws)
qed (use assms in \<open>simp add: in_buffer_def\<close>)

lemma safe_slice_element [intro]:
  assumes "safe p"
  shows "safe (slice_element q ord t p)"
  unfolding quirk_defs by (intro safe_rules read_uint_laws safe_read_upto assms)

lemma safe_or_nil [intro]:
  assumes "safe p"
  shows "safe (or_nil p)"
  unfolding safe_def
proof
  fix r
  have "safe_out (fst (p r))" using assms by (simp add: safe_def)
  then show "safe_out (fst (or_nil p r))"
    by (cases "p r"; cases "fst (p r)") (auto simp: or_nil_def)
qed

lemma safe_unmarshalSlice:
  assumes "safe p" and "tag_inv tg" and "\<not> hasLenPrefix tg \<and> hasCountPrefix tg \<or> progress p"
  shows "safe (unmarshalSlice tg ord p)"
  using assms
  by (auto simp: unmarshalSlice_def tag_inv_def
      intro!: safe_pbind unmarshalUnsignedInt_laws until_eof_safe until_empty_safe safe_snd_const
        safe_repeat_n)

lemma safe_unmarshalString: "tag_inv tg \<Longrightarrow> safe (unmarshalString tg ord)"
  by (auto simp: unmarshalString_def tag_inv_def intro!: safe_pbind unmarshalUnsignedInt_laws)

lemma dec_safe_all:
  "dec_safe tag t \<Longrightarrow> safe (unmarshal ord tag q t)"
  "dec_safe_kind tg t \<Longrightarrow> tag_inv tg \<Longrightarrow> safe (unmarshalKind ord tg q t)"
  "dec_safe_fields fs \<Longrightarrow> safe (unmarshalEachField ord q fs)"
proof (induction tag t and tg t and fs arbitrary: q and q and q
    rule: dec_safe_dec_safe_kind_dec_safe_fields.induct)
  case (1 tag t)
  show ?case
  proof (cases "parseOSCARTag tag")
    case (Ok tg)
    with 1 show ?thesis
      by (auto simp: unmarshal.simps dec_safe.simps [of tag t] parseOSCARTag_inv)
  qed (use parseOSCARTag_safe [of tag] in \<open>auto simp: unmarshal.simps\<close>)
next
  case (2 tg n te)
  then show ?case by (auto intro!: safe_pbind)
next
  case (3 tg te)
  then show ?case
    using unmarshal_progress_kind_fields(1) [of emptyTag te ord q]
    by (auto simp: unmarshal_None intro!: safe_unmarshalSlice progress_slice_element)
next
  case (5 tg te)
  then show ?case
    by (cases te) (auto intro!: safe_or_nil)
qed (auto intro!: safe_pbind safe_in_buffer safe_unmarshalString)

end
