(* ===== verification/CodecRoundtrip.thy ===== *)
theory CodecRoundtrip
  imports CodecSafety
begin

text \<open>
  Decoding inverts encoding. \<open>rt_kind\<close> is a static check on a type and its tag, \<open>fits\<close> what a value
  has to satisfy: it has the type, its prefixed parts are short enough for their prefixes, and a
  null-terminated string holds no null. A type that only works at the end of the input (a slice
  without a prefix, an optional struct) passes the check with \<open>fin\<close> set.
\<close>

section \<open>The static check\<close>

text \<open>Element types that \<open>binary.Write\<close> and \<open>unmarshal\<close> treat alike.\<close>

fun plain :: "ty \<Rightarrow> bool" where
  "plain TU8 = True"
| "plain TU16 = True"
| "plain TU32 = True"
| "plain TU64 = True"
| "plain (TArray n te) = plain te"
| "plain _ = False"

text \<open>\<open>eof_kind\<close>: an empty input is an \<open>EOF\<close> for the type.\<close>

function (sequential) eof_kind :: "oscarTag \<Rightarrow> ty \<Rightarrow> bool" and eof_fields :: "field list \<Rightarrow> bool" where
  "eof_kind tg (TArray n te) = (0 < n \<and> eof_kind emptyTag te)"
| "eof_kind tg (TSlice te) = (hasLenPrefix tg \<or> hasCountPrefix tg)"
| "eof_kind tg (TStruct name fs) = (hasLenPrefix tg \<or> eof_fields fs)"
| "eof_kind tg TString = hasLenPrefix tg"
| "eof_kind tg (TPtr te) = False"
| "eof_kind tg TInterface = False"
| "eof_kind tg (TOther k) = False"
| "eof_kind tg _ = True"
| "eof_fields [] = False"
| "eof_fields (Field n tag t # fs) =
     (\<not> is_ptr t \<and>
      (case parseOSCARTag tag of Ok tg \<Rightarrow> \<not> optional tg \<and> eof_kind tg t | _ \<Rightarrow> False))"
  by pat_completeness auto
termination
  by (relation "measure (\<lambda>x. case x of Inl (tg, t) \<Rightarrow> size t | Inr fs \<Rightarrow> size_list size fs)") auto

function (sequential) rt_kind :: "bool \<Rightarrow> oscarTag \<Rightarrow> ty \<Rightarrow> bool"
  and rt_fields :: "bool \<Rightarrow> field list \<Rightarrow> bool" where
  "rt_kind fin tg TU8 = True"
| "rt_kind fin tg TU16 = True"
| "rt_kind fin tg TU32 = True"
| "rt_kind fin tg TU64 = True"
| "rt_kind fin tg TString = hasLenPrefix tg"
| "rt_kind fin tg (TArray n te) = (rt_kind False emptyTag te \<and> (is_struct te \<or> plain te))"
| "rt_kind fin tg (TSlice te) =
     (rt_kind False emptyTag te \<and> (is_struct te \<or> plain te) \<and>
      (if hasLenPrefix tg then eof_kind emptyTag te
       else if hasCountPrefix tg then True
       else fin \<and> eof_kind emptyTag te))"
| "rt_kind fin tg (TStruct name fs) =
     (name \<noteq> ''ICQMessageReplyEnvelope'' \<and> rt_fields (fin \<or> hasLenPrefix tg) fs)"
| "rt_kind fin tg (TPtr te) =
     (optional tg \<and> fin \<and> is_struct te \<and> rt_kind fin tg te \<and> eof_kind tg te)"
| "rt_kind fin tg TInterface = False"
| "rt_kind fin tg (TOther k) = False"
| "rt_fields fin [] = True"
| "rt_fields fin (Field n tag t # fs) =
     ((case parseOSCARTag tag of
         Ok tg \<Rightarrow> quirk tg = [] \<and> (optional tg \<longrightarrow> is_ptr t) \<and> rt_kind (fin \<and> fs = []) tg t
       | _ \<Rightarrow> False) \<and>
      (is_ptr t \<longrightarrow> fs = []) \<and> rt_fields fin fs)"
  by pat_completeness auto
termination
  by (relation "measure (\<lambda>x. case x of Inl (l, tg, t) \<Rightarrow> size t | Inr (l, fs) \<Rightarrow> size_list size fs)") auto

section \<open>Values that fit\<close>

definition prefix_max :: "prefix_kind \<Rightarrow> nat" where
  "prefix_max k = (case k of KUint8 \<Rightarrow> 256 | KUint16 \<Rightarrow> 65536 | KInvalid \<Rightarrow> 0)"

text \<open>The encoded elements of an array or slice, before any prefix.\<close>

definition elems_bytes :: "byte_order \<Rightarrow> ty \<Rightarrow> val list \<Rightarrow> bytes" where
  "elems_bytes ord te vs =
     fst (if is_struct te then marshalStructs ord te vs else binaryWrite ord te (VList vs))"

function (sequential) fits :: "byte_order \<Rightarrow> oscarTag \<Rightarrow> ty \<Rightarrow> val \<Rightarrow> bool"
  and fits_fields :: "byte_order \<Rightarrow> field list \<Rightarrow> val list \<Rightarrow> bool" where
  "fits ord tg TU8 v = (case v of VU8 _ \<Rightarrow> True | _ \<Rightarrow> False)"
| "fits ord tg TU16 v = (case v of VU16 _ \<Rightarrow> True | _ \<Rightarrow> False)"
| "fits ord tg TU32 v = (case v of VU32 _ \<Rightarrow> True | _ \<Rightarrow> False)"
| "fits ord tg TU64 v = (case v of VU64 _ \<Rightarrow> True | _ \<Rightarrow> False)"
| "fits ord tg TString v =
     (case v of
        VString s \<Rightarrow>
          (nullTerminated tg \<longrightarrow> 0 \<notin> set s) \<and>
          (if nullTerminated tg \<and> s \<noteq> [] then Suc (length s) else length s) < prefix_max (lenPrefix tg)
      | _ \<Rightarrow> False)"
| "fits ord tg (TArray n te) v =
     (case v of
        VList vs \<Rightarrow> length vs = n \<and> (\<forall>x \<in> set vs. fits ord emptyTag te x)
      | _ \<Rightarrow> False)"
| "fits ord tg (TSlice te) v =
     (case v of
        VList vs \<Rightarrow>
          (\<forall>x \<in> set vs. fits ord emptyTag te x) \<and>
          (hasLenPrefix tg \<longrightarrow> length (elems_bytes ord te vs) < prefix_max (lenPrefix tg)) \<and>
          (\<not> hasLenPrefix tg \<longrightarrow> hasCountPrefix tg \<longrightarrow> length vs < prefix_max (countPrefix tg))
      | _ \<Rightarrow> False)"
| "fits ord tg (TStruct name fs) v =
     (case v of
        VStruct vs \<Rightarrow>
          fits_fields ord fs vs \<and>
          (hasLenPrefix tg \<longrightarrow>
             length (fst (marshalEachField ord fs vs)) < prefix_max (lenPrefix tg))
      | _ \<Rightarrow> False)"
| "fits ord tg (TPtr te) v = (case v of VNil \<Rightarrow> True | VPtr p \<Rightarrow> fits ord tg te p | _ \<Rightarrow> False)"
| "fits ord tg TInterface v = False"
| "fits ord tg (TOther k) v = False"
| "fits_fields ord [] vs = (vs = [])"
| "fits_fields ord (Field n tag t # fs) vs =
     (case vs of
        [] \<Rightarrow> False
      | v # vs' \<Rightarrow>
          (case parseOSCARTag tag of Ok tg \<Rightarrow> fits ord tg t v | _ \<Rightarrow> False) \<and>
          fits_fields ord fs vs')"
  by pat_completeness auto
termination
  by (relation "measure (\<lambda>x. case x of
        Inl (ord, tg, t, v) \<Rightarrow> size t | Inr (ord, fs, vs) \<Rightarrow> size_list size fs)") auto

section \<open>Prefixes\<close>

lemma unmarshalUnsignedInt_put:
  assumes "k \<noteq> KInvalid" and "n < prefix_max k"
  shows "\<exists>bs. marshalUnsignedInt k n ord = (bs, Ok ()) \<and>
    (\<forall>r. unmarshalUnsignedInt k ord (bs @ r) = (Ok n, r))"
  using assms
  by (cases k)
     (auto simp: marshalUnsignedInt_def unmarshalUnsignedInt_def wput_def read_uint_def pbind_def
        read_full_append get_put_uint prefix_max_def)

lemma marshalUnsignedInt_Ok:
  assumes "k \<noteq> KInvalid"
  obtains bs where "marshalUnsignedInt k n ord = (bs, Ok ())"
  using assms by (cases k) (auto simp: marshalUnsignedInt_def wput_def)

section \<open>End of input\<close>

lemma eof_in_buffer:
  assumes "hasLenPrefix tg" and "tag_inv tg"
  shows "eof_on_empty (in_buffer tg ord p)"
  using assms by (auto simp: in_buffer_def tag_inv_def intro!: eof_pbind unmarshalUnsignedInt_laws)

lemma eof_repeat_n: "0 < n \<Longrightarrow> eof_on_empty p \<Longrightarrow> eof_on_empty (repeat_n n p)"
  by (cases n) (auto intro: eof_pbind)

lemma eof_all:
  "eof_kind tg t \<Longrightarrow> tag_inv tg \<Longrightarrow> eof_on_empty (unmarshalKind ord tg q t)"
  "eof_fields fs \<Longrightarrow> eof_on_empty (unmarshalEachField ord q fs)"
proof (induction tg t and fs arbitrary: q and q rule: eof_kind_eof_fields.induct)
  case (1 tg n te)
  then show ?case by (auto simp: unmarshal_None intro!: eof_pbind eof_repeat_n)
next
  case (2 tg te)
  then show ?case
    by (auto simp: unmarshalSlice_def tag_inv_def intro!: eof_pbind unmarshalUnsignedInt_laws)
next
  case (3 tg name fs)
  show ?case
  proof (cases "hasLenPrefix tg")
    case True
    with 3 show ?thesis by (auto intro: eof_in_buffer)
  next
    case False
    with 3 show ?thesis by (auto simp: in_buffer_def intro!: eof_pbind)
  qed
next
  case (4 tg)
  then show ?case
    by (auto simp: unmarshalString_def tag_inv_def intro!: eof_pbind unmarshalUnsignedInt_laws)
next
  case (10 n tag t fs)
  then obtain tg where tg: "parseOSCARTag tag = Ok tg" and k: "eof_kind tg t"
    and np: "\<not> is_ptr t" and no: "\<not> optional tg"
    by (auto split: outcome.splits)
  have "eof_on_empty (unmarshal ord tag q t)"
    using 10(1) [OF tg k parseOSCARTag_inv [OF tg]] tg no by (simp add: unmarshal.simps)
  then have "eof_on_empty (pbind (unmarshal ord tag q t)
      (\<lambda>v. pbind (unmarshalEachField ord q fs) (\<lambda>vs. pret (v # vs))))"
    by (rule eof_pbind)
  with np show ?case by simp
qed (auto intro!: eof_pbind eof_read_uint)

section \<open>Elements\<close>

lemma plain_not_struct: "plain t \<Longrightarrow> \<not> is_struct t \<and> fixed_size t"
  by (induction t rule: plain.induct) auto

text \<open>Elements of a fixed size, through \<open>binary.Write\<close>.\<close>

lemma read_uint_put:
  "x < 256 ^ n \<Longrightarrow> read_uint ord n (put_uint ord n x @ r) = (Ok x, r)"
  by (simp add: read_uint_def pbind_def read_full_append get_put_uint)

lemma unat_u8_lt: "unat (x :: u8) < 256 ^ 1"
  using unsigned_less [of x, where ?'a = nat] by simp

lemma unat_u16_lt: "unat (x :: u16) < 256 ^ 2"
  using unsigned_less [of x, where ?'a = nat] by simp

lemma unat_u32_lt: "unat (x :: u32) < 256 ^ 4"
  using unsigned_less [of x, where ?'a = nat] by simp

lemma unat_u64_lt: "unat (x :: u64) < 256 ^ 8"
  using unsigned_less [of x, where ?'a = nat] by simp

lemma uint_reads:
  "pbind (read_uint ord 1) f (put_uint ord 1 (unat (x8 :: u8)) @ r) = f (unat x8) r"
  "pbind (read_uint ord 2) f (put_uint ord 2 (unat (x16 :: u16)) @ r) = f (unat x16) r"
  "pbind (read_uint ord 4) f (put_uint ord 4 (unat (x32 :: u32)) @ r) = f (unat x32) r"
  "pbind (read_uint ord 8) f (put_uint ord 8 (unat (x64 :: u64)) @ r) = f (unat x64) r"
  by (simp_all only: pbind_def read_uint_put [OF unat_u8_lt] read_uint_put [OF unat_u16_lt]
      read_uint_put [OF unat_u32_lt] read_uint_put [OF unat_u64_lt] prod.case outcome.case)

lemmas uint_reads_all = uint_reads uint_reads(1) [unfolded One_nat_def]
  uint_reads [where r = "[]", unfolded append_Nil2]
  uint_reads(1) [where r = "[]", unfolded append_Nil2 One_nat_def]

lemma plain_roundtrip:
  assumes "plain t" and "fits ord tg t v"
  shows "unmarshalKind ord tg' q t (binary_bytes ord v @ r) = (Ok v, r)"
  using assms
proof (induction t arbitrary: tg tg' v r rule: plain.induct)
  case (5 n te)
  from 5(3) obtain vs where v: "v = VList vs" and n: "length vs = n"
    and f: "\<forall>x \<in> set vs. fits ord emptyTag te x"
    by (auto split: val.splits)
  have "repeat_n (length vs) (unmarshal ord None q te) (concat (map (binary_bytes ord) vs) @ r)
      = (Ok vs, r)"
    by (rule repeat_n_concat) (use 5 f in \<open>auto simp: unmarshal_None\<close>)
  then show ?case by (simp add: v n pbind_def)
qed (auto split: val.splits simp: uint_reads_all)

text \<open>\<open>codes_at fin m p v\<close>: the writer \<open>m\<close> succeeds, and \<open>p\<close> reads \<open>v\<close> back from what it wrote and
  stops there; when \<open>fin\<close> is set, only if nothing follows.\<close>

definition codes_at :: "bool \<Rightarrow> writer \<Rightarrow> 'a parser \<Rightarrow> 'a \<Rightarrow> bool" where
  "codes_at fin m p v \<longleftrightarrow>
     (\<exists>bs. m = (bs, Ok ()) \<and> (\<forall>r. \<not> fin \<or> r = [] \<longrightarrow> p (bs @ r) = (Ok v, r)))"

lemma codes_atI:
  "m = (bs, Ok ()) \<Longrightarrow> (\<And>r. \<not> fin \<or> r = [] \<Longrightarrow> p (bs @ r) = (Ok v, r)) \<Longrightarrow> codes_at fin m p v"
  by (auto simp: codes_at_def)

lemma codes_at_weaken: "codes_at False m p v \<Longrightarrow> codes_at fin m p v"
  by (auto simp: codes_at_def)

lemma codes_at_map:
  assumes "codes_at fin m p v"
  shows "codes_at fin m (pbind p (\<lambda>x. pret (f x))) (f v)"
  using assms by (auto simp: codes_at_def pbind_def)

lemma codes_at_nonempty:
  assumes "codes_at fin m p v" and "eof_on_empty p"
  shows "fst m \<noteq> []"
  using assms by (auto simp: codes_at_def eof_on_empty_def)

lemma codes_at_seq:
  assumes "codes_at False m p v" and "codes_at fin m' p' vs"
  shows "codes_at fin (wseq m m') (pbind p (\<lambda>x. pbind p' (\<lambda>xs. pret (x # xs)))) (v # vs)"
  using assms by (auto simp: codes_at_def pbind_def wseq_def)

lemma wput_unless: "(if buf = [] then wok else wput buf) = (buf, Ok ())"
  by (simp add: wok_def wput_def)

lemma marshalSliceBuf_eq:
  "marshalSliceBuf tg n ord buf =
     wseq (if hasLenPrefix tg then marshalUnsignedInt (lenPrefix tg) (length buf) ord
           else if hasCountPrefix tg then marshalUnsignedInt (countPrefix tg) n ord
           else wok) (buf, Ok ())"
  by (simp add: marshalSliceBuf_def wput_unless)

text \<open>The elements of an array or slice, written by either route.\<close>

lemma elems_code:
  assumes "is_struct te \<or> plain te" and "\<forall>x \<in> set vs. fits ord emptyTag te x"
    and "\<And>x. x \<in> set vs \<Longrightarrow> codes_at False (marshalKind ord emptyTag te x) (unmarshalKind ord emptyTag [] te) x"
  shows "\<exists>enc. (if is_struct te then marshalStructs ord te vs else binaryWrite ord te (VList vs))
      = (concat (map enc vs), Ok ()) \<and>
    (\<forall>x r. x \<in> set vs \<longrightarrow> unmarshal ord None [] te (enc x @ r) = (Ok x, r))"
proof (cases "is_struct te")
  case True
  define enc where "enc x = fst (marshalStruct ord emptyTag te x)" for x
  have kind: "marshalKind ord emptyTag te x = marshalStruct ord emptyTag te x" for x
    using True by (cases te) (simp_all add: marshalKind.simps)
  have m: "marshalStruct ord emptyTag te x = (enc x, Ok ())"
    "unmarshal ord None [] te (enc x @ r) = (Ok x, r)" if "x \<in> set vs" for x r
    using assms(3) [OF that] by (auto simp: kind codes_at_def enc_def unmarshal_None)
  have "marshalStructs ord te xs = (concat (map enc xs), Ok ())" if "set xs \<subseteq> set vs" for xs
    using that by (induction xs) (auto simp: m wseq_def wok_def)
  with True m(2) show ?thesis by auto
next
  case False
  with assms(1) have p: "plain te" by simp
  have "binaryWrite ord te (VList vs) = (concat (map (binary_bytes ord) vs), Ok ())"
    using plain_not_struct [OF p] by (simp add: binaryWrite_def wput_def)
  moreover have "unmarshal ord None [] te (binary_bytes ord x @ r) = (Ok x, r)" if "x \<in> set vs" for x r
    using plain_roundtrip [OF p, where tg = emptyTag] assms(2) that by (simp add: unmarshal_None)
  ultimately show ?thesis using False by (intro exI [of _ "binary_bytes ord"]) auto
qed

lemma slice_element_no_quirk [simp]: "slice_element [] ord t p = p"
  by (simp add: slice_element_def)

text \<open>Slices: one argument for each of the three shapes.\<close>

lemma slice_codes:
  assumes el: "(\<And>x r. x \<in> set vs \<Longrightarrow> p (enc x @ r) = (Ok x, r))"
    and inv: "tag_inv tg"
    and len: "hasLenPrefix tg \<longrightarrow>
      length (concat (map enc vs)) < prefix_max (lenPrefix tg) \<and> eof_on_empty p"
    and cnt: "\<not> hasLenPrefix tg \<longrightarrow> hasCountPrefix tg \<longrightarrow> length vs < prefix_max (countPrefix tg)"
    and none: "\<not> hasLenPrefix tg \<longrightarrow> \<not> hasCountPrefix tg \<longrightarrow> fin \<and> eof_on_empty p"
  shows "codes_at fin (marshalSliceBuf tg (length vs) ord (concat (map enc vs)))
    (unmarshalSlice tg ord p) (VList vs)"
proof -
  let ?buf = "concat (map enc vs)"
  have ne: "enc x \<noteq> []" if "eof_on_empty p" "x \<in> set vs" for x
    using el [OF that(2), of "[]"] that(1) by (auto simp: eof_on_empty_def)
  consider (len) "hasLenPrefix tg" | (cnt) "\<not> hasLenPrefix tg" "hasCountPrefix tg"
    | (none) "\<not> hasLenPrefix tg" "\<not> hasCountPrefix tg" by blast
  then show ?thesis
  proof cases
    case len
    then have "lenPrefix tg \<noteq> KInvalid" using inv by (simp add: tag_inv_def)
    then obtain bs where bs: "marshalUnsignedInt (lenPrefix tg) (length ?buf) ord = (bs, Ok ())"
      "\<And>r. unmarshalUnsignedInt (lenPrefix tg) ord (bs @ r) = (Ok (length ?buf), r)"
      using unmarshalUnsignedInt_put [of "lenPrefix tg" "length ?buf" ord] assms(3) len by auto
    have u: "until_empty p ?buf = Ok vs"
      by (rule until_empty_concat) (use el ne assms(3) len in auto)
    show ?thesis
      by (rule codes_atI [of _ "bs @ ?buf"])
         (use len bs u in \<open>simp_all add: marshalSliceBuf_eq wseq_def unmarshalSlice_def
            pbind_def read_full_append\<close>)
  next
    case cnt
    then have "countPrefix tg \<noteq> KInvalid" using inv by (simp add: tag_inv_def)
    then obtain bs where bs: "marshalUnsignedInt (countPrefix tg) (length vs) ord = (bs, Ok ())"
      "\<And>r. unmarshalUnsignedInt (countPrefix tg) ord (bs @ r) = (Ok (length vs), r)"
      using unmarshalUnsignedInt_put [of "countPrefix tg" "length vs" ord] assms(4) cnt by auto
    have u: "repeat_n (length vs) p (?buf @ r) = (Ok vs, r)" for r
      by (rule repeat_n_concat) (use el in auto)
    show ?thesis
      by (rule codes_atI [of _ "bs @ ?buf"])
         (use cnt bs u in \<open>simp_all add: marshalSliceBuf_eq wseq_def unmarshalSlice_def
            pbind_def\<close>)
  next
    case none
    with assms(5) have eof: "eof_on_empty p" and fin: fin by auto
    have u: "until_eof p ?buf = (Ok vs, [])"
      by (rule until_eof_concat) (use el ne eof in auto)
    show ?thesis
      by (rule codes_atI [of _ ?buf])
         (use none u fin in \<open>simp_all add: marshalSliceBuf_eq wok_def wseq_def
            unmarshalSlice_def pbind_def\<close>)
  qed
qed

section \<open>The round trip\<close>

text \<open>A struct, once its fields are known to round trip: directly, or behind a length prefix.\<close>

lemma struct_codes:
  assumes fs: "codes_at (fin \<or> hasLenPrefix tg) (marshalEachField ord fs vs) (unmarshalEachField ord [] fs) vs"
    and inv: "tag_inv tg" and name: "name \<noteq> ''ICQMessageReplyEnvelope''"
    and len: "hasLenPrefix tg \<longrightarrow> length (fst (marshalEachField ord fs vs)) < prefix_max (lenPrefix tg)"
  shows "codes_at fin (marshalStruct ord tg (TStruct name fs) (VStruct vs))
    (unmarshalStruct ord tg [] (TStruct name fs)) (VStruct vs)"
proof (cases "hasLenPrefix tg")
  case True
  from fs True obtain bs where m: "marshalEachField ord fs vs = (bs, Ok ())"
    and u: "unmarshalEachField ord [] fs bs = (Ok vs, [])"
    by (auto simp: codes_at_def)
  have "lenPrefix tg \<noteq> KInvalid" using inv True by (simp add: tag_inv_def)
  then obtain ps where ps: "marshalUnsignedInt (lenPrefix tg) (length bs) ord = (ps, Ok ())"
    "\<And>r. unmarshalUnsignedInt (lenPrefix tg) ord (ps @ r) = (Ok (length bs), r)"
    using unmarshalUnsignedInt_put [of "lenPrefix tg" "length bs" ord] len True m by auto
  show ?thesis
    by (rule codes_atI [of _ "ps @ bs"])
       (use True m u ps name in \<open>simp_all add: marshalStruct.simps wbuffered_def marshalStructBuf_def
          wput_unless wseq_def in_buffer_def pbind_def read_full_append struct_order_def\<close>)
next
  case False
  then have "marshalStruct ord tg (TStruct name fs) (VStruct vs) = marshalEachField ord fs vs"
    using name by (simp add: marshalStruct.simps struct_order_def)
  then show ?thesis
    using codes_at_map [OF fs, of VStruct] False by (simp add: in_buffer_def)
qed

lemma string_codes:
  assumes "hasLenPrefix tg" and "tag_inv tg" and "fits ord tg TString (VString s)"
  shows "codes_at fin (marshalString tg s ord) (unmarshalString tg ord) (VString s)"
proof -
  define str where "str = (if nullTerminated tg \<and> s \<noteq> [] then s @ [0] else s)"
  have k: "lenPrefix tg \<noteq> KInvalid" using assms(1,2) by (simp add: tag_inv_def)
  have l: "length str < prefix_max (lenPrefix tg)" using assms(3) by (auto simp: str_def split: if_splits)
  obtain ps where ps: "marshalUnsignedInt (lenPrefix tg) (length str) ord = (ps, Ok ())"
    "\<And>r. unmarshalUnsignedInt (lenPrefix tg) ord (ps @ r) = (Ok (length str), r)"
    using unmarshalUnsignedInt_put [OF k l, of ord] by auto
  have "takeWhile (\<lambda>b. b \<noteq> 0) s = s" if "nullTerminated tg"
    using assms(3) that by (auto simp: takeWhile_eq_all_conv)
  then have t: "(if nullTerminated tg then takeWhile (\<lambda>b. b \<noteq> 0) str else str) = s"
    using assms(3) by (auto simp: str_def takeWhile_append2)
  show ?thesis
    by (rule codes_atI [of _ "ps @ str"])
       (use assms(1) ps t in \<open>simp_all add: marshalString_def Let_def str_def [symmetric] wput_unless
          wseq_def unmarshalString_def pbind_def read_full_append\<close>)
qed

lemma codec_roundtrip_kind:
  "rt_kind fin tg t \<Longrightarrow> fits ord tg t v \<Longrightarrow> tag_inv tg \<Longrightarrow>
     codes_at fin (marshalKind ord tg t v) (unmarshalKind ord tg [] t) v"
  and codec_roundtrip_fields:
  "rt_fields fin fs \<Longrightarrow> fits_fields ord fs vs \<Longrightarrow>
     codes_at fin (marshalEachField ord fs vs) (unmarshalEachField ord [] fs) vs"
proof (induction fin tg t and fin fs arbitrary: v and vs rule: rt_kind_rt_fields.induct)
  case (5 fin tg)
  then obtain s where "v = VString s" by (auto split: val.splits)
  with 5 string_codes show ?case by (simp add: marshalKind.simps)
next
  case (6 fin tg n te)
  from 6(3) obtain vs where v: "v = VList vs" and n: "length vs = n"
    and f: "\<forall>x \<in> set vs. fits ord emptyTag te x"
    by (auto split: val.splits)
  obtain enc where enc:
    "(if is_struct te then marshalStructs ord te vs else binaryWrite ord te (VList vs))
       = (concat (map enc vs), Ok ())"
    "\<And>x r. x \<in> set vs \<Longrightarrow> unmarshal ord None [] te (enc x @ r) = (Ok x, r)"
    using elems_code [of te vs ord] 6 f by auto
  have "repeat_n n (unmarshal ord None [] te) (concat (map enc vs) @ r) = (Ok vs, r)" for r
    using repeat_n_concat [of vs "unmarshal ord None [] te" enc r] enc(2) n by simp
  then show ?case
    by (intro codes_atI [of _ "concat (map enc vs)"])
       (use enc(1) v in \<open>simp_all add: marshalKind.simps pbind_def\<close>)
next
  case (7 fin tg te)
  from 7(3) obtain vs where v: "v = VList vs" and f: "\<forall>x \<in> set vs. fits ord emptyTag te x"
    and l: "hasLenPrefix tg \<longrightarrow> length (elems_bytes ord te vs) < prefix_max (lenPrefix tg)"
    and c: "\<not> hasLenPrefix tg \<longrightarrow> hasCountPrefix tg \<longrightarrow> length vs < prefix_max (countPrefix tg)"
    by (auto split: val.splits)
  obtain enc where enc:
    "(if is_struct te then marshalStructs ord te vs else binaryWrite ord te (VList vs))
       = (concat (map enc vs), Ok ())"
    "\<And>x r. x \<in> set vs \<Longrightarrow> unmarshal ord None [] te (enc x @ r) = (Ok x, r)"
    using elems_code [of te vs ord] 7 f by auto
  have eof: "eof_on_empty (unmarshal ord None [] te)" if "eof_kind emptyTag te"
    using eof_all(1) [OF that] by (simp add: unmarshal_None)
  have "codes_at fin (marshalSliceBuf tg (length vs) ord (concat (map enc vs)))
      (unmarshalSlice tg ord (unmarshal ord None [] te)) (VList vs)"
    by (rule slice_codes) (use enc 7 l c eof in \<open>auto simp: elems_bytes_def\<close>)
  with enc(1) v show ?case by (simp add: marshalKind.simps wbuffered_def)
next
  case (8 fin tg name fs)
  from 8(3) obtain vs where v: "v = VStruct vs" and f: "fits_fields ord fs vs"
    and l: "hasLenPrefix tg \<longrightarrow> length (fst (marshalEachField ord fs vs)) < prefix_max (lenPrefix tg)"
    by (auto split: val.splits)
  have "codes_at fin (marshalStruct ord tg (TStruct name fs) (VStruct vs))
      (unmarshalStruct ord tg [] (TStruct name fs)) (VStruct vs)"
    by (rule struct_codes) (use 8 f l in auto)
  with v show ?case by (simp add: marshalKind.simps)
next
  case (9 fin tg te)
  then have opt: "optional tg" and lst: fin and st: "is_struct te" and eof: "eof_kind tg te" by auto
  from st obtain name fs where te: "te = TStruct name fs" by (cases te) auto
  show ?case
  proof (cases v)
    case VNil
    have "unmarshalKind ord tg [] te [] = (Err EOF, [])"
      using eof_all(1) [OF eof 9(4), of ord "[]"] by (simp add: eof_on_empty_def)
    with VNil opt lst te show ?thesis
      by (intro codes_atI [of _ "[]"]) (auto simp: marshalKind.simps wok_def or_nil_def)
  next
    case (VPtr p)
    with 9 have "codes_at fin (marshalKind ord tg te p) (unmarshalKind ord tg [] te) p" by auto
    then have "codes_at fin (marshalStruct ord tg te p) (unmarshalStruct ord tg [] te) p"
      by (simp add: te marshalKind.simps)
    with VPtr opt lst show ?thesis
      by (auto simp: codes_at_def marshalKind.simps or_nil_def)
  qed (use 9(3) in auto)
next
  case (12 fin)
  then show ?case by (intro codes_atI [of _ "[]"]) (auto simp: wok_def)
next
  case (13 fin n tag t fs)
  then obtain tg where tg: "parseOSCARTag tag = Ok tg" and q: "quirk tg = []"
    and o: "optional tg \<longrightarrow> is_ptr t" and k: "rt_kind (fin \<and> fs = []) tg t"
    and p: "is_ptr t \<longrightarrow> fs = []" and rest: "rt_fields fin fs"
    by (auto split: outcome.splits)
  from 13(4) tg obtain w ws where vs: "vs = w # ws" and fw: "fits ord tg t w"
    and fws: "fits_fields ord fs ws"
    by (auto split: list.splits)
  have "codes_at (fin \<and> fs = []) (marshalKind ord tg t w) (unmarshalKind ord tg [] t) w"
    by (rule 13(1) [OF tg k fw parseOSCARTag_inv [OF tg]])
  then have first: "codes_at (fin \<and> fs = []) (marshal ord tag t w) (unmarshal ord tag [] t) w"
    using tg o q by (auto simp: marshal.simps unmarshal.simps effective_quirk_def trim_space_def)
  have ptr: "is_ptr t \<Longrightarrow> is_struct (ptr_elem t)" using k by (cases t) auto
  have later: "codes_at fin (marshalEachField ord fs ws) (unmarshalEachField ord [] fs) ws"
    by (rule 13(2) [OF rest fws])
  have "codes_at fin (wseq (marshal ord tag t w) (marshalEachField ord fs ws))
      (pbind (unmarshal ord tag [] t) (\<lambda>x. pbind (unmarshalEachField ord [] fs) (\<lambda>xs. pret (x # xs)))) (w # ws)"
  proof (cases "fs = []")
    case True
    then have "ws = []" using fws by simp
    with True first show ?thesis by (auto simp: codes_at_def wok_def wseq_def pbind_def)
  next
    case False
    with first later show ?thesis by (auto intro: codes_at_seq)
  qed
  with vs p ptr show ?case by auto
qed (auto split: val.splits simp: marshalKind.simps binaryWrite_def wput_def uint_reads_all
    intro!: codes_atI)

text \<open>The same for a value that is marshalled on its own, as the callers do.\<close>

lemma code_BE:
  assumes "rt_kind fin emptyTag t" and "fits BigEndian emptyTag t v"
  shows "codes_at fin (MarshalBE (Some (t, v))) (UnmarshalBE t) v"
  using codec_roundtrip_kind [OF assms]
  by (simp add: MarshalBE_def UnmarshalBE_def marshal.simps tag_eval unmarshal_None)

end
