(* ===== verification/Messages.thy ===== *)
theory Messages
  imports CodecRoundtrip
begin

text \<open>
  The message types of \<open>wire/tlv.go\<close>, \<open>wire/frames.go\<close> and \<open>wire/snacs.go\<close> as type descriptors:
  one definition per Go struct, with its fields, their \<open>oscar\<close> tags and their types in source order.
  An embedded struct is a field named after its type, an anonymous struct has the empty name.
  \<open>FlapClient\<close>, which is never marshalled, has its model in theory Frames.
\<close>

section \<open>Building blocks and frames\<close>

definition TLVList_ty :: ty where
  "TLVList_ty = TSlice tlv_ty"

definition TLVRestBlock_ty :: ty where
  "TLVRestBlock_ty = TStruct ''TLVRestBlock''
     [Field ''TLVList'' None TLVList_ty]"

definition TLVBlock_ty :: ty where
  "TLVBlock_ty = TStruct ''TLVBlock''
     [Field ''TLVList'' (Some ''count_prefix=uint16'') TLVList_ty]"

definition TLVLBlock_ty :: ty where
  "TLVLBlock_ty = TStruct ''TLVLBlock''
     [Field ''TLVList'' (Some ''len_prefix=uint16'') TLVList_ty]"

definition SNACError_ty :: ty where
  "SNACError_ty = TStruct ''SNACError''
     [Field ''Code'' None TU16,
      Field ''TLVRestBlock'' None TLVRestBlock_ty]"

definition FLAPFrame_ty :: ty where
  "FLAPFrame_ty = TStruct ''FLAPFrame''
     [Field ''StartMarker'' None TU8,
      Field ''FrameType'' None TU8,
      Field ''Sequence'' None TU16,
      Field ''Payload'' (Some ''len_prefix=uint16'') (TSlice TU8)]"

definition FLAPFrameDisconnect_ty :: ty where
  "FLAPFrameDisconnect_ty = TStruct ''FLAPFrameDisconnect''
     [Field ''StartMarker'' None TU8,
      Field ''FrameType'' None TU8,
      Field ''Sequence'' None TU16]"

definition SNACFrame_ty :: ty where
  "SNACFrame_ty = TStruct ''SNACFrame''
     [Field ''FoodGroup'' None TU16,
      Field ''SubGroup'' None TU16,
      Field ''Flags'' None TU16,
      Field ''RequestID'' None TU32]"

definition FLAPSignonFrame_ty :: ty where
  "FLAPSignonFrame_ty = TStruct ''FLAPSignonFrame''
     [Field ''FLAPVersion'' None TU32,
      Field ''TLVRestBlock'' None TLVRestBlock_ty]"

definition SNACMessage_ty :: ty where
  "SNACMessage_ty = TStruct ''SNACMessage''
     [Field ''Frame'' None SNACFrame_ty,
      Field ''Body'' None TInterface]"

definition MultiConnFlag_ty :: ty where
  "MultiConnFlag_ty = TU8"

definition RateParamsSNAC_ty :: ty where
  "RateParamsSNAC_ty = TStruct ''RateParamsSNAC''
     [Field ''ID'' None TU16,
      Field ''WindowSize'' None TU32,
      Field ''ClearLevel'' None TU32,
      Field ''AlertLevel'' None TU32,
      Field ''LimitLevel'' None TU32,
      Field ''DisconnectLevel'' None TU32,
      Field ''CurrentLevel'' None TU32,
      Field ''MaxLevel'' None TU32,
      Field ''V2Params'' (Some ''optional'') (TPtr (TStruct '''' [Field ''LastTime'' None TU32,
      Field ''DroppingSNACs'' None TU8]))]"

definition TLVUserInfo_ty :: ty where
  "TLVUserInfo_ty = TStruct ''TLVUserInfo''
     [Field ''ScreenName'' (Some ''len_prefix=uint8'') TString,
      Field ''WarningLevel'' None TU16,
      Field ''TLVBlock'' None TLVBlock_ty]"

definition BARTInfo_ty :: ty where
  "BARTInfo_ty = TStruct ''BARTInfo''
     [Field ''Flags'' None TU8,
      Field ''Hash'' (Some ''len_prefix=uint8'') (TSlice TU8)]"

definition BARTID_ty :: ty where
  "BARTID_ty = TStruct ''BARTID''
     [Field ''Type'' None TU16,
      Field ''BARTInfo'' None BARTInfo_ty]"

definition BartQueryReplyID_ty :: ty where
  "BartQueryReplyID_ty = TStruct ''BartQueryReplyID''
     [Field ''QueryID'' None BARTID_ty,
      Field ''Code'' None TU8,
      Field ''ReplyID'' None BARTID_ty]"

definition ODirKeywordListItem_ty :: ty where
  "ODirKeywordListItem_ty = TStruct ''ODirKeywordListItem''
     [Field ''Type'' None TU8,
      Field ''ID'' None TU8,
      Field ''Name'' (Some ''len_prefix=uint16'') TString]"

definition bartStatus_ty :: ty where
  "bartStatus_ty = TStruct ''bartStatus''
     [Field ''Status'' (Some ''len_prefix=uint16'') TString,
      Field ''IDs'' (Some ''len_prefix=uint16'') (TSlice BARTID_ty)]"

definition FeedbagPDMode_ty :: ty where
  "FeedbagPDMode_ty = TU8"

definition FeedbagItem_ty :: ty where
  "FeedbagItem_ty = TStruct ''FeedbagItem''
     [Field ''Name'' (Some ''len_prefix=uint16'') TString,
      Field ''GroupID'' None TU16,
      Field ''ItemID'' None TU16,
      Field ''ClassID'' None TU16,
      Field ''TLVLBlock'' None TLVLBlock_ty]"

definition FeedbagExtendedInfo_ty :: ty where
  "FeedbagExtendedInfo_ty = TStruct ''FeedbagExtendedInfo'' []"

definition ICQDCInfo_ty :: ty where
  "ICQDCInfo_ty = TStruct ''ICQDCInfo''
     [Field ''IP'' None TU32,
      Field ''Port'' None TU32,
      Field ''DCType'' None TU8,
      Field ''ProtoVersion'' None TU16,
      Field ''AuthCookie'' None TU32,
      Field ''WebPort'' None TU32,
      Field ''ClientFutures'' None TU32,
      Field ''LastUpdateTime'' None TU32,
      Field ''LastExtInfoUpdateTime'' None TU32,
      Field ''LastExtStatusUpdateTime'' None TU32,
      Field ''Unknown'' None TU16]"

section \<open>oservice (0x01)\<close>

definition SNAC_0x01_0x02_OServiceClientOnline_ty :: ty where
  "SNAC_0x01_0x02_OServiceClientOnline_ty = TStruct ''SNAC_0x01_0x02_OServiceClientOnline''
     [Field ''GroupVersions'' None (TSlice (TStruct '''' [Field ''FoodGroup'' None TU16,
      Field ''Version'' None TU16,
      Field ''ToolID'' None TU16,
      Field ''ToolVersion'' None TU16]))]"

definition SNAC_0x01_0x03_OServiceHostOnline_ty :: ty where
  "SNAC_0x01_0x03_OServiceHostOnline_ty = TStruct ''SNAC_0x01_0x03_OServiceHostOnline''
     [Field ''FoodGroups'' None (TSlice TU16)]"

definition SNAC_0x01_0x04_OServiceServiceRequest_ty :: ty where
  "SNAC_0x01_0x04_OServiceServiceRequest_ty = TStruct ''SNAC_0x01_0x04_OServiceServiceRequest''
     [Field ''FoodGroup'' None TU16,
      Field ''TLVRestBlock'' None TLVRestBlock_ty]"

definition SNAC_0x01_0x04_TLVRoomInfo_ty :: ty where
  "SNAC_0x01_0x04_TLVRoomInfo_ty = TStruct ''SNAC_0x01_0x04_TLVRoomInfo''
     [Field ''Exchange'' None TU16,
      Field ''Cookie'' (Some ''len_prefix=uint8'') TString,
      Field ''InstanceNumber'' None TU16]"

definition SNAC_0x01_0x05_OServiceServiceResponse_ty :: ty where
  "SNAC_0x01_0x05_OServiceServiceResponse_ty = TStruct ''SNAC_0x01_0x05_OServiceServiceResponse''
     [Field ''TLVRestBlock'' None TLVRestBlock_ty]"

definition SNAC_0x01_0x07_OServiceRateParamsReply_ty :: ty where
  "SNAC_0x01_0x07_OServiceRateParamsReply_ty = TStruct ''SNAC_0x01_0x07_OServiceRateParamsReply''
     [Field ''RateClasses'' (Some ''count_prefix=uint16'') (TSlice RateParamsSNAC_ty),
      Field ''RateGroups'' None (TSlice (TStruct '''' [Field ''ID'' None TU16,
      Field ''Pairs'' (Some ''count_prefix=uint16'') (TSlice (TStruct '''' [Field ''FoodGroup'' None TU16,
      Field ''SubGroup'' None TU16]))]))]"

definition SNAC_0x01_0x0A_OServiceRateParamsChange_ty :: ty where
  "SNAC_0x01_0x0A_OServiceRateParamsChange_ty = TStruct ''SNAC_0x01_0x0A_OServiceRateParamsChange''
     [Field ''Code'' None TU16,
      Field ''Rate'' None RateParamsSNAC_ty]"

definition SNAC_0x01_0x08_OServiceRateParamsSubAdd_ty :: ty where
  "SNAC_0x01_0x08_OServiceRateParamsSubAdd_ty = TStruct ''SNAC_0x01_0x08_OServiceRateParamsSubAdd''
     [Field ''ClassIDs'' None (TSlice TU16)]"

definition SNAC_0x01_0x0F_OServiceUserInfoUpdate_ty :: ty where
  "SNAC_0x01_0x0F_OServiceUserInfoUpdate_ty = TStruct ''SNAC_0x01_0x0F_OServiceUserInfoUpdate''
     [Field ''UserInfo'' None (TSlice TLVUserInfo_ty)]"

definition SNAC_0x01_0x10_OServiceEvilNotification_ty :: ty where
  "SNAC_0x01_0x10_OServiceEvilNotification_ty = TStruct ''SNAC_0x01_0x10_OServiceEvilNotification''
     [Field ''NewEvil'' None TU16,
      Field ''Snitcher'' (Some ''optional'') (TPtr (TStruct '''' [Field ''TLVUserInfo'' None TLVUserInfo_ty]))]"

definition SNAC_0x01_0x11_OServiceIdleNotification_ty :: ty where
  "SNAC_0x01_0x11_OServiceIdleNotification_ty = TStruct ''SNAC_0x01_0x11_OServiceIdleNotification''
     [Field ''IdleTime'' None TU32]"

definition SNAC_0x01_0x13_OServiceMOTD_ty :: ty where
  "SNAC_0x01_0x13_OServiceMOTD_ty = TStruct ''SNAC_0x01_0x13_OServiceMOTD''
     [Field ''MessageType'' None TU16,
      Field ''TLVRestBlock'' None TLVRestBlock_ty]"

definition SNAC_0x01_0x14_OServiceSetPrivacyFlags_ty :: ty where
  "SNAC_0x01_0x14_OServiceSetPrivacyFlags_ty = TStruct ''SNAC_0x01_0x14_OServiceSetPrivacyFlags''
     [Field ''PrivacyFlags'' None TU32]"

definition SNAC_0x01_0x17_OServiceClientVersions_ty :: ty where
  "SNAC_0x01_0x17_OServiceClientVersions_ty = TStruct ''SNAC_0x01_0x17_OServiceClientVersions''
     [Field ''Versions'' None (TSlice TU16)]"

definition SNAC_0x01_0x18_OServiceHostVersions_ty :: ty where
  "SNAC_0x01_0x18_OServiceHostVersions_ty = TStruct ''SNAC_0x01_0x18_OServiceHostVersions''
     [Field ''Versions'' None (TSlice TU16)]"

definition SNAC_0x01_0x1E_OServiceSetUserInfoFields_ty :: ty where
  "SNAC_0x01_0x1E_OServiceSetUserInfoFields_ty = TStruct ''SNAC_0x01_0x1E_OServiceSetUserInfoFields''
     [Field ''TLVRestBlock'' None TLVRestBlock_ty]"

definition SNAC_0x01_0x21_OServiceBARTReply_ty :: ty where
  "SNAC_0x01_0x21_OServiceBARTReply_ty = TStruct ''SNAC_0x01_0x21_OServiceBARTReply''
     [Field ''BARTID'' None BARTID_ty]"

definition SNAC_0x01_0x23_OServiceBART2Reply_ty :: ty where
  "SNAC_0x01_0x23_OServiceBART2Reply_ty = TStruct ''SNAC_0x01_0x23_OServiceBART2Reply''
     [Field ''ReplyID'' None (TSlice BartQueryReplyID_ty)]"

section \<open>locate (0x02)\<close>

definition SNAC_0x02_0x03_LocateRightsReply_ty :: ty where
  "SNAC_0x02_0x03_LocateRightsReply_ty = TStruct ''SNAC_0x02_0x03_LocateRightsReply''
     [Field ''TLVRestBlock'' None TLVRestBlock_ty]"

definition SNAC_0x02_0x04_LocateSetInfo_ty :: ty where
  "SNAC_0x02_0x04_LocateSetInfo_ty = TStruct ''SNAC_0x02_0x04_LocateSetInfo''
     [Field ''TLVRestBlock'' (Some ''quirk=jimm_locate_set_info'') TLVRestBlock_ty]"

definition SNAC_0x02_0x06_LocateUserInfoReply_ty :: ty where
  "SNAC_0x02_0x06_LocateUserInfoReply_ty = TStruct ''SNAC_0x02_0x06_LocateUserInfoReply''
     [Field ''TLVUserInfo'' None TLVUserInfo_ty,
      Field ''LocateInfo'' None TLVRestBlock_ty]"

definition SNAC_0x02_0x09_LocateSetDirInfo_ty :: ty where
  "SNAC_0x02_0x09_LocateSetDirInfo_ty = TStruct ''SNAC_0x02_0x09_LocateSetDirInfo''
     [Field ''TLVRestBlock'' None TLVRestBlock_ty]"

definition SNAC_0x02_0x0A_LocateSetDirReply_ty :: ty where
  "SNAC_0x02_0x0A_LocateSetDirReply_ty = TStruct ''SNAC_0x02_0x0A_LocateSetDirReply''
     [Field ''Result'' None TU16]"

definition SNAC_0x02_0x0B_LocateGetDirInfo_ty :: ty where
  "SNAC_0x02_0x0B_LocateGetDirInfo_ty = TStruct ''SNAC_0x02_0x0B_LocateGetDirInfo''
     [Field ''ScreenName'' (Some ''len_prefix=uint8'') TString]"

definition SNAC_0x02_0x0C_LocateGetDirReply_ty :: ty where
  "SNAC_0x02_0x0C_LocateGetDirReply_ty = TStruct ''SNAC_0x02_0x0C_LocateGetDirReply''
     [Field ''Status'' None TU16,
      Field ''TLVBlock'' None TLVBlock_ty]"

definition SNAC_0x02_0x0F_LocateSetKeywordInfo_ty :: ty where
  "SNAC_0x02_0x0F_LocateSetKeywordInfo_ty = TStruct ''SNAC_0x02_0x0F_LocateSetKeywordInfo''
     [Field ''TLVRestBlock'' None TLVRestBlock_ty]"

definition SNAC_0x02_0x10_LocateSetKeywordReply_ty :: ty where
  "SNAC_0x02_0x10_LocateSetKeywordReply_ty = TStruct ''SNAC_0x02_0x10_LocateSetKeywordReply''
     [Field ''Unknown'' None TU16]"

definition SNAC_0x02_0x05_LocateUserInfoQuery_ty :: ty where
  "SNAC_0x02_0x05_LocateUserInfoQuery_ty = TStruct ''SNAC_0x02_0x05_LocateUserInfoQuery''
     [Field ''Type'' None TU16,
      Field ''ScreenName'' (Some ''len_prefix=uint8'') TString]"

definition SNAC_0x02_0x15_LocateUserInfoQuery2_ty :: ty where
  "SNAC_0x02_0x15_LocateUserInfoQuery2_ty = TStruct ''SNAC_0x02_0x15_LocateUserInfoQuery2''
     [Field ''Type2'' None TU32,
      Field ''ScreenName'' (Some ''len_prefix=uint8'') TString]"

section \<open>buddy (0x03)\<close>

definition SNAC_0x03_0x02_BuddyRightsQuery_ty :: ty where
  "SNAC_0x03_0x02_BuddyRightsQuery_ty = TStruct ''SNAC_0x03_0x02_BuddyRightsQuery''
     [Field ''TLVRestBlock'' None TLVRestBlock_ty]"

definition SNAC_0x03_0x03_BuddyRightsReply_ty :: ty where
  "SNAC_0x03_0x03_BuddyRightsReply_ty = TStruct ''SNAC_0x03_0x03_BuddyRightsReply''
     [Field ''TLVRestBlock'' None TLVRestBlock_ty]"

definition SNAC_0x03_0x04_BuddyAddBuddies_ty :: ty where
  "SNAC_0x03_0x04_BuddyAddBuddies_ty = TStruct ''SNAC_0x03_0x04_BuddyAddBuddies''
     [Field ''Buddies'' None (TSlice (TStruct '''' [Field ''ScreenName'' (Some ''len_prefix=uint8'') TString]))]"

definition SNAC_0x03_0x0A_BuddyRejectNotification_ty :: ty where
  "SNAC_0x03_0x0A_BuddyRejectNotification_ty = TStruct ''SNAC_0x03_0x0A_BuddyRejectNotification''
     [Field ''Buddies'' None (TSlice (TStruct '''' [Field ''ScreenName'' (Some ''len_prefix=uint8'') TString]))]"

definition SNAC_0x03_0x05_BuddyDelBuddies_ty :: ty where
  "SNAC_0x03_0x05_BuddyDelBuddies_ty = TStruct ''SNAC_0x03_0x05_BuddyDelBuddies''
     [Field ''Buddies'' None (TSlice (TStruct '''' [Field ''ScreenName'' (Some ''len_prefix=uint8'') TString]))]"

definition SNAC_0x03_0x0B_BuddyArrived_ty :: ty where
  "SNAC_0x03_0x0B_BuddyArrived_ty = TStruct ''SNAC_0x03_0x0B_BuddyArrived''
     [Field ''TLVUserInfo'' None TLVUserInfo_ty]"

definition SNAC_0x03_0x0C_BuddyDeparted_ty :: ty where
  "SNAC_0x03_0x0C_BuddyDeparted_ty = TStruct ''SNAC_0x03_0x0C_BuddyDeparted''
     [Field ''TLVUserInfo'' None TLVUserInfo_ty]"

definition SNAC_0x03_0x0F_BuddyAddTempBuddies_ty :: ty where
  "SNAC_0x03_0x0F_BuddyAddTempBuddies_ty = TStruct ''SNAC_0x03_0x0F_BuddyAddTempBuddies''
     [Field ''Buddies'' None (TSlice (TStruct '''' [Field ''ScreenName'' (Some ''len_prefix=uint8'') TString]))]"

definition SNAC_0x03_0x10_BuddyDelTempBuddies_ty :: ty where
  "SNAC_0x03_0x10_BuddyDelTempBuddies_ty = TStruct ''SNAC_0x03_0x10_BuddyDelTempBuddies''
     [Field ''Buddies'' None (TSlice (TStruct '''' [Field ''ScreenName'' (Some ''len_prefix=uint8'') TString]))]"

section \<open>icbm (0x04)\<close>

definition ICBMCh1Fragment_ty :: ty where
  "ICBMCh1Fragment_ty = TStruct ''ICBMCh1Fragment''
     [Field ''ID'' None TU8,
      Field ''Version'' None TU8,
      Field ''Payload'' (Some ''len_prefix=uint16'') (TSlice TU8)]"

definition ICBMCh2Fragment_ty :: ty where
  "ICBMCh2Fragment_ty = TStruct ''ICBMCh2Fragment''
     [Field ''Type'' None TU16,
      Field ''Cookie'' None (TArray 8 TU8),
      Field ''Capability'' None (TArray 16 TU8),
      Field ''TLVRestBlock'' None TLVRestBlock_ty]"

definition ICBMRoomInfo_ty :: ty where
  "ICBMRoomInfo_ty = TStruct ''ICBMRoomInfo''
     [Field ''Exchange'' None TU16,
      Field ''Cookie'' (Some ''len_prefix=uint8'') TString,
      Field ''Instance'' None TU16]"

definition ICBMCh1Message_ty :: ty where
  "ICBMCh1Message_ty = TStruct ''ICBMCh1Message''
     [Field ''Charset'' None TU16,
      Field ''Language'' None TU16,
      Field ''Text'' None (TSlice TU8)]"

definition ICBMCh4Message_ty :: ty where
  "ICBMCh4Message_ty = TStruct ''ICBMCh4Message''
     [Field ''UIN'' None TU32,
      Field ''MessageType'' None TU8,
      Field ''Flags'' None TU8,
      Field ''Message'' (Some ''len_prefix=uint16,nullterm'') TString]"

definition SNAC_0x04_0x02_ICBMAddParameters_ty :: ty where
  "SNAC_0x04_0x02_ICBMAddParameters_ty = TStruct ''SNAC_0x04_0x02_ICBMAddParameters''
     [Field ''Channel'' None TU16,
      Field ''ICBMFlags'' None TU32,
      Field ''MaxIncomingICBMLen'' None TU16,
      Field ''MaxSourceEvil'' None TU16,
      Field ''MaxDestinationEvil'' None TU16,
      Field ''MinInterICBMInterval'' None TU32]"

definition SNAC_0x04_0x05_ICBMParameterReply_ty :: ty where
  "SNAC_0x04_0x05_ICBMParameterReply_ty = TStruct ''SNAC_0x04_0x05_ICBMParameterReply''
     [Field ''MaxSlots'' None TU16,
      Field ''ICBMFlags'' None TU32,
      Field ''MaxIncomingICBMLen'' None TU16,
      Field ''MaxSourceEvil'' None TU16,
      Field ''MaxDestinationEvil'' None TU16,
      Field ''MinInterICBMInterval'' None TU32]"

definition SNAC_0x04_0x06_ICBMChannelMsgToHost_ty :: ty where
  "SNAC_0x04_0x06_ICBMChannelMsgToHost_ty = TStruct ''SNAC_0x04_0x06_ICBMChannelMsgToHost''
     [Field ''Cookie'' None TU64,
      Field ''ChannelID'' None TU16,
      Field ''ScreenName'' (Some ''len_prefix=uint8'') TString,
      Field ''TLVRestBlock'' None TLVRestBlock_ty]"

definition SNAC_0x04_0x07_ICBMChannelMsgToClient_ty :: ty where
  "SNAC_0x04_0x07_ICBMChannelMsgToClient_ty = TStruct ''SNAC_0x04_0x07_ICBMChannelMsgToClient''
     [Field ''Cookie'' None TU64,
      Field ''ChannelID'' None TU16,
      Field ''TLVUserInfo'' None TLVUserInfo_ty,
      Field ''TLVRestBlock'' None TLVRestBlock_ty]"

definition SNAC_0x04_0x08_ICBMEvilRequest_ty :: ty where
  "SNAC_0x04_0x08_ICBMEvilRequest_ty = TStruct ''SNAC_0x04_0x08_ICBMEvilRequest''
     [Field ''SendAs'' None TU16,
      Field ''ScreenName'' (Some ''len_prefix=uint8'') TString]"

definition SNAC_0x04_0x09_ICBMEvilReply_ty :: ty where
  "SNAC_0x04_0x09_ICBMEvilReply_ty = TStruct ''SNAC_0x04_0x09_ICBMEvilReply''
     [Field ''EvilDeltaApplied'' None TU16,
      Field ''UpdatedEvilValue'' None TU16]"

definition SNAC_0x04_0x0B_ICBMClientErr_ty :: ty where
  "SNAC_0x04_0x0B_ICBMClientErr_ty = TStruct ''SNAC_0x04_0x0B_ICBMClientErr''
     [Field ''Cookie'' None TU64,
      Field ''ChannelID'' None TU16,
      Field ''ScreenName'' (Some ''len_prefix=uint8'') TString,
      Field ''Code'' None TU16,
      Field ''ErrInfo'' None (TSlice TU8)]"

definition SNAC_0x04_0x0C_ICBMHostAck_ty :: ty where
  "SNAC_0x04_0x0C_ICBMHostAck_ty = TStruct ''SNAC_0x04_0x0C_ICBMHostAck''
     [Field ''Cookie'' None TU64,
      Field ''ChannelID'' None TU16,
      Field ''ScreenName'' (Some ''len_prefix=uint8'') TString]"

definition SNAC_0x04_0x14_ICBMClientEvent_ty :: ty where
  "SNAC_0x04_0x14_ICBMClientEvent_ty = TStruct ''SNAC_0x04_0x14_ICBMClientEvent''
     [Field ''Cookie'' None TU64,
      Field ''ChannelID'' None TU16,
      Field ''ScreenName'' (Some ''len_prefix=uint8'') TString,
      Field ''Event'' None TU16]"

section \<open>admin (0x07)\<close>

definition SNAC_0x07_0x02_AdminInfoQuery_ty :: ty where
  "SNAC_0x07_0x02_AdminInfoQuery_ty = TStruct ''SNAC_0x07_0x02_AdminInfoQuery''
     [Field ''TLVRestBlock'' None TLVRestBlock_ty]"

definition SNAC_0x07_0x03_AdminInfoReply_ty :: ty where
  "SNAC_0x07_0x03_AdminInfoReply_ty = TStruct ''SNAC_0x07_0x03_AdminInfoReply''
     [Field ''Permissions'' None TU16,
      Field ''TLVBlock'' None TLVBlock_ty]"

definition SNAC_0x07_0x04_AdminInfoChangeRequest_ty :: ty where
  "SNAC_0x07_0x04_AdminInfoChangeRequest_ty = TStruct ''SNAC_0x07_0x04_AdminInfoChangeRequest''
     [Field ''TLVRestBlock'' None TLVRestBlock_ty]"

definition SNAC_0x07_0x05_AdminChangeReply_ty :: ty where
  "SNAC_0x07_0x05_AdminChangeReply_ty = TStruct ''SNAC_0x07_0x05_AdminChangeReply''
     [Field ''Permissions'' None TU16,
      Field ''TLVBlock'' None TLVBlock_ty]"

definition SNAC_0x07_0x07_AdminConfirmReply_ty :: ty where
  "SNAC_0x07_0x07_AdminConfirmReply_ty = TStruct ''SNAC_0x07_0x07_AdminConfirmReply''
     [Field ''Status'' None TU16,
      Field ''TLV'' None tlv_ty]"

section \<open>permit deny (0x09)\<close>

definition SNAC_0x09_0x03_PermitDenyRightsReply_ty :: ty where
  "SNAC_0x09_0x03_PermitDenyRightsReply_ty = TStruct ''SNAC_0x09_0x03_PermitDenyRightsReply''
     [Field ''TLVRestBlock'' None TLVRestBlock_ty]"

definition SNAC_0x09_0x05_PermitDenyAddPermListEntries_ty :: ty where
  "SNAC_0x09_0x05_PermitDenyAddPermListEntries_ty = TStruct ''SNAC_0x09_0x05_PermitDenyAddPermListEntries''
     [Field ''Users'' None (TSlice (TStruct '''' [Field ''ScreenName'' (Some ''len_prefix=uint8'') TString]))]"

definition SNAC_0x09_0x06_PermitDenyDelPermListEntries_ty :: ty where
  "SNAC_0x09_0x06_PermitDenyDelPermListEntries_ty = TStruct ''SNAC_0x09_0x06_PermitDenyDelPermListEntries''
     [Field ''Users'' None (TSlice (TStruct '''' [Field ''ScreenName'' (Some ''len_prefix=uint8'') TString]))]"

definition SNAC_0x09_0x07_PermitDenyAddDenyListEntries_ty :: ty where
  "SNAC_0x09_0x07_PermitDenyAddDenyListEntries_ty = TStruct ''SNAC_0x09_0x07_PermitDenyAddDenyListEntries''
     [Field ''Users'' None (TSlice (TStruct '''' [Field ''ScreenName'' (Some ''len_prefix=uint8'') TString]))]"

definition SNAC_0x09_0x08_PermitDenyDelDenyListEntries_ty :: ty where
  "SNAC_0x09_0x08_PermitDenyDelDenyListEntries_ty = TStruct ''SNAC_0x09_0x08_PermitDenyDelDenyListEntries''
     [Field ''Users'' None (TSlice (TStruct '''' [Field ''ScreenName'' (Some ''len_prefix=uint8'') TString]))]"

definition SNAC_0x09_0x04_PermitDenySetGroupPermitMask_ty :: ty where
  "SNAC_0x09_0x04_PermitDenySetGroupPermitMask_ty = TStruct ''SNAC_0x09_0x04_PermitDenySetGroupPermitMask''
     [Field ''PermMask'' None TU32]"

section \<open>user lookup (0x0A)\<close>

definition SNAC_0x0A_0x02_UserLookupFindByEmail_ty :: ty where
  "SNAC_0x0A_0x02_UserLookupFindByEmail_ty = TStruct ''SNAC_0x0A_0x02_UserLookupFindByEmail''
     [Field ''Email'' None (TSlice TU8)]"

definition SNAC_0x0A_0x03_UserLookupFindReply_ty :: ty where
  "SNAC_0x0A_0x03_UserLookupFindReply_ty = TStruct ''SNAC_0x0A_0x03_UserLookupFindReply''
     [Field ''TLVRestBlock'' None TLVRestBlock_ty]"

section \<open>stats (0x0B)\<close>

definition SNAC_0x0B_0x02_StatsSetMinReportInterval_ty :: ty where
  "SNAC_0x0B_0x02_StatsSetMinReportInterval_ty = TStruct ''SNAC_0x0B_0x02_StatsSetMinReportInterval''
     [Field ''MinReportInterval'' None TU16]"

definition SNAC_0x0B_0x03_StatsReportEvents_ty :: ty where
  "SNAC_0x0B_0x03_StatsReportEvents_ty = TStruct ''SNAC_0x0B_0x03_StatsReportEvents''
     [Field ''TLVRestBlock'' None TLVRestBlock_ty]"

definition SNAC_0x0B_0x04_StatsReportAck_ty :: ty where
  "SNAC_0x0B_0x04_StatsReportAck_ty = TStruct ''SNAC_0x0B_0x04_StatsReportAck'' []"

section \<open>chat nav (0x0D)\<close>

definition SNAC_0x0D_0x03_ChatNavRequestExchangeInfo_ty :: ty where
  "SNAC_0x0D_0x03_ChatNavRequestExchangeInfo_ty = TStruct ''SNAC_0x0D_0x03_ChatNavRequestExchangeInfo''
     [Field ''Exchange'' None TU16]"

definition SNAC_0x0D_0x04_ChatNavRequestRoomInfo_ty :: ty where
  "SNAC_0x0D_0x04_ChatNavRequestRoomInfo_ty = TStruct ''SNAC_0x0D_0x04_ChatNavRequestRoomInfo''
     [Field ''Exchange'' None TU16,
      Field ''Cookie'' (Some ''len_prefix=uint8'') TString,
      Field ''InstanceNumber'' None TU16,
      Field ''DetailLevel'' None TU8]"

definition SNAC_0x0D_0x09_ChatNavNavInfo_ty :: ty where
  "SNAC_0x0D_0x09_ChatNavNavInfo_ty = TStruct ''SNAC_0x0D_0x09_ChatNavNavInfo''
     [Field ''TLVRestBlock'' None TLVRestBlock_ty]"

definition SNAC_0x0D_0x09_TLVExchangeInfo_ty :: ty where
  "SNAC_0x0D_0x09_TLVExchangeInfo_ty = TStruct ''SNAC_0x0D_0x09_TLVExchangeInfo''
     [Field ''Identifier'' None TU16,
      Field ''TLVBlock'' None TLVBlock_ty]"

section \<open>chat (0x0E)\<close>

definition SNAC_0x0E_0x02_ChatRoomInfoUpdate_ty :: ty where
  "SNAC_0x0E_0x02_ChatRoomInfoUpdate_ty = TStruct ''SNAC_0x0E_0x02_ChatRoomInfoUpdate''
     [Field ''Exchange'' None TU16,
      Field ''Cookie'' (Some ''len_prefix=uint8'') TString,
      Field ''InstanceNumber'' None TU16,
      Field ''DetailLevel'' None TU8,
      Field ''TLVBlock'' None TLVBlock_ty]"

definition SNAC_0x0E_0x03_ChatUsersJoined_ty :: ty where
  "SNAC_0x0E_0x03_ChatUsersJoined_ty = TStruct ''SNAC_0x0E_0x03_ChatUsersJoined''
     [Field ''Users'' None (TSlice TLVUserInfo_ty)]"

definition SNAC_0x0E_0x04_ChatUsersLeft_ty :: ty where
  "SNAC_0x0E_0x04_ChatUsersLeft_ty = TStruct ''SNAC_0x0E_0x04_ChatUsersLeft''
     [Field ''Users'' None (TSlice TLVUserInfo_ty)]"

definition SNAC_0x0E_0x05_ChatChannelMsgToHost_ty :: ty where
  "SNAC_0x0E_0x05_ChatChannelMsgToHost_ty = TStruct ''SNAC_0x0E_0x05_ChatChannelMsgToHost''
     [Field ''Cookie'' None TU64,
      Field ''Channel'' None TU16,
      Field ''TLVRestBlock'' None TLVRestBlock_ty]"

definition SNAC_0x0E_0x06_ChatChannelMsgToClient_ty :: ty where
  "SNAC_0x0E_0x06_ChatChannelMsgToClient_ty = TStruct ''SNAC_0x0E_0x06_ChatChannelMsgToClient''
     [Field ''Cookie'' None TU64,
      Field ''Channel'' None TU16,
      Field ''TLVRestBlock'' None TLVRestBlock_ty]"

section \<open>odir (0x0F)\<close>

definition SNAC_0x0F_0x02_InfoQuery_ty :: ty where
  "SNAC_0x0F_0x02_InfoQuery_ty = TStruct ''SNAC_0x0F_0x02_InfoQuery''
     [Field ''TLVRestBlock'' None TLVRestBlock_ty]"

definition SNAC_0x0F_0x03_InfoReply_ty :: ty where
  "SNAC_0x0F_0x03_InfoReply_ty = TStruct ''SNAC_0x0F_0x03_InfoReply''
     [Field ''Status'' None TU16,
      Field ''Unknown'' None TU16,
      Field ''Results'' (Some ''count_prefix=uint16'') (TStruct '''' [Field ''List'' (Some ''count_prefix=uint16'') (TSlice TLVBlock_ty)])]"

definition SNAC_0x0F_0x04_KeywordListReply_ty :: ty where
  "SNAC_0x0F_0x04_KeywordListReply_ty = TStruct ''SNAC_0x0F_0x04_KeywordListReply''
     [Field ''Status'' None TU16,
      Field ''Interests'' (Some ''count_prefix=uint16'') (TSlice ODirKeywordListItem_ty)]"

section \<open>bart (0x10)\<close>

definition SNAC_0x10_0x02_BARTUploadQuery_ty :: ty where
  "SNAC_0x10_0x02_BARTUploadQuery_ty = TStruct ''SNAC_0x10_0x02_BARTUploadQuery''
     [Field ''Type'' None TU16,
      Field ''Data'' (Some ''len_prefix=uint16'') (TSlice TU8)]"

definition SNAC_0x10_0x03_BARTUploadReply_ty :: ty where
  "SNAC_0x10_0x03_BARTUploadReply_ty = TStruct ''SNAC_0x10_0x03_BARTUploadReply''
     [Field ''Code'' None TU8,
      Field ''ID'' None BARTID_ty]"

definition SNAC_0x10_0x04_BARTDownloadQuery_ty :: ty where
  "SNAC_0x10_0x04_BARTDownloadQuery_ty = TStruct ''SNAC_0x10_0x04_BARTDownloadQuery''
     [Field ''ScreenName'' (Some ''len_prefix=uint8'') TString,
      Field ''Command'' None TU8,
      Field ''BARTID'' None BARTID_ty]"

definition SNAC_0x10_0x05_BARTDownloadReply_ty :: ty where
  "SNAC_0x10_0x05_BARTDownloadReply_ty = TStruct ''SNAC_0x10_0x05_BARTDownloadReply''
     [Field ''ScreenName'' (Some ''len_prefix=uint8'') TString,
      Field ''BARTID'' None BARTID_ty,
      Field ''Data'' (Some ''len_prefix=uint16'') (TSlice TU8)]"

definition SNAC_0x10_0x06_BARTDownload2Query_ty :: ty where
  "SNAC_0x10_0x06_BARTDownload2Query_ty = TStruct ''SNAC_0x10_0x06_BARTDownload2Query''
     [Field ''ScreenName'' (Some ''len_prefix=uint8'') TString,
      Field ''IDs'' (Some ''count_prefix=uint8'') (TSlice BARTID_ty)]"

definition SNAC_0x10_0x07_BARTDownload2Reply_ty :: ty where
  "SNAC_0x10_0x07_BARTDownload2Reply_ty = TStruct ''SNAC_0x10_0x07_BARTDownload2Reply''
     [Field ''ScreenName'' (Some ''len_prefix=uint8'') TString,
      Field ''ReplyID'' None BartQueryReplyID_ty,
      Field ''Data'' (Some ''len_prefix=uint16'') (TSlice TU8)]"

section \<open>feedbag (0x13)\<close>

definition SNAC_0x13_0x02_FeedbagRightsQuery_ty :: ty where
  "SNAC_0x13_0x02_FeedbagRightsQuery_ty = TStruct ''SNAC_0x13_0x02_FeedbagRightsQuery''
     [Field ''TLVRestBlock'' None TLVRestBlock_ty]"

definition SNAC_0x13_0x03_FeedbagRightsReply_ty :: ty where
  "SNAC_0x13_0x03_FeedbagRightsReply_ty = TStruct ''SNAC_0x13_0x03_FeedbagRightsReply''
     [Field ''TLVRestBlock'' None TLVRestBlock_ty]"

definition SNAC_0x13_0x05_FeedbagQueryIfModified_ty :: ty where
  "SNAC_0x13_0x05_FeedbagQueryIfModified_ty = TStruct ''SNAC_0x13_0x05_FeedbagQueryIfModified''
     [Field ''LastUpdate'' None TU32,
      Field ''Count'' None TU8]"

definition SNAC_0x13_0x06_FeedbagReply_ty :: ty where
  "SNAC_0x13_0x06_FeedbagReply_ty = TStruct ''SNAC_0x13_0x06_FeedbagReply''
     [Field ''Version'' None TU8,
      Field ''Items'' (Some ''count_prefix=uint16'') (TSlice FeedbagItem_ty),
      Field ''LastUpdate'' None TU32]"

definition SNAC_0x13_0x08_FeedbagInsertItem_ty :: ty where
  "SNAC_0x13_0x08_FeedbagInsertItem_ty = TStruct ''SNAC_0x13_0x08_FeedbagInsertItem''
     [Field ''Items'' None (TSlice FeedbagItem_ty)]"

definition SNAC_0x13_0x09_FeedbagUpdateItem_ty :: ty where
  "SNAC_0x13_0x09_FeedbagUpdateItem_ty = TStruct ''SNAC_0x13_0x09_FeedbagUpdateItem''
     [Field ''Items'' None (TSlice FeedbagItem_ty)]"

definition SNAC_0x13_0x0A_FeedbagDeleteItem_ty :: ty where
  "SNAC_0x13_0x0A_FeedbagDeleteItem_ty = TStruct ''SNAC_0x13_0x0A_FeedbagDeleteItem''
     [Field ''Items'' None (TSlice FeedbagItem_ty)]"

definition SNAC_0x13_0x0E_FeedbagStatus_ty :: ty where
  "SNAC_0x13_0x0E_FeedbagStatus_ty = TStruct ''SNAC_0x13_0x0E_FeedbagStatus''
     [Field ''Results'' None (TSlice TU16)]"

definition SNAC_0x13_0x11_FeedbagStartCluster_ty :: ty where
  "SNAC_0x13_0x11_FeedbagStartCluster_ty = TStruct ''SNAC_0x13_0x11_FeedbagStartCluster''
     [Field ''TLVRestBlock'' None TLVRestBlock_ty]"

definition SNAC_0x13_0x12_FeedbagEndCluster_ty :: ty where
  "SNAC_0x13_0x12_FeedbagEndCluster_ty = TStruct ''SNAC_0x13_0x12_FeedbagEndCluster'' []"

definition SNAC_0x13_0x18_FeedbagRequestAuthorizationToHost_ty :: ty where
  "SNAC_0x13_0x18_FeedbagRequestAuthorizationToHost_ty = TStruct ''SNAC_0x13_0x18_FeedbagRequestAuthorizationToHost''
     [Field ''ScreenName'' (Some ''len_prefix=uint8'') TString,
      Field ''Reason'' (Some ''len_prefix=uint16'') TString,
      Field ''Unknown'' None TU16]"

definition SNAC_0x13_0x19_FeedbagRequestAuthorizeToClient_ty :: ty where
  "SNAC_0x13_0x19_FeedbagRequestAuthorizeToClient_ty = TStruct ''SNAC_0x13_0x19_FeedbagRequestAuthorizeToClient''
     [Field ''TLVLBlock'' None TLVLBlock_ty,
      Field ''ScreenName'' (Some ''len_prefix=uint8'') TString,
      Field ''Reason'' (Some ''len_prefix=uint16'') TString,
      Field ''Unknown'' None TU16]"

definition SNAC_0x13_0x1A_FeedbagRespondAuthorizeToHost_ty :: ty where
  "SNAC_0x13_0x1A_FeedbagRespondAuthorizeToHost_ty = TStruct ''SNAC_0x13_0x1A_FeedbagRespondAuthorizeToHost''
     [Field ''ScreenName'' (Some ''len_prefix=uint8'') TString,
      Field ''Accepted'' None TU8,
      Field ''Reason'' (Some ''len_prefix=uint16'') TString]"

definition SNAC_0x13_0x1B_FeedbagRespondAuthorizeToClient_ty :: ty where
  "SNAC_0x13_0x1B_FeedbagRespondAuthorizeToClient_ty = TStruct ''SNAC_0x13_0x1B_FeedbagRespondAuthorizeToClient''
     [Field ''TLVLBlock'' None TLVLBlock_ty,
      Field ''ScreenName'' (Some ''len_prefix=uint8'') TString,
      Field ''Accepted'' None TU8,
      Field ''Reason'' (Some ''len_prefix=uint16'') TString,
      Field ''Nullterm'' None TU16]"

definition SNAC_0x13_0x1C_FeedbagBuddyAdded_ty :: ty where
  "SNAC_0x13_0x1C_FeedbagBuddyAdded_ty = TStruct ''SNAC_0x13_0x1C_FeedbagBuddyAdded''
     [Field ''TLVLBlock'' None TLVLBlock_ty,
      Field ''ScreenName'' (Some ''len_prefix=uint8'') TString,
      Field ''Nullterm'' None TU16]"

definition SNAC_0x13_0x14_FeedbagPreAuthorizeBuddy_ty :: ty where
  "SNAC_0x13_0x14_FeedbagPreAuthorizeBuddy_ty = TStruct ''SNAC_0x13_0x14_FeedbagPreAuthorizeBuddy''
     [Field ''ScreenName'' (Some ''len_prefix=uint8'') TString,
      Field ''Message'' (Some ''len_prefix=uint16'') TString,
      Field ''Flags'' None TU16]"

definition SNAC_0x13_0x15_FeedbagPreAuthorizedBuddy_ty :: ty where
  "SNAC_0x13_0x15_FeedbagPreAuthorizedBuddy_ty = TStruct ''SNAC_0x13_0x15_FeedbagPreAuthorizedBuddy''
     [Field ''ScreenName'' (Some ''len_prefix=uint8'') TString,
      Field ''Message'' (Some ''len_prefix=uint16'') TString,
      Field ''Flags'' None TU16]"

section \<open>icq (0x15)\<close>

definition SNAC_0x15_0x02_BQuery_ty :: ty where
  "SNAC_0x15_0x02_BQuery_ty = TStruct ''SNAC_0x15_0x02_BQuery''
     [Field ''TLVRestBlock'' None TLVRestBlock_ty]"

definition ICQ_0x07D0_0x04BA_DBQueryMetaReqShortInfo_ty :: ty where
  "ICQ_0x07D0_0x04BA_DBQueryMetaReqShortInfo_ty = TStruct ''ICQ_0x07D0_0x04BA_DBQueryMetaReqShortInfo''
     [Field ''UIN'' None TU32]"

definition ICQ_0x07D0_0x0898_DBQueryMetaReqXMLReq_ty :: ty where
  "ICQ_0x07D0_0x0898_DBQueryMetaReqXMLReq_ty = TStruct ''ICQ_0x07D0_0x0898_DBQueryMetaReqXMLReq''
     [Field ''XMLRequest'' (Some ''len_prefix=uint16,nullterm'') TString]"

definition ICQ_0x07D0_0x0424_DBQueryMetaReqSetPermissions_ty :: ty where
  "ICQ_0x07D0_0x0424_DBQueryMetaReqSetPermissions_ty = TStruct ''ICQ_0x07D0_0x0424_DBQueryMetaReqSetPermissions''
     [Field ''Authorization'' None TU8,
      Field ''WebAware'' None TU8,
      Field ''DCPerms'' None TU8,
      Field ''Unknown'' None TU8]"

definition ICQ_0x07D0_0x0654_DBQueryMetaReqSetICQPhone_ty :: ty where
  "ICQ_0x07D0_0x0654_DBQueryMetaReqSetICQPhone_ty = TStruct ''ICQ_0x07D0_0x0654_DBQueryMetaReqSetICQPhone'' []"

definition ICQ_0x07D0_0x051F_DBQueryMetaReqSearchByUIN_ty :: ty where
  "ICQ_0x07D0_0x051F_DBQueryMetaReqSearchByUIN_ty = TStruct ''ICQ_0x07D0_0x051F_DBQueryMetaReqSearchByUIN''
     [Field ''UIN'' None TU32]"

definition ICQ_0x07D0_0x0569_DBQueryMetaReqSearchByUIN2_ty :: ty where
  "ICQ_0x07D0_0x0569_DBQueryMetaReqSearchByUIN2_ty = TStruct ''ICQ_0x07D0_0x0569_DBQueryMetaReqSearchByUIN2''
     [Field ''TLVRestBlock'' (Some ''quirk=qip_2005_search_by_uin2'') TLVRestBlock_ty]"

definition ICQ_0x07D0_0x0529_DBQueryMetaReqSearchByEmail_ty :: ty where
  "ICQ_0x07D0_0x0529_DBQueryMetaReqSearchByEmail_ty = TStruct ''ICQ_0x07D0_0x0529_DBQueryMetaReqSearchByEmail''
     [Field ''Email'' (Some ''len_prefix=uint16,nullterm'') TString]"

definition ICQ_0x07D0_0x0573_DBQueryMetaReqSearchByEmail3_ty :: ty where
  "ICQ_0x07D0_0x0573_DBQueryMetaReqSearchByEmail3_ty = TStruct ''ICQ_0x07D0_0x0573_DBQueryMetaReqSearchByEmail3''
     [Field ''TLVRestBlock'' None TLVRestBlock_ty]"

definition ICQ_0x07D0_0x0515_DBQueryMetaReqSearchByDetails_ty :: ty where
  "ICQ_0x07D0_0x0515_DBQueryMetaReqSearchByDetails_ty = TStruct ''ICQ_0x07D0_0x0515_DBQueryMetaReqSearchByDetails''
     [Field ''FirstName'' (Some ''len_prefix=uint16,nullterm'') TString,
      Field ''LastName'' (Some ''len_prefix=uint16,nullterm'') TString,
      Field ''NickName'' (Some ''len_prefix=uint16,nullterm'') TString]"

definition ICQInterests_ty :: ty where
  "ICQInterests_ty = TStruct ''ICQInterests''
     [Field ''Code'' None TU16,
      Field ''Keyword'' (Some ''len_prefix=uint16,nullterm'') TString]"

definition ICQEmail_ty :: ty where
  "ICQEmail_ty = TStruct ''ICQEmail''
     [Field ''Email'' (Some ''len_prefix=uint16,nullterm'') TString]"

definition ICQ_0x07D0_0x0533_DBQueryMetaReqSearchWhitePages_ty :: ty where
  "ICQ_0x07D0_0x0533_DBQueryMetaReqSearchWhitePages_ty = TStruct ''ICQ_0x07D0_0x0533_DBQueryMetaReqSearchWhitePages''
     [Field ''FirstName'' (Some ''len_prefix=uint16,nullterm'') TString,
      Field ''LastName'' (Some ''len_prefix=uint16,nullterm'') TString,
      Field ''Nickname'' (Some ''len_prefix=uint16,nullterm'') TString,
      Field ''Email'' (Some ''len_prefix=uint16,nullterm'') TString,
      Field ''MinAge'' None TU16,
      Field ''MaxAge'' None TU16,
      Field ''Gender'' None TU8,
      Field ''SpeakingLang'' None TU8,
      Field ''City'' (Some ''len_prefix=uint16,nullterm'') TString,
      Field ''State'' (Some ''len_prefix=uint16,nullterm'') TString,
      Field ''CountryCode'' None TU16,
      Field ''Company'' (Some ''len_prefix=uint16,nullterm'') TString,
      Field ''Department'' (Some ''len_prefix=uint16,nullterm'') TString,
      Field ''Position'' (Some ''len_prefix=uint16,nullterm'') TString,
      Field ''OccupationCode'' None TU16,
      Field ''PastCode'' None TU16,
      Field ''PastKeywords'' (Some ''len_prefix=uint16,nullterm'') TString,
      Field ''InterestsCode'' None TU16,
      Field ''InterestsKeyword'' (Some ''len_prefix=uint16,nullterm'') TString,
      Field ''AffiliationsCode'' None TU16,
      Field ''AffiliationsKeyword'' (Some ''len_prefix=uint16,nullterm'') TString,
      Field ''HomePageCode'' None TU16,
      Field ''HomePageKeywords'' (Some ''len_prefix=uint16,nullterm'') TString,
      Field ''SearchScope'' None TU8]"

definition ICQ_0x07D0_0x055F_DBQueryMetaReqSearchWhitePages2_ty :: ty where
  "ICQ_0x07D0_0x055F_DBQueryMetaReqSearchWhitePages2_ty = TStruct ''ICQ_0x07D0_0x055F_DBQueryMetaReqSearchWhitePages2''
     [Field ''TLVRestBlock'' None TLVRestBlock_ty]"

definition ICQ_0x07D0_0x0C3A_DBQueryMetaReqSetFullInfo_ty :: ty where
  "ICQ_0x07D0_0x0C3A_DBQueryMetaReqSetFullInfo_ty = TStruct ''ICQ_0x07D0_0x0C3A_DBQueryMetaReqSetFullInfo''
     [Field ''TLVRestBlock'' (Some ''quirk=icq2003b_set_fullinfo'') TLVRestBlock_ty]"

definition ICQ_0x07D0_0x03FD_DBQueryMetaReqSetMoreInfo_ty :: ty where
  "ICQ_0x07D0_0x03FD_DBQueryMetaReqSetMoreInfo_ty = TStruct ''ICQ_0x07D0_0x03FD_DBQueryMetaReqSetMoreInfo''
     [Field ''Age'' None TU8,
      Field ''Gender'' None TU16,
      Field ''HomePageAddr'' (Some ''len_prefix=uint16,nullterm'') TString,
      Field ''BirthYear'' None TU16,
      Field ''BirthMonth'' None TU8,
      Field ''BirthDay'' None TU8,
      Field ''Lang1'' None TU8,
      Field ''Lang2'' None TU8,
      Field ''Lang3'' None TU8]"

definition ICQ_0x07D0_0x03F3_DBQueryMetaReqSetWorkInfo_ty :: ty where
  "ICQ_0x07D0_0x03F3_DBQueryMetaReqSetWorkInfo_ty = TStruct ''ICQ_0x07D0_0x03F3_DBQueryMetaReqSetWorkInfo''
     [Field ''City'' (Some ''len_prefix=uint16,nullterm'') TString,
      Field ''State'' (Some ''len_prefix=uint16,nullterm'') TString,
      Field ''Phone'' (Some ''len_prefix=uint16,nullterm'') TString,
      Field ''Fax'' (Some ''len_prefix=uint16,nullterm'') TString,
      Field ''Address'' (Some ''len_prefix=uint16,nullterm'') TString,
      Field ''ZIP'' (Some ''len_prefix=uint16,nullterm'') TString,
      Field ''CountryCode'' None TU16,
      Field ''Company'' (Some ''len_prefix=uint16,nullterm'') TString,
      Field ''Department'' (Some ''len_prefix=uint16,nullterm'') TString,
      Field ''Position'' (Some ''len_prefix=uint16,nullterm'') TString,
      Field ''OccupationCode'' None TU16,
      Field ''WebPage'' (Some ''len_prefix=uint16,nullterm'') TString]"

definition ICQ_0x07D0_0x040B_DBQueryMetaReqSetEmails_ty :: ty where
  "ICQ_0x07D0_0x040B_DBQueryMetaReqSetEmails_ty = TStruct ''ICQ_0x07D0_0x040B_DBQueryMetaReqSetEmails''
     [Field ''Emails'' (Some ''count_prefix=uint8'') (TSlice (TStruct '''' [Field ''Publish'' None TU8,
      Field ''Email'' (Some ''len_prefix=uint16,nullterm'') TString]))]"

definition ICQ_0x07D0_0x0406_DBQueryMetaReqSetNotes_ty :: ty where
  "ICQ_0x07D0_0x0406_DBQueryMetaReqSetNotes_ty = TStruct ''ICQ_0x07D0_0x0406_DBQueryMetaReqSetNotes''
     [Field ''Notes'' (Some ''len_prefix=uint16,nullterm'') TString]"

definition ICQ_0x07D0_0x0410_DBQueryMetaReqSetInterests_ty :: ty where
  "ICQ_0x07D0_0x0410_DBQueryMetaReqSetInterests_ty = TStruct ''ICQ_0x07D0_0x0410_DBQueryMetaReqSetInterests''
     [Field ''Interests'' (Some ''count_prefix=uint8'') (TSlice (TStruct '''' [Field ''Code'' None TU16,
      Field ''Keyword'' (Some ''len_prefix=uint16,nullterm'') TString]))]"

definition ICQ_0x07D0_0x041A_DBQueryMetaReqSetAffiliations_ty :: ty where
  "ICQ_0x07D0_0x041A_DBQueryMetaReqSetAffiliations_ty = TStruct ''ICQ_0x07D0_0x041A_DBQueryMetaReqSetAffiliations''
     [Field ''PastAffiliations'' (Some ''count_prefix=uint8'') (TSlice (TStruct '''' [Field ''Code'' None TU16,
      Field ''Keyword'' (Some ''len_prefix=uint16,nullterm'') TString])),
      Field ''Affiliations'' (Some ''count_prefix=uint8'') (TSlice (TStruct '''' [Field ''Code'' None TU16,
      Field ''Keyword'' (Some ''len_prefix=uint16,nullterm'') TString]))]"

definition ICQ_0x07D0_0x03EA_DBQueryMetaReqSetBasicInfo_ty :: ty where
  "ICQ_0x07D0_0x03EA_DBQueryMetaReqSetBasicInfo_ty = TStruct ''ICQ_0x07D0_0x03EA_DBQueryMetaReqSetBasicInfo''
     [Field ''Nickname'' (Some ''len_prefix=uint16,nullterm'') TString,
      Field ''FirstName'' (Some ''len_prefix=uint16,nullterm'') TString,
      Field ''LastName'' (Some ''len_prefix=uint16,nullterm'') TString,
      Field ''EmailAddress'' (Some ''len_prefix=uint16,nullterm'') TString,
      Field ''City'' (Some ''len_prefix=uint16,nullterm'') TString,
      Field ''State'' (Some ''len_prefix=uint16,nullterm'') TString,
      Field ''Phone'' (Some ''len_prefix=uint16,nullterm'') TString,
      Field ''Fax'' (Some ''len_prefix=uint16,nullterm'') TString,
      Field ''HomeAddress'' (Some ''len_prefix=uint16,nullterm'') TString,
      Field ''CellPhone'' (Some ''len_prefix=uint16,nullterm'') TString,
      Field ''ZIP'' (Some ''len_prefix=uint16,nullterm'') TString,
      Field ''CountryCode'' None TU16,
      Field ''GMTOffset'' None TU8,
      Field ''PublishEmail'' None TU8]"

definition SNAC_0x15_0x02_DBReply_ty :: ty where
  "SNAC_0x15_0x02_DBReply_ty = TStruct ''SNAC_0x15_0x02_DBReply''
     [Field ''TLVRestBlock'' None TLVRestBlock_ty]"

definition ICQMetadata_ty :: ty where
  "ICQMetadata_ty = TStruct ''ICQMetadata''
     [Field ''UIN'' None TU32,
      Field ''ReqType'' None TU16,
      Field ''Seq'' None TU16]"

definition ICQ_0x07DA_0x010E_DBQueryMetaReplyHomePageCat_ty :: ty where
  "ICQ_0x07DA_0x010E_DBQueryMetaReplyHomePageCat_ty = TStruct ''ICQ_0x07DA_0x010E_DBQueryMetaReplyHomePageCat''
     [Field ''ICQMetadata'' None ICQMetadata_ty,
      Field ''ReqSubType'' None TU16,
      Field ''Success'' None TU8,
      Field ''Enabled'' None TU8,
      Field ''CatCode'' None TU16,
      Field ''Keywords'' (Some ''len_prefix=uint16,nullterm'') TString,
      Field ''Unknown'' None TU8]"

definition ICQ_0x07DA_0x08A2_DBQueryMetaReplyXMLData_ty :: ty where
  "ICQ_0x07DA_0x08A2_DBQueryMetaReplyXMLData_ty = TStruct ''ICQ_0x07DA_0x08A2_DBQueryMetaReplyXMLData''
     [Field ''ICQMetadata'' None ICQMetadata_ty,
      Field ''ReqSubType'' None TU16,
      Field ''Success'' None TU8,
      Field ''XML'' (Some ''len_prefix=uint16,nullterm'') TString]"

definition ICQ_0x07DA_0x00DC_DBQueryMetaReplyMoreInfo_ty :: ty where
  "ICQ_0x07DA_0x00DC_DBQueryMetaReplyMoreInfo_ty = TStruct ''ICQ_0x07DA_0x00DC_DBQueryMetaReplyMoreInfo''
     [Field ''ICQMetadata'' None ICQMetadata_ty,
      Field ''ReqSubType'' None TU16,
      Field ''Success'' None TU8,
      Field ''Age'' None TU16,
      Field ''Gender'' None TU8,
      Field ''HomePageAddr'' (Some ''len_prefix=uint16,nullterm'') TString,
      Field ''BirthYear'' None TU16,
      Field ''BirthMonth'' None TU8,
      Field ''BirthDay'' None TU8,
      Field ''Lang1'' None TU8,
      Field ''Lang2'' None TU8,
      Field ''Lang3'' None TU8,
      Field ''Unknown'' None TU16,
      Field ''City'' (Some ''len_prefix=uint16,nullterm'') TString,
      Field ''State'' (Some ''len_prefix=uint16,nullterm'') TString,
      Field ''CountryCode'' None TU16,
      Field ''TimeZone'' None TU8,
      Field ''Buffer'' None (TArray 4 TU8)]"

definition ICQ_0x07DA_0x00EB_DBQueryMetaReplyExtEmailInfo_ty :: ty where
  "ICQ_0x07DA_0x00EB_DBQueryMetaReplyExtEmailInfo_ty = TStruct ''ICQ_0x07DA_0x00EB_DBQueryMetaReplyExtEmailInfo''
     [Field ''ICQMetadata'' None ICQMetadata_ty,
      Field ''ReqSubType'' None TU16,
      Field ''Success'' None TU8,
      Field ''Emails'' (Some ''count_prefix=uint8'') (TSlice (TStruct '''' [Field ''Flag'' None TU8,
      Field ''Email'' (Some ''len_prefix=uint16,nullterm'') TString]))]"

definition ICQ_0x07DA_0x00D2_DBQueryMetaReplyWorkInfo_ty :: ty where
  "ICQ_0x07DA_0x00D2_DBQueryMetaReplyWorkInfo_ty = TStruct ''ICQ_0x07DA_0x00D2_DBQueryMetaReplyWorkInfo''
     [Field ''ICQMetadata'' None ICQMetadata_ty,
      Field ''ReqSubType'' None TU16,
      Field ''Success'' None TU8,
      Field ''ICQ_0x07D0_0x03F3_DBQueryMetaReqSetWorkInfo'' None ICQ_0x07D0_0x03F3_DBQueryMetaReqSetWorkInfo_ty]"

definition ICQ_0x07DA_0x00F0_DBQueryMetaReplyInterests_ty :: ty where
  "ICQ_0x07DA_0x00F0_DBQueryMetaReplyInterests_ty = TStruct ''ICQ_0x07DA_0x00F0_DBQueryMetaReplyInterests''
     [Field ''ICQMetadata'' None ICQMetadata_ty,
      Field ''ReqSubType'' None TU16,
      Field ''Success'' None TU8,
      Field ''Interests'' (Some ''count_prefix=uint8'') (TSlice (TStruct '''' [Field ''Code'' None TU16,
      Field ''Keyword'' (Some ''len_prefix=uint16,nullterm'') TString]))]"

definition ICQ_0x07DA_0x00E6_DBQueryMetaReplyNotes_ty :: ty where
  "ICQ_0x07DA_0x00E6_DBQueryMetaReplyNotes_ty = TStruct ''ICQ_0x07DA_0x00E6_DBQueryMetaReplyNotes''
     [Field ''ICQMetadata'' None ICQMetadata_ty,
      Field ''ReqSubType'' None TU16,
      Field ''Success'' None TU8,
      Field ''ICQ_0x07D0_0x0406_DBQueryMetaReqSetNotes'' None ICQ_0x07D0_0x0406_DBQueryMetaReqSetNotes_ty]"

definition ICQ_0x07DA_0x00FA_DBQueryMetaReplyAffiliations_ty :: ty where
  "ICQ_0x07DA_0x00FA_DBQueryMetaReplyAffiliations_ty = TStruct ''ICQ_0x07DA_0x00FA_DBQueryMetaReplyAffiliations''
     [Field ''ICQMetadata'' None ICQMetadata_ty,
      Field ''ReqSubType'' None TU16,
      Field ''Success'' None TU8,
      Field ''ICQ_0x07D0_0x041A_DBQueryMetaReqSetAffiliations'' None ICQ_0x07D0_0x041A_DBQueryMetaReqSetAffiliations_ty]"

definition ICQ_0x07DA_0x00C8_DBQueryMetaReplyBasicInfo_ty :: ty where
  "ICQ_0x07DA_0x00C8_DBQueryMetaReplyBasicInfo_ty = TStruct ''ICQ_0x07DA_0x00C8_DBQueryMetaReplyBasicInfo''
     [Field ''ICQMetadata'' None ICQMetadata_ty,
      Field ''ReqSubType'' None TU16,
      Field ''Success'' None TU8,
      Field ''Nickname'' (Some ''len_prefix=uint16,nullterm'') TString,
      Field ''FirstName'' (Some ''len_prefix=uint16,nullterm'') TString,
      Field ''LastName'' (Some ''len_prefix=uint16,nullterm'') TString,
      Field ''Email'' (Some ''len_prefix=uint16,nullterm'') TString,
      Field ''City'' (Some ''len_prefix=uint16,nullterm'') TString,
      Field ''State'' (Some ''len_prefix=uint16,nullterm'') TString,
      Field ''Phone'' (Some ''len_prefix=uint16,nullterm'') TString,
      Field ''Fax'' (Some ''len_prefix=uint16,nullterm'') TString,
      Field ''Address'' (Some ''len_prefix=uint16,nullterm'') TString,
      Field ''CellPhone'' (Some ''len_prefix=uint16,nullterm'') TString,
      Field ''ZIP'' (Some ''len_prefix=uint16,nullterm'') TString,
      Field ''CountryCode'' None TU16,
      Field ''GMTOffset'' None TU8,
      Field ''AuthFlag'' None TU8,
      Field ''WebAware'' None TU8,
      Field ''DCPerms'' None TU8,
      Field ''PublishEmail'' None TU8]"

definition ICQUserSearchRecord_ty :: ty where
  "ICQUserSearchRecord_ty = TStruct ''ICQUserSearchRecord''
     [Field ''UIN'' None TU32,
      Field ''Nickname'' (Some ''len_prefix=uint16,nullterm'') TString,
      Field ''FirstName'' (Some ''len_prefix=uint16,nullterm'') TString,
      Field ''LastName'' (Some ''len_prefix=uint16,nullterm'') TString,
      Field ''Email'' (Some ''len_prefix=uint16,nullterm'') TString,
      Field ''Authorization'' None TU8,
      Field ''OnlineStatus'' None TU16,
      Field ''Gender'' None TU8,
      Field ''Age'' None TU16]"

definition ICQ_0x07DA_0x01A4_DBQueryMetaReplyUserFound_ty :: ty where
  "ICQ_0x07DA_0x01A4_DBQueryMetaReplyUserFound_ty = TStruct ''ICQ_0x07DA_0x01A4_DBQueryMetaReplyUserFound''
     [Field ''ICQMetadata'' None ICQMetadata_ty,
      Field ''ReqSubType'' None TU16,
      Field ''Success'' None TU8,
      Field ''Details'' (Some ''len_prefix=uint16'') ICQUserSearchRecord_ty,
      Field ''Buffer'' None (TArray 12 TU8)]"

definition ICQ_0x07DA_0x01AE_DBQueryMetaReplyLastUserFound_ty :: ty where
  "ICQ_0x07DA_0x01AE_DBQueryMetaReplyLastUserFound_ty = TStruct ''ICQ_0x07DA_0x01AE_DBQueryMetaReplyLastUserFound''
     [Field ''ICQMetadata'' None ICQMetadata_ty,
      Field ''ReqSubType'' None TU16,
      Field ''Success'' None TU8,
      Field ''Details'' (Some ''len_prefix=uint16'') ICQUserSearchRecord_ty,
      Field ''UsersLeft'' None TU32,
      Field ''Buffer'' None (TArray 8 TU8)]"

definition ICQ_0x07DA_0x0104_DBQueryMetaReplyShortInfo_ty :: ty where
  "ICQ_0x07DA_0x0104_DBQueryMetaReplyShortInfo_ty = TStruct ''ICQ_0x07DA_0x0104_DBQueryMetaReplyShortInfo''
     [Field ''ICQMetadata'' None ICQMetadata_ty,
      Field ''ReqSubType'' None TU16,
      Field ''Success'' None TU8,
      Field ''Nickname'' (Some ''len_prefix=uint16,nullterm'') TString,
      Field ''FirstName'' (Some ''len_prefix=uint16,nullterm'') TString,
      Field ''LastName'' (Some ''len_prefix=uint16,nullterm'') TString,
      Field ''Email'' (Some ''len_prefix=uint16,nullterm'') TString,
      Field ''Authorization'' None TU8,
      Field ''Unknown'' None TU8,
      Field ''Gender'' None TU8]"

definition ICQ_0x0041_DBQueryOfflineMsgReply_ty :: ty where
  "ICQ_0x0041_DBQueryOfflineMsgReply_ty = TStruct ''ICQ_0x0041_DBQueryOfflineMsgReply''
     [Field ''ICQMetadata'' None ICQMetadata_ty,
      Field ''SenderUIN'' None TU32,
      Field ''Year'' None TU16,
      Field ''Month'' None TU8,
      Field ''Day'' None TU8,
      Field ''Hour'' None TU8,
      Field ''Minute'' None TU8,
      Field ''MsgType'' None TU8,
      Field ''Flags'' None TU8,
      Field ''Message'' (Some ''len_prefix=uint16,nullterm'') TString]"

definition ICQ_0x0042_DBQueryOfflineMsgReplyLast_ty :: ty where
  "ICQ_0x0042_DBQueryOfflineMsgReplyLast_ty = TStruct ''ICQ_0x0042_DBQueryOfflineMsgReplyLast''
     [Field ''ICQMetadata'' None ICQMetadata_ty,
      Field ''DroppedMessages'' None TU8]"

definition ICQMetadataWithSubType_ty :: ty where
  "ICQMetadataWithSubType_ty = TStruct ''ICQMetadataWithSubType''
     [Field ''ICQMetadata'' None ICQMetadata_ty,
      Field ''Optional'' (Some ''optional'') (TPtr (TStruct '''' [Field ''ReqSubType'' None TU16]))]"

definition ICQMessageRequestEnvelope_ty :: ty where
  "ICQMessageRequestEnvelope_ty = TStruct ''ICQMessageRequestEnvelope''
     [Field ''Body'' (Some ''len_prefix=uint16'') (TSlice TU8)]"

definition ICQMessageReplyEnvelope_ty :: ty where
  "ICQMessageReplyEnvelope_ty = TStruct ''ICQMessageReplyEnvelope''
     [Field ''Message'' (Some ''len_prefix=uint16'') TInterface]"

section \<open>bucp (0x17)\<close>

definition SNAC_0x17_0x02_BUCPLoginRequest_ty :: ty where
  "SNAC_0x17_0x02_BUCPLoginRequest_ty = TStruct ''SNAC_0x17_0x02_BUCPLoginRequest''
     [Field ''TLVRestBlock'' None TLVRestBlock_ty]"

definition SNAC_0x17_0x03_BUCPLoginResponse_ty :: ty where
  "SNAC_0x17_0x03_BUCPLoginResponse_ty = TStruct ''SNAC_0x17_0x03_BUCPLoginResponse''
     [Field ''TLVRestBlock'' None TLVRestBlock_ty]"

definition SNAC_0x17_0x06_BUCPChallengeRequest_ty :: ty where
  "SNAC_0x17_0x06_BUCPChallengeRequest_ty = TStruct ''SNAC_0x17_0x06_BUCPChallengeRequest''
     [Field ''TLVRestBlock'' None TLVRestBlock_ty]"

definition SNAC_0x17_0x07_BUCPChallengeResponse_ty :: ty where
  "SNAC_0x17_0x07_BUCPChallengeResponse_ty = TStruct ''SNAC_0x17_0x07_BUCPChallengeResponse''
     [Field ''AuthKey'' (Some ''len_prefix=uint16'') TString]"

section \<open>kerberos (0x050C)\<close>

definition SNAC_0x050C_0x0002_KerberosLoginRequest_ty :: ty where
  "SNAC_0x050C_0x0002_KerberosLoginRequest_ty = TStruct ''SNAC_0x050C_0x0002_KerberosLoginRequest''
     [Field ''RequestID'' None TU32,
      Field ''ClientIP'' None TU32,
      Field ''ClientCOOLVersionMajor'' None TU32,
      Field ''ClientCOOLVersionMinor'' None TU32,
      Field ''PaddingOrZero'' None TU32,
      Field ''KerberosPayload'' None TLVBlock_ty,
      Field ''LocaleFlags1'' None TU32,
      Field ''LocaleFlags2'' None TU32,
      Field ''CountryCode'' (Some ''len_prefix=uint16'') TString,
      Field ''LanguageCode'' (Some ''len_prefix=uint16'') TString,
      Field ''ServiceContextBlock'' None TLVBlock_ty,
      Field ''VersionOrFlags'' None TU32,
      Field ''AuthType'' None TU8,
      Field ''ClientPrincipal'' (Some ''len_prefix=uint16'') TString,
      Field ''ServicePrincipal'' (Some ''len_prefix=uint16'') TString,
      Field ''Reserved1'' None TU32,
      Field ''RealmCount'' None TU16,
      Field ''TicketRequestMetadata'' None TLVBlock_ty]"

definition KerberosTicket_ty :: ty where
  "KerberosTicket_ty = TStruct ''KerberosTicket''
     [Field ''PVNO'' None TU16,
      Field ''EncTicket'' (Some ''len_prefix=uint16'') (TSlice TU8),
      Field ''TicketRealm'' (Some ''len_prefix=uint16'') TString,
      Field ''ServicePrincipal'' (Some ''len_prefix=uint16'') TString,
      Field ''ClientRealm'' (Some ''len_prefix=uint16'') TString,
      Field ''ClientPrincipal'' (Some ''len_prefix=uint16'') TString,
      Field ''KVNO'' None TU8,
      Field ''SessionKey'' (Some ''len_prefix=uint16'') (TSlice TU8),
      Field ''Unknown1'' None TU32,
      Field ''Unknown2'' None TU32,
      Field ''AuthTime'' None TU32,
      Field ''StartTime'' None TU32,
      Field ''EndTime'' None TU32,
      Field ''RenewTill'' None TU32,
      Field ''Unknown4'' None TU32,
      Field ''Unknown5'' None TU32,
      Field ''Unknown6'' None TU32,
      Field ''ConnectionMetadata'' None TLVBlock_ty]"

definition SNAC_0x050C_0x0003_KerberosLoginSuccessResponse_ty :: ty where
  "SNAC_0x050C_0x0003_KerberosLoginSuccessResponse_ty = TStruct ''SNAC_0x050C_0x0003_KerberosLoginSuccessResponse''
     [Field ''RequestID'' None TU32,
      Field ''Epoch'' None TU32,
      Field ''Reserved'' None TU32,
      Field ''ClientPrincipal'' (Some ''len_prefix=uint16'') TString,
      Field ''ClientRealm'' (Some ''len_prefix=uint16'') TString,
      Field ''Tickets'' (Some ''count_prefix=uint16'') (TSlice KerberosTicket_ty),
      Field ''Extensions'' None TLVBlock_ty]"

definition SNAC_0x050C_0x0004_KerberosLoginErrResponse_ty :: ty where
  "SNAC_0x050C_0x0004_KerberosLoginErrResponse_ty = TStruct ''SNAC_0x050C_0x0004_KerberosLoginErrResponse''
     [Field ''KerbRequestID'' None TU32,
      Field ''ScreenName'' (Some ''len_prefix=uint16'') TString,
      Field ''ErrCode'' None TU16,
      Field ''Message'' (Some ''len_prefix=uint16'') TString,
      Field ''Unknown1'' None TU32,
      Field ''Metadata'' None TLVBlock_ty]"

definition KerberosLoginRequestTicket_ty :: ty where
  "KerberosLoginRequestTicket_ty = TStruct ''KerberosLoginRequestTicket''
     [Field ''Marker'' None TU32,
      Field ''Version'' None TU16,
      Field ''Flags'' None TU32,
      Field ''Unknown'' None TU16,
      Field ''Password'' (Some ''len_prefix=uint16'') (TSlice TU8),
      Field ''PasswordMetadata'' None TLVBlock_ty]"

definition KerberosBOSServerInfo_ty :: ty where
  "KerberosBOSServerInfo_ty = TStruct ''KerberosBOSServerInfo''
     [Field ''Unknown'' None TU16,
      Field ''ConnectionInfo'' None TLVBlock_ty]"

definition base_types :: "ty list" where
  "base_types = [
     TLVList_ty,
     TLVRestBlock_ty,
     TLVBlock_ty,
     TLVLBlock_ty,
     SNACError_ty,
     FLAPFrame_ty,
     FLAPFrameDisconnect_ty,
     SNACFrame_ty,
     FLAPSignonFrame_ty,
     SNACMessage_ty,
     MultiConnFlag_ty,
     RateParamsSNAC_ty,
     TLVUserInfo_ty,
     BARTInfo_ty,
     BARTID_ty,
     BartQueryReplyID_ty,
     ODirKeywordListItem_ty,
     bartStatus_ty,
     FeedbagPDMode_ty,
     FeedbagItem_ty,
     FeedbagExtendedInfo_ty,
     ICQDCInfo_ty]"

definition oservice_types :: "ty list" where
  "oservice_types = [
     SNAC_0x01_0x02_OServiceClientOnline_ty,
     SNAC_0x01_0x03_OServiceHostOnline_ty,
     SNAC_0x01_0x04_OServiceServiceRequest_ty,
     SNAC_0x01_0x04_TLVRoomInfo_ty,
     SNAC_0x01_0x05_OServiceServiceResponse_ty,
     SNAC_0x01_0x07_OServiceRateParamsReply_ty,
     SNAC_0x01_0x0A_OServiceRateParamsChange_ty,
     SNAC_0x01_0x08_OServiceRateParamsSubAdd_ty,
     SNAC_0x01_0x0F_OServiceUserInfoUpdate_ty,
     SNAC_0x01_0x10_OServiceEvilNotification_ty,
     SNAC_0x01_0x11_OServiceIdleNotification_ty,
     SNAC_0x01_0x13_OServiceMOTD_ty,
     SNAC_0x01_0x14_OServiceSetPrivacyFlags_ty,
     SNAC_0x01_0x17_OServiceClientVersions_ty,
     SNAC_0x01_0x18_OServiceHostVersions_ty,
     SNAC_0x01_0x1E_OServiceSetUserInfoFields_ty,
     SNAC_0x01_0x21_OServiceBARTReply_ty,
     SNAC_0x01_0x23_OServiceBART2Reply_ty]"

definition locate_types :: "ty list" where
  "locate_types = [
     SNAC_0x02_0x03_LocateRightsReply_ty,
     SNAC_0x02_0x04_LocateSetInfo_ty,
     SNAC_0x02_0x06_LocateUserInfoReply_ty,
     SNAC_0x02_0x09_LocateSetDirInfo_ty,
     SNAC_0x02_0x0A_LocateSetDirReply_ty,
     SNAC_0x02_0x0B_LocateGetDirInfo_ty,
     SNAC_0x02_0x0C_LocateGetDirReply_ty,
     SNAC_0x02_0x0F_LocateSetKeywordInfo_ty,
     SNAC_0x02_0x10_LocateSetKeywordReply_ty,
     SNAC_0x02_0x05_LocateUserInfoQuery_ty,
     SNAC_0x02_0x15_LocateUserInfoQuery2_ty]"

definition buddy_types :: "ty list" where
  "buddy_types = [
     SNAC_0x03_0x02_BuddyRightsQuery_ty,
     SNAC_0x03_0x03_BuddyRightsReply_ty,
     SNAC_0x03_0x04_BuddyAddBuddies_ty,
     SNAC_0x03_0x0A_BuddyRejectNotification_ty,
     SNAC_0x03_0x05_BuddyDelBuddies_ty,
     SNAC_0x03_0x0B_BuddyArrived_ty,
     SNAC_0x03_0x0C_BuddyDeparted_ty,
     SNAC_0x03_0x0F_BuddyAddTempBuddies_ty,
     SNAC_0x03_0x10_BuddyDelTempBuddies_ty]"

definition icbm_types :: "ty list" where
  "icbm_types = [
     ICBMCh1Fragment_ty,
     ICBMCh2Fragment_ty,
     ICBMRoomInfo_ty,
     ICBMCh1Message_ty,
     ICBMCh4Message_ty,
     SNAC_0x04_0x02_ICBMAddParameters_ty,
     SNAC_0x04_0x05_ICBMParameterReply_ty,
     SNAC_0x04_0x06_ICBMChannelMsgToHost_ty,
     SNAC_0x04_0x07_ICBMChannelMsgToClient_ty,
     SNAC_0x04_0x08_ICBMEvilRequest_ty,
     SNAC_0x04_0x09_ICBMEvilReply_ty,
     SNAC_0x04_0x0B_ICBMClientErr_ty,
     SNAC_0x04_0x0C_ICBMHostAck_ty,
     SNAC_0x04_0x14_ICBMClientEvent_ty]"

definition admin_types :: "ty list" where
  "admin_types = [
     SNAC_0x07_0x02_AdminInfoQuery_ty,
     SNAC_0x07_0x03_AdminInfoReply_ty,
     SNAC_0x07_0x04_AdminInfoChangeRequest_ty,
     SNAC_0x07_0x05_AdminChangeReply_ty,
     SNAC_0x07_0x07_AdminConfirmReply_ty]"

definition permit_deny_types :: "ty list" where
  "permit_deny_types = [
     SNAC_0x09_0x03_PermitDenyRightsReply_ty,
     SNAC_0x09_0x05_PermitDenyAddPermListEntries_ty,
     SNAC_0x09_0x06_PermitDenyDelPermListEntries_ty,
     SNAC_0x09_0x07_PermitDenyAddDenyListEntries_ty,
     SNAC_0x09_0x08_PermitDenyDelDenyListEntries_ty,
     SNAC_0x09_0x04_PermitDenySetGroupPermitMask_ty]"

definition user_lookup_types :: "ty list" where
  "user_lookup_types = [
     SNAC_0x0A_0x02_UserLookupFindByEmail_ty,
     SNAC_0x0A_0x03_UserLookupFindReply_ty]"

definition stats_types :: "ty list" where
  "stats_types = [
     SNAC_0x0B_0x02_StatsSetMinReportInterval_ty,
     SNAC_0x0B_0x03_StatsReportEvents_ty,
     SNAC_0x0B_0x04_StatsReportAck_ty]"

definition chat_nav_types :: "ty list" where
  "chat_nav_types = [
     SNAC_0x0D_0x03_ChatNavRequestExchangeInfo_ty,
     SNAC_0x0D_0x04_ChatNavRequestRoomInfo_ty,
     SNAC_0x0D_0x09_ChatNavNavInfo_ty,
     SNAC_0x0D_0x09_TLVExchangeInfo_ty]"

definition chat_types :: "ty list" where
  "chat_types = [
     SNAC_0x0E_0x02_ChatRoomInfoUpdate_ty,
     SNAC_0x0E_0x03_ChatUsersJoined_ty,
     SNAC_0x0E_0x04_ChatUsersLeft_ty,
     SNAC_0x0E_0x05_ChatChannelMsgToHost_ty,
     SNAC_0x0E_0x06_ChatChannelMsgToClient_ty]"

definition odir_types :: "ty list" where
  "odir_types = [
     SNAC_0x0F_0x02_InfoQuery_ty,
     SNAC_0x0F_0x03_InfoReply_ty,
     SNAC_0x0F_0x04_KeywordListReply_ty]"

definition bart_types :: "ty list" where
  "bart_types = [
     SNAC_0x10_0x02_BARTUploadQuery_ty,
     SNAC_0x10_0x03_BARTUploadReply_ty,
     SNAC_0x10_0x04_BARTDownloadQuery_ty,
     SNAC_0x10_0x05_BARTDownloadReply_ty,
     SNAC_0x10_0x06_BARTDownload2Query_ty,
     SNAC_0x10_0x07_BARTDownload2Reply_ty]"

definition feedbag_types :: "ty list" where
  "feedbag_types = [
     SNAC_0x13_0x02_FeedbagRightsQuery_ty,
     SNAC_0x13_0x03_FeedbagRightsReply_ty,
     SNAC_0x13_0x05_FeedbagQueryIfModified_ty,
     SNAC_0x13_0x06_FeedbagReply_ty,
     SNAC_0x13_0x08_FeedbagInsertItem_ty,
     SNAC_0x13_0x09_FeedbagUpdateItem_ty,
     SNAC_0x13_0x0A_FeedbagDeleteItem_ty,
     SNAC_0x13_0x0E_FeedbagStatus_ty,
     SNAC_0x13_0x11_FeedbagStartCluster_ty,
     SNAC_0x13_0x12_FeedbagEndCluster_ty,
     SNAC_0x13_0x18_FeedbagRequestAuthorizationToHost_ty,
     SNAC_0x13_0x19_FeedbagRequestAuthorizeToClient_ty,
     SNAC_0x13_0x1A_FeedbagRespondAuthorizeToHost_ty,
     SNAC_0x13_0x1B_FeedbagRespondAuthorizeToClient_ty,
     SNAC_0x13_0x1C_FeedbagBuddyAdded_ty,
     SNAC_0x13_0x14_FeedbagPreAuthorizeBuddy_ty,
     SNAC_0x13_0x15_FeedbagPreAuthorizedBuddy_ty]"

definition icq_types :: "ty list" where
  "icq_types = [
     SNAC_0x15_0x02_BQuery_ty,
     ICQ_0x07D0_0x04BA_DBQueryMetaReqShortInfo_ty,
     ICQ_0x07D0_0x0898_DBQueryMetaReqXMLReq_ty,
     ICQ_0x07D0_0x0424_DBQueryMetaReqSetPermissions_ty,
     ICQ_0x07D0_0x0654_DBQueryMetaReqSetICQPhone_ty,
     ICQ_0x07D0_0x051F_DBQueryMetaReqSearchByUIN_ty,
     ICQ_0x07D0_0x0569_DBQueryMetaReqSearchByUIN2_ty,
     ICQ_0x07D0_0x0529_DBQueryMetaReqSearchByEmail_ty,
     ICQ_0x07D0_0x0573_DBQueryMetaReqSearchByEmail3_ty,
     ICQ_0x07D0_0x0515_DBQueryMetaReqSearchByDetails_ty,
     ICQInterests_ty,
     ICQEmail_ty,
     ICQ_0x07D0_0x0533_DBQueryMetaReqSearchWhitePages_ty,
     ICQ_0x07D0_0x055F_DBQueryMetaReqSearchWhitePages2_ty,
     ICQ_0x07D0_0x0C3A_DBQueryMetaReqSetFullInfo_ty,
     ICQ_0x07D0_0x03FD_DBQueryMetaReqSetMoreInfo_ty,
     ICQ_0x07D0_0x03F3_DBQueryMetaReqSetWorkInfo_ty,
     ICQ_0x07D0_0x040B_DBQueryMetaReqSetEmails_ty,
     ICQ_0x07D0_0x0406_DBQueryMetaReqSetNotes_ty,
     ICQ_0x07D0_0x0410_DBQueryMetaReqSetInterests_ty,
     ICQ_0x07D0_0x041A_DBQueryMetaReqSetAffiliations_ty,
     ICQ_0x07D0_0x03EA_DBQueryMetaReqSetBasicInfo_ty,
     SNAC_0x15_0x02_DBReply_ty,
     ICQMetadata_ty,
     ICQ_0x07DA_0x010E_DBQueryMetaReplyHomePageCat_ty,
     ICQ_0x07DA_0x08A2_DBQueryMetaReplyXMLData_ty,
     ICQ_0x07DA_0x00DC_DBQueryMetaReplyMoreInfo_ty,
     ICQ_0x07DA_0x00EB_DBQueryMetaReplyExtEmailInfo_ty,
     ICQ_0x07DA_0x00D2_DBQueryMetaReplyWorkInfo_ty,
     ICQ_0x07DA_0x00F0_DBQueryMetaReplyInterests_ty,
     ICQ_0x07DA_0x00E6_DBQueryMetaReplyNotes_ty,
     ICQ_0x07DA_0x00FA_DBQueryMetaReplyAffiliations_ty,
     ICQ_0x07DA_0x00C8_DBQueryMetaReplyBasicInfo_ty,
     ICQUserSearchRecord_ty,
     ICQ_0x07DA_0x01A4_DBQueryMetaReplyUserFound_ty,
     ICQ_0x07DA_0x01AE_DBQueryMetaReplyLastUserFound_ty,
     ICQ_0x07DA_0x0104_DBQueryMetaReplyShortInfo_ty,
     ICQ_0x0041_DBQueryOfflineMsgReply_ty,
     ICQ_0x0042_DBQueryOfflineMsgReplyLast_ty,
     ICQMetadataWithSubType_ty,
     ICQMessageRequestEnvelope_ty,
     ICQMessageReplyEnvelope_ty]"

definition bucp_types :: "ty list" where
  "bucp_types = [
     SNAC_0x17_0x02_BUCPLoginRequest_ty,
     SNAC_0x17_0x03_BUCPLoginResponse_ty,
     SNAC_0x17_0x06_BUCPChallengeRequest_ty,
     SNAC_0x17_0x07_BUCPChallengeResponse_ty]"

definition kerberos_types :: "ty list" where
  "kerberos_types = [
     SNAC_0x050C_0x0002_KerberosLoginRequest_ty,
     KerberosTicket_ty,
     SNAC_0x050C_0x0003_KerberosLoginSuccessResponse_ty,
     SNAC_0x050C_0x0004_KerberosLoginErrResponse_ty,
     KerberosLoginRequestTicket_ty,
     KerberosBOSServerInfo_ty]"

definition message_types :: "ty list" where
  "message_types =
     base_types @ oservice_types @ locate_types @ buddy_types @ icbm_types @ admin_types @ permit_deny_types @ user_lookup_types @ stats_types @ chat_nav_types @ chat_types @ odir_types @ bart_types @ feedbag_types @ icq_types @ bucp_types @ kerberos_types"

end
