(* ===== verification/TLVs.thy ===== *)
theory TLVs
  imports Messages
begin

text \<open>
  TLV records and TLV lists (\<open>wire/tlv.go\<close>). A \<open>TLVList\<close> is a Go slice and keeps order and
  duplicates; its accessors take the first record with the tag. The integer accessors call
  \<open>encoding/binary\<close> on the raw value, which panics when the value is too short.
\<close>

section \<open>One TLV\<close>

record TLV =
  Tag :: u16
  Value :: bytes

definition TLV_ICQString :: "TLV \<Rightarrow> bytes" where
  "TLV_ICQString t =
     (if length (Value t) < 3 then []
      else let expectedLength = get_uint LittleEndian (take 2 (Value t));
               v = drop 2 (Value t)
           in if expectedLength \<noteq> length v then [] else take (length v - 1) v)"

definition TLV_Uint8 :: "TLV \<Rightarrow> u8" where
  "TLV_Uint8 t = (if length (Value t) > 0 then Value t ! 0 else 0)"

text \<open>\<open>binary.ByteOrder.Uint16\<close> and \<open>Uint32\<close>: the leading bytes, or a panic.\<close>

definition order_uint :: "byte_order \<Rightarrow> nat \<Rightarrow> bytes \<Rightarrow> nat outcome" where
  "order_uint ord n bs = (if length bs < n then Panic else Ok (get_uint ord (take n bs)))"

definition TLV_Uint16LE :: "TLV \<Rightarrow> u16 outcome" where
  "TLV_Uint16LE t = bind_out (order_uint LittleEndian 2 (Value t)) (\<lambda>n. Ok (word_of_nat n))"

definition TLV_Uint16BE :: "TLV \<Rightarrow> u16 outcome" where
  "TLV_Uint16BE t = bind_out (order_uint BigEndian 2 (Value t)) (\<lambda>n. Ok (word_of_nat n))"

definition TLV_Uint32LE :: "TLV \<Rightarrow> u32 outcome" where
  "TLV_Uint32LE t = bind_out (order_uint LittleEndian 4 (Value t)) (\<lambda>n. Ok (word_of_nat n))"

definition TLV_Uint32BE :: "TLV \<Rightarrow> u32 outcome" where
  "TLV_Uint32BE t = bind_out (order_uint BigEndian 4 (Value t)) (\<lambda>n. Ok (word_of_nat n))"

text \<open>
  \<open>newTLV\<close>: a \<open>[]byte\<close> is taken as it is, anything else is marshalled; an error panics. The
  dynamic type travels with the value.
\<close>

fun val_bytes :: "val \<Rightarrow> bytes" where
  "val_bytes (VList vs) = map (\<lambda>v. case v of VU8 b \<Rightarrow> b | _ \<Rightarrow> 0) vs"
| "val_bytes _ = []"

definition newTLV :: "u16 \<Rightarrow> ty \<times> val \<Rightarrow> byte_order \<Rightarrow> TLV outcome" where
  "newTLV tag x ord =
     (if fst x = TSlice TU8 then Ok \<lparr>Tag = tag, Value = val_bytes (snd x)\<rparr>
      else (case (case ord of BigEndian \<Rightarrow> MarshalBE (Some x) | LittleEndian \<Rightarrow> MarshalLE (Some x)) of
          (bs, Ok _) \<Rightarrow> Ok \<lparr>Tag = tag, Value = bs\<rparr>
        | (bs, Hang) \<Rightarrow> Hang
        | (bs, _) \<Rightarrow> Panic))"

definition NewTLVBE :: "u16 \<Rightarrow> ty \<times> val \<Rightarrow> TLV outcome" where
  "NewTLVBE tag x = newTLV tag x BigEndian"

definition NewTLVLE :: "u16 \<Rightarrow> ty \<times> val \<Rightarrow> TLV outcome" where
  "NewTLVLE tag x = newTLV tag x LittleEndian"

text \<open>The byte string of a \<open>[]uint16\<close> in big-endian order.\<close>

definition u16s_bytes :: "u16 list \<Rightarrow> bytes" where
  "u16s_bytes ids = concat (map (\<lambda>i. put_uint BigEndian 2 (unat i)) ids)"

lemma val_bytes_vbytes [simp]: "val_bytes (vbytes bs) = bs"
  by (induction bs) (simp_all add: vbytes_def)

lemma NewTLVBE_bytes: "NewTLVBE tag (TSlice TU8, vbytes bs) = Ok \<lparr>Tag = tag, Value = bs\<rparr>"
  by (simp add: NewTLVBE_def newTLV_def)

lemma binary_bytes_u16s: "concat (map (binary_bytes BigEndian) (map VU16 ids)) = u16s_bytes ids"
  by (simp add: u16s_bytes_def comp_def)

lemma NewTLVBE_u16s:
  "NewTLVBE tag (TSlice TU16, VList (map VU16 ids)) = Ok \<lparr>Tag = tag, Value = u16s_bytes ids\<rparr>"
  by (simp add: NewTLVBE_def newTLV_def MarshalBE_def marshal.simps marshalKind.simps tag_eval
      binaryWrite_def wbuffered_def wput_def wok_def wseq_def marshalSliceBuf_eq
      binary_bytes_u16s del: map_map)

lemma NewTLVBE_string:
  "NewTLVBE tag (TString, VString s) = Ok \<lparr>Tag = tag, Value = s\<rparr>"
  by (simp add: NewTLVBE_def newTLV_def MarshalBE_def marshal.simps marshalKind.simps tag_eval
      marshalString_def wput_def wok_def wseq_def)

lemma NewTLVBE_u8: "NewTLVBE tag (TU8, VU8 b) = Ok \<lparr>Tag = tag, Value = [b]\<rparr>"
  by (simp add: NewTLVBE_def newTLV_def MarshalBE_def marshal.simps marshalKind.simps tag_eval
      binaryWrite_def wput_def put_uint_def)

section \<open>TLV lists\<close>

type_synonym TLVList = "TLV list"

definition TLVList_Append :: "TLV \<Rightarrow> TLVList \<Rightarrow> TLVList" where
  "TLVList_Append tlv s = s @ [tlv]"

definition TLVList_AppendList :: "TLV list \<Rightarrow> TLVList \<Rightarrow> TLVList" where
  "TLVList_AppendList tlvs s = s @ tlvs"

fun TLVList_HasTag :: "u16 \<Rightarrow> TLVList \<Rightarrow> bool" where
  "TLVList_HasTag tag [] = False"
| "TLVList_HasTag tag (tlv # s) = (tag = Tag tlv \<or> TLVList_HasTag tag s)"

text \<open>Every record with the tag gets the new value; without one the record is appended.\<close>

definition TLVList_Set :: "TLV \<Rightarrow> TLVList \<Rightarrow> TLVList" where
  "TLVList_Set new s =
     (let s' = map (\<lambda>old. if Tag old = Tag new then old\<lparr>Value := Value new\<rparr> else old) s
      in if TLVList_HasTag (Tag new) s then s' else s' @ [new])"

definition TLVList_Remove :: "u16 \<Rightarrow> TLVList \<Rightarrow> TLVList" where
  "TLVList_Remove tag s = filter (\<lambda>tlv. Tag tlv \<noteq> tag) s"

text \<open>The accessors: the first record with the tag, and whether there is one.\<close>

fun TLVList_Bytes :: "u16 \<Rightarrow> TLVList \<Rightarrow> bytes option" where
  "TLVList_Bytes tag [] = None"
| "TLVList_Bytes tag (tlv # s) = (if tag = Tag tlv then Some (Value tlv) else TLVList_Bytes tag s)"

fun TLVList_String :: "u16 \<Rightarrow> TLVList \<Rightarrow> bytes \<times> bool" where
  "TLVList_String tag [] = ([], False)"
| "TLVList_String tag (tlv # s) = (if tag = Tag tlv then (Value tlv, True) else TLVList_String tag s)"

fun TLVList_ICQString :: "u16 \<Rightarrow> TLVList \<Rightarrow> bytes \<times> bool" where
  "TLVList_ICQString tag [] = ([], False)"
| "TLVList_ICQString tag (tlv # s) =
     (if tag \<noteq> Tag tlv then TLVList_ICQString tag s else (TLV_ICQString tlv, True))"

fun TLVList_Uint8 :: "u16 \<Rightarrow> TLVList \<Rightarrow> u8 \<times> bool" where
  "TLVList_Uint8 tag [] = (0, False)"
| "TLVList_Uint8 tag (tlv # s) = (if tag = Tag tlv then (TLV_Uint8 tlv, True) else TLVList_Uint8 tag s)"

definition with_true :: "'a outcome \<Rightarrow> ('a \<times> bool) outcome" where
  "with_true x = bind_out x (\<lambda>a. Ok (a, True))"

fun TLVList_Uint16BE :: "u16 \<Rightarrow> TLVList \<Rightarrow> (u16 \<times> bool) outcome" where
  "TLVList_Uint16BE tag [] = Ok (0, False)"
| "TLVList_Uint16BE tag (tlv # s) =
     (if tag = Tag tlv then with_true (TLV_Uint16BE tlv) else TLVList_Uint16BE tag s)"

fun TLVList_Uint16LE :: "u16 \<Rightarrow> TLVList \<Rightarrow> (u16 \<times> bool) outcome" where
  "TLVList_Uint16LE tag [] = Ok (0, False)"
| "TLVList_Uint16LE tag (tlv # s) =
     (if tag = Tag tlv then with_true (TLV_Uint16LE tlv) else TLVList_Uint16LE tag s)"

fun TLVList_Uint32BE :: "u16 \<Rightarrow> TLVList \<Rightarrow> (u32 \<times> bool) outcome" where
  "TLVList_Uint32BE tag [] = Ok (0, False)"
| "TLVList_Uint32BE tag (tlv # s) =
     (if tag = Tag tlv then with_true (TLV_Uint32BE tlv) else TLVList_Uint32BE tag s)"

fun TLVList_Uint32LE :: "u16 \<Rightarrow> TLVList \<Rightarrow> (u32 \<times> bool) outcome" where
  "TLVList_Uint32LE tag [] = Ok (0, False)"
| "TLVList_Uint32LE tag (tlv # s) =
     (if tag = Tag tlv then with_true (TLV_Uint32LE tlv) else TLVList_Uint32LE tag s)"

text \<open>Pairs of bytes; an odd byte at the end is dropped.\<close>

fun u16s_of_bytes :: "bytes \<Rightarrow> u16 list" where
  "u16s_of_bytes (a # b # bs) = word_of_nat (get_uint BigEndian [a, b]) # u16s_of_bytes bs"
| "u16s_of_bytes _ = []"

fun TLVList_Uint16SliceBE :: "u16 \<Rightarrow> TLVList \<Rightarrow> u16 list \<times> bool" where
  "TLVList_Uint16SliceBE tag [] = ([], False)"
| "TLVList_Uint16SliceBE tag (tlv # s) =
     (if tag = Tag tlv then (u16s_of_bytes (Value tlv), True) else TLVList_Uint16SliceBE tag s)"

section \<open>The accessors over one lookup\<close>

text \<open>Every accessor is a view of \<open>TLVList_Bytes\<close>.\<close>

lemma HasTag_iff: "TLVList_HasTag tag s \<longleftrightarrow> TLVList_Bytes tag s \<noteq> None"
  by (induction s) auto

lemma HasTag_iff_set: "TLVList_HasTag tag s \<longleftrightarrow> tag \<in> Tag ` set s"
  by (induction s) auto

lemma String_eq:
  "TLVList_String tag s = (case TLVList_Bytes tag s of None \<Rightarrow> ([], False) | Some v \<Rightarrow> (v, True))"
  by (induction s) auto

lemma Uint8_eq:
  "TLVList_Uint8 tag s =
     (case TLVList_Bytes tag s of None \<Rightarrow> (0, False)
      | Some v \<Rightarrow> (if v = [] then 0 else hd v, True))"
  by (induction s) (auto simp: TLV_Uint8_def hd_conv_nth)

lemma Uint16BE_eq:
  "TLVList_Uint16BE tag s =
     (case TLVList_Bytes tag s of None \<Rightarrow> Ok (0, False)
      | Some v \<Rightarrow> if length v < 2 then Panic
                   else Ok (word_of_nat (get_uint BigEndian (take 2 v)), True))"
  by (induction s) (auto simp: with_true_def TLV_Uint16BE_def order_uint_def)

lemma Uint32BE_eq:
  "TLVList_Uint32BE tag s =
     (case TLVList_Bytes tag s of None \<Rightarrow> Ok (0, False)
      | Some v \<Rightarrow> if length v < 4 then Panic
                   else Ok (word_of_nat (get_uint BigEndian (take 4 v)), True))"
  by (induction s) (auto simp: with_true_def TLV_Uint32BE_def order_uint_def)

lemma Uint16SliceBE_eq:
  "TLVList_Uint16SliceBE tag s =
     (case TLVList_Bytes tag s of None \<Rightarrow> ([], False) | Some v \<Rightarrow> (u16s_of_bytes v, True))"
  by (induction s) auto

lemma u16s_roundtrip [simp]: "u16s_of_bytes (u16s_bytes ids) = ids"
proof (induction ids)
  case (Cons i ids)
  obtain a b where ab: "put_uint BigEndian 2 (unat i) = [a, b]"
    using length_put_uint [of BigEndian 2 "unat i"]
    by (metis (no_types, lifting) length_0_conv length_Suc_conv numeral_2_eq_2)
  have "get_uint BigEndian [a, b] = unat i"
    using get_put_uint [of BigEndian 2 "unat i"] unat_u16_lt [of i] by (simp add: ab)
  with Cons.IH ab show ?case by (simp add: u16s_bytes_def)
qed (simp add: u16s_bytes_def)

section \<open>The interface of a tagged store\<close>

text \<open>
  What the users of a TLV list rely on: looking a tag up after it was set or removed. The laws are
  stated once for any store and the components above work with them.
\<close>

locale tagged_store =
  fixes lookup :: "'t \<Rightarrow> 's \<Rightarrow> 'v option"
    and put :: "'t \<Rightarrow> 'v \<Rightarrow> 's \<Rightarrow> 's"
    and delete :: "'t \<Rightarrow> 's \<Rightarrow> 's"
  assumes lookup_put: "lookup t (put t' v s) = (if t = t' then Some v else lookup t s)"
    and lookup_delete: "lookup t (delete t' s) = (if t = t' then None else lookup t s)"
begin

lemma lookup_put_same [simp]: "lookup t (put t v s) = Some v"
  by (simp add: lookup_put)

lemma lookup_put_other [simp]: "t \<noteq> t' \<Longrightarrow> lookup t (put t' v s) = lookup t s"
  by (simp add: lookup_put)

lemma lookup_put_put: "lookup t (put a v (put a w s)) = lookup t (put a v s)"
  by (simp add: lookup_put)

lemma lookup_put_commute:
  "a \<noteq> b \<Longrightarrow> lookup t (put a v (put b w s)) = lookup t (put b w (put a v s))"
  by (simp add: lookup_put)

lemma lookup_delete_put: "lookup t (delete a (put a v s)) = lookup t (delete a s)"
  by (simp add: lookup_put lookup_delete)

lemma lookup_put_delete: "lookup t (put a v (delete a s)) = lookup t (put a v s)"
  by (simp add: lookup_put lookup_delete)

end

lemma Bytes_map_set:
  "TLVList_Bytes t (map (\<lambda>old. if Tag old = a then old\<lparr>Value := v\<rparr> else old) s) =
     (if t = a then map_option (\<lambda>_. v) (TLVList_Bytes t s) else TLVList_Bytes t s)"
  by (induction s) auto

lemma Bytes_append:
  "TLVList_Bytes t (xs @ ys) = (case TLVList_Bytes t xs of None \<Rightarrow> TLVList_Bytes t ys | Some v \<Rightarrow> Some v)"
  by (induction xs) auto

lemma Bytes_Set:
  "TLVList_Bytes t (TLVList_Set \<lparr>Tag = a, Value = v\<rparr> s) =
     (if t = a then Some v else TLVList_Bytes t s)"
  by (auto simp: TLVList_Set_def Let_def HasTag_iff Bytes_append Bytes_map_set split: option.splits)

lemma Bytes_Remove:
  "TLVList_Bytes t (TLVList_Remove a s) = (if t = a then None else TLVList_Bytes t s)"
  by (induction s) (auto simp: TLVList_Remove_def)

interpretation tlvs: tagged_store TLVList_Bytes
    "\<lambda>tag v. TLVList_Set \<lparr>Tag = tag, Value = v\<rparr>" TLVList_Remove
  by unfold_locales (simp_all add: Bytes_Set Bytes_Remove)

section \<open>Values of the codec\<close>

text \<open>A TLV list as a codec value and back: the shape that \<open>unmarshal\<close> builds for \<open>[]TLV\<close>.\<close>

definition tlv_val :: "TLV \<Rightarrow> val" where
  "tlv_val t = VStruct [VU16 (Tag t), vbytes (Value t)]"

fun val_tlv :: "val \<Rightarrow> TLV" where
  "val_tlv (VStruct [VU16 t, v]) = \<lparr>Tag = t, Value = val_bytes v\<rparr>"
| "val_tlv _ = \<lparr>Tag = 0, Value = []\<rparr>"

fun val_tlvs :: "val \<Rightarrow> TLVList" where
  "val_tlvs (VList vs) = map val_tlv vs"
| "val_tlvs _ = []"

definition tlvs_val :: "TLVList \<Rightarrow> val" where
  "tlvs_val s = VList (map tlv_val s)"

lemma val_tlv_tlv_val [simp]: "val_tlv (tlv_val t) = t"
  by (simp add: tlv_val_def)

lemma val_tlvs_tlvs_val [simp]: "val_tlvs (tlvs_val s) = s"
  by (simp add: tlvs_val_def comp_def)

section \<open>Properties\<close>

lemma TLV_Uint16BE_put [simp]:
  "TLV_Uint16BE \<lparr>Tag = tag, Value = put_uint BigEndian 2 (unat (x :: u16))\<rparr> = Ok x"
  using unat_u16_lt [of x] by (simp add: TLV_Uint16BE_def order_uint_def get_put_uint)

lemma TLV_Uint32BE_put [simp]:
  "TLV_Uint32BE \<lparr>Tag = tag, Value = put_uint BigEndian 4 (unat (x :: u32))\<rparr> = Ok x"
  using unat_u32_lt [of x] by (simp add: TLV_Uint32BE_def order_uint_def get_put_uint)

lemma NewTLVBE_u16:
  "NewTLVBE tag (TU16, VU16 x) = Ok \<lparr>Tag = tag, Value = put_uint BigEndian 2 (unat x)\<rparr>"
  by (simp add: NewTLVBE_def newTLV_def MarshalBE_def marshal.simps marshalKind.simps tag_eval
      binaryWrite_def wput_def)

lemma NewTLVBE_u32:
  "NewTLVBE tag (TU32, VU32 x) = Ok \<lparr>Tag = tag, Value = put_uint BigEndian 4 (unat x)\<rparr>"
  by (simp add: NewTLVBE_def newTLV_def MarshalBE_def marshal.simps marshalKind.simps tag_eval
      binaryWrite_def wput_def)

lemma Bytes_Set_same: "TLVList_Bytes (Tag t) (TLVList_Set t s) = Some (Value t)"
  by (cases t) (simp add: Bytes_Set)

text \<open>
  Storing a typed value under a tag and reading it with the accessor of that type gives it back,
  for 8-, 16- and 32-bit integers, strings and lists of 16-bit integers, whatever the list held
  before; every other tag keeps its value, and removing the tag again hides it from every accessor.
\<close>

theorem tlv_set_then_read:
  "(\<exists>t. NewTLVBE tag (TU16, VU16 x) = Ok t \<and> TLVList_Uint16BE tag (TLVList_Set t s) = Ok (x, True)) \<and>
   (\<exists>t. NewTLVBE tag (TU32, VU32 y) = Ok t \<and> TLVList_Uint32BE tag (TLVList_Set t s) = Ok (y, True)) \<and>
   (\<exists>t. NewTLVBE tag (TU8, VU8 b) = Ok t \<and> TLVList_Uint8 tag (TLVList_Set t s) = (b, True)) \<and>
   (\<exists>t. NewTLVBE tag (TString, VString str) = Ok t \<and>
      TLVList_String tag (TLVList_Set t s) = (str, True)) \<and>
   (\<exists>t. NewTLVBE tag (TSlice TU16, VList (map VU16 ids)) = Ok t \<and>
      TLVList_Uint16SliceBE tag (TLVList_Set t s) = (ids, True)) \<and>
   TLVList_Bytes tag' (TLVList_Set \<lparr>Tag = tag, Value = v\<rparr> s) =
      (if tag' = tag then Some v else TLVList_Bytes tag' s) \<and>
   TLVList_Bytes tag' (TLVList_Remove tag (TLVList_Set \<lparr>Tag = tag, Value = v\<rparr> s)) =
      (if tag' = tag then None else TLVList_Bytes tag' s)"
  using unat_u16_lt [of x] unat_u32_lt [of y]
  by (simp add: NewTLVBE_u16 NewTLVBE_u32 NewTLVBE_u8 NewTLVBE_string NewTLVBE_u16s Uint16BE_eq
      Uint32BE_eq Uint8_eq String_eq Uint16SliceBE_eq get_put_uint tlvs.lookup_put tlvs.lookup_delete)

text \<open>
  The integer accessors panic exactly when the first TLV with the tag is too short for the type;
  the presence test does not look at the length. A caller that reads an attribute a peer controls
  with \<open>Uint16BE\<close> or \<open>Uint32BE\<close> can be made to panic.
\<close>

theorem short_tlv_panics:
  "(TLVList_Uint16BE tag s = Panic \<longleftrightarrow> (\<exists>v. TLVList_Bytes tag s = Some v \<and> length v < 2)) \<and>
   (TLVList_Uint32BE tag s = Panic \<longleftrightarrow> (\<exists>v. TLVList_Bytes tag s = Some v \<and> length v < 4)) \<and>
   (TLVList_HasTag tag s \<longleftrightarrow> (\<exists>v. TLVList_Bytes tag s = Some v)) \<and>
   TLVList_Uint16BE 1 [\<lparr>Tag = 1, Value = [0x41]\<rparr>] = Panic"
  by (auto simp: Uint16BE_eq Uint32BE_eq HasTag_iff split: option.splits if_splits)

end
