(* ===== verification/Frames.thy ===== *)
theory Frames
  imports TLVs
begin

text \<open>
  FLAP framing (\<open>wire/frames.go\<close>). A \<open>FlapClient\<close> writes frames that carry consecutive sequence
  numbers and reads the frames of its peer. The connection it writes to is modelled with the number
  of bytes it still accepts, so that a failing write is a value of the model.
\<close>

section \<open>The client\<close>

text \<open>
  \<open>inp\<close> is what the reader has yet to deliver, \<open>outp\<close> what reached the writer. \<open>room\<close> bounds the
  bytes the connection still accepts; \<open>None\<close> is a connection that never fails.
\<close>

record FlapClient =
  sequence :: u32
  inp :: bytes
  outp :: bytes
  room :: "nat option"

definition NewFlapClient :: "u32 \<Rightarrow> bytes \<Rightarrow> FlapClient" where
  "NewFlapClient startSeq r = \<lparr>sequence = startSeq, inp = r, outp = [], room = None\<rparr>"

definition FLAPFrameSignon :: u8 where "FLAPFrameSignon = 1"
definition FLAPFrameData :: u8 where "FLAPFrameData = 2"
definition FLAPFrameSignoff :: u8 where "FLAPFrameSignoff = 4"
definition FLAPFrameKeepAlive :: u8 where "FLAPFrameKeepAlive = 5"

lemmas frame_types = FLAPFrameSignon_def FLAPFrameData_def FLAPFrameSignoff_def FLAPFrameKeepAlive_def

text \<open>A \<open>FLAPFrame\<close> and its value in the codec.\<close>

record FLAPFrame =
  StartMarker :: u8
  FrameType :: u8
  Sequence :: u16
  Payload :: bytes

definition flap_val :: "FLAPFrame \<Rightarrow> val" where
  "flap_val f = VStruct [VU8 (StartMarker f), VU8 (FrameType f), VU16 (Sequence f), vbytes (Payload f)]"

fun val_flap :: "val \<Rightarrow> FLAPFrame" where
  "val_flap (VStruct [VU8 m, VU8 ft, VU16 s, p]) =
     \<lparr>StartMarker = m, FrameType = ft, Sequence = s, Payload = val_bytes p\<rparr>"
| "val_flap _ = \<lparr>StartMarker = 0, FrameType = 0, Sequence = 0, Payload = []\<rparr>"

text \<open>\<open>MarshalBE(v, f.w)\<close>: the bytes go to the connection as far as it takes them.\<close>

definition conn_write :: "writer \<Rightarrow> FlapClient \<Rightarrow> unit outcome \<times> FlapClient" where
  "conn_write m f =
     (case room f of
        None \<Rightarrow> (snd m, f\<lparr>outp := outp f @ fst m\<rparr>)
      | Some n \<Rightarrow>
          (if length (fst m) \<le> n
           then (snd m, f\<lparr>outp := outp f @ fst m, room := Some (n - length (fst m))\<rparr>)
           else (Err WriteFailed, f\<lparr>outp := outp f @ take n (fst m), room := Some 0\<rparr>)))"

text \<open>The common end of every sending method: write the frame and, unless that failed, advance.\<close>

definition sendFrame :: "u8 \<Rightarrow> bytes \<Rightarrow> FlapClient \<Rightarrow> unit outcome \<times> FlapClient" where
  "sendFrame ft payload f =
     (let flap = \<lparr>StartMarker = 42, FrameType = ft, Sequence = ucast (sequence f), Payload = payload\<rparr>
      in case conn_write (MarshalBE (Some (FLAPFrame_ty, flap_val flap))) f of
           (Ok _, f') \<Rightarrow> (Ok (), f'\<lparr>sequence := sequence f' + 1\<rparr>)
         | (x, f') \<Rightarrow> (x, f'))"

definition SendSignonFrame :: "TLV list \<Rightarrow> FlapClient \<Rightarrow> unit outcome \<times> FlapClient" where
  "SendSignonFrame tlvs f =
     (case MarshalBE (Some (FLAPSignonFrame_ty, VStruct [VU32 1, VStruct [tlvs_val tlvs]])) of
        (buf, Ok _) \<Rightarrow> sendFrame FLAPFrameSignon buf f
      | (_, x) \<Rightarrow> (x, f))"

definition NewSignoff :: "TLVList \<Rightarrow> FlapClient \<Rightarrow> unit outcome \<times> FlapClient" where
  "NewSignoff tlvs f =
     (case MarshalBE (Some (TLVRestBlock_ty, VStruct [tlvs_val tlvs])) of
        (tlvBuf, Ok _) \<Rightarrow> sendFrame FLAPFrameSignoff tlvBuf f
      | (_, x) \<Rightarrow> (x, f))"

definition SendSNAC :: "val \<Rightarrow> (ty \<times> val) option \<Rightarrow> FlapClient \<Rightarrow> unit outcome \<times> FlapClient" where
  "SendSNAC frame body f =
     (case wseq (MarshalBE (Some (SNACFrame_ty, frame))) (MarshalBE body) of
        (snacBuf, Ok _) \<Rightarrow> sendFrame FLAPFrameData snacBuf f
      | (_, x) \<Rightarrow> (x, f))"

definition SendDataFrame :: "bytes \<Rightarrow> FlapClient \<Rightarrow> unit outcome \<times> FlapClient" where
  "SendDataFrame payload f = sendFrame FLAPFrameData payload f"

definition SendKeepAliveFrame :: "FlapClient \<Rightarrow> unit outcome \<times> FlapClient" where
  "SendKeepAliveFrame f = sendFrame FLAPFrameKeepAlive [] f"

text \<open>The legacy signoff frame has no payload length and leaves the sequence number alone.\<close>

definition OldSignoff :: "FlapClient \<Rightarrow> unit outcome \<times> FlapClient" where
  "OldSignoff f = conn_write (MarshalBE (Some (FLAPFrameDisconnect_ty,
     VStruct [VU8 42, VU8 FLAPFrameSignoff, VU16 (ucast (sequence f))]))) f"

text \<open>Receiving: what a failed read consumed is gone.\<close>

definition recv :: "ty \<Rightarrow> FlapClient \<Rightarrow> val outcome \<times> FlapClient" where
  "recv t f = (case UnmarshalBE t (inp f) of (x, r) \<Rightarrow> (x, f\<lparr>inp := r\<rparr>))"

definition ReceiveFLAP :: "FlapClient \<Rightarrow> FLAPFrame outcome \<times> FlapClient" where
  "ReceiveFLAP f = (case recv FLAPFrame_ty f of (x, f') \<Rightarrow> (bind_out x (\<lambda>v. Ok (val_flap v)), f'))"

definition ReceiveSignonFrame :: "FlapClient \<Rightarrow> val outcome \<times> FlapClient" where
  "ReceiveSignonFrame f =
     (case recv FLAPFrame_ty f of
        (x, f') \<Rightarrow> (bind_out x (\<lambda>v. fst (UnmarshalBE FLAPSignonFrame_ty (Payload (val_flap v)))), f'))"

definition ReceiveSNAC :: "ty \<Rightarrow> FlapClient \<Rightarrow> (val \<times> val) outcome \<times> FlapClient" where
  "ReceiveSNAC body f =
     (case recv FLAPFrame_ty f of
        (x, f') \<Rightarrow> (bind_out x (\<lambda>v. fst
          (pbind (UnmarshalBE SNACFrame_ty) (\<lambda>fr. pbind (UnmarshalBE body) (\<lambda>b. pret (fr, b)))
             (Payload (val_flap v)))), f'))"

section \<open>The bytes of a frame\<close>

text \<open>The six header bytes and the payload; the length field keeps the low 16 bits.\<close>

definition flap_bytes :: "FLAPFrame \<Rightarrow> bytes" where
  "flap_bytes f = [StartMarker f, FrameType f] @ put_uint BigEndian 2 (unat (Sequence f)) @
     put_uint BigEndian 2 (length (Payload f)) @ Payload f"

lemma put_uint_1 [simp]: "put_uint ord (Suc 0) (unat (x :: u8)) = [x]"
  by (simp add: put_uint_def split: byte_order.split)

lemma binary_bytes_vbytes [simp]: "binary_bytes ord (vbytes bs) = bs"
  by (induction bs) (simp_all add: vbytes_def)

lemma marshal_vbytes:
  "marshal BigEndian (Some ''len_prefix=uint16'') (TSlice TU8) (vbytes bs) =
     (put_uint BigEndian 2 (length bs) @ bs, Ok ())"
proof -
  have "binary_bytes BigEndian (VList (map VU8 bs)) = bs"
    using binary_bytes_vbytes [of BigEndian bs] by (simp add: vbytes_def)
  then show ?thesis
    by (simp add: marshal.simps marshalKind.simps tag_eval marshalSliceBuf_eq marshalUnsignedInt_def
        vbytes_def binaryWrite_def wbuffered_def wput_def wseq_def)
qed

lemma marshal_FLAPFrame: "MarshalBE (Some (FLAPFrame_ty, flap_val f)) = (flap_bytes f, Ok ())"
  by (simp add: MarshalBE_def FLAPFrame_ty_def flap_val_def marshal.simps [of _ None]
      marshalKind.simps marshalStruct.simps tag_eval struct_order_def marshal_vbytes
      binaryWrite_def wput_def wseq_def wok_def flap_bytes_def)

lemma marshal_FLAPFrameDisconnect:
  "MarshalBE (Some (FLAPFrameDisconnect_ty, VStruct [VU8 m, VU8 ft, VU16 s])) =
     ([m, ft] @ put_uint BigEndian 2 (unat s), Ok ())"
  by (simp add: MarshalBE_def FLAPFrameDisconnect_ty_def marshal.simps [of _ None]
      marshalKind.simps marshalStruct.simps tag_eval struct_order_def
      binaryWrite_def wput_def wseq_def wok_def)

text \<open>Reading byte slices back.\<close>

lemma unmarshal_u8: "unmarshal ord None q TU8 (b # r) = (Ok (VU8 b), r)"
  by (simp add: unmarshal_None read_uint_def pbind_def read_full_def get_uint_def
      split: byte_order.split)

lemma until_empty_u8: "until_empty (unmarshal ord None q TU8) bs = Ok (map VU8 bs)"
  by (induction bs) (simp_all add: until_empty.simps unmarshal_u8)

lemma unmarshal_bytes:
  "unmarshal BigEndian (Some ''len_prefix=uint16'') [] (TSlice TU8) r =
     pbind (read_uint BigEndian 2) (\<lambda>n. pbind (read_full n) (\<lambda>b. pret (vbytes b))) r"
  by (simp add: unmarshal.simps [of _ "Some _"] tag_eval effective_quirk_def unmarshalSlice_def
      unmarshalUnsignedInt_def trim_space_def
      pbind_def until_empty_u8 vbytes_def split: prod.split outcome.split)

lemma unmarshal_FLAPFrame:
  "UnmarshalBE FLAPFrame_ty r =
     pbind (read_uint BigEndian 1) (\<lambda>m. pbind (read_uint BigEndian 1) (\<lambda>ft.
     pbind (read_uint BigEndian 2) (\<lambda>s. pbind (read_uint BigEndian 2) (\<lambda>n.
     pbind (read_full n) (\<lambda>b. pret (flap_val \<lparr>StartMarker = word_of_nat m,
       FrameType = word_of_nat ft, Sequence = word_of_nat s, Payload = b\<rparr>)))))) r"
  by (simp add: UnmarshalBE_def FLAPFrame_ty_def unmarshal_None in_buffer_def unmarshal_bytes
      flap_val_def pbind_def split: prod.split outcome.split)

section \<open>What a peer reads\<close>

text \<open>
  A frame is read back in full when its payload is shorter than 65536 bytes. Otherwise the reader
  takes as many bytes as the truncated length says and the rest is left in the stream.
\<close>

lemma read_u8: "read_uint ord 1 (b # r) = (Ok (unat b), r)"
  by (simp add: read_uint_def pbind_def read_full_def get_uint_def split: byte_order.split)

lemma UnmarshalBE_flap_bytes:
  "UnmarshalBE FLAPFrame_ty (flap_bytes f @ r) =
     (let n = length (Payload f) mod 65536 in
      (Ok (flap_val (f\<lparr>Payload := take n (Payload f)\<rparr>)), drop n (Payload f) @ r))"
proof -
  define n where "n = length (Payload f) mod 65536"
  have n: "n \<le> length (Payload f)" by (simp add: n_def)
  have len: "read_uint BigEndian 2 (put_uint BigEndian 2 (length (Payload f)) @ Payload f @ r) =
      (Ok n, Payload f @ r)"
    by (simp add: read_uint_def pbind_def read_full_append get_put_uint n_def)
  have pay: "read_full n (Payload f @ r) = (Ok (take n (Payload f)), drop n (Payload f) @ r)"
    using n by (simp add: read_full_def)
  have eq: "f\<lparr>Payload := p\<rparr> = \<lparr>StartMarker = StartMarker f, FrameType = FrameType f,
      Sequence = Sequence f, Payload = p\<rparr>" for p
    by (cases f) simp
  show ?thesis
    unfolding n_def [symmetric] Let_def eq
    by (simp add: unmarshal_FLAPFrame flap_bytes_def pbind_def read_u8 [unfolded One_nat_def]
        read_uint_put [OF unat_u16_lt] len pay)
qed

corollary UnmarshalBE_flap_bytes_short:
  "length (Payload f) < 65536 \<Longrightarrow> UnmarshalBE FLAPFrame_ty (flap_bytes f @ r) = (Ok (flap_val f), r)"
  by (simp add: UnmarshalBE_flap_bytes)

lemma val_flap_flap_val [simp]: "val_flap (flap_val f) = f"
  by (simp add: flap_val_def)

lemma flap_val_inject [simp]: "flap_val f = flap_val g \<longleftrightarrow> f = g"
  by (metis val_flap_flap_val)

lemma flap_bytes_neq_Nil [simp]: "flap_bytes f \<noteq> []"
  by (simp add: flap_bytes_def)

lemma eof_FLAPFrame: "eof_on_empty (UnmarshalBE FLAPFrame_ty)"
  by (simp add: eof_on_empty_def unmarshal_FLAPFrame pbind_def read_uint_def read_full_def)

section \<open>Sequences of sends\<close>

text \<open>
  The sending methods as data, with the payload each of them encodes, and a run of them. A method
  whose payload cannot be encoded writes nothing.
\<close>

datatype flap_op =
    OpSignon "TLV list"
  | OpSNAC val "(ty \<times> val) option"
  | OpData bytes
  | OpKeepAlive
  | OpNewSignoff TLVList

fun perform :: "flap_op \<Rightarrow> FlapClient \<Rightarrow> unit outcome \<times> FlapClient" where
  "perform (OpSignon tlvs) f = SendSignonFrame tlvs f"
| "perform (OpSNAC fr body) f = SendSNAC fr body f"
| "perform (OpData p) f = SendDataFrame p f"
| "perform OpKeepAlive f = SendKeepAliveFrame f"
| "perform (OpNewSignoff tlvs) f = NewSignoff tlvs f"

fun op_type :: "flap_op \<Rightarrow> u8" where
  "op_type (OpSignon _) = FLAPFrameSignon"
| "op_type (OpSNAC _ _) = FLAPFrameData"
| "op_type (OpData _) = FLAPFrameData"
| "op_type OpKeepAlive = FLAPFrameKeepAlive"
| "op_type (OpNewSignoff _) = FLAPFrameSignoff"

fun op_payload :: "flap_op \<Rightarrow> writer" where
  "op_payload (OpSignon tlvs) =
     MarshalBE (Some (FLAPSignonFrame_ty, VStruct [VU32 1, VStruct [tlvs_val tlvs]]))"
| "op_payload (OpSNAC fr body) = wseq (MarshalBE (Some (SNACFrame_ty, fr))) (MarshalBE body)"
| "op_payload (OpData p) = wput p"
| "op_payload OpKeepAlive = wok"
| "op_payload (OpNewSignoff tlvs) = MarshalBE (Some (TLVRestBlock_ty, VStruct [tlvs_val tlvs]))"

lemma perform_eq:
  "perform op f =
     (case op_payload op of (p, Ok _) \<Rightarrow> sendFrame (op_type op) p f | (_, x) \<Rightarrow> (x, f))"
  by (cases op) (simp_all add: SendSignonFrame_def SendSNAC_def SendDataFrame_def
      SendKeepAliveFrame_def NewSignoff_def wput_def wok_def split: prod.split outcome.split)

definition run_ops :: "flap_op list \<Rightarrow> FlapClient \<Rightarrow> FlapClient" where
  "run_ops ops f = fold (\<lambda>op f. snd (perform op f)) ops f"

text \<open>The frames a run is meant to send: those whose payload could be encoded, numbered.\<close>

definition op_frames :: "flap_op list \<Rightarrow> (u8 \<times> bytes) list" where
  "op_frames ops = concat (map (\<lambda>op. case op_payload op of
      (p, Ok _) \<Rightarrow> [(op_type op, p)] | _ \<Rightarrow> []) ops)"

fun number_frames :: "u32 \<Rightarrow> (u8 \<times> bytes) list \<Rightarrow> FLAPFrame list" where
  "number_frames s [] = []"
| "number_frames s ((ft, p) # fs) =
     \<lparr>StartMarker = 42, FrameType = ft, Sequence = ucast s, Payload = p\<rparr> # number_frames (s + 1) fs"

lemma map_payload_number_frames: "map Payload (number_frames s fs) = map snd fs"
  by (induction s fs rule: number_frames.induct) simp_all

lemma length_number_frames [simp]: "length (number_frames s fs) = length fs"
  by (induction s fs rule: number_frames.induct) simp_all

lemma nth_number_frames:
  "i < length fs \<Longrightarrow> number_frames s fs ! i =
     \<lparr>StartMarker = 42, FrameType = fst (fs ! i), Sequence = ucast (s + of_nat i), Payload = snd (fs ! i)\<rparr>"
proof (induction s fs arbitrary: i rule: number_frames.induct)
  case (2 s ft p fs)
  then show ?case by (cases i) (simp_all add: algebra_simps)
qed simp

lemma sendFrame_unbounded:
  "room f = None \<Longrightarrow> sendFrame ft p f =
     (Ok (), f\<lparr>outp := outp f @ flap_bytes \<lparr>StartMarker = 42, FrameType = ft,
        Sequence = ucast (sequence f), Payload = p\<rparr>, sequence := sequence f + 1\<rparr>)"
  by (simp add: sendFrame_def conn_write_def marshal_FLAPFrame Let_def)

lemma run_ops_frames:
  assumes "room f = None"
  shows "outp (run_ops ops f) =
      outp f @ concat (map flap_bytes (number_frames (sequence f) (op_frames ops))) \<and>
    sequence (run_ops ops f) = sequence f + of_nat (length (op_frames ops)) \<and>
    room (run_ops ops f) = None"
  using assms
proof (induction ops arbitrary: f)
  case (Cons op ops)
  have step: "run_ops (op # ops) f = run_ops ops (snd (perform op f))"
    by (simp add: run_ops_def)
  obtain p x where px: "op_payload op = (p, x)" by fastforce
  show ?case
  proof (cases x)
    case (Ok u)
    have "perform op f = (Ok (), f\<lparr>outp := outp f @ flap_bytes \<lparr>StartMarker = 42,
        FrameType = op_type op, Sequence = ucast (sequence f), Payload = p\<rparr>,
        sequence := sequence f + 1\<rparr>)"
      using Cons.prems px Ok by (simp add: perform_eq sendFrame_unbounded)
    then show ?thesis
      using Cons.prems px Ok by (simp add: step Cons.IH op_frames_def)
  qed (use Cons.prems px in \<open>simp_all add: step perform_eq op_frames_def Cons.IH [unfolded op_frames_def]\<close>)
qed (simp add: run_ops_def op_frames_def)

text \<open>Frames are a stream of values: the laws of the interface, for payloads below 65536 bytes.\<close>

interpretation frame_stream: stream_codec "\<lambda>v. flap_bytes (val_flap v)" "UnmarshalBE FLAPFrame_ty"
    "\<lambda>v. v = flap_val (val_flap v) \<and> length (Payload (val_flap v)) < 65536"
proof unfold_locales
  fix v r
  assume "v = flap_val (val_flap v) \<and> length (Payload (val_flap v)) < 65536"
  then show "UnmarshalBE FLAPFrame_ty (flap_bytes (val_flap v) @ r) = (Ok v, r)"
    by (metis UnmarshalBE_flap_bytes_short)
qed (simp_all add: eof_FLAPFrame)

lemma receive_stream:
  assumes "\<forall>f \<in> set fs. length (Payload f) < 65536"
  shows "until_eof (UnmarshalBE FLAPFrame_ty) (concat (map flap_bytes fs)) = (Ok (map flap_val fs), [])"
  using frame_stream.read_to_eof [of "map flap_val fs"] assms by (simp add: list_all_iff comp_def)

section \<open>SNAC messages inside a frame\<close>

record SNACFrame =
  FoodGroup :: u16
  SubGroup :: u16
  Flags :: u16
  RequestID :: u32

definition snac_val :: "SNACFrame \<Rightarrow> val" where
  "snac_val f = VStruct [VU16 (FoodGroup f), VU16 (SubGroup f), VU16 (Flags f), VU32 (RequestID f)]"

lemma SNACFrame_code:
  "codes_at False (MarshalBE (Some (SNACFrame_ty, snac_val f))) (UnmarshalBE SNACFrame_ty) (snac_val f)"
  by (rule code_BE) (simp_all add: SNACFrame_ty_def snac_val_def tag_eval)

lemma length_SNACFrame: "length (fst (MarshalBE (Some (SNACFrame_ty, snac_val f)))) = 10"
  by (simp add: MarshalBE_def SNACFrame_ty_def snac_val_def marshal.simps marshalKind.simps
      marshalStruct.simps tag_eval struct_order_def binaryWrite_def wput_def wseq_def wok_def)

section \<open>Properties\<close>

text \<open>
  C5: A peer that reads the connection until its end gets exactly the frames the sending methods
  were asked for, in order, with consecutive sequence numbers (the low 16 bits of a 32-bit counter)
  and their payloads unchanged, provided every payload is shorter than 65536 bytes. Methods whose
  body cannot be encoded leave no trace.
\<close>

theorem flap_stream:
  assumes "\<forall>p \<in> snd ` set (op_frames ops). length p < 65536"
  shows "let fs = number_frames s (op_frames ops) in
    until_eof (UnmarshalBE FLAPFrame_ty) (outp (run_ops ops (NewFlapClient s r))) =
      (Ok (map flap_val fs), []) \<and>
    map Payload fs = map snd (op_frames ops) \<and>
    map Sequence fs = map (\<lambda>i. ucast (s + of_nat i)) [0..<length fs]"
proof -
  define fs where "fs = number_frames s (op_frames ops)"
  have "Payload ` set fs = snd ` set (op_frames ops)"
    by (metis fs_def list.set_map map_payload_number_frames)
  then have "\<forall>f \<in> set fs. length (Payload f) < 65536"
    using assms by blast
  then have "until_eof (UnmarshalBE FLAPFrame_ty) (outp (run_ops ops (NewFlapClient s r))) =
      (Ok (map flap_val fs), [])"
    using run_ops_frames [of "NewFlapClient s r" ops]
    by (simp add: NewFlapClient_def fs_def receive_stream)
  moreover have "map Payload fs = map snd (op_frames ops)"
    by (simp add: fs_def map_payload_number_frames)
  moreover have "map Sequence fs = map (\<lambda>i. ucast (s + of_nat i)) [0..<length fs]"
    by (rule nth_equalityI) (simp_all add: fs_def nth_number_frames)
  ultimately show ?thesis by (simp only: fs_def Let_def)
qed

text \<open>The hypothesis holds for a data frame and a keep-alive, across the wrap of the counter.\<close>

lemma flap_stream_witness:
  "fst (until_eof (UnmarshalBE FLAPFrame_ty)
     (outp (run_ops [OpData [1, 2], OpKeepAlive] (NewFlapClient 0xFFFF [])))) =
   Ok (map flap_val [\<lparr>StartMarker = 42, FrameType = 2, Sequence = 0xFFFF, Payload = [1, 2]\<rparr>,
     \<lparr>StartMarker = 42, FrameType = 5, Sequence = 0, Payload = []\<rparr>])"
proof -
  have fr: "op_frames [OpData [1, 2], OpKeepAlive] = [(2, [1, 2]), (5, [])]"
    by (simp add: op_frames_def wput_def wok_def frame_types)
  show ?thesis
    using flap_stream [of "[OpData [1, 2], OpKeepAlive]" "0xFFFF" "[]"] by (simp add: fr)
qed

text \<open>
  Whatever the connection does, a sending method advances the sequence number exactly when it
  reports success, and then its whole frame is on the connection; the bytes sent before are never
  touched.
\<close>

theorem flap_send_atomic:
  "case perform op f of (x, f') \<Rightarrow>
     sequence f' = (if x = Ok () then sequence f + 1 else sequence f) \<and>
     inp f' = inp f \<and>
     (\<exists>w. outp f' = outp f @ w \<and>
       (x = Ok () \<longleftrightarrow> snd (op_payload op) = Ok () \<and>
         w = flap_bytes \<lparr>StartMarker = 42, FrameType = op_type op, Sequence = ucast (sequence f),
           Payload = fst (op_payload op)\<rparr>))"
proof -
  obtain p x where px: "op_payload op = (p, x)" by fastforce
  show ?thesis
  proof (cases x)
    case (Ok u)
    then show ?thesis
      by (auto simp: perform_eq px sendFrame_def conn_write_def marshal_FLAPFrame Let_def
          split: option.split dest!: arg_cong [of _ _ length])
  qed (simp_all add: perform_eq px)
qed

text \<open>
  A payload of 65536 bytes or more is sent with a wrong length: the frame that arrives is cut
  to the length modulo 65536 and the next read starts inside the payload. \<open>FLAPMaxDataSize\<close> is
  declared but no method checks it.
\<close>

theorem flap_oversize_payload:
  "let (x, f) = SendDataFrame p (NewFlapClient s []); n = length p mod 65536 in
     x = Ok () \<and>
     ReceiveFLAP (NewFlapClient t (outp f @ rest)) =
       (Ok \<lparr>StartMarker = 42, FrameType = FLAPFrameData, Sequence = ucast s, Payload = take n p\<rparr>,
        NewFlapClient t (drop n p @ rest))"
  by (simp add: SendDataFrame_def sendFrame_unbounded NewFlapClient_def ReceiveFLAP_def recv_def
      UnmarshalBE_flap_bytes Let_def)

text \<open>
  The signoff for legacy clients writes four bytes, leaves the sequence number as it is, and a
  peer that expects an ordinary frame reports the end of the stream instead of a frame.
\<close>

theorem flap_old_signoff:
  "let (x, f) = OldSignoff (NewFlapClient s r) in
     x = Ok () \<and> length (outp f) = 4 \<and> sequence f = s \<and>
     UnmarshalBE FLAPFrame_ty (outp f) = (Err EOF, [])"
proof -
  have "UnmarshalBE FLAPFrame_ty ([42, FLAPFrameSignoff] @ put_uint BigEndian 2 (unat (ucast s :: u16))) = (Err EOF, [])"
    using read_uint_put [OF unat_u16_lt [of "ucast s"], where r = "[]" and ord = BigEndian]
    by (simp add: unmarshal_FLAPFrame pbind_def read_u8 [unfolded One_nat_def])
       (simp add: read_uint_def pbind_def read_full_def)
  then show ?thesis
    by (simp add: OldSignoff_def NewFlapClient_def conn_write_def marshal_FLAPFrameDisconnect Let_def)
qed

text \<open>
  C6: A SNAC message sent on one side is received on the other: for every body type whose encoding
  can be read back and every value that fits it, frame and body arrive unchanged, as long as the
  whole message stays below 65536 bytes.
\<close>

theorem snac_exchange:
  assumes "rt_kind True emptyTag t" and "fits BigEndian emptyTag t v"
    and "length (fst (MarshalBE (Some (t, v)))) < 65526"
  shows "fst (ReceiveSNAC t (NewFlapClient n
      (outp (snd (SendSNAC (snac_val fr) (Some (t, v)) (NewFlapClient s r)))))) = Ok (snac_val fr, v)"
proof -
  have "codes_at True (MarshalBE (Some (t, v))) (UnmarshalBE t) v" by (rule code_BE [OF assms(1,2)])
  then obtain b where b: "MarshalBE (Some (t, v)) = (b, Ok ())" "UnmarshalBE t b = (Ok v, [])"
    by (auto simp: codes_at_def)
  obtain h where h: "MarshalBE (Some (SNACFrame_ty, snac_val fr)) = (h, Ok ())"
      "\<And>r. UnmarshalBE SNACFrame_ty (h @ r) = (Ok (snac_val fr), r)"
    using SNACFrame_code [of fr] by (auto simp: codes_at_def)
  have "length (h @ b) < 65536" using assms(3) length_SNACFrame [of fr] b h by simp
  then show ?thesis
    using b h
    by (simp add: SendSNAC_def wseq_def sendFrame_unbounded NewFlapClient_def ReceiveSNAC_def recv_def
        UnmarshalBE_flap_bytes_short [where r = "[]", simplified] pbind_def)
qed

text \<open>The message exchanged here is an error reply with one TLV.\<close>

lemma snac_exchange_witness:
  "fst (ReceiveSNAC SNACError_ty (NewFlapClient 0
     (outp (snd (SendSNAC (snac_val \<lparr>FoodGroup = 4, SubGroup = 1, Flags = 0, RequestID = 7\<rparr>)
       (Some (SNACError_ty, VStruct [VU16 3, VStruct [tlvs_val [\<lparr>Tag = 8, Value = [0, 1]\<rparr>]]]))
       (NewFlapClient 5 [])))))) =
   Ok (snac_val \<lparr>FoodGroup = 4, SubGroup = 1, Flags = 0, RequestID = 7\<rparr>,
       VStruct [VU16 3, VStruct [tlvs_val [\<lparr>Tag = 8, Value = [0, 1]\<rparr>]]])"
  by (rule snac_exchange)
     (simp_all add: SNACError_ty_def TLVRestBlock_ty_def TLVList_ty_def tlv_ty_def tlvs_val_def
        tlv_val_def vbytes_def tag_eval prefix_max_def elems_bytes_def binaryWrite_def wput_def
        MarshalBE_def marshal.simps marshalKind.simps marshalStruct.simps struct_order_def wseq_def
        wok_def wbuffered_def marshalSliceBuf_def marshalUnsignedInt_def)

text \<open>
  Whatever bytes a peer sends, receiving a frame or a signon frame returns a value or an error;
  the decoder neither panics nor loops.
\<close>

theorem receive_never_panics:
  "safe_out (fst (ReceiveFLAP f)) \<and> safe_out (fst (ReceiveSignonFrame f))"
proof -
  have "dec_safe None FLAPFrame_ty" "dec_safe None FLAPSignonFrame_ty"
    by code_simp+
  then have "safe (UnmarshalBE FLAPFrame_ty)" "safe (UnmarshalBE FLAPSignonFrame_ty)"
    by (simp_all add: UnmarshalBE_def dec_safe_all(1))
  then have "safe_out (fst (UnmarshalBE FLAPFrame_ty r))"
      "safe_out (fst (UnmarshalBE FLAPSignonFrame_ty r))" for r
    by (simp_all add: safe_def)
  then show ?thesis
    by (simp add: ReceiveFLAP_def ReceiveSignonFrame_def recv_def split: prod.split)
       (metis bind_out.simps fst_conv outcome.exhaust safe_out_simps)
qed

end
