(* ===== verification/CodecProperties.thy ===== *)
theory CodecProperties
  imports Frames
begin

text \<open>
  What the wire codec guarantees, for every type the theory of round trips admits and for the
  message types of \<open>wire/snacs.go\<close> and \<open>wire/frames.go\<close>: reading back what was written, decoding
  arbitrary bytes without a panic or an endless loop, the limits of the length prefixes and the
  effect of the decode quirks.
\<close>

section \<open>Round trips\<close>

lemma codec_code:
  assumes "rt_kind fin emptyTag t" and "fits ord emptyTag t v"
  shows "codes_at fin (marshal ord None t v) (unmarshal ord None [] t) v"
  using codec_roundtrip_kind [OF assms]
  by (simp add: marshal.simps tag_eval unmarshal_None)

text \<open>
  C1: Encoding a value and decoding the bytes gives the value back, in either byte order, for every
  type made of the kinds the codec reads and every value whose lengths fit its prefixes. Types that
  do not end in an unprefixed list or an optional struct (\<open>fin\<close> is false) are self-delimiting: they are
  read back whatever follows.
\<close>

theorem codec_roundtrip:
  assumes "rt_kind fin emptyTag t" and "fits ord emptyTag t v" and "fin \<Longrightarrow> r = []"
  shows "\<exists>bs. marshal ord None t v = (bs, Ok ()) \<and> unmarshal ord None [] t (bs @ r) = (Ok v, r)"
proof -
  have "codes_at fin (marshal ord None t v) (unmarshal ord None [] t) v"
    using assms(1,2) by (rule codec_code)
  with assms(3) show ?thesis by (auto simp: codes_at_def)
qed

lemma codec_roundtrip_witness:
  "\<exists>bs. marshal BigEndian None TLVUserInfo_ty
       (VStruct [VString [65, 66], VU16 3, VStruct [tlvs_val [\<lparr>Tag = 1, Value = [0, 16]\<rparr>]]]) = (bs, Ok ()) \<and>
     unmarshal BigEndian None [] TLVUserInfo_ty (bs @ [9, 9]) =
       (Ok (VStruct [VString [65, 66], VU16 3, VStruct [tlvs_val [\<lparr>Tag = 1, Value = [0, 16]\<rparr>]]]), [9, 9])"
  by (rule codec_roundtrip [of False])
     (simp_all add: TLVUserInfo_ty_def TLVBlock_ty_def TLVList_ty_def tlv_ty_def tlvs_val_def
        tlv_val_def vbytes_def tag_eval prefix_max_def elems_bytes_def binaryWrite_def wput_def)

text \<open>
  Two values of one type with the same encoding are equal: nothing is lost or merged on the
  wire.
\<close>

theorem encoding_injective:
  assumes "rt_kind True emptyTag t" and "fits ord emptyTag t v" and "fits ord emptyTag t w"
    and "marshal ord None t v = marshal ord None t w"
  shows "v = w"
proof -
  have "codes_at True (marshal ord None t v) (unmarshal ord None [] t) v"
      "codes_at True (marshal ord None t w) (unmarshal ord None [] t) w"
    using assms codec_code by blast+
  with assms(4) show ?thesis by (auto simp: codes_at_def)
qed

lemma encoding_injective_witness:
  "marshal BigEndian None SNACError_ty (VStruct [VU16 3, VStruct [tlvs_val []]]) =
     marshal BigEndian None SNACError_ty (VStruct [VU16 (1 + 2), VStruct [tlvs_val []]]) \<and>
   VStruct [VU16 3, VStruct [tlvs_val []]] = VStruct [VU16 (1 + 2), VStruct [tlvs_val []]]"
  using encoding_injective [of SNACError_ty BigEndian
      "VStruct [VU16 3, VStruct [tlvs_val []]]" "VStruct [VU16 (1 + 2), VStruct [tlvs_val []]]"]
  by (simp add: SNACError_ty_def TLVRestBlock_ty_def TLVList_ty_def tlv_ty_def tlvs_val_def
        tag_eval elems_bytes_def)

section \<open>The message types\<close>

text \<open>
  The types for which reading is not the inverse of writing: an interface body, rate classes whose
  optional tail is followed by the rate groups, the envelope that switches to little endian when it
  is written, and the three requests with decode quirks.
\<close>

definition one_way_types :: "ty list" where
  "one_way_types =
     [SNACMessage_ty, SNAC_0x01_0x07_OServiceRateParamsReply_ty, SNAC_0x02_0x04_LocateSetInfo_ty,
      ICQ_0x07D0_0x0569_DBQueryMetaReqSearchByUIN2_ty, ICQ_0x07D0_0x0C3A_DBQueryMetaReqSetFullInfo_ty,
      ICQMessageReplyEnvelope_ty]"

lemma message_types_safe: "list_all (dec_safe None) message_types"
  by code_simp

lemma message_types_rt_1:
  "list_all (\<lambda>t. t \<in> set one_way_types \<or> rt_kind True emptyTag t) base_types"
  "list_all (\<lambda>t. t \<in> set one_way_types \<or> rt_kind True emptyTag t) oservice_types"
  "list_all (\<lambda>t. t \<in> set one_way_types \<or> rt_kind True emptyTag t) locate_types"
  "list_all (\<lambda>t. t \<in> set one_way_types \<or> rt_kind True emptyTag t) buddy_types"
  "list_all (\<lambda>t. t \<in> set one_way_types \<or> rt_kind True emptyTag t) icbm_types"
  "list_all (\<lambda>t. t \<in> set one_way_types \<or> rt_kind True emptyTag t) admin_types"
  "list_all (\<lambda>t. t \<in> set one_way_types \<or> rt_kind True emptyTag t) permit_deny_types"
  "list_all (\<lambda>t. t \<in> set one_way_types \<or> rt_kind True emptyTag t) user_lookup_types"
  "list_all (\<lambda>t. t \<in> set one_way_types \<or> rt_kind True emptyTag t) stats_types"
  by code_simp+

lemma message_types_rt_2:
  "list_all (\<lambda>t. t \<in> set one_way_types \<or> rt_kind True emptyTag t) chat_nav_types"
  "list_all (\<lambda>t. t \<in> set one_way_types \<or> rt_kind True emptyTag t) chat_types"
  "list_all (\<lambda>t. t \<in> set one_way_types \<or> rt_kind True emptyTag t) odir_types"
  "list_all (\<lambda>t. t \<in> set one_way_types \<or> rt_kind True emptyTag t) bart_types"
  "list_all (\<lambda>t. t \<in> set one_way_types \<or> rt_kind True emptyTag t) feedbag_types"
  "list_all (\<lambda>t. t \<in> set one_way_types \<or> rt_kind True emptyTag t) bucp_types"
  "list_all (\<lambda>t. t \<in> set one_way_types \<or> rt_kind True emptyTag t) kerberos_types"
  by code_simp+

lemma message_types_rt_3:
  "list_all (\<lambda>t. t \<in> set one_way_types \<or> rt_kind True emptyTag t) icq_types"
  by code_simp+

lemma message_types_rt:
  "list_all (\<lambda>t. t \<in> set one_way_types \<or> rt_kind True emptyTag t) message_types"
  by (simp only: message_types_def list_all_append message_types_rt_1 message_types_rt_2 message_types_rt_3)

text \<open>
  C3: Every message type of the protocol decodes safely: for arbitrary bytes, in either byte order,
  the decoder returns a value or an error, never panics, never loops, and reads a prefix of its input.
\<close>

theorem message_decode_safe:
  assumes "t \<in> set message_types"
  shows "safe_out (fst (unmarshal ord None [] t bs)) \<and>
    (\<exists>pre. bs = pre @ snd (unmarshal ord None [] t bs))"
proof
  have "dec_safe None t" using message_types_safe assms by (simp add: list_all_iff)
  then show "safe_out (fst (unmarshal ord None [] t bs))"
    using dec_safe_all(1) [of None t ord "[]"] by (simp add: safe_def)
  show "\<exists>pre. bs = pre @ snd (unmarshal ord None [] t bs)"
    using unmarshal_consumes_all(1) [of ord None "[]" t] by (simp add: consumes_def)
qed

lemma message_types_member:
  "SNAC_0x02_0x04_LocateSetInfo_ty \<in> set message_types" "SNACError_ty \<in> set message_types"
  by (simp_all add: message_types_def locate_types_def base_types_def)

lemma message_decode_safe_witness:
  "safe_out (fst (unmarshal BigEndian None [] SNAC_0x02_0x04_LocateSetInfo_ty [0, 1, 0, 200, 7])) \<and>
    (\<exists>pre. [0, 1, 0, 200, 7] =
       pre @ snd (unmarshal BigEndian None [] SNAC_0x02_0x04_LocateSetInfo_ty [0, 1, 0, 200, 7]))"
  by (rule message_decode_safe) (rule message_types_member)

text \<open>
  C2: Every message type except the six listed in \<open>one_way_types\<close> survives encoding and decoding,
  for every value whose lengths fit the prefixes of its fields.
\<close>

theorem message_roundtrip:
  assumes "t \<in> set message_types" and "t \<notin> set one_way_types" and "fits ord emptyTag t v"
  shows "\<exists>bs. marshal ord None t v = (bs, Ok ()) \<and> unmarshal ord None [] t bs = (Ok v, [])"
proof -
  have "rt_kind True emptyTag t"
    using message_types_rt assms(1,2) by (auto simp: list_all_iff)
  then have "codes_at True (marshal ord None t v) (unmarshal ord None [] t) v"
    using assms(3) by (rule codec_code)
  then show ?thesis by (auto simp: codes_at_def)
qed

lemma message_roundtrip_witness:
  "\<exists>bs. marshal BigEndian None SNACError_ty (VStruct [VU16 3, VStruct [tlvs_val []]]) = (bs, Ok ()) \<and>
     unmarshal BigEndian None [] SNACError_ty bs = (Ok (VStruct [VU16 3, VStruct [tlvs_val []]]), [])"
proof (rule message_roundtrip)
  show "SNACError_ty \<in> set message_types" by (rule message_types_member)
  show "SNACError_ty \<notin> set one_way_types" by code_simp
qed (simp add: SNACError_ty_def TLVRestBlock_ty_def TLVList_ty_def tlv_ty_def
      tlvs_val_def tag_eval elems_bytes_def)

section \<open>Length prefixes\<close>

text \<open>
  A string longer than its one-byte length prefix can say is written without an error: all its
  bytes go out behind the length modulo 256, so a reader gets a shorter string and takes the rest
  for the next field.
\<close>

theorem string_prefix_truncates:
  "\<exists>bs. marshal ord (Some ''len_prefix=uint8'') TString (VString s) = (bs, Ok ()) \<and>
     unmarshal ord (Some ''len_prefix=uint8'') [] TString (bs @ r) =
       (let n = length s mod 256 in (Ok (VString (take n s)), drop n s @ r))"
proof -
  let ?p = "put_uint ord 1 (length s)"
  have w: "marshal ord (Some ''len_prefix=uint8'') TString (VString s) = (?p @ s, Ok ())"
    by (auto simp: marshal.simps marshalKind.simps tag_eval marshalString_def marshalUnsignedInt_def
        wseq_def wput_def wok_def)
  have "read_uint ord 1 (?p @ s @ r) = (Ok (length s mod 256), s @ r)"
    by (simp add: read_uint_def pbind_def read_full_append get_put_uint)
  moreover have "read_full n (s @ r) = (Ok (take n s), drop n s @ r)" if "n \<le> length s" for n
    using that by (simp add: read_full_def)
  moreover have "length s mod 256 \<le> length s" by simp
  ultimately have "unmarshal ord (Some ''len_prefix=uint8'') [] TString ((?p @ s) @ r) =
      (let n = length s mod 256 in (Ok (VString (take n s)), drop n s @ r))"
    by (simp add: unmarshal.simps [of _ "Some _"] tag_eval effective_quirk_def trim_space_def
        unmarshalString_def unmarshalUnsignedInt_def pbind_def Let_def)
  with w show ?thesis by blast
qed

section \<open>Decode quirks\<close>

lemma unmarshal_tlv:
  "unmarshal BigEndian None [] tlv_ty r =
     pbind (read_uint BigEndian 2) (\<lambda>tag. pbind (read_uint BigEndian 2) (\<lambda>n.
     pbind (read_full n) (\<lambda>buf. pret (VStruct [VU16 (word_of_nat tag), vbytes buf])))) r"
  by (simp add: tlv_ty_def unmarshal_None in_buffer_def unmarshal_bytes
      pbind_def split: prod.split outcome.split)

text \<open>
  The lenient reader for Jimm's TLVs agrees with the strict one wherever the strict one
  succeeds; where the announced length exceeds what is left, and something is left, it returns the
  bytes that are there and consumes them all.
\<close>

theorem jimm_quirk_extends:
  "(case unmarshal BigEndian None [] tlv_ty r of
      (Ok v, r') \<Rightarrow> unmarshalTLVJimmSetInfo BigEndian r = (Ok v, r')
    | (Err e, r') \<Rightarrow>
        (case unmarshalTLVJimmSetInfo BigEndian r of
           (Ok v, r'') \<Rightarrow> e = UnexpectedEOF \<and> r'' = [] \<and> v = VStruct
             [VU16 (word_of_nat (get_uint BigEndian (take 2 r))), vbytes (drop 4 r)]
         | (Err e', r'') \<Rightarrow> e' = e \<and> r'' = r'
         | _ \<Rightarrow> False)
    | _ \<Rightarrow> False)"
  by (simp add: unmarshal_tlv unmarshalTLVJimmSetInfo_def pbind_def read_uint_def read_full_def
      read_upto_def split: outcome.split) arith

end
