(* ===== verification/Strings.thy ===== *)
theory Strings
  imports Prelude
begin

text \<open>
  Go strings as the user model reads them: bytes, the runes that a \<open>range\<close> loop decodes from them
  (package \<open>unicode/utf8\<close>), the character classes and the lower-case mapping of package \<open>unicode\<close>,
  and \<open>strconv.Atoi\<close>. The classes are written out for ASCII; beyond ASCII they are the tables of the
  Unicode standard, a record of functions.
\<close>

section \<open>UTF-8\<close>

definition RuneError :: nat where
  "RuneError = 0xFFFD"

definition cont :: "u8 \<Rightarrow> bool" where
  "cont b \<longleftrightarrow> 0x80 \<le> b \<and> b \<le> 0xBF"

text \<open>The range of the second byte after a leading byte of three or four bytes.\<close>

definition second_ok :: "u8 \<Rightarrow> u8 \<Rightarrow> bool" where
  "second_ok b0 b1 =
     (if b0 = 0xE0 then 0xA0 \<le> b1 \<and> b1 \<le> 0xBF
      else if b0 = 0xED then 0x80 \<le> b1 \<and> b1 \<le> 0x9F
      else if b0 = 0xF0 then 0x90 \<le> b1 \<and> b1 \<le> 0xBF
      else if b0 = 0xF4 then 0x80 \<le> b1 \<and> b1 \<le> 0x8F
      else cont b1)"

text \<open>\<open>utf8.DecodeRuneInString\<close>: the rune and its width; an invalid byte is \<open>RuneError\<close> of width 1.\<close>

fun decode_rune :: "bytes \<Rightarrow> nat \<times> nat" where
  "decode_rune [] = (RuneError, 0)"
| "decode_rune (b0 # bs) =
     (if b0 < 0x80 then (unat b0, 1)
      else if 0xC2 \<le> b0 \<and> b0 \<le> 0xDF then
        (case bs of
           b1 # _ \<Rightarrow> if cont b1 then (64 * (unat b0 - 0xC0) + (unat b1 - 0x80), 2) else (RuneError, 1)
         | _ \<Rightarrow> (RuneError, 1))
      else if 0xE0 \<le> b0 \<and> b0 \<le> 0xEF then
        (case bs of
           b1 # b2 # _ \<Rightarrow>
             if second_ok b0 b1 \<and> cont b2
             then (4096 * (unat b0 - 0xE0) + 64 * (unat b1 - 0x80) + (unat b2 - 0x80), 3)
             else (RuneError, 1)
         | _ \<Rightarrow> (RuneError, 1))
      else if 0xF0 \<le> b0 \<and> b0 \<le> 0xF4 then
        (case bs of
           b1 # b2 # b3 # _ \<Rightarrow>
             if second_ok b0 b1 \<and> cont b2 \<and> cont b3
             then (262144 * (unat b0 - 0xF0) + 4096 * (unat b1 - 0x80) + 64 * (unat b2 - 0x80)
                   + (unat b3 - 0x80), 4)
             else (RuneError, 1)
         | _ \<Rightarrow> (RuneError, 1))
      else (RuneError, 1))"

lemma decode_rune_width: "bs \<noteq> [] \<Longrightarrow> 0 < snd (decode_rune bs)"
  by (cases bs) (auto split: list.split)

text \<open>The runes of \<open>for _, r := range s\<close>.\<close>

function runes :: "bytes \<Rightarrow> nat list" where
  "runes s = (if s = [] then [] else fst (decode_rune s) # runes (drop (snd (decode_rune s)) s))"
  by pat_completeness auto
termination
  by (relation "measure length") (use decode_rune_width in \<open>auto simp: neq_Nil_conv\<close>)

declare runes.simps [simp del]

text \<open>\<open>utf8.AppendRune\<close>.\<close>

definition encode_rune :: "nat \<Rightarrow> bytes" where
  "encode_rune r =
     (let r' = (if 0x10FFFF < r \<or> 0xD800 \<le> r \<and> r \<le> 0xDFFF then RuneError else r) in
      if r' < 0x80 then [word_of_nat r']
      else if r' < 0x800 then [word_of_nat (0xC0 + r' div 64), word_of_nat (0x80 + r' mod 64)]
      else if r' < 0x10000 then
        [word_of_nat (0xE0 + r' div 4096), word_of_nat (0x80 + r' div 64 mod 64),
         word_of_nat (0x80 + r' mod 64)]
      else
        [word_of_nat (0xF0 + r' div 262144), word_of_nat (0x80 + r' div 4096 mod 64),
         word_of_nat (0x80 + r' div 64 mod 64), word_of_nat (0x80 + r' mod 64)])"

definition scalar :: "nat \<Rightarrow> bool" where
  "scalar r \<longleftrightarrow> r \<le> 0x10FFFF \<and> \<not> (0xD800 \<le> r \<and> r \<le> 0xDFFF)"

definition is_ascii :: "bytes \<Rightarrow> bool" where
  "is_ascii s \<longleftrightarrow> list_all (\<lambda>b. b < 0x80) s"

lemma unat_word_of_nat_u8: "n < 256 \<Longrightarrow> unat (word_of_nat n :: u8) = n"
  by (simp add: unat_of_nat)

lemma word_of_nat_le_u8: "n < 256 \<Longrightarrow> (word_of_nat n :: u8) \<le> c \<longleftrightarrow> n \<le> unat c"
  by (simp add: word_le_nat_alt unat_of_nat)

lemma le_word_of_nat_u8: "n < 256 \<Longrightarrow> c \<le> (word_of_nat n :: u8) \<longleftrightarrow> unat c \<le> n"
  by (simp add: word_le_nat_alt unat_of_nat)

lemma word_of_nat_less_u8: "n < 256 \<Longrightarrow> (word_of_nat n :: u8) < c \<longleftrightarrow> n < unat c"
  by (simp add: word_less_nat_alt unat_of_nat)

lemma word_of_nat_eq_u8: "n < 256 \<Longrightarrow> (word_of_nat n :: u8) = c \<longleftrightarrow> n = unat c"
  by (auto simp: word_unat_eq_iff unat_of_nat)

lemmas u8_compare = word_of_nat_le_u8 le_word_of_nat_u8 word_of_nat_less_u8 word_of_nat_eq_u8
  unat_word_of_nat_u8

lemma cont_word_of_nat: "n < 64 \<Longrightarrow> cont (word_of_nat (0x80 + n))"
  by (simp add: cont_def u8_compare del: of_nat_add)

lemma unat_cont: "n < 64 \<Longrightarrow> unat (word_of_nat (0x80 + n) :: u8) - 0x80 = n"
  by (simp add: u8_compare del: of_nat_add)

text \<open>Decoding what was encoded: one case per width.\<close>

lemma div_mod_64: "r = 64 * (r div 64) + r mod 64" "r mod 64 < (64 :: nat)"
  by simp_all

lemma decode_encode_2:
  assumes "0x80 \<le> r" and "r < 0x800"
  shows "decode_rune (encode_rune r @ s) = (r, length (encode_rune r))"
proof -
  define a b where "a = r div 64" and "b = r mod 64"
  have r: "r = 64 * a + b" and b: "b < 64" and a: "2 \<le> a" "a < 32"
    using assms by (simp_all add: a_def b_def)
  show ?thesis
    using assms a b
    by (simp add: encode_rune_def Let_def a_def [symmetric] b_def [symmetric] u8_compare cont_def r
        del: of_nat_add)
qed

lemma decode_encode_3:
  assumes "0x800 \<le> r" and "r < 0x10000" and "scalar r"
  shows "decode_rune (encode_rune r @ s) = (r, length (encode_rune r))"
proof -
  define a b c where "a = r div 4096" and "b = r div 64 mod 64" and "c = r mod 64"
  have "r div 64 = 64 * a + b"
    using div_mod_64(1) [of "r div 64"] by (simp add: a_def b_def div_mult2_eq [symmetric])
  then have r: "r = 4096 * a + 64 * b + c"
    using div_mod_64(1) [of r] by (simp add: c_def)
  have bounds: "b < 64" "c < 64" "a < 16" using assms by (simp_all add: a_def b_def c_def)
  have sec: "second_ok (word_of_nat (0xE0 + a)) (word_of_nat (0x80 + b))"
    using assms bounds unfolding second_ok_def scalar_def r
    by (auto simp: u8_compare cont_def simp del: of_nat_add)
  have "\<not> (0x10FFFF < r \<or> 0xD800 \<le> r \<and> r \<le> 0xDFFF)"
    using assms by (auto simp: scalar_def)
  then have enc: "encode_rune r = [word_of_nat (0xE0 + a), word_of_nat (0x80 + b), word_of_nat (0x80 + c)]"
    using assms unfolding encode_rune_def Let_def a_def b_def c_def by auto
  show ?thesis
    using bounds sec unfolding enc by (simp add: u8_compare cont_def del: of_nat_add) (simp add: r)
qed

lemma decode_encode_4:
  assumes "0x10000 \<le> r" and "r \<le> 0x10FFFF"
  shows "decode_rune (encode_rune r @ s) = (r, length (encode_rune r))"
proof -
  define a b c d where "a = r div 262144" and "b = r div 4096 mod 64" and "c = r div 64 mod 64"
    and "d = r mod 64"
  have "r div 4096 = 64 * a + b"
    using div_mod_64(1) [of "r div 4096"] by (simp add: a_def b_def div_mult2_eq [symmetric])
  moreover have "r div 64 = 64 * (r div 4096) + c"
    using div_mod_64(1) [of "r div 64"] by (simp add: c_def div_mult2_eq [symmetric])
  ultimately have r: "r = 262144 * a + 4096 * b + 64 * c + d"
    using div_mod_64(1) [of r] by (simp add: d_def)
  have bounds: "b < 64" "c < 64" "d < 64" "a \<le> 4"
    using assms div_le_mono [OF assms(2), of 262144] by (simp_all add: a_def b_def c_def d_def)
  have sec: "second_ok (word_of_nat (0xF0 + a)) (word_of_nat (0x80 + b))"
    using assms bounds unfolding second_ok_def r
    by (auto simp: u8_compare cont_def simp del: of_nat_add)
  have enc: "encode_rune r = [word_of_nat (0xF0 + a), word_of_nat (0x80 + b),
      word_of_nat (0x80 + c), word_of_nat (0x80 + d)]"
    using assms unfolding encode_rune_def Let_def a_def b_def c_def d_def by simp
  show ?thesis
    using bounds sec unfolding enc by (simp add: u8_compare cont_def del: of_nat_add) (simp add: r)
qed

lemma decode_encode_rune:
  assumes "scalar r"
  shows "decode_rune (encode_rune r @ s) = (r, length (encode_rune r))"
proof -
  consider "r < 0x80" | "0x80 \<le> r" "r < 0x800" | "0x800 \<le> r" "r < 0x10000" | "0x10000 \<le> r"
    by linarith
  then show ?thesis
  proof cases
    case 1
    then show ?thesis by (simp add: encode_rune_def Let_def u8_compare)
  qed (use assms decode_encode_2 decode_encode_3 decode_encode_4 in \<open>auto simp: scalar_def\<close>)
qed

lemma encode_rune_neq_Nil [simp]: "encode_rune r \<noteq> []"
  by (simp add: encode_rune_def Let_def)

lemma runes_encode: "list_all scalar rs \<Longrightarrow> runes (concat (map encode_rune rs)) = rs"
  by (induction rs) (simp_all add: runes.simps [of "_ @ _"] runes.simps [of "[]"] decode_encode_rune)

lemma runes_ascii: "is_ascii s \<Longrightarrow> runes s = map unat s"
  by (induction s) (simp_all add: is_ascii_def runes.simps)

section \<open>Unicode classes\<close>

text \<open>The tables of package \<open>unicode\<close> for the runes beyond ASCII.\<close>

record unicode_tables =
  uniLetter :: "nat \<Rightarrow> bool"
  uniDigit :: "nat \<Rightarrow> bool"
  uniLower :: "nat \<Rightarrow> nat"

definition IsLetter :: "unicode_tables \<Rightarrow> nat \<Rightarrow> bool" where
  "IsLetter u r = (if r < 0x80 then 0x41 \<le> r \<and> r \<le> 0x5A \<or> 0x61 \<le> r \<and> r \<le> 0x7A else uniLetter u r)"

definition IsDigit :: "unicode_tables \<Rightarrow> nat \<Rightarrow> bool" where
  "IsDigit u r = (if r < 0x80 then 0x30 \<le> r \<and> r \<le> 0x39 else uniDigit u r)"

definition rune_lower :: "unicode_tables \<Rightarrow> nat \<Rightarrow> nat" where
  "rune_lower u r = (if r < 0x80 then (if 0x41 \<le> r \<and> r \<le> 0x5A then r + 0x20 else r) else uniLower u r)"

definition byte_lower :: "u8 \<Rightarrow> u8" where
  "byte_lower b = (if 0x41 \<le> b \<and> b \<le> 0x5A then b + 0x20 else b)"

text \<open>\<open>strings.ToLower\<close>: byte by byte for ASCII, else rune by rune; invalid bytes become \<open>RuneError\<close>.\<close>

definition ToLower :: "unicode_tables \<Rightarrow> bytes \<Rightarrow> bytes" where
  "ToLower u s =
     (if is_ascii s then map byte_lower s
      else concat (map (\<lambda>r. encode_rune (rune_lower u r)) (runes s)))"

text \<open>What the tables are known to satisfy: the lower-case form of a rune is a valid rune, is its own
  lower-case form and is not a space.\<close>

definition unicode_ok :: "unicode_tables \<Rightarrow> bool" where
  "unicode_ok u \<longleftrightarrow>
     (\<forall>r \<ge> 0x80. scalar r \<longrightarrow> scalar (uniLower u r) \<and> rune_lower u (uniLower u r) = uniLower u r \<and> uniLower u r \<noteq> 0x20)"

text \<open>Tables that know no letter beyond ASCII and change no rune.\<close>

definition ascii_tables :: unicode_tables where
  "ascii_tables = \<lparr>uniLetter = \<lambda>_. False, uniDigit = \<lambda>_. False,
     uniLower = \<lambda>r. r\<rparr>"

lemma unicode_ok_ascii_tables: "unicode_ok ascii_tables"
  by (simp add: unicode_ok_def ascii_tables_def rune_lower_def scalar_def RuneError_def)

text \<open>Every rune a loop sees is valid, and lower-casing is one function of the runes.\<close>

lemma cont_unat: "cont b \<longleftrightarrow> 0x80 \<le> unat b \<and> unat b \<le> 0xBF"
  by (simp add: cont_def word_le_nat_alt)

lemma scalar_3:
  assumes "0xE0 \<le> b0" and "b0 \<le> 0xEF" and "second_ok b0 b1" and "cont b2"
  shows "scalar (4096 * (unat b0 - 0xE0) + 64 * (unat b1 - 0x80) + (unat b2 - 0x80))"
proof -
  have 0: "0xE0 \<le> unat b0" "unat b0 \<le> 0xEF" using assms by (simp_all add: word_le_nat_alt)
  have 1: "unat b1 \<le> 0xBF" "b0 = 0xED \<Longrightarrow> unat b1 \<le> 0x9F" "unat b2 \<le> 0xBF"
    using assms(3,4) by (auto simp: second_ok_def cont_unat word_le_nat_alt split: if_splits)
  have ed: "b0 = 0xED \<longleftrightarrow> unat b0 = 0xED" by (simp add: word_unat_eq_iff)
  show ?thesis
  proof (cases "unat b0 = 0xED")
    case True
    then show ?thesis using 1 ed by (simp add: scalar_def) linarith
  next
    case False
    then show ?thesis using 0 1 by (simp add: scalar_def) linarith
  qed
qed

lemma scalar_4:
  assumes "0xF0 \<le> b0" and "b0 \<le> 0xF4" and "second_ok b0 b1" and "cont b2" and "cont b3"
  shows "scalar (262144 * (unat b0 - 0xF0) + 4096 * (unat b1 - 0x80) + 64 * (unat b2 - 0x80)
    + (unat b3 - 0x80))"
proof -
  have 0: "0xF0 \<le> unat b0" "unat b0 \<le> 0xF4" using assms by (simp_all add: word_le_nat_alt)
  have 1: "unat b1 \<le> 0xBF" "b0 = 0xF4 \<Longrightarrow> unat b1 \<le> 0x8F" "b0 = 0xF0 \<Longrightarrow> 0x90 \<le> unat b1"
      "unat b2 \<le> 0xBF" "unat b3 \<le> 0xBF"
    using assms(3-5) by (auto simp: second_ok_def cont_unat word_le_nat_alt split: if_splits)
  have f4: "b0 = 0xF4 \<longleftrightarrow> unat b0 = 0xF4" "b0 = 0xF0 \<longleftrightarrow> unat b0 = 0xF0"
    by (simp_all add: word_unat_eq_iff)
  show ?thesis
  proof (cases "unat b0 = 0xF4 \<or> unat b0 = 0xF0")
    case True
    then show ?thesis using 1 f4 by (auto simp: scalar_def)
  next
    case False
    then show ?thesis using 0 1 by (simp add: scalar_def) linarith
  qed
qed

lemma decode_rune_scalar: "scalar (fst (decode_rune s))"
proof (cases s)
  case (Cons b0 bs)
  have E: "scalar RuneError" by (simp add: scalar_def RuneError_def)
  have 2: "scalar (64 * (unat b0 - 0xC0) + (unat b1 - 0x80))" if "b0 \<le> 0xDF" for b1 :: u8
  proof -
    have "unat b0 \<le> 0xDF" using that by (simp add: word_le_nat_alt)
    then show ?thesis using unat_u8_bound [of b1] by (simp add: scalar_def) linarith
  qed
  have 1: "scalar (unat b0)" if "b0 < 0x80"
    using that by (simp add: scalar_def word_less_nat_alt)
  show ?thesis
    unfolding Cons by (simp add: E 1 2 scalar_3 scalar_4 split: list.split)
qed (simp add: scalar_def RuneError_def)

lemma decode_rune_high:
  assumes "0x80 \<le> b0"
  shows "0x80 \<le> fst (decode_rune (b0 # bs))"
proof -
  have E: "0x80 \<le> RuneError" by (simp add: RuneError_def)
  have nb: "\<not> b0 < 0x80" using assms by simp
  have 2: "0x80 \<le> 64 * (unat b0 - 0xC0) + n" if "0xC2 \<le> b0" for n
    using that by (simp add: word_le_nat_alt)
  have 3: "0x80 \<le> 4096 * (unat b0 - 0xE0) + 64 * (unat b1 - 0x80) + n"
    if "0xE0 \<le> b0" "second_ok b0 b1" for b1 n
    using that by (cases "b0 = 0xE0") (auto simp: second_ok_def word_le_nat_alt word_unat_eq_iff)
  have 4: "0x80 \<le> 262144 * (unat b0 - 0xF0) + 4096 * (unat b1 - 0x80) + m + n"
    if "0xF0 \<le> b0" "second_ok b0 b1" for b1 m n
    using that by (cases "b0 = 0xF0") (auto simp: second_ok_def word_le_nat_alt word_unat_eq_iff)
  show ?thesis by (simp add: nb E 2 3 4 split: list.split)
qed

lemma runes_space: "0x20 \<in> set (runes s) \<Longrightarrow> 0x20 \<in> set s"
proof (induction s rule: runes.induct)
  case (1 s)
  show ?case
  proof (cases s)
    case (Cons b bs)
    have "runes s = fst (decode_rune s) # runes (drop (snd (decode_rune s)) s)"
      using Cons by (subst runes.simps) simp
    then consider "fst (decode_rune s) = 0x20" | "0x20 \<in> set (runes (drop (snd (decode_rune s)) s))"
      using "1.prems" by auto
    then show ?thesis
    proof cases
      case 1
      have "b < 0x80"
      proof (rule ccontr)
        assume "\<not> b < 0x80"
        then have "0x80 \<le> b" by simp
        from decode_rune_high [OF this, of bs] 1 Cons show False by (simp del: decode_rune.simps)
      qed
      then have "unat b = 0x20" using 1 Cons by simp
      then show ?thesis using Cons by (simp add: word_unat_eq_iff)
    next
      case 2
      then show ?thesis using "1.IH" Cons by (auto dest: in_set_dropD)
    qed
  qed (use 1 in \<open>simp add: runes.simps\<close>)
qed

lemma runes_scalar: "list_all scalar (runes s)"
proof (induction s rule: runes.induct)
  case (1 s)
  then show ?case by (subst runes.simps) (simp add: decode_rune_scalar)
qed

lemma encode_ascii_lower: "b < 0x80 \<Longrightarrow> encode_rune (rune_lower u (unat b)) = [byte_lower b]"
  by (auto simp: encode_rune_def rune_lower_def byte_lower_def word_le_nat_alt word_less_nat_alt
      word_unat_eq_iff unat_word_ariths unat_of_nat)

lemma ToLower_eq: "ToLower u s = concat (map (\<lambda>r. encode_rune (rune_lower u r)) (runes s))"
proof (cases "is_ascii s")
  case True
  then have "concat (map (\<lambda>b. encode_rune (rune_lower u (unat b))) s) = map byte_lower s"
    by (induction s) (simp_all add: is_ascii_def encode_ascii_lower)
  with True show ?thesis by (simp add: ToLower_def runes_ascii comp_def)
qed (simp add: ToLower_def)

section \<open>Numbers\<close>

text \<open>
  \<open>strconv.Atoi\<close> on 64-bit platforms: an optional sign and at least one ASCII digit. The first
  component is the value returned along with the error, zero for a syntax error and the nearest
  bound for a range error; the second tells whether there was an error.
\<close>

definition digit :: "u8 \<Rightarrow> bool" where
  "digit b \<longleftrightarrow> 0x30 \<le> b \<and> b \<le> 0x39"

definition decimal :: "bytes \<Rightarrow> nat" where
  "decimal ds = foldl (\<lambda>n b. 10 * n + (unat b - 0x30)) 0 ds"

definition Atoi :: "bytes \<Rightarrow> int \<times> bool" where
  "Atoi s =
     (let neg = (s \<noteq> [] \<and> hd s = 0x2D);
          ds = (if s \<noteq> [] \<and> (hd s = 0x2D \<or> hd s = 0x2B) then tl s else s);
          n = int (decimal ds)
      in if ds = [] \<or> \<not> list_all digit ds then (0, True)
         else if neg then (if n > 2 ^ 63 then (- (2 ^ 63), True) else (- n, False))
         else if n \<ge> 2 ^ 63 then (2 ^ 63 - 1, True) else (n, False))"

lemma Atoi_digits:
  assumes "s \<noteq> []" and "list_all digit s"
  shows "Atoi s = (if int (decimal s) \<ge> 2 ^ 63 then (2 ^ 63 - 1, True) else (int (decimal s), False))"
proof -
  have "hd s \<noteq> 0x2D \<and> hd s \<noteq> 0x2B"
    using assms by (cases s) (auto simp: digit_def)
  then show ?thesis using assms by (simp add: Atoi_def Let_def)
qed

section \<open>Decimal numbers\<close>

text \<open>\<open>strconv.FormatUint\<close> and \<open>%d\<close> of a natural number; reading the digits gives it back.\<close>

fun decimal_string :: "nat \<Rightarrow> bytes" where
  "decimal_string n =
     (if n < 10 then [word_of_nat (0x30 + n)] else decimal_string (n div 10) @ [word_of_nat (0x30 + n mod 10)])"

declare decimal_string.simps [simp del]

lemma decimal_snoc: "decimal (ds @ [b]) = 10 * decimal ds + (unat b - 0x30)"
  by (simp add: decimal_def)

lemma digit_value: "n < 10 \<Longrightarrow> digit (word_of_nat (0x30 + n)) \<and> unat (word_of_nat (0x30 + n) :: u8) - 0x30 = n"
proof -
  assume n: "n < 10"
  then have "unat (word_of_nat (0x30 + n) :: u8) = 0x30 + n" by (simp add: unat_of_nat del: of_nat_add)
  then show ?thesis using n by (simp add: digit_def word_le_nat_alt)
qed

lemma decimal_string_digits:
  "decimal_string n \<noteq> [] \<and> list_all digit (decimal_string n) \<and> decimal (decimal_string n) = n"
proof (induction n rule: decimal_string.induct)
  case (1 n)
  show ?case
  proof (cases "n < 10")
    case True
    then show ?thesis using digit_value [OF True]
      by (subst decimal_string.simps, subst decimal_string.simps, subst decimal_string.simps) (simp add: decimal_def)
  next
    case False
    have "n mod 10 < 10" by simp
    note d = digit_value [OF this]
    have "decimal_string n = decimal_string (n div 10) @ [word_of_nat (0x30 + n mod 10)]"
      using False by (subst decimal_string.simps) simp
    then show ?thesis using "1.IH" [OF False] d by (simp add: decimal_snoc)
  qed
qed

lemma decimal_string_inj: "decimal_string m = decimal_string n \<Longrightarrow> m = n"
  using decimal_string_digits by metis

end
