(* ===== verification/Profiles.thy ===== *)
theory Profiles
  imports Strings
begin

text \<open>
  The plain data of a user account (\<open>state/user.go\<close>): the AIM directory entry, the segments of an ICQ
  profile and the profile text, each with the zero value that a new account has. Field names carry
  the segment as a prefix, since several segments share field names.
\<close>

section \<open>Directory and profile segments\<close>

record AIMNameAndAddr =
  addr_FirstName :: bytes
  addr_LastName :: bytes
  addr_MiddleName :: bytes
  addr_MaidenName :: bytes
  addr_Country :: bytes
  addr_State :: bytes
  addr_City :: bytes
  addr_NickName :: bytes
  addr_ZIPCode :: bytes
  addr_Address :: bytes

definition zero_AIMNameAndAddr :: AIMNameAndAddr where
  "zero_AIMNameAndAddr = \<lparr>addr_FirstName = [], addr_LastName = [], addr_MiddleName = [],
     addr_MaidenName = [], addr_Country = [], addr_State = [], addr_City = [], addr_NickName = [],
     addr_ZIPCode = [], addr_Address = []\<rparr>"

record ICQBasicInfo =
  basic_Address :: bytes
  basic_CellPhone :: bytes
  basic_City :: bytes
  basic_CountryCode :: u16
  basic_EmailAddress :: bytes
  basic_Fax :: bytes
  basic_FirstName :: bytes
  basic_GMTOffset :: u8
  basic_LastName :: bytes
  basic_Nickname :: bytes
  basic_Phone :: bytes
  basic_PublishEmail :: bool
  basic_State :: bytes
  basic_ZIPCode :: bytes
  basic_OriginallyFromCity :: bytes
  basic_OriginallyFromState :: bytes
  basic_OriginallyFromCountryCode :: u16

definition zero_ICQBasicInfo :: ICQBasicInfo where
  "zero_ICQBasicInfo = \<lparr>basic_Address = [], basic_CellPhone = [], basic_City = [],
     basic_CountryCode = 0, basic_EmailAddress = [], basic_Fax = [], basic_FirstName = [],
     basic_GMTOffset = 0, basic_LastName = [], basic_Nickname = [], basic_Phone = [],
     basic_PublishEmail = False, basic_State = [], basic_ZIPCode = [], basic_OriginallyFromCity = [],
     basic_OriginallyFromState = [], basic_OriginallyFromCountryCode = 0\<rparr>"

record ICQAffiliations =
  affil_PastCount :: u8
  affil_PastCode1 :: u16
  affil_PastKeyword1 :: bytes
  affil_PastCode2 :: u16
  affil_PastKeyword2 :: bytes
  affil_PastCode3 :: u16
  affil_PastKeyword3 :: bytes
  affil_CurrentCount :: u8
  affil_CurrentCode1 :: u16
  affil_CurrentKeyword1 :: bytes
  affil_CurrentCode2 :: u16
  affil_CurrentKeyword2 :: bytes
  affil_CurrentCode3 :: u16
  affil_CurrentKeyword3 :: bytes

definition zero_ICQAffiliations :: ICQAffiliations where
  "zero_ICQAffiliations = \<lparr>affil_PastCount = 0, affil_PastCode1 = 0, affil_PastKeyword1 = [],
     affil_PastCode2 = 0, affil_PastKeyword2 = [], affil_PastCode3 = 0, affil_PastKeyword3 = [],
     affil_CurrentCount = 0, affil_CurrentCode1 = 0, affil_CurrentKeyword1 = [], affil_CurrentCode2 = 0,
     affil_CurrentKeyword2 = [], affil_CurrentCode3 = 0, affil_CurrentKeyword3 = []\<rparr>"

record ICQInterests =
  interest_Count :: u8
  interest_Code1 :: u16
  interest_Keyword1 :: bytes
  interest_Code2 :: u16
  interest_Keyword2 :: bytes
  interest_Code3 :: u16
  interest_Keyword3 :: bytes
  interest_Code4 :: u16
  interest_Keyword4 :: bytes

definition zero_ICQInterests :: ICQInterests where
  "zero_ICQInterests = \<lparr>interest_Count = 0, interest_Code1 = 0, interest_Keyword1 = [],
     interest_Code2 = 0, interest_Keyword2 = [], interest_Code3 = 0, interest_Keyword3 = [],
     interest_Code4 = 0, interest_Keyword4 = []\<rparr>"

record ICQUserNotes =
  notes_Notes :: bytes

definition zero_ICQUserNotes :: ICQUserNotes where
  "zero_ICQUserNotes = \<lparr>notes_Notes = []\<rparr>"

record ICQMoreInfo =
  Gender :: u16
  HomePageAddr :: bytes
  BirthYear :: u16
  BirthMonth :: u8
  BirthDay :: u8
  Lang1 :: u8
  Lang2 :: u8
  Lang3 :: u8

definition zero_ICQMoreInfo :: ICQMoreInfo where
  "zero_ICQMoreInfo = \<lparr>Gender = 0, HomePageAddr = [], BirthYear = 0, BirthMonth = 0, BirthDay = 0,
     Lang1 = 0, Lang2 = 0, Lang3 = 0\<rparr>"

record ICQWorkInfo =
  work_Address :: bytes
  work_City :: bytes
  work_Company :: bytes
  work_CountryCode :: u16
  work_Department :: bytes
  work_Fax :: bytes
  work_OccupationCode :: u16
  work_Phone :: bytes
  work_Position :: bytes
  work_State :: bytes
  work_WebPage :: bytes
  work_ZIPCode :: bytes

definition zero_ICQWorkInfo :: ICQWorkInfo where
  "zero_ICQWorkInfo = \<lparr>work_Address = [], work_City = [], work_Company = [], work_CountryCode = 0,
     work_Department = [], work_Fax = [], work_OccupationCode = 0, work_Phone = [], work_Position = [],
     work_State = [], work_WebPage = [], work_ZIPCode = []\<rparr>"

record ICQPermissions =
  perm_AuthRequired :: bool
  perm_WebAware :: bool
  perm_AllowSpam :: bool

definition zero_ICQPermissions :: ICQPermissions where
  "zero_ICQPermissions = \<lparr>perm_AuthRequired = False, perm_WebAware = False,
     perm_AllowSpam = False\<rparr>"

record ICQHomepageCategory =
  page_Enabled :: bool
  page_Index :: u16
  page_Description :: bytes

definition zero_ICQHomepageCategory :: ICQHomepageCategory where
  "zero_ICQHomepageCategory = \<lparr>page_Enabled = False, page_Index = 0, page_Description = []\<rparr>"


record ICQInfo =
  Affiliations :: ICQAffiliations
  Interests :: ICQInterests
  More :: ICQMoreInfo
  Permissions :: ICQPermissions
  Basic :: ICQBasicInfo
  Notes :: ICQUserNotes
  Work :: ICQWorkInfo
  HomepageCategory :: ICQHomepageCategory

definition zero_ICQInfo :: ICQInfo where
  "zero_ICQInfo = \<lparr>Affiliations = zero_ICQAffiliations, Interests = zero_ICQInterests, More = zero_ICQMoreInfo,
     Permissions = zero_ICQPermissions, Basic = zero_ICQBasicInfo, Notes = zero_ICQUserNotes,
     Work = zero_ICQWorkInfo, HomepageCategory = zero_ICQHomepageCategory\<rparr>"

section \<open>The profile text\<close>

text \<open>\<open>UpdateTime\<close> is \<open>None\<close> for the zero time.\<close>

record UserProfile =
  ProfileText :: bytes
  MIMEType :: bytes
  UpdateTime :: "int option"

definition UserProfile_IsZero :: "UserProfile \<Rightarrow> bool" where
  "UserProfile_IsZero p \<longleftrightarrow> UpdateTime p = None"

definition UserProfile_IsEmpty :: "UserProfile \<Rightarrow> bool" where
  "UserProfile_IsEmpty p \<longleftrightarrow> UserProfile_IsZero p \<or> ProfileText p = [] \<or> ProfileText p = [0]"

end
