(* ===== verification/Users.thy ===== *)
theory Users
  imports Profiles
begin

unbundle bit_operations_syntax

text \<open>
  User accounts: screen names and their normal form (\<open>state/user.go\<close>), the password hashes and the
  reversible \<open>roasting\<close> of passwords on the wire (\<open>wire/user.go\<close>), and account creation
  (\<open>state/account.go\<close>). The digest \<open>md5\<close> is a parameter: every theorem holds for any digest.
\<close>

section \<open>Roasting and hashing (wire/user.go)\<close>

definition ascii :: "string \<Rightarrow> bytes" where
  "ascii s = map of_char s"

definition roastPass :: "bytes \<Rightarrow> bytes \<Rightarrow> bytes" where
  "roastPass roastedPass roastTable =
     map (\<lambda>i. roastedPass ! i XOR roastTable ! (i mod length roastTable)) [0..<length roastedPass]"

definition RoastOSCARPassword :: "bytes \<Rightarrow> bytes" where
  "RoastOSCARPassword p = roastPass p
     [0xF3, 0x26, 0x81, 0xC4, 0x39, 0x86, 0xDB, 0x92, 0x71, 0xA3, 0xB9, 0xE6, 0x53, 0x7A, 0x95, 0x7C]"

definition RoastKerberosPassword :: "bytes \<Rightarrow> bytes" where
  "RoastKerberosPassword p = roastPass p
     [0x76, 0x91, 0xc5, 0xe7, 0xd0, 0xd9, 0x95, 0xdd, 0x9e, 0x2F, 0xea, 0xd8, 0x6B, 0x21, 0xc2, 0xbc]"

definition RoastOSCARJavaPassword :: "bytes \<Rightarrow> bytes" where
  "RoastOSCARJavaPassword p = roastPass p
     [0xF3, 0xB3, 0x6C, 0x99, 0x95, 0x3F, 0xAC, 0xB6, 0xC5, 0xFA, 0x6B, 0x63, 0x69, 0x6C, 0xC3, 0x9A]"

definition RoastTOCPassword :: "bytes \<Rightarrow> bytes" where
  "RoastTOCPassword p = roastPass p (ascii ''Tic/Toc'')"

type_synonym digest = "bytes \<Rightarrow> bytes"

definition WeakMD5PasswordHash :: "digest \<Rightarrow> bytes \<Rightarrow> bytes \<Rightarrow> bytes" where
  "WeakMD5PasswordHash md5 pass authKey = md5 (authKey @ pass @ ascii ''AOL Instant Messenger (SM)'')"

definition StrongMD5PasswordHash :: "digest \<Rightarrow> bytes \<Rightarrow> bytes \<Rightarrow> bytes" where
  "StrongMD5PasswordHash md5 pass authKey =
     md5 (authKey @ md5 pass @ ascii ''AOL Instant Messenger (SM)'')"

lemma roastPass_involution [simp]: "roastPass (roastPass p t) t = p"
  by (rule nth_equalityI) (simp_all add: roastPass_def xor.assoc)

lemma length_roastPass [simp]: "length (roastPass p t) = length p"
  by (simp add: roastPass_def)

lemma roast_involutions [simp]:
  "RoastOSCARPassword (RoastOSCARPassword p) = p"
  "RoastKerberosPassword (RoastKerberosPassword p) = p"
  "RoastOSCARJavaPassword (RoastOSCARJavaPassword p) = p"
  "RoastTOCPassword (RoastTOCPassword p) = p"
  by (simp_all add: RoastOSCARPassword_def RoastKerberosPassword_def RoastOSCARJavaPassword_def
      RoastTOCPassword_def)

section \<open>Screen names (state/user.go)\<close>

datatype user_error =
    ErrAIMHandleInvalidFormat
  | ErrAIMHandleLength
  | ErrPasswordInvalid
  | ErrICQUINInvalidFormat
  | ErrInsert string

text \<open>\<open>IdentScreenName\<close> hides its string: the only way to one is \<open>NewIdentScreenName\<close>.\<close>

datatype IdentScreenName = IdentScreenName (screenName: bytes)

definition NewIdentScreenName :: "unicode_tables \<Rightarrow> bytes \<Rightarrow> IdentScreenName" where
  "NewIdentScreenName u s = IdentScreenName (ToLower u (filter (\<lambda>b. b \<noteq> 0x20) s))"

definition UIN :: "IdentScreenName \<Rightarrow> u32" where
  "UIN i = word_of_int (fst (Atoi (screenName i)))"

text \<open>The loop of \<open>ValidateAIMHandle\<close>: the letters and digits counted, or \<open>None\<close> at a bad rune.\<close>

fun count_alnum :: "unicode_tables \<Rightarrow> nat list \<Rightarrow> nat \<Rightarrow> nat option" where
  "count_alnum u [] c = Some c"
| "count_alnum u (r # rs) c =
     (if IsLetter u r \<or> IsDigit u r then count_alnum u rs (c + 1)
      else if r \<noteq> 0x20 then None
      else count_alnum u rs c)"

definition ValidateAIMHandle :: "unicode_tables \<Rightarrow> bytes \<Rightarrow> user_error option" where
  "ValidateAIMHandle u s =
     (if length s > 16 then Some ErrAIMHandleLength
      else case count_alnum u (runes s) 0 of
        None \<Rightarrow> Some ErrAIMHandleInvalidFormat
      | Some c \<Rightarrow>
          if c < 3 then Some ErrAIMHandleLength
          else if \<not> IsLetter u (unat (s ! 0)) \<or> s ! (length s - 1) = 0x20
          then Some ErrAIMHandleInvalidFormat
          else None)"

definition IsUIN :: "unicode_tables \<Rightarrow> bytes \<Rightarrow> bool" where
  "IsUIN u s = (if length s = 0 then False else list_all (IsDigit u) (runes s))"

definition ValidateUIN :: "bytes \<Rightarrow> user_error option" where
  "ValidateUIN s =
     (let (uin, err) = Atoi s in
      if err \<or> uin < 10000 \<or> uin > 2147483646 then Some ErrICQUINInvalidFormat else None)"

section \<open>Accounts\<close>

text \<open>Times are in seconds; a new account has no \<open>LastWarnUpdate\<close>.\<close>

record User =
  Ident :: IdentScreenName
  Display :: bytes
  AuthKey :: bytes
  StrongMD5Pass :: bytes
  WeakMD5Pass :: bytes
  IsICQ :: bool
  ConfirmStatus :: bool
  RegStatus :: int
  SuspendedStatus :: u16
  EmailAddress :: bytes
  Info :: ICQInfo
  AIMDirectoryInfo :: AIMNameAndAddr
  TOCConfig :: bytes
  IsBot :: bool
  LastWarnUpdate :: "int option"
  LastWarnLevel :: u16
  OfflineMsgCount :: int

definition ValidateHash :: "bytes \<Rightarrow> User \<Rightarrow> bool" where
  "ValidateHash md5Hash u \<longleftrightarrow> StrongMD5Pass u = md5Hash \<or> WeakMD5Pass u = md5Hash"

definition ValidateRoastedPass :: "digest \<Rightarrow> bytes \<Rightarrow> User \<Rightarrow> bool" where
  "ValidateRoastedPass md5 roastedPass u \<longleftrightarrow>
     WeakMD5Pass u = WeakMD5PasswordHash md5 (RoastOSCARPassword roastedPass) (AuthKey u)"

definition ValidateRoastedJavaPass :: "digest \<Rightarrow> bytes \<Rightarrow> User \<Rightarrow> bool" where
  "ValidateRoastedJavaPass md5 roastedPass u \<longleftrightarrow>
     WeakMD5Pass u = WeakMD5PasswordHash md5 (RoastOSCARJavaPassword roastedPass) (AuthKey u)"

definition ValidateRoastedTOCPass :: "digest \<Rightarrow> bytes \<Rightarrow> User \<Rightarrow> bool" where
  "ValidateRoastedTOCPass md5 roastedPass u \<longleftrightarrow>
     WeakMD5Pass u = WeakMD5PasswordHash md5 (RoastTOCPassword roastedPass) (AuthKey u)"

definition ValidatePlaintextPass :: "digest \<Rightarrow> bytes \<Rightarrow> User \<Rightarrow> bool" where
  "ValidatePlaintextPass md5 plaintextPass u \<longleftrightarrow>
     WeakMD5Pass u = WeakMD5PasswordHash md5 plaintextPass (AuthKey u)"

definition ValidateRoastedKerberosPass :: "digest \<Rightarrow> bytes \<Rightarrow> User \<Rightarrow> bool" where
  "ValidateRoastedKerberosPass md5 roastedPass u \<longleftrightarrow>
     WeakMD5Pass u = WeakMD5PasswordHash md5 (RoastKerberosPassword roastedPass) (AuthKey u)"

definition validateAIMPassword :: "bytes \<Rightarrow> user_error option" where
  "validateAIMPassword pass =
     (if length pass < 4 \<or> length pass > 16 then Some ErrPasswordInvalid else None)"

definition validateICQPassword :: "bytes \<Rightarrow> user_error option" where
  "validateICQPassword pass =
     (if length pass < 6 \<or> length pass > 8 then Some ErrPasswordInvalid else None)"

definition HashPassword :: "digest \<Rightarrow> bytes \<Rightarrow> User \<Rightarrow> user_error option \<times> User" where
  "HashPassword md5 passwd u =
     (case (if IsICQ u then validateICQPassword passwd else validateAIMPassword passwd) of
        Some e \<Rightarrow> (Some e, u)
      | None \<Rightarrow> (None, u\<lparr>WeakMD5Pass := WeakMD5PasswordHash md5 passwd (AuthKey u),
          StrongMD5Pass := StrongMD5PasswordHash md5 passwd (AuthKey u)\<rparr>))"

text \<open>
  \<open>NewAccountCreator\<close>: the store and its \<open>insertUser\<close> are the caller's, \<open>authKey\<close> is the fresh UUID.
\<close>

definition newUser :: "unicode_tables \<Rightarrow> bytes \<Rightarrow> bytes \<Rightarrow> User" where
  "newUser t authKey s =
     \<lparr>Ident = NewIdentScreenName t s, Display = s, AuthKey = authKey, StrongMD5Pass = [],
      WeakMD5Pass = [], IsICQ = IsUIN t s, ConfirmStatus = False, RegStatus = 0, SuspendedStatus = 0,
      EmailAddress = [], Info = zero_ICQInfo, AIMDirectoryInfo = zero_AIMNameAndAddr, TOCConfig = [],
      IsBot = False, LastWarnUpdate = None, LastWarnLevel = 0, OfflineMsgCount = 0\<rparr>"

definition CreateAccount ::
  "unicode_tables \<Rightarrow> digest \<Rightarrow> bytes \<Rightarrow> (User \<Rightarrow> 's \<Rightarrow> user_error option \<times> 's) \<Rightarrow>
     bytes \<Rightarrow> bytes \<Rightarrow> 's \<Rightarrow> user_error option \<times> 's" where
  "CreateAccount t md5 authKey insertUser s password st =
     (case (if IsUIN t s then ValidateUIN s else ValidateAIMHandle t s) of
        Some e \<Rightarrow> (Some e, st)
      | None \<Rightarrow>
          (case HashPassword md5 password (newUser t authKey s) of
             (Some e, _) \<Rightarrow> (Some e, st)
           | (None, user) \<Rightarrow> insertUser user st))"

section \<open>Normal form of screen names\<close>

lemma encode_rune_high: "0x80 \<le> r \<Longrightarrow> b \<in> set (encode_rune r) \<Longrightarrow> 0x80 \<le> b"
proof -
  assume r: "0x80 \<le> r" and b: "b \<in> set (encode_rune r)"
  define r' where "r' = (if 0x10FFFF < r \<or> 0xD800 \<le> r \<and> r \<le> 0xDFFF then RuneError else r)"
  have r': "0x80 \<le> r'" "r' \<le> 0x10FFFF" using r by (auto simp: r'_def RuneError_def)
  have low: "(0x80 :: u8) \<le> word_of_nat (0x80 + n mod 64)" for n
    by (simp add: u8_compare del: of_nat_add)
  have lead: "r' < 0x800 \<Longrightarrow> (0x80 :: u8) \<le> word_of_nat (0xC0 + r' div 64)"
    "r' < 0x10000 \<Longrightarrow> (0x80 :: u8) \<le> word_of_nat (0xE0 + r' div 4096)"
    by (simp_all add: u8_compare del: of_nat_add)
  have "r' div 262144 \<le> 4" using div_le_mono [OF r'(2), of 262144] by simp
  then have lead4: "(0x80 :: u8) \<le> word_of_nat (0xF0 + r' div 262144)"
    by (simp add: u8_compare del: of_nat_add)
  show "0x80 \<le> b"
    using b r' low lead lead4
    unfolding encode_rune_def r'_def [symmetric] Let_def
    by (auto split: if_splits simp del: of_nat_add)
qed

lemma encode_rune_low: "r < 0x80 \<Longrightarrow> encode_rune r = [word_of_nat r]"
  by (simp add: encode_rune_def)

lemma encode_rune_space: "0x20 \<in> set (encode_rune r) \<longleftrightarrow> r = 0x20"
proof (cases "r < 0x80")
  case True
  then show ?thesis by (auto simp: encode_rune_low u8_compare dest!: sym [of "0x20"])
next
  case False
  then show ?thesis using encode_rune_high [of r "0x20"] by auto
qed

text \<open>The normal form contains no space and normalising it again changes nothing.\<close>

lemma ToLower_no_space:
  assumes "unicode_ok u" and "0x20 \<notin> set s"
  shows "0x20 \<notin> set (ToLower u s)"
proof -
  have "rune_lower u r \<noteq> 0x20" if "r \<in> set (runes s)" for r
  proof -
    have "r \<noteq> 0x20" using that assms(2) runes_space by blast
    moreover have "scalar r" using that runes_scalar [of s] by (simp add: list_all_iff)
    ultimately show ?thesis
      using assms(1) by (cases "r < 0x80") (auto simp: unicode_ok_def rune_lower_def)
  qed
  then show ?thesis by (auto simp: ToLower_eq encode_rune_space)
qed

lemma rune_lower_ok:
  assumes "unicode_ok u" and "scalar r"
  shows "scalar (rune_lower u r) \<and> rune_lower u (rune_lower u r) = rune_lower u r"
proof (cases "r < 0x80")
  case True
  then show ?thesis by (auto simp: rune_lower_def scalar_def)
next
  case False
  then show ?thesis using assms by (simp add: unicode_ok_def rune_lower_def)
qed

lemma ToLower_ToLower:
  assumes "unicode_ok u"
  shows "ToLower u (ToLower u s) = ToLower u s"
proof -
  have low: "scalar (rune_lower u r) \<and> rune_lower u (rune_lower u r) = rune_lower u r"
    if "r \<in> set (runes s)" for r
    using rune_lower_ok [OF assms] runes_scalar [of s] that by (simp add: list_all_iff)
  have "runes (ToLower u s) = map (rune_lower u) (runes s)"
    using runes_encode [of "map (rune_lower u) (runes s)"] low
    by (simp add: ToLower_eq comp_def list_all_iff)
  then show ?thesis
    using low by (simp add: ToLower_eq [of u "ToLower u s"] comp_def)
       (simp add: ToLower_eq [of u s] cong: map_cong)
qed

lemma NewIdentScreenName_no_space:
  "unicode_ok u \<Longrightarrow> 0x20 \<notin> set (screenName (NewIdentScreenName u s))"
  by (simp add: NewIdentScreenName_def ToLower_no_space)

lemma NewIdentScreenName_idem:
  "unicode_ok u \<Longrightarrow> NewIdentScreenName u (screenName (NewIdentScreenName u s)) = NewIdentScreenName u s"
  using NewIdentScreenName_no_space [of u s] by (simp add: NewIdentScreenName_def ToLower_ToLower)

section \<open>Ages\<close>

text \<open>
  The calendar: the days before each month of a common year, \<open>Time.YearDay\<close>, and the year and day
  of the year of \<open>time.Date\<close>, which carries months beyond 12 and days beyond the month over.
\<close>

definition leap :: "nat \<Rightarrow> bool" where
  "leap y \<longleftrightarrow> y mod 4 = 0 \<and> (y mod 100 \<noteq> 0 \<or> y mod 400 = 0)"

definition days_before :: "nat \<Rightarrow> nat" where
  "days_before m = [0, 0, 31, 59, 90, 120, 151, 181, 212, 243, 273, 304, 334] ! m"

definition YearDay :: "nat \<Rightarrow> nat \<Rightarrow> nat \<Rightarrow> nat" where
  "YearDay y m d = days_before m + (if leap y \<and> 2 < m then 1 else 0) + d"

definition year_length :: "nat \<Rightarrow> nat" where
  "year_length y = (if leap y then 366 else 365)"

function carry_days :: "nat \<Rightarrow> nat \<Rightarrow> nat \<times> nat" where
  "carry_days y n = (if n \<le> year_length y then (y, n) else carry_days (y + 1) (n - year_length y))"
  by pat_completeness auto
termination by (relation "measure (\<lambda>(y, n). n)") (auto simp: year_length_def)

declare carry_days.simps [simp del]

definition Date :: "nat \<Rightarrow> nat \<Rightarrow> nat \<Rightarrow> nat \<times> nat" where
  "Date y m d = (let y' = y + (m - 1) div 12; m' = (m - 1) mod 12 + 1 in carry_days y' (YearDay y' m' d))"

text \<open>\<open>now\<close> is the year and the day of the year of the current time in UTC.\<close>

definition Age :: "nat \<times> nat \<Rightarrow> User \<Rightarrow> u16" where
  "Age now u =
     (let by = unat (BirthYear (More (Info u))); bm = unat (BirthMonth (More (Info u))); bd = unat (BirthDay (More (Info u)))
      in if 0 < by \<and> bd = 0 \<and> bm = 0 then word_of_int (int (fst now) - int by)
         else if 0 < by \<and> 0 < bd \<and> 0 < bm then
           (let bday = Date by bm bd; years = int (fst now) - int (fst bday) in
            word_of_int (if snd now < snd bday then years - 1 else years))
         else 0)"

text \<open>Calendar dates, and the number of birthdays a person has had.\<close>

definition month_length :: "nat \<Rightarrow> nat \<Rightarrow> nat" where
  "month_length y m = [0, 31, if leap y then 29 else 28, 31, 30, 31, 30, 31, 31, 30, 31, 30, 31] ! m"

definition valid_date :: "nat \<Rightarrow> nat \<Rightarrow> nat \<Rightarrow> bool" where
  "valid_date y m d \<longleftrightarrow> 1 \<le> m \<and> m \<le> 12 \<and> 1 \<le> d \<and> d \<le> month_length y m"

definition birthdays :: "nat \<times> nat \<times> nat \<Rightarrow> nat \<times> nat \<times> nat \<Rightarrow> int" where
  "birthdays b n = (case (b, n) of ((by, bm, bd), (ny, nm, nd)) \<Rightarrow>
     int ny - int by - (if nm < bm \<or> nm = bm \<and> nd < bd then 1 else 0))"

lemma valid_month:
  "valid_date y m d \<Longrightarrow> m \<in> {1, 2, 3, 4, 5, 6, 7, 8, 9, 10, 11, 12}"
  by (simp add: valid_date_def) arith

lemmas calendar_defs = valid_date_def month_length_def YearDay_def year_length_def days_before_def

lemma YearDay_bound:
  assumes "valid_date y m d"
  shows "YearDay y m d \<le> year_length y"
  using valid_month [OF assms] assms
  by (elim insertE) (auto simp: calendar_defs)

lemma Date_valid:
  assumes "valid_date y m d"
  shows "Date y m d = (y, YearDay y m d)"
proof -
  have m: "(m - 1) div 12 = 0" "(m - 1) mod 12 + 1 = m"
    using assms by (auto simp: valid_date_def)
  show ?thesis
    using YearDay_bound [OF assms] unfolding Date_def Let_def m by (simp add: carry_days.simps)
qed

text \<open>Within one kind of year the days of the year are ordered as the dates are.\<close>

lemma YearDay_month_mono:
  assumes "valid_date y m d" and "valid_date y' m' d'" and "leap y = leap y'" and "m < m'"
  shows "YearDay y m d < YearDay y' m' d'"
proof -
  have next_month: "YearDay y m d \<le> days_before (m + 1) + (if leap y \<and> 2 < m + 1 then 1 else 0)"
    using valid_month [OF assms(1)] assms valid_month [OF assms(2)]
    by (elim insertE) (auto simp: calendar_defs)
  have mono: "days_before (m + 1) \<le> days_before m'"
    using valid_month [OF assms(1)] valid_month [OF assms(2)] assms(4)
    by (elim insertE) (simp_all add: days_before_def)
  have "1 \<le> d'" using assms(2) by (simp add: valid_date_def)
  with next_month mono assms(3,4) show ?thesis by (auto simp: YearDay_def [of y'] split: if_splits)
qed

text \<open>The dates of one kind of year compare as their days of the year do.\<close>

lemma YearDay_less_iff:
  assumes "valid_date y m d" and "valid_date y' m' d'" and "leap y = leap y'"
  shows "YearDay y m d < YearDay y' m' d' \<longleftrightarrow> m < m' \<or> m = m' \<and> d < d'"
proof (cases "m = m'")
  case True
  then show ?thesis using assms(3) by (simp add: YearDay_def)
next
  case False
  then show ?thesis
    using YearDay_month_mono [OF assms] YearDay_month_mono [OF assms(2,1) assms(3) [symmetric]]
    by (metis linorder_neqE_nat order_less_asym)
qed

lemma Age_valid:
  assumes "valid_date by (unat (BirthMonth (More (Info u)))) (unat (BirthDay (More (Info u))))"
    and "by = unat (BirthYear (More (Info u)))" and "0 < by"
  shows "Age (ny, yd) u =
    word_of_int (int ny - int by -
      (if yd < YearDay by (unat (BirthMonth (More (Info u)))) (unat (BirthDay (More (Info u)))) then 1 else 0))"
  using assms(3) assms(1) unfolding Age_def Let_def assms(2) [symmetric]
  by (simp add: Date_valid valid_date_def)

section \<open>Handles and numbers\<close>

lemma count_alnum_eq:
  "count_alnum u rs c =
     (if list_all (\<lambda>r. IsLetter u r \<or> IsDigit u r \<or> r = 0x20) rs
      then Some (c + length (filter (\<lambda>r. IsLetter u r \<or> IsDigit u r) rs)) else None)"
  by (induction u rs c rule: count_alnum.induct) auto

definition ascii_letter :: "u8 \<Rightarrow> bool" where
  "ascii_letter b \<longleftrightarrow> 0x41 \<le> b \<and> b \<le> 0x5A \<or> 0x61 \<le> b \<and> b \<le> 0x7A"

lemma IsLetter_ascii: "b < 0x80 \<Longrightarrow> IsLetter u (unat b) = ascii_letter b"
  by (auto simp: IsLetter_def ascii_letter_def word_le_nat_alt word_less_nat_alt)

lemma IsDigit_ascii: "b < 0x80 \<Longrightarrow> IsDigit u (unat b) = digit b"
  by (auto simp: IsDigit_def digit_def word_le_nat_alt word_less_nat_alt)

lemma count_alnum_ascii:
  assumes "is_ascii s"
  shows "count_alnum u (runes s) 0 =
    (if list_all (\<lambda>b. ascii_letter b \<or> digit b \<or> b = 0x20) s
     then Some (length (filter (\<lambda>b. ascii_letter b \<or> digit b) s)) else None)"
proof -
  have b: "b \<in> set s \<Longrightarrow> b < 0x80" for b using assms by (simp add: is_ascii_def list_all_iff)
  have sp: "unat b = 0x20 \<longleftrightarrow> b = 0x20" for b :: u8 by (simp add: word_unat_eq_iff)
  have "list_all (\<lambda>r. IsLetter u r \<or> IsDigit u r \<or> r = 0x20) (map unat s) =
      list_all (\<lambda>b. ascii_letter b \<or> digit b \<or> b = 0x20) s"
    using b by (auto simp: list_all_iff IsLetter_ascii IsDigit_ascii sp)
  moreover have "filter ((\<lambda>r. IsLetter u r \<or> IsDigit u r) \<circ> unat) s =
      filter (\<lambda>b. ascii_letter b \<or> digit b) s"
    by (rule filter_cong) (auto simp: b IsLetter_ascii IsDigit_ascii)
  ultimately show ?thesis
    by (simp add: count_alnum_eq runes_ascii [OF assms] filter_map)
qed

lemma digit_ascii: "digit b \<Longrightarrow> b < 0x80"
  by (auto simp: digit_def word_le_nat_alt word_less_nat_alt)

lemma digits_ascii: "list_all digit s \<Longrightarrow> is_ascii s"
  by (auto simp: is_ascii_def list_all_iff digit_ascii)

lemma NewIdentScreenName_digits: "list_all digit s \<Longrightarrow> NewIdentScreenName u s = IdentScreenName s"
proof -
  assume d: "list_all digit s"
  have "filter (\<lambda>b. b \<noteq> 0x20) s = s" using d by (auto simp: filter_id_conv list_all_iff digit_def)
  moreover have "map byte_lower s = s"
    by (rule map_idI) (use d in \<open>auto simp: byte_lower_def list_all_iff digit_def word_le_nat_alt\<close>)
  ultimately show ?thesis
    using digits_ascii [OF d] by (simp add: NewIdentScreenName_def ToLower_def)
qed

lemma Atoi_ok_digits:
  assumes "Atoi s = (n, False)" and "s \<noteq> []" and "hd s \<noteq> 0x2D" and "hd s \<noteq> 0x2B"
  shows "list_all digit s \<and> n = int (decimal s)"
  using assms by (auto simp: Atoi_def Let_def split: if_splits)

lemma IsUIN_hd: "IsUIN u s \<Longrightarrow> s \<noteq> [] \<and> hd s \<noteq> 0x2D \<and> hd s \<noteq> 0x2B"
  by (cases s) (auto simp: IsUIN_def runes.simps [of "_ # _"] IsDigit_def)

section \<open>Properties\<close>

text \<open>
  The normal form of a screen name is a fixed point of normalisation and holds no space, for
  every byte string, also when it is not valid UTF-8: two spellings of one name are one key.
\<close>

theorem ident_normal_form:
  assumes "unicode_ok u"
  shows "NewIdentScreenName u (screenName (NewIdentScreenName u s)) = NewIdentScreenName u s \<and>
    0x20 \<notin> set (screenName (NewIdentScreenName u s))"
  using NewIdentScreenName_idem [OF assms] NewIdentScreenName_no_space [OF assms] by blast

lemma ident_normal_form_witness:
  "NewIdentScreenName ascii_tables
     (screenName (NewIdentScreenName ascii_tables [0x4A, 0x20, 0xC3, 0xFF])) =
   NewIdentScreenName ascii_tables [0x4A, 0x20, 0xC3, 0xFF] \<and>
   0x20 \<notin> set (screenName (NewIdentScreenName ascii_tables [0x4A, 0x20, 0xC3, 0xFF]))"
  by (rule ident_normal_form) (rule unicode_ok_ascii_tables)

text \<open>
  For an ASCII screen name \<open>ValidateAIMHandle\<close> decides, and names the error of, exactly this: at
  most 16 bytes, only letters, digits and spaces, at least three letters or digits, a letter first
  and no space last. The Unicode tables play no role.
\<close>

theorem aim_handle_rules:
  assumes "is_ascii s"
  shows "ValidateAIMHandle u s =
    (if length s > 16 then Some ErrAIMHandleLength
     else if \<not> list_all (\<lambda>b. ascii_letter b \<or> digit b \<or> b = 0x20) s then Some ErrAIMHandleInvalidFormat
     else if length (filter (\<lambda>b. ascii_letter b \<or> digit b) s) < 3 then Some ErrAIMHandleLength
     else if ascii_letter (hd s) \<and> last s \<noteq> 0x20 then None
     else Some ErrAIMHandleInvalidFormat)"
proof (cases s)
  case Nil
  then show ?thesis by (simp add: ValidateAIMHandle_def count_alnum_ascii is_ascii_def)
next
  case (Cons b bs)
  have "IsLetter u (unat (s ! 0)) = ascii_letter (hd s)"
    using assms Cons by (simp add: is_ascii_def IsLetter_ascii)
  moreover have "s ! (length s - 1) = last s" using Cons by (simp add: last_conv_nth)
  ultimately show ?thesis
    using assms by (simp add: ValidateAIMHandle_def count_alnum_ascii)
qed

lemma aim_handle_rules_witness:
  "ValidateAIMHandle ascii_tables [0x4A, 0x6F, 0x65, 0x20, 0x31] = None"
  using aim_handle_rules [of "[0x4A, 0x6F, 0x65, 0x20, 0x31]" ascii_tables]
  by (simp add: is_ascii_def ascii_letter_def digit_def)

text \<open>
  The first character is tested as a byte, not as a rune: a name that begins with a letter of
  the block U+05C0 to U+05FF (Hebrew) starts with the byte 0xD7, which read as a rune is the
  multiplication sign, so it is refused whatever its letters are.
\<close>

theorem hebrew_handle_refused:
  assumes "\<not> uniLetter u 0xD7" and "0x5C0 \<le> r" and "r \<le> 0x5FF"
  shows "ValidateAIMHandle u (encode_rune r @ s) \<noteq> None"
proof -
  have "r div 64 = 0x17" by (rule div_nat_eqI) (use assms(2,3) in simp_all)
  then have "(encode_rune r @ s) ! 0 = 0xD7"
    using assms(2,3) by (simp add: encode_rune_def)
  then have "\<not> IsLetter u (unat ((encode_rune r @ s) ! 0))"
    using assms(1) by (simp add: IsLetter_def)
  then show ?thesis
    unfolding ValidateAIMHandle_def by (simp split: option.split)
qed

text \<open>A name of three Hebrew letters, under tables that know them as letters.\<close>

lemma hebrew_handle_refused_witness:
  "let u = ascii_tables\<lparr>uniLetter := (\<lambda>r. 0x5D0 \<le> r \<and> r \<le> 0x5EA)\<rparr>;
       s = encode_rune 0x5D0 @ encode_rune 0x5D1 @ encode_rune 0x5D2 in
     runes s = [0x5D0, 0x5D1, 0x5D2] \<and> list_all (IsLetter u) (runes s) \<and> ValidateAIMHandle u s \<noteq> None"
proof -
  have "runes (encode_rune 0x5D0 @ encode_rune 0x5D1 @ encode_rune 0x5D2) = [0x5D0, 0x5D1, 0x5D2]"
    using runes_encode [of "[0x5D0, 0x5D1, 0x5D2]"] by (simp add: scalar_def)
  moreover have "ValidateAIMHandle (ascii_tables\<lparr>uniLetter := (\<lambda>r. 0x5D0 \<le> r \<and> r \<le> 0x5EA)\<rparr>)
      (encode_rune 0x5D0 @ encode_rune 0x5D1 @ encode_rune 0x5D2) \<noteq> None"
    by (rule hebrew_handle_refused) (simp_all add: ascii_tables_def)
  ultimately show ?thesis by (simp add: Let_def IsLetter_def ascii_tables_def)
qed

text \<open>
  Of the names taken for UINs exactly the decimal numbers from 10000 to 2147483646 are valid,
  and for those \<open>UIN\<close> of the normal form is that number.
\<close>

theorem uin_names:
  assumes "IsUIN u s"
  shows "(ValidateUIN s = None \<longleftrightarrow> list_all digit s \<and> 10000 \<le> decimal s \<and> decimal s \<le> 2147483646) \<and>
    (ValidateUIN s = None \<longrightarrow> unat (UIN (NewIdentScreenName u s)) = decimal s)"
proof -
  have hd: "s \<noteq> [] \<and> hd s \<noteq> 0x2D \<and> hd s \<noteq> 0x2B" using assms by (rule IsUIN_hd)
  have iff: "ValidateUIN s = None \<longleftrightarrow> list_all digit s \<and> 10000 \<le> decimal s \<and> decimal s \<le> 2147483646"
  proof
    assume "ValidateUIN s = None"
    then obtain n where "Atoi s = (n, False)" "10000 \<le> n" "n \<le> 2147483646"
      by (auto simp: ValidateUIN_def not_less split: prod.splits if_splits)
    with Atoi_ok_digits hd show "list_all digit s \<and> 10000 \<le> decimal s \<and> decimal s \<le> 2147483646"
      by fastforce
  next
    assume "list_all digit s \<and> 10000 \<le> decimal s \<and> decimal s \<le> 2147483646"
    with hd show "ValidateUIN s = None" by (simp add: ValidateUIN_def Atoi_digits)
  qed
  moreover have "unat (UIN (NewIdentScreenName u s)) = decimal s" if "ValidateUIN s = None"
  proof -
    have d: "list_all digit s" "decimal s \<le> 2147483646" using that iff by auto
    then have "UIN (NewIdentScreenName u s) = word_of_nat (decimal s)"
      using hd by (simp add: NewIdentScreenName_digits UIN_def Atoi_digits)
    then show ?thesis using d(2) by (simp add: unat_of_nat)
  qed
  ultimately show ?thesis by blast
qed

lemma uin_names_witness:
  "ValidateUIN [0x31, 0x30, 0x30, 0x30, 0x33] = None \<and>
   unat (UIN (NewIdentScreenName ascii_tables [0x31, 0x30, 0x30, 0x30, 0x33])) = 10003"
  using uin_names [of ascii_tables "[0x31, 0x30, 0x30, 0x30, 0x33]"]
  by (simp add: IsUIN_def runes_ascii is_ascii_def IsDigit_def digit_def decimal_def)

text \<open>
  \<open>HashPassword\<close> accepts exactly the passwords of an allowed length (4 to 16 bytes for AIM, 6 to
  8 for ICQ) and changes nothing otherwise; afterwards the password is accepted in every form in
  which a client may send it: both hashes, the plain text, and the four roasted forms.
\<close>

theorem password_forms:
  "let (e, v) = HashPassword md5 p u in
     (e = None \<longleftrightarrow> (if IsICQ u then 6 \<le> length p \<and> length p \<le> 8 else 4 \<le> length p \<and> length p \<le> 16)) \<and>
     (if e \<noteq> None then v = u
      else ValidateHash (WeakMD5PasswordHash md5 p (AuthKey u)) v \<and>
        ValidateHash (StrongMD5PasswordHash md5 p (AuthKey u)) v \<and>
        ValidatePlaintextPass md5 p v \<and>
        ValidateRoastedPass md5 (RoastOSCARPassword p) v \<and>
        ValidateRoastedJavaPass md5 (RoastOSCARJavaPassword p) v \<and>
        ValidateRoastedTOCPass md5 (RoastTOCPassword p) v \<and>
        ValidateRoastedKerberosPass md5 (RoastKerberosPassword p) v)"
  by (simp add: HashPassword_def validateAIMPassword_def validateICQPassword_def ValidateHash_def
      ValidatePlaintextPass_def ValidateRoastedPass_def ValidateRoastedJavaPass_def
      ValidateRoastedTOCPass_def ValidateRoastedKerberosPass_def)

text \<open>
  An account is inserted exactly when the name is valid for its kind and the password has an
  allowed length; the user that is inserted is keyed by the normal form of the name, marked as ICQ
  exactly for UINs, and can sign on with the password. Otherwise an error is returned and the store
  is not called.
\<close>

theorem account_creation:
  "if (if IsUIN t s then ValidateUIN s = None \<and> 6 \<le> length p \<and> length p \<le> 8
       else ValidateAIMHandle t s = None \<and> 4 \<le> length p \<and> length p \<le> 16)
   then \<exists>user. CreateAccount t md5 k insertUser s p st = insertUser user st \<and>
     Ident user = NewIdentScreenName t s \<and> Display user = s \<and> AuthKey user = k \<and>
     IsICQ user = IsUIN t s \<and> ValidatePlaintextPass md5 p user
   else \<exists>e. CreateAccount t md5 k insertUser s p st = (Some e, st)"
proof -
  obtain e v where h: "HashPassword md5 p (newUser t k s) = (e, v)" by fastforce
  have "e = None \<longleftrightarrow> (if IsUIN t s then 6 \<le> length p \<and> length p \<le> 8 else 4 \<le> length p \<and> length p \<le> 16)"
    using h by (auto simp: HashPassword_def validateAIMPassword_def validateICQPassword_def newUser_def
        split: if_splits)
  moreover have "Ident v = NewIdentScreenName t s \<and> Display v = s \<and> AuthKey v = k \<and>
      IsICQ v = IsUIN t s \<and> ValidatePlaintextPass md5 p v" if "e = None"
    using h that by (auto simp: HashPassword_def newUser_def ValidatePlaintextPass_def split: option.splits)
  ultimately show ?thesis
    by (auto simp: CreateAccount_def h split: option.split)
qed

text \<open>
  For valid dates \<open>Age\<close> is the number of birthdays a person has had, when the year of birth and
  the current year are both leap years or both common years.
\<close>

theorem age_is_birthdays:
  assumes "valid_date (unat (BirthYear (More (Info u)))) (unat (BirthMonth (More (Info u)))) (unat (BirthDay (More (Info u))))"
    and "valid_date ny nm nd" and "leap ny = leap (unat (BirthYear (More (Info u))))"
    and "0 < unat (BirthYear (More (Info u)))"
  shows "Age (ny, YearDay ny nm nd) u = word_of_int (birthdays
    (unat (BirthYear (More (Info u))), unat (BirthMonth (More (Info u))), unat (BirthDay (More (Info u)))) (ny, nm, nd))"
  using Age_valid [OF assms(1) refl assms(4)] YearDay_less_iff [OF assms(2,1,3)]
  by (simp add: birthdays_def)

lemma age_is_birthdays_witness:
  "Age (2023, YearDay 2023 7 3)
     ((newUser ascii_tables [] [])\<lparr>Info := zero_ICQInfo\<lparr>More := \<lparr>Gender = 0, HomePageAddr = [], BirthYear = 1990, BirthMonth = 7,
       BirthDay = 4, Lang1 = 0, Lang2 = 0, Lang3 = 0\<rparr>\<rparr>\<rparr>) = 32"
  using age_is_birthdays [of "(newUser ascii_tables [] [])\<lparr>Info := zero_ICQInfo\<lparr>More := \<lparr>Gender = 0, HomePageAddr = [], BirthYear = 1990,
      BirthMonth = 7, BirthDay = 4, Lang1 = 0, Lang2 = 0, Lang3 = 0\<rparr>\<rparr>\<rparr>" 2023 7 3]
  by (simp add: valid_date_def month_length_def leap_def birthdays_def)

text \<open>
  Comparing days of the year instead of dates is off by one across leap years: a person born
  after February of a leap year is still counted a year younger on the birthday itself in every
  common year.
\<close>

theorem age_leap_birth_late:
  assumes "valid_date (unat (BirthYear (More (Info u)))) (unat (BirthMonth (More (Info u)))) (unat (BirthDay (More (Info u))))"
    and "0 < unat (BirthYear (More (Info u)))" and "leap (unat (BirthYear (More (Info u))))" and "\<not> leap ny"
    and "2 < unat (BirthMonth (More (Info u)))"
  shows "Age (ny, YearDay ny (unat (BirthMonth (More (Info u)))) (unat (BirthDay (More (Info u))))) u =
    word_of_int (birthdays (unat (BirthYear (More (Info u))), unat (BirthMonth (More (Info u))), unat (BirthDay (More (Info u))))
      (ny, unat (BirthMonth (More (Info u))), unat (BirthDay (More (Info u)))) - 1)"
  using Age_valid [OF assms(1) refl assms(2)] assms(3-5)
  by (simp add: birthdays_def YearDay_def)

lemma age_leap_birth_late_witness:
  "Age (2023, YearDay 2023 12 31)
     ((newUser ascii_tables [] [])\<lparr>Info := zero_ICQInfo\<lparr>More := \<lparr>Gender = 0, HomePageAddr = [], BirthYear = 2004, BirthMonth = 12,
       BirthDay = 31, Lang1 = 0, Lang2 = 0, Lang3 = 0\<rparr>\<rparr>\<rparr>) = 18"
  using age_leap_birth_late [of "(newUser ascii_tables [] [])\<lparr>Info := zero_ICQInfo\<lparr>More := \<lparr>Gender = 0, HomePageAddr = [], BirthYear = 2004,
      BirthMonth = 12, BirthDay = 31, Lang1 = 0, Lang2 = 0, Lang3 = 0\<rparr>\<rparr>\<rparr>" 2023]
  by (simp add: valid_date_def month_length_def leap_def birthdays_def)

end
