(* ===== verification/Feedbag.thy ===== *)
theory Feedbag
  imports TLVs Users
begin

text \<open>
  The server-side buddy list (\<open>state/feedbag_list.go\<close> and \<open>FeedbagItem\<close> of \<open>wire/snacs.go\<close>). The code
  keeps pointers to items in three lists, and an update through one of them is seen through all: here
  the items live in \<open>fheap\<close> and a pointer is an index. \<open>randInt\<close> is the caller's generator; its n-th
  result is \<open>rnd n\<close>.
\<close>

section \<open>Items\<close>

definition FeedbagClassIdBuddy :: u16 where "FeedbagClassIdBuddy = 0x0000"
definition FeedbagClassIdGroup :: u16 where "FeedbagClassIdGroup = 0x0001"
definition FeedbagClassIDPermit :: u16 where "FeedbagClassIDPermit = 0x0002"
definition FeedbagClassIDDeny :: u16 where "FeedbagClassIDDeny = 0x0003"
definition FeedbagClassIdPdinfo :: u16 where "FeedbagClassIdPdinfo = 0x0004"
definition FeedbagClassIdAlInfo :: u16 where "FeedbagClassIdAlInfo = 0x0018"
definition FeedbagClassIdMin :: u16 where "FeedbagClassIdMin = 0x0400"
definition FeedbagClassIdBart :: u16 where "FeedbagClassIdBart = 0x0014"
definition FeedbagAttributesBartInfo :: u16 where "FeedbagAttributesBartInfo = 0x00D5"
definition BARTFlagsCustom :: u8 where "BARTFlagsCustom = 0x01"
definition FeedbagAttributesOrder :: u16 where "FeedbagAttributesOrder = 0x00C8"
definition FeedbagAttributesPdMode :: u16 where "FeedbagAttributesPdMode = 0x00CA"
definition FeedbagAttributesAlias :: u16 where "FeedbagAttributesAlias = 0x0131"
definition FeedbagAttributesCollapsed :: u16 where "FeedbagAttributesCollapsed = 0x0134"
definition FeedbagAttributesNote :: u16 where "FeedbagAttributesNote = 0x013C"

lemmas feedbag_ids = FeedbagClassIdBuddy_def FeedbagClassIdGroup_def FeedbagClassIDPermit_def
  FeedbagClassIDDeny_def FeedbagClassIdPdinfo_def FeedbagClassIdAlInfo_def FeedbagClassIdMin_def
  FeedbagAttributesOrder_def FeedbagAttributesPdMode_def FeedbagAttributesAlias_def
  FeedbagAttributesCollapsed_def FeedbagAttributesNote_def

record FeedbagItem =
  Name :: bytes
  GroupID :: u16
  ItemID :: u16
  ClassID :: u16
  Attrs :: TLVList

definition IsEqual :: "FeedbagItem \<Rightarrow> FeedbagItem \<Rightarrow> bool" where
  "IsEqual f other \<longleftrightarrow> Name f = Name other \<and> GroupID f = GroupID other \<and> ClassID f = ClassID other \<and>
     length (Attrs f) = length (Attrs other) \<and>
     list_all2 (\<lambda>t o'. Tag t = Tag o' \<and> Value t = Value o') (Attrs f) (Attrs other)"

text \<open>The order attribute: the members of a group, as a TLV of 16-bit integers.\<close>

definition order_tlv :: "u16 list \<Rightarrow> TLV" where
  "order_tlv ids = (case NewTLVBE FeedbagAttributesOrder (TSlice TU16, VList (map VU16 ids)) of
      Ok t \<Rightarrow> t | _ \<Rightarrow> \<lparr>Tag = 0, Value = []\<rparr>)"

definition AppendOrderMembers :: "u16 list \<Rightarrow> FeedbagItem \<Rightarrow> FeedbagItem" where
  "AppendOrderMembers memberIDs f =
     (let (existing, _) = TLVList_Uint16SliceBE FeedbagAttributesOrder (Attrs f)
      in f\<lparr>Attrs := TLVList_Set (order_tlv (existing @ memberIDs)) (Attrs f)\<rparr>)"

definition RemoveOrderMembers :: "u16 list \<Rightarrow> FeedbagItem \<Rightarrow> FeedbagItem" where
  "RemoveOrderMembers memberIDs f =
     (case TLVList_Uint16SliceBE FeedbagAttributesOrder (Attrs f) of
        (existing, False) \<Rightarrow> f
      | (existing, True) \<Rightarrow>
          f\<lparr>Attrs := TLVList_Set (order_tlv (filter (\<lambda>i. i \<notin> set memberIDs) existing)) (Attrs f)\<rparr>)"

definition hasScreenName :: "u16 \<Rightarrow> bool" where
  "hasScreenName c \<longleftrightarrow> c = FeedbagClassIdBuddy \<or> c = FeedbagClassIDPermit \<or>
     c = FeedbagClassIdAlInfo \<or> c = FeedbagClassIDDeny"

section \<open>The list\<close>

record FeedbagList =
  fheap :: "FeedbagItem list"
  items :: "nat list"
  pendingUpdates :: "nat list"
  pendingDeletes :: "nat list"
  rnd :: "nat \<Rightarrow> nat"
  draws :: nat
  uni :: unicode_tables

definition NewFeedbagList :: "FeedbagItem list \<Rightarrow> (nat \<Rightarrow> nat) \<Rightarrow> unicode_tables \<Rightarrow> FeedbagList" where
  "NewFeedbagList its r u = \<lparr>fheap = its, items = [0..<length its], pendingUpdates = [],
     pendingDeletes = [], rnd = r, draws = 0, uni = u\<rparr>"

definition item :: "FeedbagList \<Rightarrow> nat \<Rightarrow> FeedbagItem" where
  "item f p = fheap f ! p"

definition Items :: "FeedbagList \<Rightarrow> FeedbagItem list" where
  "Items f = map (item f) (items f)"

definition upd_item :: "nat \<Rightarrow> (FeedbagItem \<Rightarrow> FeedbagItem) \<Rightarrow> FeedbagList \<Rightarrow> FeedbagList" where
  "upd_item p g f = f\<lparr>fheap := (fheap f)[p := g (fheap f ! p)]\<rparr>"

text \<open>A new item at the end of the list, and its pointer.\<close>

definition push_item :: "FeedbagItem \<Rightarrow> FeedbagList \<Rightarrow> nat \<times> FeedbagList" where
  "push_item it f = (let p = length (fheap f) in
     (p, f\<lparr>fheap := fheap f @ [it], items := items f @ [p]\<rparr>))"

definition PendingUpdates :: "FeedbagList \<Rightarrow> FeedbagItem list \<times> FeedbagList" where
  "PendingUpdates f = (map (item f) (pendingUpdates f), f\<lparr>pendingUpdates := []\<rparr>)"

definition PendingDeletes :: "FeedbagList \<Rightarrow> FeedbagItem list \<times> FeedbagList" where
  "PendingDeletes f = (map (item f) (pendingDeletes f), f\<lparr>pendingDeletes := []\<rparr>)"

definition trackUpdate :: "nat \<Rightarrow> FeedbagList \<Rightarrow> FeedbagList" where
  "trackUpdate p f =
     (if p \<in> set (pendingUpdates f) then f else f\<lparr>pendingUpdates := pendingUpdates f @ [p]\<rparr>)"

text \<open>\<open>genID\<close> tries \<open>num\<close>, \<open>num + 1\<close> and so on, wrapping around, up to \<open>num - 2\<close>; never zero.\<close>

definition id_used :: "FeedbagList \<Rightarrow> u16 \<Rightarrow> bool" where
  "id_used f n \<longleftrightarrow> list_ex (\<lambda>it. GroupID it = n \<or> ItemID it = n) (Items f)"

fun find_id :: "FeedbagList \<Rightarrow> nat \<Rightarrow> u16 \<Rightarrow> u16" where
  "find_id f 0 n = 0"
| "find_id f (Suc k) n = (if n = 0 \<or> id_used f n then find_id f k (n + 1) else n)"

definition genID :: "FeedbagList \<Rightarrow> u16 \<times> FeedbagList" where
  "genID f = (find_id f 65535 (word_of_nat (rnd f (draws f))), f\<lparr>draws := draws f + 1\<rparr>)"

definition ident :: "FeedbagList \<Rightarrow> bytes \<Rightarrow> bytes" where
  "ident f name = screenName (NewIdentScreenName (uni f) name)"

definition groupByName :: "bytes \<Rightarrow> FeedbagList \<Rightarrow> nat option" where
  "groupByName name f = find (\<lambda>p. ClassID (item f p) = FeedbagClassIdGroup \<and> GroupID (item f p) \<noteq> 0 \<and>
     Name (item f p) = name) (items f)"

definition buddyItem :: "nat \<Rightarrow> bytes \<Rightarrow> FeedbagList \<Rightarrow> nat option" where
  "buddyItem g buddyName f = find (\<lambda>p. ClassID (item f p) = FeedbagClassIdBuddy \<and>
     GroupID (item f p) = GroupID (item f g) \<and> ident f (Name (item f p)) = ident f buddyName) (items f)"

definition buddyItemsByName :: "bytes \<Rightarrow> FeedbagList \<Rightarrow> nat list" where
  "buddyItemsByName buddyName f = filter (\<lambda>p. ClassID (item f p) = FeedbagClassIdBuddy \<and>
     ident f (Name (item f p)) = ident f buddyName) (items f)"

definition rootGroup :: "FeedbagList \<Rightarrow> nat \<times> FeedbagList" where
  "rootGroup f =
     (case find (\<lambda>p. ClassID (item f p) = FeedbagClassIdGroup \<and> GroupID (item f p) = 0) (items f) of
        Some p \<Rightarrow> (p, f)
      | None \<Rightarrow>
          let (p, f') = push_item \<lparr>Name = [], GroupID = 0, ItemID = 0, ClassID = FeedbagClassIdGroup,
                Attrs = []\<rparr> f
          in (p, trackUpdate p f'))"

definition itemsMatch :: "FeedbagList \<Rightarrow> FeedbagItem \<Rightarrow> FeedbagItem \<Rightarrow> bool" where
  "itemsMatch f a b \<longleftrightarrow> ClassID a = ClassID b \<and>
     (if hasScreenName (ClassID a) then ident f (Name a) = ident f (Name b) else Name a = Name b) \<and>
     (if ClassID a = FeedbagClassIdBuddy \<or> ClassID a = FeedbagClassIdMin then GroupID a = GroupID b else True)"

text \<open>\<open>deleteItem\<close> returns the item it removed.\<close>

definition deleteItem :: "FeedbagItem \<Rightarrow> FeedbagList \<Rightarrow> FeedbagItem option \<times> FeedbagList" where
  "deleteItem it f =
     (case find (\<lambda>p. itemsMatch f (item f p) it) (items f) of
        Some p \<Rightarrow> (Some (item f p), f\<lparr>pendingDeletes := pendingDeletes f @ [p], items := remove1 p (items f)\<rparr>)
      | None \<Rightarrow> (None, f))"

definition upsertItem :: "FeedbagItem \<Rightarrow> FeedbagList \<Rightarrow> (FeedbagItem \<times> bool) \<times> FeedbagList" where
  "upsertItem it0 f =
     (let it = (if hasScreenName (ClassID it0) then it0\<lparr>Name := ident f (Name it0)\<rparr> else it0) in
      case find (\<lambda>p. itemsMatch f (item f p) it) (items f) of
        Some p \<Rightarrow>
          let f' = (if IsEqual (item f p) it then f
                    else trackUpdate p (upd_item p (\<lambda>old. it\<lparr>ItemID := ItemID old, GroupID := GroupID old\<rparr>) f))
          in ((item f' p, False), f')
      | None \<Rightarrow>
          let (i, f') = genID f; it' = it\<lparr>ItemID := i\<rparr>; (p, f'') = push_item it' f'
          in ((it', True), f''\<lparr>pendingUpdates := pendingUpdates f'' @ [p]\<rparr>))"

section \<open>Operations\<close>

definition plain_item :: "u16 \<Rightarrow> bytes \<Rightarrow> TLVList \<Rightarrow> FeedbagItem" where
  "plain_item c name attrs = \<lparr>Name = name, GroupID = 0, ItemID = 0, ClassID = c, Attrs = attrs\<rparr>"

definition SetMode :: "u8 \<Rightarrow> FeedbagList \<Rightarrow> FeedbagList" where
  "SetMode mode f = snd (upsertItem (plain_item FeedbagClassIdPdinfo []
     [\<lparr>Tag = FeedbagAttributesPdMode, Value = [mode]\<rparr>]) f)"

definition SetIcon :: "u16 \<Rightarrow> bytes \<Rightarrow> FeedbagList \<Rightarrow> (FeedbagItem \<times> bool) \<times> FeedbagList" where
  "SetIcon bartType hash f =
     upsertItem (plain_item FeedbagClassIdBart (decimal_string (unat bartType))
       [\<lparr>Tag = FeedbagAttributesBartInfo,
         Value = fst (MarshalBE (Some (BARTInfo_ty, VStruct [VU8 BARTFlagsCustom, vbytes hash])))\<rparr>]) f"

definition AddGroup :: "bytes \<Rightarrow> FeedbagList \<Rightarrow> FeedbagItem \<times> FeedbagList" where
  "AddGroup name f =
     (case groupByName name f of
        Some p \<Rightarrow> (item f p, f)
      | None \<Rightarrow>
          let (gid, f1) = genID f;
              (g, f2) = push_item \<lparr>Name = name, GroupID = gid, ItemID = 0, ClassID = FeedbagClassIdGroup,
                Attrs = []\<rparr> f1;
              (root, f3) = rootGroup f2;
              f4 = upd_item root (AppendOrderMembers [GroupID (item f3 g)]) f3;
              f5 = trackUpdate g (trackUpdate root f4)
          in (item f5 g, f5))"

definition DeleteGroup :: "bytes \<Rightarrow> FeedbagList \<Rightarrow> FeedbagList" where
  "DeleteGroup groupName f =
     (case groupByName groupName f of
        None \<Rightarrow> f
      | Some g \<Rightarrow>
          let gid = GroupID (item f g);
              toDelete = filter (\<lambda>p. GroupID (item f p) = gid) (items f);
              f' = fold (\<lambda>p f. snd (deleteItem (item f p) f)) toDelete f;
              roots = filter (\<lambda>p. ClassID (item f' p) = FeedbagClassIdGroup \<and> GroupID (item f' p) = 0) (items f')
          in if toDelete \<noteq> [] \<and> gid \<noteq> 0
             then fold (\<lambda>p f. trackUpdate p (upd_item p (RemoveOrderMembers [gid]) f)) roots f'
             else f')"

datatype fb_error = ErrGroupNotFound | ErrGroupExists | ErrBuddyNotFound

definition addBuddyItem :: "bytes \<Rightarrow> bytes \<Rightarrow> TLVList \<Rightarrow> FeedbagList \<Rightarrow> (fb_error + bool) \<times> FeedbagList" where
  "addBuddyItem groupName sn attrs f =
     (case groupByName groupName f of
        None \<Rightarrow> (Inl ErrGroupNotFound, f)
      | Some g \<Rightarrow>
          let ((result, inserted), f1) = upsertItem \<lparr>Name = sn, GroupID = GroupID (item f g), ItemID = 0,
                ClassID = FeedbagClassIdBuddy, Attrs = attrs\<rparr> f;
              f2 = (if inserted then trackUpdate g (upd_item g (AppendOrderMembers [ItemID result]) f1) else f1)
          in (Inr inserted, f2))"

definition AddBuddy :: "bytes \<Rightarrow> bytes \<Rightarrow> bytes \<Rightarrow> bytes \<Rightarrow> FeedbagList \<Rightarrow> (fb_error + bool) \<times> FeedbagList" where
  "AddBuddy groupName sn alias note f =
     addBuddyItem groupName sn
       ((if alias \<noteq> [] then [\<lparr>Tag = FeedbagAttributesAlias, Value = alias\<rparr>] else []) @
        (if note \<noteq> [] then [\<lparr>Tag = FeedbagAttributesNote, Value = note\<rparr>] else [])) f"

text \<open>One group of \<open>DeleteBuddy\<close>.\<close>

definition delete_from :: "bytes \<Rightarrow> nat \<Rightarrow> FeedbagList \<Rightarrow> FeedbagList" where
  "delete_from buddyName g f =
     (case deleteItem \<lparr>Name = buddyName, GroupID = GroupID (item f g), ItemID = 0,
         ClassID = FeedbagClassIdBuddy, Attrs = []\<rparr> f of
        (Some deleted, f') \<Rightarrow> trackUpdate g (upd_item g (RemoveOrderMembers [ItemID deleted]) f')
      | (None, f') \<Rightarrow> f')"

definition DeleteBuddy :: "bytes \<Rightarrow> bytes \<Rightarrow> FeedbagList \<Rightarrow> fb_error option \<times> FeedbagList" where
  "DeleteBuddy groupName buddyName f =
     (if groupName = [0x2A] then
        (None, fold (delete_from buddyName)
          (filter (\<lambda>p. ClassID (item f p) = FeedbagClassIdGroup \<and> GroupID (item f p) \<noteq> 0) (items f)) f)
      else case groupByName groupName f of
        None \<Rightarrow> (Some ErrGroupNotFound, f)
      | Some g \<Rightarrow> (None, delete_from buddyName g f))"

definition RenameGroup :: "bytes \<Rightarrow> bytes \<Rightarrow> FeedbagList \<Rightarrow> fb_error option \<times> FeedbagList" where
  "RenameGroup oldName newName f =
     (case groupByName oldName f of
        None \<Rightarrow> (Some ErrGroupNotFound, f)
      | Some g \<Rightarrow>
          if newName \<noteq> oldName \<and> groupByName newName f \<noteq> None then (Some ErrGroupExists, f)
          else if Name (item f g) = newName then (None, f)
          else (None, trackUpdate g (upd_item g (\<lambda>it. it\<lparr>Name := newName\<rparr>) f)))"

text \<open>The new order of \<open>reorderInGroupOrder\<close>: \<open>itemID\<close> right before \<open>beforeID\<close>, or last.\<close>

definition reorder :: "u16 \<Rightarrow> u16 \<Rightarrow> u16 list \<Rightarrow> u16 list" where
  "reorder itemID beforeID order =
     (let filtered = filter (\<lambda>i. i \<noteq> itemID) order
      in takeWhile (\<lambda>i. i \<noteq> beforeID) filtered @ [itemID] @ dropWhile (\<lambda>i. i \<noteq> beforeID) filtered)"

definition reorderInGroupOrder :: "nat \<Rightarrow> u16 \<Rightarrow> u16 \<Rightarrow> FeedbagList \<Rightarrow> FeedbagList" where
  "reorderInGroupOrder g itemID beforeID f =
     (case TLVList_Uint16SliceBE FeedbagAttributesOrder (Attrs (item f g)) of
        (_, False) \<Rightarrow> f
      | (order, True) \<Rightarrow>
          trackUpdate g (upd_item g (\<lambda>it. it\<lparr>Attrs := TLVList_Set (order_tlv (reorder itemID beforeID order))
            (Attrs it)\<rparr>) f))"

definition MoveBuddy :: "bytes \<Rightarrow> bytes \<Rightarrow> bytes \<Rightarrow> bytes \<Rightarrow> FeedbagList \<Rightarrow> fb_error option \<times> FeedbagList" where
  "MoveBuddy fromGroup toGroup buddyName beforeBuddy f =
     (case groupByName fromGroup f of
        None \<Rightarrow> (Some ErrGroupNotFound, f)
      | Some src \<Rightarrow>
        (case buddyItem src buddyName f of
           None \<Rightarrow> (Some ErrBuddyNotFound, f)
         | Some srcBuddy \<Rightarrow>
           (let place = (\<lambda>dst f.
                 if beforeBuddy \<noteq> [] then
                   (case (buddyItem dst buddyName f, buddyItem dst beforeBuddy f) of
                      (Some moved, Some before) \<Rightarrow>
                        reorderInGroupOrder dst (ItemID (item f moved)) (ItemID (item f before)) f
                    | _ \<Rightarrow> f)
                 else f)
            in if toGroup \<noteq> [] \<and> toGroup \<noteq> fromGroup then
                 (case groupByName toGroup f of
                    None \<Rightarrow> (Some ErrGroupNotFound, f)
                  | Some dst \<Rightarrow>
                      (case DeleteBuddy fromGroup buddyName f of
                         (Some e, f1) \<Rightarrow> (Some e, f1)
                       | (None, f1) \<Rightarrow>
                           (case addBuddyItem toGroup buddyName (Attrs (item f srcBuddy)) f1 of
                              (Inl e, f2) \<Rightarrow> (Some e, f2)
                            | (Inr _, f2) \<Rightarrow> (None, place dst f2))))
               else (None, place src f))))"

definition SetBuddyAlias :: "bytes \<Rightarrow> bytes \<Rightarrow> FeedbagList \<Rightarrow> bool \<times> FeedbagList" where
  "SetBuddyAlias buddyName alias f =
     (let buddies = buddyItemsByName buddyName f in
      if buddies = [] then (False, f)
      else (True, fold (\<lambda>p f. trackUpdate p (upd_item p (\<lambda>it. it\<lparr>Attrs :=
        (if alias \<noteq> [] then TLVList_Set \<lparr>Tag = FeedbagAttributesAlias, Value = alias\<rparr> (Attrs it)
         else TLVList_Remove FeedbagAttributesAlias (Attrs it))\<rparr>) f)) buddies f))"

definition SetGroupCollapsed :: "bytes \<Rightarrow> bool \<Rightarrow> FeedbagList \<Rightarrow> fb_error option \<times> FeedbagList" where
  "SetGroupCollapsed groupName collapsed f =
     (case groupByName groupName f of
        None \<Rightarrow> (Some ErrGroupNotFound, f)
      | Some g \<Rightarrow> (None, trackUpdate g (upd_item g (\<lambda>it. it\<lparr>Attrs :=
          (if collapsed then TLVList_Set \<lparr>Tag = FeedbagAttributesCollapsed, Value = []\<rparr> (Attrs it)
           else TLVList_Remove FeedbagAttributesCollapsed (Attrs it))\<rparr>) f)))"

definition PermitUser :: "bytes \<Rightarrow> FeedbagList \<Rightarrow> FeedbagList" where
  "PermitUser sn f = snd (upsertItem (plain_item FeedbagClassIDPermit sn []) f)"

definition DenyUser :: "bytes \<Rightarrow> FeedbagList \<Rightarrow> FeedbagList" where
  "DenyUser sn f = snd (upsertItem (plain_item FeedbagClassIDDeny sn []) f)"

definition DeletePermit :: "bytes \<Rightarrow> FeedbagList \<Rightarrow> FeedbagList" where
  "DeletePermit sn f = snd (deleteItem (plain_item FeedbagClassIDPermit sn []) f)"

definition DeleteDeny :: "bytes \<Rightarrow> FeedbagList \<Rightarrow> FeedbagList" where
  "DeleteDeny sn f = snd (deleteItem (plain_item FeedbagClassIDDeny sn []) f)"

definition AddLinkedScreenName :: "bytes \<Rightarrow> FeedbagList \<Rightarrow> FeedbagList" where
  "AddLinkedScreenName sn f = snd (upsertItem (plain_item FeedbagClassIdAlInfo sn []) f)"

definition DeleteLinkedScreenName :: "bytes \<Rightarrow> FeedbagList \<Rightarrow> FeedbagList" where
  "DeleteLinkedScreenName sn f =
     (case deleteItem (plain_item FeedbagClassIdAlInfo sn []) f of
        (Some _, f1) \<Rightarrow> (let (root, f2) = rootGroup f1 in trackUpdate root f2)
      | (None, f1) \<Rightarrow> f1)"

definition LinkedScreenNames :: "FeedbagList \<Rightarrow> IdentScreenName list" where
  "LinkedScreenNames f = map (\<lambda>it. NewIdentScreenName (uni f) (Name it))
     (filter (\<lambda>it. ClassID it = FeedbagClassIdAlInfo) (Items f))"

definition HasLinkedScreenName :: "bytes \<Rightarrow> FeedbagList \<Rightarrow> bool" where
  "HasLinkedScreenName sn f \<longleftrightarrow>
     list_ex (\<lambda>it. ClassID it = FeedbagClassIdAlInfo \<and> Name it = ident f sn) (Items f)"

section \<open>Orders\<close>

definition order :: "FeedbagItem \<Rightarrow> u16 list" where
  "order it = fst (TLVList_Uint16SliceBE FeedbagAttributesOrder (Attrs it))"

lemma order_tlv_eq: "order_tlv ids = \<lparr>Tag = FeedbagAttributesOrder, Value = u16s_bytes ids\<rparr>"
  by (simp add: order_tlv_def NewTLVBE_u16s)

lemma order_Set [simp]: "order (it\<lparr>Attrs := TLVList_Set (order_tlv ids) as\<rparr>) = ids"
  by (simp add: order_def order_tlv_eq Uint16SliceBE_eq Bytes_Set)

lemma order_Append [simp]: "order (AppendOrderMembers ids it) = order it @ ids"
  by (simp add: AppendOrderMembers_def order_def Let_def Uint16SliceBE_eq order_tlv_eq Bytes_Set
      split: option.split)

lemma order_Remove [simp]: "order (RemoveOrderMembers ids it) = filter (\<lambda>i. i \<notin> set ids) (order it)"
  by (auto simp: RemoveOrderMembers_def order_def Uint16SliceBE_eq order_tlv_eq Bytes_Set split: option.split)

lemma order_members_frame:
  "Name (AppendOrderMembers ids it) = Name it" "GroupID (AppendOrderMembers ids it) = GroupID it"
  "ItemID (AppendOrderMembers ids it) = ItemID it" "ClassID (AppendOrderMembers ids it) = ClassID it"
  "Name (RemoveOrderMembers ids it) = Name it" "GroupID (RemoveOrderMembers ids it) = GroupID it"
  "ItemID (RemoveOrderMembers ids it) = ItemID it" "ClassID (RemoveOrderMembers ids it) = ClassID it"
  by (simp_all add: AppendOrderMembers_def RemoveOrderMembers_def Let_def split: prod.split bool.split)

lemma other_attrs:
  assumes "tag \<noteq> FeedbagAttributesOrder"
  shows "TLVList_Bytes tag (Attrs (AppendOrderMembers ids it)) = TLVList_Bytes tag (Attrs it)"
    and "TLVList_Bytes tag (Attrs (RemoveOrderMembers ids it)) = TLVList_Bytes tag (Attrs it)"
  using assms
  by (simp_all add: AppendOrderMembers_def RemoveOrderMembers_def Let_def order_tlv_eq
      tlvs.lookup_put_other split: prod.split bool.split)

section \<open>Fresh IDs\<close>

lemma find_id_found: "find_id f k n \<noteq> 0 \<Longrightarrow> \<not> id_used f (find_id f k n)"
  by (induction f k n rule: find_id.induct) (auto split: if_splits)

lemma find_id_none: "find_id f k n = 0 \<Longrightarrow> j < k \<Longrightarrow> n + word_of_nat j = 0 \<or> id_used f (n + word_of_nat j)"
proof (induction f k n arbitrary: j rule: find_id.induct)
  case (2 f k n)
  show ?case
  proof (cases "n = 0 \<or> id_used f n")
    case True
    then show ?thesis using 2 by (cases j) (auto simp: algebra_simps)
  next
    case False
    with "2.prems" show ?thesis by simp
  qed
qed simp

definition used_ids :: "FeedbagList \<Rightarrow> u16 set" where
  "used_ids f = GroupID ` set (Items f) \<union> ItemID ` set (Items f)"

lemma id_used_iff: "id_used f n \<longleftrightarrow> n \<in> used_ids f"
  by (auto simp: id_used_def used_ids_def list_ex_iff)

lemma card_ids: "card (used_ids f) \<le> 2 * length (items f)"
proof -
  have "card (used_ids f) \<le> card (GroupID ` set (Items f)) + card (ItemID ` set (Items f))"
    unfolding used_ids_def by (rule card_Un_le)
  also have "\<dots> \<le> card (set (Items f)) + card (set (Items f))"
    by (intro add_mono card_image_le) simp_all
  also have "\<dots> \<le> 2 * length (items f)"
    using card_length [of "Items f"] by (simp add: Items_def)
  finally show ?thesis .
qed

lemma genID_exists:
  assumes "length (items f) < 32767"
  shows "fst (genID f) \<noteq> 0"
proof
  assume "fst (genID f) = 0"
  then have z: "find_id f 65535 (word_of_nat (rnd f (draws f))) = 0" by (simp add: genID_def)
  define n :: u16 where "n = word_of_nat (rnd f (draws f))"
  let ?W = "(\<lambda>j. n + word_of_nat j) ` {..<65535}"
  have inj: "inj_on (\<lambda>j. n + word_of_nat j :: u16) {..<65535}"
  proof (rule inj_onI)
    fix x y :: nat
    assume xy: "x \<in> {..<65535}" "y \<in> {..<65535}" "n + word_of_nat x = n + word_of_nat y"
    then have "unat (word_of_nat x :: u16) = unat (word_of_nat y :: u16)" by simp
    with xy(1,2) show "x = y" by (simp add: unat_of_nat)
  qed
  have "?W \<subseteq> insert 0 (used_ids f)"
    using find_id_none [OF z] by (auto simp: n_def id_used_iff)
  then have "card ?W \<le> card (insert 0 (used_ids f))" by (intro card_mono) simp_all
  also have "\<dots> \<le> Suc (card (used_ids f))" by (rule card_insert_le_m1) simp_all
  also have "\<dots> \<le> Suc (2 * length (items f))" using card_ids by simp
  finally show False using card_image [OF inj] assms by simp
qed

section \<open>Pointers\<close>

definition fb_wf :: "FeedbagList \<Rightarrow> bool" where
  "fb_wf f \<longleftrightarrow> distinct (items f) \<and> (\<forall>p \<in> set (items f). p < length (fheap f))"

lemma genID_frame [simp]:
  "fheap (snd (genID f)) = fheap f" "items (snd (genID f)) = items f" "uni (snd (genID f)) = uni f"
  "pendingUpdates (snd (genID f)) = pendingUpdates f" "pendingDeletes (snd (genID f)) = pendingDeletes f"
  by (simp_all add: genID_def)

lemma trackUpdate_frame [simp]:
  "fheap (trackUpdate p f) = fheap f" "items (trackUpdate p f) = items f" "uni (trackUpdate p f) = uni f"
  "item (trackUpdate p f) q = item f q" "pendingDeletes (trackUpdate p f) = pendingDeletes f"
  by (simp_all add: trackUpdate_def item_def)

lemma trackUpdate_tracks [simp]: "set (pendingUpdates (trackUpdate p f)) = insert p (set (pendingUpdates f))"
  by (auto simp: trackUpdate_def)

lemma upd_item_frame [simp]:
  "items (upd_item p g f) = items f" "length (fheap (upd_item p g f)) = length (fheap f)"
  "uni (upd_item p g f) = uni f" "pendingUpdates (upd_item p g f) = pendingUpdates f"
  "pendingDeletes (upd_item p g f) = pendingDeletes f"
  by (simp_all add: upd_item_def)

lemma item_upd_item:
  "p < length (fheap f) \<Longrightarrow> item (upd_item p g f) q = (if q = p then g (item f p) else item f q)"
  by (simp add: upd_item_def item_def)

lemma push_item_eq: "push_item it f = (length (fheap f), f\<lparr>fheap := fheap f @ [it], items := items f @ [length (fheap f)]\<rparr>)"
  by (simp add: push_item_def Let_def)

lemma find_cong_set: "(\<And>x. x \<in> set xs \<Longrightarrow> P x = Q x) \<Longrightarrow> find P xs = find Q xs"
  by (induction xs) auto

lemma find_SomeD: "find P xs = Some x \<Longrightarrow> x \<in> set xs \<and> P x"
  by (induction xs) (auto split: if_splits)

text \<open>The key of an item: what lookups compare.\<close>

definition key :: "FeedbagItem \<Rightarrow> u16 \<times> u16 \<times> bytes" where
  "key it = (ClassID it, GroupID it, Name it)"

lemma groupByName_cong:
  assumes "items f' = items f" and "\<And>p. p \<in> set (items f) \<Longrightarrow> key (item f' p) = key (item f p)"
  shows "groupByName name f' = groupByName name f"
  unfolding groupByName_def assms(1)
  by (rule find_cong_set) (use assms(2) in \<open>simp add: key_def\<close>)

lemma key_order_members [simp]:
  "key (AppendOrderMembers ids it) = key it" "key (RemoveOrderMembers ids it) = key it"
  by (simp_all add: key_def order_members_frame)

section \<open>Adding a group\<close>

text \<open>The state of \<open>AddGroup\<close> after the root has been looked up.\<close>

lemma rootGroup_spec:
  assumes "fb_wf f"
  shows "case rootGroup f of (r, f') \<Rightarrow>
    fb_wf f' \<and> r \<in> set (items f') \<and> ClassID (item f' r) = FeedbagClassIdGroup \<and> GroupID (item f' r) = 0 \<and>
    (\<forall>p \<in> set (items f). item f' p = item f p) \<and> uni f' = uni f \<and>
    (if r \<in> set (items f) then f' = f
     else items f' = items f @ [r] \<and> r = length (fheap f) \<and> Name (item f' r) = [] \<and> order (item f' r) = [])"
proof (cases "find (\<lambda>p. ClassID (item f p) = FeedbagClassIdGroup \<and> GroupID (item f p) = 0) (items f)")
  case None
  let ?it = "\<lparr>Name = [], GroupID = 0, ItemID = 0, ClassID = FeedbagClassIdGroup, Attrs = []\<rparr>"
  have "rootGroup f = (length (fheap f), trackUpdate (length (fheap f))
      (f\<lparr>fheap := fheap f @ [?it], items := items f @ [length (fheap f)]\<rparr>))"
    by (simp add: rootGroup_def None push_item_eq)
  moreover have "length (fheap f) \<notin> set (items f)" using assms by (auto simp: fb_wf_def)
  ultimately show ?thesis using assms by (auto simp: fb_wf_def item_def nth_append order_def)
next
  case (Some r)
  with find_SomeD [OF Some] assms show ?thesis by (simp add: rootGroup_def)
qed

lemma AddGroup_new:
  assumes wf: "fb_wf f" and none: "groupByName name f = None" and small: "length (items f) < 32767"
  shows "case AddGroup name f of (g, f') \<Rightarrow>
    GroupID g \<noteq> 0 \<and> GroupID g \<notin> used_ids f \<and> Name g = name \<and> ClassID g = FeedbagClassIdGroup \<and>
    groupByName name f' = Some (length (fheap f)) \<and> item f' (length (fheap f)) = g \<and>
    (\<exists>root \<in> set (Items f'). ClassID root = FeedbagClassIdGroup \<and> GroupID root = 0 \<and>
       GroupID g \<in> set (order root))"
proof -
  obtain gid f1 where gen: "genID f = (gid, f1)" by fastforce
  have gid: "gid \<noteq> 0" using genID_exists [OF small] by (simp add: gen)
  then have fresh: "gid \<notin> used_ids f"
    using find_id_found [of f 65535] gen by (auto simp: genID_def id_used_iff)
  have f1: "fheap f1 = fheap f" "items f1 = items f" using genID_frame [of f] by (simp_all add: gen)
  let ?g = "length (fheap f)"
  let ?it = "\<lparr>Name = name, GroupID = gid, ItemID = 0, ClassID = FeedbagClassIdGroup, Attrs = []\<rparr>"
  let ?f2 = "f1\<lparr>fheap := fheap f @ [?it], items := items f @ [?g]\<rparr>"
  have notin: "?g \<notin> set (items f)" using wf by (auto simp: fb_wf_def)
  have wf2: "fb_wf ?f2" using wf notin by (auto simp: fb_wf_def)
  obtain r f3 where root: "rootGroup ?f2 = (r, f3)" by fastforce
  note R = rootGroup_spec [OF wf2, unfolded root, simplified]
  have gi: "item f3 ?g = ?it" using R by (auto simp: item_def)
  have rg: "r \<noteq> ?g" using R gi gid by auto
  define f5 where "f5 = trackUpdate ?g (trackUpdate r (upd_item r (AppendOrderMembers [gid]) f3))"
  have "GroupID (item f3 ?g) = gid" using gi by simp
  then have add: "AddGroup name f = (item f5 ?g, f5)"
    by (simp add: AddGroup_def none gen push_item_eq f1 root f5_def Let_def)
  have r_lt: "r < length (fheap f3)" using R by (auto simp: fb_wf_def)
  have it5: "item f5 q = (if q = r then AppendOrderMembers [gid] (item f3 r) else item f3 q)" for q
    by (simp add: f5_def item_upd_item [OF r_lt])
  have items5: "items f5 = items f3" by (simp add: f5_def)
  have g5: "item f5 ?g = ?it" using rg gi by (simp add: it5)
  have old: "key (item f5 q) = key (item f q)" if "q \<in> set (items f)" for q
  proof -
    have "item f3 q = item ?f2 q" using R that by auto
    moreover have "item ?f2 q = item f q" using that wf by (simp add: item_def fb_wf_def nth_append)
    ultimately show ?thesis by (cases "q = r") (simp_all add: it5)
  qed
  have "find (\<lambda>p. ClassID (item f5 p) = FeedbagClassIdGroup \<and> GroupID (item f5 p) \<noteq> 0 \<and>
      Name (item f5 p) = name) (items f) = None"
    using none old unfolding groupByName_def find_None_iff by (auto simp: key_def)
  then have "groupByName name f5 = Some ?g"
    using R g5 gid rg unfolding groupByName_def items5
    by (cases "r \<in> set (items f)") (auto simp: find_append)
  moreover have "item f5 r \<in> set (Items f5)"
  proof -
    have "r \<in> set (items f3)" using R by blast
    then show ?thesis unfolding Items_def items5 by simp
  qed
  moreover have "ClassID (item f5 r) = FeedbagClassIdGroup" "GroupID (item f5 r) = 0"
      "gid \<in> set (order (item f5 r))"
    using R by (simp_all add: it5 order_members_frame)
  ultimately show ?thesis using add g5 gid fresh by auto
qed

section \<open>Deleting a group\<close>

text \<open>No two items of the list match each other, the assumption behind lookups by key.\<close>

definition match_unique :: "FeedbagList \<Rightarrow> bool" where
  "match_unique f \<longleftrightarrow>
     (\<forall>p \<in> set (items f). \<forall>q \<in> set (items f). itemsMatch f (item f p) (item f q) \<longrightarrow> p = q)"

lemma itemsMatch_refl: "itemsMatch f a a"
  by (simp add: itemsMatch_def)

lemma find_unique:
  assumes "p \<in> set xs" and "P p" and "\<And>q. q \<in> set xs \<Longrightarrow> P q \<Longrightarrow> q = p"
  shows "find P xs = Some p"
  using assms
proof (induction xs)
  case (Cons x xs)
  show ?case
  proof (cases "P x")
    case True
    then have "x = p" using Cons.prems(3) [of x] by simp
    with True show ?thesis by simp
  next
    case False
    then have p: "p \<in> set xs" using Cons.prems(1,2) by auto
    have "find P xs = Some p"
    proof (rule Cons.IH [OF p Cons.prems(2)])
      fix q
      assume "q \<in> set xs" "P q"
      then show "q = p" by (intro Cons.prems(3)) simp_all
    qed
    with False show ?thesis by simp
  qed
qed simp

lemma deleteItem_self:
  assumes "distinct (items f)" and "match_unique f" and "p \<in> set (items f)"
  shows "deleteItem (item f p) f = (Some (item f p),
    f\<lparr>pendingDeletes := pendingDeletes f @ [p], items := filter (\<lambda>q. q \<noteq> p) (items f)\<rparr>)"
proof -
  have "find (\<lambda>q. itemsMatch f (item f q) (item f p)) (items f) = Some p"
    by (rule find_unique) (use assms itemsMatch_refl in \<open>auto simp: match_unique_def\<close>)
  moreover have "remove1 p (items f) = filter (\<lambda>q. q \<noteq> p) (items f)"
    unfolding distinct_remove1_removeAll [OF assms(1)] removeAll_filter_not_eq
    by (rule filter_cong) auto
  ultimately show ?thesis by (simp add: deleteItem_def)
qed

lemma fold_deleteItem:
  assumes "distinct (items f)" and "match_unique f" and "distinct ps" and "set ps \<subseteq> set (items f)"
  shows "fold (\<lambda>p f. snd (deleteItem (item f p) f)) ps f =
    f\<lparr>pendingDeletes := pendingDeletes f @ ps, items := filter (\<lambda>q. q \<notin> set ps) (items f)\<rparr>"
  using assms
proof (induction ps arbitrary: f)
  case (Cons p ps)
  let ?f = "f\<lparr>pendingDeletes := pendingDeletes f @ [p], items := filter (\<lambda>q. q \<noteq> p) (items f)\<rparr>"
  have d: "snd (deleteItem (item f p) f) = ?f"
    using deleteItem_self [OF Cons.prems(1,2), of p] Cons.prems(4) by simp
  have "itemsMatch ?f = itemsMatch f" by (simp add: fun_eq_iff itemsMatch_def ident_def)
  then have "match_unique ?f" using Cons.prems(2) by (simp add: match_unique_def item_def)
  moreover have "distinct (items ?f)" using Cons.prems(1) by simp
  moreover have "set ps \<subseteq> set (items ?f)" "distinct ps" using Cons.prems(3,4) by auto
  ultimately have "fold (\<lambda>p f. snd (deleteItem (item f p) f)) ps ?f =
      ?f\<lparr>pendingDeletes := pendingDeletes ?f @ ps, items := filter (\<lambda>q. q \<notin> set ps) (items ?f)\<rparr>"
    by (intro Cons.IH)
  then show ?case by (simp add: d conj_commute)
qed simp

text \<open>The update of the roots that follows.\<close>

lemma fold_upd_frame:
  "items (fold (\<lambda>p f. trackUpdate p (upd_item p g f)) ps f) = items f"
  "pendingDeletes (fold (\<lambda>p f. trackUpdate p (upd_item p g f)) ps f) = pendingDeletes f"
  "length (fheap (fold (\<lambda>p f. trackUpdate p (upd_item p g f)) ps f)) = length (fheap f)"
  by (induction ps arbitrary: f) simp_all

lemma item_fold_upd:
  assumes "distinct ps" and "\<forall>p \<in> set ps. p < length (fheap f)"
  shows "item (fold (\<lambda>p f. trackUpdate p (upd_item p g f)) ps f) q =
    (if q \<in> set ps then g (item f q) else item f q)"
  using assms
proof (induction ps arbitrary: f)
  case (Cons p ps)
  then show ?case by (auto simp: item_upd_item)
qed simp

lemma DeleteGroup_items:
  assumes wf: "fb_wf f" and mu: "match_unique f" and g: "groupByName name f = Some g"
  defines "gid \<equiv> GroupID (item f g)"
  shows "items (DeleteGroup name f) = filter (\<lambda>p. GroupID (item f p) \<noteq> gid) (items f) \<and>
    pendingDeletes (DeleteGroup name f) =
      pendingDeletes f @ filter (\<lambda>p. GroupID (item f p) = gid) (items f) \<and>
    (\<forall>p \<in> set (items f). item (DeleteGroup name f) p =
      (if ClassID (item f p) = FeedbagClassIdGroup \<and> GroupID (item f p) = 0
       then RemoveOrderMembers [gid] (item f p) else item f p))"
proof -
  have gp: "g \<in> set (items f)" "gid \<noteq> 0"
    using find_SomeD [OF g [unfolded groupByName_def]] by (simp_all add: gid_def)
  define del where "del = filter (\<lambda>p. GroupID (item f p) = gid) (items f)"
  define f1 where "f1 = fold (\<lambda>p f. snd (deleteItem (item f p) f)) del f"
  have d: "distinct (items f)" using wf by (simp add: fb_wf_def)
  have f1: "f1 = f\<lparr>pendingDeletes := pendingDeletes f @ del, items := filter (\<lambda>q. q \<notin> set del) (items f)\<rparr>"
    unfolding f1_def by (rule fold_deleteItem [OF d mu]) (auto simp: del_def d)
  have f1_items: "items f1 = filter (\<lambda>p. GroupID (item f p) \<noteq> gid) (items f)"
    unfolding f1 by (auto simp: del_def intro: filter_cong)
  have f1_item: "item f1 p = item f p" for p by (simp add: f1 item_def)
  define roots where "roots = filter (\<lambda>p. ClassID (item f1 p) = FeedbagClassIdGroup \<and> GroupID (item f1 p) = 0) (items f1)"
  have roots: "distinct roots" "\<forall>p \<in> set roots. p < length (fheap f1)"
    "\<And>p. p \<in> set (items f) \<Longrightarrow> p \<in> set roots \<longleftrightarrow> ClassID (item f p) = FeedbagClassIdGroup \<and> GroupID (item f p) = 0"
    using wf gp(2) by (auto simp: roots_def f1_items f1_item fb_wf_def) (simp add: f1)
  have "del \<noteq> []" using gp(1) by (auto simp: del_def gid_def filter_empty_conv)
  then have eq: "DeleteGroup name f = fold (\<lambda>p f. trackUpdate p (upd_item p (RemoveOrderMembers [gid]) f)) roots f1"
    using gp(2) unfolding DeleteGroup_def g
    by (simp add: Let_def gid_def [symmetric] del_def [symmetric] f1_def [symmetric] roots_def [symmetric])
  show ?thesis
    unfolding eq fold_upd_frame item_fold_upd [OF roots(1,2)] f1_items f1_item
    using roots(3) by (simp add: f1 del_def)
qed

section \<open>Adding and deleting a buddy\<close>

lemma ident_ident: "unicode_ok (uni f) \<Longrightarrow> ident f (ident f n) = ident f n"
  by (simp add: ident_def NewIdentScreenName_idem)

text \<open>The item under which a buddy is looked up, before and after normalisation.\<close>

definition buddy :: "bytes \<Rightarrow> u16 \<Rightarrow> TLVList \<Rightarrow> FeedbagItem" where
  "buddy n gid attrs = \<lparr>Name = n, GroupID = gid, ItemID = 0, ClassID = FeedbagClassIdBuddy, Attrs = attrs\<rparr>"

lemma itemsMatch_buddy:
  "itemsMatch f a (buddy n gid attrs) \<longleftrightarrow>
     ClassID a = FeedbagClassIdBuddy \<and> GroupID a = gid \<and> ident f (Name a) = ident f n"
  by (auto simp: itemsMatch_def buddy_def hasScreenName_def)

lemma buddyItem_find:
  "buddyItem g n f = find (\<lambda>p. itemsMatch f (item f p) (buddy n (GroupID (item f g)) attrs)) (items f)"
  unfolding buddyItem_def itemsMatch_buddy by simp

lemma same_spelling:
  assumes "ident f n' = ident f n"
  shows "buddyItem g n' f = buddyItem g n f" and "delete_from n' g f = delete_from n g f"
    and "grp \<noteq> [0x2A] \<Longrightarrow> DeleteBuddy grp n' f = DeleteBuddy grp n f"
proof -
  show "buddyItem g n' f = buddyItem g n f" using assms by (simp add: buddyItem_def)
  show del: "delete_from n' g f = delete_from n g f" for g
    using assms by (simp add: delete_from_def deleteItem_def itemsMatch_def hasScreenName_def)
  then show "DeleteBuddy grp n' f = DeleteBuddy grp n f" if "grp \<noteq> [0x2A]"
    using that by (simp add: DeleteBuddy_def split: option.split)
qed

lemma AddBuddy_new:
  assumes wf: "fb_wf f" and uc: "unicode_ok (uni f)" and small: "length (items f) < 32767"
    and g: "groupByName grp f = Some g" and none: "buddyItem g sn f = None"
  shows "\<exists>f' i attrs. AddBuddy grp sn alias note f = (Inr True, f') \<and> i \<noteq> 0 \<and> i \<notin> used_ids f \<and>
    items f' = items f @ [length (fheap f)] \<and> uni f' = uni f \<and> length (fheap f') = Suc (length (fheap f)) \<and>
    item f' (length (fheap f)) = (buddy (ident f sn) (GroupID (item f g)) attrs)\<lparr>ItemID := i\<rparr> \<and>
    (\<forall>p \<in> set (items f). item f' p = (if p = g then AppendOrderMembers [i] (item f g) else item f p))"
proof -
  let ?b = "length (fheap f)"
  define attrs where "attrs = (if alias \<noteq> [] then [\<lparr>Tag = FeedbagAttributesAlias, Value = alias\<rparr>] else []) @
    (if note \<noteq> [] then [\<lparr>Tag = FeedbagAttributesNote, Value = note\<rparr>] else [])"
  obtain i f1 where gen: "genID f = (i, f1)" by fastforce
  have i: "i \<noteq> 0" using genID_exists [OF small] by (simp add: gen)
  then have fresh: "i \<notin> used_ids f"
    using find_id_found [of f 65535] gen by (auto simp: genID_def id_used_iff)
  have f1: "fheap f1 = fheap f" "items f1 = items f" "uni f1 = uni f"
    using genID_frame [of f] by (simp_all add: gen)
  have gp: "g \<in> set (items f)" using find_SomeD [OF g [unfolded groupByName_def]] by simp
  then have gl: "g < length (fheap f)" using wf by (simp add: fb_wf_def)
  let ?gid = "GroupID (item f g)"
  have nomatch: "find (\<lambda>p. itemsMatch f (item f p) (buddy (ident f sn) ?gid attrs)) (items f) = None"
    using none unfolding buddyItem_find [of g sn f attrs] itemsMatch_buddy ident_ident [OF uc] .
  let ?it = "(buddy (ident f sn) ?gid attrs)\<lparr>ItemID := i\<rparr>"
  let ?f2 = "f1\<lparr>fheap := fheap f @ [?it], items := items f @ [?b], pendingUpdates := pendingUpdates f1 @ [?b]\<rparr>"
  have "upsertItem (buddy sn ?gid attrs) f = ((?it, True), ?f2)"
    using nomatch by (simp add: upsertItem_def Let_def buddy_def hasScreenName_def gen push_item_eq f1)
  then have "AddBuddy grp sn alias note f =
      (Inr True, trackUpdate g (upd_item g (AppendOrderMembers [i]) ?f2))"
    unfolding AddBuddy_def attrs_def [symmetric] addBuddyItem_def g
    by (simp add: buddy_def)
  moreover have "item (upd_item g (AppendOrderMembers [i]) ?f2) p =
      (if p = g then AppendOrderMembers [i] (item f g) else if p = ?b then ?it else item f p)"
    if "p \<le> ?b" for p
    using that gl by (auto simp: upd_item_def item_def nth_append nth_list_update)
  moreover have "\<forall>p \<in> set (items f). p < ?b" using wf by (simp add: fb_wf_def)
  ultimately show ?thesis
    using i fresh gl f1
    by (intro exI [of _ "trackUpdate g (upd_item g (AppendOrderMembers [i]) ?f2)"] exI [of _ i] exI [of _ attrs])
       auto
qed

text \<open>Deleting the buddy that was just added.\<close>

lemma DeleteBuddy_added:
  assumes wf: "fb_wf f" and uc: "unicode_ok (uni f)" and g: "groupByName grp f = Some g"
    and none: "buddyItem g sn f = None" and star: "grp \<noteq> [0x2A]"
    and it': "items f' = items f @ [length (fheap f)]" "uni f' = uni f"
    and b: "item f' (length (fheap f)) = (buddy (ident f sn) (GroupID (item f g)) attrs)\<lparr>ItemID := i\<rparr>"
    and len: "length (fheap f') = Suc (length (fheap f))"
    and old: "\<And>p. p \<in> set (items f) \<Longrightarrow>
      item f' p = (if p = g then AppendOrderMembers [i] (item f g) else item f p)"
  shows "buddyItem g sn f' = Some (length (fheap f))"
    and "\<exists>f''. DeleteBuddy grp sn f' = (None, f'') \<and> items f'' = items f \<and> uni f'' = uni f \<and>
      item f'' g = RemoveOrderMembers [i] (AppendOrderMembers [i] (item f g)) \<and>
      (\<forall>p \<in> set (items f). p \<noteq> g \<longrightarrow> item f'' p = item f p)"
proof -
  let ?b = "length (fheap f)"
  have gp: "g \<in> set (items f)" "g < ?b"
    using find_SomeD [OF g [unfolded groupByName_def]] wf by (auto simp: fb_wf_def)
  have bn: "?b \<notin> set (items f)" using wf by (auto simp: fb_wf_def)
  have idf: "ident f' n = ident f n" for n by (simp add: ident_def it')
  have keys: "key (item f' p) = key (item f p)" if "p \<in> set (items f)" for p
    using old [OF that] by simp
  have gid: "GroupID (item f' g) = GroupID (item f g)" using keys [OF gp(1)] by (simp add: key_def)
  have "find (\<lambda>p. ClassID (item f' p) = FeedbagClassIdBuddy \<and> GroupID (item f' p) = GroupID (item f g) \<and>
      ident f (Name (item f' p)) = ident f sn) (items f) = None"
    using none keys unfolding buddyItem_def find_None_iff by (auto simp: key_def)
  then have find: "find (\<lambda>p. itemsMatch f' (item f' p) (buddy sn (GroupID (item f g)) as)) (items f') = Some ?b" for as
    unfolding itemsMatch_buddy it' find_append by (simp add: idf b buddy_def ident_ident [OF uc])
  then show "buddyItem g sn f' = Some ?b"
    unfolding buddyItem_find [of g sn f' attrs] gid .
  have "find (\<lambda>p. ClassID (item f' p) = FeedbagClassIdGroup \<and> GroupID (item f' p) \<noteq> 0 \<and>
      Name (item f' p) = grp) (items f) = Some g"
    using g keys unfolding groupByName_def by (subst find_cong_set [of _ _ "\<lambda>p. ClassID (item f p) = FeedbagClassIdGroup \<and>
      GroupID (item f p) \<noteq> 0 \<and> Name (item f p) = grp"]) (auto simp: key_def)
  then have g': "groupByName grp f' = Some g" unfolding groupByName_def it' find_append by simp
  let ?f1 = "f'\<lparr>pendingDeletes := pendingDeletes f' @ [?b], items := remove1 ?b (items f')\<rparr>"
  let ?f2 = "trackUpdate g (upd_item g (RemoveOrderMembers [i]) ?f1)"
  have "deleteItem (buddy sn (GroupID (item f' g)) []) f' = (Some (item f' ?b), ?f1)"
    unfolding gid deleteItem_def find by simp
  then have "DeleteBuddy grp sn f' = (None, ?f2)"
    unfolding DeleteBuddy_def g' delete_from_def using star by (simp add: buddy_def b)
  moreover have "items ?f2 = items f" using bn by (simp add: it' remove1_append)
  moreover have "item ?f2 p = (if p = g then RemoveOrderMembers [i] (item f' g) else item f' p)" for p
    using gp(2) len by (simp add: item_upd_item) (simp add: item_def)
  ultimately show "\<exists>f''. DeleteBuddy grp sn f' = (None, f'') \<and> items f'' = items f \<and> uni f'' = uni f \<and>
      item f'' g = RemoveOrderMembers [i] (AppendOrderMembers [i] (item f g)) \<and>
      (\<forall>p \<in> set (items f). p \<noteq> g \<longrightarrow> item f'' p = item f p)"
    using gp(1) old it'(2) by (intro exI [of _ ?f2]) simp
qed

section \<open>Properties\<close>

text \<open>The lists of the witnesses: a root group and a group \<open>Pals\<close> with ID 7.\<close>

definition fb_group :: "bytes \<Rightarrow> u16 \<Rightarrow> FeedbagItem" where
  "fb_group n gid = \<lparr>Name = n, GroupID = gid, ItemID = 0, ClassID = FeedbagClassIdGroup, Attrs = []\<rparr>"

definition fb_pals :: FeedbagList where
  "fb_pals = NewFeedbagList [fb_group [] 0, fb_group [0x50, 0x61, 0x6C, 0x73] 7] (\<lambda>_. 7) ascii_tables"

lemma fb_pals_facts:
  "fb_wf fb_pals" "unicode_ok (uni fb_pals)" "length (items fb_pals) = 2" "items fb_pals = [0, 1]"
  "groupByName [0x50, 0x61, 0x6C, 0x73] fb_pals = Some 1" "groupByName [0x42] fb_pals = None"
  "buddyItem 1 [0x41, 0x6C] fb_pals = None" "item fb_pals 1 = fb_group [0x50, 0x61, 0x6C, 0x73] 7"
  "match_unique fb_pals"
  by (simp_all add: fb_pals_def fb_wf_def NewFeedbagList_def unicode_ok_ascii_tables groupByName_def
      item_def buddyItem_def fb_group_def feedbag_ids upt_conv_Cons match_unique_def itemsMatch_def
      hasScreenName_def)

text \<open>
  With fewer than 32767 items, \<open>genID\<close> returns an ID that is not zero and that no item has as its
  group or item ID, and leaves the items alone: an added group or item never shares its ID.
\<close>

theorem generated_ids_fresh:
  assumes "length (items f) < 32767"
  shows "case genID f of (i, f') \<Rightarrow> i \<noteq> 0 \<and> i \<notin> GroupID ` set (Items f) \<and> i \<notin> ItemID ` set (Items f) \<and>
    Items f' = Items f \<and> pendingUpdates f' = pendingUpdates f \<and>
    pendingDeletes f' = pendingDeletes f"
proof -
  obtain i f' where g: "genID f = (i, f')" by fastforce
  have "i \<noteq> 0" using genID_exists [OF assms] by (simp add: g)
  moreover from this have "i \<notin> used_ids f"
    using find_id_found [of f 65535] g by (auto simp: genID_def id_used_iff)
  moreover have "Items f' = Items f" using g by (auto simp: genID_def Items_def item_def)
  moreover have "pendingUpdates f' = pendingUpdates f" "pendingDeletes f' = pendingDeletes f"
    using g by (auto simp: genID_def)
  ultimately show ?thesis using g by (auto simp: used_ids_def)
qed

lemma generated_ids_fresh_witness:
  "fst (genID fb_pals) \<noteq> 0 \<and> fst (genID fb_pals) \<notin> GroupID ` set (Items fb_pals)"
  using generated_ids_fresh [of fb_pals] fb_pals_facts(3) by (auto split: prod.splits)

text \<open>
  Adding a group under a new name creates it with a fresh ID, makes it the group that lookups by
  that name find, and lists it in the order of the root group, which is created if it is missing.
  Adding it a second time returns the same group and changes nothing.
\<close>

theorem add_group:
  assumes "fb_wf f" and "groupByName name f = None" and "length (items f) < 32767"
  shows "case AddGroup name f of (g, f') \<Rightarrow>
    GroupID g \<noteq> 0 \<and> GroupID g \<notin> used_ids f \<and> Name g = name \<and>
    groupByName name f' = Some (length (fheap f)) \<and> item f' (length (fheap f)) = g \<and>
    (\<exists>root \<in> set (Items f'). ClassID root = FeedbagClassIdGroup \<and> GroupID root = 0 \<and>
       GroupID g \<in> set (order root)) \<and>
    AddGroup name f' = (g, f')"
proof -
  obtain g f' where g: "AddGroup name f = (g, f')" by fastforce
  have new: "groupByName name f' = Some (length (fheap f)) \<and> item f' (length (fheap f)) = g"
    using AddGroup_new [OF assms] by (simp add: g)
  have "AddGroup name f' = (g, f')" unfolding AddGroup_def [of name f'] using new by simp
  then show ?thesis using AddGroup_new [OF assms] by (simp add: g)
qed

lemma add_group_witness:
  "case AddGroup [0x42] fb_pals of (g, f') \<Rightarrow> GroupID g \<noteq> 0 \<and> Name g = [0x42] \<and> AddGroup [0x42] f' = (g, f')"
  using add_group [OF fb_pals_facts(1,6)] fb_pals_facts(3) by (auto split: prod.splits)

text \<open>
  C36: On a list of fewer than 32767 items, a buddy that is new to a group (under any spelling) gets a fresh ID other than zero
  and is appended to the order of its group. Under every spelling of the name that has the same normal form it is then found,
  and deleting it from the group removes it from the list and from the order, and leaves every other item as it was. The group
  is not called \<open>*\<close>: that name asks \<open>DeleteBuddy\<close> to delete the buddy from every group.
\<close>

theorem add_then_delete_buddy:
  assumes "fb_wf f" and "unicode_ok (uni f)" and "length (items f) < 32767"
    and "groupByName grp f = Some g" and "buddyItem g sn f = None" and "grp \<noteq> [0x2A]"
  shows "\<exists>f1 f2 b i. AddBuddy grp sn alias note f = (Inr True, f1) \<and>
    items f1 = items f @ [b] \<and> ItemID (item f1 b) = i \<and> i \<noteq> 0 \<and> i \<notin> used_ids f \<and>
    order (item f1 g) = order (item f g) @ [i] \<and>
    (\<forall>sn'. ident f sn' = ident f sn \<longrightarrow> buddyItem g sn' f1 = Some b \<and> DeleteBuddy grp sn' f1 = (None, f2)) \<and>
    items f2 = items f \<and>
    order (item f2 g) = filter (\<lambda>j. j \<noteq> i) (order (item f g)) \<and>
    (\<forall>p \<in> set (items f) - {g}. item f2 p = item f p)"
proof -
  obtain f1 i attrs where A: "AddBuddy grp sn alias note f = (Inr True, f1)" "i \<noteq> 0" "i \<notin> used_ids f"
    "items f1 = items f @ [length (fheap f)]" "uni f1 = uni f" "length (fheap f1) = Suc (length (fheap f))"
    "item f1 (length (fheap f)) = (buddy (ident f sn) (GroupID (item f g)) attrs)\<lparr>ItemID := i\<rparr>"
    "\<forall>p \<in> set (items f). item f1 p = (if p = g then AppendOrderMembers [i] (item f g) else item f p)"
    using AddBuddy_new [OF assms(1-5), of "alias" "note"] by blast
  have old: "item f1 p = (if p = g then AppendOrderMembers [i] (item f g) else item f p)"
    if "p \<in> set (items f)" for p using A(8) that by blast
  note D = DeleteBuddy_added [OF assms(1,2,4,5,6) A(4,5,7,6) old]
  obtain f2 where F: "DeleteBuddy grp sn f1 = (None, f2)" "items f2 = items f"
    "item f2 g = RemoveOrderMembers [i] (AppendOrderMembers [i] (item f g))"
    "\<forall>p \<in> set (items f). p \<noteq> g \<longrightarrow> item f2 p = item f p"
    using D(2) by blast
  have "g \<in> set (items f)" using find_SomeD [OF assms(4) [unfolded groupByName_def]] by simp
  then have "order (item f1 g) = order (item f g) @ [i]" using old by simp
  moreover have "order (item f2 g) = filter (\<lambda>j. j \<noteq> i) (order (item f g))" by (simp add: F(3))
  moreover have "ItemID (item f1 (length (fheap f))) = i" by (simp add: A(7))
  moreover have "buddyItem g sn' f1 = Some (length (fheap f)) \<and> DeleteBuddy grp sn' f1 = (None, f2)"
    if "ident f sn' = ident f sn" for sn'
    using same_spelling [of f1 sn' sn] that D(1) F(1) assms(6) by (simp add: ident_def A(5))
  ultimately show ?thesis using A(1-4) F(2,4) by blast
qed

lemma add_then_delete_buddy_witness:
  "\<exists>f1 f2 b. AddBuddy [0x50, 0x61, 0x6C, 0x73] [0x41, 0x6C] [] [] fb_pals = (Inr True, f1) \<and>
     buddyItem 1 [0x61, 0x20, 0x4C] f1 = Some b \<and>
     DeleteBuddy [0x50, 0x61, 0x6C, 0x73] [0x61, 0x20, 0x4C] f1 = (None, f2) \<and> items f2 = [0, 1]"
proof -
  have "length (items fb_pals) < 32767" "[0x50, 0x61, 0x6C, 0x73] \<noteq> [0x2A :: u8]"
    by (simp_all add: fb_pals_facts)
  moreover have "ident fb_pals [0x61, 0x20, 0x4C] = ident fb_pals [0x41, 0x6C]"
    by (simp add: ident_def fb_pals_def NewIdentScreenName_def ToLower_def is_ascii_def byte_lower_def)
  ultimately show ?thesis
    using add_then_delete_buddy [OF fb_pals_facts(1,2) _ fb_pals_facts(5,7), of "[]" "[]"] unfolding fb_pals_facts(4) by blast
qed

text \<open>
  Where no two items have the same key, deleting a group removes exactly the items of that group,
  reports exactly them as deleted, and takes the group out of the order of the root.
\<close>

theorem delete_group:
  assumes "fb_wf f" and "match_unique f" and "groupByName name f = Some g"
  shows "items (DeleteGroup name f) = filter (\<lambda>p. GroupID (item f p) \<noteq> GroupID (item f g)) (items f) \<and>
    pendingDeletes (DeleteGroup name f) =
      pendingDeletes f @ filter (\<lambda>p. GroupID (item f p) = GroupID (item f g)) (items f) \<and>
    (\<forall>p \<in> set (items f). order (item (DeleteGroup name f) p) =
      (if ClassID (item f p) = FeedbagClassIdGroup \<and> GroupID (item f p) = 0
       then filter (\<lambda>i. i \<noteq> GroupID (item f g)) (order (item f p)) else order (item f p)))"
  using DeleteGroup_items [OF assms] by simp

lemma delete_group_witness:
  "items (DeleteGroup [0x50, 0x61, 0x6C, 0x73] fb_pals) = [0]"
proof -
  have "items (DeleteGroup [0x50, 0x61, 0x6C, 0x73] fb_pals) =
      filter (\<lambda>p. GroupID (item fb_pals p) \<noteq> GroupID (item fb_pals 1)) (items fb_pals)"
    using delete_group [OF fb_pals_facts(1,9,5)] by blast
  then show ?thesis
    by (simp add: fb_pals_facts(4)) (simp add: fb_pals_def NewFeedbagList_def item_def fb_group_def)
qed

text \<open>
  The unnamed default group has the key of the root group, whose name is empty too: deleting it
  removes the root group from the list instead and leaves the unnamed group where it is.
\<close>

theorem delete_unnamed_group_deletes_root:
  assumes "gid \<noteq> 0"
  shows "let root = fb_group [] 0; unnamed = fb_group [] gid;
      f = DeleteGroup [] (NewFeedbagList [root, unnamed] r u) in
    Items f = [unnamed] \<and> fst (PendingDeletes f) = [root]"
proof -
  let ?f = "NewFeedbagList [fb_group [] 0, fb_group [] gid] r u"
  have g: "groupByName [] ?f = Some 1"
    using assms by (simp add: groupByName_def NewFeedbagList_def item_def fb_group_def upt_conv_Cons)
  have del: "filter (\<lambda>p. GroupID (item ?f p) = GroupID (item ?f 1)) (items ?f) = [1]"
    using assms by (simp add: NewFeedbagList_def item_def fb_group_def upt_conv_Cons)
  let ?f1 = "?f\<lparr>pendingDeletes := [0], items := [1]\<rparr>"
  have d: "snd (deleteItem (item ?f 1) ?f) = ?f1"
    by (simp add: deleteItem_def NewFeedbagList_def item_def fb_group_def upt_conv_Cons itemsMatch_def
        feedbag_ids hasScreenName_def)
  have roots: "filter (\<lambda>p. ClassID (item ?f1 p) = FeedbagClassIdGroup \<and> GroupID (item ?f1 p) = 0) (items ?f1) = []"
    using assms by (simp add: NewFeedbagList_def item_def fb_group_def)
  have "DeleteGroup [] ?f = ?f1"
    unfolding DeleteGroup_def g option.case Let_def del fold_simps id_apply d roots by simp
  then show ?thesis
    by (simp add: Items_def PendingDeletes_def item_def NewFeedbagList_def)
qed

lemma delete_unnamed_group_deletes_root_witness:
  "Items (DeleteGroup [] (NewFeedbagList [fb_group [] 0, fb_group [] 9] (\<lambda>_. 1) ascii_tables)) = [fb_group [] 9]"
  using delete_unnamed_group_deletes_root [of 9 "\<lambda>_. 1" ascii_tables] by (simp add: Let_def)

text \<open>
  Repositioning keeps every other member in its order and puts the member exactly once: directly
  before the given one if that is another member, at the end otherwise, also when a member is moved
  before itself.
\<close>

theorem reorder_position:
  "filter (\<lambda>i. i \<noteq> x) (reorder x y ms) = filter (\<lambda>i. i \<noteq> x) ms \<and>
   count_list (reorder x y ms) x = 1 \<and>
   (if y \<in> set ms \<and> y \<noteq> x
    then \<exists>as bs. reorder x y ms = as @ x # y # bs
    else reorder x y ms = filter (\<lambda>i. i \<noteq> x) ms @ [x])"
proof -
  let ?f = "filter (\<lambda>i. i \<noteq> x) ms"
  have split: "?f = takeWhile (\<lambda>i. i \<noteq> y) ?f @ dropWhile (\<lambda>i. i \<noteq> y) ?f" by simp
  have "filter (\<lambda>i. i \<noteq> x) (reorder x y ms) = filter (\<lambda>i. i \<noteq> x) ?f"
  proof -
    have "filter P (as @ [x] @ bs) = filter P (as @ bs)" if "\<not> P x" for P and as bs :: "u16 list"
      using that by simp
    from this [of "\<lambda>i. i \<noteq> x"] show ?thesis
      unfolding reorder_def Let_def by (simp only: takeWhile_dropWhile_id simp_thms if_True not_False_eq_True)
  qed
  moreover have "x \<notin> set (takeWhile (\<lambda>i. i \<noteq> y) ?f)" "x \<notin> set (dropWhile (\<lambda>i. i \<noteq> y) ?f)"
    by (auto dest: set_takeWhileD set_dropWhileD)
  then have "count_list (reorder x y ms) x = 1"
    by (simp add: reorder_def Let_def count_list_0_iff [THEN iffD2])
  moreover have "\<exists>as bs. reorder x y ms = as @ x # y # bs" if "y \<in> set ms" "y \<noteq> x"
  proof -
    have cons: "l = y # tl l" if "l \<noteq> []" and "hd l = y" for l :: "u16 list"
      using that by (cases l) simp_all
    have "y \<in> set ?f" using that by simp
    then have ne: "dropWhile (\<lambda>i. i \<noteq> y) ?f \<noteq> []" by (auto simp only: dropWhile_eq_Nil_conv)
    have "dropWhile (\<lambda>i. i \<noteq> y) ?f = y # tl (dropWhile (\<lambda>i. i \<noteq> y) ?f)"
      using cons [OF ne] hd_dropWhile [OF ne] by blast
    then have "reorder x y ms = takeWhile (\<lambda>i. i \<noteq> y) ?f @ x # y # tl (dropWhile (\<lambda>i. i \<noteq> y) ?f)"
      by (simp add: reorder_def Let_def)
    then show ?thesis by blast
  qed
  moreover have "reorder x y ms = ?f @ [x]" if "\<not> (y \<in> set ms \<and> y \<noteq> x)"
  proof -
    have "\<forall>i \<in> set ?f. i \<noteq> y" using that by auto
    then show ?thesis by (simp add: reorder_def Let_def takeWhile_eq_all_conv dropWhile_eq_Nil_conv)
  qed
  ultimately show ?thesis by simp
qed

end
