(* ===== verification/RateLimit.thy ===== *)
theory RateLimit
  imports Prelude "HOL-Library.Signed_Division"
begin

text \<open>
  Rate limiting (\<open>wire/rate_limit.go\<close>): the rate classes, the table from SNACs to classes and
  \<open>CheckRateLimit\<close>, the moving average over the time between messages. \<open>int32\<close> arithmetic is written
  on integers with its wrap-around, division truncates as in Go.
\<close>

section \<open>Classes\<close>

datatype RateLimitStatus = Limited | Alert | Clear | Disconnect

record RateClass =
  ID :: u16
  WindowSize :: int
  ClearLevel :: int
  AlertLevel :: int
  LimitLevel :: int
  DisconnectLevel :: int
  MaxLevel :: int

definition DefaultRateLimitClasses :: "RateClass list" where
  "DefaultRateLimitClasses =
    [\<lparr>ID = 1, WindowSize = 80, ClearLevel = 2500, AlertLevel = 2000, LimitLevel = 1500,
       DisconnectLevel = 800, MaxLevel = 6000\<rparr>,
     \<lparr>ID = 2, WindowSize = 80, ClearLevel = 3000, AlertLevel = 2000, LimitLevel = 1500,
       DisconnectLevel = 1000, MaxLevel = 6000\<rparr>,
     \<lparr>ID = 3, WindowSize = 20, ClearLevel = 5100, AlertLevel = 5000, LimitLevel = 4000,
       DisconnectLevel = 3000, MaxLevel = 6000\<rparr>,
     \<lparr>ID = 4, WindowSize = 20, ClearLevel = 5500, AlertLevel = 5300, LimitLevel = 4200,
       DisconnectLevel = 3000, MaxLevel = 8000\<rparr>,
     \<lparr>ID = 5, WindowSize = 10, ClearLevel = 5500, AlertLevel = 5300, LimitLevel = 4200,
       DisconnectLevel = 3000, MaxLevel = 8000\<rparr>]"

text \<open>\<open>Get\<close> indexes an array of five with \<open>ID - 1\<close>; \<open>0 - 1\<close> wraps around to 65535.\<close>

definition RateLimitClasses_Get :: "RateClass list \<Rightarrow> u16 \<Rightarrow> RateClass outcome" where
  "RateLimitClasses_Get classes i =
     (if unat (i - 1) < length classes then Ok (classes ! unat (i - 1)) else Panic)"

section \<open>The table of SNACs\<close>

text \<open>One list per food group: subgroups with their rate class, in the order of the code.\<close>

definition OService_rate_limits :: "(u16 \<times> u16) list" where
  "OService_rate_limits =
    [(0x01, 1), (0x02, 1), (0x03, 1), (0x04, 1), (0x05, 1), (0x06, 1), (0x07, 1), (0x08, 1),
     (0x09, 1), (0x0A, 1), (0x0B, 1), (0x0C, 1), (0x0D, 1), (0x0E, 1), (0x0F, 1), (0x10, 1),
     (0x11, 1), (0x12, 1), (0x13, 1), (0x14, 1), (0x15, 1), (0x16, 1), (0x17, 1), (0x18, 1),
     (0x19, 1), (0x1A, 1), (0x1B, 1), (0x1C, 1), (0x1D, 1), (0x1E, 1), (0x1F, 1), (0x20, 1),
     (0x21, 1), (0x22, 1), (0x23, 1)]"

definition Locate_rate_limits :: "(u16 \<times> u16) list" where
  "Locate_rate_limits =
    [(0x01, 1), (0x02, 1), (0x03, 1), (0x04, 1), (0x05, 3), (0x06, 1), (0x07, 1), (0x08, 1),
     (0x09, 4), (0x0A, 1), (0x0B, 4), (0x0C, 1), (0x0D, 1), (0x0E, 1), (0x0F, 1), (0x10, 1),
     (0x11, 1), (0x12, 1), (0x13, 1), (0x14, 1), (0x15, 1)]"

definition Buddy_rate_limits :: "(u16 \<times> u16) list" where
  "Buddy_rate_limits =
    [(0x01, 1), (0x02, 1), (0x03, 1), (0x04, 2), (0x05, 2), (0x06, 1), (0x07, 1), (0x08, 1),
     (0x09, 1), (0x0A, 1), (0x0B, 1), (0x0C, 1), (0x0F, 1), (0x10, 1)]"

definition ICBM_rate_limits :: "(u16 \<times> u16) list" where
  "ICBM_rate_limits =
    [(0x01, 1), (0x02, 1), (0x03, 1), (0x04, 1), (0x05, 1), (0x06, 3), (0x07, 1), (0x08, 1),
     (0x09, 1), (0x0A, 1), (0x0B, 1), (0x0C, 1), (0x0D, 1), (0x0E, 1), (0x0F, 1), (0x10, 1),
     (0x11, 1), (0x12, 1), (0x13, 1), (0x14, 1)]"

definition Advert_rate_limits :: "(u16 \<times> u16) list" where
  "Advert_rate_limits =
    [(0x01, 1), (0x02, 1), (0x03, 1)]"

definition Invite_rate_limits :: "(u16 \<times> u16) list" where
  "Invite_rate_limits =
    [(0x01, 1), (0x02, 1), (0x03, 1)]"

definition Admin_rate_limits :: "(u16 \<times> u16) list" where
  "Admin_rate_limits =
    [(0x01, 1), (0x02, 1), (0x03, 1), (0x04, 1), (0x05, 1), (0x06, 1), (0x07, 1), (0x08, 1),
     (0x09, 1)]"

definition Popup_rate_limits :: "(u16 \<times> u16) list" where
  "Popup_rate_limits =
    [(0x01, 1), (0x02, 1)]"

definition PermitDeny_rate_limits :: "(u16 \<times> u16) list" where
  "PermitDeny_rate_limits =
    [(0x01, 1), (0x02, 1), (0x03, 1), (0x04, 1), (0x05, 2), (0x06, 2), (0x07, 2), (0x08, 2),
     (0x09, 1), (0x0A, 1), (0x0B, 1)]"

definition UserLookup_rate_limits :: "(u16 \<times> u16) list" where
  "UserLookup_rate_limits =
    [(0x01, 1), (0x02, 1), (0x03, 1)]"

definition Stats_rate_limits :: "(u16 \<times> u16) list" where
  "Stats_rate_limits =
    [(0x01, 1), (0x02, 1), (0x03, 1), (0x04, 1)]"

definition Translate_rate_limits :: "(u16 \<times> u16) list" where
  "Translate_rate_limits =
    [(0x01, 1), (0x02, 1), (0x03, 1)]"

definition ChatNav_rate_limits :: "(u16 \<times> u16) list" where
  "ChatNav_rate_limits =
    [(0x01, 1), (0x02, 1), (0x03, 1), (0x04, 1), (0x05, 1), (0x06, 1), (0x07, 1), (0x08, 1),
     (0x09, 1)]"

definition Chat_rate_limits :: "(u16 \<times> u16) list" where
  "Chat_rate_limits =
    [(0x01, 1), (0x02, 1), (0x03, 1), (0x04, 1), (0x05, 2), (0x06, 1), (0x07, 1), (0x08, 1),
     (0x09, 1)]"

definition ODir_rate_limits :: "(u16 \<times> u16) list" where
  "ODir_rate_limits =
    [(0x01, 1), (0x02, 1), (0x03, 1), (0x04, 1)]"

definition BART_rate_limits :: "(u16 \<times> u16) list" where
  "BART_rate_limits =
    [(0x01, 1), (0x02, 1), (0x04, 1), (0x06, 1)]"

definition Feedbag_rate_limits :: "(u16 \<times> u16) list" where
  "Feedbag_rate_limits =
    [(0x01, 1), (0x02, 1), (0x03, 1), (0x04, 1), (0x05, 1), (0x06, 1), (0x07, 1), (0x08, 1),
     (0x09, 1), (0x0A, 1), (0x0B, 1), (0x0C, 1), (0x0D, 1), (0x0E, 1), (0x0F, 1), (0x10, 1),
     (0x11, 1), (0x12, 1), (0x13, 1), (0x14, 1), (0x15, 1), (0x16, 1), (0x17, 1), (0x18, 1),
     (0x19, 1), (0x1A, 1), (0x1B, 1), (0x1C, 1), (0x1D, 1), (0x1E, 1), (0x1F, 1), (0x20, 1),
     (0x21, 1), (0x22, 1), (0x23, 1), (0x24, 1), (0x25, 1), (0x26, 1), (0x27, 1), (0x28, 1)]"

definition ICQ_rate_limits :: "(u16 \<times> u16) list" where
  "ICQ_rate_limits =
    [(0x01, 1), (0x02, 1), (0x03, 1)]"

definition BUCP_rate_limits :: "(u16 \<times> u16) list" where
  "BUCP_rate_limits =
    [(0x01, 1), (0x02, 1), (0x04, 1), (0x06, 1), (0x08, 1), (0x0A, 1), (0x0C, 1)]"

definition Alert_rate_limits :: "(u16 \<times> u16) list" where
  "Alert_rate_limits =
    [(0x01, 1), (0x02, 1), (0x04, 1), (0x06, 1), (0x07, 1), (0x08, 1), (0x0A, 1), (0x0D, 1),
     (0x0E, 1), (0x0F, 1), (0x10, 1), (0x11, 1), (0x12, 1), (0x15, 1), (0x16, 1), (0x17, 1)]"

definition DefaultSNACRateLimits :: "(u16 \<times> (u16 \<times> u16) list) list" where
  "DefaultSNACRateLimits =
    [(0x01, OService_rate_limits),
     (0x02, Locate_rate_limits),
     (0x03, Buddy_rate_limits),
     (0x04, ICBM_rate_limits),
     (0x05, Advert_rate_limits),
     (0x06, Invite_rate_limits),
     (0x07, Admin_rate_limits),
     (0x08, Popup_rate_limits),
     (0x09, PermitDeny_rate_limits),
     (0x0A, UserLookup_rate_limits),
     (0x0B, Stats_rate_limits),
     (0x0C, Translate_rate_limits),
     (0x0D, ChatNav_rate_limits),
     (0x0E, Chat_rate_limits),
     (0x0F, ODir_rate_limits),
     (0x10, BART_rate_limits),
     (0x13, Feedbag_rate_limits),
     (0x15, ICQ_rate_limits),
     (0x17, BUCP_rate_limits),
     (0x18, Alert_rate_limits)]"

lemmas rate_tables = OService_rate_limits_def Locate_rate_limits_def Buddy_rate_limits_def ICBM_rate_limits_def Advert_rate_limits_def Invite_rate_limits_def Admin_rate_limits_def Popup_rate_limits_def PermitDeny_rate_limits_def UserLookup_rate_limits_def Stats_rate_limits_def Translate_rate_limits_def ChatNav_rate_limits_def Chat_rate_limits_def ODir_rate_limits_def BART_rate_limits_def Feedbag_rate_limits_def ICQ_rate_limits_def BUCP_rate_limits_def Alert_rate_limits_def DefaultSNACRateLimits_def

definition RateClassLookup :: "(u16 \<times> (u16 \<times> u16) list) list \<Rightarrow> u16 \<Rightarrow> u16 \<Rightarrow> u16 \<times> bool" where
  "RateClassLookup rg foodGroup subGroup =
     (case map_of rg foodGroup of
        None \<Rightarrow> (0, False)
      | Some g \<Rightarrow>
          (case map_of g subGroup of None \<Rightarrow> (0, False) | Some c \<Rightarrow> (c, True)))"

section \<open>The moving average\<close>

text \<open>Conversion to \<open>int32\<close>, and \<open>Time.Sub\<close> (saturating, in nanoseconds) with \<open>Milliseconds\<close>.\<close>

definition wrap32 :: "int \<Rightarrow> int" where
  "wrap32 x = (x + 2 ^ 31) mod 2 ^ 32 - 2 ^ 31"

definition time_sub :: "int \<Rightarrow> int \<Rightarrow> int" where
  "time_sub t u = max (- (2 ^ 63)) (min (2 ^ 63 - 1) (t - u))"

definition milliseconds :: "int \<Rightarrow> int" where
  "milliseconds d = d sdiv 1000000"

text \<open>The status for an average; \<open>limited\<close> is the state before.\<close>

definition rate_status :: "RateClass \<Rightarrow> int \<Rightarrow> bool \<Rightarrow> RateLimitStatus" where
  "rate_status rc avg limited =
     (if avg < DisconnectLevel rc then Disconnect
      else if limited \<and> avg \<ge> ClearLevel rc then Clear
      else if limited then Limited
      else if avg < LimitLevel rc then Limited
      else if avg < AlertLevel rc then Alert
      else Clear)"

definition CheckRateLimit ::
  "int \<Rightarrow> int \<Rightarrow> RateClass \<Rightarrow> int \<Rightarrow> bool \<Rightarrow> (RateLimitStatus \<times> int) outcome" where
  "CheckRateLimit lastTime currentTime rc currentAvg limitedNow =
     (if WindowSize rc = 0 then Panic
      else
        let elapsedMs = wrap32 (milliseconds (time_sub currentTime lastTime));
            total = wrap32 (wrap32 (currentAvg * wrap32 (WindowSize rc - 1)) + elapsedMs);
            newAvg = wrap32 (total sdiv WindowSize rc);
            newAvg = (if newAvg > MaxLevel rc then MaxLevel rc else newAvg)
        in Ok (rate_status rc newAvg limitedNow, newAvg))"

section \<open>Well-formed classes\<close>

text \<open>What makes the arithmetic exact: a positive window, ordered levels and a small product.\<close>

definition rate_class_ok :: "RateClass \<Rightarrow> bool" where
  "rate_class_ok rc \<longleftrightarrow> 1 < WindowSize rc \<and> WindowSize rc * MaxLevel rc < 2 ^ 20 \<and>
     0 < DisconnectLevel rc \<and> DisconnectLevel rc \<le> LimitLevel rc \<and> LimitLevel rc \<le> AlertLevel rc \<and>
     AlertLevel rc \<le> ClearLevel rc \<and> ClearLevel rc \<le> MaxLevel rc"

lemma default_classes_ok: "rc \<in> set DefaultRateLimitClasses \<Longrightarrow> rate_class_ok rc"
  by (auto simp: DefaultRateLimitClasses_def rate_class_ok_def)

lemma wrap32_id: "- (2 ^ 31) \<le> x \<Longrightarrow> x < 2 ^ 31 \<Longrightarrow> wrap32 x = x"
  by (simp add: wrap32_def)

lemma wrap32_high: "2 ^ 31 \<le> x \<Longrightarrow> x < 2 ^ 32 + 2 ^ 31 \<Longrightarrow> wrap32 x = x - 2 ^ 32"
proof -
  assume "2 ^ 31 \<le> x" "x < 2 ^ 32 + 2 ^ 31"
  then have "(x + 2 ^ 31 - 2 ^ 32) mod 2 ^ 32 = x + 2 ^ 31 - 2 ^ 32" by simp
  moreover have "(x + 2 ^ 31 - 2 ^ 32) mod 2 ^ 32 = (x + 2 ^ 31) mod (2 ^ 32 :: int)"
    by (rule minus_mod_self2)
  ultimately show ?thesis by (simp add: wrap32_def)
qed

lemma sdiv_nonneg: "0 \<le> a \<Longrightarrow> 0 < b \<Longrightarrow> a sdiv b = a div (b :: int)"
  by (cases "a = 0") (simp_all add: signed_divide_int_def)

lemma sdiv_neg: "a \<le> 0 \<Longrightarrow> 0 < b \<Longrightarrow> a sdiv b \<le> (0 :: int)"
  by (cases "a = 0") (simp_all add: signed_divide_int_def pos_imp_zdiv_nonneg_iff)

lemma sdiv_neg_ge: "a \<le> 0 \<Longrightarrow> 0 < b \<Longrightarrow> a \<le> a sdiv (b :: int)"
  using zdiv_mono2 [of "- a" 1 b] by (cases "a = 0") (simp_all add: signed_divide_int_def)

lemma div_less_int: "0 < b \<Longrightarrow> a < c * b \<Longrightarrow> a div b < (c :: int)"
proof (rule ccontr)
  assume b: "0 < b" and a: "a < c * b" and "\<not> a div b < c"
  then have "c * b \<le> a div b * b" by (simp add: mult_right_mono)
  also have "\<dots> \<le> a" using b pos_mod_sign [of b a] div_mult_mod_eq [of a b] by linarith
  finally show False using a by simp
qed

lemma div_le_self: "0 \<le> a \<Longrightarrow> 0 < b \<Longrightarrow> a div b \<le> (a :: int)"
  using zdiv_mono2 [of a 1 b] by simp

text \<open>Times that are a whole number of milliseconds apart.\<close>

lemma elapsed_ms: "0 \<le> ms \<Longrightarrow> ms < 2 ^ 43 \<Longrightarrow> milliseconds (time_sub (t + ms * 1000000) t) = ms"
  by (simp add: milliseconds_def time_sub_def sdiv_nonneg)

lemma average_bounds:
  assumes "rate_class_ok rc" and "0 \<le> avg" and "avg \<le> MaxLevel rc"
  shows "0 \<le> avg * (WindowSize rc - 1)" and "avg * (WindowSize rc - 1) < 2 ^ 20"
    and "WindowSize rc < 2 ^ 20"
proof -
  have w: "1 < WindowSize rc" and m: "0 < MaxLevel rc" and p: "WindowSize rc * MaxLevel rc < 2 ^ 20"
    using assms(1) by (auto simp: rate_class_ok_def)
  show "0 \<le> avg * (WindowSize rc - 1)" using assms(2) w by simp
  have "avg * (WindowSize rc - 1) \<le> MaxLevel rc * WindowSize rc"
    by (rule mult_mono) (use assms w m in auto)
  then show "avg * (WindowSize rc - 1) < 2 ^ 20" using p by (simp add: mult.commute)
  have "WindowSize rc * 1 \<le> WindowSize rc * MaxLevel rc"
    by (rule mult_left_mono) (use w m in auto)
  then show "WindowSize rc < 2 ^ 20" using p by simp
qed

text \<open>For elapsed times below 2146400000 ms (over 24 days) the arithmetic is exact.\<close>

lemma CheckRateLimit_exact:
  assumes "rate_class_ok rc" and "0 \<le> avg" and "avg \<le> MaxLevel rc"
    and "0 \<le> ms" and "ms < 2146400000"
  shows "CheckRateLimit t (t + ms * 1000000) rc avg lim =
    (let a = min (MaxLevel rc) ((avg * (WindowSize rc - 1) + ms) div WindowSize rc)
     in Ok (rate_status rc a lim, a))"
proof -
  note b = average_bounds [OF assms(1-3)]
  have w: "1 < WindowSize rc" using assms(1) by (simp add: rate_class_ok_def)
  let ?s = "avg * (WindowSize rc - 1) + ms"
  have s: "0 \<le> ?s" "?s < 2 ^ 31" using b assms by simp_all
  have d: "0 \<le> ?s div WindowSize rc" "?s div WindowSize rc \<le> ?s"
    using s w by (simp_all add: pos_imp_zdiv_nonneg_iff div_le_self)
  have "wrap32 (WindowSize rc - 1) = WindowSize rc - 1" using b w by (intro wrap32_id) simp_all
  moreover have "wrap32 (avg * (WindowSize rc - 1)) = avg * (WindowSize rc - 1)"
    using b by (intro wrap32_id) simp_all
  moreover have "wrap32 ms = ms" using assms by (intro wrap32_id) simp_all
  moreover have "wrap32 ?s = ?s" using s by (intro wrap32_id) simp_all
  moreover have "wrap32 (?s div WindowSize rc) = ?s div WindowSize rc"
    using s d by (intro wrap32_id) linarith+
  moreover have "?s sdiv WindowSize rc = ?s div WindowSize rc" using s w by (intro sdiv_nonneg) simp_all
  ultimately show ?thesis
    using w assms elapsed_ms [of ms t] by (simp add: CheckRateLimit_def Let_def min_def)
qed

section \<open>Properties\<close>

text \<open>
  C37: For every default class, every average between 0 and the maximum and every gap below 2146400000
  milliseconds, the average stays between 0 and the maximum and is the truncated mean of the window,
  without wrap-around; and the status is \<open>Clear\<close> after a limit only once the clear level is reached.
\<close>

theorem rate_average_exact:
  assumes "rc \<in> set DefaultRateLimitClasses" and "0 \<le> avg" and "avg \<le> MaxLevel rc"
    and "0 \<le> ms" and "ms < 2146400000"
  shows "\<exists>st a. CheckRateLimit t (t + ms * 1000000) rc avg lim = Ok (st, a) \<and>
    0 \<le> a \<and> a \<le> MaxLevel rc \<and>
    a = min (MaxLevel rc) ((avg * (WindowSize rc - 1) + ms) div WindowSize rc) \<and>
    (st = Disconnect \<longleftrightarrow> a < DisconnectLevel rc) \<and>
    (lim \<and> st = Clear \<longrightarrow> ClearLevel rc \<le> a)"
proof -
  have rc: "rate_class_ok rc" using assms(1) by (rule default_classes_ok)
  have "0 \<le> (avg * (WindowSize rc - 1) + ms) div WindowSize rc"
    using rc assms by (auto simp: rate_class_ok_def pos_imp_zdiv_nonneg_iff)
  moreover have "0 \<le> MaxLevel rc" using assms(2,3) by simp
  ultimately show ?thesis
    unfolding CheckRateLimit_exact [OF rc assms(2-5)] Let_def
    by (auto simp: rate_status_def min_def)
qed

lemma rate_average_exact_witness:
  "\<exists>st a. CheckRateLimit 0 (0 + 0 * 1000000) (DefaultRateLimitClasses ! 2) 6000 False = Ok (st, a) \<and>
    0 \<le> a \<and> a \<le> 6000 \<and> a = 5700 \<and> (st = Disconnect \<longleftrightarrow> a < 3000) \<and> (False \<and> st = Clear \<longrightarrow> 5100 \<le> a)"
  using rate_average_exact [of "DefaultRateLimitClasses ! 2" 6000 0 0 False]
  by (simp add: DefaultRateLimitClasses_def)

text \<open>
  A client that waits at least the alert level between its messages is never limited,
  alerted or disconnected, whatever default class it uses.
\<close>

theorem polite_client_clear:
  assumes "rc \<in> set DefaultRateLimitClasses" and "AlertLevel rc \<le> avg" and "avg \<le> MaxLevel rc"
    and "AlertLevel rc \<le> ms" and "ms < 2146400000"
  shows "\<exists>a. CheckRateLimit t (t + ms * 1000000) rc avg False = Ok (Clear, a) \<and>
    AlertLevel rc \<le> a \<and> a \<le> MaxLevel rc"
proof -
  have rc: "rate_class_ok rc" using assms(1) by (rule default_classes_ok)
  have w: "1 < WindowSize rc" "0 < AlertLevel rc" "AlertLevel rc \<le> MaxLevel rc"
      "DisconnectLevel rc \<le> AlertLevel rc" "LimitLevel rc \<le> AlertLevel rc"
    using rc by (auto simp: rate_class_ok_def)
  have "AlertLevel rc * WindowSize rc = AlertLevel rc * (WindowSize rc - 1) + AlertLevel rc"
    by (simp add: algebra_simps)
  also have "\<dots> \<le> avg * (WindowSize rc - 1) + ms"
    using assms w by (intro add_mono mult_right_mono) simp_all
  finally have "AlertLevel rc \<le> (avg * (WindowSize rc - 1) + ms) div WindowSize rc"
    using w zdiv_mono1 [of "AlertLevel rc * WindowSize rc" _ "WindowSize rc"] by simp
  moreover have "0 \<le> avg" "0 \<le> ms" using assms w by simp_all
  ultimately show ?thesis
    using w CheckRateLimit_exact [OF rc, of avg ms t False] assms
    by (simp add: Let_def rate_status_def min_def)
qed

lemma polite_client_clear_witness:
  "\<exists>a. CheckRateLimit 0 (0 + 5000 * 1000000) (DefaultRateLimitClasses ! 2) 5000 False = Ok (Clear, a) \<and>
    5000 \<le> a \<and> a \<le> 6000"
  using polite_client_clear [of "DefaultRateLimitClasses ! 2" 5000 5000 0]
  by (simp add: DefaultRateLimitClasses_def)

text \<open>
  A gap of 2147483648 milliseconds or more (24.9 days, up to 49.7) is converted to a negative
  \<open>int32\<close>: the average falls below every threshold and the session is told to disconnect for
  having been silent.
\<close>

theorem long_silence_disconnects:
  assumes "rc \<in> set DefaultRateLimitClasses" and "0 \<le> avg" and "avg \<le> MaxLevel rc"
    and "2 ^ 31 \<le> ms" and "ms \<le> 2 ^ 32 - 2 ^ 20"
  shows "\<exists>a \<le> 0. CheckRateLimit t (t + ms * 1000000) rc avg lim = Ok (Disconnect, a)"
proof -
  have rc: "rate_class_ok rc" using assms(1) by (rule default_classes_ok)
  note b = average_bounds [OF rc assms(2,3)]
  have w: "1 < WindowSize rc" "0 < DisconnectLevel rc" "0 \<le> MaxLevel rc"
    using rc assms(2,3) by (auto simp: rate_class_ok_def)
  let ?s = "avg * (WindowSize rc - 1) + (ms - 2 ^ 32)"
  have s: "- (2 ^ 31) \<le> ?s" "?s \<le> 0" using b assms by simp_all
  have d: "?s sdiv WindowSize rc \<le> 0" "?s \<le> ?s sdiv WindowSize rc"
    using s w by (simp_all add: sdiv_neg sdiv_neg_ge)
  have "wrap32 (WindowSize rc - 1) = WindowSize rc - 1" using b w by (intro wrap32_id) simp_all
  moreover have "wrap32 (avg * (WindowSize rc - 1)) = avg * (WindowSize rc - 1)"
    using b by (intro wrap32_id) simp_all
  moreover have "wrap32 ms = ms - 2 ^ 32" using assms by (intro wrap32_high) simp_all
  moreover have "wrap32 ?s = ?s" using s by (intro wrap32_id) simp_all
  moreover have "wrap32 (?s sdiv WindowSize rc) = ?s sdiv WindowSize rc"
    by (rule wrap32_id) (use s d in \<open>simp_all\<close>)
  moreover have "milliseconds (time_sub (t + ms * 1000000) t) = ms"
    using assms by (intro elapsed_ms) simp_all
  ultimately show ?thesis
    using w d by (simp add: CheckRateLimit_def Let_def rate_status_def)
qed

lemma long_silence_disconnects_witness:
  "\<exists>a \<le> 0. CheckRateLimit 0 (0 + 2 ^ 31 * 1000000) (DefaultRateLimitClasses ! 0) 6000 False =
     Ok (Disconnect, a)"
  by (rule long_silence_disconnects) (simp_all add: DefaultRateLimitClasses_def)

text \<open>A run of messages, each with the gap before it, the way a session evaluates them.\<close>

fun rate_run :: "RateClass \<Rightarrow> int \<Rightarrow> bool \<Rightarrow> int list \<Rightarrow> (RateLimitStatus \<times> int) list" where
  "rate_run rc avg lim [] = []"
| "rate_run rc avg lim (ms # gaps) =
     (case CheckRateLimit 0 (ms * 1000000) rc avg lim of
        Ok (st, a) \<Rightarrow> (st, a) # rate_run rc a (st = Limited) gaps
      | _ \<Rightarrow> [])"

text \<open>
  A client that sends without pause is disconnected, in every default class and from every
  average, after at most as many messages as the average is above the disconnect level.
\<close>

theorem flood_disconnects:
  assumes "rc \<in> set DefaultRateLimitClasses" and "0 \<le> avg" and "avg \<le> MaxLevel rc"
    and "avg - DisconnectLevel rc < int n" and "0 < n"
  shows "Disconnect \<in> fst ` set (rate_run rc avg lim (replicate n 0))"
  using assms
proof (induction n arbitrary: avg lim)
  case (Suc n)
  have rc: "rate_class_ok rc" using Suc.prems(1) by (rule default_classes_ok)
  then have w: "1 < WindowSize rc" "0 < DisconnectLevel rc" by (auto simp: rate_class_ok_def)
  let ?a = "(avg * (WindowSize rc - 1)) div WindowSize rc"
  have a: "0 \<le> ?a" using Suc.prems w by (simp add: pos_imp_zdiv_nonneg_iff)
  have le: "?a \<le> avg"
    using Suc.prems w zdiv_mono1 [of "avg * (WindowSize rc - 1)" "avg * WindowSize rc" "WindowSize rc"]
    by (simp add: mult_left_mono)
  have lt: "?a < avg" if "0 < avg"
  proof -
    have "avg * (WindowSize rc - 1) < avg * WindowSize rc" using that w by simp
    then show ?thesis using w by (simp add: div_less_int)
  qed
  have m: "min (MaxLevel rc) ?a = ?a" using le Suc.prems(3) by simp
  have check: "CheckRateLimit 0 0 rc avg lim = Ok (rate_status rc ?a lim, ?a)"
    using CheckRateLimit_exact [OF rc Suc.prems(2,3), of 0 0 lim] m by (simp add: Let_def)
  show ?case
  proof (cases "?a < DisconnectLevel rc")
    case True
    then have "rate_status rc ?a lim = Disconnect" by (simp add: rate_status_def)
    with check show ?thesis by simp
  next
    case False
    then have "0 < avg" using w le by linarith
    with lt Suc.prems(4) have "?a - DisconnectLevel rc < int n" by simp
    moreover from this False have "n \<noteq> 0" by auto
    ultimately have "Disconnect \<in> fst ` set (rate_run rc ?a (rate_status rc ?a lim = Limited) (replicate n 0))"
      using Suc.IH [of ?a] Suc.prems(1,3) a le by simp
    with check show ?thesis by simp
  qed
qed simp

lemma flood_disconnects_witness:
  "Disconnect \<in> fst ` set (rate_run (DefaultRateLimitClasses ! 2) 6000 False (replicate 3001 0))"
  by (rule flood_disconnects) (simp_all add: DefaultRateLimitClasses_def)

lemma table_classes:
  "list_all (\<lambda>(f, g). list_all (\<lambda>(s, c). c \<in> {1, 2, 3, 4, 5}) g) DefaultSNACRateLimits"
  by (simp add: rate_tables)

lemma Get_default:
  "c \<in> {1, 2, 3, 4, 5} \<Longrightarrow> \<exists>rc \<in> set DefaultRateLimitClasses.
     RateLimitClasses_Get DefaultRateLimitClasses c = Ok rc \<and> ID rc = c"
  by (auto simp: DefaultRateLimitClasses_def RateLimitClasses_Get_def)

text \<open>
  The default table is consistent with the default classes: every class it returns is one of the
  five, \<open>Get\<close> does not panic on it and returns the class with that ID, and sending an IM has a class.
\<close>

theorem rate_table_consistent:
  "(case RateClassLookup DefaultSNACRateLimits fg sg of (c, found) \<Rightarrow>
      if found then (\<exists>rc \<in> set DefaultRateLimitClasses.
        RateLimitClasses_Get DefaultRateLimitClasses c = Ok rc \<and> ID rc = c) else c = 0) \<and>
    RateClassLookup DefaultSNACRateLimits 4 6 = (3, True)"
proof
  show "RateClassLookup DefaultSNACRateLimits 4 6 = (3, True)"
    by (simp add: RateClassLookup_def rate_tables)
  have "c \<in> {1, 2, 3, 4, 5}"
    if "map_of DefaultSNACRateLimits fg = Some g" and "map_of g sg = Some c" for g c
    using table_classes map_of_SomeD [OF that(1)] map_of_SomeD [OF that(2)]
    by (fastforce simp only: list_all_iff split: prod.splits)
  then show "case RateClassLookup DefaultSNACRateLimits fg sg of (c, found) \<Rightarrow>
      if found then (\<exists>rc \<in> set DefaultRateLimitClasses.
        RateLimitClasses_Get DefaultRateLimitClasses c = Ok rc \<and> ID rc = c) else c = 0"
    by (auto simp: RateClassLookup_def Get_default split: option.split)
qed

end
