(* ===== verification/ClientInfo.thy ===== *)
theory ClientInfo
  imports Users
begin

text \<open>
  The data a client declares about itself that sessions hold (\<open>wire/snacs.go\<close>, \<open>state/session.go\<close>): BART
  items (icons and status texts), ICQ direct-connect settings, food group versions.
\<close>

record BARTID =
  bart_Type :: u16
  bart_Flags :: u8
  bart_Hash :: bytes

definition BARTTypesBuddyIcon :: u16 where "BARTTypesBuddyIcon = 1"
definition BARTTypesStatusStr :: u16 where "BARTTypesStatusStr = 2"

definition zero_BARTID :: BARTID where
  "zero_BARTID = \<lparr>bart_Type = 0, bart_Flags = 0, bart_Hash = []\<rparr>"

record ICQDCInfo =
  dc_IP :: u32
  dc_Port :: u32
  dc_DCType :: u8
  dc_ProtoVersion :: u16
  dc_AuthCookie :: u32
  dc_WebPort :: u32
  dc_ClientFutures :: u32
  dc_LastUpdateTime :: u32
  dc_LastExtInfoUpdateTime :: u32
  dc_LastExtStatusUpdateTime :: u32
  dc_Unknown :: u16

definition zero_ICQDCInfo :: ICQDCInfo where
  "zero_ICQDCInfo = \<lparr>dc_IP = 0, dc_Port = 0, dc_DCType = 0, dc_ProtoVersion = 0, dc_AuthCookie = 0,
     dc_WebPort = 0, dc_ClientFutures = 0, dc_LastUpdateTime = 0, dc_LastExtInfoUpdateTime = 0,
     dc_LastExtStatusUpdateTime = 0, dc_Unknown = 0\<rparr>"

text \<open>
  The versions of the food groups, one per number up to \<open>MDir\<close>: version 1 for the ones the server
  knows, 0 for the gaps in the numbering.
\<close>

definition OService :: u16 where "OService = 0x0001"
definition Locate :: u16 where "Locate = 0x0002"
definition Buddy :: u16 where "Buddy = 0x0003"
definition ICBM :: u16 where "ICBM = 0x0004"
definition Advert :: u16 where "Advert = 0x0005"
definition Invite :: u16 where "Invite = 0x0006"
definition Admin :: u16 where "Admin = 0x0007"
definition Popup :: u16 where "Popup = 0x0008"
definition PermitDeny :: u16 where "PermitDeny = 0x0009"
definition UserLookup :: u16 where "UserLookup = 0x000A"
definition Stats :: u16 where "Stats = 0x000B"
definition Translate :: u16 where "Translate = 0x000C"
definition ChatNav :: u16 where "ChatNav = 0x000D"
definition Chat :: u16 where "Chat = 0x000E"
definition ODir :: u16 where "ODir = 0x000F"
definition BART :: u16 where "BART = 0x0010"
definition Feedbag :: u16 where "Feedbag = 0x0013"
definition ICQ :: u16 where "ICQ = 0x0015"
definition BUCP :: u16 where "BUCP = 0x0017"
definition Alert :: u16 where "Alert = 0x0018"
definition Plugin :: u16 where "Plugin = 0x0022"
definition UnnamedFG24 :: u16 where "UnnamedFG24 = 0x0024"
definition MDir :: u16 where "MDir = 0x0025"

definition defaultFoodGroupVersions :: "u16 list" where
  "defaultFoodGroupVersions = map (\<lambda>fg. if fg \<in> set (map unat [OService, Locate, Buddy, ICBM, Advert, Invite, Admin,
       Popup, PermitDeny, UserLookup, Stats, Translate, ChatNav, Chat, ODir, BART, Feedbag, ICQ, BUCP, Alert,
       Plugin, UnnamedFG24, MDir]) then 1 else 0) [0..<unat MDir + 1]"

end
