(* ===== verification/Sessions.thy ===== *)
theory Sessions
  imports RateLimit ClientInfo
begin

text \<open>
  Sessions (\<open>state/session.go\<close>): a \<open>Session\<close> is what one account shares between its concurrent
  connections, a \<open>SessionInstance\<close> is one connection. Go shares instances by pointer; here they live
  in the session's \<open>heap\<close> and a pointer is an index. A method runs under the session's or the
  instance's mutex and is one step; closing takes the instance's mutex and then the session's, and
  the model runs the two sections in one step. The callbacks a caller registers run outside
  the locks; the model records their invocations in \<open>events\<close>. Messages are of any type.
\<close>

section \<open>Instances\<close>

definition OServiceUserFlagOSCARFree :: u16 where "OServiceUserFlagOSCARFree = 0x0010"
definition OServiceUserFlagUnavailable :: u16 where "OServiceUserFlagUnavailable = 0x0020"
definition OServiceUserFlagBot :: u16 where "OServiceUserFlagBot = 0x0400"
definition OServiceUserStatusAvailable :: u32 where "OServiceUserStatusAvailable = 0"
definition OServiceUserStatusAway :: u32 where "OServiceUserStatusAway = 1"
definition OServiceUserStatusInvisible :: u32 where "OServiceUserStatusInvisible = 0x100"

lemmas user_flags = OServiceUserFlagOSCARFree_def OServiceUserFlagUnavailable_def
  OServiceUserFlagBot_def OServiceUserStatusAvailable_def OServiceUserStatusAway_def
  OServiceUserStatusInvisible_def

datatype SessSendStatus = SessSendOK | SessSendClosed | SessQueueFull

datatype txn_error = errNotifyTxnNotActive | errNotifyTxnTooManyNames

text \<open>\<open>notifyTxnNames\<close> is the key set of a map; \<open>msgCh\<close> a channel of capacity 1000.\<close>

record 'm SessionInstance =
  instanceNum :: u8
  signonComplete :: bool
  iclosed :: bool
  msgCh :: "'m list"
  capabilities :: "bytes list"
  idle :: bool
  idleTime :: int
  awayMsg :: bytes
  awayTime :: int
  userInfoBitmask :: u16
  userStatusBitmask :: u32
  notifyTxnActive :: bool
  notifyTxnShouldSend :: bool
  notifyTxnNames :: "IdentScreenName list"
  contactsInit :: bool
  inst_profile :: UserProfile
  remoteAddr :: "bytes option"
  kerberosAuth :: bool
  inst_clientID :: bytes
  foodGroupVersions :: "u16 list"
  inst_multiConnFlag :: u8
  toc2 :: bool
  toc2MsgEnc :: bool
  icqDCInfo :: ICQDCInfo

definition maxNotifyTxnNames :: nat where "maxNotifyTxnNames = 1000"

definition away :: "'m SessionInstance \<Rightarrow> bool" where
  "away i \<longleftrightarrow> userInfoBitmask i AND OServiceUserFlagUnavailable \<noteq> 0 \<or>
     userStatusBitmask i AND OServiceUserStatusAway \<noteq> 0"

definition active :: "'m SessionInstance \<Rightarrow> bool" where
  "active i \<longleftrightarrow> \<not> iclosed i \<and> signonComplete i \<and> \<not> idle i \<and> \<not> away i"

definition live :: "'m SessionInstance \<Rightarrow> bool" where
  "live i \<longleftrightarrow> \<not> iclosed i \<and> signonComplete i"

definition inst_Invisible :: "'m SessionInstance \<Rightarrow> bool" where
  "inst_Invisible i \<longleftrightarrow>
     userStatusBitmask i AND OServiceUserStatusInvisible = OServiceUserStatusInvisible"

definition SetIdle :: "int \<Rightarrow> int \<Rightarrow> 'm SessionInstance \<Rightarrow> 'm SessionInstance" where
  "SetIdle now dur i = i\<lparr>idle := True, idleTime := now - dur\<rparr>"

definition UnsetIdle :: "'m SessionInstance \<Rightarrow> 'm SessionInstance" where
  "UnsetIdle i = i\<lparr>idle := False\<rparr>"

definition SetSignonComplete :: "'m SessionInstance \<Rightarrow> 'm SessionInstance" where
  "SetSignonComplete i = i\<lparr>signonComplete := True\<rparr>"

definition SetAwayMessage :: "bytes \<Rightarrow> 'm SessionInstance \<Rightarrow> 'm SessionInstance" where
  "SetAwayMessage msg i = i\<lparr>awayMsg := msg\<rparr>"

definition SetCaps :: "bytes list \<Rightarrow> 'm SessionInstance \<Rightarrow> 'm SessionInstance" where
  "SetCaps caps i = i\<lparr>capabilities := caps\<rparr>"

definition SetUserInfoFlag :: "int \<Rightarrow> u16 \<Rightarrow> 'm SessionInstance \<Rightarrow> 'm SessionInstance" where
  "SetUserInfoFlag now flag i =
     (let i' = (if flag = OServiceUserFlagUnavailable then i\<lparr>awayTime := now\<rparr> else i)
      in i'\<lparr>userInfoBitmask := userInfoBitmask i' OR flag\<rparr>)"

definition ClearUserInfoFlag :: "u16 \<Rightarrow> 'm SessionInstance \<Rightarrow> u16 \<times> 'm SessionInstance" where
  "ClearUserInfoFlag flag i =
     (let flags = userInfoBitmask i AND NOT flag in (flags, i\<lparr>userInfoBitmask := flags\<rparr>))"

definition SetUserStatusBitmask :: "int \<Rightarrow> u32 \<Rightarrow> 'm SessionInstance \<Rightarrow> 'm SessionInstance" where
  "SetUserStatusBitmask now bitmask i =
     (let i' = (if bitmask AND OServiceUserStatusAway = OServiceUserStatusAway \<and> \<not> away i
                then i\<lparr>awayTime := now\<rparr> else i)
      in i'\<lparr>userStatusBitmask := bitmask\<rparr>)"

text \<open>Notify transactions.\<close>

definition BeginNotifyTxn :: "'m SessionInstance \<Rightarrow> 'm SessionInstance" where
  "BeginNotifyTxn i = i\<lparr>notifyTxnShouldSend := False, notifyTxnNames := [], notifyTxnActive := True\<rparr>"

definition NotifyTxn :: "IdentScreenName list \<Rightarrow> 'm SessionInstance \<Rightarrow> txn_error option \<times> 'm SessionInstance" where
  "NotifyTxn names i =
     (if \<not> notifyTxnActive i then (Some errNotifyTxnNotActive, i)
      else if length (notifyTxnNames i) + length names > maxNotifyTxnNames
      then (Some errNotifyTxnTooManyNames, i)
      else (None, i\<lparr>notifyTxnShouldSend := True,
        notifyTxnNames := fold List.insert names (notifyTxnNames i)\<rparr>))"

definition EndNotifyTxn :: "'m SessionInstance \<Rightarrow> (bool \<times> IdentScreenName list) \<times> 'm SessionInstance" where
  "EndNotifyTxn i =
     ((if notifyTxnActive i then (notifyTxnShouldSend i, notifyTxnNames i) else (False, [])),
      i\<lparr>notifyTxnActive := False, notifyTxnShouldSend := False, notifyTxnNames := []\<rparr>)"

text \<open>The channel \<open>stopCh\<close> is closed exactly when \<open>closed\<close> is set, under the same lock.\<close>

definition RelayMessageToInstance :: "'m \<Rightarrow> 'm SessionInstance \<Rightarrow> SessSendStatus \<times> 'm SessionInstance" where
  "RelayMessageToInstance msg i =
     (if iclosed i then (SessSendClosed, i)
      else if length (msgCh i) < 1000 then (SessSendOK, i\<lparr>msgCh := msgCh i @ [msg]\<rparr>)
      else (SessQueueFull, i))"

text \<open>The reader's end: taking the oldest message.\<close>

definition receive_msg :: "'m SessionInstance \<Rightarrow> 'm option \<times> 'm SessionInstance" where
  "receive_msg i = (case msgCh i of [] \<Rightarrow> (None, i) | m # ms \<Rightarrow> (Some m, i\<lparr>msgCh := ms\<rparr>))"

section \<open>Sessions\<close>

record RateClassState =
  RC :: RateClass
  CurrentLevel :: int
  LastTime :: int
  CurrentStatus :: "RateLimitStatus option"
  Subscribed :: bool
  LimitedNow :: bool

datatype sess_event = SessionClosed | InstanceClosed nat

text \<open>The field \<open>chatRoomCookie\<close> is kept beside the chat sessions, in theory Chat.\<close>

record 'm Session =
  warning :: u16
  warningCh :: "u16 list"
  rateLimitStates :: "RateClassState list"
  rateLimitStatesOriginal :: "RateClassState list"
  lastObservedStates :: "RateClassState list"
  heap :: "'m SessionInstance list"
  instances :: "u8 \<Rightarrow> nat option"
  instancesOrdered :: "nat list"
  closed :: bool
  initDone :: bool
  initErr :: "string option"
  events :: "sess_event list"
  displayScreenName :: bytes
  identScreenName :: IdentScreenName
  sess_uin :: u32
  memberSince :: "int option"
  signonTime :: "int option"
  offlineMsgCount :: int
  buddyIcon :: BARTID
  typingEventsEnabled :: bool
  usesFeedbag :: bool
  sess_status :: BARTID

definition zero_rate_state :: RateClassState where
  "zero_rate_state = \<lparr>RC = \<lparr>ID = 0, WindowSize = 0, ClearLevel = 0, AlertLevel = 0, LimitLevel = 0,
     DisconnectLevel = 0, MaxLevel = 0\<rparr>, CurrentLevel = 0, LastTime = 0, CurrentStatus = None,
     Subscribed = False, LimitedNow = False\<rparr>"

definition NewSession :: "'m Session" where
  "NewSession = \<lparr>warning = 0, warningCh = [], rateLimitStates = replicate 5 zero_rate_state,
     rateLimitStatesOriginal = replicate 5 zero_rate_state,
     lastObservedStates = replicate 5 zero_rate_state, heap = [], instances = (\<lambda>_. None),
     instancesOrdered = [], closed = False, initDone = False, initErr = None, events = [],
     displayScreenName = [], identScreenName = IdentScreenName [], sess_uin = 0, memberSince = None, signonTime = None,
     offlineMsgCount = 0, buddyIcon = zero_BARTID, typingEventsEnabled = False,
     usesFeedbag = False, sess_status = zero_BARTID\<rparr>"

text \<open>The instance numbers, 1 to 255, and the instances in the map, by number.\<close>

definition nums :: "u8 list" where
  "nums = map word_of_nat [1..<256]"

definition instances_list :: "'m Session \<Rightarrow> nat list" where
  "instances_list s = List.map_filter (instances s) nums"

definition InstanceCount :: "'m Session \<Rightarrow> nat" where
  "InstanceCount s = length (instances_list s)"

definition upd_inst :: "nat \<Rightarrow> ('m SessionInstance \<Rightarrow> 'm SessionInstance) \<Rightarrow> 'm Session \<Rightarrow> 'm Session" where
  "upd_inst i f s = s\<lparr>heap := (heap s)[i := f (heap s ! i)]\<rparr>"

text \<open>The first number that is free; a panic when none is.\<close>

definition generateInstanceNum :: "'m Session \<Rightarrow> u8 outcome" where
  "generateInstanceNum s =
     (case find (\<lambda>num. instances s num = None) nums of Some num \<Rightarrow> Ok num | None \<Rightarrow> Panic)"

definition newInstance :: "u8 \<Rightarrow> 'm SessionInstance" where
  "newInstance num = \<lparr>instanceNum = num, signonComplete = False, iclosed = False, msgCh = [],
     capabilities = [], idle = False, idleTime = 0, awayMsg = [], awayTime = 0,
     userInfoBitmask = OServiceUserFlagOSCARFree, userStatusBitmask = OServiceUserStatusAvailable,
     notifyTxnActive = False, notifyTxnShouldSend = False, notifyTxnNames = [], contactsInit = False,
     inst_profile = \<lparr>ProfileText = [], MIMEType = [], UpdateTime = None\<rparr>, remoteAddr = None,
     kerberosAuth = False, inst_clientID = [], foodGroupVersions = defaultFoodGroupVersions,
     inst_multiConnFlag = 0, toc2 = False, toc2MsgEnc = False, icqDCInfo = zero_ICQDCInfo\<rparr>"

definition AddInstance :: "'m Session \<Rightarrow> (nat option \<times> 'm Session) outcome" where
  "AddInstance s =
     (if closed s then Ok (None, s)
      else bind_out (generateInstanceNum s) (\<lambda>num.
        let i = length (heap s) in
        Ok (Some i, s\<lparr>heap := heap s @ [newInstance num], instances := (instances s)(num \<mapsto> i),
          instancesOrdered := instancesOrdered s @ [i]\<rparr>)))"

definition HasLiveInstances :: "'m Session \<Rightarrow> bool" where
  "HasLiveInstances s \<longleftrightarrow> list_ex (\<lambda>i. live (heap s ! i)) (instances_list s)"

definition removeInstanceLocked :: "nat \<Rightarrow> 'm Session \<Rightarrow> 'm Session" where
  "removeInstanceLocked i s =
     s\<lparr>instances := (instances s)(instanceNum (heap s ! i) := None),
       instancesOrdered := remove1 i (instancesOrdered s)\<rparr>"

definition removeInstanceAndMaybeClose :: "nat \<Rightarrow> 'm Session \<Rightarrow> bool \<times> 'm Session" where
  "removeInstanceAndMaybeClose i s =
     (let s' = removeInstanceLocked i s in
      if InstanceCount s' > 0 then (False, s') else (True, s'\<lparr>closed := True\<rparr>))"

definition close_inst :: "nat \<Rightarrow> 'm Session \<Rightarrow> 'm Session" where
  "close_inst i s = upd_inst i (\<lambda>x. x\<lparr>iclosed := True\<rparr>) s"

definition log_event :: "sess_event \<Rightarrow> 'm Session \<Rightarrow> 'm Session" where
  "log_event e s = s\<lparr>events := events s @ [e]\<rparr>"

definition CloseInstance :: "nat \<Rightarrow> 'm Session \<Rightarrow> 'm Session" where
  "CloseInstance i s =
     (if iclosed (heap s ! i) then s
      else let (final, s') = removeInstanceAndMaybeClose i (close_inst i s)
           in log_event (if final then SessionClosed else InstanceClosed i) s')"

definition closeOnly :: "nat \<Rightarrow> 'm Session \<Rightarrow> 'm Session" where
  "closeOnly i s =
     (if iclosed (heap s ! i) then s
      else let (final, s') = removeInstanceAndMaybeClose i (close_inst i s)
           in if final then log_event SessionClosed s' else s')"

definition CloseSession :: "'m Session \<Rightarrow> 'm Session" where
  "CloseSession s = (let s' = s\<lparr>closed := True\<rparr> in fold closeOnly (instances_list s') s')"

definition RunOnce :: "('m Session \<Rightarrow> string option \<times> 'm Session) \<Rightarrow> 'm Session \<Rightarrow> string option \<times> 'm Session" where
  "RunOnce fn s =
     (if initDone s then (initErr s, s)
      else let (e, s') = fn s; s'' = s'\<lparr>initDone := True, initErr := e\<rparr>
           in (e, if e \<noteq> None then CloseSession s'' else s''))"

text \<open>Aggregates over the instances.\<close>

definition Instances :: "'m Session \<Rightarrow> 'm SessionInstance list" where
  "Instances s = map (\<lambda>i. heap s ! i) (instancesOrdered s)"

definition Away :: "'m Session \<Rightarrow> bool" where
  "Away s \<longleftrightarrow> Instances s \<noteq> [] \<and> list_all away (Instances s)"

definition Idle :: "'m Session \<Rightarrow> bool" where
  "Idle s \<longleftrightarrow> Instances s \<noteq> [] \<and> list_all idle (Instances s)"

definition Inactive :: "'m Session \<Rightarrow> bool" where
  "Inactive s \<longleftrightarrow> list_all (\<lambda>i. \<not> active i) (Instances s)"

definition Invisible :: "'m Session \<Rightarrow> bool" where
  "Invisible s \<longleftrightarrow> list_all (\<lambda>i. inst_Invisible (heap s ! i)) (instances_list s)"

definition AllUserInfoBitmask :: "u16 \<Rightarrow> 'm Session \<Rightarrow> bool" where
  "AllUserInfoBitmask flag s \<longleftrightarrow> list_all (\<lambda>i. userInfoBitmask i AND flag = flag) (Instances s)"

definition AllUserStatusBitmask :: "u32 \<Rightarrow> 'm Session \<Rightarrow> bool" where
  "AllUserStatusBitmask flag s \<longleftrightarrow> list_all (\<lambda>i. userStatusBitmask i AND flag = flag) (Instances s)"

text \<open>\<open>AwayMessage\<close>: the away instance that was set away last; ties go to the first one seen.\<close>

fun latest_away :: "'m SessionInstance list \<Rightarrow> 'm SessionInstance option \<Rightarrow> 'm SessionInstance option" where
  "latest_away [] latest = latest"
| "latest_away (i # is) latest =
     (if \<not> away i then latest_away is latest
      else case latest of
        None \<Rightarrow> latest_away is (Some i)
      | Some l \<Rightarrow> latest_away is (if awayTime i > awayTime l then Some i else Some l))"

definition AwayMessage :: "'m Session \<Rightarrow> bytes" where
  "AwayMessage s =
     (case latest_away (map (\<lambda>i. heap s ! i) (instances_list s)) None of
        None \<Rightarrow> [] | Some i \<Rightarrow> awayMsg i)"

text \<open>\<open>Caps\<close>: the capabilities of all instances, without duplicates, in byte order.\<close>

fun bytes_le :: "bytes \<Rightarrow> bytes \<Rightarrow> bool" where
  "bytes_le [] _ = True"
| "bytes_le (_ # _) [] = False"
| "bytes_le (a # as) (b # bs) = (if a = b then bytes_le as bs else a < b)"

fun insert_cap :: "bytes \<Rightarrow> bytes list \<Rightarrow> bytes list" where
  "insert_cap c [] = [c]"
| "insert_cap c (d # ds) = (if c = d then d # ds else if bytes_le c d then c # d # ds else d # insert_cap c ds)"

definition Caps :: "'m Session \<Rightarrow> bytes list" where
  "Caps s = fold insert_cap (concat (map (\<lambda>i. capabilities (heap s ! i)) (instances_list s))) []"

definition HasCap :: "bytes \<Rightarrow> 'm Session \<Rightarrow> bool" where
  "HasCap c s \<longleftrightarrow> c \<in> set (Caps s)"

section \<open>Rate limits and warnings of a session\<close>

text \<open>The array of five states is indexed with \<open>ID - 1\<close>.\<close>

definition class_index :: "u16 \<Rightarrow> nat" where
  "class_index i = unat (i - 1)"

definition EvaluateRateLimit :: "int \<Rightarrow> u16 \<Rightarrow> 'm Session \<Rightarrow> (RateLimitStatus \<times> 'm Session) outcome" where
  "EvaluateRateLimit now classID s =
     (if AllUserInfoBitmask OServiceUserFlagBot s then Ok (Clear, s)
      else if class_index classID \<ge> length (rateLimitStates s) then Panic
      else
        let i = class_index classID; rc = rateLimitStates s ! i in
        bind_out (CheckRateLimit (LastTime rc) now (RC rc) (CurrentLevel rc) (LimitedNow rc))
          (\<lambda>(status, newLevel).
            let rc' = rc\<lparr>CurrentLevel := newLevel, CurrentStatus := Some status, LastTime := now,
                  LimitedNow := (status = Limited)\<rparr>;
                s' = s\<lparr>rateLimitStates := (rateLimitStates s)[i := rc']\<rparr>
            in Ok (status, if status = Disconnect then CloseSession s' else s')))"

text \<open>One class of \<open>ObserveRateChanges\<close>: the new state, the last observed one, and what is reported.\<close>

definition observe_class :: "int \<Rightarrow> RateClassState \<Rightarrow> RateClassState \<Rightarrow>
    (RateClassState \<times> RateClassState \<times> RateClassState list \<times> RateClassState list) outcome" where
  "observe_class now params last_obs =
     (if \<not> Subscribed params then Ok (params, last_obs, [], [])
      else bind_out (CheckRateLimit (LastTime params) now (RC params) (CurrentLevel params) (LimitedNow params))
        (\<lambda>(st, level).
          let p1 = params\<lparr>CurrentStatus := Some st\<rparr>;
              p2 = (if LimitedNow p1 \<and> st = Clear then p1\<lparr>LimitedNow := False, CurrentLevel := level\<rparr> else p1)
          in Ok (p2, p2, if RC params \<noteq> RC last_obs then [p2] else [],
                 if CurrentStatus last_obs \<noteq> CurrentStatus p2 then [p2] else [])))"

fun observe_classes :: "int \<Rightarrow> RateClassState list \<Rightarrow> RateClassState list \<Rightarrow>
    (RateClassState list \<times> RateClassState list \<times> RateClassState list \<times> RateClassState list) outcome" where
  "observe_classes now (p # ps) (l # ls) =
     bind_out (observe_class now p l) (\<lambda>(p', l', cd, sd).
     bind_out (observe_classes now ps ls) (\<lambda>(ps', ls', cds, sds).
       Ok (p' # ps', l' # ls', cd @ cds, sd @ sds)))"
| "observe_classes now _ _ = Ok ([], [], [], [])"

definition ObserveRateChanges :: "int \<Rightarrow> 'm Session \<Rightarrow>
    ((RateClassState list \<times> RateClassState list) \<times> 'm Session) outcome" where
  "ObserveRateChanges now s =
     bind_out (observe_classes now (rateLimitStates s) (lastObservedStates s)) (\<lambda>(ps, ls, cd, sd).
       Ok ((cd, sd), s\<lparr>rateLimitStates := ps, lastObservedStates := ls\<rparr>))"

definition SetRateClasses :: "int \<Rightarrow> RateClass list \<Rightarrow> 'm Session \<Rightarrow> 'm Session" where
  "SetRateClasses now classes s =
     (let newStates = map2 (\<lambda>c l. \<lparr>RC = c, CurrentLevel = MaxLevel c, LastTime = now,
            CurrentStatus = Some Clear, Subscribed = Subscribed l, LimitedNow = False\<rparr>)
            classes (lastObservedStates s)
      in s\<lparr>lastObservedStates :=
             (if ID (RC (lastObservedStates s ! 0)) = 0 then newStates else rateLimitStates s),
           rateLimitStates := newStates, rateLimitStatesOriginal := newStates\<rparr>)"

fun SubscribeRateLimits :: "u16 list \<Rightarrow> 'm Session \<Rightarrow> 'm Session outcome" where
  "SubscribeRateLimits [] s = Ok s"
| "SubscribeRateLimits (c # cs) s =
     (if class_index c \<ge> length (rateLimitStates s) then Panic
      else SubscribeRateLimits cs (s\<lparr>rateLimitStates := (rateLimitStates s)[class_index c :=
        (rateLimitStates s ! class_index c)\<lparr>Subscribed := True\<rparr>]\<rparr>))"

text \<open>
  \<open>ScaleWarningAndRateLimit\<close>. \<open>scale x incr\<close> stands for \<open>int32(float32(x) * (float32(incr) / 1000.0))\<close>.
  The channel \<open>warningCh\<close> holds one value and the send happens with the session's mutex held: when the
  channel is full the call blocks, \<open>Hang\<close>.
\<close>

definition clamp :: "int \<Rightarrow> int \<Rightarrow> int \<Rightarrow> int" where
  "clamp v lo hi = (if v < lo then lo else if v > hi then hi else v)"

definition scale_class :: "(int \<Rightarrow> int \<Rightarrow> int) \<Rightarrow> int \<Rightarrow> RateClass \<Rightarrow> RateClass \<Rightarrow> RateClass" where
  "scale_class scale incr orig rc =
     (let maxLevel = wrap32 (MaxLevel orig - 150);
          f = (\<lambda>cur base. clamp (wrap32 (cur + scale (wrap32 (maxLevel - base)) incr)) base (MaxLevel orig))
      in rc\<lparr>LimitLevel := f (LimitLevel rc) (LimitLevel orig),
            ClearLevel := f (ClearLevel rc) (ClearLevel orig),
            AlertLevel := f (AlertLevel rc) (AlertLevel orig)\<rparr>)"

definition ScaleWarningAndRateLimit ::
    "(int \<Rightarrow> int \<Rightarrow> int) \<Rightarrow> int \<Rightarrow> u16 \<Rightarrow> 'm Session \<Rightarrow> ((bool \<times> u16) \<times> 'm Session) outcome" where
  "ScaleWarningAndRateLimit scale incr classID s =
     (let newWarning = int (unat (warning s)) + incr in
      if newWarning > 1000 then Ok ((False, 0), s)
      else
        let w = (if newWarning < 0 then 0 else word_of_int newWarning); i = class_index classID in
        if i \<ge> length (rateLimitStates s) then Panic
        else if warningCh s \<noteq> [] then Hang
        else
          let st = rateLimitStates s ! i;
              st' = st\<lparr>RC := scale_class scale incr (RC (rateLimitStatesOriginal s ! i)) (RC st)\<rparr>
          in Ok ((True, w), s\<lparr>warning := w, rateLimitStates := (rateLimitStates s)[i := st'],
               warningCh := [w]\<rparr>))"

section \<open>The life of a session\<close>

text \<open>
  The steps of a session. An update of one instance is any of the instance methods, which leave its
  number and its closed flag alone; \<open>RunOnce\<close> runs a function that itself takes such steps.
\<close>

definition keeps_lifecycle :: "('m SessionInstance \<Rightarrow> 'm SessionInstance) \<Rightarrow> bool" where
  "keeps_lifecycle f \<longleftrightarrow> (\<forall>x. instanceNum (f x) = instanceNum x \<and> iclosed (f x) = iclosed x)"

lemma instance_methods_keep_lifecycle [simp, intro]:
  "keeps_lifecycle (SetIdle now dur)" "keeps_lifecycle UnsetIdle" "keeps_lifecycle SetSignonComplete"
  "keeps_lifecycle (SetAwayMessage msg)" "keeps_lifecycle (SetCaps caps)"
  "keeps_lifecycle (SetUserInfoFlag now flag)" "keeps_lifecycle (\<lambda>i. snd (ClearUserInfoFlag flag i))"
  "keeps_lifecycle (SetUserStatusBitmask now bits)" "keeps_lifecycle BeginNotifyTxn"
  "keeps_lifecycle (\<lambda>i. snd (NotifyTxn names i))" "keeps_lifecycle (\<lambda>i. snd (EndNotifyTxn i))"
  "keeps_lifecycle (\<lambda>i. snd (RelayMessageToInstance m i))" "keeps_lifecycle (\<lambda>i. snd (receive_msg i))"
  by (simp_all add: keeps_lifecycle_def SetIdle_def UnsetIdle_def SetSignonComplete_def SetAwayMessage_def
      SetCaps_def SetUserInfoFlag_def ClearUserInfoFlag_def SetUserStatusBitmask_def BeginNotifyTxn_def
      NotifyTxn_def EndNotifyTxn_def RelayMessageToInstance_def receive_msg_def Let_def split: list.split)

inductive sess_step :: "'m Session \<Rightarrow> 'm Session \<Rightarrow> bool" where
  step_add: "AddInstance s = Ok (r, s') \<Longrightarrow> sess_step s s'"
| step_update: "i < length (heap s) \<Longrightarrow> keeps_lifecycle f \<Longrightarrow> sess_step s (upd_inst i f s)"
| step_close: "i < length (heap s) \<Longrightarrow> sess_step s (CloseInstance i s)"
| step_close_all: "sess_step s (CloseSession s)"
| step_rate: "EvaluateRateLimit now c s = Ok (st, s') \<Longrightarrow> sess_step s s'"
| step_observe: "ObserveRateChanges now s = Ok (d, s') \<Longrightarrow> sess_step s s'"
| step_classes: "sess_step s (SetRateClasses now classes s)"
| step_subscribe: "SubscribeRateLimits cs s = Ok s' \<Longrightarrow> sess_step s s'"
| step_warn: "ScaleWarningAndRateLimit scale incr c s = Ok (r, s') \<Longrightarrow> sess_step s s'"
| step_init: "\<not> initDone s \<Longrightarrow> sess_step s (s\<lparr>initDone := True, initErr := e\<rparr>)"

inductive sess_reach :: "'m Session \<Rightarrow> bool" where
  reach_new: "sess_reach NewSession"
| reach_step: "sess_reach s \<Longrightarrow> sess_step s s' \<Longrightarrow> sess_reach s'"

text \<open>
  The invariant: map and list hold the same open instances under their own numbers, every other
  instance is closed, and the session-closed callback has run exactly once if the last instance has
  left and not at all otherwise.
\<close>

definition struct_inv :: "'m Session \<Rightarrow> bool" where
  "struct_inv s \<longleftrightarrow>
     distinct (instancesOrdered s) \<and>
     (\<forall>i \<in> set (instancesOrdered s). i < length (heap s) \<and> \<not> iclosed (heap s ! i) \<and>
        instances s (instanceNum (heap s ! i)) = Some i) \<and>
     (\<forall>n i. instances s n = Some i \<longrightarrow> n \<noteq> 0 \<and> i \<in> set (instancesOrdered s) \<and>
        instanceNum (heap s ! i) = n) \<and>
     (\<forall>i < length (heap s). i \<notin> set (instancesOrdered s) \<longrightarrow> iclosed (heap s ! i))"

definition sess_inv :: "'m Session \<Rightarrow> bool" where
  "sess_inv s \<longleftrightarrow> struct_inv s \<and>
     (heap s \<noteq> [] \<and> instancesOrdered s = [] \<longrightarrow> closed s) \<and>
     count_list (events s) SessionClosed = (if heap s \<noteq> [] \<and> instancesOrdered s = [] then 1 else 0)"

lemma sess_inv_New: "sess_inv NewSession"
  by (simp add: sess_inv_def struct_inv_def NewSession_def)

lemma set_nums: "set nums = {n. n \<noteq> 0}"
proof -
  have "n \<in> set nums" if "n \<noteq> 0" for n :: u8
  proof -
    have "unat n \<noteq> 0" using that by (simp add: unat_eq_0)
    then have "unat n \<in> {1..<256}" using unat_u8_bound [of n] by simp
    moreover have "n = word_of_nat (unat n)" by simp
    ultimately show ?thesis unfolding nums_def by (metis image_eqI set_map set_upt)
  qed
  moreover have "n \<noteq> 0" if "n \<in> set nums" for n
  proof -
    from that obtain k where k: "n = word_of_nat k" "1 \<le> k" "k < 256" by (auto simp: nums_def)
    then have "unat n = k" by (simp add: unat_of_nat)
    with k show ?thesis by auto
  qed
  ultimately show ?thesis by auto
qed

lemma distinct_nums: "distinct nums"
proof -
  have "inj_on (word_of_nat :: nat \<Rightarrow> u8) {1..<256}"
  proof (rule inj_onI)
    fix x y :: nat
    assume xy: "x \<in> {1..<256}" "y \<in> {1..<256}" "(word_of_nat x :: u8) = word_of_nat y"
    then show "x = y" by (metis atLeastLessThan_iff unat_word_of_nat_u8)
  qed
  then show ?thesis by (simp add: nums_def distinct_map)
qed

lemma inv_ordered:
  "struct_inv s \<Longrightarrow> i \<in> set (instancesOrdered s) \<Longrightarrow>
     i < length (heap s) \<and> \<not> iclosed (heap s ! i) \<and> instances s (instanceNum (heap s ! i)) = Some i"
  unfolding struct_inv_def by blast

lemma inv_map:
  "struct_inv s \<Longrightarrow> instances s n = Some i \<Longrightarrow>
     n \<noteq> 0 \<and> i \<in> set (instancesOrdered s) \<and> instanceNum (heap s ! i) = n"
  unfolding struct_inv_def by blast

lemma inv_open:
  "struct_inv s \<Longrightarrow> i < length (heap s) \<Longrightarrow> i \<in> set (instancesOrdered s) \<longleftrightarrow> \<not> iclosed (heap s ! i)"
  unfolding struct_inv_def by blast

lemma inv_distinct: "struct_inv s \<Longrightarrow> distinct (instancesOrdered s)"
  unfolding struct_inv_def by blast

lemma mem_instances_list: "i \<in> set (instances_list s) \<longleftrightarrow> (\<exists>n. n \<noteq> 0 \<and> instances s n = Some i)"
  by (force simp: instances_list_def map_filter_def set_nums image_iff)

lemma set_instances_list:
  assumes "struct_inv s"
  shows "set (instances_list s) = set (instancesOrdered s)"
proof (intro set_eqI iffI)
  fix i
  assume "i \<in> set (instancesOrdered s)"
  then have "instances s (instanceNum (heap s ! i)) = Some i" using inv_ordered [OF assms] by blast
  then show "i \<in> set (instances_list s)" using inv_map [OF assms] by (auto simp: mem_instances_list)
qed (use inv_map [OF assms] in \<open>auto simp: mem_instances_list\<close>)

lemma distinct_instances_list:
  assumes "struct_inv s"
  shows "distinct (instances_list s)"
proof -
  have "inj_on (\<lambda>n. the (instances s n)) (set (filter (\<lambda>n. instances s n \<noteq> None) nums))"
  proof (rule inj_onI)
    fix m n
    assume "m \<in> set (filter (\<lambda>n. instances s n \<noteq> None) nums)"
      and "n \<in> set (filter (\<lambda>n. instances s n \<noteq> None) nums)"
      and eq: "the (instances s m) = the (instances s n)"
    then obtain i where "instances s m = Some i" "instances s n = Some i" by auto
    then show "m = n" using inv_map [OF assms] by metis
  qed
  then show ?thesis
    using distinct_nums by (simp add: instances_list_def map_filter_def distinct_map comp_def)
qed

lemma InstanceCount_eq:
  assumes "struct_inv s"
  shows "InstanceCount s = length (instancesOrdered s)"
  unfolding InstanceCount_def
  using distinct_card [OF distinct_instances_list [OF assms]] distinct_card [OF inv_distinct [OF assms]]
  by (simp add: set_instances_list [OF assms])

section \<open>Closing preserves the invariant\<close>

lemma upd_inst_simps [simp]:
  "instances (upd_inst i f s) = instances s" "instancesOrdered (upd_inst i f s) = instancesOrdered s"
  "closed (upd_inst i f s) = closed s" "events (upd_inst i f s) = events s"
  "heap (upd_inst i f s) = (heap s)[i := f (heap s ! i)]"
  by (simp_all add: upd_inst_def)

lemma log_event_simps [simp]:
  "instances (log_event e s) = instances s" "instancesOrdered (log_event e s) = instancesOrdered s"
  "closed (log_event e s) = closed s" "events (log_event e s) = events s @ [e]"
  "heap (log_event e s) = heap s"
  by (simp_all add: log_event_def)

text \<open>An open instance leaves: the map, the list and its flag change together.\<close>

lemma struct_remove:
  assumes inv: "struct_inv s" and i: "i < length (heap s)" "\<not> iclosed (heap s ! i)"
  shows "struct_inv (removeInstanceLocked i (close_inst i s))"
proof -
  let ?s = "removeInstanceLocked i (close_inst i s)"
  have mem: "i \<in> set (instancesOrdered s)" using inv_open [OF inv i(1)] i(2) by simp
  have h: "heap ?s = (heap s)[i := (heap s ! i)\<lparr>iclosed := True\<rparr>]"
    and m: "instances ?s = (instances s)(instanceNum (heap s ! i) := None)"
    and l: "instancesOrdered ?s = remove1 i (instancesOrdered s)"
    using i(1) by (simp_all add: removeInstanceLocked_def close_inst_def)
  have set_l: "set (instancesOrdered ?s) = set (instancesOrdered s) - {i}"
    using inv_distinct [OF inv] by (simp add: l)
  have other: "heap ?s ! j = heap s ! j" if "j \<noteq> i" for j using that by (simp add: h)
  have neq: "instanceNum (heap s ! j) \<noteq> instanceNum (heap s ! i)"
    if "j \<in> set (instancesOrdered s)" "j \<noteq> i" for j
    using inv_ordered [OF inv] that mem by (metis option.inject)
  show ?thesis
    unfolding struct_inv_def
  proof (intro conjI ballI allI impI)
    show "distinct (instancesOrdered ?s)" using inv_distinct [OF inv] by (simp add: l)
  next
    fix j
    assume "j \<in> set (instancesOrdered ?s)"
    then have j: "j \<in> set (instancesOrdered s)" "j \<noteq> i" by (simp_all add: set_l)
    show "j < length (heap ?s)" using inv_ordered [OF inv j(1)] by (simp add: h)
    show "\<not> iclosed (heap ?s ! j)" using inv_ordered [OF inv j(1)] j(2) by (simp add: other)
    show "instances ?s (instanceNum (heap ?s ! j)) = Some j"
      using inv_ordered [OF inv j(1)] j(2) neq [OF j] by (simp add: other m)
  next
    fix n j
    assume "instances ?s n = Some j"
    then have n: "n \<noteq> instanceNum (heap s ! i)" "instances s n = Some j" by (auto simp: m split: if_splits)
    note im = inv_map [OF inv n(2)]
    with n(1) have j: "j \<noteq> i" by auto
    show "n \<noteq> 0" using im by simp
    show "j \<in> set (instancesOrdered ?s)" using im j by (simp add: set_l)
    show "instanceNum (heap ?s ! j) = n" using im j by (simp add: other)
  next
    fix k
    assume k: "k < length (heap ?s)" "k \<notin> set (instancesOrdered ?s)"
    show "iclosed (heap ?s ! k)"
    proof (cases "k = i")
      case True
      then show ?thesis using i(1) by (simp add: h)
    next
      case False
      then show ?thesis using k inv_open [OF inv, of k] by (simp add: other set_l) (simp add: h)
    qed
  qed
qed

lemma struct_cong:
  "heap s' = heap s \<Longrightarrow> instances s' = instances s \<Longrightarrow> instancesOrdered s' = instancesOrdered s \<Longrightarrow>
     struct_inv s' = struct_inv s"
  by (simp add: struct_inv_def)

text \<open>Both ways of closing, for an open instance.\<close>

definition departed :: "nat \<Rightarrow> 'm Session \<Rightarrow> 'm Session" where
  "departed i s = removeInstanceLocked i (close_inst i s)"

lemma departed_simps [simp]:
  "instancesOrdered (departed i s) = remove1 i (instancesOrdered s)"
  "length (heap (departed i s)) = length (heap s)" "events (departed i s) = events s"
  "closed (departed i s) = closed s"
  by (simp_all add: departed_def removeInstanceLocked_def close_inst_def)

lemma removeInstanceAndMaybeClose_eq:
  assumes "struct_inv s" and "i < length (heap s)" and "\<not> iclosed (heap s ! i)"
  shows "removeInstanceAndMaybeClose i (close_inst i s) =
    (if remove1 i (instancesOrdered s) = [] then (True, (departed i s)\<lparr>closed := True\<rparr>)
     else (False, departed i s))"
  using InstanceCount_eq [OF struct_remove [OF assms]]
  by (auto simp: removeInstanceAndMaybeClose_def Let_def departed_def [symmetric])

lemma CloseInstance_eq:
  assumes "struct_inv s" and "i < length (heap s)" and "\<not> iclosed (heap s ! i)"
  shows "CloseInstance i s =
    (if remove1 i (instancesOrdered s) = [] then log_event SessionClosed ((departed i s)\<lparr>closed := True\<rparr>)
     else log_event (InstanceClosed i) (departed i s))"
  using assms by (simp add: CloseInstance_def removeInstanceAndMaybeClose_eq)

lemma closeOnly_eq:
  assumes "struct_inv s" and "i < length (heap s)" and "\<not> iclosed (heap s ! i)"
  shows "closeOnly i s =
    (if remove1 i (instancesOrdered s) = [] then log_event SessionClosed ((departed i s)\<lparr>closed := True\<rparr>)
     else departed i s)"
  using assms by (simp add: closeOnly_def removeInstanceAndMaybeClose_eq)

lemma sess_inv_struct: "sess_inv s \<Longrightarrow> struct_inv s"
  by (simp add: sess_inv_def)

lemma sess_inv_departed:
  assumes inv: "sess_inv s" and i: "i < length (heap s)" "\<not> iclosed (heap s ! i)"
  shows "remove1 i (instancesOrdered s) = [] \<Longrightarrow>
      sess_inv (log_event SessionClosed ((departed i s)\<lparr>closed := True\<rparr>))"
    and "remove1 i (instancesOrdered s) \<noteq> [] \<Longrightarrow> sess_inv (departed i s)"
    and "remove1 i (instancesOrdered s) \<noteq> [] \<Longrightarrow> sess_inv (log_event (InstanceClosed i) (departed i s))"
proof -
  note inv' = sess_inv_struct [OF inv]
  have st: "struct_inv (departed i s)" unfolding departed_def by (rule struct_remove [OF inv' i])
  then have st2: "struct_inv (log_event SessionClosed ((departed i s)\<lparr>closed := True\<rparr>))"
      "struct_inv (log_event (InstanceClosed i) (departed i s))"
    by (simp_all add: struct_inv_def)
  have mem: "instancesOrdered s \<noteq> []" using inv_open [OF inv' i(1)] i(2) by auto
  then have ev: "count_list (events s) SessionClosed = 0" using inv by (simp add: sess_inv_def)
  have ne: "heap (departed i s) \<noteq> []" using i(1) departed_simps(2) [of i s] by (metis length_0_conv not_less0)
  show "remove1 i (instancesOrdered s) = [] \<Longrightarrow>
      sess_inv (log_event SessionClosed ((departed i s)\<lparr>closed := True\<rparr>))"
    using st2(1) ev ne by (simp add: sess_inv_def)
  show "remove1 i (instancesOrdered s) \<noteq> [] \<Longrightarrow> sess_inv (departed i s)"
    using st ev ne by (simp add: sess_inv_def)
  show "remove1 i (instancesOrdered s) \<noteq> [] \<Longrightarrow> sess_inv (log_event (InstanceClosed i) (departed i s))"
    using st2(2) ev ne by (simp add: sess_inv_def)
qed

lemma sess_inv_CloseInstance:
  assumes "sess_inv s" and "i < length (heap s)"
  shows "sess_inv (CloseInstance i s)"
proof (cases "iclosed (heap s ! i)")
  case True
  then show ?thesis using assms by (simp add: CloseInstance_def)
next
  case False
  show ?thesis
    unfolding CloseInstance_eq [OF sess_inv_struct [OF assms(1)] assms(2) False]
    using sess_inv_departed [OF assms False] by simp
qed

lemma sess_inv_closeOnly:
  assumes "sess_inv s" and "i < length (heap s)"
  shows "sess_inv (closeOnly i s)"
proof (cases "iclosed (heap s ! i)")
  case True
  then show ?thesis using assms by (simp add: closeOnly_def)
next
  case False
  show ?thesis
    unfolding closeOnly_eq [OF sess_inv_struct [OF assms(1)] assms(2) False]
    using sess_inv_departed [OF assms False] by simp
qed

text \<open>What closing changes besides.\<close>

lemma closeOnly_frame:
  assumes "sess_inv s" and "i < length (heap s)"
  shows "set (instancesOrdered (closeOnly i s)) = set (instancesOrdered s) - {i}"
    and "length (heap (closeOnly i s)) = length (heap s)"
    and "closed s \<Longrightarrow> closed (closeOnly i s)"
proof -
  note inv = sess_inv_struct [OF assms(1)]
  show "set (instancesOrdered (closeOnly i s)) = set (instancesOrdered s) - {i}"
  proof (cases "iclosed (heap s ! i)")
    case True
    then show ?thesis using inv_open [OF inv assms(2)] by (simp add: closeOnly_def)
  next
    case False
    have "remove1 i (instancesOrdered s) = [] \<longleftrightarrow> set (instancesOrdered s) - {i} = {}"
      using inv_distinct [OF inv] by (metis set_empty set_remove1_eq)
    with False show ?thesis
      using inv_distinct [OF inv] by (auto simp: closeOnly_eq [OF inv assms(2)])
  qed
  show "length (heap (closeOnly i s)) = length (heap s)"
    using closeOnly_eq [OF inv assms(2)] by (cases "iclosed (heap s ! i)") (simp_all add: closeOnly_def [of i s])
  show "closed s \<Longrightarrow> closed (closeOnly i s)"
    using closeOnly_eq [OF inv assms(2)] by (cases "iclosed (heap s ! i)") (simp_all add: closeOnly_def [of i s])
qed

lemma fold_closeOnly:
  assumes "sess_inv s" and "\<forall>i \<in> set is. i < length (heap s)"
  shows "sess_inv (fold closeOnly is s) \<and>
    set (instancesOrdered (fold closeOnly is s)) = set (instancesOrdered s) - set is \<and>
    length (heap (fold closeOnly is s)) = length (heap s) \<and>
    (closed s \<longrightarrow> closed (fold closeOnly is s))"
  using assms
proof (induction "is" arbitrary: s)
  case (Cons i "is")
  have i: "i < length (heap s)" using Cons.prems(2) by simp
  note f = closeOnly_frame [OF Cons.prems(1) i] and inv = sess_inv_closeOnly [OF Cons.prems(1) i]
  have "\<forall>j \<in> set is. j < length (heap (closeOnly i s))" using Cons.prems(2) f(2) by simp
  from Cons.IH [OF inv this] f show ?case by auto
qed simp

lemma sess_inv_mark_closed: "sess_inv s \<Longrightarrow> sess_inv (s\<lparr>closed := True\<rparr>)"
  by (simp add: sess_inv_def struct_inv_def)

lemma CloseSession_all:
  assumes "sess_inv s"
  shows "sess_inv (CloseSession s) \<and> instancesOrdered (CloseSession s) = [] \<and>
    length (heap (CloseSession s)) = length (heap s) \<and> closed (CloseSession s)"
proof -
  let ?s = "s\<lparr>closed := True\<rparr>"
  have inv: "sess_inv ?s" by (rule sess_inv_mark_closed [OF assms])
  have l: "set (instances_list ?s) = set (instancesOrdered ?s)"
    by (rule set_instances_list [OF sess_inv_struct [OF inv]])
  have "\<forall>i \<in> set (instances_list ?s). i < length (heap ?s)"
    using inv_ordered [OF sess_inv_struct [OF inv]] unfolding l by blast
  from fold_closeOnly [OF inv this] l show ?thesis
    by (simp add: CloseSession_def Let_def)
qed

section \<open>The other steps\<close>

lemma generateInstanceNum_Ok:
  assumes "generateInstanceNum s = Ok n"
  shows "n \<noteq> 0 \<and> instances s n = None \<and> (\<forall>m. m \<noteq> 0 \<and> unat m < unat n \<longrightarrow> instances s m \<noteq> None)"
proof -
  have f: "find (\<lambda>num. instances s num = None) nums = Some n"
    using assms by (auto simp: generateInstanceNum_def split: option.splits)
  then obtain k where k: "k < length nums" "instances s (nums ! k) = None" "n = nums ! k"
      "\<forall>j<k. instances s (nums ! j) \<noteq> None"
    by (auto simp: find_Some_iff)
  have un: "unat (nums ! j) = j + 1" if "j < 255" for j
  proof -
    have "nums ! j = word_of_nat (j + 1)" using that by (simp add: nums_def)
    then show ?thesis using unat_word_of_nat_u8 [of "j + 1"] that by simp
  qed
  have k255: "k < 255" using k(1) by (simp add: nums_def)
  have "instances s m \<noteq> None" if "m \<noteq> 0" "unat m < unat n" for m
  proof -
    have m: "unat m \<noteq> 0" using that(1) by (simp add: unat_eq_0)
    then have "unat m - 1 < k" using that(2) un [OF k255, folded k(3)] by linarith
    moreover have "nums ! (unat m - 1) = m"
      using un [of "unat m - 1"] m calculation k255 by (simp add: word_unat_eq_iff)
    ultimately show ?thesis using k(4) by metis
  qed
  moreover have "n \<noteq> 0" using nth_mem [OF k(1)] k(3) set_nums by auto
  ultimately show ?thesis using k by blast
qed

lemma sess_inv_AddInstance:
  assumes inv: "sess_inv s" and add: "AddInstance s = Ok (r, s')"
  shows "sess_inv s'"
proof (cases "closed s")
  case True
  then show ?thesis using assms by (simp add: AddInstance_def)
next
  case False
  let ?i = "length (heap s)"
  obtain num where g: "generateInstanceNum s = Ok num"
    and s': "s' = s\<lparr>heap := heap s @ [newInstance num], instances := (instances s)(num \<mapsto> ?i),
        instancesOrdered := instancesOrdered s @ [?i]\<rparr>"
    using add False by (auto simp: AddInstance_def bind_out_Ok_iff Let_def)
  note n = generateInstanceNum_Ok [OF g] and st = sess_inv_struct [OF inv]
  have lt: "j < ?i" if "j \<in> set (instancesOrdered s)" for j using inv_ordered [OF st that] by blast
  have "struct_inv s'"
    unfolding struct_inv_def
  proof (intro conjI ballI allI impI)
    show "distinct (instancesOrdered s')" using inv_distinct [OF st] lt by (auto simp: s')
  next
    fix j
    assume "j \<in> set (instancesOrdered s')"
    then consider "j = ?i" | "j \<in> set (instancesOrdered s)" by (auto simp: s')
    then have "j < length (heap s') \<and> \<not> iclosed (heap s' ! j) \<and>
        instances s' (instanceNum (heap s' ! j)) = Some j"
    proof cases
      case 1
      then show ?thesis by (simp add: s' newInstance_def)
    next
      case 2
      note o = inv_ordered [OF st 2]
      then have "heap s' ! j = heap s ! j" by (simp add: s' nth_append)
      moreover have "instanceNum (heap s ! j) \<noteq> num" using o n by auto
      ultimately show ?thesis using o by (simp add: s')
    qed
    then show "j < length (heap s')" "\<not> iclosed (heap s' ! j)"
        "instances s' (instanceNum (heap s' ! j)) = Some j" by blast+
  next
    fix m j
    assume m: "instances s' m = Some j"
    have "m \<noteq> 0 \<and> j \<in> set (instancesOrdered s') \<and> instanceNum (heap s' ! j) = m"
    proof (cases "m = num")
      case True
      then have "j = ?i" using m by (simp add: s')
      then show ?thesis using n True by (simp add: s' newInstance_def)
    next
      case False
      then have "instances s m = Some j" using m by (simp add: s')
      from inv_map [OF st this] lt show ?thesis by (simp add: s' nth_append)
    qed
    then show "m \<noteq> 0" "j \<in> set (instancesOrdered s')" "instanceNum (heap s' ! j) = m" by blast+
  next
    fix k
    assume "k < length (heap s')" "k \<notin> set (instancesOrdered s')"
    then show "iclosed (heap s' ! k)"
      using inv_open [OF st, of k] by (auto simp: s' nth_append)
  qed
  moreover have "count_list (events s) SessionClosed = 0"
    using inv False by (auto simp: sess_inv_def)
  ultimately show ?thesis by (simp add: sess_inv_def s')
qed

lemma sess_inv_cong:
  assumes "heap s' = heap s" and "instances s' = instances s" and "instancesOrdered s' = instancesOrdered s"
    and "closed s' = closed s" and "events s' = events s"
  shows "sess_inv s' = sess_inv s"
  using assms by (simp add: sess_inv_def struct_inv_def)

lemma sess_inv_upd:
  assumes inv: "sess_inv s" and f: "keeps_lifecycle f"
  shows "sess_inv (upd_inst i f s)"
proof -
  have f': "instanceNum (f x) = instanceNum x" "iclosed (f x) = iclosed x" for x
    using f unfolding keeps_lifecycle_def by blast+
  have k: "instanceNum ((heap s)[i := f (heap s ! i)] ! j) = instanceNum (heap s ! j) \<and>
      iclosed ((heap s)[i := f (heap s ! i)] ! j) = iclosed (heap s ! j)" for j
    by (cases "i < length (heap s)"; cases "j = i") (simp_all add: f' list_update_beyond)
  have "heap (upd_inst i f s) = [] \<longleftrightarrow> heap s = []" by simp
  with inv show ?thesis by (simp add: sess_inv_def struct_inv_def k)
qed

lemma SubscribeRateLimits_frame:
  "SubscribeRateLimits cs s = Ok s' \<Longrightarrow> heap s' = heap s \<and> instances s' = instances s \<and>
     instancesOrdered s' = instancesOrdered s \<and> closed s' = closed s \<and> events s' = events s"
  by (induction cs s rule: SubscribeRateLimits.induct) (auto split: if_splits)

text \<open>A rate evaluation either leaves the life cycle alone or closes the session.\<close>

lemma EvaluateRateLimit_frame:
  assumes "EvaluateRateLimit now c s = Ok (st, s')"
  obtains t where "heap t = heap s" "instances t = instances s" "instancesOrdered t = instancesOrdered s"
    "closed t = closed s" "events t = events s" "s' = (if st = Disconnect then CloseSession t else t)"
proof (cases "AllUserInfoBitmask OServiceUserFlagBot s")
  case True
  then have "st = Clear" "s' = s" using assms by (simp_all add: EvaluateRateLimit_def)
  then show ?thesis by (intro that [of s]) simp_all
next
  case False
  then obtain X where X: "s' = (if st = Disconnect then CloseSession (s\<lparr>rateLimitStates := X\<rparr>)
      else s\<lparr>rateLimitStates := X\<rparr>)"
    using assms
    by (auto simp: EvaluateRateLimit_def Let_def bind_out_Ok_iff split: if_splits) metis+
  show ?thesis by (rule that [of "s\<lparr>rateLimitStates := X\<rparr>"]) (simp_all add: X)
qed

lemma sess_inv_step:
  assumes "sess_step s s'" and "sess_inv s"
  shows "sess_inv s'"
  using assms
proof (cases rule: sess_step.cases)
  case (step_add r)
  then show ?thesis using assms(2) sess_inv_AddInstance by blast
next
  case (step_rate now c st)
  from step_rate(1) obtain t where "heap t = heap s" "instances t = instances s"
    "instancesOrdered t = instancesOrdered s" "closed t = closed s" "events t = events s"
    and s': "s' = (if st = Disconnect then CloseSession t else t)"
    by (rule EvaluateRateLimit_frame)
  then have "sess_inv t" using assms(2) sess_inv_cong by blast
  then show ?thesis using CloseSession_all s' by auto
next
  case (step_observe now d)
  then obtain ps ls where "s' = s\<lparr>rateLimitStates := ps, lastObservedStates := ls\<rparr>"
    by (auto simp: ObserveRateChanges_def bind_out_Ok_iff)
  then show ?thesis using assms(2) sess_inv_cong [of s' s] by simp
next
  case (step_subscribe cs)
  then show ?thesis using assms(2) SubscribeRateLimits_frame sess_inv_cong by blast
next
  case (step_warn scale incr c r)
  then have "heap s' = heap s \<and> instances s' = instances s \<and> instancesOrdered s' = instancesOrdered s \<and>
      closed s' = closed s \<and> events s' = events s"
    by (auto simp: ScaleWarningAndRateLimit_def Let_def split: if_splits)
  then show ?thesis using assms(2) sess_inv_cong [of s' s] by simp
next
  case (step_classes now classes)
  then show ?thesis using assms(2) sess_inv_cong [of s' s] by (simp add: SetRateClasses_def Let_def)
next
  case (step_init e)
  then show ?thesis using assms(2) sess_inv_cong [of s' s] by simp
qed (use assms(2) in \<open>simp_all add: sess_inv_upd sess_inv_CloseInstance CloseSession_all\<close>)

lemma sess_reach_inv: "sess_reach s \<Longrightarrow> sess_inv s"
  by (induction rule: sess_reach.induct) (auto simp: sess_inv_New sess_inv_step)

text \<open>No step reopens a session, and only \<open>AddInstance\<close> adds a connection.\<close>

lemma step_frame:
  assumes inv: "sess_inv s" and step: "sess_step s s'"
  shows "(closed s \<longrightarrow> closed s' \<and> length (heap s') = length (heap s)) \<and>
    (length (heap s') = length (heap s) \<longrightarrow> set (instancesOrdered s') \<subseteq> set (instancesOrdered s))"
  using step
proof (cases rule: sess_step.cases)
  case (step_add r)
  then show ?thesis by (auto simp: AddInstance_def bind_out_Ok_iff Let_def split: if_splits)
next
  case (step_close i)
  show ?thesis
  proof (cases "iclosed (heap s ! i)")
    case True
    then show ?thesis using step_close by (simp add: CloseInstance_def)
  next
    case False
    have "set (remove1 i (instancesOrdered s)) \<subseteq> set (instancesOrdered s)" by (rule set_remove1_subset)
    then show ?thesis
      using CloseInstance_eq [OF sess_inv_struct [OF inv] step_close(2) False] step_close(1) by auto
  qed
next
  case (step_rate now c st)
  from step_rate(1) obtain t where t: "heap t = heap s" "instances t = instances s"
    "instancesOrdered t = instancesOrdered s" "closed t = closed s" "events t = events s"
    "s' = (if st = Disconnect then CloseSession t else t)"
    by (rule EvaluateRateLimit_frame)
  then have "sess_inv t" using inv sess_inv_cong [of t s] by simp
  then show ?thesis using CloseSession_all [of t] t by auto
next
  case (step_observe now d)
  then show ?thesis by (auto simp: ObserveRateChanges_def bind_out_Ok_iff)
next
  case (step_subscribe cs)
  then show ?thesis using SubscribeRateLimits_frame by (metis order_refl)
next
  case (step_warn scale incr c r)
  then show ?thesis by (auto simp: ScaleWarningAndRateLimit_def Let_def split: if_splits)
qed (use CloseSession_all [OF inv] in \<open>simp_all add: SetRateClasses_def Let_def\<close>)

section \<open>Queues, transactions and capabilities\<close>

text \<open>A run of sends and receives on one instance: what was accepted and what was received.\<close>

datatype 'm queue_op = QSend 'm | QRecv

fun queue_run :: "'m queue_op list \<Rightarrow> 'm SessionInstance \<Rightarrow> 'm list \<times> 'm list \<times> 'm SessionInstance" where
  "queue_run [] i = ([], [], i)"
| "queue_run (QSend m # ops) i =
     (case RelayMessageToInstance m i of (st, i') \<Rightarrow>
        (case queue_run ops i' of (acc, rcv, i'') \<Rightarrow> ((if st = SessSendOK then m # acc else acc), rcv, i'')))"
| "queue_run (QRecv # ops) i =
     (case receive_msg i of (r, i') \<Rightarrow>
        (case queue_run ops i' of (acc, rcv, i'') \<Rightarrow>
           (acc, (case r of Some m \<Rightarrow> m # rcv | None \<Rightarrow> rcv), i'')))"

lemma queue_run_laws:
  assumes "length (msgCh i) \<le> 1000"
  shows "case queue_run ops i of (acc, rcv, i') \<Rightarrow>
    rcv @ msgCh i' = msgCh i @ acc \<and> length (msgCh i') \<le> 1000 \<and> iclosed i' = iclosed i"
  using assms
proof (induction ops i rule: queue_run.induct)
  case (2 m ops i)
  show ?case
  proof (cases "iclosed i \<or> 1000 \<le> length (msgCh i)")
    case True
    then have "RelayMessageToInstance m i = (if iclosed i then SessSendClosed else SessQueueFull, i)"
      by (auto simp: RelayMessageToInstance_def)
    with 2 show ?thesis by (auto split: prod.splits)
  next
    case False
    then have r: "RelayMessageToInstance m i = (SessSendOK, i\<lparr>msgCh := msgCh i @ [m]\<rparr>)"
      by (simp add: RelayMessageToInstance_def)
    with "2.IH" [OF r [symmetric]] False show ?thesis by (auto split: prod.splits)
  qed
next
  case (3 ops i)
  show ?case
  proof (cases "msgCh i")
    case Nil
    then have "receive_msg i = (None, i)" by (simp add: receive_msg_def)
    with 3 show ?thesis by (auto split: prod.splits)
  next
    case (Cons m ms)
    then have r: "receive_msg i = (Some m, i\<lparr>msgCh := ms\<rparr>)" by (simp add: receive_msg_def)
    with "3.IH" [OF r [symmetric]] "3.prems" Cons show ?thesis by (auto split: prod.splits)
  qed
qed simp

lemma set_fold_insert: "set (fold List.insert xs ys) = set ys \<union> set xs"
  by (induction xs arbitrary: ys) auto

lemma distinct_fold_insert: "distinct ys \<Longrightarrow> distinct (fold List.insert xs ys)"
  by (induction xs arbitrary: ys) auto

lemma length_fold_insert: "length (fold List.insert xs ys) \<le> length ys + length xs"
proof (induction xs arbitrary: ys)
  case (Cons x xs)
  have "length (List.insert x ys) \<le> Suc (length ys)" by (simp add: List.insert_def)
  with Cons.IH [of "List.insert x ys"] show ?case by simp
qed simp

text \<open>The byte order of capabilities.\<close>

lemma bytes_le_total: "bytes_le a b \<or> bytes_le b a"
  by (induction a b rule: bytes_le.induct) auto

lemma bytes_le_antisym: "bytes_le a b \<Longrightarrow> bytes_le b a \<Longrightarrow> a = b"
proof (induction a b rule: bytes_le.induct)
  case (1 b)
  then show ?case by (cases b) auto
qed (auto split: if_splits)

lemma bytes_le_trans: "bytes_le a b \<Longrightarrow> bytes_le b c \<Longrightarrow> bytes_le a c"
proof (induction a b arbitrary: c rule: bytes_le.induct)
  case (3 a as b bs)
  then show ?case by (cases c) (auto split: if_splits)
qed auto

lemma set_insert_cap: "set (insert_cap c ds) = insert c (set ds)"
  by (induction c ds rule: insert_cap.induct) auto

definition caps_sorted :: "bytes list \<Rightarrow> bool" where
  "caps_sorted cs \<longleftrightarrow> sorted_wrt (\<lambda>a b. bytes_le a b \<and> a \<noteq> b) cs"

lemma caps_sorted_insert: "caps_sorted ds \<Longrightarrow> caps_sorted (insert_cap c ds)"
proof (induction c ds rule: insert_cap.induct)
  case (2 c d ds)
  consider "c = d" | "c \<noteq> d" "bytes_le c d" | "c \<noteq> d" "\<not> bytes_le c d" "bytes_le d c"
    using bytes_le_total by blast
  then show ?case
  proof cases
    case 2
    have "bytes_le c e \<and> c \<noteq> e" if "e \<in> set ds" for e
      using "2.prems" 2 that bytes_le_trans [of c d e] bytes_le_antisym [of c d]
      by (auto simp: caps_sorted_def)
    with "2.prems" 2 show ?thesis by (auto simp: caps_sorted_def)
  next
    case 3
    with "2.IH" "2.prems" show ?thesis by (auto simp: caps_sorted_def set_insert_cap)
  qed (use "2.prems" in simp)
qed (simp add: caps_sorted_def)

lemma fold_insert_cap:
  "caps_sorted ds \<Longrightarrow> caps_sorted (fold insert_cap cs ds) \<and> set (fold insert_cap cs ds) = set ds \<union> set cs"
  by (induction cs arbitrary: ds) (auto simp: caps_sorted_insert set_insert_cap)

section \<open>Properties\<close>

text \<open>A session with one open connection, the example of the witnesses.\<close>

definition sess_one :: "nat Session" where
  "sess_one = NewSession\<lparr>heap := [newInstance 1], instances := [1 \<mapsto> 0], instancesOrdered := [0]\<rparr>"

lemma nums_Cons: "nums = 1 # map word_of_nat [2..<256]"
  by (simp add: nums_def upt_conv_Cons)

lemma AddInstance_one: "AddInstance NewSession = Ok (Some 0, sess_one)"
proof -
  have "generateInstanceNum (NewSession :: nat Session) = Ok 1"
    by (simp add: generateInstanceNum_def nums_Cons NewSession_def)
  then show ?thesis by (simp add: AddInstance_def sess_one_def NewSession_def)
qed

lemma sess_reach_one: "sess_reach sess_one"
  by (rule reach_step [OF reach_new step_add [OF AddInstance_one]])

text \<open>
  C4: In every reachable state the open connections are exactly those in the map and in the ordered
  list, each under its own non-zero number; the session-closed callback has run once if the last
  connection has left, and has not run before that.
\<close>

theorem session_lifecycle:
  assumes "sess_reach s"
  shows "(\<forall>i < length (heap s). \<not> iclosed (heap s ! i) \<longleftrightarrow> i \<in> set (instancesOrdered s)) \<and>
    (\<forall>n i. instances s n = Some i \<longleftrightarrow>
       i < length (heap s) \<and> \<not> iclosed (heap s ! i) \<and> instanceNum (heap s ! i) = n) \<and>
    instances s 0 = None \<and>
    count_list (events s) SessionClosed =
      (if heap s \<noteq> [] \<and> (\<forall>x \<in> set (heap s). iclosed x) then 1 else 0)"
proof -
  have inv: "sess_inv s" by (rule sess_reach_inv [OF assms])
  note st = sess_inv_struct [OF inv]
  have "instances s n = Some i \<longleftrightarrow> i < length (heap s) \<and> \<not> iclosed (heap s ! i) \<and> instanceNum (heap s ! i) = n"
    for n i
    using inv_map [OF st, of n i] inv_ordered [OF st, of i] inv_open [OF st, of i] by auto
  moreover have "instances s 0 = None" using inv_map [OF st, of 0] by (cases "instances s 0") auto
  moreover have "instancesOrdered s = [] \<longleftrightarrow> (\<forall>x \<in> set (heap s). iclosed x)"
  proof
    assume "instancesOrdered s = []"
    then show "\<forall>x \<in> set (heap s). iclosed x" using inv_open [OF st] by (auto simp: in_set_conv_nth)
  next
    assume all: "\<forall>x \<in> set (heap s). iclosed x"
    have "i \<notin> set (instancesOrdered s)" for i using inv_ordered [OF st, of i] all by auto
    then show "instancesOrdered s = []" by (metis last_in_set)
  qed
  ultimately show ?thesis using inv inv_open [OF st] by (auto simp: sess_inv_def)
qed

lemma session_lifecycle_witness:
  "instances sess_one 1 = Some 0 \<and> instances sess_one 0 = None \<and> count_list (events sess_one) SessionClosed = 0"
  using session_lifecycle [OF sess_reach_one] by (simp add: sess_one_def NewSession_def newInstance_def)

text \<open>
  Once a session is closed it stays closed: no step reopens it or gives it another connection,
  and every further sign-on is refused.
\<close>

theorem closed_is_final:
  assumes "sess_reach s" and "closed s" and "sess_step s s'"
  shows "closed s' \<and> length (heap s') = length (heap s) \<and> AddInstance s' = Ok (None, s')"
proof -
  have "closed s' \<and> length (heap s') = length (heap s)"
    using step_frame [OF sess_reach_inv [OF assms(1)] assms(3)] assms(2) by blast
  then show ?thesis by (simp add: AddInstance_def)
qed

lemma closed_is_final_witness:
  "AddInstance (upd_inst 0 UnsetIdle (CloseSession sess_one)) =
     Ok (None, upd_inst 0 UnsetIdle (CloseSession sess_one))"
proof -
  have inv: "sess_inv sess_one" by (rule sess_reach_inv [OF sess_reach_one])
  note c = CloseSession_all [OF inv]
  have "sess_step (CloseSession sess_one) (upd_inst 0 UnsetIdle (CloseSession sess_one))"
    by (rule step_update) (use c in \<open>simp_all add: sess_one_def\<close>)
  from closed_is_final [OF reach_step [OF sess_reach_one step_close_all] _ this] c
  show ?thesis by blast
qed

text \<open>
  While a session is open, a new connection gets the smallest number from 1 to 255 that no
  connection uses; only with 255 connections does \<open>AddInstance\<close> panic.
\<close>

theorem instance_numbers:
  assumes "sess_reach s" and "\<not> closed s"
  shows "if InstanceCount s < 255
    then \<exists>s' n. AddInstance s = Ok (Some (length (heap s)), s') \<and> n \<noteq> 0 \<and> instances s n = None \<and>
      instances s' n = Some (length (heap s)) \<and>
      (\<forall>m. m \<noteq> 0 \<and> unat m < unat n \<longrightarrow> instances s m \<noteq> None)
    else AddInstance s = Panic"
proof -
  have st: "struct_inv s" using sess_reach_inv [OF assms(1)] by (rule sess_inv_struct)
  have count: "InstanceCount s = length (filter (\<lambda>n. instances s n \<noteq> None) nums)"
    by (simp add: InstanceCount_def instances_list_def map_filter_def)
  have len: "length nums = 255" by (simp add: nums_def)
  show ?thesis
  proof (cases "generateInstanceNum s")
    case (Ok n)
    then have n: "n \<noteq> 0" "instances s n = None" "\<forall>m. m \<noteq> 0 \<and> unat m < unat n \<longrightarrow> instances s m \<noteq> None"
      using generateInstanceNum_Ok by blast+
    then have "n \<in> set nums" by (simp add: set_nums)
    with n(2) have "InstanceCount s < 255"
      using length_filter_less [of n nums "\<lambda>n. instances s n \<noteq> None"] len count by simp
    with n assms(2) Ok show ?thesis by (auto simp: AddInstance_def Let_def)
  next
    case Panic
    then have "\<forall>n \<in> set nums. instances s n \<noteq> None"
      by (auto simp: generateInstanceNum_def find_None_iff split: option.splits)
    then have "filter (\<lambda>n. instances s n \<noteq> None) nums = nums" by (simp add: filter_id_conv)
    then have "InstanceCount s = 255" using count len by simp
    with Panic assms(2) show ?thesis by (simp add: AddInstance_def)
  qed (simp_all add: generateInstanceNum_def split: option.splits)
qed

lemma instance_numbers_witness:
  "\<exists>s' n. AddInstance sess_one = Ok (Some 1, s') \<and> n \<noteq> 0 \<and> instances sess_one n = None \<and>
     instances s' n = Some 1"
proof -
  have "InstanceCount sess_one = 1"
    using InstanceCount_eq [OF sess_inv_struct [OF sess_reach_inv [OF sess_reach_one]]]
    by (simp add: sess_one_def)
  moreover have "\<not> closed sess_one" "length (heap sess_one) = 1"
    by (simp_all add: sess_one_def NewSession_def)
  ultimately show ?thesis using instance_numbers [OF sess_reach_one] by auto
qed

text \<open>
  A rate evaluation that ends in \<open>Disconnect\<close> closes the session with all its connections; any
  other result leaves the connections alone and remembers whether the class is limited. A session
  whose connections are all bots is never limited.
\<close>

theorem rate_disconnect_closes:
  assumes "sess_reach s" and "EvaluateRateLimit now c s = Ok (st, s')"
  shows "(if st = Disconnect then closed s' \<and> Instances s' = [] \<and> (\<forall>x \<in> set (heap s'). iclosed x)
      else heap s' = heap s \<and> instancesOrdered s' = instancesOrdered s \<and> closed s' = closed s) \<and>
    (AllUserInfoBitmask OServiceUserFlagBot s \<longrightarrow> st = Clear \<and> s' = s)"
proof -
  from assms(2) obtain t where t: "heap t = heap s" "instances t = instances s"
    "instancesOrdered t = instancesOrdered s" "closed t = closed s" "events t = events s"
    "s' = (if st = Disconnect then CloseSession t else t)"
    by (rule EvaluateRateLimit_frame)
  then have "sess_inv t" using sess_reach_inv [OF assms(1)] sess_inv_cong [of t s] by simp
  note c = CloseSession_all [OF this]
  have "\<forall>x \<in> set (heap (CloseSession t)). iclosed x"
    using c inv_open [OF sess_inv_struct, of "CloseSession t"] by (auto simp: in_set_conv_nth)
  moreover have "st = Clear \<and> s' = s" if "AllUserInfoBitmask OServiceUserFlagBot s"
    using assms(2) that by (simp add: EvaluateRateLimit_def)
  ultimately show ?thesis using c t by (auto simp: Instances_def)
qed

text \<open>A session under the default classes whose client is silent for 2147483648 ms is closed.\<close>

definition sess_rated :: "nat Session" where
  "sess_rated = SetRateClasses 0 DefaultRateLimitClasses sess_one"

lemma sess_reach_rated: "sess_reach sess_rated"
  unfolding sess_rated_def by (rule reach_step [OF sess_reach_one step_classes])

lemma CheckRateLimit_silent:
  "\<exists>a. CheckRateLimit 0 2147483648000000 (DefaultRateLimitClasses ! 0) 6000 False = Ok (Disconnect, a)"
  by (simp add: CheckRateLimit_def DefaultRateLimitClasses_def Let_def wrap32_def milliseconds_def
      time_sub_def signed_divide_int_def rate_status_def)

lemma rate_disconnect_closes_witness:
  "\<exists>s'. EvaluateRateLimit 2147483648000000 1 sess_rated = Ok (Disconnect, s') \<and> closed s' \<and> Instances s' = []"
proof -
  have bot: "\<not> AllUserInfoBitmask OServiceUserFlagBot sess_rated"
    by (simp add: AllUserInfoBitmask_def Instances_def sess_rated_def SetRateClasses_def sess_one_def
        newInstance_def user_flags Let_def)
  have rc: "rateLimitStates sess_rated ! 0 = \<lparr>RC = DefaultRateLimitClasses ! 0, CurrentLevel = 6000,
      LastTime = 0, CurrentStatus = Some Clear, Subscribed = False, LimitedNow = False\<rparr>"
    and len: "length (rateLimitStates sess_rated) = 5"
    by (simp_all add: sess_rated_def SetRateClasses_def sess_one_def NewSession_def Let_def
        DefaultRateLimitClasses_def zero_rate_state_def numeral_eq_Suc)
  obtain a where a: "CheckRateLimit 0 2147483648000000 (DefaultRateLimitClasses ! 0) 6000 False = Ok (Disconnect, a)"
    using CheckRateLimit_silent by blast
  have ci: "class_index 1 = 0" by (simp add: class_index_def)
  obtain s' where "EvaluateRateLimit 2147483648000000 1 sess_rated = Ok (Disconnect, s')"
    using bot len by (simp add: EvaluateRateLimit_def ci rc a Let_def)
  with rate_disconnect_closes [OF sess_reach_rated this] show ?thesis by auto
qed

text \<open>
  C38: The message queue of a connection is a bounded FIFO: over any run of sends and receives, what
  was received followed by what is still queued is what was queued before followed by what was
  accepted, at most 1000 messages wait, and a closed connection accepts nothing.
\<close>

theorem message_queue_fifo:
  assumes "length (msgCh i) \<le> 1000"
  shows "case queue_run ops i of (acc, rcv, i') \<Rightarrow>
    rcv @ msgCh i' = msgCh i @ acc \<and> length (msgCh i') \<le> 1000 \<and>
    (RelayMessageToInstance m i' =
      (if iclosed i then (SessSendClosed, i')
       else if length (msgCh i') = 1000 then (SessQueueFull, i')
       else (SessSendOK, i'\<lparr>msgCh := msgCh i' @ [m]\<rparr>)))"
  using queue_run_laws [OF assms, of ops] by (auto simp: RelayMessageToInstance_def split: prod.splits)

lemma message_queue_fifo_witness:
  "case queue_run [QSend 1, QSend 2, QRecv] (newInstance 1 :: nat SessionInstance) of (acc, rcv, i') \<Rightarrow>
     rcv @ msgCh i' = acc \<and> acc = [1, 2] \<and> rcv = [1]"
  using message_queue_fifo [where i = "newInstance 1 :: nat SessionInstance" and ops = "[QSend 1, QSend 2, QRecv]"]
  by (simp add: newInstance_def RelayMessageToInstance_def receive_msg_def)

text \<open>A transaction: the calls to \<open>NotifyTxn\<close> between its begin and its end.\<close>

definition txn :: "IdentScreenName list list \<Rightarrow> 'm SessionInstance \<Rightarrow> 'm SessionInstance" where
  "txn calls i = fold (\<lambda>names i. snd (NotifyTxn names i)) calls (BeginNotifyTxn i)"

lemma fold_NotifyTxn:
  assumes "notifyTxnActive i" and "distinct (notifyTxnNames i)" and "length (notifyTxnNames i) \<le> 1000"
  shows "let i' = fold (\<lambda>names i. snd (NotifyTxn names i)) calls i in
    notifyTxnActive i' \<and> distinct (notifyTxnNames i') \<and> length (notifyTxnNames i') \<le> 1000 \<and>
    set (notifyTxnNames i') \<subseteq> set (notifyTxnNames i) \<union> set (concat calls) \<and>
    (length (notifyTxnNames i) + length (concat calls) \<le> 1000 \<longrightarrow>
       set (notifyTxnNames i') = set (notifyTxnNames i) \<union> set (concat calls))"
  using assms
proof (induction calls arbitrary: i)
  case (Cons names calls)
  let ?i = "snd (NotifyTxn names i)"
  show ?case
  proof (cases "1000 < length (notifyTxnNames i) + length names")
    case True
    then have "?i = i" using Cons.prems(1) by (simp add: NotifyTxn_def maxNotifyTxnNames_def)
    then show ?thesis using Cons.IH [OF Cons.prems] True by (auto simp: Let_def)
  next
    case False
    then have i: "notifyTxnActive ?i" "notifyTxnNames ?i = fold List.insert names (notifyTxnNames i)"
      using Cons.prems(1) by (simp_all add: NotifyTxn_def maxNotifyTxnNames_def)
    have len: "length (notifyTxnNames ?i) \<le> length (notifyTxnNames i) + length names"
      unfolding i(2) by (rule length_fold_insert)
    have "distinct (notifyTxnNames ?i)" using Cons.prems(2) by (simp add: i(2) distinct_fold_insert)
    from Cons.IH [OF i(1) this] len False
    have "let i' = fold (\<lambda>names i. snd (NotifyTxn names i)) calls ?i in
      notifyTxnActive i' \<and> distinct (notifyTxnNames i') \<and> length (notifyTxnNames i') \<le> 1000 \<and>
      set (notifyTxnNames i') \<subseteq> set (notifyTxnNames ?i) \<union> set (concat calls) \<and>
      (length (notifyTxnNames ?i) + length (concat calls) \<le> 1000 \<longrightarrow>
        set (notifyTxnNames i') = set (notifyTxnNames ?i) \<union> set (concat calls))"
      by simp
    with len show ?thesis by (simp add: Let_def i(2) set_fold_insert) blast
  qed
qed (simp add: Let_def)

text \<open>
  Ending a notify transaction returns each name once, only names that were handed to it, at most
  1000, and all of them when no more than 1000 were handed over; the transaction is then over.
\<close>

theorem notify_transaction:
  "let ((should, names), i') = EndNotifyTxn (txn calls i) in
     distinct names \<and> length names \<le> 1000 \<and> set names \<subseteq> set (concat calls) \<and>
     (if length (concat calls) \<le> 1000 then set names = set (concat calls) else True) \<and>
     \<not> notifyTxnActive i' \<and> fst (NotifyTxn ns i') = Some errNotifyTxnNotActive"
  using fold_NotifyTxn [of "BeginNotifyTxn i" calls]
  by (simp add: txn_def EndNotifyTxn_def BeginNotifyTxn_def Let_def NotifyTxn_def)

text \<open>
  A warning is refused beyond 1000 and never leaves the range 0 to 1000; but the new level is
  sent to a channel of capacity one while the session is locked, so a second warning that arrives
  before the reader took the first one blocks forever unless the reader needs no lock: the call
  returns exactly when the channel is empty.
\<close>

theorem warning_blocks_when_unread:
  assumes "unat (warning s) \<le> 1000" and "class_index c < length (rateLimitStates s)"
    and "- 1000 \<le> incr" and "incr \<le> 1000"
  shows "if int (unat (warning s)) + incr > 1000
    then ScaleWarningAndRateLimit scale incr c s = Ok ((False, 0), s)
    else if warningCh s \<noteq> [] then ScaleWarningAndRateLimit scale incr c s = Hang
    else \<exists>s'. ScaleWarningAndRateLimit scale incr c s = Ok ((True, warning s'), s') \<and>
      int (unat (warning s')) = max 0 (int (unat (warning s)) + incr) \<and>
      (if int (unat (warning s')) + incr' > 1000 then True
       else ScaleWarningAndRateLimit scale incr' c s' = Hang)"
proof (cases "int (unat (warning s)) + incr > 1000 \<or> warningCh s \<noteq> []")
  case True
  then show ?thesis using assms by (auto simp: ScaleWarningAndRateLimit_def Let_def)
next
  case False
  let ?n = "int (unat (warning s)) + incr"
  let ?w = "if ?n < 0 then 0 else word_of_int ?n :: u16"
  have w: "int (unat ?w) = max 0 ?n"
  proof (cases "?n < 0")
    case neg: False
    then obtain k where k: "?n = int k" by (metis not_less zero_le_imp_eq_int)
    then have "k < 65536" using False by simp
    then have "unat (word_of_nat k :: u16) = k" by (simp add: unat_of_nat)
    then show ?thesis using k by simp
  qed simp
  let ?s = "s\<lparr>warning := ?w, rateLimitStates := (rateLimitStates s)[class_index c :=
      (rateLimitStates s ! class_index c)\<lparr>RC := scale_class scale incr
        (RC (rateLimitStatesOriginal s ! class_index c)) (RC (rateLimitStates s ! class_index c))\<rparr>],
      warningCh := [?w]\<rparr>"
  have first: "ScaleWarningAndRateLimit scale incr c s = Ok ((True, ?w), ?s)"
    using False assms by (simp add: ScaleWarningAndRateLimit_def Let_def)
  have "int (unat (warning ?s)) + incr' > 1000 \<or> ScaleWarningAndRateLimit scale incr' c ?s = Hang"
    using assms(2) by (simp add: ScaleWarningAndRateLimit_def Let_def)
  moreover have "warning ?s = ?w" by simp
  ultimately have "ScaleWarningAndRateLimit scale incr c s = Ok ((True, warning ?s), ?s) \<and>
      int (unat (warning ?s)) = max 0 ?n \<and>
      (if int (unat (warning ?s)) + incr' > 1000 then True
       else ScaleWarningAndRateLimit scale incr' c ?s = Hang)"
    using first w by (simp only:) auto
  then show ?thesis using False by auto
qed

lemma warning_blocks_when_unread_witness:
  "\<exists>s'. ScaleWarningAndRateLimit (\<lambda>_ _. 0) 100 3 (NewSession :: nat Session) = Ok ((True, warning s'), s') \<and>
     int (unat (warning s')) = 100 \<and>
     ScaleWarningAndRateLimit (\<lambda>_ _. 0) 200 3 s' = Hang"
  using warning_blocks_when_unread [of NewSession 3 100 "\<lambda>_ _. 0" 200]
  by (force simp: NewSession_def class_index_def)

text \<open>
  The capabilities of a session are the union of those of its connections, each once and in
  byte order.
\<close>

theorem caps_union:
  assumes "sess_reach s"
  shows "set (Caps s) = (\<Union>i \<in> set (Instances s). set (capabilities i)) \<and>
    sorted_wrt (\<lambda>a b. bytes_le a b \<and> a \<noteq> b) (Caps s)"
proof -
  have st: "struct_inv s" using sess_reach_inv [OF assms] by (rule sess_inv_struct)
  have "caps_sorted []" by (simp add: caps_sorted_def)
  from fold_insert_cap [OF this] show ?thesis
    by (simp add: Caps_def Instances_def set_instances_list [OF st] caps_sorted_def)
qed

lemma caps_union_witness: "set (Caps sess_one) = {} \<and> Caps sess_one = []"
  using caps_union [OF sess_reach_one] by (simp add: Instances_def sess_one_def newInstance_def)

end
