(* ===== verification/SessionManager.thy ===== *)
theory SessionManager
  imports Sessions "HOL-Library.AList"
begin

text \<open>
  The session registry (\<open>state/session_manager.go\<close>, \<open>InMemorySessionManager\<close>): which session an
  account has, how a sign-on joins or replaces it, and how messages reach its connections. Sign-ons
  run concurrently; each is a caller with a program counter, whose steps are the stretches of
  \<open>AddSession\<close> between two points where other goroutines can interfere.
\<close>

section \<open>The registry\<close>

text \<open>
  A slot and its session are created together and never re-paired, so a slot holds its session and
  the index of a slot stands for both pointers. \<open>removed\<close> says that the channel of that name is closed.
\<close>

record 'm sessionSlot =
  slot_name :: IdentScreenName
  slot_sess :: "'m Session"
  removed :: bool
  multiSession :: bool

record userLock =
  lock_held :: bool
  refCount :: nat

text \<open>The order of the list \<open>store\<close> stands for the order in which Go happens to iterate over the map.\<close>

record 'm SessionManager =
  slots :: "'m sessionSlot list"
  store :: "(IdentScreenName \<times> nat) list"
  userLocks :: "IdentScreenName \<Rightarrow> userLock option"
  maxConcurrentSessions :: nat

definition DefaultMaxConcurrentSessions :: nat where "DefaultMaxConcurrentSessions = 5"

definition NewInMemorySessionManager :: "'m SessionManager" where
  "NewInMemorySessionManager = \<lparr>slots = [], store = [], userLocks = (\<lambda>_. None),
     maxConcurrentSessions = DefaultMaxConcurrentSessions\<rparr>"

definition slot_of :: "'m SessionManager \<Rightarrow> nat \<Rightarrow> 'm sessionSlot" where
  "slot_of M k = slots M ! k"

definition sess_of :: "'m SessionManager \<Rightarrow> nat \<Rightarrow> 'm Session" where
  "sess_of M k = slot_sess (slot_of M k)"

definition upd_sess :: "nat \<Rightarrow> ('m Session \<Rightarrow> 'm Session) \<Rightarrow> 'm SessionManager \<Rightarrow> 'm SessionManager" where
  "upd_sess k f M = M\<lparr>slots := (slots M)[k := (slot_of M k)\<lparr>slot_sess := f (sess_of M k)\<rparr>]\<rparr>"

text \<open>
  \<open>lockUser\<close> announces the caller under \<open>userLocksMutex\<close> and then waits for the lock itself. The entry
  is not deleted in between, since it counts the caller.
\<close>

definition lockUser_announce :: "IdentScreenName \<Rightarrow> 'm SessionManager \<Rightarrow> 'm SessionManager" where
  "lockUser_announce sn M =
     (let l = (case userLocks M sn of None \<Rightarrow> \<lparr>lock_held = False, refCount = 0\<rparr> | Some l \<Rightarrow> l)
      in M\<lparr>userLocks := (userLocks M)(sn \<mapsto> l\<lparr>refCount := refCount l + 1\<rparr>)\<rparr>)"

definition lockUser_acquire :: "IdentScreenName \<Rightarrow> 'm SessionManager \<Rightarrow> 'm SessionManager option" where
  "lockUser_acquire sn M =
     (case userLocks M sn of
        None \<Rightarrow> None
      | Some l \<Rightarrow>
          if lock_held l then None
          else Some (M\<lparr>userLocks := (userLocks M)(sn \<mapsto> l\<lparr>lock_held := True\<rparr>)\<rparr>))"

definition unlockUser :: "IdentScreenName \<Rightarrow> 'm SessionManager \<Rightarrow> 'm SessionManager" where
  "unlockUser sn M =
     (case userLocks M sn of
        None \<Rightarrow> M
      | Some l \<Rightarrow>
          let l' = l\<lparr>lock_held := False, refCount := refCount l - 1\<rparr>
          in M\<lparr>userLocks := (userLocks M)(sn := if refCount l' = 0 then None else Some l')\<rparr>)"

definition findRec :: "IdentScreenName \<Rightarrow> 'm SessionManager \<Rightarrow> nat option" where
  "findRec sn M = find (\<lambda>k. slot_name (slot_of M k) = sn) (map snd (store M))"

text \<open>\<open>newSession\<close>; \<open>cfg\<close> is the caller's configuration. A nil instance would be dereferenced.\<close>

definition newSession ::
    "('m Session \<Rightarrow> 'm Session) \<Rightarrow> IdentScreenName \<Rightarrow> bool \<Rightarrow> 'm SessionManager \<Rightarrow>
       ((nat \<times> nat) \<times> 'm SessionManager) outcome" where
  "newSession cfg sn multi M =
     bind_out (AddInstance (cfg NewSession)) (\<lambda>(inst, sess).
       case inst of
         None \<Rightarrow> Panic
       | Some i \<Rightarrow>
           let k = length (slots M) in
           Ok ((k, i), M\<lparr>slots := slots M @ [\<lparr>slot_name = sn, slot_sess = sess, removed = False,
             multiSession = multi\<rparr>], store := AList.update sn k (store M)\<rparr>))"

definition RemoveSession :: "nat \<Rightarrow> 'm SessionManager \<Rightarrow> 'm SessionManager" where
  "RemoveSession k M =
     (let sn = slot_name (slot_of M k) in
      case map_of (store M) sn of
        None \<Rightarrow> M
      | Some j \<Rightarrow>
          if j = k
          then M\<lparr>store := AList.delete sn (store M), slots := (slots M)[k := (slot_of M k)\<lparr>removed := True\<rparr>]\<rparr>
          else M)"

definition RetrieveSession :: "IdentScreenName \<Rightarrow> 'm SessionManager \<Rightarrow> nat option" where
  "RetrieveSession sn M =
     (case map_of (store M) sn of
        None \<Rightarrow> None
      | Some k \<Rightarrow> if HasLiveInstances (sess_of M k) then Some k else None)"

definition retrieveByScreenNames :: "IdentScreenName list \<Rightarrow> 'm SessionManager \<Rightarrow> nat list" where
  "retrieveByScreenNames sns M = List.map_filter (\<lambda>sn. findRec sn M) sns"

definition Empty :: "'m SessionManager \<Rightarrow> bool" where
  "Empty M \<longleftrightarrow> length (store M) = 0"

definition AllSessions :: "'m SessionManager \<Rightarrow> nat list" where
  "AllSessions M = filter (\<lambda>k. HasLiveInstances (sess_of M k)) (map snd (store M))"

section \<open>Relaying messages\<close>

text \<open>
  Closing the last connection of a session runs its teardown callback, the event \<open>SessionClosed\<close>: this
  is how to tell that the callback ran in a call that took the session from \<open>s\<close> to \<open>s'\<close>. The sign-off
  the callback does (\<open>UnregisterBuddyList\<close>, \<open>RemoveSession\<close> and so on) is no part of the functions here:
  a caller that depends on it looks for the event (\<open>relay_locked\<close>, \<open>AddSession_step\<close>, the chat rooms).
\<close>

definition torn_down :: "'m Session \<Rightarrow> 'm Session \<Rightarrow> bool" where
  "torn_down s s' \<longleftrightarrow> count_list (events s) SessionClosed < count_list (events s') SessionClosed"


text \<open>One connection gets the message; one whose queue is full is closed.\<close>

definition relay_to :: "'m \<Rightarrow> nat \<Rightarrow> 'm Session \<Rightarrow> 'm Session" where
  "relay_to msg i s =
     (case RelayMessageToInstance msg (heap s ! i) of
        (SessQueueFull, _) \<Rightarrow> CloseInstance i s
      | (_, x) \<Rightarrow> upd_inst i (\<lambda>_. x) s)"

definition maybeRelayMessage :: "'m \<Rightarrow> 'm Session \<Rightarrow> 'm Session" where
  "maybeRelayMessage msg s =
     fold (\<lambda>i s. if \<not> live (heap s ! i) then s else relay_to msg i s) (instancesOrdered s) s"

definition maybeRelayMessageActiveOnly :: "'m \<Rightarrow> 'm Session \<Rightarrow> 'm Session" where
  "maybeRelayMessageActiveOnly msg s =
     fold (\<lambda>i s. if \<not> active (heap s ! i) then s else relay_to msg i s) (instancesOrdered s) s"

definition RelayToSelf :: "'m \<Rightarrow> nat \<Rightarrow> 'm Session \<Rightarrow> 'm Session" where
  "RelayToSelf msg i s = relay_to msg i s"

definition RelayToOtherInstances :: "'m \<Rightarrow> nat \<Rightarrow> 'm Session \<Rightarrow> 'm Session" where
  "RelayToOtherInstances msg j s =
     fold (\<lambda>i s. if j = i \<or> \<not> live (heap s ! i) then s else relay_to msg i s) (instancesOrdered s) s"

definition RelayToScreenName :: "IdentScreenName \<Rightarrow> 'm \<Rightarrow> 'm SessionManager \<Rightarrow> 'm SessionManager" where
  "RelayToScreenName sn msg M =
     (case RetrieveSession sn M of None \<Rightarrow> M | Some k \<Rightarrow> upd_sess k (maybeRelayMessage msg) M)"

definition RelayToScreenNameActiveOnly :: "IdentScreenName \<Rightarrow> 'm \<Rightarrow> 'm SessionManager \<Rightarrow> 'm SessionManager" where
  "RelayToScreenNameActiveOnly sn msg M =
     (case RetrieveSession sn M of None \<Rightarrow> M | Some k \<Rightarrow> upd_sess k (maybeRelayMessageActiveOnly msg) M)"

definition RelayToScreenNames :: "IdentScreenName list \<Rightarrow> 'm \<Rightarrow> 'm SessionManager \<Rightarrow> 'm SessionManager" where
  "RelayToScreenNames sns msg M =
     fold (\<lambda>k. upd_sess k (maybeRelayMessage msg)) (retrieveByScreenNames sns M) M"

text \<open>
  Relaying with \<open>mapMutex\<close> held for reading: if a full queue closes the last connection of a session,
  the session's teardown runs inside the loop, and it ends in \<open>RemoveSession\<close>, which waits for the
  same mutex for writing: \<open>Hang\<close>.
\<close>

fun relay_locked :: "'m \<Rightarrow> nat list \<Rightarrow> 'm SessionManager \<Rightarrow> 'm SessionManager outcome" where
  "relay_locked msg [] M = Ok M"
| "relay_locked msg (k # ks) M =
     (let s = maybeRelayMessage msg (sess_of M k) in
      if torn_down (sess_of M k) s then Hang else relay_locked msg ks (upd_sess k (\<lambda>_. s) M))"

definition RelayToAll :: "'m \<Rightarrow> 'm SessionManager \<Rightarrow> 'm SessionManager outcome" where
  "RelayToAll msg M = relay_locked msg (map snd (store M)) M"

section \<open>Signing on\<close>

text \<open>
  How a call of \<open>AddSession\<close> ends early: with one of its two errors, or with a panic of the teardown
  callback it runs in \<open>CloseSession\<close>, which unwinds through the deferred \<open>unlockUser\<close> into the caller.
\<close>

datatype add_error = ErrMaxConcurrentSessionsReached | ErrContextDone | TeardownPanic

text \<open>
  Where a call of \<open>AddSession\<close> stands. \<open>Found\<close>, \<open>Joining\<close> and \<open>Adding\<close> are on the way with the slot that
  was found, \<open>Closing\<close> is inside the teardown callback of the session it has closed (the flag says
  whether it goes on to wait for the removal), \<open>Waiting\<close> waits for the removal of a slot; \<open>Unlocking\<close>
  runs the deferred \<open>unlockUser\<close>. \<open>Panicked\<close> is a panic of the code of \<open>AddSession\<close> itself.
\<close>

datatype pc =
    WaitLock | Locked | Found nat | Joining nat | Closing nat bool | Adding nat | Waiting nat | Creating
  | Unlocking "add_error + nat \<times> nat" | Finished "add_error + nat \<times> nat" | Panicked

text \<open>
  The goroutine that closes the last connection of a session runs its teardown callback, which the
  servers install. It is code outside the registry: a call of it may be still running, return or
  panic, and what it does to the registry meanwhile are steps of its environment.
\<close>

datatype teardown = TeardownRuns | TeardownReturns | TeardownPanics

text \<open>Where a sign-on goes on once \<open>CloseSession\<close> has returned, and where it is right after closing the session.\<close>

definition after_close :: "nat \<Rightarrow> bool \<Rightarrow> pc" where
  "after_close k await = (if await then Waiting k else Creating)"

definition closing :: "nat \<Rightarrow> bool \<Rightarrow> 'm SessionManager \<Rightarrow> pc" where
  "closing k await M =
     (if torn_down (sess_of M k) (CloseSession (sess_of M k)) then Closing k await else after_close k await)"

text \<open>
  One step of \<open>AddSession\<close>, \<open>None\<close> where it blocks. \<open>expired\<close> selects the \<open>ctx.Done()\<close> branch of a
  \<open>select\<close>; \<open>td\<close> is what the teardown callback does. \<open>CloseSession\<close> calls it if this goroutine closes the
  last connection; if another one has, \<open>AddSession\<close> goes straight on.
\<close>

fun AddSession_step ::
    "('m Session \<Rightarrow> 'm Session) \<Rightarrow> bool \<Rightarrow> teardown \<Rightarrow> IdentScreenName \<Rightarrow> bool \<Rightarrow> pc \<Rightarrow> 'm SessionManager \<Rightarrow>
       (pc \<times> 'm SessionManager) option" where
  "AddSession_step cfg expired td sn multi WaitLock M =
     (case lockUser_acquire sn M of None \<Rightarrow> None | Some M' \<Rightarrow> Some (Locked, M'))"
| "AddSession_step cfg expired td sn multi Locked M =
     (case findRec sn M of None \<Rightarrow> Some (Creating, M) | Some k \<Rightarrow> Some (Found k, M))"
| "AddSession_step cfg expired td sn multi (Found k) M =
     (if closed (sess_of M k) then Some (Waiting k, M) else Some (Joining k, M))"
| "AddSession_step cfg expired td sn multi (Joining k) M =
     (if multi then
        (if \<not> multiSession (slot_of M k) then Some (closing k False M, upd_sess k CloseSession M)
         else if InstanceCount (sess_of M k) \<ge> maxConcurrentSessions M
         then Some (Unlocking (Inl ErrMaxConcurrentSessionsReached), M)
         else Some (Adding k, M))
      else Some (closing k True M, upd_sess k CloseSession M))"
| "AddSession_step cfg expired td sn multi (Closing k await) M =
     (case td of
        TeardownRuns \<Rightarrow> None
      | TeardownReturns \<Rightarrow> Some (after_close k await, M)
      | TeardownPanics \<Rightarrow> Some (Unlocking (Inl TeardownPanic), M))"
| "AddSession_step cfg expired td sn multi (Adding k) M =
     (case AddInstance (sess_of M k) of
        Ok (Some i, s) \<Rightarrow> Some (Unlocking (Inr (k, i)), upd_sess k (\<lambda>_. s) M)
      | Ok (None, _) \<Rightarrow> Some (Waiting k, M)
      | _ \<Rightarrow> Some (Panicked, M))"
| "AddSession_step cfg expired td sn multi (Waiting k) M =
     (if expired then Some (Unlocking (Inl ErrContextDone), M)
      else if removed (slot_of M k) then Some (Creating, M)
      else None)"
| "AddSession_step cfg expired td sn multi Creating M =
     (case newSession cfg sn multi M of
        Ok (inst, M') \<Rightarrow> Some (Unlocking (Inr inst), M')
      | _ \<Rightarrow> Some (Panicked, M))"
| "AddSession_step cfg expired td sn multi (Unlocking r) M = Some (Finished r, unlockUser sn M)"
| "AddSession_step cfg expired td sn multi (Finished r) M = None"
| "AddSession_step cfg expired td sn multi Panicked M = None"

text \<open>
  The registry with the calls of \<open>AddSession\<close> made so far. The environment's steps: sessions change
  under their own methods, but only \<open>AddSession\<close> adds connections; and \<open>RemoveSession\<close> may be called for
  any session at any time, by the teardown of one that is closed or, in the gateway for old clients,
  for one that is still open. The configuration a caller passes sets client data only.
\<close>

record caller =
  c_name :: IdentScreenName
  c_multi :: bool
  c_pc :: pc

record 'm registry =
  mgr :: "'m SessionManager"
  callers :: "caller list"

definition cfg_ok :: "('m Session \<Rightarrow> 'm Session) \<Rightarrow> bool" where
  "cfg_ok cfg \<longleftrightarrow> heap (cfg NewSession) = [] \<and> instances (cfg NewSession) = (\<lambda>_. None) \<and>
     instancesOrdered (cfg NewSession) = [] \<and> \<not> closed (cfg NewSession) \<and> events (cfg NewSession) = []"

inductive reg_step :: "'m registry \<Rightarrow> 'm registry \<Rightarrow> bool" where
  reg_call: "reg_step S (S\<lparr>mgr := lockUser_announce sn (mgr S),
     callers := callers S @ [\<lparr>c_name = sn, c_multi = multi, c_pc = WaitLock\<rparr>]\<rparr>)"
| reg_add: "c < length (callers S) \<Longrightarrow> cfg_ok cfg \<Longrightarrow>
     AddSession_step cfg expired td (c_name (callers S ! c)) (c_multi (callers S ! c)) (c_pc (callers S ! c)) (mgr S)
       = Some (p, M) \<Longrightarrow>
     reg_step S (S\<lparr>mgr := M, callers := (callers S)[c := (callers S ! c)\<lparr>c_pc := p\<rparr>]\<rparr>)"
| reg_session: "k < length (slots (mgr S)) \<Longrightarrow> sess_step (sess_of (mgr S) k) s' \<Longrightarrow>
     length (heap s') = length (heap (sess_of (mgr S) k)) \<Longrightarrow>
     reg_step S (S\<lparr>mgr := upd_sess k (\<lambda>_. s') (mgr S)\<rparr>)"
| reg_remove: "k < length (slots (mgr S)) \<Longrightarrow>
     reg_step S (S\<lparr>mgr := RemoveSession k (mgr S)\<rparr>)"

inductive reg_reach :: "'m registry \<Rightarrow> bool" where
  reg_new: "reg_reach \<lparr>mgr = NewInMemorySessionManager, callers = []\<rparr>"
| reg_next: "reg_reach S \<Longrightarrow> reg_step S S' \<Longrightarrow> reg_reach S'"

section \<open>The invariant\<close>

text \<open>
  Every session that is neither closed nor removed is the registered one of its account; a session has
  at most five connections, and one if its client cannot share it.
\<close>

definition slot_ok :: "'m SessionManager \<Rightarrow> nat \<Rightarrow> bool" where
  "slot_ok M k \<longleftrightarrow> sess_inv (sess_of M k) \<and>
     (\<not> closed (sess_of M k) \<longrightarrow> \<not> removed (slot_of M k) \<longrightarrow>
        map_of (store M) (slot_name (slot_of M k)) = Some k) \<and>
     length (instancesOrdered (sess_of M k)) \<le> (if multiSession (slot_of M k) then 5 else 1)"

definition store_ok :: "'m SessionManager \<Rightarrow> bool" where
  "store_ok M \<longleftrightarrow> distinct (map fst (store M)) \<and>
     (\<forall>sn k. map_of (store M) sn = Some k \<longrightarrow>
        k < length (slots M) \<and> slot_name (slot_of M k) = sn \<and> \<not> removed (slot_of M k))"

definition mgr_ok :: "'m SessionManager \<Rightarrow> bool" where
  "mgr_ok M \<longleftrightarrow> (\<forall>k < length (slots M). slot_ok M k) \<and> store_ok M \<and> maxConcurrentSessions M = 5"

text \<open>What a caller relies on while it holds the lock of its account.\<close>

definition target :: "IdentScreenName \<Rightarrow> nat \<Rightarrow> 'm SessionManager \<Rightarrow> bool" where
  "target sn k M \<longleftrightarrow> k < length (slots M) \<and> slot_name (slot_of M k) = sn \<and>
     (map_of (store M) sn = Some k \<or> map_of (store M) sn = None \<and> removed (slot_of M k))"

fun pc_ok :: "IdentScreenName \<Rightarrow> pc \<Rightarrow> 'm SessionManager \<Rightarrow> bool" where
  "pc_ok sn (Found k) M = target sn k M"
| "pc_ok sn (Joining k) M = target sn k M"
| "pc_ok sn (Adding k) M = (target sn k M \<and> multiSession (slot_of M k) \<and>
     length (instancesOrdered (sess_of M k)) < 5)"
| "pc_ok sn (Closing k await) M = (target sn k M \<and> closed (sess_of M k))"
| "pc_ok sn (Waiting k) M = (target sn k M \<and> closed (sess_of M k))"
| "pc_ok sn Creating M = (\<forall>k. map_of (store M) sn = Some k \<longrightarrow> closed (sess_of M k))"
| "pc_ok sn Panicked M = False"
| "pc_ok sn _ M = True"

fun inside :: "pc \<Rightarrow> bool" where
  "inside WaitLock = False"
| "inside (Finished _) = False"
| "inside Panicked = False"
| "inside _ = True"

text \<open>The locks: an entry counts the callers that announced themselves and is held by one of them.\<close>

definition holders :: "IdentScreenName \<Rightarrow> caller list \<Rightarrow> nat" where
  "holders sn cs = length (filter (\<lambda>c. c_name c = sn \<and> inside (c_pc c)) cs)"

definition announced :: "IdentScreenName \<Rightarrow> caller list \<Rightarrow> nat" where
  "announced sn cs = length (filter (\<lambda>c. c_name c = sn \<and> (inside (c_pc c) \<or> c_pc c = WaitLock)) cs)"

definition locks_ok :: "'m registry \<Rightarrow> bool" where
  "locks_ok S \<longleftrightarrow> (\<forall>sn. holders sn (callers S) \<le> 1 \<and>
     userLocks (mgr S) sn =
       (if announced sn (callers S) = 0 then None
        else Some \<lparr>lock_held = (holders sn (callers S) = 1), refCount = announced sn (callers S)\<rparr>))"

definition reg_ok :: "'m registry \<Rightarrow> bool" where
  "reg_ok S \<longleftrightarrow> mgr_ok (mgr S) \<and> locks_ok S \<and>
     (\<forall>c \<in> set (callers S). pc_ok (c_name c) (c_pc c) (mgr S))"

section \<open>Operations and the invariant\<close>

lemma findRec_eq:
  assumes "store_ok M"
  shows "findRec sn M = map_of (store M) sn"
proof -
  have "find (\<lambda>k. slot_name (slot_of M k) = sn) (map snd xs) = map_of xs sn"
    if "\<forall>(n, k) \<in> set xs. slot_name (slot_of M k) = n" for xs
    using that by (induction xs) auto
  moreover have "\<forall>(n, k) \<in> set (store M). slot_name (slot_of M k) = n"
    using assms by (auto simp: store_ok_def)
  ultimately show ?thesis by (simp add: findRec_def)
qed

lemma upd_sess_simps [simp]:
  "store (upd_sess k f M) = store M" "userLocks (upd_sess k f M) = userLocks M"
  "length (slots (upd_sess k f M)) = length (slots M)"
  "maxConcurrentSessions (upd_sess k f M) = maxConcurrentSessions M"
  "k < length (slots M) \<Longrightarrow> slot_of (upd_sess k f M) j =
     (if j = k then (slot_of M k)\<lparr>slot_sess := f (sess_of M k)\<rparr> else slot_of M j)"
  "k < length (slots M) \<Longrightarrow> sess_of (upd_sess k f M) j = (if j = k then f (sess_of M k) else sess_of M j)"
  by (simp_all add: upd_sess_def slot_of_def sess_of_def)

text \<open>A step of one session: it stays legal, may close, and gets no further connection.\<close>

definition quiet :: "'m Session \<Rightarrow> 'm Session \<Rightarrow> bool" where
  "quiet s s' \<longleftrightarrow> sess_inv s' \<and> (closed s \<longrightarrow> closed s') \<and>
     length (instancesOrdered s') \<le> length (instancesOrdered s)"

lemma quiet_step:
  assumes "sess_inv s" and "sess_step s s'" and "length (heap s') = length (heap s)"
  shows "quiet s s'"
proof -
  have inv: "sess_inv s'" by (rule sess_inv_step [OF assms(2,1)])
  have "set (instancesOrdered s') \<subseteq> set (instancesOrdered s)"
    using step_frame [OF assms(1,2)] assms(3) by blast
  then have "card (set (instancesOrdered s')) \<le> card (set (instancesOrdered s))"
    by (rule card_mono [OF finite_set])
  then show ?thesis
    using inv step_frame [OF assms(1,2)] distinct_card [OF inv_distinct [OF sess_inv_struct [OF assms(1)]]]
      distinct_card [OF inv_distinct [OF sess_inv_struct [OF inv]]]
    by (simp add: quiet_def)
qed

lemma quiet_CloseSession: "sess_inv s \<Longrightarrow> quiet s (CloseSession s)"
  using CloseSession_all [of s] by (simp add: quiet_def)

lemma quiet_ok:
  assumes "mgr_ok M" and "k < length (slots M)" and "quiet (sess_of M k) (f (sess_of M k))"
  shows "mgr_ok (upd_sess k f M) \<and> (pc_ok sn p M \<longrightarrow> pc_ok sn p (upd_sess k f M))"
proof -
  have "slot_ok (upd_sess k f M) j" if "j < length (slots M)" for j
    using assms that by (cases "j = k") (auto simp: mgr_ok_def slot_ok_def quiet_def)
  moreover have "store_ok (upd_sess k f M)" using assms by (auto simp: mgr_ok_def store_ok_def)
  moreover have "pc_ok sn p (upd_sess k f M)" if "pc_ok sn p M"
    using that assms by (cases p) (auto simp: target_def quiet_def)
  ultimately show ?thesis using assms(1) by (simp add: mgr_ok_def)
qed

lemma map_of_delete: "map_of (AList.delete k xs) n = (if n = k then None else map_of xs n)"
  by (simp add: delete_conv')

lemma map_of_update: "map_of (AList.update k v xs) n = (if n = k then Some v else map_of xs n)"
  by (simp add: update_conv')

text \<open>Removing a session, open or closed: no sign-on loses what it relies on, and the one that waits may go on.\<close>

lemma RemoveSession_other:
  "map_of (store M) (slot_name (slot_of M k)) \<noteq> Some k \<Longrightarrow> RemoveSession k M = M"
  by (simp add: RemoveSession_def Let_def split: option.split)

lemma RemoveSession_registered:
  assumes "map_of (store M) (slot_name (slot_of M k)) = Some k" and "k < length (slots M)"
  shows "store (RemoveSession k M) = AList.delete (slot_name (slot_of M k)) (store M)"
    and "slot_of (RemoveSession k M) j =
      (if j = k then (slot_of M k)\<lparr>removed := True\<rparr> else slot_of M j)"
    and "sess_of (RemoveSession k M) j = sess_of M j"
    and "length (slots (RemoveSession k M)) = length (slots M)"
    and "userLocks (RemoveSession k M) = userLocks M"
    and "maxConcurrentSessions (RemoveSession k M) = maxConcurrentSessions M"
  using assms by (simp_all add: RemoveSession_def Let_def slot_of_def sess_of_def nth_list_update)

lemma RemoveSession_ok:
  assumes "mgr_ok M" and "k < length (slots M)"
  shows "mgr_ok (RemoveSession k M) \<and> (pc_ok sn p M \<longrightarrow> pc_ok sn p (RemoveSession k M))"
proof (cases "map_of (store M) (slot_name (slot_of M k)) = Some k")
  case False
  then show ?thesis using assms(1) by (simp add: RemoveSession_other)
next
  case True
  note r = RemoveSession_registered [OF True assms(2)]
  have "slot_ok (RemoveSession k M) j" if "j < length (slots M)" for j
  proof -
    have ok: "slot_ok M j" using assms(1) that by (simp add: mgr_ok_def)
    show ?thesis
    proof (cases "j = k")
      case True
      then show ?thesis using ok by (simp add: slot_ok_def r)
    next
      case False
      then have "closed (sess_of M j) \<or> removed (slot_of M j) \<or> slot_name (slot_of M j) \<noteq> slot_name (slot_of M k)"
        using ok True unfolding slot_ok_def by auto
      with False ok show ?thesis by (auto simp: slot_ok_def r map_of_delete)
    qed
  qed
  moreover have "store_ok (RemoveSession k M)"
  proof -
    have st: "store_ok M" using assms(1) by (simp add: mgr_ok_def)
    then have "distinct (map fst (AList.delete (slot_name (slot_of M k)) (store M)))"
      by (simp add: store_ok_def distinct_delete)
    moreover have "i < length (slots M) \<and> slot_name (slot_of (RemoveSession k M) i) = n \<and>
        \<not> removed (slot_of (RemoveSession k M) i)"
      if "n \<noteq> slot_name (slot_of M k)" "map_of (store M) n = Some i" for n i
      using st that unfolding store_ok_def r by auto
    ultimately show ?thesis by (auto simp: store_ok_def [of "RemoveSession k M"] r(1,4) map_of_delete split: if_splits)
  qed
  moreover have "pc_ok sn p (RemoveSession k M)" if "pc_ok sn p M"
    using that True by (cases p) (auto simp: target_def r map_of_delete split: if_splits)
  ultimately show ?thesis using assms(1) by (simp add: mgr_ok_def r)
qed

text \<open>A fresh session replaces none that is open.\<close>

lemma AddInstance_fresh:
  assumes "cfg_ok cfg"
  obtains s where "AddInstance (cfg NewSession) = Ok (Some 0, s)" "sess_inv s"
    "length (instancesOrdered s) = 1" "heap s \<noteq> []"
proof -
  let ?c = "cfg NewSession"
  have c: "heap ?c = []" "instances ?c = (\<lambda>_. None)" "instancesOrdered ?c = []" "\<not> closed ?c" "events ?c = []"
    using assms by (simp_all add: cfg_ok_def)
  have g: "generateInstanceNum ?c = Ok 1" by (simp add: generateInstanceNum_def nums_Cons c)
  let ?s = "?c\<lparr>heap := [newInstance 1], instances := [1 \<mapsto> 0], instancesOrdered := [0]\<rparr>"
  have a: "AddInstance ?c = Ok (Some 0, ?s)" by (simp add: AddInstance_def g c Let_def)
  have "sess_inv ?c" by (simp add: sess_inv_def struct_inv_def c)
  from sess_inv_AddInstance [OF this a] show ?thesis by (intro that [OF a]) simp_all
qed

lemma newSession_ok:
  assumes "mgr_ok M" and "cfg_ok cfg" and "\<forall>k. map_of (store M) sn = Some k \<longrightarrow> closed (sess_of M k)"
  obtains M' where "newSession cfg sn multi M = Ok ((length (slots M), 0), M')" "mgr_ok M'"
    "\<And>sn' p. sn' \<noteq> sn \<Longrightarrow> pc_ok sn' p M \<Longrightarrow> pc_ok sn' p M'" "userLocks M' = userLocks M"
proof -
  from assms(2) obtain s where s: "AddInstance (cfg NewSession) = Ok (Some 0, s)" "sess_inv s"
    "length (instancesOrdered s) = 1" "heap s \<noteq> []" by (rule AddInstance_fresh)
  let ?k = "length (slots M)"
  let ?slot = "\<lparr>slot_name = sn, slot_sess = s, removed = False, multiSession = multi\<rparr>"
  let ?M = "M\<lparr>slots := slots M @ [?slot], store := AList.update sn ?k (store M)\<rparr>"
  have n: "newSession cfg sn multi M = Ok ((?k, 0), ?M)" by (simp add: newSession_def s Let_def)
  have slot: "slot_of ?M j = (if j = ?k then ?slot else slot_of M j)" if "j \<le> ?k" for j
    using that by (simp add: slot_of_def nth_append)
  have sess: "sess_of ?M j = (if j = ?k then s else sess_of M j)" if "j \<le> ?k" for j
    using slot [OF that] by (simp add: sess_of_def)
  have lt: "k < ?k" if "map_of (store M) n = Some k" for n k
    using assms(1) that by (simp add: mgr_ok_def store_ok_def)
  have "slot_ok ?M j" if "j < length (slots ?M)" for j
  proof (cases "j = ?k")
    case True
    then show ?thesis using s by (simp add: slot_ok_def slot sess map_of_update)
  next
    case False
    then have j: "j < ?k" using that by simp
    then show ?thesis
      using assms(1,3) False by (auto simp: mgr_ok_def slot_ok_def slot sess map_of_update)
  qed
  moreover have "store_ok ?M"
    using assms(1) lt
    by (auto simp: mgr_ok_def store_ok_def map_of_update slot less_imp_le distinct_update less_Suc_eq)
  moreover have "pc_ok sn' p ?M" if "sn' \<noteq> sn" "pc_ok sn' p M" for sn' p
    using that lt by (cases p) (auto simp: target_def map_of_update slot sess less_imp_le less_Suc_eq)
  ultimately show ?thesis using assms(1) by (intro that [OF n]) (simp_all add: mgr_ok_def)
qed

text \<open>Joining a session that other connections share.\<close>

lemma AddInstance_join:
  assumes "sess_inv s" and "length (instancesOrdered s) < 5"
  shows "AddInstance s = Ok (None, s) \<and> closed s \<or>
    (\<exists>s'. AddInstance s = Ok (Some (length (heap s)), s') \<and> \<not> closed s \<and> \<not> closed s' \<and> sess_inv s' \<and>
       length (instancesOrdered s') = Suc (length (instancesOrdered s)))"
proof (cases "closed s")
  case True
  then show ?thesis by (simp add: AddInstance_def)
next
  case False
  have "InstanceCount s < 255" using assms(2) InstanceCount_eq [OF sess_inv_struct [OF assms(1)]] by simp
  then have "length (filter (\<lambda>n. instances s n \<noteq> None) nums) < length nums"
    by (simp add: InstanceCount_def instances_list_def map_filter_def nums_def)
  then have "filter (\<lambda>n. instances s n \<noteq> None) nums \<noteq> nums" by auto
  then obtain m where "m \<in> set nums" "instances s m = None" by (auto simp: filter_id_conv)
  then obtain n where "find (\<lambda>n. instances s n = None) nums = Some n"
    by (cases "find (\<lambda>n. instances s n = None) nums") (auto simp: find_None_iff)
  then have g: "generateInstanceNum s = Ok n" by (simp add: generateInstanceNum_def)
  let ?s = "s\<lparr>heap := heap s @ [newInstance n], instances := (instances s)(n \<mapsto> length (heap s)),
      instancesOrdered := instancesOrdered s @ [length (heap s)]\<rparr>"
  have a: "AddInstance s = Ok (Some (length (heap s)), ?s)" using False by (simp add: AddInstance_def g Let_def)
  from False sess_inv_AddInstance [OF assms(1) a] a show ?thesis by simp
qed

section \<open>The steps of a sign-on\<close>

lemma locks_irrelevant [simp]:
  "mgr_ok (M\<lparr>userLocks := f\<rparr>) = mgr_ok M" "pc_ok sn p (M\<lparr>userLocks := f\<rparr>) = pc_ok sn p M"
proof -
  have "slot_of (M\<lparr>userLocks := f\<rparr>) = slot_of M" "sess_of (M\<lparr>userLocks := f\<rparr>) = sess_of M"
    by (simp_all add: slot_of_def sess_of_def fun_eq_iff)
  then show "mgr_ok (M\<lparr>userLocks := f\<rparr>) = mgr_ok M" "pc_ok sn p (M\<lparr>userLocks := f\<rparr>) = pc_ok sn p M"
    by (simp add: mgr_ok_def slot_ok_def store_ok_def) (cases p; simp add: target_def \<open>slot_of _ = _\<close> \<open>sess_of _ = _\<close>)
qed

lemma unlockUser_ok [simp]:
  "mgr_ok (unlockUser sn M) = mgr_ok M" "pc_ok n p (unlockUser sn M) = pc_ok n p M"
  by (simp_all add: unlockUser_def Let_def split: option.split)

lemma announce_ok [simp]:
  "mgr_ok (lockUser_announce sn M) = mgr_ok M" "pc_ok n p (lockUser_announce sn M) = pc_ok n p M"
  by (simp_all add: lockUser_announce_def Let_def)

lemma pc_ok_outside: "\<not> inside p \<Longrightarrow> pc_ok sn p M = (p \<noteq> Panicked)"
  by (cases p) auto

lemma pc_ok_other_account:
  assumes "mgr_ok M" and "k < length (slots M)" and "slot_name (slot_of M k) \<noteq> sn" and "pc_ok sn p M"
  shows "pc_ok sn p (upd_sess k f M)"
proof -
  have "map_of (store M) sn \<noteq> Some k" using assms(1,3) by (auto simp: mgr_ok_def store_ok_def)
  then show ?thesis using assms(2,3,4) by (cases p) (auto simp: target_def)
qed

text \<open>What one step of a sign-on does for the registry, for itself and for the sign-ons of other accounts.\<close>

definition good_step :: "IdentScreenName \<Rightarrow> pc \<Rightarrow> 'm SessionManager \<Rightarrow> 'm SessionManager \<Rightarrow> bool" where
  "good_step sn p M M' \<longleftrightarrow> mgr_ok M' \<and> pc_ok sn p M' \<and>
     (\<forall>sn' q. sn' \<noteq> sn \<longrightarrow> pc_ok sn' q M \<longrightarrow> pc_ok sn' q M')"

lemma good_stepI:
  "mgr_ok M' \<Longrightarrow> pc_ok sn p M' \<Longrightarrow> (\<And>sn' q. sn' \<noteq> sn \<Longrightarrow> pc_ok sn' q M \<Longrightarrow> pc_ok sn' q M') \<Longrightarrow> good_step sn p M M'"
  by (simp add: good_step_def)

lemma good_close:
  assumes ok: "mgr_ok M" and t: "target sn k M"
  shows "good_step sn (closing k await M) M (upd_sess k CloseSession M)"
proof -
  have k: "k < length (slots M)" using t by (simp add: target_def)
  then have inv: "sess_inv (sess_of M k)" using ok by (simp add: mgr_ok_def slot_ok_def)
  note q = quiet_ok [of M k CloseSession, OF ok k quiet_CloseSession [OF inv]]
  have c: "closed (CloseSession (sess_of M k))" using CloseSession_all [OF inv] by simp
  show ?thesis
    using q t k c by (intro good_stepI) (auto simp: target_def closing_def after_close_def)
qed

lemma good_join:
  assumes ok: "mgr_ok M" and t: "target sn k M" and multi: "multiSession (slot_of M k)"
    and s: "\<not> closed (sess_of M k)" "\<not> closed s'" "sess_inv s'" "length (instancesOrdered s') \<le> 5"
  shows "good_step sn (Unlocking r) M (upd_sess k (\<lambda>_. s') M)"
proof (rule good_stepI)
  have k: "k < length (slots M)" "slot_name (slot_of M k) = sn" using t by (simp_all add: target_def)
  have "slot_ok (upd_sess k (\<lambda>_. s') M) j" if "j < length (slots M)" for j
    using ok that k s multi by (cases "j = k") (auto simp: mgr_ok_def slot_ok_def)
  moreover have "store_ok (upd_sess k (\<lambda>_. s') M)" using ok k by (auto simp: mgr_ok_def store_ok_def)
  ultimately show "mgr_ok (upd_sess k (\<lambda>_. s') M)" using ok by (simp add: mgr_ok_def)
  show "pc_ok sn' q (upd_sess k (\<lambda>_. s') M)" if "sn' \<noteq> sn" "pc_ok sn' q M" for sn' q
    using that k by (intro pc_ok_other_account [OF ok]) auto
qed simp

lemma AddSession_step_good:
  assumes ok: "mgr_ok M" and pc: "pc_ok sn p M" and cfg: "cfg_ok cfg"
    and step: "AddSession_step cfg expired td sn multi p M = Some (p', M')"
  shows "good_step sn p' M M'"
proof (cases p)
  case WaitLock
  then show ?thesis
    using step ok by (auto simp: lockUser_acquire_def good_step_def split: option.splits if_splits)
next
  case Locked
  have st: "store_ok M" using ok by (simp add: mgr_ok_def)
  show ?thesis
    using step Locked ok st
    by (auto simp: findRec_eq good_step_def target_def store_ok_def split: option.splits)
next
  case (Found k)
  then show ?thesis using step ok pc by (auto simp: good_step_def split: if_splits)
next
  case (Joining k)
  then have t: "target sn k M" using pc by simp
  then have "slot_ok M k" using ok by (simp add: mgr_ok_def target_def)
  then have "InstanceCount (sess_of M k) = length (instancesOrdered (sess_of M k))"
    by (simp add: slot_ok_def InstanceCount_eq sess_inv_struct)
  moreover have "maxConcurrentSessions M = 5" using ok by (simp add: mgr_ok_def)
  moreover have "good_step sn (Adding k) M M"
    if "multiSession (slot_of M k)" "length (instancesOrdered (sess_of M k)) < 5"
    using that ok t by (simp add: good_step_def)
  moreover have "good_step sn (Unlocking (Inl ErrMaxConcurrentSessionsReached)) M M"
    using ok by (simp add: good_step_def)
  ultimately show ?thesis
    using step Joining good_close [OF ok t] by (auto split: if_splits)
next
  case (Closing k await)
  then have "target sn k M" "closed (sess_of M k)" using pc by simp_all
  then show ?thesis
    using step Closing ok by (auto simp: good_step_def target_def after_close_def split: teardown.splits)
next
  case (Adding k)
  then have t: "target sn k M" "multiSession (slot_of M k)" "length (instancesOrdered (sess_of M k)) < 5"
    using pc by simp_all
  then have inv: "sess_inv (sess_of M k)" using ok by (simp add: mgr_ok_def slot_ok_def target_def)
  from AddInstance_join [OF inv t(3)] show ?thesis
  proof
    assume "AddInstance (sess_of M k) = Ok (None, sess_of M k) \<and> closed (sess_of M k)"
    then show ?thesis using step Adding ok t by (auto simp: good_step_def)
  next
    assume "\<exists>s'. AddInstance (sess_of M k) = Ok (Some (length (heap (sess_of M k))), s') \<and>
      \<not> closed (sess_of M k) \<and> \<not> closed s' \<and> sess_inv s' \<and>
      length (instancesOrdered s') = Suc (length (instancesOrdered (sess_of M k)))"
    then show ?thesis using step Adding good_join [OF ok t(1,2)] t(3) by auto
  qed
next
  case (Waiting k)
  have "\<not> removed (slot_of M k)" if "map_of (store M) sn = Some k"
    using ok that unfolding mgr_ok_def store_ok_def by blast
  then have "removed (slot_of M k) \<Longrightarrow> map_of (store M) sn = None"
    using pc Waiting by (auto simp: target_def)
  then show ?thesis using step Waiting ok by (auto simp: good_step_def split: if_splits)
next
  case Creating
  then have c: "\<forall>k. map_of (store M) sn = Some k \<longrightarrow> closed (sess_of M k)" using pc by simp
  from newSession_ok [OF ok cfg c, of multi] obtain M1 where "newSession cfg sn multi M = Ok ((length (slots M), 0), M1)"
    "mgr_ok M1" "\<And>sn' p. sn' \<noteq> sn \<Longrightarrow> pc_ok sn' p M \<Longrightarrow> pc_ok sn' p M1" by blast
  then show ?thesis using step Creating by (auto simp: good_step_def)
next
  case (Unlocking r)
  then show ?thesis using step ok by (auto simp: good_step_def)
qed (use step in simp_all)

section \<open>The locks\<close>

lemma length_filter_update:
  "c < length cs \<Longrightarrow> length (filter P (cs[c := x])) + (if P (cs ! c) then 1 else 0) =
     length (filter P cs) + (if P x then 1 else 0)"
proof (induction cs arbitrary: c)
  case (Cons y cs)
  then show ?case by (cases c) auto
qed simp

lemma newSession_locks: "newSession cfg sn multi M = Ok (r, M') \<Longrightarrow> userLocks M' = userLocks M"
  by (auto simp: newSession_def Let_def bind_out_Ok_iff split: option.splits)

lemma step_locks:
  assumes "AddSession_step cfg expired td sn multi p M = Some (p', M')"
  shows "p = WaitLock \<and> p' = Locked \<and> lockUser_acquire sn M = Some M' \<or>
    inside p \<and> inside p' \<and> userLocks M' = userLocks M \<or>
    inside p \<and> p' = Panicked \<or>
    (\<exists>r. p = Unlocking r \<and> p' = Finished r \<and> M' = unlockUser sn M)"
proof (cases p)
  case WaitLock
  then show ?thesis using assms by (auto split: option.splits)
next
  case (Joining k)
  then show ?thesis using assms by (auto simp: closing_def after_close_def split: if_splits)
next
  case (Closing k await)
  then show ?thesis using assms by (auto simp: after_close_def split: teardown.splits)
next
  case (Adding k)
  then show ?thesis
    using assms by (cases "AddInstance (sess_of M k)") (auto split: prod.splits option.splits)
next
  case Creating
  then show ?thesis
    using assms newSession_locks [of cfg sn multi M] by (cases "newSession cfg sn multi M") auto
qed (use assms in \<open>auto split: option.splits if_splits\<close>)

text \<open>Replacing one caller's program counter, seen by the counters of its account.\<close>

lemma holders_update:
  assumes "c < length cs"
  shows "holders sn (cs[c := (cs ! c)\<lparr>c_pc := p\<rparr>]) + (if c_name (cs ! c) = sn \<and> inside (c_pc (cs ! c)) then 1 else 0) =
    holders sn cs + (if c_name (cs ! c) = sn \<and> inside p then 1 else 0)"
  unfolding holders_def using length_filter_update [OF assms, of "\<lambda>c. c_name c = sn \<and> inside (c_pc c)" "(cs ! c)\<lparr>c_pc := p\<rparr>"]
  by simp

lemma announced_update:
  assumes "c < length cs"
  shows "announced sn (cs[c := (cs ! c)\<lparr>c_pc := p\<rparr>]) +
      (if c_name (cs ! c) = sn \<and> (inside (c_pc (cs ! c)) \<or> c_pc (cs ! c) = WaitLock) then 1 else 0) =
    announced sn cs + (if c_name (cs ! c) = sn \<and> (inside p \<or> p = WaitLock) then 1 else 0)"
  unfolding announced_def
  using length_filter_update [OF assms, of "\<lambda>c. c_name c = sn \<and> (inside (c_pc c) \<or> c_pc c = WaitLock)"
      "(cs ! c)\<lparr>c_pc := p\<rparr>"]
  by simp

lemma holders_le_announced: "holders sn cs \<le> announced sn cs"
  unfolding holders_def announced_def by (induction cs) auto

lemma two_holders:
  assumes "e < length cs" and "c < length cs" and "e \<noteq> c" and "c_name (cs ! e) = c_name (cs ! c)"
    and "inside (c_pc (cs ! e))" and "inside (c_pc (cs ! c))"
  shows "1 < holders (c_name (cs ! c)) cs"
proof -
  have "{e, c} \<subseteq> {i. i < length cs \<and> c_name (cs ! i) = c_name (cs ! c) \<and> inside (c_pc (cs ! i))}"
    using assms by auto
  then have "card {e, c} \<le> holders (c_name (cs ! c)) cs"
    unfolding holders_def length_filter_conv_card by (rule card_mono [rotated]) simp
  then show ?thesis using assms(3) by simp
qed

lemma locks_ok_call:
  assumes "locks_ok S"
  shows "locks_ok (S\<lparr>mgr := lockUser_announce sn (mgr S),
     callers := callers S @ [\<lparr>c_name = sn, c_multi = multi, c_pc = WaitLock\<rparr>]\<rparr>)"
proof -
  let ?c = "\<lparr>c_name = sn, c_multi = multi, c_pc = WaitLock\<rparr>"
  have h: "holders n (callers S @ [?c]) = holders n (callers S)" for n by (simp add: holders_def)
  have a: "announced n (callers S @ [?c]) = announced n (callers S) + (if n = sn then 1 else 0)" for n
    by (simp add: announced_def)
  show ?thesis
    using assms holders_le_announced [of sn "callers S"]
    by (auto simp: locks_ok_def h a lockUser_announce_def Let_def)
qed

lemma locks_ok_add:
  assumes ok: "locks_ok S" and c: "c < length (callers S)" and p': "p' \<noteq> Panicked"
    and step: "AddSession_step cfg expired td (c_name (callers S ! c)) multi (c_pc (callers S ! c)) (mgr S) = Some (p', M')"
  shows "locks_ok (S\<lparr>mgr := M', callers := (callers S)[c := (callers S ! c)\<lparr>c_pc := p'\<rparr>]\<rparr>)"
proof -
  let ?sn = "c_name (callers S ! c)" and ?p = "c_pc (callers S ! c)"
  let ?cs = "(callers S)[c := (callers S ! c)\<lparr>c_pc := p'\<rparr>]"
  have l: "holders n (callers S) \<le> 1" "userLocks (mgr S) n =
      (if announced n (callers S) = 0 then None
       else Some \<lparr>lock_held = (holders n (callers S) = 1), refCount = announced n (callers S)\<rparr>)" for n
    using ok by (simp_all add: locks_ok_def)
  note h = holders_update [OF c, of _ p'] and a = announced_update [OF c, of _ p']
  have "holders n ?cs \<le> 1 \<and> userLocks M' n =
      (if announced n ?cs = 0 then None
       else Some \<lparr>lock_held = (holders n ?cs = 1), refCount = announced n ?cs\<rparr>)" for n
  proof -
    consider (lock) "?p = WaitLock" "p' = Locked" "lockUser_acquire ?sn (mgr S) = Some M'"
      | (stay) "inside ?p" "inside p'" "userLocks M' = userLocks (mgr S)"
      | (unlock) r where "?p = Unlocking r" "p' = Finished r" "M' = unlockUser ?sn (mgr S)"
      using step_locks [OF step] p' by blast
    then show ?thesis
    proof cases
      case lock
      have an: "announced n ?cs = announced n (callers S)" using a [of n] lock(1,2) by (simp split: if_splits)
      have hn: "holders n ?cs = holders n (callers S) + (if ?sn = n then 1 else 0)"
        using h [of n] lock(1,2) by (simp split: if_splits)
      show ?thesis
        using l [of n] l [of ?sn] lock(3)
        by (auto simp: lockUser_acquire_def an hn split: option.splits if_splits)
    next
      case stay
      have "announced n ?cs = announced n (callers S)" using a [of n] stay(1,2) by (simp split: if_splits)
      moreover have "holders n ?cs = holders n (callers S)" using h [of n] stay(1,2) by (simp split: if_splits)
      ultimately show ?thesis using l [of n] stay(3) by simp
    next
      case unlock
      have an: "announced n ?cs + (if ?sn = n then 1 else 0) = announced n (callers S)"
        using a [of n] unlock(1,2) by (simp split: if_splits)
      have hn: "holders n ?cs + (if ?sn = n then 1 else 0) = holders n (callers S)"
        using h [of n] unlock(1,2) by (simp split: if_splits)
      show ?thesis
        using l [of n] l [of ?sn] an hn unlock(3)
        by (cases "?sn = n") (auto simp: unlockUser_def Let_def split: if_splits)
    qed
  qed
  then show ?thesis by (simp add: locks_ok_def)
qed

section \<open>Reachable registries\<close>

lemma reg_ok_step:
  assumes ok: "reg_ok S" and step: "reg_step S S'"
  shows "reg_ok S'"
  using step
proof (cases rule: reg_step.cases)
  case (reg_call sn multi)
  then show ?thesis using ok locks_ok_call by (auto simp: reg_ok_def)
next
  case (reg_add c cfg expired td p M)
  let ?c = "callers S ! c"
  have pc: "pc_ok (c_name d) (c_pc d) (mgr S)" if "d \<in> set (callers S)" for d using ok that by (simp add: reg_ok_def)
  have m: "mgr_ok (mgr S)" and l: "locks_ok S" using ok by (simp_all add: reg_ok_def)
  have g: "good_step (c_name ?c) p (mgr S) M"
    by (rule AddSession_step_good [OF m pc [OF nth_mem [OF reg_add(2)]] reg_add(3,4)])
  then have p': "p \<noteq> Panicked" by (auto simp: good_step_def)
  have "pc_ok (c_name d) (c_pc d) M"
    if d: "d \<in> set ((callers S)[c := ?c\<lparr>c_pc := p\<rparr>])" for d
  proof -
    consider "d = ?c\<lparr>c_pc := p\<rparr>" | e where "e < length (callers S)" "e \<noteq> c" "d = callers S ! e"
      using d by (metis in_set_conv_nth length_list_update nth_list_update_eq nth_list_update_neq)
    then show ?thesis
    proof cases
      case 1
      then show ?thesis using g by (simp add: good_step_def)
    next
      case (2 e)
      have d': "pc_ok (c_name d) (c_pc d) (mgr S)" using pc 2 by simp
      have "\<not> inside (c_pc d)" if "c_name d = c_name ?c"
      proof (cases "inside (c_pc ?c)")
        case True
        have "holders (c_name ?c) (callers S) \<le> 1" using l by (simp add: locks_ok_def)
        then show ?thesis using 2 True that reg_add(2) two_holders [of e "callers S" c] by auto
      next
        case False
        then have "c_pc ?c = WaitLock" using reg_add(4) by (cases "c_pc ?c") auto
        with reg_add(4) have "lockUser_acquire (c_name ?c) (mgr S) \<noteq> None" by (auto split: option.splits)
        then have "holders (c_name ?c) (callers S) = 0"
          using l holders_le_announced [of "c_name ?c" "callers S"]
          by (auto simp: lockUser_acquire_def locks_ok_def le_Suc_eq split: option.splits if_splits)
        then show ?thesis using 2 that by (auto simp: holders_def filter_empty_conv)
      qed
      then show ?thesis using g d' by (cases "c_name d = c_name ?c") (auto simp: good_step_def pc_ok_outside)
    qed
  qed
  moreover have "locks_ok S'" unfolding reg_add(1) by (rule locks_ok_add [OF l reg_add(2) p' reg_add(4)])
  ultimately show ?thesis using g reg_add(1) by (simp add: reg_ok_def good_step_def)
next
  case (reg_session k s')
  have m: "mgr_ok (mgr S)" using ok by (simp add: reg_ok_def)
  then have "sess_inv (sess_of (mgr S) k)" using reg_session(2) by (simp add: mgr_ok_def slot_ok_def)
  note q = quiet_ok [of _ k "\<lambda>_. s'", OF m reg_session(2) quiet_step [OF this reg_session(3,4)]]
  have "locks_ok S'" using ok reg_session(1) by (simp add: reg_ok_def locks_ok_def)
  then show ?thesis using ok q reg_session(1) by (auto simp: reg_ok_def)
next
  case (reg_remove k)
  have m: "mgr_ok (mgr S)" using ok by (simp add: reg_ok_def)
  note q = RemoveSession_ok [OF m reg_remove(2)]
  have "userLocks (RemoveSession k (mgr S)) = userLocks (mgr S)"
    by (simp add: RemoveSession_def Let_def split: option.split)
  then have "locks_ok S'" using ok reg_remove(1) by (simp add: reg_ok_def locks_ok_def)
  then show ?thesis using ok q reg_remove(1) by (auto simp: reg_ok_def)
qed

lemma reg_reach_ok: "reg_reach S \<Longrightarrow> reg_ok S"
proof (induction rule: reg_reach.induct)
  case reg_new
  show ?case
    by (simp add: reg_ok_def mgr_ok_def store_ok_def locks_ok_def NewInMemorySessionManager_def
        DefaultMaxConcurrentSessions_def holders_def announced_def)
next
  case (reg_next S S')
  then show ?case using reg_ok_step by blast
qed

section \<open>What a relayed message does\<close>

lemma heap_CloseInstance:
  assumes "sess_inv s" and "i < length (heap s)" and "\<not> iclosed (heap s ! i)"
  shows "heap (CloseInstance i s) = (heap s)[i := (heap s ! i)\<lparr>iclosed := True\<rparr>]"
proof -
  have "heap (departed i s) = (heap s)[i := (heap s ! i)\<lparr>iclosed := True\<rparr>]"
    by (simp add: departed_def removeInstanceLocked_def close_inst_def)
  then show ?thesis using CloseInstance_eq [OF sess_inv_struct [OF assms(1)] assms(2,3)] by simp
qed

definition delivered :: "'m \<Rightarrow> 'm SessionInstance \<Rightarrow> 'm SessionInstance" where
  "delivered msg x =
     (if length (msgCh x) < 1000 then x\<lparr>msgCh := msgCh x @ [msg]\<rparr> else x\<lparr>iclosed := True\<rparr>)"

lemma relay_to_heap:
  assumes inv: "sess_inv s" and i: "i < length (heap s)" and live: "live (heap s ! i)"
  shows "sess_inv (relay_to msg i s) \<and> heap (relay_to msg i s) = (heap s)[i := delivered msg (heap s ! i)]"
proof (cases "length (msgCh (heap s ! i)) < 1000")
  case True
  have open': "\<not> iclosed (heap s ! i)" using live by (simp add: live_def)
  let ?f = "\<lambda>x. if x = heap s ! i then snd (RelayMessageToInstance msg x) else x"
  have "keeps_lifecycle ?f" by (simp add: keeps_lifecycle_def RelayMessageToInstance_def)
  from sess_inv_upd [OF inv this, of i] have "sess_inv (upd_inst i ?f s)" .
  moreover have "relay_to msg i s = upd_inst i ?f s"
    using True open' by (simp add: relay_to_def RelayMessageToInstance_def upd_inst_def)
  ultimately show ?thesis using True open' by (simp add: RelayMessageToInstance_def delivered_def)
next
  case False
  have open': "\<not> iclosed (heap s ! i)" using live by (simp add: live_def)
  then have "relay_to msg i s = CloseInstance i s"
    using False by (simp add: relay_to_def RelayMessageToInstance_def)
  then show ?thesis
    using sess_inv_CloseInstance [OF inv i] heap_CloseInstance [OF inv i open'] False by (simp add: delivered_def)
qed

text \<open>A relay loop over distinct connections, filtered by a test of the connection alone.\<close>

lemma relay_fold:
  assumes "sess_inv s" and "distinct is" and "\<forall>i \<in> set is. i < length (heap s)"
    and "\<And>x. P x \<Longrightarrow> live x"
  shows "sess_inv (fold (\<lambda>i s. if \<not> P (heap s ! i) then s else relay_to msg i s) is s) \<and>
    length (heap (fold (\<lambda>i s. if \<not> P (heap s ! i) then s else relay_to msg i s) is s)) = length (heap s) \<and>
    (\<forall>j < length (heap s). heap (fold (\<lambda>i s. if \<not> P (heap s ! i) then s else relay_to msg i s) is s) ! j =
      (if j \<in> set is \<and> P (heap s ! j) then delivered msg (heap s ! j) else heap s ! j))"
  using assms(1-3)
proof (induction "is" arbitrary: s)
  case (Cons i "is")
  let ?s = "if \<not> P (heap s ! i) then s else relay_to msg i s"
  have i: "i < length (heap s)" using Cons.prems by simp
  have h: "sess_inv ?s" "heap ?s = (if P (heap s ! i) then (heap s)[i := delivered msg (heap s ! i)] else heap s)"
    using relay_to_heap [OF Cons.prems(1) i assms(4)] Cons.prems(1) by auto
  then have l: "length (heap ?s) = length (heap s)" by simp
  have "distinct is" "\<forall>j \<in> set is. j < length (heap ?s)" using Cons.prems l by simp_all
  note IH = Cons.IH [OF h(1) this]
  have nth: "heap ?s ! j = (if j = i \<and> P (heap s ! i) then delivered msg (heap s ! i) else heap s ! j)" for j
    using i unfolding h(2) by (simp add: nth_list_update)
  show ?case
    unfolding fold_simps using IH Cons.prems(2) unfolding l nth by auto
qed simp

lemma mgr_session_inv: "reg_reach S \<Longrightarrow> k < length (slots (mgr S)) \<Longrightarrow> sess_inv (sess_of (mgr S) k)"
  using reg_reach_ok [of S] by (simp add: reg_ok_def mgr_ok_def slot_ok_def)

text \<open>The only points at which a sign-on can block.\<close>

lemma step_blocks:
  assumes "AddSession_step cfg expired td sn multi p M = None"
  shows "p = WaitLock \<or> (\<exists>k await. p = Closing k await \<and> td = TeardownRuns) \<or> (\<exists>k. p = Waiting k) \<or> (\<exists>r. p = Finished r) \<or> p = Panicked"
proof (cases p)
  case (Adding k)
  then show ?thesis
    using assms by (cases "AddInstance (sess_of M k)") (auto split: prod.splits option.splits)
next
  case (Closing k await)
  then show ?thesis using assms by (cases td) auto
next
  case Creating
  then show ?thesis using assms by (cases "newSession cfg sn multi M") auto
qed (use assms in \<open>auto split: option.splits if_splits\<close>)

section \<open>Sign-ons that meet no other\<close>

text \<open>A teardown callback that runs on the way returns.\<close>

fun run_add :: "('m Session \<Rightarrow> 'm Session) \<Rightarrow> nat \<Rightarrow> IdentScreenName \<Rightarrow> bool \<Rightarrow> pc \<Rightarrow> 'm SessionManager \<Rightarrow>
    pc \<times> 'm SessionManager" where
  "run_add cfg 0 sn multi p M = (p, M)"
| "run_add cfg (Suc n) sn multi p M =
     (case AddSession_step cfg False TeardownReturns sn multi p M of
        None \<Rightarrow> (p, M)
      | Some (p', M') \<Rightarrow> run_add cfg n sn multi p' M')"

lemma reg_reach_run_caller:
  assumes "reg_reach S" and "c < length (callers S)" and "cfg_ok cfg"
    and "run_add cfg n (c_name (callers S ! c)) (c_multi (callers S ! c)) (c_pc (callers S ! c)) (mgr S) = (p', M')"
  shows "reg_reach \<lparr>mgr = M', callers = (callers S)[c := (callers S ! c)\<lparr>c_pc := p'\<rparr>]\<rparr>"
  using assms(1,2,4)
proof (induction n arbitrary: S)
  case 0
  have "\<lparr>mgr = mgr S, callers = (callers S)[c := (callers S ! c)\<lparr>c_pc := c_pc (callers S ! c)\<rparr>]\<rparr> = S" by simp
  with 0 show ?case by simp
next
  case (Suc n)
  let ?c = "callers S ! c"
  show ?case
  proof (cases "AddSession_step cfg False TeardownReturns (c_name ?c) (c_multi ?c) (c_pc ?c) (mgr S)")
    case None
    have "\<lparr>mgr = mgr S, callers = (callers S)[c := ?c\<lparr>c_pc := c_pc ?c\<rparr>]\<rparr> = S" by simp
    with Suc None show ?thesis by simp
  next
    case (Some r)
    obtain q N where r: "r = (q, N)" by fastforce
    let ?S = "S\<lparr>mgr := N, callers := (callers S)[c := ?c\<lparr>c_pc := q\<rparr>]\<rparr>"
    have "reg_step S ?S" by (rule reg_add [of _ _ cfg False TeardownReturns]) (use Some r Suc.prems assms(3) in simp_all)
    then have "reg_reach ?S" by (rule reg_next [OF Suc.prems(1)])
    from Suc.IH [OF this] show ?thesis using Suc.prems(2,3) Some r by simp
  qed
qed

lemma reg_reach_run:
  assumes "reg_reach \<lparr>mgr = M, callers = cs @ [\<lparr>c_name = sn, c_multi = multi, c_pc = p\<rparr>]\<rparr>" and "cfg_ok cfg"
    and "run_add cfg n sn multi p M = (p', M')"
  shows "reg_reach \<lparr>mgr = M', callers = cs @ [\<lparr>c_name = sn, c_multi = multi, c_pc = p'\<rparr>]\<rparr>"
  using reg_reach_run_caller [OF assms(1) _ assms(2), of "length cs" n p' M'] assms(3) by simp

lemma locks_frame [simp]:
  "findRec sn (M\<lparr>userLocks := f\<rparr>) = findRec sn M" "slot_of (M\<lparr>userLocks := f\<rparr>) k = slot_of M k"
  "sess_of (M\<lparr>userLocks := f\<rparr>) k = sess_of M k"
  "upd_sess k g (M\<lparr>userLocks := f\<rparr>) = (upd_sess k g M)\<lparr>userLocks := f\<rparr>"
  by (simp_all add: findRec_def slot_of_def sess_of_def upd_sess_def)

lemma unlockUser_frame [simp]:
  "store (unlockUser sn M) = store M" "slots (unlockUser sn M) = slots M"
  "slot_of (unlockUser sn M) k = slot_of M k" "sess_of (unlockUser sn M) k = sess_of M k"
  by (simp_all add: unlockUser_def Let_def split: option.split)

text \<open>The registry of the witnesses: one account, signed on once with a session that is not shared.\<close>

definition reg_sn :: IdentScreenName where "reg_sn = IdentScreenName [0x61]"

definition reg_mgr :: "nat SessionManager" where
  "reg_mgr = \<lparr>slots = [\<lparr>slot_name = reg_sn, slot_sess = sess_one, removed = False, multiSession = False\<rparr>],
     store = [(reg_sn, 0)], userLocks = (\<lambda>_. None), maxConcurrentSessions = 5\<rparr>"

definition reg_one :: "nat registry" where
  "reg_one = \<lparr>mgr = reg_mgr, callers = [\<lparr>c_name = reg_sn, c_multi = False, c_pc = Finished (Inr (0, 0))\<rparr>]\<rparr>"

lemma cfg_ok_id: "cfg_ok id"
  by (simp add: cfg_ok_def NewSession_def)

lemma reg_reach_one: "reg_reach reg_one"
proof -
  let ?M = "NewInMemorySessionManager :: nat SessionManager"
  have run: "run_add id 4 reg_sn False WaitLock (lockUser_announce reg_sn ?M) = (Finished (Inr (0, 0)), reg_mgr)"
    by (simp add: numeral_eq_Suc lockUser_announce_def lockUser_acquire_def unlockUser_def reg_mgr_def
        NewInMemorySessionManager_def DefaultMaxConcurrentSessions_def findRec_def newSession_def
        AddInstance_one Let_def fun_upd_idem)
  have "reg_reach \<lparr>mgr = lockUser_announce reg_sn ?M,
      callers = [] @ [\<lparr>c_name = reg_sn, c_multi = False, c_pc = WaitLock\<rparr>]\<rparr>"
    using reg_next [OF reg_new reg_call [of "\<lparr>mgr = ?M, callers = []\<rparr>" reg_sn False]] by simp
  from reg_reach_run [OF this cfg_ok_id run] show ?thesis by (simp add: reg_one_def)
qed

lemma reg_one_simps [simp]:
  "mgr reg_one = reg_mgr" "length (slots reg_mgr) = 1" "sess_of reg_mgr 0 = sess_one"
  "slot_name (slot_of reg_mgr 0) = reg_sn" "\<not> removed (slot_of reg_mgr 0)" "\<not> multiSession (slot_of reg_mgr 0)" "\<not> closed sess_one"
  "callers reg_one = [\<lparr>c_name = reg_sn, c_multi = False, c_pc = Finished (Inr (0, 0))\<rparr>]"
  "findRec reg_sn reg_mgr = Some 0" "userLocks reg_mgr = (\<lambda>_. None)"
  by (simp_all add: reg_one_def reg_mgr_def sess_of_def slot_of_def sess_one_def NewSession_def findRec_def)

text \<open>A session without connections has run its teardown: closing it does not run it again.\<close>

lemma CloseSession_empty:
  assumes "sess_inv s" and "instancesOrdered s = []"
  shows "\<not> torn_down s (CloseSession s)"
  using assms CloseSession_all [OF assms(1)] by (auto simp: torn_down_def sess_inv_def)

text \<open>
  An open session can be taken out of the registry and stay open: the gateway for old clients does it
  when a client logs off (\<open>removeSessionLocked\<close> calls \<open>RemoveSession\<close> and leaves the session open).
  The next sign-on of the account does not see it, so that two open sessions of one account are there.
\<close>

lemma removed_session_stays_open:
  "\<exists>S :: nat registry. reg_reach S \<and> slot_name (slot_of (mgr S) 0) = reg_sn \<and> slot_name (slot_of (mgr S) 1) = reg_sn \<and>
    \<not> closed (sess_of (mgr S) 0) \<and> \<not> closed (sess_of (mgr S) 1) \<and> findRec reg_sn (mgr S) = Some 1"
proof -
  let ?M = "RemoveSession 0 reg_mgr"
  let ?cs = "callers reg_one"
  let ?N = "?M\<lparr>slots := slots ?M @ [\<lparr>slot_name = reg_sn, slot_sess = sess_one, removed = False, multiSession = False\<rparr>],
      store := [(reg_sn, 1)]\<rparr>"
  have r: "?M = reg_mgr\<lparr>store := [], slots := [(slot_of reg_mgr 0)\<lparr>removed := True\<rparr>]\<rparr>"
    by (simp add: RemoveSession_def Let_def) (simp add: reg_mgr_def slot_of_def)
  have "reg_reach (reg_one\<lparr>mgr := ?M\<rparr>)"
    by (rule reg_next [OF reg_reach_one]) (use reg_remove [of 0 reg_one] in simp)
  from reg_next [OF this reg_call [of _ reg_sn False]]
  have start: "reg_reach \<lparr>mgr = lockUser_announce reg_sn ?M,
      callers = ?cs @ [\<lparr>c_name = reg_sn, c_multi = False, c_pc = WaitLock\<rparr>]\<rparr>" by (simp add: reg_one_def)
  have "run_add id 4 reg_sn False WaitLock (lockUser_announce reg_sn ?M) = (Finished (Inr (1, 0)), ?N)"
    unfolding r by (simp add: numeral_eq_Suc lockUser_announce_def lockUser_acquire_def unlockUser_def
        findRec_def newSession_def AddInstance_one Let_def fun_upd_idem)
  from reg_reach_run [OF start cfg_ok_id this]
  have "reg_reach \<lparr>mgr = ?N, callers = ?cs @ [\<lparr>c_name = reg_sn, c_multi = False, c_pc = Finished (Inr (1, 0))\<rparr>]\<rparr>" .
  moreover have "slot_name (slot_of ?N 0) = reg_sn \<and> slot_name (slot_of ?N 1) = reg_sn \<and>
    \<not> closed (sess_of ?N 0) \<and> \<not> closed (sess_of ?N 1) \<and> findRec reg_sn ?N = Some 1"
    unfolding r by (simp add: findRec_def slot_of_def sess_of_def) (simp add: reg_mgr_def sess_one_def NewSession_def)
  ultimately have "\<exists>(N :: nat SessionManager) cs. reg_reach \<lparr>mgr = N, callers = cs\<rparr> \<and> slot_name (slot_of N 0) = reg_sn \<and>
      slot_name (slot_of N 1) = reg_sn \<and> \<not> closed (sess_of N 0) \<and> \<not> closed (sess_of N 1) \<and>
      findRec reg_sn N = Some 1" by blast
  then show ?thesis by (metis registry.select_convs(1))
qed

section \<open>Properties\<close>

text \<open>
  C7: However sign-ons, sign-offs, teardowns and removals interleave, an account has at most one session
  that is neither closed nor taken out by \<open>RemoveSession\<close>, and that one is the registered one: no
  sign-on displaces an open session. (The condition on the removal is needed, see
  \<open>removed_session_stays_open\<close>.)
\<close>

theorem one_open_session:
  assumes "reg_reach S" and "i < length (slots (mgr S))" and "j < length (slots (mgr S))"
    and "\<not> closed (sess_of (mgr S) i)" and "\<not> removed (slot_of (mgr S) i)"
    and "\<not> closed (sess_of (mgr S) j)" and "\<not> removed (slot_of (mgr S) j)"
    and "slot_name (slot_of (mgr S) i) = slot_name (slot_of (mgr S) j)"
  shows "i = j \<and> findRec (slot_name (slot_of (mgr S) i)) (mgr S) = Some i"
proof -
  have ok: "mgr_ok (mgr S)" using reg_reach_ok [OF assms(1)] by (simp add: reg_ok_def)
  then have "map_of (store (mgr S)) (slot_name (slot_of (mgr S) k)) = Some k"
    if "k < length (slots (mgr S))" "\<not> closed (sess_of (mgr S) k)" "\<not> removed (slot_of (mgr S) k)" for k
    using that by (simp add: mgr_ok_def slot_ok_def)
  note i = this [OF assms(2,4,5)] and j = this [OF assms(3,6,7)]
  have "store_ok (mgr S)" using ok by (simp add: mgr_ok_def)
  from findRec_eq [OF this] i j assms(8) show ?thesis by (metis option.inject)
qed

lemma one_open_session_witness: "findRec reg_sn reg_mgr = Some 0"
  using one_open_session [OF reg_reach_one, of 0 0] by simp

text \<open>
  A session never has more than five connections, and a session that its client did not offer to
  share has at most one; in particular its connections never run out of instance numbers.
\<close>

theorem connections_bounded:
  assumes "reg_reach S" and "k < length (slots (mgr S))"
  shows "InstanceCount (sess_of (mgr S) k) \<le> (if multiSession (slot_of (mgr S) k) then 5 else 1)"
proof -
  have "slot_ok (mgr S) k" using reg_reach_ok [OF assms(1)] assms(2) by (simp add: reg_ok_def mgr_ok_def)
  then show ?thesis by (simp add: slot_ok_def InstanceCount_eq sess_inv_struct)
qed

lemma connections_bounded_witness: "InstanceCount sess_one \<le> 1"
  using connections_bounded [OF reg_reach_one, of 0] by simp

text \<open>
  C10: The code of \<open>AddSession\<close> itself never panics, and it blocks only while another sign-on of the
  same account holds the lock, while the teardown callback of the session it has closed runs in it, or
  while the session it waits for is closed and not yet removed. It goes on when that callback returns;
  if the callback panics (it can, see \<open>early_teardown_panics\<close>) the lock is released on the way out;
  and the removal of the session it waits for lets it go on.
\<close>

theorem sign_on_not_stuck:
  assumes "reg_reach S" and "c < length (callers S)" and "cfg_ok cfg"
  shows "c_pc (callers S ! c) \<noteq> Panicked \<and>
    (AddSession_step cfg False td (c_name (callers S ! c)) multi (c_pc (callers S ! c)) (mgr S) \<noteq> None \<or>
     (\<exists>r. c_pc (callers S ! c) = Finished r) \<or>
     c_pc (callers S ! c) = WaitLock \<and>
       (\<exists>d < length (callers S). d \<noteq> c \<and> c_name (callers S ! d) = c_name (callers S ! c) \<and> inside (c_pc (callers S ! d))) \<or>
     (\<exists>k await. c_pc (callers S ! c) = Closing k await \<and> closed (sess_of (mgr S) k) \<and> td = TeardownRuns \<and>
        AddSession_step cfg False TeardownReturns (c_name (callers S ! c)) multi (Closing k await) (mgr S) =
          Some (if await then Waiting k else Creating, mgr S) \<and>
        AddSession_step cfg False TeardownPanics (c_name (callers S ! c)) multi (Closing k await) (mgr S) =
          Some (Unlocking (Inl TeardownPanic), mgr S)) \<or>
     (\<exists>k. c_pc (callers S ! c) = Waiting k \<and> closed (sess_of (mgr S) k) \<and>
        AddSession_step cfg False td (c_name (callers S ! c)) multi (Waiting k) (RemoveSession k (mgr S)) =
          Some (Creating, RemoveSession k (mgr S))))"
proof -
  let ?c = "callers S ! c" and ?M = "mgr S"
  have ok: "reg_ok S" by (rule reg_reach_ok [OF assms(1)])
  then have pc: "pc_ok (c_name ?c) (c_pc ?c) ?M" using assms(2) by (simp add: reg_ok_def)
  then have np: "c_pc ?c \<noteq> Panicked" by auto
  have wait: "c_pc ?c = WaitLock \<Longrightarrow> AddSession_step cfg False td (c_name ?c) multi WaitLock ?M = None \<Longrightarrow>
      \<exists>d < length (callers S). d \<noteq> c \<and> c_name (callers S ! d) = c_name ?c \<and> inside (c_pc (callers S ! d))"
  proof -
    assume w: "c_pc ?c = WaitLock" "AddSession_step cfg False td (c_name ?c) multi WaitLock ?M = None"
    have "?c \<in> set (callers S)" using assms(2) by simp
    then have "announced (c_name ?c) (callers S) \<noteq> 0"
      using w(1) by (auto simp: announced_def filter_empty_conv)
    then have "holders (c_name ?c) (callers S) = 1"
      using ok w(2) by (auto simp: reg_ok_def locks_ok_def lockUser_acquire_def split: if_splits)
    then have "filter (\<lambda>d. c_name d = c_name ?c \<and> inside (c_pc d)) (callers S) \<noteq> []" by (auto simp: holders_def)
    then obtain d where "d \<in> set (callers S)" "c_name d = c_name ?c" "inside (c_pc d)"
      by (auto simp: filter_empty_conv)
    then show ?thesis using w(1) by (metis in_set_conv_nth inside.simps(1))
  qed
  have removed: "c_pc ?c = Waiting k \<Longrightarrow> closed (sess_of ?M k) \<and> removed (slot_of (RemoveSession k ?M) k)" for k
  proof -
    assume "c_pc ?c = Waiting k"
    then have t: "target (c_name ?c) k ?M" "closed (sess_of ?M k)" using pc by simp_all
    have "removed (slot_of (RemoveSession k ?M) k)"
    proof (cases "map_of (store ?M) (c_name ?c) = Some k")
      case True
      then show ?thesis using t RemoveSession_registered(2) [of ?M k k] by (simp add: target_def)
    next
      case False
      then show ?thesis using t RemoveSession_other [of ?M k] by (auto simp: target_def)
    qed
    with t show ?thesis by simp
  qed
  consider "AddSession_step cfg False td (c_name ?c) multi (c_pc ?c) ?M \<noteq> None" | "c_pc ?c = WaitLock"
      "AddSession_step cfg False td (c_name ?c) multi WaitLock ?M = None" | k where "c_pc ?c = Waiting k"
      | r where "c_pc ?c = Finished r" | k await where "c_pc ?c = Closing k await" "td = TeardownRuns"
    using step_blocks [of cfg False td "c_name ?c" multi "c_pc ?c" ?M] np by fastforce
  then show ?thesis
  proof cases
    case (3 k)
    then show ?thesis using np removed [of k] by simp
  next
    case (5 k await)
    then show ?thesis using np pc by (simp add: after_close_def)
  qed (use np wait in simp_all)
qed

lemma sign_on_not_stuck_witness: "c_pc (callers reg_one ! 0) \<noteq> Panicked"
  using sign_on_not_stuck [OF reg_reach_one _ cfg_ok_id, of 0] by simp

text \<open>
  C39: Two sign-ons of one account are never past the lock at the same time, and the table of locks
  has an entry exactly for the accounts with a sign-on under way: entries are neither lost while
  someone waits nor left behind.
\<close>

theorem user_locks:
  assumes "reg_reach S"
  shows "(userLocks (mgr S) sn = None \<longleftrightarrow> list_all (\<lambda>d. c_name d = sn \<longrightarrow> (\<exists>r. c_pc d = Finished r)) (callers S)) \<and>
    length (filter (\<lambda>d. c_name d = sn \<and> inside (c_pc d)) (callers S)) \<le> 1"
proof -
  have ok: "locks_ok S" "\<forall>d \<in> set (callers S). c_pc d \<noteq> Panicked"
    using reg_reach_ok [OF assms] by (auto simp: reg_ok_def dest: bspec)
  have "inside (c_pc d) \<or> c_pc d = WaitLock \<longleftrightarrow> \<not> (\<exists>r. c_pc d = Finished r)" if "d \<in> set (callers S)" for d
    using ok(2) that by (cases "c_pc d") auto
  then have "announced sn (callers S) = 0 \<longleftrightarrow>
      list_all (\<lambda>d. c_name d = sn \<longrightarrow> (\<exists>r. c_pc d = Finished r)) (callers S)"
    by (auto simp: announced_def filter_empty_conv list_all_iff)
  then show ?thesis using ok(1) by (simp add: locks_ok_def holders_def)
qed

lemma user_locks_witness: "length (filter (\<lambda>d. c_name d = reg_sn \<and> inside (c_pc d)) (callers reg_one)) \<le> 1"
  using user_locks [OF reg_reach_one, of reg_sn] by blast

text \<open>
  A message relayed to a session reaches every connection that has signed on: it is queued behind
  the messages already waiting, or, if the queue is full, the connection is closed. No other
  connection is touched, and the session stays well formed.
\<close>

theorem relay_delivers:
  assumes "sess_reach s" and "j < length (heap s)"
  shows "heap (maybeRelayMessage msg s) ! j =
      (if live (heap s ! j)
       then if length (msgCh (heap s ! j)) < 1000 then (heap s ! j)\<lparr>msgCh := msgCh (heap s ! j) @ [msg]\<rparr>
            else (heap s ! j)\<lparr>iclosed := True\<rparr>
       else heap s ! j) \<and>
    length (heap (maybeRelayMessage msg s)) = length (heap s) \<and> sess_inv (maybeRelayMessage msg s)"
proof -
  have inv: "sess_inv s" by (rule sess_reach_inv [OF assms(1)])
  note st = sess_inv_struct [OF inv]
  have "\<forall>i \<in> set (instancesOrdered s). i < length (heap s)" using inv_ordered [OF st] by blast
  note f = relay_fold [OF inv inv_distinct [OF st] this, of live msg]
  have "live (heap s ! j) \<Longrightarrow> j \<in> set (instancesOrdered s)"
    using inv_open [OF st assms(2)] by (simp add: live_def)
  then show ?thesis using f assms(2) by (auto simp: maybeRelayMessage_def delivered_def)
qed

lemma relay_delivers_witness:
  "heap (maybeRelayMessage 7 (upd_inst 0 SetSignonComplete sess_one)) ! 0 =
     (SetSignonComplete (newInstance 1))\<lparr>msgCh := [7 :: nat]\<rparr>"
proof -
  let ?s = "upd_inst 0 SetSignonComplete sess_one"
  have "sess_step sess_one ?s" by (rule step_update) (simp_all add: sess_one_def)
  then have "sess_reach ?s" by (rule reach_step [OF sess_reach_one])
  from relay_delivers [OF this, of 0 7] show ?thesis
    by (simp add: sess_one_def newInstance_def SetSignonComplete_def live_def)
qed

text \<open>
  A sign-on by a client that can share its session has found an open session that cannot be shared;
  before it gets to close that session, the session's own connection leaves. The sign-on registers the
  new session without waiting for the teardown of the old one, which is still under way and whose
  \<open>RemoveSession\<close> will find nothing to remove. (On the other paths of \<open>AddSession\<close> it waits.)
\<close>

theorem replaced_session_not_awaited:
  assumes "reg_reach S" and "c < length (callers S)" and "c_multi (callers S ! c)"
    and "c_pc (callers S ! c) = Joining k" and "instancesOrdered (sess_of (mgr S) k) = []" and "\<not> removed (slot_of (mgr S) k)"
    and "\<not> multiSession (slot_of (mgr S) k)" and "cfg_ok cfg"
  shows "\<exists>M. run_add cfg 3 (c_name (callers S ! c)) True (Joining k) (mgr S) =
      (Finished (Inr (length (slots (mgr S)), 0)), M) \<and>
    findRec (c_name (callers S ! c)) M = Some (length (slots (mgr S))) \<and>
    closed (sess_of M k) \<and> \<not> removed (slot_of M k) \<and> RemoveSession k M = M"
proof -
  let ?M = "mgr S" and ?k = "length (slots (mgr S))" and ?sn = "c_name (callers S ! c)"
  have ok: "mgr_ok ?M" and "pc_ok ?sn (Joining k) ?M"
    using reg_reach_ok [OF assms(1)] assms(2,4) by (auto simp: reg_ok_def dest!: bspec [OF _ nth_mem])
  then have k: "k < ?k" "slot_name (slot_of ?M k) = ?sn" by (simp_all add: target_def)
  have inv: "sess_inv (sess_of ?M k)" using ok k by (simp add: mgr_ok_def slot_ok_def)
  obtain s where s: "AddInstance (cfg NewSession) = Ok (Some 0, s)" using AddInstance_fresh [OF assms(8)] by metis
  let ?slot = "\<lparr>slot_name = ?sn, slot_sess = s, removed = False, multiSession = True\<rparr>"
  let ?N = "(upd_sess k CloseSession ?M)\<lparr>slots := slots (upd_sess k CloseSession ?M) @ [?slot],
      store := AList.update ?sn ?k (store ?M)\<rparr>"
  have "\<not> torn_down (sess_of ?M k) (CloseSession (sess_of ?M k))"
    by (rule CloseSession_empty [OF inv assms(5)])
  then have run: "run_add cfg 3 ?sn True (Joining k) ?M = (Finished (Inr (?k, 0)), unlockUser ?sn ?N)"
    using assms(7) s by (simp add: numeral_eq_Suc newSession_def Let_def closing_def after_close_def)
  then have "reg_reach \<lparr>mgr = unlockUser ?sn ?N,
      callers = (callers S)[c := (callers S ! c)\<lparr>c_pc := Finished (Inr (?k, 0))\<rparr>]\<rparr>"
    using assms(3,4) by (intro reg_reach_run_caller [OF assms(1,2,8), of 3]) simp
  then have "store_ok (unlockUser ?sn ?N)" using reg_reach_ok by (fastforce simp: reg_ok_def mgr_ok_def)
  then have f: "findRec ?sn (unlockUser ?sn ?N) = Some ?k" by (simp add: findRec_eq map_of_update)
  have "slot_of ?N k = (slot_of ?M k)\<lparr>slot_sess := CloseSession (sess_of ?M k)\<rparr>"
    using k(1) by (simp add: slot_of_def upd_sess_def nth_append)
  then have "closed (sess_of ?N k)" "\<not> removed (slot_of ?N k)" "slot_name (slot_of ?N k) = ?sn"
    using k(2) assms(6) CloseSession_all [OF inv] by (simp_all add: sess_of_def)
  then have "closed (sess_of (unlockUser ?sn ?N) k) \<and> \<not> removed (slot_of (unlockUser ?sn ?N) k) \<and>
      RemoveSession k (unlockUser ?sn ?N) = unlockUser ?sn ?N"
    using k(1) RemoveSession_other [of "unlockUser ?sn ?N" k] by (simp add: map_of_update)
  then show ?thesis using run f by blast
qed

lemma replaced_session_not_awaited_witness:
  "\<exists>M. run_add id 3 reg_sn True (Joining 0) (upd_sess 0 CloseSession (reg_mgr\<lparr>userLocks := [reg_sn \<mapsto>
       \<lparr>lock_held = True, refCount = 1\<rparr>]\<rparr>)) = (Finished (Inr (1, 0)), M) \<and>
     findRec reg_sn M = Some 1 \<and> closed (sess_of M 0) \<and> \<not> removed (slot_of M 0)"
proof -
  let ?M = "reg_mgr\<lparr>userLocks := [reg_sn \<mapsto> \<lparr>lock_held = True, refCount = 1\<rparr>]\<rparr>"
  let ?S = "\<lparr>mgr = ?M, callers = callers reg_one @ [\<lparr>c_name = reg_sn, c_multi = True, c_pc = Joining 0\<rparr>]\<rparr>"
  have start: "reg_reach \<lparr>mgr = lockUser_announce reg_sn reg_mgr,
      callers = callers reg_one @ [\<lparr>c_name = reg_sn, c_multi = True, c_pc = WaitLock\<rparr>]\<rparr>"
    using reg_next [OF reg_reach_one reg_call [of reg_one reg_sn True]] by (simp add: reg_one_def)
  have "run_add id 3 reg_sn True WaitLock (lockUser_announce reg_sn reg_mgr) = (Joining 0, ?M)"
    by (simp add: numeral_eq_Suc lockUser_announce_def lockUser_acquire_def)
  then have S: "reg_reach ?S" by (rule reg_reach_run [OF start cfg_ok_id])
  have inv: "sess_inv sess_one" by (rule sess_reach_inv [OF sess_reach_one])
  have "reg_step ?S (?S\<lparr>mgr := upd_sess 0 (\<lambda>_. CloseSession sess_one) ?M\<rparr>)"
    using reg_session [of 0 ?S "CloseSession sess_one"] CloseSession_all [OF inv] step_close_all [of sess_one]
    by simp
  from reg_next [OF S this] have "reg_reach \<lparr>mgr = upd_sess 0 CloseSession ?M, callers = callers ?S\<rparr>"
    by (simp add: upd_sess_def)
  from replaced_session_not_awaited [OF this, of 1 0 id] show ?thesis
    using cfg_ok_id CloseSession_all [OF inv] by auto
qed

end
