(* ===== verification/Chat.thy ===== *)
theory Chat
  imports SessionManager TLVs
begin

text \<open>
  Chat rooms (\<open>state/chat.go\<close>) and the registry of chat sessions (\<open>state/session_manager.go\<close>,
  \<open>InMemoryChatSessionManager\<close>): one session manager per room, created when someone joins and dropped
  when the last one leaves.
\<close>

section \<open>Chat rooms\<close>

definition PrivateExchange :: u16 where "PrivateExchange = 4"
definition PublicExchange :: u16 where "PublicExchange = 5"
definition ChatRoomTLVFullyQualifiedName :: u16 where "ChatRoomTLVFullyQualifiedName = 0x6A"
definition ChatRoomTLVCreateTime :: u16 where "ChatRoomTLVCreateTime = 0xCA"
definition ChatRoomTLVFlags :: u16 where "ChatRoomTLVFlags = 0xC9"
definition ChatRoomTLVMaxMsgLen :: u16 where "ChatRoomTLVMaxMsgLen = 0xD1"
definition ChatRoomTLVMaxOccupancy :: u16 where "ChatRoomTLVMaxOccupancy = 0xD2"
definition ChatRoomTLVRoomName :: u16 where "ChatRoomTLVRoomName = 0xD3"
definition ChatRoomTLVNavCreatePerms :: u16 where "ChatRoomTLVNavCreatePerms = 0xD5"
definition ChatRoomTLVMaxMsgVisLen :: u16 where "ChatRoomTLVMaxMsgVisLen = 0xDA"

lemmas chat_tags = ChatRoomTLVFullyQualifiedName_def ChatRoomTLVCreateTime_def ChatRoomTLVFlags_def
  ChatRoomTLVMaxMsgLen_def ChatRoomTLVMaxOccupancy_def ChatRoomTLVRoomName_def
  ChatRoomTLVNavCreatePerms_def ChatRoomTLVMaxMsgVisLen_def

text \<open>\<open>createTime\<close> in seconds since the epoch.\<close>

record ChatRoom =
  createTime :: int
  creator :: IdentScreenName
  exchange :: u16
  room_name :: bytes

definition NewChatRoom :: "bytes \<Rightarrow> IdentScreenName \<Rightarrow> u16 \<Rightarrow> ChatRoom" where
  "NewChatRoom n c e = \<lparr>createTime = 0, creator = c, exchange = e, room_name = n\<rparr>"

definition InstanceNumber :: "ChatRoom \<Rightarrow> u16" where "InstanceNumber c = 0"

definition DetailLevel :: "ChatRoom \<Rightarrow> u8" where "DetailLevel c = 0x02"

definition Cookie :: "ChatRoom \<Rightarrow> bytes" where
  "Cookie c = decimal_string (unat (exchange c)) @ [0x2D] @ decimal_string (unat (InstanceNumber c)) @ [0x2D] @
     room_name c"

text \<open>\<open>url.QueryEscape\<close>: letters, digits and \<open>-_.~\<close> stay, a space becomes a plus sign.\<close>

definition hex_digit :: "nat \<Rightarrow> u8" where
  "hex_digit n = word_of_nat (if n < 10 then 0x30 + n else 0x41 + (n - 10))"

definition unreserved :: "u8 \<Rightarrow> bool" where
  "unreserved b \<longleftrightarrow> digit b \<or> 0x41 \<le> b \<and> b \<le> 0x5A \<or> 0x61 \<le> b \<and> b \<le> 0x7A \<or>
     b \<in> {0x2D, 0x5F, 0x2E, 0x7E}"

definition QueryEscape :: "bytes \<Rightarrow> bytes" where
  "QueryEscape s = concat (map (\<lambda>b.
     if unreserved b then [b] else if b = 0x20 then [0x2B]
     else [0x25, hex_digit (unat b div 16), hex_digit (unat b mod 16)]) s)"

text \<open>The scheme and the opaque part of the URL.\<close>

definition URL :: "ChatRoom \<Rightarrow> bytes \<times> bytes" where
  "URL c = (ascii ''aim'', ascii ''gochat?roomname='' @ QueryEscape (room_name c) @ ascii ''&exchange='' @
     decimal_string (unat (exchange c)))"

definition ChatRoom_TLVList :: "ChatRoom \<Rightarrow> TLV list outcome" where
  "ChatRoom_TLVList c = collect_out
     [NewTLVBE ChatRoomTLVFlags (TU16, VU16 15),
      NewTLVBE ChatRoomTLVCreateTime (TU32, VU32 (word_of_int (createTime c))),
      NewTLVBE ChatRoomTLVMaxMsgLen (TU16, VU16 1024),
      NewTLVBE ChatRoomTLVMaxOccupancy (TU16, VU16 100),
      NewTLVBE ChatRoomTLVNavCreatePerms (TU8, VU8 2),
      NewTLVBE ChatRoomTLVFullyQualifiedName (TString, VString (room_name c)),
      NewTLVBE ChatRoomTLVRoomName (TString, VString (room_name c)),
      NewTLVBE ChatRoomTLVMaxMsgVisLen (TU16, VU16 1024)]"

section \<open>The registry of chat sessions\<close>

text \<open>
  A session is named by its manager and its slot there. \<open>rooms\<close> is the map \<open>store\<close> from chat cookies to
  managers; \<open>cookies\<close> is the field \<open>chatRoomCookie\<close> of each session, empty until it is set.
\<close>

record 'm ChatManager =
  managers :: "'m SessionManager list"
  rooms :: "(bytes \<times> nat) list"
  cookies :: "nat \<times> nat \<Rightarrow> bytes"

definition NewInMemoryChatSessionManager :: "'m ChatManager" where
  "NewInMemoryChatSessionManager = \<lparr>managers = [], rooms = [], cookies = (\<lambda>_. [])\<rparr>"

definition chat_mgr :: "'m ChatManager \<Rightarrow> nat \<Rightarrow> 'm SessionManager" where
  "chat_mgr C m = managers C ! m"

definition set_mgr :: "nat \<Rightarrow> 'm SessionManager \<Rightarrow> 'm ChatManager \<Rightarrow> 'm ChatManager" where
  "set_mgr m M C = C\<lparr>managers := (managers C)[m := M]\<rparr>"

text \<open>
  \<open>AddSession\<close> in its four stretches: the manager of the room under \<open>mapMutex\<close>, the sign-on with that
  manager, the session's cookie, and the room again under \<open>mapMutex\<close>.
\<close>

definition room_manager :: "bytes \<Rightarrow> 'm ChatManager \<Rightarrow> nat \<times> 'm ChatManager" where
  "room_manager cookie C =
     (case map_of (rooms C) cookie of
        Some m \<Rightarrow> (m, C)
      | None \<Rightarrow>
          let m = length (managers C)
          in (m, C\<lparr>managers := managers C @ [NewInMemorySessionManager], rooms := AList.update cookie m (rooms C)\<rparr>))"

definition room_sign_on :: "('m Session \<Rightarrow> 'm Session) \<Rightarrow> nat \<Rightarrow> IdentScreenName \<Rightarrow> nat \<Rightarrow> pc \<Rightarrow> 'm ChatManager \<Rightarrow>
    pc \<times> 'm ChatManager" where
  "room_sign_on cfg n sn m p C =
     (case run_add cfg n sn False p (chat_mgr C m) of (p', M) \<Rightarrow> (p', set_mgr m M C))"

definition SetChatRoomCookie :: "nat \<times> nat \<Rightarrow> bytes \<Rightarrow> 'm ChatManager \<Rightarrow> 'm ChatManager" where
  "SetChatRoomCookie s cookie C = C\<lparr>cookies := (cookies C)(s := cookie)\<rparr>"

definition restore_room :: "bytes \<Rightarrow> nat \<Rightarrow> 'm ChatManager \<Rightarrow> 'm ChatManager" where
  "restore_room cookie m C =
     (if map_of (rooms C) cookie = None then C\<lparr>rooms := AList.update cookie m (rooms C)\<rparr> else C)"

text \<open>
  The whole call when nothing interferes, for a user who has no session in the room. (One who has closes
  it in the call; \<open>split_room\<close> runs the stretches of that call one by one.)
\<close>

definition chat_AddSession :: "('m Session \<Rightarrow> 'm Session) \<Rightarrow> bytes \<Rightarrow> IdentScreenName \<Rightarrow> 'm ChatManager \<Rightarrow>
    (nat \<times> nat) option \<times> 'm ChatManager" where
  "chat_AddSession cfg cookie sn C =
     (case room_manager cookie C of (m, C1) \<Rightarrow>
      case room_sign_on cfg 7 sn m WaitLock (set_mgr m (lockUser_announce sn (chat_mgr C1 m)) C1) of
        (Finished (Inr (k, i)), C2) \<Rightarrow>
          (Some (m, k), restore_room cookie m (SetChatRoomCookie (m, k) cookie C2))
      | (_, C2) \<Rightarrow> (None, C2))"

text \<open>\<open>RemoveSession\<close> panics when the room of the session is gone.\<close>

definition chat_RemoveSession :: "nat \<times> nat \<Rightarrow> 'm ChatManager \<Rightarrow> 'm ChatManager outcome" where
  "chat_RemoveSession s C =
     (case map_of (rooms C) (cookies C s) of
        None \<Rightarrow> Panic
      | Some m \<Rightarrow>
          let C' = (if m = fst s then set_mgr m (RemoveSession (snd s) (chat_mgr C m)) C else C)
          in Ok (if Empty (chat_mgr C' m) then C'\<lparr>rooms := AList.delete (cookies C s) (rooms C')\<rparr> else C'))"

definition chat_AllSessions :: "bytes \<Rightarrow> 'm ChatManager \<Rightarrow> (nat \<times> nat) list" where
  "chat_AllSessions cookie C =
     (case map_of (rooms C) cookie of
        None \<Rightarrow> []
      | Some m \<Rightarrow> map (\<lambda>k. (m, k)) (AllSessions (chat_mgr C m)))"

text \<open>Both relays hold \<open>mapMutex\<close> for reading throughout.\<close>

definition RelayToAllExcept :: "bytes \<Rightarrow> IdentScreenName \<Rightarrow> 'm \<Rightarrow> 'm ChatManager \<Rightarrow> 'm ChatManager outcome" where
  "RelayToAllExcept cookie except msg C =
     (case map_of (rooms C) cookie of
        None \<Rightarrow> Ok C
      | Some m \<Rightarrow>
          let M = chat_mgr C m in
          bind_out (relay_locked msg (filter (\<lambda>k. slot_name (slot_of M k) \<noteq> except) (AllSessions M)) M)
            (\<lambda>M'. Ok (set_mgr m M' C)))"

definition chat_RelayToScreenName :: "bytes \<Rightarrow> IdentScreenName \<Rightarrow> 'm \<Rightarrow> 'm ChatManager \<Rightarrow> 'm ChatManager outcome" where
  "chat_RelayToScreenName cookie recipient msg C =
     (case map_of (rooms C) cookie of
        None \<Rightarrow> Ok C
      | Some m \<Rightarrow>
          (case RetrieveSession recipient (chat_mgr C m) of
             None \<Rightarrow> Ok C
           | Some k \<Rightarrow> bind_out (relay_locked msg [k] (chat_mgr C m)) (\<lambda>M. Ok (set_mgr m M C))))"

text \<open>
  \<open>SignoutChat\<close> (\<open>foodgroup/auth.go\<close>), which the server registers as the teardown of every chat
  session, and closing a chat session, which runs it when the last connection leaves.
\<close>

definition SignoutChat :: "'m \<Rightarrow> nat \<times> nat \<Rightarrow> 'm ChatManager \<Rightarrow> 'm ChatManager outcome" where
  "SignoutChat left_msg s C =
     bind_out (RelayToAllExcept (cookies C s) (slot_name (slot_of (chat_mgr C (fst s)) (snd s))) left_msg C)
       (chat_RemoveSession s)"

definition chat_close :: "'m \<Rightarrow> nat \<times> nat \<Rightarrow> 'm ChatManager \<Rightarrow> 'm ChatManager outcome" where
  "chat_close left_msg s C =
     (let M = chat_mgr C (fst s); C' = set_mgr (fst s) (upd_sess (snd s) CloseSession M) C in
      if torn_down (sess_of M (snd s)) (CloseSession (sess_of M (snd s))) then SignoutChat left_msg s C' else Ok C')"

fun close_all :: "'m \<Rightarrow> IdentScreenName \<Rightarrow> nat list \<Rightarrow> 'm ChatManager \<Rightarrow> 'm ChatManager outcome" where
  "close_all left_msg user [] C = Ok C"
| "close_all left_msg user (m # ms) C =
     (case RetrieveSession user (chat_mgr C m) of
        None \<Rightarrow> close_all left_msg user ms C
      | Some k \<Rightarrow> bind_out (chat_close left_msg (m, k) C) (close_all left_msg user ms))"

definition RemoveUserFromAllChats :: "'m \<Rightarrow> IdentScreenName \<Rightarrow> 'm ChatManager \<Rightarrow> 'm ChatManager outcome" where
  "RemoveUserFromAllChats left_msg user C = close_all left_msg user (map snd (rooms C)) C"

section \<open>Lemmas\<close>

lemma digits_no_dash: "0x2D \<notin> set (decimal_string n)"
proof
  assume "0x2D \<in> set (decimal_string n)"
  then have "digit 0x2D" using decimal_string_digits [of n] by (simp add: list_all_iff)
  then show False by (simp add: digit_def)
qed

lemma before_dash: "0x2D \<notin> set a \<Longrightarrow> 0x2D \<notin> set b \<Longrightarrow> a @ [0x2D] @ x = b @ [0x2D] @ y \<longleftrightarrow> a = b \<and> x = (y :: bytes)"
proof (induction a arbitrary: b)
  case Nil
  then show ?case by (cases b) auto
next
  case (Cons c a)
  then show ?case by (cases b) auto
qed

lemma mgr_simps [simp]:
  "rooms (set_mgr m M C) = rooms C" "cookies (set_mgr m M C) = cookies C"
  "length (managers (set_mgr m M C)) = length (managers C)"
  "m < length (managers C) \<Longrightarrow> chat_mgr (set_mgr m M C) n = (if n = m then M else chat_mgr C n)"
  by (simp_all add: set_mgr_def chat_mgr_def)

lemma HasLive_iff: "sess_inv s \<Longrightarrow> HasLiveInstances s \<longleftrightarrow> (\<exists>i \<in> set (instancesOrdered s). live (heap s ! i))"
  using set_instances_list [OF sess_inv_struct [of s]] by (simp add: HasLiveInstances_def list_ex_iff)

lemma closed_not_live: "instancesOrdered s = [] \<Longrightarrow> sess_inv s \<Longrightarrow> \<not> HasLiveInstances s"
  by (simp add: HasLive_iff)

lemma torn_down_CloseSession:
  assumes "sess_inv s" and "instancesOrdered s \<noteq> []"
  shows "torn_down s (CloseSession s)"
proof -
  obtain i where "i \<in> set (instancesOrdered s)" using assms(2) by (cases "instancesOrdered s") auto
  then have "heap s \<noteq> []" using inv_ordered [OF sess_inv_struct [OF assms(1)]] by force
  then have "heap (CloseSession s) \<noteq> []" using CloseSession_all [OF assms(1)] by (metis length_0_conv)
  then show ?thesis
    using assms CloseSession_all [OF assms(1)] by (simp add: torn_down_def sess_inv_def)
qed

text \<open>The first one in: a new manager, one session in it, and the room in the map.\<close>

definition solo :: "IdentScreenName \<Rightarrow> 'm Session \<Rightarrow> 'm SessionManager" where
  "solo sn s = \<lparr>slots = [\<lparr>slot_name = sn, slot_sess = s, removed = False, multiSession = False\<rparr>],
     store = [(sn, 0)], userLocks = (\<lambda>_. None), maxConcurrentSessions = 5\<rparr>"

lemma solo_simps [simp]:
  "sess_of (solo sn s) 0 = s" "slot_of (solo sn s) 0 = \<lparr>slot_name = sn, slot_sess = s, removed = False, multiSession = False\<rparr>"
  "upd_sess 0 f (solo sn s) = solo sn (f s)" "store (solo sn s) = [(sn, 0)]" "userLocks (solo sn s) n = None"
  "length (slots (solo sn s)) = 1"
  by (simp_all add: solo_def sess_of_def slot_of_def upd_sess_def)

lemma AddInstance_closed: "AddInstance s = Ok (r, s') \<Longrightarrow> closed s' = closed s"
  by (cases "generateInstanceNum s") (auto simp: AddInstance_def Let_def split: if_splits)

lemma solo_sign_on:
  assumes "AddInstance (cfg NewSession) = Ok (Some 0, s)"
  shows "run_add cfg 7 sn False WaitLock (lockUser_announce sn NewInMemorySessionManager) = (Finished (Inr (0, 0)), solo sn s)"
  using assms
  by (simp add: numeral_eq_Suc lockUser_announce_def lockUser_acquire_def unlockUser_def solo_def
      NewInMemorySessionManager_def DefaultMaxConcurrentSessions_def findRec_def newSession_def Let_def fun_upd_idem)

lemma chat_join_new:
  assumes "map_of (rooms C) cookie = None" and "AddInstance (cfg NewSession) = Ok (Some 0, s)"
  shows "chat_AddSession cfg cookie sn C = (Some (length (managers C), 0),
    C\<lparr>managers := managers C @ [solo sn s], rooms := AList.update cookie (length (managers C)) (rooms C),
      cookies := (cookies C)((length (managers C), 0) := cookie)\<rparr>)"
  using assms(1) solo_sign_on [of cfg s sn, OF assms(2)]
  by (simp add: Let_def chat_AddSession_def room_manager_def room_sign_on_def chat_mgr_def set_mgr_def
      SetChatRoomCookie_def restore_room_def map_of_update)

text \<open>The teardown of the only session of a room takes the room along.\<close>

lemma solo_remove: "RemoveSession 0 (solo sn s) = (solo sn s)\<lparr>store := [],
    slots := [\<lparr>slot_name = sn, slot_sess = s, removed = True, multiSession = False\<rparr>]\<rparr>"
  by (simp add: RemoveSession_def Let_def) (simp add: solo_def)

lemma solo_close:
  assumes m: "map_of (rooms C) cookie = Some m" "m < length (managers C)" "cookies C (m, 0) = cookie"
    and M: "chat_mgr C m = solo sn s" and s: "sess_inv s" "instancesOrdered s \<noteq> []"
  shows "chat_close left_msg (m, 0) C = Ok (C\<lparr>
    managers := (managers C)[m := RemoveSession 0 (solo sn (CloseSession s))], rooms := AList.delete cookie (rooms C)\<rparr>)"
proof -
  have t: "torn_down s (CloseSession s)" using torn_down_CloseSession s by blast
  have live: "\<not> HasLiveInstances (CloseSession s)" using closed_not_live CloseSession_all [OF s(1)] by blast
  let ?C = "set_mgr m (solo sn (CloseSession s)) C"
  have "RelayToAllExcept cookie sn left_msg ?C = Ok ?C"
    using m M live by (simp add: RelayToAllExcept_def AllSessions_def Let_def)
       (simp add: set_mgr_def)
  then show ?thesis
    using m M t
    by (simp add: chat_close_def SignoutChat_def chat_RemoveSession_def Let_def solo_remove Empty_def)
       (simp add: set_mgr_def)
qed

text \<open>A relay that meets a session whose only connection has a full queue does not come back.\<close>

lemma sess_of_upd_other: "j \<noteq> k \<Longrightarrow> sess_of (upd_sess j f M) k = sess_of M k"
  by (simp add: sess_of_def slot_of_def upd_sess_def)

lemma relay_full_queue:
  assumes "sess_inv s" and "instancesOrdered s = [i]" and "live (heap s ! i)"
    and "1000 \<le> length (msgCh (heap s ! i))"
  shows "torn_down s (maybeRelayMessage msg s)"
proof -
  have i: "i < length (heap s)" using inv_ordered [OF sess_inv_struct [OF assms(1)]] assms(2) by simp
  have o: "\<not> iclosed (heap s ! i)" using assms(3) by (simp add: live_def)
  have "maybeRelayMessage msg s = CloseInstance i s"
    using assms o by (simp add: maybeRelayMessage_def relay_to_def RelayMessageToInstance_def)
  then show ?thesis
    using CloseInstance_eq [OF sess_inv_struct [OF assms(1)] i o] assms(2)
    by (simp add: torn_down_def log_event_def)
qed

lemma relay_locked_hang:
  "k \<in> set ks \<Longrightarrow> (\<And>msg. torn_down (sess_of M k) (maybeRelayMessage msg (sess_of M k))) \<Longrightarrow>
    relay_locked msg ks M = Hang"
proof (induction ks arbitrary: M)
  case (Cons j ks)
  show ?case
  proof (cases "j = k")
    case False
    then have "relay_locked msg ks (upd_sess j (\<lambda>_. maybeRelayMessage msg (sess_of M j)) M) = Hang"
      using Cons.prems by (intro Cons.IH) (simp_all add: sess_of_upd_other)
    then show ?thesis by (simp add: Let_def)
  qed (use Cons.prems(2) in \<open>simp add: Let_def\<close>)
qed simp

section \<open>Properties\<close>

text \<open>
  The chat cookie identifies a room by exchange and name: rooms with equal cookies have both in
  common, whatever characters the name contains.
\<close>

theorem chat_cookie_injective:
  "Cookie c = Cookie d \<longleftrightarrow> exchange c = exchange d \<and> room_name c = room_name d"
proof -
  have "Cookie c = Cookie d \<longleftrightarrow> decimal_string (unat (exchange c)) = decimal_string (unat (exchange d)) \<and>
      room_name c = room_name d"
    unfolding Cookie_def InstanceNumber_def
    by (simp only: before_dash [OF digits_no_dash digits_no_dash] append.assoc) simp
  then show ?thesis using decimal_string_inj by (auto simp: word_unat_eq_iff)
qed

text \<open>
  C40: The first user of a room gets a session in a room of its own; when that session closes, its
  teardown removes it and the room, and every other room is as it was before.
\<close>

theorem chat_join_leave:
  assumes "map_of (rooms C) cookie = None" and "cfg_ok cfg"
  shows "\<exists>s C1 C2. chat_AddSession cfg cookie sn C = (Some s, C1) \<and> cookies C1 s = cookie \<and>
    map_of (rooms C1) cookie = Some (fst s) \<and> findRec sn (chat_mgr C1 (fst s)) = Some (snd s) \<and>
    chat_close left_msg s C1 = Ok C2 \<and> map_of (rooms C2) = map_of (rooms C) \<and>
    take (length (managers C)) (managers C2) = managers C"
proof -
  obtain s where s: "AddInstance (cfg NewSession) = Ok (Some 0, s)" "sess_inv s" "length (instancesOrdered s) = 1"
    using AddInstance_fresh [OF assms(2)] by metis
  let ?m = "length (managers C)"
  let ?C = "C\<lparr>managers := managers C @ [solo sn s], rooms := AList.update cookie ?m (rooms C),
      cookies := (cookies C)((?m, 0) := cookie)\<rparr>"
  have j: "chat_AddSession cfg cookie sn C = (Some (?m, 0), ?C)" by (rule chat_join_new [of C cookie cfg s sn, OF assms(1) s(1)])
  have M: "chat_mgr ?C ?m = solo sn s" by (simp add: chat_mgr_def)
  let ?D = "?C\<lparr>managers := (managers ?C)[?m := RemoveSession 0 (solo sn (CloseSession s))],
      rooms := AList.delete cookie (rooms ?C)\<rparr>"
  have "chat_close left_msg (?m, 0) ?C = Ok ?D"
    by (rule solo_close) (use s M in \<open>auto simp: map_of_update\<close>)
  moreover have "map_of (rooms ?D) = map_of (rooms C)"
    by (rule ext) (use assms(1) in \<open>simp add: map_of_delete map_of_update\<close>)
  moreover have "findRec sn (chat_mgr ?C ?m) = Some 0" "map_of (rooms ?C) cookie = Some ?m" "cookies ?C (?m, 0) = cookie"
    "take ?m (managers ?D) = managers C"
    using M by (simp_all add: findRec_def map_of_update)
  ultimately show ?thesis using j by (metis fst_conv snd_conv)
qed

lemma chat_join_leave_witness:
  "\<exists>s C1 C2. chat_AddSession id [1] reg_sn (NewInMemoryChatSessionManager :: nat ChatManager) = (Some s, C1) \<and>
     chat_close 0 s C1 = Ok C2 \<and> map_of (rooms C2) [1] = None"
proof -
  have "map_of (rooms (NewInMemoryChatSessionManager :: nat ChatManager)) = (\<lambda>_. None)"
    by (simp add: NewInMemoryChatSessionManager_def)
  then show ?thesis
    using chat_join_leave [of "NewInMemoryChatSessionManager :: nat ChatManager" "[1]" id reg_sn 0] cfg_ok_id by fastforce
qed

text \<open>
  A client reads the room's metadata back from its TLV block: both name TLVs are the room's name,
  the creation time is the 32-bit Unix time, and the limits are those the server announces.
\<close>

theorem chat_room_metadata:
  "\<exists>l. ChatRoom_TLVList c = Ok l \<and>
     TLVList_String ChatRoomTLVFullyQualifiedName l = (room_name c, True) \<and>
     TLVList_String ChatRoomTLVRoomName l = (room_name c, True) \<and>
     TLVList_Uint32BE ChatRoomTLVCreateTime l = Ok (word_of_int (createTime c), True) \<and>
     TLVList_Uint16BE ChatRoomTLVMaxMsgLen l = Ok (1024, True) \<and>
     TLVList_Uint16BE ChatRoomTLVMaxMsgVisLen l = Ok (1024, True) \<and>
     TLVList_Uint16BE ChatRoomTLVMaxOccupancy l = Ok (100, True) \<and>
     TLVList_Uint16BE ChatRoomTLVFlags l = Ok (15, True) \<and>
     TLVList_Uint8 ChatRoomTLVNavCreatePerms l = (2, True)"
  using unat_u32_lt [of "word_of_int (createTime c)"] unat_u16_lt
  by (simp add: ChatRoom_TLVList_def NewTLVBE_u16 NewTLVBE_u32 NewTLVBE_u8 NewTLVBE_string chat_tags
      String_eq Uint32BE_eq Uint16BE_eq Uint8_eq get_put_uint)

text \<open>
  If someone in a room, other than the sender, has stopped reading and has a full queue on their
  only connection, relaying a message to the room never returns: it closes that connection while it
  holds the registry's lock for reading, and the session's teardown waits for the same lock.
\<close>

theorem full_queue_deadlock:
  assumes "map_of (rooms C) cookie = Some m" and "k \<in> set (AllSessions (chat_mgr C m))"
    and "slot_name (slot_of (chat_mgr C m) k) \<noteq> except" and "sess_reach (sess_of (chat_mgr C m) k)"
    and "instancesOrdered (sess_of (chat_mgr C m) k) = [i]" and "live (heap (sess_of (chat_mgr C m) k) ! i)"
    and "length (msgCh (heap (sess_of (chat_mgr C m) k) ! i)) = 1000"
  shows "RelayToAllExcept cookie except msg C = Hang"
proof -
  have "torn_down (sess_of (chat_mgr C m) k) (maybeRelayMessage msg (sess_of (chat_mgr C m) k))" for msg
    using assms by (intro relay_full_queue [of _ i]) (simp_all add: sess_reach_inv)
  then show ?thesis
    using assms(1-3) relay_locked_hang [of k "filter (\<lambda>k. slot_name (slot_of (chat_mgr C m) k) \<noteq> except)
        (AllSessions (chat_mgr C m))" "chat_mgr C m" msg]
    by (simp add: RelayToAllExcept_def Let_def)
qed

lemma full_queue_deadlock_witness:
  "RelayToAllExcept [1] (IdentScreenName [0x62]) 7
     \<lparr>managers = [solo reg_sn (upd_inst 0 (\<lambda>i. i\<lparr>signonComplete := True, msgCh := replicate 1000 (7 :: nat)\<rparr>) sess_one)],
      rooms = [([1], 0)], cookies = (\<lambda>_. [1])\<rparr> = Hang"
proof -
  let ?f = "\<lambda>i. i\<lparr>signonComplete := True, msgCh := replicate 1000 (7 :: nat)\<rparr>"
  let ?s = "upd_inst 0 ?f sess_one"
  have "sess_step sess_one ?s" by (rule step_update) (simp_all add: sess_one_def keeps_lifecycle_def)
  then have "sess_reach ?s" by (rule reach_step [OF sess_reach_one])
  moreover have "heap ?s = [?f (newInstance 1)]" "instancesOrdered ?s = [0]" by (simp_all add: sess_one_def upd_inst_def)
  moreover have "live (?f (newInstance 1))" by (simp add: live_def newInstance_def)
  moreover note HasLive_iff [OF sess_reach_inv [OF \<open>sess_reach ?s\<close>]]
  ultimately show ?thesis
    by (intro full_queue_deadlock [of _ _ 0 0 _ 0]) (simp_all add: chat_mgr_def AllSessions_def reg_sn_def)
qed

text \<open>
  \<open>AddSession\<close> sets a session's chat cookie only after the session is registered. If the session is
  closed before that, as a second sign-on of the same user does, its teardown looks for the room with
  the empty cookie and panics.
\<close>

theorem early_teardown_panics:
  assumes "map_of (rooms C) cookie = None" and "map_of (rooms C) [] = None" and "cookie \<noteq> []"
    and "cookies C (length (managers C), 0) = []" and "cfg_ok cfg"
  shows "\<exists>C1 C2. room_manager cookie C = (length (managers C), C1) \<and>
    room_sign_on cfg 7 sn (length (managers C)) WaitLock
      (set_mgr (length (managers C)) (lockUser_announce sn (chat_mgr C1 (length (managers C)))) C1) =
      (Finished (Inr (0, 0)), C2) \<and>
    chat_close left_msg (length (managers C), 0) C2 = Panic"
proof -
  obtain s where s: "AddInstance (cfg NewSession) = Ok (Some 0, s)" "sess_inv s" "length (instancesOrdered s) = 1"
    using AddInstance_fresh [OF assms(5)] by metis
  let ?m = "length (managers C)"
  let ?C1 = "C\<lparr>managers := managers C @ [NewInMemorySessionManager], rooms := AList.update cookie ?m (rooms C)\<rparr>"
  let ?C2 = "C\<lparr>managers := managers C @ [solo sn s], rooms := AList.update cookie ?m (rooms C)\<rparr>"
  have "room_manager cookie C = (?m, ?C1)" using assms(1) by (simp add: room_manager_def Let_def)
  moreover have "room_sign_on cfg 7 sn ?m WaitLock (set_mgr ?m (lockUser_announce sn (chat_mgr ?C1 ?m)) ?C1) =
      (Finished (Inr (0, 0)), ?C2)"
    using solo_sign_on [of cfg s sn, OF s(1)] by (simp add: room_sign_on_def chat_mgr_def set_mgr_def)
  moreover have "torn_down s (CloseSession s)" by (rule torn_down_CloseSession) (use s in auto)
  then have "chat_close left_msg (?m, 0) ?C2 = Panic"
    using assms(2-4)
    by (simp add: chat_close_def SignoutChat_def RelayToAllExcept_def chat_RemoveSession_def Let_def
        map_of_update chat_mgr_def)
  ultimately show ?thesis by blast
qed

lemma early_teardown_panics_witness:
  "\<exists>C. room_sign_on id 7 reg_sn 0 WaitLock (set_mgr 0 (lockUser_announce reg_sn NewInMemorySessionManager)
       \<lparr>managers = [NewInMemorySessionManager :: nat SessionManager], rooms = [([1], 0)], cookies = (\<lambda>_. [])\<rparr>) =
       (Finished (Inr (0, 0)), C) \<and>
     chat_close 0 (0, 0) C = Panic"
  using early_teardown_panics [of "NewInMemoryChatSessionManager :: nat ChatManager" "[1]" id reg_sn 0] cfg_ok_id
  by (simp add: NewInMemoryChatSessionManager_def room_manager_def Let_def chat_mgr_def)

text \<open>
  The check at the end of \<open>AddSession\<close> does not keep a room together. A user who joins again while in
  the room closes the old session, whose teardown, which runs in the call of \<open>CloseSession\<close>, deletes
  the room; if someone else joins before the call goes on, they get a new room under the same cookie, and the user ends up with an open session
  in the old one, which no relay to the room reaches and no \<open>RemoveSession\<close> removes.
\<close>

theorem split_room:
  assumes "cfg_ok cfg" and "cookie \<noteq> []" and "a \<noteq> b"
  shows "\<exists>C1 C2 C3 C4 C5.
    chat_AddSession cfg cookie a NewInMemoryChatSessionManager = (Some (0, 0), C1) \<and>
    room_manager cookie C1 = (0, C1) \<and>
    room_sign_on cfg 4 a 0 WaitLock (set_mgr 0 (lockUser_announce a (chat_mgr C1 0)) C1) = (Closing 0 True, C2) \<and>
    SignoutChat left_msg (0, 0) C2 = Ok C3 \<and>
    chat_AddSession cfg cookie b C3 = (Some (1, 0), C4) \<and>
    room_sign_on cfg 4 a 0 (Closing 0 True) C4 = (Finished (Inr (1, 0)), C5) \<and>
    (let C6 = restore_room cookie 0 (SetChatRoomCookie (0, 1) cookie C5) in
     \<not> closed (sess_of (chat_mgr C6 0) 1) \<and> map_of (rooms C6) cookie = Some 1 \<and>
     (0, 1) \<notin> set (chat_AllSessions cookie C6) \<and>
     (\<forall>C7. chat_RemoveSession (0, 1) C6 = Ok C7 \<longrightarrow> chat_mgr C7 0 = chat_mgr C6 0))"
proof -
  obtain s where s: "AddInstance (cfg NewSession) = Ok (Some 0, s)" "sess_inv s" "length (instancesOrdered s) = 1"
    using AddInstance_fresh [OF assms(1)] by metis
  have "\<not> closed (cfg NewSession)" using assms(1) by (simp add: cfg_ok_def)
  then have o: "instancesOrdered s \<noteq> []" "\<not> closed s" using s AddInstance_closed [OF s(1)] by auto
  let ?t = "CloseSession s"
  have t: "closed ?t" "\<not> HasLiveInstances ?t" using CloseSession_all [OF s(2)] closed_not_live by blast+
  let ?L = "\<lparr>lock_held = True, refCount = Suc 0\<rparr>"
  let ?N = "NewInMemoryChatSessionManager :: 'a ChatManager"
  let ?C1 = "\<lparr>managers = [solo a s], rooms = [(cookie, 0)], cookies = (\<lambda>_. [])((0, 0) := cookie)\<rparr>"
  let ?C2 = "?C1\<lparr>managers := [(solo a ?t)\<lparr>userLocks := [a \<mapsto> ?L]\<rparr>]\<rparr>"
  let ?M = "(RemoveSession 0 (solo a ?t))\<lparr>userLocks := [a \<mapsto> ?L]\<rparr>"
  let ?C3 = "\<lparr>managers = [?M], rooms = [], cookies = (\<lambda>_. [])((0, 0) := cookie)\<rparr>"
  let ?C4 = "\<lparr>managers = [?M, solo b s], rooms = [(cookie, 1)],
      cookies = ((\<lambda>_. [])((0, 0) := cookie))((1, 0) := cookie)\<rparr>"
  let ?M5 = "?M\<lparr>slots := slots ?M @ [\<lparr>slot_name = a, slot_sess = s, removed = False, multiSession = False\<rparr>],
      store := [(a, 1)], userLocks := (\<lambda>_. None)\<rparr>"
  let ?C5 = "?C4\<lparr>managers := [?M5, solo b s]\<rparr>"
  have 1: "chat_AddSession cfg cookie a ?N = (Some (0, 0), ?C1)"
    using chat_join_new [of ?N cookie cfg s a] s(1) by (simp add: NewInMemoryChatSessionManager_def)
  have 2: "room_sign_on cfg 4 a 0 WaitLock (set_mgr 0 (lockUser_announce a (chat_mgr ?C1 0)) ?C1) = (Closing 0 True, ?C2)"
    using o torn_down_CloseSession [OF s(2) o(1)]
    by (simp add: room_sign_on_def chat_mgr_def set_mgr_def numeral_eq_Suc lockUser_announce_def
        lockUser_acquire_def) (simp add: solo_def findRec_def slot_of_def sess_of_def upd_sess_def closing_def)
  have 3: "SignoutChat left_msg (0, 0) ?C2 = Ok ?C3"
    using t assms(2)
    by (simp add: SignoutChat_def RelayToAllExcept_def chat_RemoveSession_def Let_def chat_mgr_def set_mgr_def
        solo_remove AllSessions_def Empty_def) (simp add: RemoveSession_def solo_def slot_of_def)
  have 4: "chat_AddSession cfg cookie b ?C3 = (Some (1, 0), ?C4)"
    using chat_join_new [of ?C3 cookie cfg s b] s(1) by simp
  have 5: "room_sign_on cfg 4 a 0 (Closing 0 True) ?C4 = (Finished (Inr (1, 0)), ?C5)"
    using s(1) by (simp add: room_sign_on_def chat_mgr_def set_mgr_def numeral_eq_Suc solo_remove newSession_def
        unlockUser_def Let_def after_close_def) (simp add: solo_def slot_of_def)
  let ?C6 = "restore_room cookie 0 (SetChatRoomCookie (0, 1) cookie ?C5)"
  have 6: "?C6 = SetChatRoomCookie (0, 1) cookie ?C5" by (simp add: restore_room_def SetChatRoomCookie_def)
  have "\<not> closed (sess_of (chat_mgr ?C6 0) 1)" "map_of (rooms ?C6) cookie = Some 1"
    "(0, 1) \<notin> set (chat_AllSessions cookie ?C6)"
    using o unfolding 6
    by (simp_all add: SetChatRoomCookie_def chat_mgr_def sess_of_def slot_of_def solo_remove chat_AllSessions_def image_iff)
  moreover have "\<forall>C7. chat_RemoveSession (0, 1) ?C6 = Ok C7 \<longrightarrow> chat_mgr C7 0 = chat_mgr ?C6 0"
    unfolding 6 by (simp add: SetChatRoomCookie_def chat_RemoveSession_def chat_mgr_def Let_def)
  ultimately have 7: "let C6 = ?C6 in \<not> closed (sess_of (chat_mgr C6 0) 1) \<and> map_of (rooms C6) cookie = Some 1 \<and>
     (0, 1) \<notin> set (chat_AllSessions cookie C6) \<and>
     (\<forall>C7. chat_RemoveSession (0, 1) C6 = Ok C7 \<longrightarrow> chat_mgr C7 0 = chat_mgr C6 0)"
    by (simp only: Let_def simp_thms)
  have 0: "room_manager cookie ?C1 = (0, ?C1)" by (simp add: room_manager_def)
  show ?thesis
    by (rule exI [of _ ?C1], rule exI [of _ ?C2], rule exI [of _ ?C3], rule exI [of _ ?C4], rule exI [of _ ?C5])
      (intro conjI 0 1 2 3 4 5 7)
qed

lemma split_room_witness:
  "\<exists>C. \<not> closed (sess_of (chat_mgr (C :: nat ChatManager) 0) 1) \<and> map_of (rooms C) [1] = Some 1 \<and>
     (0, 1) \<notin> set (chat_AllSessions [1] C)"
proof -
  have "reg_sn \<noteq> IdentScreenName [0x62]" by (simp add: reg_sn_def)
  from split_room [OF cfg_ok_id _ this, of "[1]" "0 :: nat"] show ?thesis unfolding Let_def by blast
qed

end
