(* ===== verification/BuddyPrefs.thy ===== *)
theory BuddyPrefs
  imports TLVs
begin

text \<open>
  Buddy preferences (\<open>wire/buddy_prefs.go\<close>): booleans packed into two bitmasks, each with a bitmask
  that says which positions are present, in four TLVs of one feedbag item.
\<close>

unbundle bit_operations_syntax

section \<open>Preference numbers and defaults\<close>

definition FeedbagAttributesBuddyPrefs :: u16 where "FeedbagAttributesBuddyPrefs = 0x00C9"
definition FeedbagAttributesBuddyPrefsValid :: u16 where "FeedbagAttributesBuddyPrefsValid = 0x00D6"
definition FeedbagAttributesBuddyPrefs2 :: u16 where "FeedbagAttributesBuddyPrefs2 = 0x00D7"
definition FeedbagAttributesBuddyPrefs2Valid :: u16 where "FeedbagAttributesBuddyPrefs2Valid = 0x00D8"

definition FeedbagBuddyPrefsDisplayLogin :: u16 where "FeedbagBuddyPrefsDisplayLogin = 0x00"
definition FeedbagBuddyPrefsDisplayEBuddy :: u16 where "FeedbagBuddyPrefsDisplayEBuddy = 0x01"
definition FeedbagBuddyPrefsPlayEnter :: u16 where "FeedbagBuddyPrefsPlayEnter = 0x02"
definition FeedbagBuddyPrefsPlayExit :: u16 where "FeedbagBuddyPrefsPlayExit = 0x03"
definition FeedbagBuddyPrefsViewIMStamp :: u16 where "FeedbagBuddyPrefsViewIMStamp = 0x04"
definition FeedbagBuddyPrefsViewSmileys :: u16 where "FeedbagBuddyPrefsViewSmileys = 0x05"
definition FeedbagBuddyPrefsAcceptIcons :: u16 where "FeedbagBuddyPrefsAcceptIcons = 0x06"
definition FeedbagBuddyPrefsKnockNonAOLIMs :: u16 where "FeedbagBuddyPrefsKnockNonAOLIMs = 0x08"
definition FeedbagBuddyPrefsKnockNonListIMs :: u16 where "FeedbagBuddyPrefsKnockNonListIMs = 0x09"
definition FeedbagBuddyPrefsDiscloseIdle :: u16 where "FeedbagBuddyPrefsDiscloseIdle = 0x0A"
definition FeedbagBuddyPrefsAcceptCustomBart :: u16 where "FeedbagBuddyPrefsAcceptCustomBart = 0x0B"
definition FeedbagBuddyPrefsAcceptNonListBart :: u16 where "FeedbagBuddyPrefsAcceptNonListBart = 0x0C"
definition FeedbagBuddyPrefsAcceptBgs :: u16 where "FeedbagBuddyPrefsAcceptBgs = 0x0D"
definition FeedbagBuddyPrefsAcceptChromes :: u16 where "FeedbagBuddyPrefsAcceptChromes = 0x0E"
definition FeedbagBuddyPrefsAcceptBLSounds :: u16 where "FeedbagBuddyPrefsAcceptBLSounds = 0x0F"
definition FeedbagBuddyPrefsAcceptIMSounds :: u16 where "FeedbagBuddyPrefsAcceptIMSounds = 0x10"
definition FeedbagBuddyPrefsNoSeeRecentBuddies :: u16 where "FeedbagBuddyPrefsNoSeeRecentBuddies = 0x11"
definition FeedbagBuddyPrefsAcceptSMSLegal :: u16 where "FeedbagBuddyPrefsAcceptSMSLegal = 0x12"
definition FeedbagBuddyPrefsEnterDoesCRLF :: u16 where "FeedbagBuddyPrefsEnterDoesCRLF = 0x14"
definition FeedbagBuddyPrefsPlayIMSound :: u16 where "FeedbagBuddyPrefsPlayIMSound = 0x15"
definition FeedbagBuddyPrefsDiscloseTyping :: u16 where "FeedbagBuddyPrefsDiscloseTyping = 0x16"
definition FeedbagBuddyPrefsAcceptSuperIcons :: u16 where "FeedbagBuddyPrefsAcceptSuperIcons = 0x18"
definition FeedbagBuddyPrefsAcceptBLRichText :: u16 where "FeedbagBuddyPrefsAcceptBLRichText = 0x19"
definition FeedbagBuddyPrefsReduceIMSound :: u16 where "FeedbagBuddyPrefsReduceIMSound = 0x1A"
definition FeedbagBuddyPrefsConfirmDirectIM :: u16 where "FeedbagBuddyPrefsConfirmDirectIM = 0x1B"
definition FeedbagBuddyPrefsOneTabbedIMWindow :: u16 where "FeedbagBuddyPrefsOneTabbedIMWindow = 0x1C"
definition FeedbagBuddyPrefsBuddyInfoOnMouseover :: u16 where "FeedbagBuddyPrefsBuddyInfoOnMouseover = 0x1D"
definition FeedbagBuddyPrefsDiscloseBuddyMatches :: u16 where "FeedbagBuddyPrefsDiscloseBuddyMatches = 0x1E"
definition FeedbagBuddyPrefsCatchIMs :: u16 where "FeedbagBuddyPrefsCatchIMs = 0x1F"
definition FeedbagBuddyPrefsShowFriendlyName :: u16 where "FeedbagBuddyPrefsShowFriendlyName = 0x20"
definition FeedbagBuddyPrefsDiscloseRadio :: u16 where "FeedbagBuddyPrefsDiscloseRadio = 0x21"
definition FeedbagBuddyPrefsShowCapabilities :: u16 where "FeedbagBuddyPrefsShowCapabilities = 0x22"
definition FeedbagBuddyPrefsShowBuddyListFilter :: u16 where "FeedbagBuddyPrefsShowBuddyListFilter = 0x23"
definition FeedbagBuddyPrefsShowAwayIdle :: u16 where "FeedbagBuddyPrefsShowAwayIdle = 0x24"
definition FeedbagBuddyPrefsShowMobile :: u16 where "FeedbagBuddyPrefsShowMobile = 0x25"
definition FeedbagBuddyPrefsSortBuddyList :: u16 where "FeedbagBuddyPrefsSortBuddyList = 0x26"
definition FeedbagBuddyPrefsCatchIMsForClient :: u16 where "FeedbagBuddyPrefsCatchIMsForClient = 0x27"
definition FeedbagBuddyPrefsNewMessageSmallNotify :: u16 where "FeedbagBuddyPrefsNewMessageSmallNotify = 0x28"
definition FeedbagBuddyPrefsNoFrequentBuddies :: u16 where "FeedbagBuddyPrefsNoFrequentBuddies = 0x29"
definition FeedbagBuddyPrefsBlogAwayMessages :: u16 where "FeedbagBuddyPrefsBlogAwayMessages = 0x2A"
definition FeedbagBuddyPrefsBlogAIMSigMessages :: u16 where "FeedbagBuddyPrefsBlogAIMSigMessages = 0x2B"
definition FeedbagBuddyPrefsBlogNoComments :: u16 where "FeedbagBuddyPrefsBlogNoComments = 0x2C"
definition FeedbagBuddyPrefsFriendOfFriend :: u16 where "FeedbagBuddyPrefsFriendOfFriend = 0x2D"
definition FeedbagBuddyPrefsFriendGetContactList :: u16 where "FeedbagBuddyPrefsFriendGetContactList = 0x2E"
definition FeedbagBuddyPrefsCompadInit :: u16 where "FeedbagBuddyPrefsCompadInit = 0x2F"
definition FeedbagBuddyPrefsSendBuddyFeed :: u16 where "FeedbagBuddyPrefsSendBuddyFeed = 0x30"
definition FeedbagBuddyPrefsBlkSendIMWhileAway :: u16 where "FeedbagBuddyPrefsBlkSendIMWhileAway = 0x31"
definition FeedbagBuddyPrefsShowBuddyFeed :: u16 where "FeedbagBuddyPrefsShowBuddyFeed = 0x32"
definition FeedbagBuddyPrefsNoSaveVanityInfo :: u16 where "FeedbagBuddyPrefsNoSaveVanityInfo = 0x33"
definition FeedbagBuddyPrefsAcceptOfflineIM :: u16 where "FeedbagBuddyPrefsAcceptOfflineIM = 0x34"
definition FeedbagBuddyPrefsShowGroups :: u16 where "FeedbagBuddyPrefsShowGroups = 0x35"
definition FeedbagBuddyPrefsSortGroup :: u16 where "FeedbagBuddyPrefsSortGroup = 0x36"
definition FeedbagBuddyPrefsShowOfflineBuddies :: u16 where "FeedbagBuddyPrefsShowOfflineBuddies = 0x37"
definition FeedbagBuddyPrefsExpandBuddies :: u16 where "FeedbagBuddyPrefsExpandBuddies = 0x38"
definition FeedbagBuddyPrefsThirdPartyFeeds :: u16 where "FeedbagBuddyPrefsThirdPartyFeeds = 0x39"
definition FeedbagBuddyPrefsNotifyReceivedInvite :: u16 where "FeedbagBuddyPrefsNotifyReceivedInvite = 0x3A"
definition FeedbagBuddyPrefsApfAutoAccept :: u16 where "FeedbagBuddyPrefsApfAutoAccept = 0x3B"
definition FeedbagBuddyPrefsApfAutoAcceptBuddy :: u16 where "FeedbagBuddyPrefsApfAutoAcceptBuddy = 0x3C"
definition FeedbagBuddyPrefsBlockAwayMsgFeed :: u16 where "FeedbagBuddyPrefsBlockAwayMsgFeed = 0x3D"
definition FeedbagBuddyPrefsBlockAIMProfileFeed :: u16 where "FeedbagBuddyPrefsBlockAIMProfileFeed = 0x3E"
definition FeedbagBuddyPrefsBlockAIMPagesFeed :: u16 where "FeedbagBuddyPrefsBlockAIMPagesFeed = 0x3F"
definition FeedbagBuddyPrefsBlockJournalsFeed :: u16 where "FeedbagBuddyPrefsBlockJournalsFeed = 0x40"
definition FeedbagBuddyPrefsBlockLocationFeed :: u16 where "FeedbagBuddyPrefsBlockLocationFeed = 0x41"
definition FeedbagBuddyPrefsBlockStickiesFeed :: u16 where "FeedbagBuddyPrefsBlockStickiesFeed = 0x42"
definition FeedbagBuddyPrefsBlockUncutFeed :: u16 where "FeedbagBuddyPrefsBlockUncutFeed = 0x43"
definition FeedbagBuddyPrefsBlockLinksFeed :: u16 where "FeedbagBuddyPrefsBlockLinksFeed = 0x44"
definition FeedbagBuddyPrefsBlockAIMBulletinFeed :: u16 where "FeedbagBuddyPrefsBlockAIMBulletinFeed = 0x45"
definition FeedbagBuddyPrefsSaveStatusMsg :: u16 where "FeedbagBuddyPrefsSaveStatusMsg = 0x46"
definition FeedbagBuddyPrefsApfNotifyReceivedByEmail :: u16 where "FeedbagBuddyPrefsApfNotifyReceivedByEmail = 0x47"
definition FeedbagBuddyPrefsShowOfflineGrp :: u16 where "FeedbagBuddyPrefsShowOfflineGrp = 0x48"
definition FeedbagBuddyPrefsOfflineGrpCollapsed :: u16 where "FeedbagBuddyPrefsOfflineGrpCollapsed = 0x49"
definition FeedbagBuddyPrefsFirstIMSoundOnly :: u16 where "FeedbagBuddyPrefsFirstIMSoundOnly = 0x4A"
definition FeedbagBuddyPrefsImblastInviteNotify :: u16 where "FeedbagBuddyPrefsImblastInviteNotify = 0x4B"
definition FeedbagBuddyPrefsViewIMsInBubbles :: u16 where "FeedbagBuddyPrefsViewIMsInBubbles = 0x4C"
definition FeedbagBuddyPrefsViewIMTimestampsRelative :: u16 where "FeedbagBuddyPrefsViewIMTimestampsRelative = 0x4D"
definition FeedbagBuddyPrefsGlobalOTR :: u16 where "FeedbagBuddyPrefsGlobalOTR = 0x4E"
definition FeedbagBuddyPrefsImblastInviteFromBuddyOnly :: u16 where "FeedbagBuddyPrefsImblastInviteFromBuddyOnly = 0x4F"

lemmas buddy_pref_numbers =
  FeedbagBuddyPrefsDisplayLogin_def FeedbagBuddyPrefsDisplayEBuddy_def FeedbagBuddyPrefsPlayEnter_def
  FeedbagBuddyPrefsPlayExit_def FeedbagBuddyPrefsViewIMStamp_def FeedbagBuddyPrefsViewSmileys_def
  FeedbagBuddyPrefsAcceptIcons_def FeedbagBuddyPrefsKnockNonAOLIMs_def FeedbagBuddyPrefsKnockNonListIMs_def
  FeedbagBuddyPrefsDiscloseIdle_def FeedbagBuddyPrefsAcceptCustomBart_def
  FeedbagBuddyPrefsAcceptNonListBart_def FeedbagBuddyPrefsAcceptBgs_def FeedbagBuddyPrefsAcceptChromes_def
  FeedbagBuddyPrefsAcceptBLSounds_def FeedbagBuddyPrefsAcceptIMSounds_def
  FeedbagBuddyPrefsNoSeeRecentBuddies_def FeedbagBuddyPrefsAcceptSMSLegal_def
  FeedbagBuddyPrefsEnterDoesCRLF_def FeedbagBuddyPrefsPlayIMSound_def FeedbagBuddyPrefsDiscloseTyping_def
  FeedbagBuddyPrefsAcceptSuperIcons_def FeedbagBuddyPrefsAcceptBLRichText_def
  FeedbagBuddyPrefsReduceIMSound_def FeedbagBuddyPrefsConfirmDirectIM_def
  FeedbagBuddyPrefsOneTabbedIMWindow_def FeedbagBuddyPrefsBuddyInfoOnMouseover_def
  FeedbagBuddyPrefsDiscloseBuddyMatches_def FeedbagBuddyPrefsCatchIMs_def
  FeedbagBuddyPrefsShowFriendlyName_def FeedbagBuddyPrefsDiscloseRadio_def
  FeedbagBuddyPrefsShowCapabilities_def FeedbagBuddyPrefsShowBuddyListFilter_def
  FeedbagBuddyPrefsShowAwayIdle_def FeedbagBuddyPrefsShowMobile_def FeedbagBuddyPrefsSortBuddyList_def
  FeedbagBuddyPrefsCatchIMsForClient_def FeedbagBuddyPrefsNewMessageSmallNotify_def
  FeedbagBuddyPrefsNoFrequentBuddies_def FeedbagBuddyPrefsBlogAwayMessages_def
  FeedbagBuddyPrefsBlogAIMSigMessages_def FeedbagBuddyPrefsBlogNoComments_def
  FeedbagBuddyPrefsFriendOfFriend_def FeedbagBuddyPrefsFriendGetContactList_def
  FeedbagBuddyPrefsCompadInit_def FeedbagBuddyPrefsSendBuddyFeed_def FeedbagBuddyPrefsBlkSendIMWhileAway_def
  FeedbagBuddyPrefsShowBuddyFeed_def FeedbagBuddyPrefsNoSaveVanityInfo_def
  FeedbagBuddyPrefsAcceptOfflineIM_def FeedbagBuddyPrefsShowGroups_def FeedbagBuddyPrefsSortGroup_def
  FeedbagBuddyPrefsShowOfflineBuddies_def FeedbagBuddyPrefsExpandBuddies_def
  FeedbagBuddyPrefsThirdPartyFeeds_def FeedbagBuddyPrefsNotifyReceivedInvite_def
  FeedbagBuddyPrefsApfAutoAccept_def FeedbagBuddyPrefsApfAutoAcceptBuddy_def
  FeedbagBuddyPrefsBlockAwayMsgFeed_def FeedbagBuddyPrefsBlockAIMProfileFeed_def
  FeedbagBuddyPrefsBlockAIMPagesFeed_def FeedbagBuddyPrefsBlockJournalsFeed_def
  FeedbagBuddyPrefsBlockLocationFeed_def FeedbagBuddyPrefsBlockStickiesFeed_def
  FeedbagBuddyPrefsBlockUncutFeed_def FeedbagBuddyPrefsBlockLinksFeed_def
  FeedbagBuddyPrefsBlockAIMBulletinFeed_def FeedbagBuddyPrefsSaveStatusMsg_def
  FeedbagBuddyPrefsApfNotifyReceivedByEmail_def FeedbagBuddyPrefsShowOfflineGrp_def
  FeedbagBuddyPrefsOfflineGrpCollapsed_def FeedbagBuddyPrefsFirstIMSoundOnly_def
  FeedbagBuddyPrefsImblastInviteNotify_def FeedbagBuddyPrefsViewIMsInBubbles_def
  FeedbagBuddyPrefsViewIMTimestampsRelative_def FeedbagBuddyPrefsGlobalOTR_def
  FeedbagBuddyPrefsImblastInviteFromBuddyOnly_def


definition buddyPrefDefaults :: "(u16 \<times> bool) list" where
  "buddyPrefDefaults = [
     (FeedbagBuddyPrefsDisplayLogin, True),
     (FeedbagBuddyPrefsDisplayEBuddy, True),
     (FeedbagBuddyPrefsPlayEnter, True),
     (FeedbagBuddyPrefsPlayExit, True),
     (FeedbagBuddyPrefsViewIMStamp, True),
     (FeedbagBuddyPrefsViewSmileys, True),
     (FeedbagBuddyPrefsAcceptIcons, True),
     (FeedbagBuddyPrefsKnockNonAOLIMs, True),
     (FeedbagBuddyPrefsKnockNonListIMs, True),
     (FeedbagBuddyPrefsDiscloseIdle, True),
     (FeedbagBuddyPrefsAcceptCustomBart, False),
     (FeedbagBuddyPrefsAcceptNonListBart, False),
     (FeedbagBuddyPrefsAcceptBgs, True),
     (FeedbagBuddyPrefsAcceptChromes, True),
     (FeedbagBuddyPrefsAcceptBLSounds, True),
     (FeedbagBuddyPrefsAcceptIMSounds, True),
     (FeedbagBuddyPrefsNoSeeRecentBuddies, False),
     (FeedbagBuddyPrefsAcceptSMSLegal, False),
     (FeedbagBuddyPrefsEnterDoesCRLF, False),
     (FeedbagBuddyPrefsPlayIMSound, True),
     (FeedbagBuddyPrefsDiscloseTyping, True),
     (FeedbagBuddyPrefsAcceptSuperIcons, True),
     (FeedbagBuddyPrefsAcceptBLRichText, True),
     (FeedbagBuddyPrefsReduceIMSound, True),
     (FeedbagBuddyPrefsConfirmDirectIM, True),
     (FeedbagBuddyPrefsOneTabbedIMWindow, True),
     (FeedbagBuddyPrefsBuddyInfoOnMouseover, True),
     (FeedbagBuddyPrefsDiscloseBuddyMatches, True),
     (FeedbagBuddyPrefsCatchIMs, False),
     (FeedbagBuddyPrefsShowFriendlyName, True),
     (FeedbagBuddyPrefsDiscloseRadio, True),
     (FeedbagBuddyPrefsShowCapabilities, True),
     (FeedbagBuddyPrefsShowBuddyListFilter, True),
     (FeedbagBuddyPrefsShowAwayIdle, True),
     (FeedbagBuddyPrefsShowMobile, True),
     (FeedbagBuddyPrefsSortBuddyList, False),
     (FeedbagBuddyPrefsCatchIMsForClient, False),
     (FeedbagBuddyPrefsNewMessageSmallNotify, True),
     (FeedbagBuddyPrefsNoFrequentBuddies, False),
     (FeedbagBuddyPrefsBlogAwayMessages, False),
     (FeedbagBuddyPrefsBlogAIMSigMessages, False),
     (FeedbagBuddyPrefsBlogNoComments, False),
     (FeedbagBuddyPrefsFriendOfFriend, False),
     (FeedbagBuddyPrefsFriendGetContactList, False),
     (FeedbagBuddyPrefsCompadInit, False),
     (FeedbagBuddyPrefsSendBuddyFeed, True),
     (FeedbagBuddyPrefsBlkSendIMWhileAway, False),
     (FeedbagBuddyPrefsShowBuddyFeed, True),
     (FeedbagBuddyPrefsNoSaveVanityInfo, False),
     (FeedbagBuddyPrefsAcceptOfflineIM, True),
     (FeedbagBuddyPrefsShowGroups, True),
     (FeedbagBuddyPrefsSortGroup, True),
     (FeedbagBuddyPrefsShowOfflineBuddies, True),
     (FeedbagBuddyPrefsExpandBuddies, False),
     (FeedbagBuddyPrefsThirdPartyFeeds, False),
     (FeedbagBuddyPrefsNotifyReceivedInvite, True),
     (FeedbagBuddyPrefsApfAutoAccept, False),
     (FeedbagBuddyPrefsApfAutoAcceptBuddy, False),
     (FeedbagBuddyPrefsBlockAwayMsgFeed, False),
     (FeedbagBuddyPrefsBlockAIMProfileFeed, False),
     (FeedbagBuddyPrefsBlockAIMPagesFeed, False),
     (FeedbagBuddyPrefsBlockJournalsFeed, False),
     (FeedbagBuddyPrefsBlockLocationFeed, False),
     (FeedbagBuddyPrefsBlockStickiesFeed, False),
     (FeedbagBuddyPrefsBlockUncutFeed, False),
     (FeedbagBuddyPrefsBlockLinksFeed, False),
     (FeedbagBuddyPrefsBlockAIMBulletinFeed, False),
     (FeedbagBuddyPrefsSaveStatusMsg, True),
     (FeedbagBuddyPrefsApfNotifyReceivedByEmail, False),
     (FeedbagBuddyPrefsShowOfflineGrp, True),
     (FeedbagBuddyPrefsOfflineGrpCollapsed, False),
     (FeedbagBuddyPrefsFirstIMSoundOnly, False),
     (FeedbagBuddyPrefsImblastInviteNotify, True),
     (FeedbagBuddyPrefsViewIMsInBubbles, True),
     (FeedbagBuddyPrefsViewIMTimestampsRelative, False),
     (FeedbagBuddyPrefsGlobalOTR, False),
     (FeedbagBuddyPrefsImblastInviteFromBuddyOnly, False)]"

section \<open>Reading and writing a preference\<close>

definition buddyPrefTags :: "u16 \<Rightarrow> u16 \<times> u16" where
  "buddyPrefTags prefNum =
     (if prefNum < 32 then (FeedbagAttributesBuddyPrefsValid, FeedbagAttributesBuddyPrefs)
      else (FeedbagAttributesBuddyPrefs2Valid, FeedbagAttributesBuddyPrefs2))"

text \<open>The byte index, negative when the bitmask is too short, and the bit mask.\<close>

definition prefOffset :: "u16 \<Rightarrow> nat" where
  "prefOffset prefNum = (if prefNum \<noteq> 32 then unat prefNum - 33 else 0)"

definition buddyPrefBit :: "u16 \<Rightarrow> nat \<Rightarrow> int \<times> u8" where
  "buddyPrefBit prefNum len =
     (if prefNum < 32 then (int len - 1 - int (unat prefNum) div 8, push_bit (unat prefNum mod 8) 1)
      else (int (prefOffset prefNum div 8), drop_bit (prefOffset prefNum mod 8) 0x80))"

definition readBuddyPref :: "TLVList \<Rightarrow> u16 \<Rightarrow> bool \<times> bool" where
  "readBuddyPref l prefNum =
     (case buddyPrefTags prefNum of (validTag, valueTag) \<Rightarrow>
      case TLVList_Bytes validTag l of
        None \<Rightarrow> (False, False)
      | Some validBytes \<Rightarrow>
      case TLVList_Bytes valueTag l of
        None \<Rightarrow> (False, False)
      | Some valueBytes \<Rightarrow>
          let (index, mask) = buddyPrefBit prefNum (length validBytes) in
          if index < 0 \<or> index \<ge> int (length validBytes) \<or> index \<ge> int (length valueBytes) then (False, False)
          else (validBytes ! nat index AND mask \<noteq> 0, valueBytes ! nat index AND mask \<noteq> 0))"

definition BuddyPref :: "TLVList \<Rightarrow> u16 \<Rightarrow> bool" where
  "BuddyPref l prefNum =
     (case readBuddyPref l prefNum of
        (True, v) \<Rightarrow> v
      | (False, _) \<Rightarrow> (case map_of buddyPrefDefaults prefNum of None \<Rightarrow> False | Some b \<Rightarrow> b))"

definition leftPad :: "bytes \<Rightarrow> nat \<Rightarrow> bytes" where
  "leftPad b n = (if length b \<ge> n then b else replicate (n - length b) 0 @ b)"

definition rightPad :: "bytes \<Rightarrow> nat \<Rightarrow> bytes" where
  "rightPad b n = (if length b \<ge> n then b else b @ replicate (n - length b) 0)"

text \<open>An index out of range would panic.\<close>

definition SetBuddyPref :: "TLVList \<Rightarrow> u16 \<Rightarrow> bool \<Rightarrow> TLVList outcome" where
  "SetBuddyPref l prefNum v =
     (case buddyPrefTags prefNum of (validTag, valueTag) \<Rightarrow>
      let rawValid = (case TLVList_Bytes validTag l of None \<Rightarrow> [] | Some b \<Rightarrow> b);
          rawValue = (case TLVList_Bytes valueTag l of None \<Rightarrow> [] | Some b \<Rightarrow> b);
          len = (if prefNum < 32 then max 4 (max (length rawValid) (length rawValue))
                 else max (prefOffset prefNum div 8 + 1) (max (length rawValid) (length rawValue)));
          pad = (if prefNum < 32 then leftPad else rightPad);
          validBytes = pad rawValid len;
          valueBytes = pad rawValue len;
          (index, mask) = buddyPrefBit prefNum len
      in if index < 0 \<or> index \<ge> int (length validBytes) \<or> index \<ge> int (length valueBytes) then Panic
         else let validBytes = validBytes[nat index := validBytes ! nat index OR mask];
                  valueBytes = valueBytes[nat index :=
                    (if v then valueBytes ! nat index OR mask else valueBytes ! nat index AND NOT mask)]
              in bind_out (NewTLVBE validTag (TSlice TU8, vbytes validBytes)) (\<lambda>t.
                 bind_out (NewTLVBE valueTag (TSlice TU8, vbytes valueBytes)) (\<lambda>u.
                 Ok (TLVList_Set u (TLVList_Set t l)))))"

section \<open>Lemmas\<close>

text \<open>The number of the bit a mask selects.\<close>

definition pref_bit :: "u16 \<Rightarrow> nat" where
  "pref_bit p = (if p < 32 then unat p mod 8 else 7 - prefOffset p mod 8)"

lemma pref_bit_bound: "pref_bit p < 8"
proof -
  have "7 - n < (8 :: nat)" for n by simp
  then show ?thesis by (simp add: pref_bit_def del: One_nat_def)
qed

lemma pref_mask: "snd (buddyPrefBit p n) = push_bit (pref_bit p) 1"
proof -
  have "drop_bit k (0x80 :: u8) = push_bit (7 - k) 1" if "k < 8" for k
  proof -
    from that have "k \<in> {0, 1, 2, 3, 4, 5, 6, 7}" by auto
    then show ?thesis by auto
  qed
  then show ?thesis by (simp add: buddyPrefBit_def pref_bit_def)
qed

lemma pref_test: "x AND snd (buddyPrefBit p n) \<noteq> 0 \<longleftrightarrow> bit x (pref_bit p)"
  unfolding pref_mask by (simp add: bit_iff_and_push_bit_not_eq_0)

text \<open>What is read from the two bitmasks.\<close>

definition pref_index :: "u16 \<Rightarrow> nat \<Rightarrow> int" where
  "pref_index p n = fst (buddyPrefBit p n)"

definition read_bits :: "bytes \<Rightarrow> bytes \<Rightarrow> u16 \<Rightarrow> bool \<times> bool" where
  "read_bits vs xs p =
     (let i = pref_index p (length vs) in
      if i < 0 \<or> i \<ge> int (length vs) \<or> i \<ge> int (length xs) then (False, False)
      else (bit (vs ! nat i) (pref_bit p), bit (xs ! nat i) (pref_bit p)))"

lemma read_bits_nil [simp]: "read_bits [] [] p = (False, False)"
  by (auto simp: read_bits_def Let_def)

definition raw :: "u16 \<Rightarrow> TLVList \<Rightarrow> bytes" where
  "raw t l = (case TLVList_Bytes t l of None \<Rightarrow> [] | Some b \<Rightarrow> b)"

lemma read_eq:
  "readBuddyPref l p = (case buddyPrefTags p of (a, b) \<Rightarrow>
     if TLVList_Bytes a l = None \<or> TLVList_Bytes b l = None then (False, False) else read_bits (raw a l) (raw b l) p)"
proof -
  obtain a b where t: "buddyPrefTags p = (a, b)" by fastforce
  obtain i m where im: "buddyPrefBit p (length (raw a l)) = (i, m)" by fastforce
  then have "m = snd (buddyPrefBit p (length (raw a l)))" "pref_index p (length (raw a l)) = i"
    by (simp_all add: pref_index_def)
  then have "x AND m \<noteq> 0 \<longleftrightarrow> bit x (pref_bit p)" for x by (simp only: pref_test)
  then show ?thesis using im t \<open>pref_index p _ = i\<close>
    by (auto simp: readBuddyPref_def read_bits_def raw_def split: option.splits)
qed

text \<open>Padding both bitmasks changes nothing that can be read.\<close>

lemma read_leftPad:
  assumes "length vs = length xs" and "p < 32"
  shows "read_bits (leftPad vs n) (leftPad xs n) p = read_bits vs xs p"
proof (cases "length xs < n")
  case True
  have "pref_index p k = int k - 1 - int (unat p div 8)" for k
    using assms(2) by (simp add: pref_index_def buddyPrefBit_def zdiv_int)
  then show ?thesis
    using True assms(1) by (auto simp: read_bits_def leftPad_def nth_append nat_diff_distrib Let_def)
qed (use assms in \<open>simp add: leftPad_def\<close>)

lemma read_rightPad:
  assumes "length vs = length xs" and "\<not> p < 32"
  shows "read_bits (rightPad vs n) (rightPad xs n) p = read_bits vs xs p"
proof (cases "length xs < n")
  case True
  have "pref_index p k = int (prefOffset p div 8)" for k
    using assms(2) by (simp add: pref_index_def buddyPrefBit_def)
  then show ?thesis
    using True assms(1) by (auto simp: read_bits_def rightPad_def nth_append Let_def)
qed (use assms in \<open>simp add: rightPad_def\<close>)

text \<open>Two preferences share a position only if they are 32 and 33.\<close>

definition same_pref :: "u16 \<Rightarrow> u16 \<Rightarrow> bool" where
  "same_pref p q \<longleftrightarrow> p = q \<or> p = 32 \<and> q = 33 \<or> p = 33 \<and> q = 32"

lemma div_mod_eq: "a div 8 = b div 8 \<Longrightarrow> a mod 8 = b mod 8 \<Longrightarrow> a = (b :: nat)"
  by (metis div_mult_mod_eq)

lemma low_pref: "p < 32 \<longleftrightarrow> unat p < 32" for p :: u16
  by (simp add: word_less_nat_alt)

lemma low_index: "p < 32 \<Longrightarrow> pref_index p n = int n - 1 - int (unat p div 8)"
  by (simp add: pref_index_def buddyPrefBit_def zdiv_int)

lemma position_inj:
  assumes "p < 32 \<longleftrightarrow> q < 32"
  shows "pref_index p n = pref_index q n \<and> pref_bit p = pref_bit q \<longleftrightarrow> same_pref p q"
proof (cases "p < 32")
  case True
  then have "pref_index p n = pref_index q n \<and> pref_bit p = pref_bit q \<longleftrightarrow> unat p = unat q"
    using assms div_mod_eq [of "unat p" "unat q"] low_index [of p n] low_index [of q n]
    by (auto simp: pref_bit_def simp del: of_nat_div)
  also have "\<dots> \<longleftrightarrow> same_pref p q" using True assms by (auto simp: same_pref_def low_pref word_unat_eq_iff)
  finally show ?thesis .
next
  case False
  have "7 - a mod 8 = 7 - b mod 8 \<longleftrightarrow> a mod 8 = b mod 8" for a b :: nat
    using mod_less_divisor [of 8 a] mod_less_divisor [of 8 b] by linarith
  then have "pref_index p n = pref_index q n \<and> pref_bit p = pref_bit q \<longleftrightarrow> prefOffset p = prefOffset q"
    using assms False div_mod_eq [of "prefOffset p" "prefOffset q"]
    by (auto simp: pref_index_def buddyPrefBit_def pref_bit_def)
  also have "\<dots> \<longleftrightarrow> same_pref p q"
    using False assms by (auto simp: same_pref_def prefOffset_def low_pref word_unat_eq_iff)
  finally show ?thesis .
qed

definition set_bits :: "bool \<Rightarrow> u16 \<Rightarrow> bytes \<Rightarrow> bytes" where
  "set_bits v p xs = (let i = nat (pref_index p (length xs)); m = push_bit (pref_bit p) 1
     in xs[i := (if v then xs ! i OR m else xs ! i AND NOT m)])"

lemma bit_set: "k < 8 \<Longrightarrow> bit (if v then (x :: u8) OR push_bit k 1 else x AND NOT (push_bit k 1)) j \<longleftrightarrow>
    (if j = k then v else bit x j)"
  by (auto simp: bit_simps dest: bit_imp_le_length)

lemma nth_set_bits:
  assumes "0 \<le> pref_index p (length xs)" and "0 \<le> pref_index q (length xs)" "pref_index q (length xs) < int (length xs)"
    and "p < 32 \<longleftrightarrow> q < 32"
  shows "bit (set_bits v p xs ! nat (pref_index q (length xs))) (pref_bit q) \<longleftrightarrow>
    (if same_pref p q then v else bit (xs ! nat (pref_index q (length xs))) (pref_bit q))"
proof -
  let ?i = "pref_index p (length xs)" and ?j = "pref_index q (length xs)"
  have j: "nat ?j < length xs" using assms(2,3) by linarith
  note b = bit_set [OF pref_bit_bound [of p], of v "xs ! nat ?j" "pref_bit q"]
  have inj: "?i = ?j \<and> pref_bit p = pref_bit q \<longleftrightarrow> same_pref p q" by (rule position_inj [OF assms(4)])
  show ?thesis
  proof (cases "?i = ?j")
    case True
    then have e: "set_bits v p xs ! nat ?j = (if v then xs ! nat ?j OR push_bit (pref_bit p) 1
        else xs ! nat ?j AND NOT (push_bit (pref_bit p) 1))"
      using j by (simp add: set_bits_def Let_def)
    have "pref_bit q = pref_bit p \<longleftrightarrow> same_pref p q" using inj True by (simp add: eq_commute)
    then show ?thesis unfolding e b by (simp only:)
  next
    case False
    then have "nat ?i \<noteq> nat ?j" using assms(1,2) by (simp only: eq_nat_nat_iff) simp
    then have "set_bits v p xs ! nat ?j = xs ! nat ?j" by (simp add: set_bits_def Let_def)
    then show ?thesis using inj False by simp
  qed
qed

lemma length_set_bits [simp]: "length (set_bits v p xs) = length xs"
  by (simp add: set_bits_def Let_def)

lemma read_set_bits:
  assumes "length vs = length xs" and "0 \<le> pref_index p (length vs)" "pref_index p (length vs) < int (length vs)"
    and "p < 32 \<longleftrightarrow> q < 32"
  shows "read_bits (set_bits True p vs) (set_bits v p xs) q = (if same_pref p q then (True, v) else read_bits vs xs q)"
proof (cases "0 \<le> pref_index q (length vs) \<and> pref_index q (length vs) < int (length vs)")
  case False
  then have "\<not> same_pref p q" using position_inj [OF assms(4), of "length vs"] assms(2,3) by auto
  with False show ?thesis using assms(1) by (auto simp: read_bits_def Let_def)
next
  case True
  then show ?thesis
    using nth_set_bits [of p vs q True] nth_set_bits [of p xs q v] assms by (simp add: read_bits_def Let_def)
qed

text \<open>The two regimes under one name.\<close>

definition pref_pad :: "u16 \<Rightarrow> bytes \<Rightarrow> nat \<Rightarrow> bytes" where
  "pref_pad p = (if p < 32 then leftPad else rightPad)"

definition pref_len :: "u16 \<Rightarrow> nat \<Rightarrow> nat" where
  "pref_len p n = (if p < 32 then max 4 n else max (prefOffset p div 8 + 1) n)"

lemma length_pref_pad [simp]: "length (pref_pad p b n) = max n (length b)"
  by (simp add: pref_pad_def leftPad_def rightPad_def)

lemma pref_in_range: "0 \<le> pref_index p (pref_len p n)" "pref_index p (pref_len p n) < int (pref_len p n)"
proof -
  have "uint p div 8 = int (unat p div 8)" by (simp add: zdiv_int)
  moreover have "unat p div 8 < 4" if "unat p < 32" using that by simp
  ultimately show "0 \<le> pref_index p (pref_len p n)" "pref_index p (pref_len p n) < int (pref_len p n)"
    by (auto simp: pref_index_def buddyPrefBit_def pref_len_def low_pref)
qed

lemma read_pad:
  "length vs = length xs \<Longrightarrow> (p < 32 \<longleftrightarrow> q < 32) \<Longrightarrow> read_bits (pref_pad p vs n) (pref_pad p xs n) q = read_bits vs xs q"
  by (simp add: pref_pad_def read_leftPad read_rightPad)

lemma SetBuddyPref_eq:
  assumes "buddyPrefTags p = (a, b)" and "length (raw a l) = length (raw b l)"
  shows "SetBuddyPref l p v =
    (let n = pref_len p (length (raw a l)) in
     Ok (TLVList_Set \<lparr>Tag = b, Value = set_bits v p (pref_pad p (raw b l) n)\<rparr>
        (TLVList_Set \<lparr>Tag = a, Value = set_bits True p (pref_pad p (raw a l) n)\<rparr> l)))"
proof -
  let ?n = "pref_len p (length (raw a l))"
  obtain i m where im: "buddyPrefBit p ?n = (i, m)" by fastforce
  then have i: "i = pref_index p ?n" "m = push_bit (pref_bit p) 1" using pref_mask [of p ?n] by (simp_all add: pref_index_def)
  have n: "?n = (if p < 32 then max 4 (max (length (raw a l)) (length (raw b l)))
      else max (prefOffset p div 8 + 1) (max (length (raw a l)) (length (raw b l))))"
    using assms(2) by (simp add: pref_len_def)
  have "length (raw a l) \<le> ?n" by (simp add: pref_len_def)
  then have len: "length (pref_pad p (raw a l) ?n) = ?n" "length (pref_pad p (raw b l) ?n) = ?n"
    using assms(2) by simp_all
  show ?thesis
    using im len pref_in_range [of p "length (raw a l)"]
    unfolding SetBuddyPref_def assms(1) raw_def [symmetric] Let_def prod.case n [symmetric] pref_pad_def [symmetric]
    by (simp add: i NewTLVBE_bytes set_bits_def Let_def)
qed

section \<open>Properties\<close>

text \<open>
  Setting a preference never panics and sets that preference and no other: every other one keeps
  its stored or default value, except that 32 and 33 share a position. The two bitmasks must have the
  same length, as \<open>SetBuddyPref\<close> itself leaves them.
\<close>

theorem buddy_pref_set:
  assumes "map_option length (TLVList_Bytes (fst (buddyPrefTags p)) l) =
      map_option length (TLVList_Bytes (snd (buddyPrefTags p)) l)"
  shows "\<exists>l'. SetBuddyPref l p v = Ok l' \<and>
    (\<forall>q. BuddyPref l' q = (if q = p \<or> p = 32 \<and> q = 33 \<or> p = 33 \<and> q = 32 then v else BuddyPref l q)) \<and>
    map_option length (TLVList_Bytes (fst (buddyPrefTags p)) l') =
      map_option length (TLVList_Bytes (snd (buddyPrefTags p)) l')"
proof -
  obtain a b where t: "buddyPrefTags p = (a, b)" by fastforce
  then have ab: "a \<noteq> b" by (auto simp: buddyPrefTags_def FeedbagAttributesBuddyPrefs_def FeedbagAttributesBuddyPrefsValid_def
      FeedbagAttributesBuddyPrefs2_def FeedbagAttributesBuddyPrefs2Valid_def split: if_splits)
  have len: "length (raw a l) = length (raw b l)"
    and none: "TLVList_Bytes a l = None \<longleftrightarrow> TLVList_Bytes b l = None"
    using assms t by (auto simp: raw_def map_option_case split: option.splits)
  let ?n = "pref_len p (length (raw a l))"
  let ?vs = "set_bits True p (pref_pad p (raw a l) ?n)" and ?xs = "set_bits v p (pref_pad p (raw b l) ?n)"
  let ?l = "TLVList_Set \<lparr>Tag = b, Value = ?xs\<rparr> (TLVList_Set \<lparr>Tag = a, Value = ?vs\<rparr> l)"
  have set: "SetBuddyPref l p v = Ok ?l" using SetBuddyPref_eq [OF t len] by (simp add: Let_def)
  have bts: "TLVList_Bytes c ?l = (if c = b then Some ?xs else if c = a then Some ?vs else TLVList_Bytes c l)" for c
    by (simp add: Bytes_Set)
  have "readBuddyPref ?l q = (if same_pref p q then (True, v) else readBuddyPref l q)" for q
  proof (cases "p < 32 \<longleftrightarrow> q < 32")
    case True
    then have tq: "buddyPrefTags q = (a, b)" using t by (simp add: buddyPrefTags_def split: if_splits)
    have n: "length (raw a l) \<le> ?n" by (simp add: pref_len_def)
    have "readBuddyPref ?l q = read_bits ?vs ?xs q" using ab by (simp add: read_eq tq bts raw_def)
    also have "\<dots> = (if same_pref p q then (True, v) else read_bits (raw a l) (raw b l) q)"
      using read_set_bits [OF _ _ _ True, of "pref_pad p (raw a l) ?n" "pref_pad p (raw b l) ?n" v]
        pref_in_range [of p "length (raw a l)"] read_pad [OF len True] n len by simp
    also have "read_bits (raw a l) (raw b l) q = readBuddyPref l q"
      using none by (auto simp: read_eq tq raw_def)
    finally show ?thesis .
  next
    case False
    then have "same_pref p q = False" by (auto simp: same_pref_def)
    moreover obtain c d where q: "buddyPrefTags q = (c, d)" by fastforce
    moreover have "c \<notin> {a, b}" "d \<notin> {a, b}"
      using False t q by (auto simp: buddyPrefTags_def FeedbagAttributesBuddyPrefs_def FeedbagAttributesBuddyPrefsValid_def
          FeedbagAttributesBuddyPrefs2_def FeedbagAttributesBuddyPrefs2Valid_def split: if_splits)
    then have "TLVList_Bytes c ?l = TLVList_Bytes c l" "TLVList_Bytes d ?l = TLVList_Bytes d l" by (simp_all add: bts)
    then have "readBuddyPref ?l q = readBuddyPref l q" by (simp only: read_eq q raw_def prod.case)
    ultimately show ?thesis by (simp only: if_False)
  qed
  then have "BuddyPref ?l q = (if same_pref p q then v else BuddyPref l q)" for q by (simp add: BuddyPref_def)
  moreover have "length ?vs = length ?xs" using len by (simp add: set_bits_def Let_def)
  ultimately show ?thesis using set t ab by (simp add: bts same_pref_def eq_commute)
qed

lemma buddy_pref_set_witness:
  "\<exists>l'. SetBuddyPref [] FeedbagBuddyPrefsCatchIMs True = Ok l' \<and> BuddyPref l' FeedbagBuddyPrefsCatchIMs \<and>
     BuddyPref l' FeedbagBuddyPrefsDisplayLogin"
proof -
  have "BuddyPref [] FeedbagBuddyPrefsDisplayLogin"
    by (simp add: BuddyPref_def readBuddyPref_def buddyPrefTags_def buddyPrefDefaults_def FeedbagBuddyPrefsDisplayLogin_def)
  moreover have "FeedbagBuddyPrefsDisplayLogin \<noteq> FeedbagBuddyPrefsCatchIMs" "FeedbagBuddyPrefsCatchIMs \<noteq> 32"
      "FeedbagBuddyPrefsCatchIMs \<noteq> 33"
    by (simp_all add: FeedbagBuddyPrefsDisplayLogin_def FeedbagBuddyPrefsCatchIMs_def)
  ultimately show ?thesis
    using buddy_pref_set [of FeedbagBuddyPrefsCatchIMs "[]" True] by auto
qed

text \<open>
  Without that the claim is false: if a client stored a bitmask of present positions longer than
  its bitmask of values, setting one preference turns others off that read as on before.
\<close>

theorem buddy_pref_spills:
  "let l = [\<lparr>Tag = FeedbagAttributesBuddyPrefs2Valid, Value = [0, 1]\<rparr>, \<lparr>Tag = FeedbagAttributesBuddyPrefs2, Value = [0]\<rparr>]
   in BuddyPref l FeedbagBuddyPrefsSendBuddyFeed \<and>
     (\<exists>l'. SetBuddyPref l FeedbagBuddyPrefsShowMobile True = Ok l' \<and> \<not> BuddyPref l' FeedbagBuddyPrefsSendBuddyFeed)"
  by (simp add: BuddyPref_def readBuddyPref_def SetBuddyPref_def buddyPrefTags_def buddyPrefBit_def prefOffset_def
      rightPad_def NewTLVBE_bytes TLVList_Set_def buddyPrefDefaults_def buddy_pref_numbers
      FeedbagAttributesBuddyPrefs2Valid_def FeedbagAttributesBuddyPrefs2_def Let_def)

end
