(* ===== verification/Values.thy ===== *)
theory Values
  imports Frames
begin

text \<open>
  Reading the fields of a decoded message: the accessors that stand for \<open>msg.Field\<close> once \<open>UnmarshalBE\<close>
  has filled the struct. On a value of another shape, which the decoder does not produce, they give
  the zero value.
\<close>

fun vfields :: "val \<Rightarrow> val list" where
  "vfields (VStruct vs) = vs"
| "vfields _ = []"

definition vfield :: "nat \<Rightarrow> val \<Rightarrow> val" where
  "vfield i v = (if i < length (vfields v) then vfields v ! i else VNil)"

fun vu8 :: "val \<Rightarrow> u8" where
  "vu8 (VU8 x) = x"
| "vu8 _ = 0"

fun vu16 :: "val \<Rightarrow> u16" where
  "vu16 (VU16 x) = x"
| "vu16 _ = 0"

fun vu32 :: "val \<Rightarrow> u32" where
  "vu32 (VU32 x) = x"
| "vu32 _ = 0"

fun vu64 :: "val \<Rightarrow> u64" where
  "vu64 (VU64 x) = x"
| "vu64 _ = 0"

fun vstring :: "val \<Rightarrow> bytes" where
  "vstring (VString s) = s"
| "vstring _ = []"

fun vlist :: "val \<Rightarrow> val list" where
  "vlist (VList vs) = vs"
| "vlist _ = []"

lemma vfield_simps [simp]:
  "vfield 0 (VStruct (v # vs)) = v" "vfield (Suc i) (VStruct (v # vs)) = vfield i (VStruct vs)"
  by (simp_all add: vfield_def)

lemma vfield_numeral [simp]: "vfield (numeral n) (VStruct (v # vs)) = vfield (pred_numeral n) (VStruct vs)"
  by (simp add: vfield_def numeral_eq_Suc)

lemma vlist_vbytes [simp]: "val_bytes (vbytes b) = b"
  by (rule val_bytes_vbytes)

section \<open>Messages\<close>

text \<open>\<open>wire.SNACMessage\<close>: a frame, and a body with its type.\<close>

type_synonym SNACMessage = "SNACFrame \<times> ty \<times> val"

definition snac :: "u16 \<Rightarrow> u16 \<Rightarrow> u32 \<Rightarrow> ty \<Rightarrow> val \<Rightarrow> SNACMessage" where
  "snac fg sg rid t v = (\<lparr>FoodGroup = fg, SubGroup = sg, Flags = 0, RequestID = rid\<rparr>, t, v)"

definition reply :: "u16 \<Rightarrow> u16 \<Rightarrow> ty \<Rightarrow> val \<Rightarrow> SNACMessage" where
  "reply fg sg t v = snac fg sg 0 t v"

definition rest_block :: "TLVList \<Rightarrow> val" where
  "rest_block l = VStruct [tlvs_val l]"

section \<open>Byte strings behind a 16-bit length\<close>

definition sized :: "bytes \<Rightarrow> bytes" where
  "sized b = put_uint BigEndian 2 (length b) @ b"

definition read_sized :: "bytes parser" where
  "read_sized = pbind (read_uint BigEndian 2) read_full"

lemma length_sized [simp]: "length (sized b) = 2 + length b"
  by (simp add: sized_def)

lemma read_sized_append: "length b < 65536 \<Longrightarrow> read_sized (sized b @ r) = (Ok b, r)"
  using read_uint_put [of "length b" 2 BigEndian "b @ r"]
  by (simp add: read_sized_def sized_def pbind_def read_full_append)

lemma read_uint_Ok:
  assumes "read_uint BigEndian n r = (Ok x, r')"
  shows "r = put_uint BigEndian n x @ r' \<and> x < 256 ^ n"
proof -
  have n: "n \<le> length r" and x: "x = get_uint BigEndian (take n r)" "r' = drop n r"
    using assms by (auto simp: read_uint_def pbind_def read_full_def split: if_splits)
  then have "put_uint BigEndian n x = take n r"
    using put_get_uint [of BigEndian "take n r"] by simp
  moreover have "x < 256 ^ n" using get_uint_bound [of BigEndian "take n r"] n x by simp
  ultimately show ?thesis using x by simp
qed

lemma read_sized_Ok:
  assumes "read_sized r = (Ok b, r')"
  shows "r = sized b @ r' \<and> length b < 65536"
proof -
  obtain n r1 where n: "read_uint BigEndian 2 r = (Ok n, r1)" and b: "read_full n r1 = (Ok b, r')"
    using assms by (auto simp: read_sized_def pbind_def split: prod.splits outcome.splits)
  have "n \<le> length r1" "b = take n r1" "r' = drop n r1" using b by (auto simp: read_full_def split: if_splits)
  then show ?thesis using read_uint_Ok [OF n] by (simp add: sized_def)
qed

end
