(* ===== verification/Cookies.thy ===== *)
theory Cookies
  imports Values
begin

text \<open>
  Login cookies (\<open>state/cookie.go\<close>): what the login service hands to a client and the other services
  accept from it, signed with a key that only the servers know. The keyed hash is a parameter
  \<open>mac\<close>; that its values have 32 bytes is a hypothesis where it matters.
\<close>

section \<open>The messages\<close>

definition BOS :: u16 where "BOS = 0x0000"
definition OServiceServiceResponseSSLStateNotUsed :: u8 where "OServiceServiceResponseSSLStateNotUsed = 0"
definition OServiceServiceResponseSSLStateResume :: u8 where "OServiceServiceResponseSSLStateResume = 2"
definition OServiceTLVTagsSSLState :: u16 where "OServiceTLVTagsSSLState = 0x8E"

definition authCookieLen :: nat where "authCookieLen = 256"

text \<open>Times and durations are in nanoseconds.\<close>

definition DefaultCookieTTL :: int where "DefaultCookieTTL = 60 * 10 ^ 9"

definition ServerCookie_ty :: ty where
  "ServerCookie_ty = TStruct ''ServerCookie''
     [Field ''Service'' None TU16,
      Field ''ScreenName'' (Some ''len_prefix=uint8'') TString,
      Field ''ClientID'' (Some ''len_prefix=uint8'') TString,
      Field ''ChatCookie'' (Some ''len_prefix=uint8'') TString,
      Field ''MultiConnFlag'' None TU8,
      Field ''KerberosAuth'' None TU8,
      Field ''SessionNum'' None TU8,
      Field ''TokenTTL'' None TU32]"

record ServerCookie =
  sc_Service :: u16
  sc_ScreenName :: bytes
  sc_ClientID :: bytes
  sc_ChatCookie :: bytes
  sc_MultiConnFlag :: u8
  sc_KerberosAuth :: u8
  sc_SessionNum :: u8
  sc_TokenTTL :: u32

definition ServerCookie_val :: "ServerCookie \<Rightarrow> val" where
  "ServerCookie_val c = VStruct [VU16 (sc_Service c), VString (sc_ScreenName c), VString (sc_ClientID c),
     VString (sc_ChatCookie c), VU8 (sc_MultiConnFlag c), VU8 (sc_KerberosAuth c), VU8 (sc_SessionNum c),
     VU32 (sc_TokenTTL c)]"

definition val_ServerCookie :: "val \<Rightarrow> ServerCookie" where
  "val_ServerCookie v =
     \<lparr>sc_Service = vu16 (vfield 0 v), sc_ScreenName = vstring (vfield 1 v), sc_ClientID = vstring (vfield 2 v),
      sc_ChatCookie = vstring (vfield 3 v), sc_MultiConnFlag = vu8 (vfield 4 v),
      sc_KerberosAuth = vu8 (vfield 5 v), sc_SessionNum = vu8 (vfield 6 v), sc_TokenTTL = vu32 (vfield 7 v)\<rparr>"

definition hmacTokenPayload_ty :: ty where
  "hmacTokenPayload_ty = TStruct ''hmacTokenPayload''
     [Field ''Expiry'' None TU32, Field ''Data'' (Some ''len_prefix=uint16'') (TSlice TU8)]"

definition hmacToken_ty :: ty where
  "hmacToken_ty = TStruct ''hmacToken''
     [Field ''Data'' (Some ''len_prefix=uint16'') (TSlice TU8),
      Field ''Sig'' (Some ''len_prefix=uint16'') (TSlice TU8)]"

section \<open>Issuing and cracking\<close>

datatype cookie_error =
    CookieMarshal err
  | CookieTooLong nat
  | CookieUnmarshal err
  | CookieInvalid
  | CookiePayload err
  | CookieExpired

text \<open>A step that may fail: its error becomes one of the cookie's errors.\<close>

definition or_error :: "(err \<Rightarrow> 'e) \<Rightarrow> 'a outcome \<Rightarrow> ('a \<Rightarrow> ('e + 'b) outcome) \<Rightarrow> ('e + 'b) outcome" where
  "or_error mk x f = (case x of Ok a \<Rightarrow> f a | Err e \<Rightarrow> Ok (Inl (mk e)) | Panic \<Rightarrow> Panic | Hang \<Rightarrow> Hang)"

definition Issue :: "(bytes \<Rightarrow> bytes \<Rightarrow> bytes) \<Rightarrow> bytes \<Rightarrow> int \<Rightarrow> bytes \<Rightarrow> int \<Rightarrow> (cookie_error + bytes) outcome" where
  "Issue mac key now d ttl =
     (case MarshalBE (Some (hmacTokenPayload_ty, VStruct [VU32 (word_of_int (Unix (now + ttl))), vbytes d])) of
        (payload, x) \<Rightarrow> or_error CookieMarshal x (\<lambda>_.
      case MarshalBE (Some (hmacToken_ty, VStruct [vbytes payload, vbytes (mac key payload)])) of
        (buf, y) \<Rightarrow> or_error CookieMarshal y (\<lambda>_.
          if length buf > authCookieLen then Ok (Inl (CookieTooLong (length buf)))
          else Ok (Inr (buf @ replicate (authCookieLen - length buf) 0)))))"

text \<open>The payload and the second at whose start the cookie expires.\<close>

definition Crack :: "(bytes \<Rightarrow> bytes \<Rightarrow> bytes) \<Rightarrow> bytes \<Rightarrow> int \<Rightarrow> bytes \<Rightarrow> (cookie_error + bytes \<times> int) outcome" where
  "Crack mac key now d =
     or_error CookieUnmarshal (fst (UnmarshalBE hmacToken_ty d)) (\<lambda>tok.
       let payload = val_bytes (vfield 0 tok) in
       if val_bytes (vfield 1 tok) \<noteq> mac key payload then Ok (Inl CookieInvalid)
       else or_error CookiePayload (fst (UnmarshalBE hmacTokenPayload_ty payload)) (\<lambda>v.
         let expiry = uint (vu32 (vfield 0 v)) in
         if expiry * 10 ^ 9 < now then Ok (Inl CookieExpired) else Ok (Inr (val_bytes (vfield 1 v), expiry))))"

section \<open>Lemmas\<close>

lemma or_error_Ok [simp]: "or_error mk (Ok a) f = f a"
  by (simp add: or_error_def)

lemma or_error_Err [simp]: "or_error mk (Err e) f = Ok (Inl (mk e))"
  by (simp add: or_error_def)

lemma or_error_Inr: "or_error mk x f = Ok (Inr b) \<longleftrightarrow> (\<exists>a. x = Ok a \<and> f a = Ok (Inr b))"
  by (cases x) (simp_all add: or_error_def)

lemma marshal_token: "MarshalBE (Some (hmacToken_ty, VStruct [vbytes d, vbytes s])) = (sized d @ sized s, Ok ())"
  by (simp add: MarshalBE_def hmacToken_ty_def marshal.simps [of _ None] marshalKind.simps marshalStruct.simps
      tag_eval struct_order_def marshal_vbytes wseq_def wok_def sized_def)

lemma marshal_payload:
  "MarshalBE (Some (hmacTokenPayload_ty, VStruct [VU32 e, vbytes d])) = (put_uint BigEndian 4 (unat e) @ sized d, Ok ())"
  by (simp add: MarshalBE_def hmacTokenPayload_ty_def marshal.simps [of _ None] marshalKind.simps marshalStruct.simps
      tag_eval struct_order_def marshal_vbytes binaryWrite_def wput_def wseq_def wok_def sized_def)

lemma unmarshal_token:
  "UnmarshalBE hmacToken_ty r =
     pbind read_sized (\<lambda>d. pbind read_sized (\<lambda>s. pret (VStruct [vbytes d, vbytes s]))) r"
  by (simp add: UnmarshalBE_def hmacToken_ty_def unmarshal_None in_buffer_def unmarshal_bytes read_sized_def
      pbind_def split: prod.split outcome.split)

lemma unmarshal_payload:
  "UnmarshalBE hmacTokenPayload_ty r =
     pbind (read_uint BigEndian 4) (\<lambda>e. pbind read_sized (\<lambda>d. pret (VStruct [VU32 (word_of_nat e), vbytes d]))) r"
  by (simp add: UnmarshalBE_def hmacTokenPayload_ty_def unmarshal_None in_buffer_def unmarshal_bytes read_sized_def
      pbind_def split: prod.split outcome.split)

lemma pbind_Ok_E:
  assumes "fst (pbind p f r) = Ok b"
  obtains a r' where "p r = (Ok a, r')" "fst (f a r') = Ok b"
  using assms by (cases "p r"; cases "fst (p r)") (auto simp: pbind_def)

lemma token_Ok:
  assumes "fst (UnmarshalBE hmacToken_ty c) = Ok v"
  obtains p s r1 pad where "read_sized c = (Ok p, r1)" "read_sized r1 = (Ok s, pad)" "v = VStruct [vbytes p, vbytes s]"
  using assms unfolding unmarshal_token by (auto elim!: pbind_Ok_E)

lemma payload_Ok:
  assumes "fst (UnmarshalBE hmacTokenPayload_ty p) = Ok w"
  obtains x b r2 r where "read_uint BigEndian 4 p = (Ok x, r2)" "read_sized r2 = (Ok b, r)"
    "w = VStruct [VU32 (word_of_nat x), vbytes b]"
  using assms unfolding unmarshal_payload by (auto elim!: pbind_Ok_E)

lemma Crack_eq:
  assumes "d = sized payload @ sized sig @ r" and "length payload < 65536" and "length sig < 65536"
    and "payload = put_uint BigEndian 4 (unat (e :: u32)) @ sized body" and "length body < 65536"
  shows "Crack mac key now d =
    (if sig \<noteq> mac key payload then Ok (Inl CookieInvalid)
     else if uint e * 10 ^ 9 < now then Ok (Inl CookieExpired) else Ok (Inr (body, uint e)))"
proof -
  have 1: "UnmarshalBE hmacToken_ty d = (Ok (VStruct [vbytes payload, vbytes sig]), r)"
    using assms(1-3) by (simp add: unmarshal_token pbind_def read_sized_append)
  have "read_sized (sized body) = (Ok body, [])" using read_sized_append [of body "[]"] assms(5) by simp
  then have 2: "UnmarshalBE hmacTokenPayload_ty payload = (Ok (VStruct [VU32 e, vbytes body]), [])"
    using read_uint_put [OF unat_u32_lt [of e], where ord = BigEndian and r = "sized body"]
    by (simp add: assms(4) unmarshal_payload pbind_def)
  show ?thesis by (simp add: Crack_def 1 2)
qed

lemma issue_crack:
  assumes "\<And>k m. length (mac k m) = 32" and "length d \<le> 214" and "0 \<le> now + ttl" and "Unix (now + ttl) < 2 ^ 32"
  shows "\<exists>c. Issue mac key now d ttl = Ok (Inr c) \<and> length c = 256 \<and>
    Crack mac key later c = (if later \<le> Unix (now + ttl) * 10 ^ 9 then Ok (Inr (d, Unix (now + ttl)))
      else Ok (Inl CookieExpired))"
proof -
  define e :: u32 where "e = word_of_int (Unix (now + ttl))"
  define p where "p = put_uint BigEndian 4 (unat e) @ sized d"
  let ?b = "sized p @ sized (mac key p)"
  have "0 \<le> Unix (now + ttl)" using assms(3) by (simp add: Unix_def)
  then have e: "uint e = Unix (now + ttl)" using assms(4) by (simp add: e_def uint_word_of_int)
  have "length ?b \<le> 256" using assms(1,2) by (simp add: p_def)
  then have "Issue mac key now d ttl = Ok (Inr (?b @ replicate (256 - length ?b) 0))"
    by (simp add: Issue_def marshal_payload marshal_token authCookieLen_def e_def [symmetric] p_def [symmetric])
  moreover have "Crack mac key later (?b @ replicate (256 - length ?b) 0) =
      (if uint e * 10 ^ 9 < later then Ok (Inl CookieExpired) else Ok (Inr (d, uint e)))"
    using Crack_eq [of "?b @ replicate (256 - length ?b) 0" p "mac key p" _ e d mac key later] assms(1,2)
    by (simp add: p_def)
  ultimately show ?thesis using \<open>length ?b \<le> 256\<close> by (auto simp: e)
qed

section \<open>Properties\<close>

text \<open>
  A cookie for up to 214 bytes of data is issued, is exactly 256 bytes long, and cracking it gives
  the data and the expiry back until the second of its expiry begins, and an error afterwards. The
  expiry is rounded down to a second, so a cookie may live up to a second shorter than it was issued
  for.
\<close>

theorem cookie_roundtrip:
  assumes "\<And>k m. length (mac k m) = 32" and "length d \<le> 214" and "0 \<le> now + ttl" and "Unix (now + ttl) < 2 ^ 32"
  shows "\<exists>c. Issue mac key now d ttl = Ok (Inr c) \<and> length c = 256 \<and>
    Crack mac key later c = (if later \<le> Unix (now + ttl) * 10 ^ 9 then Ok (Inr (d, Unix (now + ttl)))
      else Ok (Inl CookieExpired))"
  by (rule issue_crack [OF assms])

lemma cookie_roundtrip_witness:
  "\<exists>c. Issue (\<lambda>k m. replicate 32 0) [] 0 [1, 2] DefaultCookieTTL = Ok (Inr c) \<and> length c = 256 \<and>
     Crack (\<lambda>k m. replicate 32 0) [] (59 * 10 ^ 9) c = Ok (Inr ([1, 2], 60))"
  using cookie_roundtrip [of "\<lambda>k m. replicate 32 0" "[1, 2]" 0 DefaultCookieTTL "[]" "59 * 10 ^ 9"]
  by (simp add: DefaultCookieTTL_def Unix_def)

text \<open>
  C35: Only what is signed with the key is accepted: whenever \<open>Crack\<close> returns data, the cookie carries,
  behind a payload with exactly this expiry and these data, the keyed hash of that payload, and it
  has not expired.
\<close>

theorem cookie_accepted_is_signed:
  assumes "Crack mac key now c = Ok (Inr (d, e))"
  shows "\<exists>p pad r. c = sized p @ sized (mac key p) @ pad \<and> p = put_uint BigEndian 4 (nat e) @ sized d @ r \<and>
    now \<le> e * 10 ^ 9"
proof -
  obtain v where v: "fst (UnmarshalBE hmacToken_ty c) = Ok v"
    using assms by (auto simp: Crack_def or_error_Inr)
  then obtain p s r1 pad where ps: "read_sized c = (Ok p, r1)" "read_sized r1 = (Ok s, pad)" "v = VStruct [vbytes p, vbytes s]"
    by (rule token_Ok)
  have s: "s = mac key p" using assms v ps(3) by (auto simp: Crack_def Let_def split: if_splits)
  then obtain w where w: "fst (UnmarshalBE hmacTokenPayload_ty p) = Ok w"
    using assms v ps(3) by (auto simp: Crack_def or_error_Inr Let_def)
  then obtain x b r2 r where xb: "read_uint BigEndian 4 p = (Ok x, r2)" "read_sized r2 = (Ok b, r)"
      "w = VStruct [VU32 (word_of_nat x), vbytes b]"
    by (rule payload_Ok)
  note p = read_uint_Ok [OF xb(1)]
  have x: "uint (word_of_nat x :: u32) = int x" using p by (simp add: unsigned_of_nat take_bit_nat_eq_self_iff)
  have "Crack mac key now c = (if int x * 10 ^ 9 < now then Ok (Inl CookieExpired) else Ok (Inr (b, int x)))"
    unfolding Crack_def v or_error_Ok ps(3) Let_def vfield_simps val_bytes_vbytes
    by (simp add: s w xb(3) x)
  then have "d = b" "e = int x" "now \<le> e * 10 ^ 9" using assms by (simp_all split: if_splits)
  then show ?thesis
    using p read_sized_Ok [OF xb(2)] read_sized_Ok [OF ps(1)] read_sized_Ok [OF ps(2)] s by auto
qed

lemma cookie_accepted_is_signed_witness:
  "\<exists>p pad r. sized (put_uint BigEndian 4 (unat (60 :: u32)) @ sized [1, 2]) @ sized (replicate 32 0) @ [0] =
     sized p @ sized ((\<lambda>k m. replicate 32 0) [] p) @ pad \<and> p = put_uint BigEndian 4 (nat 60) @ sized [1, 2] @ r \<and>
     (0 :: int) \<le> 60 * 10 ^ 9"
proof (rule cookie_accepted_is_signed [of "\<lambda>k m. replicate 32 0" "[]"])
  have "length (put_uint BigEndian 4 (unat (60 :: u32)) @ sized [1, 2]) < 65536" by simp
  then show "Crack (\<lambda>k m. replicate 32 0) [] 0 (sized (put_uint BigEndian 4 (unat (60 :: u32)) @ sized [1, 2]) @
      sized (replicate 32 0) @ [0]) = Ok (Inr ([1, 2], 60))"
    by (subst Crack_eq [OF refl _ _ refl]) simp_all
qed

end
