(* ===== verification/Login.thy ===== *)
theory Login
  imports Cookies SessionManager Feedbag
begin

text \<open>
  Login (\<open>foodgroup/auth.go\<close>): the TLVs of a login request, the checks on the account, and the
  answer with the login cookie. The user store is a parameter of the model; the registry of sessions,
  the cookies, the password forms and the feedbag are those of the other theories.
\<close>

section \<open>Tags, codes and settings\<close>

definition Kerberos :: u16 where "Kerberos = 0x050C"

definition LoginTLVTagsScreenName :: u16 where "LoginTLVTagsScreenName = 0x01"
definition LoginTLVTagsRoastedPassword :: u16 where "LoginTLVTagsRoastedPassword = 0x02"
definition LoginTLVTagsClientIdentity :: u16 where "LoginTLVTagsClientIdentity = 0x03"
definition LoginTLVTagsReconnectHere :: u16 where "LoginTLVTagsReconnectHere = 0x05"
definition LoginTLVTagsAuthorizationCookie :: u16 where "LoginTLVTagsAuthorizationCookie = 0x06"
definition LoginTLVTagsErrorSubcode :: u16 where "LoginTLVTagsErrorSubcode = 0x08"
definition LoginTLVTagsPasswordHash :: u16 where "LoginTLVTagsPasswordHash = 0x25"
definition LoginTLVTagsMultiConnFlags :: u16 where "LoginTLVTagsMultiConnFlags = 0x4A"
definition LoginTLVTagsRoastedKerberosPassword :: u16 where "LoginTLVTagsRoastedKerberosPassword = 0x1335"
definition LoginTLVTagsRoastedTOCPassword :: u16 where "LoginTLVTagsRoastedTOCPassword = 0x1337"
definition LoginTLVTagsPlaintextKerberosPassword :: u16 where "LoginTLVTagsPlaintextKerberosPassword = 0x1338"
definition LoginTLVTagsPlaintextPassword :: u16 where "LoginTLVTagsPlaintextPassword = 0x1339"
definition LoginTLVTagsTokenTTL :: u16 where "LoginTLVTagsTokenTTL = 0x133A"
definition OServiceTLVTagsLinkedAccounts :: u16 where "OServiceTLVTagsLinkedAccounts = 0x02"

definition LoginErrInvalidUsernameOrPassword :: u16 where "LoginErrInvalidUsernameOrPassword = 0x0001"
definition LoginErrInvalidPassword :: u16 where "LoginErrInvalidPassword = 0x0005"
definition LoginErrInternalClientError :: u16 where "LoginErrInternalClientError = 0x0006"
definition LoginErrICQUserErr :: u16 where "LoginErrICQUserErr = 0x0008"
definition LoginErrRateLimitExceeded :: u16 where "LoginErrRateLimitExceeded = 0x001D"

definition MultiConnFlagsRecentClient :: u8 where "MultiConnFlagsRecentClient = 1"

lemmas login_tags = LoginTLVTagsScreenName_def LoginTLVTagsRoastedPassword_def LoginTLVTagsClientIdentity_def
  LoginTLVTagsReconnectHere_def LoginTLVTagsAuthorizationCookie_def LoginTLVTagsErrorSubcode_def
  LoginTLVTagsPasswordHash_def LoginTLVTagsMultiConnFlags_def LoginTLVTagsRoastedKerberosPassword_def
  LoginTLVTagsRoastedTOCPassword_def LoginTLVTagsPlaintextKerberosPassword_def
  LoginTLVTagsPlaintextPassword_def LoginTLVTagsTokenTTL_def OServiceTLVTagsLinkedAccounts_def
  OServiceTLVTagsSSLState_def

definition MaxConcurrentLoginsPerUser :: nat where "MaxConcurrentLoginsPerUser = 5"

definition maxTokenTTL :: int where "maxTokenTTL = 365 * 24 * 3600 * 10 ^ 9"

text \<open>The endpoint of a listener; \<open>config/config.go\<close>.\<close>

record Endpoint =
  BOSAdvertisedHostPlain :: bytes
  BOSAdvertisedHostSSL :: bytes
  IsSSL :: bool

definition AdvertisedHost :: "Endpoint \<Rightarrow> bytes" where
  "AdvertisedHost e = (if IsSSL e then BOSAdvertisedHostSSL e else BOSAdvertisedHostPlain e)"

text \<open>
  What the service is built from. \<open>'s\<close> is the state of the user store and \<open>'e\<close> its errors. \<open>newAuthKey\<close>
  is the next random UUID, \<open>now\<close> the time of the request.
\<close>

record ('s, 'e, 'm) AuthService =
  user_of :: "'s \<Rightarrow> IdentScreenName \<Rightarrow> 'e + User option"
  insert_user :: "User \<Rightarrow> 's \<Rightarrow> user_error option \<times> 's"
  feedbag_of :: "'s \<Rightarrow> IdentScreenName \<Rightarrow> 'e + FeedbagItem list"
  sessions :: "'m SessionManager"
  tables :: unicode_tables
  md5 :: digest
  mac :: "bytes \<Rightarrow> bytes \<Rightarrow> bytes"
  mac_key :: bytes
  now :: int
  newAuthKey :: bytes
  DisableAuth :: bool
  maxConcurrentLoginsPerUser :: nat

section \<open>The request\<close>

text \<open>One of the code's seven flags is set, the first that applies.\<close>

datatype auth_kind =
  BUCPAuth | FLAPAuth | FLAPJavaAuth | TOCAuth | KerberosPlaintextAuth | KerberosRoastedAuth | PlaintextAuth

record loginProperties =
  clientID :: bytes
  authKind :: auth_kind
  multiConnFlag :: u8
  passwordHash :: bytes
  plaintextPassword :: bytes
  roastedPass :: bytes
  lp_screenName :: bytes
  tokenTTL :: int

datatype 'e login_error =
    ScreenNameMissing
  | InvalidTokenTTL
  | StoreFailed 'e
  | AccountFailed user_error
  | CookieMarshalFailed err
  | CookieFailed cookie_error
  | TicketMissing
  | TicketMalformed err
  | BadAdvertisedHost

definition noLoginProperties :: loginProperties where
  "noLoginProperties = \<lparr>clientID = [], authKind = FLAPAuth, multiConnFlag = 0, passwordHash = [],
     plaintextPassword = [], roastedPass = [], lp_screenName = [], tokenTTL = 0\<rparr>"

text \<open>\<open>strings.HasPrefix\<close> and \<open>strings.Contains\<close>.\<close>

definition HasPrefix :: "bytes \<Rightarrow> bytes \<Rightarrow> bool" where
  "HasPrefix s p \<longleftrightarrow> take (length p) s = p"

definition Contains :: "bytes \<Rightarrow> bytes \<Rightarrow> bool" where
  "Contains s p \<longleftrightarrow> list_ex (\<lambda>i. HasPrefix (drop i s) p) [0..<length s + 1]"

definition tlv_bytes :: "u16 \<Rightarrow> TLVList \<Rightarrow> bytes" where
  "tlv_bytes tag l = (case TLVList_Bytes tag l of None \<Rightarrow> [] | Some b \<Rightarrow> b)"

definition password_from :: "TLVList \<Rightarrow> loginProperties \<Rightarrow> loginProperties" where
  "password_from l p =
     (if TLVList_HasTag LoginTLVTagsPasswordHash l
      then p\<lparr>passwordHash := tlv_bytes LoginTLVTagsPasswordHash l, authKind := BUCPAuth\<rparr>
      else if TLVList_HasTag LoginTLVTagsRoastedPassword l
      then p\<lparr>roastedPass := tlv_bytes LoginTLVTagsRoastedPassword l,
             authKind := (if HasPrefix (clientID p) (ascii ''AOL Instant Messenger (TM) version'') \<and>
               Contains (clientID p) (ascii ''for Java'') then FLAPJavaAuth else FLAPAuth)\<rparr>
      else if TLVList_HasTag LoginTLVTagsRoastedTOCPassword l
      then p\<lparr>roastedPass := tlv_bytes LoginTLVTagsRoastedTOCPassword l, authKind := TOCAuth\<rparr>
      else if TLVList_HasTag LoginTLVTagsPlaintextKerberosPassword l
      then p\<lparr>plaintextPassword := tlv_bytes LoginTLVTagsPlaintextKerberosPassword l,
             authKind := KerberosPlaintextAuth\<rparr>
      else if TLVList_HasTag LoginTLVTagsPlaintextPassword l
      then p\<lparr>plaintextPassword := tlv_bytes LoginTLVTagsPlaintextPassword l, authKind := PlaintextAuth\<rparr>
      else if TLVList_HasTag LoginTLVTagsRoastedKerberosPassword l
      then p\<lparr>roastedPass := tlv_bytes LoginTLVTagsRoastedKerberosPassword l, authKind := KerberosRoastedAuth\<rparr>
      else p\<lparr>authKind := FLAPAuth\<rparr>)"

text \<open>
  \<open>fromTLV\<close>: the error, if any, and the properties read so far. \<open>binary.BigEndian.Uint32\<close> panics on
  fewer than four bytes.
\<close>

definition fromTLV :: "TLVList \<Rightarrow> ('e login_error option \<times> loginProperties) outcome" where
  "fromTLV l =
     (case TLVList_String LoginTLVTagsScreenName l of
        (_, False) \<Rightarrow> Ok (Some ScreenNameMissing, noLoginProperties)
      | (sn, True) \<Rightarrow>
          let p = noLoginProperties\<lparr>lp_screenName := sn\<rparr>;
              p = (case TLVList_String LoginTLVTagsClientIdentity l of
                (c, True) \<Rightarrow> p\<lparr>clientID := c\<rparr> | (_, False) \<Rightarrow> p);
              p = password_from l p;
              p = (case TLVList_Uint8 LoginTLVTagsMultiConnFlags l of
                (f, True) \<Rightarrow> p\<lparr>multiConnFlag := f\<rparr> | (_, False) \<Rightarrow> p);
              p = p\<lparr>tokenTTL := DefaultCookieTTL\<rparr>
          in case TLVList_Bytes LoginTLVTagsTokenTTL l of
               None \<Rightarrow> Ok (None, p)
             | Some b \<Rightarrow> bind_out (order_uint BigEndian 4 b) (\<lambda>n.
                 let ttl = int n * 10 ^ 9
                 in if ttl \<le> 0 \<or> ttl > maxTokenTTL then Ok (Some InvalidTokenTTL, p)
                    else Ok (None, p\<lparr>tokenTTL := ttl\<rparr>)))"

section \<open>The answer\<close>

definition loginFailureResponse :: "loginProperties \<Rightarrow> u16 \<Rightarrow> TLVList outcome" where
  "loginFailureResponse p errCode = collect_out
     [NewTLVBE LoginTLVTagsScreenName (TString, VString (lp_screenName p)),
      NewTLVBE LoginTLVTagsErrorSubcode (TU16, VU16 errCode)]"

text \<open>\<open>xml.EscapeText\<close>.\<close>

definition xml_char :: "nat \<Rightarrow> bool" where
  "xml_char r \<longleftrightarrow> r = 0x09 \<or> r = 0x0A \<or> r = 0x0D \<or> 0x20 \<le> r \<and> r \<le> 0xD7FF \<or> 0xE000 \<le> r \<and> r \<le> 0xFFFD \<or>
     0x10000 \<le> r \<and> r \<le> 0x10FFFF"

definition escape_rune :: "nat \<Rightarrow> bytes" where
  "escape_rune r =
     (if r = 0x22 then ascii ''&#34;'' else if r = 0x27 then ascii ''&#39;''
      else if r = 0x26 then ascii ''&amp;'' else if r = 0x3C then ascii ''&lt;''
      else if r = 0x3E then ascii ''&gt;'' else if r = 0x09 then ascii ''&#x9;''
      else if r = 0x0A then ascii ''&#xA;'' else if r = 0x0D then ascii ''&#xD;''
      else if xml_char r then encode_rune r else encode_rune RuneError)"

definition xml_escape :: "bytes \<Rightarrow> bytes" where
  "xml_escape s = concat (map escape_rune (runes s))"

definition quote :: bytes where "quote = [0x22]"

definition ResRec :: "bytes \<Rightarrow> bytes \<Rightarrow> bytes \<Rightarrow> bytes" where
  "ResRec typ i n = ascii ''<RESREC TYPE='' @ quote @ xml_escape typ @ quote @ ascii '' ID='' @ quote @
     xml_escape i @ quote @ ascii ''><n>'' @ xml_escape n @ ascii ''</n></RESREC>''"

definition buildLinkedAccountsXML :: "IdentScreenName \<Rightarrow> IdentScreenName list \<Rightarrow> bytes" where
  "buildLinkedAccountsXML sn linkedNames =
     ascii ''<SET SETID='' @ quote @ ascii ''1'' @ quote @ ascii ''>'' @
     ResRec (ascii ''PRIMARY-ACCOUNT'') (ascii ''1'') (screenName sn) @
     concat (map (\<lambda>i. ResRec (ascii ''LINKED-ACCOUNT'') (decimal_string (i + 2)) (screenName (linkedNames ! i)))
       [0..<length linkedNames]) @
     ascii ''</SET>''"

definition linked_names :: "unicode_tables \<Rightarrow> FeedbagItem list \<Rightarrow> IdentScreenName list" where
  "linked_names t its = LinkedScreenNames (NewFeedbagList its (\<lambda>_. 0) t)"

text \<open>A panic of \<open>NewTLVBE\<close> is a panic of the whole call.\<close>

definition addLinkedAccountsTLV ::
    "('s, 'e, 'm) AuthService \<Rightarrow> 's \<Rightarrow> bytes \<Rightarrow> TLVList \<Rightarrow> ('e login_error + TLVList) outcome" where
  "addLinkedAccountsTLV A st sn tlvs =
     (case feedbag_of A st (NewIdentScreenName (tables A) sn) of
        Inl e \<Rightarrow> Ok (Inl (StoreFailed e))
      | Inr its \<Rightarrow>
          let linkedNames = linked_names (tables A) its in
          if linkedNames = [] then Ok (Inr tlvs)
          else bind_out (NewTLVBE OServiceTLVTagsLinkedAccounts
                 (TString, VString (buildLinkedAccountsXML (NewIdentScreenName (tables A) sn) linkedNames)))
               (\<lambda>t. Ok (Inr (tlvs @ [t]))))"

definition login_cookie :: "loginProperties \<Rightarrow> ServerCookie" where
  "login_cookie p =
     \<lparr>sc_Service = BOS, sc_ScreenName = lp_screenName p, sc_ClientID = clientID p, sc_ChatCookie = [],
      sc_MultiConnFlag = multiConnFlag p,
      sc_KerberosAuth = (if authKind p = KerberosPlaintextAuth \<or> authKind p = KerberosRoastedAuth then 1 else 0),
      sc_SessionNum = 0, sc_TokenTTL = word_of_int (tokenTTL p div 10 ^ 9)\<rparr>"

definition loginSuccessResponse ::
    "('s, 'e, 'm) AuthService \<Rightarrow> 's \<Rightarrow> loginProperties \<Rightarrow> Endpoint \<Rightarrow> ('e login_error + TLVList) outcome" where
  "loginSuccessResponse A st p ep =
     (case MarshalBE (Some (ServerCookie_ty, ServerCookie_val (login_cookie p))) of
        (buf, x) \<Rightarrow> or_error CookieMarshalFailed x (\<lambda>_.
      bind_out (Issue (mac A) (mac_key A) (now A) buf (tokenTTL p)) (\<lambda>r.
      case r of
        Inl e \<Rightarrow> Ok (Inl (CookieFailed e))
      | Inr cookie \<Rightarrow>
          bind_out (collect_out
            [NewTLVBE LoginTLVTagsScreenName (TString, VString (lp_screenName p)),
             NewTLVBE LoginTLVTagsReconnectHere (TString, VString (AdvertisedHost ep)),
             NewTLVBE LoginTLVTagsAuthorizationCookie (TSlice TU8, vbytes cookie),
             NewTLVBE OServiceTLVTagsSSLState (TU8, VU8 (if IsSSL ep then OServiceServiceResponseSSLStateResume
               else OServiceServiceResponseSSLStateNotUsed))])
            (addLinkedAccountsTLV A st (lp_screenName p)))))"

text \<open>The functions below also return the store, since \<open>createUser\<close> adds an account to it.\<close>

definition failure :: "'s \<Rightarrow> loginProperties \<Rightarrow> u16 \<Rightarrow> (('e login_error + TLVList) \<times> 's) outcome" where
  "failure st p code = bind_out (loginFailureResponse p code) (\<lambda>l. Ok (Inr l, st))"

definition success :: "('s, 'e, 'm) AuthService \<Rightarrow> 's \<Rightarrow> loginProperties \<Rightarrow> Endpoint \<Rightarrow>
    (('e login_error + TLVList) \<times> 's) outcome" where
  "success A st p ep = bind_out (loginSuccessResponse A st p ep) (\<lambda>r. Ok (r, st))"

definition createUser ::
    "('s, 'e, 'm) AuthService \<Rightarrow> loginProperties \<Rightarrow> Endpoint \<Rightarrow> 's \<Rightarrow> (('e login_error + TLVList) \<times> 's) outcome" where
  "createUser A p ep st =
     (case CreateAccount (tables A) (md5 A) (newAuthKey A) (insert_user A) (lp_screenName p) (ascii ''welcome1'') st of
        (Some e, st') \<Rightarrow>
          if e = ErrAIMHandleInvalidFormat \<or> e = ErrAIMHandleLength
          then failure st' p LoginErrInvalidUsernameOrPassword
          else if e = ErrICQUINInvalidFormat then failure st' p LoginErrICQUserErr
          else Ok (Inl (AccountFailed e), st')
      | (None, st') \<Rightarrow> success A st' p ep)"

definition password_ok :: "digest \<Rightarrow> loginProperties \<Rightarrow> User \<Rightarrow> bool" where
  "password_ok md p u =
     (case authKind p of
        BUCPAuth \<Rightarrow> ValidateHash (passwordHash p) u
      | FLAPAuth \<Rightarrow> ValidateRoastedPass md (roastedPass p) u
      | FLAPJavaAuth \<Rightarrow> ValidateRoastedJavaPass md (roastedPass p) u
      | TOCAuth \<Rightarrow> ValidateRoastedTOCPass md (roastedPass p) u
      | KerberosPlaintextAuth \<Rightarrow> ValidatePlaintextPass md (plaintextPassword p) u
      | KerberosRoastedAuth \<Rightarrow> ValidateRoastedKerberosPass md (roastedPass p) u
      | PlaintextAuth \<Rightarrow> ValidatePlaintextPass md (plaintextPassword p) u)"

definition too_many_logins :: "('s, 'e, 'm) AuthService \<Rightarrow> loginProperties \<Rightarrow> bool" where
  "too_many_logins A p \<longleftrightarrow> multiConnFlag p = MultiConnFlagsRecentClient \<and>
     (case RetrieveSession (NewIdentScreenName (tables A) (lp_screenName p)) (sessions A) of
        None \<Rightarrow> False
      | Some k \<Rightarrow> InstanceCount (sess_of (sessions A) k) \<ge> maxConcurrentLoginsPerUser A)"

definition login ::
    "('s, 'e, 'm) AuthService \<Rightarrow> TLVList \<Rightarrow> Endpoint \<Rightarrow> 's \<Rightarrow> (('e login_error + TLVList) \<times> 's) outcome" where
  "login A tlv ep st = bind_out (fromTLV tlv) (\<lambda>(err, p).
     case err of
       Some InvalidTokenTTL \<Rightarrow> failure st p LoginErrInternalClientError
     | Some e \<Rightarrow> Ok (Inl e, st)
     | None \<Rightarrow>
       (case user_of A st (NewIdentScreenName (tables A) (lp_screenName p)) of
          Inl e \<Rightarrow> Ok (Inl (StoreFailed e), st)
        | Inr None \<Rightarrow>
            if DisableAuth A then createUser A p ep st
            else failure st p (if IsUIN (tables A) (lp_screenName p) then LoginErrICQUserErr
                               else LoginErrInvalidUsernameOrPassword)
        | Inr (Some u) \<Rightarrow>
            if SuspendedStatus u > 0 then failure st p (SuspendedStatus u)
            else if DisableAuth A then success A st p ep
            else if \<not> password_ok (md5 A) p u then failure st p LoginErrInvalidPassword
            else if too_many_logins A p then failure st p LoginErrRateLimitExceeded
            else success A st p ep))"

section \<open>The login protocols\<close>

definition BUCPLoginResponse :: u16 where "BUCPLoginResponse = 0x0003"
definition BUCPChallengeResponse :: u16 where "BUCPChallengeResponse = 0x0007"

text \<open>The stub key of an unknown user is a fresh UUID.\<close>

definition BUCPChallenge ::
    "('s, 'e, 'm) AuthService \<Rightarrow> TLVList \<Rightarrow> bytes \<Rightarrow> 's \<Rightarrow> ('e login_error + SNACMessage) outcome" where
  "BUCPChallenge A body newUUID st =
     (case TLVList_String LoginTLVTagsScreenName body of
        (_, False) \<Rightarrow> Ok (Inl ScreenNameMissing)
      | (sn, True) \<Rightarrow>
         (case user_of A st (NewIdentScreenName (tables A) sn) of
            Inl e \<Rightarrow> Ok (Inl (StoreFailed e))
          | Inr None \<Rightarrow>
              if DisableAuth A
              then Ok (Inr (reply BUCP BUCPChallengeResponse SNAC_0x17_0x07_BUCPChallengeResponse_ty
                     (VStruct [VString newUUID])))
              else bind_out (NewTLVBE LoginTLVTagsErrorSubcode (TU16, VU16 LoginErrInvalidUsernameOrPassword))
                (\<lambda>t. Ok (Inr (reply BUCP BUCPLoginResponse SNAC_0x17_0x03_BUCPLoginResponse_ty
                   (VStruct [rest_block [t]]))))
          | Inr (Some u) \<Rightarrow>
              Ok (Inr (reply BUCP BUCPChallengeResponse SNAC_0x17_0x07_BUCPChallengeResponse_ty
                (VStruct [VString (AuthKey u)])))))"

definition BUCPLogin ::
    "('s, 'e, 'm) AuthService \<Rightarrow> TLVList \<Rightarrow> Endpoint \<Rightarrow> 's \<Rightarrow> (('e login_error + SNACMessage) \<times> 's) outcome" where
  "BUCPLogin A body ep st = bind_out (login A body ep st) (\<lambda>(r, st').
     case r of
       Inl e \<Rightarrow> Ok (Inl e, st')
     | Inr block \<Rightarrow> Ok (Inr (reply BUCP BUCPLoginResponse SNAC_0x17_0x03_BUCPLoginResponse_ty
          (VStruct [rest_block block])), st'))"

definition FLAPLogin ::
    "('s, 'e, 'm) AuthService \<Rightarrow> TLVList \<Rightarrow> Endpoint \<Rightarrow> 's \<Rightarrow> (('e login_error + TLVList) \<times> 's) outcome" where
  "FLAPLogin A frame ep st = login A frame ep st"

text \<open>\<open>CrackCookie\<close>: the contents of a cookie and its expiry.\<close>

definition CrackCookie :: "('s, 'e, 'm) AuthService \<Rightarrow> bytes \<Rightarrow> (cookie_error + ServerCookie \<times> int) outcome" where
  "CrackCookie A authCookie = bind_out (Crack (mac A) (mac_key A) (now A) authCookie) (\<lambda>r.
     case r of
       Inl e \<Rightarrow> Ok (Inl e)
     | Inr (buf, expiry) \<Rightarrow>
         or_error CookieUnmarshal (fst (UnmarshalBE ServerCookie_ty buf))
           (\<lambda>v. Ok (Inr (val_ServerCookie v, expiry))))"

section \<open>Kerberos\<close>

definition KerberosLoginSuccessResponse :: u16 where "KerberosLoginSuccessResponse = 0x0003"
definition KerberosKerberosLoginErrResponse :: u16 where "KerberosKerberosLoginErrResponse = 0x0004"
definition KerberosTLVTicketRequest :: u16 where "KerberosTLVTicketRequest = 0x0002"
definition KerberosTLVBOSServerInfo :: u16 where "KerberosTLVBOSServerInfo = 0x0003"
definition KerberosTLVHostname :: u16 where "KerberosTLVHostname = 0x0005"
definition KerberosTLVCookie :: u16 where "KerberosTLVCookie = 0x0006"
definition KerberosTLVTLSCertName :: u16 where "KerberosTLVTLSCertName = 0x008D"
definition KerberosTLVConnSettings :: u16 where "KerberosTLVConnSettings = 0x008E"
definition KerberosConnUseSSL :: u16 where "KerberosConnUseSSL = 0x0002"
definition KerberosErrAuthFailure :: u16 where "KerberosErrAuthFailure = 0x0401"

text \<open>\<open>net.SplitHostPort\<close>: the host, or \<open>None\<close> for its errors.\<close>

definition last_index :: "u8 \<Rightarrow> bytes \<Rightarrow> nat option" where
  "last_index c s = (case filter (\<lambda>i. s ! i = c) [0..<length s] of [] \<Rightarrow> None | is \<Rightarrow> Some (last is))"

definition first_index :: "u8 \<Rightarrow> bytes \<Rightarrow> nat option" where
  "first_index c s = (case filter (\<lambda>i. s ! i = c) [0..<length s] of [] \<Rightarrow> None | i # _ \<Rightarrow> Some i)"

definition split_host :: "bytes \<Rightarrow> bytes option" where
  "split_host hp =
     (case last_index 0x3A hp of
        None \<Rightarrow> None
      | Some i \<Rightarrow>
          if hp ! 0 = 0x5B then
            (case first_index 0x5D hp of
               None \<Rightarrow> None
             | Some e \<Rightarrow>
                 if e + 1 \<noteq> i \<or> 0x5B \<in> set (drop 1 hp) \<or> 0x5D \<in> set (drop (e + 1) hp) then None
                 else Some (drop 1 (take e hp)))
          else if 0x3A \<in> set (take i hp) \<or> 0x5B \<in> set hp \<or> 0x5D \<in> set hp then None
          else Some (take i hp))"

definition tlv_block :: "TLVList \<Rightarrow> val" where
  "tlv_block l = VStruct [tlvs_val l]"

text \<open>The connection data of the ticket; the certificate's name only on an SSL endpoint.\<close>

definition kerberos_conn :: "Endpoint \<Rightarrow> bytes \<Rightarrow> ('e login_error + TLVList) outcome" where
  "kerberos_conn ep cookie =
     bind_out (collect_out
       [NewTLVBE KerberosTLVHostname (TString, VString (AdvertisedHost ep)),
        NewTLVBE KerberosTLVCookie (TSlice TU8, vbytes cookie),
        NewTLVBE KerberosTLVConnSettings (TU16, VU16 KerberosConnUseSSL)]) (\<lambda>l.
     if \<not> IsSSL ep then Ok (Inr l)
     else case split_host (AdvertisedHost ep) of
       None \<Rightarrow> Ok (Inl BadAdvertisedHost)
     | Some host \<Rightarrow> bind_out (NewTLVBE KerberosTLVTLSCertName (TString, VString host)) (\<lambda>t. Ok (Inr (l @ [t]))))"

text \<open>\<open>unixNow\<close> and \<open>unixEnd\<close>: the time now and a day later, as 32-bit seconds.\<close>

definition kerberos_ticket :: "int \<Rightarrow> bytes \<Rightarrow> TLV \<Rightarrow> val" where
  "kerberos_ticket t clientPrincipal info =
     (let unixNow = word_of_int (Unix t); unixEnd = word_of_int (Unix (t + 24 * 3600 * 10 ^ 9)) in
      VStruct [VU16 5, vbytes [], VString (ascii ''AOL''), VString (ascii ''im/boss''), VString (ascii ''AOL''),
        VString clientPrincipal, VU8 0, vbytes [], VU32 0, VU32 0, VU32 unixNow, VU32 unixNow, VU32 unixEnd, VU32 0,
        VU32 1610612736, VU32 1073741824, VU32 0, tlv_block [info]])"

definition kerberos_request :: "val \<Rightarrow> val \<Rightarrow> TLVList outcome" where
  "kerberos_request inBody info = collect_out
     [NewTLVBE LoginTLVTagsScreenName (TString, VString (vstring (vfield 13 inBody))),
      NewTLVBE LoginTLVTagsMultiConnFlags (TU8, VU8 MultiConnFlagsRecentClient),
      NewTLVBE (if vu16 (vfield 1 info) \<ge> 4 then LoginTLVTagsRoastedKerberosPassword
        else LoginTLVTagsPlaintextKerberosPassword) (TSlice TU8, vfield 4 info)]"

definition kerberos_error :: "val \<Rightarrow> SNACMessage" where
  "kerberos_error inBody = reply Kerberos KerberosKerberosLoginErrResponse SNAC_0x050C_0x0004_KerberosLoginErrResponse_ty
     (VStruct [vfield 0 inBody, vfield 13 inBody, VU16 KerberosErrAuthFailure, VString (ascii ''Auth failure''),
       VU32 0, tlv_block []])"

definition KerberosLogin ::
    "('s, 'e, 'm) AuthService \<Rightarrow> val \<Rightarrow> Endpoint \<Rightarrow> 's \<Rightarrow> (('e login_error + SNACMessage) \<times> 's) outcome" where
  "KerberosLogin A inBody ep st =
     (case TLVList_Bytes KerberosTLVTicketRequest (val_tlvs (vfield 0 (vfield 17 inBody))) of
        None \<Rightarrow> Ok (Inl TicketMissing, st)
      | Some b \<Rightarrow>
      (case fst (UnmarshalBE KerberosLoginRequestTicket_ty b) of
         Err e \<Rightarrow> Ok (Inl (TicketMalformed e), st)
       | Panic \<Rightarrow> Panic
       | Hang \<Rightarrow> Hang
       | Ok info \<Rightarrow>
      bind_out (kerberos_request inBody info) (\<lambda>l.
      bind_out (login A l ep st) (\<lambda>(r, st').
      case r of
        Inl e \<Rightarrow> Ok (Inl e, st')
      | Inr result \<Rightarrow>
         (case TLVList_Bytes LoginTLVTagsAuthorizationCookie result of
            None \<Rightarrow> Ok (Inr (kerberos_error inBody), st')
          | Some cookie \<Rightarrow>
              bind_out (kerberos_conn ep cookie) (\<lambda>r.
              case r of
                Inl e \<Rightarrow> Ok (Inl e, st')
              | Inr connInfo \<Rightarrow>
                  bind_out (NewTLVBE KerberosTLVBOSServerInfo
                    (KerberosBOSServerInfo_ty, VStruct [VU16 1, tlv_block connInfo])) (\<lambda>info.
                  Ok (Inr (reply Kerberos KerberosLoginSuccessResponse SNAC_0x050C_0x0003_KerberosLoginSuccessResponse_ty
                    (VStruct [vfield 0 inBody, VU32 (word_of_int (Unix (now A))), VU32 0, vfield 13 inBody,
                      VString (ascii ''AOL''), VList [kerberos_ticket (now A) (vstring (vfield 13 inBody)) info],
                      tlv_block []])), st'))))))))"

section \<open>Lemmas\<close>

lemma marshal_u8_string:
  "marshal BigEndian (Some ''len_prefix=uint8'') TString (VString s) = (put_uint BigEndian 1 (length s) @ s, Ok ())"
  by (simp add: marshal.simps marshalKind.simps tag_eval marshalString_def marshalUnsignedInt_def wput_unless
      wput_def wseq_def del: put_uint_eq_Nil)

lemma length_ServerCookie:
  "length (fst (MarshalBE (Some (ServerCookie_ty, ServerCookie_val c)))) =
     12 + length (sc_ScreenName c) + length (sc_ClientID c) + length (sc_ChatCookie c)"
  "snd (MarshalBE (Some (ServerCookie_ty, ServerCookie_val c))) = Ok ()"
  by (simp_all add: MarshalBE_def ServerCookie_ty_def ServerCookie_val_def marshal.simps [of _ None]
      marshalKind.simps marshalStruct.simps tag_eval struct_order_def binaryWrite_def marshal_u8_string
      wput_def wseq_def wok_def)

lemma ServerCookie_code:
  assumes "length (sc_ScreenName c) < 256" "length (sc_ClientID c) < 256" "length (sc_ChatCookie c) < 256"
  shows "codes_at False (MarshalBE (Some (ServerCookie_ty, ServerCookie_val c))) (UnmarshalBE ServerCookie_ty)
    (ServerCookie_val c)"
  using assms by (intro code_BE) (simp_all add: ServerCookie_ty_def ServerCookie_val_def tag_eval prefix_max_def)

lemma val_ServerCookie_val [simp]: "val_ServerCookie (ServerCookie_val c) = c"
  by (simp add: val_ServerCookie_def ServerCookie_val_def)

lemma Issue_eq:
  assumes "\<And>k m. length (h k m) = 32"
  shows "Issue h kk t d ttl =
    (if length d \<le> 214 then Ok (Inr (fst (MarshalBE (Some (hmacToken_ty, VStruct [vbytes (put_uint BigEndian 4
         (unat (word_of_int (Unix (t + ttl)) :: u32)) @ sized d), vbytes (h kk (put_uint BigEndian 4
         (unat (word_of_int (Unix (t + ttl)) :: u32)) @ sized d))]))) @ replicate (214 - length d) 0))
     else Ok (Inl (CookieTooLong (42 + length d))))"
  using assms by (simp add: Issue_def marshal_payload marshal_token authCookieLen_def)

lemma Bytes_head:
  "TLVList_Bytes tag (\<lparr>Tag = a, Value = v\<rparr> # l) = (if tag = a then Some v else TLVList_Bytes tag l)"
  by simp

lemma loginFailureResponse_eq:
  "loginFailureResponse p code = Ok [\<lparr>Tag = LoginTLVTagsScreenName, Value = lp_screenName p\<rparr>,
     \<lparr>Tag = LoginTLVTagsErrorSubcode, Value = put_uint BigEndian 2 (unat code)\<rparr>]"
  by (simp add: loginFailureResponse_def NewTLVBE_string NewTLVBE_u16)

lemma failure_eq:
  "failure st p code = Ok (Inr [\<lparr>Tag = LoginTLVTagsScreenName, Value = lp_screenName p\<rparr>,
     \<lparr>Tag = LoginTLVTagsErrorSubcode, Value = put_uint BigEndian 2 (unat code)\<rparr>], st)"
  by (simp add: failure_def loginFailureResponse_eq)

lemma failure_no_cookie:
  "failure st p code = Ok (Inr l, st') \<Longrightarrow> TLVList_Bytes LoginTLVTagsAuthorizationCookie l = None"
  by (auto simp: failure_eq login_tags)

lemma addLinkedAccountsTLV_prefix:
  "addLinkedAccountsTLV A st sn l = Ok (Inr l') \<Longrightarrow> \<exists>x. l' = l @ x"
  by (auto simp: addLinkedAccountsTLV_def NewTLVBE_string Let_def split: sum.splits if_splits)

lemma loginSuccess_cookie:
  assumes "loginSuccessResponse A st p ep = Ok (Inr l)"
  shows "\<exists>c. Issue (mac A) (mac_key A) (now A)
      (fst (MarshalBE (Some (ServerCookie_ty, ServerCookie_val (login_cookie p))))) (tokenTTL p) = Ok (Inr c) \<and>
    TLVList_Bytes LoginTLVTagsAuthorizationCookie l = Some c"
proof -
  obtain buf where buf: "MarshalBE (Some (ServerCookie_ty, ServerCookie_val (login_cookie p))) = (buf, Ok ())"
    using length_ServerCookie(2) [of "login_cookie p"] by (metis prod.collapse)
  obtain c where c: "Issue (mac A) (mac_key A) (now A) buf (tokenTTL p) = Ok (Inr c)"
    using assms buf by (cases "Issue (mac A) (mac_key A) (now A) buf (tokenTTL p)")
      (auto simp: loginSuccessResponse_def split: sum.splits)
  obtain x where "l = [\<lparr>Tag = LoginTLVTagsScreenName, Value = lp_screenName p\<rparr>,
      \<lparr>Tag = LoginTLVTagsReconnectHere, Value = AdvertisedHost ep\<rparr>,
      \<lparr>Tag = LoginTLVTagsAuthorizationCookie, Value = c\<rparr>] @ x"
    using assms buf c
    by (auto simp: loginSuccessResponse_def NewTLVBE_string NewTLVBE_bytes NewTLVBE_u8
        dest!: addLinkedAccountsTLV_prefix)
  then show ?thesis using buf c by (simp add: login_tags)
qed

text \<open>The checks between a request and the answer, passed one after the other.\<close>

definition admitted :: "('s, 'e, 'm) AuthService \<Rightarrow> 's \<Rightarrow> loginProperties \<Rightarrow> bool" where
  "admitted A st p \<longleftrightarrow> (\<exists>u. user_of A st (NewIdentScreenName (tables A) (lp_screenName p)) = Inr (Some u) \<and>
     SuspendedStatus u = 0 \<and> password_ok (md5 A) p u \<and> \<not> too_many_logins A p)"

lemma login_cookie_cases:
  fixes A :: "('s, 'e, 'm) AuthService"
  assumes "login A tlv ep st = Ok (Inr l, st')" and "TLVList_Bytes LoginTLVTagsAuthorizationCookie l = Some c"
  shows "\<exists>p. fromTLV tlv = (Ok (None, p) :: ('e login_error option \<times> loginProperties) outcome) \<and>
    (\<not> DisableAuth A \<longrightarrow> admitted A st p) \<and> loginSuccessResponse A st' p ep = Ok (Inr l) \<and>
    (\<not> DisableAuth A \<longrightarrow> st' = st)"
proof -
  obtain err p where f: "fromTLV tlv = (Ok (err, p) :: ('e login_error option \<times> loginProperties) outcome)"
    using assms(1) by (auto simp: login_def bind_out_Ok_iff)
  have no: "failure s q code = Ok (Inr l, s') \<Longrightarrow> False" for s s' :: 's and q code
    using failure_no_cookie [of s q code l s'] assms(2) by simp
  have err: "err = None"
    using assms(1) f no by (auto simp: login_def split: option.splits login_error.splits)
  have new: "createUser A p ep st = Ok (Inr l, st') \<Longrightarrow> loginSuccessResponse A st' p ep = Ok (Inr l)"
    using no by (auto simp: createUser_def success_def bind_out_Ok_iff split: prod.splits option.splits if_splits)
  show ?thesis
    using assms(1) f err no new
    by (auto simp: login_def admitted_def success_def bind_out_Ok_iff word_gt_0 split: sum.splits option.splits if_splits)
qed

lemma password_from_keeps [simp]:
  "lp_screenName (password_from l p) = lp_screenName p" "tokenTTL (password_from l p) = tokenTTL p"
  by (simp_all add: password_from_def)

lemma fromTLV_Ok:
  assumes "fromTLV tlv = Ok (None, p)"
  shows "TLVList_String LoginTLVTagsScreenName tlv = (lp_screenName p, True) \<and> 0 < tokenTTL p \<and> tokenTTL p \<le> maxTokenTTL"
proof -
  obtain sn b where sn: "TLVList_String LoginTLVTagsScreenName tlv = (sn, b)" by fastforce
  obtain c d where c: "TLVList_String LoginTLVTagsClientIdentity tlv = (c, d)" by fastforce
  obtain e f where e: "TLVList_Uint8 LoginTLVTagsMultiConnFlags tlv = (e, f)" by fastforce
  have "0 < DefaultCookieTTL" "DefaultCookieTTL \<le> maxTokenTTL" by (simp_all add: DefaultCookieTTL_def maxTokenTTL_def)
  then show ?thesis
    using assms
    by (cases b; cases d; cases f)
      (auto simp: fromTLV_def sn c e Let_def bind_out_Ok_iff split: option.splits if_splits)
qed

lemma loginSuccess_iff:
  fixes A :: "('s, 'e, 'm) AuthService"
  assumes "\<And>k m. length (mac A k m) = 32" and "feedbag_of A st (NewIdentScreenName (tables A) (lp_screenName p)) = Inr its"
  shows "if length (lp_screenName p) + length (clientID p) \<le> 202
    then \<exists>l. loginSuccessResponse A st p ep = Ok (Inr l) \<and> TLVList_HasTag LoginTLVTagsAuthorizationCookie l
    else loginSuccessResponse A st p ep =
      Ok (Inl (CookieFailed (CookieTooLong (54 + length (lp_screenName p) + length (clientID p)))))"
proof -
  have names: "sc_ScreenName (login_cookie p) = lp_screenName p" "sc_ClientID (login_cookie p) = clientID p"
      "sc_ChatCookie (login_cookie p) = []"
    by (simp_all add: login_cookie_def)
  obtain buf where buf: "MarshalBE (Some (ServerCookie_ty, ServerCookie_val (login_cookie p))) = (buf, Ok ())"
      "length buf = 12 + length (lp_screenName p) + length (clientID p)"
    using length_ServerCookie [of "login_cookie p"] names by (metis add.right_neutral list.size(3) prod.collapse)
  show ?thesis
  proof (cases "length (lp_screenName p) + length (clientID p) \<le> 202")
    case True
    then obtain c where c: "Issue (mac A) (mac_key A) (now A) buf (tokenTTL p) = Ok (Inr c)"
      using Issue_eq [of "mac A" "mac_key A" "now A" buf "tokenTTL p", OF assms(1)] buf(2) by auto
    then show ?thesis
      using True assms(2)
      by (auto simp: loginSuccessResponse_def buf(1) NewTLVBE_string NewTLVBE_bytes NewTLVBE_u8 addLinkedAccountsTLV_def
          Let_def login_tags)
  next
    case False
    then have "Issue (mac A) (mac_key A) (now A) buf (tokenTTL p) = Ok (Inl (CookieTooLong (42 + length buf)))"
      using Issue_eq [of "mac A" "mac_key A" "now A" buf "tokenTTL p", OF assms(1)] buf(2) by auto
    then show ?thesis using False by (simp add: loginSuccessResponse_def buf)
  qed
qed

lemma login_admitted:
  fixes A :: "('s, 'e, 'm) AuthService"
  assumes "fromTLV tlv = (Ok (None, p) :: ('e login_error option \<times> loginProperties) outcome)"
    and "admitted A st p"
  shows "login A tlv ep st = success A st p ep"
  using assms by (auto simp: login_def admitted_def)

text \<open>The service of the witnesses: one account, with password \<open>pass\<close>, and nobody signed on.\<close>

definition one_user :: User where
  "one_user = (newUser ascii_tables [1] (ascii ''abc''))\<lparr>WeakMD5Pass := WeakMD5PasswordHash id (ascii ''pass'') [1]\<rparr>"

definition one_service :: "(unit, unit, nat) AuthService" where
  "one_service = \<lparr>user_of = (\<lambda>_ n. Inr (if n = Ident one_user then Some one_user else None)),
     insert_user = (\<lambda>_ s. (None, s)), feedbag_of = (\<lambda>_ _. Inr []), sessions = NewInMemorySessionManager,
     tables = ascii_tables, md5 = id, mac = (\<lambda>_ _. replicate 32 0), mac_key = [], now = 0, newAuthKey = [],
     DisableAuth = False, maxConcurrentLoginsPerUser = MaxConcurrentLoginsPerUser\<rparr>"

definition one_request :: TLVList where
  "one_request = [\<lparr>Tag = LoginTLVTagsScreenName, Value = ascii ''abc''\<rparr>,
     \<lparr>Tag = LoginTLVTagsPlaintextPassword, Value = ascii ''pass''\<rparr>]"

definition one_endpoint :: Endpoint where
  "one_endpoint = \<lparr>BOSAdvertisedHostPlain = [], BOSAdvertisedHostSSL = [], IsSSL = False\<rparr>"

definition one_props :: loginProperties where
  "one_props = noLoginProperties\<lparr>lp_screenName := ascii ''abc'', plaintextPassword := ascii ''pass'',
     authKind := PlaintextAuth, tokenTTL := DefaultCookieTTL\<rparr>"

lemma one_request_props: "fromTLV one_request = Ok (None, one_props)"
  by (simp add: fromTLV_def one_request_def one_props_def password_from_def noLoginProperties_def login_tags
      tlv_bytes_def Let_def)

lemma one_admitted: "admitted one_service () one_props"
  by (simp add: admitted_def one_service_def one_props_def one_user_def newUser_def password_ok_def
      ValidatePlaintextPass_def too_many_logins_def noLoginProperties_def MultiConnFlagsRecentClient_def)

lemma one_login: "\<exists>l c. login one_service one_request one_endpoint () = Ok (Inr l, ()) \<and>
    TLVList_Bytes LoginTLVTagsAuthorizationCookie l = Some c"
proof -
  have "feedbag_of one_service () n = Inr []" "length (mac one_service k m) = 32" for n k m
    by (simp_all add: one_service_def)
  then obtain l where "loginSuccessResponse one_service () one_props one_endpoint = Ok (Inr l)"
      "TLVList_HasTag LoginTLVTagsAuthorizationCookie l"
    using loginSuccess_iff [of one_service "()" one_props "[]" one_endpoint]
    by (auto simp: one_props_def noLoginProperties_def ascii_def split: if_splits)
  then show ?thesis
    using login_admitted [OF one_request_props one_admitted, of one_endpoint] by (auto simp: success_def HasTag_iff)
qed

lemma kerberos_request_eq:
  "kerberos_request inBody info = Ok
     [\<lparr>Tag = LoginTLVTagsScreenName, Value = vstring (vfield 13 inBody)\<rparr>,
      \<lparr>Tag = LoginTLVTagsMultiConnFlags, Value = [MultiConnFlagsRecentClient]\<rparr>,
      \<lparr>Tag = (if vu16 (vfield 1 info) \<ge> 4 then LoginTLVTagsRoastedKerberosPassword
         else LoginTLVTagsPlaintextKerberosPassword), Value = val_bytes (vfield 4 info)\<rparr>]"
  by (simp add: kerberos_request_def NewTLVBE_string NewTLVBE_u8) (simp add: NewTLVBE_def newTLV_def)

lemma kerberos_props:
  assumes "kerberos_request inBody info = Ok l" and "fromTLV l = Ok (None, p)"
  shows "lp_screenName p = vstring (vfield 13 inBody) \<and>
    (if vu16 (vfield 1 info) \<ge> 4 then authKind p = KerberosRoastedAuth \<and> roastedPass p = val_bytes (vfield 4 info)
     else authKind p = KerberosPlaintextAuth \<and> plaintextPassword p = val_bytes (vfield 4 info))"
  using assms unfolding kerberos_request_eq
  by (auto simp: fromTLV_def login_tags password_from_def noLoginProperties_def tlv_bytes_def Let_def)

section \<open>Properties\<close>

text \<open>
  C8: With authentication on, nobody gets a login cookie without the password: whenever the answer to a
  login request carries a cookie, the account named in the request exists and is not suspended, the
  password in the request is the account's in one of its accepted forms, the limit of concurrent
  logins is not reached, and the user store is unchanged.
\<close>

theorem login_needs_password:
  fixes A :: "('s, 'e, 'm) AuthService"
  assumes "login A tlv ep st = Ok (Inr l, st')" and "TLVList_Bytes LoginTLVTagsAuthorizationCookie l = Some c"
    and "\<not> DisableAuth A"
  shows "\<exists>p u. fromTLV tlv = (Ok (None, p) :: ('e login_error option \<times> loginProperties) outcome) \<and>
    TLVList_String LoginTLVTagsScreenName tlv = (lp_screenName p, True) \<and>
    user_of A st (NewIdentScreenName (tables A) (lp_screenName p)) = Inr (Some u) \<and> SuspendedStatus u = 0 \<and>
    password_ok (md5 A) p u \<and> \<not> too_many_logins A p \<and> st' = st"
  using login_cookie_cases [OF assms(1,2)] assms(3) fromTLV_Ok by (fastforce simp: admitted_def)

lemma login_needs_password_witness:
  "\<exists>p. fromTLV one_request = (Ok (None, p) :: (unit login_error option \<times> loginProperties) outcome) \<and>
     password_ok id p one_user"
proof -
  obtain l c where l: "login one_service one_request one_endpoint () = Ok (Inr l, ())"
      "TLVList_Bytes LoginTLVTagsAuthorizationCookie l = Some c"
    using one_login by blast
  have "\<not> DisableAuth one_service" by (simp add: one_service_def)
  from login_needs_password [OF l this] show ?thesis by (auto simp: one_service_def split: if_splits)
qed

text \<open>
  C9: The cookie of a successful login is accepted by the other services until it expires and tells
  them who logged in: the screen name, client, session kind and lifetime of the request.
\<close>

theorem login_cookie_accepted:
  fixes A :: "('s, 'e, 'm) AuthService"
  assumes "login A tlv ep st = Ok (Inr l, st')" and "TLVList_Bytes LoginTLVTagsAuthorizationCookie l = Some c"
    and "\<And>k m. length (mac A k m) = 32" and "0 \<le> now A" and "Unix (now A + maxTokenTTL) < 2 ^ 32"
  shows "\<exists>p. fromTLV tlv = (Ok (None, p) :: ('e login_error option \<times> loginProperties) outcome) \<and>
    (\<forall>later. CrackCookie (A\<lparr>now := later\<rparr>) c =
       (if later \<le> Unix (now A + tokenTTL p) * 10 ^ 9 then Ok (Inr (login_cookie p, Unix (now A + tokenTTL p)))
        else Ok (Inl CookieExpired)))"
proof -
  obtain p where p: "fromTLV tlv = (Ok (None, p) :: ('e login_error option \<times> loginProperties) outcome)"
      "loginSuccessResponse A st' p ep = Ok (Inr l)"
    using login_cookie_cases [OF assms(1,2)] by blast
  let ?buf = "fst (MarshalBE (Some (ServerCookie_ty, ServerCookie_val (login_cookie p))))"
  have c: "Issue (mac A) (mac_key A) (now A) ?buf (tokenTTL p) = Ok (Inr c)"
    using loginSuccess_cookie [OF p(2)] assms(2) by auto
  then have len: "length ?buf \<le> 214"
    using Issue_eq [of "mac A" "mac_key A" "now A" ?buf "tokenTTL p"] assms(3) by (auto split: if_splits)
  have ttl: "0 < tokenTTL p" "tokenTTL p \<le> maxTokenTTL" using fromTLV_Ok [OF p(1)] by simp_all
  have "Unix (now A + tokenTTL p) \<le> Unix (now A + maxTokenTTL)" using ttl(2) by (simp add: Unix_def zdiv_mono1)
  then have e: "0 \<le> now A + tokenTTL p" "Unix (now A + tokenTTL p) < 2 ^ 32" using ttl(1) assms(4,5) by linarith+
  have crack: "Crack (mac A) (mac_key A) later c = (if later \<le> Unix (now A + tokenTTL p) * 10 ^ 9
      then Ok (Inr (?buf, Unix (now A + tokenTTL p))) else Ok (Inl CookieExpired))" for later
    using issue_crack [of "mac A" ?buf "now A" "tokenTTL p" "mac_key A" later] assms(3) len e c by auto
  have "UnmarshalBE ServerCookie_ty ?buf = (Ok (ServerCookie_val (login_cookie p)), [])"
    using ServerCookie_code [of "login_cookie p"] len length_ServerCookie [of "login_cookie p"]
    by (auto simp: codes_at_def dest!: spec [of _ "[]"])
  then have "CrackCookie (A\<lparr>now := later\<rparr>) c = (if later \<le> Unix (now A + tokenTTL p) * 10 ^ 9
      then Ok (Inr (login_cookie p, Unix (now A + tokenTTL p))) else Ok (Inl CookieExpired))" for later
    by (simp add: CrackCookie_def crack)
  with p(1) show ?thesis by blast
qed

lemma login_cookie_accepted_witness:
  "\<exists>l c p. login one_service one_request one_endpoint () = Ok (Inr l, ()) \<and>
     TLVList_Bytes LoginTLVTagsAuthorizationCookie l = Some c \<and>
     CrackCookie (one_service\<lparr>now := 0\<rparr>) c = Ok (Inr (login_cookie p, Unix (tokenTTL p)))"
proof -
  obtain l c where l: "login one_service one_request one_endpoint () = Ok (Inr l, ())"
      "TLVList_Bytes LoginTLVTagsAuthorizationCookie l = Some c"
    using one_login by blast
  have m: "length (mac one_service k m) = 32" and t: "0 \<le> now one_service" "Unix (now one_service + maxTokenTTL) < 2 ^ 32"
    for k m by (simp_all add: one_service_def Unix_def maxTokenTTL_def)
  obtain p where p: "fromTLV one_request = (Ok (None, p) :: (unit login_error option \<times> loginProperties) outcome)"
      "CrackCookie (one_service\<lparr>now := 0\<rparr>) c = (if 0 \<le> Unix (tokenTTL p) * 10 ^ 9
        then Ok (Inr (login_cookie p, Unix (tokenTTL p))) else Ok (Inl CookieExpired))"
    using login_cookie_accepted [OF l m t] by (auto simp: one_service_def)
  have "0 \<le> Unix (tokenTTL p)" using fromTLV_Ok [OF p(1)] by (simp add: Unix_def pos_imp_zdiv_nonneg_iff)
  then show ?thesis using p(2) l by auto
qed

text \<open>
  C21: With authentication on and a store that answers, a login request whose TLVs are in order gets the answer its account
  calls for, and the store stays as it is: for an unknown name, a suspended account, a wrong password or too many logins,
  tested in this order, exactly the error code of that case and no cookie; otherwise a cookie, unless screen name and client
  name together exceed 202 bytes, too many for one: then the request fails with an error instead of an answer.
\<close>

theorem login_answers:
  fixes A :: "('s, 'e, 'm) AuthService"
  assumes "fromTLV tlv = (Ok (None, p) :: ('e login_error option \<times> loginProperties) outcome)" and "\<not> DisableAuth A"
    and "user_of A st (NewIdentScreenName (tables A) (lp_screenName p)) = Inr u"
    and "feedbag_of A st (NewIdentScreenName (tables A) (lp_screenName p)) = Inr its"
    and "\<And>k m. length (mac A k m) = 32"
  shows "(let code = (case u of
        None \<Rightarrow> Some (if IsUIN (tables A) (lp_screenName p) then LoginErrICQUserErr else LoginErrInvalidUsernameOrPassword)
      | Some a \<Rightarrow> if SuspendedStatus a \<noteq> 0 then Some (SuspendedStatus a)
          else if \<not> password_ok (md5 A) p a then Some LoginErrInvalidPassword
          else if too_many_logins A p then Some LoginErrRateLimitExceeded else None)
    in case code of
      Some e \<Rightarrow> \<exists>l. login A tlv ep st = Ok (Inr l, st) \<and> TLVList_Uint16BE LoginTLVTagsErrorSubcode l = Ok (e, True) \<and>
        \<not> TLVList_HasTag LoginTLVTagsAuthorizationCookie l
    | None \<Rightarrow>
        if length (lp_screenName p) + length (clientID p) \<le> 202
        then \<exists>l. login A tlv ep st = Ok (Inr l, st) \<and> TLVList_HasTag LoginTLVTagsAuthorizationCookie l
        else \<exists>n. login A tlv ep st = Ok (Inl (CookieFailed (CookieTooLong n)), st))"
proof -
  have fail: "\<exists>l. failure st p e = Ok (Inr l, st) \<and> TLVList_Uint16BE LoginTLVTagsErrorSubcode l = Ok (e, True) \<and>
      \<not> TLVList_HasTag LoginTLVTagsAuthorizationCookie l" for e
    using unat_u16_lt [of e] by (simp add: failure_eq Uint16BE_eq login_tags get_put_uint)
  have ok: "if length (lp_screenName p) + length (clientID p) \<le> 202
      then \<exists>l. success A st p ep = Ok (Inr l, st) \<and> TLVList_HasTag LoginTLVTagsAuthorizationCookie l
      else \<exists>n. success A st p ep = Ok (Inl (CookieFailed (CookieTooLong n)), st)"
    using loginSuccess_iff [of A st p its ep, OF assms(5,4)] by (auto simp: success_def split: if_splits)
  show ?thesis
  proof (cases u)
    case None
    then show ?thesis using assms(1-3) fail by (simp add: login_def) blast
  next
    case (Some a)
    then show ?thesis using assms(1-3) fail ok by (auto simp: login_def Let_def word_gt_0)
  qed
qed

lemma login_answers_witness:
  "\<exists>l. login one_service one_request one_endpoint () = Ok (Inr l, ()) \<and> TLVList_HasTag LoginTLVTagsAuthorizationCookie l"
proof -
  obtain u where u: "user_of one_service () (NewIdentScreenName (tables one_service) (lp_screenName one_props)) = Inr (Some u)"
      "SuspendedStatus u = 0" "password_ok (md5 one_service) one_props u" "\<not> too_many_logins one_service one_props"
    using one_admitted by (auto simp: admitted_def)
  have "\<not> DisableAuth one_service" "feedbag_of one_service () n = Inr []" "length (mac one_service k m) = 32" for n k m
    by (simp_all add: one_service_def)
  from login_answers [OF one_request_props this(1) u(1) this(2,3), of one_endpoint] u(2-4) show ?thesis
    by (simp add: one_props_def noLoginProperties_def ascii_def)
qed

text \<open>
  A lifetime TLV shorter than four bytes makes \<open>fromTLV\<close>, and with it the login service, panic: the
  presence of the TLV is tested but not its length.
\<close>

theorem short_ttl_panics:
  assumes "TLVList_HasTag LoginTLVTagsScreenName tlv"
    and "TLVList_Bytes LoginTLVTagsTokenTTL tlv = Some b" and "length b < 4"
  shows "login A tlv ep st = Panic"
proof -
  obtain sn where "TLVList_String LoginTLVTagsScreenName tlv = (sn, True)"
    using assms(1) by (auto simp: HasTag_iff String_eq)
  then show ?thesis using assms(2,3) by (simp add: login_def fromTLV_def Let_def order_uint_def)
qed

lemma short_ttl_panics_witness:
  "login one_service (one_request @ [\<lparr>Tag = LoginTLVTagsTokenTTL, Value = [0, 60]\<rparr>]) one_endpoint () = Panic"
  using short_ttl_panics [of "one_request @ [\<lparr>Tag = LoginTLVTagsTokenTTL, Value = [0, 60]\<rparr>]" "[0, 60]"]
  by (simp add: one_request_def login_tags)

text \<open>
  A Kerberos ticket is issued only for the right password: with authentication on, a success
  response means that the principal's account exists, is not suspended, and that the password in the
  ticket request, roasted from version 4 of the request on and plain before, is the account's.
\<close>

theorem kerberos_needs_password:
  fixes A :: "('s, 'e, 'm) AuthService"
  assumes "KerberosLogin A inBody ep st = Ok (Inr (frame, t, body), st')" and "\<not> DisableAuth A"
    and "SubGroup frame = KerberosLoginSuccessResponse"
  shows "\<exists>b info u. TLVList_Bytes KerberosTLVTicketRequest (val_tlvs (vfield 0 (vfield 17 inBody))) = Some b \<and>
    fst (UnmarshalBE KerberosLoginRequestTicket_ty b) = Ok info \<and>
    user_of A st (NewIdentScreenName (tables A) (vstring (vfield 13 inBody))) = Inr (Some u) \<and>
    SuspendedStatus u = 0 \<and>
    (if vu16 (vfield 1 info) \<ge> 4 then ValidateRoastedKerberosPass (md5 A) (val_bytes (vfield 4 info)) u
     else ValidatePlaintextPass (md5 A) (val_bytes (vfield 4 info)) u)"
proof -
  obtain b where b: "TLVList_Bytes KerberosTLVTicketRequest (val_tlvs (vfield 0 (vfield 17 inBody))) = Some b"
    using assms(1) by (auto simp: KerberosLogin_def split: option.splits)
  obtain info where i: "fst (UnmarshalBE KerberosLoginRequestTicket_ty b) = Ok info"
    using assms(1) b by (auto simp: KerberosLogin_def split: outcome.splits)
  obtain l where l: "kerberos_request inBody info = Ok l" using kerberos_request_eq by blast
  obtain r st'' where r: "login A l ep st = Ok (r, st'')"
    using assms(1) b i l by (auto simp: KerberosLogin_def bind_out_Ok_iff)
  obtain block where block: "r = Inr block" using assms(1) b i l r by (auto simp: KerberosLogin_def split: sum.splits)
  have "KerberosKerberosLoginErrResponse \<noteq> KerberosLoginSuccessResponse"
    by (simp add: KerberosKerberosLoginErrResponse_def KerberosLoginSuccessResponse_def)
  then obtain c where c: "TLVList_Bytes LoginTLVTagsAuthorizationCookie block = Some c"
    using assms(1,3) b i l r block
    by (auto simp: KerberosLogin_def kerberos_error_def reply_def snac_def split: option.splits)
  obtain p where p: "fromTLV l = (Ok (None, p) :: ('e login_error option \<times> loginProperties) outcome)" "admitted A st p"
    using login_cookie_cases [OF r [unfolded block] c] assms(2) by blast
  then show ?thesis
    using b i kerberos_props [OF l p(1)] by (auto simp: admitted_def password_ok_def split: if_splits)
qed

text \<open>The witness: the same account over Kerberos, with the plain password of an old request.\<close>

definition one_ticket :: val where
  "one_ticket = VStruct [VU32 0, VU16 0, VU32 0, VU16 0, vbytes (ascii ''pass''), tlv_block []]"

definition one_kerberos :: val where
  "one_kerberos = VStruct [VU32 0, VU32 0, VU32 0, VU32 0, VU32 0, tlv_block [], VU32 0, VU32 0, VString [], VString [],
     tlv_block [], VU32 0, VU8 0, VString (ascii ''abc''), VString [], VU32 0, VU16 0,
     tlv_block [\<lparr>Tag = KerberosTLVTicketRequest, Value = fst (MarshalBE (Some (KerberosLoginRequestTicket_ty, one_ticket)))\<rparr>]]"

lemma one_ticket_decodes:
  "fst (UnmarshalBE KerberosLoginRequestTicket_ty (fst (MarshalBE (Some (KerberosLoginRequestTicket_ty, one_ticket))))) =
     Ok one_ticket"
proof -
  have "codes_at True (MarshalBE (Some (KerberosLoginRequestTicket_ty, one_ticket)))
      (UnmarshalBE KerberosLoginRequestTicket_ty) one_ticket"
    by (rule code_BE) (simp_all add: KerberosLoginRequestTicket_ty_def TLVBlock_ty_def TLVList_ty_def tlv_ty_def
        one_ticket_def tlv_block_def tlvs_val_def vbytes_def ascii_def tag_eval prefix_max_def elems_bytes_def
        binaryWrite_def wput_def)
  then show ?thesis by (auto simp: codes_at_def)
qed

lemma one_server_info:
  "\<exists>v. NewTLVBE tag (KerberosBOSServerInfo_ty, VStruct [VU16 1, tlv_block [x, y, z]]) = Ok v"
  by (simp add: NewTLVBE_def newTLV_def MarshalBE_def KerberosBOSServerInfo_ty_def TLVBlock_ty_def TLVList_ty_def
      tlv_ty_def tlv_block_def tlvs_val_def tlv_val_def marshal.simps [of _ None]
      marshal.simps [of _ "Some ''count_prefix=uint16''"] marshalKind.simps
      marshalStruct.simps tag_eval struct_order_def binaryWrite_def wput_def wseq_def wok_def wbuffered_def
      marshalSliceBuf_def marshalUnsignedInt_def marshal_vbytes)

lemma kerberos_needs_password_witness:
  "\<exists>frame t body. KerberosLogin one_service one_kerberos one_endpoint () = Ok (Inr (frame, t, body), ()) \<and>
     SubGroup frame = KerberosLoginSuccessResponse \<and> ValidatePlaintextPass id (ascii ''pass'') one_user"
proof -
  let ?p = "one_props\<lparr>authKind := KerberosPlaintextAuth, multiConnFlag := MultiConnFlagsRecentClient\<rparr>"
  obtain l where l: "kerberos_request one_kerberos one_ticket = Ok l" using kerberos_request_eq by blast
  have p: "fromTLV l = (Ok (None, ?p) :: (unit login_error option \<times> loginProperties) outcome)"
    using l unfolding kerberos_request_eq
    by (auto simp: fromTLV_def login_tags password_from_def noLoginProperties_def tlv_bytes_def Let_def one_kerberos_def
        one_ticket_def one_props_def TLV_Uint8_def)
  have a: "admitted one_service () ?p"
    using one_admitted by (auto simp: admitted_def one_service_def one_props_def noLoginProperties_def password_ok_def
        too_many_logins_def RetrieveSession_def NewInMemorySessionManager_def)
  have "feedbag_of one_service () n = Inr []" "length (mac one_service k m) = 32" for n k m
    by (simp_all add: one_service_def)
  then obtain block c where block: "loginSuccessResponse one_service () ?p one_endpoint = Ok (Inr block)"
      "TLVList_Bytes LoginTLVTagsAuthorizationCookie block = Some c"
    using loginSuccess_iff [of one_service "()" ?p "[]" one_endpoint]
    by (auto simp: one_props_def noLoginProperties_def ascii_def HasTag_iff split: if_splits)
  then have login: "login one_service l one_endpoint () = Ok (Inr block, ())"
    using login_admitted [OF p a, of one_endpoint] by (simp add: success_def)
  obtain x y z where conn: "kerberos_conn one_endpoint c = (Ok (Inr [x, y, z]) :: (unit login_error + TLVList) outcome)"
    by (simp add: kerberos_conn_def one_endpoint_def NewTLVBE_string NewTLVBE_bytes NewTLVBE_u16)
  obtain v where v: "NewTLVBE KerberosTLVBOSServerInfo (KerberosBOSServerInfo_ty, VStruct [VU16 1, tlv_block [x, y, z]]) = Ok v"
    using one_server_info by blast
  have b: "TLVList_Bytes KerberosTLVTicketRequest (val_tlvs (vfield 0 (vfield 17 one_kerberos))) =
      Some (fst (MarshalBE (Some (KerberosLoginRequestTicket_ty, one_ticket))))"
    by (simp add: one_kerberos_def tlv_block_def)
  obtain frame t body where k: "KerberosLogin one_service one_kerberos one_endpoint () = Ok (Inr (frame, t, body), ())"
      "SubGroup frame = KerberosLoginSuccessResponse"
    using one_ticket_decodes l login block(2) conn v b by (simp add: KerberosLogin_def reply_def snac_def)
  have "\<not> DisableAuth one_service" by (simp add: one_service_def)
  from kerberos_needs_password [OF k(1) this k(2)] b one_ticket_decodes
  have "ValidatePlaintextPass id (ascii ''pass'') one_user"
    by (auto simp: one_service_def one_ticket_def split: if_splits)
  with k show ?thesis by blast
qed

end
