(* ===== verification/MessageText.thy ===== *)
theory MessageText
  imports Values Sessions
begin

text \<open>
  The text inside messages (\<open>wire/snacs.go\<close>): instant messages as lists of fragments, chat messages as
  TLV blocks, the status text in a BART item, and the flag tests on message fields.
\<close>

unbundle bit_operations_syntax

section \<open>Instant messages\<close>

definition ICBMMessageEncodingASCII :: u16 where "ICBMMessageEncodingASCII = 0"
definition ICBMMessageEncodingUnicode :: u16 where "ICBMMessageEncodingUnicode = 2"

datatype text_error = BadFragments err | BadMessage err | NoMessageFragment | BadBlock err | NoMessageText

text \<open>One fragment: its ID, version and payload.\<close>

definition fragment :: "u8 \<Rightarrow> u8 \<Rightarrow> bytes \<Rightarrow> val" where
  "fragment i version payload = VStruct [VU8 i, VU8 version, vbytes payload]"

definition ICBMFragmentList :: "bytes \<Rightarrow> val list outcome" where
  "ICBMFragmentList text =
     (case MarshalBE (Some (ICBMCh1Message_ty, VStruct [VU16 ICBMMessageEncodingASCII, VU16 0, vbytes text])) of
        (msg, x) \<Rightarrow> bind_out x (\<lambda>_. Ok [fragment 5 1 [1, 1, 2], fragment 1 1 msg]))"

definition MarshalICBMFragmentList :: "val list \<Rightarrow> bytes outcome" where
  "MarshalICBMFragmentList frags =
     (case MarshalBE (Some (TSlice ICBMCh1Fragment_ty, VList frags)) of (b, x) \<Rightarrow> bind_out x (\<lambda>_. Ok b))"

text \<open>\<open>string(runes)\<close> writes half a surrogate pair as U+FFFD.\<close>

fun ucs2_runes :: "bytes \<Rightarrow> nat list" where
  "ucs2_runes (hi # lo # r) =
     (let c = get_uint BigEndian [hi, lo] in if c = 0 then ucs2_runes r else c # ucs2_runes r)"
| "ucs2_runes _ = []"

definition decodeUCS2BE :: "bytes \<Rightarrow> bytes" where
  "decodeUCS2BE d = concat (map encode_rune (ucs2_runes d))"

definition UnmarshalICBMMessageText :: "bytes \<Rightarrow> (text_error + bytes) outcome" where
  "UnmarshalICBMMessageText b =
     (case fst (UnmarshalBE (TSlice ICBMCh1Fragment_ty) b) of
        Err e \<Rightarrow> Ok (Inl (BadFragments e))
      | Panic \<Rightarrow> Panic
      | Hang \<Rightarrow> Hang
      | Ok frags \<Rightarrow>
         (case find (\<lambda>frag. vu8 (vfield 0 frag) = 1) (vlist frags) of
            None \<Rightarrow> Ok (Inl NoMessageFragment)
          | Some frag \<Rightarrow>
             (case fst (UnmarshalBE ICBMCh1Message_ty (val_bytes (vfield 2 frag))) of
                Err e \<Rightarrow> Ok (Inl (BadMessage e))
              | Panic \<Rightarrow> Panic
              | Hang \<Rightarrow> Hang
              | Ok msg \<Rightarrow>
                  if vu16 (vfield 0 msg) = ICBMMessageEncodingUnicode
                  then Ok (Inr (decodeUCS2BE (val_bytes (vfield 2 msg))))
                  else Ok (Inr (val_bytes (vfield 2 msg))))))"

section \<open>Chat messages\<close>

definition ChatTLVMessageInfoText :: u16 where "ChatTLVMessageInfoText = 1"

definition UnmarshalChatMessageText :: "bytes \<Rightarrow> (text_error + bytes) outcome" where
  "UnmarshalChatMessageText b =
     (case fst (UnmarshalBE TLVRestBlock_ty b) of
        Err e \<Rightarrow> Ok (Inl (BadBlock e))
      | Panic \<Rightarrow> Panic
      | Hang \<Rightarrow> Hang
      | Ok block \<Rightarrow>
         (case TLVList_Bytes ChatTLVMessageInfoText (val_tlvs (vfield 0 block)) of
            None \<Rightarrow> Ok (Inl NoMessageText)
          | Some text \<Rightarrow> Ok (Inr text)))"

section \<open>Status texts\<close>

definition BARTFlagsData :: u8 where "BARTFlagsData = 4"
definition maxStatusMsgLen :: nat where "maxStatusMsgLen = 251"

datatype status_error = ErrStatusTextSizeExceeded | StatusMarshal err | StatusUnmarshal err

definition SetStatusText :: "bytes \<Rightarrow> BARTID \<Rightarrow> (status_error option \<times> BARTID) outcome" where
  "SetStatusText statusMsg b =
     (if length statusMsg > maxStatusMsgLen then Ok (Some ErrStatusTextSizeExceeded, b)
      else case MarshalBE (Some (bartStatus_ty, VStruct [VString statusMsg, VList []])) of
        (_, Err e) \<Rightarrow> Ok (Some (StatusMarshal e), b)
      | (_, Panic) \<Rightarrow> Panic
      | (_, Hang) \<Rightarrow> Hang
      | (buf, Ok _) \<Rightarrow> Ok (None, b\<lparr>bart_Type := BARTTypesStatusStr, bart_Flags := BARTFlagsData, bart_Hash := buf\<rparr>))"

definition StatusText :: "BARTID \<Rightarrow> (status_error + bytes) outcome" where
  "StatusText b =
     (if bart_Type b \<noteq> BARTTypesStatusStr \<or> bart_Flags b AND BARTFlagsData = 0 then Ok (Inr [])
      else case fst (UnmarshalBE bartStatus_ty (bart_Hash b)) of
        Err e \<Rightarrow> Ok (Inl (StatusUnmarshal e))
      | Panic \<Rightarrow> Panic
      | Hang \<Rightarrow> Hang
      | Ok st \<Rightarrow> Ok (Inr (vstring (vfield 0 st))))"

definition GetClearIconHash :: bytes where
  "GetClearIconHash = [0x02, 0x01, 0xd2, 0x04, 0x72]"

definition HasClearIconHash :: "BARTID \<Rightarrow> bool" where
  "HasClearIconHash h \<longleftrightarrow> bart_Hash h = GetClearIconHash"

section \<open>Flags in messages\<close>

definition OServicePrivacyFlagIdle :: u32 where "OServicePrivacyFlagIdle = 1"
definition OServicePrivacyFlagMember :: u32 where "OServicePrivacyFlagMember = 2"
definition LocateTypeSig :: u32 where "LocateTypeSig = 1"
definition LocateTypeUnavailable :: u32 where "LocateTypeUnavailable = 2"
definition OServiceUserInfoUserFlags :: u16 where "OServiceUserInfoUserFlags = 1"
definition OServiceUserInfoStatus :: u16 where "OServiceUserInfoStatus = 6"

definition IdleFlag :: "u32 \<Rightarrow> bool" where
  "IdleFlag privacyFlags \<longleftrightarrow> privacyFlags AND OServicePrivacyFlagIdle = OServicePrivacyFlagIdle"

definition MemberFlag :: "u32 \<Rightarrow> bool" where
  "MemberFlag privacyFlags \<longleftrightarrow> privacyFlags AND OServicePrivacyFlagMember = OServicePrivacyFlagMember"

definition RequestProfile :: "u16 \<Rightarrow> bool" where
  "RequestProfile typ \<longleftrightarrow> typ AND ucast LocateTypeSig = ucast LocateTypeSig"

definition RequestAwayMessage :: "u16 \<Rightarrow> bool" where
  "RequestAwayMessage typ \<longleftrightarrow> typ AND ucast LocateTypeUnavailable = ucast LocateTypeUnavailable"

definition IsFlagSet :: "u32 \<Rightarrow> u16 \<Rightarrow> bool" where
  "IsFlagSet permMask flag \<longleftrightarrow> flag AND ucast permMask = flag"

definition IsAway :: "TLVList \<Rightarrow> bool outcome" where
  "IsAway t = bind_out (TLVList_Uint16BE OServiceUserInfoUserFlags t) (\<lambda>(flags, _).
     Ok (flags AND OServiceUserFlagUnavailable = OServiceUserFlagUnavailable))"

definition IsInvisible :: "TLVList \<Rightarrow> bool outcome" where
  "IsInvisible t = bind_out (TLVList_Uint32BE OServiceUserInfoStatus t) (\<lambda>(mask, _).
     Ok (mask AND OServiceUserStatusInvisible = OServiceUserStatusInvisible))"

section \<open>Lemmas\<close>

lemma marshal_message:
  "MarshalBE (Some (ICBMCh1Message_ty, VStruct [VU16 c, VU16 l, vbytes m])) =
     (put_uint BigEndian 2 (unat c) @ put_uint BigEndian 2 (unat l) @ m, Ok ())"
proof -
  have "marshal BigEndian None (TSlice TU8) (vbytes m) = (m, Ok ())"
    using binary_bytes_vbytes [of BigEndian m]
    by (simp add: marshal.simps marshalKind.simps tag_eval vbytes_def binaryWrite_def wput_def wbuffered_def
        marshalSliceBuf_eq wok_def wseq_def)
  then show ?thesis
    by (simp add: MarshalBE_def ICBMCh1Message_ty_def marshal.simps [of _ None "TStruct _ _"] marshalKind.simps
        marshalStruct.simps tag_eval struct_order_def marshal.simps [of _ None TU16] binaryWrite_def wput_def wseq_def wok_def)
qed

lemma message_code:
  "codes_at True (MarshalBE (Some (ICBMCh1Message_ty, VStruct [VU16 c, VU16 l, vbytes m])))
     (UnmarshalBE ICBMCh1Message_ty) (VStruct [VU16 c, VU16 l, vbytes m])"
  by (rule code_BE) (simp_all add: ICBMCh1Message_ty_def vbytes_def tag_eval)

lemma fragments_code:
  assumes "length p < 65536" and "length q < 65536"
  shows "codes_at True (MarshalBE (Some (TSlice ICBMCh1Fragment_ty, VList [fragment i v p, fragment j w q])))
    (UnmarshalBE (TSlice ICBMCh1Fragment_ty)) (VList [fragment i v p, fragment j w q])"
proof (rule code_BE)
  have "length (elems_bytes BigEndian TU8 (map VU8 p)) = length p" for p
    using binary_bytes_vbytes [of BigEndian p] by (simp add: elems_bytes_def binaryWrite_def wput_def vbytes_def)
  then show "fits BigEndian emptyTag (TSlice ICBMCh1Fragment_ty) (VList [fragment i v p, fragment j w q])"
    using assms by (simp add: ICBMCh1Fragment_ty_def fragment_def vbytes_def tag_eval prefix_max_def)
qed (simp add: ICBMCh1Fragment_ty_def tag_eval)

definition ucs2_bytes :: "nat list \<Rightarrow> bytes" where
  "ucs2_bytes rs = concat (map (put_uint BigEndian 2) rs)"

lemma ucs2_runes_put: "r < 65536 \<Longrightarrow> ucs2_runes (put_uint BigEndian 2 r @ b) = (if r = 0 then [] else [r]) @ ucs2_runes b"
proof -
  assume r: "r < 65536"
  obtain x y where xy: "put_uint BigEndian 2 r = [x, y]" by (simp add: put_uint_def numeral_2_eq_2)
  have "get_uint BigEndian [x, y] = r" using get_put_uint [of BigEndian 2 r] r by (simp add: xy)
  then show ?thesis using xy by (simp add: Let_def)
qed

lemma ucs2_runes_bytes: "\<forall>r \<in> set rs. r < 65536 \<Longrightarrow> ucs2_runes (ucs2_bytes rs) = filter (\<lambda>r. r \<noteq> 0) rs"
  by (induction rs) (simp_all add: ucs2_bytes_def ucs2_runes_put)

section \<open>Properties\<close>

text \<open>
  A text up to 65531 bytes sent as an instant message is read back by the receiver unchanged.
\<close>

theorem message_text_roundtrip:
  assumes "length s < 65532"
  shows "\<exists>frags b. ICBMFragmentList s = Ok frags \<and> MarshalICBMFragmentList frags = Ok b \<and>
    UnmarshalICBMMessageText b = Ok (Inr s)"
proof -
  let ?m = "put_uint BigEndian 2 0 @ put_uint BigEndian 2 0 @ s"
  have f: "ICBMFragmentList s = Ok [fragment 5 1 [1, 1, 2], fragment 1 1 ?m]"
    by (simp add: ICBMFragmentList_def marshal_message ICBMMessageEncodingASCII_def)
  have "length ?m < 65536" using assms by simp
  then obtain b where b: "MarshalBE (Some (TSlice ICBMCh1Fragment_ty, VList [fragment 5 1 [1, 1, 2], fragment 1 1 ?m])) = (b, Ok ())"
      "UnmarshalBE (TSlice ICBMCh1Fragment_ty) b = (Ok (VList [fragment 5 1 [1, 1, 2], fragment 1 1 ?m]), [])"
    using fragments_code [of "[1, 1, 2]" ?m 5 1 1 1] by (auto simp: codes_at_def)
  have m: "UnmarshalBE ICBMCh1Message_ty ?m = (Ok (VStruct [VU16 0, VU16 0, vbytes s]), [])"
    using message_code [of 0 0 s] unfolding marshal_message by (auto simp: codes_at_def)
  have "UnmarshalICBMMessageText b = Ok (Inr s)"
    using m by (simp add: UnmarshalICBMMessageText_def b(2) fragment_def ICBMMessageEncodingUnicode_def)
  then show ?thesis using f b(1) by (simp add: MarshalICBMFragmentList_def)
qed

lemma message_text_roundtrip_witness:
  "\<exists>frags b. ICBMFragmentList [72, 105] = Ok frags \<and> MarshalICBMFragmentList frags = Ok b \<and>
    UnmarshalICBMMessageText b = Ok (Inr [72, 105])"
  by (rule message_text_roundtrip) simp

text \<open>
  A text in UCS-2 arrives as UTF-8, without its zero characters. Characters outside the basic plane
  do not: UTF-16 clients send them as surrogate pairs, and each half becomes a replacement character.
\<close>

theorem ucs2_text:
  assumes "\<forall>r \<in> set rs. r < 65536"
  shows "runes (decodeUCS2BE (ucs2_bytes rs)) =
    map (\<lambda>r. if 0xD800 \<le> r \<and> r \<le> 0xDFFF then RuneError else r) (filter (\<lambda>r. r \<noteq> 0) rs)"
proof -
  define f where "f r = (if 0xD800 \<le> r \<and> r \<le> 0xDFFF then RuneError else r)" for r
  have e: "encode_rune r = encode_rune (f r)" for r by (auto simp: encode_rune_def RuneError_def f_def)
  have scalar: "scalar (f r)" if "r < 65536" for r using that by (auto simp: f_def scalar_def RuneError_def)
  have "decodeUCS2BE (ucs2_bytes rs) = concat (map encode_rune (map f (filter (\<lambda>r. r \<noteq> 0) rs)))"
    unfolding decodeUCS2BE_def ucs2_runes_bytes [OF assms] map_map comp_def e [symmetric] ..
  moreover have "list_all scalar (map f (filter (\<lambda>r. r \<noteq> 0) rs))" using assms scalar by (auto simp: list_all_iff)
  ultimately show ?thesis using runes_encode [of "map f (filter (\<lambda>r. r \<noteq> 0) rs)"] by (simp add: f_def)
qed

lemma ucs2_text_witness: "runes (decodeUCS2BE (ucs2_bytes [0x48, 0, 0xD83D, 0xDE00])) = [0x48, RuneError, RuneError]"
  using ucs2_text [of "[0x48, 0, 0xD83D, 0xDE00]"] by simp

text \<open>
  A status text of at most 251 bytes is read back from the BART item as it was set, and the item
  still fits the one-byte length prefix of its hash; a longer one is refused and the item kept.
\<close>

theorem status_text_roundtrip:
  "if length s \<le> 251
   then \<exists>b'. SetStatusText s b = Ok (None, b') \<and> StatusText b' = Ok (Inr s) \<and> length (bart_Hash b') < 256
   else SetStatusText s b = Ok (Some ErrStatusTextSizeExceeded, b)"
proof (cases "length s \<le> 251")
  case True
  let ?v = "VStruct [VString s, VList []]"
  have "codes_at True (MarshalBE (Some (bartStatus_ty, ?v))) (UnmarshalBE bartStatus_ty) ?v"
    using True by (intro code_BE) (simp_all add: bartStatus_ty_def BARTID_ty_def BARTInfo_ty_def tag_eval prefix_max_def
        elems_bytes_def wok_def)
  then obtain h where h: "MarshalBE (Some (bartStatus_ty, ?v)) = (h, Ok ())" "UnmarshalBE bartStatus_ty h = (Ok ?v, [])"
    by (auto simp: codes_at_def)
  have "length h = 4 + length s"
    using h(1) by (auto simp: MarshalBE_def bartStatus_ty_def BARTID_ty_def BARTInfo_ty_def marshal.simps marshalKind.simps
        marshalStruct.simps tag_eval struct_order_def marshalString_def marshalUnsignedInt_def wput_def wseq_def wok_def
        wbuffered_def marshalSliceBuf_def split: if_splits)
  then show ?thesis
    using True h by (auto simp: SetStatusText_def StatusText_def maxStatusMsgLen_def BARTFlagsData_def)
qed (simp add: SetStatusText_def maxStatusMsgLen_def)

end
