(* ===== verification/Moods.thy ===== *)
theory Moods
  imports Users
begin

text \<open>
  ICQ moods (\<open>wire/xtraz.go\<close>): the table that pairs the capability an OSCAR client advertises with the
  token a web client uses, its two indexes, and the Xtraz messages built for mood texts.
\<close>

section \<open>The capabilities\<close>

text \<open>A \<open>uuid.UUID\<close> is its 16 bytes.\<close>

definition CapXStatusThinking :: bytes where
  "CapXStatusThinking = [0x3F, 0xB0, 0xBD, 0x36, 0xAF, 0x3B, 0x4A, 0x60, 0x9E, 0xEF, 0xCF, 0x19, 0x0F, 0x6A, 0x5A, 0x7F]"

definition CapXStatusBusy :: bytes where
  "CapXStatusBusy = [0x48, 0x8E, 0x14, 0x89, 0x8A, 0xCA, 0x4A, 0x08, 0x82, 0xAA, 0x77, 0xCE, 0x7A, 0x16, 0x52, 0x08]"

definition CapXStatusShopping :: bytes where
  "CapXStatusShopping = [0x63, 0x62, 0x73, 0x37, 0xA0, 0x3F, 0x49, 0xFF, 0x80, 0xE5, 0xF7, 0x09, 0xCD, 0xE0, 0xA4, 0xEE]"

definition CapXStatusTypingAlt :: bytes where
  "CapXStatusTypingAlt = [0x63, 0x4F, 0x6B, 0xD8, 0xAD, 0xD2, 0x4A, 0xA1, 0xAA, 0xB9, 0x11, 0x5B, 0xC2, 0x6D, 0x05, 0xA1]"

definition CapXStatusQuestion :: bytes where
  "CapXStatusQuestion = [0x63, 0x14, 0x36, 0xFF, 0x3F, 0x8A, 0x40, 0xD0, 0xA5, 0xCB, 0x7B, 0x66, 0xE0, 0x51, 0xB3, 0x64]"

definition CapXStatusAngry :: bytes where
  "CapXStatusAngry = [0x01, 0xD8, 0xD7, 0xEE, 0xAC, 0x3B, 0x49, 0x2A, 0xA5, 0x8D, 0xD3, 0xD8, 0x77, 0xE6, 0x6B, 0x92]"

definition CapXStatusPlate :: bytes where
  "CapXStatusPlate = [0xF8, 0xE8, 0xD7, 0xB2, 0x82, 0xC4, 0x41, 0x42, 0x90, 0xF8, 0x10, 0xC6, 0xCE, 0x0A, 0x89, 0xA6]"

definition CapXStatusCinema :: bytes where
  "CapXStatusCinema = [0x10, 0x7A, 0x9A, 0x18, 0x12, 0x32, 0x4D, 0xA4, 0xB6, 0xCD, 0x08, 0x79, 0xDB, 0x78, 0x0F, 0x09]"

definition CapXStatusSick :: bytes where
  "CapXStatusSick = [0x1F, 0x7A, 0x40, 0x71, 0xBF, 0x3B, 0x4E, 0x60, 0xBC, 0x32, 0x4C, 0x57, 0x87, 0xB0, 0x4C, 0xF1]"

definition CapXStatusTyping :: bytes where
  "CapXStatusTyping = [0x2C, 0xE0, 0xE4, 0xE5, 0x7C, 0x64, 0x43, 0x70, 0x9C, 0x3A, 0x7A, 0x1C, 0xE8, 0x78, 0xA7, 0xDC]"

definition CapXStatusSuit :: bytes where
  "CapXStatusSuit = [0xB7, 0x08, 0x67, 0xF5, 0x38, 0x25, 0x43, 0x27, 0xA1, 0xFF, 0xCF, 0x4C, 0xC1, 0x93, 0x97, 0x97]"

definition CapXStatusBathing :: bytes where
  "CapXStatusBathing = [0x5A, 0x58, 0x1E, 0xA1, 0xE5, 0x80, 0x43, 0x0C, 0xA0, 0x6F, 0x61, 0x22, 0x98, 0xB7, 0xE4, 0xC7]"

definition CapXStatusTV :: bytes where
  "CapXStatusTV = [0x80, 0x53, 0x7D, 0xE2, 0xA4, 0x67, 0x4A, 0x76, 0xB3, 0x54, 0x6D, 0xFD, 0x07, 0x5F, 0x5E, 0xC6]"

definition CapXStatusExcited :: bytes where
  "CapXStatusExcited = [0x6F, 0x49, 0x30, 0x98, 0x4F, 0x7C, 0x4A, 0xFF, 0xA2, 0x76, 0x34, 0xA0, 0x3B, 0xCE, 0xAE, 0xA7]"

definition CapXStatusSleeping :: bytes where
  "CapXStatusSleeping = [0x78, 0x5E, 0x8C, 0x48, 0x40, 0xD3, 0x4C, 0x65, 0x88, 0x6F, 0x04, 0xCF, 0x3F, 0x3F, 0x43, 0xDF]"

definition CapXStatusHiptop :: bytes where
  "CapXStatusHiptop = [0x10, 0x11, 0x17, 0xC9, 0xA3, 0xB0, 0x40, 0xF9, 0x81, 0xAC, 0x49, 0xE1, 0x59, 0xFB, 0xD5, 0xD4]"

definition CapXStatusInLove :: bytes where
  "CapXStatusInLove = [0xDD, 0xCF, 0x0E, 0xA9, 0x71, 0x95, 0x40, 0x48, 0xA9, 0xC6, 0x41, 0x32, 0x06, 0xD6, 0xF2, 0x80]"

definition CapXStatusSleepy :: bytes where
  "CapXStatusSleepy = [0x83, 0xC9, 0xB7, 0x8E, 0x77, 0xE7, 0x43, 0x78, 0xB2, 0xC5, 0xFB, 0x6C, 0xFC, 0xC3, 0x5B, 0xEC]"

definition CapXStatusMeeting :: bytes where
  "CapXStatusMeeting = [0xF1, 0x8A, 0xB5, 0x2E, 0xDC, 0x57, 0x49, 0x1D, 0x99, 0xDC, 0x64, 0x44, 0x50, 0x24, 0x57, 0xAF]"

definition CapXStatusPhone :: bytes where
  "CapXStatusPhone = [0x12, 0x92, 0xE5, 0x50, 0x1B, 0x64, 0x4F, 0x66, 0xB2, 0x06, 0xB2, 0x9A, 0xF3, 0x78, 0xE4, 0x8D]"

definition CapXStatusSurfing :: bytes where
  "CapXStatusSurfing = [0xA6, 0xED, 0x55, 0x7E, 0x6B, 0xF7, 0x44, 0xD4, 0xA5, 0xD4, 0xD2, 0xE7, 0xD9, 0x5C, 0xE8, 0x1F]"

definition CapXStatusMobile :: bytes where
  "CapXStatusMobile = [0x16, 0x0C, 0x60, 0xBB, 0xDD, 0x44, 0x43, 0xF3, 0x91, 0x40, 0x05, 0x0F, 0x00, 0xE6, 0xC0, 0x09]"

definition CapXStatusSearch :: bytes where
  "CapXStatusSearch = [0xD4, 0xE2, 0xB0, 0xBA, 0x33, 0x4E, 0x4F, 0xA5, 0x98, 0xD0, 0x11, 0x7D, 0xBF, 0x4D, 0x3C, 0xC8]"

definition CapXStatusParty :: bytes where
  "CapXStatusParty = [0xE6, 0x01, 0xE4, 0x1C, 0x33, 0x73, 0x4B, 0xD1, 0xBC, 0x06, 0x81, 0x1D, 0x6C, 0x32, 0x3D, 0x81]"

definition CapXStatusCoffee :: bytes where
  "CapXStatusCoffee = [0x1B, 0x78, 0xAE, 0x31, 0xFA, 0x0B, 0x4D, 0x38, 0x93, 0xD1, 0x99, 0x7E, 0xEE, 0xAF, 0xB2, 0x18]"

definition CapXStatusConsole :: bytes where
  "CapXStatusConsole = [0xD4, 0xA6, 0x11, 0xD0, 0x8F, 0x01, 0x4E, 0xC0, 0x92, 0x23, 0xC5, 0xB6, 0xBE, 0xC6, 0xCC, 0xF0]"

definition CapXStatusInternet :: bytes where
  "CapXStatusInternet = [0x12, 0xD0, 0x7E, 0x3E, 0xF8, 0x85, 0x48, 0x9E, 0x8E, 0x97, 0xA7, 0x2A, 0x65, 0x51, 0xE5, 0x8D]"

definition CapXStatusCigarette :: bytes where
  "CapXStatusCigarette = [0x64, 0x43, 0xC6, 0xAF, 0x22, 0x60, 0x45, 0x17, 0xB5, 0x8C, 0xD7, 0xDF, 0x8E, 0x29, 0x03, 0x52]"

definition CapXStatusWriting :: bytes where
  "CapXStatusWriting = [0x00, 0x72, 0xD9, 0x08, 0x4A, 0xD1, 0x43, 0xDD, 0x91, 0x99, 0x6F, 0x02, 0x69, 0x66, 0x02, 0x6F]"

definition CapXStatusBeer :: bytes where
  "CapXStatusBeer = [0x8C, 0x50, 0xDB, 0xAE, 0x81, 0xED, 0x47, 0x86, 0xAC, 0xCA, 0x16, 0xCC, 0x32, 0x13, 0xC7, 0xB7]"

definition CapXStatusMusic :: bytes where
  "CapXStatusMusic = [0x61, 0xBE, 0xE0, 0xDD, 0x8B, 0xDD, 0x47, 0x5D, 0x8D, 0xEE, 0x5F, 0x4B, 0xAA, 0xCF, 0x19, 0xA7]"

definition CapXStatusStudying :: bytes where
  "CapXStatusStudying = [0x60, 0x9D, 0x52, 0xF8, 0xA2, 0x9A, 0x49, 0xA6, 0xB2, 0xA0, 0x25, 0x24, 0xC5, 0xE9, 0xD2, 0x60]"

definition CapXStatusWorking :: bytes where
  "CapXStatusWorking = [0xBA, 0x74, 0xDB, 0x3E, 0x9E, 0x24, 0x43, 0x4B, 0x87, 0xB6, 0x2F, 0x6B, 0x8D, 0xFE, 0xE5, 0x0F]"

definition CapXStatusRestroom :: bytes where
  "CapXStatusRestroom = [0x16, 0xF5, 0xB7, 0x6F, 0xA9, 0xD2, 0x40, 0x35, 0x8C, 0xC5, 0xC0, 0x84, 0x70, 0x3C, 0x98, 0xFA]"

definition CapMoodHavingFun :: bytes where
  "CapMoodHavingFun = [0x4D, 0x4F, 0x4F, 0x44, 0x00, 0x00, 0x00, 0x00, 0x00, 0x00, 0x00, 0x00, 0x00, 0x00, 0x00, 0x0D]"

definition CapMoodLove :: bytes where
  "CapMoodLove = [0x4D, 0x4F, 0x4F, 0x44, 0x00, 0x00, 0x00, 0x00, 0x00, 0x00, 0x00, 0x00, 0x00, 0x00, 0x00, 0x3D]"

definition CapMoodWeekend :: bytes where
  "CapMoodWeekend = [0x4D, 0x4F, 0x4F, 0x44, 0x00, 0x00, 0x00, 0x00, 0x00, 0x00, 0x00, 0x00, 0x00, 0x00, 0x00, 0x42]"

definition CapMoodOnTheWay :: bytes where
  "CapMoodOnTheWay = [0x4D, 0x4F, 0x4F, 0x44, 0x00, 0x00, 0x00, 0x00, 0x00, 0x00, 0x00, 0x00, 0x00, 0x00, 0x00, 0x53]"

lemmas mood_caps =
  CapXStatusThinking_def CapXStatusBusy_def CapXStatusShopping_def CapXStatusTypingAlt_def
  CapXStatusQuestion_def CapXStatusAngry_def CapXStatusPlate_def CapXStatusCinema_def CapXStatusSick_def
  CapXStatusTyping_def CapXStatusSuit_def CapXStatusBathing_def CapXStatusTV_def CapXStatusExcited_def
  CapXStatusSleeping_def CapXStatusHiptop_def CapXStatusInLove_def CapXStatusSleepy_def CapXStatusMeeting_def
  CapXStatusPhone_def CapXStatusSurfing_def CapXStatusMobile_def CapXStatusSearch_def CapXStatusParty_def
  CapXStatusCoffee_def CapXStatusConsole_def CapXStatusInternet_def CapXStatusCigarette_def
  CapXStatusWriting_def CapXStatusBeer_def CapXStatusMusic_def CapXStatusStudying_def CapXStatusWorking_def
  CapXStatusRestroom_def CapMoodHavingFun_def CapMoodLove_def CapMoodWeekend_def CapMoodOnTheWay_def

section \<open>The table and its indexes\<close>

record Mood =
  mood_ID :: bytes
  mood_Cap :: bytes

definition Moods :: "Mood list" where
  "Moods = [
     \<lparr>mood_ID = ascii ''0icqmood0'', mood_Cap = CapXStatusShopping\<rparr>,
     \<lparr>mood_ID = ascii ''0icqmood1'', mood_Cap = CapXStatusBathing\<rparr>,
     \<lparr>mood_ID = ascii ''0icqmood2'', mood_Cap = CapXStatusSleepy\<rparr>,
     \<lparr>mood_ID = ascii ''0icqmood3'', mood_Cap = CapXStatusParty\<rparr>,
     \<lparr>mood_ID = ascii ''0icqmood4'', mood_Cap = CapXStatusBeer\<rparr>,
     \<lparr>mood_ID = ascii ''0icqmood5'', mood_Cap = CapXStatusThinking\<rparr>,
     \<lparr>mood_ID = ascii ''0icqmood6'', mood_Cap = CapXStatusPlate\<rparr>,
     \<lparr>mood_ID = ascii ''0icqmood7'', mood_Cap = CapXStatusTV\<rparr>,
     \<lparr>mood_ID = ascii ''0icqmood8'', mood_Cap = CapXStatusMeeting\<rparr>,
     \<lparr>mood_ID = ascii ''0icqmood9'', mood_Cap = CapXStatusCoffee\<rparr>,
     \<lparr>mood_ID = ascii ''0icqmood10'', mood_Cap = CapXStatusMusic\<rparr>,
     \<lparr>mood_ID = ascii ''0icqmood11'', mood_Cap = CapXStatusSuit\<rparr>,
     \<lparr>mood_ID = ascii ''0icqmood12'', mood_Cap = CapXStatusCinema\<rparr>,
     \<lparr>mood_ID = ascii ''0icqmood13'', mood_Cap = CapMoodHavingFun\<rparr>,
     \<lparr>mood_ID = ascii ''0icqmood14'', mood_Cap = CapXStatusPhone\<rparr>,
     \<lparr>mood_ID = ascii ''0icqmood81'', mood_Cap = CapXStatusConsole\<rparr>,
     \<lparr>mood_ID = ascii ''0icqmood16'', mood_Cap = CapXStatusStudying\<rparr>,
     \<lparr>mood_ID = ascii ''0icqmood17'', mood_Cap = CapXStatusSick\<rparr>,
     \<lparr>mood_ID = ascii ''0icqmood70'', mood_Cap = CapXStatusSleeping\<rparr>,
     \<lparr>mood_ID = ascii ''0icqmood19'', mood_Cap = CapXStatusSurfing\<rparr>,
     \<lparr>mood_ID = ascii ''0icqmood20'', mood_Cap = CapXStatusInternet\<rparr>,
     \<lparr>mood_ID = ascii ''0icqmood21'', mood_Cap = CapXStatusWorking\<rparr>,
     \<lparr>mood_ID = ascii ''0icqmood22'', mood_Cap = CapXStatusTyping\<rparr>,
     \<lparr>mood_ID = ascii ''0icqmood23'', mood_Cap = CapXStatusAngry\<rparr>,
     \<lparr>mood_ID = ascii ''0icqmood66'', mood_Cap = CapMoodWeekend\<rparr>,
     \<lparr>mood_ID = ascii ''0icqmood15'', mood_Cap = CapXStatusConsole\<rparr>,
     \<lparr>mood_ID = ascii ''0icqmood71'', mood_Cap = CapXStatusMobile\<rparr>,
     \<lparr>mood_ID = ascii ''0icqmood18'', mood_Cap = CapXStatusSleeping\<rparr>,
     \<lparr>mood_ID = ascii ''0icqmood68'', mood_Cap = CapXStatusRestroom\<rparr>,
     \<lparr>mood_ID = ascii ''0icqmood77'', mood_Cap = CapXStatusQuestion\<rparr>,
     \<lparr>mood_ID = ascii ''0icqmood83'', mood_Cap = CapMoodOnTheWay\<rparr>,
     \<lparr>mood_ID = ascii ''0icqmood61'', mood_Cap = CapMoodLove\<rparr>,
     \<lparr>mood_ID = ascii ''0icqmood76'', mood_Cap = CapXStatusInLove\<rparr>,
     \<lparr>mood_ID = ascii ''0icqmood85'', mood_Cap = CapXStatusSearch\<rparr>,
     \<lparr>mood_ID = ascii ''0icqmood84'', mood_Cap = CapXStatusWriting\<rparr>]"

text \<open>The first index takes the last mood of an ID, the second the first mood of a capability.\<close>

definition indexMoodsByID :: "Mood list \<Rightarrow> bytes \<Rightarrow> Mood option" where
  "indexMoodsByID ms = fold (\<lambda>m index. index(mood_ID m \<mapsto> m)) ms (\<lambda>_. None)"

definition indexMoodsByCap :: "Mood list \<Rightarrow> bytes \<Rightarrow> Mood option" where
  "indexMoodsByCap ms =
     fold (\<lambda>m index. if index (mood_Cap m) \<noteq> None then index else index(mood_Cap m \<mapsto> m)) ms (\<lambda>_. None)"

definition MoodByID :: "bytes \<Rightarrow> Mood option" where
  "MoodByID i = indexMoodsByID Moods i"

definition MoodByCap :: "bytes \<Rightarrow> Mood option" where
  "MoodByCap c = indexMoodsByCap Moods c"

definition IsMoodCap :: "bytes \<Rightarrow> bool" where
  "IsMoodCap c \<longleftrightarrow> MoodByCap c \<noteq> None"

text \<open>\<open>hex.EncodeToString\<close> and \<open>%04x\<close>, in lower case.\<close>

definition lower_hex :: "nat \<Rightarrow> u8" where
  "lower_hex n = word_of_nat (if n < 10 then 0x30 + n else 0x61 + (n - 10))"

definition hex_encode :: "bytes \<Rightarrow> bytes" where
  "hex_encode s = concat (map (\<lambda>b. [lower_hex (unat b div 16), lower_hex (unat b mod 16)]) s)"

definition MoodIconID :: "bytes \<Rightarrow> bytes" where
  "MoodIconID i = (if i = [] \<or> length i > 65535 then [] else hex_encode (put_uint BigEndian 2 (length i)) @ hex_encode i)"

section \<open>Xtraz messages\<close>

text \<open>\<open>html.EscapeString\<close>.\<close>

definition escape_html :: "u8 \<Rightarrow> bytes" where
  "escape_html b =
     (if b = 0x26 then ascii ''&amp;'' else if b = 0x27 then ascii ''&#39;'' else if b = 0x3C then ascii ''&lt;''
      else if b = 0x3E then ascii ''&gt;'' else if b = 0x22 then ascii ''&#34;'' else [b])"

definition MangleXtrazXML :: "bytes \<Rightarrow> bytes" where
  "MangleXtrazXML plain = concat (map escape_html plain)"

definition BuildXtrazNotifyResponse :: "bytes \<Rightarrow> u8 \<Rightarrow> bytes \<Rightarrow> bytes \<Rightarrow> bytes" where
  "BuildXtrazNotifyResponse uin index title message = MangleXtrazXML (
     ascii ''<NR><RES><ret event='' @ [0x22] @ ascii ''OnRemoteNotification'' @ [0x22] @ ascii ''><srv><id></id>'' @
     ascii ''<val srv_id='' @ [0x22] @ ascii ''cAwaySrv'' @ [0x22] @
     ascii ''><Root><CASXtraSetAwayMessage></CASXtraSetAwayMessage>'' @
     ascii ''<uin>'' @ uin @ ascii ''</uin>'' @
     ascii ''<index>'' @ decimal_string (unat index) @ ascii ''</index>'' @
     ascii ''<title>'' @ MangleXtrazXML title @ ascii ''</title>'' @
     ascii ''<desc>'' @ MangleXtrazXML message @ ascii ''</desc>'' @
     ascii ''</Root></val></srv></ret></RES></NR>'')"

definition BuildXtrazNotifyRequest :: "bytes \<Rightarrow> bytes" where
  "BuildXtrazNotifyRequest senderUIN = MangleXtrazXML (
     ascii ''<N><QUERY><PluginID>srvMng</PluginID></QUERY>'' @
     ascii ''<NOTIFY><srv><id>cAwaySrv</id>'' @
     ascii ''<req><id>AwayStat</id><trans>1</trans>'' @
     ascii ''<senderId>'' @ senderUIN @ ascii ''</senderId></req></srv></NOTIFY></N>'')"

section \<open>Lemmas\<close>

lemma by_ID_fold:
  "fold (\<lambda>m index. index(mood_ID m \<mapsto> m)) ms f i =
     (case find (\<lambda>m. mood_ID m = i) (rev ms) of None \<Rightarrow> f i | Some m \<Rightarrow> Some m)"
  by (induction ms arbitrary: f) (auto simp: find_append split: option.split)

lemma by_Cap_fold:
  "fold (\<lambda>m index. if index (mood_Cap m) \<noteq> None then index else index(mood_Cap m \<mapsto> m)) ms f c =
     (case f c of None \<Rightarrow> find (\<lambda>m. mood_Cap m = c) ms | Some m \<Rightarrow> Some m)"
  by (induction ms arbitrary: f) (auto split: option.split)

lemma MoodByCap_eq: "MoodByCap c = find (\<lambda>m. mood_Cap m = c) Moods"
  using by_Cap_fold [of Moods "\<lambda>_. None" c] by (simp add: MoodByCap_def indexMoodsByCap_def)

lemma distinct_mood_IDs: "distinct (map mood_ID Moods)"
  by code_simp

lemma find_distinct:
  "distinct (map mood_ID ms) \<Longrightarrow> m \<in> set ms \<Longrightarrow> find (\<lambda>x. mood_ID x = mood_ID m) ms = Some m"
  by (induction ms) auto

lemma escape_html_inert: "set (escape_html b) \<inter> {0x22, 0x27, 0x3C, 0x3E} = {}"
  by (simp add: escape_html_def ascii_def)

lemma Mangle_inert: "set (MangleXtrazXML s) \<inter> {0x22, 0x27, 0x3C, 0x3E} = {}"
  using escape_html_inert by (auto simp: MangleXtrazXML_def)

lemma escape_html_prefix_free: "escape_html b @ x = escape_html c @ y \<longleftrightarrow> b = c \<and> x = y"
  by (simp add: escape_html_def ascii_def)

lemma escape_html_neq_Nil [simp]: "escape_html b \<noteq> []"
  by (simp add: escape_html_def ascii_def)

lemma Mangle_inj: "MangleXtrazXML s = MangleXtrazXML t \<longleftrightarrow> s = t"
proof (induction s arbitrary: t)
  case Nil
  then show ?case by (cases t) (simp_all add: MangleXtrazXML_def)
next
  case (Cons b s)
  then show ?case
    by (cases t) (simp_all add: MangleXtrazXML_def escape_html_prefix_free)
qed

section \<open>Properties\<close>

text \<open>
  Token and capability name the same moods: every mood in the table is found by its token, a
  capability is known exactly if some mood has it, and the mood found by a capability has that
  capability and is the first such in the table, its canonical name.
\<close>

theorem mood_lookup:
  "(\<forall>m \<in> set Moods. MoodByID (mood_ID m) = Some m) \<and>
   (IsMoodCap c \<longleftrightarrow> c \<in> mood_Cap ` set Moods) \<and>
   (MoodByCap c = Some m \<longrightarrow> (\<exists>before after. Moods = before @ m # after \<and> mood_Cap m = c \<and>
      c \<notin> mood_Cap ` set before \<and> MoodByID (mood_ID m) = Some m))"
proof -
  have id: "\<forall>m \<in> set Moods. MoodByID (mood_ID m) = Some m"
    using find_distinct [of "rev Moods"] distinct_mood_IDs
    by (simp add: MoodByID_def indexMoodsByID_def by_ID_fold rev_map [symmetric])
  have cap: "MoodByCap c = Some m \<Longrightarrow> \<exists>before after. Moods = before @ m # after \<and> mood_Cap m = c \<and> c \<notin> mood_Cap ` set before"
    for m
  proof -
    assume "MoodByCap c = Some m"
    then obtain i where i: "i < length Moods" "mood_Cap (Moods ! i) = c" "m = Moods ! i" "\<forall>j < i. mood_Cap (Moods ! j) \<noteq> c"
      by (auto simp: MoodByCap_eq find_Some_iff)
    have "Moods = take i Moods @ m # drop (Suc i) Moods" using i id_take_nth_drop by metis
    moreover have "c \<notin> mood_Cap ` set (take i Moods)" using i by (fastforce simp: in_set_conv_nth)
    ultimately show ?thesis using i by blast
  qed
  have "IsMoodCap c \<longleftrightarrow> c \<in> mood_Cap ` set Moods"
    by (auto simp: IsMoodCap_def MoodByCap_eq find_None_iff)
  with id cap show ?thesis by (metis in_set_conv_decomp)
qed

lemma mood_lookup_witness: "MoodByCap CapXStatusConsole = Some \<lparr>mood_ID = ascii ''0icqmood81'', mood_Cap = CapXStatusConsole\<rparr> \<and>
    MoodByID (ascii ''0icqmood15'') \<noteq> None"
proof -
  have "MoodByCap CapXStatusConsole = Some \<lparr>mood_ID = ascii ''0icqmood81'', mood_Cap = CapXStatusConsole\<rparr>"
    unfolding MoodByCap_eq by code_simp
  moreover have "\<lparr>mood_ID = ascii ''0icqmood15'', mood_Cap = CapXStatusConsole\<rparr> \<in> set Moods" by (simp add: Moods_def)
  ultimately show ?thesis using mood_lookup [of "[]"] by fastforce
qed

text \<open>
  Whatever title and text a user chose, the Xtraz messages contain no angle bracket and no quotation
  mark, so they cannot end the markup they are embedded in, and escaping loses nothing: different texts stay
  different.
\<close>

theorem xtraz_inert:
  "set (BuildXtrazNotifyResponse uin index title message) \<inter> {0x22, 0x27, 0x3C, 0x3E} = {} \<and>
   set (BuildXtrazNotifyRequest uin) \<inter> {0x22, 0x27, 0x3C, 0x3E} = {} \<and>
   (MangleXtrazXML s = MangleXtrazXML t \<longleftrightarrow> s = t)"
  unfolding BuildXtrazNotifyResponse_def BuildXtrazNotifyRequest_def
  by (intro conjI Mangle_inert Mangle_inj)

end
