(* ===== verification/UserInfo.thy ===== *)
theory UserInfo
  imports MessageText Moods
begin

text \<open>
  What a session tells others about its user (\<open>state/session.go\<close>): the user info block that buddy
  arrivals, replies and messages carry, aggregated over the connections, and the plain data of sessions
  and connections it is made from.
\<close>

unbundle bit_operations_syntax

section \<open>The data of a session\<close>

definition SetDisplayScreenName :: "bytes \<Rightarrow> 'm Session \<Rightarrow> 'm Session" where
  "SetDisplayScreenName sn s = s\<lparr>displayScreenName := sn\<rparr>"
definition SetIdentScreenName :: "IdentScreenName \<Rightarrow> 'm Session \<Rightarrow> 'm Session" where
  "SetIdentScreenName sn s = s\<lparr>identScreenName := sn\<rparr>"
definition SetUIN :: "u32 \<Rightarrow> 'm Session \<Rightarrow> 'm Session" where
  "SetUIN n s = s\<lparr>sess_uin := n\<rparr>"
definition SetWarning :: "u16 \<Rightarrow> 'm Session \<Rightarrow> 'm Session" where
  "SetWarning w s = s\<lparr>warning := w\<rparr>"
definition SetBuddyIcon :: "BARTID \<Rightarrow> 'm Session \<Rightarrow> 'm Session" where
  "SetBuddyIcon icon s = s\<lparr>buddyIcon := icon\<rparr>"
definition SetStatus :: "BARTID \<Rightarrow> 'm Session \<Rightarrow> 'm Session" where
  "SetStatus st s = s\<lparr>sess_status := st\<rparr>"
definition SetMemberSince :: "int option \<Rightarrow> 'm Session \<Rightarrow> 'm Session" where
  "SetMemberSince t s = s\<lparr>memberSince := t\<rparr>"
definition sess_SetOfflineMsgCount :: "int \<Rightarrow> 'm Session \<Rightarrow> 'm Session" where
  "sess_SetOfflineMsgCount n s = s\<lparr>offlineMsgCount := n\<rparr>"
definition SetSignonTime :: "int option \<Rightarrow> 'm Session \<Rightarrow> 'm Session" where
  "SetSignonTime t s = s\<lparr>signonTime := t\<rparr>"
definition SetTypingEventsEnabled :: "bool \<Rightarrow> 'm Session \<Rightarrow> 'm Session" where
  "SetTypingEventsEnabled b s = s\<lparr>typingEventsEnabled := b\<rparr>"
definition SetUsesFeedbag :: "'m Session \<Rightarrow> 'm Session" where
  "SetUsesFeedbag s = s\<lparr>usesFeedbag := True\<rparr>"

definition sess_BuddyIcon :: "'m Session \<Rightarrow> BARTID \<times> bool" where
  "sess_BuddyIcon s = (buddyIcon s, bart_Type (buddyIcon s) \<noteq> 0)"
definition sess_Status :: "'m Session \<Rightarrow> BARTID \<times> bool" where
  "sess_Status s = (sess_status s, bart_Type (sess_status s) = BARTTypesStatusStr)"

section \<open>The data of a connection\<close>

definition SetClientID :: "bytes \<Rightarrow> 'm SessionInstance \<Rightarrow> 'm SessionInstance" where
  "SetClientID c i = i\<lparr>inst_clientID := c\<rparr>"
definition SetTOC2 :: "bool \<Rightarrow> 'm SessionInstance \<Rightarrow> 'm SessionInstance" where
  "SetTOC2 enc i = i\<lparr>toc2 := True, toc2MsgEnc := enc\<rparr>"
definition SetContactsInit :: "'m SessionInstance \<Rightarrow> 'm SessionInstance" where
  "SetContactsInit i = i\<lparr>contactsInit := True\<rparr>"
definition SetFoodGroupVersions :: "u16 list \<Rightarrow> 'm SessionInstance \<Rightarrow> 'm SessionInstance" where
  "SetFoodGroupVersions vs i = i\<lparr>foodGroupVersions := vs\<rparr>"
definition SetKerberosAuth :: "bool \<Rightarrow> 'm SessionInstance \<Rightarrow> 'm SessionInstance" where
  "SetKerberosAuth b i = i\<lparr>kerberosAuth := b\<rparr>"
definition SetMultiConnFlag :: "u8 \<Rightarrow> 'm SessionInstance \<Rightarrow> 'm SessionInstance" where
  "SetMultiConnFlag f i = i\<lparr>inst_multiConnFlag := f\<rparr>"
definition inst_SetProfile :: "UserProfile \<Rightarrow> 'm SessionInstance \<Rightarrow> 'm SessionInstance" where
  "inst_SetProfile p i = i\<lparr>inst_profile := p\<rparr>"
definition SetRemoteAddr :: "bytes option \<Rightarrow> 'm SessionInstance \<Rightarrow> 'm SessionInstance" where
  "SetRemoteAddr a i = i\<lparr>remoteAddr := a\<rparr>"
definition SetICQDCInfo :: "ICQDCInfo \<Rightarrow> 'm SessionInstance \<Rightarrow> 'm SessionInstance" where
  "SetICQDCInfo d i = i\<lparr>icqDCInfo := d\<rparr>"

lemma data_methods_keep_lifecycle [simp, intro]:
  "keeps_lifecycle (SetClientID c)" "keeps_lifecycle (SetTOC2 b)" "keeps_lifecycle SetContactsInit"
  "keeps_lifecycle (SetFoodGroupVersions vs)" "keeps_lifecycle (SetKerberosAuth b)"
  "keeps_lifecycle (SetMultiConnFlag f)" "keeps_lifecycle (inst_SetProfile p)"
  "keeps_lifecycle (SetRemoteAddr a)" "keeps_lifecycle (SetICQDCInfo d)"
  by (simp_all add: keeps_lifecycle_def SetClientID_def SetTOC2_def SetContactsInit_def SetFoodGroupVersions_def
      SetKerberosAuth_def SetMultiConnFlag_def inst_SetProfile_def SetRemoteAddr_def SetICQDCInfo_def)

text \<open>The mood a connection shows: the first of its capabilities that is one; the zero UUID if none is.\<close>

definition inst_Mood :: "'m SessionInstance \<Rightarrow> bytes" where
  "inst_Mood i = (case find IsMoodCap (capabilities i) of Some c \<Rightarrow> c | None \<Rightarrow> replicate 16 0)"

section \<open>Aggregates\<close>

text \<open>The zero time, \<open>None\<close>, is the year 1.\<close>

definition unix_of :: "int option \<Rightarrow> int" where
  "unix_of t = (case t of None \<Rightarrow> - 62135596800 | Some n \<Rightarrow> Unix n)"

text \<open>
  \<open>mostRecentIdleTime\<close> starts from the zero time. It is used only when every connection is idle, so
  every \<open>idleTime\<close> it meets has been set.
\<close>

fun most_recent_idle :: "'m SessionInstance list \<Rightarrow> int option \<Rightarrow> int option" where
  "most_recent_idle [] r = r"
| "most_recent_idle (i # is) r =
     most_recent_idle is
       (case r of None \<Rightarrow> Some (idleTime i)
        | Some t \<Rightarrow> if idle i \<and> idleTime i > t then Some (idleTime i) else Some t)"

definition mostRecentIdleTime :: "'m Session \<Rightarrow> int option" where
  "mostRecentIdleTime s = most_recent_idle (Instances s) None"

definition IdleTime :: "'m Session \<Rightarrow> int option" where
  "IdleTime s = (if \<not> Idle s then None else mostRecentIdleTime s)"

definition time_after :: "int option \<Rightarrow> int option \<Rightarrow> bool" where
  "time_after t u = (case (t, u) of (Some x, Some y) \<Rightarrow> x > y | (Some _, None) \<Rightarrow> True | (None, _) \<Rightarrow> False)"

fun latest_profile :: "UserProfile list \<Rightarrow> UserProfile \<Rightarrow> UserProfile" where
  "latest_profile [] r = r"
| "latest_profile (p # ps) r =
     latest_profile ps
       (if UserProfile_IsEmpty p then r
        else if UserProfile_IsEmpty r \<or> time_after (UpdateTime p) (UpdateTime r) then p else r)"

definition sess_Profile :: "'m Session \<Rightarrow> UserProfile" where
  "sess_Profile s =
     latest_profile (map inst_profile (Instances s)) \<lparr>ProfileText = [], MIMEType = [], UpdateTime = None\<rparr>"

section \<open>The user info block\<close>

definition OServiceUserInfoSignonTOD :: u16 where "OServiceUserInfoSignonTOD = 0x03"
definition OServiceUserInfoIdleTime :: u16 where "OServiceUserInfoIdleTime = 0x04"
definition OServiceUserInfoICQDC :: u16 where "OServiceUserInfoICQDC = 0x0C"
definition OServiceUserInfoOscarCaps :: u16 where "OServiceUserInfoOscarCaps = 0x0D"
definition OServiceUserInfoBARTInfo :: u16 where "OServiceUserInfoBARTInfo = 0x1D"
definition OServiceUserInfoMySubscriptions :: u16 where "OServiceUserInfoMySubscriptions = 0x1E"
definition OServiceUserFlagICQ :: u16 where "OServiceUserFlagICQ = 0x0040"

lemmas user_info_tags = OServiceUserInfoSignonTOD_def OServiceUserInfoIdleTime_def OServiceUserInfoICQDC_def
  OServiceUserInfoOscarCaps_def OServiceUserInfoBARTInfo_def OServiceUserInfoMySubscriptions_def
  OServiceUserInfoUserFlags_def OServiceUserInfoStatus_def

record TLVUserInfo =
  ui_ScreenName :: bytes
  ui_WarningLevel :: u16
  ui_TLVList :: TLVList

definition TLVUserInfo_val :: "TLVUserInfo \<Rightarrow> val" where
  "TLVUserInfo_val u = VStruct [VString (ui_ScreenName u), VU16 (ui_WarningLevel u), VStruct [tlvs_val (ui_TLVList u)]]"

definition BARTID_val :: "BARTID \<Rightarrow> val" where
  "BARTID_val b = VStruct [VU16 (bart_Type b), VStruct [VU8 (bart_Flags b), vbytes (bart_Hash b)]]"

definition ICQDCInfo_val :: "ICQDCInfo \<Rightarrow> val" where
  "ICQDCInfo_val d = VStruct [VU32 (dc_IP d), VU32 (dc_Port d), VU8 (dc_DCType d), VU16 (dc_ProtoVersion d),
     VU32 (dc_AuthCookie d), VU32 (dc_WebPort d), VU32 (dc_ClientFutures d), VU32 (dc_LastUpdateTime d),
     VU32 (dc_LastExtInfoUpdateTime d), VU32 (dc_LastExtStatusUpdateTime d), VU16 (dc_Unknown d)]"

text \<open>The flags of the first connection, with the away flag set exactly if the session is away.\<close>

definition baseUserFlags :: "'m Session \<Rightarrow> u16" where
  "baseUserFlags s =
     (let base = (case Instances s of [] \<Rightarrow> 0 | i # _ \<Rightarrow> userInfoBitmask i)
      in if Away s then base OR OServiceUserFlagUnavailable else base AND NOT OServiceUserFlagUnavailable)"

definition statusBitmask :: "'m Session \<Rightarrow> u32" where
  "statusBitmask s =
     (case Instances s of [] \<Rightarrow> 0
      | i # is \<Rightarrow> fold (\<lambda>j m. m AND userStatusBitmask j) (i # is) (userStatusBitmask i))"

text \<open>
  \<open>uint16(d.Minutes())\<close> drops the fraction; longer than 65535 minutes it keeps the low 16 bits, as the
  conversion does on the common platforms.
\<close>

definition idle_minutes :: "int \<Rightarrow> int \<Rightarrow> u16" where
  "idle_minutes now t = word_of_int (time_sub now t sdiv (60 * 10 ^ 9))"

definition bart_ids :: "'m Session \<Rightarrow> BARTID list" where
  "bart_ids s = (if snd (sess_BuddyIcon s) then [buddyIcon s] else []) @ (if snd (sess_Status s) then [sess_status s] else [])"

definition userInfo :: "int \<Rightarrow> 'm Session \<Rightarrow> TLVList outcome" where
  "userInfo now s = collect_out
     ([NewTLVBE OServiceUserInfoSignonTOD (TU32, VU32 (word_of_int (unix_of (signonTime s)))),
       NewTLVBE OServiceUserInfoUserFlags (TU16, VU16 (baseUserFlags s)),
       NewTLVBE OServiceUserInfoStatus (TU32, VU32 (statusBitmask s))] @
      (if Idle s then [NewTLVBE OServiceUserInfoIdleTime
         (TU16, VU16 (idle_minutes now (case mostRecentIdleTime s of Some t \<Rightarrow> t | None \<Rightarrow> 0)))] else []) @
      (if bart_ids s \<noteq> [] then [NewTLVBE OServiceUserInfoBARTInfo
         (TSlice BARTID_ty, VList (map BARTID_val (bart_ids s)))] else []) @
      (if baseUserFlags s AND OServiceUserFlagICQ = OServiceUserFlagICQ then
         (case Instances s of [] \<Rightarrow> []
          | i # _ \<Rightarrow> [NewTLVBE OServiceUserInfoICQDC (ICQDCInfo_ty, ICQDCInfo_val (icqDCInfo i))]) else []) @
      (if Caps s \<noteq> [] then [NewTLVBE OServiceUserInfoOscarCaps
         (TSlice (TArray 16 TU8), VList (map vbytes (Caps s)))] else []) @
      [NewTLVBE OServiceUserInfoMySubscriptions (TU32, VU32 0)])"

definition sess_TLVUserInfo :: "int \<Rightarrow> 'm Session \<Rightarrow> TLVUserInfo outcome" where
  "sess_TLVUserInfo now s = bind_out (userInfo now s) (\<lambda>l.
     Ok \<lparr>ui_ScreenName = displayScreenName s, ui_WarningLevel = warning s, ui_TLVList = l\<rparr>)"

section \<open>Lemmas\<close>

lemma collect_out_append [simp]:
  "collect_out (xs @ ys) = bind_out (collect_out xs) (\<lambda>as. bind_out (collect_out ys) (\<lambda>bs. Ok (as @ bs)))"
proof (induction xs)
  case (Cons x xs)
  then show ?case by (cases x; cases "collect_out xs"; cases "collect_out ys") auto
qed (cases "collect_out ys"; simp)

lemma NewTLVBE_Tag: "NewTLVBE t x = Ok v \<Longrightarrow> Tag v = t"
  by (auto simp: NewTLVBE_def newTLV_def split: if_splits prod.splits outcome.splits)

lemma collect_one [simp]: "collect_out [x] = bind_out x (\<lambda>a. Ok [a])"
  by (cases x) simp_all

definition has_bits :: "u32 \<Rightarrow> u32 \<Rightarrow> bool" where "has_bits b x \<longleftrightarrow> x AND b = b"

lemma has_bits_and: "has_bits b (x AND y) \<longleftrightarrow> has_bits b x \<and> has_bits b y"
  unfolding has_bits_def by (auto intro!: bit_eqI simp: bit_eq_iff bit_and_iff)

lemma fold_status: "has_bits b (fold (\<lambda>j m. m AND userStatusBitmask j) is x) \<longleftrightarrow>
   has_bits b x \<and> list_all (\<lambda>j. has_bits b (userStatusBitmask j)) is"
  by (induction "is" arbitrary: x) (auto simp: has_bits_and)

lemma statusBitmask_bits: "b \<noteq> 0 \<Longrightarrow> statusBitmask s AND b = b \<longleftrightarrow>
   Instances s \<noteq> [] \<and> list_all (\<lambda>j. userStatusBitmask j AND b = b) (Instances s)"
  using fold_status [of b "tl (Instances s)" "userStatusBitmask (hd (Instances s)) AND userStatusBitmask (hd (Instances s))"]
  by (cases "Instances s") (simp_all add: statusBitmask_def has_bits_def)

lemma baseUserFlags_away: "baseUserFlags s AND OServiceUserFlagUnavailable = OServiceUserFlagUnavailable \<longleftrightarrow> Away s"
proof -
  have "\<not> (x AND NOT OServiceUserFlagUnavailable) AND OServiceUserFlagUnavailable = OServiceUserFlagUnavailable" for x
    by (simp add: and.assoc OServiceUserFlagUnavailable_def)
  moreover have "(x OR OServiceUserFlagUnavailable) AND OServiceUserFlagUnavailable = OServiceUserFlagUnavailable" for x
    by (simp add: bit.conj_disj_distrib2)
  ultimately show ?thesis by (simp add: baseUserFlags_def Let_def)
qed


lemma collect_opt:
  assumes "collect_out (if b then [NewTLVBE t x] else []) = Ok l"
  shows "\<exists>v. l = (if b then [\<lparr>Tag = t, Value = v\<rparr>] else [])"
  using assms by (auto simp: bind_out_Ok_iff dest!: NewTLVBE_Tag split: if_splits intro!: exI [of _ "Value (hd l)"])

lemma userInfo_shape:
  assumes "userInfo now s = Ok l"
  obtains x rest where "l = [\<lparr>Tag = OServiceUserInfoSignonTOD, Value = put_uint BigEndian 4 (unat (word_of_int (unix_of (signonTime s)) :: u32))\<rparr>,
     \<lparr>Tag = OServiceUserInfoUserFlags, Value = put_uint BigEndian 2 (unat (baseUserFlags s))\<rparr>,
     \<lparr>Tag = OServiceUserInfoStatus, Value = put_uint BigEndian 4 (unat (statusBitmask s))\<rparr>] @
     (if Idle s then [\<lparr>Tag = OServiceUserInfoIdleTime, Value = x\<rparr>] else []) @ rest"
   "OServiceUserInfoIdleTime \<notin> Tag ` set rest"
proof -
  define dc where "dc = (if baseUserFlags s AND OServiceUserFlagICQ = OServiceUserFlagICQ then
         (case Instances s of [] \<Rightarrow> []
          | i # _ \<Rightarrow> [NewTLVBE OServiceUserInfoICQDC (ICQDCInfo_ty, ICQDCInfo_val (icqDCInfo i))]) else [])"
  define i where "i = (if Idle s then [NewTLVBE OServiceUserInfoIdleTime
         (TU16, VU16 (idle_minutes now (case mostRecentIdleTime s of Some t \<Rightarrow> t | None \<Rightarrow> 0)))] else [])"
  define b where "b = (if bart_ids s \<noteq> [] then [NewTLVBE OServiceUserInfoBARTInfo
         (TSlice BARTID_ty, VList (map BARTID_val (bart_ids s)))] else [])"
  define c where "c = (if Caps s \<noteq> [] then [NewTLVBE OServiceUserInfoOscarCaps
         (TSlice (TArray 16 TU8), VList (map vbytes (Caps s)))] else [])"
  obtain l1 l2 l3 l4 where l: "collect_out i = Ok l1" "collect_out b = Ok l2" "collect_out dc = Ok l3" "collect_out c = Ok l4"
    and eq: "l = [\<lparr>Tag = OServiceUserInfoSignonTOD, Value = put_uint BigEndian 4 (unat (word_of_int (unix_of (signonTime s)) :: u32))\<rparr>,
     \<lparr>Tag = OServiceUserInfoUserFlags, Value = put_uint BigEndian 2 (unat (baseUserFlags s))\<rparr>,
     \<lparr>Tag = OServiceUserInfoStatus, Value = put_uint BigEndian 4 (unat (statusBitmask s))\<rparr>] @ l1 @ l2 @ l3 @ l4 @
     [\<lparr>Tag = OServiceUserInfoMySubscriptions, Value = put_uint BigEndian 4 0\<rparr>]"
    using assms unfolding userInfo_def i_def [symmetric] b_def [symmetric] c_def [symmetric] dc_def [symmetric]
    by (auto simp: bind_out_Ok_iff NewTLVBE_u32 NewTLVBE_u16)
  have 3: "l3 = [] \<or> (\<exists>v. l3 = [v] \<and> Tag v = OServiceUserInfoICQDC)"
    using l(3) by (auto simp: dc_def bind_out_Ok_iff dest: NewTLVBE_Tag split: if_splits list.splits)
  obtain v1 v2 v4 where t: "l1 = (if Idle s then [\<lparr>Tag = OServiceUserInfoIdleTime, Value = v1\<rparr>] else [])"
      "l2 = (if bart_ids s \<noteq> [] then [\<lparr>Tag = OServiceUserInfoBARTInfo, Value = v2\<rparr>] else [])"
      "l4 = (if Caps s \<noteq> [] then [\<lparr>Tag = OServiceUserInfoOscarCaps, Value = v4\<rparr>] else [])"
    using collect_opt [OF l(1) [unfolded i_def]] collect_opt [OF l(2) [unfolded b_def]]
      collect_opt [OF l(4) [unfolded c_def]] by blast
  show ?thesis
    by (rule that [of v1 "l2 @ l3 @ l4 @ [\<lparr>Tag = OServiceUserInfoMySubscriptions, Value = put_uint BigEndian 4 0\<rparr>]"])
      (use eq t 3 in \<open>auto simp: user_info_tags\<close>)
qed

lemma marshal_BARTIDs: "\<exists>b. marshalStructs BigEndian BARTID_ty (map BARTID_val ids) = (b, Ok ())"
proof (induction ids)
  case (Cons x xs)
  have "\<exists>b. marshalStruct BigEndian emptyTag BARTID_ty (BARTID_val x) = (b, Ok ())"
    by (simp add: BARTID_ty_def BARTInfo_ty_def BARTID_val_def marshalStruct.simps marshalEachField.simps marshal.simps
        marshalKind.simps tag_eval emptyTag_def binaryWrite_def wput_def wbuffered_def marshalSliceBuf_eq wok_def wseq_def
        vbytes_def struct_order_def marshalUnsignedInt_def)
  with Cons show ?case by (auto simp: marshalStructs.simps wseq_def)
qed (simp add: marshalStructs.simps wok_def)

lemma NewTLVBE_total:
  "\<exists>v. NewTLVBE t (TSlice BARTID_ty, VList (map BARTID_val ids)) = Ok v"
  "\<exists>v. NewTLVBE t (ICQDCInfo_ty, ICQDCInfo_val d) = Ok v"
  "\<exists>v. NewTLVBE t (TSlice (TArray 16 TU8), VList (map vbytes cs)) = Ok v"
  using marshal_BARTIDs [of ids]
  by (auto simp: NewTLVBE_def newTLV_def MarshalBE_def marshal.simps marshalKind.simps tag_eval wbuffered_def wput_def
      marshalSliceBuf_eq wok_def wseq_def binaryWrite_def ICQDCInfo_ty_def ICQDCInfo_val_def marshalStruct.simps
      marshalEachField.simps struct_order_def BARTID_ty_def)

lemma userInfo_total: "\<exists>l. userInfo now s = Ok l"
  using NewTLVBE_total(1) [of OServiceUserInfoBARTInfo "bart_ids s"] NewTLVBE_total(2) [of OServiceUserInfoICQDC "icqDCInfo (hd (Instances s))"]
    NewTLVBE_total(3) [of OServiceUserInfoOscarCaps "Caps s"]
  by (cases "Instances s") (auto simp: userInfo_def NewTLVBE_u32 NewTLVBE_u16)

section \<open>Properties\<close>

text \<open>
  C34: The user info block of a session can always be written, and the away and invisible flags that
  others read from it, and its idle time, are the session's aggregated presence: away or idle only if
  every connection is, invisible only if there is one and all are invisible.
\<close>

theorem user_info_presence:
  "\<exists>l. userInfo now s = Ok l \<and> IsAway l = Ok (Away s) \<and>
    IsInvisible l = Ok (Instances s \<noteq> [] \<and> list_all inst_Invisible (Instances s)) \<and>
    (TLVList_HasTag OServiceUserInfoIdleTime l \<longleftrightarrow> Idle s)"
proof -
  obtain l where ok: "userInfo now s = Ok l" using userInfo_total by blast
  then obtain x rest where l: "l = [\<lparr>Tag = OServiceUserInfoSignonTOD, Value = put_uint BigEndian 4 (unat (word_of_int (unix_of (signonTime s)) :: u32))\<rparr>,
     \<lparr>Tag = OServiceUserInfoUserFlags, Value = put_uint BigEndian 2 (unat (baseUserFlags s))\<rparr>,
     \<lparr>Tag = OServiceUserInfoStatus, Value = put_uint BigEndian 4 (unat (statusBitmask s))\<rparr>] @
     (if Idle s then [\<lparr>Tag = OServiceUserInfoIdleTime, Value = x\<rparr>] else []) @ rest"
   and rest: "OServiceUserInfoIdleTime \<notin> Tag ` set rest"
    by (rule userInfo_shape)
  have "IsAway l = Ok (Away s)"
    using baseUserFlags_away [of s] by (simp add: IsAway_def l user_info_tags with_true_def)
  moreover have "OServiceUserStatusInvisible \<noteq> 0" by (simp add: OServiceUserStatusInvisible_def)
  then have "IsInvisible l = Ok (Instances s \<noteq> [] \<and> list_all inst_Invisible (Instances s))"
    using statusBitmask_bits [of OServiceUserStatusInvisible s]
    by (simp add: IsInvisible_def l user_info_tags with_true_def inst_Invisible_def [abs_def])
  moreover have "TLVList_HasTag OServiceUserInfoIdleTime l \<longleftrightarrow> Idle s"
    using rest by (auto simp: l HasTag_iff_set user_info_tags image_iff)
  ultimately show ?thesis using ok by blast
qed
end
