(* ===== verification/Relationships.thy ===== *)
theory Relationships
  imports Feedbag Values
begin

text \<open>
  Buddy lists and privacy in the user store (\<open>state/user_store.go\<close>, \<open>state/relationship.go\<close>): the tables
  of server-side and client-side lists, the statements that change them, and the query that says how two
  users stand to each other. A table is the list of its rows; a statement is what SQL defines it to do
  to them. The order of rows is that of insertion, which SQL leaves open.
\<close>

section \<open>The tables\<close>

record FeedbagRow =
  fr_screenName :: bytes
  fr_groupID :: u16
  fr_itemID :: u16
  fr_classID :: u16
  fr_name :: bytes
  fr_attributes :: bytes
  fr_pdMode :: u8
  fr_authPending :: bool
  fr_lastModified :: int

record ModeRow =
  mr_screenName :: bytes
  mr_clientSidePDMode :: u8
  mr_useFeedbag :: bool

record ClientRow =
  cr_me :: bytes
  cr_them :: bytes
  cr_isBuddy :: bool
  cr_isPermit :: bool
  cr_isDeny :: bool

record BuddyTables =
  feedbag_rows :: "FeedbagRow list"
  mode_rows :: "ModeRow list"
  client_rows :: "ClientRow list"

datatype store_error =
    StoreMarshal err
  | StoreUnmarshal err
  | IOFailure
  | ErrNoUser
  | ErrDupUser
  | UINWithoutICQ
  | StoreUser user_error
  | NoIconPayload
  | ErrOfflineInboxFull
  | ErrBARTItemExists
  | ErrBARTItemNotFound
  | ErrChatRoomNotFound
  | ErrDupChatRoom
  | ErrNoEmailAddress
  | ErrKeywordCategoryExists
  | ErrKeywordCategoryNotFound
  | ErrKeywordExists
  | ErrKeywordInUse
  | ErrKeywordNotFound
  | ErrTooManyCategories
  | ErrTooManyKeywords
  | ErrICQSearchEmptyCriteria
  | SyntaxError

text \<open>\<open>INSERT ... ON CONFLICT DO UPDATE\<close>: \<open>hit\<close> says which row conflicts.\<close>

definition upsert :: "('r \<Rightarrow> bool) \<Rightarrow> 'r \<Rightarrow> ('r \<Rightarrow> 'r) \<Rightarrow> 'r list \<Rightarrow> 'r list" where
  "upsert hit new f rs = (if list_ex hit rs then map (\<lambda>r. if hit r then f r else r) rs else rs @ [new])"

definition update_where :: "('r \<Rightarrow> bool) \<Rightarrow> ('r \<Rightarrow> 'r) \<Rightarrow> 'r list \<Rightarrow> 'r list" where
  "update_where hit f rs = map (\<lambda>r. if hit r then f r else r) rs"

definition delete_where :: "('r \<Rightarrow> bool) \<Rightarrow> 'r list \<Rightarrow> 'r list" where
  "delete_where hit rs = filter (\<lambda>r. \<not> hit r) rs"

section \<open>Server-side lists\<close>

definition FeedbagAttributesPending :: u16 where "FeedbagAttributesPending = 0x0066"
definition FeedbagPDModePermitAll :: u8 where "FeedbagPDModePermitAll = 1"
definition FeedbagPDModeDenyAll :: u8 where "FeedbagPDModeDenyAll = 2"
definition FeedbagPDModePermitSome :: u8 where "FeedbagPDModePermitSome = 3"
definition FeedbagPDModeDenySome :: u8 where "FeedbagPDModeDenySome = 4"
definition FeedbagPDModePermitOnList :: u8 where "FeedbagPDModePermitOnList = 5"

lemmas pd_modes = FeedbagPDModePermitAll_def FeedbagPDModeDenyAll_def FeedbagPDModePermitSome_def
  FeedbagPDModeDenySome_def FeedbagPDModePermitOnList_def

definition row_item :: "FeedbagRow \<Rightarrow> (store_error + FeedbagItem) outcome" where
  "row_item r =
     (case fst (UnmarshalBE TLVLBlock_ty (fr_attributes r)) of
        Ok v \<Rightarrow> Ok (Inr \<lparr>Name = fr_name r, GroupID = fr_groupID r, ItemID = fr_itemID r, ClassID = fr_classID r,
                   Attrs = (case v of VStruct (l # _) \<Rightarrow> val_tlvs l | _ \<Rightarrow> [])\<rparr>)
      | Err e \<Rightarrow> Ok (Inl (StoreUnmarshal e))
      | Panic \<Rightarrow> Panic
      | Hang \<Rightarrow> Hang)"

fun row_items :: "FeedbagRow list \<Rightarrow> (store_error + FeedbagItem list) outcome" where
  "row_items [] = Ok (Inr [])"
| "row_items (r # rs) = bind_out (row_item r) (\<lambda>x.
     case x of
       Inl e \<Rightarrow> Ok (Inl e)
     | Inr i \<Rightarrow> bind_out (row_items rs) (\<lambda>y. Ok (case y of Inl e \<Rightarrow> Inl e | Inr is \<Rightarrow> Inr (i # is))))"

definition store_Feedbag :: "IdentScreenName \<Rightarrow> 'z BuddyTables_scheme \<Rightarrow> (store_error + FeedbagItem list) outcome" where
  "store_Feedbag sn T = row_items (filter (\<lambda>r. fr_screenName r = screenName sn) (feedbag_rows T))"

text \<open>\<open>MAX\<close> of no rows is \<open>NULL\<close>, which is read as 0.\<close>

definition FeedbagLastModified :: "IdentScreenName \<Rightarrow> 'z BuddyTables_scheme \<Rightarrow> int" where
  "FeedbagLastModified sn T =
     (case map fr_lastModified (filter (\<lambda>r. fr_screenName r = screenName sn) (feedbag_rows T)) of
        [] \<Rightarrow> 0 | t # ts \<Rightarrow> fold max ts t)"

definition FeedbagDelete :: "IdentScreenName \<Rightarrow> FeedbagItem list \<Rightarrow> 'z BuddyTables_scheme \<Rightarrow> 'z BuddyTables_scheme" where
  "FeedbagDelete sn its T =
     T\<lparr>feedbag_rows := fold (\<lambda>i. delete_where (\<lambda>r. fr_screenName r = screenName sn \<and> fr_itemID r = ItemID i \<and>
        fr_groupID r = GroupID i)) its (feedbag_rows T)\<rparr>"

definition feedbag_row :: "unicode_tables \<Rightarrow> int \<Rightarrow> IdentScreenName \<Rightarrow> FeedbagItem \<Rightarrow> bytes \<Rightarrow> FeedbagRow" where
  "feedbag_row t now sn i attrs =
     \<lparr>fr_screenName = screenName sn, fr_groupID = GroupID i, fr_itemID = ItemID i, fr_classID = ClassID i,
      fr_name = (if ClassID i \<in> {FeedbagClassIdBuddy, FeedbagClassIDPermit, FeedbagClassIdAlInfo, FeedbagClassIDDeny}
        then screenName (NewIdentScreenName t (Name i)) else Name i),
      fr_attributes = attrs,
      fr_pdMode = (if ClassID i = FeedbagClassIdPdinfo
        then (case TLVList_Uint8 FeedbagAttributesPdMode (Attrs i) of
                (m, True) \<Rightarrow> m | (_, False) \<Rightarrow> FeedbagPDModePermitAll)
        else 0),
      fr_authPending = (ClassID i = FeedbagClassIdBuddy \<and> TLVList_HasTag FeedbagAttributesPending (Attrs i)),
      fr_lastModified = now\<rparr>"

fun FeedbagUpsert ::
    "unicode_tables \<Rightarrow> int \<Rightarrow> IdentScreenName \<Rightarrow> FeedbagItem list \<Rightarrow> 'z BuddyTables_scheme \<Rightarrow>
       ((store_error + unit) \<times> 'z BuddyTables_scheme) outcome" where
  "FeedbagUpsert t now sn [] T = Ok (Inr (), T)"
| "FeedbagUpsert t now sn (i # is) T =
     (case MarshalBE (Some (TLVLBlock_ty, VStruct [tlvs_val (Attrs i)])) of
        (buf, Ok _) \<Rightarrow>
          let row = feedbag_row t now sn i buf in
          FeedbagUpsert t now sn is (T\<lparr>feedbag_rows := upsert
            (\<lambda>r. fr_screenName r = screenName sn \<and> fr_groupID r = GroupID i \<and> fr_itemID r = ItemID i)
            row (\<lambda>_. row) (feedbag_rows T)\<rparr>)
      | (_, Err e) \<Rightarrow> Ok (Inl (StoreMarshal e), T)
      | (_, Panic) \<Rightarrow> Panic
      | (_, Hang) \<Rightarrow> Hang)"

section \<open>Which list counts, and client-side lists\<close>

definition ClearBuddyListRegistry :: "'z BuddyTables_scheme \<Rightarrow> 'z BuddyTables_scheme" where
  "ClearBuddyListRegistry T = T\<lparr>mode_rows := [], client_rows := []\<rparr>"

definition RegisterBuddyList :: "IdentScreenName \<Rightarrow> 'z BuddyTables_scheme \<Rightarrow> 'z BuddyTables_scheme" where
  "RegisterBuddyList sn T = T\<lparr>mode_rows := upsert (\<lambda>r. mr_screenName r = screenName sn)
     \<lparr>mr_screenName = screenName sn, mr_clientSidePDMode = FeedbagPDModePermitAll, mr_useFeedbag = False\<rparr>
     (\<lambda>r. r) (mode_rows T)\<rparr>"

definition UnregisterBuddyList :: "IdentScreenName \<Rightarrow> 'z BuddyTables_scheme \<Rightarrow> 'z BuddyTables_scheme" where
  "UnregisterBuddyList sn T = T\<lparr>mode_rows := delete_where (\<lambda>r. mr_screenName r = screenName sn) (mode_rows T),
     client_rows := delete_where (\<lambda>r. cr_me r = screenName sn) (client_rows T)\<rparr>"

definition UseFeedbag :: "IdentScreenName \<Rightarrow> 'z BuddyTables_scheme \<Rightarrow> 'z BuddyTables_scheme" where
  "UseFeedbag sn T = T\<lparr>mode_rows := upsert (\<lambda>r. mr_screenName r = screenName sn)
     \<lparr>mr_screenName = screenName sn, mr_clientSidePDMode = 0, mr_useFeedbag = True\<rparr>
     (\<lambda>r. r\<lparr>mr_clientSidePDMode := 0, mr_useFeedbag := True\<rparr>) (mode_rows T)\<rparr>"

definition isPDModeEqual :: "IdentScreenName \<Rightarrow> u8 \<Rightarrow> 'z BuddyTables_scheme \<Rightarrow> bool" where
  "isPDModeEqual me pdMode T \<longleftrightarrow>
     list_ex (\<lambda>r. mr_screenName r = screenName me \<and> mr_clientSidePDMode r = pdMode) (mode_rows T)"

definition setClientSidePDMode :: "IdentScreenName \<Rightarrow> u8 \<Rightarrow> 'z BuddyTables_scheme \<Rightarrow> 'z BuddyTables_scheme" where
  "setClientSidePDMode me pdMode T = T\<lparr>mode_rows := upsert (\<lambda>r. mr_screenName r = screenName me)
     \<lparr>mr_screenName = screenName me, mr_clientSidePDMode = pdMode, mr_useFeedbag = False\<rparr>
     (\<lambda>r. r\<lparr>mr_clientSidePDMode := pdMode\<rparr>) (mode_rows T)\<rparr>"

definition clearClientSidePDFlags :: "IdentScreenName \<Rightarrow> 'z BuddyTables_scheme \<Rightarrow> 'z BuddyTables_scheme" where
  "clearClientSidePDFlags me T = T\<lparr>client_rows := update_where (\<lambda>r. cr_me r = screenName me)
     (\<lambda>r. r\<lparr>cr_isDeny := False, cr_isPermit := False\<rparr>) (client_rows T)\<rparr>"

definition clearBlankClientSideBuddies :: "IdentScreenName \<Rightarrow> 'z BuddyTables_scheme \<Rightarrow> 'z BuddyTables_scheme" where
  "clearBlankClientSideBuddies me T = T\<lparr>client_rows := delete_where
     (\<lambda>r. \<not> cr_isBuddy r \<and> \<not> cr_isPermit r \<and> \<not> cr_isDeny r \<and> cr_me r = screenName me) (client_rows T)\<rparr>"

definition SetPDMode :: "IdentScreenName \<Rightarrow> u8 \<Rightarrow> 'z BuddyTables_scheme \<Rightarrow> 'z BuddyTables_scheme" where
  "SetPDMode me pdMode T =
     (if isPDModeEqual me pdMode T then T
      else clearBlankClientSideBuddies me (clearClientSidePDFlags me (setClientSidePDMode me pdMode T)))"

definition client_key :: "IdentScreenName \<Rightarrow> IdentScreenName \<Rightarrow> ClientRow \<Rightarrow> bool" where
  "client_key me them r \<longleftrightarrow> cr_me r = screenName me \<and> cr_them r = screenName them"

definition blank_row :: "IdentScreenName \<Rightarrow> IdentScreenName \<Rightarrow> ClientRow" where
  "blank_row me them = \<lparr>cr_me = screenName me, cr_them = screenName them, cr_isBuddy = False, cr_isPermit = False,
     cr_isDeny = False\<rparr>"

definition store_AddBuddy :: "IdentScreenName \<Rightarrow> IdentScreenName \<Rightarrow> 'z BuddyTables_scheme \<Rightarrow> 'z BuddyTables_scheme" where
  "store_AddBuddy me them T = T\<lparr>client_rows := upsert (client_key me them) ((blank_row me them)\<lparr>cr_isBuddy := True\<rparr>)
     (\<lambda>r. r\<lparr>cr_isBuddy := True\<rparr>) (client_rows T)\<rparr>"

definition RemoveBuddy :: "IdentScreenName \<Rightarrow> IdentScreenName \<Rightarrow> 'z BuddyTables_scheme \<Rightarrow> 'z BuddyTables_scheme" where
  "RemoveBuddy me them T = T\<lparr>client_rows := update_where (client_key me them)
     (\<lambda>r. r\<lparr>cr_isBuddy := False\<rparr>) (client_rows T)\<rparr>"

definition DenyBuddy :: "IdentScreenName \<Rightarrow> IdentScreenName \<Rightarrow> 'z BuddyTables_scheme \<Rightarrow> 'z BuddyTables_scheme" where
  "DenyBuddy me them T = T\<lparr>client_rows := upsert (client_key me them) ((blank_row me them)\<lparr>cr_isDeny := True\<rparr>)
     (\<lambda>r. r\<lparr>cr_isDeny := True\<rparr>) (client_rows T)\<rparr>"

definition RemoveDenyBuddy :: "IdentScreenName \<Rightarrow> IdentScreenName \<Rightarrow> 'z BuddyTables_scheme \<Rightarrow> 'z BuddyTables_scheme" where
  "RemoveDenyBuddy me them T = T\<lparr>client_rows := update_where (client_key me them)
     (\<lambda>r. r\<lparr>cr_isDeny := False\<rparr>) (client_rows T)\<rparr>"

definition PermitBuddy :: "IdentScreenName \<Rightarrow> IdentScreenName \<Rightarrow> 'z BuddyTables_scheme \<Rightarrow> 'z BuddyTables_scheme" where
  "PermitBuddy me them T = T\<lparr>client_rows := upsert (client_key me them) ((blank_row me them)\<lparr>cr_isPermit := True\<rparr>)
     (\<lambda>r. r\<lparr>cr_isPermit := True\<rparr>) (client_rows T)\<rparr>"

definition RemovePermitBuddy :: "IdentScreenName \<Rightarrow> IdentScreenName \<Rightarrow> 'z BuddyTables_scheme \<Rightarrow> 'z BuddyTables_scheme" where
  "RemovePermitBuddy me them T = T\<lparr>client_rows := update_where (client_key me them)
     (\<lambda>r. r\<lparr>cr_isPermit := False\<rparr>) (client_rows T)\<rparr>"

section \<open>The relationship query\<close>

text \<open>
  One row of \<open>theirBuddyLists\<close> or \<open>yourBuddyList\<close>. The flags of the two kinds of lists are combined by
  \<open>OR\<close>, with the \<open>NULL\<close> of a missing side and \<open>COALESCE(..., FALSE)\<close> behaving as false.
\<close>

record ListEntry =
  le_screenName :: bytes
  le_isBuddy :: bool
  le_isPermit :: bool
  le_isDeny :: bool

definition uses_feedbag :: "'z BuddyTables_scheme \<Rightarrow> bytes \<Rightarrow> bool" where
  "uses_feedbag T sn \<longleftrightarrow> list_ex (\<lambda>m. mr_screenName m = sn \<and> mr_useFeedbag m) (mode_rows T)"

text \<open>\<open>col\<close> is the column grouped by: the owner for lists that name you, the name for your own list.\<close>

definition feedbag_entries :: "(FeedbagRow \<Rightarrow> bytes) \<Rightarrow> FeedbagRow list \<Rightarrow> ListEntry list" where
  "feedbag_entries col rs = map (\<lambda>n. let g = filter (\<lambda>r. col r = n) rs in
     \<lparr>le_screenName = n,
      le_isBuddy = list_ex (\<lambda>r. fr_classID r = FeedbagClassIdBuddy \<and> \<not> fr_authPending r) g,
      le_isPermit = list_ex (\<lambda>r. fr_classID r = FeedbagClassIDPermit) g,
      le_isDeny = list_ex (\<lambda>r. fr_classID r = FeedbagClassIDDeny) g\<rparr>) (remdups (map col rs))"

definition client_entries :: "(ClientRow \<Rightarrow> bytes) \<Rightarrow> ClientRow list \<Rightarrow> ListEntry list" where
  "client_entries col rs = map (\<lambda>r. \<lparr>le_screenName = col r, le_isBuddy = cr_isBuddy r, le_isPermit = cr_isPermit r,
     le_isDeny = cr_isDeny r\<rparr>) rs"

definition entry_for :: "bytes \<Rightarrow> ListEntry list \<Rightarrow> ListEntry option" where
  "entry_for n es = find (\<lambda>e. le_screenName e = n) es"

definition has_flag :: "(ListEntry \<Rightarrow> bool) \<Rightarrow> bytes \<Rightarrow> ListEntry list \<Rightarrow> bool" where
  "has_flag f n es = (case entry_for n es of Some e \<Rightarrow> f e | None \<Rightarrow> False)"

text \<open>The full outer join of the two kinds of lists; the names on either side are unique.\<close>

definition join_entries :: "ListEntry list \<Rightarrow> ListEntry list \<Rightarrow> ListEntry list" where
  "join_entries fs cs = map (\<lambda>n. \<lparr>le_screenName = n,
      le_isBuddy = (has_flag le_isBuddy n cs \<or> has_flag le_isBuddy n fs),
      le_isPermit = (has_flag le_isPermit n cs \<or> has_flag le_isPermit n fs),
      le_isDeny = (has_flag le_isDeny n cs \<or> has_flag le_isDeny n fs)\<rparr>)
     (remdups (map le_screenName fs @ map le_screenName cs))"

definition in_filter :: "IdentScreenName list \<Rightarrow> bytes \<Rightarrow> bool" where
  "in_filter flt n \<longleftrightarrow> flt = [] \<or> n \<in> set (map screenName flt)"

definition list_classes :: "u16 list" where
  "list_classes = [FeedbagClassIdBuddy, FeedbagClassIDPermit, FeedbagClassIDDeny]"

definition theirBuddyLists :: "IdentScreenName \<Rightarrow> IdentScreenName list \<Rightarrow> 'z BuddyTables_scheme \<Rightarrow> ListEntry list" where
  "theirBuddyLists me flt T = join_entries
     (feedbag_entries fr_screenName (filter (\<lambda>r. fr_name r = screenName me \<and> in_filter flt (fr_screenName r) \<and>
        fr_classID r \<in> set list_classes \<and> uses_feedbag T (fr_screenName r)) (feedbag_rows T)))
     (client_entries cr_me (filter (\<lambda>r. cr_them r = screenName me \<and> in_filter flt (cr_me r)) (client_rows T)))"

definition yourBuddyList :: "IdentScreenName \<Rightarrow> IdentScreenName list \<Rightarrow> 'z BuddyTables_scheme \<Rightarrow> ListEntry list" where
  "yourBuddyList me flt T = join_entries
     (feedbag_entries fr_name (filter (\<lambda>r. fr_screenName r = screenName me \<and> in_filter flt (fr_name r) \<and>
        fr_classID r \<in> set list_classes \<and> uses_feedbag T (fr_screenName r)) (feedbag_rows T)))
     (client_entries cr_them (filter (\<lambda>r. cr_me r = screenName me \<and> in_filter flt (cr_them r)) (client_rows T)))"

text \<open>
  The rows of \<open>theirPrivacyPrefs\<close> and \<open>yourPrivacyPrefs\<close> for one user: one per mode row and matching
  privacy item, a mode row without item counting as permit-all.
\<close>

definition privacy_prefs :: "bytes \<Rightarrow> 'z BuddyTables_scheme \<Rightarrow> u8 list" where
  "privacy_prefs n T = concat (map (\<lambda>m.
     let ps = filter (\<lambda>r. fr_screenName r = n \<and> fr_classID r = FeedbagClassIdPdinfo) (feedbag_rows T) in
     if mr_useFeedbag m then (if ps = [] then [1] else map fr_pdMode ps)
     else (if ps = [] then [mr_clientSidePDMode m] else map (\<lambda>_. mr_clientSidePDMode m) ps))
     (filter (\<lambda>m. mr_screenName m = n) (mode_rows T)))"

definition blocks :: "u8 \<Rightarrow> bytes \<Rightarrow> ListEntry list \<Rightarrow> bool" where
  "blocks pdMode n es =
     (if pdMode = 1 then False
      else if pdMode = 2 then True
      else if pdMode = 3 then \<not> has_flag le_isPermit n es
      else if pdMode = 4 then has_flag le_isDeny n es
      else if pdMode = 5 then \<not> has_flag le_isBuddy n es
      else False)"

record Relationship =
  rel_User :: IdentScreenName
  BlocksYou :: bool
  YouBlock :: bool
  IsOnTheirList :: bool
  IsOnYourList :: bool

definition relationship_row ::
    "unicode_tables \<Rightarrow> ListEntry list \<Rightarrow> ListEntry list \<Rightarrow> bytes \<Rightarrow> u8 \<Rightarrow> u8 \<Rightarrow> Relationship" where
  "relationship_row t theirs yours n theirMode yourMode =
     \<lparr>rel_User = NewIdentScreenName t n, BlocksYou = blocks theirMode n theirs, YouBlock = blocks yourMode n yours,
      IsOnTheirList = has_flag le_isBuddy n theirs, IsOnYourList = has_flag le_isBuddy n yours\<rparr>"

definition AllRelationships ::
    "unicode_tables \<Rightarrow> IdentScreenName \<Rightarrow> IdentScreenName list \<Rightarrow> 'z BuddyTables_scheme \<Rightarrow> Relationship list" where
  "AllRelationships t me flt T =
     (let theirs = theirBuddyLists me flt T; yours = yourBuddyList me flt T in
      concat (map (\<lambda>n. concat (map (\<lambda>tm. map (\<lambda>ym. relationship_row t theirs yours n tm ym)
          (privacy_prefs (screenName me) T)) (privacy_prefs n T)))
        (remdups (map le_screenName theirs @ map le_screenName yours))))"

definition store_Relationship ::
    "unicode_tables \<Rightarrow> IdentScreenName \<Rightarrow> IdentScreenName \<Rightarrow> 'z BuddyTables_scheme \<Rightarrow> Relationship" where
  "store_Relationship t me them T =
     (case AllRelationships t me [them] T of
        [] \<Rightarrow> \<lparr>rel_User = them, BlocksYou = False, YouBlock = False, IsOnTheirList = False, IsOnYourList = False\<rparr>
      | r # _ \<Rightarrow> r)"

section \<open>What the query means\<close>

text \<open>
  The primary keys that the query relies on, which the schema enforces. \<open>tables_ok\<close> asks in addition that a user has one
  privacy item at most. Clients keep to that, the statements do not enforce it: \<open>FeedbagUpsert\<close> stores a second privacy item
  under another item ID. With two of them the unrestricted query has two rows for the user, which may disagree.
\<close>

definition list_keys_ok :: "'z BuddyTables_scheme \<Rightarrow> bool" where
  "list_keys_ok T \<longleftrightarrow> distinct (map mr_screenName (mode_rows T)) \<and> distinct (map (\<lambda>r. (cr_me r, cr_them r)) (client_rows T))"

definition tables_ok :: "'z BuddyTables_scheme \<Rightarrow> bool" where
  "tables_ok T \<longleftrightarrow> distinct (map mr_screenName (mode_rows T)) \<and>
     distinct (map (\<lambda>r. (cr_me r, cr_them r)) (client_rows T)) \<and>
     (\<forall>n. length (filter (\<lambda>r. fr_screenName r = n \<and> fr_classID r = FeedbagClassIdPdinfo) (feedbag_rows T)) \<le> 1)"

definition server_lists :: "'z BuddyTables_scheme \<Rightarrow> (FeedbagRow \<Rightarrow> bool) \<Rightarrow> bytes \<Rightarrow> bytes \<Rightarrow> bool" where
  "server_lists T P a b \<longleftrightarrow> uses_feedbag T a \<and>
     list_ex (\<lambda>r. fr_screenName r = a \<and> fr_name r = b \<and> fr_classID r \<in> set list_classes \<and> P r) (feedbag_rows T)"

definition client_lists :: "'z BuddyTables_scheme \<Rightarrow> (ClientRow \<Rightarrow> bool) \<Rightarrow> bytes \<Rightarrow> bytes \<Rightarrow> bool" where
  "client_lists T P a b \<longleftrightarrow> list_ex (\<lambda>r. cr_me r = a \<and> cr_them r = b \<and> P r) (client_rows T)"

definition has_buddy :: "'z BuddyTables_scheme \<Rightarrow> bytes \<Rightarrow> bytes \<Rightarrow> bool" where
  "has_buddy T a b \<longleftrightarrow> client_lists T cr_isBuddy a b \<or>
     server_lists T (\<lambda>r. fr_classID r = FeedbagClassIdBuddy \<and> \<not> fr_authPending r) a b"

definition permits :: "'z BuddyTables_scheme \<Rightarrow> bytes \<Rightarrow> bytes \<Rightarrow> bool" where
  "permits T a b \<longleftrightarrow> client_lists T cr_isPermit a b \<or> server_lists T (\<lambda>r. fr_classID r = FeedbagClassIDPermit) a b"

definition denies :: "'z BuddyTables_scheme \<Rightarrow> bytes \<Rightarrow> bytes \<Rightarrow> bool" where
  "denies T a b \<longleftrightarrow> client_lists T cr_isDeny a b \<or> server_lists T (\<lambda>r. fr_classID r = FeedbagClassIDDeny) a b"

definition mentions :: "'z BuddyTables_scheme \<Rightarrow> bytes \<Rightarrow> bytes \<Rightarrow> bool" where
  "mentions T a b \<longleftrightarrow> client_lists T (\<lambda>_. True) a b \<or> server_lists T (\<lambda>_. True) a b"

definition pd_mode :: "'z BuddyTables_scheme \<Rightarrow> bytes \<Rightarrow> u8 option" where
  "pd_mode T a =
     (case find (\<lambda>m. mr_screenName m = a) (mode_rows T) of
        None \<Rightarrow> None
      | Some m \<Rightarrow> Some (if \<not> mr_useFeedbag m then mr_clientSidePDMode m
          else case find (\<lambda>r. fr_screenName r = a \<and> fr_classID r = FeedbagClassIdPdinfo) (feedbag_rows T) of
            None \<Rightarrow> FeedbagPDModePermitAll | Some r \<Rightarrow> fr_pdMode r))"

definition shuts_out :: "'z BuddyTables_scheme \<Rightarrow> bytes \<Rightarrow> bytes \<Rightarrow> bool" where
  "shuts_out T a b \<longleftrightarrow>
     (case pd_mode T a of
        None \<Rightarrow> False
      | Some m \<Rightarrow>
          m = FeedbagPDModeDenyAll \<or> m = FeedbagPDModePermitSome \<and> \<not> permits T a b \<or>
          m = FeedbagPDModeDenySome \<and> denies T a b \<or> m = FeedbagPDModePermitOnList \<and> \<not> has_buddy T a b)"

section \<open>Lemmas\<close>

lemma find_map_name: "(\<And>n. le_screenName (g n) = n) \<Longrightarrow>
   find (\<lambda>e. le_screenName e = n) (map g ns) = (if n \<in> set ns then Some (g n) else None)"
  by (induction ns) auto

lemma has_flag_map:
  assumes "\<And>n. le_screenName (g n) = n"
  shows "has_flag f n (map g ns) \<longleftrightarrow> n \<in> set ns \<and> f (g n)"
  using find_map_name [of g, OF assms] by (simp add: has_flag_def entry_for_def)

lemma has_flag_absent: "n \<notin> le_screenName ` set es \<Longrightarrow> \<not> has_flag f n es"
  by (auto simp: has_flag_def entry_for_def find_None_iff split: option.split dest!: find_SomeD)

lemma has_flag_join [simp]:
  "has_flag le_isBuddy n (join_entries fs cs) \<longleftrightarrow> has_flag le_isBuddy n cs \<or> has_flag le_isBuddy n fs"
  "has_flag le_isPermit n (join_entries fs cs) \<longleftrightarrow> has_flag le_isPermit n cs \<or> has_flag le_isPermit n fs"
  "has_flag le_isDeny n (join_entries fs cs) \<longleftrightarrow> has_flag le_isDeny n cs \<or> has_flag le_isDeny n fs"
  unfolding join_entries_def
  by (subst has_flag_map; use has_flag_absent [of n fs] has_flag_absent [of n cs] in auto)+

lemma has_flag_feedbag [simp]:
  "has_flag le_isBuddy n (feedbag_entries col rs) \<longleftrightarrow>
     list_ex (\<lambda>r. col r = n \<and> fr_classID r = FeedbagClassIdBuddy \<and> \<not> fr_authPending r) rs"
  "has_flag le_isPermit n (feedbag_entries col rs) \<longleftrightarrow> list_ex (\<lambda>r. col r = n \<and> fr_classID r = FeedbagClassIDPermit) rs"
  "has_flag le_isDeny n (feedbag_entries col rs) \<longleftrightarrow> list_ex (\<lambda>r. col r = n \<and> fr_classID r = FeedbagClassIDDeny) rs"
  unfolding feedbag_entries_def by (subst has_flag_map; auto simp: Let_def list_ex_iff)+

lemma has_flag_rows:
  assumes "distinct (map col rs)" and "\<And>r. le_screenName (g r) = col r"
  shows "has_flag f n (map g rs) \<longleftrightarrow> list_ex (\<lambda>r. col r = n \<and> f (g r)) rs"
  using assms(1)
proof (induction rs)
  case (Cons r rs)
  then show ?case
    by (cases "col r = n") (auto simp: has_flag_def entry_for_def assms(2) list_ex_iff image_iff)
qed (simp add: has_flag_def entry_for_def)

lemma has_flag_client:
  assumes "distinct (map col rs)"
  shows "has_flag le_isBuddy n (client_entries col rs) \<longleftrightarrow> list_ex (\<lambda>r. col r = n \<and> cr_isBuddy r) rs"
    and "has_flag le_isPermit n (client_entries col rs) \<longleftrightarrow> list_ex (\<lambda>r. col r = n \<and> cr_isPermit r) rs"
    and "has_flag le_isDeny n (client_entries col rs) \<longleftrightarrow> list_ex (\<lambda>r. col r = n \<and> cr_isDeny r) rs"
  unfolding client_entries_def by (subst has_flag_rows [OF assms]; simp)+

lemma names_join [simp]: "set (map le_screenName (join_entries fs cs)) = le_screenName ` (set fs \<union> set cs)"
  by (auto simp: join_entries_def image_iff)

lemma names_feedbag [simp]: "le_screenName ` set (feedbag_entries col rs) = col ` set rs"
  by (auto simp: feedbag_entries_def Let_def image_iff)

lemma names_client [simp]: "le_screenName ` set (client_entries col rs) = col ` set rs"
  by (auto simp: client_entries_def image_iff)

lemma distinct_client_me:
  "distinct (map (\<lambda>r. (cr_me r, cr_them r)) rs) \<Longrightarrow> distinct (map cr_me (filter (\<lambda>r. cr_them r = b \<and> P r) rs))"
  by (auto simp: distinct_map inj_on_def)

lemma distinct_client_them:
  "distinct (map (\<lambda>r. (cr_me r, cr_them r)) rs) \<Longrightarrow> distinct (map cr_them (filter (\<lambda>r. cr_me r = a \<and> P r) rs))"
  by (auto simp: distinct_map inj_on_def)

lemma filter_find_one:
  "length (filter P xs) \<le> 1 \<Longrightarrow> filter P xs = (case find P xs of None \<Rightarrow> [] | Some x \<Rightarrow> [x])"
  by (induction xs) (auto simp: find_None_iff filter_empty_conv split: option.splits)

lemma filter_name_one: "distinct (map f xs) \<Longrightarrow> length (filter (\<lambda>x. f x = n) xs) \<le> 1"
  by (induction xs) (auto simp: image_iff filter_empty_conv)

lemma in_filter_one [simp]: "in_filter [them] n \<longleftrightarrow> n = screenName them"
  by (auto simp: in_filter_def)

lemma privacy_prefs_pd:
  assumes "tables_ok T"
  shows "privacy_prefs n T = (case pd_mode T n of None \<Rightarrow> [] | Some m \<Rightarrow> [m])"
proof -
  have ps: "filter (\<lambda>r. fr_screenName r = n \<and> fr_classID r = FeedbagClassIdPdinfo) (feedbag_rows T) =
      (case find (\<lambda>r. fr_screenName r = n \<and> fr_classID r = FeedbagClassIdPdinfo) (feedbag_rows T) of None \<Rightarrow> [] | Some r \<Rightarrow> [r])"
    by (rule filter_find_one) (use assms in \<open>simp add: tables_ok_def\<close>)
  have ms: "filter (\<lambda>m. mr_screenName m = n) (mode_rows T) =
      (case find (\<lambda>m. mr_screenName m = n) (mode_rows T) of None \<Rightarrow> [] | Some m \<Rightarrow> [m])"
    by (rule filter_find_one [OF filter_name_one]) (use assms in \<open>simp add: tables_ok_def\<close>)
  show ?thesis unfolding privacy_prefs_def ps ms pd_mode_def
    by (simp add: FeedbagPDModePermitAll_def split: option.split)
qed

lemma tables_keys: "tables_ok T \<Longrightarrow> list_keys_ok T"
  by (simp add: tables_ok_def list_keys_ok_def)

lemma filter_find: "case find P xs of None \<Rightarrow> filter P xs = [] | Some x \<Rightarrow> \<exists>ys. filter P xs = x # ys"
  by (induction xs) (auto split: option.splits)

text \<open>Without the third part of \<open>tables_ok\<close>, the first of the modes is still that of the first privacy item.\<close>

lemma privacy_prefs_first:
  assumes "list_keys_ok T"
  shows "case pd_mode T n of None \<Rightarrow> privacy_prefs n T = [] | Some m \<Rightarrow> \<exists>ms. privacy_prefs n T = m # ms"
proof -
  let ?P = "\<lambda>r. fr_screenName r = n \<and> fr_classID r = FeedbagClassIdPdinfo"
  have ms: "filter (\<lambda>m. mr_screenName m = n) (mode_rows T) =
      (case find (\<lambda>m. mr_screenName m = n) (mode_rows T) of None \<Rightarrow> [] | Some m \<Rightarrow> [m])"
    by (rule filter_find_one [OF filter_name_one]) (use assms in \<open>simp add: list_keys_ok_def\<close>)
  have ps: "case find ?P (feedbag_rows T) of None \<Rightarrow> filter ?P (feedbag_rows T) = []
      | Some r \<Rightarrow> \<exists>rs. filter ?P (feedbag_rows T) = r # rs"
    by (rule filter_find)
  show ?thesis
    using ps unfolding privacy_prefs_def ms pd_mode_def
    by (auto simp: FeedbagPDModePermitAll_def Let_def split: option.splits)
qed

lemma names_their:
  "set (map le_screenName (theirBuddyLists me flt T)) = {n. in_filter flt n \<and> mentions T n (screenName me)}"
  unfolding theirBuddyLists_def names_join
  by (auto simp: image_Un mentions_def client_lists_def server_lists_def list_ex_iff image_iff) (blast+)?

lemma names_your:
  "set (map le_screenName (yourBuddyList me flt T)) = {n. in_filter flt n \<and> mentions T (screenName me) n}"
  unfolding yourBuddyList_def names_join
  by (auto simp: image_Un mentions_def client_lists_def server_lists_def list_ex_iff image_iff) (blast+)?

lemma their_flags:
  assumes "list_keys_ok T" and "in_filter flt n"
  shows "has_flag le_isBuddy n (theirBuddyLists me flt T) \<longleftrightarrow> has_buddy T n (screenName me)"
    and "has_flag le_isPermit n (theirBuddyLists me flt T) \<longleftrightarrow> permits T n (screenName me)"
    and "has_flag le_isDeny n (theirBuddyLists me flt T) \<longleftrightarrow> denies T n (screenName me)"
proof -
  have d: "distinct (map cr_me (filter (\<lambda>r. cr_them r = screenName me \<and> in_filter flt (cr_me r)) (client_rows T)))"
    using distinct_client_me assms(1) by (auto simp: list_keys_ok_def)
  note flags = has_flag_client [OF d]
  show "has_flag le_isBuddy n (theirBuddyLists me flt T) \<longleftrightarrow> has_buddy T n (screenName me)"
    unfolding theirBuddyLists_def has_flag_join flags using assms(2)
    by (auto simp: has_buddy_def client_lists_def server_lists_def list_ex_iff list_classes_def)
  show "has_flag le_isPermit n (theirBuddyLists me flt T) \<longleftrightarrow> permits T n (screenName me)"
    unfolding theirBuddyLists_def has_flag_join flags using assms(2)
    by (auto simp: permits_def client_lists_def server_lists_def list_ex_iff list_classes_def)
  show "has_flag le_isDeny n (theirBuddyLists me flt T) \<longleftrightarrow> denies T n (screenName me)"
    unfolding theirBuddyLists_def has_flag_join flags using assms(2)
    by (auto simp: denies_def client_lists_def server_lists_def list_ex_iff list_classes_def)
qed

lemma your_flags:
  assumes "list_keys_ok T" and "in_filter flt n"
  shows "has_flag le_isBuddy n (yourBuddyList me flt T) \<longleftrightarrow> has_buddy T (screenName me) n"
    and "has_flag le_isPermit n (yourBuddyList me flt T) \<longleftrightarrow> permits T (screenName me) n"
    and "has_flag le_isDeny n (yourBuddyList me flt T) \<longleftrightarrow> denies T (screenName me) n"
proof -
  have d: "distinct (map cr_them (filter (\<lambda>r. cr_me r = screenName me \<and> in_filter flt (cr_them r)) (client_rows T)))"
    using distinct_client_them assms(1) by (auto simp: list_keys_ok_def)
  note flags = has_flag_client [OF d]
  show "has_flag le_isBuddy n (yourBuddyList me flt T) \<longleftrightarrow> has_buddy T (screenName me) n"
    unfolding yourBuddyList_def has_flag_join flags using assms(2)
    by (auto simp: has_buddy_def client_lists_def server_lists_def list_ex_iff list_classes_def)
  show "has_flag le_isPermit n (yourBuddyList me flt T) \<longleftrightarrow> permits T (screenName me) n"
    unfolding yourBuddyList_def has_flag_join flags using assms(2)
    by (auto simp: permits_def client_lists_def server_lists_def list_ex_iff list_classes_def)
  show "has_flag le_isDeny n (yourBuddyList me flt T) \<longleftrightarrow> denies T (screenName me) n"
    unfolding yourBuddyList_def has_flag_join flags using assms(2)
    by (auto simp: denies_def client_lists_def server_lists_def list_ex_iff list_classes_def)
qed

lemma remdups_one: "set xs \<subseteq> {a} \<Longrightarrow> remdups xs = (if a \<in> set xs then [a] else [])"
  by (induction xs) auto

lemma blocks_shuts_out:
  assumes "pd_mode T a = Some m" and "has_flag le_isBuddy n es \<longleftrightarrow> has_buddy T a b"
    and "has_flag le_isPermit n es \<longleftrightarrow> permits T a b" and "has_flag le_isDeny n es \<longleftrightarrow> denies T a b"
  shows "blocks m n es \<longleftrightarrow> shuts_out T a b"
  using assms by (auto simp: blocks_def shuts_out_def pd_modes)

text \<open>What a row of the query says of the user it names.\<close>

definition rel_between :: "unicode_tables \<Rightarrow> bytes \<Rightarrow> bytes \<Rightarrow> 'z BuddyTables_scheme \<Rightarrow> Relationship" where
  "rel_between t a b T = \<lparr>rel_User = NewIdentScreenName t b, BlocksYou = shuts_out T b a, YouBlock = shuts_out T a b,
     IsOnTheirList = has_buddy T b a, IsOnYourList = has_buddy T a b\<rparr>"

definition related :: "bytes \<Rightarrow> bytes \<Rightarrow> 'z BuddyTables_scheme \<Rightarrow> bool" where
  "related a b T \<longleftrightarrow> pd_mode T a \<noteq> None \<and> pd_mode T b \<noteq> None \<and> (mentions T a b \<or> mentions T b a)"

lemma relationship_row_eq:
  assumes "list_keys_ok T" and "in_filter flt n" and "pd_mode T n = Some tm" and "pd_mode T (screenName me) = Some ym"
  shows "relationship_row t (theirBuddyLists me flt T) (yourBuddyList me flt T) n tm ym = rel_between t (screenName me) n T"
  unfolding relationship_row_def rel_between_def
  using blocks_shuts_out [OF assms(3) their_flags [OF assms(1,2)]] blocks_shuts_out [OF assms(4) your_flags [OF assms(1,2)]]
    their_flags(1) [OF assms(1,2)] your_flags(1) [OF assms(1,2)] by simp

lemma AllRelationships_eq:
  assumes "tables_ok T"
  shows "AllRelationships t me flt T = map (\<lambda>n. rel_between t (screenName me) n T)
    (filter (\<lambda>n. pd_mode T (screenName me) \<noteq> None \<and> pd_mode T n \<noteq> None)
      (remdups (map le_screenName (theirBuddyLists me flt T) @ map le_screenName (yourBuddyList me flt T))))"
proof -
  let ?theirs = "theirBuddyLists me flt T" and ?yours = "yourBuddyList me flt T"
  let ?ns = "remdups (map le_screenName ?theirs @ map le_screenName ?yours)"
  note row = relationship_row_eq [OF tables_keys [OF assms], of flt _ _ me _ t]
  have "concat (map (\<lambda>n. concat (map (\<lambda>tm. map (\<lambda>ym. relationship_row t ?theirs ?yours n tm ym)
          (privacy_prefs (screenName me) T)) (privacy_prefs n T))) ns) =
      map (\<lambda>n. rel_between t (screenName me) n T) (filter (\<lambda>n. pd_mode T (screenName me) \<noteq> None \<and> pd_mode T n \<noteq> None) ns)"
    if "\<forall>n \<in> set ns. in_filter flt n" for ns
    using that by (induction ns) (auto simp: privacy_prefs_pd [OF assms] row split: option.splits)
  moreover have "\<forall>n \<in> set ?ns. in_filter flt n" using names_their [of me flt T] names_your [of me flt T] by auto
  ultimately show ?thesis unfolding AllRelationships_def Let_def by blast
qed

lemma set_AllRelationships:
  assumes "tables_ok T"
  shows "set (AllRelationships t me flt T) =
    {rel_between t (screenName me) n T | n. in_filter flt n \<and> related (screenName me) n T}"
  unfolding AllRelationships_eq [OF assms] related_def
  using names_their [of me flt T] names_your [of me flt T] by (auto simp: image_iff)

lemma relationship_keys:
  assumes "list_keys_ok T" and "NewIdentScreenName t (screenName them) = them"
  shows "store_Relationship t me them T =
    (if related (screenName me) (screenName them) T then rel_between t (screenName me) (screenName them) T
     else \<lparr>rel_User = them, BlocksYou = False, YouBlock = False, IsOnTheirList = False, IsOnYourList = False\<rparr>)"
proof -
  let ?n = "screenName them"
  let ?theirs = "theirBuddyLists me [them] T" and ?yours = "yourBuddyList me [them] T"
  let ?ns = "map le_screenName ?theirs @ map le_screenName ?yours"
  have set_ns: "set ?ns = {n. n = ?n \<and> (mentions T ?n (screenName me) \<or> mentions T (screenName me) ?n)}"
    unfolding set_append names_their names_your by auto
  have names: "remdups ?ns = (if mentions T ?n (screenName me) \<or> mentions T (screenName me) ?n then [?n] else [])"
    by (subst remdups_one [of ?ns ?n]) (auto simp only: set_ns split: if_splits)
  have row: "relationship_row t ?theirs ?yours ?n tm ym = rel_between t (screenName me) ?n T"
    if "pd_mode T ?n = Some tm" "pd_mode T (screenName me) = Some ym" for tm ym
    using relationship_row_eq [OF assms(1) _ that, of "[them]"] by simp
  have none: "concat (map (\<lambda>_. []) ms) = []" for ms :: "u8 list"
    by (induction ms) simp_all
  show ?thesis
    using privacy_prefs_first [OF assms(1), of ?n] privacy_prefs_first [OF assms(1), of "screenName me"]
    unfolding store_Relationship_def AllRelationships_def Let_def names related_def
    by (cases "pd_mode T ?n"; cases "pd_mode T (screenName me)") (auto simp: row none)
qed

lemma relationship_eq:
  assumes "tables_ok T" and "NewIdentScreenName t (screenName them) = them"
  shows "store_Relationship t me them T =
    (if related (screenName me) (screenName them) T then rel_between t (screenName me) (screenName them) T
     else \<lparr>rel_User = them, BlocksYou = False, YouBlock = False, IsOnTheirList = False, IsOnYourList = False\<rparr>)"
  using assms by (simp add: tables_keys relationship_keys)

section \<open>Statements and the query\<close>

lemma find_upsert:
  assumes "\<And>x. f (g x) = f x" and "f new = n"
  shows "find (\<lambda>x. f x = n) (upsert (\<lambda>x. f x = n) new g xs) =
    Some (case find (\<lambda>x. f x = n) xs of None \<Rightarrow> new | Some x \<Rightarrow> g x)"
proof (cases "\<exists>x \<in> set xs. f x = n")
  case True
  then have "find (\<lambda>x. f x = n) (map (\<lambda>x. if f x = n then g x else x) xs) = map_option g (find (\<lambda>x. f x = n) xs)"
    by (induction xs) (auto simp: assms)
  moreover have "find (\<lambda>x. f x = n) xs \<noteq> None" using True by (auto simp: find_None_iff)
  ultimately show ?thesis using True by (auto simp: upsert_def list_ex_iff)
next
  case False
  then have "find (\<lambda>x. f x = n) xs = None" by (auto simp: find_None_iff)
  moreover have "find (\<lambda>x. f x = n) (xs @ [new]) = Some new" using False by (induction xs) (auto simp: assms)
  ultimately show ?thesis using False by (auto simp: upsert_def list_ex_iff)
qed

lemma find_upsert_other:
  assumes "\<And>x. f (g x) = f x" and "f new = k" and "n \<noteq> k"
  shows "find (\<lambda>x. f x = n) (upsert (\<lambda>x. f x = k) new g xs) = find (\<lambda>x. f x = n) xs"
proof -
  have "find (\<lambda>x. f x = n) (map (\<lambda>x. if f x = k then g x else x) xs) = find (\<lambda>x. f x = n) xs"
    using assms by (induction xs) auto
  moreover have "find (\<lambda>x. f x = n) (xs @ [new]) = find (\<lambda>x. f x = n) xs"
    using assms by (induction xs) auto
  ultimately show ?thesis by (simp add: upsert_def)
qed

lemma list_ex_upsert:
  "(\<And>x. P (g x) = P x) \<Longrightarrow> \<not> P new \<Longrightarrow> list_ex P (upsert k new g xs) = list_ex P xs"
  by (auto simp: upsert_def list_ex_iff)

lemma distinct_upsert:
  assumes "distinct (map f xs)" and "\<And>x. f (g x) = f x" and "f new = n"
  shows "distinct (map f (upsert (\<lambda>x. f x = n) new g xs))"
proof -
  have "map f (map (\<lambda>r. if f r = n then g r else r) xs) = map f xs" by (simp add: assms(2))
  then show ?thesis using assms(1,3) by (auto simp: upsert_def list_ex_iff simp del: map_map)
qed

lemma distinct_delete_where: "distinct (map f xs) \<Longrightarrow> distinct (map f (delete_where P xs))"
  by (simp add: delete_where_def distinct_map_filter)

lemma map_update_where: "(\<And>x. f (g x) = f x) \<Longrightarrow> map f (update_where P g xs) = map f xs"
  by (simp add: update_where_def)

lemma distinct_client_upsert:
  assumes "distinct (map (\<lambda>r. (cr_me r, cr_them r)) xs)" and "\<And>r. cr_me (g r) = cr_me r" and "\<And>r. cr_them (g r) = cr_them r"
    and "cr_me new = screenName me" and "cr_them new = screenName them"
  shows "distinct (map (\<lambda>r. (cr_me r, cr_them r)) (upsert (client_key me them) new g xs))"
  using distinct_upsert [of "\<lambda>r. (cr_me r, cr_them r)" xs g new "(screenName me, screenName them)"] assms
  by (simp add: client_key_def [abs_def])

lemma tables_ok_client:
  assumes "tables_ok T"
  shows "tables_ok (RegisterBuddyList sn T)" and "tables_ok (UnregisterBuddyList sn T)" and "tables_ok (UseFeedbag sn T)"
    and "tables_ok (setClientSidePDMode sn m T)" and "tables_ok (clearClientSidePDFlags sn T)"
    and "tables_ok (clearBlankClientSideBuddies sn T)" and "tables_ok (store_AddBuddy sn b T)"
    and "tables_ok (RemoveBuddy sn b T)" and "tables_ok (DenyBuddy sn b T)" and "tables_ok (RemoveDenyBuddy sn b T)"
    and "tables_ok (PermitBuddy sn b T)" and "tables_ok (RemovePermitBuddy sn b T)"
  using assms
  by (simp_all add: tables_ok_def RegisterBuddyList_def UnregisterBuddyList_def UseFeedbag_def setClientSidePDMode_def
      clearClientSidePDFlags_def clearBlankClientSideBuddies_def store_AddBuddy_def RemoveBuddy_def DenyBuddy_def
      RemoveDenyBuddy_def PermitBuddy_def RemovePermitBuddy_def distinct_client_upsert blank_row_def distinct_upsert
      distinct_delete_where map_update_where)

text \<open>Every statement on these tables keeps the keys unique, storing items included.\<close>

lemma FeedbagUpsert_frame:
  "FeedbagUpsert t now sn its T = Ok (r, T') \<Longrightarrow> mode_rows T' = mode_rows T \<and> client_rows T' = client_rows T"
proof (induction its arbitrary: T)
  case (Cons i its)
  then show ?case
    by (auto simp: Let_def split: prod.splits outcome.splits dest!: Cons.IH)
qed simp

lemma list_keys_ok_FeedbagUpsert: "list_keys_ok T \<Longrightarrow> FeedbagUpsert t now sn its T = Ok (r, T') \<Longrightarrow> list_keys_ok T'"
  using FeedbagUpsert_frame [of t now sn its T r T'] by (simp add: list_keys_ok_def)

lemma tables_ok_SetPDMode: "tables_ok T \<Longrightarrow> tables_ok (SetPDMode me m T)"
  by (simp add: SetPDMode_def tables_ok_client)

lemma pd_mode_client:
  assumes "\<not> uses_feedbag T n"
  shows "pd_mode T n = map_option mr_clientSidePDMode (find (\<lambda>m. mr_screenName m = n) (mode_rows T))"
  using assms by (auto simp: pd_mode_def uses_feedbag_def list_ex_iff split: option.split dest!: find_SomeD)

lemma mode_rows_frame [simp]:
  "mode_rows (clearClientSidePDFlags me T) = mode_rows T" "mode_rows (clearBlankClientSideBuddies me T) = mode_rows T"
  "mode_rows (DenyBuddy me b T) = mode_rows T" "mode_rows (PermitBuddy me b T) = mode_rows T"
  "feedbag_rows (clearClientSidePDFlags me T) = feedbag_rows T"
  "feedbag_rows (clearBlankClientSideBuddies me T) = feedbag_rows T"
  "feedbag_rows (setClientSidePDMode me m T) = feedbag_rows T"
  "feedbag_rows (DenyBuddy me b T) = feedbag_rows T" "feedbag_rows (PermitBuddy me b T) = feedbag_rows T"
  by (simp_all add: clearClientSidePDFlags_def clearBlankClientSideBuddies_def DenyBuddy_def PermitBuddy_def
      setClientSidePDMode_def)

lemma pd_mode_cong:
  assumes "find (\<lambda>r. mr_screenName r = n) (mode_rows T') = find (\<lambda>r. mr_screenName r = n) (mode_rows T)"
    and "feedbag_rows T' = feedbag_rows T"
  shows "pd_mode T' n = pd_mode T n"
  unfolding pd_mode_def assms ..

lemma uses_feedbag_set: "uses_feedbag (setClientSidePDMode me m T) n \<longleftrightarrow> uses_feedbag T n"
  by (simp add: uses_feedbag_def setClientSidePDMode_def list_ex_upsert)

lemma uses_feedbag_SetPDMode: "uses_feedbag (SetPDMode me m T) n \<longleftrightarrow> uses_feedbag T n"
  using uses_feedbag_set [of me m T n] by (simp add: SetPDMode_def uses_feedbag_def)

lemma find_key: "distinct (map f xs) \<Longrightarrow> x \<in> set xs \<Longrightarrow> find (\<lambda>y. f y = f x) xs = Some x"
  by (induction xs) (auto simp: image_iff)

lemma pd_mode_SetPDMode:
  assumes "tables_ok T" and "\<not> uses_feedbag T (screenName me)"
  shows "pd_mode (SetPDMode me m T) (screenName me) = Some m"
proof (cases "isPDModeEqual me m T")
  case True
  then obtain r where r: "r \<in> set (mode_rows T)" "mr_screenName r = screenName me" "mr_clientSidePDMode r = m"
    by (auto simp: isPDModeEqual_def list_ex_iff)
  then have "find (\<lambda>m. mr_screenName m = screenName me) (mode_rows T) = Some r"
    using find_key [of mr_screenName "mode_rows T" r] assms(1) by (simp add: tables_ok_def)
  then show ?thesis using True r assms(2) by (simp add: SetPDMode_def pd_mode_client)
next
  case False
  have "\<not> uses_feedbag (SetPDMode me m T) (screenName me)" using assms(2) by (simp add: uses_feedbag_SetPDMode)
  moreover have "mode_rows (SetPDMode me m T) = upsert (\<lambda>r. mr_screenName r = screenName me)
     \<lparr>mr_screenName = screenName me, mr_clientSidePDMode = m, mr_useFeedbag = False\<rparr>
     (\<lambda>r. r\<lparr>mr_clientSidePDMode := m\<rparr>) (mode_rows T)"
    using False by (simp add: SetPDMode_def setClientSidePDMode_def)
  ultimately show ?thesis
    by (simp add: pd_mode_client find_upsert split: option.split)
qed

lemma pd_mode_other:
  assumes "n \<noteq> screenName me"
  shows "pd_mode (SetPDMode me m T) n = pd_mode T n"
proof -
  have "find (\<lambda>r. mr_screenName r = n) (mode_rows (SetPDMode me m T)) = find (\<lambda>r. mr_screenName r = n) (mode_rows T)"
    using assms by (simp add: SetPDMode_def setClientSidePDMode_def find_upsert_other)
  moreover have "feedbag_rows (SetPDMode me m T) = feedbag_rows T" by (simp add: SetPDMode_def)
  ultimately show ?thesis by (rule pd_mode_cong)
qed

lemma upsert_hit: "(\<And>x. k x \<Longrightarrow> P (g x)) \<Longrightarrow> P new \<Longrightarrow> list_ex P (upsert k new g xs)"
  by (fastforce simp: upsert_def list_ex_iff image_iff)

lemma client_lists_upsert:
  assumes "\<And>r. cr_me (g r) = cr_me r" and "\<And>r. cr_them (g r) = cr_them r" and "\<And>r. P (g r)" and "P new"
    and "cr_me new = screenName me" and "cr_them new = screenName them"
  shows "client_lists (T\<lparr>client_rows := upsert (client_key me them) new g (client_rows T)\<rparr>) P (screenName me) (screenName them)"
  unfolding client_lists_def by (simp, rule upsert_hit) (auto simp: assms client_key_def)

lemma denies_DenyBuddy: "denies (DenyBuddy me them T) (screenName me) (screenName them)"
  unfolding denies_def DenyBuddy_def by (rule disjI1, rule client_lists_upsert) (simp_all add: blank_row_def)

lemma mentions_DenyBuddy: "mentions (DenyBuddy me them T) (screenName me) (screenName them)"
  unfolding mentions_def DenyBuddy_def by (rule disjI1, rule client_lists_upsert) (simp_all add: blank_row_def)

section \<open>Storing a feedbag\<close>

definition enc_attrs :: "TLVList \<Rightarrow> bytes" where
  "enc_attrs l = fst (MarshalBE (Some (TLVLBlock_ty, VStruct [tlvs_val l])))"

definition tlvs_size :: "TLVList \<Rightarrow> nat" where
  "tlvs_size l = sum_list (map (\<lambda>t. 4 + length (Value t)) l)"

lemma marshal_tlv: "marshalStruct BigEndian emptyTag tlv_ty (tlv_val t) =
   (put_uint BigEndian 2 (unat (Tag t)) @ put_uint BigEndian 2 (length (Value t)) @ Value t, Ok ())"
  by (simp add: tlv_ty_def tlv_val_def marshalStruct.simps marshal_vbytes emptyTag_def struct_order_def
      marshal.simps [of _ None] marshalKind.simps tag_eval binaryWrite_def wput_def wseq_def wok_def)

lemma elems_tlvs: "length (elems_bytes BigEndian tlv_ty (map tlv_val l)) = tlvs_size l"
proof -
  have "\<exists>b. marshalStructs BigEndian tlv_ty (map tlv_val l) = (b, Ok ()) \<and> length b = tlvs_size l"
    by (induction l) (auto simp: tlvs_size_def marshal_tlv wseq_def wok_def)
  moreover have "is_struct tlv_ty" by (simp add: tlv_ty_def)
  ultimately show ?thesis by (auto simp: elems_bytes_def)
qed

lemma tlv_size_le: "t \<in> set l \<Longrightarrow> 4 + length (Value t) \<le> tlvs_size l"
  by (induction l) (auto simp: tlvs_size_def)

lemma concat_u8s [simp]: "concat (map (binary_bytes ord \<circ> VU8) b) = b"
  by (induction b) simp_all

lemma attrs_code:
  assumes "tlvs_size l < 65536"
  shows "codes_at False (MarshalBE (Some (TLVLBlock_ty, VStruct [tlvs_val l]))) (UnmarshalBE TLVLBlock_ty) (VStruct [tlvs_val l])"
proof (rule code_BE)
  have "\<And>t. t \<in> set l \<Longrightarrow> length (Value t) < 65536" using tlv_size_le assms by fastforce
  moreover have "length (elems_bytes BigEndian tlv_ty (map tlv_val l)) < 65536" using assms by (simp add: elems_tlvs)
  ultimately show "fits BigEndian emptyTag TLVLBlock_ty (VStruct [tlvs_val l])"
    by (simp add: TLVLBlock_ty_def TLVList_ty_def tlv_ty_def tlvs_val_def tlv_val_def vbytes_def elems_bytes_def binaryWrite_def wput_def tag_eval prefix_max_def)
qed (simp add: TLVLBlock_ty_def TLVList_ty_def tlv_ty_def tag_eval)

lemma enc_attrs_Ok: "tlvs_size l < 65536 \<Longrightarrow> MarshalBE (Some (TLVLBlock_ty, VStruct [tlvs_val l])) = (enc_attrs l, Ok ())"
  using attrs_code [of l] by (auto simp: codes_at_def enc_attrs_def)

lemma row_item_feedbag:
  assumes "tlvs_size (Attrs i) < 65536"
  shows "row_item (feedbag_row t now sn i (enc_attrs (Attrs i))) = Ok (Inr (i\<lparr>Name := fr_name (feedbag_row t now sn i [])\<rparr>))"
proof -
  have "UnmarshalBE TLVLBlock_ty (enc_attrs (Attrs i) @ []) = (Ok (VStruct [tlvs_val (Attrs i)]), [])"
    using attrs_code [OF assms] enc_attrs_Ok [OF assms] by (auto simp: codes_at_def dest: spec [of _ "[]"])
  then show ?thesis by (simp add: row_item_def feedbag_row_def)
qed

definition row_key :: "FeedbagRow \<Rightarrow> bytes \<times> u16 \<times> u16" where
  "row_key r = (fr_screenName r, fr_groupID r, fr_itemID r)"

lemma FeedbagUpsert_fresh:
  assumes "\<forall>i \<in> set its. tlvs_size (Attrs i) < 65536" and "distinct (map (\<lambda>i. (GroupID i, ItemID i)) its)"
    and "\<forall>i \<in> set its. (screenName sn, GroupID i, ItemID i) \<notin> row_key ` set (feedbag_rows T)"
  shows "FeedbagUpsert t now sn its T = Ok (Inr (), T\<lparr>feedbag_rows := feedbag_rows T @
     map (\<lambda>i. feedbag_row t now sn i (enc_attrs (Attrs i))) its\<rparr>)"
  using assms
proof (induction its arbitrary: T)
  case (Cons i "is")
  let ?row = "feedbag_row t now sn i (enc_attrs (Attrs i))"
  have fresh: "\<not> list_ex (\<lambda>r. fr_screenName r = screenName sn \<and> fr_groupID r = GroupID i \<and> fr_itemID r = ItemID i) (feedbag_rows T)"
    using Cons.prems(3) by (force simp: row_key_def list_ex_iff)
  have "FeedbagUpsert t now sn (i # is) T = FeedbagUpsert t now sn is (T\<lparr>feedbag_rows := feedbag_rows T @ [?row]\<rparr>)"
    using Cons.prems(1) fresh by (simp add: enc_attrs_Ok upsert_def Let_def)
  moreover have "row_key ?row = (screenName sn, GroupID i, ItemID i)" by (simp add: row_key_def feedbag_row_def)
  ultimately show ?case
    using Cons.IH [of "T\<lparr>feedbag_rows := feedbag_rows T @ [?row]\<rparr>"] Cons.prems by (simp add: image_iff) (metis)
qed simp

lemma row_items_map:
  assumes "\<forall>i \<in> set its. row_item (f i) = Ok (Inr (g i))"
  shows "row_items (map f its) = Ok (Inr (map g its))"
  using assms by (induction its) simp_all

section \<open>Properties\<close>


text \<open>
  After a client-side user has chosen to deny some users and denied one of them, the denied user
  is told of being blocked, and the user of blocking, whatever was on the lists before.
\<close>

theorem deny_blocks:
  assumes "tables_ok T" and "\<not> uses_feedbag T (screenName me)" and "pd_mode T (screenName them) \<noteq> None"
    and "me \<noteq> them" and "NewIdentScreenName t (screenName me) = me" and "NewIdentScreenName t (screenName them) = them"
  shows "let T' = DenyBuddy me them (SetPDMode me FeedbagPDModeDenySome T) in
    BlocksYou (store_Relationship t them me T') \<and> YouBlock (store_Relationship t me them T')"
proof -
  let ?T = "DenyBuddy me them (SetPDMode me FeedbagPDModeDenySome T)"
  have ok: "tables_ok ?T" using assms(1) by (simp add: tables_ok_client tables_ok_SetPDMode)
  have me: "pd_mode ?T (screenName me) = Some FeedbagPDModeDenySome"
    using pd_mode_SetPDMode [OF assms(1,2)] pd_mode_cong [of _ ?T "SetPDMode me FeedbagPDModeDenySome T"] by simp
  have "screenName them \<noteq> screenName me" using assms(4) by (metis IdentScreenName.expand)
  then have them: "pd_mode ?T (screenName them) \<noteq> None"
    using pd_mode_other [of "screenName them" me _ T] pd_mode_cong [of _ ?T "SetPDMode me FeedbagPDModeDenySome T"] assms(3) by simp
  have "shuts_out ?T (screenName me) (screenName them)"
    using me denies_DenyBuddy [of me them "SetPDMode me FeedbagPDModeDenySome T"] by (simp add: shuts_out_def)
  then show ?thesis
    using relationship_eq [OF ok assms(5), of them] relationship_eq [OF ok assms(6), of me] me them
      mentions_DenyBuddy [of me them "SetPDMode me FeedbagPDModeDenySome T"]
    by (simp add: Let_def related_def rel_between_def)
qed

text \<open>Two users with client-side lists, both without entries.\<close>

definition two_users :: "u8 \<Rightarrow> BuddyTables" where
  "two_users m = \<lparr>feedbag_rows = [], mode_rows = [\<lparr>mr_screenName = [0x61], mr_clientSidePDMode = m, mr_useFeedbag = False\<rparr>,
     \<lparr>mr_screenName = [0x62], mr_clientSidePDMode = FeedbagPDModePermitAll, mr_useFeedbag = False\<rparr>], client_rows = []\<rparr>"

lemma two_users_ok: "tables_ok (two_users m)" "\<not> uses_feedbag (two_users m) n"
  by (simp_all add: tables_ok_def two_users_def uses_feedbag_def)

lemma two_users_pd: "pd_mode (two_users m) [0x62] = Some FeedbagPDModePermitAll"
  by (simp add: pd_mode_def two_users_def)

lemma ascii_ident [simp]:
  "NewIdentScreenName ascii_tables [0x61] = IdentScreenName [0x61]"
  "NewIdentScreenName ascii_tables [0x62] = IdentScreenName [0x62]"
  by (simp_all add: NewIdentScreenName_def ToLower_def is_ascii_def byte_lower_def)


lemma deny_blocks_witness:
  "BlocksYou (store_Relationship ascii_tables (IdentScreenName [0x62]) (IdentScreenName [0x61])
     (DenyBuddy (IdentScreenName [0x61]) (IdentScreenName [0x62])
       (SetPDMode (IdentScreenName [0x61]) FeedbagPDModeDenySome (two_users FeedbagPDModePermitAll))))"
  using deny_blocks [of "two_users FeedbagPDModePermitAll" "IdentScreenName [0x61]" "IdentScreenName [0x62]" ascii_tables]
    two_users_ok two_users_pd by (simp add: Let_def)

text \<open>
  What \<open>Relationship\<close> documents for the deny-all mode does not hold for strangers: if neither user
  has the other on any list, the query has no row, and the relationship says that nobody is blocked,
  whatever the privacy modes are.
\<close>

theorem stranger_not_blocked:
  assumes "tables_ok T" and "NewIdentScreenName t (screenName a) = a" and "\<not> mentions T (screenName a) (screenName b)"
    and "\<not> mentions T (screenName b) (screenName a)" and "pd_mode T (screenName a) = Some FeedbagPDModeDenyAll"
  shows "shuts_out T (screenName a) (screenName b) \<and> \<not> BlocksYou (store_Relationship t b a T)"
  using relationship_eq [OF assms(1,2), of b] assms(3-5) by (simp add: shuts_out_def related_def)

lemma stranger_not_blocked_witness:
  "\<not> BlocksYou (store_Relationship ascii_tables (IdentScreenName [0x62]) (IdentScreenName [0x61]) (two_users FeedbagPDModeDenyAll))"
  using stranger_not_blocked [of "two_users FeedbagPDModeDenyAll" ascii_tables "IdentScreenName [0x61]" "IdentScreenName [0x62]"] two_users_ok
  by (simp add: two_users_def pd_mode_def mentions_def client_lists_def server_lists_def)

text \<open>
  Items with different IDs that a user without stored items upserts are read back as they were, in
  order and with all their attributes, only the names of users in normal form; the lists of other
  users are untouched.
\<close>

theorem feedbag_stored:
  assumes "\<forall>i \<in> set its. tlvs_size (Attrs i) < 65536" and "distinct (map (\<lambda>i. (GroupID i, ItemID i)) its)"
    and "\<forall>r \<in> set (feedbag_rows T). fr_screenName r \<noteq> screenName sn"
  shows "\<exists>T'. FeedbagUpsert t now sn its T = Ok (Inr (), T') \<and>
    store_Feedbag sn T' = Ok (Inr (map (\<lambda>i. i\<lparr>Name := fr_name (feedbag_row t now sn i [])\<rparr>) its)) \<and>
    (sn' \<noteq> sn \<longrightarrow> store_Feedbag sn' T' = store_Feedbag sn' T)"
proof -
  let ?rows = "map (\<lambda>i. feedbag_row t now sn i (enc_attrs (Attrs i))) its"
  have "FeedbagUpsert t now sn its T = Ok (Inr (), T\<lparr>feedbag_rows := feedbag_rows T @ ?rows\<rparr>)"
    using assms by (intro FeedbagUpsert_fresh) (auto simp: row_key_def)
  moreover have "filter (\<lambda>r. fr_screenName r = screenName sn) (feedbag_rows T @ ?rows) = ?rows"
    using assms(3) by (auto simp: filter_empty_conv filter_id_conv feedbag_row_def)
  moreover have "row_items ?rows = Ok (Inr (map (\<lambda>i. i\<lparr>Name := fr_name (feedbag_row t now sn i [])\<rparr>) its))"
    using assms(1) row_item_feedbag by (intro row_items_map) auto
  moreover have "filter (\<lambda>r. fr_screenName r = screenName sn') (feedbag_rows T @ ?rows) =
      filter (\<lambda>r. fr_screenName r = screenName sn') (feedbag_rows T)" if "sn' \<noteq> sn"
    using that IdentScreenName.expand [of sn' sn] by (auto simp: filter_empty_conv feedbag_row_def)
  ultimately show ?thesis by (simp add: store_Feedbag_def)
qed

lemma feedbag_stored_witness:
  "\<exists>T'. FeedbagUpsert ascii_tables 0 (IdentScreenName [0x61])
      [\<lparr>Name = [0x62], GroupID = 1, ItemID = 2, ClassID = FeedbagClassIdBuddy, Attrs = [\<lparr>Tag = 1, Value = [7]\<rparr>]\<rparr>] (two_users 1) =
        Ok (Inr (), T') \<and>
     store_Feedbag (IdentScreenName [0x61]) T' =
       Ok (Inr [\<lparr>Name = [0x62], GroupID = 1, ItemID = 2, ClassID = FeedbagClassIdBuddy, Attrs = [\<lparr>Tag = 1, Value = [7]\<rparr>]\<rparr>])"
  using feedbag_stored [of "[\<lparr>Name = [0x62], GroupID = 1, ItemID = 2, ClassID = FeedbagClassIdBuddy,
      Attrs = [\<lparr>Tag = 1, Value = [7]\<rparr>]\<rparr>]" "two_users 1" "IdentScreenName [0x61]" ascii_tables 0 "IdentScreenName [0x61]"]
  by (simp add: tlvs_size_def two_users_def feedbag_row_def)

end
