(* ===== verification/UserStore.thy ===== *)
theory UserStore
  imports Relationships Chat ClientInfo
begin

text \<open>
  The rest of the user store (\<open>state/user_store.go\<close>): accounts, profiles, BART assets, contact
  authorisations, offline messages, chat rooms and directory keywords. As in theory Relationships a table
  is the list of its rows and a statement is a function on it, with the constraints the schema
  declares: keys, foreign keys and cascades. The failures of the database itself are added where the
  store is used.
\<close>

section \<open>The tables\<close>

text \<open>The counts of interests and affiliations have no columns, so they read as 0.\<close>

record UserRow =
  row_user :: User
  row_keywords :: "nat option list"

record ProfileRow =
  pr_screenName :: bytes
  pr_body :: bytes
  pr_mimeType :: bytes
  pr_updateTime :: int

record BARTRow =
  ba_hash :: bytes
  ba_body :: bytes
  ba_type :: u16

record OfflineRow =
  of_sender :: bytes
  of_recipient :: bytes
  of_message :: bytes
  of_sent :: int

record KeywordRow =
  kw_id :: nat
  kw_name :: bytes
  kw_parent :: "nat option"

record ChatRow =
  ch_cookie :: bytes
  ch_exchange :: u16
  ch_name :: bytes
  ch_created :: int
  ch_creator :: bytes

record Store = BuddyTables +
  user_rows :: "UserRow list"
  profile_rows :: "ProfileRow list"
  bart_rows :: "BARTRow list"
  preauth_rows :: "(bytes \<times> bytes) list"
  added_rows :: "(bytes \<times> bytes) list"
  offline_rows :: "OfflineRow list"
  category_rows :: "(nat \<times> bytes) list"
  keyword_rows :: "KeywordRow list"
  chat_rows :: "ChatRow list"

definition row_name :: "UserRow \<Rightarrow> bytes" where
  "row_name r = screenName (Ident (row_user r))"

definition user_exists :: "bytes \<Rightarrow> Store \<Rightarrow> bool" where
  "user_exists sn S \<longleftrightarrow> list_ex (\<lambda>r. row_name r = sn) (user_rows S)"

section \<open>Reading users\<close>

definition read_user :: "unicode_tables \<Rightarrow> UserRow \<Rightarrow> User" where
  "read_user t r = (row_user r)\<lparr>Ident := NewIdentScreenName t (row_name r)\<rparr>"

definition queryUsers :: "unicode_tables \<Rightarrow> (UserRow \<Rightarrow> bool) \<Rightarrow> Store \<Rightarrow> User list" where
  "queryUsers t P S = map (read_user t) (filter P (user_rows S))"

definition first_user :: "User list \<Rightarrow> store_error + User" where
  "first_user us = (case us of [] \<Rightarrow> Inl ErrNoUser | u # _ \<Rightarrow> Inr u)"

definition store_User :: "unicode_tables \<Rightarrow> IdentScreenName \<Rightarrow> Store \<Rightarrow> User option" where
  "store_User t sn S = (case queryUsers t (\<lambda>r. row_name r = screenName sn) S of [] \<Rightarrow> None | u # _ \<Rightarrow> Some u)"

definition AllUsers :: "unicode_tables \<Rightarrow> Store \<Rightarrow> (IdentScreenName \<times> bytes \<times> bool \<times> bool) list" where
  "AllUsers t S = map (\<lambda>r. let u = row_user r in
     (NewIdentScreenName t (row_name r), Display u, IsICQ u, IsBot u)) (user_rows S)"

definition FindByUIN :: "unicode_tables \<Rightarrow> u32 \<Rightarrow> Store \<Rightarrow> store_error + User" where
  "FindByUIN t n S = first_user (queryUsers t (\<lambda>r. row_name r = decimal_string (unat n)) S)"

definition FindByICQEmail :: "unicode_tables \<Rightarrow> bytes \<Rightarrow> Store \<Rightarrow> store_error + User" where
  "FindByICQEmail t email S = first_user (queryUsers t (\<lambda>r. basic_EmailAddress (Basic (Info (row_user r))) = email) S)"

definition FindByAIMEmail :: "unicode_tables \<Rightarrow> bytes \<Rightarrow> Store \<Rightarrow> store_error + User" where
  "FindByAIMEmail t email S = first_user (queryUsers t (\<lambda>r. EmailAddress (row_user r) = email) S)"

definition keyword_id :: "bytes \<Rightarrow> Store \<Rightarrow> nat option" where
  "keyword_id n S = map_option kw_id (find (\<lambda>k. kw_name k = n) (keyword_rows S))"

definition FindByAIMKeyword :: "unicode_tables \<Rightarrow> bytes \<Rightarrow> Store \<Rightarrow> User list" where
  "FindByAIMKeyword t n S = (case keyword_id n S of
     None \<Rightarrow> [] | Some i \<Rightarrow> queryUsers t (\<lambda>r. Some i \<in> set (row_keywords r)) S)"

text \<open>
  \<open>LOWER\<close> and \<open>LIKE\<close> of SQLite fold ASCII letters only; \<open>%\<close> and \<open>_\<close> are wildcards, also where they come
  from the search text.
\<close>

definition ascii_fold :: "nat \<Rightarrow> nat" where
  "ascii_fold r = (if 0x41 \<le> r \<and> r \<le> 0x5A then r + 0x20 else r)"

definition sql_lower :: "bytes \<Rightarrow> bytes" where
  "sql_lower s = map byte_lower s"

fun like_runes :: "nat list \<Rightarrow> nat list \<Rightarrow> bool" where
  "like_runes [] s \<longleftrightarrow> s = []"
| "like_runes (p # ps) s \<longleftrightarrow>
     (if p = 0x25 then list_ex (\<lambda>i. like_runes ps (drop i s)) [0..<length s + 1]
      else case s of
        [] \<Rightarrow> False
      | c # cs \<Rightarrow> (p = 0x5F \<or> ascii_fold p = ascii_fold c) \<and> like_runes ps cs)"

definition sql_like :: "bytes \<Rightarrow> bytes \<Rightarrow> bool" where
  "sql_like s pat \<longleftrightarrow> like_runes (runes pat) (runes s)"

definition contains_pattern :: "bytes \<Rightarrow> bytes" where
  "contains_pattern s = [0x25] @ s @ [0x25]"

text \<open>
  A \<open>WHERE\<close> clause joined from optional conditions; with none the statement is incomplete and SQLite
  rejects it.
\<close>

definition opt_equal :: "bytes \<Rightarrow> (UserRow \<Rightarrow> bytes) \<Rightarrow> (UserRow \<Rightarrow> bool) list" where
  "opt_equal x col = (if x \<noteq> [] then [\<lambda>r. sql_lower (col r) = sql_lower x] else [])"

definition query_all :: "unicode_tables \<Rightarrow> (UserRow \<Rightarrow> bool) list \<Rightarrow> Store \<Rightarrow> store_error + User list" where
  "query_all t clauses S =
     (if clauses = [] then Inl SyntaxError else Inr (queryUsers t (\<lambda>r. list_all (\<lambda>c. c r) clauses) S))"

definition FindByICQName :: "unicode_tables \<Rightarrow> bytes \<Rightarrow> bytes \<Rightarrow> bytes \<Rightarrow> Store \<Rightarrow> store_error + User list" where
  "FindByICQName t firstName lastName nickName S = query_all t
     (opt_equal firstName (\<lambda>r. basic_FirstName (Basic (Info (row_user r)))) @
      opt_equal lastName (\<lambda>r. basic_LastName (Basic (Info (row_user r)))) @
      opt_equal nickName (\<lambda>r. basic_Nickname (Basic (Info (row_user r))))) S"

definition FindByAIMNameAndAddr :: "unicode_tables \<Rightarrow> AIMNameAndAddr \<Rightarrow> Store \<Rightarrow> store_error + User list" where
  "FindByAIMNameAndAddr t info S = query_all t
     (concat (map (\<lambda>f. opt_equal (f info) (\<lambda>r. f (AIMDirectoryInfo (row_user r))))
        [addr_FirstName, addr_LastName, addr_MiddleName, addr_MaidenName, addr_Country, addr_State, addr_City,
         addr_NickName, addr_ZIPCode, addr_Address])) S"

text \<open>Slots of a code and a keyword; a list of no keywords makes \<open>()\<close>, which is a syntax error.\<close>

definition slots_match :: "u16 \<Rightarrow> bytes list \<Rightarrow> (u16 \<times> bytes) list \<Rightarrow> bool" where
  "slots_match code keywords sl \<longleftrightarrow>
     list_ex (\<lambda>(c, k). c = code \<and> list_ex (\<lambda>kw. sql_like k (contains_pattern kw)) keywords) sl"

definition interest_slots :: "UserRow \<Rightarrow> (u16 \<times> bytes) list" where
  "interest_slots r = (let i = Interests (Info (row_user r)) in
     [(interest_Code1 i, interest_Keyword1 i), (interest_Code2 i, interest_Keyword2 i),
      (interest_Code3 i, interest_Keyword3 i), (interest_Code4 i, interest_Keyword4 i)])"

definition current_slots :: "UserRow \<Rightarrow> (u16 \<times> bytes) list" where
  "current_slots r = (let a = Affiliations (Info (row_user r)) in
     [(affil_CurrentCode1 a, affil_CurrentKeyword1 a), (affil_CurrentCode2 a, affil_CurrentKeyword2 a),
      (affil_CurrentCode3 a, affil_CurrentKeyword3 a)])"

definition past_slots :: "UserRow \<Rightarrow> (u16 \<times> bytes) list" where
  "past_slots r = (let a = Affiliations (Info (row_user r)) in
     [(affil_PastCode1 a, affil_PastKeyword1 a), (affil_PastCode2 a, affil_PastKeyword2 a),
      (affil_PastCode3 a, affil_PastKeyword3 a)])"

definition FindByICQInterests :: "unicode_tables \<Rightarrow> u16 \<Rightarrow> bytes list \<Rightarrow> Store \<Rightarrow> store_error + User list" where
  "FindByICQInterests t code keywords S =
     (if keywords = [] then Inl SyntaxError
      else Inr (queryUsers t (\<lambda>r. slots_match code keywords (interest_slots r)) S))"

definition any_interest :: "bytes \<Rightarrow> UserRow \<Rightarrow> bool" where
  "any_interest kw r \<longleftrightarrow> list_ex (\<lambda>(_, k). sql_like k (contains_pattern kw)) (interest_slots r)"

definition FindByICQKeyword :: "unicode_tables \<Rightarrow> bytes \<Rightarrow> Store \<Rightarrow> User list" where
  "FindByICQKeyword t keyword S = queryUsers t (any_interest keyword) S"

record ICQUserSearchCriteria =
  crit_UIN :: "u32 option"
  crit_FirstName :: "bytes option"
  crit_LastName :: "bytes option"
  crit_NickName :: "bytes option"
  crit_Email :: "bytes option"
  crit_MinAge :: "u16 option"
  crit_MaxAge :: "u16 option"
  crit_Gender :: "u8 option"
  crit_SpokenLanguage :: "u8 option"
  crit_City :: "bytes option"
  crit_State :: "bytes option"
  crit_CountryCode :: "u16 option"
  crit_Company :: "bytes option"
  crit_Position :: "bytes option"
  crit_DepartmentName :: "bytes option"
  crit_OccupationCode :: "u16 option"
  crit_InterestsCode :: "u16 option"
  crit_InterestsKeywords :: "bytes list"
  crit_AffiliationsCode :: "u16 option"
  crit_AffiliationsKeywords :: "bytes list"
  crit_PastAffiliationsCode :: "u16 option"
  crit_PastAffiliationsKeywords :: "bytes list"
  crit_HomePageCategoryIndex :: "u16 option"
  crit_HomePageKeywords :: "bytes list"
  crit_AnyKeyword :: "bytes option"

definition crit :: "'a option \<Rightarrow> ('a \<Rightarrow> UserRow \<Rightarrow> bool) \<Rightarrow> (UserRow \<Rightarrow> bool) list" where
  "crit x c = (case x of None \<Rightarrow> [] | Some a \<Rightarrow> [c a])"

definition folded_like :: "(UserRow \<Rightarrow> bytes) \<Rightarrow> bytes \<Rightarrow> UserRow \<Rightarrow> bool" where
  "folded_like col v r \<longleftrightarrow> sql_like (sql_lower (col r)) (sql_lower (contains_pattern v))"

definition basic_of :: "UserRow \<Rightarrow> ICQBasicInfo" where "basic_of r = Basic (Info (row_user r))"
definition more_of :: "UserRow \<Rightarrow> ICQMoreInfo" where "more_of r = More (Info (row_user r))"
definition work_of :: "UserRow \<Rightarrow> ICQWorkInfo" where "work_of r = Work (Info (row_user r))"
definition page_of :: "UserRow \<Rightarrow> ICQHomepageCategory" where "page_of r = HomepageCategory (Info (row_user r))"

definition search_clauses :: "int \<Rightarrow> ICQUserSearchCriteria \<Rightarrow> (UserRow \<Rightarrow> bool) list" where
  "search_clauses year c =
     crit (crit_UIN c) (\<lambda>n r. row_name r = decimal_string (unat n)) @
     crit (crit_FirstName c) (folded_like (\<lambda>r. basic_FirstName (basic_of r))) @
     crit (crit_LastName c) (folded_like (\<lambda>r. basic_LastName (basic_of r))) @
     crit (crit_NickName c) (folded_like (\<lambda>r. basic_Nickname (basic_of r))) @
     crit (crit_Email c) (folded_like (\<lambda>r. basic_EmailAddress (basic_of r))) @
     crit (crit_Gender c) (\<lambda>g r. Gender (more_of r) = ucast g) @
     crit (crit_SpokenLanguage c) (\<lambda>l r. Lang1 (more_of r) = l \<or> Lang2 (more_of r) = l \<or> Lang3 (more_of r) = l) @
     crit (crit_MinAge c) (\<lambda>a r. BirthYear (more_of r) > 0 \<and> year - uint (BirthYear (more_of r)) \<ge> uint a) @
     crit (crit_MaxAge c) (\<lambda>a r. BirthYear (more_of r) > 0 \<and> year - uint (BirthYear (more_of r)) \<le> uint a) @
     crit (crit_City c) (folded_like (\<lambda>r. basic_City (basic_of r))) @
     crit (crit_State c) (\<lambda>s r. folded_like (\<lambda>r. basic_State (basic_of r)) s r \<or> folded_like (\<lambda>r. work_State (work_of r)) s r) @
     crit (crit_CountryCode c) (\<lambda>k r. basic_CountryCode (basic_of r) = k \<or> work_CountryCode (work_of r) = k) @
     crit (crit_Company c) (folded_like (\<lambda>r. work_Company (work_of r))) @
     crit (crit_DepartmentName c) (folded_like (\<lambda>r. work_Department (work_of r))) @
     crit (crit_Position c) (folded_like (\<lambda>r. work_Position (work_of r))) @
     crit (crit_OccupationCode c) (\<lambda>k r. work_OccupationCode (work_of r) = k) @
     crit (crit_InterestsCode c) (\<lambda>k r. slots_match k (crit_InterestsKeywords c) (interest_slots r)) @
     crit (crit_AffiliationsCode c) (\<lambda>k r. slots_match k (crit_AffiliationsKeywords c) (current_slots r)) @
     crit (crit_PastAffiliationsCode c) (\<lambda>k r. slots_match k (crit_PastAffiliationsKeywords c) (past_slots r)) @
     crit (crit_HomePageCategoryIndex c) (\<lambda>k r. page_Index (page_of r) = k) @
     (if crit_HomePageKeywords c \<noteq> [] then [\<lambda>r. list_ex (\<lambda>kw. folded_like (\<lambda>r. page_Description (page_of r)) kw r)
        (crit_HomePageKeywords c)] else []) @
     crit (crit_AnyKeyword c) any_interest"

definition bad_slots :: "ICQUserSearchCriteria \<Rightarrow> bool" where
  "bad_slots c \<longleftrightarrow> crit_InterestsCode c \<noteq> None \<and> crit_InterestsKeywords c = [] \<or>
     crit_AffiliationsCode c \<noteq> None \<and> crit_AffiliationsKeywords c = [] \<or>
     crit_PastAffiliationsCode c \<noteq> None \<and> crit_PastAffiliationsKeywords c = []"

definition SearchICQUsers :: "unicode_tables \<Rightarrow> int \<Rightarrow> ICQUserSearchCriteria \<Rightarrow> Store \<Rightarrow> store_error + User list" where
  "SearchICQUsers t year c S =
     (if search_clauses year c = [] then Inl ErrICQSearchEmptyCriteria
      else if bad_slots c then Inl SyntaxError
      else query_all t (search_clauses year c @ [\<lambda>r. IsICQ (row_user r)]) S)"

section \<open>Changing users\<close>

text \<open>The columns an insertion does not name have the defaults of the schema.\<close>

definition fresh_user :: "User \<Rightarrow> User" where
  "fresh_user u = \<lparr>Ident = Ident u, Display = Display u, AuthKey = AuthKey u, StrongMD5Pass = StrongMD5Pass u,
     WeakMD5Pass = WeakMD5Pass u, IsICQ = IsICQ u, ConfirmStatus = False, RegStatus = 3, SuspendedStatus = 0,
     EmailAddress = [], Info = zero_ICQInfo\<lparr>Permissions := \<lparr>perm_AuthRequired = True, perm_WebAware = False,
       perm_AllowSpam = False\<rparr>\<rparr>, AIMDirectoryInfo = zero_AIMNameAndAddr, TOCConfig = [], IsBot = IsBot u,
     LastWarnUpdate = Some 0, LastWarnLevel = 0, OfflineMsgCount = 0\<rparr>"

definition InsertUser :: "unicode_tables \<Rightarrow> User \<Rightarrow> Store \<Rightarrow> store_error option \<times> Store" where
  "InsertUser t u S =
     (if IsUIN t (Display u) \<and> \<not> IsICQ u then (Some UINWithoutICQ, S)
      else if user_exists (screenName (Ident u)) S then (Some ErrDupUser, S)
      else (None, S\<lparr>user_rows := user_rows S @ [\<lparr>row_user = fresh_user u, row_keywords = replicate 5 None\<rparr>]\<rparr>))"

text \<open>The foreign keys of authorisations, notifications and offline messages cascade.\<close>

definition DeleteUser :: "IdentScreenName \<Rightarrow> Store \<Rightarrow> store_error option \<times> Store" where
  "DeleteUser sn S =
     (let n = screenName sn in
      if \<not> user_exists n S then (Some ErrNoUser, S)
      else (None, S\<lparr>user_rows := delete_where (\<lambda>r. row_name r = n) (user_rows S),
        preauth_rows := delete_where (\<lambda>(a, b). a = n \<or> b = n) (preauth_rows S),
        added_rows := delete_where (\<lambda>(a, b). a = n \<or> b = n) (added_rows S),
        offline_rows := delete_where (\<lambda>r. of_sender r = n \<or> of_recipient r = n) (offline_rows S)\<rparr>))"

text \<open>An \<open>UPDATE\<close> of one user; \<open>update_found\<close> is the form that reports a missing user.\<close>

definition update_user :: "IdentScreenName \<Rightarrow> (User \<Rightarrow> User) \<Rightarrow> Store \<Rightarrow> Store" where
  "update_user sn f S = S\<lparr>user_rows := update_where (\<lambda>r. row_name r = screenName sn)
     (\<lambda>r. r\<lparr>row_user := f (row_user r)\<rparr>) (user_rows S)\<rparr>"

definition update_found :: "IdentScreenName \<Rightarrow> (User \<Rightarrow> User) \<Rightarrow> Store \<Rightarrow> store_error option \<times> Store" where
  "update_found sn f S =
     (if user_exists (screenName sn) S then (None, update_user sn f S) else (Some ErrNoUser, S))"

definition SetUserPassword :: "digest \<Rightarrow> IdentScreenName \<Rightarrow> bytes \<Rightarrow> Store \<Rightarrow> store_error option \<times> Store" where
  "SetUserPassword md5 sn newPassword S =
     (case find (\<lambda>r. row_name r = screenName sn) (user_rows S) of
        None \<Rightarrow> (Some ErrNoUser, S)
      | Some r \<Rightarrow>
          (case HashPassword md5 newPassword (row_user r) of
             (Some e, _) \<Rightarrow> (Some (StoreUser e), S)
           | (None, u) \<Rightarrow> (None, update_user sn (\<lambda>v. v\<lparr>AuthKey := AuthKey u, WeakMD5Pass := WeakMD5Pass u,
               StrongMD5Pass := StrongMD5Pass u\<rparr>) S)))"

definition UpdateDisplayScreenName :: "unicode_tables \<Rightarrow> bytes \<Rightarrow> Store \<Rightarrow> Store" where
  "UpdateDisplayScreenName t d S = update_user (NewIdentScreenName t d) (\<lambda>u. u\<lparr>Display := d\<rparr>) S"
definition UpdateEmailAddress :: "IdentScreenName \<Rightarrow> bytes \<Rightarrow> Store \<Rightarrow> Store" where
  "UpdateEmailAddress sn email S = update_user sn (\<lambda>u. u\<lparr>EmailAddress := email\<rparr>) S"
definition UpdateRegStatus :: "IdentScreenName \<Rightarrow> u16 \<Rightarrow> Store \<Rightarrow> Store" where
  "UpdateRegStatus sn st S = update_user sn (\<lambda>u. u\<lparr>RegStatus := uint st\<rparr>) S"
definition UpdateConfirmStatus :: "IdentScreenName \<Rightarrow> bool \<Rightarrow> Store \<Rightarrow> Store" where
  "UpdateConfirmStatus sn b S = update_user sn (\<lambda>u. u\<lparr>ConfirmStatus := b\<rparr>) S"
definition UpdateSuspendedStatus :: "u16 \<Rightarrow> IdentScreenName \<Rightarrow> Store \<Rightarrow> Store" where
  "UpdateSuspendedStatus st sn S = update_user sn (\<lambda>u. u\<lparr>SuspendedStatus := st\<rparr>) S"
definition SetBotStatus :: "bool \<Rightarrow> IdentScreenName \<Rightarrow> Store \<Rightarrow> Store" where
  "SetBotStatus b sn S = update_user sn (\<lambda>u. u\<lparr>IsBot := b\<rparr>) S"

definition user_column :: "(User \<Rightarrow> 'a) \<Rightarrow> 'a \<Rightarrow> IdentScreenName \<Rightarrow> Store \<Rightarrow> 'a" where
  "user_column f d sn S = (case find (\<lambda>r. row_name r = screenName sn) (user_rows S) of
     None \<Rightarrow> d | Some r \<Rightarrow> f (row_user r))"

definition store_RegStatus :: "IdentScreenName \<Rightarrow> Store \<Rightarrow> u16" where
  "store_RegStatus sn S = word_of_int (user_column RegStatus 0 sn S)"
definition store_ConfirmStatus :: "IdentScreenName \<Rightarrow> Store \<Rightarrow> bool" where
  "store_ConfirmStatus sn S = user_column ConfirmStatus False sn S"

text \<open>\<open>mail.ParseAddress\<close> is the parameter \<open>parse\<close>.\<close>

definition store_EmailAddress :: "(bytes \<Rightarrow> bytes option) \<Rightarrow> IdentScreenName \<Rightarrow> Store \<Rightarrow> store_error + bytes" where
  "store_EmailAddress parse sn S =
     (case parse (user_column EmailAddress [] sn S) of None \<Rightarrow> Inl ErrNoEmailAddress | Some e \<Rightarrow> Inr e)"

definition SetDirectoryInfo :: "IdentScreenName \<Rightarrow> AIMNameAndAddr \<Rightarrow> Store \<Rightarrow> store_error option \<times> Store" where
  "SetDirectoryInfo sn info S = update_found sn (\<lambda>u. u\<lparr>AIMDirectoryInfo := info\<rparr>) S"
definition SetWorkInfo :: "IdentScreenName \<Rightarrow> ICQWorkInfo \<Rightarrow> Store \<Rightarrow> store_error option \<times> Store" where
  "SetWorkInfo sn d S = update_found sn (\<lambda>u. u\<lparr>Info := (Info u)\<lparr>Work := d\<rparr>\<rparr>) S"
definition SetPermissions :: "IdentScreenName \<Rightarrow> ICQPermissions \<Rightarrow> Store \<Rightarrow> store_error option \<times> Store" where
  "SetPermissions sn d S = update_found sn (\<lambda>u. u\<lparr>Info := (Info u)\<lparr>Permissions := d\<rparr>\<rparr>) S"
definition SetHomepageCategory :: "IdentScreenName \<Rightarrow> ICQHomepageCategory \<Rightarrow> Store \<Rightarrow> store_error option \<times> Store" where
  "SetHomepageCategory sn d S = update_found sn (\<lambda>u. u\<lparr>Info := (Info u)\<lparr>HomepageCategory := d\<rparr>\<rparr>) S"
definition SetMoreInfo :: "IdentScreenName \<Rightarrow> ICQMoreInfo \<Rightarrow> Store \<Rightarrow> store_error option \<times> Store" where
  "SetMoreInfo sn d S = update_found sn (\<lambda>u. u\<lparr>Info := (Info u)\<lparr>More := d\<rparr>\<rparr>) S"
definition SetUserNotes :: "IdentScreenName \<Rightarrow> ICQUserNotes \<Rightarrow> Store \<Rightarrow> store_error option \<times> Store" where
  "SetUserNotes sn d S = update_found sn (\<lambda>u. u\<lparr>Info := (Info u)\<lparr>Notes := d\<rparr>\<rparr>) S"

definition stored_interests :: "ICQInterests \<Rightarrow> ICQInterests" where
  "stored_interests d = d\<lparr>interest_Count := 0\<rparr>"
definition stored_affiliations :: "ICQAffiliations \<Rightarrow> ICQAffiliations" where
  "stored_affiliations d = d\<lparr>affil_PastCount := 0, affil_CurrentCount := 0\<rparr>"

definition SetInterests :: "IdentScreenName \<Rightarrow> ICQInterests \<Rightarrow> Store \<Rightarrow> store_error option \<times> Store" where
  "SetInterests sn d S = update_found sn (\<lambda>u. u\<lparr>Info := (Info u)\<lparr>Interests := stored_interests d\<rparr>\<rparr>) S"
definition SetAffiliations :: "IdentScreenName \<Rightarrow> ICQAffiliations \<Rightarrow> Store \<Rightarrow> store_error option \<times> Store" where
  "SetAffiliations sn d S = update_found sn (\<lambda>u. u\<lparr>Info := (Info u)\<lparr>Affiliations := stored_affiliations d\<rparr>\<rparr>) S"

text \<open>\<open>SetBasicInfo\<close> leaves the columns on the home town alone.\<close>

definition SetBasicInfo :: "IdentScreenName \<Rightarrow> ICQBasicInfo \<Rightarrow> Store \<Rightarrow> store_error option \<times> Store" where
  "SetBasicInfo sn d S = update_found sn (\<lambda>u. let b = Basic (Info u) in
     u\<lparr>Info := (Info u)\<lparr>Basic := d\<lparr>basic_OriginallyFromCity := basic_OriginallyFromCity b,
       basic_OriginallyFromState := basic_OriginallyFromState b,
       basic_OriginallyFromCountryCode := basic_OriginallyFromCountryCode b\<rparr>\<rparr>\<rparr>) S"

definition SetICQInfo :: "IdentScreenName \<Rightarrow> ICQInfo \<Rightarrow> Store \<Rightarrow> store_error option \<times> Store" where
  "SetICQInfo sn d S = update_found sn (\<lambda>u. u\<lparr>Info := d\<lparr>Interests := stored_interests (Interests d),
     Affiliations := stored_affiliations (Affiliations d)\<rparr>\<rparr>) S"

definition SetTOCConfig :: "IdentScreenName \<Rightarrow> bytes \<Rightarrow> Store \<Rightarrow> store_error option \<times> Store" where
  "SetTOCConfig sn config S = update_found sn (\<lambda>u. u\<lparr>TOCConfig := config\<rparr>) S"

text \<open>The time is kept in whole seconds.\<close>

definition SetWarnLevel :: "IdentScreenName \<Rightarrow> int \<Rightarrow> u16 \<Rightarrow> Store \<Rightarrow> store_error option \<times> Store" where
  "SetWarnLevel sn lastWarnUpdate level S = update_found sn (\<lambda>u. u\<lparr>LastWarnUpdate := Some (Unix lastWarnUpdate * 10 ^ 9),
     LastWarnLevel := level\<rparr>) S"
definition SetOfflineMsgCount :: "IdentScreenName \<Rightarrow> int \<Rightarrow> Store \<Rightarrow> store_error option \<times> Store" where
  "SetOfflineMsgCount sn n S = update_found sn (\<lambda>u. u\<lparr>OfflineMsgCount := n\<rparr>) S"

section \<open>Contact authorisation\<close>

definition RequiresAuthorization :: "unicode_tables \<Rightarrow> IdentScreenName \<Rightarrow> IdentScreenName \<Rightarrow> Store \<Rightarrow> bool" where
  "RequiresAuthorization t owner requester S =
     (case store_User t owner S of
        None \<Rightarrow> False
      | Some u \<Rightarrow> perm_AuthRequired (Permissions (Info u)) \<and>
          \<not> list_ex (\<lambda>p. p = (screenName owner, screenName requester)) (preauth_rows S))"

text \<open>\<open>INSERT OR IGNORE\<close>; a violated foreign key is ignored too.\<close>

definition insert_pair :: "bytes \<times> bytes \<Rightarrow> Store \<Rightarrow> (bytes \<times> bytes) list \<Rightarrow> (bytes \<times> bytes) list" where
  "insert_pair p S rs =
     (if list_ex (\<lambda>q. q = p) rs \<or> \<not> user_exists (fst p) S \<or> \<not> user_exists (snd p) S then rs else rs @ [p])"

definition RecordPreAuth :: "IdentScreenName \<Rightarrow> IdentScreenName \<Rightarrow> Store \<Rightarrow> Store" where
  "RecordPreAuth owner requester S =
     S\<lparr>preauth_rows := insert_pair (screenName owner, screenName requester) S (preauth_rows S)\<rparr>"

definition HasBuddyAddedNotification :: "IdentScreenName \<Rightarrow> IdentScreenName \<Rightarrow> Store \<Rightarrow> bool" where
  "HasBuddyAddedNotification granter requester S \<longleftrightarrow>
     list_ex (\<lambda>p. p = (screenName granter, screenName requester)) (added_rows S)"

definition RecordBuddyAddedNotification :: "IdentScreenName \<Rightarrow> IdentScreenName \<Rightarrow> Store \<Rightarrow> Store" where
  "RecordBuddyAddedNotification granter requester S =
     S\<lparr>added_rows := insert_pair (screenName granter, screenName requester) S (added_rows S)\<rparr>"

section \<open>Profiles and BART assets\<close>

definition store_Profile :: "IdentScreenName \<Rightarrow> Store \<Rightarrow> UserProfile" where
  "store_Profile sn S =
     (case find (\<lambda>r. pr_screenName r = screenName sn) (profile_rows S) of
        None \<Rightarrow> \<lparr>ProfileText = [], MIMEType = [], UpdateTime = None\<rparr>
      | Some r \<Rightarrow> \<lparr>ProfileText = pr_body r, MIMEType = pr_mimeType r,
          UpdateTime = (if pr_updateTime r > 0 then Some (pr_updateTime r * 10 ^ 9) else None)\<rparr>)"

definition SetProfile :: "IdentScreenName \<Rightarrow> UserProfile \<Rightarrow> Store \<Rightarrow> Store" where
  "SetProfile sn p S =
     (let row = \<lparr>pr_screenName = screenName sn, pr_body = ProfileText p, pr_mimeType = MIMEType p,
        pr_updateTime = (case UpdateTime p of None \<Rightarrow> 0 | Some n \<Rightarrow> Unix n)\<rparr>
      in S\<lparr>profile_rows := upsert (\<lambda>r. pr_screenName r = screenName sn) row (\<lambda>_. row) (profile_rows S)\<rparr>)"

definition InsertBARTItem :: "bytes \<Rightarrow> bytes \<Rightarrow> u16 \<Rightarrow> Store \<Rightarrow> store_error option \<times> Store" where
  "InsertBARTItem hash blob typ S =
     (if list_ex (\<lambda>r. ba_hash r = hash) (bart_rows S) then (Some ErrBARTItemExists, S)
      else (None, S\<lparr>bart_rows := bart_rows S @ [\<lparr>ba_hash = hash, ba_body = blob, ba_type = typ\<rparr>]\<rparr>))"

definition BARTItem :: "bytes \<Rightarrow> Store \<Rightarrow> bytes" where
  "BARTItem hash S = (case find (\<lambda>r. ba_hash r = hash) (bart_rows S) of None \<Rightarrow> [] | Some r \<Rightarrow> ba_body r)"

definition ListBARTItems :: "u16 \<Rightarrow> Store \<Rightarrow> (bytes \<times> u16) list" where
  "ListBARTItems typ S = map (\<lambda>r. (ba_hash r, ba_type r)) (filter (\<lambda>r. ba_type r = typ) (bart_rows S))"

definition DeleteBARTItem :: "bytes \<Rightarrow> Store \<Rightarrow> store_error option \<times> Store" where
  "DeleteBARTItem hash S =
     (if list_ex (\<lambda>r. ba_hash r = hash) (bart_rows S)
      then (None, S\<lparr>bart_rows := delete_where (\<lambda>r. ba_hash r = hash) (bart_rows S)\<rparr>)
      else (Some ErrBARTItemNotFound, S))"

text \<open>The icon item of a feedbag is the BART item whose name is the number of its type.\<close>

definition BuddyIconMetadata :: "IdentScreenName \<Rightarrow> 'z BuddyTables_scheme \<Rightarrow> (store_error + BARTID option) outcome" where
  "BuddyIconMetadata sn T =
     (case find (\<lambda>r. fr_screenName r = screenName sn \<and> fr_name r = decimal_string (unat BARTTypesBuddyIcon) \<and>
         fr_classID r = FeedbagClassIdBart) (feedbag_rows T) of
        None \<Rightarrow> Ok (Inr None)
      | Some r \<Rightarrow> bind_out (row_item r) (\<lambda>x.
          case x of
            Inl e \<Rightarrow> Ok (Inl e)
          | Inr i \<Rightarrow>
              (case TLVList_Bytes FeedbagAttributesBartInfo (Attrs i) of
                 None \<Rightarrow> Ok (Inl NoIconPayload)
               | Some b \<Rightarrow>
                   (case fst (UnmarshalBE BARTInfo_ty b) of
                      Ok v \<Rightarrow> Ok (Inr (Some \<lparr>bart_Type = BARTTypesBuddyIcon, bart_Flags = vu8 (vfield 0 v),
                                bart_Hash = val_bytes (vfield 1 v)\<rparr>))
                    | Err e \<Rightarrow> Ok (Inl (StoreUnmarshal e))
                    | Panic \<Rightarrow> Panic
                    | Hang \<Rightarrow> Hang))))"

section \<open>Offline messages\<close>

record ChannelMsgToHost =
  cm_Cookie :: u64
  cm_ChannelID :: u16
  cm_ScreenName :: bytes
  cm_TLVList :: TLVList

definition ChannelMsgToHost_val :: "ChannelMsgToHost \<Rightarrow> val" where
  "ChannelMsgToHost_val m = VStruct [VU64 (cm_Cookie m), VU16 (cm_ChannelID m), VString (cm_ScreenName m),
     VStruct [tlvs_val (cm_TLVList m)]]"

definition val_ChannelMsgToHost :: "val \<Rightarrow> ChannelMsgToHost" where
  "val_ChannelMsgToHost v = \<lparr>cm_Cookie = vu64 (vfield 0 v), cm_ChannelID = vu16 (vfield 1 v),
     cm_ScreenName = vstring (vfield 2 v), cm_TLVList = val_tlvs (vfield 0 (vfield 3 v))\<rparr>"

record OfflineMessage =
  om_Sender :: IdentScreenName
  om_Recipient :: IdentScreenName
  om_Message :: ChannelMsgToHost
  om_Sent :: int

definition offlineInboxLimit :: nat where "offlineInboxLimit = 10"

definition SaveMessage :: "OfflineMessage \<Rightarrow> Store \<Rightarrow> ((store_error + int) \<times> Store) outcome" where
  "SaveMessage m S =
     (case MarshalBE (Some (SNAC_0x04_0x06_ICBMChannelMsgToHost_ty, ChannelMsgToHost_val (om_Message m))) of
        (_, Err e) \<Rightarrow> Ok (Inl (StoreMarshal e), S)
      | (_, Panic) \<Rightarrow> Panic
      | (_, Hang) \<Rightarrow> Hang
      | (buf, Ok _) \<Rightarrow>
          let s = screenName (om_Sender m); r = screenName (om_Recipient m);
              currentCount = length (filter (\<lambda>o'. of_sender o' = s \<and> of_recipient o' = r) (offline_rows S)) in
          if currentCount \<ge> offlineInboxLimit then Ok (Inl ErrOfflineInboxFull, S)
          else if \<not> user_exists s S \<or> \<not> user_exists r S then Ok (Inl ErrNoUser, S)
          else
            let newCount = int currentCount + 1 in
            Ok (Inr newCount, update_user (om_Recipient m) (\<lambda>u. u\<lparr>OfflineMsgCount := newCount\<rparr>)
              (S\<lparr>offline_rows := offline_rows S @ [\<lparr>of_sender = s, of_recipient = r, of_message = buf,
                 of_sent = om_Sent m\<rparr>]\<rparr>)))"

fun read_offline :: "unicode_tables \<Rightarrow> IdentScreenName \<Rightarrow> OfflineRow list \<Rightarrow>
    (store_error + OfflineMessage list) outcome" where
  "read_offline t recip [] = Ok (Inr [])"
| "read_offline t recip (r # rs) =
     (case fst (UnmarshalBE SNAC_0x04_0x06_ICBMChannelMsgToHost_ty (of_message r)) of
        Err e \<Rightarrow> Ok (Inl (StoreUnmarshal e))
      | Panic \<Rightarrow> Panic
      | Hang \<Rightarrow> Hang
      | Ok v \<Rightarrow> bind_out (read_offline t recip rs) (\<lambda>x.
          Ok (case x of
                Inl e \<Rightarrow> Inl e
              | Inr ms \<Rightarrow> Inr (\<lparr>om_Sender = NewIdentScreenName t (of_sender r), om_Recipient = recip,
                  om_Message = val_ChannelMsgToHost v, om_Sent = of_sent r\<rparr> # ms))))"

definition RetrieveMessages :: "unicode_tables \<Rightarrow> IdentScreenName \<Rightarrow> Store \<Rightarrow> (store_error + OfflineMessage list) outcome" where
  "RetrieveMessages t recip S =
     read_offline t recip (filter (\<lambda>r. of_recipient r = screenName recip) (offline_rows S))"

definition DeleteMessages :: "IdentScreenName \<Rightarrow> Store \<Rightarrow> Store" where
  "DeleteMessages recip S = S\<lparr>offline_rows := delete_where (\<lambda>r. of_recipient r = screenName recip) (offline_rows S)\<rparr>"

section \<open>Chat rooms\<close>

text \<open>Cookies and names are unique as they are written, and looked up without regard to ASCII case.\<close>

definition ChatRoomByCookie :: "unicode_tables \<Rightarrow> bytes \<Rightarrow> Store \<Rightarrow> store_error + ChatRoom" where
  "ChatRoomByCookie t chatCookie S =
     (case find (\<lambda>r. sql_lower (ch_cookie r) = sql_lower chatCookie) (chat_rows S) of
        None \<Rightarrow> Inl ErrChatRoomNotFound
      | Some r \<Rightarrow> Inr \<lparr>createTime = ch_created r, creator = NewIdentScreenName t (ch_creator r),
          exchange = ch_exchange r, room_name = ch_name r\<rparr>)"

definition ChatRoomByName :: "unicode_tables \<Rightarrow> u16 \<Rightarrow> bytes \<Rightarrow> Store \<Rightarrow> store_error + ChatRoom" where
  "ChatRoomByName t ex n S =
     (case find (\<lambda>r. ch_exchange r = ex \<and> sql_lower (ch_name r) = sql_lower n) (chat_rows S) of
        None \<Rightarrow> Inl ErrChatRoomNotFound
      | Some r \<Rightarrow> Inr \<lparr>createTime = ch_created r, creator = NewIdentScreenName t (ch_creator r),
          exchange = ex, room_name = ch_name r\<rparr>)"

text \<open>The room is returned too, since the creation time is set through the pointer.\<close>

definition CreateChatRoom :: "int \<Rightarrow> ChatRoom \<Rightarrow> Store \<Rightarrow> (store_error option \<times> ChatRoom) \<times> Store" where
  "CreateChatRoom now cr S =
     (let room' = cr\<lparr>createTime := now\<rparr> in
      if list_ex (\<lambda>r. ch_cookie r = Cookie room' \<or> ch_exchange r = exchange room' \<and> ch_name r = room_name room') (chat_rows S)
      then ((Some ErrDupChatRoom, room'), S)
      else ((None, room'), S\<lparr>chat_rows := chat_rows S @ [\<lparr>ch_cookie = Cookie room', ch_exchange = exchange room',
        ch_name = room_name room', ch_created = now, ch_creator = screenName (creator room')\<rparr>]\<rparr>))"

definition AllChatRooms :: "unicode_tables \<Rightarrow> u16 \<Rightarrow> Store \<Rightarrow> ChatRoom list" where
  "AllChatRooms t ex S = map (\<lambda>r. \<lparr>createTime = ch_created r, creator = NewIdentScreenName t (ch_creator r),
     exchange = ex, room_name = ch_name r\<rparr>)
     (sort_key ch_created (filter (\<lambda>r. ch_exchange r = ex) (chat_rows S)))"

definition DeleteChatRooms :: "u16 \<Rightarrow> bytes list \<Rightarrow> Store \<Rightarrow> Store" where
  "DeleteChatRooms ex names S =
     (if names = [] then S
      else S\<lparr>chat_rows := delete_where (\<lambda>r. ch_exchange r = ex \<and> ch_name r \<in> set names) (chat_rows S)\<rparr>)"

section \<open>Directory keywords\<close>

fun insert_sorted :: "('a \<Rightarrow> 'a \<Rightarrow> bool) \<Rightarrow> 'a \<Rightarrow> 'a list \<Rightarrow> 'a list" where
  "insert_sorted le x [] = [x]"
| "insert_sorted le x (y # ys) = (if le x y then x # y # ys else y # insert_sorted le x ys)"

definition sort_rows :: "('a \<Rightarrow> 'a \<Rightarrow> bool) \<Rightarrow> 'a list \<Rightarrow> 'a list" where
  "sort_rows le xs = foldr (insert_sorted le) xs []"

definition SetKeywords :: "IdentScreenName \<Rightarrow> bytes list \<Rightarrow> Store \<Rightarrow> Store" where
  "SetKeywords sn keywords S = S\<lparr>user_rows := update_where (\<lambda>r. row_name r = screenName sn)
     (\<lambda>r. r\<lparr>row_keywords := map (\<lambda>k. keyword_id k S) keywords\<rparr>) (user_rows S)\<rparr>"

definition Categories :: "Store \<Rightarrow> (u8 \<times> bytes) list" where
  "Categories S = map (\<lambda>(i, n). (word_of_nat i, n)) (sort_rows (\<lambda>a b. bytes_le (snd a) (snd b)) (category_rows S))"

definition next_id :: "nat list \<Rightarrow> nat" where
  "next_id ids = (case ids of [] \<Rightarrow> 1 | i # is \<Rightarrow> fold max is i + 1)"

definition CreateCategory :: "bytes \<Rightarrow> Store \<Rightarrow> (store_error + u8 \<times> bytes) \<times> Store" where
  "CreateCategory n S =
     (let i = next_id (map fst (category_rows S)) in
      if list_ex (\<lambda>c. snd c = n) (category_rows S) then (Inl ErrKeywordCategoryExists, S)
      else if i > 255 then (Inl ErrTooManyCategories, S)
      else (Inr (word_of_nat i, n), S\<lparr>category_rows := category_rows S @ [(i, n)]\<rparr>))"

definition keyword_in_use :: "nat \<Rightarrow> Store \<Rightarrow> bool" where
  "keyword_in_use i S \<longleftrightarrow> list_ex (\<lambda>r. Some i \<in> set (row_keywords r)) (user_rows S)"

text \<open>Deleting a category deletes its keywords, which fails if a user has one.\<close>

definition DeleteCategory :: "u8 \<Rightarrow> Store \<Rightarrow> store_error option \<times> Store" where
  "DeleteCategory i S =
     (if list_ex (\<lambda>k. kw_parent k = Some (unat i) \<and> keyword_in_use (kw_id k) S) (keyword_rows S) \<and>
         list_ex (\<lambda>c. fst c = unat i) (category_rows S) then (Some ErrKeywordInUse, S)
      else if \<not> list_ex (\<lambda>c. fst c = unat i) (category_rows S) then (Some ErrKeywordCategoryNotFound, S)
      else (None, S\<lparr>category_rows := delete_where (\<lambda>c. fst c = unat i) (category_rows S),
        keyword_rows := delete_where (\<lambda>k. kw_parent k = Some (unat i)) (keyword_rows S)\<rparr>))"

definition KeywordsByCategory :: "u8 \<Rightarrow> Store \<Rightarrow> store_error + (u8 \<times> bytes) list" where
  "KeywordsByCategory i S =
     (let ks = filter (\<lambda>k. kw_parent k = (if i = 0 then None else Some (unat i))) (keyword_rows S) in
      if ks = [] \<and> \<not> list_ex (\<lambda>c. fst c = unat i) (category_rows S) then Inl ErrKeywordCategoryNotFound
      else Inr (map (\<lambda>k. (word_of_nat (kw_id k), kw_name k)) (sort_rows (\<lambda>a b. bytes_le (kw_name a) (kw_name b)) ks)))"

definition CreateKeyword :: "bytes \<Rightarrow> u8 \<Rightarrow> Store \<Rightarrow> (store_error + u8 \<times> bytes) \<times> Store" where
  "CreateKeyword n cat S =
     (let i = next_id (map kw_id (keyword_rows S)) in
      if list_ex (\<lambda>k. kw_name k = n) (keyword_rows S) then (Inl ErrKeywordExists, S)
      else if cat \<noteq> 0 \<and> \<not> list_ex (\<lambda>c. fst c = unat cat) (category_rows S) then (Inl ErrKeywordCategoryNotFound, S)
      else if i > 255 then (Inl ErrTooManyKeywords, S)
      else (Inr (word_of_nat i, n), S\<lparr>keyword_rows := keyword_rows S @
        [\<lparr>kw_id = i, kw_name = n, kw_parent = (if cat = 0 then None else Some (unat cat))\<rparr>]\<rparr>))"

definition DeleteKeyword :: "u8 \<Rightarrow> Store \<Rightarrow> store_error option \<times> Store" where
  "DeleteKeyword i S =
     (if keyword_in_use (unat i) S \<and> list_ex (\<lambda>k. kw_id k = unat i) (keyword_rows S) then (Some ErrKeywordInUse, S)
      else if \<not> list_ex (\<lambda>k. kw_id k = unat i) (keyword_rows S) then (Some ErrKeywordNotFound, S)
      else (None, S\<lparr>keyword_rows := delete_where (\<lambda>k. kw_id k = unat i) (keyword_rows S)\<rparr>))"

text \<open>
  The interest list: categories, the keywords of each behind it, and keywords without category by
  themselves. A row is its group, its rank in it, its name and the category number.
\<close>

definition ODirKeyword :: u8 where "ODirKeyword = 2"
definition ODirKeywordCategory :: u8 where "ODirKeywordCategory = 1"

definition interest_row :: "KeywordRow \<Rightarrow> Store \<Rightarrow> bytes \<times> nat \<times> bytes \<times> nat" where
  "interest_row k S =
     (case kw_parent k of
        None \<Rightarrow> (kw_name k, 1, kw_name k, 0)
      | Some p \<Rightarrow> ((case find (\<lambda>c. fst c = p) (category_rows S) of Some c \<Rightarrow> snd c | None \<Rightarrow> kw_name k), 2, kw_name k, p))"

definition interest_le :: "bytes \<times> nat \<times> bytes \<times> nat \<Rightarrow> bytes \<times> nat \<times> bytes \<times> nat \<Rightarrow> bool" where
  "interest_le = (\<lambda>(g, p, n, _) (g', p', n', _).
     if g \<noteq> g' then bytes_le g g' else if p \<noteq> p' then p < p' else bytes_le n n')"

definition InterestList :: "Store \<Rightarrow> (u8 \<times> u8 \<times> bytes) list" where
  "InterestList S = map (\<lambda>(_, p, n, i). (if p = 0 then ODirKeywordCategory else ODirKeyword, word_of_nat i, n))
     (sort_rows interest_le (remdups (map (\<lambda>c. (snd c, 0, snd c, fst c)) (category_rows S) @
        map (\<lambda>k. interest_row k S) (keyword_rows S))))"

end
