(* ===== verification/StoreProperties.thy ===== *)
theory StoreProperties
  imports UserStore
begin

text \<open>
  What the user store guarantees: the statements keep the constraints that the schema declares and
  those that only the code keeps (the limit of an inbox, numbers of keywords that fit a byte), and an
  offline message is read back as it was saved.
\<close>

section \<open>The constraints of the schema\<close>

definition keys_ok :: "Store \<Rightarrow> bool" where
  "keys_ok S \<longleftrightarrow> distinct (map row_name (user_rows S)) \<and> distinct (map pr_screenName (profile_rows S)) \<and>
     distinct (map ba_hash (bart_rows S)) \<and> distinct (preauth_rows S) \<and> distinct (added_rows S) \<and>
     distinct (map ch_cookie (chat_rows S)) \<and> distinct (map (\<lambda>r. (ch_exchange r, ch_name r)) (chat_rows S))"

definition users_ok :: "Store \<Rightarrow> bool" where
  "users_ok S \<longleftrightarrow> (\<forall>m \<in> set (offline_rows S). user_exists (of_sender m) S \<and> user_exists (of_recipient m) S) \<and>
     (\<forall>p \<in> set (preauth_rows S) \<union> set (added_rows S). user_exists (fst p) S \<and> user_exists (snd p) S)"

definition pair_count :: "bytes \<Rightarrow> bytes \<Rightarrow> Store \<Rightarrow> nat" where
  "pair_count s r S = length (filter (\<lambda>m. of_sender m = s \<and> of_recipient m = r) (offline_rows S))"

definition inbox_ok :: "Store \<Rightarrow> bool" where
  "inbox_ok S \<longleftrightarrow> (\<forall>s r. pair_count s r S \<le> offlineInboxLimit)"

definition keywords_ok :: "Store \<Rightarrow> bool" where
  "keywords_ok S \<longleftrightarrow> distinct (map fst (category_rows S)) \<and> distinct (map snd (category_rows S)) \<and>
     distinct (map kw_id (keyword_rows S)) \<and> distinct (map kw_name (keyword_rows S)) \<and>
     (\<forall>i \<in> fst ` set (category_rows S) \<union> kw_id ` set (keyword_rows S). 0 < i \<and> i < 256) \<and>
     (\<forall>k \<in> set (keyword_rows S). \<forall>p. kw_parent k = Some p \<longrightarrow> p \<in> fst ` set (category_rows S)) \<and>
     (\<forall>r \<in> set (user_rows S). \<forall>i. Some i \<in> set (row_keywords r) \<longrightarrow> i \<in> kw_id ` set (keyword_rows S))"

definition schema_ok :: "Store \<Rightarrow> bool" where
  "schema_ok S \<longleftrightarrow> keys_ok S \<and> users_ok S \<and> inbox_ok S \<and> keywords_ok S"

lemmas store_defs = schema_ok_def keys_ok_def users_ok_def inbox_ok_def pair_count_def keywords_ok_def

lemma distinct_delete [simp]: "distinct xs \<Longrightarrow> distinct (delete_where P xs)"
  by (simp add: delete_where_def)

definition used_keywords :: "Store \<Rightarrow> nat set" where
  "used_keywords S = {i. keyword_in_use i S}"

lemma used_ok: "(\<forall>r \<in> set (user_rows S). \<forall>i. Some i \<in> set (row_keywords r) \<longrightarrow> i \<in> A) \<longleftrightarrow> used_keywords S \<subseteq> A"
  by (auto simp: used_keywords_def keyword_in_use_def list_ex_iff)

lemma used_frame [simp]:
  "used_keywords (S\<lparr>category_rows := cs\<rparr>) = used_keywords S" "used_keywords (S\<lparr>keyword_rows := ks\<rparr>) = used_keywords S"
  by (simp_all add: used_keywords_def keyword_in_use_def)

definition kw_tables :: "(nat \<times> bytes) list \<Rightarrow> KeywordRow list \<Rightarrow> nat set \<Rightarrow> bool" where
  "kw_tables cs ks U \<longleftrightarrow> distinct (map fst cs) \<and> distinct (map snd cs) \<and> distinct (map kw_id ks) \<and> distinct (map kw_name ks) \<and>
     (\<forall>i \<in> fst ` set cs \<union> kw_id ` set ks. 0 < i \<and> i < 256) \<and>
     (\<forall>k \<in> set ks. \<forall>p. kw_parent k = Some p \<longrightarrow> p \<in> fst ` set cs) \<and> U \<subseteq> kw_id ` set ks"

lemma keywords_ok_tables: "keywords_ok S \<longleftrightarrow> kw_tables (category_rows S) (keyword_rows S) (used_keywords S)"
  unfolding keywords_ok_def kw_tables_def used_ok ..

lemma kw_tables_used: "kw_tables cs ks U \<Longrightarrow> U' \<subseteq> U \<Longrightarrow> kw_tables cs ks U'"
  by (auto simp: kw_tables_def)

lemma kw_tables_category:
  "kw_tables cs ks U \<Longrightarrow> i \<notin> fst ` set cs \<Longrightarrow> n \<notin> snd ` set cs \<Longrightarrow> 0 < i \<Longrightarrow> i < 256 \<Longrightarrow> kw_tables (cs @ [(i, n)]) ks U"
  by (auto simp: kw_tables_def)

lemma kw_tables_keyword:
  assumes "kw_tables cs ks U" and "kw_id k \<notin> kw_id ` set ks" and "kw_name k \<notin> kw_name ` set ks" and "0 < kw_id k" and "kw_id k < 256"
    and "\<And>p. kw_parent k = Some p \<Longrightarrow> p \<in> fst ` set cs"
  shows "kw_tables cs (ks @ [k]) U"
  using assms by (auto simp: kw_tables_def)

lemma kw_tables_delete:
  assumes "kw_tables cs ks U" and "\<forall>k \<in> set ks. P k \<longrightarrow> kw_id k \<notin> U"
    and "\<forall>k \<in> set ks. \<forall>p. \<not> P k \<longrightarrow> kw_parent k = Some p \<longrightarrow> \<not> Q p"
  shows "kw_tables (delete_where (\<lambda>c. Q (fst c)) cs) (delete_where P ks) U"
proof -
  have "i \<in> kw_id ` set (delete_where P ks)" if "i \<in> U" for i
  proof -
    have "i \<in> kw_id ` set ks" using assms(1) that by (auto simp: kw_tables_def)
    then show ?thesis using assms(2) that by (auto simp: delete_where_def)
  qed
  then have "U \<subseteq> kw_id ` set (delete_where P ks)" by blast
  moreover have "\<forall>k \<in> set (delete_where P ks). \<forall>p. kw_parent k = Some p \<longrightarrow> p \<in> fst ` set (delete_where (\<lambda>c. Q (fst c)) cs)"
  proof (intro ballI allI impI)
    fix k p assume k: "k \<in> set (delete_where P ks)" "kw_parent k = Some p"
    then have "k \<in> set ks" "\<not> P k" by (auto simp: delete_where_def)
    then have "p \<in> fst ` set cs" "\<not> Q p" using assms(1,3) k(2) unfolding kw_tables_def by blast+
    then show "p \<in> fst ` set (delete_where (\<lambda>c. Q (fst c)) cs)" by (auto simp: delete_where_def)
  qed
  moreover have "\<forall>i \<in> fst ` set (delete_where (\<lambda>c. Q (fst c)) cs) \<union> kw_id ` set (delete_where P ks). 0 < i \<and> i < 256"
    using assms(1) by (auto simp: kw_tables_def delete_where_def)
  moreover have "distinct (map fst (delete_where (\<lambda>c. Q (fst c)) cs))" "distinct (map snd (delete_where (\<lambda>c. Q (fst c)) cs))"
      "distinct (map kw_id (delete_where P ks))" "distinct (map kw_name (delete_where P ks))"
    using assms(1) by (simp_all add: kw_tables_def distinct_delete_where)
  ultimately show ?thesis unfolding kw_tables_def by (intro conjI)
qed


lemma user_exists_names: "user_exists n S \<longleftrightarrow> n \<in> set (map row_name (user_rows S))"
  by (auto simp: user_exists_def list_ex_iff)

text \<open>A change of a user that keeps the name.\<close>

lemma names_update: "(\<And>u. Ident (f u) = Ident u) \<Longrightarrow> map row_name (user_rows (update_user sn f S)) = map row_name (user_rows S)"
  unfolding update_user_def by (simp, rule map_update_where) (simp add: row_name_def)

lemma keywords_update: "map row_keywords (user_rows (update_user sn f S)) = map row_keywords (user_rows S)"
  unfolding update_user_def by (simp, rule map_update_where) simp

lemma users_keywords: "(\<forall>r \<in> set (user_rows S). \<forall>i. Some i \<in> set (row_keywords r) \<longrightarrow> P i) \<longleftrightarrow>
    (\<forall>ks \<in> set (map row_keywords (user_rows S)). \<forall>i. Some i \<in> set ks \<longrightarrow> P i)"
  by simp

lemma tables_update [simp]:
  "profile_rows (update_user sn f S) = profile_rows S" "bart_rows (update_user sn f S) = bart_rows S"
  "preauth_rows (update_user sn f S) = preauth_rows S" "added_rows (update_user sn f S) = added_rows S"
  "chat_rows (update_user sn f S) = chat_rows S" "offline_rows (update_user sn f S) = offline_rows S"
  "category_rows (update_user sn f S) = category_rows S" "keyword_rows (update_user sn f S) = keyword_rows S"
  by (simp_all add: update_user_def)

lemma schema_ok_update:
  assumes "\<And>u. Ident (f u) = Ident u" and "schema_ok S"
  shows "schema_ok (update_user sn f S)"
  using assms(2) unfolding store_defs user_exists_names users_keywords names_update [OF assms(1)] keywords_update tables_update .

lemma schema_ok_found:
  assumes "\<And>u. Ident (f u) = Ident u" and "schema_ok S"
  shows "schema_ok (snd (update_found sn f S))"
  using schema_ok_update [OF assms] assms(2) by (simp add: update_found_def)

section \<open>The statements that change the tables\<close>

inductive store_step :: "unicode_tables \<Rightarrow> digest \<Rightarrow> Store \<Rightarrow> Store \<Rightarrow> bool" for t :: unicode_tables and md5 :: digest where
  "store_step t md5 S (snd (InsertUser t u S))"
| "store_step t md5 S (snd (DeleteUser sn S))"
| "store_step t md5 S (snd (SetUserPassword md5 sn pw S))"
| "store_step t md5 S (UpdateDisplayScreenName t d S)"
| "store_step t md5 S (UpdateEmailAddress sn e S)"
| "store_step t md5 S (UpdateRegStatus sn st S)"
| "store_step t md5 S (UpdateConfirmStatus sn b S)"
| "store_step t md5 S (UpdateSuspendedStatus st sn S)"
| "store_step t md5 S (SetBotStatus b sn S)"
| "store_step t md5 S (snd (SetDirectoryInfo sn dir S))"
| "store_step t md5 S (snd (SetBasicInfo sn bi S))"
| "store_step t md5 S (snd (SetICQInfo sn info S))"
| "store_step t md5 S (snd (SetTOCConfig sn config S))"
| "store_step t md5 S (snd (SetWarnLevel sn time level S))"
| "store_step t md5 S (snd (SetOfflineMsgCount sn n S))"
| "store_step t md5 S (RecordPreAuth a b S)"
| "store_step t md5 S (RecordBuddyAddedNotification a b S)"
| "store_step t md5 S (SetProfile sn p S)"
| "store_step t md5 S (snd (InsertBARTItem hash blob typ S))"
| "store_step t md5 S (snd (DeleteBARTItem hash S))"
| "SaveMessage m S = Ok (x, S') \<Longrightarrow> store_step t md5 S S'"
| "store_step t md5 S (DeleteMessages sn S)"
| "store_step t md5 S (snd (CreateChatRoom now cr S))"
| "store_step t md5 S (DeleteChatRooms ex names S)"
| "store_step t md5 S (SetKeywords sn ks S)"
| "store_step t md5 S (snd (CreateCategory n S))"
| "store_step t md5 S (snd (DeleteCategory i S))"
| "store_step t md5 S (snd (CreateKeyword n i S))"
| "store_step t md5 S (snd (DeleteKeyword i S))"

lemma user_exists_append: "user_exists n (S\<lparr>user_rows := user_rows S @ rs\<rparr>) \<longleftrightarrow> user_exists n S \<or> n \<in> set (map row_name rs)"
  by (auto simp: user_exists_names)

lemma ok_InsertUser:
  assumes "schema_ok S"
  shows "schema_ok (snd (InsertUser t u S))"
proof (cases "IsUIN t (Display u) \<and> \<not> IsICQ u \<or> user_exists (screenName (Ident u)) S")
  case False
  let ?S = "S\<lparr>user_rows := user_rows S @ [\<lparr>row_user = fresh_user u, row_keywords = replicate 5 None\<rparr>]\<rparr>"
  have "keys_ok ?S" using assms False by (simp add: schema_ok_def keys_ok_def user_exists_names row_name_def fresh_user_def image_iff)
  moreover have "users_ok ?S" using assms by (simp add: schema_ok_def users_ok_def user_exists_append)
  moreover have "inbox_ok ?S" using assms by (simp add: schema_ok_def inbox_ok_def pair_count_def)
  moreover have "keywords_ok ?S" using assms by (simp add: schema_ok_def keywords_ok_def ball_Un)
  ultimately show ?thesis using False by (auto simp: InsertUser_def schema_ok_def)
qed (use assms in \<open>auto simp: InsertUser_def\<close>)

lemma filter_pair_le: "length (filter P (delete_where Q xs)) \<le> length (filter P xs)"
  by (induction xs) (auto simp: delete_where_def)

lemma delete_where_set [simp]: "set (delete_where P xs) = {x \<in> set xs. \<not> P x}"
  by (auto simp: delete_where_def)

lemma inbox_delete:
  assumes "inbox_ok S" and "offline_rows S' = delete_where Q (offline_rows S)"
  shows "inbox_ok S'"
proof -
  have "pair_count s r S' \<le> pair_count s r S" for s r
    unfolding pair_count_def assms(2) by (rule filter_pair_le)
  then show ?thesis using assms(1) le_trans unfolding inbox_ok_def by blast
qed

lemma ok_DeleteUser:
  assumes "schema_ok S"
  shows "schema_ok (snd (DeleteUser sn S))"
proof (cases "user_exists (screenName sn) S")
  case True
  define S' where "S' = snd (DeleteUser sn S)"
  have S': "user_rows S' = delete_where (\<lambda>r. row_name r = screenName sn) (user_rows S)"
      "preauth_rows S' = delete_where (\<lambda>(a, b). a = screenName sn \<or> b = screenName sn) (preauth_rows S)"
      "added_rows S' = delete_where (\<lambda>(a, b). a = screenName sn \<or> b = screenName sn) (added_rows S)"
      "offline_rows S' = delete_where (\<lambda>r. of_sender r = screenName sn \<or> of_recipient r = screenName sn) (offline_rows S)"
      "profile_rows S' = profile_rows S" "bart_rows S' = bart_rows S" "chat_rows S' = chat_rows S"
      "category_rows S' = category_rows S" "keyword_rows S' = keyword_rows S"
    using True by (simp_all add: S'_def DeleteUser_def Let_def)
  have ex: "user_exists n S' \<longleftrightarrow> user_exists n S \<and> n \<noteq> screenName sn" for n
    by (auto simp: user_exists_names S')
  have "keys_ok S'" using assms by (simp add: schema_ok_def keys_ok_def S' distinct_delete_where)
  moreover have "users_ok S'" using assms by (auto simp: schema_ok_def users_ok_def S' ex)
  moreover have "inbox_ok S'" using assms inbox_delete [OF _ S'(4)] by (simp add: schema_ok_def)
  moreover have "used_keywords S' \<subseteq> used_keywords S" by (auto simp: used_keywords_def keyword_in_use_def list_ex_iff S')
  then have "keywords_ok S'" using assms kw_tables_used [of "category_rows S" "keyword_rows S" "used_keywords S" "used_keywords S'"] by (simp add: schema_ok_def keywords_ok_tables S')
  ultimately show ?thesis by (simp add: schema_ok_def S'_def)
qed (use assms in \<open>simp add: DeleteUser_def\<close>)

lemma ok_DeleteMessages:
  assumes "schema_ok S"
  shows "schema_ok (DeleteMessages sn S)"
  using assms inbox_delete [of S "DeleteMessages sn S" "\<lambda>r. of_recipient r = screenName sn"]
  by (auto simp: schema_ok_def keys_ok_def users_ok_def keywords_ok_def DeleteMessages_def user_exists_def)

lemma pair_count_append: "pair_count s r (S\<lparr>offline_rows := offline_rows S @ [m]\<rparr>) =
    pair_count s r S + (if of_sender m = s \<and> of_recipient m = r then 1 else 0)"
  by (simp add: pair_count_def)

lemma ok_SaveMessage:
  assumes "schema_ok S" and "SaveMessage m S = Ok (x, S')"
  shows "schema_ok S'"
proof -
  let ?s = "screenName (om_Sender m)" and ?r = "screenName (om_Recipient m)"
  obtain buf out where w: "MarshalBE (Some (SNAC_0x04_0x06_ICBMChannelMsgToHost_ty, ChannelMsgToHost_val (om_Message m))) = (buf, out)"
    by fastforce
  let ?S = "S\<lparr>offline_rows := offline_rows S @ [\<lparr>of_sender = ?s, of_recipient = ?r, of_message = buf, of_sent = om_Sent m\<rparr>]\<rparr>"
  show ?thesis
  proof (cases "S' = S")
    case False
    have ok: "\<exists>u. out = Ok u" using assms(2) False by (cases out) (auto simp: SaveMessage_def w)
    then have few: "pair_count ?s ?r S < offlineInboxLimit" and ex: "user_exists ?s S" "user_exists ?r S"
      and S': "S' = update_user (om_Recipient m) (\<lambda>u. u\<lparr>OfflineMsgCount := int (pair_count ?s ?r S) + 1\<rparr>) ?S"
      using assms(2) False by (auto simp: SaveMessage_def w Let_def pair_count_def split: if_splits)
    have "keys_ok ?S" "keywords_ok ?S" using assms(1) by (simp_all add: schema_ok_def keys_ok_def keywords_ok_def)
    moreover have "users_ok ?S" using assms(1) ex by (simp add: schema_ok_def users_ok_def user_exists_def)
    moreover have "inbox_ok ?S" using assms(1) few by (simp add: schema_ok_def inbox_ok_def pair_count_append)
    ultimately have "schema_ok ?S" by (simp add: schema_ok_def)
    then show ?thesis unfolding S' by (rule schema_ok_update [rotated]) simp
  qed (use assms in simp)
qed

lemma keyword_id_in: "keyword_id n S = Some i \<Longrightarrow> i \<in> kw_id ` set (keyword_rows S)"
  by (auto simp: keyword_id_def find_Some_iff)

lemma ok_SetKeywords:
  assumes ok: "schema_ok S"
  shows "schema_ok (SetKeywords sn ks S)"
proof -
  have names: "map row_name (user_rows (SetKeywords sn ks S)) = map row_name (user_rows S)"
    unfolding SetKeywords_def by (simp, rule map_update_where) (simp add: row_name_def)
  have kws: "i \<in> kw_id ` set (keyword_rows S)" if "r \<in> set (user_rows (SetKeywords sn ks S))" "Some i \<in> set (row_keywords r)" for r i
    using that ok keyword_id_in [of _ S i] by (auto simp: SetKeywords_def update_where_def schema_ok_def keywords_ok_def split: if_splits)
  have frame: "profile_rows (SetKeywords sn ks S) = profile_rows S" "bart_rows (SetKeywords sn ks S) = bart_rows S"
     "preauth_rows (SetKeywords sn ks S) = preauth_rows S" "added_rows (SetKeywords sn ks S) = added_rows S"
     "chat_rows (SetKeywords sn ks S) = chat_rows S" "offline_rows (SetKeywords sn ks S) = offline_rows S"
     "category_rows (SetKeywords sn ks S) = category_rows S" "keyword_rows (SetKeywords sn ks S) = keyword_rows S"
    by (simp_all add: SetKeywords_def)
  have "keywords_ok (SetKeywords sn ks S)" using ok kws by (simp add: keywords_ok_def schema_ok_def frame)
  then show ?thesis using ok by (simp add: schema_ok_def keys_ok_def users_ok_def inbox_ok_def pair_count_def user_exists_names frame names
      del: set_map)
qed

lemma next_id_fresh: "i \<in> set ids \<Longrightarrow> i < next_id ids"
proof -
  have "x \<le> fold max xs y \<and> (\<forall>a \<in> set xs. a \<le> fold max xs y)" if "x \<le> y" for x y :: nat and xs
    using that by (induction xs arbitrary: x y) (auto simp: le_max_iff_disj)
  then show "i \<in> set ids \<Longrightarrow> i < next_id ids"
    by (cases ids) (auto simp: next_id_def less_Suc_eq_le)
qed

lemma next_id_pos: "0 < next_id ids"
  by (cases ids) (simp_all add: next_id_def)

text \<open>What changes the keyword tables only.\<close>

lemma schema_ok_keywords:
  assumes "schema_ok S"
  shows "keywords_ok (S\<lparr>category_rows := cs\<rparr>) \<Longrightarrow> schema_ok (S\<lparr>category_rows := cs\<rparr>)"
    and "keywords_ok (S\<lparr>keyword_rows := ks\<rparr>) \<Longrightarrow> schema_ok (S\<lparr>keyword_rows := ks\<rparr>)"
    and "keywords_ok (S\<lparr>category_rows := cs, keyword_rows := ks\<rparr>) \<Longrightarrow> schema_ok (S\<lparr>category_rows := cs, keyword_rows := ks\<rparr>)"
  using assms by (simp_all add: schema_ok_def keys_ok_def users_ok_def inbox_ok_def pair_count_def user_exists_def)

lemma ok_CreateCategory:
  assumes "schema_ok S"
  shows "schema_ok (snd (CreateCategory n S))"
proof -
  let ?i = "next_id (map fst (category_rows S))"
  have fresh: "?i \<notin> fst ` set (category_rows S)"
    using next_id_fresh [of ?i "map fst (category_rows S)"] by auto
  show ?thesis
  proof (cases "snd (CreateCategory n S) = S")
    case False
    then have new: "n \<notin> snd ` set (category_rows S)" and i: "?i \<le> 255"
      and eq: "snd (CreateCategory n S) = S\<lparr>category_rows := category_rows S @ [(?i, n)]\<rparr>"
      by (auto simp: CreateCategory_def Let_def list_ex_iff split: if_splits)
    have "keywords_ok (S\<lparr>category_rows := category_rows S @ [(?i, n)]\<rparr>)"
      using assms fresh new i next_id_pos by (simp add: schema_ok_def keywords_ok_tables kw_tables_category)
    then show ?thesis unfolding eq using assms by (rule schema_ok_keywords(1) [rotated])
  qed (use assms in simp)
qed

lemma ok_CreateKeyword:
  assumes "schema_ok S"
  shows "schema_ok (snd (CreateKeyword n c S))"
proof -
  let ?i = "next_id (map kw_id (keyword_rows S))"
  let ?row = "\<lparr>kw_id = ?i, kw_name = n, kw_parent = (if c = 0 then None else Some (unat c))\<rparr>"
  have fresh: "?i \<notin> kw_id ` set (keyword_rows S)"
    using next_id_fresh [of ?i "map kw_id (keyword_rows S)"] by auto
  show ?thesis
  proof (cases "snd (CreateKeyword n c S) = S")
    case False
    then have n: "\<not> list_ex (\<lambda>k. kw_name k = n) (keyword_rows S)" by (simp add: CreateKeyword_def Let_def split: if_split_asm)
    then have c: "c = 0 \<or> list_ex (\<lambda>x. fst x = unat c) (category_rows S)"
      using False by (simp add: CreateKeyword_def Let_def split: if_split_asm)
    then have i: "?i \<le> 255" using False n by (simp add: CreateKeyword_def Let_def split: if_split_asm)
    have eq: "snd (CreateKeyword n c S) = S\<lparr>keyword_rows := keyword_rows S @ [?row]\<rparr>"
      using n c i by (auto simp: CreateKeyword_def Let_def)
    have new: "n \<notin> kw_name ` set (keyword_rows S)" and c: "c = 0 \<or> unat c \<in> fst ` set (category_rows S)"
      using n c by (force simp: list_ex_iff)+
    have "kw_tables (category_rows S) (keyword_rows S @ [?row]) (used_keywords S)"
      using assms fresh new i c next_id_pos
      by - (rule kw_tables_keyword, auto simp: schema_ok_def keywords_ok_tables split: if_splits)
    then have "keywords_ok (S\<lparr>keyword_rows := keyword_rows S @ [?row]\<rparr>)" by (simp add: keywords_ok_tables)
    then show ?thesis unfolding eq using assms by (rule schema_ok_keywords(2) [rotated])
  qed (use assms in simp)
qed

lemma DeleteKeyword_table:
  "snd (DeleteKeyword i S) =
    (if keyword_in_use (unat i) S \<or> \<not> list_ex (\<lambda>k. kw_id k = unat i) (keyword_rows S) then S
     else S\<lparr>keyword_rows := delete_where (\<lambda>k. kw_id k = unat i) (keyword_rows S)\<rparr>)"
  by (cases "keyword_in_use (unat i) S"; cases "list_ex (\<lambda>k. kw_id k = unat i) (keyword_rows S)")
    (simp_all only: DeleteKeyword_def if_True if_False simp_thms snd_conv)

lemma ok_DeleteKeyword:
  assumes "schema_ok S"
  shows "schema_ok (snd (DeleteKeyword i S))"
proof (cases "keyword_in_use (unat i) S")
  case False
  have "kw_tables (delete_where (\<lambda>c. False) (category_rows S)) (delete_where (\<lambda>k. kw_id k = unat i) (keyword_rows S)) (used_keywords S)"
    using assms False by - (rule kw_tables_delete [where Q = "\<lambda>_. False" and P = "\<lambda>k. kw_id k = unat i" and cs = "category_rows S"],
      simp_all add: schema_ok_def keywords_ok_tables used_keywords_def)
  then have "keywords_ok (S\<lparr>keyword_rows := delete_where (\<lambda>k. kw_id k = unat i) (keyword_rows S)\<rparr>)"
    by (simp add: keywords_ok_tables delete_where_def)
  then show ?thesis using assms schema_ok_keywords(2) [OF assms] by (simp add: DeleteKeyword_table)
qed (use assms in \<open>simp add: DeleteKeyword_table\<close>)

lemma DeleteCategory_table:
  "snd (DeleteCategory i S) =
    (if list_ex (\<lambda>k. kw_parent k = Some (unat i) \<and> keyword_in_use (kw_id k) S) (keyword_rows S) \<or>
       \<not> list_ex (\<lambda>c. fst c = unat i) (category_rows S) then S
     else S\<lparr>category_rows := delete_where (\<lambda>c. fst c = unat i) (category_rows S),
       keyword_rows := delete_where (\<lambda>k. kw_parent k = Some (unat i)) (keyword_rows S)\<rparr>)"
  by (cases "list_ex (\<lambda>k. kw_parent k = Some (unat i) \<and> keyword_in_use (kw_id k) S) (keyword_rows S)";
      cases "list_ex (\<lambda>c. fst c = unat i) (category_rows S)")
    (simp_all only: DeleteCategory_def if_True if_False simp_thms snd_conv)

lemma ok_DeleteCategory:
  assumes "schema_ok S"
  shows "schema_ok (snd (DeleteCategory i S))"
proof (cases "list_ex (\<lambda>k. kw_parent k = Some (unat i) \<and> keyword_in_use (kw_id k) S) (keyword_rows S)")
  case False
  let ?cs = "delete_where (\<lambda>c. fst c = unat i) (category_rows S)"
  let ?ks = "delete_where (\<lambda>k. kw_parent k = Some (unat i)) (keyword_rows S)"
  have "\<forall>k \<in> set (keyword_rows S). kw_parent k = Some (unat i) \<longrightarrow> kw_id k \<notin> used_keywords S"
    using False by (auto simp: used_keywords_def list_ex_iff)
  then have "kw_tables ?cs ?ks (used_keywords S)"
    using assms by - (rule kw_tables_delete, auto simp: schema_ok_def keywords_ok_tables)
  then have "keywords_ok (S\<lparr>category_rows := ?cs, keyword_rows := ?ks\<rparr>)" by (simp add: keywords_ok_tables)
  then show ?thesis using assms schema_ok_keywords(3) [OF assms] by (simp add: DeleteCategory_table)
qed (use assms in \<open>simp add: DeleteCategory_table\<close>)

lemma ok_RecordPreAuth: "schema_ok S \<Longrightarrow> schema_ok (RecordPreAuth a b S)"
  by (auto simp: RecordPreAuth_def insert_pair_def schema_ok_def keys_ok_def users_ok_def inbox_ok_def pair_count_def
      keywords_ok_def user_exists_def list_ex_iff)

lemma ok_RecordBuddyAdded: "schema_ok S \<Longrightarrow> schema_ok (RecordBuddyAddedNotification a b S)"
  by (auto simp: RecordBuddyAddedNotification_def insert_pair_def schema_ok_def keys_ok_def users_ok_def inbox_ok_def
      pair_count_def keywords_ok_def user_exists_def list_ex_iff)

text \<open>Changes of the tables that stand alone.\<close>

lemma schema_ok_frame:
  assumes "schema_ok S"
  shows "distinct (map pr_screenName ps) \<Longrightarrow> schema_ok (S\<lparr>profile_rows := ps\<rparr>)"
    and "distinct (map ba_hash bs) \<Longrightarrow> schema_ok (S\<lparr>bart_rows := bs\<rparr>)"
    and "distinct (map ch_cookie cs) \<Longrightarrow> distinct (map (\<lambda>r. (ch_exchange r, ch_name r)) cs) \<Longrightarrow> schema_ok (S\<lparr>chat_rows := cs\<rparr>)"
  using assms by (simp_all add: schema_ok_def keys_ok_def users_ok_def inbox_ok_def pair_count_def keywords_ok_def user_exists_def)

lemma schema_ok_keys: "schema_ok S \<Longrightarrow> keys_ok S"
  by (simp add: schema_ok_def)

lemma distinct_upsert_row:
  assumes "distinct (map f xs)" and "f row = n"
  shows "distinct (map f (upsert (\<lambda>r. f r = n) row (\<lambda>_. row) xs))"
proof -
  have "map f (map (\<lambda>r. if f r = n then row else r) xs) = map f xs" using assms(2) by simp
  then show ?thesis using assms by (auto simp: upsert_def list_ex_iff simp del: map_map)
qed

lemma ok_SetProfile:
  assumes "schema_ok S"
  shows "schema_ok (SetProfile sn p S)"
proof -
  have "distinct (map pr_screenName (profile_rows S))" using schema_ok_keys [OF assms] by (simp add: keys_ok_def)
  then show ?thesis using assms unfolding SetProfile_def Let_def
    by (intro schema_ok_frame(1) distinct_upsert_row) simp_all
qed

lemma ok_InsertBARTItem: "schema_ok S \<Longrightarrow> schema_ok (snd (InsertBARTItem hash blob typ S))"
  using schema_ok_keys [of S] by (auto simp: InsertBARTItem_def keys_ok_def list_ex_iff intro!: schema_ok_frame(2))

lemma ok_DeleteBARTItem: "schema_ok S \<Longrightarrow> schema_ok (snd (DeleteBARTItem hash S))"
  using schema_ok_frame(2) [of S] schema_ok_keys [of S] by (simp add: DeleteBARTItem_def keys_ok_def distinct_delete_where)

lemma ok_DeleteChatRooms: "schema_ok S \<Longrightarrow> schema_ok (DeleteChatRooms ex names S)"
  using schema_ok_frame(3) [of S] schema_ok_keys [of S] by (simp add: DeleteChatRooms_def keys_ok_def distinct_delete_where)

lemma ok_CreateChatRoom: "schema_ok S \<Longrightarrow> schema_ok (snd (CreateChatRoom now cr S))"
  using schema_ok_keys [of S]
  by (auto simp: CreateChatRoom_def Let_def keys_ok_def list_ex_iff intro!: schema_ok_frame(3)) blast+

lemma ok_SetUserPassword: "schema_ok S \<Longrightarrow> schema_ok (snd (SetUserPassword md5 sn pw S))"
  using schema_ok_update [of _ S sn] by (auto simp: SetUserPassword_def split: option.split prod.split)

lemmas user_updates = UpdateDisplayScreenName_def UpdateEmailAddress_def UpdateRegStatus_def UpdateConfirmStatus_def
  UpdateSuspendedStatus_def SetBotStatus_def SetDirectoryInfo_def SetBasicInfo_def SetICQInfo_def SetTOCConfig_def
  SetWarnLevel_def SetOfflineMsgCount_def Let_def

lemmas ok_statements = ok_InsertUser ok_DeleteUser ok_SetUserPassword ok_RecordPreAuth ok_RecordBuddyAdded ok_SetProfile
  ok_InsertBARTItem ok_DeleteBARTItem ok_SaveMessage ok_DeleteMessages ok_CreateChatRoom ok_DeleteChatRooms
  ok_SetKeywords ok_CreateCategory ok_DeleteCategory ok_CreateKeyword ok_DeleteKeyword

lemma store_step_ok: "store_step t md5 S S' \<Longrightarrow> schema_ok S \<Longrightarrow> schema_ok S'"
  by (induction rule: store_step.induct)
    (auto simp: user_updates intro: ok_statements schema_ok_update schema_ok_found)

section \<open>Reading a message back\<close>

definition enc_message :: "ChannelMsgToHost \<Rightarrow> bytes" where
  "enc_message m = fst (MarshalBE (Some (SNAC_0x04_0x06_ICBMChannelMsgToHost_ty, ChannelMsgToHost_val m)))"

definition message_fits :: "ChannelMsgToHost \<Rightarrow> bool" where
  "message_fits m \<longleftrightarrow> length (cm_ScreenName m) < 256 \<and> (\<forall>t \<in> set (cm_TLVList m). length (Value t) < 65536)"

lemma val_message [simp]: "val_ChannelMsgToHost (ChannelMsgToHost_val m) = m"
  by (simp add: val_ChannelMsgToHost_def ChannelMsgToHost_val_def)

lemma offline_message_code:
  assumes "message_fits m"
  shows "codes_at True (MarshalBE (Some (SNAC_0x04_0x06_ICBMChannelMsgToHost_ty, ChannelMsgToHost_val m)))
    (UnmarshalBE SNAC_0x04_0x06_ICBMChannelMsgToHost_ty) (ChannelMsgToHost_val m)"
proof (rule code_BE)
  show "fits BigEndian emptyTag SNAC_0x04_0x06_ICBMChannelMsgToHost_ty (ChannelMsgToHost_val m)"
    using assms by (simp add: message_fits_def SNAC_0x04_0x06_ICBMChannelMsgToHost_ty_def ChannelMsgToHost_val_def TLVRestBlock_ty_def
      TLVList_ty_def tlv_ty_def tlvs_val_def tlv_val_def vbytes_def tag_eval prefix_max_def elems_bytes_def binaryWrite_def wput_def)
qed (simp add: SNAC_0x04_0x06_ICBMChannelMsgToHost_ty_def TLVRestBlock_ty_def TLVList_ty_def tlv_ty_def tag_eval)

lemma message_bytes:
  assumes "message_fits m"
  shows "MarshalBE (Some (SNAC_0x04_0x06_ICBMChannelMsgToHost_ty, ChannelMsgToHost_val m)) = (enc_message m, Ok ())"
    and "UnmarshalBE SNAC_0x04_0x06_ICBMChannelMsgToHost_ty (enc_message m) = (Ok (ChannelMsgToHost_val m), [])"
  using offline_message_code [OF assms] by (auto simp: codes_at_def enc_message_def)

definition offline_row :: "OfflineMessage \<Rightarrow> OfflineRow" where
  "offline_row m = \<lparr>of_sender = screenName (om_Sender m), of_recipient = screenName (om_Recipient m),
     of_message = enc_message (om_Message m), of_sent = om_Sent m\<rparr>"

lemma SaveMessage_eq:
  assumes "message_fits (om_Message m)"
  shows "SaveMessage m S =
    (let n = pair_count (screenName (om_Sender m)) (screenName (om_Recipient m)) S in
     if n \<ge> offlineInboxLimit then Ok (Inl ErrOfflineInboxFull, S)
     else if \<not> user_exists (screenName (om_Sender m)) S \<or> \<not> user_exists (screenName (om_Recipient m)) S then Ok (Inl ErrNoUser, S)
     else Ok (Inr (int n + 1), update_user (om_Recipient m) (\<lambda>u. u\<lparr>OfflineMsgCount := int n + 1\<rparr>)
        (S\<lparr>offline_rows := offline_rows S @ [offline_row m]\<rparr>)))"
  using message_bytes(1) [OF assms] by (simp add: SaveMessage_def pair_count_def offline_row_def Let_def)


lemma read_offline_append:
  assumes "read_offline t recip rs = Ok (Inr ms)"
  shows "read_offline t recip (rs @ rs') = bind_out (read_offline t recip rs') (\<lambda>x. Ok (map_sum id (\<lambda>ns. ms @ ns) x))"
  using assms
proof (induction rs arbitrary: ms)
  case Nil
  then show ?case by (cases "read_offline t recip rs'") (auto simp: sum.map_ident)
next
  case (Cons r rs)
  from Cons.prems obtain v where v: "fst (UnmarshalBE SNAC_0x04_0x06_ICBMChannelMsgToHost_ty (of_message r)) = Ok v"
    by (auto split: outcome.splits)
  with Cons.prems obtain ns where ns: "read_offline t recip rs = Ok (Inr ns)"
    by (cases "read_offline t recip rs") (auto simp: split: sum.splits)
  show ?case
  proof (cases "read_offline t recip rs'")
    case (Ok x)
    then show ?thesis using Cons.IH [OF ns] Cons.prems v ns by (cases x) auto
  qed (use Cons.IH [OF ns] v in auto)
qed

lemma find_update_where:
  "(\<And>r. P (g r) = P r) \<Longrightarrow> find P (update_where P g rs) = map_option g (find P rs)"
  by (induction rs) (auto simp: update_where_def)

lemma user_column_found:
  assumes "user_exists (screenName sn) S" and "\<And>u. Ident (f u) = Ident u"
  shows "\<exists>u. user_column c d sn (update_user sn f S) = c (f u)"
proof -
  let ?P = "\<lambda>r. row_name r = screenName sn" and ?g = "\<lambda>r. r\<lparr>row_user := f (row_user r)\<rparr>"
  have "find ?P (user_rows S) \<noteq> None" using assms(1) by (auto simp: user_exists_def list_ex_iff find_None_iff)
  then obtain r where "find ?P (user_rows S) = Some r" by blast
  then have "find ?P (user_rows (update_user sn f S)) = Some (?g r)"
    using find_update_where [of ?P ?g "user_rows S"] assms(2) by (simp add: update_user_def row_name_def)
  then show ?thesis by (auto simp: user_column_def)
qed

lemma more_filtered:
  assumes "x \<in> set xs" and "Q x" and "\<not> P x" and "\<And>y. P y \<Longrightarrow> Q y"
  shows "length (filter P xs) < length (filter Q xs)"
proof -
  have "filter P xs = filter P (filter Q xs)" using assms(4) by (auto intro: filter_cong)
  moreover have "length (filter P (filter Q xs)) < length (filter Q xs)"
    using assms(1-3) by (intro length_filter_less) auto
  ultimately show ?thesis by simp
qed

section \<open>Properties\<close>

definition empty_store :: Store where
  "empty_store = \<lparr>feedbag_rows = [], mode_rows = [], client_rows = [], user_rows = [], profile_rows = [], bart_rows = [],
     preauth_rows = [], added_rows = [], offline_rows = [], category_rows = [], keyword_rows = [], chat_rows = []\<rparr>"

lemma empty_schema_ok: "schema_ok empty_store"
  by (simp add: schema_ok_def keys_ok_def users_ok_def inbox_ok_def pair_count_def keywords_ok_def empty_store_def)

text \<open>
  C27: Whatever statements run on an empty database, the store keeps its constraints: screen names,
  profiles, assets and chat rooms are unique, every message and authorisation names existing users,
  no sender has more than ten messages waiting with one recipient, and every keyword that a user has
  exists, in an existing category and with a number that fits a byte.
\<close>

theorem store_invariant:
  assumes "(store_step t md5)\<^sup>*\<^sup>* empty_store S"
  shows "schema_ok S"
  using assms by (induction rule: rtranclp_induct) (simp_all add: empty_schema_ok store_step_ok)

definition blank_user :: "bytes \<Rightarrow> User" where
  "blank_user n = \<lparr>Ident = IdentScreenName n, Display = n, AuthKey = [], StrongMD5Pass = [],
     WeakMD5Pass = [], IsICQ = True, ConfirmStatus = False, RegStatus = 3, SuspendedStatus = 0,
     EmailAddress = [], Info = zero_ICQInfo, AIMDirectoryInfo = zero_AIMNameAndAddr, TOCConfig = [], IsBot = False,
     LastWarnUpdate = None, LastWarnLevel = 0, OfflineMsgCount = 0\<rparr>"

definition one_user :: Store where
  "one_user = snd (InsertUser ascii_tables (blank_user [0x61]) empty_store)"

lemma store_invariant_witness: "schema_ok one_user \<and> user_exists [0x61] one_user"
proof -
  have "(store_step ascii_tables (\<lambda>b. b))\<^sup>*\<^sup>* empty_store one_user"
    unfolding one_user_def by (rule r_into_rtranclp) (rule store_step.intros)
  then have "schema_ok one_user" by (rule store_invariant)
  moreover have "user_exists [0x61] one_user"
    by (simp add: one_user_def InsertUser_def empty_store_def user_exists_def row_name_def fresh_user_def IsUIN_def blank_user_def)
  ultimately show ?thesis ..
qed

text \<open>
  A message that is saved for an existing user with room in the inbox is the last one the user
  retrieves, with all its attributes, after those that were there; other inboxes are unchanged, and
  once the messages are deleted none is left.
\<close>

lemma saved_message:
  assumes "message_fits (om_Message m)" and "pair_count (screenName (om_Sender m)) (screenName (om_Recipient m)) S < offlineInboxLimit"
    and "user_exists (screenName (om_Sender m)) S" and "user_exists (screenName (om_Recipient m)) S"
    and "NewIdentScreenName t (screenName (om_Sender m)) = om_Sender m"
    and "RetrieveMessages t (om_Recipient m) S = Ok (Inr ms)"
  shows "\<exists>n S'. SaveMessage m S = Ok (Inr n, S') \<and> RetrieveMessages t (om_Recipient m) S' = Ok (Inr (ms @ [m])) \<and>
    (\<forall>r. r \<noteq> om_Recipient m \<longrightarrow> RetrieveMessages t r S' = RetrieveMessages t r S) \<and>
    RetrieveMessages t (om_Recipient m) (DeleteMessages (om_Recipient m) S') = Ok (Inr [])"
proof -
  let ?n = "int (pair_count (screenName (om_Sender m)) (screenName (om_Recipient m)) S) + 1"
  let ?S = "update_user (om_Recipient m) (\<lambda>u. u\<lparr>OfflineMsgCount := ?n\<rparr>) (S\<lparr>offline_rows := offline_rows S @ [offline_row m]\<rparr>)"
  have "SaveMessage m S = Ok (Inr ?n, ?S)" using assms by (simp add: SaveMessage_eq Let_def)
  moreover have "read_offline t (om_Recipient m) [offline_row m] = Ok (Inr [m])"
    using message_bytes(2) [OF assms(1)] assms(5) by (simp add: offline_row_def)
  then have "RetrieveMessages t (om_Recipient m) ?S = Ok (Inr (ms @ [m]))"
    using assms(6) read_offline_append [of t "om_Recipient m"] by (simp add: RetrieveMessages_def offline_row_def)
  moreover have "RetrieveMessages t r ?S = RetrieveMessages t r S" if "r \<noteq> om_Recipient m" for r
    using that IdentScreenName.expand [of "om_Recipient m" r] by (auto simp: RetrieveMessages_def offline_row_def)
  moreover have "RetrieveMessages t (om_Recipient m) (DeleteMessages (om_Recipient m) ?S) = Ok (Inr [])"
    by (simp add: RetrieveMessages_def DeleteMessages_def delete_where_def)
  ultimately show ?thesis by blast
qed

text \<open>Two accounts and a message from one to the other.\<close>

definition two_accounts :: Store where
  "two_accounts = empty_store\<lparr>user_rows := [\<lparr>row_user = blank_user [0x61], row_keywords = []\<rparr>,
     \<lparr>row_user = blank_user [0x62], row_keywords = []\<rparr>]\<rparr>"

definition note_ab :: OfflineMessage where
  "note_ab = \<lparr>om_Sender = IdentScreenName [0x61], om_Recipient = IdentScreenName [0x62],
     om_Message = \<lparr>cm_Cookie = 7, cm_ChannelID = 1, cm_ScreenName = [0x62], cm_TLVList = [\<lparr>Tag = 2, Value = [5]\<rparr>]\<rparr>, om_Sent = 9\<rparr>"

lemma saved_message_concrete:
  "\<exists>n S'. SaveMessage note_ab two_accounts = Ok (Inr n, S') \<and>
     RetrieveMessages ascii_tables (IdentScreenName [0x62]) S' = Ok (Inr [note_ab])"
  using saved_message [of note_ab two_accounts ascii_tables "[]"]
  by (simp add: note_ab_def two_accounts_def empty_store_def message_fits_def pair_count_def offlineInboxLimit_def
      user_exists_def row_name_def RetrieveMessages_def blank_user_def) blast

text \<open>
  The number that \<open>SaveMessage\<close> stores as the recipient's number of offline messages is the number of
  messages from this sender: if another sender's message is waiting, it is too small.
\<close>

theorem offline_count_of_one_sender:
  assumes "message_fits (om_Message m)" and "SaveMessage m S = Ok (Inr n, S')"
  shows "n = int (pair_count (screenName (om_Sender m)) (screenName (om_Recipient m)) S') \<and>
    user_column OfflineMsgCount 0 (om_Recipient m) S' = n \<and>
    ((\<exists>r \<in> set (offline_rows S'). of_recipient r = screenName (om_Recipient m) \<and> of_sender r \<noteq> screenName (om_Sender m)) \<longrightarrow>
      n < int (length (filter (\<lambda>r. of_recipient r = screenName (om_Recipient m)) (offline_rows S'))))"
proof -
  let ?s = "screenName (om_Sender m)" and ?r = "screenName (om_Recipient m)"
  have n: "n = int (pair_count ?s ?r S) + 1" and ex: "user_exists ?r S"
    and S': "S' = update_user (om_Recipient m) (\<lambda>u. u\<lparr>OfflineMsgCount := n\<rparr>) (S\<lparr>offline_rows := offline_rows S @ [offline_row m]\<rparr>)"
    using assms by (auto simp: SaveMessage_eq Let_def split: if_splits)
  have count: "n = int (pair_count ?s ?r S')" using n by (simp add: S' pair_count_def offline_row_def)
  have "user_column OfflineMsgCount 0 (om_Recipient m) S' = n"
    using user_column_found [of "om_Recipient m" "S\<lparr>offline_rows := offline_rows S @ [offline_row m]\<rparr>"
      "\<lambda>u. u\<lparr>OfflineMsgCount := n\<rparr>" OfflineMsgCount 0] ex by (auto simp: S' user_exists_def)
  moreover have "pair_count ?s ?r S' < length (filter (\<lambda>r. of_recipient r = ?r) (offline_rows S'))"
    if "r \<in> set (offline_rows S')" "of_recipient r = ?r" "of_sender r \<noteq> ?s" for r
    unfolding pair_count_def using that by (intro more_filtered) auto
  ultimately show ?thesis using count by auto
qed

definition waiting_from_c :: Store where
  "waiting_from_c = two_accounts\<lparr>offline_rows := [\<lparr>of_sender = [0x63], of_recipient = [0x62], of_message = [], of_sent = 1\<rparr>]\<rparr>"

lemma offline_count_of_one_sender_witness:
  "\<exists>n S'. SaveMessage note_ab waiting_from_c = Ok (Inr n, S') \<and>
     n < int (length (filter (\<lambda>r. of_recipient r = [0x62]) (offline_rows S')))"
proof -
  have fits: "message_fits (om_Message note_ab)" by (simp add: message_fits_def note_ab_def)
  then obtain n S' where save: "SaveMessage note_ab waiting_from_c = Ok (Inr n, S')"
      and rows: "offline_rows S' = offline_rows waiting_from_c @ [offline_row note_ab]"
    by (auto simp: SaveMessage_eq Let_def waiting_from_c_def two_accounts_def note_ab_def empty_store_def pair_count_def
        offlineInboxLimit_def user_exists_def row_name_def blank_user_def)
  show ?thesis using offline_count_of_one_sender [OF fits save] save rows
    by (auto simp: waiting_from_c_def note_ab_def)
qed

end
