(* ===== verification/ConvoTracker.thy ===== *)
theory ConvoTracker
  imports Users
begin

text \<open>
  The conversation tracker of the messaging service (\<open>foodgroup/icbm.go\<close>): who has sent whom a message
  and who has warned whom within the last hour, which decides whether a warning is accepted. The two
  tables are caches of the package go-cache, which is not part of the repository: what it finds is a
  parameter, a function of the calls of \<open>Set\<close> so far, with the documented behaviour as a hypothesis.
\<close>

section \<open>Ring buffers\<close>

text \<open>A time is \<open>None\<close> where it has never been set: the zero time is before every window.\<close>

record ringBuffer =
  rb_cur :: nat
  rb_vals :: "int option list"

definition empty_ring :: ringBuffer where
  "empty_ring = \<lparr>rb_cur = 0, rb_vals = [None, None, None]\<rparr>"

definition ring_val :: "ringBuffer \<Rightarrow> int option" where
  "ring_val r = rb_vals r ! rb_cur r"

definition ring_set :: "int \<Rightarrow> ringBuffer \<Rightarrow> ringBuffer" where
  "ring_set v r = r\<lparr>rb_vals := (rb_vals r)[rb_cur r := Some v], rb_cur := (rb_cur r + 1) mod length (rb_vals r)\<rparr>"

definition after_start :: "int \<Rightarrow> ringBuffer \<Rightarrow> nat" where
  "after_start windowStart r = length (filter (\<lambda>v. case v of None \<Rightarrow> False | Some t \<Rightarrow> t > windowStart) (rb_vals r))"

section \<open>The caches\<close>

text \<open>
  A call of \<open>Set\<close>: its time, the key, the buffer it stores (the value is a pointer: writing to the buffer
  later is not a call of \<open>Set\<close>) and how long the entry lasts. The latest call comes first.
\<close>

type_synonym cache_call = "int \<times> bytes \<times> nat \<times> int"
type_synonym cache_lookup = "cache_call list \<Rightarrow> int \<Rightarrow> bytes \<Rightarrow> nat option"

text \<open>What go-cache documents: an entry replaces an earlier one, and is found until it expires.\<close>

definition cache_ok :: "cache_lookup \<Rightarrow> bool" where
  "cache_ok look \<longleftrightarrow>
     (\<forall>now k. look [] now k = None) \<and>
     (\<forall>t k p d h now. d > 0 \<longrightarrow> look ((t, k, p, d) # h) now k = (if now > t + d then None else Some p)) \<and>
     (\<forall>t k k' p d h now. k' \<noteq> k \<longrightarrow> look ((t, k', p, d) # h) now k = look h now k)"

record convoTracker =
  convos :: "cache_call list"
  warns :: "cache_call list"
  buffers :: "ringBuffer list"

definition hour :: int where "hour = 3600 * 10 ^ 9"

definition newConvoTracker :: convoTracker where
  "newConvoTracker = \<lparr>convos = [], warns = [], buffers = []\<rparr>"

definition convo_key :: "IdentScreenName \<Rightarrow> IdentScreenName \<Rightarrow> bytes" where
  "convo_key sender recip = screenName sender @ screenName recip"

definition upd_ring :: "nat \<Rightarrow> (ringBuffer \<Rightarrow> ringBuffer) \<Rightarrow> convoTracker \<Rightarrow> convoTracker" where
  "upd_ring p f w = w\<lparr>buffers := (buffers w)[p := f (buffers w ! p)]\<rparr>"

definition trackConvo :: "cache_lookup \<Rightarrow> int \<Rightarrow> IdentScreenName \<Rightarrow> IdentScreenName \<Rightarrow> convoTracker \<Rightarrow> convoTracker" where
  "trackConvo look now sender recip w =
     (let k = convo_key sender recip in
      case look (convos w) now k of
        Some p \<Rightarrow> upd_ring p (ring_set now) w
      | None \<Rightarrow> w\<lparr>convos := (now, k, length (buffers w), hour) # convos w,
                  buffers := buffers w @ [ring_set now empty_ring]\<rparr>)"

definition trackWarn :: "cache_lookup \<Rightarrow> int \<Rightarrow> IdentScreenName \<Rightarrow> IdentScreenName \<Rightarrow> convoTracker \<Rightarrow> bool \<times> convoTracker" where
  "trackWarn look now warner warnee w =
     (let k = convo_key warnee warner in
      case look (convos w) now k of
        None \<Rightarrow> (False, w)
      | Some c \<Rightarrow>
          let windowStart = now - hour; convoCt = after_start windowStart (buffers w ! c);
              (p, w') = (case look (warns w) now k of
                 Some p \<Rightarrow> (p, w)
               | None \<Rightarrow> (length (buffers w), w\<lparr>warns := (now, k, length (buffers w), hour) # warns w,
                           buffers := buffers w @ [empty_ring]\<rparr>));
              warnCount = after_start windowStart (buffers w' ! p) in
          if convoCt \<le> warnCount then (False, w') else (True, upd_ring p (ring_set now) w'))"

section \<open>How many warnings\<close>

text \<open>
  The buffers the caches point to: they exist and have three slots, and no buffer serves two entries.
\<close>

definition ring_ok :: "ringBuffer \<Rightarrow> bool" where
  "ring_ok r \<longleftrightarrow> length (rb_vals r) = 3 \<and> rb_cur r < 3"

definition call_ptr :: "cache_call \<Rightarrow> nat" where "call_ptr c = fst (snd (snd c))"
definition call_ttl :: "cache_call \<Rightarrow> int" where "call_ttl c = snd (snd (snd c))"

lemma call_simps [simp]: "call_ptr (t, k, p, d) = p" "call_ttl (t, k, p, d) = d"
  by (simp_all add: call_ptr_def call_ttl_def)

definition pointers :: "convoTracker \<Rightarrow> nat list" where
  "pointers w = map call_ptr (convos w @ warns w)"

definition tracker_ok :: "convoTracker \<Rightarrow> bool" where
  "tracker_ok w \<longleftrightarrow> list_all ring_ok (buffers w) \<and> distinct (pointers w) \<and> (\<forall>p \<in> set (pointers w). p < length (buffers w)) \<and>
     (\<forall>c \<in> set (convos w @ warns w). call_ttl c = hour)"

lemma ring_ok_set [simp]: "ring_ok r \<Longrightarrow> ring_ok (ring_set v r)"
  by (auto simp: ring_ok_def ring_set_def)

lemma ring_ok_empty [simp]: "ring_ok empty_ring"
  by (simp add: ring_ok_def empty_ring_def)

lemma look_pointer:
  assumes "cache_ok look" and "\<forall>c \<in> set h. call_ttl c = hour" and "look h now k = Some p"
  shows "\<exists>t. (t, k, p, hour) \<in> set h \<and> now \<le> t + hour"
  using assms(2-)
proof (induction h)
  case Nil
  then show ?case using assms(1) by (simp add: cache_ok_def)
next
  case (Cons c h)
  obtain t k' p' d where c: "c = (t, k', p', d)" by (cases c)
  have d: "d = hour" using Cons.prems(1) by (simp add: c)
  show ?case
  proof (cases "k' = k")
    case True
    then have "look (c # h) now k = (if now > t + d then None else Some p')"
      using assms(1) by (simp add: cache_ok_def c d hour_def)
    then show ?thesis using Cons.prems(2) True by (auto simp: c d split: if_splits)
  next
    case False
    then have "look (c # h) now k = look h now k" using assms(1) by (simp add: cache_ok_def c)
    then show ?thesis using Cons by auto
  qed
qed

lemma tracker_ok_new [simp]: "tracker_ok newConvoTracker"
  by (simp add: tracker_ok_def newConvoTracker_def pointers_def)

lemma upd_ring_ok: "tracker_ok w \<Longrightarrow> p < length (buffers w) \<Longrightarrow> (\<And>r. ring_ok r \<Longrightarrow> ring_ok (f r)) \<Longrightarrow> tracker_ok (upd_ring p f w)"
  by (auto simp: tracker_ok_def upd_ring_def pointers_def list_all_length nth_list_update)

lemma new_ring_ok:
  assumes "tracker_ok w" and "ring_ok r"
  shows "tracker_ok (w\<lparr>convos := (now, k, length (buffers w), hour) # convos w, buffers := buffers w @ [r]\<rparr>)"
    and "tracker_ok (w\<lparr>warns := (now, k, length (buffers w), hour) # warns w, buffers := buffers w @ [r]\<rparr>)"
  using assms by (auto simp: tracker_ok_def pointers_def intro: less_SucI)

lemma found_pointer:
  assumes "cache_ok look" and "tracker_ok w"
  shows "look (convos w) now k = Some p \<Longrightarrow> p < length (buffers w)"
    and "look (warns w) now k = Some p \<Longrightarrow> p < length (buffers w)"
proof -
  have *: "p < length (buffers w)" if h: "h = convos w \<or> h = warns w" and p: "look h now k = Some p" for h
  proof -
    have "\<forall>c \<in> set h. call_ttl c = hour" using assms(2) h by (auto simp: tracker_ok_def)
    then obtain t where "(t, k, p, hour) \<in> set h" using look_pointer [OF assms(1) _ p] by blast
    then have "p \<in> set (pointers w)" using h by (force simp: pointers_def)
    then show ?thesis using assms(2) by (simp add: tracker_ok_def)
  qed
  show "look (convos w) now k = Some p \<Longrightarrow> p < length (buffers w)" using * [of "convos w"] by simp
  show "look (warns w) now k = Some p \<Longrightarrow> p < length (buffers w)" using * [of "warns w"] by simp
qed

lemma trackConvo_ok:
  assumes "cache_ok look" and "tracker_ok w"
  shows "tracker_ok (trackConvo look now s r w)"
  using assms found_pointer(1) [OF assms] new_ring_ok(1) [OF assms(2)]
  by (auto simp: trackConvo_def Let_def intro!: upd_ring_ok split: option.split)

lemma trackWarn_ok:
  assumes "cache_ok look" and "tracker_ok w"
  shows "tracker_ok (snd (trackWarn look now s r w))"
  using assms found_pointer(2) [OF assms] new_ring_ok(2) [OF assms(2)]
  by (auto simp: trackWarn_def Let_def intro!: upd_ring_ok split: option.split)

section \<open>What the tracker has seen\<close>

datatype tracker_event = Said int IdentScreenName IdentScreenName | Warned int IdentScreenName IdentScreenName

fun tracker_step :: "cache_lookup \<Rightarrow> tracker_event \<Rightarrow> convoTracker \<Rightarrow> convoTracker" where
  "tracker_step look (Said t s r) w = trackConvo look t s r w"
| "tracker_step look (Warned t s r) w = snd (trackWarn look t s r w)"

text \<open>Every time in the buffer of a conversation is the time of a message with that key.\<close>

definition heard :: "tracker_event list \<Rightarrow> convoTracker \<Rightarrow> bool" where
  "heard es w \<longleftrightarrow> (\<forall>c \<in> set (convos w). \<forall>v. Some v \<in> set (rb_vals (buffers w ! call_ptr c)) \<longrightarrow>
     (\<exists>s r. Said v s r \<in> set es \<and> convo_key s r = fst (snd c)))"

lemma ring_set_vals: "Some v \<in> set (rb_vals (ring_set x r)) \<Longrightarrow> v = x \<or> Some v \<in> set (rb_vals r)"
  using set_update_subset_insert [of "rb_vals r" "rb_cur r" "Some x"] by (auto simp: ring_set_def)

lemma ring_set_empty: "Some v \<in> set (rb_vals (ring_set x empty_ring)) \<longleftrightarrow> v = x"
  by (auto simp: ring_set_def empty_ring_def)

lemma heard_more: "heard es w \<Longrightarrow> set es \<subseteq> set es' \<Longrightarrow> heard es' w"
  unfolding heard_def by blast

lemma heard_convo:
  assumes "cache_ok look" and "tracker_ok w" and "heard es w"
  shows "heard (Said t s r # es) (trackConvo look t s r w)"
proof (cases "look (convos w) t (convo_key s r)")
  case None
  then show ?thesis using assms(2,3)
    by (fastforce simp: trackConvo_def heard_def nth_append tracker_ok_def pointers_def ring_set_empty)
next
  case (Some p)
  have ttl: "\<forall>c \<in> set (convos w). call_ttl c = hour" using assms(2) by (simp add: tracker_ok_def)
  then obtain t' where "(t', convo_key s r, p, hour) \<in> set (convos w)" using look_pointer [OF assms(1) _ Some] by blast
  moreover have "inj_on call_ptr (set (convos w))"
    using assms(2) by (auto simp: tracker_ok_def pointers_def distinct_map)
  ultimately have owner: "fst (snd c) = convo_key s r" if "c \<in> set (convos w)" "call_ptr c = p" for c
    using that by (metis call_simps(1) fst_conv inj_onD snd_conv)
  have len: "p < length (buffers w)" using found_pointer(1) [OF assms(1,2) Some] .
  show ?thesis unfolding heard_def
  proof (intro ballI allI impI)
    fix c v
    assume c: "c \<in> set (convos (trackConvo look t s r w))"
      and v: "Some v \<in> set (rb_vals (buffers (trackConvo look t s r w) ! call_ptr c))"
    have c': "c \<in> set (convos w)" using c Some by (simp add: trackConvo_def upd_ring_def)
    show "\<exists>s' r'. Said v s' r' \<in> set (Said t s r # es) \<and> convo_key s' r' = fst (snd c)"
    proof (cases "call_ptr c = p")
      case True
      then have "v = t \<or> Some v \<in> set (rb_vals (buffers w ! call_ptr c))"
        using v Some len by (auto simp: trackConvo_def upd_ring_def dest: ring_set_vals)
      then show ?thesis
      proof
        assume "v = t"
        then have "Said v s r \<in> set (Said t s r # es) \<and> convo_key s r = fst (snd c)" using owner [OF c' True] by simp
        then show ?thesis by blast
      next
        assume "Some v \<in> set (rb_vals (buffers w ! call_ptr c))"
        then show ?thesis using assms(3) c' unfolding heard_def by (meson list.set_intros(2))
      qed
    next
      case False
      then have "Some v \<in> set (rb_vals (buffers w ! call_ptr c))" using v Some by (simp add: trackConvo_def upd_ring_def)
      then show ?thesis using assms(3) c' unfolding heard_def by (meson list.set_intros(2))
    qed
  qed
qed

lemma heard_warn:
  assumes "cache_ok look" and "tracker_ok w" and "heard es w"
  shows "heard es (snd (trackWarn look t s r w))"
proof -
  have fresh: "call_ptr c < length (buffers w)" if "c \<in> set (convos w)" for c
    using assms(2) that by (auto simp: tracker_ok_def pointers_def)
  have apart: "call_ptr c \<noteq> p" if c: "c \<in> set (convos w)" and p: "look (warns w) t (convo_key r s) = Some p" for c p
  proof -
    have "\<forall>c \<in> set (warns w). call_ttl c = hour" using assms(2) by (simp add: tracker_ok_def)
    then obtain t' where "(t', convo_key r s, p, hour) \<in> set (warns w)" using look_pointer [OF assms(1) _ p] by blast
    then have "p \<in> call_ptr ` set (warns w)" by force
    then show ?thesis using assms(2) c by (auto simp: tracker_ok_def pointers_def)
  qed
  have same: "convos (snd (trackWarn look t s r w)) = convos w"
    "c \<in> set (convos w) \<Longrightarrow> buffers (snd (trackWarn look t s r w)) ! call_ptr c = buffers w ! call_ptr c" for c
    using fresh [of c] apart [of c]
    by (auto simp: trackWarn_def Let_def upd_ring_def nth_append split: option.split)
  show ?thesis using assms(3) same by (simp add: heard_def)
qed

lemma tracker_run:
  assumes "cache_ok look" and "tracker_ok w" and "heard es w"
  shows "tracker_ok (fold (tracker_step look) es' w) \<and> heard (rev es' @ es) (fold (tracker_step look) es' w)"
  using assms(2,3)
proof (induction es' arbitrary: w es)
  case (Cons e es')
  have "tracker_ok (tracker_step look e w)"
    using trackConvo_ok [OF assms(1) Cons.prems(1)] trackWarn_ok [OF assms(1) Cons.prems(1)] by (cases e) simp_all
  moreover have "heard (e # es) (tracker_step look e w)"
    using heard_convo [OF assms(1) Cons.prems] heard_more [OF heard_warn [OF assms(1) Cons.prems], of "e # es"]
    by (cases e) (simp_all add: subset_insertI)
  ultimately show ?case using Cons.IH [of "tracker_step look e w" "e # es"] by simp
qed simp

lemma after_start_pos: "0 < after_start x r \<Longrightarrow> \<exists>v. Some v \<in> set (rb_vals r) \<and> v > x"
  by (auto simp: after_start_def filter_empty_conv split: option.splits)

text \<open>
  C25: A warning is accepted only if in the last hour the tracker has seen a message whose sender and
  receiver, written one after the other, spell the same as the warned user followed by the warner.
\<close>

theorem warn_needs_recent_message:
  assumes "cache_ok look"
    and "fst (trackWarn look now warner warnee (fold (tracker_step look) es newConvoTracker))"
  shows "\<exists>t s r. Said t s r \<in> set es \<and> screenName s @ screenName r = screenName warnee @ screenName warner \<and> t > now - hour"
proof -
  let ?w = "fold (tracker_step look) es newConvoTracker"
  have "heard [] newConvoTracker" by (simp add: heard_def newConvoTracker_def)
  then have ok: "tracker_ok ?w" "heard (rev es @ []) ?w" using tracker_run [OF assms(1) tracker_ok_new, of "[]" es] by simp_all
  obtain c where c: "look (convos ?w) now (convo_key warnee warner) = Some c"
    and "0 < after_start (now - hour) (buffers ?w ! c)"
    using assms(2) by (auto simp: trackWarn_def Let_def split: option.splits if_splits prod.splits)
  then obtain v where v: "Some v \<in> set (rb_vals (buffers ?w ! c))" "v > now - hour" using after_start_pos by blast
  have "\<forall>c \<in> set (convos ?w). call_ttl c = hour" using ok(1) by (simp add: tracker_ok_def)
  then obtain t where "(t, convo_key warnee warner, c, hour) \<in> set (convos ?w)" using look_pointer [OF assms(1) _ c] by blast
  then obtain s r where "Said v s r \<in> set es" "convo_key s r = convo_key warnee warner"
    using ok(2) v(1) unfolding heard_def by fastforce
  then show ?thesis using v(2) by (auto simp: convo_key_def)
qed

text \<open>A cache that behaves as documented.\<close>

fun simple_cache :: cache_lookup where
  "simple_cache [] now k = None"
| "simple_cache ((t, k', p, d) # h) now k =
     (if k' = k then if now > t + d then None else Some p else simple_cache h now k)"

lemma simple_cache_ok: "cache_ok simple_cache"
  by (simp add: cache_ok_def)

text \<open>
  The key of a conversation is the two names written together, so a message from \<open>a\<close> to \<open>bc\<close> lets
  \<open>c\<close> warn \<open>ab\<close>, who has written to nobody.
\<close>

theorem warn_key_ambiguous:
  assumes "cache_ok look" and "screenName s @ screenName r = screenName s' @ screenName r'" and "t \<le> now" and "now < t + hour"
  shows "fst (trackWarn look now r' s' (trackConvo look t s r newConvoTracker))"
proof -
  have k: "convo_key s r = convo_key s' r'" using assms(2) by (simp add: convo_key_def)
  have "look [] x y = None" for x y using assms(1) by (simp add: cache_ok_def)
  then have t1: "trackConvo look t s r newConvoTracker =
      \<lparr>convos = [(t, convo_key s' r', 0, hour)], warns = [], buffers = [ring_set t empty_ring]\<rparr>"
    by (simp add: trackConvo_def newConvoTracker_def k)
  have "look [(t, convo_key s' r', 0, hour)] now (convo_key s' r') = Some 0"
    using assms(1,4) by (simp add: cache_ok_def hour_def)
  moreover have "look [] now (convo_key s' r') = None" using assms(1) by (simp add: cache_ok_def)
  moreover have "after_start (now - hour) (ring_set t empty_ring) = 1"
    using assms(4) by (simp add: after_start_def ring_set_def empty_ring_def)
  moreover have "after_start (now - hour) empty_ring = 0" by (simp add: after_start_def empty_ring_def)
  ultimately show ?thesis by (simp add: t1 trackWarn_def Let_def)
qed

lemma warn_needs_recent_message_witness:
  "\<exists>t s r. Said t s r \<in> set [Said 5 (IdentScreenName [97]) (IdentScreenName [98])] \<and>
     screenName s @ screenName r = screenName (IdentScreenName [97]) @ screenName (IdentScreenName [98]) \<and> t > 7 - hour"
  by (rule warn_needs_recent_message [OF simple_cache_ok])
    (simp add: trackConvo_def trackWarn_def newConvoTracker_def convo_key_def hour_def after_start_def ring_set_def empty_ring_def
      upd_ring_def Let_def)

lemma warn_key_ambiguous_witness:
  "fst (trackWarn simple_cache 7 (IdentScreenName [99]) (IdentScreenName [97, 98])
     (trackConvo simple_cache 5 (IdentScreenName [97]) (IdentScreenName [98, 99]) newConvoTracker))"
  by (rule warn_key_ambiguous [OF simple_cache_ok]) (simp_all add: hour_def)

definition minute :: int where "minute = 60 * 10 ^ 9"

text \<open>
  The buffers expire an hour after their first entry, not their last, and each on its own. Three
  messages at minutes 0, 61 and 62 let the other user warn four times: at 59, 118 and twice at 120.
\<close>

theorem warnings_exceed_messages:
  fixes s r :: IdentScreenName
  defines "said t \<equiv> trackConvo simple_cache (t * minute) s r" and "warn t \<equiv> trackWarn simple_cache (t * minute) r s"
  shows "case warn 59 (said 0 newConvoTracker) of (ok1, w1) \<Rightarrow>
    case warn 118 (said 62 (said 61 w1)) of (ok2, w2) \<Rightarrow>
    case warn 120 w2 of (ok3, w3) \<Rightarrow>
    case warn 120 w3 of (ok4, w4) \<Rightarrow> ok1 \<and> ok2 \<and> ok3 \<and> ok4"
  by (simp add: said_def warn_def trackConvo_def trackWarn_def newConvoTracker_def convo_key_def hour_def minute_def after_start_def
      ring_set_def empty_ring_def upd_ring_def Let_def)

end
