(* ===== verification/Services.thy ===== *)
theory Services
  imports UserInfo MessageText StoreProperties ConvoTracker Cookies
begin

text \<open>
  What the food group services (\<open>foodgroup/\<close>) are built on: the state they share (\<open>World\<close>: the user
  store, the session registry, the chat rooms, the clock) and calls that can fail. A service method is
  a function on the world that returns a result or an error and the new world; every call of the
  store can fail as a database call can, which the list \<open>faults\<close> decides.
\<close>

section \<open>The shared state\<close>

text \<open>
  Code that is not in the repository, and the settings: the cache, the tokens of \<open>golang.org/x/net/html\<close>
  up to the end of the input, MD5, the address in a string that \<open>net/mail\<close> accepts, the keyed hash of the
  cookies, the floating point product that scales a rate limit.
\<close>

datatype html_token = TextToken bytes | StartTagToken bytes | SelfClosingTagToken bytes | OtherToken

record Externals =
  cache_of :: cache_lookup
  html_of :: "bytes \<Rightarrow> html_token list"
  md5_of :: digest
  mail_of :: "bytes \<Rightarrow> bytes option"
  mac_of :: "bytes \<Rightarrow> bytes \<Rightarrow> bytes"
  cookie_secret :: bytes
  scale_of :: "int \<Rightarrow> int \<Rightarrow> int"
  DisableMultiLoginNotif :: bool

record World =
  db :: Store
  faults :: "bool list"
  registry :: "SNACMessage SessionManager"
  chats :: "SNACMessage ChatManager"
  clock :: int
  randoms :: "nat list"
  unicode :: unicode_tables
  tracker :: convoTracker
  ext :: Externals

datatype service_error =
    DBFailure
  | StoreErr store_error
  | CodecErr err
  | CookieErr cookie_error
  | BadRequest string

type_synonym 'a svc = "World \<Rightarrow> ((service_error + 'a) \<times> World) outcome"

definition retS :: "'a \<Rightarrow> 'a svc" where
  "retS x W = Ok (Inr x, W)"

definition failS :: "service_error \<Rightarrow> 'a svc" where
  "failS e W = Ok (Inl e, W)"

definition panicS :: "'a svc" where
  "panicS W = Panic"

definition bindS :: "'a svc \<Rightarrow> ('a \<Rightarrow> 'b svc) \<Rightarrow> 'b svc" where
  "bindS m f W = bind_out (m W) (\<lambda>(x, W'). case x of Inl e \<Rightarrow> Ok (Inl e, W') | Inr y \<Rightarrow> f y W')"

text \<open>\<open>catchS\<close> looks at the error; code that logs an error and goes on is \<open>catchS m (\<lambda>_. retS d)\<close>.\<close>

definition catchS :: "'a svc \<Rightarrow> (service_error \<Rightarrow> 'a svc) \<Rightarrow> 'a svc" where
  "catchS m h W = bind_out (m W) (\<lambda>(x, W'). case x of Inl e \<Rightarrow> h e W' | Inr y \<Rightarrow> Ok (Inr y, W'))"

text \<open>The error as a value, for code that looks at it.\<close>

definition tryS :: "'a svc \<Rightarrow> (service_error + 'a) svc" where
  "tryS m W = bind_out (m W) (\<lambda>(x, W'). Ok (Inr x, W'))"

definition getS :: "(World \<Rightarrow> 'a) \<Rightarrow> 'a svc" where
  "getS f W = Ok (Inr (f W), W)"

definition modS :: "(World \<Rightarrow> World) \<Rightarrow> unit svc" where
  "modS f W = Ok (Inr (), f W)"

fun forS :: "'a list \<Rightarrow> ('a \<Rightarrow> unit svc) \<Rightarrow> unit svc" where
  "forS [] f = retS ()"
| "forS (x # xs) f = bindS (f x) (\<lambda>_. forS xs f)"

fun foldS :: "'a list \<Rightarrow> ('a \<Rightarrow> 'b \<Rightarrow> 'b svc) \<Rightarrow> 'b \<Rightarrow> 'b svc" where
  "foldS [] f b = retS b"
| "foldS (x # xs) f b = bindS (f x b) (foldS xs f)"

text \<open>A codec call: \<open>NewTLVBE\<close> panics where the code does, \<open>MarshalBE\<close> and \<open>UnmarshalBE\<close> return errors.\<close>

definition liftS :: "'a outcome \<Rightarrow> 'a svc" where
  "liftS x W = (case x of Ok a \<Rightarrow> Ok (Inr a, W) | Err e \<Rightarrow> Ok (Inl (CodecErr e), W) | Panic \<Rightarrow> Panic | Hang \<Rightarrow> Hang)"

section \<open>Calls of the store\<close>

definition db_call :: "(Store \<Rightarrow> ((store_error + 'a) \<times> Store) outcome) \<Rightarrow> 'a svc" where
  "db_call f W =
     (if faults W \<noteq> [] \<and> hd (faults W) then Ok (Inl DBFailure, W\<lparr>faults := tl (faults W)\<rparr>)
      else bind_out (f (db W)) (\<lambda>(x, S). Ok (map_sum StoreErr id x, W\<lparr>db := S, faults := tl (faults W)\<rparr>)))"

definition db_get :: "(Store \<Rightarrow> 'a) \<Rightarrow> 'a svc" where
  "db_get f = db_call (\<lambda>S. Ok (Inr (f S), S))"

definition db_find :: "(Store \<Rightarrow> store_error + 'a) \<Rightarrow> 'a svc" where
  "db_find f = db_call (\<lambda>S. Ok (f S, S))"

definition db_set :: "(Store \<Rightarrow> Store) \<Rightarrow> unit svc" where
  "db_set f = db_call (\<lambda>S. Ok (Inr (), f S))"

definition db_exec :: "(Store \<Rightarrow> store_error option \<times> Store) \<Rightarrow> unit svc" where
  "db_exec f = db_call (\<lambda>S. case f S of (Some e, S') \<Rightarrow> Ok (Inl e, S') | (None, S') \<Rightarrow> Ok (Inr (), S'))"

section \<open>Sessions and connections\<close>

text \<open>A \<open>*SessionInstance\<close> is the index of its session in the registry and its index in the session.\<close>

type_synonym inst_ref = "nat \<times> nat"

definition sess :: "inst_ref \<Rightarrow> World \<Rightarrow> SNACMessage Session" where
  "sess r W = sess_of (registry W) (fst r)"

definition conn :: "inst_ref \<Rightarrow> World \<Rightarrow> SNACMessage SessionInstance" where
  "conn r W = heap (sess r W) ! snd r"

definition me :: "inst_ref \<Rightarrow> IdentScreenName svc" where
  "me r = getS (\<lambda>W. identScreenName (sess r W))"

definition mod_session :: "inst_ref \<Rightarrow> (SNACMessage Session \<Rightarrow> SNACMessage Session) \<Rightarrow> unit svc" where
  "mod_session r f = modS (\<lambda>W. W\<lparr>registry := upd_sess (fst r) f (registry W)\<rparr>)"

definition mod_conn :: "inst_ref \<Rightarrow> (SNACMessage SessionInstance \<Rightarrow> SNACMessage SessionInstance) \<Rightarrow> unit svc" where
  "mod_conn r f = mod_session r (upd_inst (snd r) f)"

definition relay_user :: "IdentScreenName \<Rightarrow> SNACMessage \<Rightarrow> unit svc" where
  "relay_user sn m = modS (\<lambda>W. W\<lparr>registry := RelayToScreenName sn m (registry W)\<rparr>)"

definition relay_users :: "IdentScreenName list \<Rightarrow> SNACMessage \<Rightarrow> unit svc" where
  "relay_users sns m = modS (\<lambda>W. W\<lparr>registry := RelayToScreenNames sns m (registry W)\<rparr>)"

definition relay_active :: "IdentScreenName \<Rightarrow> SNACMessage \<Rightarrow> unit svc" where
  "relay_active sn m = modS (\<lambda>W. W\<lparr>registry := RelayToScreenNameActiveOnly sn m (registry W)\<rparr>)"

definition relay_self :: "inst_ref \<Rightarrow> SNACMessage \<Rightarrow> unit svc" where
  "relay_self r m = mod_session r (RelayToSelf m (snd r))"

definition relay_others :: "inst_ref \<Rightarrow> SNACMessage \<Rightarrow> unit svc" where
  "relay_others r m = mod_session r (RelayToOtherInstances m (snd r))"

text \<open>\<open>RetrieveSession\<close>: the index of a session with a live connection.\<close>

definition find_session :: "IdentScreenName \<Rightarrow> nat option svc" where
  "find_session sn = getS (\<lambda>W. RetrieveSession sn (registry W))"

definition user_info_of :: "nat \<Rightarrow> TLVUserInfo svc" where
  "user_info_of k = bindS (getS (\<lambda>W. sess_TLVUserInfo (clock W) (sess_of (registry W) k))) liftS"

definition all_rels :: "IdentScreenName \<Rightarrow> IdentScreenName list \<Rightarrow> Relationship list svc" where
  "all_rels sn flt = bindS (getS unicode) (\<lambda>t. db_get (AllRelationships t sn flt))"

definition one_rel :: "IdentScreenName \<Rightarrow> IdentScreenName \<Rightarrow> Relationship svc" where
  "one_rel you them = bindS (getS unicode) (\<lambda>t. db_get (store_Relationship t you them))"

definition ident :: "bytes \<Rightarrow> IdentScreenName svc" where
  "ident name = getS (\<lambda>W. NewIdentScreenName (unicode W) name)"

text \<open>A \<open>TLVRestBlock\<close> of \<open>NewTLVBE\<close> values.\<close>

definition tlvsS :: "TLV outcome list \<Rightarrow> TLVList svc" where
  "tlvsS xs = liftS (collect_out xs)"

definition tlv16 :: "u16 \<Rightarrow> u16 \<Rightarrow> TLV outcome" where
  "tlv16 t x = NewTLVBE t (TU16, VU16 x)"
definition tlv32 :: "u16 \<Rightarrow> u32 \<Rightarrow> TLV outcome" where
  "tlv32 t x = NewTLVBE t (TU32, VU32 x)"
definition tlv8 :: "u16 \<Rightarrow> u8 \<Rightarrow> TLV outcome" where
  "tlv8 t x = NewTLVBE t (TU8, VU8 x)"
definition tlv_str :: "u16 \<Rightarrow> bytes \<Rightarrow> TLV outcome" where
  "tlv_str t x = NewTLVBE t (TString, VString x)"
definition tlv_raw :: "u16 \<Rightarrow> bytes \<Rightarrow> TLV outcome" where
  "tlv_raw t x = NewTLVBE t (TSlice TU8, vbytes x)"

definition ReqIDFromServer :: u32 where "ReqIDFromServer = 2 ^ 31"

section \<open>Reasoning about services\<close>

lemma retS_simp [simp]: "retS x W = Ok (Inr x, W)"
  by (simp add: retS_def)
lemma failS_simp [simp]: "failS e W = Ok (Inl e, W)"
  by (simp add: failS_def)
lemma panicS_simp [simp]: "panicS W = Panic"
  by (simp add: panicS_def)
lemma getS_simp [simp]: "getS f W = Ok (Inr (f W), W)"
  by (simp add: getS_def)
lemma modS_simp [simp]: "modS f W = Ok (Inr (), f W)"
  by (simp add: modS_def)
lemma liftS_Ok [simp]: "liftS (Ok a) = retS a"
  by (rule ext) (simp add: liftS_def)

lemma svc_apply [simp]:
  fixes W :: World
  shows "(if b then f else g) W = (if b then f W else g W)"
    and "(case oa of None \<Rightarrow> f | Some y \<Rightarrow> h y) W = (case oa of None \<Rightarrow> f W | Some y \<Rightarrow> h y W)"
    and "(case p of (y, z) \<Rightarrow> k y z) W = (case p of (y, z) \<Rightarrow> k y z W)"
  by (simp_all split: option.split prod.split)

lemma bindS_simps [simp]:
  "bindS (retS x) f = f x" "bindS (failS e) f = failS e" "bindS panicS f = panicS"
  by (rule ext, simp add: bindS_def)+

lemma bindS_getS [simp]: "bindS (getS g) f W = f (g W) W"
  by (simp add: bindS_def)
lemma bindS_modS [simp]: "bindS (modS g) f W = f () (g W)"
  by (simp add: bindS_def)

lemma bindS_assoc [simp]: "bindS (bindS m f) g = bindS m (\<lambda>x. bindS (f x) g)"
proof
  fix W
  show "bindS (bindS m f) g W = bindS m (\<lambda>x. bindS (f x) g) W"
    by (cases "m W") (auto simp: bindS_def split: sum.split prod.split)
qed

lemma bindS_Ok: "m W = Ok (Inr x, W') \<Longrightarrow> bindS m f W = f x W'"
  by (simp add: bindS_def)
lemma bindS_Inl: "m W = Ok (Inl e, W') \<Longrightarrow> bindS m f W = Ok (Inl e, W')"
  by (simp add: bindS_def)

lemma bindS_cases:
  assumes "bindS m f W = Ok (x, W')"
  obtains e where "m W = Ok (Inl e, W')" "x = Inl e" | y V where "m W = Ok (Inr y, V)" "f y V = Ok (x, W')"
proof (cases "m W")
  case (Ok p)
  obtain y V where p: "p = (y, V)" by fastforce
  then show thesis using assms Ok that by (cases y) (auto simp: bindS_def)
qed (use assms in \<open>auto simp: bindS_def\<close>)

lemma bindS_cong:
  assumes "m W = m' W" and "\<And>x V. m' W = Ok (Inr x, V) \<Longrightarrow> f x V = g x V"
  shows "bindS m f W = bindS m' g W"
proof (cases "m' W")
  case (Ok p)
  then obtain x V where "m' W = Ok (x, V)" by (cases p) auto
  then show ?thesis using assms by (cases x) (simp_all add: bindS_def)
qed (simp_all add: assms(1) bindS_def)

text \<open>What calls of the store and of the codec leave alone.\<close>

lemma db_call_frame:
  assumes "db_call f W = Ok (x, V)"
  shows "registry V = registry W" "unicode V = unicode W" "clock V = clock W" "tracker V = tracker W" "ext V = ext W"
  using assms by (cases "f (db W)"; auto simp: db_call_def split: if_splits)+

lemma db_frame:
  "db_get g W = Ok (x, V) \<Longrightarrow> registry V = registry W \<and> unicode V = unicode W \<and> clock V = clock W"
  "db_set h W = Ok (y, V) \<Longrightarrow> registry V = registry W \<and> unicode V = unicode W \<and> clock V = clock W"
  "db_find k W = Ok (z, V) \<Longrightarrow> registry V = registry W \<and> unicode V = unicode W \<and> clock V = clock W"
  unfolding db_get_def db_set_def db_find_def by (blast dest: db_call_frame)+

lemma liftS_frame: "liftS a W = Ok (x, V) \<Longrightarrow> V = W"
  by (cases a) (auto simp: liftS_def)

lemma tryS_run: "tryS m W = (case m W of Ok (x, V) \<Rightarrow> Ok (Inr x, V) | Err e \<Rightarrow> Err e | Panic \<Rightarrow> Panic | Hang \<Rightarrow> Hang)"
  by (cases "m W") (auto simp: tryS_def)

text \<open>
  A relation between the world before and after, that a service keeps whatever its result; it is
  reflexive and transitive, so that it is composed along the calls.
\<close>

definition keepsS :: "(World \<Rightarrow> World \<Rightarrow> bool) \<Rightarrow> 'a svc \<Rightarrow> bool" where
  "keepsS R m \<longleftrightarrow> (\<forall>W x W'. m W = Ok (x, W') \<longrightarrow> R W W')"

named_theorems keeps

lemma keepsI: "(\<And>W x W'. m W = Ok (x, W') \<Longrightarrow> R W W') \<Longrightarrow> keepsS R m"
  by (simp add: keepsS_def)

lemma keepsD: "keepsS R m \<Longrightarrow> m W = Ok (x, W') \<Longrightarrow> R W W'"
  by (auto simp: keepsS_def)

lemma keeps_basic [keeps]:
  assumes "reflp R"
  shows "keepsS R (retS x)" "keepsS R (failS e)" "keepsS R panicS" "keepsS R (getS g)" "keepsS R (liftS a)"
  using assms by (auto simp: keepsS_def reflp_def liftS_def split: outcome.splits)

lemma keeps_bindS:
  assumes "transp R" and "keepsS R m" and "\<And>x. keepsS R (f x)"
  shows "keepsS R (bindS m f)"
proof (rule keepsI)
  fix W x W' assume "bindS m f W = Ok (x, W')"
  then show "R W W'"
    by (cases rule: bindS_cases) (use assms in \<open>auto dest: keepsD transpD\<close>)
qed

lemma keeps_catchS:
  assumes "transp R" and "keepsS R m" and "\<And>e. keepsS R (h e)"
  shows "keepsS R (catchS m h)"
proof (rule keepsI)
  fix W x W' assume *: "catchS m h W = Ok (x, W')"
  then obtain y V where m: "m W = Ok (y, V)" by (cases "m W") (auto simp: catchS_def)
  then have "R W V" using assms(2) by (auto dest: keepsD)
  moreover have "V = W' \<or> R V W'" using * m assms(3) by (cases y) (auto simp: catchS_def dest: keepsD)
  ultimately show "R W W'" using assms(1) by (auto dest: transpD)
qed

lemma keeps_forS:
  assumes "reflp R" and "transp R" and "\<And>x. x \<in> set xs \<Longrightarrow> keepsS R (f x)"
  shows "keepsS R (forS xs f)"
  using assms(3)
proof (induction xs)
  case (Cons x xs)
  have "keepsS R (bindS (f x) (\<lambda>_. forS xs f))" using Cons assms(2) by (intro keeps_bindS) auto
  then show ?case by simp
qed (simp add: keeps_basic assms)

lemma keeps_foldS:
  assumes "reflp R" and "transp R" and "\<And>x b. x \<in> set xs \<Longrightarrow> keepsS R (f x b)"
  shows "keepsS R (foldS xs f b)"
  using assms(3)
proof (induction xs arbitrary: b)
  case (Cons x xs)
  have "keepsS R (bindS (f x b) (foldS xs f))" using Cons assms(2) by (intro keeps_bindS) auto
  then show ?case by simp
qed (simp add: keeps_basic assms)

lemma keeps_db_call:
  assumes "\<And>W S. R W (W\<lparr>db := S, faults := tl (faults W)\<rparr>)"
  shows "keepsS R (db_call f)"
proof (rule keepsI)
  fix W x W' assume "db_call f W = Ok (x, W')"
  then obtain S where "W' = W\<lparr>db := S, faults := tl (faults W)\<rparr>"
    by (cases "f (db W)") (auto simp: db_call_def split: if_splits intro: that [of "db W"])
  then show "R W W'" using assms by simp
qed

text \<open>How a call of the store runs.\<close>

lemma db_get_run:
  "bindS (db_get g) f W = (if faults W \<noteq> [] \<and> hd (faults W) then Ok (Inl DBFailure, W\<lparr>faults := tl (faults W)\<rparr>)
     else f (g (db W)) (W\<lparr>faults := tl (faults W)\<rparr>))"
  by (simp add: db_get_def db_call_def bindS_def)

lemma db_set_run:
  "bindS (db_set g) f W = (if faults W \<noteq> [] \<and> hd (faults W) then Ok (Inl DBFailure, W\<lparr>faults := tl (faults W)\<rparr>)
     else f () (W\<lparr>db := g (db W), faults := tl (faults W)\<rparr>))"
  by (simp add: db_set_def db_call_def bindS_def)

lemma all_rels_run:
  "bindS (all_rels sn flt) f W = (if faults W \<noteq> [] \<and> hd (faults W) then Ok (Inl DBFailure, W\<lparr>faults := tl (faults W)\<rparr>)
     else f (AllRelationships (unicode W) sn flt (db W)) (W\<lparr>faults := tl (faults W)\<rparr>))"
  by (simp add: all_rels_def db_get_run)

lemma one_rel_run:
  "bindS (one_rel you them) f W = (if faults W \<noteq> [] \<and> hd (faults W) then Ok (Inl DBFailure, W\<lparr>faults := tl (faults W)\<rparr>)
     else f (store_Relationship (unicode W) you them (db W)) (W\<lparr>faults := tl (faults W)\<rparr>))"
  by (simp add: one_rel_def db_get_run)

section \<open>Delivery\<close>

lemma fold_upd_sess:
  assumes "distinct ks" and "\<forall>k \<in> set ks. k < length (slots M)"
  shows "sess_of (fold (\<lambda>k. upd_sess k f) ks M) j = (if j \<in> set ks then f (sess_of M j) else sess_of M j) \<and>
    length (slots (fold (\<lambda>k. upd_sess k f) ks M)) = length (slots M) \<and>
    store (fold (\<lambda>k. upd_sess k f) ks M) = store M \<and>
    slot_name (slot_of (fold (\<lambda>k. upd_sess k f) ks M) j) = slot_name (slot_of M j)"
  using assms
proof (induction ks arbitrary: M)
  case (Cons k ks)
  then show ?case using Cons.IH [of "upd_sess k f M"] by auto
qed simp

lemma in_map_filter: "k \<in> set (List.map_filter f xs) \<longleftrightarrow> (\<exists>x \<in> set xs. f x = Some k)"
  by (induction xs) (auto simp: List.map_filter_simps split: option.split)

lemma retrieve_set:
  assumes "store_ok M"
  shows "set (retrieveByScreenNames sns M) = {k. \<exists>sn \<in> set sns. map_of (store M) sn = Some k}"
  by (auto simp: retrieveByScreenNames_def in_map_filter findRec_eq [OF assms])

lemma map_filter_distinct:
  assumes "distinct xs" and "\<And>x y k. f x = Some k \<Longrightarrow> f y = Some k \<Longrightarrow> x = y"
  shows "distinct (List.map_filter f xs)"
  using assms(1)
proof (induction xs)
  case (Cons x xs)
  then show ?case using assms(2) by (cases "f x") (auto simp: List.map_filter_simps in_map_filter)
qed (simp add: List.map_filter_simps)

lemma store_inj:
  assumes "store_ok M" and "map_of (store M) a = Some k" and "map_of (store M) b = Some k"
  shows "a = b"
  using assms unfolding store_ok_def by metis

lemma RelayToScreenNames_spec:
  assumes "store_ok M" and "distinct sns"
  shows "sess_of (RelayToScreenNames sns m M) j =
    (if \<exists>sn \<in> set sns. map_of (store M) sn = Some j then maybeRelayMessage m (sess_of M j) else sess_of M j)"
proof -
  have "distinct (retrieveByScreenNames sns M)"
    unfolding retrieveByScreenNames_def using store_inj [OF assms(1)]
    by (intro map_filter_distinct assms(2)) (auto simp: findRec_eq [OF assms(1)])
  moreover have "\<forall>k \<in> set (retrieveByScreenNames sns M). k < length (slots M)"
    using assms(1) by (auto simp: retrieve_set [OF assms(1)] store_ok_def)
  ultimately show ?thesis
    using fold_upd_sess [of "retrieveByScreenNames sns M" M "maybeRelayMessage m" j] retrieve_set [OF assms(1), of sns]
    by (auto simp: RelayToScreenNames_def)
qed

text \<open>The sessions of an account, which no message to another account touches.\<close>

definition sessions_named :: "IdentScreenName \<Rightarrow> 'm SessionManager \<Rightarrow> 'm Session list" where
  "sessions_named n M = map slot_sess (filter (\<lambda>s. slot_name s = n) (slots M))"

lemma filter_update_out:
  "k < length xs \<Longrightarrow> \<not> P (xs ! k) \<Longrightarrow> \<not> P x \<Longrightarrow> filter P (xs[k := x]) = filter P xs"
  by (induction xs arbitrary: k) (auto split: nat.splits)

lemma sessions_named_upd:
  assumes "k < length (slots M)" and "slot_name (slot_of M k) \<noteq> n"
  shows "sessions_named n (upd_sess k f M) = sessions_named n M"
  using assms by (simp add: sessions_named_def upd_sess_def slot_of_def filter_update_out)

locale relay_interface =
  fixes ok :: "'r \<Rightarrow> bool" and relay :: "IdentScreenName \<Rightarrow> 'm \<Rightarrow> 'r \<Rightarrow> 'r" and box :: "IdentScreenName \<Rightarrow> 'r \<Rightarrow> 'b"
  assumes relay_ok: "ok r \<Longrightarrow> ok (relay n m r)"
    and relay_other: "ok r \<Longrightarrow> n \<noteq> u \<Longrightarrow> box u (relay n m r) = box u r"
begin

definition untouched :: "IdentScreenName \<Rightarrow> 'r \<Rightarrow> 'r \<Rightarrow> bool" where
  "untouched u r r' \<longleftrightarrow> (ok r \<longrightarrow> ok r' \<and> box u r' = box u r)"

lemma untouched_refl: "reflp (untouched u)"
  by (simp add: reflp_def untouched_def)

lemma untouched_trans: "transp (untouched u)"
  by (simp add: transp_def untouched_def)

lemma untouched_relay: "n \<noteq> u \<Longrightarrow> untouched u r (relay n m r)"
  by (simp add: untouched_def relay_ok relay_other)

end

text \<open>Sessions carry the name of their slot.\<close>

definition registry_ok :: "'m SessionManager \<Rightarrow> bool" where
  "registry_ok M \<longleftrightarrow> store_ok M \<and> (\<forall>k < length (slots M). identScreenName (sess_of M k) = slot_name (slot_of M k))"

lemma ident_relay_to [simp]: "identScreenName (relay_to m i s) = identScreenName s"
  by (auto simp: relay_to_def CloseInstance_def Let_def removeInstanceAndMaybeClose_def removeInstanceLocked_def close_inst_def
      log_event_def upd_inst_def split: SessSendStatus.split prod.split if_splits)

lemma ident_fold: "(\<And>i s. identScreenName (f i s) = identScreenName s) \<Longrightarrow> identScreenName (fold f is s) = identScreenName s"
  by (induction "is" arbitrary: s) auto

lemma ident_relay [simp]:
  "identScreenName (maybeRelayMessage m s) = identScreenName s"
  "identScreenName (maybeRelayMessageActiveOnly m s) = identScreenName s"
  by (auto simp: maybeRelayMessage_def maybeRelayMessageActiveOnly_def intro!: ident_fold)

lemma registry_ok_upd:
  "registry_ok M \<Longrightarrow> (\<And>s. identScreenName (f s) = identScreenName s) \<Longrightarrow> k < length (slots M) \<Longrightarrow> registry_ok (upd_sess k f M)"
  by (auto simp: registry_ok_def store_ok_def)

interpretation users: relay_interface registry_ok RelayToScreenName sessions_named
proof
  fix n u :: IdentScreenName and m :: 'a and M :: "'a SessionManager"
  assume ok: "registry_ok M"
  show "registry_ok (RelayToScreenName n m M)"
    using ok registry_ok_upd [OF ok, of "maybeRelayMessage m"]
    by (auto simp: RelayToScreenName_def RetrieveSession_def registry_ok_def store_ok_def split: option.split)
  show "sessions_named u (RelayToScreenName n m M) = sessions_named u M" if "n \<noteq> u"
    using ok that by (auto simp: RelayToScreenName_def RetrieveSession_def registry_ok_def store_ok_def
      intro!: sessions_named_upd split: option.splits)
qed

interpretation active: relay_interface registry_ok RelayToScreenNameActiveOnly sessions_named
proof
  fix n u :: IdentScreenName and m :: 'a and M :: "'a SessionManager"
  assume ok: "registry_ok M"
  show "registry_ok (RelayToScreenNameActiveOnly n m M)"
    using ok registry_ok_upd [OF ok, of "maybeRelayMessageActiveOnly m"]
    by (auto simp: RelayToScreenNameActiveOnly_def RetrieveSession_def registry_ok_def store_ok_def split: option.split)
  show "sessions_named u (RelayToScreenNameActiveOnly n m M) = sessions_named u M" if "n \<noteq> u"
    using ok that by (auto simp: RelayToScreenNameActiveOnly_def RetrieveSession_def registry_ok_def store_ok_def
      intro!: sessions_named_upd split: option.splits)
qed

end
