(* ===== verification/Presence.thy ===== *)
theory Presence
  imports Services
begin

text \<open>
  Presence: who is told that a user came online, changed or left (\<open>foodgroup/buddy.go\<close>), the client-side
  buddy and privacy lists (\<open>foodgroup/permit_deny.go\<close>), and the small services for user lookup and
  statistics (\<open>foodgroup/user_lookup.go\<close>, \<open>foodgroup/stats.go\<close>).
\<close>

unbundle bit_operations_syntax

section \<open>Numbers\<close>

definition BuddyRightsReply :: u16 where "BuddyRightsReply = 0x0003"
definition BuddyTLVTagsParmMaxBuddies :: u16 where "BuddyTLVTagsParmMaxBuddies = 0x01"
definition BuddyTLVTagsParmMaxWatchers :: u16 where "BuddyTLVTagsParmMaxWatchers = 0x02"
definition BuddyTLVTagsParmMaxIcqBroad :: u16 where "BuddyTLVTagsParmMaxIcqBroad = 0x03"
definition BuddyTLVTagsParmMaxTempBuddies :: u16 where "BuddyTLVTagsParmMaxTempBuddies = 0x04"
definition BuddyRejectNotification :: u16 where "BuddyRejectNotification = 0x000A"
definition BuddyArrived :: u16 where "BuddyArrived = 0x000B"
definition BuddyDeparted :: u16 where "BuddyDeparted = 0x000C"
definition PermitDenyRightsReply :: u16 where "PermitDenyRightsReply = 0x0003"
definition PermitDenyTLVMaxPermits :: u16 where "PermitDenyTLVMaxPermits = 0x01"
definition PermitDenyTLVMaxDenies :: u16 where "PermitDenyTLVMaxDenies = 0x02"
definition PermitDenyTLVMaxTempPermits :: u16 where "PermitDenyTLVMaxTempPermits = 0x03"
definition UserLookupErr :: u16 where "UserLookupErr = 0x0001"
definition UserLookupFindReply :: u16 where "UserLookupFindReply = 0x0003"
definition UserLookupErrNoUserFound :: u16 where "UserLookupErrNoUserFound = 0x0014"
definition UserLookupTLVEmailAddress :: u16 where "UserLookupTLVEmailAddress = 0x0001"
definition StatsReportAck :: u16 where "StatsReportAck = 0x0004"

lemmas presence_consts = BuddyRightsReply_def BuddyTLVTagsParmMaxBuddies_def
  BuddyTLVTagsParmMaxWatchers_def BuddyTLVTagsParmMaxIcqBroad_def BuddyTLVTagsParmMaxTempBuddies_def
  BuddyRejectNotification_def BuddyArrived_def BuddyDeparted_def PermitDenyRightsReply_def PermitDenyTLVMaxPermits_def
  PermitDenyTLVMaxDenies_def PermitDenyTLVMaxTempPermits_def UserLookupErr_def UserLookupFindReply_def
  UserLookupErrNoUserFound_def UserLookupTLVEmailAddress_def StatsReportAck_def

section \<open>The notifier\<close>

definition arrival :: "TLVUserInfo \<Rightarrow> SNACMessage" where
  "arrival u = snac Buddy BuddyArrived ReqIDFromServer SNAC_0x03_0x0B_BuddyArrived_ty (VStruct [TLVUserInfo_val u])"

definition departure :: "bytes \<Rightarrow> u16 \<Rightarrow> TLVList \<Rightarrow> SNACMessage" where
  "departure n lvl l = snac Buddy BuddyDeparted ReqIDFromServer SNAC_0x03_0x0C_BuddyDeparted_ty
     (VStruct [TLVUserInfo_val \<lparr>ui_ScreenName = n, ui_WarningLevel = lvl, ui_TLVList = l\<rparr>])"

text \<open>Who learns of a change: those who have the user as a buddy, unless one blocks the other.\<close>

definition watchers :: "Relationship list \<Rightarrow> IdentScreenName list" where
  "watchers rs = map rel_User (filter (\<lambda>r. \<not> (YouBlock r \<or> BlocksYou r \<or> \<not> IsOnTheirList r)) rs)"

definition BroadcastBuddyArrived :: "IdentScreenName \<Rightarrow> TLVUserInfo \<Rightarrow> unit svc" where
  "BroadcastBuddyArrived sn info =
     bindS (liftS (IsInvisible (ui_TLVList info))) (\<lambda>invisible.
       if invisible then retS ()
       else bindS (all_rels sn []) (\<lambda>rs. relay_users (watchers rs) (arrival info)))"

definition BroadcastBuddyDeparted :: "IdentScreenName \<Rightarrow> unit svc" where
  "BroadcastBuddyDeparted sn =
     bindS (all_rels sn []) (\<lambda>rs.
       bindS (tlvsS [tlv16 OServiceUserInfoUserFlags 0]) (\<lambda>l.
         relay_users (watchers rs) (departure (screenName sn) 0 l)))"

definition unicastBuddyDeparted :: "nat \<Rightarrow> IdentScreenName \<Rightarrow> unit svc" where
  "unicastBuddyDeparted k to =
     bindS (getS (\<lambda>W. sess_of (registry W) k)) (\<lambda>s.
       relay_user to (departure (screenName (identScreenName s)) (warning s) []))"

definition unicastBuddyArrived :: "TLVUserInfo \<Rightarrow> IdentScreenName \<Rightarrow> unit svc" where
  "unicastBuddyArrived info to =
     bindS (liftS (IsInvisible (ui_TLVList info))) (\<lambda>invisible.
       if invisible then retS () else relay_user to (arrival info))"

definition whenS :: "bool \<Rightarrow> unit svc \<Rightarrow> unit svc" where
  "whenS b m = (if b then m else retS ())"

definition notify_pair :: "inst_ref \<Rightarrow> IdentScreenName \<Rightarrow> TLVUserInfo \<Rightarrow> bool \<Rightarrow> Relationship \<Rightarrow> unit svc" where
  "notify_pair you your_name yourInfo doSendDepartures r =
     (if BlocksYou r then retS ()
      else bindS (find_session (rel_User r)) (\<lambda>theirSess.
        case theirSess of
          None \<Rightarrow> retS ()
        | Some k \<Rightarrow>
            bindS (getS (\<lambda>W. identScreenName (sess_of (registry W) k))) (\<lambda>their_name.
              if \<not> YouBlock r then
                bindS (whenS (IsOnTheirList r) (unicastBuddyArrived yourInfo their_name)) (\<lambda>_.
                  whenS (IsOnYourList r) (bindS (user_info_of k) (\<lambda>theirInfo. unicastBuddyArrived theirInfo your_name)))
              else if doSendDepartures then
                bindS (whenS (IsOnTheirList r) (unicastBuddyDeparted (fst you) their_name)) (\<lambda>_.
                  whenS (IsOnYourList r) (unicastBuddyDeparted k your_name))
              else retS ())))"

definition BroadcastVisibility :: "inst_ref \<Rightarrow> IdentScreenName list \<Rightarrow> bool \<Rightarrow> unit svc" where
  "BroadcastVisibility you flt doSendDepartures =
     bindS (me you) (\<lambda>your_name.
       bindS (all_rels your_name flt) (\<lambda>rs.
         bindS (user_info_of (fst you)) (\<lambda>yourInfo.
           forS rs (notify_pair you your_name yourInfo doSendDepartures))))"

section \<open>The client-side buddy list\<close>

definition buddy_RightsQuery :: "u32 \<Rightarrow> SNACMessage svc" where
  "buddy_RightsQuery rid = bindS (tlvsS [tlv16 BuddyTLVTagsParmMaxBuddies 100, tlv16 BuddyTLVTagsParmMaxWatchers 100,
       tlv16 BuddyTLVTagsParmMaxIcqBroad 100, tlv16 BuddyTLVTagsParmMaxTempBuddies 100]) (\<lambda>l.
     retS (snac Buddy BuddyRightsReply rid SNAC_0x03_0x03_BuddyRightsReply_ty (VStruct [rest_block l])))"

text \<open>
  \<open>UIN() \<noteq> 0\<close>: an ICQ contact needs an ICQ user, and an authorisation where the contact asks for one.
\<close>

definition may_not_add :: "IdentScreenName \<Rightarrow> IdentScreenName \<Rightarrow> bool svc" where
  "may_not_add my_name them =
     (if UIN them = 0 then retS False
      else if UIN my_name = 0 then retS True
      else bindS (getS unicode) (\<lambda>t. db_get (RequiresAuthorization t them my_name)))"

definition add_buddy_entry :: "IdentScreenName \<Rightarrow> bytes \<Rightarrow> bytes list \<times> IdentScreenName list \<Rightarrow>
    (bytes list \<times> IdentScreenName list) svc" where
  "add_buddy_entry my_name name acc =
     bindS (ident name) (\<lambda>them.
       bindS (may_not_add my_name them) (\<lambda>refused.
         if refused then retS (fst acc @ [name], snd acc)
         else bindS (db_set (store_AddBuddy my_name them)) (\<lambda>_. retS (fst acc, snd acc @ [them]))))"

definition AddBuddies :: "inst_ref \<Rightarrow> u32 \<Rightarrow> bytes list \<Rightarrow> SNACMessage option svc" where
  "AddBuddies i rid buddies =
     bindS (me i) (\<lambda>my_name.
       bindS (foldS buddies (add_buddy_entry my_name) ([], [])) (\<lambda>(rejected, added).
         bindS (mod_conn i SetContactsInit) (\<lambda>_.
           bindS (getS (conn i)) (\<lambda>c.
             if \<not> signonComplete c then retS None
             else bindS (whenS (added \<noteq> []) (BroadcastVisibility i added True)) (\<lambda>_.
               if rejected \<noteq> [] then
                 retS (Some (snac Buddy BuddyRejectNotification rid SNAC_0x03_0x0A_BuddyRejectNotification_ty
                   (VStruct [VList (map (\<lambda>n. VStruct [VString n]) rejected)])))
               else retS None)))))"

definition remove_buddy_entry :: "IdentScreenName \<Rightarrow> bytes \<Rightarrow> IdentScreenName list \<Rightarrow> IdentScreenName list svc" where
  "remove_buddy_entry my_name name acc =
     bindS (ident name) (\<lambda>sn. bindS (db_set (RemoveBuddy my_name sn)) (\<lambda>_. retS (acc @ [sn])))"

definition DelBuddies :: "inst_ref \<Rightarrow> bytes list \<Rightarrow> unit svc" where
  "DelBuddies i buddies =
     bindS (me i) (\<lambda>my_name.
       bindS (foldS buddies (remove_buddy_entry my_name) []) (\<lambda>toNotify. BroadcastVisibility i toNotify True))"

definition AddTempBuddies :: "inst_ref \<Rightarrow> u32 \<Rightarrow> bytes list \<Rightarrow> SNACMessage option svc" where
  "AddTempBuddies i rid buddies = AddBuddies i rid buddies"

definition DelTempBuddies :: "inst_ref \<Rightarrow> bytes list \<Rightarrow> unit svc" where
  "DelTempBuddies i buddies = DelBuddies i buddies"

section \<open>The privacy lists\<close>

definition maybeBroadcastVisibility :: "inst_ref \<Rightarrow> bytes list \<Rightarrow> unit svc" where
  "maybeBroadcastVisibility i users =
     bindS (getS (conn i)) (\<lambda>c.
       if \<not> signonComplete c then retS ()
       else bindS (getS unicode) (\<lambda>t. BroadcastVisibility i (map (NewIdentScreenName t) users) True))"

text \<open>Naming oneself alone switches the mode: permit all for the deny list, deny all for the permit list.\<close>

definition add_list_entries :: "u8 \<Rightarrow> u8 \<Rightarrow> (IdentScreenName \<Rightarrow> IdentScreenName \<Rightarrow> Store \<Rightarrow> Store) \<Rightarrow>
    inst_ref \<Rightarrow> bytes list \<Rightarrow> unit svc" where
  "add_list_entries selfMode listMode enter i users =
     bindS (me i) (\<lambda>my_name.
       bindS (getS unicode) (\<lambda>t.
         if length users = 1 \<and> NewIdentScreenName t (hd users) = my_name then
           bindS (db_set (SetPDMode my_name selfMode)) (\<lambda>_. maybeBroadcastVisibility i [])
         else
           bindS (db_set (SetPDMode my_name listMode)) (\<lambda>_.
             bindS (forS users (\<lambda>u. db_set (enter my_name (NewIdentScreenName t u)))) (\<lambda>_.
               maybeBroadcastVisibility i []))))"

definition AddDenyListEntries :: "inst_ref \<Rightarrow> bytes list \<Rightarrow> unit svc" where
  "AddDenyListEntries = add_list_entries FeedbagPDModePermitAll FeedbagPDModeDenySome DenyBuddy"

definition AddPermListEntries :: "inst_ref \<Rightarrow> bytes list \<Rightarrow> unit svc" where
  "AddPermListEntries = add_list_entries FeedbagPDModeDenyAll FeedbagPDModePermitSome PermitBuddy"

definition del_list_entries :: "(IdentScreenName \<Rightarrow> IdentScreenName \<Rightarrow> Store \<Rightarrow> Store) \<Rightarrow>
    inst_ref \<Rightarrow> bytes list \<Rightarrow> unit svc" where
  "del_list_entries drop_entry i users =
     (if users = [] then retS ()
      else bindS (me i) (\<lambda>my_name.
        bindS (getS unicode) (\<lambda>t.
          bindS (forS users (\<lambda>u. db_set (drop_entry my_name (NewIdentScreenName t u)))) (\<lambda>_.
            maybeBroadcastVisibility i users))))"

definition DelDenyListEntries :: "inst_ref \<Rightarrow> bytes list \<Rightarrow> unit svc" where
  "DelDenyListEntries = del_list_entries RemoveDenyBuddy"

definition DelPermListEntries :: "inst_ref \<Rightarrow> bytes list \<Rightarrow> unit svc" where
  "DelPermListEntries = del_list_entries RemovePermitBuddy"

definition pd_RightsQuery :: "u32 \<Rightarrow> SNACMessage svc" where
  "pd_RightsQuery rid = bindS (tlvsS [tlv16 PermitDenyTLVMaxDenies 100, tlv16 PermitDenyTLVMaxPermits 100,
       tlv16 PermitDenyTLVMaxTempPermits 100]) (\<lambda>l.
     retS (snac PermitDeny PermitDenyRightsReply rid SNAC_0x09_0x03_PermitDenyRightsReply_ty (VStruct [rest_block l])))"

section \<open>User lookup and statistics\<close>

definition FindByEmail :: "u32 \<Rightarrow> bytes \<Rightarrow> SNACMessage svc" where
  "FindByEmail rid email =
     bindS (getS unicode) (\<lambda>t.
       bindS (catchS (bindS (db_find (FindByAIMEmail t email)) (\<lambda>u. retS (Some u)))
           (\<lambda>e. if e = StoreErr ErrNoUser then retS None else failS e)) (\<lambda>found.
         case found of
           None \<Rightarrow> retS (snac UserLookup UserLookupErr rid TU16 (VU16 UserLookupErrNoUserFound))
         | Some u \<Rightarrow> bindS (tlvsS [tlv_str UserLookupTLVEmailAddress (Display u)]) (\<lambda>l.
             retS (snac UserLookup UserLookupFindReply rid SNAC_0x0A_0x03_UserLookupFindReply_ty (VStruct [rest_block l])))))"

definition ReportEvents :: "u32 \<Rightarrow> SNACMessage" where
  "ReportEvents rid = snac Stats StatsReportAck rid SNAC_0x0B_0x04_StatsReportAck_ty (VStruct [])"

section \<open>Who is told\<close>

text \<open>Names are stored in normal form, as the statements write them.\<close>

definition names_normal :: "unicode_tables \<Rightarrow> 'z BuddyTables_scheme \<Rightarrow> bool" where
  "names_normal t T \<longleftrightarrow> (\<forall>a b. mentions T a b \<longrightarrow> screenName (NewIdentScreenName t a) = a \<and> screenName (NewIdentScreenName t b) = b)"

text \<open>\<open>u\<close> watches \<open>a\<close>: has \<open>a\<close> as a buddy, and neither shuts the other out.\<close>

definition watches :: "bytes \<Rightarrow> bytes \<Rightarrow> 'z BuddyTables_scheme \<Rightarrow> bool" where
  "watches u a T \<longleftrightarrow> related a u T \<and> has_buddy T u a \<and> \<not> shuts_out T u a \<and> \<not> shuts_out T a u"

lemma related_normal: "names_normal t T \<Longrightarrow> related a n T \<Longrightarrow> screenName (NewIdentScreenName t n) = n"
  by (auto simp: names_normal_def related_def)

lemma has_buddy_mentions: "has_buddy T u a \<Longrightarrow> mentions T u a"
  by (auto simp: has_buddy_def mentions_def client_lists_def server_lists_def list_ex_iff)

lemma watchers_map:
  "watchers (map (\<lambda>n. rel_between t a n T) ns) =
     map (NewIdentScreenName t) (filter (\<lambda>n. has_buddy T n a \<and> \<not> shuts_out T n a \<and> \<not> shuts_out T a n) ns)"
  by (induction ns) (auto simp: watchers_def rel_between_def)

lemma distinct_watchers:
  assumes "tables_ok T" and "names_normal t T"
  shows "distinct (watchers (AllRelationships t a flt T))"
    and "set (watchers (AllRelationships t a flt T)) = {u. in_filter flt (screenName u) \<and> watches (screenName u) (screenName a) T \<and>
      NewIdentScreenName t (screenName u) = u}"
proof -
  define ns where "ns = filter (\<lambda>n. pd_mode T (screenName a) \<noteq> None \<and> pd_mode T n \<noteq> None)
      (remdups (map le_screenName (theirBuddyLists a flt T) @ map le_screenName (yourBuddyList a flt T)))"
  have set_ns: "set ns = {n. in_filter flt n \<and> related (screenName a) n T}"
    using names_their [of a flt T] names_your [of a flt T] by (auto simp: related_def ns_def)
  have normal: "screenName (NewIdentScreenName t n) = n" if "n \<in> set ns" for n
    using that related_normal [OF assms(2), of "screenName a" n] by (simp add: set_ns)
  have eq: "watchers (AllRelationships t a flt T) =
      map (NewIdentScreenName t) (filter (\<lambda>n. has_buddy T n (screenName a) \<and> \<not> shuts_out T n (screenName a) \<and> \<not> shuts_out T (screenName a) n) ns)"
    unfolding AllRelationships_eq [OF assms(1)] ns_def by (rule watchers_map)
  have "distinct ns" by (simp add: ns_def)
  moreover have "inj_on (NewIdentScreenName t) (set ns)" by (rule inj_onI) (metis normal)
  ultimately show "distinct (watchers (AllRelationships t a flt T))"
    unfolding eq by (simp add: distinct_map inj_on_def)
  have "u \<in> set (watchers (AllRelationships t a flt T)) \<longleftrightarrow>
      in_filter flt (screenName u) \<and> watches (screenName u) (screenName a) T \<and> NewIdentScreenName t (screenName u) = u" for u
  proof
    assume "u \<in> set (watchers (AllRelationships t a flt T))"
    then obtain n where "n \<in> set ns" "u = NewIdentScreenName t n" "has_buddy T n (screenName a)"
        "\<not> shuts_out T n (screenName a)" "\<not> shuts_out T (screenName a) n"
      unfolding eq by auto
    then show "in_filter flt (screenName u) \<and> watches (screenName u) (screenName a) T \<and> NewIdentScreenName t (screenName u) = u"
      using normal [of n] by (simp add: set_ns watches_def)
  next
    assume "in_filter flt (screenName u) \<and> watches (screenName u) (screenName a) T \<and> NewIdentScreenName t (screenName u) = u"
    then show "u \<in> set (watchers (AllRelationships t a flt T))"
      unfolding eq by (auto simp: set_ns watches_def intro: image_eqI [of u "NewIdentScreenName t" "screenName u"])
  qed
  then show "set (watchers (AllRelationships t a flt T)) = {u. in_filter flt (screenName u) \<and> watches (screenName u) (screenName a) T \<and>
      NewIdentScreenName t (screenName u) = u}" by blast
qed

text \<open>
  C14: A user who comes online or changes is announced to exactly those who watch the user: every
  registered session of a user who has this one as a buddy, where neither shuts the other out, gets
  the arrival message on its live connections, every other session is left alone, and so is the
  store. An invisible user is announced to nobody.
\<close>

theorem arrival_reaches_watchers:
  assumes "tables_ok (db W)" and "names_normal (unicode W) (db W)" and "store_ok (registry W)" and "faults W = []"
    and "\<forall>n k. map_of (store (registry W)) n = Some k \<longrightarrow> NewIdentScreenName (unicode W) (screenName n) = n"
    and "IsInvisible (ui_TLVList info) = Ok invisible"
  shows "\<exists>W'. BroadcastBuddyArrived sn info W = Ok (Inr (), W') \<and> db W' = db W \<and>
    (\<forall>k. sess_of (registry W') k =
      (if \<not> invisible \<and> (\<exists>u. map_of (store (registry W)) u = Some k \<and> watches (screenName u) (screenName sn) (db W))
       then maybeRelayMessage (arrival info) (sess_of (registry W) k) else sess_of (registry W) k))"
proof (cases invisible)
  case True
  then show ?thesis using assms(6) by (simp add: BroadcastBuddyArrived_def)
next
  case False
  let ?ws = "watchers (AllRelationships (unicode W) sn [] (db W))"
  let ?W = "W\<lparr>registry := RelayToScreenNames ?ws (arrival info) (registry W)\<rparr>"
  have "BroadcastBuddyArrived sn info W = Ok (Inr (), ?W)"
    using False assms(4,6)
    by (simp add: BroadcastBuddyArrived_def all_rels_def db_get_def db_call_def bindS_def relay_users_def)
  moreover have "(\<exists>u \<in> set ?ws. map_of (store (registry W)) u = Some k) \<longleftrightarrow>
      (\<exists>u. map_of (store (registry W)) u = Some k \<and> watches (screenName u) (screenName sn) (db W))" for k
    using assms(5) unfolding distinct_watchers(2) [OF assms(1,2)] by (auto simp: in_filter_def)
  ultimately show ?thesis using False RelayToScreenNames_spec [OF assms(3) distinct_watchers(1) [OF assms(1,2)]]
    by auto
qed

text \<open>
  What a service leaves alone of an account's sessions: the relation that the relay interface gives,
  between worlds.
\<close>

definition quiet_for :: "IdentScreenName \<Rightarrow> World \<Rightarrow> World \<Rightarrow> bool" where
  "quiet_for u W W' \<longleftrightarrow> users.untouched u (registry W) (registry W')"

lemma quiet_laws: "reflp (quiet_for u)" "transp (quiet_for u)"
  using users.untouched_refl users.untouched_trans
  by (fastforce simp: quiet_for_def reflp_def transp_def)+

lemmas quiet_basic = keeps_basic [OF quiet_laws(1)]
lemmas quiet_bind = keeps_bindS [OF quiet_laws(2)]

lemma quiet_relay: "n \<noteq> u \<Longrightarrow> keepsS (quiet_for u) (relay_user n m)"
  by (auto simp: keepsS_def relay_user_def quiet_for_def intro: users.untouched_relay)

lemma quiet_db: "keepsS (quiet_for u) (db_call f)"
  by (rule keeps_db_call) (simp add: quiet_for_def users.untouched_def)

lemma quiet_arrived: "n \<noteq> u \<Longrightarrow> keepsS (quiet_for u) (unicastBuddyArrived info n)"
  unfolding unicastBuddyArrived_def by (intro quiet_bind) (auto intro: quiet_basic quiet_relay)

lemma quiet_departed: "n \<noteq> u \<Longrightarrow> keepsS (quiet_for u) (unicastBuddyDeparted k n)"
  unfolding unicastBuddyDeparted_def by (intro quiet_bind) (auto intro: quiet_basic quiet_relay)

lemma quiet_when: "(b \<Longrightarrow> keepsS (quiet_for u) m) \<Longrightarrow> keepsS (quiet_for u) (whenS b m)"
  by (simp add: whenS_def quiet_basic)

lemma quiet_info: "keepsS (quiet_for u) (user_info_of k)"
  unfolding user_info_of_def by (intro quiet_bind quiet_basic)

lemma quiet_notify:
  assumes "your_name \<noteq> u" and "rel_User r = u \<Longrightarrow> BlocksYou r \<or> \<not> IsOnTheirList r \<or> YouBlock r \<and> \<not> d"
  shows "keepsS (quiet_for u) (notify_pair you your_name info d r)"
proof (rule keepsI)
  fix W x W' assume run: "notify_pair you your_name info d r W = Ok (x, W')"
  show "quiet_for u W W'"
  proof (cases "BlocksYou r \<or> RetrieveSession (rel_User r) (registry W) = None \<or> \<not> registry_ok (registry W)")
    case True
    then show ?thesis using run quiet_laws(1)
      by (auto simp: notify_pair_def find_session_def reflp_def quiet_for_def users.untouched_def split: if_splits)
  next
    case False
    then obtain k where k: "RetrieveSession (rel_User r) (registry W) = Some k" and ok: "registry_ok (registry W)" by auto
    then have name: "identScreenName (sess_of (registry W) k) = rel_User r"
      by (auto simp: RetrieveSession_def registry_ok_def store_ok_def split: option.splits if_splits)
    let ?rest = "if \<not> YouBlock r then
        bindS (whenS (IsOnTheirList r) (unicastBuddyArrived info (rel_User r))) (\<lambda>_.
          whenS (IsOnYourList r) (bindS (user_info_of k) (\<lambda>theirInfo. unicastBuddyArrived theirInfo your_name)))
      else if d then
        bindS (whenS (IsOnTheirList r) (unicastBuddyDeparted (fst you) (rel_User r))) (\<lambda>_.
          whenS (IsOnYourList r) (unicastBuddyDeparted k your_name))
      else retS ()"
    have "keepsS (quiet_for u) ?rest"
      using assms False by (auto intro!: quiet_bind quiet_when quiet_arrived quiet_departed quiet_info quiet_basic)
    moreover have "?rest W = Ok (x, W')" using run False k name
      by (cases "YouBlock r"; cases d) (simp_all add: notify_pair_def find_session_def)
    ultimately show ?thesis by (rule keepsD)
  qed
qed

text \<open>
  C24: Telling others of one's visibility respects their privacy settings: a user who shuts this one
  out, or does not have this one as a buddy, gets no message, and neither does a user this one shuts
  out unless departures are sent.
\<close>

theorem visibility_respects_blocks:
  assumes "tables_ok (db W)" and "names_normal (unicode W) (db W)" and "registry_ok (registry W)"
    and "u \<noteq> identScreenName (sess you W)" and "BroadcastVisibility you flt d W = Ok (x, W')"
    and "shuts_out (db W) (screenName u) (screenName (identScreenName (sess you W))) \<or>
      \<not> has_buddy (db W) (screenName u) (screenName (identScreenName (sess you W))) \<or>
      shuts_out (db W) (screenName (identScreenName (sess you W))) (screenName u) \<and> \<not> d"
  shows "sessions_named u (registry W') = sessions_named u (registry W)"
proof -
  let ?my = "identScreenName (sess you W)"
  let ?rs = "AllRelationships (unicode W) ?my flt (db W)"
  have rows: "BlocksYou r \<or> \<not> IsOnTheirList r \<or> YouBlock r \<and> \<not> d" if r: "r \<in> set ?rs" "rel_User r = u" for r
  proof -
    obtain n where n: "r = rel_between (unicode W) (screenName ?my) n (db W)" "related (screenName ?my) n (db W)"
      using r(1) unfolding set_AllRelationships [OF assms(1)] by auto
    then have "n = screenName u" using r(2) related_normal [OF assms(2), of "screenName ?my" n] by (simp add: rel_between_def)
    then show ?thesis using n assms(6) by (auto simp: rel_between_def)
  qed
  let ?rest = "\<lambda>rs. bindS (user_info_of (fst you)) (\<lambda>info. forS rs (notify_pair you ?my info d))"
  have quiet: "keepsS (quiet_for u) (?rest ?rs)"
    using rows assms(4) by (intro quiet_bind quiet_info keeps_forS [OF quiet_laws] quiet_notify) auto
  have "bindS (all_rels ?my flt) ?rest W = Ok (x, W')"
    using assms(5) by (simp add: BroadcastVisibility_def me_def)
  moreover have "quiet_for u W (W\<lparr>faults := fs\<rparr>)" for fs by (simp add: quiet_for_def users.untouched_def)
  ultimately have "quiet_for u W W'"
    using keepsD [OF quiet, of "W\<lparr>faults := tl (faults W)\<rparr>" x W'] quiet_laws(2)
    by (auto simp: all_rels_run split: if_splits dest: transpD)
  then show ?thesis using assms(3) by (simp add: quiet_for_def users.untouched_def)
qed

text \<open>Two users online, the second with the first as a buddy, or with the first on the deny list.\<close>

definition one_conn :: "IdentScreenName \<Rightarrow> SNACMessage Session" where
  "one_conn n = NewSession\<lparr>heap := [SetSignonComplete (newInstance 1)], instances := [1 \<mapsto> 0], instancesOrdered := [0],
     identScreenName := n, displayScreenName := screenName n\<rparr>"

definition two_online :: "SNACMessage SessionManager" where
  "two_online = NewInMemorySessionManager\<lparr>
     slots := map (\<lambda>n. \<lparr>slot_name = n, slot_sess = one_conn n, removed = False, multiSession = True\<rparr>)
       [IdentScreenName [0x61], IdentScreenName [0x62]],
     store := [(IdentScreenName [0x61], 0), (IdentScreenName [0x62], 1)]\<rparr>"

definition plain_ext :: Externals where
  "plain_ext = \<lparr>cache_of = simple_cache, html_of = (\<lambda>b. [TextToken b]), md5_of = (\<lambda>b. b), mail_of = Some, mac_of = (\<lambda>k b. b),
     cookie_secret = [], scale_of = (\<lambda>x y. 0), DisableMultiLoginNotif = False\<rparr>"

definition small_world :: "bool \<Rightarrow> World" where
  "small_world deny = \<lparr>db = empty_store\<lparr>mode_rows := mode_rows (two_users (if deny then FeedbagPDModeDenySome else FeedbagPDModePermitAll)),
       client_rows := [\<lparr>cr_me = [0x62], cr_them = [0x61], cr_isBuddy = True, cr_isPermit = False, cr_isDeny = False\<rparr>,
         \<lparr>cr_me = [0x61], cr_them = [0x62], cr_isBuddy = False, cr_isPermit = False, cr_isDeny = deny\<rparr>]\<rparr>,
     faults = [], registry = two_online, chats = NewInMemoryChatSessionManager, clock = 0, randoms = [], unicode = ascii_tables,
     tracker = newConvoTracker, ext = plain_ext\<rparr>"

lemmas small_defs = small_world_def two_users_def empty_store_def

lemma small_world_fields [simp]:
  "registry (small_world d) = two_online" "unicode (small_world d) = ascii_tables" "faults (small_world d) = []"
  by (simp_all add: small_world_def)

lemma small_world_ok:
  "tables_ok (db (small_world deny))" "names_normal ascii_tables (db (small_world deny))" "registry_ok two_online"
proof -
  show "tables_ok (db (small_world deny))" by (simp add: tables_ok_def small_defs)
  have "(a = [0x61] \<or> a = [0x62]) \<and> (b = [0x61] \<or> b = [0x62])" if "mentions (db (small_world deny)) a b" for a b
    using that by (auto simp: mentions_def client_lists_def server_lists_def small_defs)
  then show "names_normal ascii_tables (db (small_world deny))" by (fastforce simp: names_normal_def)
  show "registry_ok two_online"
    by (auto simp: registry_ok_def store_ok_def two_online_def slot_of_def sess_of_def one_conn_def less_Suc_eq nth_Cons' numeral_2_eq_2)
qed

lemma small_world_watches:
  "watches [0x62] [0x61] (db (small_world False))" "shuts_out (db (small_world True)) [0x61] [0x62]"
  by (simp_all add: watches_def related_def has_buddy_def shuts_out_def mentions_def client_lists_def server_lists_def pd_mode_def
      denies_def permits_def pd_modes small_defs)

lemma arrival_reaches_watchers_witness:
  "\<exists>W'. BroadcastBuddyArrived (IdentScreenName [0x61]) \<lparr>ui_ScreenName = [0x61], ui_WarningLevel = 0, ui_TLVList = []\<rparr>
      (small_world False) = Ok (Inr (), W') \<and>
     sess_of (registry W') 1 = maybeRelayMessage (arrival \<lparr>ui_ScreenName = [0x61], ui_WarningLevel = 0, ui_TLVList = []\<rparr>)
       (one_conn (IdentScreenName [0x62]))"
proof -
  let ?info = "\<lparr>ui_ScreenName = [0x61], ui_WarningLevel = 0, ui_TLVList = []\<rparr>"
  have online: "map_of (store two_online) n = Some k \<longleftrightarrow> n = IdentScreenName [0x61] \<and> k = 0 \<or> n = IdentScreenName [0x62] \<and> k = 1" for n k
    by (auto simp: two_online_def)
  have registered: "store_ok two_online" using small_world_ok(3) by (simp add: registry_ok_def)
  have "IsInvisible (ui_TLVList ?info) = Ok False"
    by (simp add: IsInvisible_def Uint32BE_eq OServiceUserStatusInvisible_def with_true_def)
  from arrival_reaches_watchers [of "small_world False" ?info False "IdentScreenName [0x61]", OF _ _ _ _ _ this]
  obtain W' where run: "BroadcastBuddyArrived (IdentScreenName [0x61]) ?info (small_world False) = Ok (Inr (), W')"
    and sess: "\<And>k. sess_of (registry W') k = (if \<exists>u. map_of (store two_online) u = Some k \<and>
        watches (screenName u) [0x61] (db (small_world False))
      then maybeRelayMessage (arrival ?info) (sess_of two_online k) else sess_of two_online k)"
    using small_world_ok registered unfolding small_world_fields online by (auto simp: online)
  have "sess_of (registry W') 1 = maybeRelayMessage (arrival ?info) (sess_of two_online 1)"
    using small_world_watches(1) unfolding sess online by auto
  moreover have "sess_of two_online 1 = one_conn (IdentScreenName [0x62])" by (simp add: two_online_def sess_of_def slot_of_def)
  ultimately show ?thesis using run by auto
qed

lemma tlv32_eq: "tlv32 t x = Ok \<lparr>Tag = t, Value = put_uint BigEndian 4 (unat x)\<rparr>"
  by (simp add: tlv32_def NewTLVBE_def newTLV_def MarshalBE_def marshal.simps marshalKind.simps tag_eval binaryWrite_def wput_def)

lemma one_conn_list: "instances_list (one_conn n) = [0]"
proof -
  have none: "List.map_filter [1 \<mapsto> (0::nat)] xs = []" if "(1::u8) \<notin> set xs" for xs
    using that by (induction xs) (simp_all add: List.map_filter_simps)
  obtain xs where xs: "nums = 1 # xs" "1 \<notin> set xs" using distinct_nums nums_Cons by auto
  have "instances_list (one_conn n) = List.map_filter [1 \<mapsto> 0] nums" by (simp add: instances_list_def one_conn_def)
  then show ?thesis unfolding xs(1) using none [OF xs(2)] by (simp add: List.map_filter_simps)
qed

lemma one_conn_instances: "Instances (one_conn n) = [SetSignonComplete (newInstance 1)]"
  by (simp add: Instances_def one_conn_list) (simp add: one_conn_def)

lemma tlv16_eq: "tlv16 t x = Ok \<lparr>Tag = t, Value = put_uint BigEndian 2 (unat x)\<rparr>"
  by (simp add: tlv16_def NewTLVBE_def newTLV_def MarshalBE_def marshal.simps marshalKind.simps tag_eval binaryWrite_def wput_def)

lemma one_conn_info: "\<exists>info. sess_TLVUserInfo now (one_conn n) = Ok info"
proof -
  have "Caps (one_conn n) = []" "\<not> Idle (one_conn n)" 
    by (simp_all add: Caps_def Idle_def one_conn_list one_conn_instances) (simp_all add: one_conn_def newInstance_def SetSignonComplete_def)
  moreover have "bart_ids (one_conn n) = []"
    by (simp add: bart_ids_def sess_BuddyIcon_def sess_Status_def one_conn_def NewSession_def zero_BARTID_def BARTTypesStatusStr_def)
  moreover have "baseUserFlags (one_conn n) AND OServiceUserFlagICQ \<noteq> OServiceUserFlagICQ" 
    by (simp add: baseUserFlags_def one_conn_instances Away_def SetSignonComplete_def newInstance_def user_flags UserInfo.OServiceUserFlagICQ_def)
  ultimately show ?thesis
    by (simp add: sess_TLVUserInfo_def userInfo_def tlv16_eq [unfolded tlv16_def] tlv32_eq [unfolded tlv32_def])
qed

lemma one_conn_fields [simp]:
  "identScreenName (one_conn n) = n" "sess_uin (one_conn n) = 0" "\<not> typingEventsEnabled (one_conn n)"
  by (simp_all add: one_conn_def NewSession_def)

lemma forS_skip: "(\<And>x. x \<in> set xs \<Longrightarrow> f x W = Ok (Inr (), W)) \<Longrightarrow> forS xs f W = Ok (Inr (), W)"
  by (induction xs) (auto simp: bindS_Ok)

lemma visibility_respects_blocks_witness:
  "\<exists>W'. BroadcastVisibility (1, 0) [] True (small_world True) = Ok (Inr (), W') \<and>
     sessions_named (IdentScreenName [0x61]) (registry W') = [one_conn (IdentScreenName [0x61])]"
proof -
  let ?b = "IdentScreenName [0x62]"
  have s: "sess (Suc 0, 0) (small_world True) = one_conn ?b" "sess_of two_online (Suc 0) = one_conn ?b"
    by (simp_all add: sess_def sess_of_def slot_of_def two_online_def)
  have blocked: "BlocksYou r" if r: "r \<in> set (AllRelationships ascii_tables ?b [] (db (small_world True)))" for r
  proof -
    obtain n where n: "r = rel_between ascii_tables [0x62] n (db (small_world True))" "related [0x62] n (db (small_world True))"
      using r unfolding set_AllRelationships [OF small_world_ok(1)] by auto
    then have "n = [0x61]"
      by (auto simp: related_def has_buddy_def mentions_def client_lists_def server_lists_def pd_mode_def small_defs split: if_splits)
    then show ?thesis using n small_world_watches(2) by (simp add: rel_between_def)
  qed
  obtain info where "sess_TLVUserInfo (clock (small_world True)) (one_conn ?b) = Ok info" using one_conn_info by blast
  then have run: "BroadcastVisibility (1, 0) [] True (small_world True) = Ok (Inr (), small_world True)"
    using blocked
    by (simp add: BroadcastVisibility_def me_def s all_rels_run user_info_of_def)
       (auto simp: small_world_def notify_pair_def intro!: forS_skip)
  have "sessions_named (IdentScreenName [0x61]) (registry (small_world True)) = [one_conn (IdentScreenName [0x61])]"
    by (simp add: sessions_named_def two_online_def)
  moreover have "sessions_named (IdentScreenName [0x61]) (registry (small_world True)) =
      sessions_named (IdentScreenName [0x61]) (registry (small_world True))"
    by (rule visibility_respects_blocks [OF _ _ _ _ run]) (use small_world_ok small_world_watches(2) s in \<open>simp_all\<close>)
  ultimately show ?thesis using run by blast
qed

end
