(* ===== verification/Messaging.thy ===== *)
theory Messaging
  imports Presence BuddyPrefs
begin

text \<open>
  The messaging service (\<open>foodgroup/icbm.go\<close>): instant messages between users, messages to users who
  are offline, typing events, and warnings with their decay. Messages that carry an authorisation go on
  to the contact list service, which itself sends messages through this one: the code ties the two by
  function fields, which are the parameter \<open>forward\<close> here.
\<close>

unbundle bit_operations_syntax

section \<open>Numbers\<close>

definition ErrorCodeNotLoggedOn :: u16 where "ErrorCodeNotLoggedOn = 0x04"
definition ErrorCodeInLocalPermitDeny :: u16 where "ErrorCodeInLocalPermitDeny = 0x10"
definition ErrorCodeNotSupportedByHost :: u16 where "ErrorCodeNotSupportedByHost = 0x08"
definition ErrorCodeRequestDenied :: u16 where "ErrorCodeRequestDenied = 0x0D"
definition ErrorTLVErrorSubcode :: u16 where "ErrorTLVErrorSubcode = 0x0008"
definition ICBMSubErrOfflineIMExceedMax :: u16 where "ICBMSubErrOfflineIMExceedMax = 0x000F"
definition ICBMErr :: u16 where "ICBMErr = 0x0001"
definition ICBMParameterReply :: u16 where "ICBMParameterReply = 0x0005"
definition ICBMChannelMsgToHost :: u16 where "ICBMChannelMsgToHost = 0x0006"
definition ICBMChannelMsgToClient :: u16 where "ICBMChannelMsgToClient = 0x0007"
definition ICBMEvilReply :: u16 where "ICBMEvilReply = 0x0009"
definition ICBMHostAck :: u16 where "ICBMHostAck = 0x000C"
definition ICBMClientEvent :: u16 where "ICBMClientEvent = 0x0014"
definition ICBMClientErr :: u16 where "ICBMClientErr = 0x000B"
definition ICBMOfflineRetrieveReply :: u16 where "ICBMOfflineRetrieveReply = 0x0017"
definition OServiceEvilNotification :: u16 where "OServiceEvilNotification = 0x0010"
definition ICBMChannelIM :: u16 where "ICBMChannelIM = 0x01"
definition ICBMChannelRendezvous :: u16 where "ICBMChannelRendezvous = 0x02"
definition ICBMChannelMIME :: u16 where "ICBMChannelMIME = 0x03"
definition ICBMChannelICQ :: u16 where "ICBMChannelICQ = 0x04"
definition ICBMTLVAOLIMData :: u16 where "ICBMTLVAOLIMData = 0x02"
definition ICBMTLVRequestHostAck :: u16 where "ICBMTLVRequestHostAck = 0x03"
definition ICBMTLVData :: u16 where "ICBMTLVData = 0x05"
definition ICBMTLVStore :: u16 where "ICBMTLVStore = 0x06"
definition ICBMTLVWantEvents :: u16 where "ICBMTLVWantEvents = 0x0B"
definition ICBMTLVSendTime :: u16 where "ICBMTLVSendTime = 0x16"
definition ICBMMsgTypeAuthReq :: u8 where "ICBMMsgTypeAuthReq = 0x06"
definition ICBMMsgTypeAuthDeny :: u8 where "ICBMMsgTypeAuthDeny = 0x07"
definition ICBMMsgTypeAuthOK :: u8 where "ICBMMsgTypeAuthOK = 0x08"
definition ICBMMsgTypeAdded :: u8 where "ICBMMsgTypeAdded = 0x0C"
definition ICBMRdvMessagePropose :: u16 where "ICBMRdvMessagePropose = 0x00"
definition ICBMRdvTLVTagsRequesterIP :: u16 where "ICBMRdvTLVTagsRequesterIP = 0x0003"
definition ICBMRdvTLVTagsVerifiedIP :: u16 where "ICBMRdvTLVTagsVerifiedIP = 0x0004"
definition evilDelta :: u16 where "evilDelta = 100"
definition evilDeltaAnon :: u16 where "evilDeltaAnon = 30"
definition FeedbagClassIdBuddyPrefs :: u16 where "FeedbagClassIdBuddyPrefs = 0x0005"
definition CapXHTMLIM :: bytes where
  "CapXHTMLIM = [0x09, 0x46, 0x00, 0x02, 0x4C, 0x7F, 0x11, 0xD1, 0x82, 0x22, 0x44, 0x45, 0x53, 0x54, 0x00, 0x00]"

text \<open>Durations are in nanoseconds.\<close>

definition warningDecayPct :: int where "warningDecayPct = - 50"
definition rateDecayInterval :: int where "rateDecayInterval = 5 * 60 * 10 ^ 9"
definition SNAC_0x04_0x17_ICBMOfflineRetrieveReply_ty :: ty where
  "SNAC_0x04_0x17_ICBMOfflineRetrieveReply_ty = TStruct ''SNAC_0x04_0x17_ICBMOfflineRetrieveReply'' []"

lemmas messaging_consts = ErrorCodeNotLoggedOn_def ErrorCodeInLocalPermitDeny_def
  ErrorCodeNotSupportedByHost_def ErrorCodeRequestDenied_def ErrorTLVErrorSubcode_def
  ICBMSubErrOfflineIMExceedMax_def ICBMErr_def ICBMParameterReply_def ICBMChannelMsgToHost_def
  ICBMChannelMsgToClient_def ICBMEvilReply_def ICBMHostAck_def ICBMClientEvent_def ICBMClientErr_def
  ICBMOfflineRetrieveReply_def OServiceEvilNotification_def ICBMChannelIM_def ICBMChannelRendezvous_def
  ICBMChannelMIME_def ICBMChannelICQ_def ICBMTLVAOLIMData_def ICBMTLVRequestHostAck_def ICBMTLVData_def
  ICBMTLVStore_def ICBMTLVWantEvents_def ICBMTLVSendTime_def ICBMMsgTypeAuthReq_def ICBMMsgTypeAuthDeny_def
  ICBMMsgTypeAuthOK_def ICBMMsgTypeAdded_def ICBMRdvMessagePropose_def ICBMRdvTLVTagsRequesterIP_def
  ICBMRdvTLVTagsVerifiedIP_def evilDelta_def evilDeltaAnon_def FeedbagClassIdBuddyPrefs_def CapXHTMLIM_def warningDecayPct_def rateDecayInterval_def

section \<open>Replies\<close>

text \<open>
  The sender of a message, as the service reads it: a session and the index of a connection. It is a
  connection of the registry or one the contact list service makes up.
\<close>

type_synonym sender = "SNACMessage Session \<times> nat"

definition sender_of :: "inst_ref \<Rightarrow> World \<Rightarrow> sender" where
  "sender_of i W = (sess i W, snd i)"

definition sender_conn :: "sender \<Rightarrow> SNACMessage SessionInstance" where
  "sender_conn s = heap (fst s) ! snd s"

definition newICBMErr :: "u32 \<Rightarrow> u16 \<Rightarrow> TLVList \<Rightarrow> SNACMessage" where
  "newICBMErr rid code l = snac ICBM ICBMErr rid SNACError_ty (VStruct [VU16 code, rest_block l])"

definition host_ack :: "u32 \<Rightarrow> ChannelMsgToHost \<Rightarrow> SNACMessage option" where
  "host_ack rid m =
     (if TLVList_Bytes ICBMTLVRequestHostAck (cm_TLVList m) = None then None
      else Some (snac ICBM ICBMHostAck rid SNAC_0x04_0x0C_ICBMHostAck_ty
        (VStruct [VU64 (cm_Cookie m), VU16 (cm_ChannelID m), VString (cm_ScreenName m)])))"

definition ParameterQuery :: "u32 \<Rightarrow> SNACMessage" where
  "ParameterQuery rid = snac ICBM ICBMParameterReply rid SNAC_0x04_0x05_ICBMParameterReply_ty
     (VStruct [VU16 100, VU32 3, VU16 512, VU16 999, VU16 999, VU32 0])"

section \<open>Messages to users who are offline\<close>

definition canSendOfflineMessage :: "ChannelMsgToHost \<Rightarrow> bool svc" where
  "canSendOfflineMessage m =
     bindS (ident (cm_ScreenName m)) (\<lambda>recip.
       bindS (db_call (\<lambda>S. bind_out (store_Feedbag recip S) (\<lambda>x. Ok (x, S)))) (\<lambda>bag.
         retS (case find (\<lambda>i. ClassID i = FeedbagClassIdBuddyPrefs) bag of
                 Some i \<Rightarrow> BuddyPref (Attrs i) FeedbagBuddyPrefsAcceptOfflineIM
               | None \<Rightarrow> True)))"

definition sendOfflineMessage :: "sender \<Rightarrow> u32 \<Rightarrow> ChannelMsgToHost \<Rightarrow> SNACMessage option svc" where
  "sendOfflineMessage s rid m =
     bindS (ident (cm_ScreenName m)) (\<lambda>recip.
       bindS (getS clock) (\<lambda>now.
         bindS (tryS (db_call (SaveMessage \<lparr>om_Sender = identScreenName (fst s), om_Recipient = recip, om_Message = m,
             om_Sent = now\<rparr>))) (\<lambda>saved.
           case saved of
             Inl e \<Rightarrow>
               if e = StoreErr ErrOfflineInboxFull then
                 bindS (tlvsS [tlv16 ErrorTLVErrorSubcode ICBMSubErrOfflineIMExceedMax]) (\<lambda>l.
                   retS (Some (newICBMErr rid ErrorCodeNotLoggedOn l)))
               else failS e
           | Inr _ \<Rightarrow> retS (host_ack rid m))))"

definition message_to_offline :: "sender \<Rightarrow> u32 \<Rightarrow> ChannelMsgToHost \<Rightarrow> SNACMessage option svc" where
  "message_to_offline s rid m =
     (if TLVList_Bytes ICBMTLVStore (cm_TLVList m) = None then retS (Some (newICBMErr rid ErrorCodeNotLoggedOn []))
      else bindS (canSendOfflineMessage m) (\<lambda>canSend.
        if \<not> canSend then retS (Some (newICBMErr rid ErrorCodeNotLoggedOn []))
        else catchS (sendOfflineMessage s rid m)
          (\<lambda>e. if e = StoreErr ErrNoUser then retS (Some (newICBMErr rid ErrorCodeNotLoggedOn [])) else failS e)))"

section \<open>What is forwarded of a message\<close>

text \<open>An address of four bytes is an IPv4 address.\<close>

definition addExternalIP :: "bytes option \<Rightarrow> TLV \<Rightarrow> TLV outcome" where
  "addExternalIP addr tlv =
     bind_out (fst (UnmarshalBE ICBMCh2Fragment_ty (Value tlv))) (\<lambda>frag.
       let l = val_tlvs (vfield 0 (vfield 3 frag)) in
       if vu16 (vfield 0 frag) \<noteq> ICBMRdvMessagePropose then Ok tlv
       else case addr of
         None \<Rightarrow> Ok tlv
       | Some ip \<Rightarrow>
           if TLVList_HasTag ICBMRdvTLVTagsRequesterIP l \<and> length ip = 4 then
             bind_out (tlv_raw ICBMRdvTLVTagsRequesterIP ip) (\<lambda>requester.
               bind_out (tlv_raw ICBMRdvTLVTagsVerifiedIP ip) (\<lambda>verified.
                 NewTLVBE (Tag tlv) (ICBMCh2Fragment_ty, VStruct [vfield 0 frag, vfield 1 frag, vfield 2 frag,
                   rest_block (TLVList_Append verified (TLVList_Set requester l))])))
           else Ok tlv)"

fun token_text :: "html_token \<Rightarrow> bytes" where
  "token_text (TextToken b) = b"
| "token_text (StartTagToken n) = (if n = ascii ''br'' then [0x0A] else [])"
| "token_text (SelfClosingTagToken n) = (if n = ascii ''br'' then [0x0A] else [])"
| "token_text OtherToken = []"

definition stripHTML :: "(bytes \<Rightarrow> html_token list) \<Rightarrow> bytes \<Rightarrow> bytes" where
  "stripHTML html text = (if text = [] then text else concat (map token_text (html text)))"

text \<open>One fragment, and whether it was changed; a text fragment that cannot be read is left as it is.\<close>

definition strip_fragment :: "(bytes \<Rightarrow> html_token list) \<Rightarrow> val \<Rightarrow> (val \<times> bool) outcome" where
  "strip_fragment html frag =
     (if vu8 (vfield 0 frag) \<noteq> 1 then Ok (frag, False)
      else case fst (UnmarshalBE ICBMCh1Message_ty (val_bytes (vfield 2 frag))) of
        Err e \<Rightarrow> Ok (frag, False)
      | Panic \<Rightarrow> Panic
      | Hang \<Rightarrow> Hang
      | Ok msg \<Rightarrow>
          let text = val_bytes (vfield 2 msg); stripped = stripHTML html text in
          if stripped = text then Ok (frag, False)
          else case MarshalBE (Some (ICBMCh1Message_ty, VStruct [vfield 0 msg, vfield 1 msg, vbytes stripped])) of
            (buf, Ok _) \<Rightarrow> Ok (VStruct [vfield 0 frag, vfield 1 frag, vbytes buf], True)
          | (_, Err e) \<Rightarrow> Ok (frag, False)
          | (_, Panic) \<Rightarrow> Panic
          | (_, Hang) \<Rightarrow> Hang)"

definition stripHTMLFromICBMTLV :: "(bytes \<Rightarrow> html_token list) \<Rightarrow> TLV \<Rightarrow> TLV outcome" where
  "stripHTMLFromICBMTLV html tlv =
     bind_out (fst (UnmarshalBE (TSlice ICBMCh1Fragment_ty) (Value tlv))) (\<lambda>frags.
       bind_out (collect_out (map (strip_fragment html) (vlist frags))) (\<lambda>rs.
         if \<not> list_ex snd rs then Ok tlv
         else bind_out (MarshalICBMFragmentList (map fst rs)) (\<lambda>b. tlv_raw (Tag tlv) b)))"

definition not_forwarded :: "u16 \<Rightarrow> bool" where
  "not_forwarded t \<longleftrightarrow> t = ICBMTLVRequestHostAck \<or> t = ICBMTLVStore \<or> t = ICBMTLVSendTime"

definition forward_tlv :: "sender \<Rightarrow> SNACMessage Session \<Rightarrow> u16 \<Rightarrow> TLV \<Rightarrow> TLV svc" where
  "forward_tlv s recipSess channel tlv =
     bindS (if channel = ICBMChannelRendezvous \<and> Tag tlv = ICBMTLVData
            then liftS (addExternalIP (remoteAddr (sender_conn s)) tlv) else retS tlv) (\<lambda>tlv'.
       if sess_uin (fst s) > 0 \<and> (channel = ICBMChannelIM \<or> channel = ICBMChannelMIME) \<and>
          Tag tlv' = ICBMTLVAOLIMData \<and> \<not> HasCap CapXHTMLIM recipSess then
         bindS (getS (\<lambda>W. html_of (ext W))) (\<lambda>html.
           catchS (liftS (stripHTMLFromICBMTLV html tlv')) (\<lambda>_. retS tlv'))
       else retS tlv')"

fun forward_tlvs :: "sender \<Rightarrow> SNACMessage Session \<Rightarrow> u16 \<Rightarrow> TLVList \<Rightarrow> TLVList svc" where
  "forward_tlvs s recipSess channel [] = retS []"
| "forward_tlvs s recipSess channel (tlv # l) =
     (if not_forwarded (Tag tlv) then forward_tlvs s recipSess channel l
      else bindS (forward_tlv s recipSess channel tlv) (\<lambda>tlv'.
        bindS (forward_tlvs s recipSess channel l) (\<lambda>l'. retS (tlv' # l'))))"

definition msg_to_client :: "u64 \<Rightarrow> u16 \<Rightarrow> TLVUserInfo \<Rightarrow> TLVList \<Rightarrow> SNACMessage" where
  "msg_to_client cookie channel info l = snac ICBM ICBMChannelMsgToClient ReqIDFromServer
     SNAC_0x04_0x07_ICBMChannelMsgToClient_ty (VStruct [VU64 cookie, VU16 channel, TLVUserInfo_val info, rest_block l])"

section \<open>Sending a message\<close>

definition is_auth_message :: "u8 \<Rightarrow> bool" where
  "is_auth_message t \<longleftrightarrow> t = ICBMMsgTypeAuthReq \<or> t = ICBMMsgTypeAuthDeny \<or> t = ICBMMsgTypeAuthOK \<or> t = ICBMMsgTypeAdded"

text \<open>An ICQ authorisation message, \<open>ICBMCh4Message\<close>, to a client that uses the server's contact list; true if it was dealt with.\<close>

type_synonym forwarder = "IdentScreenName \<Rightarrow> IdentScreenName \<Rightarrow> val \<Rightarrow> unit svc"

definition forward_auth :: "forwarder \<Rightarrow> sender \<Rightarrow> SNACMessage Session \<Rightarrow> ChannelMsgToHost \<Rightarrow> bool svc" where
  "forward_auth forward s recipSess m =
     (if cm_ChannelID m \<noteq> ICBMChannelICQ then retS False
      else case TLVList_Bytes ICBMTLVData (cm_TLVList m) of
        None \<Rightarrow> retS False
      | Some b \<Rightarrow>
          bindS (liftS (fst (UnmarshalLE ICBMCh4Message_ty b))) (\<lambda>authMsg.
            if \<not> is_auth_message (vu8 (vfield 1 authMsg)) then retS False
            else if usesFeedbag recipSess then
              bindS (forward (identScreenName (fst s)) (identScreenName recipSess) authMsg) (\<lambda>_. retS True)
            else if vu8 (vfield 1 authMsg) = ICBMMsgTypeAuthOK then
              bindS (db_set (RecordPreAuth (identScreenName (fst s)) (identScreenName recipSess))) (\<lambda>_. retS False)
            else retS False))"

definition track_convo :: "IdentScreenName \<Rightarrow> IdentScreenName \<Rightarrow> unit svc" where
  "track_convo s r = modS (\<lambda>W. W\<lparr>tracker := trackConvo (cache_of (ext W)) (clock W) s r (tracker W)\<rparr>)"

definition deliver_message :: "sender \<Rightarrow> u32 \<Rightarrow> ChannelMsgToHost \<Rightarrow> SNACMessage Session \<Rightarrow> SNACMessage option svc" where
  "deliver_message s rid m recipSess =
     bindS (bindS (getS clock) (\<lambda>now. liftS (sess_TLVUserInfo now (fst s)))) (\<lambda>info.
       bindS (forward_tlvs s recipSess (cm_ChannelID m) (cm_TLVList m)) (\<lambda>l.
         bindS (tlvsS (if typingEventsEnabled (fst s) \<and> (cm_ChannelID m = ICBMChannelIM \<or> cm_ChannelID m = ICBMChannelMIME)
                       then [tlv_raw ICBMTLVWantEvents []] else [])) (\<lambda>want.
           let clientIM = msg_to_client (cm_Cookie m) (cm_ChannelID m) info (l @ want); to = identScreenName recipSess in
           bindS (if Inactive recipSess then relay_user to clientIM else relay_active to clientIM) (\<lambda>_.
             bindS (track_convo (identScreenName (fst s)) to) (\<lambda>_. retS (host_ack rid m))))))"

definition icbm_ChannelMsgToHost :: "forwarder \<Rightarrow> sender \<Rightarrow> u32 \<Rightarrow> ChannelMsgToHost \<Rightarrow> SNACMessage option svc" where
  "icbm_ChannelMsgToHost forward s rid m =
     bindS (ident (cm_ScreenName m)) (\<lambda>recip.
       bindS (one_rel (identScreenName (fst s)) recip) (\<lambda>rel.
         if BlocksYou rel then retS (Some (newICBMErr rid ErrorCodeNotLoggedOn []))
         else if YouBlock rel then retS (Some (newICBMErr rid ErrorCodeInLocalPermitDeny []))
         else bindS (find_session recip) (\<lambda>k.
           case k of
             None \<Rightarrow> message_to_offline s rid m
           | Some k \<Rightarrow> bindS (getS (\<lambda>W. sess_of (registry W) k)) (\<lambda>recipSess.
               bindS (forward_auth forward s recipSess m) (\<lambda>handled.
                 if handled then retS None else deliver_message s rid m recipSess)))))"

section \<open>Typing events and error reports\<close>

definition ClientEvent :: "inst_ref \<Rightarrow> u32 \<Rightarrow> u64 \<Rightarrow> u16 \<Rightarrow> bytes \<Rightarrow> u16 \<Rightarrow> unit svc" where
  "ClientEvent i rid cookie channel name event =
     bindS (ident name) (\<lambda>recip.
       bindS (me i) (\<lambda>my_name.
         bindS (one_rel my_name recip) (\<lambda>blocked.
           if BlocksYou blocked \<or> YouBlock blocked then retS ()
           else bindS (getS (\<lambda>W. displayScreenName (sess i W))) (\<lambda>display.
             relay_active recip (snac ICBM ICBMClientEvent rid SNAC_0x04_0x14_ICBMClientEvent_ty
               (VStruct [VU64 cookie, VU16 channel, VString display, VU16 event]))))))"

definition ClientErr :: "inst_ref \<Rightarrow> u32 \<Rightarrow> u64 \<Rightarrow> u16 \<Rightarrow> bytes \<Rightarrow> u16 \<Rightarrow> bytes \<Rightarrow> unit svc" where
  "ClientErr i rid cookie channel name code errInfo =
     bindS (ident name) (\<lambda>recip.
       bindS (getS (\<lambda>W. displayScreenName (sess i W))) (\<lambda>display.
         relay_user recip (snac ICBM ICBMClientErr rid SNAC_0x04_0x0B_ICBMClientErr_ty
           (VStruct [VU64 cookie, VU16 channel, VString display, VU16 code, vbytes errInfo]))))"

section \<open>Warnings\<close>

definition im_rate_class :: "u16 svc" where
  "im_rate_class = (case RateClassLookup DefaultSNACRateLimits ICBM ICBMChannelMsgToHost of
     (c, ok) \<Rightarrow> if ok then retS c else panicS)"

definition scale_warning :: "nat \<Rightarrow> int \<Rightarrow> u16 \<Rightarrow> (bool \<times> u16) svc" where
  "scale_warning k incr classID W =
     bind_out (ScaleWarningAndRateLimit (scale_of (ext W)) incr classID (sess_of (registry W) k)) (\<lambda>(r, s).
       Ok (Inr r, W\<lparr>registry := upd_sess k (\<lambda>_. s) (registry W)\<rparr>))"

definition may_warn :: "IdentScreenName \<Rightarrow> IdentScreenName \<Rightarrow> bool svc" where
  "may_warn warner warnee W =
     (case trackWarn (cache_of (ext W)) (clock W) warner warnee (tracker W) of (ok, w) \<Rightarrow> Ok (Inr ok, W\<lparr>tracker := w\<rparr>))"

definition evil_notification :: "u16 \<Rightarrow> TLVUserInfo option \<Rightarrow> SNACMessage" where
  "evil_notification level snitcher = snac OService OServiceEvilNotification 0 SNAC_0x01_0x10_OServiceEvilNotification_ty
     (VStruct [VU16 level, case snitcher of None \<Rightarrow> VNil | Some u \<Rightarrow> VPtr (VStruct [TLVUserInfo_val u])])"

definition EvilRequest :: "inst_ref \<Rightarrow> u32 \<Rightarrow> u16 \<Rightarrow> bytes \<Rightarrow> SNACMessage svc" where
  "EvilRequest i rid sendAs name =
     bindS (ident name) (\<lambda>them.
       bindS (me i) (\<lambda>my_name.
         if them = my_name then retS (newICBMErr rid ErrorCodeNotSupportedByHost [])
         else bindS (one_rel my_name them) (\<lambda>blocked.
           if BlocksYou blocked \<or> YouBlock blocked then retS (newICBMErr rid ErrorCodeNotLoggedOn [])
           else bindS (find_session them) (\<lambda>recip.
             case recip of
               None \<Rightarrow> retS (newICBMErr rid ErrorCodeNotLoggedOn [])
             | Some k \<Rightarrow> bindS (getS (\<lambda>W. sess_of (registry W) k)) (\<lambda>recipSess.
                 if AllUserInfoBitmask OServiceUserFlagBot recipSess then retS (newICBMErr rid ErrorCodeRequestDenied [])
                 else bindS (may_warn my_name (identScreenName recipSess)) (\<lambda>canWarn.
                   if \<not> canWarn then retS (newICBMErr rid ErrorCodeRequestDenied [])
                   else
                     let increase = (if sendAs = 1 then evilDeltaAnon else evilDelta) in
                     bindS im_rate_class (\<lambda>classID.
                       bindS (scale_warning k (uint increase) classID) (\<lambda>(ok, newLevel).
                         if \<not> ok then retS (newICBMErr rid ErrorCodeRequestDenied [])
                         else bindS (getS (sess i)) (\<lambda>mine.
                           let snitcher = (if sendAs = 0 then Some \<lparr>ui_ScreenName = displayScreenName mine,
                             ui_WarningLevel = warning mine, ui_TLVList = []\<rparr> else None) in
                           bindS (relay_user (identScreenName recipSess) (evil_notification newLevel snitcher)) (\<lambda>_.
                             retS (snac ICBM ICBMEvilReply rid SNAC_0x04_0x09_ICBMEvilReply_ty
                               (VStruct [VU16 increase, VU16 newLevel])))))))))))) "

section \<open>Messages kept for the user\<close>

definition replay_message :: "inst_ref \<Rightarrow> OfflineMessage \<Rightarrow> unit svc" where
  "replay_message i e =
     bindS (tlvsS [tlv32 ICBMTLVSendTime (word_of_int (Unix (om_Sent e)))]) (\<lambda>stamp.
       relay_self i (msg_to_client (cm_Cookie (om_Message e)) (cm_ChannelID (om_Message e))
         \<lparr>ui_ScreenName = screenName (om_Sender e), ui_WarningLevel = 0, ui_TLVList = []\<rparr>
         (filter (\<lambda>t. Tag t \<noteq> ICBMTLVSendTime) (cm_TLVList (om_Message e)) @ stamp)))"

definition OfflineRetrieve :: "inst_ref \<Rightarrow> u32 \<Rightarrow> SNACMessage svc" where
  "OfflineRetrieve i rid =
     bindS (me i) (\<lambda>my_name.
       bindS (getS unicode) (\<lambda>t.
         bindS (db_call (\<lambda>S. bind_out (RetrieveMessages t my_name S) (\<lambda>x. Ok (x, S)))) (\<lambda>msgList.
           bindS (forS msgList (replay_message i)) (\<lambda>_.
             bindS (whenS (msgList \<noteq> []) (db_set (DeleteMessages my_name))) (\<lambda>_.
               retS (snac ICBM ICBMOfflineRetrieveReply rid SNAC_0x04_0x17_ICBMOfflineRetrieveReply_ty (VStruct [])))))))"

section \<open>The decay of a warning\<close>

text \<open>Conversion to \<open>int16\<close>.\<close>

definition wrap16 :: "int \<Rightarrow> int" where "wrap16 x = (x + 2 ^ 15) mod 2 ^ 16 - 2 ^ 15"

text \<open>A time of the user table, in seconds; the zero time is the year 1.\<close>

definition nanos :: "int option \<Rightarrow> int" where
  "nanos t = (case t of None \<Rightarrow> - 62135596800 | Some s \<Rightarrow> s) * 10 ^ 9"

definition calcElapsedWarningLevel :: "int option \<Rightarrow> int \<Rightarrow> int \<Rightarrow> int" where
  "calcElapsedWarningLevel lastWarnUpdate now interval =
     wrap16 ((time_sub now (nanos lastWarnUpdate) sdiv interval) * warningDecayPct)"

definition timeTillNextInterval :: "int option \<Rightarrow> int \<Rightarrow> int \<Rightarrow> int" where
  "timeTillNextInterval lastWarned now interval = interval - time_sub now (nanos lastWarned) smod interval"

definition RestoreWarningLevel :: "inst_ref \<Rightarrow> unit svc" where
  "RestoreWarningLevel i =
     bindS (me i) (\<lambda>my_name.
       bindS (getS unicode) (\<lambda>t.
         bindS (db_get (store_User t my_name)) (\<lambda>user.
           case user of
             None \<Rightarrow> failS (StoreErr ErrNoUser)
           | Some u \<Rightarrow>
               if LastWarnLevel u = 0 then retS ()
               else bindS im_rate_class (\<lambda>classID.
                 bindS (getS clock) (\<lambda>now.
                   let warnDelta = calcElapsedWarningLevel (LastWarnUpdate u) now rateDecayInterval;
                       newWarning = wrap16 (wrap16 (uint (LastWarnLevel u)) + warnDelta) in
                   bindS (mod_session i (SetWarning 0)) (\<lambda>_.
                     bindS (scale_warning (fst i) newWarning classID) (\<lambda>_. retS ())))))))"

text \<open>
  \<open>UpdateWarnLevel\<close> is a loop over a ticker and a channel. Its variables are the running ticker, by its
  period, and \<open>doReset\<close>; \<open>inProgress\<close> is set exactly while a ticker runs. Its steps are the start, a
  signal that the warning rose, and a tick; \<open>None\<close> is the end of the loop.
\<close>

record decay =
  ticker :: "int option"
  doReset :: bool

definition decay_start :: "inst_ref \<Rightarrow> decay option svc" where
  "decay_start i =
     bindS (getS (sess i)) (\<lambda>s.
       if warning s > 0 then
         bindS (getS unicode) (\<lambda>t.
           bindS (tryS (db_get (store_User t (identScreenName s)))) (\<lambda>user.
             case user of
               Inl _ \<Rightarrow> retS None
             | Inr None \<Rightarrow> panicS
             | Inr (Some u) \<Rightarrow>
                 bindS (getS clock) (\<lambda>now.
                   let newInterval = timeTillNextInterval (LastWarnUpdate u) now rateDecayInterval in
                   retS (Some \<lparr>ticker = Some (if newInterval > 0 then newInterval else rateDecayInterval), doReset = True\<rparr>))))
       else retS (Some \<lparr>ticker = None, doReset = False\<rparr>))"

definition decay_signal :: "decay \<Rightarrow> decay" where
  "decay_signal d = (case ticker d of Some _ \<Rightarrow> d | None \<Rightarrow> d\<lparr>ticker := Some rateDecayInterval\<rparr>)"

definition decay_tick :: "inst_ref \<Rightarrow> decay \<Rightarrow> decay option svc" where
  "decay_tick i d =
     (let d' = (if doReset d then d\<lparr>ticker := Some rateDecayInterval, doReset := False\<rparr> else d) in
      bindS im_rate_class (\<lambda>classID.
        bindS (scale_warning (fst i) warningDecayPct classID) (\<lambda>(ok, level).
          retS (if \<not> ok then None else if level = 0 then Some (d'\<lparr>ticker := None\<rparr>) else Some d'))))"

text \<open>The other goroutine: a value of the session's warning channel; true if it signals the loop.\<close>

definition warning_received :: "inst_ref \<Rightarrow> bool option svc" where
  "warning_received i =
     bindS (getS (sess i)) (\<lambda>s.
       case warningCh s of
         [] \<Rightarrow> retS None
       | level # rest \<Rightarrow>
           bindS (mod_session i (\<lambda>s. s\<lparr>warningCh := rest\<rparr>)) (\<lambda>_.
             bindS (getS clock) (\<lambda>now.
               bindS (tryS (db_exec (SetWarnLevel (identScreenName s) (Unix now) level))) (\<lambda>_.
                 bindS (user_info_of (fst i)) (\<lambda>info.
                   bindS (tryS (BroadcastBuddyArrived (identScreenName s) (info\<lparr>ui_WarningLevel := level\<rparr>))) (\<lambda>_.
                     retS (Some (level > 0))))))))"

end
