(* ===== verification/SelfInfo.thy ===== *)
theory SelfInfo
  imports Services
begin

text \<open>
  What users are told about themselves (\<open>foodgroup/oservice.go\<close>): the user info of the account and of
  each of its connections, and the update that several services send when it changes.
\<close>

unbundle bit_operations_syntax

section \<open>Numbers\<close>

definition OServiceUserInfoUpdate :: u16 where "OServiceUserInfoUpdate = 0x000F"
definition OServiceUserInfoPrimaryInstance :: u16 where "OServiceUserInfoPrimaryInstance = 0x28"
definition OServiceUserInfoSigTime :: u16 where "OServiceUserInfoSigTime = 0x26"
definition OServiceUserInfoOnlineTime :: u16 where "OServiceUserInfoOnlineTime = 0x0F"
definition OServiceUserInfoMemberSince :: u16 where "OServiceUserInfoMemberSince = 0x05"
definition OServiceUserInfoMyInstanceNum :: u16 where "OServiceUserInfoMyInstanceNum = 0x14"
definition OServiceUserInfoExternalIP :: u16 where "OServiceUserInfoExternalIP = 0x0A"
definition OServiceUserInfoExternalIPStr :: u16 where "OServiceUserInfoExternalIPStr = 0x100A"

lemmas selfinfo_consts = OServiceUserInfoUpdate_def OServiceUserInfoPrimaryInstance_def
  OServiceUserInfoSigTime_def OServiceUserInfoOnlineTime_def OServiceUserInfoMemberSince_def
  OServiceUserInfoMyInstanceNum_def OServiceUserInfoExternalIP_def OServiceUserInfoExternalIPStr_def

section \<open>User info\<close>

text \<open>\<open>Unmap\<close> turns an IPv4 address in IPv6 form into four bytes; \<open>String\<close> writes them with dots.\<close>

definition unmap_addr :: "bytes \<Rightarrow> bytes" where
  "unmap_addr a = (if length a = 16 \<and> take 12 a = replicate 10 0 @ [0xFF, 0xFF] then drop 12 a else a)"

fun dotted :: "bytes \<Rightarrow> bytes" where
  "dotted [] = []"
| "dotted [b] = decimal_string (unat b)"
| "dotted (b # bs) = decimal_string (unat b) @ [0x2E] @ dotted bs"

definition appendExternalIP :: "SNACMessage SessionInstance \<Rightarrow> TLV outcome list" where
  "appendExternalIP i =
     (case remoteAddr i of
        None \<Rightarrow> []
      | Some a \<Rightarrow> let ip = unmap_addr a in
          if length ip \<noteq> 4 then []
          else [tlv_raw OServiceUserInfoExternalIP ip, tlv_str OServiceUserInfoExternalIPStr (dotted ip)])"

text \<open>Seconds since a time, \<open>None\<close> for the zero time, as a 32-bit number.\<close>

definition time_of :: "int option \<Rightarrow> int" where
  "time_of t = (case t of None \<Rightarrow> - 62135596800 * 10 ^ 9 | Some n \<Rightarrow> n)"

definition seconds_since :: "int \<Rightarrow> int option \<Rightarrow> u32" where
  "seconds_since now t = word_of_int (time_sub now (time_of t) sdiv 10 ^ 9)"

definition caps_tlv :: "bytes list \<Rightarrow> TLV outcome list" where
  "caps_tlv caps = (if caps = [] then [] else [NewTLVBE OServiceUserInfoOscarCaps (TSlice (TArray 16 TU8), VList (map vbytes caps))])"

definition bart_tlv :: "BARTID list \<Rightarrow> TLV outcome list" where
  "bart_tlv ids = (if ids = [] then [] else [NewTLVBE OServiceUserInfoBARTInfo (TSlice BARTID_ty, VList (map BARTID_val ids))])"

definition sessionUserInfo :: "int \<Rightarrow> bool \<Rightarrow> SNACMessage Session \<Rightarrow> nat \<Rightarrow> TLVUserInfo outcome" where
  "sessionUserInfo now multiInstance s j =
     (let i = heap s ! j;
          userFlags = (if Away s then userInfoBitmask i OR OServiceUserFlagUnavailable
                       else userInfoBitmask i AND NOT OServiceUserFlagUnavailable) in
      bind_out (collect_out (
        (if multiInstance then
           [tlv32 OServiceUserInfoMySubscriptions 0] @ appendExternalIP i @
           (case Instances s of [] \<Rightarrow> [] | p # _ \<Rightarrow> [tlv_raw OServiceUserInfoPrimaryInstance [instanceNum p]])
         else []) @
        caps_tlv (Caps s) @
        bart_tlv (bart_ids s) @
        [tlv32 OServiceUserInfoSigTime (word_of_int (unix_of (UpdateTime (inst_profile i)))),
         tlv16 OServiceUserInfoUserFlags userFlags,
         tlv32 OServiceUserInfoStatus (userStatusBitmask i)] @
        (if Idle s then [tlv16 OServiceUserInfoIdleTime (idle_minutes now (time_of (IdleTime s)))] else []) @
        (if userFlags AND OServiceUserFlagICQ = OServiceUserFlagICQ
         then [NewTLVBE OServiceUserInfoICQDC (ICQDCInfo_ty, ICQDCInfo_val (icqDCInfo i))] else []) @
        [tlv32 OServiceUserInfoSignonTOD (word_of_int (unix_of (signonTime s))),
         tlv32 OServiceUserInfoOnlineTime (seconds_since now (signonTime s)),
         tlv32 OServiceUserInfoMemberSince (word_of_int (unix_of (memberSince s)))]))
        (\<lambda>l. Ok \<lparr>ui_ScreenName = displayScreenName s, ui_WarningLevel = warning s, ui_TLVList = l\<rparr>))"

definition instanceUserInfo :: "int \<Rightarrow> SNACMessage Session \<Rightarrow> nat \<Rightarrow> TLVUserInfo outcome" where
  "instanceUserInfo now s j =
     (let i = heap s ! j;
          userFlags = (if away i then userInfoBitmask i OR OServiceUserFlagUnavailable else userInfoBitmask i) in
      bind_out (collect_out (
        [tlv32 OServiceUserInfoMySubscriptions 0] @ appendExternalIP i @
        [tlv_raw OServiceUserInfoMyInstanceNum [instanceNum i]] @
        caps_tlv (capabilities i) @
        bart_tlv (bart_ids s) @
        [tlv16 OServiceUserInfoUserFlags userFlags, tlv32 OServiceUserInfoStatus (userStatusBitmask i)] @
        (if idle i then [tlv16 OServiceUserInfoIdleTime (idle_minutes now (idleTime i))] else []) @
        [tlv32 OServiceUserInfoSignonTOD (word_of_int (unix_of (signonTime s))),
         tlv32 OServiceUserInfoOnlineTime (seconds_since now (signonTime s)),
         tlv32 OServiceUserInfoMemberSince (word_of_int (unix_of (memberSince s)))]))
        (\<lambda>l. Ok \<lparr>ui_ScreenName = displayScreenName s, ui_WarningLevel = warning s, ui_TLVList = l\<rparr>))"

definition user_info_update :: "u32 \<Rightarrow> TLVUserInfo list \<Rightarrow> SNACMessage" where
  "user_info_update rid us = snac OService OServiceUserInfoUpdate rid SNAC_0x01_0x0F_OServiceUserInfoUpdate_ty
     (VStruct [VList (map TLVUserInfo_val us)])"

definition sendUserInfoUpdate :: "inst_ref \<Rightarrow> unit svc" where
  "sendUserInfoUpdate r =
     bindS (getS (\<lambda>W. sessionUserInfo (clock W) False (sess r W) (snd r))) (\<lambda>x.
       bindS (liftS x) (\<lambda>info. relay_self r (user_info_update ReqIDFromServer [info])))"

definition sendUserInfoUpdateToAll :: "inst_ref \<Rightarrow> unit svc" where
  "sendUserInfoUpdateToAll r =
     bindS (getS (\<lambda>W. instancesOrdered (sess r W))) (\<lambda>js. forS js (\<lambda>j. sendUserInfoUpdate (fst r, j)))"

text \<open>\<open>UserInfoQuery\<close>: the account's info, and that of every connection for clients that know of them.\<close>

definition oservice_UserInfoQuery :: "inst_ref \<Rightarrow> u32 \<Rightarrow> SNACMessage svc" where
  "oservice_UserInfoQuery r rid =
     bindS (getS (\<lambda>W. (clock W, sess r W))) (\<lambda>(now, s).
       let multi = foodGroupVersions (heap s ! snd r) ! unat OService \<ge> 4 in
       bindS (liftS (sessionUserInfo now multi s (snd r))) (\<lambda>own.
         bindS (if multi then liftS (collect_out (map (instanceUserInfo now s) (instancesOrdered s))) else retS []) (\<lambda>us.
           retS (user_info_update rid (own # us)))))"

end
