(* ===== verification/FeedbagService.thy ===== *)
theory FeedbagService
  imports Messaging SelfInfo
begin

text \<open>
  The contact list service (\<open>foodgroup/feedbag.go\<close>): queries and changes of the server-side list with the
  messages that follow from them, and the authorisations ICQ users ask of each other. Clients that do not
  use the server's list get authorisations as messages, through the function field \<open>icbmSender\<close>, which is
  the parameter \<open>send\<close> here.
\<close>

unbundle bit_operations_syntax

section \<open>Numbers\<close>

definition FeedbagErr :: u16 where "FeedbagErr = 0x0001"
definition FeedbagRightsReply :: u16 where "FeedbagRightsReply = 0x0003"
definition FeedbagReply :: u16 where "FeedbagReply = 0x0006"
definition FeedbagReplyNotModified :: u16 where "FeedbagReplyNotModified = 0x000F"
definition FeedbagStatus :: u16 where "FeedbagStatus = 0x000E"
definition FeedbagUpdateItem :: u16 where "FeedbagUpdateItem = 0x0009"
definition FeedbagBuddyAdded :: u16 where "FeedbagBuddyAdded = 0x001C"
definition FeedbagRespondAuthorizeToClient :: u16 where "FeedbagRespondAuthorizeToClient = 0x001B"
definition FeedbagRequestAuthorizeToClient :: u16 where "FeedbagRequestAuthorizeToClient = 0x0019"
definition FeedbagPreAuthorizedBuddy :: u16 where "FeedbagPreAuthorizedBuddy = 0x0015"
definition FeedbagTLVVersion :: u16 where "FeedbagTLVVersion = 1"
definition FeedbagRightsMaxItemAttrs :: u16 where "FeedbagRightsMaxItemAttrs = 0x03"
definition FeedbagRightsMaxItemsByClass :: u16 where "FeedbagRightsMaxItemsByClass = 0x04"
definition FeedbagRightsMaxClientItems :: u16 where "FeedbagRightsMaxClientItems = 0x05"
definition FeedbagRightsMaxItemNameLen :: u16 where "FeedbagRightsMaxItemNameLen = 0x06"
definition FeedbagRightsMaxRecentBuddies :: u16 where "FeedbagRightsMaxRecentBuddies = 0x07"
definition FeedbagRightsInteractionBuddies :: u16 where "FeedbagRightsInteractionBuddies = 0x08"
definition FeedbagRightsInteractionHalfLife :: u16 where "FeedbagRightsInteractionHalfLife = 0x09"
definition FeedbagRightsInteractionMaxScore :: u16 where "FeedbagRightsInteractionMaxScore = 0x0A"
definition FeedbagRightsMaxBuddiesPerGroup :: u16 where "FeedbagRightsMaxBuddiesPerGroup = 0x0C"
definition FeedbagRightsMaxMegaBots :: u16 where "FeedbagRightsMaxMegaBots = 0x0D"
definition FeedbagRightsMaxSmartGroups :: u16 where "FeedbagRightsMaxSmartGroups = 0x0E"
definition ErrorCodeInsufficientRights :: u16 where "ErrorCodeInsufficientRights = 0x0F"
definition SNACFlagsExtendedInfo :: u16 where "SNACFlagsExtendedInfo = 0x8000"
definition FeedbagClassIdNonbuddy :: u16 where "FeedbagClassIdNonbuddy = 0x0006"
definition FeedbagClassIdClientPrefs :: u16 where "FeedbagClassIdClientPrefs = 0x0009"
definition FeedbagClassIdWatchList :: u16 where "FeedbagClassIdWatchList = 0x000D"
definition FeedbagClassIdIgnoreList :: u16 where "FeedbagClassIdIgnoreList = 0x000E"
definition FeedbagClassIdDateTime :: u16 where "FeedbagClassIdDateTime = 0x000F"
definition FeedbagClassIdExternalUser :: u16 where "FeedbagClassIdExternalUser = 0x0010"
definition FeedbagClassIdRootCreator :: u16 where "FeedbagClassIdRootCreator = 0x0011"
definition FeedbagClassIdImportTimestamp :: u16 where "FeedbagClassIdImportTimestamp = 0x0013"
definition OServiceBartReply :: u16 where "OServiceBartReply = 0x0021"
definition BARTTypesBuddyIconSmall :: u16 where "BARTTypesBuddyIconSmall = 0x00"
definition BARTFlagsUnknown :: u8 where "BARTFlagsUnknown = 0x40"

lemmas feedbagservice_consts = FeedbagErr_def FeedbagRightsReply_def FeedbagReply_def
  FeedbagReplyNotModified_def FeedbagStatus_def FeedbagUpdateItem_def FeedbagBuddyAdded_def
  FeedbagRespondAuthorizeToClient_def FeedbagRequestAuthorizeToClient_def FeedbagPreAuthorizedBuddy_def
  FeedbagTLVVersion_def FeedbagRightsMaxItemAttrs_def FeedbagRightsMaxItemsByClass_def
  FeedbagRightsMaxClientItems_def FeedbagRightsMaxItemNameLen_def FeedbagRightsMaxRecentBuddies_def
  FeedbagRightsInteractionBuddies_def FeedbagRightsInteractionHalfLife_def FeedbagRightsInteractionMaxScore_def
  FeedbagRightsMaxBuddiesPerGroup_def FeedbagRightsMaxMegaBots_def FeedbagRightsMaxSmartGroups_def
  ErrorCodeInsufficientRights_def SNACFlagsExtendedInfo_def FeedbagClassIdNonbuddy_def
  FeedbagClassIdClientPrefs_def FeedbagClassIdWatchList_def FeedbagClassIdIgnoreList_def
  FeedbagClassIdDateTime_def FeedbagClassIdExternalUser_def FeedbagClassIdRootCreator_def
  FeedbagClassIdImportTimestamp_def OServiceBartReply_def BARTTypesBuddyIconSmall_def BARTFlagsUnknown_def

section \<open>Queries\<close>

definition maxItemsByClass :: "u16 list" where
  "maxItemsByClass = fold (\<lambda>(c, n) xs. xs[unat c := n])
     [(FeedbagClassIdBuddy, 61), (FeedbagClassIdGroup, 61), (FeedbagClassIDPermit, 100), (FeedbagClassIDDeny, 100),
      (FeedbagClassIdPdinfo, 1), (FeedbagClassIdBuddyPrefs, 1), (FeedbagClassIdNonbuddy, 50), (FeedbagClassIdClientPrefs, 3),
      (FeedbagClassIdWatchList, 128), (FeedbagClassIdIgnoreList, 255), (FeedbagClassIdDateTime, 20),
      (FeedbagClassIdExternalUser, 200), (FeedbagClassIdRootCreator, 1), (FeedbagClassIdImportTimestamp, 1),
      (FeedbagClassIdBart, 200), (FeedbagClassIdAlInfo, 4)]
     (replicate (unat FeedbagClassIdAlInfo + 1) 0)"

definition feedbag_RightsQuery :: "u32 \<Rightarrow> SNACMessage svc" where
  "feedbag_RightsQuery rid = bindS (tlvsS
       [tlv16 FeedbagRightsMaxItemAttrs 200,
        NewTLVBE FeedbagRightsMaxItemsByClass (TSlice TU16, VList (map VU16 maxItemsByClass)),
        tlv16 FeedbagRightsMaxClientItems 200, tlv16 FeedbagRightsMaxItemNameLen 200,
        tlv16 FeedbagRightsMaxRecentBuddies 200, tlv16 FeedbagRightsInteractionBuddies 200,
        tlv16 FeedbagRightsInteractionHalfLife 200, tlv16 FeedbagRightsInteractionMaxScore 200,
        tlv16 FeedbagRightsMaxBuddiesPerGroup 200, tlv16 FeedbagRightsMaxMegaBots 200,
        tlv16 FeedbagRightsMaxSmartGroups 100]) (\<lambda>l.
     retS (snac Feedbag FeedbagRightsReply rid SNAC_0x13_0x03_FeedbagRightsReply_ty (VStruct [rest_block l])))"

definition FeedbagItem_val :: "FeedbagItem \<Rightarrow> val" where
  "FeedbagItem_val i = VStruct [VString (Name i), VU16 (GroupID i), VU16 (ItemID i), VU16 (ClassID i), rest_block (Attrs i)]"

definition get_feedbag :: "IdentScreenName \<Rightarrow> FeedbagItem list svc" where
  "get_feedbag sn = db_call (\<lambda>S. bind_out (store_Feedbag sn S) (\<lambda>x. Ok (x, S)))"

definition put_feedbag :: "IdentScreenName \<Rightarrow> FeedbagItem list \<Rightarrow> unit svc" where
  "put_feedbag sn its =
     bindS (getS (\<lambda>W. (unicode W, clock W))) (\<lambda>(t, now). db_call (FeedbagUpsert t (Unix now) sn its))"

definition feedbag_reply :: "u32 \<Rightarrow> FeedbagItem list \<Rightarrow> int \<Rightarrow> SNACMessage" where
  "feedbag_reply rid fb lm = snac Feedbag FeedbagReply rid SNAC_0x13_0x06_FeedbagReply_ty
     (VStruct [VU8 0, VList (map FeedbagItem_val fb), VU32 (word_of_int lm)])"

definition feedbag_Query :: "inst_ref \<Rightarrow> u32 \<Rightarrow> SNACMessage svc" where
  "feedbag_Query i rid =
     bindS (me i) (\<lambda>my_name.
       bindS (get_feedbag my_name) (\<lambda>fb.
         if fb = [] then retS (feedbag_reply rid fb 0)
         else bindS (db_get (FeedbagLastModified my_name)) (\<lambda>lm. retS (feedbag_reply rid fb lm))))"

definition feedbag_QueryIfModified :: "inst_ref \<Rightarrow> u32 \<Rightarrow> u32 \<Rightarrow> SNACMessage svc" where
  "feedbag_QueryIfModified i rid lastUpdate =
     bindS (me i) (\<lambda>my_name.
       bindS (get_feedbag my_name) (\<lambda>fb.
         if fb = [] then retS (feedbag_reply rid fb 0)
         else bindS (db_get (FeedbagLastModified my_name)) (\<lambda>lm.
           if lm < uint lastUpdate then
             retS (snac Feedbag FeedbagReplyNotModified rid SNAC_0x13_0x05_FeedbagQueryIfModified_ty
               (VStruct [VU32 (word_of_int lm), VU8 (word_of_nat (length fb))]))
           else retS (feedbag_reply rid fb lm))))"

section \<open>Messages about contacts\<close>

definition flagged :: "u16 \<Rightarrow> SNACMessage \<Rightarrow> SNACMessage" where
  "flagged f m = ((fst m)\<lparr>Flags := f\<rparr>, snd m)"

definition version_block :: "u16 \<Rightarrow> val svc" where
  "version_block v = bindS (tlvsS [tlv16 FeedbagTLVVersion v]) (\<lambda>l. retS (rest_block l))"

definition relay_buddy_added :: "IdentScreenName \<Rightarrow> bytes \<Rightarrow> unit svc" where
  "relay_buddy_added to from_name =
     bindS (version_block 4) (\<lambda>b.
       relay_user to (flagged SNACFlagsExtendedInfo (snac Feedbag FeedbagBuddyAdded 0 SNAC_0x13_0x1C_FeedbagBuddyAdded_ty
         (VStruct [b, VString from_name, VU16 0]))))"

definition relay_auth_request :: "IdentScreenName \<Rightarrow> bytes \<Rightarrow> bytes \<Rightarrow> unit svc" where
  "relay_auth_request to from_name reason =
     bindS (version_block 2) (\<lambda>b.
       relay_user to (flagged SNACFlagsExtendedInfo (snac Feedbag FeedbagRequestAuthorizeToClient 0
         SNAC_0x13_0x19_FeedbagRequestAuthorizeToClient_ty (VStruct [b, VString from_name, VString reason, VU16 0]))))"

definition relay_auth_answer :: "IdentScreenName \<Rightarrow> bytes \<Rightarrow> u8 \<Rightarrow> bytes \<Rightarrow> unit svc" where
  "relay_auth_answer to from_name accepted reason =
     bindS (version_block 2) (\<lambda>b.
       relay_user to (flagged SNACFlagsExtendedInfo (snac Feedbag FeedbagRespondAuthorizeToClient 0
         SNAC_0x13_0x1B_FeedbagRespondAuthorizeToClient_ty
         (VStruct [b, VString from_name, VU8 accepted, VString reason, VU16 0]))))"

definition relay_items :: "IdentScreenName \<Rightarrow> FeedbagItem list \<Rightarrow> unit svc" where
  "relay_items to its = relay_user to (snac Feedbag FeedbagUpdateItem 0 SNAC_0x13_0x09_FeedbagUpdateItem_ty
     (VStruct [VList (map FeedbagItem_val its)]))"

text \<open>Messages on the ICQ channel. The sender is a connection, or one made up for a name.\<close>

type_synonym icbm_sender = "sender \<Rightarrow> u32 \<Rightarrow> ChannelMsgToHost \<Rightarrow> SNACMessage option svc"

definition send_legacy :: "icbm_sender \<Rightarrow> sender \<Rightarrow> IdentScreenName \<Rightarrow> u64 \<Rightarrow> u32 \<Rightarrow> u8 \<Rightarrow> bytes \<Rightarrow> unit svc" where
  "send_legacy send s to cookie uin mtype text =
     bindS (tlvsS [NewTLVLE ICBMTLVData (ICBMCh4Message_ty, VStruct [VU32 uin, VU8 mtype, VU8 0, VString text]),
         tlv_raw ICBMTLVStore []]) (\<lambda>l.
       bindS (send s 0 \<lparr>cm_Cookie = cookie, cm_ChannelID = ICBMChannelICQ, cm_ScreenName = screenName to, cm_TLVList = l\<rparr>)
         (\<lambda>_. retS ()))"

definition made_up_sender :: "IdentScreenName \<Rightarrow> u32 \<Rightarrow> sender svc" where
  "made_up_sender sn uin =
     bindS (liftS (AddInstance (NewSession\<lparr>identScreenName := sn, displayScreenName := screenName sn, sess_uin := uin\<rparr>)))
       (\<lambda>(j, s). case j of Some j \<Rightarrow> retS (s, j) | None \<Rightarrow> panicS)"

definition isASCII :: "bytes \<Rightarrow> bool" where
  "isASCII s \<longleftrightarrow> list_all (\<lambda>b. b \<le> 0x7F) s"

definition utf8ToLatin1 :: "bytes \<Rightarrow> bytes" where
  "utf8ToLatin1 s = (if isASCII s then s else map (\<lambda>r. if r \<le> 0xFF then word_of_nat r else 0x3F) (runes s))"

text \<open>The fields of a request, separated by \<open>0xFE\<close>.\<close>

definition auth_text :: "ICQBasicInfo \<Rightarrow> nat \<Rightarrow> bytes \<Rightarrow> bytes" where
  "auth_text u authorized reason = basic_Nickname u @ [0xFE] @ basic_FirstName u @ [0xFE] @ basic_LastName u @ [0xFE] @
     basic_EmailAddress u @ [0xFE] @ decimal_string authorized @ [0xFE] @ utf8ToLatin1 reason"

definition sendLegacyAuthReq :: "icbm_sender \<Rightarrow> sender \<Rightarrow> IdentScreenName \<Rightarrow> bytes \<Rightarrow> ICQBasicInfo \<Rightarrow> nat \<Rightarrow> unit svc" where
  "sendLegacyAuthReq send s to reason u authorized =
     send_legacy send s to 0 (sess_uin (fst s)) ICBMMsgTypeAuthReq (auth_text u authorized reason)"

definition sendLegacyAuthMsg :: "icbm_sender \<Rightarrow> IdentScreenName \<Rightarrow> IdentScreenName \<Rightarrow> unit svc" where
  "sendLegacyAuthMsg send fr to =
     bindS (getS clock) (\<lambda>now. bindS (made_up_sender fr 0) (\<lambda>s.
       send_legacy send s to (word_of_int now) (UIN fr) ICBMMsgTypeAuthOK []))"

definition sendLegacyBuddyAddedMsg :: "icbm_sender \<Rightarrow> sender \<Rightarrow> IdentScreenName \<Rightarrow> unit svc" where
  "sendLegacyBuddyAddedMsg send s to =
     bindS (getS clock) (\<lambda>now. send_legacy send s to (word_of_int now) (sess_uin (fst s)) ICBMMsgTypeAdded [])"

section \<open>Authorisations\<close>

definition client_feedbag :: "nat option \<Rightarrow> bool svc" where
  "client_feedbag k = getS (\<lambda>W. case k of None \<Rightarrow> False | Some k \<Rightarrow> usesFeedbag (sess_of (registry W) k))"

definition tell_granter :: "icbm_sender \<Rightarrow> IdentScreenName \<Rightarrow> IdentScreenName \<Rightarrow> nat option svc" where
  "tell_granter send granter requester =
     bindS (find_session granter) (\<lambda>granterSess.
       bindS (client_feedbag granterSess) (\<lambda>fb.
         bindS (if fb then relay_buddy_added granter (screenName requester)
                else bindS (made_up_sender requester (UIN requester)) (\<lambda>s. sendLegacyBuddyAddedMsg send s granter))
           (\<lambda>_. retS granterSess)))"

definition show_granter :: "nat option \<Rightarrow> IdentScreenName \<Rightarrow> unit svc" where
  "show_granter granterSess requester =
     (case granterSess of
        None \<Rightarrow> retS ()
      | Some k \<Rightarrow> bindS (getS (\<lambda>W. instancesOrdered (sess_of (registry W) k))) (\<lambda>js.
          case js of
            [] \<Rightarrow> retS ()
          | j # _ \<Rightarrow> catchS (BroadcastVisibility (k, j) [requester] False) (\<lambda>_. retS ())))"

text \<open>The pending entry of the requester is cleared, and both learn that they are contacts now.\<close>

definition clearPendingAuth :: "icbm_sender \<Rightarrow> IdentScreenName \<Rightarrow> IdentScreenName \<Rightarrow> bool svc" where
  "clearPendingAuth send granter requester =
     bindS (get_feedbag requester) (\<lambda>its.
       case find (\<lambda>i. ClassID i = FeedbagClassIdBuddy \<and> Name i = screenName granter) its of
         None \<Rightarrow> retS False
       | Some it \<Rightarrow>
           if \<not> TLVList_HasTag FeedbagAttributesPending (Attrs it) then retS False
           else
             let updates = [it\<lparr>Attrs := TLVList_Remove FeedbagAttributesPending (Attrs it)\<rparr>] in
             bindS (put_feedbag requester updates) (\<lambda>_.
               bindS (tell_granter send granter requester) (\<lambda>granterSess.
                 bindS (relay_items requester updates) (\<lambda>_.
                   bindS (relay_auth_answer requester (screenName granter) 1 []) (\<lambda>_.
                     bindS (show_granter granterSess requester) (\<lambda>_. retS True))))))"

definition authorizeContact :: "icbm_sender \<Rightarrow> IdentScreenName \<Rightarrow> IdentScreenName \<Rightarrow> bytes \<Rightarrow> unit svc" where
  "authorizeContact send granter requester message =
     bindS (find_session requester) (\<lambda>requesterSess.
       bindS (tryS (db_set (RecordPreAuth granter requester))) (\<lambda>recorded.
         case recorded of
           Inl e \<Rightarrow> if e = StoreErr ErrNoUser then retS () else failS e
         | Inr _ \<Rightarrow>
             if requesterSess = None then sendLegacyAuthMsg send granter requester
             else bindS (clearPendingAuth send granter requester) (\<lambda>cleared.
               if cleared then retS ()
               else bindS (client_feedbag requesterSess) (\<lambda>fb.
                 if fb then
                   bindS (one_rel granter requester) (\<lambda>rel.
                     if BlocksYou rel then retS ()
                     else relay_user requester (snac Feedbag FeedbagPreAuthorizedBuddy 0
                       SNAC_0x13_0x15_FeedbagPreAuthorizedBuddy_ty
                       (VStruct [VString (screenName granter), VString message, VU16 0])))
                 else sendLegacyAuthMsg send granter requester))))"

definition rejectContact :: "icbm_sender \<Rightarrow> IdentScreenName \<Rightarrow> IdentScreenName \<Rightarrow> bytes \<Rightarrow> unit svc" where
  "rejectContact send rejecter requester reason =
     bindS (find_session requester) (\<lambda>toSess.
       bindS (client_feedbag toSess) (\<lambda>fb.
         if fb then relay_auth_answer requester (screenName rejecter) 0 reason
         else bindS (made_up_sender rejecter 0) (\<lambda>s.
           send_legacy send s requester 0 (UIN rejecter) ICBMMsgTypeAuthDeny reason)))"

definition RespondAuthorizeToHost :: "icbm_sender \<Rightarrow> IdentScreenName \<Rightarrow> bytes \<Rightarrow> u8 \<Rightarrow> bytes \<Rightarrow> unit svc" where
  "RespondAuthorizeToHost send granter name accepted reason =
     bindS (ident name) (\<lambda>requester.
       if accepted = 0 then rejectContact send granter requester reason
       else if accepted = 1 then authorizeContact send granter requester reason
       else failS (BadRequest ''invalid accepted flag''))"

definition PreAuthorizeBuddy :: "icbm_sender \<Rightarrow> inst_ref \<Rightarrow> u32 \<Rightarrow> bytes \<Rightarrow> bytes \<Rightarrow> SNACMessage option svc" where
  "PreAuthorizeBuddy send i rid name message =
     bindS (ident name) (\<lambda>buddy.
       bindS (me i) (\<lambda>my_name.
         if buddy = my_name then
           retS (Some (snac Feedbag FeedbagErr rid SNACError_ty (VStruct [VU16 ErrorCodeNotSupportedByHost, rest_block []])))
         else bindS (authorizeContact send my_name buddy message) (\<lambda>_. retS None)))"

text \<open>\<open>strings.Split\<close> at a byte, and the sixth field of an authorisation request.\<close>

fun split_at :: "u8 \<Rightarrow> bytes \<Rightarrow> bytes list" where
  "split_at c [] = [[]]"
| "split_at c (b # bs) =
     (if b = c then [] # split_at c bs
      else case split_at c bs of [] \<Rightarrow> [[b]] | f # fs \<Rightarrow> (b # f) # fs)"

definition request_reason :: "bytes \<Rightarrow> bytes" where
  "request_reason message = (let parts = split_at 0xFE message in if length parts \<ge> 6 then parts ! 5 else [])"

definition ForwardICQAuthEvents :: "icbm_sender \<Rightarrow> forwarder" where
  "ForwardICQAuthEvents send s recip authMsg =
     (let t = vu8 (vfield 1 authMsg); message = vstring (vfield 3 authMsg) in
      if t = ICBMMsgTypeAuthOK then RespondAuthorizeToHost send s (screenName recip) 1 message
      else if t = ICBMMsgTypeAuthDeny then RespondAuthorizeToHost send s (screenName recip) 0 message
      else if t = ICBMMsgTypeAdded then relay_buddy_added recip (screenName s)
      else if t = ICBMMsgTypeAuthReq then relay_auth_request recip (screenName s) (request_reason message)
      else retS ())"

text \<open>ICQ 5 ignores requests with several periods: those after the first are removed.\<close>

definition one_period :: "bytes \<Rightarrow> bytes" where
  "one_period s =
     (let before = takeWhile (\<lambda>b. b \<noteq> 0x2E) s in
      if length before = length s then s
      else before @ [0x2E] @ filter (\<lambda>b. b \<noteq> 0x2E) (drop (length before + 1) s))"

definition RequestAuthorizeToHost :: "icbm_sender \<Rightarrow> inst_ref \<Rightarrow> bytes \<Rightarrow> bytes \<Rightarrow> unit svc" where
  "RequestAuthorizeToHost send i name reason =
     bindS (ident name) (\<lambda>recip.
       bindS (find_session recip) (\<lambda>recipSess.
         bindS (client_feedbag recipSess) (\<lambda>useFeedbag.
           bindS (getS (\<lambda>W. (unicode W, sender_of i W))) (\<lambda>(t, s).
             let my_name = identScreenName (fst s) in
             if useFeedbag then relay_auth_request recip (screenName my_name) (one_period reason)
             else bindS (db_get (RequiresAuthorization t my_name recip)) (\<lambda>blocked.
               bindS (db_get (store_User t my_name)) (\<lambda>user.
                 sendLegacyAuthReq send s recip reason
                   (case user of None \<Rightarrow> zero_ICQBasicInfo | Some u \<Rightarrow> Basic (Info u)) (if blocked then 0 else 1)))))))"

section \<open>Changes of the list\<close>

definition feedbag_err :: "u32 \<Rightarrow> u16 \<Rightarrow> SNACMessage" where
  "feedbag_err rid code = snac Feedbag FeedbagErr rid SNACError_ty (VStruct [VU16 code, rest_block []])"

text \<open>One may not block oneself, nor enter linked accounts; the first such item decides.\<close>

definition refused_item :: "unicode_tables \<Rightarrow> IdentScreenName \<Rightarrow> FeedbagItem \<Rightarrow> u16 option" where
  "refused_item t my_name i =
     (if ClassID i = FeedbagClassIDDeny then
        if NewIdentScreenName t (Name i) = my_name then Some ErrorCodeNotSupportedByHost else None
      else if ClassID i = FeedbagClassIdAlInfo then Some ErrorCodeInsufficientRights
      else None)"

text \<open>
  What becomes of an item: stored, perhaps with the pending attribute added or removed, or refused until
  the contact authorises the user. ICQ users are the ones whose name is a number.
\<close>

definition admit_item :: "icbm_sender \<Rightarrow> sender \<Rightarrow> FeedbagItem \<Rightarrow> FeedbagItem option svc" where
  "admit_item send s it =
     (if ClassID it \<noteq> FeedbagClassIdBuddy then retS (Some it)
      else bindS (getS unicode) (\<lambda>t.
        let my_name = identScreenName (fst s); sn = NewIdentScreenName t (Name it) in
        if sess_uin (fst s) \<noteq> 0 \<and> UIN sn = 0 then
          bindS (db_set (RecordPreAuth my_name sn)) (\<lambda>_. retS (Some it))
        else if sess_uin (fst s) \<noteq> 0 \<and> UIN sn \<noteq> 0 then
          bindS (db_get (RequiresAuthorization t sn my_name)) (\<lambda>blocked.
            let hasPending = TLVList_HasTag FeedbagAttributesPending (Attrs it) in
            if blocked \<and> \<not> hasPending then retS None
            else if hasPending \<and> \<not> blocked then
              retS (Some (it\<lparr>Attrs := TLVList_Remove FeedbagAttributesPending (Attrs it)\<rparr>))
            else retS (Some it))
        else if UIN sn \<noteq> 0 then
          bindS (db_get (RequiresAuthorization t sn my_name)) (\<lambda>blocked.
            if \<not> blocked then retS (Some it)
            else bindS (tlvsS [tlv_raw FeedbagAttributesPending []]) (\<lambda>pending.
              bindS (sendLegacyAuthReq send s sn [] zero_ICQBasicInfo 1) (\<lambda>_.
                retS (Some (it\<lparr>Attrs := Attrs it @ pending\<rparr>)))))
        else retS (Some it)))"

text \<open>The items to store, and the names that need an authorisation.\<close>

fun admit_items :: "icbm_sender \<Rightarrow> sender \<Rightarrow> FeedbagItem list \<Rightarrow> (FeedbagItem list \<times> bytes list) svc" where
  "admit_items send s [] = retS ([], [])"
| "admit_items send s (it # its) =
     bindS (admit_item send s it) (\<lambda>r.
       bindS (admit_items send s its) (\<lambda>(stored, refused).
         retS (case r of Some it' \<Rightarrow> (it' # stored, refused) | None \<Rightarrow> (stored, Name it # refused))))"

definition setSessionBuddyPrefs :: "inst_ref \<Rightarrow> FeedbagItem list \<Rightarrow> unit svc" where
  "setSessionBuddyPrefs i its =
     (case find (\<lambda>x. ClassID x = FeedbagClassIdBuddyPrefs) its of
        None \<Rightarrow> retS ()
      | Some x \<Rightarrow> mod_session i (SetTypingEventsEnabled (BuddyPref (Attrs x) FeedbagBuddyPrefsDiscloseTyping)))"

text \<open>\<open>strconv.ParseUint(s, 0, 16)\<close>: the base by the prefix, underscores between digits, no sign.\<close>

definition lower_byte :: "u8 \<Rightarrow> u8" where "lower_byte c = c OR 0x20"

definition digit_value :: "u8 \<Rightarrow> nat option" where
  "digit_value c =
     (if 0x30 \<le> c \<and> c \<le> 0x39 then Some (unat c - 0x30)
      else if 0x61 \<le> lower_byte c \<and> lower_byte c \<le> 0x7A then Some (unat (lower_byte c) - 0x61 + 10)
      else None)"

fun parse_digits :: "nat \<Rightarrow> bytes \<Rightarrow> nat \<Rightarrow> nat option" where
  "parse_digits base [] n = Some n"
| "parse_digits base (c # cs) n =
     (if c = 0x5F then parse_digits base cs n
      else case digit_value c of
        None \<Rightarrow> None
      | Some d \<Rightarrow> if d \<ge> base \<or> n * base + d > 65535 then None else parse_digits base cs (n * base + d))"

definition base_prefix :: "bytes \<Rightarrow> nat \<times> bytes" where
  "base_prefix s =
     (if s = [] \<or> hd s \<noteq> 0x30 then (10, s)
      else if length s \<ge> 3 \<and> lower_byte (s ! 1) = 0x62 then (2, drop 2 s)
      else if length s \<ge> 3 \<and> lower_byte (s ! 1) = 0x6F then (8, drop 2 s)
      else if length s \<ge> 3 \<and> lower_byte (s ! 1) = 0x78 then (16, drop 2 s)
      else (8, drop 1 s))"

fun underscores :: "bool \<Rightarrow> u8 \<Rightarrow> bytes \<Rightarrow> bool" where
  "underscores hex saw [] = (saw \<noteq> 0x5F)"
| "underscores hex saw (c # cs) =
     (if 0x30 \<le> c \<and> c \<le> 0x39 \<or> hex \<and> 0x61 \<le> lower_byte c \<and> lower_byte c \<le> 0x66 then underscores hex 0x30 cs
      else if c = 0x5F then saw = 0x30 \<and> underscores hex 0x5F cs
      else saw \<noteq> 0x5F \<and> underscores hex 0x21 cs)"

definition underscoreOK :: "bytes \<Rightarrow> bool" where
  "underscoreOK s =
     (if length s \<ge> 2 \<and> hd s = 0x30 \<and> lower_byte (s ! 1) \<in> {0x62, 0x6F, 0x78}
      then underscores (lower_byte (s ! 1) = 0x78) 0x30 (drop 2 s) else underscores False 0x5E s)"

definition ParseUint16 :: "bytes \<Rightarrow> u16 option" where
  "ParseUint16 s =
     (if s = [] then None
      else case base_prefix s of (base, ds) \<Rightarrow>
        (case parse_digits base ds 0 of
           None \<Rightarrow> None
         | Some n \<Rightarrow> if 0x5F \<in> set ds \<and> \<not> underscoreOK s then None else Some (word_of_nat n)))"

definition is_icon :: "u16 \<Rightarrow> bool" where
  "is_icon t \<longleftrightarrow> t = BARTTypesBuddyIconSmall \<or> t = BARTTypesBuddyIcon"

definition announce :: "inst_ref \<Rightarrow> unit svc" where
  "announce i = bindS (me i) (\<lambda>my_name. bindS (user_info_of (fst i)) (BroadcastBuddyArrived my_name))"

definition setBARTItem :: "inst_ref \<Rightarrow> FeedbagItem \<Rightarrow> unit svc" where
  "setBARTItem i it =
     (case TLVList_Bytes FeedbagAttributesBartInfo (Attrs it) of
        None \<Rightarrow> failS (BadRequest ''unable to extract icon payload'')
      | Some b \<Rightarrow>
         (case ParseUint16 (Name it) of
            None \<Rightarrow> failS (BadRequest ''invalid BART item type'')
          | Some itemType \<Rightarrow>
              bindS (liftS (fst (UnmarshalBE BARTInfo_ty b))) (\<lambda>v.
                let flags = vu8 (vfield 0 v); h = val_bytes (vfield 1 v);
                    bartID = \<lparr>bart_Type = itemType, bart_Flags = flags, bart_Hash = h\<rparr> in
                bindS (if h = GetClearIconHash then retS True else bindS (db_get (BARTItem h)) (\<lambda>x. retS (x \<noteq> []))) (\<lambda>itemExists.
                  let bartID' = (if itemExists then bartID else bartID\<lparr>bart_Flags := flags OR BARTFlagsUnknown\<rparr>) in
                  bindS (whenS (is_icon itemType)
                      (bindS (mod_session i (SetBuddyIcon bartID')) (\<lambda>_. whenS itemExists (announce i)))) (\<lambda>_.
                    bindS (relay_self i (snac OService OServiceBartReply 0 SNAC_0x01_0x21_OServiceBARTReply_ty
                        (VStruct [BARTID_val bartID']))) (\<lambda>_.
                      whenS (is_icon itemType) (sendUserInfoUpdateToAll i)))))))"

definition relay_status :: "inst_ref \<Rightarrow> u32 \<Rightarrow> u16 list \<Rightarrow> unit svc" where
  "relay_status i rid results = relay_self i (snac Feedbag FeedbagStatus rid SNAC_0x13_0x0E_FeedbagStatus_ty
     (VStruct [VList (map VU16 results)]))"

text \<open>Whom a changed item concerns, and whether everybody is concerned.\<close>

fun changed_items :: "inst_ref \<Rightarrow> FeedbagItem list \<Rightarrow> IdentScreenName list \<times> bool \<Rightarrow> (IdentScreenName list \<times> bool) svc" where
  "changed_items i [] acc = retS acc"
| "changed_items i (x # xs) acc =
     (if ClassID x \<in> {FeedbagClassIdBuddy, FeedbagClassIDPermit, FeedbagClassIDDeny} then
        bindS (ident (Name x)) (\<lambda>sn. changed_items i xs (fst acc @ [sn], snd acc))
      else if ClassID x = FeedbagClassIdBart then bindS (setBARTItem i x) (\<lambda>_. changed_items i xs acc)
      else if ClassID x = FeedbagClassIdPdinfo then changed_items i xs (fst acc, True)
      else changed_items i xs acc)"

text \<open>An ICQ user learns once that somebody added them.\<close>

definition notify_added :: "icbm_sender \<Rightarrow> inst_ref \<Rightarrow> FeedbagItem \<Rightarrow> unit svc" where
  "notify_added send i x =
     (if ClassID x \<noteq> FeedbagClassIdBuddy \<or> TLVList_HasTag FeedbagAttributesPending (Attrs x) then retS ()
      else bindS (ident (Name x)) (\<lambda>sn.
        if UIN sn = 0 then retS ()
        else bindS (me i) (\<lambda>my_name.
          bindS (db_get (HasBuddyAddedNotification my_name sn)) (\<lambda>alreadySent.
            if alreadySent then retS ()
            else bindS (db_set (RecordBuddyAddedNotification my_name sn)) (\<lambda>_.
              bindS (find_session sn) (\<lambda>buddySess.
                bindS (client_feedbag buddySess) (\<lambda>fb.
                  bindS (getS (sender_of i)) (\<lambda>s.
                    if fb then relay_buddy_added sn (displayScreenName (fst s))
                    else sendLegacyBuddyAddedMsg send s sn))))))))"

definition notify_change :: "inst_ref \<Rightarrow> IdentScreenName list \<Rightarrow> unit svc" where
  "notify_change i flt =
     bindS (getS (conn i)) (\<lambda>c.
       if notifyTxnActive c then
         (case NotifyTxn flt c of
            (Some e, _) \<Rightarrow> failS (BadRequest ''NotifyTxn'')
          | (None, c') \<Rightarrow> mod_conn i (\<lambda>_. c'))
       else BroadcastVisibility i flt True)"

definition relay_change :: "inst_ref \<Rightarrow> SNACFrame \<Rightarrow> ty \<Rightarrow> FeedbagItem list \<Rightarrow> unit svc" where
  "relay_change i frame t its =
     relay_others i (snac (FoodGroup frame) (SubGroup frame) ReqIDFromServer t (VStruct [VList (map FeedbagItem_val its)]))"

definition UpsertItem :: "icbm_sender \<Rightarrow> inst_ref \<Rightarrow> SNACFrame \<Rightarrow> FeedbagItem list \<Rightarrow> SNACMessage option svc" where
  "UpsertItem send i frame its =
     bindS (getS (\<lambda>W. (unicode W, sender_of i W))) (\<lambda>(t, s).
       let my_name = identScreenName (fst s) in
       case List.map_filter (refused_item t my_name) its of
         code # _ \<Rightarrow> retS (Some (feedbag_err (RequestID frame) code))
       | [] \<Rightarrow>
           bindS (admit_items send s its) (\<lambda>(toUpsert, authRequired).
             bindS (whenS (toUpsert \<noteq> []) (put_feedbag my_name toUpsert)) (\<lambda>_.
               bindS (setSessionBuddyPrefs i its) (\<lambda>_.
                 bindS (relay_status i (RequestID frame)
                     (map (\<lambda>x. if Name x \<in> set authRequired then 0x000E else 0) its)) (\<lambda>_.
                   bindS (relay_change i frame SNAC_0x13_0x09_FeedbagUpdateItem_ty toUpsert) (\<lambda>_.
                     bindS (changed_items i toUpsert ([], False)) (\<lambda>(flt, alertAll).
                       bindS (forS toUpsert (notify_added send i)) (\<lambda>_.
                         bindS (whenS (alertAll \<or> flt \<noteq> []) (notify_change i flt)) (\<lambda>_. retS None)))))))))"

definition DeleteItem :: "inst_ref \<Rightarrow> SNACFrame \<Rightarrow> FeedbagItem list \<Rightarrow> unit svc" where
  "DeleteItem i frame its =
     bindS (me i) (\<lambda>my_name.
       bindS (db_set (FeedbagDelete my_name its)) (\<lambda>_.
         bindS (relay_status i (RequestID frame) (replicate (length its) 0)) (\<lambda>_.
           bindS (relay_change i frame SNAC_0x13_0x0A_FeedbagDeleteItem_ty its) (\<lambda>_.
             bindS (getS unicode) (\<lambda>t.
               notify_change i (map (\<lambda>x. NewIdentScreenName t (Name x))
                 (filter (\<lambda>x. ClassID x \<in> {FeedbagClassIdBuddy, FeedbagClassIDDeny, FeedbagClassIDPermit}) its)))))))"

section \<open>Batches and activation\<close>

definition StartCluster :: "inst_ref \<Rightarrow> SNACFrame \<Rightarrow> val \<Rightarrow> unit svc" where
  "StartCluster i frame body =
     bindS (mod_conn i BeginNotifyTxn) (\<lambda>_. relay_others i (frame, SNAC_0x13_0x11_FeedbagStartCluster_ty, body))"

definition EndCluster :: "inst_ref \<Rightarrow> SNACFrame \<Rightarrow> unit svc" where
  "EndCluster i frame =
     bindS (relay_others i (frame, SNAC_0x13_0x12_FeedbagEndCluster_ty, VStruct [])) (\<lambda>_.
       bindS (getS (conn i)) (\<lambda>c.
         case EndNotifyTxn c of ((shouldNotify, flt), c') \<Rightarrow>
           bindS (mod_conn i (\<lambda>_. c')) (\<lambda>_.
             if shouldNotify then BroadcastVisibility i flt True else retS ())))"

definition feedbag_Use :: "inst_ref \<Rightarrow> unit svc" where
  "feedbag_Use i =
     bindS (me i) (\<lambda>my_name.
       bindS (db_set (UseFeedbag my_name)) (\<lambda>_.
         bindS (get_feedbag my_name) (\<lambda>its.
           bindS (setSessionBuddyPrefs i its) (\<lambda>_.
             bindS (mod_session i SetUsesFeedbag) (\<lambda>_.
               bindS (mod_conn i SetContactsInit) (\<lambda>_.
                 bindS (getS (conn i)) (\<lambda>c.
                   if signonComplete c then BroadcastVisibility i [] False else retS ())))))))"

section \<open>The two services together\<close>

text \<open>
  A message may carry an authorisation, which the contact list service answers with another message, and
  so on: \<open>icbm_send\<close> ties the two with a bound on how often a message leads to another.
\<close>

fun icbm_send :: "nat \<Rightarrow> icbm_sender" where
  "icbm_send 0 = (\<lambda>s rid m W. Hang)"
| "icbm_send (Suc n) = icbm_ChannelMsgToHost (ForwardICQAuthEvents (icbm_send n))"

end
