(* ===== verification/MessagingProperties.thy ===== *)
theory MessagingProperties
  imports FeedbagService
begin

text \<open>
  Properties of the messaging and the contact list service: who gets a message, what happens to one sent
  to a user who is offline, that messages which lead to other messages come to an end, and warnings.
\<close>

section \<open>Messages that lead to messages\<close>

lemma forward_auth_direct:
  "\<not> usesFeedbag recipSess \<Longrightarrow> forward_auth g s recipSess m = forward_auth g' s recipSess m"
  by (simp add: forward_auth_def cong: option.case_cong if_cong)

text \<open>A message to a client that does not use the contact list is not handed on.\<close>

definition plain_client :: "IdentScreenName \<Rightarrow> World \<Rightarrow> bool" where
  "plain_client n W \<longleftrightarrow> (\<forall>k. RetrieveSession n (registry W) = Some k \<longrightarrow> \<not> usesFeedbag (sess_of (registry W) k))"

lemma send_direct:
  assumes "plain_client (NewIdentScreenName (unicode W) (cm_ScreenName m)) W"
  shows "icbm_ChannelMsgToHost g s rid m W = icbm_ChannelMsgToHost g' s rid m W"
proof -
  let ?n = "NewIdentScreenName (unicode W) (cm_ScreenName m)"
  have "RetrieveSession ?n (registry W) = Some k \<Longrightarrow>
      forward_auth g s (sess_of (registry W) k) m = forward_auth g' s (sess_of (registry W) k) m" for k
    using assms forward_auth_direct by (simp add: plain_client_def)
  then show ?thesis
    by (cases "RetrieveSession ?n (registry W)")
      (simp_all add: icbm_ChannelMsgToHost_def ident_def one_rel_run find_session_def)
qed

lemma send_legacy_direct:
  assumes "NewIdentScreenName (unicode W) (screenName to) = to" and "plain_client to W"
  shows "send_legacy (icbm_ChannelMsgToHost g) s to c u t x W = send_legacy (icbm_ChannelMsgToHost g') s to c u t x W"
  unfolding send_legacy_def tlvsS_def
  by (intro bindS_cong refl) (use assms in \<open>auto dest!: liftS_frame intro: send_direct\<close>)

lemma made_up_sender_frame: "made_up_sender n u W = Ok (x, V) \<Longrightarrow> V = W"
  by (auto simp: made_up_sender_def bindS_def liftS_def split: outcome.splits prod.splits option.splits)

lemma sendLegacyAuthMsg_direct:
  assumes "NewIdentScreenName (unicode W) (screenName to) = to" and "plain_client to W"
  shows "sendLegacyAuthMsg (icbm_ChannelMsgToHost g) fr to W = sendLegacyAuthMsg (icbm_ChannelMsgToHost g') fr to W"
  unfolding sendLegacyAuthMsg_def
  by (intro bindS_cong refl) (use assms in \<open>auto dest!: made_up_sender_frame intro: send_legacy_direct\<close>)

lemma sendLegacyBuddyAddedMsg_direct:
  assumes "NewIdentScreenName (unicode W) (screenName to) = to" and "plain_client to W"
  shows "sendLegacyBuddyAddedMsg (icbm_ChannelMsgToHost g) s to W = sendLegacyBuddyAddedMsg (icbm_ChannelMsgToHost g') s to W"
  unfolding sendLegacyBuddyAddedMsg_def
  by (intro bindS_cong refl) (use assms in \<open>auto intro: send_legacy_direct\<close>)

lemma rejectContact_direct:
  assumes "NewIdentScreenName (unicode W) (screenName to) = to"
  shows "rejectContact (icbm_ChannelMsgToHost g) fr to r W = rejectContact (icbm_ChannelMsgToHost g') fr to r W"
  unfolding rejectContact_def find_session_def client_feedbag_def
  by (auto intro!: bindS_cong send_legacy_direct assms dest!: made_up_sender_frame simp: plain_client_def split: option.splits)

lemma get_feedbag_frame: "get_feedbag n W = Ok (x, V) \<Longrightarrow> registry V = registry W \<and> unicode V = unicode W"
  unfolding get_feedbag_def by (blast dest: db_call_frame)

lemma put_feedbag_frame: "put_feedbag n its W = Ok (x, V) \<Longrightarrow> registry V = registry W \<and> unicode V = unicode W"
  unfolding put_feedbag_def by (auto dest: db_call_frame)

lemma plain_client_frame: "registry V = registry W \<Longrightarrow> plain_client n V = plain_client n W"
  by (simp add: plain_client_def)

lemma tell_granter_direct:
  assumes "NewIdentScreenName (unicode W) (screenName granter) = granter"
  shows "tell_granter (icbm_ChannelMsgToHost g) granter requester W = tell_granter (icbm_ChannelMsgToHost g') granter requester W"
proof (cases "plain_client granter W")
  case True
  then show ?thesis unfolding tell_granter_def find_session_def client_feedbag_def
    by (auto intro!: bindS_cong sendLegacyBuddyAddedMsg_direct [OF assms] dest!: made_up_sender_frame)
next
  case False
  then show ?thesis by (auto simp: tell_granter_def find_session_def client_feedbag_def plain_client_def)
qed

lemma clearPendingAuth_direct:
  assumes "NewIdentScreenName (unicode W) (screenName granter) = granter"
  shows "clearPendingAuth (icbm_ChannelMsgToHost g) granter requester W = clearPendingAuth (icbm_ChannelMsgToHost g') granter requester W"
  unfolding clearPendingAuth_def
  by (auto intro!: bindS_cong tell_granter_direct simp: assms Let_def dest!: get_feedbag_frame put_feedbag_frame split: option.split)

lemma clearPendingAuth_same:
  assumes "clearPendingAuth send granter requester W = Ok (Inr False, V)"
  shows "registry V = registry W \<and> unicode V = unicode W"
proof -
  from assms obtain its U where "get_feedbag requester W = Ok (Inr its, U)"
    and rest: "(case find (\<lambda>i. ClassID i = FeedbagClassIdBuddy \<and> Name i = screenName granter) its of
        None \<Rightarrow> retS False
      | Some it \<Rightarrow> if \<not> TLVList_HasTag FeedbagAttributesPending (Attrs it) then retS False
          else let updates = [it\<lparr>Attrs := TLVList_Remove FeedbagAttributesPending (Attrs it)\<rparr>] in
             bindS (put_feedbag requester updates) (\<lambda>_.
               bindS (tell_granter send granter requester) (\<lambda>granterSess.
                 bindS (relay_items requester updates) (\<lambda>_.
                   bindS (relay_auth_answer requester (screenName granter) 1 []) (\<lambda>_.
                     bindS (show_granter granterSess requester) (\<lambda>_. retS True)))))) U = Ok (Inr False, V)"
    unfolding clearPendingAuth_def by (cases rule: bindS_cases) auto
  then have "registry U = registry W" "unicode U = unicode W" by (auto dest: get_feedbag_frame)
  moreover have "V = U" using rest
    by (auto simp: Let_def split: option.splits if_splits elim!: bindS_cases)
  ultimately show ?thesis by simp
qed

lemma authorizeContact_direct:
  assumes "NewIdentScreenName (unicode W) (screenName granter) = granter"
    and "NewIdentScreenName (unicode W) (screenName requester) = requester"
  shows "authorizeContact (icbm_ChannelMsgToHost g) granter requester text W =
    authorizeContact (icbm_ChannelMsgToHost g') granter requester text W"
proof -
  have frame: "registry V = registry W \<and> unicode V = unicode W"
    if "tryS (db_set f) W = Ok (Inr x, V)" for f x V
    using that by (auto simp: tryS_run split: outcome.splits prod.splits dest!: db_frame(2))
  show ?thesis
    unfolding authorizeContact_def find_session_def client_feedbag_def
    by (auto intro!: bindS_cong sendLegacyAuthMsg_direct clearPendingAuth_direct simp: assms plain_client_def
        dest!: frame clearPendingAuth_same split: sum.split)
qed

lemma ForwardICQAuthEvents_direct:
  assumes "unicode_ok (unicode W)" and "NewIdentScreenName (unicode W) (screenName s) = s"
  shows "ForwardICQAuthEvents (icbm_ChannelMsgToHost g) s recip m W = ForwardICQAuthEvents (icbm_ChannelMsgToHost g') s recip m W"
  using assms NewIdentScreenName_idem [OF assms(1)]
  by (auto simp: ForwardICQAuthEvents_def Let_def RespondAuthorizeToHost_def ident_def
      intro!: rejectContact_direct authorizeContact_direct)

text \<open>
  C15: A message that carries an authorisation can make the contact list service send another message, but
  that one is never handed to the contact list service again, whatever its forwarder \<open>g\<close> would do. So the two
  services, which call each other, always come to an end: two rounds are as good as any number.
\<close>

theorem authorisation_chain_ends:
  assumes "unicode_ok (unicode W)" and "NewIdentScreenName (unicode W) (screenName (identScreenName (fst s))) = identScreenName (fst s)"
  shows "icbm_ChannelMsgToHost (ForwardICQAuthEvents (icbm_ChannelMsgToHost g)) s rid m W =
      icbm_ChannelMsgToHost (ForwardICQAuthEvents (icbm_ChannelMsgToHost g')) s rid m W \<and>
    icbm_send (Suc (Suc n)) s rid m W = icbm_send 2 s rid m W"
proof -
  have fwd: "forward_auth (ForwardICQAuthEvents (icbm_ChannelMsgToHost g)) s r m V =
      forward_auth (ForwardICQAuthEvents (icbm_ChannelMsgToHost g')) s r m V" if "unicode V = unicode W" for r V g g'
    unfolding forward_auth_def
    by (auto intro!: bindS_cong ForwardICQAuthEvents_direct simp: assms that split: option.split dest!: liftS_frame)
  have eq: "icbm_ChannelMsgToHost (ForwardICQAuthEvents (icbm_ChannelMsgToHost g)) s rid m W =
      icbm_ChannelMsgToHost (ForwardICQAuthEvents (icbm_ChannelMsgToHost g')) s rid m W" for g g'
    unfolding icbm_ChannelMsgToHost_def [of "ForwardICQAuthEvents _"] ident_def find_session_def
    by (auto intro!: bindS_cong fwd simp: one_rel_run split: option.split)
  then show ?thesis unfolding numeral_2_eq_2 icbm_send.simps by blast
qed

section \<open>Silence between users who shut each other out\<close>

lemma rel_of:
  assumes "tables_ok T" and "related (screenName a) (screenName b) T" and "NewIdentScreenName t (screenName b) = b"
  shows "BlocksYou (store_Relationship t a b T) = shuts_out T (screenName b) (screenName a)"
    and "YouBlock (store_Relationship t a b T) = shuts_out T (screenName a) (screenName b)"
  using relationship_eq [OF assms(1,3), of a] assms(2) by (auto simp: rel_between_def)

text \<open>
  C12: Between two users of whom one has the other on a list, and one shuts the other out, messages, typing
  events and warnings are all refused, and nothing changes: nobody gets a message, nothing is stored. The
  sender is told that the other is not online, or that they are on the sender's own deny list.
\<close>

theorem shut_out_silence:
  assumes "tables_ok (db W)" and "unicode_ok (unicode W)" and "faults W = []"
    and "a = identScreenName (sess i W)" and "b = NewIdentScreenName (unicode W) name" and "a \<noteq> b"
    and "related (screenName a) (screenName b) (db W)"
    and "shuts_out (db W) (screenName b) (screenName a) \<or> shuts_out (db W) (screenName a) (screenName b)"
  shows "icbm_ChannelMsgToHost forward (sender_of i W) rid (m\<lparr>cm_ScreenName := name\<rparr>) W =
      Ok (Inr (Some (newICBMErr rid (if shuts_out (db W) (screenName b) (screenName a) then ErrorCodeNotLoggedOn
        else ErrorCodeInLocalPermitDeny) [])), W) \<and>
    ClientEvent i rid cookie channel name event W = Ok (Inr (), W) \<and>
    EvilRequest i rid sendAs name W = Ok (Inr (newICBMErr rid ErrorCodeNotLoggedOn []), W)"
proof -
  have W: "W\<lparr>faults := []\<rparr> = W" using assms(3) by simp
  have "NewIdentScreenName (unicode W) (screenName b) = b" using NewIdentScreenName_idem [OF assms(2)] assms(5) by simp
  note rel = rel_of [OF assms(1,7) this]
  show ?thesis
    using assms rel
    by (auto simp: icbm_ChannelMsgToHost_def ClientEvent_def EvilRequest_def ident_def me_def one_rel_run sender_of_def W)
qed

section \<open>Delivery\<close>

lemma forward_tlvs_plain:
  assumes "sess_uin (fst s) = 0" and "channel \<noteq> ICBMChannelRendezvous"
  shows "forward_tlvs s r channel l = retS (filter (\<lambda>t. \<not> not_forwarded (Tag t)) l)"
  using assms by (induction l) (simp_all add: forward_tlv_def del: retS_simp)

lemma empty_tlv: "tlv_raw t [] = Ok \<lparr>Tag = t, Value = []\<rparr>"
proof -
  have "marshal BigEndian None (TSlice TU8) (vbytes []) = ([], Ok ())"
    by (simp add: marshal.simps marshalKind.simps tag_eval vbytes_def binaryWrite_def wput_def wbuffered_def
        marshalSliceBuf_eq wok_def wseq_def)
  then show ?thesis by (simp add: tlv_raw_def NewTLVBE_def newTLV_def)
qed

text \<open>
  C11: An AIM user's message on the instant message channel, to a user who is online where neither blocks
  the other, reaches exactly that user's sessions: all live connections if none is active, else the active
  ones. It carries all attributes but the request for a receipt, the wish to be stored, and any claim when
  it was sent, and the wish for typing events if the sender has it. Nothing is stored, and the sender gets a
  receipt exactly if asked for.
\<close>

theorem message_delivered:
  assumes "faults W = []" and "b = NewIdentScreenName (unicode W) (cm_ScreenName m)"
    and "\<not> BlocksYou (store_Relationship (unicode W) (identScreenName (fst s)) b (db W))"
    and "\<not> YouBlock (store_Relationship (unicode W) (identScreenName (fst s)) b (db W))"
    and "registry_ok (registry W)" and "RetrieveSession b (registry W) = Some k"
    and "cm_ChannelID m = ICBMChannelIM" and "sess_uin (fst s) = 0" and "sess_TLVUserInfo (clock W) (fst s) = Ok info"
  shows "\<exists>W'. icbm_ChannelMsgToHost forward s rid m W = Ok (Inr (host_ack rid m), W') \<and> db W' = db W \<and>
    (\<forall>j. sess_of (registry W') j =
      (if j = k then
         (if Inactive (sess_of (registry W) k) then maybeRelayMessage else maybeRelayMessageActiveOnly)
           (msg_to_client (cm_Cookie m) ICBMChannelIM info
             (filter (\<lambda>t. Tag t \<notin> {ICBMTLVRequestHostAck, ICBMTLVStore, ICBMTLVSendTime}) (cm_TLVList m) @
              (if typingEventsEnabled (fst s) then [\<lparr>Tag = ICBMTLVWantEvents, Value = []\<rparr>] else [])))
           (sess_of (registry W) k)
       else sess_of (registry W) j))"
proof -
  let ?r = "sess_of (registry W) k"
  have W: "W\<lparr>faults := []\<rparr> = W" using assms(1) by simp
  have k: "k < length (slots (registry W))" "identScreenName ?r = b"
    using assms(5,6) by (auto simp: RetrieveSession_def registry_ok_def store_ok_def split: option.splits if_splits)
  have auth: "forward_auth forward s ?r m = retS False"
    using assms(7) by (simp add: forward_auth_def messaging_consts)
  have "forward_tlvs s ?r ICBMChannelIM (cm_TLVList m) =
      retS (filter (\<lambda>t. Tag t \<notin> {ICBMTLVRequestHostAck, ICBMTLVStore, ICBMTLVSendTime}) (cm_TLVList m))"
    using forward_tlvs_plain [OF assms(8), of ICBMChannelIM] by (simp add: messaging_consts not_forwarded_def)
  then show ?thesis
    using assms k auth
    by (auto simp: icbm_ChannelMsgToHost_def ident_def one_rel_run find_session_def W deliver_message_def tlvsS_def
        empty_tlv track_convo_def relay_user_def relay_active_def RelayToScreenName_def RelayToScreenNameActiveOnly_def Let_def)
qed

section \<open>Messages kept for a user\<close>

text \<open>
  A stored message as it is replayed: with all its attributes, and the time it was sent in place of any time it claims.
\<close>

definition offline_im :: "OfflineMessage \<Rightarrow> SNACMessage" where
  "offline_im e = msg_to_client (cm_Cookie (om_Message e)) (cm_ChannelID (om_Message e))
     \<lparr>ui_ScreenName = screenName (om_Sender e), ui_WarningLevel = 0, ui_TLVList = []\<rparr>
     (filter (\<lambda>t. Tag t \<noteq> ICBMTLVSendTime) (cm_TLVList (om_Message e)) @
      [\<lparr>Tag = ICBMTLVSendTime, Value = put_uint BigEndian 4 (unat (word_of_int (Unix (om_Sent e)) :: u32))\<rparr>])"

lemma upd_sess_twice: "upd_sess k f (upd_sess k g M) = upd_sess k (f \<circ> g) M"
  by (cases "k < length (slots M)") (simp_all add: upd_sess_def slot_of_def sess_of_def list_update_beyond not_less)

lemma upd_sess_same: "upd_sess k (\<lambda>s. s) M = M"
  by (simp add: upd_sess_def slot_of_def sess_of_def)

lemma replay_all:
  "forS es (replay_message i) W = Ok (Inr (), W\<lparr>registry :=
     upd_sess (fst i) (fold (\<lambda>e. RelayToSelf (offline_im e) (snd i)) es) (registry W)\<rparr>)"
proof (induction es arbitrary: W)
  case Nil
  then show ?case by (simp add: upd_sess_same id_def)
next
  case (Cons e es)
  have "replay_message i e W =
      Ok (Inr (), W\<lparr>registry := upd_sess (fst i) (RelayToSelf (offline_im e) (snd i)) (registry W)\<rparr>)"
    by (simp add: replay_message_def tlvsS_def tlv32_eq relay_self_def mod_session_def offline_im_def)
  then show ?case by (simp add: bindS_def Cons.IH upd_sess_twice comp_def)
qed

text \<open>
  C13: A message accepted for a user who is offline is stored behind the messages that wait already, and no other inbox
  changes. When the user asks for the messages later, whatever has become of the server meanwhile, the connection that
  asks gets all that wait, in the order in which they were stored, each with all its attributes and the time it was sent,
  in place of any time it claims itself, and the inbox is empty afterwards.
\<close>

theorem offline_message_delivered:
  assumes "faults W = []" and "message_fits m" and "a = identScreenName (fst s)" and "b = NewIdentScreenName (unicode W) (cm_ScreenName m)"
    and "NewIdentScreenName (unicode W) (screenName a) = a" and "user_exists (screenName a) (db W)" and "user_exists (screenName b) (db W)"
    and "pair_count (screenName a) (screenName b) (db W) < offlineInboxLimit"
    and "RetrieveMessages (unicode W) b (db W) = Ok (Inr waiting)"
  shows "\<exists>W1. sendOfflineMessage s rid m W = Ok (Inr (host_ack rid m), W1) \<and>
    RetrieveMessages (unicode W) b (db W1) =
      Ok (Inr (waiting @ [\<lparr>om_Sender = a, om_Recipient = b, om_Message = m, om_Sent = clock W\<rparr>])) \<and>
    (\<forall>r. r \<noteq> b \<longrightarrow> RetrieveMessages (unicode W) r (db W1) = RetrieveMessages (unicode W) r (db W)) \<and>
    (\<forall>W2 i rid' ms. faults W2 = [] \<and> identScreenName (sess i W2) = b \<and>
        RetrieveMessages (unicode W2) b (db W2) = Ok (Inr ms) \<longrightarrow>
      (\<exists>W3 ans. OfflineRetrieve i rid' W2 = Ok (Inr ans, W3) \<and>
        registry W3 = upd_sess (fst i) (fold (\<lambda>e. RelayToSelf (offline_im e) (snd i)) ms) (registry W2) \<and>
        RetrieveMessages (unicode W2) b (db W3) = Ok (Inr [])))"
proof -
  let ?o = "\<lparr>om_Sender = a, om_Recipient = b, om_Message = m, om_Sent = clock W\<rparr>"
  obtain n S where save: "SaveMessage ?o (db W) = Ok (Inr n, S)" and got: "RetrieveMessages (unicode W) b S = Ok (Inr (waiting @ [?o]))"
      and others: "\<forall>r. r \<noteq> b \<longrightarrow> RetrieveMessages (unicode W) r S = RetrieveMessages (unicode W) r (db W)"
    using saved_message [of ?o "db W" "unicode W" waiting] assms by auto
  have W: "W\<lparr>faults := []\<rparr> = W" using assms(1) by simp
  have "sendOfflineMessage s rid m W = Ok (Inr (host_ack rid m), W\<lparr>db := S\<rparr>)"
    using save assms by (auto simp: sendOfflineMessage_def ident_def tryS_run db_call_def bindS_def)
  moreover have "\<exists>W3 ans. OfflineRetrieve i rid' W2 = Ok (Inr ans, W3) \<and>
        registry W3 = upd_sess (fst i) (fold (\<lambda>e. RelayToSelf (offline_im e) (snd i)) ms) (registry W2) \<and>
        RetrieveMessages (unicode W2) b (db W3) = Ok (Inr [])"
    if "faults W2 = []" "identScreenName (sess i W2) = b" "RetrieveMessages (unicode W2) b (db W2) = Ok (Inr ms)" for W2 i rid' ms
  proof -
    have "RetrieveMessages (unicode W2) b (DeleteMessages b (db W2)) = Ok (Inr [])"
      by (simp add: RetrieveMessages_def DeleteMessages_def delete_where_def)
    then show ?thesis
      using that by (auto simp: OfflineRetrieve_def me_def db_call_def bindS_def replay_all whenS_def db_set_def snac_def)
  qed
  ultimately show ?thesis using got others by fastforce
qed

section \<open>The decay of a warning\<close>

lemma im_rate_class_eq: "im_rate_class = retS 3"
proof -
  have "RateClassLookup DefaultSNACRateLimits 4 6 = (3, True)" by (simp add: RateClassLookup_def rate_tables)
  then show ?thesis by (simp add: im_rate_class_def ICBM_def ICBMChannelMsgToHost_def del: retS_simp)
qed

lemma elapsed_periods:
  assumes "0 \<le> p" and "p \<le> 2 ^ 20"
  shows "calcElapsedWarningLevel (Some t) (t * 10 ^ 9 + p * rateDecayInterval) rateDecayInterval = wrap16 (- 50 * p)"
proof -
  have "time_sub (t * 10 ^ 9 + p * rateDecayInterval) (nanos (Some t)) = p * rateDecayInterval"
    using assms by (simp add: time_sub_def nanos_def rateDecayInterval_def)
  moreover have "(p * rateDecayInterval) sdiv rateDecayInterval = p"
    using assms by (simp add: signed_divide_int_def rateDecayInterval_def sgn_mult sgn_if)
  ultimately show ?thesis by (simp add: calcElapsedWarningLevel_def warningDecayPct_def mult.commute)
qed

lemma wrap16_small: "- 32768 \<le> x \<Longrightarrow> x < 32768 \<Longrightarrow> wrap16 x = x"
  by (simp add: wrap16_def)

lemma wrap16_over: "- 98304 \<le> x \<Longrightarrow> x < - 32768 \<Longrightarrow> wrap16 x = x + 65536"
proof -
  assume "- 98304 \<le> x" "x < - 32768"
  then have "(x + 32768 + 65536) mod 65536 = x + 32768 + 65536" by simp
  moreover have "(x + 32768 + 65536) mod 65536 = (x + 32768) mod (65536 :: int)" by (rule mod_add_self2)
  ultimately show ?thesis by (simp add: wrap16_def)
qed

text \<open>
  The decay while a user is away is computed in 16 bits. Away for 108 hours (1291 to 1310 periods of
  five minutes) it is positive: if the sum stays within 1000, the user comes back with a higher warning level
  than the one they left with.
\<close>

theorem restored_warning_grows:
  assumes "faults W = []" and "store_User (unicode W) (identScreenName (sess i W)) (db W) = Some u"
    and "LastWarnUpdate u = Some t" and "clock W = t * 10 ^ 9 + p * rateDecayInterval" and "1291 \<le> p" and "p \<le> 1310"
    and "0 < LastWarnLevel u" and "uint (LastWarnLevel u) + (65536 - 50 * p) \<le> 1000"
    and "fst i < length (slots (registry W))" and "warningCh (sess i W) = []" and "length (rateLimitStates (sess i W)) = 5"
  shows "\<exists>W'. RestoreWarningLevel i W = Ok (Inr (), W') \<and>
    uint (warning (sess i W')) = uint (LastWarnLevel u) + (65536 - 50 * p) \<and> warning (sess i W') > LastWarnLevel u"
proof -
  have low: "0 \<le> uint (LastWarnLevel u)" by simp
  have high: "uint (LastWarnLevel u) \<le> 1000" using assms(6,8) by linarith
  have a: "wrap16 (uint (LastWarnLevel u)) = uint (LastWarnLevel u)"
    by (rule wrap16_small) (use low high in linarith)+
  have b: "wrap16 (uint (LastWarnLevel u) + (65536 - 50 * p)) = uint (LastWarnLevel u) + (65536 - 50 * p)"
    by (rule wrap16_small) (use low assms(6,8) in linarith)+
  have c: "calcElapsedWarningLevel (LastWarnUpdate u) (clock W) rateDecayInterval = 65536 - 50 * p"
    using elapsed_periods [of p t] wrap16_over [of "- 50 * p"] assms(3-6) by simp
  have new: "wrap16 (wrap16 (uint (LastWarnLevel u)) + calcElapsedWarningLevel (LastWarnUpdate u) (clock W) rateDecayInterval) =
      uint (LastWarnLevel u) + (65536 - 50 * p)"
    unfolding a c by (rule b)
  define n where "n = uint (LastWarnLevel u) + (65536 - 50 * p)"
  have n: "0 < n" "n \<le> 1000" using assms(6,8) low unfolding n_def by linarith+
  have val: "uint (word_of_int n :: u16) = n" using n by (simp add: uint_word_of_int)
  have "uint (LastWarnLevel u) < n" using assms(6) unfolding n_def by linarith
  then have grows: "LastWarnLevel u < word_of_int n" unfolding word_less_alt val .
  let ?V = "W\<lparr>faults := [], registry := upd_sess (fst i) (SetWarning 0) (registry W)\<rparr>"
  let ?s = "SetWarning 0 (sess i W)"
  obtain s where "ScaleWarningAndRateLimit (scale_of (ext W)) n 3 ?s = Ok ((True, word_of_int n), s)" "warning s = word_of_int n"
    using assms(10,11) n by (auto simp: ScaleWarningAndRateLimit_def SetWarning_def class_index_def Let_def)
  then have "scale_warning (fst i) n 3 ?V = Ok (Inr (True, word_of_int n), ?V\<lparr>registry := upd_sess (fst i) (\<lambda>_. s) (registry ?V)\<rparr>)"
    using assms(9) by (simp add: scale_warning_def sess_def)
  then have "RestoreWarningLevel i W = Ok (Inr (), ?V\<lparr>registry := upd_sess (fst i) (\<lambda>_. s) (registry ?V)\<rparr>)"
    using assms(1,2,7) new by (simp add: RestoreWarningLevel_def me_def db_get_run im_rate_class_eq mod_session_def bindS_Ok Let_def n_def)
  then show ?thesis
    using assms(9) \<open>warning s = _\<close> val grows by (simp add: sess_def n_def)
qed

section \<open>Witnesses\<close>

unbundle bit_operations_syntax

definition hello :: "bytes \<Rightarrow> ChannelMsgToHost" where
  "hello to = \<lparr>cm_Cookie = 7, cm_ChannelID = 1, cm_ScreenName = to, cm_TLVList = [\<lparr>Tag = 2, Value = [5]\<rparr>]\<rparr>"

lemma hello_fields [simp]:
  "cm_Cookie (hello to) = 7" "cm_ChannelID (hello to) = 1" "cm_ScreenName (hello to) = to" "cm_TLVList (hello to) = [\<lparr>Tag = 2, Value = [5]\<rparr>]"
  "host_ack rid (hello to) = None"
  by (simp_all add: hello_def host_ack_def ICBMTLVRequestHostAck_def)

lemma authorisation_chain_ends_witness:
  "icbm_send 7 (one_conn (IdentScreenName [0x61]), 0) 1 (hello [0x62]) (small_world False) =
   icbm_send 2 (one_conn (IdentScreenName [0x61]), 0) 1 (hello [0x62]) (small_world False)"
  using authorisation_chain_ends [of "small_world False" "(one_conn (IdentScreenName [0x61]), 0)" _ _ _ _ 5]
  by (simp add: unicode_ok_ascii_tables one_conn_def ascii_ident numeral_eq_Suc)

lemma shut_out_silence_witness:
  "ClientEvent (0, 0) 1 7 1 [0x62] 2 (small_world True) = Ok (Inr (), small_world True) \<and>
   EvilRequest (0, 0) 1 0 [0x62] (small_world True) = Ok (Inr (newICBMErr 1 ErrorCodeNotLoggedOn []), small_world True)"
proof -
  have me: "identScreenName (sess (0, 0) (small_world True)) = IdentScreenName [0x61]"
    by (simp add: sess_def sess_of_def slot_of_def two_online_def one_conn_def)
  have "related [0x61] [0x62] (db (small_world True))"
    by (simp add: related_def has_buddy_def mentions_def client_lists_def server_lists_def pd_mode_def small_defs)
  then show ?thesis
    using shut_out_silence [of "small_world True" "IdentScreenName [0x61]" "(0, 0)" "IdentScreenName [0x62]" "[0x62]"]
      small_world_ok small_world_watches(2)
    by (simp add: me ascii_ident unicode_ok_ascii_tables)
qed

lemma message_delivered_witness:
  "\<exists>W' info. icbm_ChannelMsgToHost (\<lambda>_ _ _. retS ()) (one_conn (IdentScreenName [0x62]), 0) 1 (hello [0x61]) (small_world False) =
      Ok (Inr None, W') \<and>
    sess_of (registry W') 0 = maybeRelayMessageActiveOnly (msg_to_client 7 ICBMChannelIM info [\<lparr>Tag = 2, Value = [5]\<rparr>])
      (one_conn (IdentScreenName [0x61]))"
proof -
  have conn0: "sess_of two_online 0 = one_conn (IdentScreenName [0x61])" by (simp add: two_online_def sess_of_def slot_of_def)
  have "HasLiveInstances (one_conn (IdentScreenName [0x61]))"
    by (simp add: HasLiveInstances_def one_conn_list) (simp add: one_conn_def live_def SetSignonComplete_def newInstance_def)
  moreover have map: "map_of (store two_online) (IdentScreenName [0x61]) = Some 0" by (simp add: two_online_def)
  ultimately have online: "RetrieveSession (IdentScreenName [0x61]) two_online = Some 0"
    using map by (simp add: RetrieveSession_def conn0)
  have active: "\<not> Inactive (one_conn (IdentScreenName [0x61]))"
    by (simp add: Inactive_def one_conn_instances active_def away_def user_flags SetSignonComplete_def newInstance_def)
  have free: "\<not> shuts_out (db (small_world False)) [0x61] [0x62]" "\<not> shuts_out (db (small_world False)) [0x62] [0x61]"
      "related [0x62] [0x61] (db (small_world False))"
    by (simp_all add: shuts_out_def related_def has_buddy_def mentions_def client_lists_def server_lists_def pd_mode_def
      denies_def permits_def pd_modes small_defs)
  note rel = rel_of [OF small_world_ok(1), of "IdentScreenName [0x62]" "IdentScreenName [0x61]" False ascii_tables]
  obtain info where info: "sess_TLVUserInfo (clock (small_world False)) (one_conn (IdentScreenName [0x62])) = Ok info"
    using one_conn_info by blast
  note run = message_delivered [of "small_world False" "IdentScreenName [0x61]" "hello [0x61]" "(one_conn (IdentScreenName [0x62]), 0)" 0 info
      "\<lambda>_ _ _. retS ()" 1, simplified]
  show ?thesis using rel free small_world_ok(3) online active info run
    by (force simp: messaging_consts conn0)
qed

definition accounts_world :: "int \<Rightarrow> World" where
  "accounts_world t = (small_world False)\<lparr>db := two_accounts, clock := t\<rparr>"

text \<open>In the inbox of the witness a message of the user to herself is waiting.\<close>

definition own_note :: OfflineMessage where
  "own_note = \<lparr>om_Sender = IdentScreenName [0x62], om_Recipient = IdentScreenName [0x62], om_Message = hello [0x62], om_Sent = 3\<rparr>"

definition noted_world :: World where
  "noted_world = (accounts_world 0)\<lparr>db := two_accounts\<lparr>offline_rows := [offline_row own_note]\<rparr>\<rparr>"

lemma offline_message_delivered_witness:
  "\<exists>W1 W3 ans. sendOfflineMessage (one_conn (IdentScreenName [0x61]), 0) 1 (hello [0x62]) noted_world = Ok (Inr None, W1) \<and>
     OfflineRetrieve (1, 0) 2 (noted_world\<lparr>db := db W1\<rparr>) = Ok (Inr ans, W3) \<and>
     registry W3 = upd_sess 1 (fold (\<lambda>e. RelayToSelf (offline_im e) 0) [own_note, own_note\<lparr>om_Sender := IdentScreenName [0x61], om_Sent := 0\<rparr>]) two_online \<and>
     RetrieveMessages ascii_tables (IdentScreenName [0x62]) (db W3) = Ok (Inr [])"
proof -
  have me: "identScreenName (sess (Suc 0, 0) (noted_world\<lparr>db := S\<rparr>)) = IdentScreenName [0x62]" for S
    by (simp add: sess_def sess_of_def slot_of_def noted_world_def accounts_world_def two_online_def one_conn_def)
  have fits: "message_fits (hello [0x62])" by (simp add: hello_def message_fits_def)
  have "read_offline ascii_tables (IdentScreenName [0x62]) [offline_row own_note] = Ok (Inr [own_note])"
    using message_bytes(2) [OF fits] by (simp add: offline_row_def own_note_def)
  then have inbox: "RetrieveMessages ascii_tables (IdentScreenName [0x62]) (db noted_world) = Ok (Inr [own_note])"
    by (simp add: RetrieveMessages_def noted_world_def offline_row_def own_note_def)
  have "user_exists [0x61] (db noted_world)" "user_exists [0x62] (db noted_world)"
      "pair_count [0x61] [0x62] (db noted_world) < offlineInboxLimit"
    by (simp_all add: noted_world_def two_accounts_def empty_store_def pair_count_def offlineInboxLimit_def offline_row_def own_note_def
      user_exists_def row_name_def blank_user_def)
  note users = this
  have ids: "faults noted_world = []" "unicode noted_world = ascii_tables" "clock noted_world = 0" "registry noted_world = two_online"
    by (simp_all add: noted_world_def accounts_world_def)
  from offline_message_delivered [of noted_world "hello [0x62]" "IdentScreenName [0x61]" "(one_conn (IdentScreenName [0x61]), 0)"
      "IdentScreenName [0x62]" "[own_note]" 1] fits users inbox
  obtain W1 where send: "sendOfflineMessage (one_conn (IdentScreenName [0x61]), 0) 1 (hello [0x62]) noted_world = Ok (Inr None, W1)"
    and got: "RetrieveMessages ascii_tables (IdentScreenName [0x62]) (db W1) =
        Ok (Inr [own_note, own_note\<lparr>om_Sender := IdentScreenName [0x61], om_Sent := 0\<rparr>])"
    and later: "\<And>W2 i rid' ms. faults W2 = [] \<Longrightarrow> identScreenName (sess i W2) = IdentScreenName [0x62] \<Longrightarrow>
        RetrieveMessages (unicode W2) (IdentScreenName [0x62]) (db W2) = Ok (Inr ms) \<Longrightarrow>
      \<exists>W3 ans. OfflineRetrieve i rid' W2 = Ok (Inr ans, W3) \<and>
        registry W3 = upd_sess (fst i) (fold (\<lambda>e. RelayToSelf (offline_im e) (snd i)) ms) (registry W2) \<and>
        RetrieveMessages (unicode W2) (IdentScreenName [0x62]) (db W3) = Ok (Inr [])"
    unfolding ids by (simp add: own_note_def del: split_paired_Ex split_paired_All) blast
  show ?thesis
    using send later [of "noted_world\<lparr>db := db W1\<rparr>" "(1, 0)" _ 2] got me by (simp add: ids)
qed

definition warned_world :: World where
  "warned_world = (accounts_world (1300 * rateDecayInterval))\<lparr>db := two_accounts\<lparr>user_rows :=
     [\<lparr>row_user = (blank_user [0x61])\<lparr>LastWarnUpdate := Some 0, LastWarnLevel := 100\<rparr>, row_keywords = []\<rparr>]\<rparr>\<rparr>"

lemma restored_warning_grows_witness:
  "\<exists>W'. RestoreWarningLevel (0, 0) warned_world = Ok (Inr (), W') \<and> uint (warning (sess (0, 0) W')) = 636"
proof -
  have me: "sess (0, 0) warned_world = one_conn (IdentScreenName [0x61])"
    by (simp add: sess_def sess_of_def slot_of_def warned_world_def accounts_world_def two_online_def)
  obtain u where "store_User ascii_tables (IdentScreenName [0x61]) (db warned_world) = Some u" "LastWarnUpdate u = Some 0" "LastWarnLevel u = 100"
    by (simp add: store_User_def queryUsers_def warned_world_def accounts_world_def row_name_def read_user_def blank_user_def)
  then show ?thesis
    using restored_warning_grows [of warned_world "(0, 0)" u 0 1300]
    by (auto simp: me) (auto simp: warned_world_def accounts_world_def two_online_def one_conn_def NewSession_def)
qed

end
