(* ===== verification/ChatService.thy ===== *)
theory ChatService
  imports Messaging
begin

text \<open>
  Chat: messages in a room, with the dice command and whispers (\<open>foodgroup/chat.go\<close>), and the creation
  and lookup of rooms (\<open>foodgroup/chat_nav.go\<close>).
\<close>

section \<open>Numbers\<close>

definition ChatRoomInfoUpdate :: u16 where "ChatRoomInfoUpdate = 0x0002"
definition ChatUsersJoined :: u16 where "ChatUsersJoined = 0x0003"
definition ChatUsersLeft :: u16 where "ChatUsersLeft = 0x0004"
definition ChatChannelMsgToClient :: u16 where "ChatChannelMsgToClient = 0x0006"
definition ChatTLVPublicWhisperFlag :: u16 where "ChatTLVPublicWhisperFlag = 0x01"
definition ChatTLVWhisperToUser :: u16 where "ChatTLVWhisperToUser = 0x02"
definition ChatTLVSenderInformation :: u16 where "ChatTLVSenderInformation = 0x03"
definition ChatTLVMessageInfo :: u16 where "ChatTLVMessageInfo = 0x05"
definition ChatTLVEnableReflectionFlag :: u16 where "ChatTLVEnableReflectionFlag = 0x06"
definition ChatTLVMessageInfoEncoding :: u16 where "ChatTLVMessageInfoEncoding = 0x02"
definition ChatTLVMessageInfoLang :: u16 where "ChatTLVMessageInfoLang = 0x03"
definition ChatNavErr :: u16 where "ChatNavErr = 0x0001"
definition ChatNavNavInfo :: u16 where "ChatNavNavInfo = 0x0009"
definition ChatNavTLVMaxConcurrentRooms :: u16 where "ChatNavTLVMaxConcurrentRooms = 0x0002"
definition ChatNavTLVExchangeInfo :: u16 where "ChatNavTLVExchangeInfo = 0x0003"
definition ChatNavTLVRoomInfo :: u16 where "ChatNavTLVRoomInfo = 0x0004"
definition ChatRoomTLVClassPerms :: u16 where "ChatRoomTLVClassPerms = 0x02"
definition ChatRoomTLVMaxConcurrentRooms :: u16 where "ChatRoomTLVMaxConcurrentRooms = 0x03"
definition ChatRoomTLVMaxNameLen :: u16 where "ChatRoomTLVMaxNameLen = 0x04"
definition ChatRoomTLVCharSet1 :: u16 where "ChatRoomTLVCharSet1 = 0xD6"
definition ChatRoomTLVLang1 :: u16 where "ChatRoomTLVLang1 = 0xD7"
definition ChatRoomTLVCharSet2 :: u16 where "ChatRoomTLVCharSet2 = 0xD8"
definition ChatRoomTLVLang2 :: u16 where "ChatRoomTLVLang2 = 0xD9"
definition ErrorCodeNoMatch :: u16 where "ErrorCodeNoMatch = 0x14"

lemmas chatservice_consts = ChatRoomInfoUpdate_def ChatUsersJoined_def ChatUsersLeft_def
  ChatChannelMsgToClient_def ChatTLVPublicWhisperFlag_def ChatTLVWhisperToUser_def ChatTLVSenderInformation_def
  ChatTLVMessageInfo_def ChatTLVEnableReflectionFlag_def ChatTLVMessageInfoEncoding_def
  ChatTLVMessageInfoLang_def  ChatNavErr_def ChatNavNavInfo_def
  ChatNavTLVMaxConcurrentRooms_def ChatNavTLVExchangeInfo_def ChatNavTLVRoomInfo_def ChatRoomTLVClassPerms_def
  ChatRoomTLVMaxConcurrentRooms_def ChatRoomTLVMaxNameLen_def ChatRoomTLVCharSet1_def ChatRoomTLVLang1_def
  ChatRoomTLVCharSet2_def ChatRoomTLVLang2_def ErrorCodeNoMatch_def

section \<open>Connections to a room\<close>

text \<open>
  A chat session is a manager and a slot in it, as in the registry of chat sessions. The relays hold a
  lock and may not come back.
\<close>

type_synonym chat_ref = "nat \<times> nat"

definition chat_sess :: "chat_ref \<Rightarrow> World \<Rightarrow> SNACMessage Session" where
  "chat_sess s W = sess_of (chat_mgr (chats W) (fst s)) (snd s)"

definition chat_call :: "(SNACMessage ChatManager \<Rightarrow> SNACMessage ChatManager outcome) \<Rightarrow> unit svc" where
  "chat_call f W = bind_out (f (chats W)) (\<lambda>C. Ok (Inr (), W\<lparr>chats := C\<rparr>))"

definition chat_relay_all :: "chat_ref \<Rightarrow> SNACMessage \<Rightarrow> unit svc" where
  "chat_relay_all s m = bindS (getS (\<lambda>W. (cookies (chats W) s, identScreenName (chat_sess s W)))) (\<lambda>(c, n).
     chat_call (RelayToAllExcept c n m))"

definition chat_relay_to :: "chat_ref \<Rightarrow> IdentScreenName \<Rightarrow> SNACMessage \<Rightarrow> unit svc" where
  "chat_relay_to s n m = bindS (getS (\<lambda>W. cookies (chats W) s)) (\<lambda>c. chat_call (chat_RelayToScreenName c n m))"

definition chat_info :: "chat_ref \<Rightarrow> TLVUserInfo svc" where
  "chat_info s = bindS (getS (\<lambda>W. sess_TLVUserInfo (clock W) (chat_sess s W))) liftS"

section \<open>The dice command\<close>

text \<open>
  \<open>^//roll(?:-(dice|sides)([0-9]{1,3}))?(?:-(dice|sides)([0-9]{1,3}))?\s*$\<close>. What follows an argument
  cannot start with a digit, so that an argument always takes all the digits it can.
\<close>

definition strip_prefix :: "bytes \<Rightarrow> bytes \<Rightarrow> bytes option" where
  "strip_prefix p s = (if take (length p) s = p then Some (drop (length p) s) else None)"

definition dice_number :: "bytes \<Rightarrow> bytes \<Rightarrow> bytes \<Rightarrow> (bytes \<times> bytes) option \<times> bytes" where
  "dice_number cmd r s =
     (let ds = take 3 (takeWhile digit r) in
      if ds = [] then (None, s) else (Some (cmd, ds), drop (length ds) r))"

definition dice_arg :: "bytes \<Rightarrow> (bytes \<times> bytes) option \<times> bytes" where
  "dice_arg s =
     (case strip_prefix (ascii ''-dice'') s of
        Some r \<Rightarrow> dice_number (ascii ''dice'') r s
      | None \<Rightarrow> (case strip_prefix (ascii ''-sides'') s of
          Some r \<Rightarrow> dice_number (ascii ''sides'') r s
        | None \<Rightarrow> (None, s)))"

definition regexp_space :: "u8 \<Rightarrow> bool" where
  "regexp_space b \<longleftrightarrow> b \<in> {0x09, 0x0A, 0x0C, 0x0D, 0x20}"

definition rollDiceRgxp :: "bytes \<Rightarrow> (bytes \<times> bytes) list option" where
  "rollDiceRgxp s =
     (case strip_prefix (ascii ''//roll'') s of
        None \<Rightarrow> None
      | Some r \<Rightarrow>
          (case dice_arg r of (a1, r1) \<Rightarrow>
           case dice_arg r1 of (a2, r2) \<Rightarrow>
             if list_all regexp_space r2 then Some (List.map_filter id [a1, a2]) else None))"

fun dice_args :: "(bytes \<times> bytes) list \<Rightarrow> int \<times> int \<Rightarrow> (int \<times> int) option" where
  "dice_args [] p = Some p"
| "dice_args ((cmd, val) # as) (dice, sides) =
     (case Atoi val of (n, err) \<Rightarrow>
        if cmd = ascii ''sides'' then
          (if err \<or> n = 0 \<or> n > 999 then None else dice_args as (dice, n))
        else (if err \<or> n = 0 \<or> n > 15 then None else dice_args as (n, sides)))"

definition parseDiceCommand :: "bytes \<Rightarrow> (int \<times> int) option" where
  "parseDiceCommand s =
     (case rollDiceRgxp s of
        None \<Rightarrow> None
      | Some as \<Rightarrow> if length as = 2 \<and> fst (as ! 0) = fst (as ! 1) then None else dice_args as (2, 6))"

text \<open>\<open>rand.IntN\<close> is the next random number; the numbers are never used up in the code.\<close>

definition randRollDie :: "int \<Rightarrow> int svc" where
  "randRollDie sides = bindS (getS (\<lambda>W. case randoms W of [] \<Rightarrow> 0 | n # _ \<Rightarrow> int n mod sides)) (\<lambda>n.
     bindS (modS (\<lambda>W. W\<lparr>randoms := tl (randoms W)\<rparr>)) (\<lambda>_. retS (n + 1)))"

fun roll_dice_text :: "nat \<Rightarrow> int \<Rightarrow> bytes svc" where
  "roll_dice_text 0 sides = retS []"
| "roll_dice_text (Suc n) sides =
     bindS (randRollDie sides) (\<lambda>d.
       bindS (roll_dice_text n sides) (\<lambda>rest. retS ([0x20] @ decimal_string (nat d) @ rest)))"

definition rollDice :: "SNACMessage Session \<Rightarrow> int \<Rightarrow> int \<Rightarrow> TLVList svc" where
  "rollDice sender dice sides =
     bindS (roll_dice_text (nat dice) sides) (\<lambda>rolls.
       tlvsS
         [tlv_str ChatTLVMessageInfoEncoding (ascii ''us-ascii''),
          tlv_str ChatTLVMessageInfoLang (ascii ''en''),
          tlv_str ChatTLVMessageInfoText
            (ascii ''<HTML><BODY BGCOLOR=\"#ffffff\"><FONT LANG=\"0\">'' @ displayScreenName sender @ ascii '' rolled '' @
             decimal_string (nat dice) @ [0x20] @ decimal_string (nat sides) @ ascii ''-sided dice:'' @ rolls @
             ascii ''</FONT></BODY></HTML>'')])"

section \<open>Messages\<close>

text \<open>The user who announces the results, a session of its own with one connection.\<close>

definition sessOnlineHost :: "unicode_tables \<Rightarrow> SNACMessage Session outcome" where
  "sessOnlineHost t = bind_out (AddInstance (NewSession\<lparr>displayScreenName := ascii ''OnlineHost'',
     identScreenName := NewIdentScreenName t (ascii ''OnlineHost'')\<rparr>)) (\<lambda>(_, s). Ok s)"

fun first_text :: "html_token list \<Rightarrow> bytes" where
  "first_text [] = []"
| "first_text (TextToken b # _) = b"
| "first_text (_ # ts) = first_text ts"

definition extractChatMessage :: "TLVList \<Rightarrow> bytes svc" where
  "extractChatMessage msg =
     (case TLVList_Bytes ChatTLVMessageInfoText msg of
        None \<Rightarrow> failS (BadRequest ''SNAC(0x0E,0x05) has no chat msg text TLV'')
      | Some b \<Rightarrow> getS (\<lambda>W. first_text (html_of (ext W) b)))"

definition newChatTLVBlock :: "TLVList \<Rightarrow> SNACMessage Session \<Rightarrow> TLVList \<Rightarrow> TLVList svc" where
  "newChatTLVBlock body sender msg =
     bindS (getS clock) (\<lambda>now.
       bindS (liftS (sess_TLVUserInfo now sender)) (\<lambda>info.
         tlvsS ([NewTLVBE ChatTLVSenderInformation (TLVUserInfo_ty, TLVUserInfo_val info)] @
           (if TLVList_HasTag ChatTLVPublicWhisperFlag body then [tlv_raw ChatTLVPublicWhisperFlag []] else []) @
           [NewTLVBE ChatTLVMessageInfo (TLVRestBlock_ty, rest_block msg)])))"

definition fix_encoding :: "TLVList \<Rightarrow> TLVList outcome" where
  "fix_encoding msg =
     (if TLVList_String ChatTLVMessageInfoEncoding msg = (ascii ''ISO 8859'', True)
      then bind_out (tlv_raw ChatTLVMessageInfoEncoding (ascii ''ISO-8859-1'')) (\<lambda>t. Ok (TLVList_Set t msg))
      else Ok msg)"

definition essential :: "TLV \<Rightarrow> bool" where
  "essential t \<longleftrightarrow> Tag t = ChatTLVMessageInfoText \<or> Tag t = ChatTLVMessageInfoEncoding \<or> Tag t = ChatTLVMessageInfoLang"

definition transformChatMessage :: "(World \<Rightarrow> SNACMessage Session) \<Rightarrow> TLVList \<Rightarrow> TLVList svc" where
  "transformChatMessage who body =
     (case TLVList_Bytes ChatTLVMessageInfo body of
        None \<Rightarrow> failS (BadRequest ''SNAC(0x0E,0x05) does not contain a message TLV'')
      | Some blob \<Rightarrow>
          bindS (liftS (fst (UnmarshalBE TLVRestBlock_ty blob))) (\<lambda>v.
            bindS (extractChatMessage (val_tlvs (vfield 0 v))) (\<lambda>txt.
              bindS (getS who) (\<lambda>sender.
                case parseDiceCommand txt of
                  Some (dice, sides) \<Rightarrow>
                    bindS (rollDice sender dice sides) (\<lambda>payload.
                      bindS (getS unicode) (\<lambda>t.
                        bindS (liftS (sessOnlineHost t)) (\<lambda>host. newChatTLVBlock body host payload)))
                | None \<Rightarrow>
                    bindS (liftS (fix_encoding (val_tlvs (vfield 0 v)))) (\<lambda>msg.
                      newChatTLVBlock body sender (filter essential msg))))))"

definition chat_msg :: "u32 \<Rightarrow> u64 \<Rightarrow> u16 \<Rightarrow> TLVList \<Rightarrow> SNACMessage" where
  "chat_msg rid cookie channel l = snac Chat ChatChannelMsgToClient rid SNAC_0x0E_0x06_ChatChannelMsgToClient_ty
     (VStruct [VU64 cookie, VU16 channel, rest_block l])"

text \<open>A message from a connection with the session \<open>who\<close> and the chat cookie \<open>room\<close>.\<close>

definition chat_send :: "(World \<Rightarrow> SNACMessage Session) \<Rightarrow> (World \<Rightarrow> bytes) \<Rightarrow> u32 \<Rightarrow> u64 \<Rightarrow> u16 \<Rightarrow> TLVList \<Rightarrow>
    SNACMessage option svc" where
  "chat_send who room_of rid cookie channel body =
     (let channel' = (if channel = 0xFFFF then ICBMChannelMIME else channel) in
      bindS (transformChatMessage who body) (\<lambda>l.
        let out = chat_msg 0 cookie channel' l in
        bindS (getS (\<lambda>W. (room_of W, identScreenName (who W)))) (\<lambda>(c, n).
          bindS (if TLVList_HasTag ChatTLVWhisperToUser body \<and> \<not> TLVList_HasTag ChatTLVPublicWhisperFlag body
                 then bindS (ident (fst (TLVList_String ChatTLVWhisperToUser body))) (\<lambda>recip.
                   chat_call (chat_RelayToScreenName c recip out))
                 else chat_call (RelayToAllExcept c n out)) (\<lambda>_.
            retS (if TLVList_Bytes ChatTLVEnableReflectionFlag body = None then None
                  else Some (chat_msg rid cookie channel' l))))))"

definition chat_ChannelMsgToHost :: "chat_ref \<Rightarrow> u32 \<Rightarrow> u64 \<Rightarrow> u16 \<Rightarrow> TLVList \<Rightarrow> SNACMessage option svc" where
  "chat_ChannelMsgToHost s = chat_send (chat_sess s) (\<lambda>W. cookies (chats W) s)"

section \<open>Arrivals and departures\<close>

definition users_joined :: "TLVUserInfo list \<Rightarrow> SNACMessage" where
  "users_joined us = snac Chat ChatUsersJoined 0 SNAC_0x0E_0x03_ChatUsersJoined_ty (VStruct [VList (map TLVUserInfo_val us)])"

definition setOnlineChatUsers :: "chat_ref \<Rightarrow> unit svc" where
  "setOnlineChatUsers s =
     bindS (getS (\<lambda>W. map (\<lambda>k. sess_TLVUserInfo (clock W) (chat_sess k W)) (chat_AllSessions (cookies (chats W) s) (chats W)))) (\<lambda>us.
       bindS (liftS (collect_out us)) (\<lambda>infos.
         bindS (getS (\<lambda>W. identScreenName (chat_sess s W))) (\<lambda>n. chat_relay_to s n (users_joined infos))))"

definition alertUserJoined :: "chat_ref \<Rightarrow> unit svc" where
  "alertUserJoined s = bindS (chat_info s) (\<lambda>info. chat_relay_all s (users_joined [info]))"

definition alertUserLeft :: "chat_ref \<Rightarrow> unit svc" where
  "alertUserLeft s = bindS (chat_info s) (\<lambda>info.
     chat_relay_all s (snac Chat ChatUsersLeft 0 SNAC_0x0E_0x04_ChatUsersLeft_ty (VStruct [VList [TLVUserInfo_val info]])))"

definition room_info :: "ChatRoom \<Rightarrow> TLVList \<Rightarrow> val" where
  "room_info r l = VStruct [VU16 (exchange r), VString (Cookie r), VU16 (InstanceNumber r), VU8 (DetailLevel r), rest_block l]"

definition sendChatRoomInfoUpdate :: "chat_ref \<Rightarrow> ChatRoom \<Rightarrow> unit svc" where
  "sendChatRoomInfoUpdate s rm =
     bindS (liftS (ChatRoom_TLVList rm)) (\<lambda>l.
       bindS (getS (\<lambda>W. identScreenName (chat_sess s W))) (\<lambda>n.
         chat_relay_to s n (snac Chat ChatRoomInfoUpdate 0 SNAC_0x0E_0x02_ChatRoomInfoUpdate_ty (room_info rm l))))"

section \<open>Rooms\<close>

definition defaultExchangeCfg :: "TLV outcome list" where
  "defaultExchangeCfg =
     [tlv8 ChatRoomTLVMaxConcurrentRooms 10,
      tlv16 ChatRoomTLVClassPerms 0x0010,
      tlv16 ChatRoomTLVMaxNameLen 100,
      tlv16 ChatRoomTLVFlags 15,
      tlv8 ChatRoomTLVNavCreatePerms 2,
      tlv_str ChatRoomTLVCharSet1 (ascii ''us-ascii''),
      tlv_str ChatRoomTLVLang1 (ascii ''en''),
      tlv_str ChatRoomTLVCharSet2 (ascii ''us-ascii''),
      tlv_str ChatRoomTLVLang2 (ascii ''en'')]"

definition exchange_info :: "u16 \<Rightarrow> TLV outcome" where
  "exchange_info e = bind_out (collect_out defaultExchangeCfg) (\<lambda>l.
     NewTLVBE ChatNavTLVExchangeInfo (SNAC_0x0D_0x09_TLVExchangeInfo_ty, VStruct [VU16 e, rest_block l]))"

definition nav_info :: "u32 \<Rightarrow> TLVList \<Rightarrow> SNACMessage" where
  "nav_info rid l = snac ChatNav ChatNavNavInfo rid SNAC_0x0D_0x09_ChatNavNavInfo_ty (VStruct [rest_block l])"

definition RequestChatRights :: "u32 \<Rightarrow> SNACMessage svc" where
  "RequestChatRights rid =
     bindS (tlvsS [tlv8 ChatNavTLVMaxConcurrentRooms 10, exchange_info PrivateExchange, exchange_info PublicExchange])
       (\<lambda>l. retS (nav_info rid l))"

definition sendChatNavErrorSNAC :: "u32 \<Rightarrow> u16 \<Rightarrow> SNACMessage" where
  "sendChatNavErrorSNAC rid code = snac ChatNav ChatNavErr rid SNACError_ty (VStruct [VU16 code, rest_block []])"

definition validateExchange :: "u16 \<Rightarrow> bool" where
  "validateExchange e \<longleftrightarrow> e = PrivateExchange \<or> e = PublicExchange"

definition room_reply :: "u32 \<Rightarrow> ChatRoom \<Rightarrow> SNACMessage svc" where
  "room_reply rid rm =
     bindS (liftS (ChatRoom_TLVList rm)) (\<lambda>l.
       bindS (tlvsS [NewTLVBE ChatNavTLVRoomInfo (SNAC_0x0E_0x02_ChatRoomInfoUpdate_ty, room_info rm l)]) (\<lambda>ts.
         retS (nav_info rid ts)))"

definition create_room :: "IdentScreenName \<Rightarrow> u16 \<Rightarrow> bytes \<Rightarrow> ChatRoom svc" where
  "create_room who e name =
     bindS (getS (\<lambda>W. Unix (clock W))) (\<lambda>now.
       db_call (\<lambda>S. case CreateChatRoom now (NewChatRoom name who e) S of
         ((Some err, _), S') \<Rightarrow> Ok (Inl err, S')
       | ((None, rm), S') \<Rightarrow> Ok (Inr rm, S')))"

definition CreateRoom :: "inst_ref \<Rightarrow> u32 \<Rightarrow> u16 \<Rightarrow> TLVList \<Rightarrow> SNACMessage svc" where
  "CreateRoom i rid e body =
     (if \<not> validateExchange e then retS (sendChatNavErrorSNAC rid ErrorCodeNotSupportedByHost)
      else case TLVList_String ChatRoomTLVRoomName body of
        (_, False) \<Rightarrow> failS (BadRequest ''unable to find chat name in TLV payload'')
      | (name, True) \<Rightarrow>
          bindS (getS unicode) (\<lambda>t.
            bindS (tryS (db_find (ChatRoomByName t e name))) (\<lambda>found.
              case found of
                Inr rm \<Rightarrow> room_reply rid rm
              | Inl err \<Rightarrow>
                  if err \<noteq> StoreErr ErrChatRoomNotFound then failS err
                  else if e = PublicExchange then retS (sendChatNavErrorSNAC rid ErrorCodeNoMatch)
                  else bindS (me i) (\<lambda>who. bindS (create_room who e name) (room_reply rid)))))"

definition RequestRoomInfo :: "u32 \<Rightarrow> u16 \<Rightarrow> bytes \<Rightarrow> SNACMessage svc" where
  "RequestRoomInfo rid e cookie =
     (if \<not> validateExchange e then retS (sendChatNavErrorSNAC rid ErrorCodeNotSupportedByHost)
      else bindS (getS unicode) (\<lambda>t.
        bindS (db_find (ChatRoomByCookie t cookie)) (\<lambda>rm.
          if exchange rm \<noteq> e then failS (BadRequest ''chat room exchange does not match requested exchange'')
          else room_reply rid rm)))"

definition ExchangeInfo :: "u32 \<Rightarrow> u16 \<Rightarrow> SNACMessage svc" where
  "ExchangeInfo rid e =
     (if \<not> validateExchange e then retS (sendChatNavErrorSNAC rid ErrorCodeNotSupportedByHost)
      else bindS (tlvsS [tlv8 ChatNavTLVMaxConcurrentRooms 10, exchange_info e]) (\<lambda>l. retS (nav_info rid l)))"

end
