(* ===== verification/OService.thy ===== *)
theory OService
  imports ChatService FeedbagService Cookies
begin

text \<open>
  The services every connection has (\<open>foodgroup/oservice.go\<close>): versions, rate limits, the user's own
  status, cookies for the other services, and what happens when a client is ready.
\<close>

unbundle bit_operations_syntax

section \<open>Numbers\<close>

definition OServiceHostVersions :: u16 where "OServiceHostVersions = 0x0018"
definition OServiceMotd :: u16 where "OServiceMotd = 0x0013"
definition OServiceTLVTagsMOTDMessage :: u16 where "OServiceTLVTagsMOTDMessage = 0x0B"
definition OServiceRateParamsReply :: u16 where "OServiceRateParamsReply = 0x0007"
definition OServiceUserStatusBusy :: u32 where "OServiceUserStatusBusy = 0x00000010"
definition OServiceUserStatusDND :: u32 where "OServiceUserStatusDND = 0x00000002"
definition OServiceUserStatusOut :: u32 where "OServiceUserStatusOut = 0x00000004"
definition OServiceProbeAck :: u16 where "OServiceProbeAck = 0x0020"
definition OServiceHostOnline :: u16 where "OServiceHostOnline = 0x0003"
definition OServiceErr :: u16 where "OServiceErr = 0x0001"
definition OServiceRateParamChange :: u16 where "OServiceRateParamChange = 0x000A"
definition ErrorCodeServiceUnavailable :: u16 where "ErrorCodeServiceUnavailable = 0x05"
definition OServiceServiceResponse :: u16 where "OServiceServiceResponse = 0x0005"
definition OServiceTLVTagsReconnectHere :: u16 where "OServiceTLVTagsReconnectHere = 0x05"
definition OServiceTLVTagsLoginCookie :: u16 where "OServiceTLVTagsLoginCookie = 0x06"
definition OServiceTLVTagsGroupID :: u16 where "OServiceTLVTagsGroupID = 0x0D"
definition OserviceTLVTagsSSLUseSSL :: u16 where "OserviceTLVTagsSSLUseSSL = 0x8C"
definition StatsSetMinReportInterval :: u16 where "StatsSetMinReportInterval = 0x0002"

lemmas oservice_consts = OServiceHostVersions_def OServiceMotd_def OServiceTLVTagsMOTDMessage_def
  OServiceRateParamsReply_def OServiceUserStatusBusy_def OServiceUserStatusDND_def OServiceUserStatusOut_def
  OServiceProbeAck_def OServiceHostOnline_def OServiceErr_def OServiceRateParamChange_def
  ErrorCodeServiceUnavailable_def OServiceServiceResponse_def OServiceTLVTagsReconnectHere_def
  OServiceTLVTagsLoginCookie_def OServiceTLVTagsGroupID_def OserviceTLVTagsSSLUseSSL_def
  StatsSetMinReportInterval_def

section \<open>Versions and food groups\<close>

text \<open>A reply whose body may be a nil interface.\<close>

type_synonym response = "SNACFrame \<times> (ty \<times> val) option"

definition bare :: "u16 \<Rightarrow> u16 \<Rightarrow> u32 \<Rightarrow> response" where
  "bare fg sg rid = (\<lparr>FoodGroup = fg, SubGroup = sg, Flags = 0, RequestID = rid\<rparr>, None)"

definition full :: "SNACMessage \<Rightarrow> response" where
  "full m = (fst m, Some (snd m))"

fun set_versions :: "u16 list \<Rightarrow> u16 list \<Rightarrow> u16 list" where
  "set_versions (fg # ver # r) vs =
     set_versions r (if fg < OService \<or> fg > MDir \<or> ver < 1 then vs else vs[unat fg := ver])"
| "set_versions _ vs = vs"

definition ClientVersions :: "inst_ref \<Rightarrow> u32 \<Rightarrow> u16 list \<Rightarrow> SNACMessage list svc" where
  "ClientVersions i rid vs =
     (if odd (length vs) then retS []
      else bindS (mod_conn i (SetFoodGroupVersions (set_versions vs (replicate (unat MDir + 1) 0)))) (\<lambda>_.
        bindS (tlvsS [tlv_str OServiceTLVTagsMOTDMessage (ascii ''Welcome to Open OSCAR Server'')]) (\<lambda>l.
          retS
            [snac OService OServiceHostVersions rid SNAC_0x01_0x18_OServiceHostVersions_ty (VStruct [VList (map VU16 vs)]),
             snac OService OServiceMotd ReqIDFromServer SNAC_0x01_0x13_OServiceMOTD_ty (VStruct [VU16 4, rest_block l])])))"

definition host_groups :: "u16 \<Rightarrow> u16 list option" where
  "host_groups service =
     (if service = Admin then Some [OService, Admin]
      else if service = ClientInfo.Alert then Some [ClientInfo.Alert, OService]
      else if service = BART then Some [BART, OService]
      else if service = BOS then Some [ClientInfo.Alert, BART, Buddy, Feedbag, ICBM, ICQ, Locate, OService, PermitDeny, UserLookup,
        Invite, Popup, Stats]
      else if service = Chat then Some [OService, Chat]
      else if service = ChatNav then Some [ChatNav, OService]
      else if service = ODir then Some [ODir, OService]
      else None)"

definition HostOnline :: "u16 \<Rightarrow> response" where
  "HostOnline service =
     (case host_groups service of
        Some gs \<Rightarrow> full (snac OService OServiceHostOnline ReqIDFromServer SNAC_0x01_0x03_OServiceHostOnline_ty
          (VStruct [VList (map VU16 gs)]))
      | None \<Rightarrow> bare OService OServiceErr 0)"

definition ProbeReq :: "u32 \<Rightarrow> response" where
  "ProbeReq rid = bare OService OServiceProbeAck rid"

section \<open>Rate limits\<close>

text \<open>\<open>RateParamsSNAC\<close>; the last two numbers are there for clients of the second version.\<close>

definition rate_params :: "RateClassState \<Rightarrow> (u32 \<times> u8) option \<Rightarrow> val" where
  "rate_params c v2 = VStruct
     [VU16 (ID (RC c)), VU32 (word_of_int (WindowSize (RC c))), VU32 (word_of_int (ClearLevel (RC c))),
      VU32 (word_of_int (AlertLevel (RC c))), VU32 (word_of_int (LimitLevel (RC c))),
      VU32 (word_of_int (DisconnectLevel (RC c))), VU32 (word_of_int (CurrentLevel c)),
      VU32 (word_of_int (MaxLevel (RC c))),
      (case v2 of None \<Rightarrow> VNil | Some (t, d) \<Rightarrow> VPtr (VStruct [VU32 t, VU8 d]))]"

text \<open>
  The code goes through a Go map, whose order is not fixed; here the SNACs come in the order of the table.
\<close>

definition rate_group :: "u16 \<Rightarrow> val" where
  "rate_group c = VStruct [VU16 c, VList (concat (map (\<lambda>(fg, sgs). map (\<lambda>(sg, _). VStruct [VU16 fg, VU16 sg])
     (filter (\<lambda>(_, c'). c' = c) sgs)) DefaultSNACRateLimits))]"

definition RateParamsQuery :: "inst_ref \<Rightarrow> u32 \<Rightarrow> SNACMessage svc" where
  "RateParamsQuery i rid =
     bindS (getS (\<lambda>W. (clock W, conn i W, rateLimitStates (sess i W)))) (\<lambda>(now, c, states).
       let v2 = (if foodGroupVersions c ! unat OService > 1 then Some (word_of_int (Unix (now - 10 ^ 9)), 0) else None) in
       retS (snac OService OServiceRateParamsReply rid SNAC_0x01_0x07_OServiceRateParamsReply_ty
         (VStruct [VList (map (\<lambda>s. rate_params s v2) states), VList (map rate_group [1, 2, 3, 4, 5])])))"

definition RateParamsSubAdd :: "inst_ref \<Rightarrow> u16 list \<Rightarrow> unit svc" where
  "RateParamsSubAdd i ids =
     (let ids' = filter (\<lambda>c. \<not> (c < 1 \<or> c > 5)) ids in
      if ids' = [] then retS ()
      else bindS (getS (sess i)) (\<lambda>s.
        bindS (liftS (SubscribeRateLimits ids' s)) (\<lambda>s'. mod_session i (\<lambda>_. s'))))"

definition buildRateLimitUpdate :: "u16 \<Rightarrow> RateClassState \<Rightarrow> SNACMessage SessionInstance \<Rightarrow> int \<Rightarrow> SNACMessage" where
  "buildRateLimitUpdate code c i now =
     (let dropping = (if CurrentStatus c = Some Limited then 1 else 0);
          v2 = (if foodGroupVersions i ! unat OService > 1
                then Some (word_of_int (max 0 (Unix now - Unix (LastTime c))), dropping) else None) in
      snac OService OServiceRateParamChange ReqIDFromServer SNAC_0x01_0x0A_OServiceRateParamsChange_ty
        (VStruct [VU16 code, rate_params c v2]))"

definition rate_code :: "RateClassState \<Rightarrow> u16 option" where
  "rate_code c =
     (case CurrentStatus c of
        Some Limited \<Rightarrow> Some 3
      | Some RateLimit.Alert \<Rightarrow> Some 2
      | Some Clear \<Rightarrow> Some 4
      | Some Disconnect \<Rightarrow> None
      | None \<Rightarrow> Some 0)"

definition tell_instances :: "nat \<Rightarrow> u16 \<Rightarrow> RateClassState \<Rightarrow> int \<Rightarrow> nat list \<Rightarrow> unit svc" where
  "tell_instances k code c now js = forS js (\<lambda>j.
     mod_conn (k, j) (\<lambda>i. snd (RelayMessageToInstance (buildRateLimitUpdate code c i now) i)))"

text \<open>What \<open>MonitorRateLimits\<close> does at each tick for session \<open>k\<close>, until the session or the server ends.\<close>

definition MonitorRateLimits :: "nat \<Rightarrow> unit svc" where
  "MonitorRateLimits k =
     bindS (getS (\<lambda>W. (clock W, sess_of (registry W) k))) (\<lambda>(now, s).
       bindS (liftS (ObserveRateChanges now s)) (\<lambda>((classDelta, stateDelta), s').
         bindS (mod_session (k, 0) (\<lambda>_. s')) (\<lambda>_.
           bindS (forS classDelta (\<lambda>c. tell_instances k 1 c now (instancesOrdered s'))) (\<lambda>_.
             forS stateDelta (\<lambda>c. case rate_code c of
               None \<Rightarrow> retS () | Some code \<Rightarrow> tell_instances k code c now (instancesOrdered s'))))))"

section \<open>The user's own status\<close>

definition val_BARTID :: "val \<Rightarrow> BARTID" where
  "val_BARTID v = \<lparr>bart_Type = vu16 (vfield 0 v), bart_Flags = vu8 (vfield 0 (vfield 1 v)),
     bart_Hash = val_bytes (vfield 1 (vfield 1 v))\<rparr>"

definition val_ICQDCInfo :: "val \<Rightarrow> ICQDCInfo" where
  "val_ICQDCInfo v = \<lparr>dc_IP = vu32 (vfield 0 v), dc_Port = vu32 (vfield 1 v), dc_DCType = vu8 (vfield 2 v),
     dc_ProtoVersion = vu16 (vfield 3 v), dc_AuthCookie = vu32 (vfield 4 v), dc_WebPort = vu32 (vfield 5 v),
     dc_ClientFutures = vu32 (vfield 6 v), dc_LastUpdateTime = vu32 (vfield 7 v),
     dc_LastExtInfoUpdateTime = vu32 (vfield 8 v), dc_LastExtStatusUpdateTime = vu32 (vfield 9 v),
     dc_Unknown = vu16 (vfield 10 v)\<rparr>"

definition unavailable_status :: u32 where
  "unavailable_status = OServiceUserStatusAway OR OServiceUserStatusBusy OR OServiceUserStatusDND OR OServiceUserStatusOut"

definition set_status :: "int \<Rightarrow> u32 \<Rightarrow> SNACMessage SessionInstance \<Rightarrow> SNACMessage SessionInstance" where
  "set_status now status i =
     SetUserStatusBitmask now status
       (if status AND unavailable_status \<noteq> 0 then SetUserInfoFlag now OServiceUserFlagUnavailable i
        else if userStatusBitmask i AND unavailable_status \<noteq> 0
        then SetAwayMessage [] (snd (ClearUserInfoFlag OServiceUserFlagUnavailable i))
        else i)"

text \<open>The status text is the first status string among the BART IDs; true if there is one.\<close>

definition set_status_text :: "inst_ref \<Rightarrow> TLVList \<Rightarrow> bool svc" where
  "set_status_text i l =
     (case TLVList_Bytes OServiceUserInfoBARTInfo l of
        None \<Rightarrow> retS False
      | Some b \<Rightarrow> bindS (liftS (fst (UnmarshalBE (TSlice BARTID_ty) b))) (\<lambda>v.
          case find (\<lambda>x. bart_Type x = BARTTypesStatusStr) (map val_BARTID (vlist v)) of
            None \<Rightarrow> retS False
          | Some x \<Rightarrow> bindS (mod_session i (SetStatus x)) (\<lambda>_. retS True)))"

definition set_direct_connection :: "inst_ref \<Rightarrow> TLVList \<Rightarrow> unit svc" where
  "set_direct_connection i l =
     (case TLVList_Bytes OServiceUserInfoICQDC l of
        None \<Rightarrow> retS ()
      | Some b \<Rightarrow> bindS (liftS (fst (UnmarshalBE ICQDCInfo_ty b))) (\<lambda>v. mod_conn i (SetICQDCInfo (val_ICQDCInfo v))))"

definition announce_self :: "inst_ref \<Rightarrow> unit svc" where
  "announce_self i = bindS (me i) (\<lambda>n. bindS (user_info_of (fst i)) (\<lambda>info. BroadcastBuddyArrived n info))"

definition announce_status :: "inst_ref \<Rightarrow> unit svc" where
  "announce_status i =
     bindS (getS (\<lambda>W. Invisible (sess i W))) (\<lambda>invisible.
       if invisible then bindS (me i) BroadcastBuddyDeparted else announce_self i)"

definition SetUserInfoFields :: "inst_ref \<Rightarrow> TLVList \<Rightarrow> unit svc" where
  "SetUserInfoFields i l =
     bindS (liftS (TLVList_Uint32BE OServiceUserInfoStatus l)) (\<lambda>(status, hasStatus).
       bindS (getS clock) (\<lambda>now.
         bindS (whenS hasStatus (mod_conn i (set_status now status))) (\<lambda>_.
           bindS (set_status_text i l) (\<lambda>statusMsgChanged.
             bindS (set_direct_connection i l) (\<lambda>_.
               bindS (whenS (hasStatus \<or> statusMsgChanged) (announce_status i)) (\<lambda>_.
                 if statusMsgChanged then sendUserInfoUpdateToAll i else sendUserInfoUpdate i))))))"

definition IdleNotification :: "inst_ref \<Rightarrow> u32 \<Rightarrow> unit svc" where
  "IdleNotification i idle_time =
     bindS (getS clock) (\<lambda>now.
       bindS (mod_conn i (if idle_time = 0 then UnsetIdle else SetIdle now (uint idle_time * 10 ^ 9))) (\<lambda>_.
         announce_self i))"

section \<open>Cookies for the other services\<close>

definition issue_cookie :: "ServerCookie \<Rightarrow> bytes svc" where
  "issue_cookie c =
     bindS (liftS (case MarshalBE (Some (ServerCookie_ty, ServerCookie_val c)) of (b, x) \<Rightarrow> bind_out x (\<lambda>_. Ok b))) (\<lambda>b W.
       bind_out (Issue (mac_of (ext W)) (cookie_secret (ext W)) (clock W) b DefaultCookieTTL) (\<lambda>x.
         Ok (map_sum CookieErr id x, W)))"

definition blank_cookie :: ServerCookie where
  "blank_cookie = \<lparr>sc_Service = 0, sc_ScreenName = [], sc_ClientID = [], sc_ChatCookie = [], sc_MultiConnFlag = 0,
     sc_KerberosAuth = 0, sc_SessionNum = 0, sc_TokenTTL = 0\<rparr>"

definition chat_cookie_for :: "inst_ref \<Rightarrow> TLVList \<Rightarrow> bytes svc" where
  "chat_cookie_for i l =
     (case TLVList_Bytes 1 l of
        None \<Rightarrow> failS (BadRequest ''missing room info'')
      | Some roomMeta \<Rightarrow>
          bindS (liftS (fst (UnmarshalBE SNAC_0x01_0x04_TLVRoomInfo_ty roomMeta))) (\<lambda>v.
            bindS (getS unicode) (\<lambda>t.
              bindS (db_find (ChatRoomByCookie t (vstring (vfield 1 v)))) (\<lambda>rm.
                bindS (getS (\<lambda>W. (sess i W, conn i W))) (\<lambda>(s, c).
                  issue_cookie (blank_cookie\<lparr>sc_Service := Chat, sc_ChatCookie := Cookie rm,
                    sc_ScreenName := displayScreenName s, sc_SessionNum := instanceNum c\<rparr>))))))"

definition linked_cookie_for :: "inst_ref \<Rightarrow> TLVList \<Rightarrow> bytes svc" where
  "linked_cookie_for i l =
     (if TLVList_Bytes 0x28 l = None then failS (BadRequest ''unknown OService request'')
      else case TLVList_Bytes 1 l of
        None \<Rightarrow> failS (BadRequest ''new session request missing linked screenname TLV 0x01'')
      | Some sn \<Rightarrow>
          bindS (ident sn) (\<lambda>linked.
            bindS (me i) (\<lambda>my_name.
              bindS (get_feedbag my_name) (\<lambda>its.
                bindS (getS unicode) (\<lambda>t.
                  if \<not> HasLinkedScreenName (screenName linked) (NewFeedbagList its (\<lambda>_. 0) t)
                  then failS (BadRequest ''linked account session requested but accounts are not linked'')
                  else bindS (getS (conn i)) (\<lambda>c.
                    issue_cookie (blank_cookie\<lparr>sc_Service := BOS, sc_ScreenName := sn,
                      sc_MultiConnFlag := inst_multiConnFlag c\<rparr>)))))))"

definition service_cookie :: "inst_ref \<Rightarrow> u16 \<Rightarrow> TLVList \<Rightarrow> bytes option svc" where
  "service_cookie i fg l =
     (if fg \<in> {Admin, ClientInfo.Alert, BART, ChatNav, ODir} then
        bindS (getS (\<lambda>W. (sess i W, conn i W))) (\<lambda>(s, c).
          bindS (issue_cookie (blank_cookie\<lparr>sc_Service := fg, sc_ScreenName := displayScreenName s, sc_SessionNum := instanceNum c\<rparr>))
            (\<lambda>b. retS (Some b)))
      else if fg = Chat then bindS (chat_cookie_for i l) (\<lambda>b. retS (Some b))
      else if fg = OService then bindS (linked_cookie_for i l) (\<lambda>b. retS (Some b))
      else retS None)"

text \<open>\<open>host\<close> and \<open>ssl\<close> are the advertised hosts of the listener, \<open>ssl\<close> empty if it has none.\<close>

definition service_error_reply :: "u32 \<Rightarrow> u16 \<Rightarrow> SNACMessage" where
  "service_error_reply rid code = snac OService OServiceErr rid SNACError_ty (VStruct [VU16 code, rest_block []])"

definition ServiceRequest :: "u16 \<Rightarrow> inst_ref \<Rightarrow> u32 \<Rightarrow> u16 \<Rightarrow> TLVList \<Rightarrow> bytes \<Rightarrow> bytes \<Rightarrow> SNACMessage svc" where
  "ServiceRequest service i rid fg l host ssl =
     (if service \<noteq> BOS then retS (service_error_reply rid ErrorCodeNotSupportedByHost)
      else bindS (service_cookie i fg l) (\<lambda>cookie.
        case cookie of
          None \<Rightarrow> retS (service_error_reply rid ErrorCodeServiceUnavailable)
        | Some b \<Rightarrow>
            let use_ssl = TLVList_HasTag OserviceTLVTagsSSLUseSSL l \<and> ssl \<noteq> [] in
            bindS (tlvsS
              [tlv16 OServiceTLVTagsGroupID fg,
               tlv_str OServiceTLVTagsReconnectHere (if use_ssl then ssl else host),
               tlv_raw OServiceTLVTagsLoginCookie b,
               tlv8 OServiceTLVTagsSSLState
                 (if use_ssl then OServiceServiceResponseSSLStateResume else OServiceServiceResponseSSLStateNotUsed)]) (\<lambda>ts.
              retS (snac OService OServiceServiceResponse rid SNAC_0x01_0x05_OServiceServiceResponse_ty (VStruct [rest_block ts])))))"

section \<open>Ready\<close>

definition systemMessage :: "bytes \<Rightarrow> SNACMessage svc" where
  "systemMessage msg =
     bindS (liftS (ICBMFragmentList msg)) (\<lambda>frags.
       bindS (tlvsS [NewTLVBE ICBMTLVAOLIMData (TSlice ICBMCh1Fragment_ty, VList frags)]) (\<lambda>l.
         retS (msg_to_client 0 ICBMChannelIM
           \<lparr>ui_ScreenName = ascii ''OOS System Msg'', ui_WarningLevel = 0, ui_TLVList = []\<rparr> l)))"

definition signed_string :: "int \<Rightarrow> bytes" where
  "signed_string n = (if n < 0 then 0x2D # decimal_string (nat (- n)) else decimal_string (nat n))"

definition settings_link :: bytes where
  "settings_link = ascii ''<a href=\"https://www.youtube.com/watch?v=dQw4w9WgXcQ&list=RDdQw4w9WgXcQ&start_radio=1&pp=ygUJcmljayByb2xsoAcB\">''"

definition sendOfflineMessageNotification :: "inst_ref \<Rightarrow> unit svc" where
  "sendOfflineMessageNotification i =
     bindS (me i) (\<lambda>my_name.
       bindS (db_exec (SetOfflineMsgCount my_name 0)) (\<lambda>_.
         bindS (getS (\<lambda>W. offlineMsgCount (sess i W))) (\<lambda>n.
           bindS (systemMessage (ascii ''You just received '' @ signed_string n @
               ascii '' IM(s) while you were offline. If you do not wish to receive offline messages, please go to '' @
               settings_link @ ascii ''IM Settings</a>.'')) (\<lambda>m.
             bindS (relay_user my_name m) (\<lambda>_. mod_session i (sess_SetOfflineMsgCount 0))))))"

definition sendMultipleInstanceNotification :: "inst_ref \<Rightarrow> unit svc" where
  "sendMultipleInstanceNotification i =
     bindS (getS (sess i)) (\<lambda>s.
       bindS (systemMessage (ascii ''Your screen name ('' @ displayScreenName s @
           ascii '') is now signed into Open OSCAR Server in '' @ decimal_string (InstanceCount s) @ ascii '' locations. Click '' @
           settings_link @ ascii ''here</a> for more information.'')) (relay_others i))"

text \<open>The profile kept by the server, for clients that signed on through Kerberos.\<close>

definition load_profile :: "inst_ref \<Rightarrow> unit svc" where
  "load_profile i =
     bindS (me i) (\<lambda>my_name.
       bindS (db_get (store_Profile my_name)) (\<lambda>p.
         whenS (UpdateTime p \<noteq> None) (bindS (mod_conn i (inst_SetProfile p)) (\<lambda>_. sendUserInfoUpdate i))))"

definition bos_online :: "inst_ref \<Rightarrow> unit svc" where
  "bos_online i =
     bindS (getS (conn i)) (\<lambda>c.
       bindS (whenS (contactsInit c) (BroadcastVisibility i [] False)) (\<lambda>_.
         bindS (me i) (\<lambda>my_name.
           bindS (relay_user my_name (snac Stats StatsSetMinReportInterval ReqIDFromServer
               SNAC_0x0B_0x02_StatsSetMinReportInterval_ty (VStruct [VU16 1]))) (\<lambda>_.
             bindS (whenS (kerberosAuth c) (load_profile i)) (\<lambda>_.
               bindS (getS (sess i)) (\<lambda>s.
                 bindS (whenS (sess_uin s = 0 \<and> offlineMsgCount s > 0) (sendOfflineMessageNotification i)) (\<lambda>_.
                   bindS (getS (\<lambda>W. \<not> DisableMultiLoginNotif (ext W) \<and> InstanceCount (sess i W) > 1)) (\<lambda>several.
                     whenS several (sendMultipleInstanceNotification i)))))))))"

text \<open>\<open>ClientOnline\<close> for a connection to the service \<open>service\<close>, and for one to a chat room.\<close>

definition ClientOnline :: "u16 \<Rightarrow> inst_ref \<Rightarrow> unit svc" where
  "ClientOnline service i =
     bindS (mod_conn i SetSignonComplete) (\<lambda>_. if service = BOS then bos_online i else retS ())"

definition ClientOnline_chat :: "chat_ref \<Rightarrow> nat \<Rightarrow> unit svc" where
  "ClientOnline_chat s j =
     bindS (modS (\<lambda>W. W\<lparr>chats := set_mgr (fst s) (upd_sess (snd s) (upd_inst j SetSignonComplete) (chat_mgr (chats W) (fst s))) (chats W)\<rparr>)) (\<lambda>_.
       bindS (getS (\<lambda>W. (unicode W, cookies (chats W) s))) (\<lambda>(t, cookie).
         bindS (db_find (ChatRoomByCookie t cookie)) (\<lambda>rm.
           bindS (setOnlineChatUsers s) (\<lambda>_.
             bindS (sendChatRoomInfoUpdate s rm) (\<lambda>_. alertUserJoined s)))))"

end
