(* ===== verification/AdminService.thy ===== *)
theory AdminService
  imports OService
begin

text \<open>
  Account administration by the user (\<open>foodgroup/admin.go\<close>): confirmation, the format of the screen name, the
  e-mail address, the registration status and the password.
\<close>

section \<open>Numbers\<close>

definition AdminErr :: u16 where "AdminErr = 0x0001"
definition AdminInfoReply :: u16 where "AdminInfoReply = 0x0003"
definition AdminInfoChangeReply :: u16 where "AdminInfoChangeReply = 0x0005"
definition AdminAcctConfirmReply :: u16 where "AdminAcctConfirmReply = 0x0007"
definition AdminInfoErrorValidateNickName :: u16 where "AdminInfoErrorValidateNickName = 0x0001"
definition AdminInfoErrorValidatePassword :: u16 where "AdminInfoErrorValidatePassword = 0x0002"
definition AdminInfoErrorInvalidNickName :: u16 where "AdminInfoErrorInvalidNickName = 0x0006"
definition AdminInfoErrorInvalidEmail :: u16 where "AdminInfoErrorInvalidEmail = 0x0008"
definition AdminInfoErrorInvalidRegistrationPreference :: u16 where "AdminInfoErrorInvalidRegistrationPreference = 0x0009"
definition AdminInfoErrorInvalidNickNameLength :: u16 where "AdminInfoErrorInvalidNickNameLength = 0x000B"
definition AdminInfoErrorInvalidPasswordLength :: u16 where "AdminInfoErrorInvalidPasswordLength = 0x000C"
definition AdminInfoErrorInvalidEmailLength :: u16 where "AdminInfoErrorInvalidEmailLength = 0x000D"
definition AdminInfoErrorNeedOldPassword :: u16 where "AdminInfoErrorNeedOldPassword = 0x000F"
definition AdminInfoErrorAllOtherErrors :: u16 where "AdminInfoErrorAllOtherErrors = 0x0013"
definition AdminInfoRegStatusNoDisclosure :: u16 where "AdminInfoRegStatusNoDisclosure = 0x01"
definition AdminInfoRegStatusLimitDisclosure :: u16 where "AdminInfoRegStatusLimitDisclosure = 0x02"
definition AdminInfoRegStatusFullDisclosure :: u16 where "AdminInfoRegStatusFullDisclosure = 0x03"
definition AdminInfoPermissionsReadWrite :: u16 where "AdminInfoPermissionsReadWrite = 0x03"
definition AdminAcctConfirmStatusEmailSent :: u16 where "AdminAcctConfirmStatusEmailSent = 0x00"
definition AdminAcctConfirmStatusAlreadyConfirmed :: u16 where "AdminAcctConfirmStatusAlreadyConfirmed = 0x1E"
definition AdminAcctConfirmStatusServerError :: u16 where "AdminAcctConfirmStatusServerError = 0x23"
definition AdminTLVScreenNameFormatted :: u16 where "AdminTLVScreenNameFormatted = 0x01"
definition AdminTLVNewPassword :: u16 where "AdminTLVNewPassword = 0x02"
definition AdminTLVUrl :: u16 where "AdminTLVUrl = 0x04"
definition AdminTLVErrorCode :: u16 where "AdminTLVErrorCode = 0x08"
definition AdminTLVEmailAddress :: u16 where "AdminTLVEmailAddress = 0x11"
definition AdminTLVOldPassword :: u16 where "AdminTLVOldPassword = 0x12"
definition AdminTLVRegistrationStatus :: u16 where "AdminTLVRegistrationStatus = 0x13"
definition OServiceUserFlagUnconfirmed :: u16 where "OServiceUserFlagUnconfirmed = 0x0001"

lemmas adminservice_consts = AdminErr_def AdminInfoReply_def AdminInfoChangeReply_def
  AdminAcctConfirmReply_def AdminInfoErrorValidateNickName_def AdminInfoErrorValidatePassword_def
  AdminInfoErrorInvalidNickName_def AdminInfoErrorInvalidEmail_def
  AdminInfoErrorInvalidRegistrationPreference_def AdminInfoErrorInvalidNickNameLength_def
  AdminInfoErrorInvalidPasswordLength_def AdminInfoErrorInvalidEmailLength_def AdminInfoErrorNeedOldPassword_def
  AdminInfoErrorAllOtherErrors_def AdminInfoRegStatusNoDisclosure_def AdminInfoRegStatusLimitDisclosure_def
  AdminInfoRegStatusFullDisclosure_def AdminInfoPermissionsReadWrite_def AdminAcctConfirmStatusEmailSent_def
  AdminAcctConfirmStatusAlreadyConfirmed_def AdminAcctConfirmStatusServerError_def
  AdminTLVScreenNameFormatted_def AdminTLVNewPassword_def AdminTLVUrl_def AdminTLVErrorCode_def
  AdminTLVEmailAddress_def AdminTLVOldPassword_def AdminTLVRegistrationStatus_def
  OServiceUserFlagUnconfirmed_def

section \<open>Confirmation\<close>

definition getAdminConfirmReply :: "u32 \<Rightarrow> u16 \<Rightarrow> SNACMessage" where
  "getAdminConfirmReply rid status = snac Admin AdminAcctConfirmReply rid SNAC_0x07_0x07_AdminConfirmReply_ty
     (VStruct [VU16 status, VStruct [VU16 0, vbytes []]])"

definition my_email :: "inst_ref \<Rightarrow> bytes svc" where
  "my_email i = bindS (me i) (\<lambda>n. bindS (getS ext) (\<lambda>x. db_find (store_EmailAddress (mail_of x) n)))"

definition ConfirmRequest :: "inst_ref \<Rightarrow> u32 \<Rightarrow> SNACMessage svc" where
  "ConfirmRequest i rid =
     bindS (tryS (my_email i)) (\<lambda>email.
       case email of
         Inl err \<Rightarrow> if err = StoreErr ErrNoEmailAddress then retS (getAdminConfirmReply rid AdminAcctConfirmStatusServerError)
                    else failS err
       | Inr _ \<Rightarrow>
           bindS (me i) (\<lambda>n.
             bindS (db_get (store_ConfirmStatus n)) (\<lambda>confirmed.
               if confirmed then retS (getAdminConfirmReply rid AdminAcctConfirmStatusAlreadyConfirmed)
               else
                 bindS (db_set (UpdateConfirmStatus n True)) (\<lambda>_.
                   bindS (mod_conn i (\<lambda>c. snd (ClearUserInfoFlag OServiceUserFlagUnconfirmed c))) (\<lambda>_.
                     bindS (announce_self i) (\<lambda>_.
                       retS (getAdminConfirmReply rid AdminAcctConfirmStatusEmailSent)))))))"

section \<open>Queries\<close>

definition getAdminInfoReply :: "u32 \<Rightarrow> TLV outcome list \<Rightarrow> SNACMessage svc" where
  "getAdminInfoReply rid ts = bindS (tlvsS ts) (\<lambda>l.
     retS (snac Admin AdminInfoReply rid SNAC_0x07_0x03_AdminInfoReply_ty
       (VStruct [VU16 AdminInfoPermissionsReadWrite, VStruct [tlvs_val l]])))"

definition admin_error :: "u32 \<Rightarrow> SNACMessage" where
  "admin_error rid = snac Admin AdminErr rid SNACError_ty (VStruct [VU16 ErrorCodeNotSupportedByHost, rest_block []])"

definition admin_InfoQuery :: "inst_ref \<Rightarrow> u32 \<Rightarrow> TLVList \<Rightarrow> SNACMessage svc" where
  "admin_InfoQuery i rid body =
     (if TLVList_Bytes AdminTLVRegistrationStatus body \<noteq> None then
        bindS (me i) (\<lambda>n. bindS (db_get (store_RegStatus n)) (\<lambda>st.
          getAdminInfoReply rid [tlv16 AdminTLVRegistrationStatus st]))
      else if TLVList_Bytes AdminTLVEmailAddress body \<noteq> None then
        bindS (tryS (my_email i)) (\<lambda>email.
          case email of
            Inl err \<Rightarrow> if err = StoreErr ErrNoEmailAddress then getAdminInfoReply rid [tlv_str AdminTLVEmailAddress []]
                       else failS err
          | Inr e \<Rightarrow> getAdminInfoReply rid [tlv_str AdminTLVEmailAddress e])
      else if TLVList_Bytes AdminTLVScreenNameFormatted body \<noteq> None then
        bindS (getS (\<lambda>W. displayScreenName (sess i W))) (\<lambda>d.
          getAdminInfoReply rid [tlv_str AdminTLVScreenNameFormatted d])
      else retS (admin_error rid))"

section \<open>Changes\<close>

definition getAdminChangeReply :: "u32 \<Rightarrow> TLV outcome list \<Rightarrow> SNACMessage svc" where
  "getAdminChangeReply rid ts = bindS (tlvsS ts) (\<lambda>l.
     retS (snac Admin AdminInfoChangeReply rid SNAC_0x07_0x05_AdminChangeReply_ty
       (VStruct [VU16 AdminInfoPermissionsReadWrite, VStruct [tlvs_val l]])))"

definition refuse_change :: "u32 \<Rightarrow> u16 \<Rightarrow> SNACMessage svc" where
  "refuse_change rid code = getAdminChangeReply rid [tlv16 AdminTLVErrorCode code, tlv_str AdminTLVUrl []]"

definition validateProposedName :: "unicode_tables \<Rightarrow> IdentScreenName \<Rightarrow> bytes \<Rightarrow> u16 option" where
  "validateProposedName t mine name =
     (case ValidateAIMHandle t name of
        Some ErrAIMHandleLength \<Rightarrow> Some AdminInfoErrorInvalidNickNameLength
      | Some ErrAIMHandleInvalidFormat \<Rightarrow> Some AdminInfoErrorInvalidNickName
      | _ \<Rightarrow> if NewIdentScreenName t name \<noteq> mine then Some AdminInfoErrorValidateNickName else None)"

definition change_name :: "inst_ref \<Rightarrow> u32 \<Rightarrow> bytes \<Rightarrow> SNACMessage svc" where
  "change_name i rid name =
     bindS (me i) (\<lambda>n. bindS (getS unicode) (\<lambda>t.
       case validateProposedName t n name of
         Some code \<Rightarrow> refuse_change rid code
       | None \<Rightarrow>
           bindS (db_set (UpdateDisplayScreenName t name)) (\<lambda>_.
             bindS (mod_session i (displayScreenName_update (\<lambda>_. name))) (\<lambda>_.
               bindS (announce_self i) (\<lambda>_.
                 bindS (sendUserInfoUpdate i) (\<lambda>_.
                   getAdminChangeReply rid [tlv_str AdminTLVScreenNameFormatted name]))))))"

definition validateProposedEmailAddress :: "(bytes \<Rightarrow> bytes option) \<Rightarrow> bytes \<Rightarrow> u16 + bytes" where
  "validateProposedEmailAddress parse email =
     (case parse email of
        None \<Rightarrow> Inl AdminInfoErrorInvalidEmail
      | Some e \<Rightarrow> if length e > 320 then Inl AdminInfoErrorInvalidEmailLength else Inr e)"

definition change_email :: "inst_ref \<Rightarrow> u32 \<Rightarrow> bytes \<Rightarrow> SNACMessage svc" where
  "change_email i rid email =
     bindS (getS ext) (\<lambda>x.
       case validateProposedEmailAddress (mail_of x) email of
         Inl code \<Rightarrow> refuse_change rid code
       | Inr e \<Rightarrow>
           bindS (me i) (\<lambda>n. bindS (db_set (UpdateEmailAddress n e)) (\<lambda>_.
             getAdminChangeReply rid [tlv_str AdminTLVEmailAddress e])))"

definition change_reg_status :: "inst_ref \<Rightarrow> u32 \<Rightarrow> u16 \<Rightarrow> SNACMessage svc" where
  "change_reg_status i rid st =
     (if st = AdminInfoRegStatusFullDisclosure \<or> st = AdminInfoRegStatusLimitDisclosure \<or> st = AdminInfoRegStatusNoDisclosure then
        bindS (me i) (\<lambda>n. bindS (db_set (UpdateRegStatus n st)) (\<lambda>_.
          getAdminChangeReply rid [tlv16 AdminTLVRegistrationStatus st]))
      else refuse_change rid AdminInfoErrorInvalidRegistrationPreference)"

definition password_reply :: "u32 \<Rightarrow> u16 option \<Rightarrow> SNACMessage svc" where
  "password_reply rid code = getAdminChangeReply rid (tlv_raw AdminTLVNewPassword [] #
     (case code of None \<Rightarrow> [] | Some c \<Rightarrow> [tlv16 AdminTLVErrorCode c]))"

definition change_password :: "inst_ref \<Rightarrow> u32 \<Rightarrow> bytes \<Rightarrow> TLVList \<Rightarrow> SNACMessage svc" where
  "change_password i rid newPass body =
     (case TLVList_String AdminTLVOldPassword body of
        (_, False) \<Rightarrow> password_reply rid (Some AdminInfoErrorNeedOldPassword)
      | (oldPass, True) \<Rightarrow>
          bindS (me i) (\<lambda>n. bindS (getS (\<lambda>W. (unicode W, md5_of (ext W)))) (\<lambda>(t, hash).
            bindS (tryS (db_get (store_User t n))) (\<lambda>found.
              case found of
                Inr (Some u) \<Rightarrow>
                  if \<not> ValidateHash (StrongMD5PasswordHash hash oldPass (AuthKey u)) u
                  then password_reply rid (Some AdminInfoErrorValidatePassword)
                  else bindS (tryS (db_exec (SetUserPassword hash n newPass))) (\<lambda>done.
                    password_reply rid
                      (case done of
                         Inr _ \<Rightarrow> None
                       | Inl err \<Rightarrow> Some (if err = StoreErr (StoreUser ErrPasswordInvalid)
                           then AdminInfoErrorInvalidPasswordLength else AdminInfoErrorAllOtherErrors)))
              | _ \<Rightarrow> password_reply rid (Some AdminInfoErrorAllOtherErrors)))))"

definition InfoChangeRequest :: "inst_ref \<Rightarrow> u32 \<Rightarrow> TLVList \<Rightarrow> SNACMessage svc" where
  "InfoChangeRequest i rid body =
     (case TLVList_Bytes AdminTLVScreenNameFormatted body of
        Some name \<Rightarrow> change_name i rid name
      | None \<Rightarrow>
     (case TLVList_Bytes AdminTLVEmailAddress body of
        Some email \<Rightarrow> change_email i rid email
      | None \<Rightarrow>
          bindS (liftS (TLVList_Uint16BE AdminTLVRegistrationStatus body)) (\<lambda>(st, hasRegStatus).
            if hasRegStatus then change_reg_status i rid st
            else case TLVList_String AdminTLVNewPassword body of
              (newPass, True) \<Rightarrow> change_password i rid newPass body
            | (_, False) \<Rightarrow> retS (admin_error rid))))"

end
