(* ===== verification/LocateService.thy ===== *)
theory LocateService
  imports OService
begin

text \<open>
  Profiles, away messages and capabilities (\<open>foodgroup/locate.go\<close>), the user directory
  (\<open>foodgroup/odir.go\<close>) and icons (\<open>foodgroup/bart.go\<close>).
\<close>

unbundle bit_operations_syntax

section \<open>Numbers\<close>

definition LocateErr :: u16 where "LocateErr = 0x0001"
definition LocateRightsReply :: u16 where "LocateRightsReply = 0x0003"
definition LocateUserInfoReply :: u16 where "LocateUserInfoReply = 0x0006"
definition LocateSetDirReply :: u16 where "LocateSetDirReply = 0x000A"
definition LocateGetDirReply :: u16 where "LocateGetDirReply = 0x000C"
definition LocateSetKeywordReply :: u16 where "LocateSetKeywordReply = 0x0010"
definition LocateTLVTagsRightsMaxSigLen :: u16 where "LocateTLVTagsRightsMaxSigLen = 0x01"
definition LocateTLVTagsRightsMaxCapabilitiesLen :: u16 where "LocateTLVTagsRightsMaxCapabilitiesLen = 0x02"
definition LocateTLVTagsRightsMaxFindByEmailList :: u16 where "LocateTLVTagsRightsMaxFindByEmailList = 0x03"
definition LocateTLVTagsRightsMaxCertsLen :: u16 where "LocateTLVTagsRightsMaxCertsLen = 0x04"
definition LocateTLVTagsRightsMaxMaxShortCapabilities :: u16 where "LocateTLVTagsRightsMaxMaxShortCapabilities = 0x05"
definition LocateTLVTagsInfoSigMime :: u16 where "LocateTLVTagsInfoSigMime = 0x01"
definition LocateTLVTagsInfoSigData :: u16 where "LocateTLVTagsInfoSigData = 0x02"
definition LocateTLVTagsInfoUnavailableMime :: u16 where "LocateTLVTagsInfoUnavailableMime = 0x03"
definition LocateTLVTagsInfoUnavailableData :: u16 where "LocateTLVTagsInfoUnavailableData = 0x04"
definition LocateTLVTagsInfoCapabilities :: u16 where "LocateTLVTagsInfoCapabilities = 0x05"
definition LocateTLVTagsInfoSupportHostSig :: u16 where "LocateTLVTagsInfoSupportHostSig = 0x0C"
definition LocateGetDirReplyOK :: u16 where "LocateGetDirReplyOK = 0x01"
definition ODirTLVFirstName :: u16 where "ODirTLVFirstName = 0x0001"
definition ODirTLVLastName :: u16 where "ODirTLVLastName = 0x0002"
definition ODirTLVMiddleName :: u16 where "ODirTLVMiddleName = 0x0003"
definition ODirTLVMaidenName :: u16 where "ODirTLVMaidenName = 0x0004"
definition ODirTLVEmailAddress :: u16 where "ODirTLVEmailAddress = 0x0005"
definition ODirTLVCountry :: u16 where "ODirTLVCountry = 0x0006"
definition ODirTLVState :: u16 where "ODirTLVState = 0x0007"
definition ODirTLVCity :: u16 where "ODirTLVCity = 0x0008"
definition ODirTLVScreenName :: u16 where "ODirTLVScreenName = 0x0009"
definition ODirTLVInterest :: u16 where "ODirTLVInterest = 0x000b"
definition ODirTLVNickName :: u16 where "ODirTLVNickName = 0x000c"
definition ODirTLVZIP :: u16 where "ODirTLVZIP = 0x000d"
definition ODirTLVAddress :: u16 where "ODirTLVAddress = 0x0021"
definition ODirInfoReply :: u16 where "ODirInfoReply = 0x0003"
definition ODirKeywordListReply :: u16 where "ODirKeywordListReply = 0x0005"
definition ODirSearchResponseNameMissing :: u16 where "ODirSearchResponseNameMissing = 0x04"
definition ODirSearchResponseOK :: u16 where "ODirSearchResponseOK = 0x05"
definition BARTUploadReply :: u16 where "BARTUploadReply = 0x0003"
definition BARTDownloadReply :: u16 where "BARTDownloadReply = 0x0005"
definition BARTDownload2Reply :: u16 where "BARTDownload2Reply = 0x0007"
definition BARTReplyCodesSuccess :: u8 where "BARTReplyCodesSuccess = 0x00"

lemmas locateservice_consts = LocateErr_def LocateRightsReply_def LocateUserInfoReply_def
  LocateSetDirReply_def LocateGetDirReply_def LocateSetKeywordReply_def LocateTLVTagsRightsMaxSigLen_def
  LocateTLVTagsRightsMaxCapabilitiesLen_def LocateTLVTagsRightsMaxFindByEmailList_def
  LocateTLVTagsRightsMaxCertsLen_def LocateTLVTagsRightsMaxMaxShortCapabilities_def LocateTLVTagsInfoSigMime_def
  LocateTLVTagsInfoSigData_def LocateTLVTagsInfoUnavailableMime_def LocateTLVTagsInfoUnavailableData_def
  LocateTLVTagsInfoCapabilities_def LocateTLVTagsInfoSupportHostSig_def LocateGetDirReplyOK_def
  ODirTLVFirstName_def ODirTLVLastName_def ODirTLVMiddleName_def ODirTLVMaidenName_def ODirTLVEmailAddress_def
  ODirTLVCountry_def ODirTLVState_def ODirTLVCity_def ODirTLVScreenName_def ODirTLVInterest_def
  ODirTLVNickName_def ODirTLVZIP_def ODirTLVAddress_def ODirInfoReply_def ODirKeywordListReply_def
  ODirSearchResponseNameMissing_def ODirSearchResponseOK_def BARTUploadReply_def BARTDownloadReply_def
  BARTDownload2Reply_def BARTReplyCodesSuccess_def

text \<open>Capabilities the server does not support.\<close>

definition CapGames :: bytes where
  "CapGames = [0x09, 0x46, 0x13, 0x4A, 0x4C, 0x7F, 0x11, 0xD1, 0x82, 0x22, 0x44, 0x45, 0x53, 0x54, 0x00, 0x00]"
definition CapSupportICQ :: bytes where
  "CapSupportICQ = [0x09, 0x46, 0x13, 0x4D, 0x4C, 0x7F, 0x11, 0xD1, 0x82, 0x22, 0x44, 0x45, 0x53, 0x54, 0x00, 0x00]"
definition CapVoiceChat :: bytes where
  "CapVoiceChat = [0x09, 0x46, 0x13, 0x41, 0x4C, 0x7F, 0x11, 0xD1, 0x82, 0x22, 0x44, 0x45, 0x53, 0x54, 0x00, 0x00]"
definition omitCaps :: "bytes list" where
  "omitCaps = [CapGames, CapSupportICQ, CapVoiceChat]"

section \<open>Profiles\<close>

definition locate_RightsQuery :: "u32 \<Rightarrow> SNACMessage svc" where
  "locate_RightsQuery rid =
     bindS (tlvsS [tlv16 LocateTLVTagsRightsMaxSigLen 1000, tlv16 LocateTLVTagsRightsMaxCapabilitiesLen 1000,
       tlv16 LocateTLVTagsRightsMaxFindByEmailList 1000, tlv16 LocateTLVTagsRightsMaxCertsLen 1000,
       tlv16 LocateTLVTagsRightsMaxMaxShortCapabilities 1000]) (\<lambda>l.
     retS (snac Locate LocateRightsReply rid SNAC_0x02_0x03_LocateRightsReply_ty (VStruct [rest_block l])))"

definition share_profile :: "inst_ref \<Rightarrow> UserProfile \<Rightarrow> unit svc" where
  "share_profile i p =
     bindS (getS (\<lambda>W. instancesOrdered (sess i W))) (\<lambda>js.
       forS js (\<lambda>j. mod_conn (fst i, j) (\<lambda>c. if kerberosAuth c then inst_SetProfile p c else c)))"

definition set_profile :: "inst_ref \<Rightarrow> TLVList \<Rightarrow> unit svc" where
  "set_profile i l =
     (case TLVList_String LocateTLVTagsInfoSigData l of
        (_, False) \<Rightarrow> retS ()
      | (txt, True) \<Rightarrow>
          bindS (getS (\<lambda>W. (clock W, conn i W))) (\<lambda>(now, c).
            let p = \<lparr>ProfileText = txt, MIMEType = fst (TLVList_String LocateTLVTagsInfoSigMime l), UpdateTime = Some now\<rparr> in
            if kerberosAuth c \<or> TLVList_HasTag LocateTLVTagsInfoSupportHostSig l then
              bindS (me i) (\<lambda>my_name.
                bindS (db_set (SetProfile my_name p)) (\<lambda>_.
                  bindS (share_profile i p) (\<lambda>_. sendUserInfoUpdateToAll i)))
            else mod_conn i (inst_SetProfile p)))"

definition announce_if_ready :: "inst_ref \<Rightarrow> unit svc" where
  "announce_if_ready i = bindS (getS (conn i)) (\<lambda>c. whenS (signonComplete c) (announce_self i))"

definition set_away :: "inst_ref \<Rightarrow> TLVList \<Rightarrow> unit svc" where
  "set_away i l =
     (case TLVList_String LocateTLVTagsInfoUnavailableData l of
        (_, False) \<Rightarrow> retS ()
      | (msg, True) \<Rightarrow>
          bindS (getS clock) (\<lambda>now.
            bindS (mod_conn i (\<lambda>c. SetAwayMessage msg
                (if msg \<noteq> [] then SetUserInfoFlag now OServiceUserFlagUnavailable c
                 else snd (ClearUserInfoFlag OServiceUserFlagUnavailable c)))) (\<lambda>_.
              announce_if_ready i)))"

fun split16 :: "nat \<Rightarrow> bytes \<Rightarrow> bytes list" where
  "split16 0 b = []"
| "split16 (Suc n) b = take 16 b # split16 n (drop 16 b)"

definition set_caps :: "inst_ref \<Rightarrow> TLVList \<Rightarrow> unit svc" where
  "set_caps i l =
     (case TLVList_Bytes LocateTLVTagsInfoCapabilities l of
        None \<Rightarrow> retS ()
      | Some b \<Rightarrow>
          if length b mod 16 \<noteq> 0 then failS (BadRequest ''capability list must be array of 16-byte values'')
          else bindS (getS (conn i)) (\<lambda>c.
            let c' = SetCaps (filter (\<lambda>x. x \<notin> set omitCaps) (split16 (length b div 16) b)) c in
            bindS (mod_conn i (\<lambda>_. c')) (\<lambda>_.
              bindS (announce_if_ready i) (\<lambda>_.
                whenS (signonComplete c \<and> inst_Mood c \<noteq> inst_Mood c') (sendUserInfoUpdateToAll i)))))"

definition SetInfo :: "inst_ref \<Rightarrow> TLVList \<Rightarrow> unit svc" where
  "SetInfo i l = bindS (set_profile i l) (\<lambda>_. bindS (set_away i l) (\<lambda>_. set_caps i l))"

definition newLocateErr :: "u32 \<Rightarrow> u16 \<Rightarrow> SNACMessage" where
  "newLocateErr rid code = snac Locate LocateErr rid SNACError_ty (VStruct [VU16 code, rest_block []])"

text \<open>The session that is looked up, \<open>None\<close> if it cannot be seen.\<close>

definition lookup_session :: "inst_ref \<Rightarrow> IdentScreenName \<Rightarrow> nat option svc" where
  "lookup_session i them =
     bindS (me i) (\<lambda>my_name.
       if them = my_name then retS (Some (fst i))
       else bindS (one_rel my_name them) (\<lambda>rel.
         if YouBlock rel \<or> BlocksYou rel then retS None else find_session them))"

definition profile_tlvs :: "u16 \<Rightarrow> UserProfile \<Rightarrow> TLV outcome list" where
  "profile_tlvs typ p =
     (if RequestProfile typ then [tlv_str LocateTLVTagsInfoSigMime (MIMEType p), tlv_str LocateTLVTagsInfoSigData (ProfileText p)]
      else [])"

definition away_tlvs :: "u16 \<Rightarrow> SNACMessage Session \<Rightarrow> TLV outcome list" where
  "away_tlvs typ s =
     (if RequestAwayMessage typ \<and> Away s then
        [tlv_str LocateTLVTagsInfoUnavailableMime (ascii ''text/aolrtf; charset=\"us-ascii\"''),
         tlv_str LocateTLVTagsInfoUnavailableData (AwayMessage s)]
      else [])"

definition locate_UserInfoQuery :: "inst_ref \<Rightarrow> u32 \<Rightarrow> u16 \<Rightarrow> bytes \<Rightarrow> SNACMessage svc" where
  "locate_UserInfoQuery i rid typ name =
     bindS (ident name) (\<lambda>them.
       bindS (lookup_session i them) (\<lambda>found.
         case found of
           None \<Rightarrow> retS (newLocateErr rid ErrorCodeNotLoggedOn)
         | Some k \<Rightarrow>
             bindS (getS (\<lambda>W. (sess_of (registry W) k, conn i W, identScreenName (sess i W)))) (\<lambda>(s, c, my_name).
               bindS (tlvsS (profile_tlvs typ (if my_name = them then inst_profile c else sess_Profile s) @ away_tlvs typ s)) (\<lambda>l.
                 bindS (user_info_of k) (\<lambda>info.
                   retS (snac Locate LocateUserInfoReply rid SNAC_0x02_0x06_LocateUserInfoReply_ty
                     (VStruct [TLVUserInfo_val info, rest_block l])))))))"

section \<open>The directory\<close>

definition newAIMNameAndAddrFromTLVList :: "TLVList \<Rightarrow> AIMNameAndAddr" where
  "newAIMNameAndAddrFromTLVList l =
     (let f = (\<lambda>tag. fst (TLVList_String tag l)) in
      \<lparr>addr_FirstName = f ODirTLVFirstName, addr_LastName = f ODirTLVLastName, addr_MiddleName = f ODirTLVMiddleName,
       addr_MaidenName = f ODirTLVMaidenName, addr_Country = f ODirTLVCountry, addr_State = f ODirTLVState,
       addr_City = f ODirTLVCity, addr_NickName = f ODirTLVNickName, addr_ZIPCode = f ODirTLVZIP,
       addr_Address = f ODirTLVAddress\<rparr>)"

definition SetDirInfo :: "inst_ref \<Rightarrow> u32 \<Rightarrow> TLVList \<Rightarrow> SNACMessage svc" where
  "SetDirInfo i rid l =
     bindS (me i) (\<lambda>my_name.
       bindS (db_exec (SetDirectoryInfo my_name (newAIMNameAndAddrFromTLVList l))) (\<lambda>_.
         retS (snac Locate LocateSetDirReply rid SNAC_0x02_0x0A_LocateSetDirReply_ty (VStruct [VU16 1]))))"

text \<open>The first five interests, padded with empty texts.\<close>

definition interests_of :: "TLVList \<Rightarrow> bytes list" where
  "interests_of l = (let ks = take 5 (map Value (filter (\<lambda>t. Tag t = ODirTLVInterest) l)) in ks @ replicate (5 - length ks) [])"

definition SetKeywordInfo :: "inst_ref \<Rightarrow> u32 \<Rightarrow> TLVList \<Rightarrow> SNACMessage svc" where
  "SetKeywordInfo i rid l =
     bindS (me i) (\<lambda>my_name.
       bindS (db_set (SetKeywords my_name (interests_of l))) (\<lambda>_.
         retS (snac Locate LocateSetKeywordReply rid SNAC_0x02_0x10_LocateSetKeywordReply_ty (VStruct [VU16 1]))))"

definition dir_tlvs :: "AIMNameAndAddr \<Rightarrow> TLV outcome list" where
  "dir_tlvs a =
     [tlv_str ODirTLVFirstName (addr_FirstName a), tlv_str ODirTLVLastName (addr_LastName a),
      tlv_str ODirTLVMiddleName (addr_MiddleName a), tlv_str ODirTLVMaidenName (addr_MaidenName a),
      tlv_str ODirTLVCountry (addr_Country a), tlv_str ODirTLVState (addr_State a), tlv_str ODirTLVCity (addr_City a),
      tlv_str ODirTLVNickName (addr_NickName a), tlv_str ODirTLVZIP (addr_ZIPCode a), tlv_str ODirTLVAddress (addr_Address a)]"

definition DirInfo :: "u32 \<Rightarrow> bytes \<Rightarrow> SNACMessage svc" where
  "DirInfo rid name =
     bindS (ident name) (\<lambda>them.
       bindS (getS unicode) (\<lambda>t.
         bindS (db_get (store_User t them)) (\<lambda>user.
           bindS (tlvsS (case user of None \<Rightarrow> [] | Some u \<Rightarrow> dir_tlvs (AIMDirectoryInfo u))) (\<lambda>l.
             retS (snac Locate LocateGetDirReply rid SNAC_0x02_0x0C_LocateGetDirReply_ty
               (VStruct [VU16 LocateGetDirReplyOK, rest_block l]))))))"

definition found_tlvs :: "User \<Rightarrow> TLVList outcome" where
  "found_tlvs u =
     (let a = AIMDirectoryInfo u in collect_out
       [tlv_str ODirTLVFirstName (addr_FirstName a), tlv_str ODirTLVLastName (addr_LastName a),
        tlv_str ODirTLVState (addr_State a), tlv_str ODirTLVCity (addr_City a), tlv_str ODirTLVCountry (addr_Country a),
        tlv_str ODirTLVScreenName (Display u)])"

definition info_reply :: "u32 \<Rightarrow> u16 \<Rightarrow> TLVList list \<Rightarrow> SNACMessage" where
  "info_reply rid status ls = snac ODir ODirInfoReply rid SNAC_0x0F_0x03_InfoReply_ty
     (VStruct [VU16 status, VU16 0, VStruct [VList (map rest_block ls)]])"

definition searchResponse :: "u32 \<Rightarrow> User list \<Rightarrow> SNACMessage svc" where
  "searchResponse rid us =
     bindS (liftS (collect_out (map found_tlvs us))) (\<lambda>ls. retS (info_reply rid ODirSearchResponseOK ls))"

definition search_by_email :: "u32 \<Rightarrow> bytes \<Rightarrow> SNACMessage svc" where
  "search_by_email rid email =
     bindS (getS unicode) (\<lambda>t.
       bindS (tryS (db_find (FindByAIMEmail t email))) (\<lambda>found.
         case found of
           Inr u \<Rightarrow> searchResponse rid [u]
         | Inl e \<Rightarrow> if e = StoreErr ErrNoUser then searchResponse rid [] else failS e))"

definition odir_InfoQuery :: "u32 \<Rightarrow> TLVList \<Rightarrow> SNACMessage svc" where
  "odir_InfoQuery rid l =
     (case TLVList_String ODirTLVEmailAddress l of
        (email, True) \<Rightarrow> search_by_email rid email
      | (_, False) \<Rightarrow>
          (case TLVList_String ODirTLVInterest l of
             (interest, True) \<Rightarrow>
               bindS (getS unicode) (\<lambda>t. bindS (db_get (FindByAIMKeyword t interest)) (searchResponse rid))
           | (_, False) \<Rightarrow>
               if TLVList_HasTag ODirTLVFirstName l \<or> TLVList_HasTag ODirTLVLastName l then
                 bindS (getS unicode) (\<lambda>t.
                   bindS (db_find (FindByAIMNameAndAddr t (newAIMNameAndAddrFromTLVList l))) (searchResponse rid))
               else retS (info_reply rid ODirSearchResponseNameMissing [])))"

definition KeywordListQuery :: "u32 \<Rightarrow> SNACMessage svc" where
  "KeywordListQuery rid =
     bindS (db_get InterestList) (\<lambda>xs.
       retS (snac ODir ODirKeywordListReply rid SNAC_0x0F_0x04_KeywordListReply_ty
         (VStruct [VU16 1, VList (map (\<lambda>(typ, i, n). VStruct [VU8 typ, VU8 i, VString n]) xs)])))"

section \<open>Icons\<close>

definition blankGIF :: bytes where
  "blankGIF =
     [0x47, 0x49, 0x46, 0x38, 0x39, 0x61, 0x32, 0x00, 0x32, 0x00, 0x80, 0x00, 0x00, 0x00, 0x00, 0x00,
      0x00, 0x00, 0x00, 0x21, 0xf9, 0x04, 0x01, 0x00, 0x00, 0x00, 0x00, 0x2c, 0x00, 0x00, 0x00, 0x00,
      0x32, 0x00, 0x32, 0x00, 0x00, 0x02, 0x02, 0x44, 0x01, 0x00, 0x3b]"

definition store_asset :: "bytes \<Rightarrow> bytes \<Rightarrow> u16 \<Rightarrow> unit svc" where
  "store_asset hash d typ =
     catchS (db_exec (InsertBARTItem hash d typ)) (\<lambda>e. if e = StoreErr ErrBARTItemExists then retS () else failS e)"

definition bart_UpsertItem :: "inst_ref \<Rightarrow> u32 \<Rightarrow> u16 \<Rightarrow> bytes \<Rightarrow> SNACMessage svc" where
  "bart_UpsertItem i rid typ d =
     bindS (getS (\<lambda>W. md5_of (ext W) d)) (\<lambda>hash.
       bindS (store_asset hash d typ) (\<lambda>_.
         bindS (getS (\<lambda>W. sess_BuddyIcon (sess i W))) (\<lambda>(icon, hasIcon).
           bindS (if hasIcon \<and> hash = bart_Hash icon then
                    let known = icon\<lparr>bart_Flags := bart_Flags icon AND NOT BARTFlagsUnknown\<rparr> in
                    bindS (mod_session i (SetBuddyIcon known)) (\<lambda>_.
                      bindS (sendUserInfoUpdateToAll i) (\<lambda>_.
                        bindS (announce_self i) (\<lambda>_. retS known)))
                  else retS \<lparr>bart_Type = typ, bart_Flags = BARTFlagsCustom, bart_Hash = hash\<rparr>) (\<lambda>b.
             retS (snac BART BARTUploadReply rid SNAC_0x10_0x03_BARTUploadReply_ty
               (VStruct [VU8 BARTReplyCodesSuccess, BARTID_val b]))))))"

definition icon_data :: "bool \<Rightarrow> bytes \<Rightarrow> bytes svc" where
  "icon_data blank hash = (if blank then retS blankGIF else db_get (BARTItem hash))"

definition RetrieveItem :: "u32 \<Rightarrow> bytes \<Rightarrow> BARTID \<Rightarrow> SNACMessage svc" where
  "RetrieveItem rid name b =
     bindS (icon_data (HasClearIconHash b) (bart_Hash b)) (\<lambda>d.
       retS (snac BART BARTDownloadReply rid SNAC_0x10_0x05_BARTDownloadReply_ty
         (VStruct [VString name, BARTID_val b, vbytes d])))"

fun RetrieveItemV2 :: "u32 \<Rightarrow> bytes \<Rightarrow> BARTID list \<Rightarrow> SNACMessage list svc" where
  "RetrieveItemV2 rid name [] = retS []"
| "RetrieveItemV2 rid name (b # bs) =
     bindS (icon_data (bart_Type b = BARTTypesBuddyIcon \<and> HasClearIconHash b) (bart_Hash b)) (\<lambda>d.
       bindS (RetrieveItemV2 rid name bs) (\<lambda>ms.
         retS (snac BART BARTDownload2Reply rid SNAC_0x10_0x07_BARTDownload2Reply_ty
           (VStruct [VString name, VStruct [BARTID_val b, VU8 0, BARTID_val b], vbytes d]) # ms)))"

end
