(* ===== verification/ServiceProperties.thy ===== *)
theory ServiceProperties
  imports AdminService LocateService MessagingProperties
begin

text \<open>
  Properties of the smaller services: dice in chat rooms, whispers, passwords, and what a user learns about one who
  shuts them out.
\<close>

section \<open>Dice\<close>

lemma dice_number_digits: "dice_number cmd r s = (Some (c, v), r') \<Longrightarrow> list_all digit v \<and> v \<noteq> []"
  by (auto simp: dice_number_def Let_def list_all_iff dest!: in_set_takeD dest: set_takeWhileD split: if_splits)

lemma dice_arg_digits: "dice_arg s = (Some (c, v), r') \<Longrightarrow> list_all digit v \<and> v \<noteq> []"
  by (auto simp: dice_arg_def dest: dice_number_digits split: option.splits)

lemma rollDice_digits:
  assumes "rollDiceRgxp s = Some as" "(c, v) \<in> set as"
  shows "list_all digit v \<and> v \<noteq> []"
proof -
  obtain r a1 r1 a2 r2 where p: "dice_arg r = (a1, r1)" "dice_arg r1 = (a2, r2)" "as = List.map_filter id [a1, a2]"
    using assms(1) by (auto simp: rollDiceRgxp_def split: option.splits prod.splits if_splits)
  then have "a1 = Some (c, v) \<or> a2 = Some (c, v)"
    using assms(2) by (auto simp: List.map_filter_simps split: option.splits)
  then show ?thesis using p dice_arg_digits by blast
qed

lemma dice_args_bounds:
  assumes "dice_args as (d, n) = Some (d', n')" "\<forall>(c, v) \<in> set as. list_all digit v \<and> v \<noteq> []"
    and "1 \<le> d" "d \<le> 15" "1 \<le> n" "n \<le> 999"
  shows "1 \<le> d' \<and> d' \<le> 15 \<and> 1 \<le> n' \<and> n' \<le> 999"
  using assms
proof (induction as "(d, n)" arbitrary: d n rule: dice_args.induct)
  case (2 cmd val as dice sides)
  have nonneg: "0 \<le> fst (Atoi val)"
    using Atoi_digits [of val] 2(4) by (auto split: if_splits)
  show ?case
    using 2 nonneg by (auto split: prod.splits if_splits)
qed simp

lemma decimal_string_short: "n < 1000 \<Longrightarrow> length (decimal_string n) \<le> 3"
proof -
  assume "n < 1000"
  then have "n div 10 div 10 < 10" by simp
  then have "length (decimal_string (n div 10 div 10)) = 1" by (simp add: decimal_string.simps)
  then have "length (decimal_string (n div 10)) \<le> 2" by (subst decimal_string.simps) simp
  then show ?thesis by (subst decimal_string.simps) simp
qed

lemma dice_number_read:
  assumes "n < 1000" "r = [] \<or> \<not> digit (hd r)"
  shows "dice_number cmd (decimal_string n @ r) s = (Some (cmd, decimal_string n), r)"
proof -
  have t: "takeWhile digit (decimal_string n @ r) = decimal_string n"
    using decimal_string_digits [of n] assms(2) by (cases r) (auto simp: list_all_iff takeWhile_append)
  show ?thesis
    using decimal_string_digits [of n] decimal_string_short [OF assms(1)] by (simp add: dice_number_def t Let_def)
qed

lemma Atoi_decimal_string: "n < 1000 \<Longrightarrow> Atoi (decimal_string n) = (int n, False)"
  using decimal_string_digits [of n] by (simp add: Atoi_digits)

definition dice_text :: "nat \<Rightarrow> nat \<Rightarrow> bytes \<Rightarrow> bytes" where
  "dice_text d n blank = ascii ''//roll-dice'' @ decimal_string d @ ascii ''-sides'' @ decimal_string n @ blank"

lemma space_not_digit: "regexp_space b \<Longrightarrow> \<not> digit b \<and> b \<noteq> 0x2D"
  by (auto simp: regexp_space_def digit_def)

lemma dice_arg_dice:
  assumes "d < 1000" "r = [] \<or> \<not> digit (hd r)"
  shows "dice_arg (ascii ''-dice'' @ decimal_string d @ r) = (Some (ascii ''dice'', decimal_string d), r)"
  using dice_number_read [OF assms] by (simp add: dice_arg_def strip_prefix_def ascii_def)

lemma dice_arg_sides:
  assumes "n < 1000" "r = [] \<or> \<not> digit (hd r)"
  shows "dice_arg (ascii ''-sides'' @ decimal_string n @ r) = (Some (ascii ''sides'', decimal_string n), r)"
  using dice_number_read [OF assms] by (simp add: dice_arg_def strip_prefix_def ascii_def)

text \<open>
  The dice command \<open>//roll-diceN-sidesM\<close>, with white space behind it, is taken for every number of dice from 1 to 15
  and of sides from 1 to 999, with exactly these numbers; and whatever text a user sends, no roll has fewer or more
  dice or sides than that.
\<close>

theorem dice_command:
  assumes "1 \<le> d" "d \<le> 15" "1 \<le> n" "n \<le> 999" "list_all regexp_space blank"
  shows "parseDiceCommand (dice_text d n blank) = Some (int d, int n) \<and>
    (case parseDiceCommand s of None \<Rightarrow> True | Some (d', n') \<Rightarrow> 1 \<le> d' \<and> d' \<le> 15 \<and> 1 \<le> n' \<and> n' \<le> 999)"
proof
  have b: "blank = [] \<or> \<not> digit (hd blank)"
    using assms(5) space_not_digit by (cases blank) auto
  have h: "\<not> digit (hd (ascii ''-sides'' @ r))" for r by (simp add: ascii_def digit_def)
  have r: "rollDiceRgxp (dice_text d n blank) =
      Some [(ascii ''dice'', decimal_string d), (ascii ''sides'', decimal_string n)]"
  proof -
    let ?r = "ascii ''-sides'' @ decimal_string n @ blank"
    have "strip_prefix (ascii ''//roll'') (dice_text d n blank) = Some (ascii ''-dice'' @ decimal_string d @ ?r)"
      by (simp add: strip_prefix_def dice_text_def ascii_def)
    moreover have "dice_arg (ascii ''-dice'' @ decimal_string d @ ?r) = (Some (ascii ''dice'', decimal_string d), ?r)"
      using assms h by (intro dice_arg_dice) auto
    moreover have "dice_arg ?r = (Some (ascii ''sides'', decimal_string n), blank)"
      using assms b by (intro dice_arg_sides) auto
    ultimately show ?thesis using assms(5) by (simp add: rollDiceRgxp_def List.map_filter_simps)
  qed
  show "parseDiceCommand (dice_text d n blank) = Some (int d, int n)"
    using assms by (simp add: parseDiceCommand_def r Atoi_decimal_string) (simp add: ascii_def)
  show "case parseDiceCommand s of None \<Rightarrow> True | Some (d', n') \<Rightarrow> 1 \<le> d' \<and> d' \<le> 15 \<and> 1 \<le> n' \<and> n' \<le> 999"
  proof (cases "parseDiceCommand s")
    case (Some p)
    then obtain as where as: "rollDiceRgxp s = Some as" "dice_args as (2, 6) = Some p"
      by (auto simp: parseDiceCommand_def split: option.splits if_splits)
    have "\<forall>(c, v) \<in> set as. list_all digit v \<and> v \<noteq> []" using rollDice_digits [OF as(1)] by blast
    then show ?thesis using dice_args_bounds [of as 2 6 "fst p" "snd p"] as(2) Some by (auto split: prod.split)
  qed simp
qed

lemma dice_command_witness:
  "parseDiceCommand (dice_text 3 20 [0x20]) = Some (3, 20)"
  using dice_command [of 3 20 "[0x20]" "[]"] by (simp add: regexp_space_def)

section \<open>Passwords\<close>

lemma store_User_find:
  "store_User t n S = map_option (read_user t) (find (\<lambda>r. row_name r = screenName n) (user_rows S))"
proof -
  have "(case map f (filter P xs) of [] \<Rightarrow> None | u # _ \<Rightarrow> Some u) = map_option f (find P xs)" for f :: "UserRow \<Rightarrow> User" and P xs
    by (induction xs) auto
  then show ?thesis by (simp add: store_User_def queryUsers_def)
qed

lemma find_update_row:
  assumes "\<And>u. Ident (f u) = Ident u"
  shows "find (\<lambda>r. row_name r = m) (user_rows (update_user n f S)) =
    map_option (\<lambda>r. if row_name r = screenName n then r\<lparr>row_user := f (row_user r)\<rparr> else r)
      (find (\<lambda>r. row_name r = m) (user_rows S))"
proof -
  have "find (\<lambda>r. row_name r = m) (update_where P (\<lambda>r. r\<lparr>row_user := f (row_user r)\<rparr>) rows) =
      map_option (\<lambda>r. if P r then r\<lparr>row_user := f (row_user r)\<rparr> else r) (find (\<lambda>r. row_name r = m) rows)" for P rows
    using assms by (induction rows) (auto simp: update_where_def row_name_def)
  then show ?thesis by (simp add: update_user_def)
qed

lemma find_row_name: "find (\<lambda>r. row_name r = m) rows = Some r \<Longrightarrow> row_name r = m"
  by (auto simp: find_Some_iff)

lemma HashPassword_forms:
  "HashPassword h p u = (None, v) \<Longrightarrow> AuthKey v = AuthKey u \<and> WeakMD5Pass v = WeakMD5PasswordHash h p (AuthKey u) \<and>
     StrongMD5Pass v = StrongMD5PasswordHash h p (AuthKey u)"
  by (auto simp: HashPassword_def split: option.splits)

lemma SetUserPassword_effect:
  assumes "SetUserPassword h n p S = (e, S')" "S' \<noteq> S"
  shows "\<exists>u'. e = None \<and> store_User t n S' = Some u' \<and> ValidateHash (StrongMD5PasswordHash h p (AuthKey u')) u' \<and>
    (\<forall>m. screenName m \<noteq> screenName n \<longrightarrow> store_User t m S' = store_User t m S)"
proof -
  obtain r v where r: "find (\<lambda>r. row_name r = screenName n) (user_rows S) = Some r" "HashPassword h p (row_user r) = (None, v)"
      "e = None" "S' = update_user n (\<lambda>u. u\<lparr>AuthKey := AuthKey v, WeakMD5Pass := WeakMD5Pass v, StrongMD5Pass := StrongMD5Pass v\<rparr>) S"
    using assms by (auto simp: SetUserPassword_def split: option.splits prod.splits)
  note f = find_update_row [where f = "\<lambda>u. u\<lparr>AuthKey := AuthKey v, WeakMD5Pass := WeakMD5Pass v, StrongMD5Pass := StrongMD5Pass v\<rparr>"]
  have "store_User t m S' = store_User t m S" if "screenName m \<noteq> screenName n" for m
    using that find_row_name [of "screenName m"] unfolding store_User_find r(4)
    by (cases "find (\<lambda>r. row_name r = screenName m) (user_rows S)") (auto simp: f)
  moreover have "store_User t n S' = Some (read_user t (r\<lparr>row_user := (row_user r)\<lparr>AuthKey := AuthKey v,
      WeakMD5Pass := WeakMD5Pass v, StrongMD5Pass := StrongMD5Pass v\<rparr>\<rparr>))"
    using r(1) find_row_name [OF r(1)] unfolding store_User_find r(4) by (simp add: f)
  moreover have "StrongMD5Pass v = StrongMD5PasswordHash h p (AuthKey v)"
    using HashPassword_forms [OF r(2)] by simp
  ultimately show ?thesis using r(3) by (auto simp: read_user_def ValidateHash_def)
qed

lemma keeps_password_reply: "keepsS (=) (password_reply rid c)"
  unfolding password_reply_def getAdminChangeReply_def tlvsS_def
  by (intro keeps_bindS keeps_basic) simp_all

lemma password_reply_frame: "password_reply rid c V = Ok (x, W') \<Longrightarrow> W' = V"
  using keepsD [OF keeps_password_reply] by metis

lemma tlv_raw_eq: "tlv_raw t x = Ok \<lparr>Tag = t, Value = x\<rparr>"
proof -
  have "binary_bytes BigEndian (VList (map VU8 x)) = x"
    using binary_bytes_vbytes [of BigEndian x] by (simp add: vbytes_def)
  then show ?thesis
    by (simp add: tlv_raw_def NewTLVBE_def newTLV_def MarshalBE_def marshal.simps marshalKind.simps tag_eval
        marshalSliceBuf_eq vbytes_def wbuffered_def binaryWrite_def wput_def comp_def)
qed

lemma password_reply_ok: "\<exists>x. password_reply rid c V = Ok (x, V)"
  by (cases c) (simp_all add: password_reply_def getAdminChangeReply_def tlvsS_def tlv16_eq tlv_raw_eq liftS_def bindS_def retS_def)

lemma db_exec_run: "db_exec f W = (if faults W \<noteq> [] \<and> hd (faults W) then Ok (Inl DBFailure, W\<lparr>faults := tl (faults W)\<rparr>)
    else case f (db W) of (e, S) \<Rightarrow> Ok (case e of None \<Rightarrow> Inr () | Some e \<Rightarrow> Inl (StoreErr e), W\<lparr>db := S, faults := tl (faults W)\<rparr>))"
  by (auto simp: db_exec_def db_call_def split: prod.split option.split)

lemma change_password_run:
  assumes old: "TLVList_String AdminTLVOldPassword body = (old, True)"
  shows "change_password i rid newPass body W =
      (if faults W \<noteq> [] \<and> hd (faults W) then password_reply rid (Some AdminInfoErrorAllOtherErrors) (W\<lparr>faults := tl (faults W)\<rparr>)
       else case store_User (unicode W) (identScreenName (sess i W)) (db W) of
         None \<Rightarrow> password_reply rid (Some AdminInfoErrorAllOtherErrors) (W\<lparr>faults := tl (faults W)\<rparr>)
       | Some u \<Rightarrow>
           if \<not> ValidateHash (StrongMD5PasswordHash (md5_of (ext W)) old (AuthKey u)) u
           then password_reply rid (Some AdminInfoErrorValidatePassword) (W\<lparr>faults := tl (faults W)\<rparr>)
           else bindS (tryS (db_exec (SetUserPassword (md5_of (ext W)) (identScreenName (sess i W)) newPass))) (\<lambda>done. password_reply rid
             (case done of Inr _ \<Rightarrow> None | Inl err \<Rightarrow> Some (if err = StoreErr (StoreUser ErrPasswordInvalid)
               then AdminInfoErrorInvalidPasswordLength else AdminInfoErrorAllOtherErrors))) (W\<lparr>faults := tl (faults W)\<rparr>))"
  by (simp add: change_password_def old bindS_def me_def getS_def tryS_def db_get_def db_call_def split: option.split)

text \<open>
  C28: A request to change the password changes the accounts only if it carries the old password of the user who sends
  it; then the user signs on with the new password, and no other account changes.
\<close>

theorem password_change:
  assumes "change_password i rid newPass body W = Ok (x, W')" "db W' \<noteq> db W"
  shows "\<exists>old u u'. TLVList_String AdminTLVOldPassword body = (old, True) \<and>
    store_User (unicode W) (identScreenName (sess i W)) (db W) = Some u \<and>
    ValidateHash (StrongMD5PasswordHash (md5_of (ext W)) old (AuthKey u)) u \<and>
    store_User (unicode W) (identScreenName (sess i W)) (db W') = Some u' \<and>
    ValidateHash (StrongMD5PasswordHash (md5_of (ext W)) newPass (AuthKey u')) u' \<and>
    (\<forall>m. screenName m \<noteq> screenName (identScreenName (sess i W)) \<longrightarrow>
      store_User (unicode W) m (db W') = store_User (unicode W) m (db W))"
proof -
  let ?n = "identScreenName (sess i W)" and ?h = "md5_of (ext W)"
  obtain old has where o: "TLVList_String AdminTLVOldPassword body = (old, has)" by fastforce
  have has
  proof (rule ccontr)
    assume "\<not> has"
    then show False using assms o by (auto simp: change_password_def dest!: password_reply_frame)
  qed
  then have old: "TLVList_String AdminTLVOldPassword body = (old, True)" using o by simp
  let ?V = "W\<lparr>faults := tl (faults W)\<rparr>"
  note run = change_password_run [OF old, of i rid newPass W]
  have "\<not> (faults W \<noteq> [] \<and> hd (faults W))"
    using assms unfolding run by (auto dest!: password_reply_frame split: if_splits)
  then obtain u where u: "store_User (unicode W) ?n (db W) = Some u" "ValidateHash (StrongMD5PasswordHash ?h old (AuthKey u)) u"
    and r: "bindS (tryS (db_exec (SetUserPassword ?h ?n newPass))) (\<lambda>done. password_reply rid
             (case done of Inr _ \<Rightarrow> None | Inl err \<Rightarrow> Some (if err = StoreErr (StoreUser ErrPasswordInvalid)
               then AdminInfoErrorInvalidPasswordLength else AdminInfoErrorAllOtherErrors))) ?V = Ok (x, W')"
    using assms unfolding run by (auto dest!: password_reply_frame split: option.splits if_splits)
  obtain z V where z: "db_exec (SetUserPassword ?h ?n newPass) ?V = Ok (z, V)" "V = W'"
    using r by (cases "db_exec (SetUserPassword ?h ?n newPass) ?V") (auto simp: bindS_def tryS_run dest!: password_reply_frame)
  obtain e S' where e: "SetUserPassword ?h ?n newPass (db W) = (e, S')" by fastforce
  have "S' = db W'"
    using z assms(2) by (auto simp: db_exec_run e split: if_splits)
  note e = e [unfolded this]
  show ?thesis using SetUserPassword_effect [OF e assms(2)] old u by blast
qed

definition vault_world :: World where
  "vault_world = (accounts_world 0)\<lparr>db := two_accounts\<lparr>user_rows :=
     [\<lparr>row_user = (blank_user [0x61])\<lparr>StrongMD5Pass := StrongMD5PasswordHash (\<lambda>b. b) [1, 2, 3, 4, 5, 6] []\<rparr>, row_keywords = []\<rparr>]\<rparr>\<rparr>"

lemma password_change_witness:
  "\<exists>x W' u'. change_password (0, 0) 1 [6, 5, 4, 3, 2, 1] [\<lparr>Tag = AdminTLVOldPassword, Value = [1, 2, 3, 4, 5, 6]\<rparr>] vault_world = Ok (x, W') \<and>
     store_User ascii_tables (IdentScreenName [0x61]) (db W') = Some u' \<and>
     ValidateHash (StrongMD5PasswordHash (\<lambda>b. b) [6, 5, 4, 3, 2, 1] (AuthKey u')) u'"
proof -
  let ?run = "change_password (0, 0) 1 [6, 5, 4, 3, 2, 1] [\<lparr>Tag = AdminTLVOldPassword, Value = [1, 2, 3, 4, 5, 6]\<rparr>] vault_world"
  have me: "identScreenName (sess (0, 0) vault_world) = IdentScreenName [0x61]" "faults vault_world = []"
      "unicode vault_world = ascii_tables" "md5_of (ext vault_world) = (\<lambda>b. b)"
    by (simp_all add: sess_def sess_of_def slot_of_def vault_world_def accounts_world_def small_world_def two_online_def plain_ext_def)
  obtain r where r: "user_rows (db vault_world) = [r]" "row_name r = [0x61]" "IsICQ (row_user r)" "AuthKey (row_user r) = []"
      "StrongMD5Pass (row_user r) = StrongMD5PasswordHash (\<lambda>b. b) [1, 2, 3, 4, 5, 6] []"
    by (simp add: vault_world_def row_name_def blank_user_def)
  let ?S = "update_user (IdentScreenName [0x61]) (\<lambda>u. u\<lparr>AuthKey := [], WeakMD5Pass := WeakMD5PasswordHash (\<lambda>b. b) [6, 5, 4, 3, 2, 1] [],
      StrongMD5Pass := StrongMD5PasswordHash (\<lambda>b. b) [6, 5, 4, 3, 2, 1] []\<rparr>) (db vault_world)"
  have set: "SetUserPassword (\<lambda>b. b) (IdentScreenName [0x61]) [6, 5, 4, 3, 2, 1] (db vault_world) = (None, ?S)"
    using r by (simp add: SetUserPassword_def HashPassword_def validateICQPassword_def)
  have "StrongMD5Pass (row_user (hd (user_rows ?S))) \<noteq> StrongMD5Pass (row_user (hd (user_rows (db vault_world))))"
    using r(1,2,5) by (simp add: update_user_def update_where_def StrongMD5PasswordHash_def)
  then have ne: "?S \<noteq> db vault_world" by metis
  have "store_User ascii_tables (IdentScreenName [0x61]) (db vault_world) = Some (read_user ascii_tables r)"
    using r by (simp add: store_User_find)
  moreover have "ValidateHash (StrongMD5PasswordHash (\<lambda>b. b) [1, 2, 3, 4, 5, 6] (AuthKey (read_user ascii_tables r))) (read_user ascii_tables r)"
    using r by (simp add: read_user_def ValidateHash_def)
  ultimately have "?run = bindS (tryS (db_exec (SetUserPassword (\<lambda>b. b) (IdentScreenName [0x61]) [6, 5, 4, 3, 2, 1]))) (\<lambda>done. password_reply 1
             (case done of Inr _ \<Rightarrow> None | Inl err \<Rightarrow> Some (if err = StoreErr (StoreUser ErrPasswordInvalid)
               then AdminInfoErrorInvalidPasswordLength else AdminInfoErrorAllOtherErrors))) (vault_world\<lparr>faults := []\<rparr>)"
    by (subst change_password_run [where old = "[1, 2, 3, 4, 5, 6]"]) (simp_all add: me)
  also have "\<dots> = password_reply 1 None (vault_world\<lparr>db := ?S, faults := []\<rparr>)"
    using set by (simp add: bindS_def tryS_run db_exec_run)
  finally have "\<exists>x W'. ?run = Ok (x, W') \<and> db W' = ?S" using password_reply_ok by fastforce
  then have "\<exists>x W'. ?run = Ok (x, W') \<and> db W' \<noteq> db vault_world" using ne by metis
  then obtain x W' where run: "?run = Ok (x, W')" "db W' \<noteq> db vault_world" by blast
  show ?thesis using password_change [OF run] run(1) unfolding me by blast
qed

section \<open>Whispers\<close>

definition same_rooms :: "World \<Rightarrow> World \<Rightarrow> bool" where
  "same_rooms V W \<longleftrightarrow> chats W = chats V \<and> registry W = registry V \<and> unicode W = unicode V \<and> db W = db V"

lemma same_rooms_rel [simp]: "reflp same_rooms" "transp same_rooms"
  by (auto simp: same_rooms_def reflp_def transp_def)

lemmas rooms_basic = keeps_basic [OF same_rooms_rel(1)] keeps_bindS [OF same_rooms_rel(2)]

lemma rooms_roll: "keepsS same_rooms (randRollDie n)" "keepsS same_rooms (roll_dice_text k n)"
proof -
  have m: "keepsS same_rooms (modS (\<lambda>W. W\<lparr>randoms := tl (randoms W)\<rparr>))"
    by (auto simp: keepsS_def modS_def same_rooms_def)
  show r: "keepsS same_rooms (randRollDie n)" for n
    unfolding randRollDie_def by (intro rooms_basic m)
  show "keepsS same_rooms (roll_dice_text k n)"
  proof (induction k)
    case (Suc k)
    show ?case unfolding roll_dice_text.simps by (intro rooms_basic r Suc)
  qed (auto simp: keepsS_def same_rooms_def retS_def)
qed

lemma rooms_transform: "keepsS same_rooms (transformChatMessage who body)"
proof -
  have "keepsS same_rooms (rollDice s d n)" for s d n
    unfolding rollDice_def tlvsS_def by (intro rooms_basic rooms_roll)
  moreover have "keepsS same_rooms (newChatTLVBlock body s l)" for s l
    unfolding newChatTLVBlock_def tlvsS_def by (intro rooms_basic)
  moreover have "keepsS same_rooms (extractChatMessage l)" for l
    unfolding extractChatMessage_def by (cases "TLVList_Bytes ChatTLVMessageInfoText l") (simp_all add: rooms_basic)
  ultimately show ?thesis
    unfolding transformChatMessage_def
    by (auto intro!: rooms_basic split: option.split prod.split)
qed

lemma relay_one_others:
  assumes "chat_RelayToScreenName c n msg C = Ok C'"
    and "sess_of (chat_mgr C' m) k \<noteq> sess_of (chat_mgr C m) k"
  shows "map_of (rooms C) c = Some m \<and> RetrieveSession n (chat_mgr C m) = Some k"
proof -
  have ne: "C' \<noteq> C" using assms(2) by auto
  obtain m1 where m1: "map_of (rooms C) c = Some m1"
    using assms(1) ne by (cases "map_of (rooms C) c") (simp_all add: chat_RelayToScreenName_def)
  obtain k1 where k1: "RetrieveSession n (chat_mgr C m1) = Some k1"
    using assms(1) ne m1 by (cases "RetrieveSession n (chat_mgr C m1)") (simp_all add: chat_RelayToScreenName_def)
  have "bind_out (relay_locked msg [k1] (chat_mgr C m1)) (\<lambda>M. Ok (set_mgr m1 M C)) = Ok C'"
    using assms(1) m1 k1 by (simp add: chat_RelayToScreenName_def del: relay_locked.simps)
  then obtain M where "relay_locked msg [k1] (chat_mgr C m1) = Ok M" "C' = set_mgr m1 M C"
    unfolding bind_out_Ok_iff by blast
  note r = m1 k1 this
  have "m = m1"
    using assms(2) unfolding r(4) by (cases "m = m1") (simp_all add: set_mgr_def chat_mgr_def)
  moreover have "k = k1"
  proof (rule ccontr)
    assume "k \<noteq> k1"
    then have "sess_of M k = sess_of (chat_mgr C m1) k"
      using r(3) by (auto simp: Let_def sess_of_upd_other split: if_splits)
    then show False using assms(2) \<open>m = m1\<close> unfolding r(4)
      by (cases "m1 < length (managers C)") (simp_all add: set_mgr_def chat_mgr_def list_update_beyond)
  qed
  ultimately show ?thesis using r by simp
qed

text \<open>
  C30: A whisper in a chat room, unless it is public as well, changes nobody's session but that of the user it is
  addressed to: only that user's connections to the room of the sender can receive it. Not the sessions outside the
  room, not other rooms, and not the accounts.
\<close>

theorem whisper_only_recipient:
  assumes "chat_ChannelMsgToHost s rid cookie channel body W = Ok (Inr ans, W')"
    and "TLVList_String ChatTLVWhisperToUser body = (name, True)" "\<not> TLVList_HasTag ChatTLVPublicWhisperFlag body"
  shows "registry W' = registry W \<and> db W' = db W \<and>
    (sess_of (chat_mgr (chats W') m) k \<noteq> sess_of (chat_mgr (chats W) m) k \<longrightarrow>
      map_of (rooms (chats W)) (cookies (chats W) s) = Some m \<and>
      RetrieveSession (NewIdentScreenName (unicode W) name) (chat_mgr (chats W) m) = Some k)"
proof -
  let ?ch = "if channel = 0xFFFF then ICBMChannelMIME else channel" and ?n = "NewIdentScreenName (unicode W) name"
  have tag: "TLVList_HasTag ChatTLVWhisperToUser body"
    using assms(2) by (simp add: HasTag_iff String_eq split: option.splits)
  obtain l V where l: "transformChatMessage (chat_sess s) body W = Ok (Inr l, V)"
    and rest: "bindS (getS (\<lambda>W. (cookies (chats W) s, identScreenName (chat_sess s W)))) (\<lambda>(c, n).
        bindS (bindS (ident name) (\<lambda>recip. chat_call (chat_RelayToScreenName c recip (chat_msg 0 cookie ?ch l)))) (\<lambda>_.
          retS (if TLVList_Bytes ChatTLVEnableReflectionFlag body = None then None else Some (chat_msg rid cookie ?ch l)))) V =
      Ok (Inr ans, W')"
    using assms(1) unfolding chat_ChannelMsgToHost_def chat_send_def Let_def
    by (cases rule: bindS_cases) (use tag assms(2,3) in simp_all)
  have V: "chats V = chats W" "registry V = registry W" "unicode V = unicode W" "db V = db W"
    using keepsD [OF rooms_transform l] by (simp_all add: same_rooms_def)
  have "chat_RelayToScreenName (cookies (chats V) s) (NewIdentScreenName (unicode V) name) (chat_msg 0 cookie ?ch l) (chats V) = Ok (chats W')
      \<and> registry W' = registry V \<and> db W' = db V"
    using rest by (auto simp: bindS_def getS_def ident_def chat_call_def bind_out_Ok_iff retS_def)
  note w = this [unfolded V]
  show ?thesis using w relay_one_others [OF conjunct1 [OF w], of m k] by simp
qed

lemma marshal_tlvs_ok: "\<exists>b. marshalStructs BigEndian tlv_ty (map tlv_val ts) = (b, Ok ())"
proof (induction ts)
  case (Cons x xs)
  have "\<exists>b. marshalStruct BigEndian emptyTag tlv_ty (tlv_val x) = (b, Ok ())"
    by (simp add: tlv_ty_def tlv_val_def marshalStruct.simps marshalEachField.simps marshal.simps
        marshalKind.simps tag_eval emptyTag_def struct_order_def binaryWrite_def wput_def wbuffered_def marshalSliceBuf_eq marshalUnsignedInt_def vbytes_def wok_def wseq_def)
  then show ?case using Cons by (auto simp: wseq_def)
qed (simp add: wok_def)

lemma tlv_is_struct: "is_struct tlv_ty"
  by (simp add: tlv_ty_def)

lemma marshal_blocks_ok:
  "\<exists>b. MarshalBE (Some (TLVRestBlock_ty, rest_block ts)) = (b, Ok ())"
  "\<exists>b. MarshalBE (Some (TLVUserInfo_ty, TLVUserInfo_val info)) = (b, Ok ())"
  using marshal_tlvs_ok [of ts] marshal_tlvs_ok [of "ui_TLVList info"] tlv_is_struct
  by (auto simp: MarshalBE_def TLVRestBlock_ty_def TLVUserInfo_ty_def TLVBlock_ty_def TLVList_ty_def TLVUserInfo_val_def rest_block_def
      tlvs_val_def marshal.simps marshalKind.simps marshalStruct.simps tag_eval struct_order_def binaryWrite_def wput_def wseq_def wok_def
      wbuffered_def marshalSliceBuf_eq marshalUnsignedInt_def marshalString_def Let_def wput_unless)

lemma NewTLVBE_ok: "MarshalBE (Some (t, v)) = (b, Ok ()) \<Longrightarrow> t \<noteq> TSlice TU8 \<Longrightarrow> NewTLVBE tag (t, v) = Ok \<lparr>Tag = tag, Value = b\<rparr>"
  by (simp add: NewTLVBE_def newTLV_def)

definition whisper_text :: TLVList where
  "whisper_text = [\<lparr>Tag = ChatTLVMessageInfoText, Value = [5]\<rparr>]"

definition whisper_body :: TLVList where
  "whisper_body = [\<lparr>Tag = ChatTLVWhisperToUser, Value = [0x62]\<rparr>,
     \<lparr>Tag = ChatTLVMessageInfo, Value = fst (MarshalBE (Some (TLVRestBlock_ty, rest_block whisper_text)))\<rparr>]"

definition chat_world :: World where
  "chat_world = (small_world False)\<lparr>chats := \<lparr>managers = [two_online], rooms = [([9], 0)], cookies = (\<lambda>_. [9])\<rparr>\<rparr>"

lemma whisper_decodes:
  "UnmarshalBE TLVRestBlock_ty (fst (MarshalBE (Some (TLVRestBlock_ty, rest_block whisper_text)))) = (Ok (rest_block whisper_text), [])"
proof -
  have "codes_at True (MarshalBE (Some (TLVRestBlock_ty, rest_block whisper_text))) (UnmarshalBE TLVRestBlock_ty) (rest_block whisper_text)"
    by (rule code_BE)
      (simp_all add: whisper_text_def rest_block_def TLVRestBlock_ty_def TLVList_ty_def tlv_ty_def tlvs_val_def
        tlv_val_def vbytes_def tag_eval prefix_max_def elems_bytes_def binaryWrite_def wput_def
        MarshalBE_def marshal.simps marshalKind.simps marshalStruct.simps struct_order_def wseq_def
        wok_def wbuffered_def marshalSliceBuf_def marshalUnsignedInt_def)
  then show ?thesis by (auto simp: codes_at_def)
qed

lemma whisper_transforms: "\<exists>l. transformChatMessage (chat_sess (0, 0)) whisper_body chat_world = Ok (Inr l, chat_world)"
proof -
  have who: "chat_sess (0, 0) chat_world = one_conn (IdentScreenName [0x61])"
    by (simp add: chat_sess_def chat_world_def chat_mgr_def two_online_def sess_of_def slot_of_def)
  obtain info where info: "sess_TLVUserInfo (clock chat_world) (one_conn (IdentScreenName [0x61])) = Ok info"
    using one_conn_info by blast
  obtain b1 b2 where b: "MarshalBE (Some (TLVUserInfo_ty, TLVUserInfo_val info)) = (b1, Ok ())"
      "MarshalBE (Some (TLVRestBlock_ty, rest_block whisper_text)) = (b2, Ok ())"
    using marshal_blocks_ok by metis
  have not_bytes: "TLVUserInfo_ty \<noteq> TSlice TU8" "TLVRestBlock_ty \<noteq> TSlice TU8"
    by (simp_all add: TLVUserInfo_ty_def TLVRestBlock_ty_def)
  have essential: "filter essential whisper_text = whisper_text" by (simp add: whisper_text_def essential_def)
  have nodice: "parseDiceCommand [5] = None" by (simp add: parseDiceCommand_def rollDiceRgxp_def strip_prefix_def ascii_def)
  have block: "newChatTLVBlock whisper_body (one_conn (IdentScreenName [0x61])) whisper_text chat_world =
      Ok (Inr [\<lparr>Tag = ChatTLVSenderInformation, Value = b1\<rparr>, \<lparr>Tag = ChatTLVMessageInfo, Value = b2\<rparr>], chat_world)"
    using info NewTLVBE_ok [OF b(1)] NewTLVBE_ok [OF b(2)] by (simp add: newChatTLVBlock_def bindS_def getS_def liftS_def tlvsS_def not_bytes whisper_body_def
      ChatTLVPublicWhisperFlag_def ChatTLVWhisperToUser_def ChatTLVMessageInfo_def)
  have "extractChatMessage whisper_text chat_world = Ok (Inr [5], chat_world)"
    by (simp add: extractChatMessage_def whisper_text_def getS_def chat_world_def small_world_def plain_ext_def)
  moreover have "fix_encoding whisper_text = Ok whisper_text"
    by (simp add: fix_encoding_def whisper_text_def ChatTLVMessageInfoText_def ChatTLVMessageInfoEncoding_def)
  moreover have "TLVList_Bytes ChatTLVMessageInfo whisper_body = Some (fst (MarshalBE (Some (TLVRestBlock_ty, rest_block whisper_text))))"
    by (simp add: whisper_body_def ChatTLVMessageInfo_def ChatTLVWhisperToUser_def)
  moreover have "val_tlvs (vfield 0 (rest_block whisper_text)) = whisper_text"
    by (simp add: rest_block_def)
  ultimately show ?thesis
    by (simp add: transformChatMessage_def whisper_decodes bindS_def liftS_def getS_def who nodice essential block)
qed

lemma whisper_only_recipient_witness:
  "\<exists>ans W'. chat_ChannelMsgToHost (0, 0) 1 2 3 whisper_body chat_world = Ok (Inr ans, W') \<and> registry W' = registry chat_world \<and>
     sess_of (chat_mgr (chats W') 0) 0 = sess_of (chat_mgr (chats chat_world) 0) 0"
proof -
  obtain l where l: "transformChatMessage (chat_sess (0, 0)) whisper_body chat_world = Ok (Inr l, chat_world)"
    using whisper_transforms by blast
  have "\<exists>C. chat_RelayToScreenName [9] (IdentScreenName [0x62]) m (chats chat_world) = Ok C" for m
  proof -
    have b: "sess_of two_online 1 = one_conn (IdentScreenName [0x62])" by (simp add: two_online_def sess_of_def slot_of_def)
    have "HasLiveInstances (one_conn (IdentScreenName [0x62]))"
      by (simp add: HasLiveInstances_def one_conn_list) (simp add: one_conn_def live_def SetSignonComplete_def newInstance_def)
    then have "RetrieveSession (IdentScreenName [0x62]) two_online = Some 1"
      using b by (simp add: RetrieveSession_def) (simp add: two_online_def)
    moreover have "events (maybeRelayMessage m (one_conn (IdentScreenName [0x62]))) = []"
      by (simp add: maybeRelayMessage_def one_conn_def NewSession_def relay_to_def RelayMessageToInstance_def SetSignonComplete_def newInstance_def)
    ultimately show ?thesis
      by (simp add: chat_RelayToScreenName_def chat_world_def chat_mgr_def b [unfolded One_nat_def] torn_down_def Let_def)
  qed
  then obtain C where C: "chat_RelayToScreenName [9] (IdentScreenName [0x62]) (chat_msg 0 2 3 l) (chats chat_world) = Ok C" by blast
  have name: "NewIdentScreenName (unicode chat_world) [0x62] = IdentScreenName [0x62]" "cookies (chats chat_world) (0, 0) = [9]"
    by (simp_all add: chat_world_def small_world_def NewIdentScreenName_def ToLower_def is_ascii_def byte_lower_def)
  have tags: "TLVList_HasTag ChatTLVWhisperToUser whisper_body" "\<not> TLVList_HasTag ChatTLVPublicWhisperFlag whisper_body"
      "TLVList_String ChatTLVWhisperToUser whisper_body = ([0x62], True)"
    by (simp_all add: whisper_body_def ChatTLVPublicWhisperFlag_def ChatTLVWhisperToUser_def ChatTLVMessageInfo_def)
  have "\<exists>ans W'. chat_ChannelMsgToHost (0, 0) 1 2 3 whisper_body chat_world = Ok (Inr ans, W')"
    using C by (simp add: chat_ChannelMsgToHost_def chat_send_def Let_def bindS_def l getS_def ident_def chat_call_def retS_def name tags)
  then obtain ans W' where run: "chat_ChannelMsgToHost (0, 0) 1 2 3 whisper_body chat_world = Ok (Inr ans, W')" by blast
  have "RetrieveSession (NewIdentScreenName (unicode chat_world) [0x62]) (chat_mgr (chats chat_world) 0) \<noteq> Some 0"
    unfolding name by (simp add: RetrieveSession_def chat_world_def chat_mgr_def two_online_def)
  then show ?thesis
    using whisper_only_recipient [OF run tags(3,2), of 0 0] run by blast
qed

section \<open>Looking up a user who shuts one out\<close>

lemma profile_no_error:
  "bindS (tlvsS l) (\<lambda>l. bindS (user_info_of k) (\<lambda>info. retS (snac Locate LocateUserInfoReply rid ty (v info l)))) W \<noteq>
    Ok (Inr (snac Locate LocateErr rid' ty' v'), W')"
  by (auto elim!: bindS_cases simp: retS_def snac_def LocateUserInfoReply_def LocateErr_def)

text \<open>
  C29: Asking for the profile of another user is answered "not logged on", without profile, away message or user info and with
  nothing changed, exactly in two cases: the user has no live session; or one of the two has the other on a list (both with a
  buddy list mode), and the privacy mode of one shuts the other out. So hiding ends with the lists: whoever is online and
  denies everybody is still shown to a user whom they have on no list and who has them on none (\<open>stranger_not_blocked\<close>).
\<close>

theorem locate_hides_blocked:
  assumes "list_keys_ok (db W)" and "unicode_ok (unicode W)" and "faults W = []"
    and "a = identScreenName (sess i W)" and "b = NewIdentScreenName (unicode W) name" and "a \<noteq> b"
  shows "locate_UserInfoQuery i rid typ name W = Ok (Inr (newLocateErr rid ErrorCodeNotLoggedOn), W) \<longleftrightarrow>
    RetrieveSession b (registry W) = None \<or>
    related (screenName a) (screenName b) (db W) \<and>
      (shuts_out (db W) (screenName b) (screenName a) \<or> shuts_out (db W) (screenName a) (screenName b))"
proof -
  let ?rel = "store_Relationship (unicode W) a b (db W)"
  have f: "W\<lparr>faults := []\<rparr> = W" using assms(3) by (cases W) simp
  have norm: "NewIdentScreenName (unicode W) (screenName b) = b" using NewIdentScreenName_idem [OF assms(2)] assms(5) by simp
  have looked: "lookup_session i b W =
      Ok (Inr (if YouBlock ?rel \<or> BlocksYou ?rel then None else RetrieveSession b (registry W)), W)"
    using assms(4,6) by (auto simp: lookup_session_def me_def bindS_def getS_def retS_def find_session_def f
        assms(3) one_rel_run [unfolded bindS_def])
  have code: "locate_UserInfoQuery i rid typ name W = Ok (Inr (newLocateErr rid ErrorCodeNotLoggedOn), W) \<longleftrightarrow>
      YouBlock ?rel \<or> BlocksYou ?rel \<or> RetrieveSession b (registry W) = None"
    unfolding locate_UserInfoQuery_def ident_def bindS_getS assms(5) [symmetric] bindS_Ok [of "lookup_session i b", OF looked]
    using profile_no_error by (auto simp: newLocateErr_def retS_def split: option.split prod.split)
  show ?thesis
    unfolding code using relationship_keys [OF assms(1) norm, of a] by (auto simp: rel_between_def)
qed

lemma locate_hides_blocked_witness:
  "locate_UserInfoQuery (1, 0) 1 3 [0x61] (small_world True) = Ok (Inr (newLocateErr 1 ErrorCodeNotLoggedOn), small_world True)"
proof -
  have me: "identScreenName (sess (1, 0) (small_world True)) = IdentScreenName [0x62]" "faults (small_world True) = []"
      "unicode (small_world True) = ascii_tables"
    by (simp_all add: sess_def sess_of_def slot_of_def two_online_def one_conn_def small_world_def)
  have name: "NewIdentScreenName ascii_tables [0x61] = IdentScreenName [0x61]"
    by (simp add: NewIdentScreenName_def ToLower_def is_ascii_def byte_lower_def)
  have "related [0x62] [0x61] (db (small_world True))"
    by (simp add: related_def has_buddy_def mentions_def client_lists_def server_lists_def pd_mode_def small_defs)
  moreover have "shuts_out (db (small_world True)) [0x61] [0x62]"
    by (simp add: shuts_out_def has_buddy_def mentions_def client_lists_def server_lists_def pd_mode_def
        denies_def permits_def pd_modes small_defs)
  ultimately show ?thesis
    using locate_hides_blocked [of "small_world True" "IdentScreenName [0x62]" "(1, 0)" "IdentScreenName [0x61]" "[0x61]" 1 3]
      tables_keys [OF small_world_ok(1), of True] small_world_ok unicode_ok_ascii_tables me name by simp
qed

end
