(* ===== verification/GoText.thy ===== *)
theory GoText
  imports Strings
begin

text \<open>
  More of Go's string functions: \<open>strings.TrimSpace\<close> and its relatives on byte strings.
\<close>

section \<open>White space\<close>

text \<open>
  \<open>unicode.IsSpace\<close>, as the encodings of its runes. In UTF-8 a rune's encoding starts at the only place
  where a decoder going forward or backward finds it, so that trimming runes is trimming encodings.
\<close>

definition space_runes :: "nat list" where
  "space_runes = [0x20, 0x09, 0x0A, 0x0B, 0x0C, 0x0D, 0x85, 0xA0, 0x1680] @ [0x2000 ..< 0x200B] @
     [0x2028, 0x2029, 0x202F, 0x205F, 0x3000]"

definition spaces :: "bytes list" where
  "spaces = map encode_rune space_runes"

function trim_prefixes :: "bytes list \<Rightarrow> bytes \<Rightarrow> bytes" where
  "trim_prefixes ps s =
     (case find (\<lambda>p. p \<noteq> [] \<and> length p \<le> length s \<and> take (length p) s = p) ps of
        None \<Rightarrow> s
      | Some p \<Rightarrow> trim_prefixes ps (drop (length p) s))"
  by pat_completeness auto
termination
  by (relation "measure (\<lambda>(_, s). length s)") (auto simp: find_Some_iff intro!: diff_less)

declare trim_prefixes.simps [simp del]

definition TrimLeftSpace :: "bytes \<Rightarrow> bytes" where
  "TrimLeftSpace s = trim_prefixes spaces s"

definition TrimSpace :: "bytes \<Rightarrow> bytes" where
  "TrimSpace s = rev (trim_prefixes (map rev spaces) (rev (TrimLeftSpace s)))"

lemma trim_prefixes_suffix: "\<exists>p. s = p @ trim_prefixes ps s"
proof (induction ps s rule: trim_prefixes.induct)
  case (1 ps s)
  show ?case
  proof (cases "find (\<lambda>p. p \<noteq> [] \<and> length p \<le> length s \<and> take (length p) s = p) ps")
    case (Some p)
    then obtain q where "drop (length p) s = q @ trim_prefixes ps (drop (length p) s)"
      using 1 by blast
    then have "s = (take (length p) s @ q) @ trim_prefixes ps (drop (length p) s)"
      by (metis append.assoc append_take_drop_id)
    then show ?thesis by (subst trim_prefixes.simps) (simp add: Some, metis append.assoc)
  qed (simp add: trim_prefixes.simps)
qed

lemma trim_prefixes_stops:
  "p \<in> set ps \<Longrightarrow> p \<noteq> [] \<Longrightarrow> \<not> (length p \<le> length (trim_prefixes ps s) \<and> take (length p) (trim_prefixes ps s) = p)"
proof (induction ps s rule: trim_prefixes.induct)
  case (1 ps s)
  then show ?case
    by (subst (1 2) trim_prefixes.simps) (auto simp: find_None_iff split: option.split)
qed

lemma trim_prefixes_idem: "trim_prefixes ps (trim_prefixes ps s) = trim_prefixes ps s"
  by (subst trim_prefixes.simps) (auto simp: find_Some_iff split: option.split dest: nth_mem trim_prefixes_stops)

end
