(* ===== verification/ICQService.thy ===== *)
theory ICQService
  imports OService GoText
begin

text \<open>
  The ICQ services (\<open>foodgroup/icq.go\<close>): searches, profiles and their changes, and the delivery of messages
  kept while an ICQ user was away. A request comes with the sequence number the reply repeats; replies
  go to every connection of the account, except for stored messages.
\<close>

section \<open>Numbers\<close>

definition ICQErr :: u16 where "ICQErr = 0x0001"
definition ICQDBQuery :: u16 where "ICQDBQuery = 0x0002"
definition ICQDBReply :: u16 where "ICQDBReply = 0x0003"
definition ICQTLVTagsMetadata :: u16 where "ICQTLVTagsMetadata = 0x0001"
definition ICQTLVTagsFirstName :: u16 where "ICQTLVTagsFirstName = 0x0140"
definition ICQTLVTagsLastName :: u16 where "ICQTLVTagsLastName = 0x014A"
definition ICQTLVTagsNickname :: u16 where "ICQTLVTagsNickname = 0x0154"
definition ICQTLVTagsAgeRangeSearch :: u16 where "ICQTLVTagsAgeRangeSearch = 0x0168"
definition ICQTLVTagsGender :: u16 where "ICQTLVTagsGender = 0x017C"
definition ICQTLVTagsSpokenLanguage :: u16 where "ICQTLVTagsSpokenLanguage = 0x0186"
definition ICQTLVTagsHomeCityName :: u16 where "ICQTLVTagsHomeCityName = 0x0190"
definition ICQTLVTagsHomeStateAbbr :: u16 where "ICQTLVTagsHomeStateAbbr = 0x019A"
definition ICQTLVTagsHomeCountryCode :: u16 where "ICQTLVTagsHomeCountryCode = 0x01A4"
definition ICQTLVTagsWorkCompanyName :: u16 where "ICQTLVTagsWorkCompanyName = 0x01AE"
definition ICQTLVTagsWorkDepartmentName :: u16 where "ICQTLVTagsWorkDepartmentName = 0x01B8"
definition ICQTLVTagsWorkPositionTitle :: u16 where "ICQTLVTagsWorkPositionTitle = 0x01C2"
definition ICQTLVTagsWorkOccupationCode :: u16 where "ICQTLVTagsWorkOccupationCode = 0x01CC"
definition ICQTLVTagsAffiliationsNode :: u16 where "ICQTLVTagsAffiliationsNode = 0x01FE"
definition ICQTLVTagsInterestsNode :: u16 where "ICQTLVTagsInterestsNode = 0x01EA"
definition ICQTLVTagsPastInfoNode :: u16 where "ICQTLVTagsPastInfoNode = 0x01D6"
definition ICQTLVTagsHomepageCategoryKeywords :: u16 where "ICQTLVTagsHomepageCategoryKeywords = 0x0212"
definition ICQTLVTagsHomepageURL :: u16 where "ICQTLVTagsHomepageURL = 0x0213"
definition ICQTLVTagsWhitepagesSearchKeywords :: u16 where "ICQTLVTagsWhitepagesSearchKeywords = 0x0226"
definition ICQTLVTagsSearchOnlineUsersFlag :: u16 where "ICQTLVTagsSearchOnlineUsersFlag = 0x0230"
definition ICQTLVTagsBirthdayInfo :: u16 where "ICQTLVTagsBirthdayInfo = 0x023A"
definition ICQTLVTagsNotesText :: u16 where "ICQTLVTagsNotesText = 0x0258"
definition ICQTLVTagsHomeStreetAddress :: u16 where "ICQTLVTagsHomeStreetAddress = 0x0262"
definition ICQTLVTagsHomeZipCode :: u16 where "ICQTLVTagsHomeZipCode = 0x026C"
definition ICQTLVTagsHomePhoneNumber :: u16 where "ICQTLVTagsHomePhoneNumber = 0x0276"
definition ICQTLVTagsHomeFaxNumber :: u16 where "ICQTLVTagsHomeFaxNumber = 0x0280"
definition ICQTLVTagsHomeCellularPhoneNumber :: u16 where "ICQTLVTagsHomeCellularPhoneNumber = 0x028A"
definition ICQTLVTagsWorkStreetAddress :: u16 where "ICQTLVTagsWorkStreetAddress = 0x0294"
definition ICQTLVTagsWorkCityName :: u16 where "ICQTLVTagsWorkCityName = 0x029E"
definition ICQTLVTagsWorkStateName :: u16 where "ICQTLVTagsWorkStateName = 0x02A8"
definition ICQTLVTagsWorkCountryCode :: u16 where "ICQTLVTagsWorkCountryCode = 0x02B2"
definition ICQTLVTagsWorkZipCode :: u16 where "ICQTLVTagsWorkZipCode = 0x02BC"
definition ICQTLVTagsWorkPhoneNumber :: u16 where "ICQTLVTagsWorkPhoneNumber = 0x02C6"
definition ICQTLVTagsWorkFaxNumber :: u16 where "ICQTLVTagsWorkFaxNumber = 0x02D0"
definition ICQTLVTagsWorkWebpageURL :: u16 where "ICQTLVTagsWorkWebpageURL = 0x02DA"
definition ICQTLVTagsAuthorizationPermissions :: u16 where "ICQTLVTagsAuthorizationPermissions = 0x02F8"
definition ICQTLVTagsShowWebStatusPermissions :: u16 where "ICQTLVTagsShowWebStatusPermissions = 0x030C"
definition ICQTLVTagsGMTOffset :: u16 where "ICQTLVTagsGMTOffset = 0x0316"
definition ICQTLVTagsOriginallyFromCity :: u16 where "ICQTLVTagsOriginallyFromCity = 0x0320"
definition ICQTLVTagsOriginallyFromState :: u16 where "ICQTLVTagsOriginallyFromState = 0x032A"
definition ICQTLVTagsOriginallyFromCountryCode :: u16 where "ICQTLVTagsOriginallyFromCountryCode = 0x0334"
definition ICQStatusCodeOK :: u8 where "ICQStatusCodeOK = 0x0A"
definition ICQStatusCodeFail :: u8 where "ICQStatusCodeFail = 0x32"
definition ICQStatusCodeErr :: u8 where "ICQStatusCodeErr = 0x14"
definition ICQDBQueryOfflineMsgReply :: u16 where "ICQDBQueryOfflineMsgReply = 0x0041"
definition ICQDBQueryOfflineMsgReplyLast :: u16 where "ICQDBQueryOfflineMsgReplyLast = 0x0042"
definition ICQDBQueryMetaReply :: u16 where "ICQDBQueryMetaReply = 0x07DA"
definition ICQUserFlagPublishEmailYes :: u8 where "ICQUserFlagPublishEmailYes = 0"
definition ICQUserFlagPublishEmailNo :: u8 where "ICQUserFlagPublishEmailNo = 1"
definition ICQDBQueryMetaReplySetBasicInfo :: u16 where "ICQDBQueryMetaReplySetBasicInfo = 0x0064"
definition ICQDBQueryMetaReplySetWorkInfo :: u16 where "ICQDBQueryMetaReplySetWorkInfo = 0x006E"
definition ICQDBQueryMetaReplySetMoreInfo :: u16 where "ICQDBQueryMetaReplySetMoreInfo = 0x0078"
definition ICQDBQueryMetaReplySetNotes :: u16 where "ICQDBQueryMetaReplySetNotes = 0x0082"
definition ICQDBQueryMetaReplySetEmails :: u16 where "ICQDBQueryMetaReplySetEmails = 0x0087"
definition ICQDBQueryMetaReplySetInterests :: u16 where "ICQDBQueryMetaReplySetInterests = 0x008C"
definition ICQDBQueryMetaReplySetAffiliations :: u16 where "ICQDBQueryMetaReplySetAffiliations = 0x0096"
definition ICQDBQueryMetaReplySetPermissions :: u16 where "ICQDBQueryMetaReplySetPermissions = 0x00A0"
definition ICQDBQueryMetaReplySetICQPhone :: u16 where "ICQDBQueryMetaReplySetICQPhone = 0x031E"
definition ICQDBQueryMetaReplySetFullInfo :: u16 where "ICQDBQueryMetaReplySetFullInfo = 0x0C3F"
definition ICQDBQueryMetaReplyBasicInfo :: u16 where "ICQDBQueryMetaReplyBasicInfo = 0x00C8"
definition ICQDBQueryMetaReplyWorkInfo :: u16 where "ICQDBQueryMetaReplyWorkInfo = 0x00D2"
definition ICQDBQueryMetaReplyMoreInfo :: u16 where "ICQDBQueryMetaReplyMoreInfo = 0x00DC"
definition ICQDBQueryMetaReplyNotes :: u16 where "ICQDBQueryMetaReplyNotes = 0x00E6"
definition ICQDBQueryMetaReplyExtEmailInfo :: u16 where "ICQDBQueryMetaReplyExtEmailInfo = 0x00EB"
definition ICQDBQueryMetaReplyInterests :: u16 where "ICQDBQueryMetaReplyInterests = 0x00F0"
definition ICQDBQueryMetaReplyAffiliations :: u16 where "ICQDBQueryMetaReplyAffiliations = 0x00FA"
definition ICQDBQueryMetaReplyShortInfo :: u16 where "ICQDBQueryMetaReplyShortInfo = 0x0104"
definition ICQDBQueryMetaReplyHomePageCat :: u16 where "ICQDBQueryMetaReplyHomePageCat = 0x010E"
definition ICQDBQueryMetaReplyUserFound :: u16 where "ICQDBQueryMetaReplyUserFound = 0x01A4"
definition ICQDBQueryMetaReplyLastUserFound :: u16 where "ICQDBQueryMetaReplyLastUserFound = 0x01AE"
definition ICQDBQueryMetaReplyXMLData :: u16 where "ICQDBQueryMetaReplyXMLData = 0x08A2"
definition ICBMExtendedMsgTypePlain :: u8 where "ICBMExtendedMsgTypePlain = 0x01"
definition SNACFlagsMoreToCome :: u16 where "SNACFlagsMoreToCome = 0x0001"

lemmas icqservice_consts = ICQErr_def ICQDBQuery_def ICQDBReply_def ICQTLVTagsMetadata_def
  ICQTLVTagsFirstName_def ICQTLVTagsLastName_def ICQTLVTagsNickname_def 
  ICQTLVTagsAgeRangeSearch_def ICQTLVTagsGender_def ICQTLVTagsSpokenLanguage_def ICQTLVTagsHomeCityName_def
  ICQTLVTagsHomeStateAbbr_def ICQTLVTagsHomeCountryCode_def ICQTLVTagsWorkCompanyName_def
  ICQTLVTagsWorkDepartmentName_def ICQTLVTagsWorkPositionTitle_def ICQTLVTagsWorkOccupationCode_def
  ICQTLVTagsAffiliationsNode_def ICQTLVTagsInterestsNode_def ICQTLVTagsPastInfoNode_def
  ICQTLVTagsHomepageCategoryKeywords_def ICQTLVTagsHomepageURL_def ICQTLVTagsWhitepagesSearchKeywords_def
  ICQTLVTagsSearchOnlineUsersFlag_def ICQTLVTagsBirthdayInfo_def ICQTLVTagsNotesText_def
  ICQTLVTagsHomeStreetAddress_def ICQTLVTagsHomeZipCode_def ICQTLVTagsHomePhoneNumber_def
  ICQTLVTagsHomeFaxNumber_def ICQTLVTagsHomeCellularPhoneNumber_def ICQTLVTagsWorkStreetAddress_def
  ICQTLVTagsWorkCityName_def ICQTLVTagsWorkStateName_def ICQTLVTagsWorkCountryCode_def ICQTLVTagsWorkZipCode_def
  ICQTLVTagsWorkPhoneNumber_def ICQTLVTagsWorkFaxNumber_def ICQTLVTagsWorkWebpageURL_def
  ICQTLVTagsAuthorizationPermissions_def ICQTLVTagsShowWebStatusPermissions_def ICQTLVTagsGMTOffset_def
  ICQTLVTagsOriginallyFromCity_def ICQTLVTagsOriginallyFromState_def ICQTLVTagsOriginallyFromCountryCode_def
  ICQStatusCodeOK_def ICQStatusCodeFail_def ICQStatusCodeErr_def ICQDBQueryOfflineMsgReply_def
  ICQDBQueryOfflineMsgReplyLast_def ICQDBQueryMetaReply_def ICQUserFlagPublishEmailYes_def
  ICQUserFlagPublishEmailNo_def ICQDBQueryMetaReplySetBasicInfo_def ICQDBQueryMetaReplySetWorkInfo_def
  ICQDBQueryMetaReplySetMoreInfo_def ICQDBQueryMetaReplySetNotes_def ICQDBQueryMetaReplySetEmails_def
  ICQDBQueryMetaReplySetInterests_def ICQDBQueryMetaReplySetAffiliations_def
  ICQDBQueryMetaReplySetPermissions_def ICQDBQueryMetaReplySetICQPhone_def ICQDBQueryMetaReplySetFullInfo_def
  ICQDBQueryMetaReplyBasicInfo_def ICQDBQueryMetaReplyWorkInfo_def ICQDBQueryMetaReplyMoreInfo_def
  ICQDBQueryMetaReplyNotes_def ICQDBQueryMetaReplyExtEmailInfo_def ICQDBQueryMetaReplyInterests_def
  ICQDBQueryMetaReplyAffiliations_def ICQDBQueryMetaReplyShortInfo_def ICQDBQueryMetaReplyHomePageCat_def
  ICQDBQueryMetaReplyUserFound_def ICQDBQueryMetaReplyLastUserFound_def ICQDBQueryMetaReplyXMLData_def
  ICBMExtendedMsgTypePlain_def SNACFlagsMoreToCome_def

section \<open>Replies\<close>

definition replySNAC :: "ty \<times> val \<Rightarrow> u32 \<Rightarrow> u16 \<Rightarrow> SNACMessage svc" where
  "replySNAC message rid flags =
     bindS (tlvsS [NewTLVBE ICQTLVTagsMetadata (ICQMessageReplyEnvelope_ty, VStruct [VIface (fst message) (snd message)])])
       (\<lambda>l. retS (flagged flags (snac ICQ ICQDBReply rid SNAC_0x15_0x02_DBReply_ty (VStruct [rest_block l]))))"

definition icq_reply :: "inst_ref \<Rightarrow> ty \<times> val \<Rightarrow> u32 \<Rightarrow> u16 \<Rightarrow> unit svc" where
  "icq_reply i message rid flags =
     bindS (replySNAC message rid flags) (\<lambda>m. bindS (me i) (\<lambda>n. relay_user n m))"

definition icq_replyToSelf :: "inst_ref \<Rightarrow> ty \<times> val \<Rightarrow> u32 \<Rightarrow> u16 \<Rightarrow> unit svc" where
  "icq_replyToSelf i message rid flags = bindS (replySNAC message rid flags) (relay_self i)"

definition metadata :: "inst_ref \<Rightarrow> u16 \<Rightarrow> u16 \<Rightarrow> val svc" where
  "metadata i reqType seq = getS (\<lambda>W. VStruct [VU32 (sess_uin (sess i W)), VU16 reqType, VU16 seq])"

definition zeros :: "nat \<Rightarrow> val" where
  "zeros n = vbytes (replicate n 0)"

text \<open>A reply of the meta kind: metadata, sub type, status and what follows.\<close>

definition meta_reply :: "inst_ref \<Rightarrow> u16 \<Rightarrow> ty \<Rightarrow> u16 \<Rightarrow> u8 \<Rightarrow> val list \<Rightarrow> u32 \<Rightarrow> u16 \<Rightarrow> unit svc" where
  "meta_reply i seq t subType success vs rid flags =
     bindS (metadata i ICQDBQueryMetaReply seq) (\<lambda>m.
       icq_reply i (t, VStruct ([m, VU16 subType, VU8 success] @ vs)) rid flags)"

definition reqAck :: "inst_ref \<Rightarrow> u16 \<Rightarrow> u16 \<Rightarrow> u32 \<Rightarrow> unit svc" where
  "reqAck i seq subType rid =
     meta_reply i seq ICQ_0x07DA_0x00DC_DBQueryMetaReplyMoreInfo_ty subType ICQStatusCodeOK
       [VU16 0, VU8 0, VString [], VU16 0, VU8 0, VU8 0, VU8 0, VU8 0, VU8 0, VU16 0, VString [], VString [], VU16 0, VU8 0, zeros 4]
       rid 0"

section \<open>Search results\<close>

text \<open>Year and day of the year in UTC.\<close>

definition utc_day :: "int \<Rightarrow> nat \<times> nat" where
  "utc_day t = carry_days 1970 (nat (Unix t div 86400) + 1)"

definition search_record :: "u32 \<Rightarrow> bytes \<Rightarrow> bytes \<Rightarrow> bytes \<Rightarrow> bytes \<Rightarrow> u8 \<Rightarrow> u16 \<Rightarrow> u8 \<Rightarrow> u16 \<Rightarrow> val" where
  "search_record uin nick first_name last_name email auth online gender age =
     VStruct [VU32 uin, VString nick, VString first_name, VString last_name, VString email, VU8 auth, VU16 online,
       VU8 gender, VU16 age]"

definition empty_record :: val where
  "empty_record = search_record 0 [] [] [] [] 0 0 0 0"

definition createResult :: "User \<Rightarrow> val svc" where
  "createResult u =
     bindS (find_session (Ident u)) (\<lambda>k. bindS (getS clock) (\<lambda>now.
       let b = Basic (Info u) in
       retS (search_record (UIN (Ident u)) (basic_Nickname b) (basic_FirstName b) (basic_LastName b) (basic_EmailAddress b)
         (if perm_AuthRequired (Permissions (Info u)) then 0 else 1) (if k = None then 0 else 1)
         (ucast (Gender (More (Info u)))) (Age (utc_day now) u))))"

definition last_found :: "inst_ref \<Rightarrow> u16 \<Rightarrow> u8 \<Rightarrow> val \<Rightarrow> u32 \<Rightarrow> unit svc" where
  "last_found i seq success details rid =
     meta_reply i seq ICQ_0x07DA_0x01AE_DBQueryMetaReplyLastUserFound_ty ICQDBQueryMetaReplyLastUserFound success
       [details, VU32 0, zeros 8] rid 0"

definition replySearchHit :: "inst_ref \<Rightarrow> val \<Rightarrow> u32 \<Rightarrow> bool \<Rightarrow> u16 \<Rightarrow> unit svc" where
  "replySearchHit i details rid is_last seq =
     (if is_last then last_found i seq ICQStatusCodeOK details rid
      else meta_reply i seq ICQ_0x07DA_0x01A4_DBQueryMetaReplyUserFound_ty ICQDBQueryMetaReplyUserFound ICQStatusCodeOK
        [details, zeros 12] rid SNACFlagsMoreToCome)"

definition reportSearchFailure :: "inst_ref \<Rightarrow> u16 \<Rightarrow> u32 \<Rightarrow> unit svc" where
  "reportSearchFailure i seq rid = last_found i seq ICQStatusCodeErr empty_record rid"

definition reportNoSearchResults :: "inst_ref \<Rightarrow> u16 \<Rightarrow> u32 \<Rightarrow> unit svc" where
  "reportNoSearchResults i seq rid = last_found i seq ICQStatusCodeFail empty_record rid"

fun reply_hits :: "inst_ref \<Rightarrow> u32 \<Rightarrow> u16 \<Rightarrow> User list \<Rightarrow> unit svc" where
  "reply_hits i rid seq [] = retS ()"
| "reply_hits i rid seq (u # us) =
     bindS (createResult u) (\<lambda>r.
       bindS (replySearchHit i r rid (us = []) seq) (\<lambda>_. reply_hits i rid seq us))"

text \<open>The answer to a search for many users, and to one for a single user.\<close>

definition report_users :: "inst_ref \<Rightarrow> u32 \<Rightarrow> u16 \<Rightarrow> service_error + User list \<Rightarrow> unit svc" where
  "report_users i rid seq found =
     (case found of
        Inl _ \<Rightarrow> reportSearchFailure i seq rid
      | Inr us \<Rightarrow> if us = [] then reportNoSearchResults i seq rid else reply_hits i rid seq us)"

definition report_user :: "inst_ref \<Rightarrow> u32 \<Rightarrow> u16 \<Rightarrow> service_error + User \<Rightarrow> unit svc" where
  "report_user i rid seq found =
     (case found of
        Inl err \<Rightarrow> if err = StoreErr ErrNoUser then reportNoSearchResults i seq rid else reportSearchFailure i seq rid
      | Inr u \<Rightarrow> bindS (createResult u) (\<lambda>r. replySearchHit i r rid True seq))"

section \<open>Searches\<close>

definition find_all :: "(unicode_tables \<Rightarrow> Store \<Rightarrow> store_error + 'a) \<Rightarrow> (service_error + 'a) svc" where
  "find_all q = bindS (getS unicode) (\<lambda>t. tryS (db_find (q t)))"

definition icq_FindByICQName :: "inst_ref \<Rightarrow> u32 \<Rightarrow> bytes \<Rightarrow> bytes \<Rightarrow> bytes \<Rightarrow> u16 \<Rightarrow> unit svc" where
  "icq_FindByICQName i rid first_name last_name nick seq =
     bindS (find_all (\<lambda>t. FindByICQName t first_name last_name nick)) (report_users i rid seq)"

definition icq_FindByICQEmail :: "inst_ref \<Rightarrow> u32 \<Rightarrow> bytes \<Rightarrow> u16 \<Rightarrow> unit svc" where
  "icq_FindByICQEmail i rid email seq = bindS (find_all (\<lambda>t. FindByICQEmail t email)) (report_user i rid seq)"

definition icq_FindByEmail3 :: "inst_ref \<Rightarrow> u32 \<Rightarrow> TLVList \<Rightarrow> u16 \<Rightarrow> unit svc" where
  "icq_FindByEmail3 i rid body seq =
     (case TLVList_Bytes ICQTLVTagsEmail body of
        None \<Rightarrow> failS (BadRequest ''unable to get email from request'')
      | Some b \<Rightarrow> bindS (liftS (fst (UnmarshalLE ICQEmail_ty b))) (\<lambda>v.
          icq_FindByICQEmail i rid (vstring (vfield 0 v)) seq))"

definition icq_FindByICQInterests :: "inst_ref \<Rightarrow> u32 \<Rightarrow> u16 \<Rightarrow> bytes \<Rightarrow> u16 \<Rightarrow> unit svc" where
  "icq_FindByICQInterests i rid code keywords seq =
     bindS (find_all (\<lambda>t. FindByICQInterests t code (split_at 0x2C keywords))) (report_users i rid seq)"

definition icq_FindByUIN :: "inst_ref \<Rightarrow> u32 \<Rightarrow> u32 \<Rightarrow> u16 \<Rightarrow> unit svc" where
  "icq_FindByUIN i rid uin seq = bindS (find_all (\<lambda>t. FindByUIN t uin)) (report_user i rid seq)"

definition icq_FindByUIN2 :: "inst_ref \<Rightarrow> u32 \<Rightarrow> TLVList \<Rightarrow> u16 \<Rightarrow> unit svc" where
  "icq_FindByUIN2 i rid body seq =
     bindS (liftS (TLVList_Uint32LE ICQTLVTagsUIN body)) (\<lambda>(uin, hasUIN).
       if \<not> hasUIN then failS (BadRequest ''unable to get UIN from request'')
       else icq_FindByUIN i rid uin seq)"

text \<open>The criteria of a white pages search; a node is a code with comma-separated keywords.\<close>

definition node_ty :: ty where
  "node_ty = TStruct '''' [Field ''Code'' None TU16, Field ''Keyword'' (Some ''len_prefix=uint16,nullterm'') TString]"

definition ages_ty :: ty where
  "ages_ty = TStruct '''' [Field ''MinAge'' None TU16, Field ''MaxAge'' None TU16]"

definition given :: "'a \<times> bool \<Rightarrow> 'a option" where
  "given p = (if snd p then Some (fst p) else None)"

definition search_node :: "u16 \<Rightarrow> TLVList \<Rightarrow> (u16 \<times> bytes) option svc" where
  "search_node tag body =
     (case TLVList_Bytes tag body of
        None \<Rightarrow> retS None
      | Some b \<Rightarrow> bindS (liftS (fst (UnmarshalLE node_ty b))) (\<lambda>v.
          retS (Some (vu16 (vfield 0 v), vstring (vfield 1 v)))))"

definition node_code :: "(u16 \<times> bytes) option \<Rightarrow> u16 option" where
  "node_code n = (case n of Some (c, kw) \<Rightarrow> if kw = [] then None else Some c | None \<Rightarrow> None)"

definition node_keywords :: "(bytes \<Rightarrow> bytes) \<Rightarrow> (u16 \<times> bytes) option \<Rightarrow> bytes list" where
  "node_keywords trim n = (case n of Some (c, kw) \<Rightarrow> if kw = [] then [] else map trim (split_at 0x2C kw) | None \<Rightarrow> [])"

definition search_ages :: "TLVList \<Rightarrow> (u16 \<times> u16) option svc" where
  "search_ages body =
     (case TLVList_Bytes ICQTLVTagsAgeRangeSearch body of
        None \<Rightarrow> retS None
      | Some b \<Rightarrow> bindS (liftS (fst (UnmarshalLE ages_ty b))) (\<lambda>v.
          retS (Some (vu16 (vfield 0 v), vu16 (vfield 1 v)))))"

definition white_pages_criteria :: "TLVList \<Rightarrow> ICQUserSearchCriteria svc" where
  "white_pages_criteria body =
     (let str = (\<lambda>tag. given (TLVList_ICQString tag body)) in
      bindS (liftS (TLVList_Uint32LE ICQTLVTagsUIN body)) (\<lambda>uin.
      bindS (search_ages body) (\<lambda>ages.
      bindS (liftS (TLVList_Uint16LE ICQTLVTagsHomeCountryCode body)) (\<lambda>country.
      bindS (liftS (TLVList_Uint16LE ICQTLVTagsWorkOccupationCode body)) (\<lambda>occupation.
      bindS (search_node ICQTLVTagsInterestsNode body) (\<lambda>interests.
      bindS (search_node ICQTLVTagsAffiliationsNode body) (\<lambda>affil.
      bindS (search_node ICQTLVTagsPastInfoNode body) (\<lambda>past.
      bindS (search_node ICQTLVTagsHomepageCategoryKeywords body) (\<lambda>page.
      retS \<lparr>crit_UIN = given uin,
        crit_FirstName = str ICQTLVTagsFirstName, crit_LastName = str ICQTLVTagsLastName,
        crit_NickName = str ICQTLVTagsNickname, crit_Email = str ICQTLVTagsEmail,
        crit_MinAge = map_option fst ages, crit_MaxAge = map_option snd ages,
        crit_Gender = given (TLVList_Uint8 ICQTLVTagsGender body),
        crit_SpokenLanguage = given (TLVList_Uint8 ICQTLVTagsSpokenLanguage body),
        crit_City = str ICQTLVTagsHomeCityName, crit_State = str ICQTLVTagsHomeStateAbbr,
        crit_CountryCode = given country, crit_Company = str ICQTLVTagsWorkCompanyName,
        crit_Position = str ICQTLVTagsWorkPositionTitle, crit_DepartmentName = str ICQTLVTagsWorkDepartmentName,
        crit_OccupationCode = given occupation,
        crit_InterestsCode = node_code interests, crit_InterestsKeywords = node_keywords id interests,
        crit_AffiliationsCode = node_code affil, crit_AffiliationsKeywords = node_keywords TrimSpace affil,
        crit_PastAffiliationsCode = node_code past, crit_PastAffiliationsKeywords = node_keywords TrimSpace past,
        crit_HomePageCategoryIndex = map_option fst page, crit_HomePageKeywords = node_keywords TrimSpace page,
        crit_AnyKeyword = str ICQTLVTagsWhitepagesSearchKeywords\<rparr>)))))))))"

definition online_only :: "TLVList \<Rightarrow> User list \<Rightarrow> User list svc" where
  "online_only body us =
     (case TLVList_Uint8 ICQTLVTagsSearchOnlineUsersFlag body of (f, ok) \<Rightarrow>
        if ok \<and> f \<noteq> 0 then getS (\<lambda>W. filter (\<lambda>u. RetrieveSession (Ident u) (registry W) \<noteq> None) us) else retS us)"

definition icq_FindByWhitePages2 :: "inst_ref \<Rightarrow> u32 \<Rightarrow> TLVList \<Rightarrow> u16 \<Rightarrow> unit svc" where
  "icq_FindByWhitePages2 i rid body seq =
     bindS (white_pages_criteria body) (\<lambda>c.
       bindS (getS (\<lambda>W. int (fst (utc_day (clock W))))) (\<lambda>year.
         bindS (find_all (\<lambda>t. SearchICQUsers t year c)) (\<lambda>found.
           case found of
             Inl err \<Rightarrow> if err = StoreErr ErrICQSearchEmptyCriteria then reportNoSearchResults i seq rid
                        else reportSearchFailure i seq rid
           | Inr us \<Rightarrow> bindS (online_only body us) (\<lambda>us'. report_users i rid seq (Inr us')))))"

section \<open>Profiles\<close>

definition user_by_uin :: "u32 \<Rightarrow> User svc" where
  "user_by_uin uin = bindS (getS unicode) (\<lambda>t. db_find (FindByUIN t uin))"

definition icq_userInfo :: "inst_ref \<Rightarrow> User \<Rightarrow> u32 \<Rightarrow> u16 \<Rightarrow> u16 \<Rightarrow> unit svc" where
  "icq_userInfo i u rid seq flags =
     (let b = Basic (Info u); p = Permissions (Info u) in
      meta_reply i seq ICQ_0x07DA_0x00C8_DBQueryMetaReplyBasicInfo_ty ICQDBQueryMetaReplyBasicInfo ICQStatusCodeOK
        [VString (basic_Nickname b), VString (basic_FirstName b), VString (basic_LastName b), VString (basic_EmailAddress b),
         VString (basic_City b), VString (basic_State b), VString (basic_Phone b), VString (basic_Fax b),
         VString (basic_Address b), VString (basic_CellPhone b), VString (basic_ZIPCode b), VU16 (basic_CountryCode b),
         VU8 (basic_GMTOffset b), VU8 (if perm_AuthRequired p then 0 else 1), VU8 (if perm_WebAware p then 1 else 0), VU8 0,
         VU8 (if basic_PublishEmail b then ICQUserFlagPublishEmailYes else ICQUserFlagPublishEmailNo)]
        rid flags)"

definition icq_moreUserInfo :: "inst_ref \<Rightarrow> User \<Rightarrow> u32 \<Rightarrow> u16 \<Rightarrow> u16 \<Rightarrow> unit svc" where
  "icq_moreUserInfo i u rid seq flags =
     bindS (getS clock) (\<lambda>now.
       let b = Basic (Info u); m = More (Info u) in
       meta_reply i seq ICQ_0x07DA_0x00DC_DBQueryMetaReplyMoreInfo_ty ICQDBQueryMetaReplyMoreInfo ICQStatusCodeOK
         [VU16 (Age (utc_day now) u), VU8 (ucast (Gender m)), VString (HomePageAddr m), VU16 (BirthYear m), VU8 (BirthMonth m),
          VU8 (BirthDay m), VU8 (Lang1 m), VU8 (Lang2 m), VU8 (Lang3 m), VU16 0, VString (basic_City b),
          VString (basic_State b), VU16 (basic_CountryCode b), VU8 (basic_GMTOffset b), zeros 4] rid flags)"

definition icq_extraEmails :: "inst_ref \<Rightarrow> u32 \<Rightarrow> u16 \<Rightarrow> u16 \<Rightarrow> unit svc" where
  "icq_extraEmails i rid seq flags =
     meta_reply i seq ICQ_0x07DA_0x00EB_DBQueryMetaReplyExtEmailInfo_ty ICQDBQueryMetaReplyExtEmailInfo ICQStatusCodeOK
       [VList []] rid flags"

definition icq_homepageCat :: "inst_ref \<Rightarrow> u32 \<Rightarrow> u16 \<Rightarrow> u16 \<Rightarrow> unit svc" where
  "icq_homepageCat i rid seq flags =
     meta_reply i seq ICQ_0x07DA_0x010E_DBQueryMetaReplyHomePageCat_ty ICQDBQueryMetaReplyHomePageCat ICQStatusCodeOK
       [VU8 0, VU16 0, VString [], VU8 0] rid flags"

definition icq_workInfo :: "inst_ref \<Rightarrow> User \<Rightarrow> u32 \<Rightarrow> u16 \<Rightarrow> u16 \<Rightarrow> unit svc" where
  "icq_workInfo i u rid seq flags =
     (let w = Work (Info u) in
      meta_reply i seq ICQ_0x07DA_0x00D2_DBQueryMetaReplyWorkInfo_ty ICQDBQueryMetaReplyWorkInfo ICQStatusCodeOK
        [VStruct [VString (work_City w), VString (work_State w), VString (work_Phone w), VString (work_Fax w),
          VString (work_Address w), VString (work_ZIPCode w), VU16 (work_CountryCode w), VString (work_Company w),
          VString (work_Department w), VString (work_Position w), VU16 (work_OccupationCode w), VString (work_WebPage w)]]
        rid flags)"

definition icq_notes :: "inst_ref \<Rightarrow> User \<Rightarrow> u32 \<Rightarrow> u16 \<Rightarrow> u16 \<Rightarrow> unit svc" where
  "icq_notes i u rid seq flags =
     meta_reply i seq ICQ_0x07DA_0x00E6_DBQueryMetaReplyNotes_ty ICQDBQueryMetaReplyNotes ICQStatusCodeOK
       [VStruct [VString (notes_Notes (Notes (Info u)))]] rid flags"

definition slots_val :: "(u16 \<times> bytes) list \<Rightarrow> val" where
  "slots_val ss = VList (map (\<lambda>(c, k). VStruct [VU16 c, VString k]) ss)"

definition icq_interests :: "inst_ref \<Rightarrow> User \<Rightarrow> u32 \<Rightarrow> u16 \<Rightarrow> u16 \<Rightarrow> unit svc" where
  "icq_interests i u rid seq flags =
     (let n = Interests (Info u) in
      meta_reply i seq ICQ_0x07DA_0x00F0_DBQueryMetaReplyInterests_ty ICQDBQueryMetaReplyInterests ICQStatusCodeOK
        [slots_val [(interest_Code1 n, interest_Keyword1 n), (interest_Code2 n, interest_Keyword2 n),
           (interest_Code3 n, interest_Keyword3 n), (interest_Code4 n, interest_Keyword4 n)]] rid flags)"

definition icq_affiliations :: "inst_ref \<Rightarrow> User \<Rightarrow> u32 \<Rightarrow> u16 \<Rightarrow> u16 \<Rightarrow> unit svc" where
  "icq_affiliations i u rid seq flags =
     (let a = Affiliations (Info u) in
      meta_reply i seq ICQ_0x07DA_0x00FA_DBQueryMetaReplyAffiliations_ty ICQDBQueryMetaReplyAffiliations ICQStatusCodeOK
        [VStruct
          [slots_val [(affil_PastCode1 a, affil_PastKeyword1 a), (affil_PastCode2 a, affil_PastKeyword2 a),
             (affil_PastCode3 a, affil_PastKeyword3 a)],
           slots_val [(affil_CurrentCode1 a, affil_CurrentKeyword1 a), (affil_CurrentCode2 a, affil_CurrentKeyword2 a),
             (affil_CurrentCode3 a, affil_CurrentKeyword3 a)]]] rid flags)"

definition FullUserInfo :: "inst_ref \<Rightarrow> u32 \<Rightarrow> u32 \<Rightarrow> u16 \<Rightarrow> unit svc" where
  "FullUserInfo i rid uin seq =
     bindS (user_by_uin uin) (\<lambda>u.
       let more = SNACFlagsMoreToCome in
       bindS (icq_userInfo i u rid seq more) (\<lambda>_.
       bindS (icq_moreUserInfo i u rid seq more) (\<lambda>_.
       bindS (icq_extraEmails i rid seq more) (\<lambda>_.
       bindS (icq_homepageCat i rid seq more) (\<lambda>_.
       bindS (icq_workInfo i u rid seq more) (\<lambda>_.
       bindS (icq_notes i u rid seq more) (\<lambda>_.
       bindS (icq_interests i u rid seq more) (\<lambda>_.
         icq_affiliations i u rid seq 0))))))))"

definition ShortUserInfo :: "inst_ref \<Rightarrow> u32 \<Rightarrow> u32 \<Rightarrow> u16 \<Rightarrow> unit svc" where
  "ShortUserInfo i rid uin seq =
     bindS (tryS (user_by_uin uin)) (\<lambda>found.
       case found of
         Inl err \<Rightarrow>
           if err = StoreErr ErrNoUser then
             meta_reply i seq ICQ_0x07DA_0x0104_DBQueryMetaReplyShortInfo_ty ICQDBQueryMetaReplyShortInfo ICQStatusCodeErr
               [VString [], VString [], VString [], VString [], VU8 0, VU8 0, VU8 0] rid 0
           else failS err
       | Inr u \<Rightarrow>
           let b = Basic (Info u) in
           meta_reply i seq ICQ_0x07DA_0x0104_DBQueryMetaReplyShortInfo_ty ICQDBQueryMetaReplyShortInfo ICQStatusCodeOK
             [VString (basic_Nickname b), VString (basic_FirstName b), VString (basic_LastName b), VString (basic_EmailAddress b),
              VU8 (if perm_AuthRequired (Permissions (Info u)) then 0 else 1), VU8 0, VU8 (ucast (Gender (More (Info u))))]
             rid 0)"

definition XMLReqData :: "inst_ref \<Rightarrow> u32 \<Rightarrow> u16 \<Rightarrow> unit svc" where
  "XMLReqData i rid seq =
     meta_reply i seq ICQ_0x07DA_0x08A2_DBQueryMetaReplyXMLData_ty ICQDBQueryMetaReplyXMLData ICQStatusCodeErr [VString []] rid 0"


section \<open>Changing the profile\<close>

definition save_profile :: "inst_ref \<Rightarrow> u32 \<Rightarrow> u16 \<Rightarrow> u16 \<Rightarrow> (IdentScreenName \<Rightarrow> Store \<Rightarrow> store_error option \<times> Store) \<Rightarrow> unit svc" where
  "save_profile i rid seq ack f = bindS (me i) (\<lambda>n. bindS (db_exec (f n)) (\<lambda>_. reqAck i seq ack rid))"

text \<open>The code and keyword of each element of a decoded list.\<close>

definition slots_of :: "val \<Rightarrow> (u16 \<times> bytes) list" where
  "slots_of v = map (\<lambda>e. (vu16 (vfield 0 e), vstring (vfield 1 e))) (vlist v)"

definition icq_SetAffiliations :: "inst_ref \<Rightarrow> u32 \<Rightarrow> val \<Rightarrow> u16 \<Rightarrow> unit svc" where
  "icq_SetAffiliations i rid body seq =
     (case (slots_of (vfield 0 body), slots_of (vfield 1 body)) of
        ([(p1, q1), (p2, q2), (p3, q3)], [(c1, k1), (c2, k2), (c3, k3)]) \<Rightarrow>
          save_profile i rid seq ICQDBQueryMetaReplySetAffiliations (\<lambda>n. SetAffiliations n
            (zero_ICQAffiliations\<lparr>affil_PastCode1 := p1, affil_PastKeyword1 := q1, affil_PastCode2 := p2, affil_PastKeyword2 := q2,
              affil_PastCode3 := p3, affil_PastKeyword3 := q3, affil_CurrentCode1 := c1, affil_CurrentKeyword1 := k1,
              affil_CurrentCode2 := c2, affil_CurrentKeyword2 := k2, affil_CurrentCode3 := c3, affil_CurrentKeyword3 := k3\<rparr>))
      | _ \<Rightarrow> failS (BadRequest ''expected 3 past affiliations and 3 affiliations''))"

definition icq_SetInterests :: "inst_ref \<Rightarrow> u32 \<Rightarrow> val \<Rightarrow> u16 \<Rightarrow> unit svc" where
  "icq_SetInterests i rid body seq =
     (case slots_of (vfield 0 body) of
        [(c1, k1), (c2, k2), (c3, k3), (c4, k4)] \<Rightarrow>
          save_profile i rid seq ICQDBQueryMetaReplySetInterests (\<lambda>n. SetInterests n
            (zero_ICQInterests\<lparr>interest_Code1 := c1, interest_Keyword1 := k1, interest_Code2 := c2, interest_Keyword2 := k2,
              interest_Code3 := c3, interest_Keyword3 := k3, interest_Code4 := c4, interest_Keyword4 := k4\<rparr>))
      | _ \<Rightarrow> failS (BadRequest ''expected 4 interests''))"

definition icq_SetBasicInfo :: "inst_ref \<Rightarrow> u32 \<Rightarrow> val \<Rightarrow> u16 \<Rightarrow> unit svc" where
  "icq_SetBasicInfo i rid body seq =
     (let str = (\<lambda>k. vstring (vfield k body)) in
      save_profile i rid seq ICQDBQueryMetaReplySetBasicInfo (\<lambda>n. SetBasicInfo n
        (zero_ICQBasicInfo\<lparr>basic_Nickname := str 0, basic_FirstName := str 1, basic_LastName := str 2,
          basic_EmailAddress := str 3, basic_City := str 4, basic_State := str 5, basic_Phone := str 6, basic_Fax := str 7,
          basic_Address := str 8, basic_CellPhone := str 9, basic_ZIPCode := str 10,
          basic_CountryCode := vu16 (vfield 11 body), basic_GMTOffset := vu8 (vfield 12 body),
          basic_PublishEmail := (vu8 (vfield 13 body) = ICQUserFlagPublishEmailYes)\<rparr>)))"

definition icq_SetEmails :: "inst_ref \<Rightarrow> u32 \<Rightarrow> u16 \<Rightarrow> unit svc" where
  "icq_SetEmails i rid seq = reqAck i seq ICQDBQueryMetaReplySetEmails rid"

definition SetICQPhone :: "inst_ref \<Rightarrow> u32 \<Rightarrow> u16 \<Rightarrow> unit svc" where
  "SetICQPhone i rid seq = reqAck i seq ICQDBQueryMetaReplySetICQPhone rid"

definition icq_SetMoreInfo :: "inst_ref \<Rightarrow> u32 \<Rightarrow> val \<Rightarrow> u16 \<Rightarrow> unit svc" where
  "icq_SetMoreInfo i rid body seq =
     save_profile i rid seq ICQDBQueryMetaReplySetMoreInfo (\<lambda>n. SetMoreInfo n
       \<lparr>Gender = vu16 (vfield 1 body), HomePageAddr = vstring (vfield 2 body), BirthYear = vu16 (vfield 3 body),
        BirthMonth = vu8 (vfield 4 body), BirthDay = vu8 (vfield 5 body), Lang1 = vu8 (vfield 6 body),
        Lang2 = vu8 (vfield 7 body), Lang3 = vu8 (vfield 8 body)\<rparr>)"

definition icq_SetPermissions :: "inst_ref \<Rightarrow> u32 \<Rightarrow> val \<Rightarrow> u16 \<Rightarrow> unit svc" where
  "icq_SetPermissions i rid body seq =
     save_profile i rid seq ICQDBQueryMetaReplySetPermissions (\<lambda>n. SetPermissions n
       (zero_ICQPermissions\<lparr>perm_AuthRequired := (vu8 (vfield 0 body) = 0), perm_WebAware := (vu8 (vfield 1 body) = 1)\<rparr>))"

definition icq_SetUserNotes :: "inst_ref \<Rightarrow> u32 \<Rightarrow> val \<Rightarrow> u16 \<Rightarrow> unit svc" where
  "icq_SetUserNotes i rid body seq =
     save_profile i rid seq ICQDBQueryMetaReplySetNotes (\<lambda>n. SetUserNotes n \<lparr>notes_Notes = vstring (vfield 0 body)\<rparr>)"

definition icq_SetWorkInfo :: "inst_ref \<Rightarrow> u32 \<Rightarrow> val \<Rightarrow> u16 \<Rightarrow> unit svc" where
  "icq_SetWorkInfo i rid body seq =
     (let str = (\<lambda>k. vstring (vfield k body)) in
      save_profile i rid seq ICQDBQueryMetaReplySetWorkInfo (\<lambda>n. SetWorkInfo n
        \<lparr>work_Address = str 4, work_City = str 0, work_Company = str 7, work_CountryCode = vu16 (vfield 6 body),
         work_Department = str 8, work_Fax = str 3, work_OccupationCode = vu16 (vfield 10 body), work_Phone = str 2,
         work_Position = str 9, work_State = str 1, work_WebPage = str 11, work_ZIPCode = str 5\<rparr>))"

section \<open>Changing any part of the profile\<close>

text \<open>
  \<open>SetICQInfo\<close>: the profile that is being changed, and the attributes that may come several times in the
  order they came.
\<close>

record full_info =
  fi_info :: ICQInfo
  fi_langs :: "u8 list"
  fi_interests :: "bytes list"
  fi_current :: "bytes list"
  fi_past :: "bytes list"

definition basic_texts :: "(u16 \<times> (bytes \<Rightarrow> ICQBasicInfo \<Rightarrow> ICQBasicInfo)) list" where
  "basic_texts =
     [(ICQTLVTagsFirstName, \<lambda>s b. b\<lparr>basic_FirstName := s\<rparr>), (ICQTLVTagsLastName, \<lambda>s b. b\<lparr>basic_LastName := s\<rparr>),
      (ICQTLVTagsNickname, \<lambda>s b. b\<lparr>basic_Nickname := s\<rparr>), (ICQTLVTagsHomeCityName, \<lambda>s b. b\<lparr>basic_City := s\<rparr>),
      (ICQTLVTagsHomeStateAbbr, \<lambda>s b. b\<lparr>basic_State := s\<rparr>), (ICQTLVTagsHomeStreetAddress, \<lambda>s b. b\<lparr>basic_Address := s\<rparr>),
      (ICQTLVTagsHomePhoneNumber, \<lambda>s b. b\<lparr>basic_Phone := s\<rparr>), (ICQTLVTagsHomeFaxNumber, \<lambda>s b. b\<lparr>basic_Fax := s\<rparr>),
      (ICQTLVTagsHomeCellularPhoneNumber, \<lambda>s b. b\<lparr>basic_CellPhone := s\<rparr>),
      (ICQTLVTagsOriginallyFromCity, \<lambda>s b. b\<lparr>basic_OriginallyFromCity := s\<rparr>),
      (ICQTLVTagsOriginallyFromState, \<lambda>s b. b\<lparr>basic_OriginallyFromState := s\<rparr>)]"

definition work_texts :: "(u16 \<times> (bytes \<Rightarrow> ICQWorkInfo \<Rightarrow> ICQWorkInfo)) list" where
  "work_texts =
     [(ICQTLVTagsWorkCompanyName, \<lambda>s w. w\<lparr>work_Company := s\<rparr>), (ICQTLVTagsWorkDepartmentName, \<lambda>s w. w\<lparr>work_Department := s\<rparr>),
      (ICQTLVTagsWorkPositionTitle, \<lambda>s w. w\<lparr>work_Position := s\<rparr>), (ICQTLVTagsWorkStreetAddress, \<lambda>s w. w\<lparr>work_Address := s\<rparr>),
      (ICQTLVTagsWorkCityName, \<lambda>s w. w\<lparr>work_City := s\<rparr>), (ICQTLVTagsWorkStateName, \<lambda>s w. w\<lparr>work_State := s\<rparr>),
      (ICQTLVTagsWorkPhoneNumber, \<lambda>s w. w\<lparr>work_Phone := s\<rparr>), (ICQTLVTagsWorkFaxNumber, \<lambda>s w. w\<lparr>work_Fax := s\<rparr>),
      (ICQTLVTagsWorkWebpageURL, \<lambda>s w. w\<lparr>work_WebPage := s\<rparr>)]"

definition set_basic :: "(ICQBasicInfo \<Rightarrow> ICQBasicInfo) \<Rightarrow> full_info \<Rightarrow> full_info" where
  "set_basic f r = r\<lparr>fi_info := (fi_info r)\<lparr>Basic := f (Basic (fi_info r))\<rparr>\<rparr>"
definition set_work :: "(ICQWorkInfo \<Rightarrow> ICQWorkInfo) \<Rightarrow> full_info \<Rightarrow> full_info" where
  "set_work f r = r\<lparr>fi_info := (fi_info r)\<lparr>Work := f (Work (fi_info r))\<rparr>\<rparr>"
definition set_more :: "(ICQMoreInfo \<Rightarrow> ICQMoreInfo) \<Rightarrow> full_info \<Rightarrow> full_info" where
  "set_more f r = r\<lparr>fi_info := (fi_info r)\<lparr>More := f (More (fi_info r))\<rparr>\<rparr>"
definition set_perms :: "(ICQPermissions \<Rightarrow> ICQPermissions) \<Rightarrow> full_info \<Rightarrow> full_info" where
  "set_perms f r = r\<lparr>fi_info := (fi_info r)\<lparr>Permissions := f (Permissions (fi_info r))\<rparr>\<rparr>"

definition email_ty :: ty where
  "email_ty = TStruct '''' [Field ''Email'' (Some ''len_prefix=uint16,nullterm'') TString, Field ''Publish'' None TU8]"
definition birthday_ty :: ty where
  "birthday_ty = TStruct '''' [Field ''Year'' None TU16, Field ''Month'' None TU16, Field ''Day'' None TU16]"

definition set_email :: "TLV \<Rightarrow> full_info \<Rightarrow> full_info outcome" where
  "set_email t r = bind_out (fst (UnmarshalLE email_ty (Value t))) (\<lambda>v.
     Ok (set_basic (\<lambda>b. b\<lparr>basic_EmailAddress := vstring (vfield 0 v),
       basic_PublishEmail := (vu8 (vfield 1 v) = ICQUserFlagPublishEmailYes)\<rparr>) r))"

definition set_birthday :: "TLV \<Rightarrow> full_info \<Rightarrow> full_info outcome" where
  "set_birthday t r = bind_out (fst (UnmarshalLE birthday_ty (Value t))) (\<lambda>v.
     Ok (set_more (\<lambda>m. m\<lparr>BirthYear := vu16 (vfield 0 v), BirthMonth := ucast (vu16 (vfield 1 v)),
       BirthDay := ucast (vu16 (vfield 2 v))\<rparr>) r))"

definition set_homepage :: "TLV \<Rightarrow> full_info \<Rightarrow> full_info outcome" where
  "set_homepage t r = bind_out (fst (UnmarshalLE node_ty (Value t))) (\<lambda>v.
     Ok (r\<lparr>fi_info := (fi_info r)\<lparr>HomepageCategory :=
       \<lparr>page_Enabled = True, page_Index = vu16 (vfield 0 v), page_Description = vstring (vfield 1 v)\<rparr>\<rparr>\<rparr>))"

definition zip_text :: "TLV \<Rightarrow> bytes outcome" where
  "zip_text t = bind_out (TLV_Uint32LE t) (\<lambda>n. Ok (decimal_string (unat n)))"

definition set_basic_number :: "TLV \<Rightarrow> full_info \<Rightarrow> full_info outcome option" where
  "set_basic_number t r =
     (if Tag t = ICQTLVTagsEmail then Some (set_email t r)
      else if Tag t = ICQTLVTagsHomeCountryCode then
        Some (bind_out (TLV_Uint16LE t) (\<lambda>n. Ok (set_basic (\<lambda>b. b\<lparr>basic_CountryCode := n\<rparr>) r)))
      else if Tag t = ICQTLVTagsHomeZipCode then
        Some (bind_out (zip_text t) (\<lambda>z. Ok (set_basic (\<lambda>b. b\<lparr>basic_ZIPCode := z\<rparr>) r)))
      else if Tag t = ICQTLVTagsGMTOffset then Some (Ok (set_basic (\<lambda>b. b\<lparr>basic_GMTOffset := TLV_Uint8 t\<rparr>) r))
      else if Tag t = ICQTLVTagsOriginallyFromCountryCode then
        Some (bind_out (TLV_Uint16LE t) (\<lambda>n. Ok (set_basic (\<lambda>b. b\<lparr>basic_OriginallyFromCountryCode := n\<rparr>) r)))
      else None)"

definition set_work_number :: "TLV \<Rightarrow> full_info \<Rightarrow> full_info outcome option" where
  "set_work_number t r =
     (if Tag t = ICQTLVTagsWorkOccupationCode then
        Some (bind_out (TLV_Uint16LE t) (\<lambda>n. Ok (set_work (\<lambda>w. w\<lparr>work_OccupationCode := n\<rparr>) r)))
      else if Tag t = ICQTLVTagsWorkCountryCode then
        Some (bind_out (TLV_Uint16LE t) (\<lambda>n. Ok (set_work (\<lambda>w. w\<lparr>work_CountryCode := n\<rparr>) r)))
      else if Tag t = ICQTLVTagsWorkZipCode then
        Some (bind_out (zip_text t) (\<lambda>z. Ok (set_work (\<lambda>w. w\<lparr>work_ZIPCode := z\<rparr>) r)))
      else None)"

definition set_other :: "TLV \<Rightarrow> full_info \<Rightarrow> full_info outcome" where
  "set_other t r =
     (if Tag t = ICQTLVTagsGender then Ok (set_more (\<lambda>m. m\<lparr>Gender := ucast (TLV_Uint8 t)\<rparr>) r)
      else if Tag t = ICQTLVTagsSpokenLanguage then Ok (r\<lparr>fi_langs := fi_langs r @ [TLV_Uint8 t]\<rparr>)
      else if Tag t = ICQTLVTagsBirthdayInfo then set_birthday t r
      else if Tag t = ICQTLVTagsHomepageURL then Ok (set_more (\<lambda>m. m\<lparr>HomePageAddr := TLV_ICQString t\<rparr>) r)
      else if Tag t = ICQTLVTagsAuthorizationPermissions then Ok (set_perms (\<lambda>p. p\<lparr>perm_AuthRequired := (TLV_Uint8 t = 0)\<rparr>) r)
      else if Tag t = ICQTLVTagsShowWebStatusPermissions then Ok (set_perms (\<lambda>p. p\<lparr>perm_WebAware := (TLV_Uint8 t = 1)\<rparr>) r)
      else if Tag t = ICQTLVTagsNotesText then
        Ok (r\<lparr>fi_info := (fi_info r)\<lparr>Notes := \<lparr>notes_Notes = TLV_ICQString t\<rparr>\<rparr>\<rparr>)
      else if Tag t = ICQTLVTagsInterestsNode then Ok (r\<lparr>fi_interests := fi_interests r @ [Value t]\<rparr>)
      else if Tag t = ICQTLVTagsAffiliationsNode then Ok (r\<lparr>fi_current := fi_current r @ [Value t]\<rparr>)
      else if Tag t = ICQTLVTagsPastInfoNode then Ok (r\<lparr>fi_past := fi_past r @ [Value t]\<rparr>)
      else if Tag t = ICQTLVTagsHomepageCategoryKeywords then set_homepage t r
      else Ok r)"

definition set_attribute :: "TLV \<Rightarrow> full_info \<Rightarrow> full_info outcome" where
  "set_attribute t r =
     (case map_of basic_texts (Tag t) of
        Some f \<Rightarrow> Ok (set_basic (f (TLV_ICQString t)) r)
      | None \<Rightarrow>
     (case map_of work_texts (Tag t) of
        Some f \<Rightarrow> Ok (set_work (f (TLV_ICQString t)) r)
      | None \<Rightarrow>
     (case set_basic_number t r of
        Some x \<Rightarrow> x
      | None \<Rightarrow> (case set_work_number t r of Some x \<Rightarrow> x | None \<Rightarrow> set_other t r))))"

fun set_attributes :: "TLVList \<Rightarrow> full_info \<Rightarrow> full_info outcome" where
  "set_attributes [] r = Ok r"
| "set_attributes (t # ts) r = bind_out (set_attribute t r) (set_attributes ts)"


text \<open>A group of slots is replaced as a whole if any of its attributes came; those too many are read and dropped.\<close>

definition nth_or :: "'a \<Rightarrow> nat \<Rightarrow> 'a list \<Rightarrow> 'a" where
  "nth_or d n xs = (if n < length xs then xs ! n else d)"

definition read_nodes :: "bytes list \<Rightarrow> (u16 \<times> bytes) list outcome" where
  "read_nodes raws = bind_out (collect_out (map (\<lambda>b. fst (UnmarshalLE node_ty b)) raws)) (\<lambda>vs.
     Ok (map (\<lambda>v. (vu16 (vfield 0 v), vstring (vfield 1 v))) vs))"

definition set_langs :: "u8 list \<Rightarrow> ICQInfo \<Rightarrow> ICQInfo" where
  "set_langs ls info =
     (if ls = [] then info
      else info\<lparr>More := (More info)\<lparr>Lang1 := nth_or 0 0 ls, Lang2 := nth_or 0 1 ls, Lang3 := nth_or 0 2 ls\<rparr>\<rparr>)"

definition set_interests :: "bytes list \<Rightarrow> ICQInfo \<Rightarrow> ICQInfo outcome" where
  "set_interests raws info =
     (if raws = [] then Ok info
      else bind_out (read_nodes raws) (\<lambda>ns. let s = (\<lambda>k. nth_or (0, []) k ns) in
        Ok (info\<lparr>Interests := zero_ICQInterests\<lparr>interest_Code1 := fst (s 0), interest_Keyword1 := snd (s 0),
          interest_Code2 := fst (s 1), interest_Keyword2 := snd (s 1), interest_Code3 := fst (s 2),
          interest_Keyword3 := snd (s 2), interest_Code4 := fst (s 3), interest_Keyword4 := snd (s 3)\<rparr>\<rparr>)))"

definition set_current :: "bytes list \<Rightarrow> ICQInfo \<Rightarrow> ICQInfo outcome" where
  "set_current raws info =
     (if raws = [] then Ok info
      else bind_out (read_nodes raws) (\<lambda>ns. let s = (\<lambda>k. nth_or (0, []) k ns) in
        Ok (info\<lparr>Affiliations := (Affiliations info)\<lparr>affil_CurrentCode1 := fst (s 0), affil_CurrentKeyword1 := snd (s 0),
          affil_CurrentCode2 := fst (s 1), affil_CurrentKeyword2 := snd (s 1), affil_CurrentCode3 := fst (s 2),
          affil_CurrentKeyword3 := snd (s 2)\<rparr>\<rparr>)))"

definition set_past :: "bytes list \<Rightarrow> ICQInfo \<Rightarrow> ICQInfo outcome" where
  "set_past raws info =
     (if raws = [] then Ok info
      else bind_out (read_nodes raws) (\<lambda>ns. let s = (\<lambda>k. nth_or (0, []) k ns) in
        Ok (info\<lparr>Affiliations := (Affiliations info)\<lparr>affil_PastCode1 := fst (s 0), affil_PastKeyword1 := snd (s 0),
          affil_PastCode2 := fst (s 1), affil_PastKeyword2 := snd (s 1), affil_PastCode3 := fst (s 2),
          affil_PastKeyword3 := snd (s 2)\<rparr>\<rparr>)))"

definition overlay_info :: "TLVList \<Rightarrow> ICQInfo \<Rightarrow> ICQInfo outcome" where
  "overlay_info l info =
     bind_out (set_attributes l \<lparr>fi_info = info, fi_langs = [], fi_interests = [], fi_current = [], fi_past = []\<rparr>) (\<lambda>r.
       bind_out (set_interests (fi_interests r) (set_langs (fi_langs r) (fi_info r))) (\<lambda>i1.
         bind_out (set_current (fi_current r) i1) (set_past (fi_past r))))"

definition icq_SetICQInfo :: "inst_ref \<Rightarrow> u32 \<Rightarrow> TLVList \<Rightarrow> u16 \<Rightarrow> unit svc" where
  "icq_SetICQInfo i rid body seq =
     bindS (getS (\<lambda>W. sess_uin (sess i W))) (\<lambda>uin.
       bindS (user_by_uin uin) (\<lambda>u.
         bindS (liftS (overlay_info body (Info u))) (\<lambda>info.
           save_profile i rid seq ICQDBQueryMetaReplySetFullInfo (\<lambda>n. SetICQInfo n info))))"

section \<open>Stored messages\<close>

definition DeleteMsgReq :: "inst_ref \<Rightarrow> unit svc" where
  "DeleteMsgReq i = bindS (me i) (\<lambda>n. db_set (DeleteMessages n))"

text \<open>Month and day of a day of the year.\<close>

definition month_of :: "nat \<Rightarrow> nat \<Rightarrow> nat" where
  "month_of y yd = length (filter (\<lambda>m. YearDay y m 1 \<le> yd) [1 ..< 13])"

definition sent_fields :: "int \<Rightarrow> val list" where
  "sent_fields t =
     (case utc_day t of (y, yd) \<Rightarrow>
        let m = month_of y yd; s = Unix t mod 86400 in
        [VU16 (word_of_nat y), VU8 (word_of_nat m), VU8 (word_of_nat (yd + 1 - YearDay y m 1)),
         VU8 (word_of_int (s div 3600)), VU8 (word_of_int (s div 60 mod 60))])"

text \<open>What a stored message becomes: the type, flags and text of the reply, or nothing if it was dealt with.\<close>

definition stored_im :: "TLVList \<Rightarrow> (u8 \<times> u8 \<times> bytes) option svc" where
  "stored_im l =
     (case TLVList_Bytes ICBMTLVAOLIMData l of
        None \<Rightarrow> retS (Some (0, 0, []))
      | Some payload \<Rightarrow> bindS (liftS (UnmarshalICBMMessageText payload)) (\<lambda>x.
          case x of
            Inl _ \<Rightarrow> failS (BadRequest ''unmarshalling offline message'')
          | Inr txt \<Rightarrow> retS (Some (ICBMExtendedMsgTypePlain, 0, txt))))"

definition stored_icq :: "forwarder \<Rightarrow> inst_ref \<Rightarrow> OfflineMessage \<Rightarrow> (u8 \<times> u8 \<times> bytes) option svc" where
  "stored_icq forward i m =
     (case TLVList_Bytes ICBMTLVData (cm_TLVList (om_Message m)) of
        None \<Rightarrow> retS (Some (0, 0, []))
      | Some b \<Rightarrow> bindS (liftS (fst (UnmarshalLE ICBMCh4Message_ty b))) (\<lambda>msg.
          bindS (getS (\<lambda>W. usesFeedbag (sess i W))) (\<lambda>fb.
            if is_auth_message (vu8 (vfield 1 msg)) \<and> fb then
              bindS (forward (om_Sender m) (om_Recipient m) msg) (\<lambda>_. retS None)
            else retS (Some (vu8 (vfield 1 msg), vu8 (vfield 2 msg), vstring (vfield 3 msg))))))"

definition stored_payload :: "forwarder \<Rightarrow> inst_ref \<Rightarrow> OfflineMessage \<Rightarrow> (u8 \<times> u8 \<times> bytes) option svc" where
  "stored_payload forward i m =
     (if cm_ChannelID (om_Message m) = ICBMChannelIM then stored_im (cm_TLVList (om_Message m))
      else if cm_ChannelID (om_Message m) = ICBMChannelICQ then stored_icq forward i m
      else retS (Some (0, 0, [])))"

definition replay_icq :: "forwarder \<Rightarrow> inst_ref \<Rightarrow> u32 \<Rightarrow> u16 \<Rightarrow> OfflineMessage \<Rightarrow> unit svc" where
  "replay_icq forward i rid seq m =
     bindS (stored_payload forward i m) (\<lambda>p.
       case p of
         None \<Rightarrow> retS ()
       | Some (typ, flags, txt) \<Rightarrow>
           if typ = 0 then failS (BadRequest ''did not find an appropriate saved message payload'')
           else bindS (metadata i ICQDBQueryOfflineMsgReply seq) (\<lambda>md.
             icq_replyToSelf i (ICQ_0x0041_DBQueryOfflineMsgReply_ty,
               VStruct ([md, VU32 (UIN (om_Sender m))] @ sent_fields (om_Sent m) @ [VU8 typ, VU8 flags, VString txt]))
               rid SNACFlagsMoreToCome))"

definition OfflineMsgReq :: "forwarder \<Rightarrow> inst_ref \<Rightarrow> u32 \<Rightarrow> u16 \<Rightarrow> unit svc" where
  "OfflineMsgReq forward i rid seq =
     bindS (me i) (\<lambda>n.
       bindS (getS unicode) (\<lambda>t.
         bindS (db_call (\<lambda>S. bind_out (RetrieveMessages t n S) (\<lambda>x. Ok (x, S)))) (\<lambda>msgs.
           bindS (forS msgs (\<lambda>m. if UIN (om_Sender m) \<noteq> 0 then replay_icq forward i rid seq m else replay_message i m)) (\<lambda>_.
             bindS (metadata i ICQDBQueryOfflineMsgReplyLast seq) (\<lambda>md.
               icq_replyToSelf i (ICQ_0x0042_DBQueryOfflineMsgReplyLast_ty, VStruct [md, VU8 0]) rid 0)))))"

end
