(* ===== verification/OscarHandler.thy ===== *)
theory OscarHandler
  imports AdminService LocateService ICQService
begin

text \<open>
  The OSCAR request handlers and their dispatch (\<open>server/oscar/handler.go\<close>). A handler reads the body that follows the
  SNAC frame, calls the service and gives the SNACs to send, in order. Logging is left out.
\<close>

section \<open>Numbers\<close>

definition AdminAcctConfirmRequest :: u16 where "AdminAcctConfirmRequest = 0x0006"
definition AdminInfoChangeRequest :: u16 where "AdminInfoChangeRequest = 0x0004"
definition AdminInfoQuery :: u16 where "AdminInfoQuery = 0x0002"
definition AlertNotifyCapabilities :: u16 where "AlertNotifyCapabilities = 0x0006"
definition AlertNotifyDisplayCapabilities :: u16 where "AlertNotifyDisplayCapabilities = 0x0016"
definition BARTDownloadQuery :: u16 where "BARTDownloadQuery = 0x0004"
definition BARTDownload2Query :: u16 where "BARTDownload2Query = 0x0006"
definition BARTUploadQuery :: u16 where "BARTUploadQuery = 0x0002"
definition BuddyAddBuddies :: u16 where "BuddyAddBuddies = 0x0004"
definition BuddyDelBuddies :: u16 where "BuddyDelBuddies = 0x0005"
definition BuddyRightsQuery :: u16 where "BuddyRightsQuery = 0x0002"
definition BuddyAddTempBuddies :: u16 where "BuddyAddTempBuddies = 0x000F"
definition BuddyDelTempBuddies :: u16 where "BuddyDelTempBuddies = 0x0010"
definition ChatChannelMsgToHost :: u16 where "ChatChannelMsgToHost = 0x0005"
definition ChatNavCreateRoom :: u16 where "ChatNavCreateRoom = 0x0008"
definition ChatNavRequestChatRights :: u16 where "ChatNavRequestChatRights = 0x0002"
definition ChatNavRequestExchangeInfo :: u16 where "ChatNavRequestExchangeInfo = 0x0003"
definition ChatNavRequestRoomInfo :: u16 where "ChatNavRequestRoomInfo = 0x0004"
definition FeedbagDeleteItem :: u16 where "FeedbagDeleteItem = 0x000A"
definition FeedbagEndCluster :: u16 where "FeedbagEndCluster = 0x0012"
definition FeedbagInsertItem :: u16 where "FeedbagInsertItem = 0x0008"
definition FeedbagQuery :: u16 where "FeedbagQuery = 0x0004"
definition FeedbagQueryIfModified :: u16 where "FeedbagQueryIfModified = 0x0005"
definition FeedbagPreAuthorizeBuddy :: u16 where "FeedbagPreAuthorizeBuddy = 0x0014"
definition FeedbagRequestAuthorizeToHost :: u16 where "FeedbagRequestAuthorizeToHost = 0x0018"
definition FeedbagRespondAuthorizeToHost :: u16 where "FeedbagRespondAuthorizeToHost = 0x001A"
definition FeedbagRightsQuery :: u16 where "FeedbagRightsQuery = 0x0002"
definition FeedbagStartCluster :: u16 where "FeedbagStartCluster = 0x0011"
definition FeedbagUse :: u16 where "FeedbagUse = 0x0007"
definition InviteRequestQuery :: u16 where "InviteRequestQuery = 0x0002"
definition InviteRequestReply :: u16 where "InviteRequestReply = 0x0003"
definition ICBMAddParameters :: u16 where "ICBMAddParameters = 0x0002"
definition ICBMEvilRequest :: u16 where "ICBMEvilRequest = 0x0008"
definition ICBMParameterQuery :: u16 where "ICBMParameterQuery = 0x0004"
definition ICBMOfflineRetrieve :: u16 where "ICBMOfflineRetrieve = 0x0010"
definition LocateGetDirInfo :: u16 where "LocateGetDirInfo = 0x000B"
definition LocateRightsQuery :: u16 where "LocateRightsQuery = 0x0002"
definition LocateSetDirInfo :: u16 where "LocateSetDirInfo = 0x0009"
definition LocateSetInfo :: u16 where "LocateSetInfo = 0x0004"
definition LocateSetKeywordInfo :: u16 where "LocateSetKeywordInfo = 0x000F"
definition LocateUserInfoQuery :: u16 where "LocateUserInfoQuery = 0x0005"
definition LocateUserInfoQuery2 :: u16 where "LocateUserInfoQuery2 = 0x0015"
definition ODirInfoQuery :: u16 where "ODirInfoQuery = 0x0002"
definition ODirKeywordListQuery :: u16 where "ODirKeywordListQuery = 0x0004"
definition OServiceClientOnline :: u16 where "OServiceClientOnline = 0x0002"
definition OServiceClientVersions :: u16 where "OServiceClientVersions = 0x0017"
definition OServiceIdleNotification :: u16 where "OServiceIdleNotification = 0x0011"
definition OServiceNoop :: u16 where "OServiceNoop = 0x0016"
definition OServiceRateParamsQuery :: u16 where "OServiceRateParamsQuery = 0x0006"
definition OServiceRateParamsSubAdd :: u16 where "OServiceRateParamsSubAdd = 0x0008"
definition OServiceServiceRequest :: u16 where "OServiceServiceRequest = 0x0004"
definition OServiceSetPrivacyFlags :: u16 where "OServiceSetPrivacyFlags = 0x0014"
definition OServiceSetUserInfoFields :: u16 where "OServiceSetUserInfoFields = 0x001E"
definition OServiceUserInfoQuery :: u16 where "OServiceUserInfoQuery = 0x000E"
definition OServiceProbeReq :: u16 where "OServiceProbeReq = 0x001F"
definition PermitDenyAddDenyListEntries :: u16 where "PermitDenyAddDenyListEntries = 0x0007"
definition PermitDenyAddPermListEntries :: u16 where "PermitDenyAddPermListEntries = 0x0005"
definition PermitDenyDelDenyListEntries :: u16 where "PermitDenyDelDenyListEntries = 0x0008"
definition PermitDenyDelPermListEntries :: u16 where "PermitDenyDelPermListEntries = 0x0006"
definition PermitDenyRightsQuery :: u16 where "PermitDenyRightsQuery = 0x0002"
definition PermitDenySetGroupPermitMask :: u16 where "PermitDenySetGroupPermitMask = 0x0004"
definition StatsReportEvents :: u16 where "StatsReportEvents = 0x0003"
definition UserLookupFindByEmail :: u16 where "UserLookupFindByEmail = 0x0002"
definition ICQDBQueryOfflineMsgReq :: u16 where "ICQDBQueryOfflineMsgReq = 0x003C"
definition ICQDBQueryDeleteMsgReq :: u16 where "ICQDBQueryDeleteMsgReq = 0x003E"
definition ICQDBQueryMetaReq :: u16 where "ICQDBQueryMetaReq = 0x07D0"
definition ICQDBQueryMetaReqSetBasicInfo :: u16 where "ICQDBQueryMetaReqSetBasicInfo = 0x03EA"
definition ICQDBQueryMetaReqSetWorkInfo :: u16 where "ICQDBQueryMetaReqSetWorkInfo = 0x03F3"
definition ICQDBQueryMetaReqSetMoreInfo :: u16 where "ICQDBQueryMetaReqSetMoreInfo = 0x03FD"
definition ICQDBQueryMetaReqSetNotes :: u16 where "ICQDBQueryMetaReqSetNotes = 0x0406"
definition ICQDBQueryMetaReqSetEmails :: u16 where "ICQDBQueryMetaReqSetEmails = 0x040B"
definition ICQDBQueryMetaReqSetInterests :: u16 where "ICQDBQueryMetaReqSetInterests = 0x0410"
definition ICQDBQueryMetaReqSetAffiliations :: u16 where "ICQDBQueryMetaReqSetAffiliations = 0x041A"
definition ICQDBQueryMetaReqSetPermissions :: u16 where "ICQDBQueryMetaReqSetPermissions = 0x0424"
definition ICQDBQueryMetaReqSetICQPhone :: u16 where "ICQDBQueryMetaReqSetICQPhone = 0x0654"
definition ICQDBQueryMetaReqSetFullInfo :: u16 where "ICQDBQueryMetaReqSetFullInfo = 0x0C3A"
definition ICQDBQueryMetaReqShortInfo :: u16 where "ICQDBQueryMetaReqShortInfo = 0x04BA"
definition ICQDBQueryMetaReqFullInfo :: u16 where "ICQDBQueryMetaReqFullInfo = 0x04B2"
definition ICQDBQueryMetaReqFullInfo2 :: u16 where "ICQDBQueryMetaReqFullInfo2 = 0x04D0"
definition ICQDBQueryMetaReqSearchByDetails :: u16 where "ICQDBQueryMetaReqSearchByDetails = 0x0515"
definition ICQDBQueryMetaReqSearchByUIN :: u16 where "ICQDBQueryMetaReqSearchByUIN = 0x051F"
definition ICQDBQueryMetaReqSearchByEmail :: u16 where "ICQDBQueryMetaReqSearchByEmail = 0x0529"
definition ICQDBQueryMetaReqSearchWhitePages :: u16 where "ICQDBQueryMetaReqSearchWhitePages = 0x0533"
definition ICQDBQueryMetaReqSearchWhitePages2 :: u16 where "ICQDBQueryMetaReqSearchWhitePages2 = 0x055F"
definition ICQDBQueryMetaReqSearchByUIN2 :: u16 where "ICQDBQueryMetaReqSearchByUIN2 = 0x0569"
definition ICQDBQueryMetaReqSearchByEmail3 :: u16 where "ICQDBQueryMetaReqSearchByEmail3 = 0x0573"
definition ICQDBQueryMetaReqXMLReq :: u16 where "ICQDBQueryMetaReqXMLReq = 0x0898"
definition ErrorCodeInvalidSnac :: u16 where "ErrorCodeInvalidSnac = 0x01"
definition OServiceDiscErrNewLogin :: u8 where "OServiceDiscErrNewLogin = 0x01"

lemmas oscarhandler_consts = AdminAcctConfirmRequest_def AdminInfoChangeRequest_def AdminInfoQuery_def
  AlertNotifyCapabilities_def AlertNotifyDisplayCapabilities_def BARTDownloadQuery_def BARTDownload2Query_def
  BARTUploadQuery_def BuddyAddBuddies_def BuddyDelBuddies_def BuddyRightsQuery_def BuddyAddTempBuddies_def
  BuddyDelTempBuddies_def ChatChannelMsgToHost_def ChatNavCreateRoom_def ChatNavRequestChatRights_def
  ChatNavRequestExchangeInfo_def ChatNavRequestRoomInfo_def FeedbagDeleteItem_def FeedbagEndCluster_def
  FeedbagInsertItem_def FeedbagQuery_def FeedbagQueryIfModified_def FeedbagPreAuthorizeBuddy_def
  FeedbagRequestAuthorizeToHost_def FeedbagRespondAuthorizeToHost_def FeedbagRightsQuery_def
  FeedbagStartCluster_def FeedbagUse_def InviteRequestQuery_def InviteRequestReply_def ICBMAddParameters_def
  ICBMEvilRequest_def ICBMParameterQuery_def ICBMOfflineRetrieve_def LocateGetDirInfo_def LocateRightsQuery_def
  LocateSetDirInfo_def LocateSetInfo_def LocateSetKeywordInfo_def LocateUserInfoQuery_def
  LocateUserInfoQuery2_def ODirInfoQuery_def ODirKeywordListQuery_def OServiceClientOnline_def
  OServiceClientVersions_def OServiceIdleNotification_def OServiceNoop_def OServiceRateParamsQuery_def
  OServiceRateParamsSubAdd_def OServiceServiceRequest_def OServiceSetPrivacyFlags_def
  OServiceSetUserInfoFields_def OServiceUserInfoQuery_def OServiceProbeReq_def PermitDenyAddDenyListEntries_def
  PermitDenyAddPermListEntries_def PermitDenyDelDenyListEntries_def PermitDenyDelPermListEntries_def
  PermitDenyRightsQuery_def PermitDenySetGroupPermitMask_def StatsReportEvents_def UserLookupFindByEmail_def
  ICQDBQueryOfflineMsgReq_def ICQDBQueryDeleteMsgReq_def ICQDBQueryMetaReq_def ICQDBQueryMetaReqSetBasicInfo_def
  ICQDBQueryMetaReqSetWorkInfo_def ICQDBQueryMetaReqSetMoreInfo_def ICQDBQueryMetaReqSetNotes_def
  ICQDBQueryMetaReqSetEmails_def ICQDBQueryMetaReqSetInterests_def ICQDBQueryMetaReqSetAffiliations_def
  ICQDBQueryMetaReqSetPermissions_def ICQDBQueryMetaReqSetICQPhone_def ICQDBQueryMetaReqSetFullInfo_def
  ICQDBQueryMetaReqShortInfo_def ICQDBQueryMetaReqFullInfo_def ICQDBQueryMetaReqFullInfo2_def
  ICQDBQueryMetaReqSearchByDetails_def ICQDBQueryMetaReqSearchByUIN_def ICQDBQueryMetaReqSearchByEmail_def
  ICQDBQueryMetaReqSearchWhitePages_def ICQDBQueryMetaReqSearchWhitePages2_def ICQDBQueryMetaReqSearchByUIN2_def
  ICQDBQueryMetaReqSearchByEmail3_def ICQDBQueryMetaReqXMLReq_def ErrorCodeInvalidSnac_def
  OServiceDiscErrNewLogin_def

section \<open>Handlers\<close>

text \<open>
  A connection is one to a service, or one to a chat room, which has a session of its own. The
  handlers that read or change the session of their connection are given for the former; the chat
  message handler for both.
\<close>

type_synonym handler = "inst_ref \<Rightarrow> SNACFrame \<Rightarrow> bytes \<Rightarrow> response list svc"

definition decodedS :: "ty \<Rightarrow> bytes \<Rightarrow> (val \<Rightarrow> 'a svc) \<Rightarrow> 'a svc" where
  "decodedS t b f = bindS (liftS (fst (UnmarshalBE t b))) f"

definition answerS :: "SNACMessage svc \<Rightarrow> response list svc" where
  "answerS m = bindS m (\<lambda>r. retS [full r])"

definition answer_optS :: "SNACMessage option svc \<Rightarrow> response list svc" where
  "answer_optS m = bindS m (\<lambda>r. retS (case r of None \<Rightarrow> [] | Some x \<Rightarrow> [full x]))"

definition answersS :: "SNACMessage list svc \<Rightarrow> response list svc" where
  "answersS m = bindS m (\<lambda>rs. retS (map full rs))"

definition silentS :: "unit svc \<Rightarrow> response list svc" where
  "silentS m = bindS m (\<lambda>_. retS [])"

text \<open>The attributes of an embedded block, the names of a list of users, the items of a contact list.\<close>

definition block_field :: "nat \<Rightarrow> val \<Rightarrow> TLVList" where
  "block_field k v = val_tlvs (vfield 0 (vfield k v))"

definition names_field :: "val \<Rightarrow> bytes list" where
  "names_field v = map (\<lambda>e. vstring (vfield 0 e)) (vlist (vfield 0 v))"

definition val_FeedbagItem :: "val \<Rightarrow> FeedbagItem" where
  "val_FeedbagItem v = \<lparr>Name = vstring (vfield 0 v), GroupID = vu16 (vfield 1 v), ItemID = vu16 (vfield 2 v),
     ClassID = vu16 (vfield 3 v), Attrs = block_field 4 v\<rparr>"

definition items_field :: "val \<Rightarrow> FeedbagItem list" where
  "items_field v = map val_FeedbagItem (vlist (vfield 0 v))"

subsection \<open>Administration\<close>

definition h_AdminConfirmRequest :: handler where
  "h_AdminConfirmRequest i f b = answerS (ConfirmRequest i (RequestID f))"
definition h_AdminInfoQuery :: handler where
  "h_AdminInfoQuery i f b = decodedS SNAC_0x07_0x02_AdminInfoQuery_ty b (\<lambda>v.
     answerS (admin_InfoQuery i (RequestID f) (block_field 0 v)))"
definition h_AdminInfoChangeRequest :: handler where
  "h_AdminInfoChangeRequest i f b = decodedS SNAC_0x07_0x04_AdminInfoChangeRequest_ty b (\<lambda>v.
     answerS (InfoChangeRequest i (RequestID f) (block_field 0 v)))"

subsection \<open>Requests that are only logged\<close>

definition h_ignored :: handler where
  "h_ignored i f b = retS []"

subsection \<open>Icons\<close>

definition h_BARTUploadQuery :: handler where
  "h_BARTUploadQuery i f b = decodedS SNAC_0x10_0x02_BARTUploadQuery_ty b (\<lambda>v.
     answerS (bart_UpsertItem i (RequestID f) (vu16 (vfield 0 v)) (val_bytes (vfield 1 v))))"
definition h_BARTDownloadQuery :: handler where
  "h_BARTDownloadQuery i f b = decodedS SNAC_0x10_0x04_BARTDownloadQuery_ty b (\<lambda>v.
     answerS (RetrieveItem (RequestID f) (vstring (vfield 0 v)) (val_BARTID (vfield 2 v))))"
definition h_BARTDownload2Query :: handler where
  "h_BARTDownload2Query i f b = decodedS SNAC_0x10_0x06_BARTDownload2Query_ty b (\<lambda>v.
     answersS (RetrieveItemV2 (RequestID f) (vstring (vfield 0 v)) (map val_BARTID (vlist (vfield 1 v)))))"

subsection \<open>Client-side buddy list\<close>

definition h_BuddyRightsQuery :: handler where
  "h_BuddyRightsQuery i f b = decodedS SNAC_0x03_0x02_BuddyRightsQuery_ty b (\<lambda>v. answerS (buddy_RightsQuery (RequestID f)))"
definition h_BuddyAddBuddies :: handler where
  "h_BuddyAddBuddies i f b = decodedS SNAC_0x03_0x04_BuddyAddBuddies_ty b (\<lambda>v.
     answer_optS (AddBuddies i (RequestID f) (names_field v)))"
definition h_BuddyDelBuddies :: handler where
  "h_BuddyDelBuddies i f b = decodedS SNAC_0x03_0x05_BuddyDelBuddies_ty b (\<lambda>v. silentS (DelBuddies i (names_field v)))"
definition h_BuddyAddTempBuddies :: handler where
  "h_BuddyAddTempBuddies i f b = decodedS SNAC_0x03_0x0F_BuddyAddTempBuddies_ty b (\<lambda>v.
     answer_optS (AddTempBuddies i (RequestID f) (names_field v)))"
definition h_BuddyDelTempBuddies :: handler where
  "h_BuddyDelTempBuddies i f b = decodedS SNAC_0x03_0x10_BuddyDelTempBuddies_ty b (\<lambda>v.
     silentS (DelTempBuddies i (names_field v)))"

subsection \<open>Chat\<close>

text \<open>The session of a connection that is not to a chat room has no chat cookie.\<close>

definition h_ChatChannelMsgToHost :: handler where
  "h_ChatChannelMsgToHost i f b = decodedS SNAC_0x0E_0x05_ChatChannelMsgToHost_ty b (\<lambda>v.
     answer_optS (chat_send (sess i) (\<lambda>_. []) (RequestID f) (vu64 (vfield 0 v)) (vu16 (vfield 1 v)) (block_field 2 v)))"
definition room_ChatChannelMsgToHost :: "chat_ref \<Rightarrow> SNACFrame \<Rightarrow> bytes \<Rightarrow> response list svc" where
  "room_ChatChannelMsgToHost s f b = decodedS SNAC_0x0E_0x05_ChatChannelMsgToHost_ty b (\<lambda>v.
     answer_optS (chat_ChannelMsgToHost s (RequestID f) (vu64 (vfield 0 v)) (vu16 (vfield 1 v)) (block_field 2 v)))"
definition h_ChatNavRequestChatRights :: handler where
  "h_ChatNavRequestChatRights i f b = answerS (RequestChatRights (RequestID f))"
definition h_ChatNavRequestExchangeInfo :: handler where
  "h_ChatNavRequestExchangeInfo i f b = decodedS SNAC_0x0D_0x03_ChatNavRequestExchangeInfo_ty b (\<lambda>v.
     answerS (ExchangeInfo (RequestID f) (vu16 (vfield 0 v))))"
definition h_ChatNavRequestRoomInfo :: handler where
  "h_ChatNavRequestRoomInfo i f b = decodedS SNAC_0x0D_0x04_ChatNavRequestRoomInfo_ty b (\<lambda>v.
     answerS (RequestRoomInfo (RequestID f) (vu16 (vfield 0 v)) (vstring (vfield 1 v))))"
definition h_ChatNavCreateRoom :: handler where
  "h_ChatNavCreateRoom i f b = decodedS SNAC_0x0E_0x02_ChatRoomInfoUpdate_ty b (\<lambda>v.
     answerS (CreateRoom i (RequestID f) (vu16 (vfield 0 v)) (block_field 4 v)))"

subsection \<open>Contact lists\<close>

text \<open>Messages lead to messages at most twice.\<close>

definition messaging :: icbm_sender where
  "messaging = icbm_send 2"

definition h_FeedbagRightsQuery :: handler where
  "h_FeedbagRightsQuery i f b = decodedS SNAC_0x13_0x02_FeedbagRightsQuery_ty b (\<lambda>v. answerS (feedbag_RightsQuery (RequestID f)))"
definition h_FeedbagQuery :: handler where
  "h_FeedbagQuery i f b = answerS (feedbag_Query i (RequestID f))"
definition h_FeedbagQueryIfModified :: handler where
  "h_FeedbagQueryIfModified i f b = decodedS SNAC_0x13_0x05_FeedbagQueryIfModified_ty b (\<lambda>v.
     answerS (feedbag_QueryIfModified i (RequestID f) (vu32 (vfield 0 v))))"
definition h_FeedbagUse :: handler where
  "h_FeedbagUse i f b = silentS (feedbag_Use i)"
definition h_FeedbagInsertItem :: handler where
  "h_FeedbagInsertItem i f b = decodedS SNAC_0x13_0x08_FeedbagInsertItem_ty b (\<lambda>v.
     answer_optS (UpsertItem messaging i f (items_field v)))"
definition h_FeedbagUpdateItem :: handler where
  "h_FeedbagUpdateItem i f b = decodedS SNAC_0x13_0x09_FeedbagUpdateItem_ty b (\<lambda>v.
     answer_optS (UpsertItem messaging i f (items_field v)))"
definition h_FeedbagDeleteItem :: handler where
  "h_FeedbagDeleteItem i f b = decodedS SNAC_0x13_0x0A_FeedbagDeleteItem_ty b (\<lambda>v. silentS (DeleteItem i f (items_field v)))"
definition h_FeedbagStartCluster :: handler where
  "h_FeedbagStartCluster i f b = decodedS SNAC_0x13_0x11_FeedbagStartCluster_ty b (\<lambda>v. silentS (StartCluster i f v))"
definition h_FeedbagEndCluster :: handler where
  "h_FeedbagEndCluster i f b = silentS (EndCluster i f)"
definition h_FeedbagPreAuthorizeBuddy :: handler where
  "h_FeedbagPreAuthorizeBuddy i f b = decodedS SNAC_0x13_0x14_FeedbagPreAuthorizeBuddy_ty b (\<lambda>v.
     answer_optS (PreAuthorizeBuddy messaging i (RequestID f) (vstring (vfield 0 v)) (vstring (vfield 1 v))))"
definition h_FeedbagRequestAuthorizeToHost :: handler where
  "h_FeedbagRequestAuthorizeToHost i f b = decodedS SNAC_0x13_0x18_FeedbagRequestAuthorizationToHost_ty b (\<lambda>v.
     silentS (RequestAuthorizeToHost messaging i (vstring (vfield 0 v)) (vstring (vfield 1 v))))"
definition h_FeedbagRespondAuthorizeToHost :: handler where
  "h_FeedbagRespondAuthorizeToHost i f b = decodedS SNAC_0x13_0x1A_FeedbagRespondAuthorizeToHost_ty b (\<lambda>v.
     bindS (me i) (\<lambda>n. silentS (RespondAuthorizeToHost messaging n (vstring (vfield 0 v)) (vu8 (vfield 1 v)) (vstring (vfield 2 v)))))"

subsection \<open>Messages\<close>

definition h_ICBMAddParameters :: handler where
  "h_ICBMAddParameters i f b = decodedS SNAC_0x04_0x02_ICBMAddParameters_ty b (\<lambda>v. retS [])"
definition h_ICBMParameterQuery :: handler where
  "h_ICBMParameterQuery i f b = retS [full (ParameterQuery (RequestID f))]"
definition h_ICBMChannelMsgToHost :: handler where
  "h_ICBMChannelMsgToHost i f b = decodedS SNAC_0x04_0x06_ICBMChannelMsgToHost_ty b (\<lambda>v.
     bindS (getS (sender_of i)) (\<lambda>s. answer_optS (messaging s (RequestID f) (val_ChannelMsgToHost v))))"
definition h_ICBMEvilRequest :: handler where
  "h_ICBMEvilRequest i f b = decodedS SNAC_0x04_0x08_ICBMEvilRequest_ty b (\<lambda>v.
     answerS (EvilRequest i (RequestID f) (vu16 (vfield 0 v)) (vstring (vfield 1 v))))"
definition h_ICBMClientErr :: handler where
  "h_ICBMClientErr i f b = decodedS SNAC_0x04_0x0B_ICBMClientErr_ty b (\<lambda>v.
     silentS (ClientErr i (RequestID f) (vu64 (vfield 0 v)) (vu16 (vfield 1 v)) (vstring (vfield 2 v)) (vu16 (vfield 3 v))
       (val_bytes (vfield 4 v))))"
definition h_ICBMClientEvent :: handler where
  "h_ICBMClientEvent i f b = decodedS SNAC_0x04_0x14_ICBMClientEvent_ty b (\<lambda>v.
     silentS (ClientEvent i (RequestID f) (vu64 (vfield 0 v)) (vu16 (vfield 1 v)) (vstring (vfield 2 v)) (vu16 (vfield 3 v))))"
definition h_ICBMOfflineRetrieve :: handler where
  "h_ICBMOfflineRetrieve i f b = answerS (OfflineRetrieve i (RequestID f))"


subsection \<open>ICQ\<close>

text \<open>
  A request in the metadata attribute: the header, of which the sub type is optional, and what follows. Requests for
  a profile that are too short are dropped.
\<close>

definition icq_events :: forwarder where
  "icq_events = ForwardICQAuthEvents messaging"

definition decodedLE :: "ty \<Rightarrow> bytes \<Rightarrow> (val \<Rightarrow> unit svc) \<Rightarrow> unit svc" where
  "decodedLE t b f = bindS (liftS (fst (UnmarshalLE t b))) f"

definition icq_lookup :: "inst_ref \<Rightarrow> u32 \<Rightarrow> u16 \<Rightarrow> u16 \<Rightarrow> bytes \<Rightarrow> unit svc option" where
  "icq_lookup i rid seq sub b =
     (if sub = ICQDBQueryMetaReqShortInfo then
        Some (if length b < 4 then retS () else ShortUserInfo i rid (word_of_nat (get_uint LittleEndian (take 4 b))) seq)
      else if sub = ICQDBQueryMetaReqFullInfo \<or> sub = ICQDBQueryMetaReqFullInfo2 then
        Some (if length b < 4 then retS () else FullUserInfo i rid (word_of_nat (get_uint LittleEndian (take 4 b))) seq)
      else if sub = ICQDBQueryMetaReqXMLReq then
        Some (decodedLE ICQ_0x07D0_0x0898_DBQueryMetaReqXMLReq_ty b (\<lambda>v. XMLReqData i rid seq))
      else if sub = ICQDBQueryMetaReqSearchByUIN then
        Some (decodedLE ICQ_0x07D0_0x051F_DBQueryMetaReqSearchByUIN_ty b (\<lambda>v. icq_FindByUIN i rid (vu32 (vfield 0 v)) seq))
      else if sub = ICQDBQueryMetaReqSearchByUIN2 then
        Some (decodedLE ICQ_0x07D0_0x0569_DBQueryMetaReqSearchByUIN2_ty b (\<lambda>v. icq_FindByUIN2 i rid (block_field 0 v) seq))
      else if sub = ICQDBQueryMetaReqSearchByEmail then
        Some (decodedLE ICQ_0x07D0_0x0529_DBQueryMetaReqSearchByEmail_ty b (\<lambda>v. icq_FindByICQEmail i rid (vstring (vfield 0 v)) seq))
      else if sub = ICQDBQueryMetaReqSearchByEmail3 then
        Some (decodedLE ICQ_0x07D0_0x0573_DBQueryMetaReqSearchByEmail3_ty b (\<lambda>v. icq_FindByEmail3 i rid (block_field 0 v) seq))
      else if sub = ICQDBQueryMetaReqSearchByDetails then
        Some (decodedLE ICQ_0x07D0_0x0515_DBQueryMetaReqSearchByDetails_ty b (\<lambda>v.
          icq_FindByICQName i rid (vstring (vfield 0 v)) (vstring (vfield 1 v)) (vstring (vfield 2 v)) seq))
      else if sub = ICQDBQueryMetaReqSearchWhitePages then
        Some (decodedLE ICQ_0x07D0_0x0533_DBQueryMetaReqSearchWhitePages_ty b (\<lambda>v.
          icq_FindByICQInterests i rid (vu16 (vfield 17 v)) (vstring (vfield 18 v)) seq))
      else if sub = ICQDBQueryMetaReqSearchWhitePages2 then
        Some (decodedLE ICQ_0x07D0_0x055F_DBQueryMetaReqSearchWhitePages2_ty b (\<lambda>v. icq_FindByWhitePages2 i rid (block_field 0 v) seq))
      else None)"

definition icq_change :: "inst_ref \<Rightarrow> u32 \<Rightarrow> u16 \<Rightarrow> u16 \<Rightarrow> bytes \<Rightarrow> unit svc option" where
  "icq_change i rid seq sub b =
     (if sub = ICQDBQueryMetaReqSetPermissions then
        Some (decodedLE ICQ_0x07D0_0x0424_DBQueryMetaReqSetPermissions_ty b (\<lambda>v. icq_SetPermissions i rid v seq))
      else if sub = ICQDBQueryMetaReqSetICQPhone then
        Some (decodedLE ICQ_0x07D0_0x0654_DBQueryMetaReqSetICQPhone_ty b (\<lambda>v. SetICQPhone i rid seq))
      else if sub = ICQDBQueryMetaReqSetBasicInfo then
        Some (decodedLE ICQ_0x07D0_0x03EA_DBQueryMetaReqSetBasicInfo_ty b (\<lambda>v. icq_SetBasicInfo i rid v seq))
      else if sub = ICQDBQueryMetaReqSetWorkInfo then
        Some (decodedLE ICQ_0x07D0_0x03F3_DBQueryMetaReqSetWorkInfo_ty b (\<lambda>v. icq_SetWorkInfo i rid v seq))
      else if sub = ICQDBQueryMetaReqSetMoreInfo then
        Some (decodedLE ICQ_0x07D0_0x03FD_DBQueryMetaReqSetMoreInfo_ty b (\<lambda>v. icq_SetMoreInfo i rid v seq))
      else if sub = ICQDBQueryMetaReqSetNotes then
        Some (decodedLE ICQ_0x07D0_0x0406_DBQueryMetaReqSetNotes_ty b (\<lambda>v. icq_SetUserNotes i rid v seq))
      else if sub = ICQDBQueryMetaReqSetEmails then
        Some (decodedLE ICQ_0x07D0_0x040B_DBQueryMetaReqSetEmails_ty b (\<lambda>v. icq_SetEmails i rid seq))
      else if sub = ICQDBQueryMetaReqSetInterests then
        Some (decodedLE ICQ_0x07D0_0x0410_DBQueryMetaReqSetInterests_ty b (\<lambda>v. icq_SetInterests i rid v seq))
      else if sub = ICQDBQueryMetaReqSetAffiliations then
        Some (decodedLE ICQ_0x07D0_0x041A_DBQueryMetaReqSetAffiliations_ty b (\<lambda>v. icq_SetAffiliations i rid v seq))
      else if sub = ICQDBQueryMetaReqSetFullInfo then
        Some (decodedLE ICQ_0x07D0_0x0C3A_DBQueryMetaReqSetFullInfo_ty b (\<lambda>v. icq_SetICQInfo i rid (block_field 0 v) seq))
      else None)"

definition icq_meta :: "inst_ref \<Rightarrow> u32 \<Rightarrow> u16 \<Rightarrow> u16 \<Rightarrow> bytes \<Rightarrow> unit svc" where
  "icq_meta i rid seq sub b =
     (case icq_lookup i rid seq sub b of
        Some m \<Rightarrow> m
      | None \<Rightarrow> (case icq_change i rid seq sub b of Some m \<Rightarrow> m | None \<Rightarrow> retS ()))"

definition icq_request :: "inst_ref \<Rightarrow> u32 \<Rightarrow> val \<Rightarrow> bytes \<Rightarrow> unit svc" where
  "icq_request i rid md b =
     (let reqType = vu16 (vfield 1 (vfield 0 md)); seq = vu16 (vfield 2 (vfield 0 md)) in
      if reqType = ICQDBQueryOfflineMsgReq then OfflineMsgReq icq_events i rid seq
      else if reqType = ICQDBQueryDeleteMsgReq then DeleteMsgReq i
      else if reqType = ICQDBQueryMetaReq then
        (case vfield 1 md of
           VPtr sub \<Rightarrow> icq_meta i rid seq (vu16 (vfield 0 sub)) b
         | _ \<Rightarrow> failS (BadRequest ''got req without subtype''))
      else failS (BadRequest ''unknown ICQ request type''))"

definition h_ICQDBQuery :: handler where
  "h_ICQDBQuery i f b = decodedS SNAC_0x15_0x02_BQuery_ty b (\<lambda>v.
     case TLVList_Bytes ICQTLVTagsMetadata (block_field 0 v) of
       None \<Rightarrow> failS (BadRequest ''invalid ICQ frame'')
     | Some md \<Rightarrow>
         bindS (liftS (fst (UnmarshalLE ICQMessageRequestEnvelope_ty md))) (\<lambda>chunk.
           case UnmarshalLE ICQMetadataWithSubType_ty (val_bytes (vfield 0 chunk)) of
             (x, rest) \<Rightarrow> bindS (liftS x) (\<lambda>icqMD. silentS (icq_request i (RequestID f) icqMD rest))))"

subsection \<open>Profiles and directory\<close>

definition h_LocateRightsQuery :: handler where
  "h_LocateRightsQuery i f b = answerS (locate_RightsQuery (RequestID f))"
definition h_LocateSetInfo :: handler where
  "h_LocateSetInfo i f b = decodedS SNAC_0x02_0x04_LocateSetInfo_ty b (\<lambda>v. silentS (SetInfo i (block_field 0 v)))"
definition h_LocateSetDirInfo :: handler where
  "h_LocateSetDirInfo i f b = decodedS SNAC_0x02_0x09_LocateSetDirInfo_ty b (\<lambda>v.
     answerS (SetDirInfo i (RequestID f) (block_field 0 v)))"
definition h_LocateGetDirInfo :: handler where
  "h_LocateGetDirInfo i f b = decodedS SNAC_0x02_0x0B_LocateGetDirInfo_ty b (\<lambda>v. answerS (DirInfo (RequestID f) (vstring (vfield 0 v))))"
definition h_LocateSetKeywordInfo :: handler where
  "h_LocateSetKeywordInfo i f b = decodedS SNAC_0x02_0x0F_LocateSetKeywordInfo_ty b (\<lambda>v.
     answerS (SetKeywordInfo i (RequestID f) (block_field 0 v)))"
definition h_LocateUserInfoQuery :: handler where
  "h_LocateUserInfoQuery i f b = decodedS SNAC_0x02_0x05_LocateUserInfoQuery_ty b (\<lambda>v.
     answerS (locate_UserInfoQuery i (RequestID f) (vu16 (vfield 0 v)) (vstring (vfield 1 v))))"
definition h_LocateUserInfoQuery2 :: handler where
  "h_LocateUserInfoQuery2 i f b = decodedS SNAC_0x02_0x15_LocateUserInfoQuery2_ty b (\<lambda>v.
     answerS (locate_UserInfoQuery i (RequestID f) (ucast (vu32 (vfield 0 v))) (vstring (vfield 1 v))))"
definition h_ODirInfoQuery :: handler where
  "h_ODirInfoQuery i f b = decodedS SNAC_0x0F_0x02_InfoQuery_ty b (\<lambda>v. answerS (odir_InfoQuery (RequestID f) (block_field 0 v)))"
definition h_ODirKeywordListQuery :: handler where
  "h_ODirKeywordListQuery i f b = answerS (KeywordListQuery (RequestID f))"

subsection \<open>The connection itself\<close>

definition h_OServiceRateParamsQuery :: handler where
  "h_OServiceRateParamsQuery i f b = answerS (RateParamsQuery i (RequestID f))"
definition h_OServiceRateParamsSubAdd :: handler where
  "h_OServiceRateParamsSubAdd i f b = decodedS SNAC_0x01_0x08_OServiceRateParamsSubAdd_ty b (\<lambda>v.
     silentS (RateParamsSubAdd i (map vu16 (vlist (vfield 0 v)))))"
definition h_OServiceUserInfoQuery :: handler where
  "h_OServiceUserInfoQuery i f b = answerS (oservice_UserInfoQuery i (RequestID f))"
definition h_OServiceProbeReq :: handler where
  "h_OServiceProbeReq i f b = retS [ProbeReq (RequestID f)]"
definition h_OServiceIdleNotification :: handler where
  "h_OServiceIdleNotification i f b = decodedS SNAC_0x01_0x11_OServiceIdleNotification_ty b (\<lambda>v.
     silentS (IdleNotification i (vu32 (vfield 0 v))))"
definition h_OServiceClientVersions :: handler where
  "h_OServiceClientVersions i f b = decodedS SNAC_0x01_0x17_OServiceClientVersions_ty b (\<lambda>v.
     answersS (ClientVersions i (RequestID f) (map vu16 (vlist (vfield 0 v)))))"
definition h_OServiceSetUserInfoFields :: handler where
  "h_OServiceSetUserInfoFields i f b = decodedS SNAC_0x01_0x1E_OServiceSetUserInfoFields_ty b (\<lambda>v.
     silentS (SetUserInfoFields i (block_field 0 v)))"
definition h_OServiceSetPrivacyFlags :: handler where
  "h_OServiceSetPrivacyFlags i f b = decodedS SNAC_0x01_0x14_OServiceSetPrivacyFlags_ty b (\<lambda>v. retS [])"

text \<open>The service the connection is to, and the hosts its listener advertises.\<close>

record endpoint =
  ep_service :: u16
  ep_host :: bytes
  ep_ssl :: bytes
  ep_teardown :: "nat \<Rightarrow> unit svc"

definition h_OServiceServiceRequest :: "endpoint \<Rightarrow> handler" where
  "h_OServiceServiceRequest e i f b = decodedS SNAC_0x01_0x04_OServiceServiceRequest_ty b (\<lambda>v.
     answerS (ServiceRequest (ep_service e) i (RequestID f) (vu16 (vfield 0 v)) (block_field 1 v) (ep_host e) (ep_ssl e)))"
definition h_OServiceClientOnline :: "endpoint \<Rightarrow> handler" where
  "h_OServiceClientOnline e i f b = decodedS SNAC_0x01_0x02_OServiceClientOnline_ty b (\<lambda>v. silentS (ClientOnline (ep_service e) i))"

subsection \<open>Privacy lists, statistics, lookups\<close>

definition h_PermitDenyRightsQuery :: handler where
  "h_PermitDenyRightsQuery i f b = answerS (pd_RightsQuery (RequestID f))"
definition h_PermitDenyAddDenyListEntries :: handler where
  "h_PermitDenyAddDenyListEntries i f b = decodedS SNAC_0x09_0x07_PermitDenyAddDenyListEntries_ty b (\<lambda>v.
     silentS (AddDenyListEntries i (names_field v)))"
definition h_PermitDenyDelDenyListEntries :: handler where
  "h_PermitDenyDelDenyListEntries i f b = decodedS SNAC_0x09_0x08_PermitDenyDelDenyListEntries_ty b (\<lambda>v.
     silentS (DelDenyListEntries i (names_field v)))"
definition h_PermitDenyAddPermListEntries :: handler where
  "h_PermitDenyAddPermListEntries i f b = decodedS SNAC_0x09_0x05_PermitDenyAddPermListEntries_ty b (\<lambda>v.
     silentS (AddPermListEntries i (names_field v)))"
definition h_PermitDenyDelPermListEntries :: handler where
  "h_PermitDenyDelPermListEntries i f b = decodedS SNAC_0x09_0x06_PermitDenyDelPermListEntries_ty b (\<lambda>v.
     silentS (DelPermListEntries i (names_field v)))"
definition h_PermitDenySetGroupPermitMask :: handler where
  "h_PermitDenySetGroupPermitMask i f b = decodedS SNAC_0x09_0x04_PermitDenySetGroupPermitMask_ty b (\<lambda>v. retS [])"
definition h_StatsReportEvents :: handler where
  "h_StatsReportEvents i f b = decodedS SNAC_0x0B_0x03_StatsReportEvents_ty b (\<lambda>v. retS [full (ReportEvents (RequestID f))])"
definition h_UserLookupFindByEmail :: handler where
  "h_UserLookupFindByEmail i f b = decodedS SNAC_0x0A_0x02_UserLookupFindByEmail_ty b (\<lambda>v.
     answerS (FindByEmail (RequestID f) (val_bytes (vfield 0 v))))"

section \<open>Dispatch\<close>

text \<open>The handlers by food group and sub group; two food groups are ignored whatever the sub group.\<close>

definition routes :: "endpoint \<Rightarrow> ((u16 \<times> u16) \<times> handler) list" where
  "routes e =
     [((Admin, AdminAcctConfirmRequest), h_AdminConfirmRequest), ((Admin, AdminInfoChangeRequest), h_AdminInfoChangeRequest),
      ((Admin, AdminInfoQuery), h_AdminInfoQuery),
      ((ClientInfo.Alert, AlertNotifyCapabilities), h_ignored), ((ClientInfo.Alert, AlertNotifyDisplayCapabilities), h_ignored),
      ((BART, BARTDownloadQuery), h_BARTDownloadQuery), ((BART, BARTDownload2Query), h_BARTDownload2Query),
      ((BART, BARTUploadQuery), h_BARTUploadQuery),
      ((Buddy, BuddyAddBuddies), h_BuddyAddBuddies), ((Buddy, BuddyDelBuddies), h_BuddyDelBuddies),
      ((Buddy, BuddyRightsQuery), h_BuddyRightsQuery), ((Buddy, BuddyAddTempBuddies), h_BuddyAddTempBuddies),
      ((Buddy, BuddyDelTempBuddies), h_BuddyDelTempBuddies),
      ((Chat, ChatChannelMsgToHost), h_ChatChannelMsgToHost),
      ((ChatNav, ChatNavCreateRoom), h_ChatNavCreateRoom), ((ChatNav, ChatNavRequestChatRights), h_ChatNavRequestChatRights),
      ((ChatNav, ChatNavRequestExchangeInfo), h_ChatNavRequestExchangeInfo),
      ((ChatNav, ChatNavRequestRoomInfo), h_ChatNavRequestRoomInfo),
      ((Feedbag, FeedbagDeleteItem), h_FeedbagDeleteItem), ((Feedbag, FeedbagEndCluster), h_FeedbagEndCluster),
      ((Feedbag, FeedbagInsertItem), h_FeedbagInsertItem), ((Feedbag, FeedbagQuery), h_FeedbagQuery),
      ((Feedbag, FeedbagQueryIfModified), h_FeedbagQueryIfModified),
      ((Feedbag, FeedbagPreAuthorizeBuddy), h_FeedbagPreAuthorizeBuddy),
      ((Feedbag, FeedbagRequestAuthorizeToHost), h_FeedbagRequestAuthorizeToHost),
      ((Feedbag, FeedbagRespondAuthorizeToHost), h_FeedbagRespondAuthorizeToHost),
      ((Feedbag, FeedbagRightsQuery), h_FeedbagRightsQuery), ((Feedbag, FeedbagStartCluster), h_FeedbagStartCluster),
      ((Feedbag, FeedbagUpdateItem), h_FeedbagUpdateItem), ((Feedbag, FeedbagUse), h_FeedbagUse),
      ((Invite, InviteRequestQuery), h_ignored), ((Invite, InviteRequestReply), h_ignored),
      ((ICQ, ICQDBQuery), h_ICQDBQuery),
      ((ICBM, ICBMAddParameters), h_ICBMAddParameters), ((ICBM, ICBMChannelMsgToHost), h_ICBMChannelMsgToHost),
      ((ICBM, ICBMClientErr), h_ICBMClientErr), ((ICBM, ICBMClientEvent), h_ICBMClientEvent),
      ((ICBM, ICBMEvilRequest), h_ICBMEvilRequest), ((ICBM, ICBMParameterQuery), h_ICBMParameterQuery),
      ((ICBM, ICBMOfflineRetrieve), h_ICBMOfflineRetrieve),
      ((Locate, LocateGetDirInfo), h_LocateGetDirInfo), ((Locate, LocateRightsQuery), h_LocateRightsQuery),
      ((Locate, LocateSetDirInfo), h_LocateSetDirInfo), ((Locate, LocateSetInfo), h_LocateSetInfo),
      ((Locate, LocateSetKeywordInfo), h_LocateSetKeywordInfo), ((Locate, LocateUserInfoQuery), h_LocateUserInfoQuery),
      ((Locate, LocateUserInfoQuery2), h_LocateUserInfoQuery2),
      ((ODir, ODirInfoQuery), h_ODirInfoQuery), ((ODir, ODirKeywordListQuery), h_ODirKeywordListQuery),
      ((OService, OServiceClientOnline), h_OServiceClientOnline e), ((OService, OServiceClientVersions), h_OServiceClientVersions),
      ((OService, OServiceIdleNotification), h_OServiceIdleNotification), ((OService, OServiceNoop), h_ignored),
      ((OService, OServiceRateParamsQuery), h_OServiceRateParamsQuery),
      ((OService, OServiceRateParamsSubAdd), h_OServiceRateParamsSubAdd),
      ((OService, OServiceServiceRequest), h_OServiceServiceRequest e),
      ((OService, OServiceSetPrivacyFlags), h_OServiceSetPrivacyFlags),
      ((OService, OServiceSetUserInfoFields), h_OServiceSetUserInfoFields),
      ((OService, OServiceUserInfoQuery), h_OServiceUserInfoQuery), ((OService, OServiceProbeReq), h_OServiceProbeReq),
      ((PermitDeny, PermitDenyAddDenyListEntries), h_PermitDenyAddDenyListEntries),
      ((PermitDeny, PermitDenyAddPermListEntries), h_PermitDenyAddPermListEntries),
      ((PermitDeny, PermitDenyDelDenyListEntries), h_PermitDenyDelDenyListEntries),
      ((PermitDeny, PermitDenyDelPermListEntries), h_PermitDenyDelPermListEntries),
      ((PermitDeny, PermitDenyRightsQuery), h_PermitDenyRightsQuery),
      ((PermitDeny, PermitDenySetGroupPermitMask), h_PermitDenySetGroupPermitMask),
      ((Stats, StatsReportEvents), h_StatsReportEvents), ((UserLookup, UserLookupFindByEmail), h_UserLookupFindByEmail)]"

definition route :: "endpoint \<Rightarrow> SNACFrame \<Rightarrow> handler option" where
  "route e f =
     (if FoodGroup f = MDir \<or> FoodGroup f = Plugin then Some h_ignored
      else map_of (routes e) (FoodGroup f, SubGroup f))"

text \<open>\<open>None\<close> is \<open>ErrRouteNotFound\<close>.\<close>

definition Handle :: "endpoint \<Rightarrow> inst_ref \<Rightarrow> SNACFrame \<Rightarrow> bytes \<Rightarrow> response list option svc" where
  "Handle e i f b = (case route e f of None \<Rightarrow> retS None | Some h \<Rightarrow> bindS (h i f b) (\<lambda>rs. retS (Some rs)))"

end
