(* ===== verification/OscarServer.thy ===== *)
theory OscarServer
  imports OscarHandler
begin

text \<open>
  A connection of the OSCAR server after the login (\<open>server/oscar/server.go\<close>, \<open>dispatchIncomingMessages\<close> and
  \<open>receiveSessMessages\<close>): requests are limited, dispatched and answered, messages relayed to the connection are
  sent, and the connection ends on an error, on a sign-off, when its session closes or the server shuts down.
\<close>

section \<open>The teardown of a session\<close>

text \<open>
  Closing the last connection of a chat session runs \<open>SignoutChat\<close> (\<open>foodgroup/auth.go\<close>); \<open>leave_all_chats\<close> is
  \<open>RemoveUserFromAllChats\<close> (\<open>state/session_manager.go\<close>) with that callback.
\<close>

definition sign_out_chat :: "chat_ref \<Rightarrow> unit svc" where
  "sign_out_chat s = bindS (alertUserLeft s) (\<lambda>_. chat_call (chat_RemoveSession s))"

definition close_chat :: "chat_ref \<Rightarrow> unit svc" where
  "close_chat s = bindS (getS (chat_sess s)) (\<lambda>c.
     bindS (modS (\<lambda>W. W\<lparr>chats := set_mgr (fst s) (upd_sess (snd s) CloseSession (chat_mgr (chats W) (fst s))) (chats W)\<rparr>)) (\<lambda>_.
       whenS (torn_down c (CloseSession c)) (sign_out_chat s)))"

definition leave_all_chats :: "IdentScreenName \<Rightarrow> unit svc" where
  "leave_all_chats sn = bindS (getS (\<lambda>W. map snd (rooms (chats W)))) (\<lambda>ms. forS ms (\<lambda>m.
     bindS (getS (\<lambda>W. RetrieveSession sn (chat_mgr (chats W) m))) (\<lambda>r.
       case r of None \<Rightarrow> retS () | Some k \<Rightarrow> close_chat (m, k))))"

text \<open>
  The callback \<open>connectToOSCARService\<close> installs for a BOS session: the buddies hear of the departure, unless the server
  is shutting down, the buddy list is taken down, the user leaves the chat rooms and the session the registry. Errors
  are logged.
\<close>

definition bos_teardown :: "bool \<Rightarrow> nat \<Rightarrow> unit svc" where
  "bos_teardown shutting k = bindS (getS (\<lambda>W. identScreenName (sess_of (registry W) k))) (\<lambda>sn.
     bindS (whenS (\<not> shutting) (catchS (BroadcastBuddyDeparted sn) (\<lambda>_. retS ()))) (\<lambda>_.
     bindS (catchS (db_set (UnregisterBuddyList sn)) (\<lambda>_. retS ())) (\<lambda>_.
     bindS (leave_all_chats sn) (\<lambda>_.
       modS (\<lambda>W. W\<lparr>registry := RemoveSession k (registry W)\<rparr>)))))"

section \<open>One request\<close>

definition FLAPFrameError :: u8 where "FLAPFrameError = 0x03"

fun val_snac :: "val \<Rightarrow> SNACFrame" where
  "val_snac (VStruct [VU16 g, VU16 s, VU16 fl, VU32 r]) = \<lparr>FoodGroup = g, SubGroup = s, Flags = fl, RequestID = r\<rparr>"
| "val_snac _ = \<lparr>FoodGroup = 0, SubGroup = 0, Flags = 0, RequestID = 0\<rparr>"

lemma val_snac_snac_val [simp]: "val_snac (snac_val f) = f"
  by (simp add: snac_val_def)

fun send_all :: "response list \<Rightarrow> FlapClient \<Rightarrow> unit outcome \<times> FlapClient" where
  "send_all [] F = (Ok (), F)"
| "send_all (r # rs) F =
     (case SendSNAC (snac_val (fst r)) (snd r) F of
        (Ok _, F') \<Rightarrow> send_all rs F'
      | x \<Rightarrow> x)"

definition sendInvalidSNACErr :: "SNACFrame \<Rightarrow> FlapClient \<Rightarrow> unit outcome \<times> FlapClient" where
  "sendInvalidSNACErr f F =
     SendSNAC (snac_val \<lparr>FoodGroup = FoodGroup f, SubGroup = 0x01, Flags = 0, RequestID = RequestID f\<rparr>)
       (Some (SNACError_ty, VStruct [VU16 ErrorCodeInvalidSnac, rest_block []])) F"

text \<open>Whether the connection goes on, ends, or ends with an error.\<close>

datatype verdict = GoOn | Finished | Failed

definition after_send :: "World \<Rightarrow> unit outcome \<times> FlapClient \<Rightarrow> (verdict \<times> FlapClient \<times> World) outcome" where
  "after_send W r =
     (case fst r of
        Ok _ \<Rightarrow> Ok (GoOn, snd r, W)
      | Err _ \<Rightarrow> Ok (Failed, snd r, W)
      | Panic \<Rightarrow> Panic
      | Hang \<Rightarrow> Hang)"

text \<open>
  The rate limit: true if the request is to be dropped. A session that is disconnected for its rate is closed in
  \<open>EvaluateRateLimit\<close>, with its teardown callback; the request goes on to its handler.
\<close>

definition limit_request :: "endpoint \<Rightarrow> inst_ref \<Rightarrow> SNACFrame \<Rightarrow> World \<Rightarrow> (bool \<times> World) outcome" where
  "limit_request e i f W =
     (case RateClassLookup DefaultSNACRateLimits (FoodGroup f) (SubGroup f) of
        (_, False) \<Rightarrow> Ok (False, W)
      | (c, True) \<Rightarrow> bind_out (EvaluateRateLimit (clock W) c (sess i W)) (\<lambda>(status, s).
          let W' = W\<lparr>registry := upd_sess (fst i) (\<lambda>_. s) (registry W)\<rparr> in
          if torn_down (sess i W) s
          then bind_out (ep_teardown e (fst i) W') (\<lambda>(_, W''). Ok (status = Limited, W''))
          else Ok (status = Limited, W')))"

definition answer_request :: "endpoint \<Rightarrow> inst_ref \<Rightarrow> SNACFrame \<Rightarrow> bytes \<Rightarrow> FlapClient \<Rightarrow> World \<Rightarrow>
    (verdict \<times> FlapClient \<times> World) outcome" where
  "answer_request e i f b F W =
     bind_out (Handle e i f b W) (\<lambda>(x, W').
       case x of
         Inl _ \<Rightarrow> Ok (Failed, F, W')
       | Inr None \<Rightarrow> after_send W' (sendInvalidSNACErr f F)
       | Inr (Some rs) \<Rightarrow> after_send W' (send_all rs F))"

definition handle_data :: "endpoint \<Rightarrow> inst_ref \<Rightarrow> bytes \<Rightarrow> FlapClient \<Rightarrow> World \<Rightarrow> (verdict \<times> FlapClient \<times> World) outcome" where
  "handle_data e i payload F W =
     (case UnmarshalBE SNACFrame_ty payload of
        (Ok v, body) \<Rightarrow>
          bind_out (limit_request e i (val_snac v) W) (\<lambda>(dropped, W').
            if dropped then Ok (GoOn, F, W') else answer_request e i (val_snac v) body F W')
      | (Err _, _) \<Rightarrow> Ok (Failed, F, W)
      | (Panic, _) \<Rightarrow> Panic
      | (Hang, _) \<Rightarrow> Hang)"

definition handle_flap :: "endpoint \<Rightarrow> inst_ref \<Rightarrow> FLAPFrame \<Rightarrow> FlapClient \<Rightarrow> World \<Rightarrow> (verdict \<times> FlapClient \<times> World) outcome" where
  "handle_flap e i fl F W =
     (if FrameType fl = FLAPFrameData then handle_data e i (Payload fl) F W
      else if FrameType fl = FLAPFrameSignoff then Ok (Finished, F, W)
      else if FrameType fl = FLAPFrameKeepAlive then Ok (GoOn, F, W)
      else Ok (Failed, F, W))"

section \<open>The connection as a state machine\<close>

text \<open>The last frame to the client when its session was closed, and when the server shuts down.\<close>

definition sign_off :: "inst_ref \<Rightarrow> World \<Rightarrow> TLV outcome list \<Rightarrow> FlapClient \<Rightarrow> unit outcome \<times> FlapClient" where
  "sign_off i W ts F =
     (if inst_multiConnFlag (conn i W) = 0 then OldSignoff F
      else case collect_out ts of Ok l \<Rightarrow> NewSignoff l F | Err e \<Rightarrow> (Err e, F) | Panic \<Rightarrow> (Panic, F) | Hang \<Rightarrow> (Hang, F))"

definition closed_reason :: "TLV outcome list" where
  "closed_reason = [tlv8 0x0009 OServiceDiscErrNewLogin, tlv_str 0x000B (ascii ''https://github.com/mk6i/open-oscar-server'')]"

text \<open>
  The reader goroutine hands over one frame after the other and then the error that ended the input; the loop
  takes whichever of frame, error, close and shutdown is ready, so that a frame still waiting when the
  input ends may be lost (\<open>overtaken\<close>). Meanwhile other connections change the world (\<open>elsewhere\<close>), and
  \<open>receiveSessMessages\<close>, a goroutine of its own, sends what is relayed to this connection. It learns of the end of the
  session only when its \<open>select\<close> picks that case: a message still queued can be sent behind the sign-off
  (\<open>relayed_late\<close>), or is taken and lost when the connection has been closed meanwhile (\<open>lost\<close>). A request with its
  handler and all its answers is one step.
\<close>

datatype server_conn = Serving FlapClient World | Ended FlapClient World | Gone FlapClient World

inductive serve :: "endpoint \<Rightarrow> inst_ref \<Rightarrow> server_conn \<Rightarrow> server_conn \<Rightarrow> bool" for e i where
  request: "recv FLAPFrame_ty F = (Ok v, F1) \<Longrightarrow> handle_flap e i (val_flap v) F1 W = Ok (GoOn, F2, W2) \<Longrightarrow>
    serve e i (Serving F W) (Serving F2 W2)"
| last_request: "recv FLAPFrame_ty F = (Ok v, F1) \<Longrightarrow> handle_flap e i (val_flap v) F1 W = Ok (vd, F2, W2) \<Longrightarrow> vd \<noteq> GoOn \<Longrightarrow>
    serve e i (Serving F W) (Ended F2 W2)"
| hang_up: "recv FLAPFrame_ty F = (Err x, F1) \<Longrightarrow> serve e i (Serving F W) (Ended F1 W)"
| overtaken: "recv FLAPFrame_ty F = (Ok v, F1) \<Longrightarrow> recv FLAPFrame_ty F1 = (Err x, F2) \<Longrightarrow>
    serve e i (Serving F W) (Ended F2 W)"
| session_closed: "iclosed (conn i W) \<Longrightarrow> sign_off i W closed_reason F = (x, F1) \<Longrightarrow> serve e i (Serving F W) (Ended F1 W)"
| shut_down: "sign_off i W [] F = (x, F1) \<Longrightarrow> serve e i (Serving F W) (Ended F1 W)"
| relayed: "receive_msg (conn i W) = (Some m, c) \<Longrightarrow> SendSNAC (snac_val (fst m)) (Some (snd m)) F = (x, F1) \<Longrightarrow>
    mod_conn i (\<lambda>_. c) W = Ok (Inr (), W1) \<Longrightarrow> serve e i (Serving F W) (Serving F1 W1)"
| elsewhere: "serve e i (Serving F W) (Serving F W1)"
| relayed_late: "receive_msg (conn i W) = (Some m, c) \<Longrightarrow> SendSNAC (snac_val (fst m)) (Some (snd m)) F = (x, F1) \<Longrightarrow>
    mod_conn i (\<lambda>_. c) W = Ok (Inr (), W1) \<Longrightarrow> serve e i (Ended F W) (Ended F1 W1)"
| elsewhere_ended: "serve e i (Ended F W) (Ended F W1)"
| disconnected: "serve e i (Ended F W) (Gone F W)"
| lost: "receive_msg (conn i W) = (Some m, c) \<Longrightarrow> mod_conn i (\<lambda>_. c) W = Ok (Inr (), W1) \<Longrightarrow>
    serve e i (Gone F W) (Gone F W1)"
| elsewhere_gone: "serve e i (Gone F W) (Gone F W1)"

end
