(* ===== verification/CodecTyping.thy ===== *)
theory CodecTyping
  imports CodecProperties
begin

text \<open>
  What the decoder returns has the type it was asked for (\<open>wire/decode.go\<close>): the fields in order, arrays of their
  length, pointers to structs or nil, and strings and counted slices within the range of their prefix. The decode
  quirks are included.
\<close>

section \<open>Typed values\<close>

function (sequential) typed :: "oscarTag \<Rightarrow> ty \<Rightarrow> val \<Rightarrow> bool"
  and typed_fields :: "field list \<Rightarrow> val list \<Rightarrow> bool" where
  "typed tg TU8 v = (case v of VU8 _ \<Rightarrow> True | _ \<Rightarrow> False)"
| "typed tg TU16 v = (case v of VU16 _ \<Rightarrow> True | _ \<Rightarrow> False)"
| "typed tg TU32 v = (case v of VU32 _ \<Rightarrow> True | _ \<Rightarrow> False)"
| "typed tg TU64 v = (case v of VU64 _ \<Rightarrow> True | _ \<Rightarrow> False)"
| "typed tg TString v =
     (case v of
        VString s \<Rightarrow> length s < prefix_max (lenPrefix tg) \<and> (nullTerminated tg \<longrightarrow> 0 \<notin> set s)
      | _ \<Rightarrow> False)"
| "typed tg (TArray n te) v = (case v of VList vs \<Rightarrow> length vs = n \<and> (\<forall>x \<in> set vs. typed emptyTag te x) | _ \<Rightarrow> False)"
| "typed tg (TSlice te) v =
     (case v of
        VList vs \<Rightarrow> (\<forall>x \<in> set vs. typed emptyTag te x) \<and>
          (\<not> hasLenPrefix tg \<longrightarrow> hasCountPrefix tg \<longrightarrow> length vs < prefix_max (countPrefix tg))
      | _ \<Rightarrow> False)"
| "typed tg (TStruct name fs) v = (case v of VStruct vs \<Rightarrow> typed_fields fs vs | _ \<Rightarrow> False)"
| "typed tg (TPtr te) v = (case v of VNil \<Rightarrow> True | VPtr p \<Rightarrow> typed tg te p | _ \<Rightarrow> False)"
| "typed tg _ v = False"
| "typed_fields [] vs = (vs = [])"
| "typed_fields (Field n tag t # fs) vs =
     (case vs of
        [] \<Rightarrow> False
      | v # vs' \<Rightarrow> (case parseOSCARTag tag of Ok tg \<Rightarrow> typed tg t v | _ \<Rightarrow> False) \<and> typed_fields fs vs')"
  by pat_completeness auto
termination
  by (relation "measure (\<lambda>x. case x of Inl (tg, t, v) \<Rightarrow> size t | Inr (fs, vs) \<Rightarrow> size_list size fs)") auto

section \<open>What a parser can return\<close>

definition yields :: "'a parser \<Rightarrow> ('a \<Rightarrow> bool) \<Rightarrow> bool" where
  "yields p P \<longleftrightarrow> (\<forall>r v r'. p r = (Ok v, r') \<longrightarrow> P v)"

lemma yieldsD: "yields p P \<Longrightarrow> p r = (Ok v, r') \<Longrightarrow> P v"
  unfolding yields_def by blast

lemma yields_simps [simp]:
  "yields (pret v) P = P v" "yields (pfail e) P" "yields ppanic P"
  by (auto simp: yields_def pret_def pfail_def ppanic_def)

lemma yields_Pair [simp]: "yields (Pair (Err e)) P" "yields (Pair Panic) P" "yields (Pair (Ok v)) P = P v"
  by (auto simp: yields_def)

lemma yields_pbind: "yields p Q \<Longrightarrow> (\<And>v. Q v \<Longrightarrow> yields (f v) P) \<Longrightarrow> yields (pbind p f) P"
  unfolding yields_def pbind_def by (fastforce split: prod.splits outcome.splits)

lemma yields_True [simp]: "yields p (\<lambda>_. True)"
  by (simp add: yields_def)

lemma yields_pbind_any: "(\<And>v. yields (f v) P) \<Longrightarrow> yields (pbind p f) P"
  by (rule yields_pbind [where Q = "\<lambda>_. True"]) simp_all

lemma yields_repeat_n: "yields p P \<Longrightarrow> yields (repeat_n n p) (\<lambda>vs. length vs = n \<and> (\<forall>x \<in> set vs. P x))"
proof (induction n)
  case (Suc n)
  show ?case
    by (simp, rule yields_pbind [OF Suc.prems], rule yields_pbind [OF Suc.IH [OF Suc.prems]]) simp
qed simp

lemma until_empty_yields: "yields p P \<Longrightarrow> until_empty p b = Ok vs \<Longrightarrow> x \<in> set vs \<Longrightarrow> P x"
proof (induction p b arbitrary: vs rule: until_empty.induct)
  case (1 p b)
  show ?case
  proof (cases "b = []")
    case True
    with 1 show ?thesis by (simp add: until_empty.simps)
  next
    case False
    with 1(3) obtain v b' us where s: "p b = (Ok v, b')" "length b' < length b" "until_empty p b' = Ok us" "vs = v # us"
      by (subst (asm) until_empty.simps) (auto split: prod.splits outcome.splits if_splits)
    then have "P v" using 1(2) by (auto dest: yieldsD)
    then show ?thesis using 1(1) [OF False s(1) [symmetric] refl s(2) 1(2) s(3)] 1(4) s(4) by auto
  qed
qed

lemma until_eof_yields: "yields p P \<Longrightarrow> yields (until_eof p) (\<lambda>vs. \<forall>x \<in> set vs. P x)"
proof -
  assume p: "yields p P"
  have "until_eof p r = (Ok vs, r') \<Longrightarrow> x \<in> set vs \<Longrightarrow> P x" for r vs r' x
    using p
  proof (induction p r arbitrary: vs rule: until_eof.induct)
    case (1 p r)
    from 1(2) consider "vs = []"
      | v r1 us where "p r = (Ok v, r1)" "length r1 < length r" "until_eof p r1 = (Ok us, r')" "vs = v # us"
      by (subst (asm) until_eof.simps) (auto split: prod.splits outcome.splits if_splits)
    then show ?case
    proof cases
      case 2
      then have "P v" using 1(4) by (auto dest: yieldsD)
      then show ?thesis using 1(1) [OF 2(1) [symmetric] refl 2(2) 2(3) _ 1(4)] 2(4) 1(3) by auto
    qed (use 1 in simp)
  qed
  then show ?thesis by (auto simp: yields_def)
qed

section \<open>The decoder\<close>

lemma yields_read_full: "yields (read_full n) (\<lambda>b. length b = n)"
  by (auto simp: yields_def read_full_def split: if_splits)

lemma yields_read_uint: "yields (read_uint ord n) (\<lambda>x. x < 256 ^ n)"
  unfolding read_uint_def
  by (rule yields_pbind [OF yields_read_full]) (use get_uint_bound in force)

lemma yields_unmarshalUnsignedInt: "yields (unmarshalUnsignedInt k ord) (\<lambda>n. n < prefix_max k)"
  using yields_read_uint [of ord 1] yields_read_uint [of ord 2]
  by (cases k) (simp_all add: unmarshalUnsignedInt_def prefix_max_def)

lemma yields_unmarshalString: "yields (unmarshalString tg ord) (typed tg TString)"
proof -
  have "yields (pret (VString (if nullTerminated tg then takeWhile (\<lambda>b. b \<noteq> 0) b else b))) (typed tg TString)"
    if "length b < prefix_max (lenPrefix tg)" for b
    using that length_takeWhile_le [of "\<lambda>b. b \<noteq> 0" b]
    by (auto dest: set_takeWhileD simp del: length_takeWhile_le)
  then show ?thesis
    unfolding unmarshalString_def
    by (auto intro!: yields_pbind [OF yields_unmarshalUnsignedInt] yields_pbind [OF yields_read_full])
qed

lemma typed_vbytes [simp]: "typed tg (TSlice TU8) (vbytes b) \<longleftrightarrow>
    (\<not> hasLenPrefix tg \<longrightarrow> hasCountPrefix tg \<longrightarrow> length b < prefix_max (countPrefix tg))"
  by (auto simp: vbytes_def)

lemma typed_tlv: "typed emptyTag tlv_ty (VStruct [VU16 t, vbytes b])"
  by (simp add: tlv_ty_def tag_eval vbytes_def)

lemma yields_tlv_end: "yields (pret (VStruct [VU16 x, vbytes b])) (typed emptyTag tlv_ty)"
  by (simp only: yields_simps typed_tlv)

lemma yields_quirks:
  "yields (unmarshalTLVICQ2003bSetFullInfo ord) (typed emptyTag tlv_ty)"
  "yields (unmarshalTLVQIP2005SearchByUIN2 ord) (typed emptyTag tlv_ty)"
  "yields (unmarshalTLVJimmSetInfo ord) (typed emptyTag tlv_ty)"
  unfolding unmarshalTLVICQ2003bSetFullInfo_def unmarshalTLVQIP2005SearchByUIN2_def
    unmarshalTLVJimmSetInfo_def Let_def
  by (intro yields_pbind_any yields_tlv_end)+

lemma yields_slice_element:
  assumes "yields p (typed emptyTag t)"
  shows "yields (slice_element q ord t p) (typed emptyTag t)"
proof (cases "t = tlv_ty")
  case True
  then show ?thesis using yields_quirks assms by (simp add: slice_element_def)
next
  case False
  then show ?thesis using assms by (simp add: slice_element_def)
qed

lemma yields_in_buffer: "yields p P \<Longrightarrow> yields (in_buffer tg ord p) P"
proof -
  assume p: "yields p P"
  have "yields (\<lambda>r. (fst (p b), r)) P" for b
    using p by (auto simp: yields_def) (metis prod.collapse)
  then show ?thesis using p by (simp add: in_buffer_def yields_pbind_any)
qed

lemma yields_unmarshalSlice: "yields p (typed emptyTag t) \<Longrightarrow> yields (unmarshalSlice tg ord p) (typed tg (TSlice t))"
proof -
  assume p: "yields p (typed emptyTag t)"
  have e: "yields (\<lambda>r. (until_empty p b, r)) (\<lambda>vs. \<forall>x \<in> set vs. typed emptyTag t x)" for b
    using until_empty_yields [OF p] by (auto simp: yields_def)
  show ?thesis
  proof (cases "hasLenPrefix tg")
    case True
    then show ?thesis unfolding unmarshalSlice_def
      by (auto intro!: yields_pbind_any yields_pbind [OF e])
  next
    case False
    show ?thesis
    proof (cases "hasCountPrefix tg")
      case True
      with False show ?thesis unfolding unmarshalSlice_def
        by (auto intro!: yields_pbind [OF yields_unmarshalUnsignedInt] yields_pbind [OF yields_repeat_n [OF p]])
    next
      case 2: False
      with False show ?thesis unfolding unmarshalSlice_def
        by (auto intro!: yields_pbind [OF until_eof_yields [OF p]])
    qed
  qed
qed

lemma yields_or_nil: "yields p (typed tg t) \<Longrightarrow> yields (or_nil p) (typed tg (TPtr t))"
  unfolding yields_def or_nil_def by (auto split: prod.splits outcome.splits if_splits)

text \<open>The four functions together.\<close>

lemma unmarshal_typed_all:
  "yields (unmarshal ord tag q t) (\<lambda>v. case parseOSCARTag tag of Ok tg \<Rightarrow> typed tg t v | _ \<Rightarrow> False)"
  "yields (unmarshalKind ord tg q t) (typed tg t)"
  "yields (unmarshalStruct ord tg q t) (typed tg t)"
  "yields (unmarshalEachField ord q fs) (typed_fields fs)"
proof (induction ord tag q t and ord tg q t and ord tg q t and ord q fs
    rule: unmarshal_unmarshalKind_unmarshalStruct_unmarshalEachField.induct)
  case (1 ord tag active t)
  then show ?case by (auto simp: unmarshal.simps split: outcome.split)
next
  case (3 ord tg q n te)
  have "yields (unmarshal ord None q te) (typed emptyTag te)"
    using 3 by (simp add: tag_eval)
  then show ?case
    by (simp, intro yields_pbind [OF yields_repeat_n]) auto
next
  case (4 ord tg q te)
  then show ?case by (simp add: tag_eval yields_unmarshalSlice yields_slice_element del: typed.simps)
next
  case (13 ord tg q name fs)
  then show ?case by (auto intro!: yields_in_buffer yields_pbind [OF 13])
next
  case (16 ord q n tag t fs)
  have "yields (unmarshalEachField ord q (Field n tag t # fs)) (typed_fields (Field n tag t # fs))"
    if ok: "\<not> (is_ptr t \<and> fs \<noteq> [])" "\<not> (is_ptr t \<and> \<not> is_struct (ptr_elem t))"
  proof -
    have "yields (pbind (unmarshalEachField ord q fs) (\<lambda>vs. pret (v # vs))) (typed_fields (Field n tag t # fs))"
      if "case parseOSCARTag tag of Ok tg \<Rightarrow> typed tg t v | _ \<Rightarrow> False" for v
      by (rule yields_pbind [OF 16(2) [OF ok]]) (simp add: that)
    then show ?thesis using ok by (auto intro!: yields_pbind [OF 16(1) [OF ok]])
  qed
  then show ?case
    by (cases "is_ptr t \<and> fs \<noteq> []"; cases "is_ptr t \<and> \<not> is_struct (ptr_elem t)")
      (simp_all only: unmarshalEachField.simps yields_simps if_True if_False simp_thms)
qed (auto intro!: yields_pbind_any yields_unmarshalString yields_or_nil [unfolded typed.simps] simp del: typed.simps(5) split: if_splits)

section \<open>Properties\<close>

text \<open>
  C23: Whatever bytes the client sends, a message that decodes has the shape of its Go type: the fields of a struct in
  order and each of its own type, arrays of the declared length, pointers nil or to a struct, null-terminated strings
  without a zero byte, and strings and counted slices within the range of their length prefix. This includes the
  elements read under a decode quirk.
\<close>

theorem decoded_typed:
  assumes "unmarshal ord None [] t r = (Ok v, r')"
  shows "typed emptyTag t v"
  using yieldsD [OF unmarshal_typed_all(1) assms] by (simp add: tag_eval)

lemma decoded_typed_witness:
  "typed emptyTag FLAPFrame_ty (flap_val \<lparr>StartMarker = 42, FrameType = 2, Sequence = 0, Payload = [7]\<rparr>)"
  by (rule decoded_typed [OF UnmarshalBE_flap_bytes_short [unfolded UnmarshalBE_def]]) simp

end
