(* ===== verification/ServerProperties.thy ===== *)
theory ServerProperties
  imports OscarServer CodecTyping MessagingProperties
begin

text \<open>
  Properties of a served connection: what the client reads, the answer to requests no handler takes, requests over the
  rate limit.
\<close>

section \<open>What is written\<close>

text \<open>\<open>wrote F fs F'\<close>: between \<open>F\<close> and \<open>F'\<close> the frames \<open>fs\<close> were written, numbered in order.\<close>

definition wrote :: "FlapClient \<Rightarrow> (u8 \<times> bytes) list \<Rightarrow> FlapClient \<Rightarrow> bool" where
  "wrote F fs F' \<longleftrightarrow> room F' = None \<and>
     outp F' = outp F @ concat (map flap_bytes (number_frames (sequence F) fs)) \<and>
     sequence F' = sequence F + of_nat (length fs)"

lemma number_frames_append:
  "number_frames s (fs @ gs) = number_frames s fs @ number_frames (s + of_nat (length fs)) gs"
  by (induction s fs rule: number_frames.induct) (simp_all add: algebra_simps)

lemma wrote_Nil: "wrote F [] F' \<longleftrightarrow> room F' = None \<and> outp F' = outp F \<and> sequence F' = sequence F"
  by (simp add: wrote_def)

lemma wrote_trans: "wrote F fs G \<Longrightarrow> wrote G gs H \<Longrightarrow> wrote F (fs @ gs) H"
  by (simp add: wrote_def number_frames_append algebra_simps)

definition wrote_data :: "FlapClient \<Rightarrow> FlapClient \<Rightarrow> bool" where
  "wrote_data F F' \<longleftrightarrow> (\<exists>fs. fst ` set fs \<subseteq> {FLAPFrameData} \<and> wrote F fs F')"

lemma wrote_data_trans: "wrote_data F G \<Longrightarrow> wrote_data G H \<Longrightarrow> wrote_data F H"
  unfolding wrote_data_def by (metis (no_types, lifting) image_Un le_sup_iff set_append wrote_trans)

lemma wrote_data_refl: "room F = None \<Longrightarrow> wrote_data F F"
  unfolding wrote_data_def by (rule exI [of _ "[]"]) (simp add: wrote_Nil)

lemma wrote_data_room: "wrote_data F F' \<Longrightarrow> room F' = None"
  by (auto simp: wrote_data_def wrote_def)

lemma sendFrame_wrote: "room F = None \<Longrightarrow> wrote F [(ft, p)] (snd (sendFrame ft p F))"
  by (simp add: sendFrame_unbounded wrote_def)

lemma sendFrame_data: "room F = None \<Longrightarrow> wrote_data F (snd (sendFrame FLAPFrameData p F))"
  using sendFrame_wrote [of F FLAPFrameData p] unfolding wrote_data_def
  by (intro exI [of _ "[(FLAPFrameData, p)]"]) simp

lemma SendSNAC_wrote: "room F = None \<Longrightarrow> wrote_data F (snd (SendSNAC fr b F))"
  using sendFrame_data wrote_data_refl unfolding SendSNAC_def by (auto split: prod.split outcome.split)

lemma recv_keeps: "recv t F = (x, F') \<Longrightarrow> outp F' = outp F \<and> sequence F' = sequence F \<and> room F' = room F"
  by (auto simp: recv_def split: prod.splits)

lemma recv_wrote: "recv t F = (x, F') \<Longrightarrow> room F = None \<Longrightarrow> wrote_data F F'"
  using recv_keeps [of t F x F'] unfolding wrote_data_def by (auto intro!: exI [of _ "[]"] simp: wrote_Nil)

lemma send_all_wrote: "room F = None \<Longrightarrow> wrote_data F (snd (send_all rs F))"
proof (induction rs arbitrary: F)
  case (Cons r rs)
  let ?s = "SendSNAC (snac_val (fst r)) (snd r) F"
  have s: "wrote_data F (snd ?s)" using Cons.prems by (rule SendSNAC_wrote)
  show ?case
  proof (cases "fst ?s")
    case (Ok u)
    then have "send_all (r # rs) F = send_all rs (snd ?s)" by (cases ?s) simp
    moreover have "wrote_data (snd ?s) (snd (send_all rs (snd ?s)))"
      by (rule Cons.IH [OF wrote_data_room [OF s]])
    ultimately show ?thesis using wrote_data_trans [OF s] by simp
  qed (use s in \<open>cases ?s; simp\<close>)+
qed (simp add: wrote_data_refl)

lemma after_send_wrote:
  "after_send W r = Ok (vd, F', W') \<Longrightarrow> F' = snd r \<and> W' = W"
  by (auto simp: after_send_def split: outcome.splits)

lemma handle_flap_wrote:
  assumes "handle_flap e i fl F W = Ok (vd, F', W')" "room F = None"
  shows "wrote_data F F'"
proof -
  have a: "wrote_data F F'" if ans: "answer_request e i f b F W1 = Ok (vd, F', W')" for f b W1
  proof -
    obtain x V where "Handle e i f b W1 = Ok (x, V)" and x: "(case x of Inl _ \<Rightarrow> Ok (Failed, F, V) | Inr None \<Rightarrow> after_send V (sendInvalidSNACErr f F)
        | Inr (Some rs) \<Rightarrow> after_send V (send_all rs F)) = Ok (vd, F', W')"
      using ans unfolding answer_request_def bind_out_Ok_iff by auto
    show ?thesis
      using x wrote_data_refl SendSNAC_wrote send_all_wrote assms(2)
      by (auto simp: sendInvalidSNACErr_def dest!: after_send_wrote split: sum.split_asm option.split_asm)
  qed
  show ?thesis
    using assms a wrote_data_refl [OF assms(2)] unfolding handle_flap_def handle_data_def
    by (auto simp: bind_out_Ok_iff split: if_splits outcome.splits prod.splits)
qed

lemma serve_wrote:
  assumes "serve e i (Serving F W) (Serving F' W')" "room F = None"
  shows "wrote_data F F'"
  using assms(1)
proof cases
  case (request v F1)
  have r: "wrote_data F F1" by (rule recv_wrote [OF request(1) assms(2)])
  show ?thesis
    using wrote_data_trans [OF r] handle_flap_wrote [OF request(2) wrote_data_room [OF r]] by simp
next
  case (relayed m c x)
  then show ?thesis using SendSNAC_wrote [OF assms(2)] by (metis snd_conv)
next
  case elsewhere
  then show ?thesis using wrote_data_refl [OF assms(2)] by simp
qed

section \<open>The last frame\<close>

text \<open>
  \<open>parting n k bs\<close>: nothing, the legacy sign-off frame with number \<open>n\<close>, which has no length and leaves the numbering
  alone, or the current one, after which the next number is \<open>n + k\<close> with \<open>k = 1\<close>.
\<close>

definition parting :: "u32 \<Rightarrow> u32 \<Rightarrow> bytes \<Rightarrow> bool" where
  "parting n k bs \<longleftrightarrow>
     k = 0 \<and> (bs = [] \<or> bs = [42, FLAPFrameSignoff] @ put_uint BigEndian 2 (unat (ucast n :: u16))) \<or>
     k = 1 \<and> (\<exists>p. bs = flap_bytes \<lparr>StartMarker = 42, FrameType = FLAPFrameSignoff, Sequence = ucast n, Payload = p\<rparr>)"

definition parted :: "FlapClient \<Rightarrow> FlapClient \<Rightarrow> bool" where
  "parted G H \<longleftrightarrow> room H = None \<and> (\<exists>k bs. outp H = outp G @ bs \<and> sequence H = sequence G + k \<and> parting (sequence G) k bs)"

lemma parted_refl: "room F = None \<Longrightarrow> parted F F"
  unfolding parted_def by (intro conjI exI [of _ 0] exI [of _ "[]"]) (simp_all add: parting_def)

lemma NewSignoff_parted: "room F = None \<Longrightarrow> parted F (snd (NewSignoff ts F))"
  using parted_refl [of F]
  by (auto simp: NewSignoff_def sendFrame_unbounded parted_def parting_def split: prod.split outcome.split)

lemma sign_off_parted:
  assumes "sign_off i W ts F = (x, F')" "room F = None"
  shows "parted F F'"
proof (cases "inst_multiConnFlag (conn i W) = 0")
  case True
  then have "outp F' = outp F @ [42, FLAPFrameSignoff] @ put_uint BigEndian 2 (unat (ucast (sequence F) :: u16)) \<and>
      sequence F' = sequence F \<and> room F' = None"
    using assms by (auto simp: sign_off_def OldSignoff_def conn_write_def marshal_FLAPFrameDisconnect)
  then show ?thesis unfolding parted_def by (intro conjI exI [of _ 0]) (simp_all add: parting_def)
next
  case False
  show ?thesis
  proof (cases "collect_out ts")
    case (Ok l)
    then have "F' = snd (NewSignoff l F)" using False assms by (simp add: sign_off_def)
    then show ?thesis using NewSignoff_parted [OF assms(2)] by simp
  qed (use assms False parted_refl in \<open>auto simp: sign_off_def\<close>)
qed

lemma serve_last:
  assumes "serve e i (Serving F W) (Ended F' W')" "room F = None"
  shows "\<exists>G. wrote_data F G \<and> parted G F'"
proof -
  have d: "?thesis" if "wrote_data F F'" using that parted_refl [OF wrote_data_room [OF that]] by blast
  show ?thesis
    using assms(1)
  proof cases
    case (last_request v F1 vd)
    have r: "wrote_data F F1" by (rule recv_wrote [OF last_request(1) assms(2)])
    show ?thesis
      using d wrote_data_trans [OF r] handle_flap_wrote [OF last_request(2) wrote_data_room [OF r]] by simp
  next
    case (hang_up x)
    then show ?thesis using d recv_wrote assms(2) by blast
  next
    case (overtaken v F1 x)
    have r: "wrote_data F F1" by (rule recv_wrote [OF overtaken(2) assms(2)])
    show ?thesis
      using d wrote_data_trans [OF r] recv_wrote [OF overtaken(3) wrote_data_room [OF r]] by simp
  next
    case (session_closed x)
    then show ?thesis using sign_off_parted assms(2) wrote_data_refl by blast
  next
    case (shut_down x)
    then show ?thesis using sign_off_parted assms(2) wrote_data_refl by blast
  qed
qed

fun client_of :: "server_conn \<Rightarrow> FlapClient" where
  "client_of (Serving F W) = F"
| "client_of (Ended F W) = F"
| "client_of (Gone F W) = F"

fun serving :: "server_conn \<Rightarrow> bool" where
  "serving (Serving F W) = True"
| "serving _ = False"

text \<open>What has been written on a connection: data, while it is served, then the parting, then what was relayed late.\<close>

definition stream_ok :: "FlapClient \<Rightarrow> server_conn \<Rightarrow> bool" where
  "stream_ok F t \<longleftrightarrow> (if serving t then wrote_data F (client_of t)
     else \<exists>G H. wrote_data F G \<and> parted G H \<and> wrote_data H (client_of t))"

lemma stream_ok_step:
  assumes "stream_ok F s" "serve e i s t"
  shows "stream_ok F t"
  using assms(2)
proof (cases s)
  case (Serving G V)
  then have w: "wrote_data F G" using assms(1) by (simp add: stream_ok_def)
  note room = wrote_data_room [OF w]
  show ?thesis
  proof (cases t)
    case (Serving G' V')
    then show ?thesis
      using wrote_data_trans [OF w] serve_wrote [of e i G V G' V'] room assms(2) \<open>s = _\<close> by (simp add: stream_ok_def)
  next
    case (Ended G' V')
    then obtain H where "wrote_data G H" "parted H G'" using serve_last [of e i G V G' V'] room assms(2) \<open>s = _\<close> by blast
    moreover from this have "wrote_data G' G'" by (intro wrote_data_refl) (simp add: parted_def)
    ultimately show ?thesis using Ended wrote_data_trans [OF w] by (auto simp: stream_ok_def)
  next
    case (Gone G' V')
    then show ?thesis using assms(2) \<open>s = _\<close> by (auto elim: serve.cases)
  qed
next
  case (Ended G V)
  then obtain G1 H where w: "wrote_data F G1" "parted G1 H" "wrote_data H G" using assms(1) by (auto simp: stream_ok_def)
  have "\<not> serving t \<and> wrote_data G (client_of t)"
    using assms(2) unfolding \<open>s = _\<close>
  proof cases
    case (relayed_late m c x F1 W1)
    then show ?thesis using SendSNAC_wrote [OF wrote_data_room [OF w(3)]] by (metis snd_conv client_of.simps(2) serving.simps(2))
  qed (use wrote_data_refl [OF wrote_data_room [OF w(3)]] in simp_all)
  then show ?thesis using w wrote_data_trans [OF w(3)] by (auto simp: stream_ok_def)
next
  case (Gone G V)
  then have "\<not> serving t \<and> client_of t = G" using assms(2) by (auto elim: serve.cases)
  then show ?thesis using assms(1) Gone by (simp add: stream_ok_def)
qed

lemma run_stream_ok:
  assumes "(serve e i)\<^sup>*\<^sup>* (Serving F W) t" "room F = None"
  shows "stream_ok F t"
  using assms(1)
proof (induction rule: rtranclp_induct)
  case base
  then show ?case using wrote_data_refl [OF assms(2)] by (simp add: stream_ok_def)
next
  case (step y z)
  then show ?case by (blast intro: stream_ok_step)
qed

section \<open>Requests without a handler, and over the limit\<close>

text \<open>The bytes of the answer to a request that no handler takes.\<close>

definition invalid_snac :: "SNACFrame \<Rightarrow> bytes" where
  "invalid_snac f = fst (MarshalBE (Some (SNACFrame_ty,
     snac_val \<lparr>FoodGroup = FoodGroup f, SubGroup = 1, Flags = 0, RequestID = RequestID f\<rparr>))) @ [0, 1]"

lemma marshal_SNACFrame: "MarshalBE (Some (SNACFrame_ty, snac_val f)) = (fst (MarshalBE (Some (SNACFrame_ty, snac_val f))), Ok ())"
  using SNACFrame_code [of f] by (auto simp: codes_at_def)

lemma marshal_SNACError:
  "MarshalBE (Some (SNACError_ty, VStruct [VU16 ErrorCodeInvalidSnac, rest_block []])) = ([0, 1], Ok ())"
  by (simp add: MarshalBE_def SNACError_ty_def rest_block_def tlvs_val_def TLVRestBlock_ty_def TLVList_ty_def tlv_ty_def marshal.simps marshalKind.simps
      wbuffered_def marshalSliceBuf_eq
      marshalStruct.simps tag_eval struct_order_def binaryWrite_def wput_def wseq_def wok_def ErrorCodeInvalidSnac_def put_uint_def
      numeral_2_eq_2)

lemma sendInvalidSNACErr_eq:
  assumes "room F = None"
  shows "sendInvalidSNACErr f F = (Ok (), F\<lparr>outp := outp F @ flap_bytes \<lparr>StartMarker = 42,
     FrameType = FLAPFrameData, Sequence = ucast (sequence F), Payload = invalid_snac f\<rparr>, sequence := sequence F + 1\<rparr>)"
proof -
  obtain h where h: "MarshalBE (Some (SNACFrame_ty, snac_val \<lparr>FoodGroup = FoodGroup f, SubGroup = 1, Flags = 0,
      RequestID = RequestID f\<rparr>)) = (h, Ok ())"
    using marshal_SNACFrame by blast
  then show ?thesis using assms
    by (simp add: sendInvalidSNACErr_def SendSNAC_def marshal_SNACError wseq_def sendFrame_unbounded invalid_snac_def)
qed

lemma Handle_unknown: "route e f = None \<Longrightarrow> Handle e i f b W = Ok (Inr None, W)"
  by (simp add: Handle_def retS_def)

lemma request_read: "UnmarshalBE SNACFrame_ty (fst (MarshalBE (Some (SNACFrame_ty, snac_val f))) @ b) = (Ok (snac_val f), b)"
  using SNACFrame_code [of f] by (auto simp: codes_at_def)

lemmas food_groups = OService_def Locate_def Buddy_def ICBM_def Admin_def PermitDeny_def UserLookup_def Stats_def
  Chat_def ChatNav_def ODir_def BART_def Feedbag_def ICQ_def ClientInfo.Alert_def Invite_def MDir_def Plugin_def

lemma routed_has_class:
  "list_all (\<lambda>(g, s). snd (RateClassLookup DefaultSNACRateLimits g s)) (map fst (routes e))"
  by (simp add: routes_def food_groups oscarhandler_consts RateClassLookup_def rate_tables FeedbagUpdateItem_def
      ICQDBQuery_def ICBMChannelMsgToHost_def ICBMClientErr_def ICBMClientEvent_def)

lemma upd_sess_const: "s = f (sess_of M k) \<Longrightarrow> upd_sess k (\<lambda>_. s) M = upd_sess k f M"
  by (simp add: upd_sess_def)

text \<open>A request whose session is not disconnected for its rate: only the counters change, and no teardown runs.\<close>

lemma EvaluateRateLimit_calm:
  assumes "EvaluateRateLimit now c s = Ok (status, s')" "status \<noteq> Disconnect"
  shows "s' = s\<lparr>rateLimitStates := rateLimitStates s'\<rparr>" and "\<not> torn_down s s'"
proof -
  show s: "s' = s\<lparr>rateLimitStates := rateLimitStates s'\<rparr>"
    using assms by (auto simp: EvaluateRateLimit_def Let_def bind_out_Ok_iff split: if_splits)
  have "events s' = events (s\<lparr>rateLimitStates := rateLimitStates s'\<rparr>)" using s by (rule arg_cong)
  then show "\<not> torn_down s s'" by (simp add: torn_down_def)
qed

lemma limit_request_calm:
  assumes "RateClassLookup DefaultSNACRateLimits (FoodGroup f) (SubGroup f) = (c, True)"
    and "EvaluateRateLimit (clock W) c (sess i W) = Ok (status, s)" "status \<noteq> Disconnect"
  shows "limit_request e i f W = Ok (status = Limited, W\<lparr>registry := upd_sess (fst i)
    (\<lambda>s'. s'\<lparr>rateLimitStates := rateLimitStates s\<rparr>) (registry W)\<rparr>)"
proof -
  have "upd_sess (fst i) (\<lambda>_. s) (registry W) = upd_sess (fst i) (\<lambda>s'. s'\<lparr>rateLimitStates := rateLimitStates s\<rparr>) (registry W)"
    by (rule upd_sess_const) (rule EvaluateRateLimit_calm(1) [OF assms(2,3), unfolded sess_def])
  then show ?thesis using assms(1,2) EvaluateRateLimit_calm(2) [OF assms(2,3)] by (simp add: limit_request_def Let_def)
qed

section \<open>Properties\<close>

text \<open>
  C16: However requests, relayed messages, other connections and the end of a connection interleave, what the server
  writes on it is a sequence of SNAC data frames with consecutive sequence numbers, which continue those of the login,
  and after them at most one sign-off frame, with the next number, in the current or the legacy format. While the
  connection is served there is no sign-off. Behind a sign-off there can still be data frames, of messages that were
  relayed while it was written; they are numbered on, from the number of a legacy sign-off again, which does not count.
\<close>

theorem served_stream:
  assumes "(serve e i)\<^sup>*\<^sup>* (Serving F W) t" "room F = None"
  shows "\<exists>fs k bs gs. fst ` set fs \<subseteq> {FLAPFrameData} \<and> fst ` set gs \<subseteq> {FLAPFrameData} \<and>
    outp (client_of t) = outp F @ concat (map flap_bytes (number_frames (sequence F) fs)) @ bs @
      concat (map flap_bytes (number_frames (sequence F + of_nat (length fs) + k) gs)) \<and>
    sequence (client_of t) = sequence F + of_nat (length fs) + k + of_nat (length gs) \<and>
    parting (sequence F + of_nat (length fs)) k bs \<and> (serving t \<longrightarrow> bs = [] \<and> gs = [])"
proof (cases "serving t")
  case True
  then have "wrote_data F (client_of t)" using run_stream_ok [OF assms] by (simp add: stream_ok_def)
  then obtain fs where "fst ` set fs \<subseteq> {FLAPFrameData}" "wrote F fs (client_of t)" unfolding wrote_data_def by blast
  then show ?thesis
    by (intro exI [of _ fs] exI [of _ 0] exI [of _ "[]"] exI [of _ "[] :: (u8 \<times> bytes) list"]) (simp add: wrote_def parting_def)
next
  case False
  then obtain G H where "wrote_data F G" "parted G H" "wrote_data H (client_of t)"
    using run_stream_ok [OF assms] by (auto simp: stream_ok_def)
  obtain fs where fs: "fst ` set fs \<subseteq> {FLAPFrameData}" "wrote F fs G"
    using \<open>wrote_data F G\<close> unfolding wrote_data_def by blast
  obtain gs where gs: "fst ` set gs \<subseteq> {FLAPFrameData}" "wrote H gs (client_of t)"
    using \<open>wrote_data H (client_of t)\<close> unfolding wrote_data_def by blast
  obtain k bs where bs: "outp H = outp G @ bs" "sequence H = sequence G + k" "parting (sequence G) k bs"
    using \<open>parted G H\<close> unfolding parted_def by blast
  have "sequence G = sequence F + of_nat (length fs)" using fs(2) by (simp add: wrote_def)
  then have "outp (client_of t) = outp F @ concat (map flap_bytes (number_frames (sequence F) fs)) @ bs @
      concat (map flap_bytes (number_frames (sequence F + of_nat (length fs) + k) gs))"
    "sequence (client_of t) = sequence F + of_nat (length fs) + k + of_nat (length gs)"
    "parting (sequence F + of_nat (length fs)) k bs"
    using fs(2) gs(2) bs by (simp_all add: wrote_def)
  then show ?thesis using False fs(1) gs(1) by blast
qed

text \<open>
  C17: A request for which there is no handler, and for which its session is neither limited nor disconnected, is
  answered: the next frame is the error SNAC of its food group with its request number and the code of an invalid SNAC.
  The connection goes on, and nothing in the server has changed but the rate counters of the session, and not even
  those if the request is in no rate class (which the server lets pass).
\<close>

theorem unknown_request_answered:
  assumes "FrameType fl = FLAPFrameData" "Payload fl = fst (MarshalBE (Some (SNACFrame_ty, snac_val f))) @ body"
    and "route e f = None" "room F = None"
    and "RateClassLookup DefaultSNACRateLimits (FoodGroup f) (SubGroup f) = (c, limited)"
    and "limited \<Longrightarrow> EvaluateRateLimit (clock W) c (sess i W) = Ok (status, s)"
    and "limited \<Longrightarrow> status \<notin> {Limited, Disconnect}"
  shows "handle_flap e i fl F W = Ok (GoOn, F\<lparr>outp := outp F @ flap_bytes \<lparr>StartMarker = 42,
     FrameType = FLAPFrameData, Sequence = ucast (sequence F), Payload = invalid_snac f\<rparr>, sequence := sequence F + 1\<rparr>,
     if limited then W\<lparr>registry := upd_sess (fst i) (\<lambda>s'. s'\<lparr>rateLimitStates := rateLimitStates s\<rparr>) (registry W)\<rparr> else W)"
proof -
  have "limit_request e i f W = Ok (False, if limited
      then W\<lparr>registry := upd_sess (fst i) (\<lambda>s'. s'\<lparr>rateLimitStates := rateLimitStates s\<rparr>) (registry W)\<rparr> else W)"
  proof (cases limited)
    case True
    then show ?thesis using limit_request_calm [of f c W i status s e] assms(5-7) by simp
  next
    case False
    then show ?thesis using assms(5) by (simp add: limit_request_def)
  qed
  then show ?thesis
    using assms(1-4) by (simp add: handle_flap_def handle_data_def request_read answer_request_def Handle_unknown
        sendInvalidSNACErr_eq after_send_def)
qed

text \<open>
  C18: Every request that a handler would act on has a rate class, and over its limit it is dropped before the handler
  sees it: nothing is sent, the connection goes on, and of the whole server state only the rate counters of this session
  change.
\<close>

theorem limited_request_dropped:
  assumes "FrameType fl = FLAPFrameData" "Payload fl = fst (MarshalBE (Some (SNACFrame_ty, snac_val f))) @ body"
    and "route e f = Some h" "h \<noteq> h_ignored"
    and "EvaluateRateLimit (clock W) (fst (RateClassLookup DefaultSNACRateLimits (FoodGroup f) (SubGroup f))) (sess i W) =
      Ok (Limited, s)"
  shows "handle_flap e i fl F W = Ok (GoOn, F, W\<lparr>registry := upd_sess (fst i)
      (\<lambda>s'. s'\<lparr>rateLimitStates := rateLimitStates s\<rparr>) (registry W)\<rparr>)"
proof -
  have "map_of (routes e) (FoodGroup f, SubGroup f) = Some h"
    using assms(3,4) by (auto simp: route_def split: if_splits)
  then have "snd (RateClassLookup DefaultSNACRateLimits (FoodGroup f) (SubGroup f))"
    using routed_has_class [of e] map_of_SomeD by (fastforce simp: list_all_iff)
  then obtain c where c: "RateClassLookup DefaultSNACRateLimits (FoodGroup f) (SubGroup f) = (c, True)"
    by (metis (full_types) prod.collapse)
  have "EvaluateRateLimit (clock W) c (sess i W) = Ok (Limited, s)" using assms(5) c by simp
  from limit_request_calm [OF c this] show ?thesis
    by (simp add: handle_flap_def handle_data_def request_read assms(1,2))
qed

text \<open>Examples: a request of a food group that does not exist, and a request of a session over its limit.\<close>

definition strange_request :: SNACFrame where
  "strange_request = \<lparr>FoodGroup = 0x77, SubGroup = 2, Flags = 0, RequestID = 9\<rparr>"

definition request_frame :: "SNACFrame \<Rightarrow> FLAPFrame" where
  "request_frame f = \<lparr>StartMarker = 42, FrameType = FLAPFrameData, Sequence = 0,
     Payload = fst (MarshalBE (Some (SNACFrame_ty, snac_val f)))\<rparr>"

definition bos_endpoint :: endpoint where
  "bos_endpoint = \<lparr>ep_service = BOS, ep_host = ascii ''127.0.0.1'', ep_ssl = [],
     ep_teardown = bos_teardown False\<rparr>"

definition busy_world :: World where
  "busy_world = (small_world False)\<lparr>registry := upd_sess 0 (\<lambda>s. s\<lparr>rateLimitStates := replicate 5
     \<lparr>RC = hd DefaultRateLimitClasses, CurrentLevel = 1000, LastTime = 0, CurrentStatus = None, Subscribed = False,
       LimitedNow = True\<rparr>\<rparr>) two_online\<rparr>"

lemma strange_route: "route e strange_request = None"
  by (simp add: route_def strange_request_def routes_def food_groups)

lemma strange_class: "RateClassLookup DefaultSNACRateLimits (FoodGroup strange_request) (SubGroup strange_request) = (0, False)"
  by (simp add: strange_request_def RateClassLookup_def DefaultSNACRateLimits_def)

lemma strange_limit: "limit_request e i strange_request W = Ok (False, W)"
  by (simp add: limit_request_def strange_class)

lemma unknown_request_answered_witness:
  "\<exists>F'. handle_flap bos_endpoint (0, 0) (request_frame strange_request) (NewFlapClient 7 []) (small_world False) =
    Ok (GoOn, F', small_world False) \<and> sequence F' = 8"
  using unknown_request_answered [of "request_frame strange_request" strange_request "[]" bos_endpoint "NewFlapClient 7 []" 0 False
      "small_world False" "(0, 0)"] strange_route strange_class
  by (simp add: request_frame_def NewFlapClient_def)

lemma busy_limited:
  "\<exists>s. EvaluateRateLimit (clock busy_world) 1 (sess (0, 0) busy_world) = Ok (Limited, s)"
proof -
  have "CheckRateLimit 0 0 (hd DefaultRateLimitClasses) 1000 True = Ok (Limited, 987)"
    by (simp add: CheckRateLimit_def DefaultRateLimitClasses_def wrap32_def time_sub_def milliseconds_def rate_status_def
        signed_divide_int_def)
  moreover have "sess (0, 0) busy_world = (one_conn (IdentScreenName [0x61]))\<lparr>rateLimitStates := replicate 5
     \<lparr>RC = hd DefaultRateLimitClasses, CurrentLevel = 1000, LastTime = 0, CurrentStatus = None, Subscribed = False,
       LimitedNow = True\<rparr>\<rparr>"
    by (simp add: busy_world_def sess_def upd_sess_def two_online_def sess_of_def slot_of_def)
  moreover have "\<not> AllUserInfoBitmask OServiceUserFlagBot ((one_conn (IdentScreenName [0x61]))\<lparr>rateLimitStates := X\<rparr>)" for X
    by (simp add: AllUserInfoBitmask_def Instances_def one_conn_def SetSignonComplete_def newInstance_def user_flags)
  ultimately show ?thesis
    by (simp add: EvaluateRateLimit_def class_index_def Let_def busy_world_def small_world_def)
qed

definition rights_request :: SNACFrame where
  "rights_request = \<lparr>FoodGroup = PermitDeny, SubGroup = PermitDenyRightsQuery, Flags = 0, RequestID = 9\<rparr>"

lemma rights_route: "route e rights_request = Some h_PermitDenyRightsQuery"
  by (simp add: route_def rights_request_def routes_def food_groups oscarhandler_consts FeedbagUpdateItem_def
      ICQDBQuery_def ICBMChannelMsgToHost_def ICBMClientErr_def ICBMClientEvent_def)

lemma rights_class: "RateClassLookup DefaultSNACRateLimits PermitDeny PermitDenyRightsQuery = (1, True)"
  by (simp add: food_groups oscarhandler_consts RateClassLookup_def rate_tables)

lemma rights_not_ignored: "h_PermitDenyRightsQuery \<noteq> h_ignored"
proof
  assume "h_PermitDenyRightsQuery = h_ignored"
  then have "h_PermitDenyRightsQuery (0, 0) rights_request [] (small_world False) = h_ignored (0, 0) rights_request [] (small_world False)"
    by (rule arg_cong)
  then show False
    by (simp add: h_PermitDenyRightsQuery_def h_ignored_def answerS_def bindS_def retS_def pd_RightsQuery_def
      tlvsS_def tlv16_eq liftS_def)
qed

lemma limited_request_dropped_witness:
  "\<exists>W'. handle_flap bos_endpoint (0, 0) (request_frame rights_request) (NewFlapClient 7 []) busy_world =
     Ok (GoOn, NewFlapClient 7 [], W')"
proof -
  obtain s where s: "EvaluateRateLimit (clock busy_world) 1 (sess (0, 0) busy_world) = Ok (Limited, s)"
    using busy_limited by blast
  have c: "RateClassLookup DefaultSNACRateLimits (FoodGroup rights_request) (SubGroup rights_request) = (1, True)"
    using rights_class by (simp add: rights_request_def)
  show ?thesis
    using limited_request_dropped [of "request_frame rights_request" rights_request "[]" bos_endpoint h_PermitDenyRightsQuery
        busy_world "(0, 0)" s "NewFlapClient 7 []"] rights_route rights_not_ignored s c
    by (simp add: request_frame_def)
qed

lemma strange_served:
  "\<exists>F'. serve bos_endpoint (0, 0) (Serving (NewFlapClient 7 (flap_bytes (request_frame strange_request))) (small_world False))
     (Serving F' (small_world False))"
proof -
  let ?F = "NewFlapClient 7 (flap_bytes (request_frame strange_request))"
  have "length (Payload (request_frame strange_request)) < 65536"
    by (simp add: request_frame_def length_SNACFrame)
  then have "recv FLAPFrame_ty ?F = (Ok (flap_val (request_frame strange_request)), ?F\<lparr>inp := []\<rparr>)"
    using UnmarshalBE_flap_bytes_short [of _ "[]"] by (simp add: recv_def NewFlapClient_def)
  moreover have "\<exists>F2. handle_flap bos_endpoint (0, 0) (request_frame strange_request) (?F\<lparr>inp := []\<rparr>) (small_world False) =
      Ok (GoOn, F2, small_world False)"
    by (simp add: handle_flap_def handle_data_def request_frame_def request_read [of _ "[]", simplified] answer_request_def
      Handle_unknown strange_route strange_limit sendInvalidSNACErr_eq after_send_def NewFlapClient_def)
  ultimately show ?thesis using serve.request by fastforce
qed

lemma served_stream_witness:
  "\<exists>F' fs. (serve bos_endpoint (0, 0))\<^sup>*\<^sup>* (Serving (NewFlapClient 7 (flap_bytes (request_frame strange_request))) (small_world False))
     (Serving F' (small_world False)) \<and> outp F' = concat (map flap_bytes (number_frames 7 fs))"
proof -
  obtain F' where F': "serve bos_endpoint (0, 0) (Serving (NewFlapClient 7 (flap_bytes (request_frame strange_request))) (small_world False))
     (Serving F' (small_world False))"
    using strange_served by blast
  have run: "(serve bos_endpoint (0, 0))\<^sup>*\<^sup>* (Serving (NewFlapClient 7 (flap_bytes (request_frame strange_request))) (small_world False))
     (Serving F' (small_world False))"
    using F' by blast
  obtain fs k gs where "outp F' = concat (map flap_bytes (number_frames 7 fs)) @ concat (map flap_bytes (number_frames k gs))" "gs = []"
    using served_stream [OF run] by (simp add: NewFlapClient_def) blast
  then show ?thesis using run by (intro exI [of _ F'] exI [of _ fs]) simp
qed

text \<open>
  The answer to a probe has no body, which the encoder rejects: the client gets no answer and is disconnected.
\<close>

lemma probe_hangs_up:
  assumes "FoodGroup f = OService" "SubGroup f = OServiceProbeReq" "FrameType fl = FLAPFrameData"
    and "Payload fl = fst (MarshalBE (Some (SNACFrame_ty, snac_val f)))" "limit_request e i f W = Ok (False, W')"
  shows "handle_flap e i fl F W = Ok (Failed, F, W')"
proof -
  have "route e f = Some h_OServiceProbeReq"
    using assms(1,2) by (simp add: route_def routes_def food_groups oscarhandler_consts FeedbagUpdateItem_def
      ICQDBQuery_def ICBMChannelMsgToHost_def ICBMClientErr_def ICBMClientEvent_def)
  moreover have "SendSNAC (snac_val (fst (ProbeReq (RequestID f)))) (snd (ProbeReq (RequestID f))) F = (Err MarshalFailureNilSNAC, F)"
    using marshal_SNACFrame [of "fst (ProbeReq (RequestID f))"]
    by (auto simp: SendSNAC_def ProbeReq_def bare_def wseq_def wfail_def MarshalBE_def split: prod.splits)
  ultimately show ?thesis
    using assms(3-5) request_read [of f "[]"]
    by (simp add: handle_flap_def handle_data_def answer_request_def Handle_def h_OServiceProbeReq_def retS_def bindS_def
        after_send_def)
qed

end
