(* ===== verification/AuthServer.thy ===== *)
theory AuthServer
  imports Login ServerProperties
begin

text \<open>
  A connection of the OSCAR server up to the login (\<open>server/oscar/server.go\<close>: \<open>routeConnection\<close>, \<open>authenticate\<close>,
  \<open>processBUCPAuth\<close>, \<open>processFLAPAuth\<close> and the limiter per address). The login service is that of theory Login; what
  it is when the n-th frame is handled is a parameter, since other connections work on the same accounts.
\<close>

section \<open>Logins per address\<close>

definition BUCPChallengeRequest :: u16 where "BUCPChallengeRequest = 0x0006"
definition BUCPLoginRequest :: u16 where "BUCPLoginRequest = 0x0002"

text \<open>
  The token bucket is that of the rate library: its \<open>Allow\<close> is a parameter, and \<open>fresh\<close> is a new bucket. An entry may
  have expired when it is looked up; \<open>found\<close> says whether it is still there.
\<close>

record 'l rateLimitEntry =
  isBUCP :: bool
  limiter :: 'l

type_synonym 'l IPRateLimiter = "bytes \<Rightarrow> 'l rateLimitEntry option"

definition cached :: "bool \<Rightarrow> bytes \<Rightarrow> 'l IPRateLimiter \<Rightarrow> 'l rateLimitEntry option" where
  "cached found ip L = (if found then L ip else None)"

definition SetBUCP :: "'l \<Rightarrow> bool \<Rightarrow> bytes \<Rightarrow> 'l IPRateLimiter \<Rightarrow> 'l IPRateLimiter" where
  "SetBUCP fresh found ip L =
     (case cached found ip L of
        None \<Rightarrow> L(ip \<mapsto> \<lparr>isBUCP = True, limiter = fresh\<rparr>)
      | Some e \<Rightarrow> L(ip \<mapsto> e\<lparr>isBUCP := True\<rparr>))"

definition AllowIP :: "('l \<Rightarrow> bool \<times> 'l) \<Rightarrow> 'l \<Rightarrow> bool \<Rightarrow> bytes \<Rightarrow> 'l IPRateLimiter \<Rightarrow> bool \<times> bool \<times> 'l IPRateLimiter" where
  "AllowIP allow fresh found ip L =
     (let e = (case cached found ip L of None \<Rightarrow> \<lparr>isBUCP = False, limiter = fresh\<rparr> | Some e \<Rightarrow> e) in
      case allow (limiter e) of (ok, l) \<Rightarrow> (ok, isBUCP e, L(ip \<mapsto> e\<lparr>limiter := l\<rparr>)))"

section \<open>The login dialogue\<close>

datatype 'e auth_error =
    WireError err
  | LoginError "'e login_error"
  | TooManyAuthFrames
  | ClientGone

text \<open>A send, and what follows when it succeeds. A result of the dialogue is the error it ends with, if any.\<close>

type_synonym ('e, 's) auth_result = "('e auth_error option \<times> FlapClient \<times> 's) outcome"

definition sent :: "unit outcome \<times> FlapClient \<Rightarrow> 's \<Rightarrow> (FlapClient \<Rightarrow> ('b option \<times> FlapClient \<times> 's) outcome) \<Rightarrow>
    ('e auth_error \<Rightarrow> 'b) \<Rightarrow> ('b option \<times> FlapClient \<times> 's) outcome" where
  "sent r st k wrap_err =
     (case r of
        (Ok _, F) \<Rightarrow> k F
      | (Err x, F) \<Rightarrow> Ok (Some (wrap_err (WireError x)), F, st)
      | (Panic, F) \<Rightarrow> Panic
      | (Hang, F) \<Rightarrow> Hang)"

definition answer_to :: "SNACFrame \<Rightarrow> SNACMessage \<Rightarrow> FlapClient \<Rightarrow> unit outcome \<times> FlapClient" where
  "answer_to fr m F = SendSNAC (snac_val ((fst m)\<lparr>RequestID := RequestID fr\<rparr>)) (Some (snd m)) F"

text \<open>A body that cannot be decoded ends the dialogue.\<close>

definition body_or_end :: "ty \<Rightarrow> bytes \<Rightarrow> FlapClient \<Rightarrow> 's \<Rightarrow>
    (val \<Rightarrow> ('e auth_error option option \<times> FlapClient \<times> 's) outcome) \<Rightarrow> ('e auth_error option option \<times> FlapClient \<times> 's) outcome" where
  "body_or_end t body F st k =
     (case fst (UnmarshalBE t body) of
        Ok v \<Rightarrow> k v
      | Err x \<Rightarrow> Ok (Some (Some (WireError x)), F, st)
      | Panic \<Rightarrow> Panic
      | Hang \<Rightarrow> Hang)"

text \<open>One data frame: \<open>None\<close> goes on, \<open>Some r\<close> ends the dialogue with \<open>r\<close>.\<close>

definition bucp_challenge :: "('s, 'e, 'm) AuthService \<Rightarrow> bytes \<Rightarrow> SNACFrame \<Rightarrow> bytes \<Rightarrow> FlapClient \<Rightarrow> 's \<Rightarrow>
    ('e auth_error option option \<times> FlapClient \<times> 's) outcome" where
  "bucp_challenge A uuid fr body F st =
     body_or_end SNAC_0x17_0x06_BUCPChallengeRequest_ty body F st (\<lambda>v.
     bind_out (BUCPChallenge A (block_field 0 v) uuid st) (\<lambda>r.
       case r of
         Inl e \<Rightarrow> Ok (Some (Some (LoginError e)), F, st)
       | Inr m \<Rightarrow> sent (answer_to fr m F) st
           (\<lambda>F'. Ok (if SubGroup (fst m) = BUCPLoginResponse then Some None else None, F', st)) Some))"

definition bucp_login :: "('s, 'e, 'm) AuthService \<Rightarrow> Endpoint \<Rightarrow> SNACFrame \<Rightarrow> bytes \<Rightarrow> FlapClient \<Rightarrow> 's \<Rightarrow>
    ('e auth_error option option \<times> FlapClient \<times> 's) outcome" where
  "bucp_login A ep fr body F st =
     body_or_end SNAC_0x17_0x02_BUCPLoginRequest_ty body F st (\<lambda>v.
     bind_out (BUCPLogin A (block_field 0 v) ep st) (\<lambda>(r, st').
       case r of
         Inl e \<Rightarrow> Ok (Some (Some (LoginError e)), F, st')
       | Inr m \<Rightarrow> sent (answer_to fr m F) st' (\<lambda>F'. sent (NewSignoff [] F') st' (\<lambda>F''. Ok (Some None, F'', st')) Some) Some))"

definition bucp_request :: "('s, 'e, 'm) AuthService \<Rightarrow> Endpoint \<Rightarrow> bytes \<Rightarrow> bytes \<Rightarrow> FlapClient \<Rightarrow> 's \<Rightarrow>
    ('e auth_error option option \<times> FlapClient \<times> 's) outcome" where
  "bucp_request A ep uuid payload F st =
     (case UnmarshalBE SNACFrame_ty payload of
        (Ok v, body) \<Rightarrow>
          (let fr = val_snac v in
           if FoodGroup fr = BUCP \<and> SubGroup fr = BUCPChallengeRequest then bucp_challenge A uuid fr body F st
           else if FoodGroup fr = BUCP \<and> SubGroup fr = BUCPLoginRequest then bucp_login A ep fr body F st
           else Ok (Some (Some ClientGone), F, st))
      | (Err x, _) \<Rightarrow> Ok (Some (Some (WireError x)), F, st)
      | (Panic, _) \<Rightarrow> Panic
      | (Hang, _) \<Rightarrow> Hang)"

text \<open>The dialogue; \<open>A n\<close> and \<open>uuid n\<close> are the service and the next random identifier when frame \<open>n\<close> is handled.\<close>

function processBUCPAuth :: "(nat \<Rightarrow> ('s, 'e, 'm) AuthService) \<Rightarrow> Endpoint \<Rightarrow> (nat \<Rightarrow> bytes) \<Rightarrow> nat \<Rightarrow> FlapClient \<Rightarrow> 's \<Rightarrow>
    ('e, 's) auth_result" where
  "processBUCPAuth A ep uuid frames F st =
     (case ReceiveFLAP F of
        (Ok fl, F1) \<Rightarrow>
          (if frames > 10 then Ok (Some TooManyAuthFrames, F1, st)
           else if FrameType fl = FLAPFrameSignoff then Ok (Some ClientGone, F1, st)
           else if FrameType fl = FLAPFrameKeepAlive then processBUCPAuth A ep uuid (frames + 1) F1 st
           else if FrameType fl = FLAPFrameData then
             (case bucp_request (A frames) ep (uuid frames) (Payload fl) F1 st of
                Ok (None, F2, st2) \<Rightarrow> processBUCPAuth A ep uuid (frames + 1) F2 st2
              | Ok (Some r, F2, st2) \<Rightarrow> Ok (r, F2, st2)
              | Err x \<Rightarrow> Err x | Panic \<Rightarrow> Panic | Hang \<Rightarrow> Hang)
           else Ok (Some ClientGone, F1, st))
      | (Err x, F1) \<Rightarrow> Ok (Some (WireError x), F1, st)
      | (Panic, _) \<Rightarrow> Panic
      | (Hang, _) \<Rightarrow> Hang)"
  by pat_completeness auto
termination by (relation "measure (\<lambda>(A, ep, uuid, frames, F, st). 12 - frames)") auto

declare processBUCPAuth.simps [simp del]

definition processFLAPAuth :: "('s, 'e, 'm) AuthService \<Rightarrow> Endpoint \<Rightarrow> TLVList \<Rightarrow> FlapClient \<Rightarrow> 's \<Rightarrow> ('e, 's) auth_result" where
  "processFLAPAuth A ep signon F st =
     bind_out (FLAPLogin A signon ep st) (\<lambda>(r, st').
       case r of
         Inl e \<Rightarrow> Ok (Some (LoginError e), F, st')
       | Inr block \<Rightarrow> sent (NewSignoff block F) st' (\<lambda>F'. Ok (None, F', st')) id)"

section \<open>A new connection\<close>

text \<open>What the limiter does, for one connection; \<open>bucp\<close> is whether the last login from there spoke BUCP.\<close>

definition limited_login :: "bool \<Rightarrow> FlapClient \<Rightarrow> 's \<Rightarrow> ('e, 's) auth_result" where
  "limited_login bucp F st =
     bind_out (NewTLVBE LoginTLVTagsErrorSubcode (TU16, VU16 LoginErrRateLimitExceeded)) (\<lambda>t.
       sent (if bucp then SendSNAC (snac_val \<lparr>FoodGroup = BUCP, SubGroup = BUCPLoginResponse, Flags = 0, RequestID = 0\<rparr>)
                (Some (SNAC_0x17_0x03_BUCPLoginResponse_ty, VStruct [rest_block [t]])) F
             else NewSignoff [t] F)
         st (\<lambda>F'. Ok (None, F', st)) id)"

text \<open>
  \<open>authenticate\<close>: the limiter, then BUCP or FLAP by the presence of a screen name. Everything done to the
  limiter, the mark that the address speaks BUCP included, is done before the first byte is answered: \<open>admit\<close> has the
  table that other connections see while this one is in its dialogue. \<open>found\<close> and \<open>found2\<close> are the two lookups in the
  cache.
\<close>

datatype login_path = Refused bool | ByFLAP | ByBUCP

definition admit :: "('l \<Rightarrow> bool \<times> 'l) \<Rightarrow> 'l \<Rightarrow> bool \<Rightarrow> bool \<Rightarrow> bytes \<Rightarrow> TLVList \<Rightarrow> 'l IPRateLimiter \<Rightarrow>
    (login_path \<times> 'l IPRateLimiter) outcome" where
  "admit allow fresh found found2 ip signon L =
     (case AllowIP allow fresh found ip L of
        (False, bucp, L') \<Rightarrow> Ok (Refused bucp, L')
      | (True, _, L') \<Rightarrow>
          bind_out (TLVList_Uint16BE LoginTLVTagsScreenName signon) (\<lambda>(_, hasScreenName).
            if hasScreenName then Ok (ByFLAP, L') else Ok (ByBUCP, SetBUCP fresh found2 ip L')))"

definition authenticate :: "(nat \<Rightarrow> ('s, 'e, 'm) AuthService) \<Rightarrow> Endpoint \<Rightarrow> (nat \<Rightarrow> bytes) \<Rightarrow> ('l \<Rightarrow> bool \<times> 'l) \<Rightarrow> 'l \<Rightarrow>
    bool \<Rightarrow> bool \<Rightarrow> bytes \<Rightarrow> TLVList \<Rightarrow> FlapClient \<Rightarrow> 's \<Rightarrow> 'l IPRateLimiter \<Rightarrow>
    (('e auth_error option \<times> FlapClient \<times> 's) \<times> 'l IPRateLimiter) outcome" where
  "authenticate A ep uuid allow fresh found found2 ip signon F st L =
     bind_out (admit allow fresh found found2 ip signon L) (\<lambda>(path, L').
       bind_out
         (case path of
            Refused bucp \<Rightarrow> limited_login bucp F st
          | ByFLAP \<Rightarrow> processFLAPAuth (A 0) ep signon F st
          | ByBUCP \<Rightarrow> processBUCPAuth A ep uuid 0 F st)
         (\<lambda>x. Ok (x, L')))"



section \<open>What a client can make the server write before the login\<close>

text \<open>The frames at the head of what the client sends.\<close>

fun input_frames :: "nat \<Rightarrow> bytes \<Rightarrow> FLAPFrame list" where
  "input_frames 0 b = []"
| "input_frames (Suc n) b =
     (case UnmarshalBE FLAPFrame_ty b of (Ok v, r) \<Rightarrow> val_flap v # input_frames n r | _ \<Rightarrow> [])"

text \<open>The header of the request in a frame.\<close>

definition request_header :: "FLAPFrame \<Rightarrow> SNACFrame" where
  "request_header fl =
     (case fst (UnmarshalBE SNACFrame_ty (Payload fl)) of
        Ok v \<Rightarrow> val_snac v
      | _ \<Rightarrow> \<lparr>FoodGroup = 0, SubGroup = 0, Flags = 0, RequestID = 0\<rparr>)"

text \<open>
  The answer \<open>m\<close> to a request frame: a data frame with the frame header of \<open>m\<close>, the identifier of the request in it,
  and the body of \<open>m\<close>. A frame gets no answer, or one if it is a data frame; a login gets its answer and a sign-off.
\<close>

definition answer_frame :: "FLAPFrame \<Rightarrow> SNACMessage \<Rightarrow> u8 \<times> bytes" where
  "answer_frame fl m = (FLAPFrameData,
     fst (MarshalBE (Some (SNACFrame_ty, snac_val ((fst m)\<lparr>RequestID := RequestID (request_header fl)\<rparr>)))) @
     fst (MarshalBE (Some (snd m))))"

definition at_most_one :: "FLAPFrame \<Rightarrow> (u8 \<times> bytes) list \<Rightarrow> bool" where
  "at_most_one fl as \<longleftrightarrow> as = [] \<or> FrameType fl = FLAPFrameData \<and> (\<exists>m. as = [answer_frame fl m])"

definition answer_and_signoff :: "FLAPFrame \<Rightarrow> (u8 \<times> bytes) list \<Rightarrow> bool" where
  "answer_and_signoff fl as \<longleftrightarrow> FrameType fl = FLAPFrameData \<and>
     FoodGroup (request_header fl) = BUCP \<and> SubGroup (request_header fl) = BUCPLoginRequest \<and>
     (\<exists>m. as = [answer_frame fl m, (FLAPFrameSignoff, [])])"

text \<open>The frames handled, each with what was written for it: only the last may be signed off.\<close>

definition in_turn :: "(FLAPFrame \<times> (u8 \<times> bytes) list) list \<Rightarrow> bool" where
  "in_turn hs \<longleftrightarrow> list_all (\<lambda>(fl, as). at_most_one fl as) hs \<or>
     (\<exists>gs fl as. hs = gs @ [(fl, as)] \<and> list_all (\<lambda>(fl, as). at_most_one fl as) gs \<and> answer_and_signoff fl as)"

text \<open>The one request that makes the login service panic: a lifetime of fewer than four bytes.\<close>

definition short_ttl :: "FLAPFrame \<Rightarrow> bool" where
  "short_ttl fl \<longleftrightarrow> FrameType fl = FLAPFrameData \<and> (\<exists>h r v r' b. UnmarshalBE SNACFrame_ty (Payload fl) = (Ok h, r) \<and>
     FoodGroup (val_snac h) = BUCP \<and> SubGroup (val_snac h) = BUCPLoginRequest \<and>
     UnmarshalBE SNAC_0x17_0x02_BUCPLoginRequest_ty r = (Ok v, r') \<and>
     TLVList_Bytes LoginTLVTagsTokenTTL (block_field 0 v) = Some b \<and> length b < 4)"

lemma safe_decode: "dec_safe None t \<Longrightarrow> safe_out (fst (UnmarshalBE t bs))"
  using dec_safe_all(1) [of None t BigEndian "[]"] by (simp add: safe_def UnmarshalBE_def)

lemma auth_types_safe:
  "dec_safe None FLAPFrame_ty" "dec_safe None SNACFrame_ty" "dec_safe None SNAC_0x17_0x06_BUCPChallengeRequest_ty"
  "dec_safe None SNAC_0x17_0x02_BUCPLoginRequest_ty"
  by code_simp+

subsection \<open>Answers can be encoded, and the login service answers\<close>

definition encodable :: "SNACMessage \<Rightarrow> bool" where
  "encodable m \<longleftrightarrow> snd (MarshalBE (Some (snd m))) = Ok ()"

lemma encodable_block:
  "encodable (reply fg sg SNAC_0x17_0x03_BUCPLoginResponse_ty (VStruct [rest_block l]))"
proof -
  have "snd (marshalStructs BigEndian tlv_ty (map tlv_val l)) = Ok ()"
    by (induction l) (auto simp: marshal_tlv wseq_def wok_def)
  moreover have "is_struct tlv_ty" by (simp add: tlv_ty_def)
  ultimately show ?thesis
    by (cases "marshalStructs BigEndian tlv_ty (map tlv_val l)")
      (simp add: encodable_def reply_def snac_def MarshalBE_def SNAC_0x17_0x03_BUCPLoginResponse_ty_def TLVRestBlock_ty_def
        TLVList_ty_def rest_block_def tlvs_val_def marshal.simps marshalKind.simps marshalStruct.simps tag_eval
        struct_order_def wbuffered_def marshalSliceBuf_eq wseq_def wok_def)
qed

lemma encodable_key:
  "encodable (reply fg sg SNAC_0x17_0x07_BUCPChallengeResponse_ty (VStruct [VString k]))"
  by (simp add: encodable_def reply_def snac_def MarshalBE_def SNAC_0x17_0x07_BUCPChallengeResponse_ty_def
      marshal.simps marshalKind.simps marshalStruct.simps tag_eval struct_order_def marshalString_def
      marshalUnsignedInt_def wput_def wseq_def wok_def)

lemma login_returns:
  fixes A :: "('s, 'e, 'm) AuthService"
  shows "(\<exists>r. login A tlv ep st = Ok r) \<or>
    login A tlv ep st = Panic \<and> (\<exists>b. TLVList_Bytes LoginTLVTagsTokenTTL tlv = Some b \<and> length b < 4)"
proof -
  have s: "\<exists>r. success A s p ep = Ok r" for s p
  proof -
    obtain buf where buf: "MarshalBE (Some (ServerCookie_ty, ServerCookie_val (login_cookie p))) = (buf, Ok ())"
      using length_ServerCookie(2) [of "login_cookie p"] by (metis prod.collapse)
    have "\<exists>r. addLinkedAccountsTLV A s sn l = Ok r" for sn l
      by (simp add: addLinkedAccountsTLV_def Let_def NewTLVBE_string split: sum.split)
    then show ?thesis
      by (auto simp: success_def loginSuccessResponse_def buf Issue_def marshal_payload marshal_token bind_out_Ok_iff
          NewTLVBE_string NewTLVBE_bytes NewTLVBE_u8)
  qed
  have c: "\<exists>r. createUser A p ep s = Ok r" for p s
    using s by (auto simp: createUser_def failure_eq split: prod.split option.split)
  obtain sn ok where sn: "TLVList_String LoginTLVTagsScreenName tlv = (sn, ok)" by fastforce
  obtain c ok1 where c1: "TLVList_String LoginTLVTagsClientIdentity tlv = (c, ok1)" by fastforce
  obtain e ok2 where e: "TLVList_Uint8 LoginTLVTagsMultiConnFlags tlv = (e, ok2)" by fastforce
  note tlvs = sn c1 e
  have "(\<exists>r. fromTLV tlv = (Ok r :: ('e login_error option \<times> loginProperties) outcome)) \<or>
      fromTLV tlv = (Panic :: ('e login_error option \<times> loginProperties) outcome) \<and>
      (\<exists>b. TLVList_Bytes LoginTLVTagsTokenTTL tlv = Some b \<and> length b < 4)"
  proof (cases "TLVList_Bytes LoginTLVTagsTokenTTL tlv")
    case None
    then show ?thesis by (cases ok; cases ok1; cases ok2) (simp_all add: fromTLV_def tlvs Let_def)
  next
    case (Some b)
    then show ?thesis
      by (cases ok; cases ok1; cases ok2; cases "length b < 4") (simp_all add: fromTLV_def tlvs Let_def order_uint_def)
  qed
  then consider r where "fromTLV tlv = (Ok r :: ('e login_error option \<times> loginProperties) outcome)"
    | b where "fromTLV tlv = (Panic :: ('e login_error option \<times> loginProperties) outcome)"
        "TLVList_Bytes LoginTLVTagsTokenTTL tlv = Some b" "length b < 4"
    by blast
  then show ?thesis
  proof cases
    case (1 r)
    obtain err p where r: "r = (err, p)" by fastforce
    have "\<exists>r. login A tlv ep st = Ok r"
    proof (cases err)
      case None
      obtain u where u: "user_of A st (NewIdentScreenName (tables A) (lp_screenName p)) = u" by blast
      show ?thesis
      proof (cases u)
        case (Inr w)
        then show ?thesis using s c u by (cases w) (simp_all add: login_def 1 r None failure_eq)
      qed (simp add: login_def 1 r None u)
    next
      case (Some x)
      then show ?thesis by (cases x) (simp_all add: login_def 1 r failure_eq)
    qed
    then show ?thesis by blast
  next
    case (2 b)
    then show ?thesis by (simp add: login_def)
  qed
qed

lemma BUCPLogin_returns:
  "(\<exists>r st'. BUCPLogin A body ep st = Ok (r, st') \<and> (\<forall>m. r = Inr m \<longrightarrow> encodable m)) \<or>
    BUCPLogin A body ep st = Panic \<and> (\<exists>b. TLVList_Bytes LoginTLVTagsTokenTTL body = Some b \<and> length b < 4)"
proof (cases "\<exists>x. login A body ep st = Ok x")
  case True
  then obtain r st' where r: "login A body ep st = Ok (r, st')" by fastforce
  then show ?thesis using encodable_block [of BUCP BUCPLoginResponse] by (cases r) (simp_all add: BUCPLogin_def del: split_paired_All)
next
  case False
  then show ?thesis using login_returns [of A body ep st] by (auto simp: BUCPLogin_def)
qed

lemma BUCPChallenge_returns: "\<exists>r. BUCPChallenge A body u st = Ok r \<and> (\<forall>m. r = Inr m \<longrightarrow> encodable m)"
proof -
  obtain sn ok where "TLVList_String LoginTLVTagsScreenName body = (sn, ok)" by fastforce
  then show ?thesis
    using encodable_key [of BUCP BUCPChallengeResponse] encodable_block [of BUCP BUCPLoginResponse]
    by (cases ok; cases "user_of A st (NewIdentScreenName (tables A) sn)")
      (simp_all add: BUCPChallenge_def NewTLVBE_u16 del: split_paired_All split: option.split)
qed

subsection \<open>One frame\<close>

lemma answer_sent:
  assumes "room F = None" "encodable m" "RequestID (request_header fl) = RequestID fr"
  obtains F' where "answer_to fr m F = (Ok (), F')" "wrote F [answer_frame fl m] F'" "inp F' = inp F"
proof -
  let ?h = "snac_val ((fst m)\<lparr>RequestID := RequestID fr\<rparr>)"
  obtain h where h: "MarshalBE (Some (SNACFrame_ty, ?h)) = (h, Ok ())" using marshal_SNACFrame by blast
  obtain b where b: "MarshalBE (Some (snd m)) = (b, Ok ())" using assms(2) by (metis encodable_def prod.collapse)
  have "answer_to fr m F = sendFrame FLAPFrameData (h @ b) F"
    by (simp add: answer_to_def SendSNAC_def h b wseq_def)
  moreover have "answer_frame fl m = (FLAPFrameData, h @ b)" by (simp add: answer_frame_def assms(3) h b)
  ultimately show ?thesis
    using that [of "snd (sendFrame FLAPFrameData (h @ b) F)"] sendFrame_wrote [OF assms(1), of FLAPFrameData "h @ b"]
      sendFrame_unbounded [OF assms(1)] by simp
qed

lemma signoff_sent:
  assumes "room F = None"
  obtains F' where "NewSignoff [] F = (Ok (), F')" "wrote F [(FLAPFrameSignoff, [])] F'" "inp F' = inp F"
proof -
  have "MarshalBE (Some (TLVRestBlock_ty, VStruct [tlvs_val []])) = ([], Ok ())"
    by (simp add: MarshalBE_def TLVRestBlock_ty_def TLVList_ty_def tlv_ty_def tlvs_val_def marshal.simps marshalKind.simps
        marshalStruct.simps tag_eval struct_order_def wbuffered_def marshalSliceBuf_eq wseq_def wok_def)
  then have "NewSignoff [] F = sendFrame FLAPFrameSignoff [] F" by (simp add: NewSignoff_def)
  then show ?thesis
    using that [of "snd (sendFrame FLAPFrameSignoff [] F)"] sendFrame_wrote [OF assms, of FLAPFrameSignoff "[]"]
      sendFrame_unbounded [OF assms] by simp
qed

text \<open>
  What handling a data frame amounts to: the login service panics on a short lifetime, or the dialogue goes on after at
  most one answer, or it ends after at most one answer, signed off if it was to a login.
\<close>

definition frame_handled :: "FLAPFrame \<Rightarrow> FlapClient \<Rightarrow> ('e auth_error option option \<times> FlapClient \<times> 's) outcome \<Rightarrow> bool" where
  "frame_handled fl F x \<longleftrightarrow> x = Panic \<and> short_ttl fl \<or>
     (\<exists>r F' st as. x = Ok (r, F', st) \<and> wrote F as F' \<and> inp F' = inp F \<and>
        (at_most_one fl as \<or> r \<noteq> None \<and> answer_and_signoff fl as))"

lemma frame_unanswered: "room F = None \<Longrightarrow> frame_handled fl F (Ok (r, F, st))"
  unfolding frame_handled_def by (intro disjI2 exI [of _ "[]"] exI) (auto simp: wrote_Nil at_most_one_def)

lemma bucp_challenge_handled:
  assumes "room F = None" "FrameType fl = FLAPFrameData" "RequestID (request_header fl) = RequestID fr"
  shows "frame_handled fl F (bucp_challenge A uuid fr body F st)"
proof -
  have "safe_out (fst (UnmarshalBE SNAC_0x17_0x06_BUCPChallengeRequest_ty body))"
    by (rule safe_decode [OF auth_types_safe(3)])
  then show ?thesis
  proof (cases "fst (UnmarshalBE SNAC_0x17_0x06_BUCPChallengeRequest_ty body)")
    case (Ok v)
    obtain r where r: "BUCPChallenge A (block_field 0 v) uuid st = Ok r" "\<forall>m. r = Inr m \<longrightarrow> encodable m"
      using BUCPChallenge_returns [of A "block_field 0 v" uuid st] by blast
    show ?thesis
    proof (cases r)
      case (Inl e)
      then show ?thesis using frame_unanswered [OF assms(1)] by (simp add: bucp_challenge_def body_or_end_def Ok r)
    next
      case (Inr m)
      then have "encodable m" using r(2) by simp
      from answer_sent [OF assms(1) this assms(3)] obtain F' where
        F': "answer_to fr m F = (Ok (), F')" "wrote F [answer_frame fl m] F'" "inp F' = inp F" .
      have "at_most_one fl [answer_frame fl m]" unfolding at_most_one_def using assms(2) by blast
      then show ?thesis
        using Inr F' by (auto simp: bucp_challenge_def body_or_end_def Ok r(1) sent_def frame_handled_def)
    qed
  qed (use frame_unanswered [OF assms(1)] in \<open>simp_all add: bucp_challenge_def body_or_end_def\<close>)
qed

lemma bucp_login_handled:
  assumes "room F = None" "FrameType fl = FLAPFrameData" "UnmarshalBE SNACFrame_ty (Payload fl) = (Ok h, body)"
    "FoodGroup (val_snac h) = BUCP" "SubGroup (val_snac h) = BUCPLoginRequest"
  shows "frame_handled fl F (bucp_login A ep (val_snac h) body F st)"
proof -
  have rh: "request_header fl = val_snac h" by (simp add: request_header_def assms(3))
  obtain x rest where u: "UnmarshalBE SNAC_0x17_0x02_BUCPLoginRequest_ty body = (x, rest)" by fastforce
  have "safe_out x" using safe_decode [OF auth_types_safe(4), of body] u by simp
  then show ?thesis
  proof (cases x)
    case (Ok v)
    from BUCPLogin_returns [of A "block_field 0 v" ep st] show ?thesis
    proof (elim disjE exE conjE)
      fix b assume "BUCPLogin A (block_field 0 v) ep st = Panic" "TLVList_Bytes LoginTLVTagsTokenTTL (block_field 0 v) = Some b" "length b < 4"
      moreover from this assms u Ok have "short_ttl fl" unfolding short_ttl_def by blast
      ultimately show ?thesis by (simp add: bucp_login_def body_or_end_def u Ok frame_handled_def)
    next
      fix r st' assume r: "BUCPLogin A (block_field 0 v) ep st = Ok (r, st')" "\<forall>m. r = Inr m \<longrightarrow> encodable m"
      show ?thesis
      proof (cases r)
        case (Inl e)
        then show ?thesis using frame_unanswered [OF assms(1)] by (simp add: bucp_login_def body_or_end_def u Ok r)
      next
        case (Inr m)
        then have "encodable m" using r(2) by simp
        from answer_sent [OF assms(1) this, of fl "val_snac h"] rh obtain F' where
          F': "answer_to (val_snac h) m F = (Ok (), F')" "wrote F [answer_frame fl m] F'" "inp F' = inp F" by auto
        then have "room F' = None" by (simp add: wrote_def)
        from signoff_sent [OF this] obtain F'' where
          F'': "NewSignoff [] F' = (Ok (), F'')" "wrote F' [(FLAPFrameSignoff, [])] F''" "inp F'' = inp F'" .
        have "answer_and_signoff fl [answer_frame fl m, (FLAPFrameSignoff, [])]"
          unfolding answer_and_signoff_def rh using assms(2,4,5) by (intro conjI exI [of _ m]) simp_all
        moreover have "wrote F [answer_frame fl m, (FLAPFrameSignoff, [])] F''"
          using wrote_trans [OF F'(2) F''(2)] by simp
        moreover have "bucp_login A ep (val_snac h) body F st = Ok (Some None, F'', st')"
          using Inr F'(1) F''(1) by (simp add: bucp_login_def body_or_end_def u Ok r(1) sent_def)
        ultimately show ?thesis unfolding frame_handled_def using F'(3) F''(3) by fastforce
      qed
    qed
  qed (use frame_unanswered [OF assms(1)] in \<open>simp_all add: bucp_login_def body_or_end_def u\<close>)
qed

lemma bucp_request_handled:
  fixes A :: "('s, 'e, 'm) AuthService"
  assumes "room F = None" "FrameType fl = FLAPFrameData"
  shows "frame_handled fl F (bucp_request A ep uuid (Payload fl) F st)"
proof -
  obtain x body where u: "UnmarshalBE SNACFrame_ty (Payload fl) = (x, body)" by fastforce
  have "safe_out x" using safe_decode [OF auth_types_safe(2), of "Payload fl"] u by simp
  then show ?thesis
  proof (cases x)
    case (Ok h)
    then have "RequestID (request_header fl) = RequestID (val_snac h)" by (simp add: request_header_def u)
    then have c: "frame_handled fl F (bucp_challenge A uuid (val_snac h) body F st)"
      by (rule bucp_challenge_handled [OF assms])
    have l: "frame_handled fl F (bucp_login A ep (val_snac h) body F st)"
      if "FoodGroup (val_snac h) = BUCP" "SubGroup (val_snac h) = BUCPLoginRequest"
      by (rule bucp_login_handled [OF assms u [unfolded Ok] that])
    have n: "frame_handled fl F (Ok (Some (Some (ClientGone :: 'e auth_error)), F, st))" by (rule frame_unanswered [OF assms(1)])
    show ?thesis using c l n by (simp add: bucp_request_def u Ok Let_def)
  qed (use frame_unanswered [OF assms(1)] in \<open>simp_all add: bucp_request_def u\<close>)
qed

subsection \<open>The dialogue\<close>

text \<open>What a dialogue that starts with frame \<open>n\<close> comes to.\<close>

definition dialogue_ok :: "nat \<Rightarrow> FlapClient \<Rightarrow> ('e, 's) auth_result \<Rightarrow> bool" where
  "dialogue_ok n F x \<longleftrightarrow>
     (\<exists>r F' st hs. x = Ok (r, F', st) \<and> length hs \<le> 11 - n \<and>
        map fst hs = input_frames (length hs) (inp F) \<and> in_turn hs \<and> wrote F (concat (map snd hs)) F') \<or>
     x = Panic \<and> (\<exists>i < 11 - n. i < length (input_frames (i + 1) (inp F)) \<and> short_ttl (input_frames (i + 1) (inp F) ! i))"

lemma in_turn_Cons: "at_most_one fl as \<Longrightarrow> in_turn hs \<Longrightarrow> in_turn ((fl, as) # hs)"
  unfolding in_turn_def by (elim disjE exE conjE) (auto intro: exI [of _ "(fl, as) # _"])

lemma dialogue_ends:
  assumes "room F = None"
  shows "dialogue_ok n F (Ok (r, F\<lparr>inp := b\<rparr>, st))"
  unfolding dialogue_ok_def using assms
  by (intro disjI1 exI [of _ "[]"] exI) (auto simp: in_turn_def wrote_def)

text \<open>A frame is handled and the dialogue goes on behind it.\<close>

lemma dialogue_step:
  assumes "UnmarshalBE FLAPFrame_ty (inp F) = (Ok v, b)" "n \<le> 10" "at_most_one (val_flap v) as"
    "wrote (F\<lparr>inp := b\<rparr>) as G" "inp G = b" "dialogue_ok (n + 1) G x"
  shows "dialogue_ok n F x"
  using assms(6) unfolding dialogue_ok_def [of "n + 1"]
proof (elim disjE exE conjE)
  fix r F' st hs
  assume x: "x = Ok (r, F', st)" and l: "length hs \<le> 11 - (n + 1)" and i: "map fst hs = input_frames (length hs) (inp G)"
    and t: "in_turn hs" and w: "wrote G (concat (map snd hs)) F'"
  have "wrote F as G" using assms(4) by (simp add: wrote_def)
  then have "wrote F (concat (map snd ((val_flap v, as) # hs))) F'" using wrote_trans w by auto
  moreover have "length ((val_flap v, as) # hs) \<le> 11 - n" using l assms(2) by simp
  moreover have "map fst ((val_flap v, as) # hs) = input_frames (length ((val_flap v, as) # hs)) (inp F)"
    using i assms(1,5) by simp
  moreover have "in_turn ((val_flap v, as) # hs)" by (rule in_turn_Cons [OF assms(3) t])
  ultimately show ?thesis unfolding dialogue_ok_def using x by blast
next
  fix i assume x: "x = Panic" and i: "i < 11 - (n + 1)" "i < length (input_frames (i + 1) (inp G))"
    "short_ttl (input_frames (i + 1) (inp G) ! i)"
  then have "i + 1 < 11 - n" "i + 1 < length (input_frames (i + 1 + 1) (inp F))"
    "short_ttl (input_frames (i + 1 + 1) (inp F) ! (i + 1))"
    using assms(1,2,5) by simp_all
  then show ?thesis unfolding dialogue_ok_def using x by blast
qed

lemma dialogue_last:
  assumes "UnmarshalBE FLAPFrame_ty (inp F) = (Ok v, b)" "n \<le> 10"
    "at_most_one (val_flap v) as \<or> answer_and_signoff (val_flap v) as" "wrote (F\<lparr>inp := b\<rparr>) as G"
  shows "dialogue_ok n F (Ok (r, G, st))"
proof -
  have "in_turn [(val_flap v, as)]"
    using assms(3) unfolding in_turn_def by (elim disjE) (auto intro: exI [of _ "[]"])
  moreover have "wrote F as G" using assms(4) by (simp add: wrote_def)
  ultimately show ?thesis
    unfolding dialogue_ok_def using assms(1,2) by (intro disjI1 exI [of _ "[(val_flap v, as)]"] exI) auto
qed

lemma processBUCPAuth_dialogue:
  "room F = None \<Longrightarrow> dialogue_ok n F (processBUCPAuth A ep uuid n F st)"
proof (induction "12 - n" arbitrary: n F st rule: less_induct)
  case less
  obtain x b where u: "UnmarshalBE FLAPFrame_ty (inp F) = (x, b)" by fastforce
  have "safe_out x" using safe_decode [OF auth_types_safe(1), of "inp F"] u by simp
  then show ?case
  proof (cases x)
    case (Ok v)
    let ?F1 = "F\<lparr>inp := b\<rparr>" and ?fl = "val_flap v"
    have recv: "ReceiveFLAP F = (Ok ?fl, ?F1)" by (simp add: ReceiveFLAP_def recv_def u Ok)
    note run = processBUCPAuth.simps [of A ep uuid n F st, unfolded recv prod.case outcome.case]
    have stop: "dialogue_ok n F (Ok (r, ?F1, s))" for r s by (rule dialogue_ends [OF less.prems])
    have room1: "room ?F1 = None" using less.prems by simp
    have w0: "wrote ?F1 [] ?F1" using room1 by (simp add: wrote_Nil)
    have none: "at_most_one ?fl []" by (simp add: at_most_one_def)
    show ?thesis
    proof (cases "n \<le> 10")
      case False
      then show ?thesis using stop by (simp add: run)
    next
      case n: True
      have IH: "dialogue_ok (n + 1) G (processBUCPAuth A ep uuid (n + 1) G s)" if "room G = None" for G s
        by (rule less.hyps [OF _ that]) (use n in simp)
      consider (alive) "FrameType ?fl = FLAPFrameKeepAlive" | (data) "FrameType ?fl = FLAPFrameData"
        | (other) "FrameType ?fl \<noteq> FLAPFrameKeepAlive" "FrameType ?fl \<noteq> FLAPFrameData" by blast
      then show ?thesis
      proof cases
        case alive
        have "processBUCPAuth A ep uuid n F st = processBUCPAuth A ep uuid (n + 1) ?F1 st"
          using n alive by (simp add: run FLAPFrameSignoff_def FLAPFrameKeepAlive_def FLAPFrameData_def)
        then show ?thesis using dialogue_step [OF u [unfolded Ok] n none w0 _ IH [OF room1]] by simp
      next
        case data
        let ?q = "bucp_request (A n) ep (uuid n) (Payload ?fl) ?F1 st"
        have run: "processBUCPAuth A ep uuid n F st =
            (case ?q of Ok (None, F2, st2) \<Rightarrow> processBUCPAuth A ep uuid (n + 1) F2 st2
              | Ok (Some r, F2, st2) \<Rightarrow> Ok (r, F2, st2) | Err x \<Rightarrow> Err x | Panic \<Rightarrow> Panic | Hang \<Rightarrow> Hang)"
          using n data by (simp add: run FLAPFrameSignoff_def FLAPFrameKeepAlive_def FLAPFrameData_def)
        have "frame_handled ?fl ?F1 ?q" by (rule bucp_request_handled [OF room1 data])
        then show ?thesis
          unfolding frame_handled_def
        proof (elim disjE exE conjE)
          assume "?q = Panic" "short_ttl ?fl"
          then show ?thesis
            unfolding run dialogue_ok_def using u Ok n by (intro disjI2 conjI exI [of _ 0]) simp_all
        next
          fix r G s as
          assume q: "?q = Ok (r, G, s)" and w: "wrote ?F1 as G" and i: "inp G = inp ?F1" and as: "at_most_one ?fl as"
          have "room G = None" using w by (simp add: wrote_def)
          then show ?thesis
            using dialogue_step [OF u [unfolded Ok] n as w _ IH] dialogue_last [OF u [unfolded Ok] n disjI1 [OF as] w] i
            by (cases r) (simp_all add: run q)
        next
          fix r G s as
          assume q: "?q = Ok (r, G, s)" and w: "wrote ?F1 as G" and r: "r \<noteq> None" and as: "answer_and_signoff ?fl as"
          then show ?thesis
            using dialogue_last [OF u [unfolded Ok] n disjI2 [OF as] w] by (cases r) (simp_all add: run q)
        qed
      next
        case other
        then show ?thesis using stop n by (simp add: run)
      qed
    qed
  qed (use dialogue_ends [OF less.prems] in \<open>simp_all add: processBUCPAuth.simps [of A ep uuid n F st] ReceiveFLAP_def recv_def u\<close>)
qed

lemma in_turn_length:
  assumes "in_turn hs"
  shows "length (concat (map snd hs)) \<le> length hs + 1"
proof -
  have one: "length (concat (map snd gs)) \<le> length gs" if "list_all (\<lambda>(fl, as). at_most_one fl as) gs" for gs
    using that by (induction gs) (auto simp: at_most_one_def)
  show ?thesis using assms one by (auto simp: in_turn_def answer_and_signoff_def le_SucI)
qed

section \<open>Properties\<close>

text \<open>
  C31: The BUCP dialogue ends, whatever the client sends and whatever becomes of the accounts meanwhile. It handles at
  most the first eleven frames of the input in their order and writes, numbered on from the hello, nothing or one answer
  for each, with the identifier of the request; a sign-off is written only as the last frame and only right after the
  answer to a login, so that there are at most twelve frames. The exception is a login with a lifetime of fewer than four
  bytes among these frames, at which the dialogue can panic (\<open>short_ttl_panics\<close>).
\<close>

theorem login_dialogue_bounded:
  assumes "room F = None"
  shows "(\<exists>r F' st' hs. processBUCPAuth A ep uuid 0 F st = Ok (r, F', st') \<and> length hs \<le> 11 \<and>
      map fst hs = input_frames (length hs) (inp F) \<and> in_turn hs \<and>
      outp F' = outp F @ concat (map flap_bytes (number_frames (sequence F) (concat (map snd hs)))) \<and>
      sequence F' = sequence F + of_nat (length (concat (map snd hs))) \<and> length (concat (map snd hs)) \<le> 12) \<or>
    processBUCPAuth A ep uuid 0 F st = Panic \<and>
      (\<exists>i \<le> 10. i < length (input_frames (i + 1) (inp F)) \<and> short_ttl (input_frames (i + 1) (inp F) ! i))"
  using processBUCPAuth_dialogue [OF assms, of 0 A ep uuid st] unfolding dialogue_ok_def
proof (elim disjE exE conjE)
  fix r F' st' hs
  assume "processBUCPAuth A ep uuid 0 F st = Ok (r, F', st')" "length hs \<le> 11 - 0" "in_turn hs"
    "map fst hs = input_frames (length hs) (inp F)" "wrote F (concat (map snd hs)) F'"
  moreover from this in_turn_length [of hs] have "length (concat (map snd hs)) \<le> 12" by simp
  ultimately show ?thesis unfolding wrote_def by auto
next
  fix i
  assume "processBUCPAuth A ep uuid 0 F st = Panic" "i < 11 - 0" "i < length (input_frames (i + 1) (inp F))"
    "short_ttl (input_frames (i + 1) (inp F) ! i)"
  moreover have "i \<le> 10" using \<open>i < 11 - 0\<close> by simp
  ultimately show ?thesis by blast
qed

lemma login_dialogue_bounded_witness:
  "\<exists>r F' st'. processBUCPAuth (\<lambda>_. one_service) one_endpoint (\<lambda>_. []) 0 (NewFlapClient 100 []) () = Ok (r, F', st') \<and>
     outp F' = []"
proof -
  have "UnmarshalBE FLAPFrame_ty [] = (Err EOF, [])" using eof_FLAPFrame by (simp add: eof_on_empty_def)
  then have none: "input_frames n [] = []" for n by (cases n) simp_all
  have F: "room (NewFlapClient 100 []) = None" "inp (NewFlapClient 100 []) = []" "outp (NewFlapClient 100 []) = []"
    by (simp_all add: NewFlapClient_def)
  from login_dialogue_bounded [OF F(1), of "\<lambda>_. one_service" one_endpoint "\<lambda>_. []" "()"] show ?thesis
    unfolding F none by (elim disjE exE conjE) simp_all
qed

text \<open>What an address over its limit is told.\<close>

definition limit_tlv :: bytes where
  "limit_tlv = [0, 8, 0, 2, 0, 0x1D]"

definition limit_frame :: "bool \<Rightarrow> FlapClient \<Rightarrow> FLAPFrame" where
  "limit_frame bucp F = \<lparr>StartMarker = 42, FrameType = (if bucp then FLAPFrameData else FLAPFrameSignoff),
     Sequence = ucast (sequence F), Payload = (if bucp then fst (MarshalBE (Some (SNACFrame_ty,
       snac_val \<lparr>FoodGroup = BUCP, SubGroup = BUCPLoginResponse, Flags = 0, RequestID = 0\<rparr>))) else []) @ limit_tlv\<rparr>"

lemma small_uints:
  "put_uint BigEndian 2 29 = [0, 29]" "put_uint BigEndian 2 8 = [0, 8]" "put_uint BigEndian 2 (Suc (Suc 0)) = [0, 2]"
  "put_uint BigEndian 2 (Suc 0) = [0, 1]" "put_uint BigEndian 4 (Suc 0) = [0, 0, 0, 1]" "put_uint BigEndian (Suc 0) 0 = [0]"
  "put_uint BigEndian (Suc 0) 29 = [29]" "put_uint BigEndian (Suc 0) 65 = [65]"
proof -
  have four: "(4 :: nat) = Suc (Suc (Suc (Suc 0)))" by simp
  show "put_uint BigEndian 4 (Suc 0) = [0, 0, 0, 1]" unfolding four by (simp add: put_uint_def)
qed (simp_all add: put_uint_def numeral_2_eq_2)

lemma limit_block:
  "NewTLVBE LoginTLVTagsErrorSubcode (TU16, VU16 LoginErrRateLimitExceeded) = Ok \<lparr>Tag = 8, Value = [0, 0x1D]\<rparr>"
  "MarshalBE (Some (TLVRestBlock_ty, VStruct [tlvs_val [\<lparr>Tag = 8, Value = [0, 0x1D]\<rparr>]])) = (limit_tlv, Ok ())"
  "MarshalBE (Some (SNAC_0x17_0x03_BUCPLoginResponse_ty, VStruct [rest_block [\<lparr>Tag = 8, Value = [0, 0x1D]\<rparr>]])) = (limit_tlv, Ok ())"
  by (simp_all add: NewTLVBE_def newTLV_def MarshalBE_def TLVRestBlock_ty_def SNAC_0x17_0x03_BUCPLoginResponse_ty_def rest_block_def
      tlvs_val_def tlv_val_def TLVList_ty_def tlv_ty_def marshal.simps marshalKind.simps marshalStruct.simps wbuffered_def
      marshalSliceBuf_def marshalUnsignedInt_def tag_eval struct_order_def binaryWrite_def wput_def wseq_def wok_def
      small_uints limit_tlv_def LoginTLVTagsErrorSubcode_def LoginErrRateLimitExceeded_def vbytes_def)

text \<open>
  C32: An address over its limit of logins gets one frame and nothing else: the error that says so, as the answer to a
  BUCP login if that is what was spoken from there before, as a sign-off otherwise. No account is looked up or created
  and the client's requests are not read.
\<close>

theorem limited_address_refused:
  fixes A :: "nat \<Rightarrow> ('s, 'e, 'm) AuthService"
  assumes "allow (case cached found ip L of None \<Rightarrow> fresh | Some e \<Rightarrow> limiter e) = (False, l)" "room F = None"
  shows "\<exists>F' L'. authenticate A ep uuid allow fresh found found2 ip signon F st L = Ok ((None, F', st), L') \<and>
    inp F' = inp F \<and> outp F' = outp F @ flap_bytes (limit_frame (case cached found ip L of None \<Rightarrow> False | Some e \<Rightarrow> isBUCP e) F)"
proof -
  define bucp where "bucp = (case cached found ip L of None \<Rightarrow> False | Some e \<Rightarrow> isBUCP e)"
  have "\<exists>L'. AllowIP allow fresh found ip L = (False, bucp, L')"
    using assms(1) by (auto simp: AllowIP_def bucp_def Let_def split: option.splits)
  then obtain L' where L': "AllowIP allow fresh found ip L = (False, bucp, L')" by blast
  have "\<exists>F'. limited_login bucp F st = Ok (None :: 'e auth_error option, F', st) \<and> inp F' = inp F \<and> outp F' = outp F @ flap_bytes (limit_frame bucp F)"
  proof (cases bucp)
    case True
    obtain h where "MarshalBE (Some (SNACFrame_ty, snac_val \<lparr>FoodGroup = BUCP, SubGroup = BUCPLoginResponse, Flags = 0,
        RequestID = 0\<rparr>)) = (h, Ok ())"
      using marshal_SNACFrame by blast
    then show ?thesis using True assms(2)
      by (simp add: limited_login_def limit_block sent_def SendSNAC_def wseq_def sendFrame_unbounded limit_frame_def)
  next
    case False
    then show ?thesis using assms(2)
      by (simp add: limited_login_def limit_block sent_def NewSignoff_def sendFrame_unbounded limit_frame_def)
  qed
  then obtain F' where "limited_login bucp F st = Ok (None :: 'e auth_error option, F', st)" "inp F' = inp F"
      "outp F' = outp F @ flap_bytes (limit_frame bucp F)" by blast
  moreover from this(1) have "authenticate A ep uuid allow fresh found found2 ip signon F st L = Ok ((None, F', st), L')"
    by (simp add: authenticate_def admit_def L')
  ultimately show ?thesis unfolding bucp_def [symmetric] by blast
qed

lemma limited_address_refused_witness:
  "\<exists>F' L'. authenticate (\<lambda>_. one_service) one_endpoint (\<lambda>_. []) (\<lambda>n. (n \<noteq> 0, n - 1)) (0 :: nat) False False [127] [] (NewFlapClient 101 []) ()
      (\<lambda>_. None) = Ok ((None, F', ()), L') \<and> outp F' = flap_bytes (limit_frame False (NewFlapClient 101 []))"
  using limited_address_refused [where allow = "\<lambda>n. (n \<noteq> 0, n - 1)" and found = False and ip = "[127]" and L = "\<lambda>_. None"
      and fresh = "0 :: nat" and F = "NewFlapClient 101 []" and A = "\<lambda>_. one_service" and ep = one_endpoint
      and uuid = "\<lambda>_. []" and ?found2.0 = False and signon = "[]" and st = "()"]
  by (auto simp: cached_def NewFlapClient_def)







end
