(* ===== verification/LegacyCrypt.thy ===== *)
theory LegacyCrypt
  imports Prelude
begin

unbundle bit_operations_syntax

text \<open>
  The scrambling of the legacy ICQ protocols (\<open>server/icq_legacy/wire_legacy_crypt.go\<close>). Packets are changed in place:
  an operation takes the bytes and returns them changed. What the random source draws is an argument.
\<close>

section \<open>Tables and integers in little-endian order\<close>

definition v5Table :: bytes where
  "v5Table = [
     0x59, 0x60, 0x37, 0x6B, 0x65, 0x62, 0x46, 0x48, 0x53, 0x61, 0x4C, 0x59, 0x60, 0x57, 0x5B, 0x3D,
     0x5E, 0x34, 0x6D, 0x36, 0x50, 0x3F, 0x6F, 0x67, 0x53, 0x61, 0x4C, 0x59, 0x40, 0x47, 0x63, 0x39,
     0x50, 0x5F, 0x5F, 0x3F, 0x6F, 0x47, 0x43, 0x69, 0x48, 0x33, 0x31, 0x64, 0x35, 0x5A, 0x4A, 0x42,
     0x56, 0x40, 0x67, 0x53, 0x41, 0x07, 0x6C, 0x49, 0x58, 0x3B, 0x4D, 0x46, 0x68, 0x43, 0x69, 0x48,
     0x33, 0x31, 0x44, 0x65, 0x62, 0x46, 0x48, 0x53, 0x41, 0x07, 0x6C, 0x69, 0x48, 0x33, 0x51, 0x54,
     0x5D, 0x4E, 0x6C, 0x49, 0x38, 0x4B, 0x55, 0x4A, 0x62, 0x46, 0x48, 0x33, 0x51, 0x34, 0x6D, 0x36,
     0x50, 0x5F, 0x5F, 0x5F, 0x3F, 0x6F, 0x47, 0x63, 0x59, 0x40, 0x67, 0x33, 0x31, 0x64, 0x35, 0x5A,
     0x6A, 0x52, 0x6E, 0x3C, 0x51, 0x34, 0x6D, 0x36, 0x50, 0x5F, 0x5F, 0x3F, 0x4F, 0x37, 0x4B, 0x35,
     0x5A, 0x4A, 0x62, 0x66, 0x58, 0x3B, 0x4D, 0x66, 0x58, 0x5B, 0x5D, 0x4E, 0x6C, 0x49, 0x58, 0x3B,
     0x4D, 0x66, 0x58, 0x3B, 0x4D, 0x46, 0x48, 0x53, 0x61, 0x4C, 0x59, 0x40, 0x67, 0x33, 0x31, 0x64,
     0x55, 0x6A, 0x32, 0x3E, 0x44, 0x45, 0x52, 0x6E, 0x3C, 0x31, 0x64, 0x55, 0x6A, 0x52, 0x4E, 0x6C,
     0x69, 0x48, 0x53, 0x61, 0x4C, 0x39, 0x30, 0x6F, 0x47, 0x63, 0x59, 0x60, 0x57, 0x5B, 0x3D, 0x3E,
     0x64, 0x35, 0x3A, 0x3A, 0x5A, 0x6A, 0x52, 0x4E, 0x6C, 0x69, 0x48, 0x53, 0x61, 0x6C, 0x49, 0x58,
     0x3B, 0x4D, 0x46, 0x68, 0x63, 0x39, 0x50, 0x5F, 0x5F, 0x3F, 0x6F, 0x67, 0x53, 0x41, 0x25, 0x41,
     0x3C, 0x51, 0x54, 0x3D, 0x5E, 0x54, 0x5D, 0x4E, 0x4C, 0x39, 0x50, 0x5F, 0x5F, 0x5F, 0x3F, 0x6F,
     0x47, 0x43, 0x69, 0x48, 0x33, 0x51, 0x54, 0x5D, 0x6E, 0x3C, 0x31, 0x64, 0x35, 0x5A, 0x00, 0x00]"

definition V4Table :: bytes where
  "V4Table = [
     0x0a, 0x5b, 0x31, 0x5d, 0x20, 0x59, 0x6f, 0x75, 0x20, 0x63, 0x61, 0x6e, 0x20, 0x6d, 0x6f, 0x64,
     0x69, 0x66, 0x79, 0x20, 0x74, 0x68, 0x65, 0x20, 0x73, 0x6f, 0x75, 0x6e, 0x64, 0x73, 0x20, 0x49,
     0x43, 0x51, 0x20, 0x6d, 0x61, 0x6b, 0x65, 0x73, 0x2e, 0x20, 0x4a, 0x75, 0x73, 0x74, 0x20, 0x73,
     0x65, 0x6c, 0x65, 0x63, 0x74, 0x20, 0x22, 0x53, 0x6f, 0x75, 0x6e, 0x64, 0x73, 0x22, 0x20, 0x66,
     0x72, 0x6f, 0x6d, 0x20, 0x74, 0x68, 0x65, 0x20, 0x22, 0x70, 0x72, 0x65, 0x66, 0x65, 0x72, 0x65,
     0x6e, 0x63, 0x65, 0x73, 0x2f, 0x6d, 0x69, 0x73, 0x63, 0x22, 0x20, 0x69, 0x6e, 0x20, 0x49, 0x43,
     0x51, 0x20, 0x6f, 0x72, 0x20, 0x66, 0x72, 0x6f, 0x6d, 0x20, 0x74, 0x68, 0x65, 0x20, 0x22, 0x53,
     0x6f, 0x75, 0x6e, 0x64, 0x73, 0x22, 0x20, 0x69, 0x6e, 0x20, 0x74, 0x68, 0x65, 0x20, 0x63, 0x6f,
     0x6e, 0x74, 0x72, 0x6f, 0x6c, 0x20, 0x70, 0x61, 0x6e, 0x65, 0x6c, 0x2e, 0x20, 0x43, 0x72, 0x65,
     0x64, 0x69, 0x74, 0x3a, 0x20, 0x45, 0x72, 0x61, 0x6e, 0x0a, 0x5b, 0x32, 0x5d, 0x20, 0x43, 0x61,
     0x6e, 0x27, 0x74, 0x20, 0x72, 0x65, 0x6d, 0x65, 0x6d, 0x62, 0x65, 0x72, 0x20, 0x77, 0x68, 0x61,
     0x74, 0x20, 0x77, 0x61, 0x73, 0x20, 0x73, 0x61, 0x69, 0x64, 0x3f, 0x20, 0x20, 0x44, 0x6f, 0x75,
     0x62, 0x6c, 0x65, 0x2d, 0x63, 0x6c, 0x69, 0x63, 0x6b, 0x20, 0x6f, 0x6e, 0x20, 0x61, 0x20, 0x75,
     0x73, 0x65, 0x72, 0x20, 0x74, 0x6f, 0x20, 0x67, 0x65, 0x74, 0x20, 0x61, 0x20, 0x64, 0x69, 0x61,
     0x6c, 0x6f, 0x67, 0x20, 0x6f, 0x66, 0x20, 0x61, 0x6c, 0x6c, 0x20, 0x6d, 0x65, 0x73, 0x73, 0x61,
     0x67, 0x65, 0x73, 0x20, 0x73, 0x65, 0x6e, 0x74, 0x20, 0x69, 0x6e, 0x63, 0x6f, 0x6d, 0x69, 0x6e]"

lemma length_v5Table [simp]: "length v5Table = 256"
  by (simp add: v5Table_def)

definition le16 :: "u16 \<Rightarrow> bytes" where "le16 w = put_uint LittleEndian 2 (unat w)"
definition le32 :: "u32 \<Rightarrow> bytes" where "le32 w = put_uint LittleEndian 4 (unat w)"

text \<open>\<open>binary.LittleEndian.Uint16\<close> and \<open>Uint32\<close> on the slice from \<open>i\<close>; the caller has checked the length.\<close>

definition get16 :: "nat \<Rightarrow> bytes \<Rightarrow> u16" where "get16 i p = word_of_nat (get_uint LittleEndian (take 2 (drop i p)))"
definition get32 :: "nat \<Rightarrow> bytes \<Rightarrow> u32" where "get32 i p = word_of_nat (get_uint LittleEndian (take 4 (drop i p)))"

text \<open>\<open>copy(packet[i:], bs)\<close> and \<open>PutUint32\<close>, within the packet.\<close>

definition put_at :: "nat \<Rightarrow> bytes \<Rightarrow> bytes \<Rightarrow> bytes" where
  "put_at i bs p = take i p @ bs @ drop (i + length bs) p"

lemma length_le [simp]: "length (le16 w) = 2" "length (le32 d) = 4"
  by (simp_all add: le16_def le32_def)

lemma get16_le16: "get16 (length p) (p @ le16 w @ q) = w"
  using unsigned_less [of w, where ?'a = nat] by (simp add: get16_def le16_def get_put_uint)

lemma get32_le32: "get32 (length p) (p @ le32 w @ q) = w"
  using unsigned_less [of w, where ?'a = nat] by (simp add: get32_def le32_def get_put_uint)

lemma length_put_at [simp]: "i + length bs \<le> length p \<Longrightarrow> length (put_at i bs p) = length p"
  by (simp add: put_at_def)

lemma put_at_nth_other: "i + length bs \<le> length p \<Longrightarrow> j < i \<or> i + length bs \<le> j \<Longrightarrow> j < length p \<Longrightarrow> put_at i bs p ! j = p ! j"
  by (auto simp: put_at_def nth_append)

lemma take_drop_put_at: "i + length bs \<le> length p \<Longrightarrow> take (length bs) (drop i (put_at i bs p)) = bs"
  by (simp add: put_at_def)

section \<open>Version 5\<close>

text \<open>The key a packet is scrambled with: its length and the check code it carries, whose bits are permuted.\<close>

definition getV5Key :: "bytes \<Rightarrow> nat \<Rightarrow> u32" where
  "getV5Key packet packetLen =
     (if length packet < 0x18 then 0
      else let check = get32 0x14 packet;
               A1 = drop_bit 0x0C (check AND 0x0001F000);
               A2 = drop_bit 0x01 (check AND 0x07C007C0);
               A3 = push_bit 0x0A (check AND 0x003E0001);
               A4 = drop_bit 0x10 (check AND 0xF8000000);
               A5 = push_bit 0x0F (check AND 0x0000083E)
           in word_of_nat packetLen * 0x68656C6C + (A5 + A1 + A2 + A3 + A4))"

text \<open>A byte is changed only where the packet has one.\<close>

definition xor_at :: "nat \<Rightarrow> u8 \<Rightarrow> bytes \<Rightarrow> bytes" where
  "xor_at i b packet = (if i < length packet then packet[i := packet ! i XOR b] else packet)"

definition decrypt_word :: "u32 \<Rightarrow> nat \<Rightarrow> bytes \<Rightarrow> bytes" where
  "decrypt_word key i packet =
     (let k = key + ucast (v5Table ! (i mod 256));
          p1 = (if i \<noteq> 0x16
                then xor_at (i + 1) (ucast (drop_bit 8 (k AND 0x0000FF00))) (xor_at i (ucast (k AND 0x000000FF)) packet)
                else packet)
      in if i \<noteq> 0x12
         then xor_at (i + 3) (ucast (drop_bit 24 (k AND 0xFF000000))) (xor_at (i + 2) (ucast (drop_bit 16 (k AND 0x00FF0000))) p1)
         else p1)"

function decrypt_from :: "u32 \<Rightarrow> nat \<Rightarrow> nat \<Rightarrow> bytes \<Rightarrow> bytes" where
  "decrypt_from key packetLen i packet =
     (if i < packetLen + 3 then decrypt_from key packetLen (i + 4) (decrypt_word key i packet) else packet)"
  by pat_completeness auto
termination by (relation "measure (\<lambda>(key, n, i, p). n + 3 - i)") auto

declare decrypt_from.simps [simp del]

definition DecryptV5Packet :: "bytes \<Rightarrow> u32 \<Rightarrow> bytes" where
  "DecryptV5Packet packet sessionID =
     (if length packet < 0x18 then packet
      else decrypt_from (getV5Key packet (length packet)) (length packet) 0x0A packet)"

text \<open>\<open>r1\<close> and \<open>r2\<close> are what \<open>rand.Intn(0x10)\<close> and \<open>rand.Intn(0xFF)\<close> draw. A position past the packet panics.\<close>

definition calculateV5CheckCode :: "nat \<Rightarrow> nat \<Rightarrow> bytes \<Rightarrow> u32 outcome" where
  "calculateV5CheckCode r1 r2 packet =
     (if length packet < 10 then Ok 0
      else if length packet \<le> r1 then Panic
      else let number1 = push_bit 8 (push_bit 8 (push_bit 8 (ucast (packet ! 8)) + ucast (packet ! 4)) + ucast (packet ! 2)) + ucast (packet ! 6);
               number2 = push_bit 8 (push_bit 8 (push_bit 8 (word_of_nat r1) + ucast (packet ! r1)) + word_of_nat r2) + ucast (v5Table ! r2)
           in Ok (number1 XOR (number2 XOR 0x00FF00FF)))"

text \<open>A slab of at most four bytes is read as an integer, changed and written back.\<close>

definition encrypt_slab :: "u32 \<Rightarrow> nat \<Rightarrow> nat \<Rightarrow> bytes \<Rightarrow> bytes" where
  "encrypt_slab key pos slab packet =
     (let tmpUint = (word_of_nat (le_nat (take slab (drop pos packet))) :: u32) XOR (key + ucast (v5Table ! (pos mod 256)))
      in put_at pos (take slab (le32 tmpUint)) packet)"

function encrypt_from :: "u32 \<Rightarrow> nat \<Rightarrow> bytes \<Rightarrow> bytes" where
  "encrypt_from key pos packet =
     (if pos < length packet
      then let slab = min 4 (length packet - pos) in encrypt_from key (pos + slab) (encrypt_slab key pos slab packet)
      else packet)"
  by pat_completeness auto
termination
  by (relation "measure (\<lambda>(key, pos, p). length p - pos)") (auto simp: encrypt_slab_def put_at_def min_def Let_def)

declare encrypt_from.simps [simp del]

definition EncryptV5Packet :: "nat \<Rightarrow> nat \<Rightarrow> bytes \<Rightarrow> u32 \<Rightarrow> bytes outcome" where
  "EncryptV5Packet r1 r2 packet sessionID =
     (if length packet < 0x18 then Ok packet
      else bind_out (calculateV5CheckCode r1 r2 packet) (\<lambda>cc.
           Ok (encrypt_from (word_of_nat (length packet) * 0x68656C6C + cc) 0x0A (put_at 0x14 (le32 cc) packet))))"

definition V5CheckCode :: "nat \<Rightarrow> nat \<Rightarrow> bytes \<Rightarrow> u32 outcome" where
  "V5CheckCode r1 r2 packet = calculateV5CheckCode r1 r2 packet"

definition V5EncryptionKey :: "u32 \<Rightarrow> u32 \<Rightarrow> u32" where
  "V5EncryptionKey sessionID checkCode = 0"

definition AddV5ServerCheckcode :: "nat \<Rightarrow> nat \<Rightarrow> bytes \<Rightarrow> bytes outcome" where
  "AddV5ServerCheckcode r1 r2 packet =
     (if length packet < 21 then Ok packet
      else bind_out (calculateV5CheckCode r1 r2 packet) (\<lambda>cc. Ok (put_at 0x11 (le32 cc) packet)))"

section \<open>Passwords\<close>

text \<open>The nil slice of an empty password is the empty list.\<close>

definition ScramblePassword :: "bytes \<Rightarrow> bytes" where
  "ScramblePassword password =
     (if password = [] then [] else map (\<lambda>i. password ! i XOR v5Table ! (i mod 256)) [0..<length password])"

definition UnscramblePassword :: "bytes \<Rightarrow> bytes" where
  "UnscramblePassword scrambled =
     (if scrambled = [] then [] else map (\<lambda>i. scrambled ! i XOR v5Table ! (i mod 256)) [0..<length scrambled])"

section \<open>Versions 4 and 3\<close>

text \<open>\<open>r1\<close> is what \<open>rand.Intn(len(packet)-5)\<close> draws, before one is added, and \<open>r2\<close> what \<open>rand.Intn(256)\<close> draws.\<close>

definition V4CheckCode :: "nat \<Rightarrow> nat \<Rightarrow> bytes \<Rightarrow> u32 outcome" where
  "V4CheckCode draw r2 packet =
     (if length packet < 10 then Ok 0
      else let r1 = draw + 1;
               chk1 = push_bit 24 (ucast (packet ! 8)) OR push_bit 16 (ucast (packet ! 4)) OR push_bit 8 (ucast (packet ! 2)) OR ucast (packet ! 6)
           in if length packet \<le> r1 then Panic
              else Ok (chk1 XOR (push_bit 24 (word_of_nat r1) OR push_bit 16 (ucast (packet ! r1)) OR
                                 push_bit 8 (word_of_nat r2) OR ucast (v5Table ! r2))))"

definition V4EncryptionKey :: "nat \<Rightarrow> u32 \<Rightarrow> u32" where
  "V4EncryptionKey packetLen checkCode = word_of_nat packetLen * 0x66756B65 + checkCode"

definition encryptLen :: "nat \<Rightarrow> nat" where
  "encryptLen n = (let e = (n - 4) div 4 in if e < 1 then 1 else e)"

definition v4_mask :: "u32 \<Rightarrow> nat \<Rightarrow> u8" where
  "v4_mask key i = v5Table ! unat ((word_of_nat (i mod 256) :: u8) XOR le32 key ! (i mod 4))"

fun encrypt_v4 :: "u32 \<Rightarrow> nat list \<Rightarrow> bytes \<Rightarrow> bytes" where
  "encrypt_v4 key [] packet = packet"
| "encrypt_v4 key (i # is) packet =
     (if length packet \<le> 4 + i then packet else encrypt_v4 key is (xor_at (4 + i) (v4_mask key i) packet))"

definition EncryptV4Packet :: "bytes \<Rightarrow> u32 \<Rightarrow> bytes" where
  "EncryptV4Packet packet key =
     (if length packet < 8 then packet else encrypt_v4 key [0..<encryptLen (length packet)] packet)"

definition DecryptV4Packet :: "bytes \<Rightarrow> u32 \<Rightarrow> bytes" where
  "DecryptV4Packet packet key = EncryptV4Packet packet key"

definition v3_checkcode :: "bytes \<Rightarrow> u32" where
  "v3_checkcode packet =
     (let checkA = push_bit 24 (ucast (packet ! 8)) OR push_bit 16 (ucast (packet ! 4)) OR push_bit 8 (ucast (packet ! 2)) OR ucast (packet ! 6);
          tableOffset = unat (packet ! 0 XOR packet ! 2 XOR packet ! 4 XOR packet ! 6);
          checkB = (push_bit 8 (word_of_nat tableOffset) OR ucast (v5Table ! tableOffset)) XOR 0x00FF00FF
      in checkA XOR checkB)"

definition SetV3Checkcode :: "bytes \<Rightarrow> bytes" where
  "SetV3Checkcode packet = (if length packet < 16 then packet else put_at 12 (le32 (v3_checkcode packet)) packet)"

section \<open>Scrambling with a mask\<close>

text \<open>
  Both ciphers change bytes by a mask that the bytes themselves do not determine. \<open>mask_all\<close> applies a list of such
  changes; done twice it gives the packet back.
\<close>

definition mask_all :: "(nat \<times> u8) list \<Rightarrow> bytes \<Rightarrow> bytes" where
  "mask_all ms packet = fold (\<lambda>m. xor_at (fst m) (snd m)) ms packet"

lemma length_xor_at [simp]: "length (xor_at i b p) = length p"
  by (simp add: xor_at_def)

lemma length_mask_all [simp]: "length (mask_all ms p) = length p"
  by (induction ms arbitrary: p) (simp_all add: mask_all_def)

lemma xor_at_commute: "xor_at i a (xor_at j b p) = xor_at j b (xor_at i a p)"
  by (cases "i = j") (simp_all add: xor_at_def list_update_swap xor.assoc xor.commute [of a b])

lemma xor_at_twice [simp]: "xor_at i b (xor_at i b p) = p"
  by (simp add: xor_at_def xor.assoc)

lemma mask_all_xor: "mask_all ms (xor_at i b p) = xor_at i b (mask_all ms p)"
proof (induction ms arbitrary: p)
  case (Cons m ms)
  then show ?case by (simp add: mask_all_def xor_at_commute [of "fst m" _ i])
qed (simp add: mask_all_def)

lemma mask_all_twice: "mask_all ms (mask_all ms p) = p"
proof (induction ms arbitrary: p)
  case (Cons m ms)
  have "mask_all (m # ms) (mask_all (m # ms) p) = mask_all ms (xor_at (fst m) (snd m) (mask_all ms (xor_at (fst m) (snd m) p)))"
    by (simp add: mask_all_def)
  also have "\<dots> = mask_all ms (mask_all ms p)" by (simp add: mask_all_xor)
  finally show ?case using Cons by simp
qed (simp add: mask_all_def)

lemma mask_all_other: "j \<notin> fst ` set ms \<Longrightarrow> mask_all ms p ! j = p ! j"
proof (induction ms arbitrary: p)
  case (Cons m ms)
  then show ?case by (simp add: mask_all_def xor_at_def split: if_splits)
qed (simp add: mask_all_def)

lemma mask_all_append: "mask_all (ms @ ns) p = mask_all ns (mask_all ms p)"
  by (simp add: mask_all_def)

subsection \<open>Version 5\<close>

definition word_mask :: "u32 \<Rightarrow> nat \<Rightarrow> (nat \<times> u8) list" where
  "word_mask key i =
     (let k = key + ucast (v5Table ! (i mod 256)) in
      (if i \<noteq> 0x16 then [(i, ucast (k AND 0x000000FF)), (i + 1, ucast (drop_bit 8 (k AND 0x0000FF00)))] else []) @
      (if i \<noteq> 0x12 then [(i + 2, ucast (drop_bit 16 (k AND 0x00FF0000))), (i + 3, ucast (drop_bit 24 (k AND 0xFF000000)))] else []))"

function v5_mask :: "u32 \<Rightarrow> nat \<Rightarrow> nat \<Rightarrow> (nat \<times> u8) list" where
  "v5_mask key n i = (if i < n + 3 then word_mask key i @ v5_mask key n (i + 4) else [])"
  by pat_completeness auto
termination by (relation "measure (\<lambda>(key, n, i). n + 3 - i)") auto

declare v5_mask.simps [simp del]

lemma decrypt_word_mask: "decrypt_word key i p = mask_all (word_mask key i) p"
  by (simp add: decrypt_word_def word_mask_def mask_all_def Let_def)

lemma decrypt_from_mask: "decrypt_from key n i p = mask_all (v5_mask key n i) p"
proof (induction key n i p rule: decrypt_from.induct)
  case (1 key n i p)
  then show ?case
    by (simp add: decrypt_from.simps [of key n i p] v5_mask.simps [of key n i] mask_all_append decrypt_word_mask mask_all_def)
qed

lemma word_mask_skips:
  assumes "i mod 4 = 2" "j \<in> fst ` set (word_mask key i)"
  shows "i \<le> j \<and> j \<notin> {0x14, 0x15, 0x16, 0x17}"
proof -
  have "j = i \<and> i \<noteq> 22 \<or> j = i + 1 \<and> i \<noteq> 22 \<or> j = i + 2 \<and> i \<noteq> 18 \<or> j = i + 3 \<and> i \<noteq> 18"
    using assms(2) by (auto simp: word_mask_def Let_def split: if_splits)
  then show ?thesis using assms(1) by (auto; presburger)
qed

lemma v5_mask_skips: "i mod 4 = 2 \<Longrightarrow> j \<in> fst ` set (v5_mask key n i) \<Longrightarrow> i \<le> j \<and> j \<notin> {0x14, 0x15, 0x16, 0x17}"
proof (induction key n i rule: v5_mask.induct)
  case (1 key n i)
  show ?case
  proof (cases "j \<in> fst ` set (word_mask key i)")
    case True
    then show ?thesis using word_mask_skips "1.prems"(1) by blast
  next
    case False
    then have "i < n + 3" "j \<in> fst ` set (v5_mask key n (i + 4))"
      using "1.prems"(2) by (auto simp: v5_mask.simps [of key n i] split: if_splits)
    moreover have "(i + 4) mod 4 = 2" using "1.prems"(1) by presburger
    ultimately show ?thesis using "1.IH" by fastforce
  qed
qed

lemma decrypt_keeps:
  assumes "j < 0x0A \<or> 0x14 \<le> j \<and> j < 0x18"
  shows "DecryptV5Packet p sid ! j = p ! j"
proof -
  have "j \<notin> fst ` set (v5_mask key n 0x0A)" for key n
    using v5_mask_skips [of "0x0A" j key n] assms by force
  then show ?thesis by (simp add: DecryptV5Packet_def decrypt_from_mask mask_all_other)
qed

lemma length_DecryptV5Packet [simp]: "length (DecryptV5Packet p sid) = length p"
  by (simp add: DecryptV5Packet_def decrypt_from_mask)

lemma decrypt_same_key: "getV5Key (DecryptV5Packet p sid) n = getV5Key p n"
proof (cases "length p < 0x18")
  case False
  have "take 4 (drop 0x14 (DecryptV5Packet p sid)) = take 4 (drop 0x14 p)"
    using False by (auto simp: list_eq_iff_nth_eq decrypt_keeps)
  then show ?thesis by (simp add: getV5Key_def get32_def)
qed (simp add: getV5Key_def)

text \<open>
  Whoever scrambles a packet with the mask of its check code, as the client does, has it back on the other side; the
  version, the UIN and the check code travel in the clear.
\<close>

lemma decrypt_twice: "DecryptV5Packet (DecryptV5Packet p sid) sid' = p"
proof (cases "length p < 0x18")
  case False
  have "DecryptV5Packet (DecryptV5Packet p sid) sid' =
      mask_all (v5_mask (getV5Key p (length p)) (length p) 0x0A) (DecryptV5Packet p sid)"
    using False decrypt_same_key [of p sid "length p"] by (simp add: DecryptV5Packet_def [of "DecryptV5Packet p sid"] decrypt_from_mask)
  then show ?thesis using False by (simp add: DecryptV5Packet_def decrypt_from_mask mask_all_twice)
qed (simp add: DecryptV5Packet_def)

subsection \<open>Version 4 and passwords\<close>

lemma encrypt_v4_mask:
  assumes "\<And>i. i \<in> set is \<Longrightarrow> 4 + i < length p"
  shows "encrypt_v4 key is p = mask_all (map (\<lambda>i. (4 + i, v4_mask key i)) is) p"
  using assms by (induction "is" arbitrary: p) (fastforce simp: mask_all_def)+

lemma encryptLen_bound: "8 \<le> n \<Longrightarrow> 0 < encryptLen n \<and> encryptLen n + 4 \<le> n \<and> encryptLen n \<le> max 1 (n div 4)"
  by (auto simp: encryptLen_def Let_def)

lemma encrypt_v4_packet_mask:
  "8 \<le> length p \<Longrightarrow> EncryptV4Packet p key = mask_all (map (\<lambda>i. (4 + i, v4_mask key i)) [0..<encryptLen (length p)]) p"
  using encryptLen_bound [of "length p"] by (auto simp: EncryptV4Packet_def intro!: encrypt_v4_mask)

lemma v4_encrypt_twice: "DecryptV4Packet (EncryptV4Packet p key) key = p"
proof (cases "length p < 8")
  case False
  then show ?thesis by (simp add: DecryptV4Packet_def encrypt_v4_packet_mask mask_all_twice)
qed (simp add: DecryptV4Packet_def EncryptV4Packet_def)

lemma password_roundtrip: "UnscramblePassword (ScramblePassword s) = s"
  by (auto simp: UnscramblePassword_def ScramblePassword_def xor.assoc intro: nth_equalityI)

end
