(* ===== verification/LegacyPackets.thy ===== *)
theory LegacyPackets
  imports LegacyCrypt Codec
begin

unbundle bit_operations_syntax

text \<open>
  The packets of the legacy ICQ protocols (\<open>server/icq_legacy/wire_legacy.go\<close>): reading what a client sent, with the
  strings and lists in it, and building what the server sends. An error of these functions is only logged, so a failed
  read is \<open>None\<close>.
\<close>

section \<open>Commands\<close>

definition ICQLegacyCmdAck :: u16 where "ICQLegacyCmdAck = 0x000A"
definition ICQLegacyCmdThruServer :: u16 where "ICQLegacyCmdThruServer = 0x010E"
definition ICQLegacyCmdLogin :: u16 where "ICQLegacyCmdLogin = 0x03E8"
definition ICQLegacyCmdGetDeps :: u16 where "ICQLegacyCmdGetDeps = 0x03F2"
definition ICQLegacyCmdContactList :: u16 where "ICQLegacyCmdContactList = 0x0406"
definition ICQLegacyCmdSearchUIN :: u16 where "ICQLegacyCmdSearchUIN = 0x041A"
definition ICQLegacyCmdSearchUser :: u16 where "ICQLegacyCmdSearchUser = 0x0424"
definition ICQLegacyCmdKeepAlive :: u16 where "ICQLegacyCmdKeepAlive = 0x042E"
definition ICQLegacyCmdLogoff :: u16 where "ICQLegacyCmdLogoff = 0x0438"
definition ICQLegacyCmdSysMsgDoneAck :: u16 where "ICQLegacyCmdSysMsgDoneAck = 0x0442"
definition ICQLegacyCmdSysMsgReq :: u16 where "ICQLegacyCmdSysMsgReq = 0x044C"
definition ICQLegacyCmdAuthorize :: u16 where "ICQLegacyCmdAuthorize = 0x0456"
definition ICQLegacyCmdInfoReq :: u16 where "ICQLegacyCmdInfoReq = 0x0460"
definition ICQLegacyCmdExtInfoReq :: u16 where "ICQLegacyCmdExtInfoReq = 0x046A"
definition ICQLegacyCmdUpdateBasic :: u16 where "ICQLegacyCmdUpdateBasic = 0x04A6"
definition ICQLegacyCmdUpdateDetail :: u16 where "ICQLegacyCmdUpdateDetail = 0x04B0"
definition ICQLegacyCmdSetStatus :: u16 where "ICQLegacyCmdSetStatus = 0x04D8"
definition ICQLegacyCmdFirstLogin :: u16 where "ICQLegacyCmdFirstLogin = 0x04EC"
definition ICQLegacyCmdSetBasicInfo :: u16 where "ICQLegacyCmdSetBasicInfo = 0x050A"
definition ICQLegacyCmdKeepAlive2 :: u16 where "ICQLegacyCmdKeepAlive2 = 0x051E"
definition ICQLegacyCmdUserAdd :: u16 where "ICQLegacyCmdUserAdd = 0x053C"
definition ICQLegacyCmdInvisibleList :: u16 where "ICQLegacyCmdInvisibleList = 0x06A4"
definition ICQLegacyCmdVisibleList :: u16 where "ICQLegacyCmdVisibleList = 0x06AE"
definition ICQLegacyCmdRegNewUser :: u16 where "ICQLegacyCmdRegNewUser = 0x03FC"
definition ICQLegacySrvAck :: u16 where "ICQLegacySrvAck = 0x000A"
definition ICQLegacySrvUserDepsList :: u16 where "ICQLegacySrvUserDepsList = 0x0032"
definition ICQLegacySrvNewUIN :: u16 where "ICQLegacySrvNewUIN = 0x0046"
definition ICQLegacySrvHello :: u16 where "ICQLegacySrvHello = 0x005A"
definition ICQLegacySrvWrongPasswd :: u16 where "ICQLegacySrvWrongPasswd = 0x0064"
definition ICQLegacySrvUserOnline :: u16 where "ICQLegacySrvUserOnline = 0x006E"
definition ICQLegacySrvUserOffline :: u16 where "ICQLegacySrvUserOffline = 0x0078"
definition ICQLegacySrvSearchFound :: u16 where "ICQLegacySrvSearchFound = 0x008C"
definition ICQLegacySrvSearchDone :: u16 where "ICQLegacySrvSearchDone = 0x00A0"
definition ICQLegacySrvUpdatedBasic :: u16 where "ICQLegacySrvUpdatedBasic = 0x00B4"
definition ICQLegacySrvUpdateBasicFail :: u16 where "ICQLegacySrvUpdateBasicFail = 0x00BE"
definition ICQLegacySrvUpdatedDetail :: u16 where "ICQLegacySrvUpdatedDetail = 0x00C8"
definition ICQLegacySrvUpdateDetailFail :: u16 where "ICQLegacySrvUpdateDetailFail = 0x00D2"
definition ICQLegacySrvUpdatedBasicV4 :: u16 where "ICQLegacySrvUpdatedBasicV4 = 0x01E0"
definition ICQLegacySrvSysMsgOffline :: u16 where "ICQLegacySrvSysMsgOffline = 0x00DC"
definition ICQLegacySrvSysMsgDone :: u16 where "ICQLegacySrvSysMsgDone = 0x00E6"
definition ICQLegacySrvNotConnected :: u16 where "ICQLegacySrvNotConnected = 0x00F0"
definition ICQLegacySrvSysMsgOnline :: u16 where "ICQLegacySrvSysMsgOnline = 0x0104"
definition ICQLegacySrvInfoReply :: u16 where "ICQLegacySrvInfoReply = 0x0118"
definition ICQLegacySrvExtInfoReply :: u16 where "ICQLegacySrvExtInfoReply = 0x0122"
definition ICQLegacySrvUserStatus :: u16 where "ICQLegacySrvUserStatus = 0x01A4"
definition ICQLegacySrvUserListDone :: u16 where "ICQLegacySrvUserListDone = 0x021C"
definition ICQLegacyVersionV1 :: u16 where "ICQLegacyVersionV1 = 0x0001"
definition ICQLegacyVersionV2 :: u16 where "ICQLegacyVersionV2 = 0x0002"
definition ICQLegacyVersionV3 :: u16 where "ICQLegacyVersionV3 = 0x0003"
definition ICQLegacyVersionV4 :: u16 where "ICQLegacyVersionV4 = 0x0004"
definition ICQLegacyVersionV5 :: u16 where "ICQLegacyVersionV5 = 0x0005"
definition ICQLegacyMsgURL :: u16 where "ICQLegacyMsgURL = 0x0004"

lemmas legacypackets_consts = ICQLegacyCmdAck_def ICQLegacyCmdThruServer_def ICQLegacyCmdLogin_def
  ICQLegacyCmdGetDeps_def ICQLegacyCmdContactList_def ICQLegacyCmdSearchUIN_def ICQLegacyCmdSearchUser_def
  ICQLegacyCmdKeepAlive_def ICQLegacyCmdLogoff_def ICQLegacyCmdSysMsgDoneAck_def ICQLegacyCmdSysMsgReq_def
  ICQLegacyCmdAuthorize_def ICQLegacyCmdInfoReq_def ICQLegacyCmdExtInfoReq_def ICQLegacyCmdUpdateBasic_def
  ICQLegacyCmdUpdateDetail_def ICQLegacyCmdSetStatus_def ICQLegacyCmdFirstLogin_def ICQLegacyCmdSetBasicInfo_def
  ICQLegacyCmdKeepAlive2_def ICQLegacyCmdUserAdd_def ICQLegacyCmdInvisibleList_def ICQLegacyCmdVisibleList_def
  ICQLegacyCmdRegNewUser_def ICQLegacySrvAck_def ICQLegacySrvUserDepsList_def ICQLegacySrvNewUIN_def
  ICQLegacySrvHello_def ICQLegacySrvWrongPasswd_def ICQLegacySrvUserOnline_def ICQLegacySrvUserOffline_def
  ICQLegacySrvSearchFound_def ICQLegacySrvSearchDone_def ICQLegacySrvUpdatedBasic_def
  ICQLegacySrvUpdateBasicFail_def ICQLegacySrvUpdatedDetail_def ICQLegacySrvUpdateDetailFail_def
  ICQLegacySrvUpdatedBasicV4_def ICQLegacySrvSysMsgOffline_def ICQLegacySrvSysMsgDone_def
  ICQLegacySrvNotConnected_def ICQLegacySrvSysMsgOnline_def ICQLegacySrvInfoReply_def
  ICQLegacySrvExtInfoReply_def ICQLegacySrvUserStatus_def ICQLegacySrvUserListDone_def ICQLegacyVersionV1_def
  ICQLegacyVersionV2_def ICQLegacyVersionV3_def ICQLegacyVersionV4_def ICQLegacyVersionV5_def
  ICQLegacyMsgURL_def

section \<open>Packets\<close>

record V2ClientPacket =
  v2c_Version :: u16
  v2c_Command :: u16
  v2c_SeqNum :: u16
  v2c_UIN :: u32
  v2c_Data :: bytes

record V2ServerPacket =
  v2s_Version :: u16
  v2s_Command :: u16
  v2s_SeqNum :: u16
  v2s_Data :: bytes

record V5ClientPacket =
  v5c_Version :: u16
  v5c_Zero :: u32
  v5c_UIN :: u32
  v5c_SessionID :: u32
  v5c_Command :: u16
  v5c_SeqNum1 :: u16
  v5c_SeqNum2 :: u16
  v5c_CheckCode :: u32
  v5c_Data :: bytes

record V5ServerPacket =
  v5s_Version :: u16
  v5s_SessionID :: u32
  v5s_Command :: u16
  v5s_SeqNum1 :: u16
  v5s_SeqNum2 :: u16
  v5s_UIN :: u32
  v5s_Data :: bytes

definition DetectProtocolVersion :: "bytes \<Rightarrow> u16 option" where
  "DetectProtocolVersion data = (if length data < 2 then None else Some (get16 0 data))"

definition isPreV2Command :: "u16 \<Rightarrow> bool" where
  "isPreV2Command c \<longleftrightarrow> c = ICQLegacyCmdFirstLogin \<or> c = ICQLegacyCmdGetDeps \<or> c = ICQLegacyCmdRegNewUser"

definition UnmarshalV2ClientPacket :: "bytes \<Rightarrow> V2ClientPacket option" where
  "UnmarshalV2ClientPacket data =
     (if length data < 6 then None
      else let pkt = \<lparr>v2c_Version = get16 0 data, v2c_Command = get16 2 data, v2c_SeqNum = get16 4 data, v2c_UIN = 0, v2c_Data = []\<rparr>
           in Some (if isPreV2Command (v2c_Command pkt) then pkt\<lparr>v2c_Data := drop 6 data\<rparr>
                    else if 10 \<le> length data then pkt\<lparr>v2c_UIN := get32 6 data, v2c_Data := drop 10 data\<rparr>
                    else pkt\<lparr>v2c_Data := drop 6 data\<rparr>))"

definition MarshalV2ServerPacket :: "V2ServerPacket \<Rightarrow> bytes" where
  "MarshalV2ServerPacket pkt = le16 (v2s_Version pkt) @ le16 (v2s_Command pkt) @ le16 (v2s_SeqNum pkt) @ v2s_Data pkt"

definition UnmarshalV5ClientPacket :: "bytes \<Rightarrow> V5ClientPacket option" where
  "UnmarshalV5ClientPacket data =
     (if length data < 24 then None
      else Some \<lparr>v5c_Version = get16 0 data, v5c_Zero = get32 2 data, v5c_UIN = get32 6 data, v5c_SessionID = get32 10 data,
                 v5c_Command = get16 14 data, v5c_SeqNum1 = get16 16 data, v5c_SeqNum2 = get16 18 data,
                 v5c_CheckCode = get32 20 data, v5c_Data = drop 24 data\<rparr>)"

definition MarshalV5ServerPacket :: "nat \<Rightarrow> nat \<Rightarrow> V5ServerPacket \<Rightarrow> bytes outcome" where
  "MarshalV5ServerPacket r1 r2 pkt =
     AddV5ServerCheckcode r1 r2
       (le16 (v5s_Version pkt) @ [0x00] @ le32 (v5s_SessionID pkt) @ le16 (v5s_Command pkt) @ le16 (v5s_SeqNum1 pkt) @
        le16 (v5s_SeqNum2 pkt) @ le32 (v5s_UIN pkt) @ [0, 0, 0, 0] @ v5s_Data pkt)"

section \<open>Strings and addresses\<close>

text \<open>Up to the terminating zero, byte by byte; a reader that runs out is an error.\<close>

fun read_cstring :: "bytes parser" where
  "read_cstring [] = (Err EOF, [])"
| "read_cstring (b # r) = (if b = 0 then (Ok [], r)
     else (case read_cstring r of (Ok s, r') \<Rightarrow> (Ok (b # s), r') | x \<Rightarrow> x))"

definition drop_null :: "bytes \<Rightarrow> bytes" where
  "drop_null buf = (if buf \<noteq> [] \<and> last buf = 0 then butlast buf else buf)"

definition ParseLegacyString :: "bool \<Rightarrow> bytes parser" where
  "ParseLegacyString prefixed =
     (if prefixed
      then pbind (read_uint LittleEndian 2) (\<lambda>n.
           if n = 0 then pret [] else pbind (read_full n) (\<lambda>buf. pret (drop_null buf)))
      else read_cstring)"

text \<open>The length counts the terminating zero, in 16 bits.\<close>

definition WriteLegacyString :: "bytes \<Rightarrow> bytes" where
  "WriteLegacyString s = le16 (word_of_nat (length s + 1)) @ s @ [0]"

text \<open>\<open>net.IP\<close>: the nil address is the empty list.\<close>

definition To4 :: "bytes \<Rightarrow> bytes option" where
  "To4 ip =
     (if length ip = 4 then Some ip
      else if length ip = 16 \<and> take 10 ip = replicate 10 0 \<and> ip ! 10 = 0xFF \<and> ip ! 11 = 0xFF then Some (drop 12 ip)
      else None)"

definition ip_field :: "bytes \<Rightarrow> bytes" where
  "ip_field ip = (case To4 ip of Some ip4 \<Rightarrow> ip4 | None \<Rightarrow> [0, 0, 0, 0])"

section \<open>What clients send\<close>

record LegacyLoginPacket =
  lg_UIN :: u32
  lg_Password :: bytes
  lg_IP :: bytes
  lg_Port :: u16
  lg_Status :: u32
  lg_Version :: u32
  lg_ConnectionID :: u16

definition read_ok :: "'a outcome \<times> bytes \<Rightarrow> 'a option" where
  "read_ok x = (case x of (Ok a, _) \<Rightarrow> Some a | _ \<Rightarrow> None)"

text \<open>The version of direct connections and what follows it may be missing.\<close>

definition login_tail :: "LegacyLoginPacket \<Rightarrow> LegacyLoginPacket parser" where
  "login_tail pkt r =
     (case pbind (read_uint LittleEndian 2) (\<lambda>dcVersion. read_full 12) r of
        (Ok x3, r') \<Rightarrow> (Ok (pkt\<lparr>lg_ConnectionID := get16 8 x3\<rparr>), r')
      | (_, r') \<Rightarrow> (Ok pkt, r'))"

definition ParseV2LoginPacket :: "bytes \<Rightarrow> LegacyLoginPacket option" where
  "ParseV2LoginPacket data =
     (if length data < 15 then None
      else read_ok (
        pbind (read_uint LittleEndian 4) (\<lambda>port.
        pbind (ParseLegacyString True) (\<lambda>password.
        pbind (read_uint LittleEndian 4) (\<lambda>x1.
        pbind (read_full 4) (\<lambda>ip.
        pbind (read_uint LittleEndian 1) (\<lambda>x2.
        pbind (read_uint LittleEndian 2) (\<lambda>status.
        login_tail \<lparr>lg_UIN = 0, lg_Password = password, lg_IP = ip, lg_Port = word_of_nat port,
                     lg_Status = word_of_nat status, lg_Version = 0, lg_ConnectionID = 0\<rparr>)))))) data))"

text \<open>At most as many as announced; the list ends early where the data does.\<close>

fun read_uins :: "nat \<Rightarrow> bytes \<Rightarrow> u32 list" where
  "read_uins 0 r = []"
| "read_uins (Suc n) r =
     (case read_uint LittleEndian 4 r of (Ok uin, r') \<Rightarrow> word_of_nat uin # read_uins n r' | _ \<Rightarrow> [])"

definition ParseV2ContactList :: "bytes \<Rightarrow> u32 list option" where
  "ParseV2ContactList data = (case data of [] \<Rightarrow> None | n # r \<Rightarrow> Some (read_uins (unat n) r))"

record LegacyMessagePacket =
  lm_FromUIN :: u32
  lm_ToUIN :: u32
  lm_MsgType :: u16
  lm_Message :: bytes
  lm_URL :: bytes
  lm_Desc :: bytes

definition url_parts :: "LegacyMessagePacket \<Rightarrow> LegacyMessagePacket" where
  "url_parts pkt =
     (if lm_MsgType pkt = ICQLegacyMsgURL
      then if 0xFE \<in> set (lm_Message pkt)
           then pkt\<lparr>lm_Desc := takeWhile (\<lambda>b. b \<noteq> 0xFE) (lm_Message pkt),
                    lm_URL := tl (dropWhile (\<lambda>b. b \<noteq> 0xFE) (lm_Message pkt))\<rparr>
           else pkt\<lparr>lm_URL := lm_Message pkt\<rparr>
      else pkt)"

definition ParseV2Message :: "bytes \<Rightarrow> LegacyMessagePacket option" where
  "ParseV2Message data =
     (if length data < 6 then None
      else read_ok (
        pbind (read_uint LittleEndian 4) (\<lambda>to_uin.
        pbind (read_uint LittleEndian 2) (\<lambda>msg_type.
        pbind (ParseLegacyString True) (\<lambda>msg.
        pret (url_parts \<lparr>lm_FromUIN = 0, lm_ToUIN = word_of_nat to_uin, lm_MsgType = word_of_nat msg_type,
                         lm_Message = msg, lm_URL = [], lm_Desc = []\<rparr>)))) data))"

section \<open>What the server sends to version 2\<close>

record LegacyUserInfo =
  lu_UIN :: u32
  lu_Nickname :: bytes
  lu_FirstName :: bytes
  lu_LastName :: bytes
  lu_Email :: bytes
  lu_Auth :: u8
  lu_City :: bytes
  lu_State :: bytes
  lu_Country :: u16
  lu_Phone :: bytes
  lu_Homepage :: bytes
  lu_About :: bytes
  lu_Age :: u16
  lu_Gender :: u8
  lu_Status :: u32
  lu_IP :: bytes
  lu_Port :: u16

definition no_info :: LegacyUserInfo where
  "no_info = \<lparr>lu_UIN = 0, lu_Nickname = [], lu_FirstName = [], lu_LastName = [], lu_Email = [], lu_Auth = 0, lu_City = [],
     lu_State = [], lu_Country = 0, lu_Phone = [], lu_Homepage = [], lu_About = [], lu_Age = 0, lu_Gender = 0, lu_Status = 0,
     lu_IP = [], lu_Port = 0\<rparr>"

definition v2_packet :: "u16 \<Rightarrow> u16 \<Rightarrow> bytes \<Rightarrow> V2ServerPacket" where
  "v2_packet command seqNum data =
     \<lparr>v2s_Version = ICQLegacyVersionV2, v2s_Command = command, v2s_SeqNum = seqNum, v2s_Data = data\<rparr>"

definition BuildV2LoginReply :: "u16 \<Rightarrow> u16 \<Rightarrow> u32 \<Rightarrow> bytes \<Rightarrow> V2ServerPacket" where
  "BuildV2LoginReply serverSeqNum clientConnectionID uin clientIP =
     v2_packet ICQLegacySrvHello serverSeqNum
       (le32 uin @ ip_field clientIP @ le16 clientConnectionID @ [0x01, 0x00, 0x05, 0x00] @ [0, 0, 0, 0] @
        [0x8C, 0, 0, 0] @ [0xF0, 0x00, 0x0A, 0x00] @ [0x0A, 0x00, 0x05, 0x00, 0x0A, 0x00, 0x01])"

definition BuildV2BadPassword :: "u16 \<Rightarrow> V2ServerPacket" where
  "BuildV2BadPassword seqNum = v2_packet ICQLegacySrvWrongPasswd seqNum []"

definition BuildV2UserOnline :: "u16 \<Rightarrow> u32 \<Rightarrow> u32 \<Rightarrow> bytes \<Rightarrow> u16 \<Rightarrow> V2ServerPacket" where
  "BuildV2UserOnline seqNum uin status ip port =
     v2_packet ICQLegacySrvUserOnline seqNum
       (le32 uin @ ip_field ip @ le16 port @ ip_field ip @ le16 0x0003 @ [0x04] @ le16 (ucast status) @
        [0x02, 0x00, 0x00, 0x00] @ [0x00, 0x00])"

definition BuildV2UserOffline :: "u16 \<Rightarrow> u32 \<Rightarrow> V2ServerPacket" where
  "BuildV2UserOffline seqNum uin = v2_packet ICQLegacySrvUserOffline seqNum (le32 uin)"

definition BuildV2Ack :: "u16 \<Rightarrow> V2ServerPacket" where
  "BuildV2Ack seqNum = v2_packet ICQLegacySrvAck seqNum []"

text \<open>The fields of a \<open>time.Time\<close> in its own location.\<close>

record Clock =
  Year :: int
  Month :: nat
  Day :: nat
  Hour :: nat
  Minute :: nat

definition BuildV2OfflineMessage :: "u16 \<Rightarrow> u32 \<Rightarrow> u16 \<Rightarrow> bytes \<Rightarrow> Clock \<Rightarrow> V2ServerPacket" where
  "BuildV2OfflineMessage seqNum fromUIN msgType message timestamp =
     v2_packet ICQLegacySrvSysMsgOffline seqNum
       (le32 fromUIN @ le16 (word_of_int (Year timestamp)) @
        [word_of_nat (Month timestamp), word_of_nat (Day timestamp), word_of_nat (Hour timestamp), word_of_nat (Minute timestamp)] @
        le16 msgType @ WriteLegacyString message)"

definition BuildV2Message :: "u16 \<Rightarrow> u32 \<Rightarrow> u16 \<Rightarrow> bytes \<Rightarrow> V2ServerPacket" where
  "BuildV2Message seqNum fromUIN msgType message =
     v2_packet ICQLegacySrvSysMsgOnline seqNum (le32 fromUIN @ le16 msgType @ WriteLegacyString message)"

definition BuildV2StatusUpdate :: "u16 \<Rightarrow> u32 \<Rightarrow> u32 \<Rightarrow> V2ServerPacket" where
  "BuildV2StatusUpdate seqNum uin status = v2_packet ICQLegacySrvUserStatus seqNum (le32 uin @ le32 status)"

definition BuildV2ContactListDone :: "u16 \<Rightarrow> u32 \<Rightarrow> V2ServerPacket" where
  "BuildV2ContactListDone seqNum uin = v2_packet ICQLegacySrvUserListDone seqNum (le32 uin)"

definition info_fields :: "LegacyUserInfo \<Rightarrow> bytes" where
  "info_fields user = le32 (lu_UIN user) @ WriteLegacyString (lu_Nickname user) @ WriteLegacyString (lu_FirstName user) @
     WriteLegacyString (lu_LastName user) @ WriteLegacyString (lu_Email user) @ [lu_Auth user]"

definition BuildV2SearchResult :: "u16 \<Rightarrow> LegacyUserInfo \<Rightarrow> bool \<Rightarrow> V2ServerPacket" where
  "BuildV2SearchResult seqNum user isLast =
     (if lu_UIN user = 0 \<and> isLast then v2_packet ICQLegacySrvSearchDone seqNum (le16 seqNum @ [0x00])
      else v2_packet ICQLegacySrvSearchFound seqNum (le16 seqNum @ info_fields user))"

definition BuildV2InfoReply :: "u16 \<Rightarrow> u16 \<Rightarrow> LegacyUserInfo \<Rightarrow> V2ServerPacket" where
  "BuildV2InfoReply serverSeq checkSeq user =
     v2_packet ICQLegacySrvInfoReply serverSeq (le16 checkSeq @ info_fields user @ le16 0 @ le16 0)"

definition BuildV2ExtInfoReply :: "u16 \<Rightarrow> u16 \<Rightarrow> LegacyUserInfo \<Rightarrow> V2ServerPacket" where
  "BuildV2ExtInfoReply serverSeq checkSeq user =
     v2_packet ICQLegacySrvExtInfoReply serverSeq
       (le16 checkSeq @ le32 (lu_UIN user) @ WriteLegacyString (lu_City user) @ le16 (lu_Country user) @ [0] @
        WriteLegacyString (lu_State user) @ le16 (lu_Age user) @ [lu_Gender user] @ WriteLegacyString (lu_Phone user) @
        WriteLegacyString (lu_Homepage user) @ WriteLegacyString (lu_About user))"

definition BuildV2NewUIN :: "u16 \<Rightarrow> u32 \<Rightarrow> V2ServerPacket" where
  "BuildV2NewUIN seqNum newUIN = v2_packet ICQLegacySrvNewUIN seqNum (le16 seqNum @ le32 newUIN)"

section \<open>Reading back\<close>

lemma read_le16: "read_uint LittleEndian 2 (le16 w @ r) = (Ok (unat w), r)"
  using unsigned_less [of w, where ?'a = nat]
  by (simp add: le16_def read_uint_def pbind_def read_full_append get_put_uint)

lemma read_le32: "read_uint LittleEndian 4 (le32 w @ r) = (Ok (unat w), r)"
  using unsigned_less [of w, where ?'a = nat]
  by (simp add: le32_def read_uint_def pbind_def read_full_append get_put_uint)

lemma bind_le16: "pbind (read_uint LittleEndian 2) f (le16 w @ r) = f (unat w) r"
  by (rule pbind_Ok) (rule read_le16)

lemma bind_le32: "pbind (read_uint LittleEndian 4) f (le32 w @ r) = f (unat w) r"
  by (rule pbind_Ok) (rule read_le32)

lemma read_uint_short: "length r < n \<Longrightarrow> \<exists>e. fst (read_uint ord n r) = Err e"
  by (cases "r = []") (simp_all add: read_uint_def pbind_def read_full_def)

lemma legacy_string_read:
  assumes "length s < 65535"
  shows "ParseLegacyString True (WriteLegacyString s @ r) = (Ok s, r)"
proof -
  have n: "unat (word_of_nat (length s + 1) :: u16) = length s + 1"
    using assms by (simp add: unat_of_nat take_bit_nat_eq_self del: of_nat_Suc of_nat_add)
  have "read_full (length s + 1) (s @ [0] @ r) = (Ok (s @ [0]), r)"
    by (simp add: read_full_def)
  then show ?thesis
    using n by (simp add: ParseLegacyString_def WriteLegacyString_def bind_le16 pbind_Ok drop_null_def
        del: of_nat_Suc of_nat_add)
qed

text \<open>At 65535 bytes the length wraps to zero: the reader takes an empty string and goes on inside the text.\<close>

lemma legacy_string_wraps:
  assumes "length s = 65535"
  shows "ParseLegacyString True (WriteLegacyString s @ r) = (Ok [], s @ [0] @ r)"
proof -
  have "unat (word_of_nat (length s + 1) :: u16) = 0" using assms by simp
  then show ?thesis
    by (simp add: ParseLegacyString_def WriteLegacyString_def bind_le16 del: of_nat_Suc of_nat_add)
qed

lemma cstring_read: "0 \<notin> set s \<Longrightarrow> ParseLegacyString False (s @ [0] @ r) = (Ok s, r)"
  by (induction s) (simp_all add: ParseLegacyString_def pbind_def)

lemma legacy_message_read:
  assumes "length msg < 65535"
  shows "ParseV2Message (v2s_Data (BuildV2Message sq from t msg)) =
     Some (url_parts \<lparr>lm_FromUIN = 0, lm_ToUIN = from, lm_MsgType = t, lm_Message = msg, lm_URL = [], lm_Desc = []\<rparr>)"
  using legacy_string_read [OF assms, of "[]"]
  by (simp add: ParseV2Message_def BuildV2Message_def v2_packet_def bind_le32 bind_le16
      pbind_Ok read_ok_def)

text \<open>A contact list is read as far as it goes: what is announced, and no more than what is there.\<close>

lemma uins_read: "length r < 4 \<Longrightarrow> read_uins n (concat (map le32 us) @ r) = take n us"
proof (induction n arbitrary: us)
  case (Suc n)
  show ?case
  proof (cases us)
    case Nil
    then obtain e where "fst (read_uint LittleEndian 4 r) = Err e" using read_uint_short Suc.prems by blast
    then show ?thesis using Nil by (cases "read_uint LittleEndian 4 r") simp
  next
    case (Cons u us')
    then show ?thesis using Suc by (simp add: read_le32)
  qed
qed simp

lemma contact_list_read:
  "length r < 4 \<Longrightarrow> ParseV2ContactList (n # concat (map le32 us) @ r) = Some (take (unat n) us)"
  by (simp add: ParseV2ContactList_def uins_read)

lemma contact_list_bound: "ParseV2ContactList data = Some us \<Longrightarrow> length us \<le> 255 \<and> 4 * length us < length data"
proof -
  have "length (read_uins n r) \<le> n \<and> 4 * length (read_uins n r) \<le> length r" for n r
  proof (induction n arbitrary: r)
    case (Suc n)
    show ?case
    proof (cases "read_uint LittleEndian 4 r")
      case (Pair x r')
      then show ?thesis
        using Suc [of r'] by (cases x) (auto simp: read_uint_def pbind_def read_full_def split: if_splits)
    qed
  qed simp
  note bound = this
  assume "ParseV2ContactList data = Some us"
  then obtain n r where "data = n # r" "us = read_uins (unat n) r"
    by (auto simp: ParseV2ContactList_def split: list.splits)
  then show ?thesis using bound [of "unat n" r] unsigned_less [of n, where ?'a = nat] by simp
qed

end
