(* ===== verification/LegacySessions.thy ===== *)
theory LegacySessions
  imports LegacyPackets OService
begin

unbundle bit_operations_syntax

text \<open>
  Who is connected over the legacy ICQ protocols (\<open>server/icq_legacy/session.go\<close>, \<open>types.go\<close>): sessions are objects,
  found by UIN and by the address packets come from. What the OSCAR side keeps is an outer state that the manager's
  calls change.
\<close>

section \<open>Status\<close>

definition ICQLegacyStatusOnline :: u32 where "ICQLegacyStatusOnline = 0x00000000"
definition ICQLegacyStatusAway :: u32 where "ICQLegacyStatusAway = 0x00000001"
definition ICQLegacyStatusDND :: u32 where "ICQLegacyStatusDND = 0x00000002"
definition ICQLegacyStatusNA :: u32 where "ICQLegacyStatusNA = 0x00000004"
definition ICQLegacyStatusOccupied :: u32 where "ICQLegacyStatusOccupied = 0x00000010"
definition ICQLegacyStatusFFC :: u32 where "ICQLegacyStatusFFC = 0x00000020"
definition ICQLegacyStatusInvisible :: u32 where "ICQLegacyStatusInvisible = 0x00000100"
definition ICQLegacyStatusFlagWebAware :: u32 where "ICQLegacyStatusFlagWebAware = 0x00010000"
definition ICQLegacyStatusFlagBirthday :: u32 where "ICQLegacyStatusFlagBirthday = 0x00080000"
definition ICQLegacyStatusFlagDCAuth :: u32 where "ICQLegacyStatusFlagDCAuth = 0x10000000"
definition OServiceUserStatusChat :: u32 where "OServiceUserStatusChat = 0x00000020"
definition OServiceUserStatusWebAware :: u32 where "OServiceUserStatusWebAware = 0x00010000"
definition OServiceUserStatusBirthday :: u32 where "OServiceUserStatusBirthday = 0x00080000"
definition OServiceUserStatusDirectRequireAuth :: u32 where "OServiceUserStatusDirectRequireAuth = 0x10000000"

lemmas legacysessions_consts = ICQLegacyStatusOnline_def ICQLegacyStatusAway_def ICQLegacyStatusDND_def
  ICQLegacyStatusNA_def ICQLegacyStatusOccupied_def ICQLegacyStatusFFC_def ICQLegacyStatusInvisible_def
  ICQLegacyStatusFlagWebAware_def ICQLegacyStatusFlagBirthday_def ICQLegacyStatusFlagDCAuth_def
  OServiceUserStatusChat_def OServiceUserStatusWebAware_def OServiceUserStatusBirthday_def
  OServiceUserStatusDirectRequireAuth_def

text \<open>How the two protocols and version 2 name a status (\<open>service.go\<close>, \<open>handler.go\<close>).\<close>

definition flag_bits :: "u32 \<Rightarrow> (u32 \<times> u32) list \<Rightarrow> u32 \<Rightarrow> u32" where
  "flag_bits status flags out = foldl (\<lambda>acc f. if status AND fst f \<noteq> 0 then acc OR snd f else acc) out flags"

definition oscar_base :: "u32 \<Rightarrow> u32" where
  "oscar_base b =
     (if b = 0x00 then OServiceUserStatusAvailable
      else if b = 0x01 then OServiceUserStatusAway
      else if b = 0x02 then OServiceUserStatusAway OR OServiceUserStatusDND OR OServiceUserStatusBusy
      else if b = 0x04 then OServiceUserStatusAway OR OServiceUserStatusOut
      else if b = 0x05 then OServiceUserStatusAway OR OServiceUserStatusOut
      else if b = 0x10 then OServiceUserStatusAway OR OServiceUserStatusBusy
      else if b = 0x11 then OServiceUserStatusAway OR OServiceUserStatusBusy
      else if b = 0x13 then OServiceUserStatusAway OR OServiceUserStatusDND OR OServiceUserStatusBusy
      else if b = 0x20 then OServiceUserStatusChat
      else OServiceUserStatusAvailable)"

definition mapLegacyStatusToOSCAR :: "u32 \<Rightarrow> u32" where
  "mapLegacyStatusToOSCAR legacyStatus =
     flag_bits legacyStatus
       [(ICQLegacyStatusInvisible, OServiceUserStatusInvisible),
        (ICQLegacyStatusFlagWebAware, OServiceUserStatusWebAware),
        (ICQLegacyStatusFlagBirthday, OServiceUserStatusBirthday),
        (ICQLegacyStatusFlagDCAuth, OServiceUserStatusDirectRequireAuth)]
       (oscar_base (legacyStatus AND 0xFF))"

definition legacy_base :: "u32 \<Rightarrow> u32" where
  "legacy_base b =
     (if b = 0x00 then ICQLegacyStatusOnline
      else if b = 0x01 then ICQLegacyStatusAway
      else if b = 0x02 then ICQLegacyStatusDND
      else if b = 0x04 then ICQLegacyStatusNA
      else if b = 0x05 then ICQLegacyStatusNA
      else if b = 0x10 then ICQLegacyStatusOccupied
      else if b = 0x11 then ICQLegacyStatusOccupied
      else if b = 0x13 then ICQLegacyStatusDND
      else if b = 0x20 then ICQLegacyStatusFFC
      else if b AND 0x20 \<noteq> 0 then ICQLegacyStatusFFC
      else if b AND 0x02 \<noteq> 0 \<and> b AND 0x10 \<noteq> 0 then ICQLegacyStatusDND
      else if b AND 0x10 \<noteq> 0 then ICQLegacyStatusOccupied
      else if b AND 0x04 \<noteq> 0 then ICQLegacyStatusNA
      else if b AND 0x02 \<noteq> 0 then ICQLegacyStatusDND
      else if b AND 0x01 \<noteq> 0 then ICQLegacyStatusAway
      else ICQLegacyStatusOnline)"

definition mapOSCARStatusToLegacy :: "u32 \<Rightarrow> u32" where
  "mapOSCARStatusToLegacy oscarStatus =
     flag_bits oscarStatus
       [(OServiceUserStatusInvisible, ICQLegacyStatusInvisible),
        (OServiceUserStatusWebAware, ICQLegacyStatusFlagWebAware),
        (OServiceUserStatusBirthday, ICQLegacyStatusFlagBirthday),
        (OServiceUserStatusDirectRequireAuth, ICQLegacyStatusFlagDCAuth)]
       (legacy_base (oscarStatus AND 0xFF))"

definition downgradeStatusForV2 :: "u32 \<Rightarrow> u32" where
  "downgradeStatusForV2 status =
     (let base = status AND 0xFF;
          base' = (if base = 0x02 then 0x11 else if base = 0x04 \<or> base = 0x05 then 0x01 else if base = 0x10 then 0x11
                   else if base = 0x13 then 0x11 else if base = 0x20 then 0x00 else base)
      in (status AND 0xFFFFFF00) OR base')"

section \<open>Sessions\<close>

record UDPAddr =
  addr_IP :: bytes
  addr_Port :: nat
  addr_Zone :: bytes

record 'i LegacySession =
  ls_UIN :: u32
  ls_Addr :: "UDPAddr option"
  ls_Version :: u16
  ls_SessionID :: u32
  ls_SeqNumClient :: u16
  ls_SeqNumServer :: u16
  ls_Status :: u32
  ls_LastActivity :: int
  ls_ContactList :: "u32 list"
  ls_VisibleList :: "u32 list"
  ls_InvisibleList :: "u32 list"
  ls_Password :: bytes
  ls_TCPPort :: u32
  ls_InternalIP :: u32
  ls_DCVersion :: u16
  ls_DCType :: u8
  ls_Instance :: "'i option"
  ls_knownOnline :: "u32 list"

definition IsOnVisibleList :: "'i LegacySession \<Rightarrow> u32 \<Rightarrow> bool" where
  "IsOnVisibleList s uin \<longleftrightarrow> uin \<in> set (ls_VisibleList s)"

definition IsOnInvisibleList :: "'i LegacySession \<Rightarrow> u32 \<Rightarrow> bool" where
  "IsOnInvisibleList s uin \<longleftrightarrow> uin \<in> set (ls_InvisibleList s)"

definition IsContact :: "'i LegacySession \<Rightarrow> u32 \<Rightarrow> bool" where
  "IsContact s uin \<longleftrightarrow> uin \<in> set (ls_ContactList s)"

text \<open>The contacts known to be online; what the map lacks reads as false.\<close>

definition MarkContactOnline :: "u32 \<Rightarrow> 'i LegacySession \<Rightarrow> bool \<times> 'i LegacySession" where
  "MarkContactOnline uin s = (uin \<in> set (ls_knownOnline s), s\<lparr>ls_knownOnline := List.insert uin (ls_knownOnline s)\<rparr>)"

definition MarkContactOffline :: "u32 \<Rightarrow> 'i LegacySession \<Rightarrow> 'i LegacySession" where
  "MarkContactOffline uin s = s\<lparr>ls_knownOnline := removeAll uin (ls_knownOnline s)\<rparr>"

definition GetExternalIP :: "'i LegacySession \<Rightarrow> u32" where
  "GetExternalIP s =
     (case ls_Addr s of None \<Rightarrow> 0
      | Some a \<Rightarrow> (case To4 (addr_IP a) of None \<Rightarrow> 0
          | Some ip \<Rightarrow> ucast (ip ! 0) OR push_bit 8 (ucast (ip ! 1)) OR push_bit 16 (ucast (ip ! 2)) OR push_bit 24 (ucast (ip ! 3))))"

definition SetDirectConnectionInfo :: "u32 \<Rightarrow> u32 \<Rightarrow> u16 \<Rightarrow> u8 \<Rightarrow> 'i LegacySession \<Rightarrow> 'i LegacySession" where
  "SetDirectConnectionInfo tcpPort internalIP dcVersion dcType s =
     s\<lparr>ls_TCPPort := tcpPort, ls_InternalIP := internalIP, ls_DCVersion := dcVersion, ls_DCType := dcType\<rparr>"

text \<open>\<open>sid\<close> is what \<open>GenerateSessionID\<close> draws and \<open>t\<close> the time.\<close>

definition newLegacySession :: "u32 \<Rightarrow> UDPAddr \<Rightarrow> u16 \<Rightarrow> 'i option \<Rightarrow> u32 \<Rightarrow> int \<Rightarrow> 'i LegacySession" where
  "newLegacySession uin addr version i sid t =
     \<lparr>ls_UIN = uin, ls_Addr = Some addr, ls_Version = version, ls_SessionID = sid, ls_SeqNumClient = 0, ls_SeqNumServer = 0,
      ls_Status = ICQLegacyStatusOnline, ls_LastActivity = t, ls_ContactList = [], ls_VisibleList = [], ls_InvisibleList = [],
      ls_Password = [], ls_TCPPort = 0, ls_InternalIP = 0, ls_DCVersion = 0, ls_DCType = 0, ls_Instance = i, ls_knownOnline = []\<rparr>"

section \<open>The manager\<close>

text \<open>Objects are numbered as they are made; \<open>l_sent\<close> is what went out over UDP, and \<open>l_outside\<close> is everything else the
  program keeps.\<close>

record ('i, 'w) Legacy =
  l_heap :: "nat \<Rightarrow> 'i LegacySession"
  l_next :: nat
  l_sessions :: "u32 \<Rightarrow> nat option"
  l_addrIndex :: "bytes \<Rightarrow> nat option"
  l_sent :: "(UDPAddr \<times> bytes) list"
  l_outside :: 'w

text \<open>
  \<open>addr_key\<close> is \<open>UDPAddr.String\<close>. \<open>drop_session\<close> is the registry's \<open>RemoveSession\<close>, \<open>signed_on\<close> the instance's
  \<open>SetSignonComplete\<close>, \<open>start_pump\<close> the bridge's \<open>StartOSCARMessagePump\<close>, and \<open>link_ok\<close> whether the socket is open and takes the packet.
\<close>

record ('i, 'w) LegacyHooks =
  addr_key :: "UDPAddr \<Rightarrow> bytes"
  drop_session :: "'i \<Rightarrow> 'w \<Rightarrow> 'w"
  signed_on :: "'i \<Rightarrow> 'w \<Rightarrow> 'w"
  start_pump :: "nat \<Rightarrow> 'w \<Rightarrow> 'w"
  link_ok :: "UDPAddr \<Rightarrow> bytes \<Rightarrow> 'w \<Rightarrow> bool"

definition upd_ls :: "nat \<Rightarrow> ('i LegacySession \<Rightarrow> 'i LegacySession) \<Rightarrow> ('i, 'w) Legacy \<Rightarrow> ('i, 'w) Legacy" where
  "upd_ls p f L = L\<lparr>l_heap := (l_heap L)(p := f (l_heap L p))\<rparr>"

definition out_upd :: "('w \<Rightarrow> 'w) \<Rightarrow> ('i, 'w) Legacy \<Rightarrow> ('i, 'w) Legacy" where
  "out_upd f L = L\<lparr>l_outside := f (l_outside L)\<rparr>"

definition NextServerSeqNum :: "nat \<Rightarrow> ('i, 'w) Legacy \<Rightarrow> u16 \<times> ('i, 'w) Legacy" where
  "NextServerSeqNum p L = (ls_SeqNumServer (l_heap L p), upd_ls p (\<lambda>s. s\<lparr>ls_SeqNumServer := ls_SeqNumServer s + 1\<rparr>) L)"

definition removeSessionLocked :: "('i, 'w) LegacyHooks \<Rightarrow> nat \<Rightarrow> ('i, 'w) Legacy \<Rightarrow> ('i, 'w) Legacy" where
  "removeSessionLocked K p L =
     (let s = l_heap L p;
          L1 = (case ls_Instance s of Some i \<Rightarrow> out_upd (drop_session K i) L | None \<Rightarrow> L);
          L2 = L1\<lparr>l_sessions := (l_sessions L1)(ls_UIN s := None)\<rparr>
      in (case ls_Addr s of Some a \<Rightarrow> L2\<lparr>l_addrIndex := (l_addrIndex L2)(addr_key K a := None)\<rparr> | None \<Rightarrow> L2))"

definition remove_existing :: "('i, 'w) LegacyHooks \<Rightarrow> u32 \<Rightarrow> ('i, 'w) Legacy \<Rightarrow> ('i, 'w) Legacy" where
  "remove_existing K uin L = (case l_sessions L uin of Some p \<Rightarrow> removeSessionLocked K p L | None \<Rightarrow> L)"

definition activateSessionLocked :: "('i, 'w) LegacyHooks \<Rightarrow> nat \<Rightarrow> ('i, 'w) Legacy \<Rightarrow> ('i, 'w) Legacy" where
  "activateSessionLocked K p L =
     (case ls_Instance (l_heap L p) of Some i \<Rightarrow> out_upd (start_pump K p \<circ> signed_on K i) L | None \<Rightarrow> L)"

definition put_session :: "('i, 'w) LegacyHooks \<Rightarrow> u32 \<Rightarrow> UDPAddr \<Rightarrow> nat \<Rightarrow> ('i, 'w) Legacy \<Rightarrow> ('i, 'w) Legacy" where
  "put_session K uin addr p L =
     L\<lparr>l_sessions := (l_sessions L)(uin \<mapsto> p), l_addrIndex := (l_addrIndex L)(addr_key K addr \<mapsto> p)\<rparr>"

definition alloc_session :: "'i LegacySession \<Rightarrow> ('i, 'w) Legacy \<Rightarrow> ('i, 'w) Legacy" where
  "alloc_session s L = L\<lparr>l_heap := (l_heap L)(l_next L := s), l_next := Suc (l_next L)\<rparr>"

text \<open>Results are the session's object, or none where the code returns an error.\<close>

definition CreateSession :: "('i, 'w) LegacyHooks \<Rightarrow> u32 \<Rightarrow> UDPAddr \<Rightarrow> u16 \<Rightarrow> 'i option \<Rightarrow> u32 \<Rightarrow> int \<Rightarrow>
    ('i, 'w) Legacy \<Rightarrow> nat option \<times> ('i, 'w) Legacy" where
  "CreateSession K uin addr version i sid t L =
     (if i = None then (None, L)
      else let L1 = remove_existing K uin L;
               L2 = alloc_session (newLegacySession uin addr version i sid t) L1
           in (Some (l_next L1), put_session K uin addr (l_next L1) (activateSessionLocked K (l_next L1) L2)))"

definition CreatePendingSession :: "('i, 'w) LegacyHooks \<Rightarrow> u32 \<Rightarrow> UDPAddr \<Rightarrow> u16 \<Rightarrow> u32 \<Rightarrow> int \<Rightarrow>
    ('i, 'w) Legacy \<Rightarrow> nat \<times> ('i, 'w) Legacy" where
  "CreatePendingSession K uin addr version sid t L =
     (let L1 = remove_existing K uin L
      in (l_next L1, put_session K uin addr (l_next L1) (alloc_session (newLegacySession uin addr version None sid t) L1)))"

definition unhook_addr :: "('i, 'w) LegacyHooks \<Rightarrow> nat \<Rightarrow> ('i, 'w) Legacy \<Rightarrow> ('i, 'w) Legacy" where
  "unhook_addr K p L =
     (case ls_Addr (l_heap L p) of Some a \<Rightarrow> L\<lparr>l_addrIndex := (l_addrIndex L)(addr_key K a := None)\<rparr> | None \<Rightarrow> L)"

definition move_addr :: "('i, 'w) LegacyHooks \<Rightarrow> nat \<Rightarrow> UDPAddr \<Rightarrow> ('i, 'w) Legacy \<Rightarrow> ('i, 'w) Legacy" where
  "move_addr K p addr L =
     (let L1 = upd_ls p (\<lambda>s. s\<lparr>ls_Addr := Some addr\<rparr>) (unhook_addr K p L)
      in L1\<lparr>l_addrIndex := (l_addrIndex L1)(addr_key K addr \<mapsto> p)\<rparr>)"

definition AttachOSCARSession :: "('i, 'w) LegacyHooks \<Rightarrow> u32 \<Rightarrow> UDPAddr \<Rightarrow> 'i option \<Rightarrow> ('i, 'w) Legacy \<Rightarrow> nat option \<times> ('i, 'w) Legacy" where
  "AttachOSCARSession K uin addr i L =
     (if i = None then (None, L)
      else case l_sessions L uin of
        None \<Rightarrow> (None, L)
      | Some p \<Rightarrow>
          if ls_Instance (l_heap L p) \<noteq> None \<and> ls_Instance (l_heap L p) \<noteq> i then (None, L)
          else (Some p, activateSessionLocked K p (upd_ls p (\<lambda>s. s\<lparr>ls_Instance := i\<rparr>) (move_addr K p addr L))))"

definition GetSession :: "u32 \<Rightarrow> ('i, 'w) Legacy \<Rightarrow> nat option" where
  "GetSession uin L = l_sessions L uin"

definition GetSessionByAddr :: "('i, 'w) LegacyHooks \<Rightarrow> UDPAddr \<Rightarrow> ('i, 'w) Legacy \<Rightarrow> nat option" where
  "GetSessionByAddr K addr L = l_addrIndex L (addr_key K addr)"

definition RemoveLegacySession :: "('i, 'w) LegacyHooks \<Rightarrow> u32 \<Rightarrow> ('i, 'w) Legacy \<Rightarrow> ('i, 'w) Legacy" where
  "RemoveLegacySession K uin L = remove_existing K uin L"

definition UpdateSessionAddr :: "('i, 'w) LegacyHooks \<Rightarrow> u32 \<Rightarrow> UDPAddr \<Rightarrow> ('i, 'w) Legacy \<Rightarrow> ('i, 'w) Legacy" where
  "UpdateSessionAddr K uin newAddr L = (case l_sessions L uin of None \<Rightarrow> L | Some p \<Rightarrow> move_addr K p newAddr L)"

text \<open>
  The two halves of \<open>CleanupExpired\<close>: between them the lock is free and the callbacks run. \<open>ks\<close> is the order in which
  the map's keys come up.
\<close>

definition expired_sessions :: "int \<Rightarrow> int \<Rightarrow> u32 list \<Rightarrow> ('i, 'w) Legacy \<Rightarrow> nat list" where
  "expired_sessions timeout t ks L =
     filter (\<lambda>p. t - ls_LastActivity (l_heap L p) > timeout) (List.map_filter (l_sessions L) ks)"

definition remove_expired :: "('i, 'w) LegacyHooks \<Rightarrow> nat list \<Rightarrow> ('i, 'w) Legacy \<Rightarrow> nat \<times> ('i, 'w) Legacy" where
  "remove_expired K expired L =
     foldl (\<lambda>(removed, M) p. if l_sessions M (ls_UIN (l_heap M p)) \<noteq> None
                              then (Suc removed, removeSessionLocked K p M) else (removed, M)) (0, L) expired"

definition CleanupExpired :: "('i, 'w) LegacyHooks \<Rightarrow> int \<Rightarrow> int \<Rightarrow> u32 list \<Rightarrow> (('i, 'w) Legacy \<Rightarrow> ('i, 'w) Legacy) \<Rightarrow>
    ('i, 'w) Legacy \<Rightarrow> nat \<times> ('i, 'w) Legacy" where
  "CleanupExpired K timeout t ks between L = remove_expired K (expired_sessions timeout t ks L) (between L)"

definition isVisibleTo :: "'i LegacySession \<Rightarrow> u32 \<Rightarrow> bool" where
  "isVisibleTo s viewerUIN \<longleftrightarrow>
     (if ls_Status s AND ICQLegacyStatusInvisible \<noteq> 0 then IsOnVisibleList s viewerUIN
      else \<not> IsOnInvisibleList s viewerUIN)"

definition GetOnlineContacts :: "nat \<Rightarrow> ('i, 'w) Legacy \<Rightarrow> nat list" where
  "GetOnlineContacts p L =
     filter (\<lambda>q. isVisibleTo (l_heap L q) (ls_UIN (l_heap L p)))
       (List.map_filter (l_sessions L) (ls_ContactList (l_heap L p)))"

definition BroadcastToContacts :: "nat \<Rightarrow> (nat \<Rightarrow> ('i, 'w) Legacy \<Rightarrow> ('i, 'w) Legacy) \<Rightarrow> ('i, 'w) Legacy \<Rightarrow> ('i, 'w) Legacy" where
  "BroadcastToContacts p f L =
     fold (\<lambda>uin M. case l_sessions M uin of Some q \<Rightarrow> f q M | None \<Rightarrow> M) (ls_ContactList (l_heap L p)) L"

definition NotifyContactsOfStatus :: "nat \<Rightarrow> u32 list \<Rightarrow> ('i, 'w) Legacy \<Rightarrow> u32 list" where
  "NotifyContactsOfStatus p ks L =
     filter (\<lambda>uin. case l_sessions L uin of
         None \<Rightarrow> False
       | Some q \<Rightarrow> uin \<noteq> ls_UIN (l_heap L p) \<and> IsContact (l_heap L q) (ls_UIN (l_heap L p)) \<and> isVisibleTo (l_heap L p) uin) ks"

text \<open>\<open>LegacyServer.SendPacket\<close> and \<open>SendToSession\<close>: false where the code returns an error.\<close>

definition SendPacket :: "('i, 'w) LegacyHooks \<Rightarrow> UDPAddr \<Rightarrow> bytes \<Rightarrow> ('i, 'w) Legacy \<Rightarrow> bool \<times> ('i, 'w) Legacy" where
  "SendPacket K addr packet L =
     (if link_ok K addr packet (l_outside L) then (True, L\<lparr>l_sent := l_sent L @ [(addr, packet)]\<rparr>) else (False, L))"

definition SendToSession :: "('i, 'w) LegacyHooks \<Rightarrow> nat \<Rightarrow> bytes \<Rightarrow> ('i, 'w) Legacy \<Rightarrow> bool \<times> ('i, 'w) Legacy" where
  "SendToSession K p packet L =
     (case ls_Addr (l_heap L p) of None \<Rightarrow> (False, L) | Some addr \<Rightarrow> SendPacket K addr packet L)"

section \<open>The two indexes\<close>

text \<open>
  A session stands under its own UIN, and one that is found by an address is the session of its UIN and has that address.
\<close>

definition index_ok :: "('i, 'w) LegacyHooks \<Rightarrow> ('i, 'w) Legacy \<Rightarrow> bool" where
  "index_ok K L \<longleftrightarrow>
     (\<forall>uin p. l_sessions L uin = Some p \<longrightarrow> p < l_next L \<and> ls_UIN (l_heap L p) = uin) \<and>
     (\<forall>a p. l_addrIndex L a = Some p \<longrightarrow>
        l_sessions L (ls_UIN (l_heap L p)) = Some p \<and> map_option (addr_key K) (ls_Addr (l_heap L p)) = Some a)"

lemma legacy_frames [simp]:
  "l_heap (out_upd f L) = l_heap L" "l_next (out_upd f L) = l_next L" "l_sessions (out_upd f L) = l_sessions L"
  "l_addrIndex (out_upd f L) = l_addrIndex L" "l_outside (out_upd f L) = f (l_outside L)"
  "l_next (upd_ls p g L) = l_next L" "l_sessions (upd_ls p g L) = l_sessions L" "l_addrIndex (upd_ls p g L) = l_addrIndex L"
  "l_outside (upd_ls p g L) = l_outside L" "l_heap (upd_ls p g L) = (l_heap L)(p := g (l_heap L p))"
  by (simp_all add: out_upd_def upd_ls_def)

lemma index_okD:
  assumes "index_ok K L"
  shows "l_sessions L uin = Some p \<Longrightarrow> p < l_next L \<and> ls_UIN (l_heap L p) = uin"
    and "l_addrIndex L a = Some p \<Longrightarrow>
      l_sessions L (ls_UIN (l_heap L p)) = Some p \<and> map_option (addr_key K) (ls_Addr (l_heap L p)) = Some a"
  using assms unfolding index_ok_def by blast+

lemma index_ok_out [simp]: "index_ok K (out_upd f L) = index_ok K L"
  by (simp add: index_ok_def)

lemma removeSessionLocked_frame [simp]:
  "l_heap (removeSessionLocked K p L) = l_heap L" "l_next (removeSessionLocked K p L) = l_next L"
  "l_sessions (removeSessionLocked K p L) = (l_sessions L)(ls_UIN (l_heap L p) := None)"
  by (simp_all add: removeSessionLocked_def Let_def split: option.splits)

lemma removeSessionLocked_addr:
  "l_addrIndex (removeSessionLocked K p L) =
     (case ls_Addr (l_heap L p) of Some a \<Rightarrow> (l_addrIndex L)(addr_key K a := None) | None \<Rightarrow> l_addrIndex L)"
  by (simp add: removeSessionLocked_def Let_def split: option.splits)

text \<open>Removing a registered session takes it out of both indexes.\<close>

lemma index_ok_remove:
  assumes ok: "index_ok K L" and p: "l_sessions L (ls_UIN (l_heap L p)) = Some p"
  shows "index_ok K (removeSessionLocked K p L)"
  unfolding index_ok_def
proof (intro conjI allI impI)
  fix uin q assume "l_sessions (removeSessionLocked K p L) uin = Some q"
  then show "q < l_next (removeSessionLocked K p L)" "ls_UIN (l_heap (removeSessionLocked K p L) q) = uin"
    using index_okD(1) [OF ok] by (auto split: if_splits)
next
  fix a q assume "l_addrIndex (removeSessionLocked K p L) a = Some q"
  then have q: "l_addrIndex L a = Some q" and old: "map_option (addr_key K) (ls_Addr (l_heap L p)) \<noteq> Some a"
    by (auto simp: removeSessionLocked_addr split: option.splits if_splits)
  have "q \<noteq> p" using old index_okD(2) [OF ok q] by auto
  then show "l_sessions (removeSessionLocked K p L) (ls_UIN (l_heap (removeSessionLocked K p L) q)) = Some q"
    and "map_option (addr_key K) (ls_Addr (l_heap (removeSessionLocked K p L) q)) = Some a"
    using index_okD(2) [OF ok q] p by auto
qed

lemma index_ok_remove_existing: "index_ok K L \<Longrightarrow> index_ok K (remove_existing K uin L)"
  by (auto simp: remove_existing_def split: option.splits intro: index_ok_remove dest: index_okD(1))

lemma remove_existing_frame [simp]:
  "l_heap (remove_existing K uin L) = l_heap L" "l_next (remove_existing K uin L) = l_next L"
  by (simp_all add: remove_existing_def split: option.splits)

lemma remove_existing_gone: "index_ok K L \<Longrightarrow> l_sessions (remove_existing K uin L) uin = None"
  by (auto simp: remove_existing_def split: option.splits dest: index_okD(1))

lemma activate_frame [simp]:
  "l_heap (activateSessionLocked K p L) = l_heap L" "l_next (activateSessionLocked K p L) = l_next L"
  "l_sessions (activateSessionLocked K p L) = l_sessions L" "l_addrIndex (activateSessionLocked K p L) = l_addrIndex L"
  by (simp_all add: activateSessionLocked_def split: option.splits)

lemma index_ok_cong:
  assumes "l_heap M = l_heap L" "l_next M = l_next L" "l_sessions M = l_sessions L" "l_addrIndex M = l_addrIndex L"
  shows "index_ok K M = index_ok K L"
  using assms by (simp add: index_ok_def)

text \<open>A new session under a free UIN.\<close>

lemma index_ok_put_new:
  assumes ok: "index_ok K L" and free: "l_sessions L uin = None" and s: "ls_UIN s = uin" "ls_Addr s = Some addr"
  shows "index_ok K (put_session K uin addr (l_next L) (alloc_session s L))"
  unfolding index_ok_def
proof (intro conjI allI impI)
  fix u q assume "l_sessions (put_session K uin addr (l_next L) (alloc_session s L)) u = Some q"
  then show "q < l_next (put_session K uin addr (l_next L) (alloc_session s L))"
    and "ls_UIN (l_heap (put_session K uin addr (l_next L) (alloc_session s L)) q) = u"
    using index_okD(1) [OF ok, of u q] s by (auto simp: put_session_def alloc_session_def split: if_splits)
next
  fix a q assume a: "l_addrIndex (put_session K uin addr (l_next L) (alloc_session s L)) a = Some q"
  have old: "l_addrIndex L a = Some q \<Longrightarrow> q \<noteq> l_next L \<and> ls_UIN (l_heap L q) \<noteq> uin"
    using index_okD [OF ok] free by (metis nat_neq_iff option.distinct(1))
  show "l_sessions (put_session K uin addr (l_next L) (alloc_session s L))
        (ls_UIN (l_heap (put_session K uin addr (l_next L) (alloc_session s L)) q)) = Some q"
    and "map_option (addr_key K) (ls_Addr (l_heap (put_session K uin addr (l_next L) (alloc_session s L)) q)) = Some a"
    using a old index_okD(2) [OF ok, of a q] s by (auto simp: put_session_def alloc_session_def split: if_splits)
qed

lemma index_ok_move:
  assumes ok: "index_ok K L" and p: "l_sessions L uin = Some p"
  shows "index_ok K (move_addr K p addr L)"
proof -
  have uin: "ls_UIN (l_heap L p) = uin" using index_okD(1) [OF ok p] by simp
  have heap: "ls_UIN (l_heap (move_addr K p addr L) q) = ls_UIN (l_heap L q)" for q
    by (simp add: move_addr_def unhook_addr_def Let_def split: option.splits)
  have adr: "ls_Addr (l_heap (move_addr K p addr L) q) = (if q = p then Some addr else ls_Addr (l_heap L q))" for q
    by (simp add: move_addr_def unhook_addr_def Let_def split: option.splits)
  have frame: "l_sessions (move_addr K p addr L) = l_sessions L" "l_next (move_addr K p addr L) = l_next L"
    by (simp_all add: move_addr_def unhook_addr_def Let_def split: option.splits)
  have idx: "l_addrIndex (move_addr K p addr L) a = Some q \<Longrightarrow> a = addr_key K addr \<and> q = p \<or>
      l_addrIndex L a = Some q \<and> map_option (addr_key K) (ls_Addr (l_heap L p)) \<noteq> Some a" for a q
    by (auto simp: move_addr_def unhook_addr_def Let_def split: option.splits if_splits)
  show ?thesis
    unfolding index_ok_def
  proof (intro conjI allI impI)
    fix u q assume "l_sessions (move_addr K p addr L) u = Some q"
    then show "q < l_next (move_addr K p addr L)" "ls_UIN (l_heap (move_addr K p addr L) q) = u"
      using index_okD(1) [OF ok] by (simp_all add: frame heap)
  next
    fix a q assume a: "l_addrIndex (move_addr K p addr L) a = Some q"
    show "l_sessions (move_addr K p addr L) (ls_UIN (l_heap (move_addr K p addr L) q)) = Some q"
      and "map_option (addr_key K) (ls_Addr (l_heap (move_addr K p addr L) q)) = Some a"
      using idx [OF a] index_okD(2) [OF ok, of a q] p uin by (auto simp: frame heap adr)
  qed
qed

lemma index_ok_CreateSession: "index_ok K L \<Longrightarrow> index_ok K (snd (CreateSession K uin addr version i sid t L))"
  using index_ok_put_new [where K = K and L = "remove_existing K uin L" and uin = uin and addr = addr
      and s = "newLegacySession uin addr version i sid t"] index_ok_remove_existing [of K L uin] remove_existing_gone [of K L uin]
  by (auto simp: CreateSession_def Let_def newLegacySession_def index_ok_def put_session_def)

lemma index_ok_CreatePending: "index_ok K L \<Longrightarrow> index_ok K (snd (CreatePendingSession K uin addr version sid t L))"
  using index_ok_put_new [where K = K and L = "remove_existing K uin L" and uin = uin and addr = addr
      and s = "newLegacySession uin addr version None sid t"] index_ok_remove_existing [of K L uin] remove_existing_gone [of K L uin]
  by (auto simp: CreatePendingSession_def Let_def newLegacySession_def)

lemma index_ok_quiet:
  assumes "index_ok K L" "\<And>s. ls_UIN (f s) = ls_UIN s \<and> ls_Addr (f s) = ls_Addr s"
  shows "index_ok K (upd_ls p f L)"
  using assms by (simp add: index_ok_def)

lemma index_ok_Attach:
  assumes "index_ok K L"
  shows "index_ok K (snd (AttachOSCARSession K uin addr i L))"
proof (cases "l_sessions L uin")
  case (Some p)
  have "index_ok K (upd_ls p (\<lambda>s. s\<lparr>ls_Instance := i\<rparr>) (move_addr K p addr L))"
    by (rule index_ok_quiet) (auto intro: index_ok_move [OF assms Some])
  then show ?thesis using assms Some by (simp add: AttachOSCARSession_def index_ok_def)
qed (simp add: AttachOSCARSession_def assms)

lemma index_ok_UpdateAddr: "index_ok K L \<Longrightarrow> index_ok K (UpdateSessionAddr K uin addr L)"
  by (simp add: UpdateSessionAddr_def index_ok_move split: option.splits)

text \<open>
  What the manager is asked to do, by the handlers of all versions and the rest of the program: the two indexes are
  written in \<open>session.go\<close> only, each time under the lock. \<open>Touch\<close> is any change a handler makes to a session but for its
  UIN and address, and \<open>Sweep\<close> the second half of \<open>CleanupExpired\<close>, for sessions that were found at any earlier time
  (the first half changes nothing).
\<close>

datatype 'i legacy_op =
    Create u32 UDPAddr u16 "'i option" u32 int
  | Pending u32 UDPAddr u16 u32 int
  | Attach u32 UDPAddr "'i option"
  | Drop u32
  | Move u32 UDPAddr
  | Touch nat "'i LegacySession \<Rightarrow> 'i LegacySession"
  | Sweep "nat list"

fun legacy_step :: "('i, 'w) LegacyHooks \<Rightarrow> 'i legacy_op \<Rightarrow> ('i, 'w) Legacy \<Rightarrow> ('i, 'w) Legacy" where
  "legacy_step K (Create uin addr version i sid t) L = snd (CreateSession K uin addr version i sid t L)"
| "legacy_step K (Pending uin addr version sid t) L = snd (CreatePendingSession K uin addr version sid t L)"
| "legacy_step K (Attach uin addr i) L = snd (AttachOSCARSession K uin addr i L)"
| "legacy_step K (Drop uin) L = RemoveLegacySession K uin L"
| "legacy_step K (Move uin addr) L = UpdateSessionAddr K uin addr L"
| "legacy_step K (Touch p f) L = upd_ls p (\<lambda>s. (f s)\<lparr>ls_UIN := ls_UIN s, ls_Addr := ls_Addr s\<rparr>) L"
| "legacy_step K (Sweep ps) L = snd (remove_expired K ps L)"

definition no_sessions :: "(nat \<Rightarrow> 'i LegacySession) \<Rightarrow> 'w \<Rightarrow> ('i, 'w) Legacy" where
  "no_sessions h w = \<lparr>l_heap = h, l_next = 0, l_sessions = Map.empty, l_addrIndex = Map.empty, l_sent = [],
     l_outside = w\<rparr>"

definition legacy_run :: "('i, 'w) LegacyHooks \<Rightarrow> 'i legacy_op list \<Rightarrow> (nat \<Rightarrow> 'i LegacySession) \<Rightarrow> 'w \<Rightarrow> ('i, 'w) Legacy" where
  "legacy_run K ops h w = fold (legacy_step K) ops (no_sessions h w)"

text \<open>The clean-up removes whom it found, when nobody comes or goes in between.\<close>

lemma remove_expired_Cons:
  "remove_expired K (p # ps) L =
     (if l_sessions L (ls_UIN (l_heap L p)) \<noteq> None
      then map_prod Suc id (remove_expired K ps (removeSessionLocked K p L)) else remove_expired K ps L)"
proof -
  let ?f = "\<lambda>(removed, M) p. if l_sessions M (ls_UIN (l_heap M p)) \<noteq> None
      then (Suc removed, removeSessionLocked K p M) else (removed, M)"
  have "foldl ?f (Suc n, M) qs = map_prod Suc id (foldl ?f (n, M) qs)" for n M qs
    by (induction qs arbitrary: n M) auto
  then show ?thesis by (simp add: remove_expired_def)
qed

lemma index_ok_remove_expired:
  assumes "index_ok K L" "\<And>p. p \<in> set ps \<Longrightarrow> l_sessions L (ls_UIN (l_heap L p)) \<in> {None, Some p}"
  shows "index_ok K (snd (remove_expired K ps L))"
  using assms
proof (induction ps arbitrary: L)
  case Nil
  then show ?case by (simp add: remove_expired_def)
next
  case (Cons p ps)
  show ?case
  proof (cases "l_sessions L (ls_UIN (l_heap L p))")
    case None
    then show ?thesis using Cons by (simp add: remove_expired_Cons)
  next
    case (Some q)
    then have "q = p" using Cons.prems(2) [of p] by auto
    then have "index_ok K (removeSessionLocked K p L)" using index_ok_remove Cons.prems(1) Some by blast
    then show ?thesis using Cons.IH [of "removeSessionLocked K p L"] Cons.prems(2) Some
      by (auto simp: remove_expired_Cons)
  qed
qed

lemma expired_registered: "index_ok K L \<Longrightarrow> p \<in> set (expired_sessions timeout t ks L) \<Longrightarrow> l_sessions L (ls_UIN (l_heap L p)) = Some p"
  by (auto simp: expired_sessions_def List.map_filter_def dest: index_okD(1))

text \<open>
  No sweep meets a session that has taken the place of one that was found expired: nobody signs on again between the
  halves of a clean-up that found them idle.
\<close>

fun no_newcomer_swept :: "('i, 'w) LegacyHooks \<Rightarrow> 'i legacy_op list \<Rightarrow> ('i, 'w) Legacy \<Rightarrow> bool" where
  "no_newcomer_swept K [] L = True"
| "no_newcomer_swept K (op # ops) L =
     ((case op of Sweep ps \<Rightarrow> list_all (\<lambda>p. l_sessions L (ls_UIN (l_heap L p)) \<in> {None, Some p}) ps | _ \<Rightarrow> True) \<and>
      no_newcomer_swept K ops (legacy_step K op L))"

lemma clean_up_undisturbed:
  "index_ok K L \<Longrightarrow> no_newcomer_swept K [Sweep (expired_sessions timeout t ks L)] L"
  by (auto simp: list_all_iff dest: expired_registered)

lemma index_ok_step:
  assumes "index_ok K L" "no_newcomer_swept K [op] L"
  shows "index_ok K (legacy_step K op L)"
proof (cases op)
  case (Touch p f)
  then show ?thesis using assms(1) by (simp add: index_ok_quiet del: legacy_frames)
next
  case (Sweep ps)
  then show ?thesis using assms by (auto simp: list_all_iff intro!: index_ok_remove_expired)
qed (use assms(1) in \<open>simp_all add: index_ok_CreateSession index_ok_CreatePending index_ok_Attach RemoveLegacySession_def
    index_ok_remove_existing index_ok_UpdateAddr\<close>)

lemma index_ok_run: "index_ok K L \<Longrightarrow> no_newcomer_swept K ops L \<Longrightarrow> index_ok K (fold (legacy_step K) ops L)"
proof (induction ops arbitrary: L)
  case (Cons op ops)
  then have "index_ok K (legacy_step K op L)" by (intro index_ok_step) auto
  then show ?case using Cons by simp
qed simp

lemma index_ok_empty: "index_ok K (no_sessions h w)"
  by (simp add: index_ok_def no_sessions_def)

text \<open>What no sweep can break: a session stands under its own UIN, and an address leads to a session that has it.\<close>

definition own_ok :: "('i, 'w) LegacyHooks \<Rightarrow> ('i, 'w) Legacy \<Rightarrow> bool" where
  "own_ok K L \<longleftrightarrow>
     (\<forall>uin p. l_sessions L uin = Some p \<longrightarrow> p < l_next L \<and> ls_UIN (l_heap L p) = uin) \<and>
     (\<forall>a p. l_addrIndex L a = Some p \<longrightarrow>
        p < l_next L \<and> map_option (addr_key K) (ls_Addr (l_heap L p)) = Some a)"

lemma own_ok_out [simp]: "own_ok K (out_upd f L) = own_ok K L"
  by (simp add: own_ok_def)

lemma own_ok_activate [simp]: "own_ok K (activateSessionLocked K p L) = own_ok K L"
  by (simp add: own_ok_def)

lemma own_ok_remove: "own_ok K L \<Longrightarrow> own_ok K (removeSessionLocked K p L)"
  unfolding own_ok_def by (auto simp: removeSessionLocked_addr split: option.splits if_splits)

lemma own_ok_remove_existing: "own_ok K L \<Longrightarrow> own_ok K (remove_existing K uin L)"
  by (simp add: remove_existing_def own_ok_remove split: option.split)

lemma own_ok_put_new:
  assumes "own_ok K L" "ls_UIN s = uin" "ls_Addr s = Some addr"
  shows "own_ok K (put_session K uin addr (l_next L) (alloc_session s L))"
  using assms unfolding own_ok_def by (fastforce simp: put_session_def alloc_session_def split: if_splits)

lemma own_ok_move:
  assumes ok: "own_ok K L" and p: "l_sessions L uin = Some p"
  shows "own_ok K (move_addr K p addr L)"
proof -
  have "p < l_next L" using ok p by (simp add: own_ok_def)
  moreover have "map_option (addr_key K) (ls_Addr (l_heap L p)) = Some a" if "l_addrIndex L a = Some p" for a
    using ok that unfolding own_ok_def by blast
  ultimately show ?thesis
    using ok unfolding own_ok_def
    by (fastforce simp: move_addr_def unhook_addr_def Let_def split: option.splits if_splits)
qed

lemma own_ok_quiet:
  assumes "own_ok K L" "\<And>s. ls_UIN (f s) = ls_UIN s \<and> ls_Addr (f s) = ls_Addr s"
  shows "own_ok K (upd_ls p f L)"
  using assms by (simp add: own_ok_def)

lemma own_ok_sweep: "own_ok K L \<Longrightarrow> own_ok K (snd (remove_expired K ps L))"
proof (induction ps arbitrary: L)
  case Nil
  then show ?case by (simp add: remove_expired_def)
next
  case (Cons p ps)
  then show ?case by (simp add: remove_expired_Cons own_ok_remove)
qed

lemma own_ok_step:
  assumes ok: "own_ok K L"
  shows "own_ok K (legacy_step K op L)"
proof (cases op)
  case (Create uin addr version i sid t)
  then show ?thesis
    using own_ok_put_new [OF own_ok_remove_existing [OF ok, of uin], of "newLegacySession uin addr version i sid t" uin addr] ok
    by (auto simp: CreateSession_def Let_def newLegacySession_def own_ok_def put_session_def)
next
  case (Pending uin addr version sid t)
  then show ?thesis
    using own_ok_put_new [OF own_ok_remove_existing [OF ok, of uin], of "newLegacySession uin addr version None sid t" uin addr]
    by (simp add: CreatePendingSession_def Let_def newLegacySession_def)
next
  case (Attach uin addr i)
  show ?thesis
  proof (cases "l_sessions L uin")
    case (Some p)
    have "own_ok K (upd_ls p (\<lambda>s. s\<lparr>ls_Instance := i\<rparr>) (move_addr K p addr L))"
      by (rule own_ok_quiet) (auto intro: own_ok_move [OF ok Some])
    then show ?thesis using ok Some Attach by (simp add: AttachOSCARSession_def)
  qed (simp add: Attach AttachOSCARSession_def ok)
next
  case (Touch p f)
  then show ?thesis using ok by (simp add: own_ok_quiet del: legacy_frames)
qed (use ok in \<open>auto simp: RemoveLegacySession_def UpdateSessionAddr_def own_ok_remove_existing own_ok_sweep
    split: option.split intro: own_ok_move\<close>)

lemma own_ok_run: "own_ok K (legacy_run K ops h w)"
proof -
  have "own_ok K L \<Longrightarrow> own_ok K (fold (legacy_step K) ops L)" for L
    by (induction ops arbitrary: L) (simp_all add: own_ok_step)
  moreover have "own_ok K (no_sessions h w)" by (simp add: own_ok_def no_sessions_def)
  ultimately show ?thesis by (simp add: legacy_run_def)
qed

subsection \<open>Two hazards\<close>

definition plain_hooks :: "('i, 'w) LegacyHooks" where
  "plain_hooks = \<lparr>addr_key = addr_IP, drop_session = \<lambda>_. id, signed_on = \<lambda>_. id, start_pump = \<lambda>_. id,
     link_ok = \<lambda>_ _ _. True\<rparr>"

definition home :: UDPAddr where "home = \<lparr>addr_IP = [10, 0, 0, 1], addr_Port = 4000, addr_Zone = []\<rparr>"
definition away :: UDPAddr where "away = \<lparr>addr_IP = [10, 0, 0, 2], addr_Port = 4000, addr_Zone = []\<rparr>"

text \<open>
  A client that signs on with a second UIN from one address is the session of that address; when the first UIN's session
  goes, the address is forgotten, and the second session stays with nobody finding it by address.
\<close>

lemma shared_address_lost:
  "let L = legacy_run plain_hooks [Create 100 home 5 (Some i) 0 0, Create 200 home 5 (Some j) 0 0, Drop 100] h w
   in GetSession 200 L = Some 1 \<and> ls_Addr (l_heap L 1) = Some home \<and> GetSessionByAddr plain_hooks home L = None"
  by (simp add: legacy_run_def CreateSession_def Let_def remove_existing_def removeSessionLocked_def no_sessions_def alloc_session_def
      put_session_def activateSessionLocked_def newLegacySession_def RemoveLegacySession_def GetSession_def GetSessionByAddr_def
      plain_hooks_def home_def out_upd_def)

text \<open>
  A client that signs on again while the clean-up runs the callbacks for its old session loses the new one: it is taken from
  the UINs, and its address leads to a session that is not registered. This is what \<open>no_newcomer_swept\<close> excludes.
\<close>

lemma cleanup_drops_newcomer:
  "let L = legacy_step plain_hooks (Create 100 home 5 (Some i) 0 0) (no_sessions h w);
       M = snd (CleanupExpired plain_hooks 60 100 [100] (legacy_step plain_hooks (Create 100 away 5 (Some j) 0 99)) L)
   in GetSession 100 M = None \<and> GetSessionByAddr plain_hooks away M = Some 1 \<and> ls_LastActivity (l_heap M 1) = 99"
  by (simp add: CleanupExpired_def expired_sessions_def remove_expired_def List.map_filter_def
      CreateSession_def Let_def remove_existing_def removeSessionLocked_def no_sessions_def alloc_session_def
      put_session_def activateSessionLocked_def newLegacySession_def GetSession_def GetSessionByAddr_def
      plain_hooks_def home_def away_def out_upd_def)

subsection \<open>The indexes agree\<close>

text \<open>
  C20: Whatever the handlers and the rest of the program do with the sessions of the gateway, in whatever order, the session
  found under a UIN has that UIN, and the session found for the address of a packet has that address: no packet is handled
  for a session that has moved away. And the session found by an address is the one registered for its UIN, so that no
  packet is handled for a session that has been replaced, provided that nobody whose session was found expired signs on
  again before the clean-up removes it (without this condition it is false: \<open>cleanup_drops_newcomer\<close>).
\<close>

theorem legacy_indexes_agree:
  "(GetSession uin (legacy_run K ops h w) = Some q \<longrightarrow> ls_UIN (l_heap (legacy_run K ops h w) q) = uin) \<and>
   (GetSessionByAddr K addr (legacy_run K ops h w) = Some p \<longrightarrow>
      map_option (addr_key K) (ls_Addr (l_heap (legacy_run K ops h w) p)) = Some (addr_key K addr) \<and>
      (no_newcomer_swept K ops (no_sessions h w) \<longrightarrow>
         GetSession (ls_UIN (l_heap (legacy_run K ops h w) p)) (legacy_run K ops h w) = Some p))"
proof -
  have "l_sessions (legacy_run K ops h w) (ls_UIN (l_heap (legacy_run K ops h w) p)) = Some p"
    if "no_newcomer_swept K ops (no_sessions h w)" "l_addrIndex (legacy_run K ops h w) (addr_key K addr) = Some p"
  proof -
    have "index_ok K (legacy_run K ops h w)" unfolding legacy_run_def by (rule index_ok_run [OF index_ok_empty that(1)])
    from index_okD(2) [OF this that(2)] show ?thesis by simp
  qed
  then show ?thesis using own_ok_run [of K ops h w] by (simp add: own_ok_def GetSession_def GetSessionByAddr_def)
qed

definition sign_on_and_move :: "nat legacy_op list" where
  "sign_on_and_move = [Create 200 home 5 (Some 1) 0 0, Create 100 home 5 (Some 0) 0 50, Sweep [0], Move 100 away]"

lemma legacy_indexes_agree_witness:
  "\<forall>h w. GetSession (ls_UIN (l_heap (legacy_run plain_hooks sign_on_and_move h w) 1))
     (legacy_run plain_hooks sign_on_and_move h w) = Some 1"
proof (intro allI)
  fix h w
  note run = legacy_run_def sign_on_and_move_def CreateSession_def Let_def remove_existing_def no_sessions_def alloc_session_def
    put_session_def activateSessionLocked_def newLegacySession_def plain_hooks_def home_def away_def out_upd_def
    remove_expired_def removeSessionLocked_def UpdateSessionAddr_def move_addr_def unhook_addr_def upd_ls_def
  have "GetSessionByAddr plain_hooks away (legacy_run plain_hooks sign_on_and_move h w) = Some 1"
    by (simp add: run GetSessionByAddr_def)
  moreover have "no_newcomer_swept plain_hooks sign_on_and_move (no_sessions h w)"
    by (simp add: run)
  ultimately show "GetSession (ls_UIN (l_heap (legacy_run plain_hooks sign_on_and_move h w) 1))
     (legacy_run plain_hooks sign_on_and_move h w) = Some 1"
    using legacy_indexes_agree [of 0 plain_hooks sign_on_and_move h w 0 away 1] by simp
qed

section \<open>Status there and back\<close>

lemma flag_bits_simps [simp]:
  "flag_bits st [] out = out"
  "flag_bits st (f # fs) out = flag_bits st fs (if st AND fst f \<noteq> 0 then out OR snd f else out)"
  by (simp_all add: flag_bits_def)

definition oscar_word :: "u32 \<Rightarrow> bool \<Rightarrow> bool \<Rightarrow> bool \<Rightarrow> bool \<Rightarrow> u32" where
  "oscar_word b i w d c = b OR (if i then 0x100 else 0) OR (if w then 0x10000 else 0) OR (if d then 0x80000 else 0) OR
     (if c then 0x10000000 else 0)"

lemmas oscar_consts = OServiceUserStatusAvailable_def OServiceUserStatusAway_def OServiceUserStatusDND_def
  OServiceUserStatusBusy_def OServiceUserStatusOut_def OServiceUserStatusInvisible_def

lemma oscar_base_values: "oscar_base b \<in> {0, 1, 0x13, 0x05, 0x11, 0x20}"
  by (simp add: oscar_base_def legacysessions_consts oscar_consts)

lemma oscar_status_form:
  "\<exists>b i w d c. b \<in> {0, 1, 0x13, 0x05, 0x11, 0x20} \<and> mapLegacyStatusToOSCAR s = oscar_word b i w d c"
  using oscar_base_values [of "s AND 0xFF"]
  by (intro exI [of _ "oscar_base (s AND 0xFF)"] exI [of _ "s AND 0x100 \<noteq> 0"] exI [of _ "s AND 0x10000 \<noteq> 0"]
      exI [of _ "s AND 0x80000 \<noteq> 0"] exI [of _ "s AND 0x10000000 \<noteq> 0"])
    (simp add: mapLegacyStatusToOSCAR_def oscar_word_def legacysessions_consts oscar_consts or.assoc)

lemma oscar_word_stable:
  assumes "b \<in> {0, 1, 0x13, 0x05, 0x11, 0x20}"
  shows "mapLegacyStatusToOSCAR (mapOSCARStatusToLegacy (oscar_word b i w d c)) = oscar_word b i w d c"
proof -
  consider "b = 0" | "b = 1" | "b = 0x13" | "b = 0x05" | "b = 0x11" | "b = 0x20" using assms by auto
  then show ?thesis
    by cases (cases i; cases w; cases d; cases c;
        simp add: oscar_word_def mapLegacyStatusToOSCAR_def mapOSCARStatusToLegacy_def oscar_base_def legacy_base_def
          legacysessions_consts oscar_consts)+
qed

text \<open>A status that crosses to OSCAR keeps its meaning: shown to a legacy client and sent again, it is the same word.\<close>

lemma status_stable:
  "mapLegacyStatusToOSCAR (mapOSCARStatusToLegacy (mapLegacyStatusToOSCAR s)) = mapLegacyStatusToOSCAR s"
  using oscar_status_form oscar_word_stable by metis

end
