(* ===== verification/LegacyService.thy ===== *)
theory LegacyService
  imports LegacySessions Login Messaging UserInfo MessageText
begin

unbundle bit_operations_syntax

text \<open>
  The legacy ICQ service (\<open>server/icq_legacy/service.go\<close>): what the handlers of the legacy protocols ask of accounts,
  presence and messages. The OSCAR services and the store are interfaces there and fields of a record here, over the
  outer state of the session manager.
\<close>

definition ICBMTLVICQBlob :: u16 where "ICBMTLVICQBlob = 0x07"
definition ICQLegacyMsgText :: u16 where "ICQLegacyMsgText = 0x0001"

section \<open>What the service relies on\<close>

datatype user_answer = UserFound User | UserNil | UserUnknown | UserFailed
datatype login_answer = LoginBlock TLVList | LoginNoUser | LoginFailed

text \<open>Buddies are added for an instance, or for a session made up for a contact.\<close>

datatype 'i actor = OfInstance "'i option" | MadeUp u32

text \<open>
  \<open>oscar_status\<close> is the status in the user info of the session found for a name (zero if it has none), and \<open>register\<close> also
  names the UINs whose sessions end because the new one takes their place: their close callback removes the legacy
  session. \<open>to_host\<close> tells whether the answer says that the recipient is not logged on. \<open>listing\<close> is the order in which
  the map of sessions is gone through.
\<close>

record ('i, 'w) LegacyDeps =
  hooks :: "('i, 'w) LegacyHooks"
  listing :: "(u32 \<Rightarrow> nat option) \<Rightarrow> u32 list"
  flap_login :: "TLVList \<Rightarrow> 'w \<Rightarrow> login_answer \<times> 'w"
  crack :: "bytes \<Rightarrow> 'w \<Rightarrow> bytes option"
  register :: "bytes \<Rightarrow> 'w \<Rightarrow> ('i option option \<times> u32 list) \<times> 'w"
  user_by_name :: "bytes \<Rightarrow> 'w \<Rightarrow> user_answer"
  insert_user :: "User \<Rightarrow> 'w \<Rightarrow> bool \<times> 'w"
  delete_user :: "bytes \<Rightarrow> 'w \<Rightarrow> bool \<times> 'w"
  set_password :: "bytes \<Rightarrow> bytes \<Rightarrow> 'w \<Rightarrow> bool \<times> 'w"
  find_uin :: "u32 \<Rightarrow> 'w \<Rightarrow> User option"
  find_email :: "bytes \<Rightarrow> 'w \<Rightarrow> User option"
  find_name :: "bytes \<Rightarrow> bytes \<Rightarrow> bytes \<Rightarrow> 'w \<Rightarrow> User list option"
  set_basic :: "bytes \<Rightarrow> ICQBasicInfo \<Rightarrow> 'w \<Rightarrow> bool \<times> 'w"
  set_more :: "bytes \<Rightarrow> ICQMoreInfo \<Rightarrow> 'w \<Rightarrow> bool \<times> 'w"
  set_notes :: "bytes \<Rightarrow> ICQUserNotes \<Rightarrow> 'w \<Rightarrow> bool \<times> 'w"
  set_permissions :: "bytes \<Rightarrow> ICQPermissions \<Rightarrow> 'w \<Rightarrow> bool \<times> 'w"
  add_buddies :: "'i actor \<Rightarrow> bytes \<Rightarrow> 'w \<Rightarrow> 'w"
  oscar_status :: "bytes \<Rightarrow> 'w \<Rightarrow> u32 option"
  to_host :: "'i option \<Rightarrow> bytes \<Rightarrow> TLVList \<Rightarrow> 'w \<Rightarrow> bool \<times> 'w"
  stored_messages :: "bytes \<Rightarrow> 'w \<Rightarrow> OfflineMessage list option"
  delete_messages :: "bytes \<Rightarrow> 'w \<Rightarrow> bool \<times> 'w"
  status_bits :: "'i \<Rightarrow> u32 \<Rightarrow> 'w \<Rightarrow> 'w"
  set_flag :: "'i \<Rightarrow> u16 \<Rightarrow> 'w \<Rightarrow> 'w"
  clear_flag :: "'i \<Rightarrow> u16 \<Rightarrow> 'w \<Rightarrow> 'w"
  hidden_session :: "'i \<Rightarrow> 'w \<Rightarrow> bool"
  arrived_as :: "bytes \<Rightarrow> 'i \<Rightarrow> 'w \<Rightarrow> 'w"
  arrived_with :: "bytes \<Rightarrow> u16 \<Rightarrow> u32 \<Rightarrow> 'w \<Rightarrow> 'w"
  departed_as :: "bytes \<Rightarrow> 'w \<Rightarrow> 'w"
  list_registered :: "bytes \<Rightarrow> 'w \<Rightarrow> 'w"
  list_unregistered :: "bytes \<Rightarrow> 'w \<Rightarrow> 'w"

text \<open>The screen name of a UIN: decimal digits, which normalising leaves as they are.\<close>

definition uin_name :: "u32 \<Rightarrow> bytes" where
  "uin_name uin = decimal_string (unat uin)"

definition out_call :: "('w \<Rightarrow> 'a \<times> 'w) \<Rightarrow> ('i, 'w) Legacy \<Rightarrow> 'a \<times> ('i, 'w) Legacy" where
  "out_call f L = (case f (l_outside L) of (x, w) \<Rightarrow> (x, L\<lparr>l_outside := w\<rparr>))"

section \<open>Accounts\<close>

definition legacyFLAPLogin :: "('i, 'w) LegacyDeps \<Rightarrow> u32 \<Rightarrow> bytes \<Rightarrow> 'w \<Rightarrow> login_answer \<times> 'w" where
  "legacyFLAPLogin D uin password =
     flap_login D [\<lparr>Tag = LoginTLVTagsScreenName, Value = uin_name uin\<rparr>,
                   \<lparr>Tag = LoginTLVTagsPlaintextPassword, Value = password\<rparr>]"

text \<open>\<open>None\<close> stands for an error.\<close>

definition ValidateCredentials :: "('i, 'w) LegacyDeps \<Rightarrow> u32 \<Rightarrow> bytes \<Rightarrow> ('i, 'w) Legacy \<Rightarrow> bool option \<times> ('i, 'w) Legacy" where
  "ValidateCredentials D uin password L =
     (if uin = 0 then (Some False, L)
      else case out_call (legacyFLAPLogin D uin password) L of
        (LoginNoUser, L1) \<Rightarrow> (Some False, L1)
      | (LoginFailed, L1) \<Rightarrow> (None, L1)
      | (LoginBlock block, L1) \<Rightarrow> (Some (\<not> TLVList_HasTag LoginTLVTagsErrorSubcode block), L1))"

record 'i AuthResult =
  ar_Success :: bool
  ar_ErrorCode :: u16
  ar_Session :: "'i option"

definition auth_failed :: "u16 \<Rightarrow> 'i AuthResult" where
  "auth_failed code = \<lparr>ar_Success = False, ar_ErrorCode = code, ar_Session = None\<rparr>"

definition AuthenticateUser :: "('i, 'w) LegacyDeps \<Rightarrow> u32 \<Rightarrow> bytes \<Rightarrow> ('i, 'w) Legacy \<Rightarrow>
    ('i AuthResult option \<times> ('i, 'w) Legacy) outcome" where
  "AuthenticateUser D uin password L =
     (if uin = 0 then Ok (Some (auth_failed 0x0002), L)
      else case out_call (legacyFLAPLogin D uin password) L of
        (LoginNoUser, L1) \<Rightarrow> Ok (Some (auth_failed 0x0002), L1)
      | (LoginFailed, L1) \<Rightarrow> Ok (None, L1)
      | (LoginBlock block, L1) \<Rightarrow>
          bind_out (TLVList_Uint16BE LoginTLVTagsErrorSubcode block) (\<lambda>(errCode, refused).
          if refused then Ok (Some (auth_failed (if errCode = LoginErrICQUserErr then 0x0002 else 0x0001)), L1)
          else case TLVList_Bytes LoginTLVTagsAuthorizationCookie block of
            None \<Rightarrow> Ok (None, L1)
          | Some authCookie \<Rightarrow>
              (case crack D authCookie (l_outside L1) of
                 None \<Rightarrow> Ok (None, L1)
               | Some serverCookie \<Rightarrow>
                   (case out_call (register D serverCookie) L1 of
                      ((ans, replaced), L2) \<Rightarrow>
                        let L3 = fold (RemoveLegacySession (hooks D)) replaced L2 in
                        Ok (case ans of
                              None \<Rightarrow> (None, L3)
                            | Some None \<Rightarrow> (Some (auth_failed 0x0001), L3)
                            | Some (Some i) \<Rightarrow> (Some \<lparr>ar_Success = True, ar_ErrorCode = 0, ar_Session = Some i\<rparr>, L3))))))"

text \<open>
  UINs are tried from 100000 on; the fuel is the number of UINs below 999999999, so it never runs out before the loop
  ends.
\<close>

fun free_uin :: "(u32 \<Rightarrow> user_answer) \<Rightarrow> nat \<Rightarrow> u32 \<Rightarrow> u32 option" where
  "free_uin look 0 uin = None"
| "free_uin look (Suc n) uin =
     (if uin < 999999999
      then case look uin of UserUnknown \<Rightarrow> Some uin | UserFailed \<Rightarrow> None | UserNil \<Rightarrow> Some uin
           | UserFound u \<Rightarrow> free_uin look n (uin + 1)
      else None)"

definition generateNewUIN :: "('i, 'w) LegacyDeps \<Rightarrow> 'w \<Rightarrow> u32 option" where
  "generateNewUIN D w = free_uin (\<lambda>uin. user_by_name D (uin_name uin) w) (999999999 - 100000 + 1) 100000"

text \<open>\<open>uuid\<close> is the key drawn for the account.\<close>

definition new_legacy_user :: "digest \<Rightarrow> bytes \<Rightarrow> u32 \<Rightarrow> bytes \<Rightarrow> bytes \<Rightarrow> bytes \<Rightarrow> bytes \<Rightarrow> bytes \<Rightarrow> User" where
  "new_legacy_user digest uuid uin nickname firstName lastName email password =
     \<lparr>Ident = IdentScreenName (uin_name uin), Display = uin_name uin, AuthKey = uuid,
      StrongMD5Pass = StrongMD5PasswordHash digest password uuid, WeakMD5Pass = [], IsICQ = True, ConfirmStatus = False,
      RegStatus = 0, SuspendedStatus = 0, EmailAddress = [],
      Info = zero_ICQInfo\<lparr>Basic := zero_ICQBasicInfo\<lparr>basic_Nickname := nickname, basic_FirstName := firstName,
               basic_LastName := lastName, basic_EmailAddress := email\<rparr>\<rparr>,
      AIMDirectoryInfo = zero_AIMNameAndAddr, TOCConfig = [], IsBot = False, LastWarnUpdate = None, LastWarnLevel = 0,
      OfflineMsgCount = 0\<rparr>"

definition RegisterNewUser :: "('i, 'w) LegacyDeps \<Rightarrow> digest \<Rightarrow> bytes \<Rightarrow> bytes \<Rightarrow> bytes \<Rightarrow> bytes \<Rightarrow> bytes \<Rightarrow> bytes \<Rightarrow>
    ('i, 'w) Legacy \<Rightarrow> u32 option \<times> ('i, 'w) Legacy" where
  "RegisterNewUser D digest uuid nickname firstName lastName email password L =
     (case generateNewUIN D (l_outside L) of
        None \<Rightarrow> (None, L)
      | Some uin \<Rightarrow>
          (case out_call (insert_user D (new_legacy_user digest uuid uin nickname firstName lastName email password)) L of
             (ok, L1) \<Rightarrow> (if ok then Some uin else None, L1)))"

definition DeleteLegacyUser :: "('i, 'w) LegacyDeps \<Rightarrow> u32 \<Rightarrow> bytes \<Rightarrow> ('i, 'w) Legacy \<Rightarrow> bool \<times> ('i, 'w) Legacy" where
  "DeleteLegacyUser D uin password L =
     (case ValidateCredentials D uin password L of
        (Some True, L1) \<Rightarrow> out_call (delete_user D (uin_name uin)) L1
      | (_, L1) \<Rightarrow> (False, L1))"

definition SetLegacyPassword :: "('i, 'w) LegacyDeps \<Rightarrow> u32 \<Rightarrow> bytes \<Rightarrow> bytes \<Rightarrow> ('i, 'w) Legacy \<Rightarrow> bool \<times> ('i, 'w) Legacy" where
  "SetLegacyPassword D uin oldPassword newPassword L =
     (if oldPassword \<noteq> []
      then case ValidateCredentials D uin oldPassword L of
             (Some True, L1) \<Rightarrow> out_call (set_password D (uin_name uin) newPassword) L1
           | (_, L1) \<Rightarrow> (False, L1)
      else out_call (set_password D (uin_name uin) newPassword) L)"

definition GetFullUserInfo :: "('i, 'w) LegacyDeps \<Rightarrow> u32 \<Rightarrow> 'w \<Rightarrow> User option option" where
  "GetFullUserInfo D uin w =
     (case user_by_name D (uin_name uin) w of UserFound u \<Rightarrow> Some (Some u) | UserNil \<Rightarrow> Some None | _ \<Rightarrow> None)"

definition UpdateBasicInfo :: "('i, 'w) LegacyDeps \<Rightarrow> u32 \<Rightarrow> ICQBasicInfo \<Rightarrow> ('i, 'w) Legacy \<Rightarrow> bool \<times> ('i, 'w) Legacy" where
  "UpdateBasicInfo D uin info = out_call (set_basic D (uin_name uin) info)"

definition UpdateMoreInfo :: "('i, 'w) LegacyDeps \<Rightarrow> u32 \<Rightarrow> ICQMoreInfo \<Rightarrow> ('i, 'w) Legacy \<Rightarrow> bool \<times> ('i, 'w) Legacy" where
  "UpdateMoreInfo D uin info = out_call (set_more D (uin_name uin) info)"

definition SetNotes :: "('i, 'w) LegacyDeps \<Rightarrow> u32 \<Rightarrow> bytes \<Rightarrow> ('i, 'w) Legacy \<Rightarrow> bool \<times> ('i, 'w) Legacy" where
  "SetNotes D uin notes = out_call (set_notes D (uin_name uin) \<lparr>notes_Notes = notes\<rparr>)"

definition SetAuthMode :: "('i, 'w) LegacyDeps \<Rightarrow> u32 \<Rightarrow> bool \<Rightarrow> ('i, 'w) Legacy \<Rightarrow> bool \<times> ('i, 'w) Legacy" where
  "SetAuthMode D uin authRequired L =
     (case user_by_name D (uin_name uin) (l_outside L) of
        UserFound u \<Rightarrow> out_call (set_permissions D (uin_name uin) ((Permissions (Info u))\<lparr>perm_AuthRequired := authRequired\<rparr>)) L
      | _ \<Rightarrow> (False, L))"

section \<open>Looking people up\<close>

record LegacyUserSearchResult =
  sr_UIN :: u32
  sr_Nickname :: bytes
  sr_FirstName :: bytes
  sr_LastName :: bytes
  sr_Email :: bytes
  sr_Gender :: u8
  sr_Age :: u8
  sr_Status :: u32
  sr_Online :: bool
  sr_AuthRequired :: u8

definition no_result :: LegacyUserSearchResult where
  "no_result = \<lparr>sr_UIN = 0, sr_Nickname = [], sr_FirstName = [], sr_LastName = [], sr_Email = [], sr_Gender = 0, sr_Age = 0,
     sr_Status = 0, sr_Online = False, sr_AuthRequired = 0\<rparr>"

text \<open>\<open>today\<close> is the year and the day of the year.\<close>

definition userToSearchResult :: "('i, 'w) LegacyDeps \<Rightarrow> nat \<times> nat \<Rightarrow> User \<Rightarrow> 'w \<Rightarrow> LegacyUserSearchResult" where
  "userToSearchResult D today u w =
     (let b = Basic (Info u); name = screenName (Ident u) in
      no_result\<lparr>sr_UIN := UIN (Ident u), sr_Nickname := (if basic_Nickname b = [] then name else basic_Nickname b),
        sr_FirstName := basic_FirstName b, sr_LastName := basic_LastName b, sr_Email := basic_EmailAddress b,
        sr_Gender := ucast (Gender (More (Info u))), sr_Age := ucast (Age today u),
        sr_Online := oscar_status D name w \<noteq> None, sr_Status := ICQLegacyStatusOnline\<rparr>)"

definition GetUserInfo :: "('i, 'w) LegacyDeps \<Rightarrow> nat \<times> nat \<Rightarrow> u32 \<Rightarrow> 'w \<Rightarrow> LegacyUserSearchResult" where
  "GetUserInfo D today uin w =
     (case find_uin D uin w of
        Some u \<Rightarrow> userToSearchResult D today u w
      | None \<Rightarrow>
          (case user_by_name D (uin_name uin) w of
             UserFound u \<Rightarrow> let b = Basic (Info u) in
               no_result\<lparr>sr_UIN := uin, sr_Nickname := basic_Nickname b, sr_FirstName := basic_FirstName b,
                 sr_LastName := basic_LastName b, sr_Email := basic_EmailAddress b\<rparr>
           | _ \<Rightarrow> no_result\<lparr>sr_UIN := uin, sr_Nickname := uin_name uin\<rparr>))"

definition SearchByUIN :: "('i, 'w) LegacyDeps \<Rightarrow> nat \<times> nat \<Rightarrow> u32 \<Rightarrow> 'w \<Rightarrow> LegacyUserSearchResult option" where
  "SearchByUIN D today uin w = map_option (\<lambda>u. userToSearchResult D today u w) (find_uin D uin w)"

definition SearchByName :: "('i, 'w) LegacyDeps \<Rightarrow> nat \<times> nat \<Rightarrow> bytes \<Rightarrow> bytes \<Rightarrow> bytes \<Rightarrow> bytes \<Rightarrow> 'w \<Rightarrow>
    LegacyUserSearchResult list option" where
  "SearchByName D today nick firstName lastName email w =
     map_option (map (\<lambda>u. userToSearchResult D today u w))
       (if email \<noteq> [] then Some (case find_email D email w of Some u \<Rightarrow> [u] | None \<Rightarrow> [])
        else find_name D firstName lastName nick w)"

definition mergeUserResults :: "User list \<Rightarrow> User list \<Rightarrow> User list" where
  "mergeUserResults existing new =
     foldl (\<lambda>acc u. if Ident u \<in> Ident ` set acc then acc else acc @ [u]) existing new"

text \<open>Whether a target is online, and its status, as the user-add of version 2 asks.\<close>

definition online_status :: "('i, 'w) LegacyDeps \<Rightarrow> u32 \<Rightarrow> ('i, 'w) Legacy \<Rightarrow> u32 option" where
  "online_status D uin L =
     (if uin = 0 then None
      else case user_by_name D (uin_name uin) (l_outside L) of
        UserFound u \<Rightarrow>
          (case GetSession uin L of
             Some q \<Rightarrow> Some (ls_Status (l_heap L q))
           | None \<Rightarrow> map_option (\<lambda>_. ICQLegacyStatusOnline) (oscar_status D (uin_name uin) (l_outside L)))
      | _ \<Rightarrow> None)"

section \<open>Contacts\<close>

record ContactStatus =
  co_UIN :: u32
  co_Online :: bool
  co_Status :: u32

definition sync_contact :: "('i, 'w) LegacyDeps \<Rightarrow> 'i option \<Rightarrow> u32 \<Rightarrow> u32 \<Rightarrow> 'w \<Rightarrow> 'w" where
  "sync_contact D i owner contact w =
     (let w1 = add_buddies D (OfInstance i) (uin_name contact) w
      in case find_uin D contact w1 of
           Some u \<Rightarrow> if perm_AuthRequired (Permissions (Info u)) then w1 else add_buddies D (MadeUp contact) (uin_name owner) w1
         | None \<Rightarrow> add_buddies D (MadeUp contact) (uin_name owner) w1)"

definition legacy_shows :: "('i, 'w) Legacy \<Rightarrow> u32 \<Rightarrow> u32 \<Rightarrow> u32 option" where
  "legacy_shows L viewer contact =
     (case GetSession contact L of
        None \<Rightarrow> None
      | Some q \<Rightarrow> let st = ls_Status (l_heap L q) in
          if st AND ICQLegacyStatusInvisible \<noteq> 0 \<and> \<not> IsOnVisibleList (l_heap L q) viewer then None else Some st)"

definition contact_status :: "('i, 'w) LegacyDeps \<Rightarrow> u32 \<Rightarrow> ('i, 'w) Legacy \<Rightarrow> u32 \<Rightarrow> ContactStatus" where
  "contact_status D viewer L contact =
     (case legacy_shows L viewer contact of
        Some st \<Rightarrow> \<lparr>co_UIN = contact, co_Online = True, co_Status = st\<rparr>
      | None \<Rightarrow>
          (case oscar_status D (uin_name contact) (l_outside L) of
             Some st \<Rightarrow> \<lparr>co_UIN = contact, co_Online = True, co_Status = mapOSCARStatusToLegacy st\<rparr>
           | None \<Rightarrow> \<lparr>co_UIN = contact, co_Online = False, co_Status = 0\<rparr>))"

definition ProcessContactList :: "('i, 'w) LegacyDeps \<Rightarrow> 'i option \<Rightarrow> u32 \<Rightarrow> u32 list \<Rightarrow> ('i, 'w) Legacy \<Rightarrow>
    ContactStatus list \<times> ('i, 'w) Legacy" where
  "ProcessContactList D i uin contacts L =
     (if uin = 0 then ([], L)
      else let L1 = out_upd (fold (sync_contact D i uin) contacts) L in (map (contact_status D uin L1) contacts, L1))"

text \<open>The answer of \<open>ProcessUserAdd\<close>, which the handler of version 2 does not use: online, status, and whether to tell.\<close>

definition ProcessUserAdd :: "('i, 'w) LegacyDeps \<Rightarrow> 'i option \<Rightarrow> u32 \<Rightarrow> u32 \<Rightarrow> ('i, 'w) Legacy \<Rightarrow>
    (bool \<times> u32 \<times> bool) \<times> ('i, 'w) Legacy" where
  "ProcessUserAdd D i fromUIN targetUIN L =
     (if fromUIN = 0 \<or> targetUIN = 0 then ((False, 0, False), L)
      else let L1 = out_upd (add_buddies D (OfInstance i) (uin_name targetUIN)) L in
        case GetSession targetUIN L1 of
          Some q \<Rightarrow> ((True, ls_Status (l_heap L1 q), True), L1)
        | None \<Rightarrow> (((oscar_status D (uin_name targetUIN) (l_outside L1) \<noteq> None), ICQLegacyStatusOnline, False), L1))"

section \<open>Messages\<close>

record MessageResult =
  mr_Delivered :: bool
  mr_StoredOffline :: bool
  mr_TargetOnline :: bool

definition legacy_tlvs :: "u32 \<Rightarrow> u16 \<Rightarrow> bytes \<Rightarrow> TLVList outcome" where
  "legacy_tlvs fromUIN msgType message =
     collect_out [NewTLVLE ICBMTLVData (ICBMCh4Message_ty, VStruct [VU32 fromUIN, VU8 (ucast msgType), VU8 0, VString message]),
                  NewTLVBE ICBMTLVStore (TSlice TU8, vbytes [])]"

definition ProcessMessage :: "('i, 'w) LegacyDeps \<Rightarrow> 'i option \<Rightarrow> u32 \<Rightarrow> u32 \<Rightarrow> u16 \<Rightarrow> bytes \<Rightarrow> ('i, 'w) Legacy \<Rightarrow>
    (MessageResult \<times> ('i, 'w) Legacy) outcome" where
  "ProcessMessage D i fromUIN toUIN msgType message L =
     (if fromUIN = 0 \<or> toUIN = 0 then Ok (\<lparr>mr_Delivered = False, mr_StoredOffline = False, mr_TargetOnline = False\<rparr>, L)
      else case GetSession toUIN L of
        Some q \<Rightarrow> Ok (\<lparr>mr_Delivered = True, mr_StoredOffline = False, mr_TargetOnline = True\<rparr>, L)
      | None \<Rightarrow> bind_out (legacy_tlvs fromUIN msgType message) (\<lambda>tlvs.
          case out_call (to_host D i (uin_name toUIN) tlvs) L of (notLoggedOn, L1) \<Rightarrow>
            Ok (if notLoggedOn then \<lparr>mr_Delivered = False, mr_StoredOffline = True, mr_TargetOnline = False\<rparr>
                else \<lparr>mr_Delivered = True, mr_StoredOffline = False, mr_TargetOnline = True\<rparr>, L1)))"

record LegacyOfflineMessage =
  lo_FromUIN :: u32
  lo_ToUIN :: u32
  lo_MsgType :: u16
  lo_Message :: bytes
  lo_Timestamp :: int

definition legacy_message :: "u32 \<Rightarrow> OfflineMessage \<Rightarrow> LegacyOfflineMessage outcome" where
  "legacy_message uin m =
     (let l = cm_TLVList (om_Message m);
          m0 = \<lparr>lo_FromUIN = UIN (om_Sender m), lo_ToUIN = uin, lo_MsgType = 0, lo_Message = [], lo_Timestamp = om_Sent m\<rparr>
      in bind_out (case TLVList_Bytes ICBMTLVAOLIMData l of
             None \<Rightarrow> Ok m0
           | Some payload \<Rightarrow> bind_out (UnmarshalICBMMessageText payload) (\<lambda>t.
               Ok (case t of Inr txt \<Rightarrow> m0\<lparr>lo_Message := txt, lo_MsgType := ICQLegacyMsgText\<rparr> | Inl _ \<Rightarrow> m0))) (\<lambda>m1.
         Ok (case TLVList_Bytes ICBMTLVICQBlob l of
               Some blob \<Rightarrow> if 2 \<le> length blob then m1\<lparr>lo_MsgType := get16 0 blob\<rparr> else m1
             | None \<Rightarrow> m1)))"

definition GetOfflineMessages :: "('i, 'w) LegacyDeps \<Rightarrow> u32 \<Rightarrow> 'w \<Rightarrow> LegacyOfflineMessage list option outcome" where
  "GetOfflineMessages D uin w =
     (case stored_messages D (uin_name uin) w of
        None \<Rightarrow> Ok None
      | Some ms \<Rightarrow> bind_out (collect_out (map (legacy_message uin) ms)) (\<lambda>rs. Ok (Some rs)))"

definition AckOfflineMessages :: "('i, 'w) LegacyDeps \<Rightarrow> u32 \<Rightarrow> ('i, 'w) Legacy \<Rightarrow> bool \<times> ('i, 'w) Legacy" where
  "AckOfflineMessages D uin = out_call (delete_messages D (uin_name uin))"

section \<open>Presence\<close>

definition show_status :: "('i, 'w) LegacyDeps \<Rightarrow> 'i \<Rightarrow> u32 \<Rightarrow> 'w \<Rightarrow> 'w" where
  "show_status D i oscarStatus w =
     (let w1 = status_bits D i oscarStatus w in
      if oscarStatus \<noteq> OServiceUserStatusAvailable then set_flag D i OServiceUserFlagUnavailable w1
      else clear_flag D i OServiceUserFlagUnavailable w1)"

definition session_instance :: "u32 \<Rightarrow> ('i, 'w) Legacy \<Rightarrow> 'i option" where
  "session_instance uin L = (case GetSession uin L of Some q \<Rightarrow> ls_Instance (l_heap L q) | None \<Rightarrow> None)"

text \<open>
  The targets are those the handler itself tells. The broadcast to the OSCAR side is a call of a service (\<open>arrived_as\<close>,
  \<open>departed_as\<close>): through the bridge, which is not modelled, it comes back to legacy clients that have the user as a
  buddy, and neither of the two looks at the invisible list.
\<close>

definition ProcessStatusChange :: "('i, 'w) LegacyDeps \<Rightarrow> u32 \<Rightarrow> u32 \<Rightarrow> ('i, 'w) Legacy \<Rightarrow> u32 list \<times> ('i, 'w) Legacy" where
  "ProcessStatusChange D uin newStatus L =
     (if uin = 0 then ([], L)
      else let targets = (case GetSession uin L of Some p \<Rightarrow> NotifyContactsOfStatus p (listing D (l_sessions L)) L | None \<Rightarrow> []) in
        (targets,
         case session_instance uin L of
           None \<Rightarrow> L
         | Some i \<Rightarrow>
             let L1 = out_upd (show_status D i (mapLegacyStatusToOSCAR newStatus)) L in
             if hidden_session D i (l_outside L1) then out_upd (departed_as D (uin_name uin)) L1
             else out_upd (arrived_as D (uin_name uin) i) L1))"

definition NotifyStatusChange :: "('i, 'w) LegacyDeps \<Rightarrow> u32 \<Rightarrow> u32 \<Rightarrow> ('i, 'w) Legacy \<Rightarrow> ('i, 'w) Legacy" where
  "NotifyStatusChange D uin status L =
     (let oscarStatus = mapLegacyStatusToOSCAR status; invisible = (status AND ICQLegacyStatusInvisible \<noteq> 0) in
      case session_instance uin L of
        Some i \<Rightarrow> let L1 = out_upd (show_status D i oscarStatus) L in
          if invisible then out_upd (departed_as D (uin_name uin)) L1 else out_upd (arrived_as D (uin_name uin) i) L1
      | None \<Rightarrow>
          if invisible then out_upd (departed_as D (uin_name uin)) L
          else let flags = (OServiceUserFlagICQ OR OServiceUserFlagOSCARFree);
                   userFlags = (if oscarStatus \<noteq> OServiceUserStatusAvailable then flags OR OServiceUserFlagUnavailable else flags)
               in out_upd (arrived_with D (uin_name uin) userFlags oscarStatus) L)"

definition NotifyUserOnline :: "('i, 'w) LegacyDeps \<Rightarrow> u32 \<Rightarrow> u32 \<Rightarrow> ('i, 'w) Legacy \<Rightarrow> ('i, 'w) Legacy" where
  "NotifyUserOnline D uin status L =
     (let L1 = out_upd (list_registered D (uin_name uin)) L in
      case session_instance uin L1 of
        None \<Rightarrow> L1
      | Some i \<Rightarrow> let L2 = out_upd (show_status D i (mapLegacyStatusToOSCAR status)) L1 in
          if status AND ICQLegacyStatusInvisible \<noteq> 0 then L2 else out_upd (arrived_as D (uin_name uin) i) L2)"

definition NotifyUserOffline :: "('i, 'w) LegacyDeps \<Rightarrow> u32 \<Rightarrow> ('i, 'w) Legacy \<Rightarrow> ('i, 'w) Legacy" where
  "NotifyUserOffline D uin = out_upd (list_unregistered D (uin_name uin) \<circ> departed_as D (uin_name uin))"

end
