(* ===== verification/LegacyV2.thy ===== *)
theory LegacyV2
  imports LegacyService
begin

unbundle bit_operations_syntax

text \<open>
  The handlers of the legacy ICQ protocol in its versions 1 and 2 (\<open>server/icq_legacy/v2_handler.go\<close>,
  \<open>v1_handler.go\<close>, the helpers and the dispatcher of \<open>handler.go\<close>, the packet builders). A handler returns whether it
  ended without an error, and the changed state.
\<close>

section \<open>Environment\<close>

text \<open>What is said to a client of another version, which that version's handler puts into packets.\<close>

datatype notice =
    NoticeOnline u32 u32
  | NoticeOffline u32
  | NoticeStatus u32 u32
  | NoticeMessage u32 u16 bytes

text \<open>
  \<open>tell_newer\<close> and \<open>handle_newer\<close> are the handlers of versions 3 to 5. \<open>has_dispatcher\<close>: a dispatcher has been set.
  \<open>draw\<close> is the session ID drawn next, \<open>clock_of\<close> the calendar fields of a time, \<open>instant\<close> the current time, \<open>today\<close> its
  year and day of the year, \<open>uuid\<close> a fresh UUID.
\<close>

record ('i, 'w) LegacyEnv =
  deps :: "('i, 'w) LegacyDeps"
  supported :: "u16 \<Rightarrow> bool"
  has_dispatcher :: bool
  tell_newer :: "notice \<Rightarrow> nat \<Rightarrow> ('i, 'w) Legacy \<Rightarrow> bool \<times> ('i, 'w) Legacy"
  handle_newer :: "u16 \<Rightarrow> nat option \<Rightarrow> UDPAddr \<Rightarrow> bytes \<Rightarrow> ('i, 'w) Legacy \<Rightarrow> (bool \<times> ('i, 'w) Legacy) outcome"
  draw :: "'w \<Rightarrow> u32"
  clock_of :: "int \<Rightarrow> Clock"
  instant :: "'w \<Rightarrow> int"
  today :: "'w \<Rightarrow> nat \<times> nat"
  hash_md5 :: digest
  uuid :: "'w \<Rightarrow> bytes"

abbreviation hooks_of :: "('i, 'w) LegacyEnv \<Rightarrow> ('i, 'w) LegacyHooks" where
  "hooks_of E \<equiv> hooks (deps E)"

type_synonym ('i, 'w) handled = "(bool \<times> ('i, 'w) Legacy) outcome"

text \<open>An error ends the handler; \<open>whatever\<close> goes on regardless.\<close>

definition and_then :: "bool \<times> ('i, 'w) Legacy \<Rightarrow> (('i, 'w) Legacy \<Rightarrow> ('i, 'w) handled) \<Rightarrow> ('i, 'w) handled" where
  "and_then r k = (case r of (ok, L) \<Rightarrow> if ok then k L else Ok (False, L))"

definition seq_of :: "nat \<Rightarrow> (u16 \<Rightarrow> V2ServerPacket) \<Rightarrow> ('i, 'w) Legacy \<Rightarrow> V2ServerPacket \<times> ('i, 'w) Legacy" where
  "seq_of p build L = (case NextServerSeqNum p L of (sq, L1) \<Rightarrow> (build sq, L1))"

section \<open>Helpers\<close>

definition patchVersion :: "bytes \<Rightarrow> bytes" where
  "patchVersion pkt = (if 2 \<le> length pkt then put_at 0 (le16 ICQLegacyVersionV1) pkt else pkt)"

text \<open>The packet builder of version 2, or that of version 1 wrapped around it.\<close>

definition built :: "bool \<Rightarrow> V2ServerPacket \<Rightarrow> bytes" where
  "built v1 pkt = (if v1 then patchVersion (MarshalV2ServerPacket pkt) else MarshalV2ServerPacket pkt)"

definition truncateField :: "bytes \<Rightarrow> nat \<Rightarrow> bytes" where
  "truncateField value maxLen = (if length value \<le> maxLen then value else take maxLen value)"

definition send_as :: "('i, 'w) LegacyEnv \<Rightarrow> nat \<Rightarrow> (u16 \<Rightarrow> V2ServerPacket) \<Rightarrow> ('i, 'w) Legacy \<Rightarrow> bool \<times> ('i, 'w) Legacy" where
  "send_as E p build L =
     (case seq_of p build L of (pkt, L1) \<Rightarrow>
        SendToSession (hooks_of E) p (MarshalV2ServerPacket (pkt\<lparr>v2s_Version := ls_Version (l_heap L p)\<rparr>)) L1)"

definition sendAck :: "('i, 'w) LegacyEnv \<Rightarrow> nat \<Rightarrow> u16 \<Rightarrow> ('i, 'w) Legacy \<Rightarrow> bool \<times> ('i, 'w) Legacy" where
  "sendAck E p seqNum L =
     SendToSession (hooks_of E) p (MarshalV2ServerPacket ((BuildV2Ack seqNum)\<lparr>v2s_Version := ls_Version (l_heap L p)\<rparr>)) L"

definition sendBadPassword :: "('i, 'w) LegacyEnv \<Rightarrow> UDPAddr \<Rightarrow> u16 \<Rightarrow> u16 \<Rightarrow> ('i, 'w) Legacy \<Rightarrow> bool \<times> ('i, 'w) Legacy" where
  "sendBadPassword E addr seqNum version =
     SendPacket (hooks_of E) addr (MarshalV2ServerPacket ((BuildV2BadPassword seqNum)\<lparr>v2s_Version := version\<rparr>))"

definition sendUserOnline :: "('i, 'w) LegacyEnv \<Rightarrow> nat \<Rightarrow> u32 \<Rightarrow> u32 \<Rightarrow> bytes \<Rightarrow> u16 \<Rightarrow> ('i, 'w) Legacy \<Rightarrow> bool \<times> ('i, 'w) Legacy" where
  "sendUserOnline E p uin status ip port = send_as E p (\<lambda>sq. BuildV2UserOnline sq uin status ip port)"

definition sendUserOffline :: "('i, 'w) LegacyEnv \<Rightarrow> nat \<Rightarrow> u32 \<Rightarrow> ('i, 'w) Legacy \<Rightarrow> bool \<times> ('i, 'w) Legacy" where
  "sendUserOffline E p uin = send_as E p (\<lambda>sq. BuildV2UserOffline sq uin)"

definition sendStatusUpdate :: "('i, 'w) LegacyEnv \<Rightarrow> nat \<Rightarrow> u32 \<Rightarrow> u32 \<Rightarrow> ('i, 'w) Legacy \<Rightarrow> bool \<times> ('i, 'w) Legacy" where
  "sendStatusUpdate E p uin status = send_as E p (\<lambda>sq. BuildV2StatusUpdate sq uin status)"

definition sendMessage :: "('i, 'w) LegacyEnv \<Rightarrow> nat \<Rightarrow> u32 \<Rightarrow> u16 \<Rightarrow> bytes \<Rightarrow> ('i, 'w) Legacy \<Rightarrow> bool \<times> ('i, 'w) Legacy" where
  "sendMessage E p fromUIN msgType message = send_as E p (\<lambda>sq. BuildV2Message sq fromUIN msgType message)"

definition search_info :: "LegacyUserSearchResult \<Rightarrow> LegacyUserInfo" where
  "search_info user = no_info\<lparr>lu_UIN := sr_UIN user, lu_Nickname := truncateField (sr_Nickname user) 20,
     lu_FirstName := truncateField (sr_FirstName user) 64, lu_LastName := truncateField (sr_LastName user) 64,
     lu_Email := truncateField (sr_Email user) 64, lu_Auth := sr_AuthRequired user\<rparr>"

text \<open>The packet carries the client's number; the header gets the server's.\<close>

definition sendSearchResult :: "('i, 'w) LegacyEnv \<Rightarrow> nat \<Rightarrow> LegacyUserSearchResult \<Rightarrow> bool \<Rightarrow> u16 \<Rightarrow> ('i, 'w) Legacy \<Rightarrow> ('i, 'w) handled" where
  "sendSearchResult E p user isLast clientSubSeq L =
     and_then (if sr_UIN user \<noteq> 0
               then send_as E p (\<lambda>sq. (BuildV2SearchResult clientSubSeq (search_info user) False)\<lparr>v2s_SeqNum := sq\<rparr>) L
               else (True, L)) (\<lambda>L1.
     Ok (if isLast then send_as E p (\<lambda>sq. (BuildV2SearchResult clientSubSeq no_info True)\<lparr>v2s_SeqNum := sq\<rparr>) L1
         else (True, L1)))"

section \<open>Telling a client of any version\<close>

definition dispatch_notice :: "('i, 'w) LegacyEnv \<Rightarrow> notice \<Rightarrow> nat \<Rightarrow> ('i, 'w) Legacy \<Rightarrow> bool \<times> ('i, 'w) Legacy" where
  "dispatch_notice E n p L =
     (let v = ls_Version (l_heap L p) in
      if v = ICQLegacyVersionV1 \<or> v = ICQLegacyVersionV2
      then (case n of
          NoticeOnline uin status \<Rightarrow> sendUserOnline E p uin (downgradeStatusForV2 status) [] 0 L
        | NoticeOffline uin \<Rightarrow> sendUserOffline E p uin L
        | NoticeStatus uin status \<Rightarrow> sendStatusUpdate E p uin (downgradeStatusForV2 status) L
        | NoticeMessage uin t msg \<Rightarrow> sendMessage E p uin t msg L)
      else if v = ICQLegacyVersionV3 \<or> v = ICQLegacyVersionV4 \<or> v = ICQLegacyVersionV5 then tell_newer E n p L
      else (True, L))"

section \<open>Handlers of version 2\<close>

definition sendNotConnectedToAddr :: "('i, 'w) LegacyEnv \<Rightarrow> UDPAddr \<Rightarrow> u16 \<Rightarrow> ('i, 'w) Legacy \<Rightarrow> bool \<times> ('i, 'w) Legacy" where
  "sendNotConnectedToAddr E addr seqNum =
     SendPacket (hooks_of E) addr (MarshalV2ServerPacket (v2_packet ICQLegacySrvNotConnected seqNum []))"

definition loginSeqNum :: "bytes \<Rightarrow> u16" where
  "loginSeqNum data =
     (if 6 \<le> length data
      then let seqOffset = 4 + 2 + unat (get16 4 data) + 17 in if seqOffset + 2 \<le> length data then get16 seqOffset data else 0
      else 0)"

definition login_reply :: "('i, 'w) LegacyEnv \<Rightarrow> bool \<Rightarrow> nat \<Rightarrow> u16 \<Rightarrow> ('i, 'w) Legacy \<Rightarrow> bool \<times> ('i, 'w) Legacy" where
  "login_reply E v1 p clientConnectionID L =
     (let s = l_heap L p; ip = (case ls_Addr s of Some a \<Rightarrow> addr_IP a | None \<Rightarrow> []) in
      case seq_of p (\<lambda>sq. (BuildV2LoginReply sq clientConnectionID (ls_UIN s) ip)\<lparr>v2s_Version := ls_Version s\<rparr>) L of
        (pkt, L1) \<Rightarrow> SendToSession (hooks_of E) p (built v1 pkt) L1)"

definition bad_password :: "('i, 'w) LegacyEnv \<Rightarrow> bool \<Rightarrow> UDPAddr \<Rightarrow> u16 \<Rightarrow> u16 \<Rightarrow> ('i, 'w) Legacy \<Rightarrow> bool \<times> ('i, 'w) Legacy" where
  "bad_password E v1 addr seqNum version =
     SendPacket (hooks_of E) addr (built v1 ((BuildV2BadPassword seqNum)\<lparr>v2s_Version := version\<rparr>))"

definition ack_bytes :: "bool \<Rightarrow> u16 \<Rightarrow> u16 \<Rightarrow> bytes" where
  "ack_bytes v1 seqNum version = built v1 ((BuildV2Ack seqNum)\<lparr>v2s_Version := version\<rparr>)"

text \<open>A session for who has proved the password, its answer, and what the OSCAR side is told at the end.\<close>

definition sign_on :: "('i, 'w) LegacyEnv \<Rightarrow> bool \<Rightarrow> UDPAddr \<Rightarrow> u16 \<Rightarrow> u16 \<Rightarrow> u32 \<Rightarrow> bytes \<Rightarrow> u32 \<Rightarrow> u16 \<Rightarrow>
    (u32 \<Rightarrow> u32 \<Rightarrow> ('i, 'w) Legacy \<Rightarrow> ('i, 'w) Legacy) \<Rightarrow> ('i, 'w) Legacy \<Rightarrow> ('i, 'w) handled" where
  "sign_on E v1 addr seqNum version uin password status connID tell L =
     bind_out (AuthenticateUser (deps E) uin password L) (\<lambda>(r, L1).
       case r of
         None \<Rightarrow> Ok (bad_password E v1 addr seqNum version L1)
       | Some a \<Rightarrow>
           if \<not> ar_Success a then Ok (bad_password E v1 addr seqNum version L1)
           else case CreateSession (hooks_of E) uin addr version (ar_Session a) (draw E (l_outside L1)) (instant E (l_outside L1)) L1 of
               (None, L2) \<Rightarrow> Ok (bad_password E v1 addr seqNum version L2)
             | (Some p, L2) \<Rightarrow>
                 let L3 = upd_ls p (\<lambda>s. s\<lparr>ls_Status := status, ls_Password := password\<rparr>) L2 in
                 and_then (SendToSession (hooks_of E) p (ack_bytes v1 seqNum version) L3) (\<lambda>L4.
                 and_then (login_reply E v1 p connID L4) (\<lambda>L5.
                 Ok (True, tell uin status L5))))"

definition v2_handleLogin :: "('i, 'w) LegacyEnv \<Rightarrow> bool \<Rightarrow> UDPAddr \<Rightarrow> V2ClientPacket \<Rightarrow> ('i, 'w) Legacy \<Rightarrow> ('i, 'w) handled" where
  "v2_handleLogin E v1 addr pkt L =
     (case ParseV2LoginPacket (v2c_Data pkt) of
        None \<Rightarrow> Ok (bad_password E v1 addr (v2c_SeqNum pkt) (v2c_Version pkt) L)
      | Some loginData \<Rightarrow>
          sign_on E v1 addr (v2c_SeqNum pkt) (v2c_Version pkt) (v2c_UIN pkt) (lg_Password loginData) (lg_Status loginData)
            (loginSeqNum (v2c_Data pkt)) (\<lambda>uin status. NotifyUserOnline (deps E) uin status) L)"

definition v2_handleLogoff :: "('i, 'w) LegacyEnv \<Rightarrow> nat \<Rightarrow> ('i, 'w) Legacy \<Rightarrow> bool \<times> ('i, 'w) Legacy" where
  "v2_handleLogoff E p L =
     (let uin = ls_UIN (l_heap L p);
          L1 = BroadcastToContacts p (\<lambda>q M. snd (sendUserOffline E q uin M)) L
      in (True, RemoveLegacySession (hooks_of E) uin (NotifyUserOffline (deps E) uin L1)))"

definition v2_handleContactList :: "('i, 'w) LegacyEnv \<Rightarrow> bool \<Rightarrow> nat \<Rightarrow> V2ClientPacket \<Rightarrow> ('i, 'w) Legacy \<Rightarrow> ('i, 'w) handled" where
  "v2_handleContactList E v1 p pkt L =
     and_then (sendAck E p (v2c_SeqNum pkt) L) (\<lambda>L1.
       case ParseV2ContactList (v2c_Data pkt) of
         None \<Rightarrow> Ok (True, L1)
       | Some uins \<Rightarrow>
           let L2 = upd_ls p (\<lambda>s. s\<lparr>ls_ContactList := uins\<rparr>) L1; uin = ls_UIN (l_heap L2 p) in
           case ProcessContactList (deps E) (ls_Instance (l_heap L2 p)) uin uins L2 of
             (contacts, L3) \<Rightarrow>
               let L4 = fold (\<lambda>c M. case seq_of p (\<lambda>sq. BuildV2UserOnline sq (co_UIN c) (downgradeStatusForV2 (co_Status c)) [] 0) M of
                     (o_pkt, M1) \<Rightarrow> snd (SendToSession (hooks_of E) p (built v1 o_pkt) M1)) (filter co_Online contacts) L3
               in Ok (case seq_of p (\<lambda>sq. BuildV2ContactListDone sq uin) L4 of
                        (d_pkt, L5) \<Rightarrow> SendToSession (hooks_of E) p (built v1 d_pkt) L5))"

definition v2_deliver :: "('i, 'w) LegacyEnv \<Rightarrow> notice \<Rightarrow> (nat \<Rightarrow> ('i, 'w) Legacy \<Rightarrow> bool \<times> ('i, 'w) Legacy) \<Rightarrow> u32 \<Rightarrow>
    ('i, 'w) Legacy \<Rightarrow> ('i, 'w) Legacy" where
  "v2_deliver E n direct uin L =
     (case GetSession uin L of
        None \<Rightarrow> L
      | Some q \<Rightarrow> snd (if has_dispatcher E then dispatch_notice E n q L else direct q L))"

definition v2_handleSendMessage :: "('i, 'w) LegacyEnv \<Rightarrow> nat \<Rightarrow> V2ClientPacket \<Rightarrow> ('i, 'w) Legacy \<Rightarrow> ('i, 'w) handled" where
  "v2_handleSendMessage E p pkt L =
     and_then (sendAck E p (v2c_SeqNum pkt) L) (\<lambda>L1.
       case ParseV2Message (v2c_Data pkt) of
         None \<Rightarrow> Ok (True, L1)
       | Some msg \<Rightarrow>
           let from = ls_UIN (l_heap L1 p) in
           bind_out (ProcessMessage (deps E) (ls_Instance (l_heap L1 p)) from (lm_ToUIN msg) (lm_MsgType msg) (lm_Message msg) L1) (\<lambda>(r, L2).
           Ok (True, if mr_TargetOnline r
                     then v2_deliver E (NoticeMessage from (lm_MsgType msg) (lm_Message msg))
                            (\<lambda>q. sendMessage E q from (lm_MsgType msg) (lm_Message msg)) (lm_ToUIN msg) L2
                     else L2)))"

definition v2_handleSetStatus :: "('i, 'w) LegacyEnv \<Rightarrow> bool \<Rightarrow> nat \<Rightarrow> V2ClientPacket \<Rightarrow> ('i, 'w) Legacy \<Rightarrow> ('i, 'w) handled" where
  "v2_handleSetStatus E v1 p pkt L =
     and_then (sendAck E p (v2c_SeqNum pkt) L) (\<lambda>L1.
       if length (v2c_Data pkt) < 4 then Ok (True, L1)
       else let st = get32 0 (v2c_Data pkt);
                L2 = upd_ls p (\<lambda>s. s\<lparr>ls_Status := st\<rparr>) L1;
                uin = ls_UIN (l_heap L2 p) in
            case ProcessStatusChange (deps E) uin st L2 of
              (targets, L3) \<Rightarrow>
                Ok (True, fold (v2_deliver E (NoticeStatus uin st)
                    (\<lambda>q M. case seq_of q (\<lambda>sq. BuildV2StatusUpdate sq uin st) M of
                       (s_pkt, M1) \<Rightarrow> SendToSession (hooks_of E) q (built v1 s_pkt) M1)) targets L3))"

definition v2_handleInfoReq :: "('i, 'w) LegacyEnv \<Rightarrow> nat \<Rightarrow> V2ClientPacket \<Rightarrow> ('i, 'w) Legacy \<Rightarrow> ('i, 'w) handled" where
  "v2_handleInfoReq E p pkt L =
     and_then (sendAck E p (v2c_SeqNum pkt) L) (\<lambda>L1.
       if length (v2c_Data pkt) < 6 then Ok (True, L1)
       else let info = GetUserInfo (deps E) (today E (l_outside L1)) (get32 2 (v2c_Data pkt)) (l_outside L1)
            in Ok (send_as E p (\<lambda>sq. BuildV2InfoReply sq (get16 0 (v2c_Data pkt)) (search_info info)) L1))"

definition ext_info :: "nat \<times> nat \<Rightarrow> u32 \<Rightarrow> User \<Rightarrow> LegacyUserInfo" where
  "ext_info day uin u =
     (let b = Basic (Info u); m = More (Info u) in
      no_info\<lparr>lu_UIN := uin, lu_City := truncateField (basic_City b) 64, lu_State := truncateField (basic_State b) 64,
        lu_Country := basic_CountryCode b, lu_Phone := truncateField (basic_CellPhone b) 30,
        lu_Homepage := truncateField (HomePageAddr m) 127, lu_About := truncateField (notes_Notes (Notes (Info u))) 450,
        lu_Age := Age day u, lu_Gender := ucast (Gender m)\<rparr>)"

text \<open>A user that is neither found nor an error is a nil pointer, and reading its fields panics.\<close>

definition v2_handleExtInfoReq :: "('i, 'w) LegacyEnv \<Rightarrow> bool \<Rightarrow> nat option \<Rightarrow> UDPAddr \<Rightarrow> V2ClientPacket \<Rightarrow> ('i, 'w) Legacy \<Rightarrow> ('i, 'w) handled" where
  "v2_handleExtInfoReq E v1 session addr pkt L =
     (if length (v2c_Data pkt) < 6 then Ok (True, L)
      else let seqPrefix = get16 0 (v2c_Data pkt); uin = get32 2 (v2c_Data pkt) in
        and_then (case session of
              Some p \<Rightarrow> sendAck E p (v2c_SeqNum pkt) L
            | None \<Rightarrow> SendPacket (hooks_of E) addr (ack_bytes v1 (v2c_SeqNum pkt) (v2c_Version pkt)) L) (\<lambda>L1.
        case GetFullUserInfo (deps E) uin (l_outside L1) of
          None \<Rightarrow> Ok (True, L1)
        | Some None \<Rightarrow> Panic
        | Some (Some u) \<Rightarrow>
            let info = ext_info (today E (l_outside L1)) uin u in
            Ok (case session of
                  Some p \<Rightarrow> send_as E p (\<lambda>sq. BuildV2ExtInfoReply sq seqPrefix info) L1
                | None \<Rightarrow> SendPacket (hooks_of E) addr (MarshalV2ServerPacket (BuildV2ExtInfoReply seqPrefix seqPrefix info)) L1)))"

definition v2_handleSearchUIN :: "('i, 'w) LegacyEnv \<Rightarrow> nat \<Rightarrow> V2ClientPacket \<Rightarrow> ('i, 'w) Legacy \<Rightarrow> ('i, 'w) handled" where
  "v2_handleSearchUIN E p pkt L =
     and_then (sendAck E p (v2c_SeqNum pkt) L) (\<lambda>L1.
       if length (v2c_Data pkt) < 6 then sendSearchResult E p no_result True 0 L1
       else case SearchByUIN (deps E) (today E (l_outside L1)) (get32 2 (v2c_Data pkt)) (l_outside L1) of
              None \<Rightarrow> sendSearchResult E p no_result True (get16 0 (v2c_Data pkt)) L1
            | Some r \<Rightarrow> sendSearchResult E p r True (get16 0 (v2c_Data pkt)) L1)"

text \<open>A string that cannot be read is empty, and the reader goes on with what is left.\<close>

definition read_or_empty :: "bytes \<Rightarrow> bytes \<times> bytes" where
  "read_or_empty r = (case ParseLegacyString True r of (Ok s, r') \<Rightarrow> (s, r') | (_, r') \<Rightarrow> ([], r'))"

definition read_or_zero :: "nat \<Rightarrow> bytes \<Rightarrow> nat \<times> bytes" where
  "read_or_zero n r = (case read_uint LittleEndian n r of (Ok x, r') \<Rightarrow> (x, r') | (_, r') \<Rightarrow> (0, r'))"

fun send_results :: "('i, 'w) LegacyEnv \<Rightarrow> nat \<Rightarrow> u16 \<Rightarrow> LegacyUserSearchResult list \<Rightarrow> ('i, 'w) Legacy \<Rightarrow> ('i, 'w) handled" where
  "send_results E p sub [] L = Ok (True, L)"
| "send_results E p sub (r # rs) L =
     bind_out (sendSearchResult E p r (rs = []) sub L) (\<lambda>x. and_then x (send_results E p sub rs))"

definition v2_handleSearchUser :: "('i, 'w) LegacyEnv \<Rightarrow> nat \<Rightarrow> V2ClientPacket \<Rightarrow> ('i, 'w) Legacy \<Rightarrow> ('i, 'w) handled" where
  "v2_handleSearchUser E p pkt L =
     and_then (sendAck E p (v2c_SeqNum pkt) L) (\<lambda>L1.
       if length (v2c_Data pkt) < 4 then sendSearchResult E p no_result True 0 L1
       else let sub = get16 0 (v2c_Data pkt) in
         case read_or_empty (drop 2 (v2c_Data pkt)) of (nick, r1) \<Rightarrow>
         case read_or_empty r1 of (firstName, r2) \<Rightarrow>
         case read_or_empty r2 of (lastName, r3) \<Rightarrow>
         case read_or_empty r3 of (email, r4) \<Rightarrow>
         case SearchByName (deps E) (today E (l_outside L1)) nick firstName lastName email (l_outside L1) of
           None \<Rightarrow> sendSearchResult E p no_result True sub L1
         | Some results \<Rightarrow>
             if results = [] then sendSearchResult E p no_result True sub L1 else send_results E p sub results L1)"

definition zero_time :: int where "zero_time = - 62135596800 * 10 ^ 9"

definition v2_handleOfflineMsgReq :: "('i, 'w) LegacyEnv \<Rightarrow> nat \<Rightarrow> V2ClientPacket \<Rightarrow> ('i, 'w) Legacy \<Rightarrow> ('i, 'w) handled" where
  "v2_handleOfflineMsgReq E p pkt L =
     and_then (sendAck E p (v2c_SeqNum pkt) L) (\<lambda>L1.
       bind_out (GetOfflineMessages (deps E) (ls_UIN (l_heap L1 p)) (l_outside L1)) (\<lambda>ms.
       let L2 = fold (\<lambda>m M. snd (send_as E p (\<lambda>sq. BuildV2OfflineMessage sq (lo_FromUIN m) (lo_MsgType m) (lo_Message m)
                   (clock_of E (if lo_Timestamp m = zero_time then instant E (l_outside M) else lo_Timestamp m))) M))
                 (case ms of Some l \<Rightarrow> l | None \<Rightarrow> []) L1
       in Ok (send_as E p (\<lambda>sq. v2_packet ICQLegacySrvSysMsgDone sq (le32 (ls_UIN (l_heap L2 p)))) L2)))"

definition v2_handleOfflineMsgAck :: "('i, 'w) LegacyEnv \<Rightarrow> nat \<Rightarrow> V2ClientPacket \<Rightarrow> ('i, 'w) Legacy \<Rightarrow> ('i, 'w) handled" where
  "v2_handleOfflineMsgAck E p pkt L =
     and_then (sendAck E p (v2c_SeqNum pkt) L) (\<lambda>L1. Ok (True, snd (AckOfflineMessages (deps E) (ls_UIN (l_heap L1 p)) L1)))"

definition v2_handleVisibleList :: "('i, 'w) LegacyEnv \<Rightarrow> nat \<Rightarrow> V2ClientPacket \<Rightarrow> ('i, 'w) Legacy \<Rightarrow> bool \<times> ('i, 'w) Legacy" where
  "v2_handleVisibleList E p pkt L =
     sendAck E p (v2c_SeqNum pkt) (case ParseV2ContactList (v2c_Data pkt) of
       None \<Rightarrow> L | Some uins \<Rightarrow> upd_ls p (\<lambda>s. s\<lparr>ls_VisibleList := uins\<rparr>) L)"

definition v2_handleInvisibleList :: "('i, 'w) LegacyEnv \<Rightarrow> nat \<Rightarrow> V2ClientPacket \<Rightarrow> ('i, 'w) Legacy \<Rightarrow> bool \<times> ('i, 'w) Legacy" where
  "v2_handleInvisibleList E p pkt L =
     sendAck E p (v2c_SeqNum pkt) (case ParseV2ContactList (v2c_Data pkt) of
       None \<Rightarrow> L | Some uins \<Rightarrow> upd_ls p (\<lambda>s. s\<lparr>ls_InvisibleList := uins\<rparr>) L)"

definition v2_tell_online :: "('i, 'w) LegacyEnv \<Rightarrow> nat \<Rightarrow> u32 \<Rightarrow> u32 \<Rightarrow> ('i, 'w) Legacy \<Rightarrow> ('i, 'w) Legacy" where
  "v2_tell_online E p uin status L =
     snd (if has_dispatcher E then dispatch_notice E (NoticeOnline uin status) p L else sendUserOnline E p uin status [] 0 L)"

definition v2_handleUserAdd :: "('i, 'w) LegacyEnv \<Rightarrow> nat \<Rightarrow> V2ClientPacket \<Rightarrow> ('i, 'w) Legacy \<Rightarrow> ('i, 'w) handled" where
  "v2_handleUserAdd E p pkt L =
     and_then (sendAck E p (v2c_SeqNum pkt) L) (\<lambda>L1.
       if length (v2c_Data pkt) < 4 then Ok (True, L1)
       else let target = get32 0 (v2c_Data pkt);
                L2 = upd_ls p (\<lambda>s. s\<lparr>ls_ContactList := ls_ContactList s @ [target]\<rparr>) L1;
                uin = ls_UIN (l_heap L2 p);
                L3 = snd (ProcessUserAdd (deps E) (ls_Instance (l_heap L2 p)) uin target L2) in
            Ok (True, case GetSession target L3 of
                Some q \<Rightarrow>
                  let L4 = v2_tell_online E p target (ls_Status (l_heap L3 q)) L3
                  in v2_tell_online E q uin (ls_Status (l_heap L4 p)) L4
              | None \<Rightarrow>
                  (case online_status (deps E) target L3 of
                     Some st \<Rightarrow> snd (sendUserOnline E p target (downgradeStatusForV2 st) [] 0 L3)
                   | None \<Rightarrow> L3)))"

definition v2_handleFirstLogin :: "('i, 'w) LegacyEnv \<Rightarrow> UDPAddr \<Rightarrow> V2ClientPacket \<Rightarrow> ('i, 'w) Legacy \<Rightarrow> bool \<times> ('i, 'w) Legacy" where
  "v2_handleFirstLogin E addr pkt =
     SendPacket (hooks_of E) addr
       (MarshalV2ServerPacket \<lparr>v2s_Version = v2c_Version pkt, v2s_Command = ICQLegacySrvAck, v2s_SeqNum = v2c_SeqNum pkt, v2s_Data = []\<rparr>)"

text \<open>A password of 1 to 20 bytes behind its length, without a zero at its end.\<close>

definition short_password :: "bytes \<Rightarrow> (nat \<times> bytes) option" where
  "short_password data =
     (let pwdLen = unat (get16 0 data) in
      if pwdLen = 0 \<or> 20 < pwdLen \<or> length data < 2 + pwdLen then None
      else Some (pwdLen, drop_null (take pwdLen (drop 2 data))))"

text \<open>The raw packet, read with the header of version 3.\<close>

definition v2_handleGetDeps :: "('i, 'w) LegacyEnv \<Rightarrow> bool \<Rightarrow> UDPAddr \<Rightarrow> bytes \<Rightarrow> ('i, 'w) Legacy \<Rightarrow> ('i, 'w) handled" where
  "v2_handleGetDeps E v1 addr packet L =
     (if length packet < 14 then Ok (True, L)
      else let seq1 = get16 4 packet; seq2 = get16 6 packet; uin = get32 8 packet in
        case short_password (drop 12 packet) of
          None \<Rightarrow> Ok (sendBadPassword E addr seq1 2 L)
        | Some (n, password) \<Rightarrow>
            (case ValidateCredentials (deps E) uin password L of
               (Some True, L1) \<Rightarrow>
                 and_then (SendPacket (hooks_of E) addr (ack_bytes v1 seq1 ICQLegacyVersionV2) L1) (\<lambda>L2.
                 Ok (SendPacket (hooks_of E) addr
                   (MarshalV2ServerPacket (v2_packet ICQLegacySrvUserDepsList seq1 (le16 seq2 @ le32 uin))) L2))
             | (_, L1) \<Rightarrow> Ok (sendBadPassword E addr seq1 2 L1)))"

definition send_reply :: "('i, 'w) LegacyEnv \<Rightarrow> nat \<Rightarrow> u16 \<Rightarrow> u16 \<Rightarrow> ('i, 'w) Legacy \<Rightarrow> bool \<times> ('i, 'w) Legacy" where
  "send_reply E p command updateSeq = send_as E p (\<lambda>sq. v2_packet command sq (le16 updateSeq))"

definition v2_handleUpdateBasic :: "('i, 'w) LegacyEnv \<Rightarrow> nat \<Rightarrow> V2ClientPacket \<Rightarrow> ('i, 'w) Legacy \<Rightarrow> ('i, 'w) handled" where
  "v2_handleUpdateBasic E p pkt L =
     and_then (sendAck E p (v2c_SeqNum pkt) L) (\<lambda>L1.
       if length (v2c_Data pkt) < 4 then Ok (send_reply E p ICQLegacySrvUpdateBasicFail 0 L1)
       else
         case read_or_empty (drop 2 (v2c_Data pkt)) of (alias, r1) \<Rightarrow>
         case read_or_empty r1 of (firstName, r2) \<Rightarrow>
         case read_or_empty r2 of (lastName, r3) \<Rightarrow>
         case read_or_empty r3 of (email, r4) \<Rightarrow>
         let uin = ls_UIN (l_heap L1 p);
             auth = (case read_uint LittleEndian 1 r4 of (Ok x, _) \<Rightarrow> Some x | _ \<Rightarrow> None);
             old = (case GetFullUserInfo (deps E) uin (l_outside L1) of Some (Some u) \<Rightarrow> Basic (Info u) | _ \<Rightarrow> zero_ICQBasicInfo);
             info = old\<lparr>basic_Nickname := alias, basic_FirstName := firstName, basic_LastName := lastName, basic_EmailAddress := email\<rparr>;
             L2 = snd (UpdateBasicInfo (deps E) uin info L1);
             L3 = (case auth of
                     Some a \<Rightarrow> if v2c_Command pkt = ICQLegacyCmdUpdateBasic then snd (SetAuthMode (deps E) uin (a = 1) L2) else L2
                   | None \<Rightarrow> L2)
         in Ok (send_reply E p
                 (if v2c_Command pkt = ICQLegacyCmdSetBasicInfo then ICQLegacySrvUpdatedBasicV4 else ICQLegacySrvUpdatedBasic)
                 (get16 0 (v2c_Data pkt)) L3))"

definition v2_handleUpdateDetail :: "('i, 'w) LegacyEnv \<Rightarrow> nat \<Rightarrow> V2ClientPacket \<Rightarrow> ('i, 'w) Legacy \<Rightarrow> ('i, 'w) handled" where
  "v2_handleUpdateDetail E p pkt L =
     and_then (sendAck E p (v2c_SeqNum pkt) L) (\<lambda>L1.
       if length (v2c_Data pkt) < 4 then Ok (send_reply E p ICQLegacySrvUpdateDetailFail 0 L1)
       else
         case read_or_empty (drop 2 (v2c_Data pkt)) of (city, r1) \<Rightarrow>
         case read_or_zero 2 r1 of (country, r2) \<Rightarrow>
         case read_or_zero 1 r2 of (countryStat, r3) \<Rightarrow>
         case read_or_empty r3 of (st, r4) \<Rightarrow>
         case read_or_zero 2 r4 of (age, r5) \<Rightarrow>
         case read_or_zero 1 r5 of (sex, r6) \<Rightarrow>
         case read_or_empty r6 of (phone, r7) \<Rightarrow>
         case read_or_empty r7 of (homepage, r8) \<Rightarrow>
         case read_or_empty r8 of (about, r9) \<Rightarrow>
         let uin = ls_UIN (l_heap L1 p);
             L2 = (case GetFullUserInfo (deps E) uin (l_outside L1) of
                     Some (Some u) \<Rightarrow>
                       let b = (Basic (Info u))\<lparr>basic_City := city, basic_CountryCode := word_of_nat country,
                                 basic_State := st, basic_Phone := phone\<rparr>;
                           m = (More (Info u))\<lparr>Gender := word_of_nat sex, HomePageAddr := homepage\<rparr>
                       in snd (UpdateMoreInfo (deps E) uin m (snd (UpdateBasicInfo (deps E) uin b L1)))
                   | _ \<Rightarrow> L1);
             L3 = (if about \<noteq> [] then snd (SetNotes (deps E) uin about L2) else L2)
         in Ok (send_reply E p ICQLegacySrvUpdatedDetail (get16 0 (v2c_Data pkt)) L3))"

definition v2_handleRegNewUser :: "('i, 'w) LegacyEnv \<Rightarrow> UDPAddr \<Rightarrow> V2ClientPacket \<Rightarrow> ('i, 'w) Legacy \<Rightarrow> bool \<times> ('i, 'w) Legacy" where
  "v2_handleRegNewUser E addr pkt L =
     (let data = v2c_Data pkt; pwdLen = unat (get16 2 data) in
      if length data < 6 \<or> pwdLen = 0 \<or> length data < 4 + pwdLen then (True, L)
      else case RegisterNewUser (deps E) (hash_md5 E) (uuid E (l_outside L)) [] [] [] [] (drop_null (take pwdLen (drop 4 data))) L of
             (None, L1) \<Rightarrow> (True, L1)
           | (Some uin, L1) \<Rightarrow> SendPacket (hooks_of E) addr (MarshalV2ServerPacket (BuildV2NewUIN (v2c_SeqNum pkt) uin)) L1)"

section \<open>Choosing the handler\<close>

definition no_session_needed :: "u16 set" where
  "no_session_needed = {ICQLegacyCmdAck, ICQLegacyCmdLogin, ICQLegacyCmdFirstLogin, ICQLegacyCmdGetDeps,
     ICQLegacyCmdRegNewUser, ICQLegacyCmdExtInfoReq}"

text \<open>What a command of a connected client does.\<close>

definition v2_session_command :: "('i, 'w) LegacyEnv \<Rightarrow> bool \<Rightarrow> nat \<Rightarrow> V2ClientPacket \<Rightarrow> ('i, 'w) Legacy \<Rightarrow> ('i, 'w) handled" where
  "v2_session_command E v1 p pkt L =
     (let c = v2c_Command pkt in
      if c = ICQLegacyCmdLogoff then Ok (v2_handleLogoff E p L)
      else if c = ICQLegacyCmdKeepAlive \<or> c = ICQLegacyCmdKeepAlive2 then Ok (sendAck E p (v2c_SeqNum pkt) L)
      else if c = ICQLegacyCmdContactList then v2_handleContactList E v1 p pkt L
      else if c = ICQLegacyCmdThruServer then v2_handleSendMessage E p pkt L
      else if c = ICQLegacyCmdAuthorize then v2_handleSendMessage E p pkt L
      else if c = ICQLegacyCmdSetStatus then v2_handleSetStatus E v1 p pkt L
      else if c = ICQLegacyCmdInfoReq then v2_handleInfoReq E p pkt L
      else if c = ICQLegacyCmdSearchUIN then v2_handleSearchUIN E p pkt L
      else if c = ICQLegacyCmdSearchUser then v2_handleSearchUser E p pkt L
      else if c = ICQLegacyCmdSysMsgReq then v2_handleOfflineMsgReq E p pkt L
      else if c = ICQLegacyCmdSysMsgDoneAck then v2_handleOfflineMsgAck E p pkt L
      else if c = ICQLegacyCmdVisibleList then Ok (v2_handleVisibleList E p pkt L)
      else if c = ICQLegacyCmdInvisibleList then Ok (v2_handleInvisibleList E p pkt L)
      else if c = ICQLegacyCmdUserAdd then v2_handleUserAdd E p pkt L
      else if c = ICQLegacyCmdUpdateBasic \<or> c = ICQLegacyCmdSetBasicInfo then v2_handleUpdateBasic E p pkt L
      else if c = ICQLegacyCmdUpdateDetail then v2_handleUpdateDetail E p pkt L
      else Ok (sendAck E p (v2c_SeqNum pkt) L))"

definition V2Handle :: "('i, 'w) LegacyEnv \<Rightarrow> bool \<Rightarrow> nat option \<Rightarrow> UDPAddr \<Rightarrow> bytes \<Rightarrow> ('i, 'w) Legacy \<Rightarrow> ('i, 'w) handled" where
  "V2Handle E v1 session addr packet L =
     (case UnmarshalV2ClientPacket packet of
        None \<Rightarrow> Ok (False, L)
      | Some pkt \<Rightarrow>
          let c = v2c_Command pkt;
              L1 = (case session of
                      Some p \<Rightarrow> upd_ls p (\<lambda>s. s\<lparr>ls_LastActivity := instant E (l_outside L), ls_SeqNumClient := v2c_SeqNum pkt\<rparr>) L
                    | None \<Rightarrow> L)
          in if session = None \<and> c \<notin> no_session_needed then Ok (sendNotConnectedToAddr E addr (v2c_SeqNum pkt) L1)
             else if c = ICQLegacyCmdAck then Ok (True, L1)
             else if c = ICQLegacyCmdLogin then v2_handleLogin E v1 addr pkt L1
             else if c = ICQLegacyCmdExtInfoReq then v2_handleExtInfoReq E v1 session addr pkt L1
             else if c = ICQLegacyCmdGetDeps then v2_handleGetDeps E v1 addr packet L1
             else if c = ICQLegacyCmdFirstLogin then Ok (v2_handleFirstLogin E addr pkt L1)
             else if c = ICQLegacyCmdRegNewUser then Ok (v2_handleRegNewUser E addr pkt L1)
             else case session of Some p \<Rightarrow> v2_session_command E v1 p pkt L1 | None \<Rightarrow> Ok (True, L1))"

definition handleV1Login :: "('i, 'w) LegacyEnv \<Rightarrow> UDPAddr \<Rightarrow> bytes \<Rightarrow> ('i, 'w) Legacy \<Rightarrow> ('i, 'w) handled" where
  "handleV1Login E addr packet L =
     (if length packet < 12 then Ok (True, L)
      else let seqNum = get16 4 packet; uin = get32 6 packet; data = drop 10 packet in
        case short_password data of
          None \<Rightarrow> Ok (bad_password E True addr seqNum ICQLegacyVersionV1 L)
        | Some (n, password) \<Rightarrow>
            sign_on E True addr seqNum ICQLegacyVersionV1 uin password
              (if 2 + n + 4 \<le> length data then get32 (2 + n) data else 0) seqNum
              (\<lambda>uin status. NotifyStatusChange (deps E) uin status) L)"

definition V1Handle :: "('i, 'w) LegacyEnv \<Rightarrow> nat option \<Rightarrow> UDPAddr \<Rightarrow> bytes \<Rightarrow> ('i, 'w) Legacy \<Rightarrow> ('i, 'w) handled" where
  "V1Handle E session addr packet L =
     (if 4 \<le> length packet \<and> get16 2 packet = ICQLegacyCmdGetDeps then handleV1Login E addr packet L
      else V2Handle E True session addr packet L)"

definition legacy_Dispatch :: "('i, 'w) LegacyEnv \<Rightarrow> nat option \<Rightarrow> UDPAddr \<Rightarrow> bytes \<Rightarrow> ('i, 'w) Legacy \<Rightarrow> ('i, 'w) handled" where
  "legacy_Dispatch E session addr packet L =
     (case DetectProtocolVersion packet of
        None \<Rightarrow> Ok (False, L)
      | Some v \<Rightarrow>
          if \<not> supported E v then Ok (False, L)
          else if v = ICQLegacyVersionV1 then V1Handle E session addr packet L
          else if v = ICQLegacyVersionV2 then V2Handle E False session addr packet L
          else if v = ICQLegacyVersionV3 \<or> v = ICQLegacyVersionV4 \<or> v = ICQLegacyVersionV5
               then handle_newer E v session addr packet L
          else Ok (False, L))"

definition handlePacket :: "('i, 'w) LegacyEnv \<Rightarrow> UDPAddr \<Rightarrow> bytes \<Rightarrow> ('i, 'w) Legacy \<Rightarrow> ('i, 'w) Legacy outcome" where
  "handlePacket E addr packet L =
     (case DetectProtocolVersion packet of
        None \<Rightarrow> Ok L
      | Some v \<Rightarrow>
          if \<not> supported E v then Ok L
          else bind_out (legacy_Dispatch E (GetSessionByAddr (hooks_of E) addr L) addr packet L) (\<lambda>(ok, L1). Ok L1))"

end
