(* ===== verification/LegacyProperties.thy ===== *)
theory LegacyProperties
  imports LegacyV2 CodecProperties "HOL-Library.Sublist"
begin

unbundle bit_operations_syntax

text \<open>
  What holds of the handlers of the legacy gateway: those of versions 1 and 2 only ever add to what was sent and keep the two
  indexes of sessions in step, every command of a connected client is acknowledged first, packets of version 5 are read as
  they were written, and what becomes of presence and of stored messages.
\<close>

section \<open>What every handler keeps\<close>

text \<open>Nothing sent is taken back, and the indexes stay in step.\<close>

definition steady :: "('i, 'w) LegacyHooks \<Rightarrow> ('i, 'w) Legacy \<Rightarrow> ('i, 'w) Legacy \<Rightarrow> bool" where
  "steady K L M \<longleftrightarrow> prefix (l_sent L) (l_sent M) \<and> (index_ok K L \<longrightarrow> index_ok K M)"

lemma steady_refl [simp, intro]: "steady K L L"
  by (simp add: steady_def)

lemma steady_trans: "steady K L M \<Longrightarrow> steady K M N \<Longrightarrow> steady K L N"
  by (auto simp: steady_def intro: prefix_order.trans)

lemma steady_fold: "(\<And>x M. x \<in> set xs \<Longrightarrow> steady K M (f x M)) \<Longrightarrow> steady K L (fold f xs L)"
proof (induction xs arbitrary: L)
  case (Cons x xs)
  then show ?case by (auto intro: steady_trans)
qed simp

lemma steady_frame:
  assumes "l_sent M = l_sent L" "index_ok K L \<Longrightarrow> index_ok K M"
  shows "steady K L M"
  using assms by (simp add: steady_def)

lemma steady_out_upd [simp, intro]: "steady K L (out_upd f L)"
  by (rule steady_frame) (simp_all add: out_upd_def index_ok_def)

lemma out_upd_out_upd [simp]: "out_upd f (out_upd g L) = out_upd (f \<circ> g) L"
  by (simp add: out_upd_def)

lemma steady_out_call [intro]: "steady K L (snd (out_call f L))"
  by (rule steady_frame) (auto simp: out_call_def index_ok_def split: prod.splits)

lemma steady_touch [intro]: "(\<And>s. ls_UIN (f s) = ls_UIN s \<and> ls_Addr (f s) = ls_Addr s) \<Longrightarrow> steady K L (upd_ls p f L)"
  by (rule steady_frame) (simp_all add: upd_ls_def index_ok_def)

lemma steady_SendPacket [intro]: "steady K L (snd (SendPacket K' addr bs L))"
  by (auto simp: SendPacket_def steady_def index_ok_def)

lemma steady_SendToSession [intro]: "steady K L (snd (SendToSession K' p bs L))"
  by (auto simp: SendToSession_def split: option.splits)

lemma steady_NextServerSeqNum: "steady K L (snd (NextServerSeqNum p L))"
  by (auto simp: NextServerSeqNum_def)

lemma sent_frames [simp]:
  "l_sent (out_upd f L) = l_sent L" "l_sent (upd_ls p g L) = l_sent L"
  "l_sent (removeSessionLocked K p L) = l_sent L" "l_sent (remove_existing K uin L) = l_sent L"
  "l_sent (activateSessionLocked K p L) = l_sent L"
  by (simp_all add: out_upd_def upd_ls_def removeSessionLocked_def remove_existing_def activateSessionLocked_def Let_def
      split: option.splits)

lemma steady_removeLocked: "l_sessions L (ls_UIN (l_heap L p)) = Some p \<Longrightarrow> steady K L (removeSessionLocked K p L)"
  by (rule steady_frame) (simp_all add: index_ok_remove)

lemma steady_Remove [intro]: "steady K L (RemoveLegacySession K uin L)"
  by (rule steady_frame) (simp_all add: RemoveLegacySession_def index_ok_remove_existing)

lemma steady_CreateSession: "steady K L (snd (CreateSession K uin addr version i sid t L))"
proof (rule steady_frame)
  show "l_sent (snd (CreateSession K uin addr version i sid t L)) = l_sent L"
    by (simp add: CreateSession_def put_session_def alloc_session_def Let_def)
qed (rule index_ok_CreateSession)

lemma steady_send_as [intro]: "steady K L (snd (send_as E p build L))"
proof -
  have "steady K L (snd (seq_of p build L))"
    using steady_NextServerSeqNum [of K L p] by (cases "NextServerSeqNum p L") (simp add: seq_of_def)
  then show ?thesis
    by (simp add: send_as_def split: prod.splits) (metis snd_conv steady_SendToSession steady_trans)
qed


text \<open>A handler that returns, having kept all this.\<close>

definition good :: "('i, 'w) LegacyHooks \<Rightarrow> ('i, 'w) Legacy \<Rightarrow> ('i, 'w) handled \<Rightarrow> bool" where
  "good K L r \<longleftrightarrow> (\<exists>ok M. r = Ok (ok, M) \<and> steady K L M)"

lemma good_Ok [intro]: "steady K L (snd x) \<Longrightarrow> good K L (Ok x)"
  by (cases x) (simp add: good_def)

lemma good_True [intro]: "steady K L M \<Longrightarrow> good K L (Ok (b, M))"
  by (simp add: good_def)

lemma good_steady: "steady K L M \<Longrightarrow> good K M r \<Longrightarrow> good K L r"
  by (auto simp: good_def intro: steady_trans)

lemma good_and_then [intro]:
  assumes "steady K L (snd r)" "\<And>M. good K M (k M)"
  shows "good K L (and_then r k)"
  using assms good_steady [OF assms(1) assms(2)] by (auto simp: and_then_def good_def split: prod.splits)

lemma good_bind:
  assumes "m = Ok (x, M)" "steady K L M" "good K M (f (x, M))"
  shows "good K L (bind_out m f)"
  using assms good_steady by fastforce

lemma steady_via: "steady K L M \<Longrightarrow> steady K M (g M) \<Longrightarrow> steady K L (g M)"
  by (rule steady_trans)

section \<open>The service\<close>

lemma steady_ProcessContactList: "steady K L (snd (ProcessContactList D i uin cs L))"
  by (simp add: ProcessContactList_def Let_def)

lemma steady_ProcessUserAdd: "steady K L (snd (ProcessUserAdd D i a b L))"
  by (auto simp: ProcessUserAdd_def Let_def split: option.splits)

lemma steady_NotifyUserOffline: "steady K L (NotifyUserOffline D uin L)"
  by (simp add: NotifyUserOffline_def)

lemma steady_NotifyUserOnline: "steady K L (NotifyUserOnline D uin st L)"
  by (auto simp: NotifyUserOnline_def Let_def intro: steady_trans split: option.splits)

lemma steady_NotifyStatusChange: "steady K L (NotifyStatusChange D uin st L)"
  by (auto simp: NotifyStatusChange_def Let_def intro: steady_trans split: option.splits)

lemma steady_ProcessStatusChange: "steady K L (snd (ProcessStatusChange D uin st L))"
  by (auto simp: ProcessStatusChange_def Let_def intro: steady_trans split: option.splits)

lemma steady_updates [intro]:
  "steady K L (snd (UpdateBasicInfo D uin b L))" "steady K L (snd (UpdateMoreInfo D uin m L))"
  "steady K L (snd (SetNotes D uin n L))" "steady K L (snd (AckOfflineMessages D uin L))"
  by (simp_all add: UpdateBasicInfo_def UpdateMoreInfo_def SetNotes_def AckOfflineMessages_def steady_out_call)

lemma steady_SetAuthMode [intro]: "steady K L (snd (SetAuthMode D uin a L))"
  by (simp add: SetAuthMode_def steady_out_call split: user_answer.split)

lemma steady_Validate: "steady K L (snd (ValidateCredentials D uin pw L))"
  using steady_out_call [of K L "legacyFLAPLogin D uin pw"]
  by (auto simp: ValidateCredentials_def split: prod.splits login_answer.splits)

lemma steady_Register: "steady K L (snd (RegisterNewUser D h u a b c d pw L))"
proof (cases "generateNewUIN D (l_outside L)")
  case (Some uin)
  then show ?thesis
    using steady_out_call [of K L "insert_user D (new_legacy_user h u uin a b c d pw)"]
    by (auto simp: RegisterNewUser_def split: prod.splits)
qed (simp add: RegisterNewUser_def)

text \<open>The TLVs of a message to an OSCAR client can always be made, and a stored message always be read.\<close>

lemma legacy_tlvs_ok: "\<exists>b. legacy_tlvs uin t msg = Ok [\<lparr>Tag = ICBMTLVData, Value = b\<rparr>, \<lparr>Tag = ICBMTLVStore, Value = []\<rparr>]"
  by (simp add: legacy_tlvs_def NewTLVLE_def NewTLVBE_def newTLV_def MarshalLE_def ICBMCh4Message_ty_def marshal.simps
      marshalKind.simps marshalStruct.simps tag_eval struct_order_def binaryWrite_def wput_def wseq_def wok_def
      wbuffered_def marshalUnsignedInt_def marshalString_def Let_def vbytes_def)

lemma steady_ProcessMessage: "\<exists>r M. ProcessMessage D i a b t msg L = Ok (r, M) \<and> steady K L M"
proof -
  obtain bs where tlvs: "legacy_tlvs a t msg = Ok [\<lparr>Tag = ICBMTLVData, Value = bs\<rparr>, \<lparr>Tag = ICBMTLVStore, Value = []\<rparr>]"
    using legacy_tlvs_ok by blast
  obtain x M where "out_call (to_host D i (uin_name b) [\<lparr>Tag = ICBMTLVData, Value = bs\<rparr>, \<lparr>Tag = ICBMTLVStore, Value = []\<rparr>]) L = (x, M)"
    by fastforce
  then show ?thesis
    using tlvs steady_out_call [of K L "to_host D i (uin_name b) [\<lparr>Tag = ICBMTLVData, Value = bs\<rparr>, \<lparr>Tag = ICBMTLVStore, Value = []\<rparr>]"]
    by (auto simp: ProcessMessage_def split: option.splits)
qed

lemma message_text_returns: "\<exists>t. UnmarshalICBMMessageText b = Ok t"
proof -
  have "dec_safe None (TSlice ICBMCh1Fragment_ty)" "dec_safe None ICBMCh1Message_ty" by code_simp+
  then have "safe (UnmarshalBE (TSlice ICBMCh1Fragment_ty))" "safe (UnmarshalBE ICBMCh1Message_ty)"
    by (simp_all add: UnmarshalBE_def dec_safe_all)
  then have "safe_out (fst (UnmarshalBE (TSlice ICBMCh1Fragment_ty) r))" "safe_out (fst (UnmarshalBE ICBMCh1Message_ty r))" for r
    by (simp_all add: safe_def)
  then show ?thesis
    by (auto simp: UnmarshalICBMMessageText_def safe_out_def split: outcome.splits option.splits)
qed

lemma legacy_message_returns: "\<exists>r. legacy_message uin m = Ok r"
proof (cases "TLVList_Bytes ICBMTLVAOLIMData (cm_TLVList (om_Message m))")
  case (Some payload)
  obtain t where "UnmarshalICBMMessageText payload = Ok t" using message_text_returns by blast
  with Some show ?thesis by (simp add: legacy_message_def Let_def)
qed (simp add: legacy_message_def Let_def)

lemma offline_messages_return: "\<exists>r. GetOfflineMessages D uin w = Ok r"
proof -
  have "\<exists>rs. collect_out (map (legacy_message uin) ms) = Ok rs" for ms
  proof (induction ms)
    case (Cons m ms)
    then show ?case using legacy_message_returns [of uin m] by auto
  qed simp
  note all = this
  show ?thesis
  proof (cases "stored_messages D (uin_name uin) w")
    case (Some ms)
    obtain rs where "collect_out (map (legacy_message uin) ms) = Ok rs" using all by blast
    with Some show ?thesis by (simp add: GetOfflineMessages_def)
  qed (simp add: GetOfflineMessages_def)
qed


section \<open>Acknowledged first\<close>

text \<open>The handlers of the newer versions, too, keep what they must.\<close>

definition newer_steady :: "('i, 'w) LegacyEnv \<Rightarrow> bool" where
  "newer_steady E \<longleftrightarrow> (\<forall>n p L. steady (hooks_of E) L (snd (tell_newer E n p L)))"

definition link_up :: "('i, 'w) LegacyEnv \<Rightarrow> bool" where
  "link_up E \<longleftrightarrow> (\<forall>addr bs w. link_ok (hooks_of E) addr bs w)"

lemma steady_dispatch: "newer_steady E \<Longrightarrow> steady (hooks_of E) L (snd (dispatch_notice E n p L))"
  by (auto simp: dispatch_notice_def Let_def newer_steady_def sendUserOnline_def sendUserOffline_def sendStatusUpdate_def
      sendMessage_def split: notice.splits)

lemma steady_deliver:
  assumes "newer_steady E" "\<And>q M. steady (hooks_of E) M (snd (direct q M))"
  shows "steady (hooks_of E) L (v2_deliver E n direct uin L)"
  using assms by (auto simp: v2_deliver_def steady_dispatch split: option.splits)

lemma steady_tell_online: "newer_steady E \<Longrightarrow> steady (hooks_of E) L (v2_tell_online E p uin st L)"
  by (auto simp: v2_tell_online_def steady_dispatch sendUserOnline_def)

lemma good_sendSearchResult: "good (hooks_of E) L (sendSearchResult E p user isLast sub L)"
  unfolding sendSearchResult_def by (intro good_and_then good_Ok) auto

lemma good_send_results: "good (hooks_of E) L (send_results E p sub rs L)"
proof (induction rs arbitrary: L)
  case (Cons r rs)
  obtain ok M where "sendSearchResult E p r (rs = []) sub L = Ok (ok, M)" "steady (hooks_of E) L M"
    using good_sendSearchResult [of E L p r "rs = []" sub] by (auto simp: good_def)
  then show ?case using good_steady [OF _ Cons.IH [of M]] by (auto simp: and_then_def)
qed auto

text \<open>
  Returned, steady, and with the acknowledgement as the first packet, if the session has an address and the socket takes
  packets.
\<close>

definition acked :: "('i, 'w) LegacyEnv \<Rightarrow> nat \<Rightarrow> u16 \<Rightarrow> ('i, 'w) Legacy \<Rightarrow> ('i, 'w) handled \<Rightarrow> bool" where
  "acked E p sq L r \<longleftrightarrow>
     (\<exists>ok M. r = Ok (ok, M) \<and> steady (hooks_of E) L M \<and>
        (\<forall>addr. link_up E \<and> ls_Addr (l_heap L p) = Some addr \<longrightarrow>
           prefix (l_sent L @ [(addr, le16 (ls_Version (l_heap L p)) @ le16 ICQLegacySrvAck @ le16 sq)]) (l_sent M)))"

lemma sendAck_up:
  assumes "link_up E" "ls_Addr (l_heap L p) = Some addr"
  shows "sendAck E p sq L =
    (True, L\<lparr>l_sent := l_sent L @ [(addr, le16 (ls_Version (l_heap L p)) @ le16 ICQLegacySrvAck @ le16 sq)]\<rparr>)"
  using assms by (simp add: sendAck_def SendToSession_def SendPacket_def link_up_def MarshalV2ServerPacket_def BuildV2Ack_def v2_packet_def)

lemma steady_sendAck [intro]: "steady K L (snd (sendAck E p sq L))"
  by (auto simp: sendAck_def)

lemma acked_and_then:
  assumes k: "\<And>M. good (hooks_of E) M (k M)"
  shows "acked E p sq L (and_then (sendAck E p sq L) k)"
proof -
  obtain ok M where r: "and_then (sendAck E p sq L) k = Ok (ok, M)" "steady (hooks_of E) L M"
    using good_and_then [OF steady_sendAck k, of L E p sq] by (auto simp: good_def)
  have "prefix (l_sent L @ [(addr, le16 (ls_Version (l_heap L p)) @ le16 ICQLegacySrvAck @ le16 sq)]) (l_sent M)"
    if up: "link_up E" "ls_Addr (l_heap L p) = Some addr" for addr
  proof -
    let ?M = "L\<lparr>l_sent := l_sent L @ [(addr, le16 (ls_Version (l_heap L p)) @ le16 ICQLegacySrvAck @ le16 sq)]\<rparr>"
    obtain ok' N where "k ?M = Ok (ok', N)" "steady (hooks_of E) ?M N" using k [of ?M] by (auto simp: good_def)
    then show ?thesis using r(1) sendAck_up [OF up, of sq] by (simp add: and_then_def steady_def)
  qed
  then show ?thesis using r by (auto simp: acked_def)
qed

lemma and_then_True: "and_then r (\<lambda>M. Ok (True, M)) = Ok r"
  by (cases r) (auto simp: and_then_def)

lemma acked_only: "acked E p sq L (Ok (sendAck E p sq L))"
  using acked_and_then [of E "\<lambda>M. Ok (True, M)" p sq L] by (auto simp: and_then_True)

lemma acked_touched:
  assumes "acked E p sq (upd_ls p f L) r" "\<And>s. ls_UIN (f s) = ls_UIN s \<and> ls_Addr (f s) = ls_Addr s \<and> ls_Version (f s) = ls_Version s"
  shows "acked E p sq L r"
proof -
  have "steady (hooks_of E) L (upd_ls p f L)" using assms(2) by (auto intro: steady_touch)
  then show ?thesis using assms by (auto simp: acked_def intro: steady_trans)
qed

text \<open>The continuations behind the acknowledgement.\<close>

lemma good_after: "steady K L M \<Longrightarrow> steady K M N \<Longrightarrow> good K L (Ok (b, N))"
  by (auto intro: steady_trans)

lemma good_plain: "good K L (Ok (True, L))"
  by auto

lemma steady_contact_packets:
  "steady K L (fold (\<lambda>c M. case seq_of p (build c) M of (o_pkt, M1) \<Rightarrow> snd (SendToSession K' p (built v1 o_pkt) M1)) cs L)"
proof (rule steady_fold)
  fix c M
  have "steady K M (snd (seq_of p (build c) M))"
    using steady_NextServerSeqNum [of K M p] by (cases "NextServerSeqNum p M") (simp add: seq_of_def)
  then show "steady K M (case seq_of p (build c) M of (o_pkt, M1) \<Rightarrow> snd (SendToSession K' p (built v1 o_pkt) M1))"
    by (simp split: prod.splits) (metis snd_conv steady_SendToSession steady_trans)
qed

lemma steady_seq_send:
  "steady K L (snd (case seq_of p build L of (pkt, L1) \<Rightarrow> SendToSession K' p (f pkt) L1))"
proof -
  have "steady K L (snd (seq_of p build L))"
    using steady_NextServerSeqNum [of K L p] by (cases "NextServerSeqNum p L") (simp add: seq_of_def)
  then show ?thesis by (simp split: prod.splits) (metis snd_conv steady_SendToSession steady_trans)
qed

lemma acked_ContactList:
  shows "acked E p (v2c_SeqNum pkt) L (v2_handleContactList E v1 p pkt L)"
  unfolding v2_handleContactList_def
proof (rule acked_and_then)
  fix M
  let ?K = "hooks_of E"
  show "good ?K M (case ParseV2ContactList (v2c_Data pkt) of
      None \<Rightarrow> Ok (True, M)
    | Some uins \<Rightarrow>
        let L2 = upd_ls p (\<lambda>s. s\<lparr>ls_ContactList := uins\<rparr>) M; uin = ls_UIN (l_heap L2 p) in
        case ProcessContactList (deps E) (ls_Instance (l_heap L2 p)) uin uins L2 of
          (contacts, L3) \<Rightarrow>
            let L4 = fold (\<lambda>c M. case seq_of p (\<lambda>sq. BuildV2UserOnline sq (co_UIN c) (downgradeStatusForV2 (co_Status c)) [] 0) M of
                  (o_pkt, M1) \<Rightarrow> snd (SendToSession ?K p (built v1 o_pkt) M1)) (filter co_Online contacts) L3
            in Ok (case seq_of p (\<lambda>sq. BuildV2ContactListDone sq uin) L4 of
                     (d_pkt, L5) \<Rightarrow> SendToSession ?K p (built v1 d_pkt) L5))"
  proof (cases "ParseV2ContactList (v2c_Data pkt)")
    case (Some uins)
    let ?L2 = "upd_ls p (\<lambda>s. s\<lparr>ls_ContactList := uins\<rparr>) M"
    obtain cs L3 where pcl: "ProcessContactList (deps E) (ls_Instance (l_heap ?L2 p)) (ls_UIN (l_heap ?L2 p)) uins ?L2 = (cs, L3)"
      by fastforce
    have "steady ?K M ?L2" by auto
    moreover have "steady ?K ?L2 L3"
      using steady_ProcessContactList [of ?K ?L2 "deps E" "ls_Instance (l_heap ?L2 p)" "ls_UIN (l_heap ?L2 p)" uins] pcl by simp
    ultimately have L3: "steady ?K M L3" by (rule steady_trans)
    show ?thesis
      unfolding Some option.case Let_def pcl prod.case
      by (rule good_Ok, rule steady_trans [OF L3], rule steady_trans [OF steady_contact_packets steady_seq_send])
  qed auto
qed

lemma acked_SendMessage:
  assumes "newer_steady E"
  shows "acked E p (v2c_SeqNum pkt) L (v2_handleSendMessage E p pkt L)"
  unfolding v2_handleSendMessage_def
proof (rule acked_and_then, goal_cases)
  case (1 M)
  show ?case
  proof (cases "ParseV2Message (v2c_Data pkt)")
    case (Some msg)
    obtain r N where pm: "ProcessMessage (deps E) (ls_Instance (l_heap M p)) (ls_UIN (l_heap M p)) (lm_ToUIN msg) (lm_MsgType msg)
        (lm_Message msg) M = Ok (r, N)" "steady (hooks_of E) M N"
      using steady_ProcessMessage by blast
    have "steady (hooks_of E) N (v2_deliver E n (\<lambda>q. sendMessage E q a b c) u N)" for n a b c u
      by (rule steady_deliver [OF assms]) (auto simp: sendMessage_def)
    then show ?thesis using Some pm by (auto simp: Let_def intro!: good_after [OF pm(2)])
  qed auto
qed

lemma acked_SetStatus:
  assumes "newer_steady E"
  shows "acked E p (v2c_SeqNum pkt) L (v2_handleSetStatus E v1 p pkt L)"
  unfolding v2_handleSetStatus_def
proof (rule acked_and_then, goal_cases)
  case (1 M)
  let ?st = "get32 0 (v2c_Data pkt)"
  let ?L2 = "upd_ls p (\<lambda>s. s\<lparr>ls_Status := ?st\<rparr>) M"
  obtain ts L3 where ps: "ProcessStatusChange (deps E) (ls_UIN (l_heap ?L2 p)) ?st ?L2 = (ts, L3)" by fastforce
  have "steady (hooks_of E) M ?L2" by auto
  moreover have "steady (hooks_of E) ?L2 L3"
    using steady_ProcessStatusChange [of "hooks_of E" ?L2 "deps E" "ls_UIN (l_heap ?L2 p)" ?st] ps by simp
  ultimately have L3: "steady (hooks_of E) M L3" by (rule steady_trans)
  have "steady (hooks_of E) N (fold (v2_deliver E n (\<lambda>q M. case seq_of q build M of (s_pkt, M1) \<Rightarrow>
      SendToSession (hooks_of E) q (built v1 s_pkt) M1)) us N)" for N n build us
    by (intro steady_fold steady_deliver [OF assms] steady_seq_send)
  then have "good (hooks_of E) M (Ok (True, fold (v2_deliver E n (\<lambda>q M. case seq_of q build M of (s_pkt, M1) \<Rightarrow>
      SendToSession (hooks_of E) q (built v1 s_pkt) M1)) us L3))" for n build us
    by (rule good_after [OF L3])
  then show ?case using ps by (simp add: Let_def good_plain)
qed

lemma acked_InfoReq:
  shows "acked E p (v2c_SeqNum pkt) L (v2_handleInfoReq E p pkt L)"
  unfolding v2_handleInfoReq_def by (rule acked_and_then) (auto simp: Let_def)

lemma acked_SearchUIN:
  shows "acked E p (v2c_SeqNum pkt) L (v2_handleSearchUIN E p pkt L)"
  unfolding v2_handleSearchUIN_def
  by (rule acked_and_then) (auto simp: good_sendSearchResult split: option.splits)

lemma acked_SearchUser:
  shows "acked E p (v2c_SeqNum pkt) L (v2_handleSearchUser E p pkt L)"
  unfolding v2_handleSearchUser_def
  by (rule acked_and_then)
    (auto simp: Let_def good_sendSearchResult good_send_results split: option.splits prod.splits)

lemma acked_OfflineMsgReq:
  shows "acked E p (v2c_SeqNum pkt) L (v2_handleOfflineMsgReq E p pkt L)"
  unfolding v2_handleOfflineMsgReq_def
proof (rule acked_and_then, goal_cases)
  case (1 M)
  obtain r where "GetOfflineMessages (deps E) (ls_UIN (l_heap M p)) (l_outside M) = Ok r"
    using offline_messages_return [of "deps E" "ls_UIN (l_heap M p)" "l_outside M"] by blast
  moreover have "good (hooks_of E) M (Ok (send_as E p b (fold (\<lambda>m M. snd (send_as E p (f m M) M)) ms M)))" for b f ms
    by (rule good_Ok, rule steady_trans [OF steady_fold steady_send_as]) (rule steady_send_as)
  ultimately show ?case by (simp add: Let_def)
qed

lemma acked_OfflineMsgAck:
  shows "acked E p (v2c_SeqNum pkt) L (v2_handleOfflineMsgAck E p pkt L)"
  unfolding v2_handleOfflineMsgAck_def by (rule acked_and_then) auto

lemma acked_lists:
  "acked E p (v2c_SeqNum pkt) L (Ok (v2_handleVisibleList E p pkt L))"
  "acked E p (v2c_SeqNum pkt) L (Ok (v2_handleInvisibleList E p pkt L))"
  by (auto simp: v2_handleVisibleList_def v2_handleInvisibleList_def split: option.splits
      intro: acked_only acked_touched [OF acked_only])

lemma acked_UserAdd:
  assumes "newer_steady E"
  shows "acked E p (v2c_SeqNum pkt) L (v2_handleUserAdd E p pkt L)"
  unfolding v2_handleUserAdd_def
proof (rule acked_and_then, goal_cases)
  case (1 M)
  let ?t = "get32 0 (v2c_Data pkt)"
  let ?L2 = "upd_ls p (\<lambda>s. s\<lparr>ls_ContactList := ls_ContactList s @ [?t]\<rparr>) M"
  let ?L3 = "snd (ProcessUserAdd (deps E) (ls_Instance (l_heap ?L2 p)) (ls_UIN (l_heap ?L2 p)) ?t ?L2)"
  have "steady (hooks_of E) M ?L2" by auto
  then have L3: "steady (hooks_of E) M ?L3" by (rule steady_trans) (rule steady_ProcessUserAdd)
  have two: "steady (hooks_of E) ?L3 (v2_tell_online E q u st (v2_tell_online E p u' st' ?L3))" for q u st u' st'
    by (rule steady_trans) (rule steady_tell_online [OF assms])+
  have one: "steady (hooks_of E) ?L3 (snd (sendUserOnline E p u st [] 0 ?L3))" for u st
    by (auto simp: sendUserOnline_def)
  show ?case
    using L3 two one unfolding Let_def
    by (auto intro!: good_True simp del: legacy_frames split: option.splits intro: steady_trans)
qed

lemma acked_UpdateBasic:
  shows "acked E p (v2c_SeqNum pkt) L (v2_handleUpdateBasic E p pkt L)"
  unfolding v2_handleUpdateBasic_def send_reply_def
  by (rule acked_and_then)
    (auto simp: Let_def intro!: good_Ok split: option.splits prod.splits outcome.splits if_splits
      intro: steady_trans [OF steady_updates(1) steady_send_as] steady_trans [OF steady_updates(1) steady_trans [OF steady_SetAuthMode steady_send_as]])

lemma acked_UpdateDetail:
  shows "acked E p (v2c_SeqNum pkt) L (v2_handleUpdateDetail E p pkt L)"
  unfolding v2_handleUpdateDetail_def send_reply_def
proof (rule acked_and_then, goal_cases)
  case (1 M)
  have detail: "steady (hooks_of E) M (snd (UpdateMoreInfo (deps E) u m (snd (UpdateBasicInfo (deps E) u b M))))" for u m b
    by (rule steady_trans [OF steady_updates(1) steady_updates(2)])
  show ?case
    using detail
    by (auto simp: Let_def intro!: good_Ok split: option.splits prod.splits if_splits
        intro: steady_trans [OF steady_updates(3) steady_send_as] steady_trans [OF detail steady_send_as]
          steady_trans [OF detail steady_trans [OF steady_updates(3) steady_send_as]])
qed


lemma steady_BroadcastToContacts: "(\<And>q M. steady K M (f q M)) \<Longrightarrow> steady K L (BroadcastToContacts p f L)"
  by (auto simp: BroadcastToContacts_def intro!: steady_fold split: option.splits)

lemma steady_Logoff: "steady (hooks_of E) L (snd (v2_handleLogoff E p L))"
proof -
  let ?L1 = "BroadcastToContacts p (\<lambda>q M. snd (sendUserOffline E q (ls_UIN (l_heap L p)) M)) L"
  have "steady (hooks_of E) L ?L1" by (rule steady_BroadcastToContacts) (auto simp: sendUserOffline_def)
  then have "steady (hooks_of E) L (NotifyUserOffline (deps E) (ls_UIN (l_heap L p)) ?L1)"
    by (rule steady_trans) (rule steady_NotifyUserOffline)
  then show ?thesis by (auto simp: v2_handleLogoff_def Let_def intro: steady_trans)
qed

lemma acked_command:
  assumes "newer_steady E" "v2c_Command pkt \<noteq> ICQLegacyCmdLogoff"
  shows "acked E p (v2c_SeqNum pkt) L (v2_session_command E v1 p pkt L)"
  using assms(2)
  by (simp add: v2_session_command_def Let_def acked_only acked_ContactList acked_SendMessage [OF assms(1)]
      acked_SetStatus [OF assms(1)] acked_InfoReq acked_SearchUIN acked_SearchUser acked_OfflineMsgReq acked_OfflineMsgAck
      acked_lists acked_UserAdd [OF assms(1)] acked_UpdateBasic acked_UpdateDetail)

text \<open>
  C19: Every command of a connected client of version 1 or 2, but for the few that need no session and the log-off, is
  handled to its end, whatever its data are, and the first packet that goes out is the acknowledgement with the client's own
  sequence number, sent to the session's address: clients repeat a command until they see it.
\<close>

theorem command_acknowledged_first:
  assumes "newer_steady E" "link_up E" "UnmarshalV2ClientPacket packet = Some pkt"
    and "v2c_Command pkt \<notin> no_session_needed" "v2c_Command pkt \<noteq> ICQLegacyCmdLogoff"
    and "ls_Addr (l_heap L p) = Some addr"
  shows "\<exists>ok M rest. V2Handle E v1 (Some p) from packet L = Ok (ok, M) \<and>
    l_sent M = l_sent L @ (addr, le16 (ls_Version (l_heap L p)) @ le16 ICQLegacySrvAck @ le16 (v2c_SeqNum pkt)) # rest"
proof -
  let ?f = "\<lambda>s. s\<lparr>ls_LastActivity := instant E (l_outside L), ls_SeqNumClient := v2c_SeqNum pkt\<rparr>"
  have "acked E p (v2c_SeqNum pkt) L (v2_session_command E v1 p pkt (upd_ls p ?f L))"
    by (rule acked_touched [OF acked_command [OF assms(1,5)]]) simp
  then obtain ok M where "v2_session_command E v1 p pkt (upd_ls p ?f L) = Ok (ok, M)"
    and "prefix (l_sent L @ [(addr, le16 (ls_Version (l_heap L p)) @ le16 ICQLegacySrvAck @ le16 (v2c_SeqNum pkt))]) (l_sent M)"
    using assms(2,6) by (auto simp: acked_def)
  then show ?thesis
    using assms(3,4) by (auto simp: V2Handle_def Let_def no_session_needed_def prefix_def)
qed

section \<open>The handlers keep the indexes in step\<close>

definition keeps_steady :: "('i, 'w) LegacyEnv \<Rightarrow> ('i, 'w) Legacy \<Rightarrow> ('i, 'w) handled \<Rightarrow> bool" where
  "keeps_steady E L r \<longleftrightarrow> (\<forall>ok M. r = Ok (ok, M) \<longrightarrow> steady (hooks_of E) L M)"

lemma keeps_steady_Ok [intro]: "steady (hooks_of E) L (snd x) \<Longrightarrow> keeps_steady E L (Ok x)"
  by (cases x) (simp add: keeps_steady_def)

lemma keeps_steady_good: "good (hooks_of E) L r \<Longrightarrow> keeps_steady E L r"
  by (auto simp: keeps_steady_def good_def)

lemma keeps_steady_acked: "acked E p sq L r \<Longrightarrow> keeps_steady E L r"
  by (auto simp: keeps_steady_def acked_def)

lemma keeps_steady_after: "steady (hooks_of E) L M \<Longrightarrow> keeps_steady E M r \<Longrightarrow> keeps_steady E L r"
  by (auto simp: keeps_steady_def intro: steady_trans)

lemma keeps_steady_and_then:
  assumes "steady (hooks_of E) L (snd r)" "\<And>M. keeps_steady E M (k M)"
  shows "keeps_steady E L (and_then r k)"
  using assms keeps_steady_after [OF assms(1) assms(2)] by (auto simp: and_then_def keeps_steady_def split: prod.splits)

lemma steady_AuthenticateUser: "AuthenticateUser D uin pw L = Ok (r, M) \<Longrightarrow> steady (hooks D) L M"
proof -
  assume auth: "AuthenticateUser D uin pw L = Ok (r, M)"
  obtain a L1 where login: "out_call (legacyFLAPLogin D uin pw) L = (a, L1)" by fastforce
  have L1: "steady (hooks D) L L1" using steady_out_call [of "hooks D" L "legacyFLAPLogin D uin pw"] login by simp
  have cookie: "steady (hooks D) L (fold (RemoveLegacySession (hooks D)) rs L2)"
    if reg: "out_call (register D c) L1 = ((x, rs), L2)" for c x rs L2
  proof -
    have "steady (hooks D) L1 L2" using steady_out_call [of "hooks D" L1 "register D c"] reg by simp
    moreover have "steady (hooks D) L2 (fold (RemoveLegacySession (hooks D)) rs L2)" by (rule steady_fold) auto
    ultimately show ?thesis using L1 by (blast intro: steady_trans)
  qed
  show ?thesis
    using auth login L1 cookie
    by (auto simp: AuthenticateUser_def Let_def bind_out_Ok_iff split: if_splits login_answer.splits option.splits prod.splits)
qed

lemma keeps_sign_on:
  assumes "\<And>u st M. steady (hooks_of E) M (tell u st M)"
  shows "keeps_steady E L (sign_on E v1 addr sq v uin pw st c tell L)"
  unfolding keeps_steady_def
proof (intro allI impI)
  fix ok M assume "sign_on E v1 addr sq v uin pw st c tell L = Ok (ok, M)"
  then obtain r L1 where auth: "AuthenticateUser (deps E) uin pw L = Ok (r, L1)"
    and rest: "(case r of
         None \<Rightarrow> Ok (bad_password E v1 addr sq v L1)
       | Some a \<Rightarrow>
           if \<not> ar_Success a then Ok (bad_password E v1 addr sq v L1)
           else case CreateSession (hooks_of E) uin addr v (ar_Session a) (draw E (l_outside L1)) (instant E (l_outside L1)) L1 of
               (None, L2) \<Rightarrow> Ok (bad_password E v1 addr sq v L2)
             | (Some p, L2) \<Rightarrow>
                 let L3 = upd_ls p (\<lambda>s. s\<lparr>ls_Status := st, ls_Password := pw\<rparr>) L2 in
                 and_then (SendToSession (hooks_of E) p (ack_bytes v1 sq v) L3) (\<lambda>L4.
                 and_then (login_reply E v1 p c L4) (\<lambda>L5.
                 Ok (True, tell uin st L5)))) = Ok (ok, M)"
    by (auto simp: sign_on_def bind_out_Ok_iff)
  have L1: "steady (hooks_of E) L L1" by (rule steady_AuthenticateUser [OF auth])
  have bad: "keeps_steady E N (Ok (bad_password E v1 addr sq v N))" for N by (auto simp: bad_password_def)
  have replied: "keeps_steady E N (and_then (SendToSession (hooks_of E) p bs N) (\<lambda>L4.
      and_then (login_reply E v1 p c L4) (\<lambda>L5. Ok (True, tell uin st L5))))" for N p bs
    by (intro keeps_steady_and_then steady_SendToSession keeps_steady_Ok)
      (auto simp: login_reply_def Let_def assms intro: steady_seq_send)
  have created: "steady (hooks_of E) L1 L2" if "CreateSession (hooks_of E) uin addr v i sid t L1 = (x, L2)" for i sid t x L2
    using steady_CreateSession [of "hooks_of E" L1 uin addr v i sid t] that by simp
  have "keeps_steady E L1 (Ok (ok, M))"
    unfolding rest [symmetric]
    by (auto simp: bad Let_def split: option.splits prod.splits
        intro: keeps_steady_after [OF created bad] keeps_steady_after [OF steady_trans [OF created steady_touch] replied])
  then show "steady (hooks_of E) L M" using L1 by (auto simp: keeps_steady_def intro: steady_trans)
qed


lemma keeps_steady_leaves [intro]: "keeps_steady E L (Ok (b, L))" "keeps_steady E L Panic"
  by (simp_all add: keeps_steady_def)

lemma keeps_ExtInfoReq: "keeps_steady E L (v2_handleExtInfoReq E v1 session addr pkt L)"
  unfolding v2_handleExtInfoReq_def Let_def
  by (auto intro!: keeps_steady_and_then keeps_steady_leaves keeps_steady_Ok split: option.split)

lemma keeps_GetDeps: "keeps_steady E L (v2_handleGetDeps E v1 addr packet L)"
proof -
  have bad: "keeps_steady E M (Ok (sendBadPassword E addr sq v M))" for M sq v by (auto simp: sendBadPassword_def)
  have two: "keeps_steady E M (and_then (SendPacket (hooks_of E) addr b M) (\<lambda>L2. Ok (SendPacket (hooks_of E) addr c L2)))" for M b c
    by (intro keeps_steady_and_then) auto
  have "keeps_steady E L (case ValidateCredentials (deps E) uin pw L of
      (Some True, L1) \<Rightarrow> and_then (SendPacket (hooks_of E) addr b L1) (\<lambda>L2. Ok (SendPacket (hooks_of E) addr c L2))
    | (_, L1) \<Rightarrow> Ok (sendBadPassword E addr sq v L1))" for uin pw b c sq v
    using keeps_steady_after [OF steady_Validate [of "hooks_of E" L "deps E" uin pw]] bad two
    by (cases "ValidateCredentials (deps E) uin pw L") (auto split: option.splits bool.splits)
  then show ?thesis
    using bad by (auto simp: v2_handleGetDeps_def Let_def split: option.splits)
qed

lemma steady_RegNewUser: "steady (hooks_of E) L (snd (v2_handleRegNewUser E addr pkt L))"
proof -
  obtain r L1 where reg: "RegisterNewUser (deps E) (hash_md5 E) (uuid E (l_outside L)) [] [] [] []
      (drop_null (take (unat (get16 2 (v2c_Data pkt))) (drop 4 (v2c_Data pkt)))) L = (r, L1)" by fastforce
  have "steady (hooks_of E) L L1"
    using steady_Register [of "hooks_of E" L "deps E" "hash_md5 E" "uuid E (l_outside L)" "[]" "[]" "[]" "[]"] reg by (metis snd_conv)
  then show ?thesis
    using reg by (auto simp: v2_handleRegNewUser_def Let_def intro: steady_trans split: option.splits)
qed

lemma keeps_V2Handle:
  assumes "newer_steady E"
  shows "keeps_steady E L (V2Handle E v1 session addr packet L)"
proof (cases "UnmarshalV2ClientPacket packet")
  case (Some pkt)
  let ?f = "\<lambda>s. s\<lparr>ls_LastActivity := instant E (l_outside L), ls_SeqNumClient := v2c_SeqNum pkt\<rparr>"
  let ?L1 = "case session of Some p \<Rightarrow> upd_ls p ?f L | None \<Rightarrow> L"
  have L1: "steady (hooks_of E) L ?L1" by (auto split: option.split)
  have login: "keeps_steady E M (v2_handleLogin E v1 addr pkt M)" for M
    by (auto simp: v2_handleLogin_def bad_password_def intro: keeps_sign_on steady_NotifyUserOnline split: option.split)
  have first: "keeps_steady E M (Ok (v2_handleFirstLogin E addr pkt M))" for M by (auto simp: v2_handleFirstLogin_def)
  have reg: "keeps_steady E M (Ok (v2_handleRegNewUser E addr pkt M))" for M by (rule keeps_steady_Ok) (rule steady_RegNewUser)
  have strange: "keeps_steady E M (Ok (sendNotConnectedToAddr E addr sq M))" for M sq by (auto simp: sendNotConnectedToAddr_def)
  have known: "keeps_steady E M (v2_session_command E v1 p pkt M)" for p M
  proof (cases "v2c_Command pkt = ICQLegacyCmdLogoff")
    case True
    then show ?thesis by (auto simp: v2_session_command_def steady_Logoff)
  qed (use acked_command [OF assms] keeps_steady_acked in blast)
  have "keeps_steady E ?L1 (V2Handle E v1 session addr packet L)"
    using Some by (auto simp: V2Handle_def Let_def login first reg strange known keeps_ExtInfoReq keeps_GetDeps
        simp del: legacy_frames split: option.split)
  then show ?thesis by (rule keeps_steady_after [OF L1])
qed (auto simp: V2Handle_def keeps_steady_def)

lemma keeps_V1Handle: "newer_steady E \<Longrightarrow> keeps_steady E L (V1Handle E session addr packet L)"
  by (auto simp: V1Handle_def handleV1Login_def Let_def bad_password_def keeps_V2Handle
      intro: keeps_sign_on steady_NotifyStatusChange split: option.split)

section \<open>Packets of version 5\<close>

text \<open>
  C22: A version 5 packet that the client has scrambled with the mask of its check code is read as the client wrote it:
  unscrambling is the same exclusive or, and it leaves the version, the UIN and the check code, from which the mask is made,
  as they are. This holds for packets of every length and content, whatever the session ID.
\<close>

theorem v5_packets_read_back:
  "UnmarshalV5ClientPacket (DecryptV5Packet (DecryptV5Packet packet s) s') = UnmarshalV5ClientPacket packet \<and>
   length (DecryptV5Packet packet s) = length packet \<and>
   take 0x0A (DecryptV5Packet packet s) = take 0x0A packet \<and>
   take 4 (drop 0x14 (DecryptV5Packet packet s)) = take 4 (drop 0x14 packet)"
  by (auto simp: decrypt_twice list_eq_iff_nth_eq decrypt_keeps)

section \<open>New accounts\<close>

lemma free_uin_spec:
  assumes "unat uin + n < 2 ^ 32" "free_uin look n uin = Some v"
  shows "uin \<le> v \<and> v < 999999999 \<and> look v \<in> {UserUnknown, UserNil} \<and>
    (\<forall>u. uin \<le> u \<and> u < v \<longrightarrow> (\<exists>x. look u = UserFound x))"
  using assms
proof (induction n arbitrary: uin)
  case (Suc n)
  have step: "unat (uin + 1) = unat uin + 1" using Suc.prems(1) by (simp add: unat_word_ariths)
  show ?case
  proof (cases "look uin")
    case (UserFound x)
    then have "free_uin look n (uin + 1) = Some v" using Suc.prems(2) by (simp split: if_splits)
    then have IH: "uin + 1 \<le> v \<and> v < 999999999 \<and> look v \<in> {UserUnknown, UserNil} \<and>
        (\<forall>u. uin + 1 \<le> u \<and> u < v \<longrightarrow> (\<exists>x. look u = UserFound x))"
      using Suc.IH [of "uin + 1"] Suc.prems(1) step by simp
    have "uin + 1 \<le> u" if "uin \<le> u" "u \<noteq> uin" for u
      using that step by (simp add: word_le_nat_alt word_unat_eq_iff)
    then have "\<exists>y. look u = UserFound y" if "uin \<le> u" "u < v" for u
      using that IH UserFound by (cases "u = uin") auto
    moreover have "uin \<le> v" using IH step by (simp add: word_le_nat_alt)
    ultimately show ?thesis using IH by blast
  qed (use Suc.prems(2) in \<open>auto split: if_splits\<close>)
qed simp



text \<open>
  A registration gets the first UIN from 100000 on for which the store knows no account: the one it returns is unused,
  every UIN between 100000 and it is taken, and it stays below 999999999.
\<close>

theorem new_uin_first_free:
  assumes "generateNewUIN D w = Some v"
  shows "100000 \<le> v \<and> v < 999999999 \<and> user_by_name D (uin_name v) w \<in> {UserUnknown, UserNil} \<and>
    (\<forall>u. 100000 \<le> u \<and> u < v \<longrightarrow> (\<exists>x. user_by_name D (uin_name u) w = UserFound x))"
  using free_uin_spec [of 100000 "999999999 - 100000 + 1" "\<lambda>uin. user_by_name D (uin_name uin) w" v] assms
  by (simp add: generateNewUIN_def)

section \<open>A gateway with nothing behind it\<close>

text \<open>Services that know nobody and keep nothing, a socket that takes every packet, and a keep-alive of version 2.\<close>

definition quiet_deps :: "(nat, unit) LegacyDeps" where
  "quiet_deps = \<lparr>hooks = plain_hooks, listing = \<lambda>_. [100, 200], flap_login = \<lambda>_ w. (LoginNoUser, w), crack = \<lambda>_ _. None,
     register = \<lambda>_ w. ((None, []), w),
     user_by_name = \<lambda>name _. if name = uin_name 100000 then UserFound (new_legacy_user id [] 100000 [] [] [] [] []) else UserUnknown,
     insert_user = \<lambda>_ w. (True, w), delete_user = \<lambda>_ w. (True, w), set_password = \<lambda>_ _ w. (True, w),
     find_uin = \<lambda>_ _. None, find_email = \<lambda>_ _. None, find_name = \<lambda>_ _ _ _. None,
     set_basic = \<lambda>_ _ w. (True, w), set_more = \<lambda>_ _ w. (True, w), set_notes = \<lambda>_ _ w. (True, w),
     set_permissions = \<lambda>_ _ w. (True, w), add_buddies = \<lambda>_ _ w. w, oscar_status = \<lambda>_ _. None,
     to_host = \<lambda>_ _ _ w. (False, w), stored_messages = \<lambda>_ _. Some [], delete_messages = \<lambda>_ w. (True, w),
     status_bits = \<lambda>_ _ w. w, set_flag = \<lambda>_ _ w. w, clear_flag = \<lambda>_ _ w. w, hidden_session = \<lambda>_ _. False,
     arrived_as = \<lambda>_ _ w. w, arrived_with = \<lambda>_ _ _ w. w, departed_as = \<lambda>_ w. w, list_registered = \<lambda>_ w. w,
     list_unregistered = \<lambda>_ w. w\<rparr>"

definition quiet_env :: "(nat, unit) LegacyEnv" where
  "quiet_env = \<lparr>deps = quiet_deps, supported = \<lambda>_. True, has_dispatcher = False, tell_newer = \<lambda>_ _ L. (True, L),
     handle_newer = \<lambda>_ _ _ _ L. Ok (True, L), draw = \<lambda>_. 7, clock_of = \<lambda>_. \<lparr>Year = 1999, Month = 1, Day = 1, Hour = 0, Minute = 0\<rparr>,
     instant = \<lambda>_. 0, today = \<lambda>_. (1, 1), hash_md5 = id, uuid = \<lambda>_. []\<rparr>"

definition keep_alive :: bytes where
  "keep_alive = le16 2 @ le16 ICQLegacyCmdKeepAlive @ le16 7 @ le32 100"

lemma quiet_env_steady: "newer_steady quiet_env" "link_up quiet_env"
  by (auto simp: newer_steady_def link_up_def quiet_env_def quiet_deps_def plain_hooks_def)

lemma keep_alive_read:
  "UnmarshalV2ClientPacket keep_alive = Some \<lparr>v2c_Version = 2, v2c_Command = ICQLegacyCmdKeepAlive, v2c_SeqNum = 7, v2c_UIN = 100, v2c_Data = []\<rparr>"
  "DetectProtocolVersion keep_alive = Some ICQLegacyVersionV2"
  by code_simp+

lemma keep_alive_needs_session: "ICQLegacyCmdKeepAlive \<notin> no_session_needed" "ICQLegacyCmdKeepAlive \<noteq> ICQLegacyCmdLogoff"
  by (simp_all add: no_session_needed_def legacypackets_consts)

lemma command_acknowledged_first_witness:
  "\<exists>ok M rest. V2Handle quiet_env False (Some 0) away keep_alive (no_sessions (\<lambda>_. newLegacySession 100 home 2 None 7 0) ()) = Ok (ok, M) \<and>
    l_sent M = (home, le16 2 @ le16 ICQLegacySrvAck @ le16 7) # rest"
  using command_acknowledged_first [OF quiet_env_steady keep_alive_read(1),
      where L = "no_sessions (\<lambda>_. newLegacySession 100 home 2 None 7 0) ()" and p = 0 and addr = home]
    keep_alive_needs_session
  by (simp add: no_sessions_def newLegacySession_def)

lemma new_uin_first_free_witness:
  "generateNewUIN quiet_deps () = Some 100001 \<and> 100001 < (999999999 :: u32) \<and>
   user_by_name quiet_deps (uin_name 100001) () \<in> {UserUnknown, UserNil}"
proof -
  have "uin_name 100001 \<noteq> uin_name 100000" using decimal_string_inj [of 100001 100000] by (auto simp: uin_name_def)
  then have step: "free_uin (\<lambda>uin. user_by_name quiet_deps (uin_name uin) ()) (Suc (Suc n)) 100000 = Some 100001" for n
    by (simp add: quiet_deps_def)
  have "generateNewUIN quiet_deps () = Some 100001"
    using step [of 999899998] by (simp add: generateNewUIN_def del: free_uin.simps)
  then show ?thesis using new_uin_first_free [of quiet_deps "()" 100001] by blast
qed

section \<open>Where the gateway goes wrong\<close>

text \<open>
  A message to somebody who is not connected over a legacy protocol travels on channel 4. If the OSCAR side stores it, the
  recipient who later signs on over a legacy protocol gets it without its text and type: they are read from attributes that
  no such message has.
\<close>

theorem stored_legacy_message_blank:
  assumes "legacy_tlvs uin' t msg = Ok tlvs" "cm_TLVList (om_Message m) = tlvs"
  shows "legacy_message uin m = Ok \<lparr>lo_FromUIN = UIN (om_Sender m), lo_ToUIN = uin, lo_MsgType = 0, lo_Message = [], lo_Timestamp = om_Sent m\<rparr>"
  using assms legacy_tlvs_ok [of uin' t msg]
  by (auto simp: legacy_message_def Let_def ICBMTLVData_def ICBMTLVStore_def ICBMTLVAOLIMData_def ICBMTLVICQBlob_def)

text \<open>
  A contact who is invisible is left out of the legacy part of the answer to a contact list, and then found as the OSCAR
  session that stands behind every legacy session: the answer says online.
\<close>

lemma invisible_contact_listed:
  assumes "GetSession c L = Some q" "ls_Status (l_heap L q) AND ICQLegacyStatusInvisible \<noteq> 0"
    and "viewer \<notin> set (ls_VisibleList (l_heap L q))" "oscar_status D (uin_name c) (l_outside L) = Some st"
  shows "contact_status D viewer L c = \<lparr>co_UIN = c, co_Online = True, co_Status = mapOSCARStatusToLegacy st\<rparr>"
  using assms by (simp add: contact_status_def legacy_shows_def IsOnVisibleList_def)

text \<open>Adding a user of version 2 to one's contacts tells that the user is online, whether or not one may see it.\<close>

lemma add_reveals_invisible:
  assumes E: "link_up E" "\<not> has_dispatcher E" and L: "ls_Addr (l_heap L p) = Some addr" "ls_Addr (l_heap L q) = Some addr'"
    and data: "v2c_Data pkt = le32 tgt" and q: "GetSession tgt L = Some q" "q \<noteq> p"
    and uins: "ls_UIN (l_heap L p) \<noteq> 0" "tgt \<noteq> 0"
  shows "\<exists>M rest. v2_handleUserAdd E p pkt L = Ok (True, M) \<and>
    l_sent M = l_sent L @ [(addr, le16 (ls_Version (l_heap L p)) @ le16 ICQLegacySrvAck @ le16 (v2c_SeqNum pkt)),
      (addr, MarshalV2ServerPacket ((BuildV2UserOnline (ls_SeqNumServer (l_heap L p)) tgt (ls_Status (l_heap L q)) [] 0)
         \<lparr>v2s_Version := ls_Version (l_heap L p)\<rparr>))] @ rest"
proof -
  have t: "get32 0 (le32 tgt) = tgt" using get32_le32 [of "[]" tgt "[]"] by simp
  show ?thesis
    using E(2) L q uins
    by (simp add: v2_handleUserAdd_def and_then_def sendAck_up [OF E(1) L(1)] data t Let_def ProcessUserAdd_def GetSession_def
        v2_tell_online_def sendUserOnline_def send_as_def seq_of_def NextServerSeqNum_def SendToSession_def SendPacket_def
        E(1) [unfolded link_up_def])
qed

text \<open>
  The number with which a login is answered is taken four bytes too early: the parser of the login packet reads the connection
  number at bytes 8 and 9 of the last field, and the handler answers with bytes 4 and 5.
\<close>

lemma get16_append: "get16 (length p + j) (p @ q) = get16 j q"
  by (simp add: get16_def)

lemma bind_full: "length b = n \<Longrightarrow> pbind (read_full n) f (b @ r) = f b r"
  by (rule pbind_Ok) (rule read_full_append)

lemma bind_string: "length s < 65535 \<Longrightarrow> pbind (ParseLegacyString True) f (WriteLegacyString s @ r) = f s r"
  by (rule pbind_Ok) (rule legacy_string_read)

lemma login_number_misread:
  assumes "length password < 65535" "length x1 = 4" "length ip = 4" "length x3 = 12"
    and data_def: "data = le32 port @ WriteLegacyString password @ x1 @ ip @ [x2] @ le16 status @ le16 dcVersion @ x3"
  shows "map_option lg_ConnectionID (ParseV2LoginPacket data) = Some (get16 8 x3) \<and> loginSeqNum data = get16 4 x3"
proof
  let ?head = "le32 port @ WriteLegacyString password @ x1 @ ip @ [x2] @ le16 status @ le16 dcVersion"
  have x1: "pbind (read_uint LittleEndian 4) f (x1 @ r) = f (get_uint LittleEndian x1) r" for f :: "nat \<Rightarrow> LegacyLoginPacket parser" and r
    by (rule pbind_Ok) (simp add: read_uint_def bind_full [OF assms(2)])
  have x2: "pbind (read_uint LittleEndian (Suc 0)) f (x2 # r) = f (get_uint LittleEndian [x2]) r" for f :: "nat \<Rightarrow> LegacyLoginPacket parser" and r
    by (rule pbind_Ok) (simp add: read_uint_def bind_full [of "[x2]" 1, simplified])
  have x3: "read_full 12 x3 = (Ok x3, [])" using read_full_append [OF assms(4), of "[]"] by simp
  have "15 \<le> length data" using assms(2-4) by (simp add: data_def)
  then show "map_option lg_ConnectionID (ParseV2LoginPacket data) = Some (get16 8 x3)"
    using assms(1)
    by (simp add: ParseV2LoginPacket_def data_def bind_le32 bind_string x1 bind_full [OF assms(3)]
        x2 bind_le16 login_tail_def x3 read_ok_def)
  have len: "unat (get16 4 data) = length password + 1"
  proof -
    have "get16 4 data = word_of_nat (length password + 1)"
      using get16_le16 [of "le32 port" "word_of_nat (length password + 1)"] by (simp add: data_def WriteLegacyString_def)
    then show ?thesis using assms(1) by (simp add: unat_of_nat take_bit_nat_eq_self del: of_nat_Suc of_nat_add)
  qed
  have head: "4 + 2 + (length password + 1) + 17 = length ?head + 4"
    using assms(2,3) by (simp add: WriteLegacyString_def)
  have split: "data = ?head @ x3" by (simp add: data_def)
  have "get16 (4 + 2 + (length password + 1) + 17) data = get16 4 x3"
    unfolding head split by (rule get16_append)
  moreover have "length data = length ?head + 12" unfolding split using assms(4) by simp
  ultimately show "loginSeqNum data = get16 4 x3"
    using head by (simp add: loginSeqNum_def Let_def len)
qed

end
