(* ===== verification/Spec2Isabelle.thy ===== *)
theory Spec2Isabelle
  imports CodecProperties Frames Feedbag Sessions SessionManager Chat BuddyPrefs Cookies Login MessageText Moods UserInfo StoreProperties MessagingProperties ServiceProperties AuthServer LegacyProperties
begin

text \<open>
  A verification library for Open OSCAR Server, a Go server for the AIM and ICQ protocols (the
  packages \<open>wire\<close>, \<open>state\<close> and \<open>foodgroup\<close> under \<open>src/\<close>, which every gateway of the server builds on, the
  OSCAR gateway \<open>server/oscar\<close> and the core of the gateway for legacy ICQ clients, \<open>server/icq_legacy\<close>).

  \<^bold>\<open>The program.\<close> Clients speak OSCAR: FLAP frames on a TCP connection carry SNAC messages, which are
  Go structs written and read by a reflective codec that is steered by struct tags. Attributes are
  TLV records. A login creates or joins the account's \<open>Session\<close>; each connection is a
  \<open>SessionInstance\<close> with a bounded queue of outgoing messages. Sessions are rate limited per class of
  message. A buddy list is a list of feedbag items with IDs and an order attribute per group. Legacy ICQ clients send
  single packets over UDP; the gateway keeps their sessions by UIN and by address and signs them on at the OSCAR services.

  \<^bold>\<open>The theories.\<close>
  \<^item> \<open>Prelude\<close>: outcomes (\<open>Ok\<close>, \<open>Err\<close>, \<open>Panic\<close>, \<open>Hang\<close>: a Go panic and a call that never returns are
    values), parsers and writers over byte lists, integers in both byte orders, the loops of the
    decoder, and the locale \<open>stream_codec\<close> for anything that can be written to and read from a stream.
  \<^item> \<open>Tags\<close> (\<open>wire/encode.go\<close>, \<open>parseOSCARTag\<close>): the struct tags.
  \<^item> \<open>Codec\<close> (\<open>wire/encode.go\<close>, \<open>wire/decode.go\<close>): \<open>marshal\<close> and \<open>unmarshal\<close> with all their branches.
    A Go type is a value of the datatype \<open>ty\<close>, a Go value one of \<open>val\<close>; reflection is case analysis on
    both.
  \<^item> \<open>CodecSafety\<close>, \<open>CodecRoundtrip\<close>: the decoder returns for every input (\<open>dec_safe\<close>), and it undoes
    the encoder (\<open>rt_kind\<close> for types, \<open>fits\<close> for values whose lengths fit their prefixes).
  \<^item> \<open>Messages\<close> (\<open>wire/snacs.go\<close>, \<open>wire/frames.go\<close>): the message structs, and \<open>CodecProperties\<close>: what the
    codec guarantees for each of them.
  \<^item> \<open>TLVs\<close> (\<open>wire/tlv.go\<close>): attribute lists, with the locale \<open>tagged_store\<close>.
  \<^item> \<open>Frames\<close> (\<open>wire/frames.go\<close>): \<open>FlapClient\<close> over a connection that can stop accepting bytes.
  \<^item> \<open>Strings\<close>: the Go string operations the code uses (UTF-8, letter classes, lower case, \<open>Atoi\<close>).
  \<^item> \<open>Users\<close> (\<open>wire/user.go\<close>, \<open>state/user.go\<close>, \<open>state/account.go\<close>): passwords, screen names, accounts.
  \<^item> \<open>RateLimit\<close> (\<open>wire/rate_limit.go\<close>): the table of classes and the moving average.
  \<^item> \<open>Sessions\<close> (\<open>state/session.go\<close>): connections, their life cycle as a step relation, queues, notify
    transactions, presence, rate limits and warnings.
  \<^item> \<open>Feedbag\<close> (\<open>state/feedbag_list.go\<close>): buddy lists as a store of items shared by index.

  \<^item> \<open>SessionManager\<close>, \<open>Chat\<close> (\<open>state/session_manager.go\<close>, \<open>state/chat.go\<close>): the registry of sessions and the chat
    rooms; sign-ons, sign-offs and teardowns are callers whose steps interleave. A session that is open can also be taken out
    of the registry, as the legacy gateway does. \<open>CloseSession\<close> runs the teardown callback in the goroutine that closes the
    last connection: in a sign-on this is a place of its own (\<open>Closing\<close>), and what the callback does there (go on, return,
    panic) is the choice of the step. Elsewhere the call is recorded as the event \<open>SessionClosed\<close> of the session; where a
    relay closes the last connection of a session, only that event is in the model, not what the callback then does.
  \<^item> \<open>ClientInfo\<close>, \<open>UserInfo\<close> (\<open>state/session.go\<close>): client data and the user info that others see.
  \<^item> \<open>BuddyPrefs\<close>, \<open>MessageText\<close>, \<open>Moods\<close> (\<open>wire/buddy_prefs.go\<close>, \<open>wire/snacs.go\<close>, \<open>wire/xtraz.go\<close>): preferences in
    bit masks, texts in messages, moods. \<open>Values\<close>: the values of the replies.
  \<^item> \<open>Cookies\<close>, \<open>Login\<close> (\<open>state/cookie.go\<close>, \<open>foodgroup/auth.go\<close>): signed cookies and the login.
  \<^item> \<open>Relationships\<close>, \<open>UserStore\<close>, \<open>StoreProperties\<close> (\<open>state/relationship.go\<close>, \<open>state/user_store.go\<close>): a table is
    the list of its rows, a statement a function on the tables; who blocks whom; the constraints that
    every statement keeps. \<open>list_keys_ok\<close> is what the schema enforces for the tables of the buddy lists; \<open>tables_ok\<close>, which
    properties about several users at once assume, adds that a user has one privacy item at most. Clients keep to that, the
    statements do not enforce it.
  \<^item> \<open>ConvoTracker\<close> (\<open>foodgroup/icbm.go\<close>): who wrote to whom, for warnings.
  \<^item> \<open>Services\<close>: what the services share, the record \<open>World\<close>, with calls that can fail (\<open>svc\<close>), and the
    locale \<open>relay_interface\<close> of anything that relays a message to a user. \<open>Presence\<close> (\<open>foodgroup/buddy.go\<close>,
    \<open>foodgroup/permit_deny.go\<close>), \<open>SelfInfo\<close> (\<open>foodgroup/oservice.go\<close>), \<open>Messaging\<close> (\<open>foodgroup/icbm.go\<close>) and
    \<open>FeedbagService\<close> (\<open>foodgroup/feedbag.go\<close>): the services. The messaging and the contact list service
    call each other; \<open>icbm_send\<close> ties the knot with fuel, and two rounds are enough for every message.
    \<open>MessagingProperties\<close>: who gets a message, and what becomes of one to a user who is offline.
  \<^item> \<open>ChatService\<close> (\<open>foodgroup/chat.go\<close>, \<open>foodgroup/chat_nav.go\<close>), \<open>OService\<close> (\<open>foodgroup/oservice.go\<close>),
    \<open>LocateService\<close> (\<open>foodgroup/locate.go\<close>, \<open>foodgroup/odir.go\<close>, \<open>foodgroup/bart.go\<close>), \<open>AdminService\<close>
    (\<open>foodgroup/admin.go\<close>) and \<open>ICQService\<close> (\<open>foodgroup/icq.go\<close>): the other services. \<open>GoText\<close>: trimming of
    white space.
  \<^item> \<open>OscarHandler\<close> (\<open>server/oscar/handler.go\<close>): one handler per request, each a function of the connection, the
    frame and the bytes that follow it, and their dispatch. \<open>OscarServer\<close> (\<open>server/oscar/server.go\<close>): a connection
    after the login as the step relation \<open>serve\<close>, relays that come after the sign-off included, and the teardown of a BOS
    session (\<open>bos_teardown\<close>), which runs when the rate limit closes a session. A request, its handler and its answers are
    one step. \<open>ServerProperties\<close>: what the client reads, whatever interleaves; requests nobody handles; requests over the limit.
    \<open>AuthServer\<close>: the same connection before that, the hello, the limit per address (\<open>admit\<close>, which makes every change to
    the limiter before the dialogue begins) and the login dialogue.
  \<^item> \<open>ServiceProperties\<close>: passwords, whispers, dice, and what a blocked user sees of a profile.
  \<^item> \<open>LegacyCrypt\<close>, \<open>LegacyPackets\<close> (\<open>server/icq_legacy/wire_legacy_crypt.go\<close>, \<open>wire_legacy.go\<close>): the scrambling of
    versions 3 to 5, the packets, their parsers and builders. \<open>LegacySessions\<close> (\<open>session.go\<close>, \<open>types.go\<close>): the session
    manager, its two indexes and the status words; the clean-up of idle sessions frees the lock between finding and removing
    them, so the removal is an operation of its own (\<open>Sweep\<close>) with the numbers found before, and the indexes agree unless a
    newcomer is among these (\<open>no_newcomer_swept\<close>; \<open>cleanup_drops_newcomer\<close> shows that then they do not).
    \<open>LegacyService\<close> (\<open>service.go\<close>): accounts, presence and messages over the OSCAR services, which are the fields of the
    record \<open>LegacyDeps\<close>; what comes back from them through the message bridge is outside the model. \<open>LegacyV2\<close> (\<open>v1_handler.go\<close>, \<open>v2_handler.go\<close>,
    \<open>handler.go\<close>, \<open>server.go\<close>): the handlers of versions 1 and 2 and the way of a packet to its handler.
    \<open>LegacyProperties\<close>: acknowledgements, scrambled packets, new numbers, and where presence and stored messages go wrong.
    Acknowledgements rest on one named hypothesis about the handlers of versions 3 to 5, that they take back no packet
    (\<open>newer_steady\<close>).
  \<^item> \<open>CodecTyping\<close>: decoded values have the type that was asked for.

  \<^bold>\<open>Conventions.\<close> Machine integers keep their width as words, \<open>int32\<close> arithmetic is on integers with
  the wrap-around written out. Pointers are indices into a list that stands for the heap. A method
  that runs under a mutex is one step. Parameters stand for what the code does not define: MD5, the
  Unicode tables, random numbers, the clock.

  \<^bold>\<open>Bounds.\<close> \<open>find_id\<close> runs with fuel 65535, the number of candidates the Go loop tries; instance
  numbers range over the 255 non-zero bytes; a message queue holds 1000 messages, the capacity of the
  channel; a new UIN is searched among the 999899999 numbers the Go loop can reach. The decoder's loops need no fuel: they terminate because every element consumes input,
  and a type for which this fails yields \<open>Hang\<close>.

  \<^bold>\<open>Not modelled.\<close> The database engine below the statements; in the legacy ICQ gateway the handlers and builders of
  versions 3 to 5, the bridge for messages from OSCAR clients, and what of the service only those handlers call; the text
  protocol and HTTP gateways (\<open>server/toc\<close>, \<open>server/webapi\<close>, \<open>server/http\<close>, \<open>server/kerberos\<close>), which call the
  same services; sockets and deadlines, logging, configuration and process start.
\<close>

end
